(* ===== verification/Prelude.thy ===== *)
theory Prelude
  imports Main "HOL-Library.Char_ord" "HOL-Library.List_Lexorder" "HOL-Library.AList"
    "HOL-Library.Sublist"
begin

text \<open>
  Shared material of the development: the collections of rewrite rules the component
  theories fill, generic facts on lists, options and association lists, and the model of
  the Go containers that every component uses.

  A Go \<open>map[K]V\<close> is an association list with distinct keys (\<open>('k \<times> 'v) list\<close>), written with
  \<^const>\<open>AList.update\<close> and read with \<^const>\<open>map_of\<close>.  Go iterates a map in an unspecified order;
  the model iterates in insertion order, and every theorem about the result of such an
  iteration is stated on its set, not on its order.  A Go set \<open>map[K]struct{}\<close> or
  \<open>map[K]bool\<close> that is only tested for membership is a list read with membership.
\<close>

named_theorems go_string_simps \<open>characteristic equations of the Go string operations\<close>
named_theorems gate_simps \<open>definitions a gate proof unfolds\<close>
named_theorems verdict_intros \<open>facts that establish a step verdict\<close>

type_synonym ('k, 'v) gomap = "('k \<times> 'v) list"

abbreviation map_set :: "'k \<Rightarrow> 'v \<Rightarrow> ('k, 'v) gomap \<Rightarrow> ('k, 'v) gomap" where
  "map_set \<equiv> AList.update"

abbreviation map_has :: "('k, 'v) gomap \<Rightarrow> 'k \<Rightarrow> bool" where
  "map_has m k \<equiv> map_of m k \<noteq> None"

text \<open>Reading a missing key of a Go map yields the zero value of the element type.\<close>

definition map_get :: "'v \<Rightarrow> ('k, 'v) gomap \<Rightarrow> 'k \<Rightarrow> 'v" where
  "map_get zero m k = (case map_of m k of None \<Rightarrow> zero | Some v \<Rightarrow> v)"

lemma map_get_set [simp]:
  "map_get z (map_set k v m) k' = (if k' = k then v else map_get z m k')"
  by (simp add: map_get_def update_conv')

lemma map_of_map_set [simp]: "map_of (map_set k v m) k' = (if k' = k then Some v else map_of m k')"
  by (simp add: update_conv')

lemma map_get_Nil [simp]: "map_get z [] k = z"
  by (simp add: map_get_def)

lemma distinct_map_set [simp]: "distinct (map fst m) \<Longrightarrow> distinct (map fst (map_set k v m))"
  by (rule distinct_update)

text \<open>Folding insertions keyed by a function: which keys the resulting map holds.\<close>

definition map_index :: "('a \<Rightarrow> 'k) \<Rightarrow> 'a list \<Rightarrow> ('k, 'a) gomap" where
  "map_index key xs = fold (\<lambda>x m. map_set (key x) x m) xs []"

lemma find_append:
  "find P (xs @ ys) = (case find P xs of Some x \<Rightarrow> Some x | None \<Rightarrow> find P ys)"
  by (induction xs) auto

lemma find_Some_mem: "find P xs = Some x \<Longrightarrow> x \<in> set xs \<and> P x"
  by (induction xs) (auto split: if_splits)

lemma find_SomeI: "x \<in> set xs \<Longrightarrow> P x \<Longrightarrow> \<exists>y. find P xs = Some y"
  by (induction xs) auto

lemma map_of_fold_map_set:
  "map_of (fold (\<lambda>x m. map_set (key x) x m) xs m0) k =
     (case find (\<lambda>x. key x = k) (rev xs) of Some x \<Rightarrow> Some x | None \<Rightarrow> map_of m0 k)"
  by (induction xs arbitrary: m0) (auto simp: find_append split: option.splits)

lemma map_index_has: "map_has (map_index key xs) k \<longleftrightarrow> (\<exists>x\<in>set xs. key x = k)"
proof (cases "find (\<lambda>x. key x = k) (rev xs)")
  case None
  then have "\<forall>x\<in>set xs. key x \<noteq> k" by (simp add: find_None_iff)
  with None show ?thesis by (simp add: map_index_def map_of_fold_map_set)
next
  case (Some x)
  then have "x \<in> set xs \<and> key x = k" by (auto dest: find_Some_mem)
  with Some show ?thesis by (auto simp: map_index_def map_of_fold_map_set)
qed

lemma map_index_Some:
  assumes "map_of (map_index key xs) k = Some x"
  shows "x \<in> set xs \<and> key x = k"
proof -
  from assms have "find (\<lambda>y. key y = k) (rev xs) = Some x"
    by (simp add: map_index_def map_of_fold_map_set split: option.splits)
  then show ?thesis by (auto dest: find_Some_mem)
qed

lemma distinct_map_index: "distinct (map fst (map_index key xs))"
proof -
  have "distinct (map fst (fold (\<lambda>x m. map_set (key x) x m) xs m0))"
    if "distinct (map fst m0)" for m0
    using that by (induction xs arbitrary: m0) auto
  then show ?thesis by (simp add: map_index_def)
qed

lemma set_map_index: "(k, x) \<in> set (map_index key xs) \<longleftrightarrow> map_of (map_index key xs) k = Some x"
  by (rule map_of_eq_Some_iff [OF distinct_map_index, symmetric])

lemma snd_map_index_subset: "snd ` set (map_index key xs) \<subseteq> set xs"
  by (auto simp: set_map_index dest!: map_index_Some)

text \<open>The keys of a Go set in the order \<open>sort.Strings\<close> gives them.\<close>

definition sorted_set :: "('a::linorder) list \<Rightarrow> 'a list" where
  "sorted_set xs = sort (remdups xs)"

lemma set_sorted_set [simp]: "set (sorted_set xs) = set xs"
  by (simp add: sorted_set_def)

lemma sorted_sorted_set [simp]: "sorted (sorted_set xs)"
  by (simp add: sorted_set_def)

lemma distinct_sorted_set [simp]: "distinct (sorted_set xs)"
  by (simp add: sorted_set_def)

lemma sorted_set_cong: "set xs = set ys \<Longrightarrow> sorted_set xs = sorted_set ys"
  unfolding sorted_set_def
  by (rule sorted_distinct_set_unique) simp_all

lemma sorted_set_Nil_iff [simp]: "sorted_set xs = [] \<longleftrightarrow> xs = []"
  by (metis set_empty set_sorted_set)

lemma filter_eq_length_iff: "length (filter P xs) < length xs \<longleftrightarrow> (\<exists>x\<in>set xs. \<not> P x)"
  by (metis filter_True length_filter_less less_irrefl)

text \<open>A walk that visits its entries in order and stops at the first error: the results of the
  entries before it are discarded with it.\<close>

fun concat_results :: "('e + 'a list) list \<Rightarrow> 'e + 'a list" where
  "concat_results [] = Inr []"
| "concat_results (Inl e # rs) = Inl e"
| "concat_results (Inr xs # rs) = (case concat_results rs of Inl e \<Rightarrow> Inl e | Inr ys \<Rightarrow> Inr (xs @ ys))"

lemma concat_results_Inr: "concat_results rs = Inr ys \<longleftrightarrow> (\<exists>xss. rs = map Inr xss \<and> ys = concat xss)"
proof
  show "\<exists>xss. rs = map Inr xss \<and> ys = concat xss" if "concat_results rs = Inr ys"
    using that
  proof (induction rs arbitrary: ys rule: concat_results.induct)
    case (3 xs rs)
    then obtain zs where zs: "concat_results rs = Inr zs" "ys = xs @ zs" by (auto split: sum.splits)
    with 3 obtain xss where "rs = map Inr xss" "zs = concat xss" by blast
    with zs have "Inr xs # rs = map Inr (xs # xss)" "ys = concat (xs # xss)" by simp_all
    then show ?case by (intro exI [of _ "xs # xss"] conjI)
  qed simp_all
  have "concat_results (map Inr xss) = Inr (concat xss)" for xss :: "'b list list"
    by (induction xss) simp_all
  then show "concat_results rs = Inr ys" if "\<exists>xss. rs = map Inr xss \<and> ys = concat xss"
    using that by auto
qed

lemma concat_results_map:
  assumes "\<And>c es. c \<in> set cs \<Longrightarrow> h c = Inr es \<longleftrightarrow> P c \<and> es = g c"
  shows "concat_results (map h cs) = Inr es \<longleftrightarrow> (\<forall>c\<in>set cs. P c) \<and> es = concat (map g cs)"
  using assms
proof (induction cs arbitrary: es)
  case (Cons c cs)
  show ?case
  proof (cases "h c")
    case (Inl e)
    with Cons.prems [of c "g c"] have "\<not> P c" by simp
    with Inl show ?thesis by simp
  next
    case (Inr xs)
    with Cons.prems [of c xs] have "P c" "xs = g c" by simp_all
    moreover have "concat_results (map h cs) = Inr zs \<longleftrightarrow> (\<forall>c\<in>set cs. P c) \<and> zs = concat (map g cs)" for zs
      using Cons by simp
    ultimately show ?thesis using Inr
      by (cases "concat_results (map h cs)") (simp, blast, auto)
  qed
qed auto

end
