(* ===== verification/Checks.thy ===== *)
theory Checks
  imports Prelude
begin

text \<open>
  Checks in sequence: the shape every validator of the sources has that returns at the first
  failing check, and the facts the components share about it.
\<close>

text \<open>A sequence of checks that stops at the first that fails; None is the nil error.\<close>

fun first_failure :: "'e option list \<Rightarrow> 'e option" where
  "first_failure [] = None"
| "first_failure (None # rs) = first_failure rs"
| "first_failure (Some e # rs) = Some e"

lemma first_failure_None: "first_failure rs = None \<longleftrightarrow> list_all (\<lambda>r. r = None) rs"
  by (induction rs rule: first_failure.induct) auto

lemma first_failure_map_None: "first_failure (map f xs) = None \<longleftrightarrow> list_all (\<lambda>x. f x = None) xs"
  by (simp add: first_failure_None list.pred_map comp_def)

definition wrap_failure :: "string \<Rightarrow> string option \<Rightarrow> string option" where
  "wrap_failure what r = map_option (\<lambda>e. what @ e) r"

lemma wrap_failure_None [simp]: "wrap_failure what r = None \<longleftrightarrow> r = None"
  by (simp add: wrap_failure_def)

definition fail_if :: "bool \<Rightarrow> string \<Rightarrow> string option" where
  "fail_if c e = (if c then Some e else None)"

lemma fail_if_None [simp]: "fail_if c e = None \<longleftrightarrow> \<not> c"
  by (simp add: fail_if_def)

text \<open>A map over a list that stops at the first error.\<close>

fun map_results :: "('a \<Rightarrow> 'e + 'b) \<Rightarrow> 'a list \<Rightarrow> 'e + 'b list" where
  "map_results f [] = Inr []"
| "map_results f (x # xs) =
     (case f x of
        Inl e \<Rightarrow> Inl e
      | Inr y \<Rightarrow> (case map_results f xs of Inl e \<Rightarrow> Inl e | Inr ys \<Rightarrow> Inr (y # ys)))"

lemma map_results_Inr: "map_results f xs = Inr ys \<longleftrightarrow> map f xs = map Inr ys"
proof (induction xs arbitrary: ys)
  case (Cons x xs)
  show ?case
  proof (cases ys)
    case (Cons z zs)
    then show ?thesis using Cons.IH [of zs] by (cases "f x"; cases "map_results f xs") auto
  qed (auto split: sum.splits)
qed auto

lemma map_results_mem: "map_results f xs = Inr ys \<Longrightarrow> y \<in> set ys \<Longrightarrow> \<exists>x\<in>set xs. f x = Inr y"
  by (metis (mono_tags, lifting) image_iff image_set map_results_Inr)

end
