(* ===== verification/Go_Strings.thy ===== *)
theory Go_Strings
  imports Prelude
begin

text \<open>
  The part of Go's \<open>strings\<close>, \<open>strconv\<close> and \<open>fmt\<close> packages the program uses.  A Go string is
  its bytes: a \<^typ>\<open>string\<close> of HOL, whose characters are the bytes 0 to 255.  White space is
  Unicode white space as \<open>unicode.IsSpace\<close> has it; on bytes, a rune is white space where one of
  its UTF-8 encodings stands, and since every encoding starts with a byte that is never a
  continuation byte, testing for a prefix (or a suffix) of the bytes is exact, also on
  ill-formed UTF-8.
\<close>

definition byte :: "nat \<Rightarrow> char" where
  "byte n = char_of n"

definition space_encodings :: "string list" where
  "space_encodings =
     [[byte 9], [byte 10], [byte 11], [byte 12], [byte 13], [byte 32],
      [byte 194, byte 133], [byte 194, byte 160], [byte 225, byte 154, byte 128]]
     @ map (\<lambda>k. [byte 226, byte 128, byte (128 + k)]) [0..<11]
     @ [[byte 226, byte 128, byte 168], [byte 226, byte 128, byte 169],
        [byte 226, byte 128, byte 175], [byte 226, byte 129, byte 159],
        [byte 227, byte 128, byte 128]]"

text \<open>The length of the white-space rune a string starts with, 0 when it starts with none.\<close>

definition space_prefix :: "string \<Rightarrow> nat" where
  "space_prefix s = (case find (\<lambda>e. prefix e s) space_encodings of None \<Rightarrow> 0 | Some e \<Rightarrow> length e)"

definition space_suffix :: "string \<Rightarrow> nat" where
  "space_suffix s = (case find (\<lambda>e. suffix e s) space_encodings of None \<Rightarrow> 0 | Some e \<Rightarrow> length e)"

lemma space_encodings_code [code]:
  "space_encodings =
     [[CHR 0x09], [CHR 0x0A], [CHR 0x0B], [CHR 0x0C], [CHR 0x0D], [CHR 0x20], [CHR 0xC2, CHR
      0x85], [CHR 0xC2, CHR 0xA0], [CHR 0xE1, CHR 0x9A, CHR 0x80], [CHR 0xE2, CHR 0x80, CHR
      0x80], [CHR 0xE2, CHR 0x80, CHR 0x81], [CHR 0xE2, CHR 0x80, CHR 0x82], [CHR 0xE2, CHR
      0x80, CHR 0x83], [CHR 0xE2, CHR 0x80, CHR 0x84], [CHR 0xE2, CHR 0x80, CHR 0x85], [CHR
      0xE2, CHR 0x80, CHR 0x86], [CHR 0xE2, CHR 0x80, CHR 0x87], [CHR 0xE2, CHR 0x80, CHR 0x88],
      [CHR 0xE2, CHR 0x80, CHR 0x89], [CHR 0xE2, CHR 0x80, CHR 0x8A], [CHR 0xE2, CHR 0x80, CHR
      0xA8], [CHR 0xE2, CHR 0x80, CHR 0xA9], [CHR 0xE2, CHR 0x80, CHR 0xAF], [CHR 0xE2, CHR
      0x81, CHR 0x9F], [CHR 0xE3, CHR 0x80, CHR 0x80]]"
  by (simp add: space_encodings_def byte_def char_of_def upt_rec bit_0)

lemma space_encodings_nonempty: "e \<in> set space_encodings \<Longrightarrow> e \<noteq> []"
  by (auto simp: space_encodings_def)

function trim_left :: "string \<Rightarrow> string" where
  "trim_left s =
     (if s = [] \<or> space_prefix s = 0 then s else trim_left (drop (space_prefix s) s))"
  by pat_completeness auto
termination
  by (relation "measure length") auto

function trim_right :: "string \<Rightarrow> string" where
  "trim_right s =
     (if s = [] \<or> space_suffix s = 0 then s
      else trim_right (take (length s - space_suffix s) s))"
  by pat_completeness auto
termination
  by (relation "measure length") auto

declare trim_left.simps [simp del] trim_right.simps [simp del]

text \<open>\<open>strings.TrimSpace\<close>.\<close>

definition TrimSpace :: "string \<Rightarrow> string" where
  "TrimSpace s = trim_right (trim_left s)"

text \<open>\<open>strings.Fields\<close>: the maximal runs of bytes outside white-space runes.\<close>

function fields_from :: "string \<Rightarrow> string \<Rightarrow> string list" where
  "fields_from acc s =
     (if s = [] then (if acc = [] then [] else [acc])
      else if space_prefix s = 0 then fields_from (acc @ [hd s]) (tl s)
      else (if acc = [] then [] else [acc]) @ fields_from [] (drop (space_prefix s) s))"
  by pat_completeness auto
termination
  by (relation "measure (\<lambda>(acc, s). length s)") auto

declare fields_from.simps [simp del]

definition Fields :: "string \<Rightarrow> string list" where
  "Fields s = fields_from [] s"

text \<open>\<open>strings.Index\<close> (with None for -1), \<open>strings.Contains\<close>, \<open>strings.Split\<close> on a one-byte
  separator, \<open>strings.Join\<close>.\<close>

primrec Index :: "string \<Rightarrow> string \<Rightarrow> nat option" where
  "Index [] sub = (if sub = [] then Some 0 else None)"
| "Index (c # s) sub = (if prefix sub (c # s) then Some 0 else map_option Suc (Index s sub))"

definition Contains :: "string \<Rightarrow> string \<Rightarrow> bool" where
  "Contains s sub \<longleftrightarrow> Index s sub \<noteq> None"

primrec Split :: "string \<Rightarrow> char \<Rightarrow> string list" where
  "Split [] d = [[]]"
| "Split (c # s) d =
     (if c = d then [] # Split s d
      else (case Split s d of [] \<Rightarrow> [[c]] | w # ws \<Rightarrow> (c # w) # ws))"

fun Join :: "string list \<Rightarrow> string \<Rightarrow> string" where
  "Join [] sep = []"
| "Join [x] sep = x"
| "Join (x # y # xs) sep = x @ sep @ Join (y # xs) sep"

abbreviation HasPrefix :: "string \<Rightarrow> string \<Rightarrow> bool" where
  "HasPrefix s p \<equiv> prefix p s"

abbreviation HasSuffix :: "string \<Rightarrow> string \<Rightarrow> bool" where
  "HasSuffix s p \<equiv> suffix p s"

definition TrimPrefix :: "string \<Rightarrow> string \<Rightarrow> string" where
  "TrimPrefix s p = (if HasPrefix s p then drop (length p) s else s)"

definition TrimSuffix :: "string \<Rightarrow> string \<Rightarrow> string" where
  "TrimSuffix s p = (if HasSuffix s p then take (length s - length p) s else s)"

text \<open>\<open>strings.Cut\<close> at the first one-byte separator: None when it does not occur.\<close>

primrec Cut :: "string \<Rightarrow> char \<Rightarrow> (string \<times> string) option" where
  "Cut [] d = None"
| "Cut (c # s) d = (if c = d then Some ([], s) else map_option (\<lambda>(a, b). (c # a, b)) (Cut s d))"

text \<open>\<open>%-25s\<close> and its like on ASCII text.\<close>

definition pad_right :: "nat \<Rightarrow> string \<Rightarrow> string" where
  "pad_right w s = s @ replicate (w - length s) (CHR '' '')"

text \<open>\<open>strings.Trim(s, cutset)\<close> for a one-byte cutset.\<close>

definition Trim :: "string \<Rightarrow> char \<Rightarrow> string" where
  "Trim s c = rev (dropWhile (\<lambda>x. x = c) (rev (dropWhile (\<lambda>x. x = c) s)))"

text \<open>ASCII case folding.  \<open>strings.EqualFold(s, "warning")\<close> is exact on it: no rune outside
  ASCII folds to a letter of that word.\<close>

definition lower_byte :: "char \<Rightarrow> char" where
  "lower_byte c = (if 65 \<le> (of_char c :: nat) \<and> (of_char c :: nat) \<le> 90
                   then char_of ((of_char c :: nat) + 32) else c)"

definition ToLower :: "string \<Rightarrow> string" where
  "ToLower s = map lower_byte s"

definition EqualFold :: "string \<Rightarrow> string \<Rightarrow> bool" where
  "EqualFold s t \<longleftrightarrow> ToLower s = ToLower t"

definition is_digit :: "char \<Rightarrow> bool" where
  "is_digit c \<longleftrightarrow> 48 \<le> (of_char c :: nat) \<and> (of_char c :: nat) \<le> 57"

definition digit_val :: "char \<Rightarrow> nat" where
  "digit_val c = of_char c - 48"

definition digit_char :: "nat \<Rightarrow> char" where
  "digit_char n = char_of (48 + n mod 10)"

text \<open>Decimal rendering (\<open>strconv.Itoa\<close>, \<open>%d\<close>).\<close>

fun show_nat :: "nat \<Rightarrow> string" where
  "show_nat n = (if n < 10 then [digit_char n] else show_nat (n div 10) @ [digit_char n])"

declare show_nat.simps [simp del]

definition Itoa :: "int \<Rightarrow> string" where
  "Itoa i = (if i < 0 then CHR ''-'' # show_nat (nat (- i)) else show_nat (nat i))"

text \<open>Reading decimal digits back.\<close>

definition read_nat :: "string \<Rightarrow> nat" where
  "read_nat s = foldl (\<lambda>n c. 10 * n + digit_val c) 0 s"


subsection \<open>Trimming\<close>

text \<open>A printable ASCII byte other than the space is in no white-space encoding.\<close>

definition plain :: "char \<Rightarrow> bool" where
  "plain c \<longleftrightarrow> 33 \<le> (of_char c :: nat) \<and> (of_char c :: nat) \<le> 126"

lemma space_encodings_not_plain: "e \<in> set space_encodings \<Longrightarrow> c \<in> set e \<Longrightarrow> \<not> plain c"
  by (auto simp: space_encodings_def byte_def plain_def)

lemma find_eq_NoneI: "(\<And>x. x \<in> set xs \<Longrightarrow> \<not> P x) \<Longrightarrow> find P xs = None"
  by (auto simp: find_None_iff)

lemma prefix_hd: "prefix e s \<Longrightarrow> e \<noteq> [] \<Longrightarrow> s \<noteq> [] \<and> hd s \<in> set e"
  by (cases e; cases s) auto

lemma suffix_last: "suffix e s \<Longrightarrow> e \<noteq> [] \<Longrightarrow> s \<noteq> [] \<and> last s \<in> set e"
  by (auto simp: suffix_def)

lemma space_prefix_plain: "s \<noteq> [] \<Longrightarrow> plain (hd s) \<Longrightarrow> space_prefix s = 0"
  unfolding space_prefix_def
  using find_eq_NoneI [of space_encodings "\<lambda>e. prefix e s"]
    space_encodings_nonempty space_encodings_not_plain prefix_hd
  by (metis option.simps(4))

lemma space_suffix_plain: "s \<noteq> [] \<Longrightarrow> plain (last s) \<Longrightarrow> space_suffix s = 0"
  unfolding space_suffix_def
  using find_eq_NoneI [of space_encodings "\<lambda>e. suffix e s"]
    space_encodings_nonempty space_encodings_not_plain suffix_last
  by (metis option.simps(4))

lemma TrimSpace_plain:
  "s \<noteq> [] \<Longrightarrow> plain (hd s) \<Longrightarrow> plain (last s) \<Longrightarrow> TrimSpace s = s"
  by (simp add: TrimSpace_def trim_left.simps [of s] trim_right.simps [of s]
        space_prefix_plain space_suffix_plain)

lemma space_prefix_take:
  assumes "space_prefix s \<noteq> 0"
  shows "\<exists>e\<in>set space_encodings. s = e @ drop (space_prefix s) s"
proof -
  obtain e where e: "find (\<lambda>e. prefix e s) space_encodings = Some e" "space_prefix s = length e"
    using assms by (auto simp: space_prefix_def split: option.splits)
  then have "e \<in> set space_encodings" "prefix e s" by (auto dest: find_Some_mem)
  with e(2) show ?thesis by (auto simp: prefix_def)
qed

lemma space_suffix_drop:
  assumes "space_suffix s \<noteq> 0"
  shows "\<exists>e\<in>set space_encodings. s = take (length s - space_suffix s) s @ e"
proof -
  obtain e where e: "find (\<lambda>e. suffix e s) space_encodings = Some e" "space_suffix s = length e"
    using assms by (auto simp: space_suffix_def split: option.splits)
  then have "e \<in> set space_encodings" "suffix e s" by (auto dest: find_Some_mem)
  with e(2) show ?thesis by (auto simp: suffix_def)
qed

lemma trim_left_plain: "c \<in> set s \<Longrightarrow> plain c \<Longrightarrow> c \<in> set (trim_left s)"
proof (induction s rule: trim_left.induct)
  case (1 s)
  show ?case
  proof (cases "s = [] \<or> space_prefix s = 0")
    case False
    then obtain e where e: "e \<in> set space_encodings" "s = e @ drop (space_prefix s) s"
      using space_prefix_take by blast
    from e(1) "1.prems"(2) have "c \<notin> set e" using space_encodings_not_plain by blast
    with e(2) "1.prems"(1) have "c \<in> set (drop (space_prefix s) s)" by (metis UnE set_append)
    with "1.IH" [OF False _ "1.prems"(2)] False show ?thesis by (simp add: trim_left.simps [of s])
  qed (use 1 in \<open>auto simp: trim_left.simps [of s]\<close>)
qed

lemma trim_right_plain: "c \<in> set s \<Longrightarrow> plain c \<Longrightarrow> c \<in> set (trim_right s)"
proof (induction s rule: trim_right.induct)
  case (1 s)
  show ?case
  proof (cases "s = [] \<or> space_suffix s = 0")
    case False
    then obtain e where e: "e \<in> set space_encodings" "s = take (length s - space_suffix s) s @ e"
      using space_suffix_drop by blast
    from e(1) "1.prems"(2) have "c \<notin> set e" using space_encodings_not_plain by blast
    with e(2) "1.prems"(1) have "c \<in> set (take (length s - space_suffix s) s)" by (metis UnE set_append)
    with "1.IH" [OF False _ "1.prems"(2)] False show ?thesis by (simp add: trim_right.simps [of s])
  qed (use 1 in \<open>auto simp: trim_right.simps [of s]\<close>)
qed

lemma TrimSpace_has_plain: "c \<in> set s \<Longrightarrow> plain c \<Longrightarrow> TrimSpace s \<noteq> []"
  using trim_right_plain [OF trim_left_plain] by (fastforce simp: TrimSpace_def)

lemma TrimSpace_Nil [simp]: "TrimSpace [] = []"
  by (simp add: TrimSpace_def trim_left.simps trim_right.simps)

lemma space_prefix_eq_0_iff:
  "space_prefix s = 0 \<longleftrightarrow> (\<forall>e\<in>set space_encodings. \<not> prefix e s)"
  unfolding space_prefix_def
  by (auto simp: find_None_iff split: option.splits dest!: find_Some_mem
        dest: space_encodings_nonempty)

lemma space_suffix_eq_0_iff:
  "space_suffix s = 0 \<longleftrightarrow> (\<forall>e\<in>set space_encodings. \<not> suffix e s)"
  unfolding space_suffix_def
  by (auto simp: find_None_iff split: option.splits dest!: find_Some_mem
        dest: space_encodings_nonempty)

lemma space_prefix_trim_left: "space_prefix (trim_left s) = 0"
proof (induction s rule: trim_left.induct)
  case (1 s)
  show ?case
  proof (cases "s = [] \<or> space_prefix s = 0")
    case True
    then show ?thesis
      by (auto simp: trim_left.simps [of s] space_prefix_eq_0_iff dest: space_encodings_nonempty)
  next
    case False
    with 1 show ?thesis by (simp add: trim_left.simps [of s])
  qed
qed

lemma space_suffix_trim_right: "space_suffix (trim_right s) = 0"
proof (induction s rule: trim_right.induct)
  case (1 s)
  show ?case
  proof (cases "s = [] \<or> space_suffix s = 0")
    case True
    then show ?thesis
      by (auto simp: trim_right.simps [of s] space_suffix_eq_0_iff dest: space_encodings_nonempty)
  next
    case False
    with 1 show ?thesis by (simp add: trim_right.simps [of s])
  qed
qed

lemma trim_right_prefix: "prefix (trim_right s) s"
proof (induction s rule: trim_right.induct)
  case (1 s)
  show ?case
    using 1 take_is_prefix [of "length s - space_suffix s" s]
    by (auto simp: trim_right.simps [of s] intro: prefix_order.trans)
qed

lemma trim_left_id: "space_prefix s = 0 \<Longrightarrow> trim_left s = s"
  by (simp add: trim_left.simps [of s])

lemma trim_right_id: "space_suffix s = 0 \<Longrightarrow> trim_right s = s"
  by (simp add: trim_right.simps [of s])

lemma TrimSpace_idem [simp]: "TrimSpace (TrimSpace s) = TrimSpace s"
proof -
  have "space_prefix (trim_right (trim_left s)) = 0"
    using space_prefix_trim_left [of s] trim_right_prefix [of "trim_left s"]
    unfolding space_prefix_eq_0_iff by (meson prefix_order.trans)
  then show ?thesis
    by (simp add: TrimSpace_def trim_left_id trim_right_id space_suffix_trim_right)
qed

subsection \<open>Searching, splitting and joining\<close>

lemma Index_SomeD:
  "Index s sub = Some i \<Longrightarrow> prefix sub (drop i s) \<and> i + length sub \<le> length s"
proof (induction s arbitrary: i)
  case Nil
  then show ?case by (simp split: if_splits)
next
  case (Cons c s)
  show ?case
  proof (cases "prefix sub (c # s)")
    case True
    with Cons.prems show ?thesis using prefix_length_le [OF True] by simp
  next
    case False
    with Cons.prems obtain j where "Index s sub = Some j" "i = Suc j" by auto
    with Cons.IH show ?thesis by auto
  qed
qed

lemma Index_least: "Index s sub = Some i \<Longrightarrow> j < i \<Longrightarrow> \<not> prefix sub (drop j s)"
proof (induction s arbitrary: i j)
  case Nil
  then show ?case by (simp split: if_splits)
next
  case (Cons c s)
  then show ?case by (cases j) (auto split: if_splits)
qed

lemma Index_None_iff: "Index s sub = None \<longleftrightarrow> (\<forall>j\<le>length s. \<not> prefix sub (drop j s))"
proof (induction s)
  case Nil
  then show ?case by simp
next
  case (Cons c s)
  have "(\<forall>j\<le>length (c # s). \<not> prefix sub (drop j (c # s))) \<longleftrightarrow>
    \<not> prefix sub (c # s) \<and> (\<forall>j\<le>length s. \<not> prefix sub (drop j s))"
    by (metis Suc_le_mono drop0 drop_Suc_Cons le0 length_Cons not0_implies_Suc)
  with Cons show ?case by simp
qed

lemma Index_append_here: "Index (sub @ s) sub = Some 0"
  using prefixI [of "sub @ s" sub s] by (cases "sub @ s") auto

lemma Split_not_Nil [simp]: "Split s d \<noteq> []"
  by (induction s) (auto split: list.splits)

lemma Split_noSep: "d \<notin> set s \<Longrightarrow> Split s d = [s]"
  by (induction s) auto

lemma Split_append: "d \<notin> set a \<Longrightarrow> Split (a @ d # b) d = a # Split b d"
  by (induction a) auto

lemma Join_Cons: "xs \<noteq> [] \<Longrightarrow> Join (x # xs) sep = x @ sep @ Join xs sep"
  by (cases xs) auto

lemma Join_Split: "Join (Split s d) [d] = s"
proof (induction s)
  case Nil
  then show ?case by simp
next
  case (Cons c s)
  obtain w ws where w: "Split s d = w # ws" by (cases "Split s d") auto
  with Cons show ?case by (cases ws) auto
qed

lemma Split_Join:
  "xs \<noteq> [] \<Longrightarrow> \<forall>x\<in>set xs. d \<notin> set x \<Longrightarrow> Split (Join xs [d]) d = xs"
  by (induction xs "[d]" rule: Join.induct) (auto simp: Split_noSep Split_append)

lemma Split_no_sep_in: "w \<in> set (Split s d) \<Longrightarrow> d \<notin> set w"
  by (induction s arbitrary: w) (auto split: list.splits if_splits)

subsection \<open>Decimals\<close>

lemma is_digit_digit_char [simp]: "is_digit (digit_char n)"
  using mod_less_divisor [of 10 n]
  by (simp add: is_digit_def digit_char_def del: mod_less_divisor)

lemma digit_val_digit_char [simp]: "digit_val (digit_char n) = n mod 10"
  by (simp add: digit_val_def digit_char_def)

lemma show_nat_digits: "c \<in> set (show_nat n) \<Longrightarrow> is_digit c"
  by (induction n rule: show_nat.induct) (subst (asm) show_nat.simps, auto split: if_splits)

lemma show_nat_not_Nil [simp]: "show_nat n \<noteq> []"
  by (subst show_nat.simps) simp

lemma read_nat_snoc: "read_nat (s @ [c]) = 10 * read_nat s + digit_val c"
  by (simp add: read_nat_def)

lemma read_show_nat [simp]: "read_nat (show_nat n) = n"
proof (induction n rule: show_nat.induct)
  case (1 n)
  show ?case
  proof (cases "n < 10")
    case True
    then show ?thesis by (simp add: show_nat.simps [of n] read_nat_def)
  next
    case False
    with 1 show ?thesis
      by (simp add: show_nat.simps [of n] read_nat_snoc mult.commute)
  qed
qed

lemma show_nat_inj: "show_nat m = show_nat n \<longleftrightarrow> m = n"
  by (metis read_show_nat)

lemma digit_not_minus: "is_digit c \<Longrightarrow> c \<noteq> CHR ''-''"
  by (auto simp: is_digit_def)

lemma Itoa_inj: "Itoa i = Itoa j \<longleftrightarrow> i = j"
proof
  assume eq: "Itoa i = Itoa j"
  have hd: "hd (show_nat n) \<noteq> CHR ''-''" for n
    using show_nat_digits [of "hd (show_nat n)" n] digit_not_minus by auto
  show "i = j"
  proof (cases "i < 0")
    case True
    with eq hd have "j < 0" unfolding Itoa_def by (metis list.sel(1))
    with True eq show ?thesis by (simp add: Itoa_def show_nat_inj)
  next
    case False
    with eq hd have "\<not> j < 0" unfolding Itoa_def by (metis list.sel(1))
    with False eq show ?thesis by (simp add: Itoa_def show_nat_inj)
  qed
qed simp

lemma digit_plain: "is_digit c \<Longrightarrow> plain c"
  by (auto simp: is_digit_def plain_def)

text \<open>\<open>%q\<close>: double quotes around the text, with the escapes of \<open>strconv.Quote\<close> for ASCII; a byte
  outside ASCII belongs to a printable rune and is kept.\<close>

definition quote_byte :: "char \<Rightarrow> string" where
  "quote_byte c =
     (if c = CHR 0x22 then [CHR 0x5C, CHR 0x22] else if c = CHR 0x5C then [CHR 0x5C, CHR 0x5C]
      else if c = CHR 0x07 then [CHR 0x5C, CHR ''a''] else if c = CHR 0x08 then [CHR 0x5C, CHR ''b'']
      else if c = CHR 0x0C then [CHR 0x5C, CHR ''f''] else if c = CHR 0x0A then [CHR 0x5C, CHR ''n'']
      else if c = CHR 0x0D then [CHR 0x5C, CHR ''r''] else if c = CHR 0x09 then [CHR 0x5C, CHR ''t'']
      else if c = CHR 0x0B then [CHR 0x5C, CHR ''v'']
      else if (of_char c :: nat) < 32 \<or> (of_char c :: nat) = 127 then
        (let h = (\<lambda>n. char_of (if n < 10 then 48 + n else 87 + n :: nat))
         in [CHR 0x5C, CHR ''x'', h ((of_char c :: nat) div 16), h ((of_char c :: nat) mod 16)])
      else [c])"

definition quote :: "string \<Rightarrow> string" where
  "quote s = [CHR 0x22] @ concat (map quote_byte s) @ [CHR 0x22]"

subsection \<open>Numbers and bounded splits\<close>

text \<open>\<open>strings.SplitN(s, sep, n)\<close> for a one-byte separator and a positive \<open>n\<close>: at most \<open>n\<close> pieces,
  the last one holding the rest.\<close>

fun SplitN :: "string \<Rightarrow> char \<Rightarrow> nat \<Rightarrow> string list" where
  "SplitN s d 0 = []"
| "SplitN s d (Suc 0) = [s]"
| "SplitN s d (Suc (Suc n)) =
     (if d \<in> set s then takeWhile (\<lambda>c. c \<noteq> d) s # SplitN (tl (dropWhile (\<lambda>c. c \<noteq> d) s)) d (Suc n) else [s])"

definition all_digits :: "string \<Rightarrow> bool" where
  "all_digits s \<longleftrightarrow> s \<noteq> [] \<and> list_all is_digit s"

text \<open>\<open>strconv.Atoi\<close>: an optional sign and decimal digits, within 64 bits; None is the error.\<close>

definition Atoi :: "string \<Rightarrow> int option" where
  "Atoi s =
     (case s of
        [] \<Rightarrow> None
      | c # cs \<Rightarrow>
          let neg = (c = CHR ''-''); ds = (if neg \<or> c = CHR ''+'' then cs else s); n = int (read_nat ds)
          in if \<not> all_digits ds then None
             else if neg then (if n \<le> 2 ^ 63 then Some (- n) else None)
             else if n < 2 ^ 63 then Some n else None)"

lemma all_digits_show_nat [simp]: "all_digits (show_nat n)"
  by (auto simp: all_digits_def list_all_iff dest: show_nat_digits)

lemma all_digits_no_char: "all_digits s \<Longrightarrow> \<not> is_digit d \<Longrightarrow> d \<notin> set s"
  by (auto simp: all_digits_def list_all_iff)

lemma Atoi_digits:
  assumes "all_digits s"
  shows "Atoi s = (if int (read_nat s) < 2 ^ 63 then Some (int (read_nat s)) else None)"
proof -
  from assms obtain c cs where s: "s = c # cs" and "is_digit c" by (cases s) (auto simp: all_digits_def)
  then have "c \<noteq> CHR ''-''" "c \<noteq> CHR ''+''" by (auto simp: is_digit_def)
  with s assms show ?thesis by (simp add: Atoi_def)
qed

lemma Split_version:
  "Split (show_nat a @ ''.'' @ show_nat b @ ''.'' @ show_nat c) (CHR ''.'') = [show_nat a, show_nat b, show_nat c]"
proof -
  have "CHR ''.'' \<notin> set (show_nat n)" for n using show_nat_digits [of "CHR ''.''" n] by (auto simp: is_digit_def)
  then show ?thesis by (simp add: Split_append Split_noSep)
qed

end
