(* ===== verification/Go_Path.thy ===== *)
theory Go_Path
  imports Go_Strings
begin

text \<open>
  Go's \<open>path/filepath\<close> on Unix, where the separator is the slash and \<open>ToSlash\<close> and \<open>FromSlash\<close>
  are the identity.  \<open>Clean\<close> is written on the list of path elements: empty and \<open>.\<close> elements
  vanish, \<open>..\<close> removes the element before it, stays where there is none in a relative path,
  and vanishes at the root.  \<open>Rel\<close> is the lexical algorithm of the library on cleaned paths.
\<close>

abbreviation slash :: char where
  "slash \<equiv> CHR ''/''"

abbreviation dot :: string where
  "dot \<equiv> ''.''"

abbreviation dotdot :: string where
  "dotdot \<equiv> ''..''"

definition IsAbs :: "string \<Rightarrow> bool" where
  "IsAbs p \<longleftrightarrow> HasPrefix p ''/''"

text \<open>One pass over the elements; the accumulator holds the cleaned elements in reverse.\<close>

fun clean_elems :: "bool \<Rightarrow> string list \<Rightarrow> string list \<Rightarrow> string list" where
  "clean_elems rooted acc [] = rev acc"
| "clean_elems rooted acc (e # es) =
     (if e = [] \<or> e = dot then clean_elems rooted acc es
      else if e = dotdot then
        (case acc of
           [] \<Rightarrow> clean_elems rooted (if rooted then [] else [dotdot]) es
         | a # as \<Rightarrow> if a = dotdot then clean_elems rooted (dotdot # acc) es
                     else clean_elems rooted as es)
      else clean_elems rooted (e # acc) es)"

definition render_path :: "bool \<Rightarrow> string list \<Rightarrow> string" where
  "render_path rooted es =
     (if rooted then slash # Join es ''/'' else if es = [] then dot else Join es ''/'')"

text \<open>\<open>filepath.Clean\<close>.\<close>

definition Clean :: "string \<Rightarrow> string" where
  "Clean p = render_path (IsAbs p) (clean_elems (IsAbs p) [] (Split p slash))"

text \<open>\<open>filepath.Base\<close> and \<open>filepath.Dir\<close>.\<close>

definition Base :: "string \<Rightarrow> string" where
  "Base p =
     (if p = [] then dot
      else let q = rev (dropWhile (\<lambda>c. c = slash) (rev p))
           in if q = [] then ''/'' else last (Split q slash))"

definition Dir :: "string \<Rightarrow> string" where
  "Dir p = Clean (rev (dropWhile (\<lambda>c. c \<noteq> slash) (rev p)))"

text \<open>\<open>filepath.Join\<close> of two elements: empty elements are ignored, the rest joined and cleaned.\<close>

definition JoinPath :: "string list \<Rightarrow> string" where
  "JoinPath es = (let ne = filter (\<lambda>e. e \<noteq> []) es
                  in if ne = [] then [] else Clean (Join ne ''/''))"

text \<open>\<open>filepath.Rel(base, targ)\<close>: None is the error result (one path absolute and the other not,
  or a base that climbs out by \<open>..\<close> where the target does not).  The common leading elements
  are dropped and every element left of the base becomes a \<open>..\<close>.\<close>

fun drop_common :: "string list \<Rightarrow> string list \<Rightarrow> string list \<times> string list" where
  "drop_common (b # bs) (t # ts) = (if b = t then drop_common bs ts else (b # bs, t # ts))"
| "drop_common bs ts = (bs, ts)"

definition path_elems :: "string \<Rightarrow> string list" where
  "path_elems p = clean_elems (IsAbs p) [] (Split p slash)"

definition Rel :: "string \<Rightarrow> string \<Rightarrow> string option" where
  "Rel base targ =
     (if IsAbs base \<noteq> IsAbs targ then None
      else (case drop_common (path_elems base) (path_elems targ) of (bs, ts) \<Rightarrow>
        if bs = [] \<and> ts = [] then Some dot
        else if bs \<noteq> [] \<and> hd bs = dotdot then None
        else Some (Join (replicate (length bs) dotdot @ ts) ''/'')))"

subsection \<open>Cleaned paths\<close>

text \<open>The normal form of the element list: no empty or \<open>.\<close> element, none holding a slash, and
  \<open>..\<close> only in front of a relative path.\<close>

definition proper_elem :: "string \<Rightarrow> bool" where
  "proper_elem e \<longleftrightarrow> e \<noteq> [] \<and> e \<noteq> dot \<and> e \<noteq> dotdot \<and> slash \<notin> set e"

definition clean_form :: "bool \<Rightarrow> string list \<Rightarrow> bool" where
  "clean_form rooted es \<longleftrightarrow>
     (\<exists>n ps. es = replicate n dotdot @ ps \<and> (rooted \<longrightarrow> n = 0) \<and> (\<forall>p\<in>set ps. proper_elem p))"

lemma clean_form_Nil [simp]: "clean_form rooted []"
  by (simp add: clean_form_def)

lemma clean_formI:
  "es = replicate n dotdot @ ps \<Longrightarrow> (rooted \<Longrightarrow> n = 0) \<Longrightarrow> \<forall>p\<in>set ps. proper_elem p \<Longrightarrow>
   clean_form rooted es"
  unfolding clean_form_def by blast

lemma clean_formE:
  assumes "clean_form rooted es"
  obtains n ps where "es = replicate n dotdot @ ps" "rooted \<Longrightarrow> n = 0" "\<forall>p\<in>set ps. proper_elem p"
  using assms unfolding clean_form_def by blast

lemma clean_form_snoc:
  "clean_form rooted es \<Longrightarrow> proper_elem e \<Longrightarrow> clean_form rooted (es @ [e])"
  by (erule clean_formE, rule clean_formI [where ps = "_ @ [e]"]) auto

lemma clean_form_butlast: "clean_form rooted (es @ [e]) \<Longrightarrow> clean_form rooted es"
proof (erule clean_formE)
  fix n ps
  assume n: "es @ [e] = replicate n dotdot @ ps" "rooted \<Longrightarrow> n = 0" "\<forall>p\<in>set ps. proper_elem p"
  show ?thesis
  proof (cases ps rule: rev_cases)
    case Nil
    with n(1) obtain m where "n = Suc m" by (cases n) auto
    with n(1) Nil have "es @ [e] = replicate m dotdot @ [dotdot]"
      by (simp add: replicate_append_same)
    then have "es = replicate m dotdot" by simp
    then show ?thesis using n(2) \<open>n = Suc m\<close> by (intro clean_formI [of _ m "[]"]) auto
  next
    case (snoc qs q)
    with n show ?thesis by (intro clean_formI [of _ n qs]) auto
  qed
qed

lemma clean_form_dotdot:
  "clean_form False (es @ [dotdot]) \<Longrightarrow> clean_form False (es @ [dotdot, dotdot])"
proof -
  assume "clean_form False (es @ [dotdot])"
  then obtain n ps where n: "es @ [dotdot] = replicate n dotdot @ ps"
    "\<forall>p\<in>set ps. proper_elem p" unfolding clean_form_def by blast
  have "ps = []"
    using n by (cases ps rule: rev_cases) (auto simp: proper_elem_def)
  with n(1) have "es @ [dotdot, dotdot] = replicate (Suc n) dotdot"
    by (metis append.assoc append_Cons append_Nil append_Nil2 replicate_append_same replicate_Suc)
  then show ?thesis unfolding clean_form_def by (metis append_Nil2 empty_iff empty_set)
qed

lemma clean_form_single_dotdot: "clean_form False [dotdot]"
  unfolding clean_form_def by (rule exI [of _ 1], rule exI [of _ "[]"]) simp

lemma clean_elems_form:
  "clean_form rooted (rev acc) \<Longrightarrow> \<forall>e\<in>set es. slash \<notin> set e \<Longrightarrow>
   clean_form rooted (clean_elems rooted acc es)"
proof (induction rooted acc es rule: clean_elems.induct)
  case (1 rooted acc)
  then show ?case by simp
next
  case (2 rooted acc e es)
  consider "e = [] \<or> e = dot" | "e = dotdot" | "proper_elem e"
    using "2.prems" by (auto simp: proper_elem_def)
  then show ?case
  proof cases
    case 1
    with 2 show ?thesis by auto
  next
    case dd: 2
    show ?thesis
    proof (cases acc)
      case Nil
      with dd 2 clean_form_single_dotdot show ?thesis by auto
    next
      case (Cons a as)
      show ?thesis
      proof (cases "a = dotdot")
        case True
        have nr: "\<not> rooted"
        proof
          assume rooted
          with "2.prems"(1) obtain ps where "rev acc = ps" "\<forall>p\<in>set ps. proper_elem p"
            by (metis clean_formE append_Nil replicate_0)
          then have "proper_elem a" using Cons by force
          with True show False by (simp add: proper_elem_def)
        qed
        with nr "2.prems"(1) Cons True clean_form_dotdot [of "rev as"]
        have "clean_form rooted (rev (dotdot # acc))" by simp
        with dd 2 Cons True show ?thesis by auto
      next
        case False
        with "2.prems"(1) Cons have "clean_form rooted (rev as)"
          using clean_form_butlast by simp
        with dd 2 Cons False show ?thesis by auto
      qed
    qed
  next
    case 3
    with 2 clean_form_snoc [of rooted "rev acc" e] show ?thesis
      by (auto simp: proper_elem_def)
  qed
qed

lemma clean_elems_proper:
  "\<forall>p\<in>set ps. proper_elem p \<Longrightarrow> clean_elems rooted acc ps = rev acc @ ps"
  by (induction ps arbitrary: acc) (auto simp: proper_elem_def)

lemma clean_elems_dotdots:
  "clean_elems False (replicate k dotdot) (replicate n dotdot @ ps) =
   clean_elems False (replicate (k + n) dotdot) ps"
proof (induction n arbitrary: k)
  case 0
  then show ?case by simp
next
  case (Suc n)
  show ?case using Suc [of "Suc k"] by (cases k) auto
qed

lemma clean_elems_id: "clean_form rooted es \<Longrightarrow> clean_elems rooted [] es = es"
proof (erule clean_formE)
  fix n ps
  assume n: "es = replicate n dotdot @ ps" "rooted \<Longrightarrow> n = 0" "\<forall>p\<in>set ps. proper_elem p"
  show ?thesis
  proof (cases rooted)
    case True
    with n show ?thesis by (simp add: clean_elems_proper)
  next
    case False
    with n clean_elems_dotdots [of 0 n ps] show ?thesis by (simp add: clean_elems_proper)
  qed
qed

lemma clean_form_no_slash: "clean_form rooted es \<Longrightarrow> e \<in> set es \<Longrightarrow> slash \<notin> set e \<and> e \<noteq> []"
  by (erule clean_formE) (force simp: proper_elem_def)

lemma Split_Join_clean:
  "clean_form rooted es \<Longrightarrow> es \<noteq> [] \<Longrightarrow> Split (Join es ''/'') slash = es"
  by (rule Split_Join) (simp, metis clean_form_no_slash)

lemma Join_clean_not_abs:
  assumes "clean_form rooted es" "es \<noteq> []"
  shows "\<not> IsAbs (Join es ''/'')"
proof -
  obtain e es' where e: "es = e # es'" using assms(2) by (cases es) auto
  with clean_form_no_slash [OF assms(1), of e] have "e \<noteq> []" "hd e \<noteq> slash"
    by (auto dest: hd_in_set)
  then have "hd (Join es ''/'') \<noteq> slash" "Join es ''/'' \<noteq> []"
    using e by (cases es'; auto)+
  then show ?thesis by (auto simp: IsAbs_def prefix_def)
qed

lemma path_elems_form: "clean_form (IsAbs p) (path_elems p)"
  unfolding path_elems_def by (rule clean_elems_form) (auto dest: Split_no_sep_in)

lemma Clean_alt: "Clean p = render_path (IsAbs p) (path_elems p)"
  by (simp add: Clean_def path_elems_def)

lemma IsAbs_render: "clean_form rooted es \<Longrightarrow> IsAbs (render_path rooted es) = rooted"
  using Join_clean_not_abs [of rooted es]
  by (auto simp: render_path_def) (auto simp: IsAbs_def)

lemma path_elems_render: "clean_form rooted es \<Longrightarrow> path_elems (render_path rooted es) = es"
proof -
  assume cf: "clean_form rooted es"
  have ab: "IsAbs (render_path rooted es) = rooted" by (rule IsAbs_render [OF cf])
  show ?thesis
  proof (cases "es = []")
    case True
    then show ?thesis by (auto simp: path_elems_def render_path_def IsAbs_def)
  next
    case False
    have "clean_elems rooted [] (Split (render_path rooted es) slash) = es"
      using Split_Join_clean [OF cf False] clean_elems_id [OF cf] False
      by (cases rooted) (simp_all add: render_path_def)
    with ab show ?thesis by (simp add: path_elems_def)
  qed
qed

lemma path_elems_Clean [simp]: "path_elems (Clean p) = path_elems p"
  unfolding Clean_alt by (rule path_elems_render [OF path_elems_form])

lemma IsAbs_Clean [simp]: "IsAbs (Clean p) = IsAbs p"
  unfolding Clean_alt by (rule IsAbs_render [OF path_elems_form])

lemma Clean_idem [simp]: "Clean (Clean p) = Clean p"
  by (simp add: Clean_alt [of "Clean p"]) (simp add: Clean_alt)

lemma Clean_not_Nil [simp]: "Clean p \<noteq> []"
  using path_elems_form [of p] clean_form_no_slash
  by (auto simp: Clean_alt render_path_def) (metis Join.elims append_is_Nil_conv list.set_intros(1))

subsection \<open>Paths below a root\<close>

lemma drop_common_append: "drop_common xs (xs @ ys) = ([], ys)"
  by (induction xs) (cases ys; simp)+

lemma clean_elems_append:
  "clean_elems r acc (xs @ ys) = clean_elems r (rev (clean_elems r acc xs)) ys"
  by (induction r acc xs rule: clean_elems.induct) (auto split: list.splits)

lemma Split_append_sep: "Split (xs @ c # ys) c = Split xs c @ Split ys c"
  by (induction xs) (auto split: list.splits)

lemma dotdot_stays: "dotdot \<in> set acc \<Longrightarrow> dotdot \<in> set (clean_elems False acc es)"
proof (induction es arbitrary: acc)
  case (Cons e es)
  then show ?case by (cases acc) auto
qed simp

lemma clean_elems_shift:
  "dotdot \<notin> set as \<Longrightarrow> dotdot \<notin> set (clean_elems False as es) \<Longrightarrow>
   clean_elems True (as @ acc) es = rev acc @ clean_elems False as es"
proof (induction es arbitrary: as)
  case (Cons e es)
  show ?case
  proof (cases "e = dotdot")
    case True
    show ?thesis
    proof (cases as)
      case Nil
      with Cons.prems True dotdot_stays [of "[dotdot]" es] show ?thesis by simp
    next
      case (Cons a as')
      with Cons.prems Cons.IH [of as'] True show ?thesis by auto
    qed
  next
    case False
    with Cons.prems Cons.IH [of as] Cons.IH [of "e # as"] show ?thesis by auto
  qed
qed simp

lemma path_elems_under:
  assumes "IsAbs root" "\<not> IsAbs rel" "dotdot \<notin> set (path_elems rel)"
  shows "path_elems (root @ ''/'' @ rel) = path_elems root @ path_elems rel"
proof -
  have abs: "IsAbs (root @ ''/'' @ rel)" using assms(1) by (auto simp: IsAbs_def prefix_def)
  have "path_elems (root @ ''/'' @ rel) = clean_elems True ([] @ rev (path_elems root)) (Split rel slash)"
    using abs assms(1) by (simp add: path_elems_def Split_append_sep clean_elems_append)
  also have "\<dots> = path_elems root @ path_elems rel"
    using clean_elems_shift [of "[]" "Split rel slash" "rev (path_elems root)"] assms(2,3)
    by (simp add: path_elems_def)
  finally show ?thesis .
qed

lemma Rel_under:
  assumes "IsAbs root" "\<not> IsAbs rel" "dotdot \<notin> set (path_elems rel)"
  shows "Rel root (Clean (root @ ''/'' @ rel)) = Some (Clean rel)"
proof -
  have "IsAbs (root @ ''/'' @ rel)" using assms(1) by (auto simp: IsAbs_def prefix_def)
  then show ?thesis
    using assms path_elems_under [OF assms]
    by (simp add: Rel_def drop_common_append Clean_alt [of rel] render_path_def)
qed

text \<open>Appending proper elements to a path extends its element list by them.\<close>

lemma path_elems_extend:
  assumes "p \<noteq> []" "\<forall>e\<in>set es. proper_elem e" "es \<noteq> []"
  shows "path_elems (p @ ''/'' @ Join es ''/'') = path_elems p @ es"
proof -
  have abs: "IsAbs (p @ ''/'' @ Join es ''/'') = IsAbs p" using assms(1) by (cases p) (auto simp: IsAbs_def)
  have "Split (Join es ''/'') slash = es" using assms(2,3) by (simp add: Split_Join proper_elem_def)
  then show ?thesis using assms(2) abs
    by (simp add: path_elems_def Split_append_sep clean_elems_append clean_elems_proper)
qed

end
