(* ===== verification/Artifact_Layout.thy ===== *)
theory Artifact_Layout
  imports Go_Path
begin

text \<open>
  The artifact layout table and the artifact-root resolver (\<open>src/pkg/artifact/layout.go\<close>).
  The working directory and \<open>os.Stat\<close> are parameters.  The theorems show that the filename
  classification is exclusive and that a resolved root never leaves the project.
\<close>

type_synonym Kind = string

definition LKindSpec :: Kind where "LKindSpec = ''spec''"
definition LKindPlan :: Kind where "LKindPlan = ''plan''"
definition LKindADR :: Kind where "LKindADR = ''adr''"
definition LKindBundle :: Kind where "LKindBundle = ''bundle''"
definition LKindIssue :: Kind where "LKindIssue = ''issue''"
definition LKindDirective :: Kind where "LKindDirective = ''directive''"
definition LKindCapability :: Kind where "LKindCapability = ''capability''"

lemmas lkind_defs = LKindSpec_def LKindPlan_def LKindADR_def LKindBundle_def LKindIssue_def
  LKindDirective_def LKindCapability_def

record kindEntry =
  ke_kind :: Kind
  ke_directory :: string
  ke_extension :: string

definition kind_row :: "Kind \<Rightarrow> string \<Rightarrow> string \<Rightarrow> kindEntry" where
  "kind_row k d e = \<lparr>ke_kind = k, ke_directory = d, ke_extension = e\<rparr>"

definition kindTable :: "kindEntry list" where
  "kindTable =
     [kind_row LKindSpec ''specs'' ''.spec.md'', kind_row LKindPlan ''plans'' ''.plan.yml'',
      kind_row LKindADR ''adrs'' ''.adr.md'', kind_row LKindBundle ''bundles'' ''.bundle.md'',
      kind_row LKindIssue ''issues'' ''.issue.md'', kind_row LKindDirective ''directives'' ''.directive.md'',
      kind_row LKindCapability ''capabilities'' ''.capability.yml'']"

record KindLayout =
  kl_Directory :: string
  kl_Extension :: string

definition LayoutFor :: "Kind \<Rightarrow> KindLayout option" where
  "LayoutFor kind =
     map_option (\<lambda>e. \<lparr>kl_Directory = ke_directory e, kl_Extension = ke_extension e\<rparr>)
                (find (\<lambda>e. ke_kind e = kind) kindTable)"

definition Kinds :: "Kind list" where
  "Kinds = map ke_kind kindTable"

definition ClassifyFilename :: "string \<Rightarrow> Kind option" where
  "ClassifyFilename name =
     map_option ke_kind
       (find (\<lambda>e. HasSuffix name (ke_extension e)
                  \<and> \<not> (ke_kind e = LKindADR \<and> \<not> HasPrefix name ''ADR-'')) kindTable)"

definition nonCorpusDirNames :: "string list" where
  "nonCorpusDirNames = [''.git'', ''testdata'', ''prototype'']"

definition NewNonCorpusDirs :: "string list \<Rightarrow> string list" where
  "NewNonCorpusDirs declared = filter (\<lambda>n. n \<noteq> []) declared"

definition Excludes :: "string list \<Rightarrow> string \<Rightarrow> bool" where
  "Excludes declared base =
     (if base = [] then False else base \<in> set nonCorpusDirNames \<or> base \<in> set declared)"

record Root =
  ro_Path :: string
  ro_Declared :: string
  ro_Configured :: bool

definition RootDir :: "Root \<Rightarrow> Kind \<Rightarrow> string" where
  "RootDir r kind =
     (case LayoutFor kind of None \<Rightarrow> [] | Some l \<Rightarrow> JoinPath [ro_Path r, kl_Directory l])"

datatype root_error =
    RootMissing string string
  | RootInvalid string string

datatype stat_result = StatMissing | StatError string | StatDir | StatOther

text \<open>\<open>filepath.Abs\<close> for a known working directory.\<close>

definition AbsPath :: "string \<Rightarrow> string \<Rightarrow> string" where
  "AbsPath cwd p = (if IsAbs p then Clean p else JoinPath [cwd, p])"

definition ResolveRoot ::
  "string + string \<Rightarrow> (string \<Rightarrow> stat_result) \<Rightarrow> string \<Rightarrow> string \<Rightarrow> root_error + Root" where
  "ResolveRoot cwd stat projectRoot declared =
     (case (if IsAbs projectRoot then Inr (Clean projectRoot)
            else case cwd of Inl e \<Rightarrow> Inl e | Inr d \<Rightarrow> Inr (AbsPath d projectRoot)) of
        Inl err \<Rightarrow> Inl (RootInvalid declared
                     (''resolving project root '' @ quote projectRoot @ '': '' @ err))
      | Inr abs0 \<Rightarrow>
          (let absProject = Clean abs0 in
           if declared = [] then Inr \<lparr>ro_Path = absProject, ro_Declared = [], ro_Configured = False\<rparr>
           else if IsAbs declared then
             Inl (RootInvalid declared ''must be a project-relative path, not an absolute one'')
           else
             let joined = Clean (JoinPath [absProject, declared]) in
             if (case Rel absProject joined of
                   None \<Rightarrow> True | Some rel \<Rightarrow> rel = dotdot \<or> HasPrefix rel (dotdot @ ''/''))
             then Inl (RootInvalid declared ''escapes the project root'')
             else (case stat joined of
                     StatMissing \<Rightarrow> Inl (RootMissing declared joined)
                   | StatError e \<Rightarrow> Inl (RootInvalid declared (''cannot be read at '' @ joined @ '': '' @ e))
                   | StatOther \<Rightarrow> Inl (RootInvalid declared (''is not a directory at '' @ joined))
                   | StatDir \<Rightarrow> Inr \<lparr>ro_Path = joined, ro_Declared = declared, ro_Configured = True\<rparr>)))"

subsection \<open>Classification\<close>

lemma suffix_last_char: "suffix a s \<Longrightarrow> suffix b s \<Longrightarrow> length a \<le> length b \<Longrightarrow> suffix a b"
  by (metis suffix_length_suffix)

lemma extensions_distinct:
  assumes "e \<in> set kindTable" "f \<in> set kindTable" "suffix (ke_extension e) s" "suffix (ke_extension f) s"
  shows "e = f"
proof -
  have "suffix (ke_extension e) (ke_extension f) \<or> suffix (ke_extension f) (ke_extension e)"
    using assms(3,4) suffix_same_cases by blast
  moreover have "\<forall>e\<in>set kindTable. \<forall>f\<in>set kindTable. suffix (ke_extension e) (ke_extension f) \<longrightarrow> e = f"
    by code_simp
  ultimately show ?thesis using assms(1,2) by blast
qed

lemma ClassifyFilename_iff:
  "ClassifyFilename name = Some k \<longleftrightarrow>
     (\<exists>e\<in>set kindTable. ke_kind e = k \<and> HasSuffix name (ke_extension e)
        \<and> \<not> (k = LKindADR \<and> \<not> HasPrefix name ''ADR-''))"
  (is "?L \<longleftrightarrow> ?R")
proof
  assume ?L
  then show ?R by (auto simp: ClassifyFilename_def dest!: find_Some_mem)
next
  assume ?R
  then obtain e where e: "e \<in> set kindTable" "ke_kind e = k" "HasSuffix name (ke_extension e)"
    "\<not> (k = LKindADR \<and> \<not> HasPrefix name ''ADR-'')" by blast
  let ?P = "\<lambda>e. HasSuffix name (ke_extension e) \<and> \<not> (ke_kind e = LKindADR \<and> \<not> HasPrefix name ''ADR-'')"
  have "?P e" using e by simp
  then obtain f where f: "find ?P kindTable = Some f" using find_SomeI [of e kindTable ?P] e(1) by blast
  then have "f \<in> set kindTable" "HasSuffix name (ke_extension f)" by (auto dest: find_Some_mem)
  with extensions_distinct [OF e(1) _ e(3)] have "e = f" by blast
  with f e(2) show ?L by (simp add: ClassifyFilename_def)
qed

text \<open>The filename classification is exclusive and agrees with the layout: a name is classified
  as a kind exactly when it carries that kind's extension (and, for a decision record, the
  prefix), no name carries the extensions of two kinds, and the layout of the kind found is
  in the table.\<close>

theorem ClassifyFilename_exclusive:
  "(ClassifyFilename name = Some k \<longleftrightarrow>
     (\<exists>l. LayoutFor k = Some l \<and> HasSuffix name (kl_Extension l) \<and> (k = LKindADR \<longrightarrow> HasPrefix name ''ADR-'')))
   \<and> (\<forall>k1 k2 l1 l2. LayoutFor k1 = Some l1 \<and> LayoutFor k2 = Some l2 \<and> HasSuffix name (kl_Extension l1)
        \<and> HasSuffix name (kl_Extension l2) \<longrightarrow> k1 = k2)"
proof -
  have d: "distinct (map ke_kind kindTable)" by code_simp
  have lay: "LayoutFor k = Some l \<longleftrightarrow>
      (\<exists>e\<in>set kindTable. ke_kind e = k \<and> l = \<lparr>kl_Directory = ke_directory e, kl_Extension = ke_extension e\<rparr>)" for k l
  proof
    assume "LayoutFor k = Some l"
    then show "\<exists>e\<in>set kindTable. ke_kind e = k \<and> l = \<lparr>kl_Directory = ke_directory e, kl_Extension = ke_extension e\<rparr>"
      by (auto simp: LayoutFor_def dest!: find_Some_mem)
  next
    assume "\<exists>e\<in>set kindTable. ke_kind e = k \<and> l = \<lparr>kl_Directory = ke_directory e, kl_Extension = ke_extension e\<rparr>"
    then obtain e where e: "e \<in> set kindTable" "ke_kind e = k" "l = \<lparr>kl_Directory = ke_directory e, kl_Extension = ke_extension e\<rparr>"
      by blast
    obtain f where f: "find (\<lambda>e. ke_kind e = k) kindTable = Some f"
      using find_SomeI [of e kindTable "\<lambda>e. ke_kind e = k"] e(1,2) by blast
    then have "f \<in> set kindTable" "ke_kind f = k" by (auto dest: find_Some_mem)
    with d e have "e = f" by (metis distinct_map inj_onD)
    with f e(3) show "LayoutFor k = Some l" by (simp add: LayoutFor_def)
  qed
  have 1: "ClassifyFilename name = Some k \<longleftrightarrow>
     (\<exists>l. LayoutFor k = Some l \<and> HasSuffix name (kl_Extension l) \<and> (k = LKindADR \<longrightarrow> HasPrefix name ''ADR-''))"
    unfolding ClassifyFilename_iff lay by auto
  have 2: "k1 = k2" if "LayoutFor k1 = Some l1" "LayoutFor k2 = Some l2" "HasSuffix name (kl_Extension l1)"
    "HasSuffix name (kl_Extension l2)" for k1 k2 l1 l2
    using that extensions_distinct unfolding lay by fastforce
  from 1 2 show ?thesis by blast
qed

theorem ClassifyFilename_exclusive_witness:
  "ClassifyFilename ''SPEC-001.spec.md'' = Some LKindSpec \<and> ClassifyFilename ''capability.yml'' = None
   \<and> (\<exists>!k. \<exists>l. LayoutFor k = Some l \<and> HasSuffix ''SPEC-001.spec.md'' (kl_Extension l))"
proof (intro conjI)
  show spec: "ClassifyFilename ''SPEC-001.spec.md'' = Some LKindSpec" and "ClassifyFilename ''capability.yml'' = None"
    by code_simp+
  show "\<exists>!k. \<exists>l. LayoutFor k = Some l \<and> HasSuffix ''SPEC-001.spec.md'' (kl_Extension l)"
    using spec ClassifyFilename_exclusive [of "''SPEC-001.spec.md''" LKindSpec] by blast
qed

subsection \<open>The resolved root\<close>

lemma drop_common_Nil: "drop_common xs ys = ([], ts) \<Longrightarrow> ys = xs @ ts"
  by (induction xs ys rule: drop_common.induct) (auto split: if_splits)

lemma Join_dotdot:
  assumes "bs \<noteq> []"
  shows "Join (replicate (length bs) dotdot @ ts) ''/'' = dotdot
         \<or> HasPrefix (Join (replicate (length bs) dotdot @ ts) ''/'') (dotdot @ ''/'')"
proof -
  obtain n where n: "length bs = Suc n" using assms by (cases bs) auto
  show ?thesis
  proof (cases "replicate n dotdot @ ts = []")
    case True
    with n show ?thesis by simp
  next
    case False
    with n show ?thesis by (simp add: Join_Cons)
  qed
qed

lemma Rel_inside:
  assumes "Rel base targ = Some rel" "rel \<noteq> dotdot" "\<not> HasPrefix rel (dotdot @ ''/'')"
  shows "\<exists>ts. path_elems targ = path_elems base @ ts"
proof -
  obtain bs ts where d: "drop_common (path_elems base) (path_elems targ) = (bs, ts)" by fastforce
  have "bs = []"
  proof (rule ccontr)
    assume "bs \<noteq> []"
    with assms d Join_dotdot [of bs ts] show False
      by (auto simp: Rel_def split: if_splits)
  qed
  with d drop_common_Nil show ?thesis by blast
qed

lemma IsAbs_JoinPath: "IsAbs a \<Longrightarrow> IsAbs (JoinPath [a, b])"
  by (cases "b = []") (auto simp: JoinPath_def Let_def IsAbs_def [of a] prefix_def, auto simp: IsAbs_def)

text \<open>A resolved artifact root is always an absolute, cleaned path, and a configured one is an
  existing directory inside the project: its path elements extend those of the project root.
  A declaration that is absolute or climbs out is refused, and an absent declaration gives the
  project root itself, marked unconfigured.\<close>

theorem ResolveRoot_confined:
  assumes "ResolveRoot (Inr cwd) stat projectRoot declared = Inr r" "IsAbs cwd"
  shows "IsAbs (ro_Path r) \<and> Clean (ro_Path r) = ro_Path r
     \<and> (ro_Configured r \<longleftrightarrow> declared \<noteq> [])
     \<and> (\<exists>ts. path_elems (ro_Path r) = path_elems (AbsPath cwd projectRoot) @ ts)
     \<and> (ro_Configured r \<longrightarrow> stat (ro_Path r) = StatDir \<and> \<not> IsAbs declared)"
proof -
  have ab: "IsAbs (AbsPath cwd projectRoot)"
    using assms(2) by (simp add: AbsPath_def IsAbs_JoinPath)
  have res: "ResolveRoot (Inr cwd) stat projectRoot declared =
     (let absProject = Clean (AbsPath cwd projectRoot) in
           if declared = [] then Inr \<lparr>ro_Path = absProject, ro_Declared = [], ro_Configured = False\<rparr>
           else if IsAbs declared then
             Inl (RootInvalid declared ''must be a project-relative path, not an absolute one'')
           else
             let joined = Clean (JoinPath [absProject, declared]) in
             if (case Rel absProject joined of
                   None \<Rightarrow> True | Some rel \<Rightarrow> rel = dotdot \<or> HasPrefix rel (dotdot @ ''/''))
             then Inl (RootInvalid declared ''escapes the project root'')
             else (case stat joined of
                     StatMissing \<Rightarrow> Inl (RootMissing declared joined)
                   | StatError e \<Rightarrow> Inl (RootInvalid declared (''cannot be read at '' @ joined @ '': '' @ e))
                   | StatOther \<Rightarrow> Inl (RootInvalid declared (''is not a directory at '' @ joined))
                   | StatDir \<Rightarrow> Inr \<lparr>ro_Path = joined, ro_Declared = declared, ro_Configured = True\<rparr>))"
    by (simp add: ResolveRoot_def AbsPath_def)
  show ?thesis
  proof (cases "declared = []")
    case True
    with assms(1) [unfolded res] ab show ?thesis by (auto simp: Let_def)
  next
    case False
    let ?abs = "Clean (AbsPath cwd projectRoot)"
    let ?joined = "Clean (JoinPath [?abs, declared])"
    obtain rel where rel: "Rel ?abs ?joined = Some rel" "rel \<noteq> dotdot" "\<not> HasPrefix rel (dotdot @ ''/'')"
      using assms(1) [unfolded res] False by (auto simp: Let_def split: if_splits option.splits)
    have r: "r = \<lparr>ro_Path = ?joined, ro_Declared = declared, ro_Configured = True\<rparr>" "stat ?joined = StatDir" "\<not> IsAbs declared"
      using assms(1) [unfolded res] False rel by (auto simp: Let_def split: if_splits stat_result.splits)
    have "IsAbs ?joined" using ab by (simp add: IsAbs_JoinPath)
    with r False Rel_inside [OF rel] show ?thesis by simp
  qed
qed

theorem ResolveRoot_confined_witness:
  "\<exists>ts. path_elems (ro_Path (projr (ResolveRoot (Inr ''/w'') (\<lambda>_. StatDir) ''proj'' ''./a/../docs''))) =
        path_elems (AbsPath ''/w'' ''proj'') @ ts"
proof -
  have "ResolveRoot (Inr ''/w'') (\<lambda>_. StatDir) ''proj'' ''./a/../docs'' =
      Inr \<lparr>ro_Path = ''/w/proj/docs'', ro_Declared = ''./a/../docs'', ro_Configured = True\<rparr>" by code_simp
  from ResolveRoot_confined [OF this] this show ?thesis by (simp add: IsAbs_def)
qed

end
