(* ===== verification/Sha256.thy ===== *)
theory Sha256
  imports Go_Strings "HOL-Library.Word"
begin

text \<open>
  SHA-256 as \<open>crypto/sha256\<close> computes it, and its lower-case hexadecimal rendering
  (\<open>encoding/hex\<close>).  The gate hashes a violation's identity with it and the pack lifecycle
  hashes file contents.  The proofs use that the digest is a string of 64 hexadecimal
  digits; that two given inputs hash differently is only ever a named hypothesis
  (\<open>content_hash_determines_files\<close>).
\<close>

unbundle bit_operations_syntax

type_synonym word32 = "32 word"

definition sha_K :: "word32 list" where
  "sha_K =
     [1116352408, 1899447441, 3049323471, 3921009573,
      961987163, 1508970993, 2453635748, 2870763221,
      3624381080, 310598401, 607225278, 1426881987,
      1925078388, 2162078206, 2614888103, 3248222580,
      3835390401, 4022224774, 264347078, 604807628,
      770255983, 1249150122, 1555081692, 1996064986,
      2554220882, 2821834349, 2952996808, 3210313671,
      3336571891, 3584528711, 113926993, 338241895,
      666307205, 773529912, 1294757372, 1396182291,
      1695183700, 1986661051, 2177026350, 2456956037,
      2730485921, 2820302411, 3259730800, 3345764771,
      3516065817, 3600352804, 4094571909, 275423344,
      430227734, 506948616, 659060556, 883997877,
      958139571, 1322822218, 1537002063, 1747873779,
      1955562222, 2024104815, 2227730452, 2361852424,
      2428436474, 2756734187, 3204031479, 3329325298]"

definition sha_H0 :: "word32 list" where
  "sha_H0 = [1779033703, 3144134277, 1013904242, 2773480762,
             1359893119, 2600822924, 528734635, 1541459225]"

definition small_sigma0 :: "word32 \<Rightarrow> word32" where
  "small_sigma0 x = word_rotr 7 x XOR word_rotr 18 x XOR drop_bit 3 x"

definition small_sigma1 :: "word32 \<Rightarrow> word32" where
  "small_sigma1 x = word_rotr 17 x XOR word_rotr 19 x XOR drop_bit 10 x"

definition big_sigma0 :: "word32 \<Rightarrow> word32" where
  "big_sigma0 x = word_rotr 2 x XOR word_rotr 13 x XOR word_rotr 22 x"

definition big_sigma1 :: "word32 \<Rightarrow> word32" where
  "big_sigma1 x = word_rotr 6 x XOR word_rotr 11 x XOR word_rotr 25 x"

text \<open>The 64 schedule words, newest first, from the 16 words of a block.\<close>

primrec sha_extend :: "nat \<Rightarrow> word32 list \<Rightarrow> word32 list" where
  "sha_extend 0 ws = ws"
| "sha_extend (Suc n) ws =
     sha_extend n ((small_sigma1 (ws ! 1) + ws ! 6 + small_sigma0 (ws ! 14) + ws ! 15) # ws)"

definition sha_schedule :: "word32 list \<Rightarrow> word32 list" where
  "sha_schedule block = rev (sha_extend 48 (rev block))"

type_synonym sha_state = "word32 \<times> word32 \<times> word32 \<times> word32 \<times> word32 \<times> word32 \<times> word32 \<times> word32"

fun sha_round :: "word32 \<times> word32 \<Rightarrow> sha_state \<Rightarrow> sha_state" where
  "sha_round (k, w) (a, b, c, d, e, f, g, h) =
     (let t1 = h + big_sigma1 e + ((e AND f) XOR (NOT e AND g)) + k + w;
          t2 = big_sigma0 a + ((a AND b) XOR (a AND c) XOR (b AND c))
      in (t1 + t2, a, b, c, d + t1, e, f, g))"

definition sha_compress :: "word32 list \<Rightarrow> word32 list \<Rightarrow> word32 list" where
  "sha_compress H block =
     (case fold sha_round (zip sha_K (sha_schedule block))
             (H ! 0, H ! 1, H ! 2, H ! 3, H ! 4, H ! 5, H ! 6, H ! 7) of
        (a, b, c, d, e, f, g, h) \<Rightarrow>
          [H ! 0 + a, H ! 1 + b, H ! 2 + c, H ! 3 + d, H ! 4 + e, H ! 5 + f, H ! 6 + g, H ! 7 + h])"

text \<open>Padding: a one bit, zeros to 56 modulo 64 bytes, the length in bits as 64-bit big endian.\<close>

definition be_bytes :: "nat \<Rightarrow> nat \<Rightarrow> nat list" where
  "be_bytes k n = rev (map (\<lambda>i. n div 256 ^ i mod 256) [0..<k])"

definition sha_pad :: "nat list \<Rightarrow> nat list" where
  "sha_pad bs = bs @ [128] @ replicate ((119 - length bs mod 64) mod 64) 0 @ be_bytes 8 (8 * length bs)"

fun be_words :: "nat list \<Rightarrow> word32 list" where
  "be_words (a # b # c # d # r) = of_nat (((a * 256 + b) * 256 + c) * 256 + d) # be_words r"
| "be_words _ = []"

function sha_blocks :: "word32 list \<Rightarrow> word32 list \<Rightarrow> word32 list" where
  "sha_blocks H ws = (if ws = [] then H else sha_blocks (sha_compress H (take 16 ws)) (drop 16 ws))"
  by pat_completeness auto
termination
  by (relation "measure (\<lambda>(H, ws). length ws)") auto

declare sha_blocks.simps [simp del]

definition sha256 :: "nat list \<Rightarrow> word32 list" where
  "sha256 bs = sha_blocks sha_H0 (be_words (sha_pad bs))"

definition hex_char :: "nat \<Rightarrow> char" where
  "hex_char n = (let d = n mod 16 in char_of (if d < 10 then 48 + d else 87 + d))"

definition hex_word :: "word32 \<Rightarrow> string" where
  "hex_word w = map (\<lambda>i. hex_char (unat w div 16 ^ (7 - i))) [0..<8]"

text \<open>\<open>hex.EncodeToString(sha256.Sum256([]byte(s)))\<close>.\<close>

definition sha256_hex :: "string \<Rightarrow> string" where
  "sha256_hex s = concat (map hex_word (sha256 (map of_char s)))"

subsection \<open>The digest is 64 hexadecimal digits\<close>

lemma length_sha_compress: "length (sha_compress H b) = 8"
  by (simp add: sha_compress_def split: prod.splits)

lemma length_sha_blocks: "length H = 8 \<Longrightarrow> length (sha_blocks H ws) = 8"
  by (induction H ws rule: sha_blocks.induct)
     (subst sha_blocks.simps, simp add: length_sha_compress)

lemma length_sha256: "length (sha256 bs) = 8"
  by (simp add: sha256_def length_sha_blocks sha_H0_def)

lemma hex_char_plain: "plain (hex_char n)"
  using mod_less_divisor [of 16 n]
  by (auto simp: plain_def hex_char_def Let_def simp del: mod_less_divisor)

lemma hex_word_plain: "c \<in> set (hex_word w) \<Longrightarrow> plain c"
  by (auto simp: hex_word_def hex_char_plain)

lemma sha256_hex_plain: "c \<in> set (sha256_hex s) \<Longrightarrow> plain c"
  by (auto simp: sha256_hex_def dest: hex_word_plain)

lemma length_sha256_hex [simp]: "length (sha256_hex s) = 64"
proof -
  have "length (concat (map hex_word ws)) = 8 * length ws" for ws
    by (induction ws) (simp_all add: hex_word_def)
  then show ?thesis by (simp add: sha256_hex_def length_sha256)
qed

lemma sha256_hex_not_Nil [simp]: "sha256_hex s \<noteq> []"
  by (metis length_sha256_hex list.size(3) zero_neq_numeral)

lemma TrimSpace_sha256_hex [simp]: "TrimSpace (sha256_hex s) = sha256_hex s"
  by (rule TrimSpace_plain) (simp, rule sha256_hex_plain [of _ s], simp, rule sha256_hex_plain [of _ s], simp)

end
