(* ===== verification/Go_Time.thy ===== *)
theory Go_Time
  imports Go_Strings
begin

text \<open>
  The part of Go's \<open>time\<close> package the waiver subsystem uses.  An instant is a number of
  nanoseconds since 0000-01-01T00:00:00Z in the proleptic Gregorian calendar; a \<open>time.Time\<close>
  also carries its location, modelled as the offset from UTC (in seconds) in force at an
  instant, so daylight saving is covered.  Comparison and subtraction read the instant only;
  formatting reads the local date.  The calendar is the model's for instants from year 0 on,
  which every parsed expiry and every clock reading is.
\<close>

record GoTime =
  instant :: int
  zone :: "int \<Rightarrow> int"

definition second_ns :: int where "second_ns = 1000000000"
definition hour_ns :: int where "hour_ns = 3600 * second_ns"
definition day_ns :: int where "day_ns = 24 * hour_ns"

abbreviation UTC :: "int \<Rightarrow> int" where
  "UTC \<equiv> (\<lambda>_. 0)"

definition Before :: "GoTime \<Rightarrow> GoTime \<Rightarrow> bool" where
  "Before t u \<longleftrightarrow> instant t < instant u"

text \<open>\<open>t.Sub(u)\<close> saturates at the bounds of a 64-bit duration.\<close>

definition max_duration :: int where "max_duration = 2 ^ 63 - 1"
definition min_duration :: int where "min_duration = - (2 ^ 63)"

definition Sub :: "GoTime \<Rightarrow> GoTime \<Rightarrow> int" where
  "Sub t u = max min_duration (min max_duration (instant t - instant u))"

definition Add :: "GoTime \<Rightarrow> int \<Rightarrow> GoTime" where
  "Add t d = t\<lparr>instant := instant t + d\<rparr>"

subsection \<open>The calendar\<close>

definition is_leap :: "nat \<Rightarrow> bool" where
  "is_leap y \<longleftrightarrow> y mod 4 = 0 \<and> (y mod 100 \<noteq> 0 \<or> y mod 400 = 0)"

definition days_in :: "nat \<Rightarrow> nat \<Rightarrow> nat" where
  "days_in y m = (if m = 2 then (if is_leap y then 29 else 28)
                  else if m \<in> {4, 6, 9, 11} then 30 else 31)"

text \<open>Days before the first of January of a year, and before the first of a month in it.\<close>

primrec days_before_year :: "nat \<Rightarrow> nat" where
  "days_before_year 0 = 0"
| "days_before_year (Suc y) = days_before_year y + (if is_leap y then 366 else 365)"

definition days_before_year_closed :: "nat \<Rightarrow> nat" where
  "days_before_year_closed y = 365 * y + (y + 3) div 4 - (y + 99) div 100 + (y + 399) div 400"

definition days_before_month :: "nat \<Rightarrow> nat \<Rightarrow> nat" where
  "days_before_month y m = sum_list (map (days_in y) [1..<m])"

definition civil_day :: "nat \<Rightarrow> nat \<Rightarrow> nat \<Rightarrow> nat" where
  "civil_day y m d = days_before_year_closed y + days_before_month y m + (d - 1)"

text \<open>The inverse: the year of a day number, searched upwards from a lower estimate, then the
  month within the year.\<close>

function year_from :: "nat \<Rightarrow> nat \<Rightarrow> nat" where
  "year_from n y = (if days_before_year_closed (Suc y) \<le> n then year_from n (Suc y) else y)"
  by pat_completeness auto
termination
  by (relation "measure (\<lambda>(n, y). n - y)") (auto simp: days_before_year_closed_def)

declare year_from.simps [simp del]

definition year_of_day :: "nat \<Rightarrow> nat" where
  "year_of_day n = year_from n (n div 366)"

definition month_of :: "nat \<Rightarrow> nat \<Rightarrow> nat" where
  "month_of y r = length (takeWhile (\<lambda>m. days_before_month y m \<le> r) [1..<13])"

definition civil_of_day :: "nat \<Rightarrow> nat \<times> nat \<times> nat" where
  "civil_of_day n =
     (let y = year_of_day n; r = n - days_before_year_closed y; m = month_of y r
      in (y, m, r - days_before_month y m + 1))"

subsection \<open>The layout 2006-01-02\<close>

text \<open>Rendering with leading zeros to a width.\<close>

definition pad :: "nat \<Rightarrow> nat \<Rightarrow> string" where
  "pad w n = replicate (w - length (show_nat n)) (CHR ''0'') @ show_nat n"

definition local_day :: "GoTime \<Rightarrow> nat" where
  "local_day t = nat ((instant t + zone t (instant t) * second_ns) div day_ns)"

definition format_date :: "GoTime \<Rightarrow> string" where
  "format_date t =
     (case civil_of_day (local_day t) of (y, m, d) \<Rightarrow>
        pad 4 y @ ''-'' @ pad 2 m @ ''-'' @ pad 2 d)"

text \<open>\<open>time.Parse("2006-01-02", s)\<close>: four digits, a dash, two digits, a dash, two digits, nothing
  after, month and day in range; the result is midnight UTC.\<close>

definition parse_date :: "string \<Rightarrow> GoTime option" where
  "parse_date s =
     (case s of
        [y1, y2, y3, y4, h1, m1, m2, h2, d1, d2] \<Rightarrow>
          (let y = read_nat [y1, y2, y3, y4]; m = read_nat [m1, m2]; d = read_nat [d1, d2]
           in if list_all is_digit [y1, y2, y3, y4, m1, m2, d1, d2]
                 \<and> h1 = CHR ''-'' \<and> h2 = CHR ''-''
                 \<and> 1 \<le> m \<and> m \<le> 12 \<and> 1 \<le> d \<and> d \<le> days_in y m
              then Some \<lparr>instant = int (civil_day y m d) * day_ns, zone = UTC\<rparr>
              else None)
      | _ \<Rightarrow> None)"

subsection \<open>Facts about the calendar\<close>

lemma leap_sum:
  assumes "B \<le> 365 * y + (A :: nat)" "\<not> p4 \<Longrightarrow> \<not> p100" "\<not> p100 \<Longrightarrow> \<not> p400"
  shows "365 * Suc y + (A + (if p4 then 1 else 0)) - (B + (if p100 then 1 else 0))
           + (C + (if p400 then 1 else 0)) =
         365 * y + A - B + C + (if p4 \<and> (\<not> p100 \<or> p400) then 366 else 365)"
  using assms by (cases p4; cases p100; cases p400) simp_all

lemma div_step:
  assumes "0 < k"
  shows "(Suc y + (k - 1)) div k = (y + (k - 1)) div k + (if y mod k = 0 then 1 else (0::nat))"
proof -
  have "Suc y + (k - 1) = y + k" using assms by simp
  moreover have "Suc (y + (k - 1)) = y + k" using assms by simp
  ultimately show ?thesis using div_Suc [of "y + (k - 1)" k] by (simp only: mod_add_self2) simp
qed

lemma days_before_year_closed_Suc:
  "days_before_year_closed (Suc y) = days_before_year_closed y + (if is_leap y then 366 else 365)"
proof -
  have "(y + 99) div 100 < Suc y" by (rule less_mult_imp_div_less) simp
  then have a: "(y + 99) div 100 \<le> 365 * y + (y + 3) div 4" by (simp add: trans_le_add1)
  have 1: "(Suc y + 3) div 4 = (y + 3) div 4 + (if y mod 4 = 0 then 1 else 0)"
    using div_step [of 4 y] by simp
  have 2: "(Suc y + 99) div 100 = (y + 99) div 100 + (if y mod 100 = 0 then 1 else 0)"
    using div_step [of 100 y] by simp
  have 3: "(Suc y + 399) div 400 = (y + 399) div 400 + (if y mod 400 = 0 then 1 else 0)"
    using div_step [of 400 y] by simp
  have 4: "\<not> y mod 4 = 0 \<Longrightarrow> \<not> y mod 100 = 0" and 5: "\<not> y mod 100 = 0 \<Longrightarrow> \<not> y mod 400 = 0"
    unfolding mod_eq_0_iff_dvd
    using dvd_trans [of 4 100 y] dvd_trans [of 100 400 y] by auto
  show ?thesis
    unfolding days_before_year_closed_def is_leap_def 1 2 3 by (rule leap_sum [OF a 4 5])
qed

lemma days_before_year_eq: "days_before_year_closed y = days_before_year y"
  by (induction y) (simp_all add: days_before_year_closed_Suc days_before_year_closed_def [of 0])

lemma days_before_year_bounds: "365 * y \<le> days_before_year y \<and> days_before_year y \<le> 366 * y"
  by (induction y) auto

lemma days_before_year_mono: "x \<le> y \<Longrightarrow> days_before_year x \<le> days_before_year y"
  by (induction rule: dec_induct) auto

lemma year_from_correct:
  assumes "days_before_year y0 \<le> n"
  shows "days_before_year (year_from n y0) \<le> n \<and> n < days_before_year (Suc (year_from n y0))"
  using assms
proof (induction n y0 rule: year_from.induct)
  case (1 n y)
  then show ?case
    by (cases "days_before_year_closed (Suc y) \<le> n")
       (auto simp: year_from.simps [of n y] days_before_year_eq simp del: days_before_year.simps)
qed

lemma year_of_day_correct:
  "days_before_year (year_of_day n) \<le> n \<and> n < days_before_year (Suc (year_of_day n))"
proof -
  have "366 * (n div 366) \<le> n" by simp
  with days_before_year_bounds [of "n div 366"] show ?thesis
    unfolding year_of_day_def by (intro year_from_correct) linarith
qed

lemma year_of_day_unique:
  assumes "days_before_year y \<le> n" "n < days_before_year (Suc y)"
  shows "year_of_day n = y"
proof (rule ccontr)
  assume "year_of_day n \<noteq> y"
  then consider "Suc (year_of_day n) \<le> y" | "Suc y \<le> year_of_day n" by linarith
  then show False
    using year_of_day_correct [of n] assms days_before_year_mono
    by cases (meson leD order_trans)+
qed

lemma days_before_month_1 [simp]: "days_before_month y 1 = 0" "days_before_month y (Suc 0) = 0"
  by (simp_all add: days_before_month_def)

lemma days_before_month_Suc:
  "1 \<le> m \<Longrightarrow> days_before_month y (Suc m) = days_before_month y m + days_in y m"
  by (simp add: days_before_month_def)

lemma days_before_month_mono: "k \<le> m \<Longrightarrow> days_before_month y k \<le> days_before_month y m"
proof (induction rule: dec_induct)
  case (step n)
  have "days_before_month y n \<le> days_before_month y (Suc n)" by (simp add: days_before_month_def)
  with step show ?case by simp
qed simp

lemma days_in_year: "days_before_month y 13 = (if is_leap y then 366 else 365)"
  by (simp add: days_before_month_def days_in_def upt_rec)

lemma month_of_eq:
  assumes "1 \<le> m" "m \<le> 12" "days_before_month y m \<le> r" "r < days_before_month y (Suc m)"
  shows "month_of y r = m"
proof -
  have up: "[1..<13] = [1..<Suc m] @ [Suc m..<13]"
    using assms(1,2) upt_add_eq_append [of 1 "Suc m" "12 - m"] by simp
  have all: "\<forall>k\<in>set [1..<Suc m]. days_before_month y k \<le> r"
  proof
    fix k
    assume "k \<in> set [1..<Suc m]"
    then have "days_before_month y k \<le> days_before_month y m"
      by (intro days_before_month_mono) auto
    with assms(3) show "days_before_month y k \<le> r" by simp
  qed
  have "takeWhile (\<lambda>k. days_before_month y k \<le> r) [Suc m..<13] = []"
    using assms(4) by (cases "Suc m < 13") (simp_all add: upt_rec [of "Suc m" 13])
  moreover have "takeWhile (\<lambda>k. days_before_month y k \<le> r) ([1..<Suc m] @ [Suc m..<13]) =
    [1..<Suc m] @ takeWhile (\<lambda>k. days_before_month y k \<le> r) [Suc m..<13]"
    by (rule takeWhile_append2) (use all in blast)
  ultimately show ?thesis unfolding month_of_def up by simp
qed

lemma month_exists:
  assumes "r < days_before_month y 13"
  obtains m where "1 \<le> m" "m \<le> 12" "days_before_month y m \<le> r" "r < days_before_month y (Suc m)"
proof -
  define m where "m = (LEAST m. r < days_before_month y (Suc m))"
  have lt: "r < days_before_month y (Suc m)"
    unfolding m_def by (rule LeastI [of _ 12]) (use assms in simp)
  have "m \<le> 12" unfolding m_def by (rule Least_le) (use assms in simp)
  moreover have "1 \<le> m" using lt by (cases m) simp_all
  moreover have "days_before_month y m \<le> r"
    using not_less_Least [of "m - 1" "\<lambda>m. r < days_before_month y (Suc m)"] \<open>1 \<le> m\<close>
    by (simp add: m_def [symmetric])
  ultimately show ?thesis using lt that by blast
qed

lemma month_of_correct:
  assumes "1 \<le> m" "m \<le> 12" "1 \<le> d" "d \<le> days_in y m"
  shows "month_of y (days_before_month y m + (d - 1)) = m"
  using assms by (intro month_of_eq) (auto simp: days_before_month_Suc)

lemma month_in_year:
  assumes "1 \<le> m" "m \<le> 12" "1 \<le> d" "d \<le> days_in y m"
  shows "days_before_month y m + (d - 1) < (if is_leap y then 366 else 365)"
proof -
  have "days_before_month y m + (d - 1) < days_before_month y (Suc m)"
    using assms by (simp add: days_before_month_Suc)
  also have "\<dots> \<le> days_before_month y 13" using assms(2) by (intro days_before_month_mono) simp
  finally show ?thesis by (simp only: days_in_year)
qed

lemma civil_of_civil_day:
  assumes "1 \<le> m" "m \<le> 12" "1 \<le> d" "d \<le> days_in y m"
  shows "civil_of_day (civil_day y m d) = (y, m, d)"
proof -
  have "year_of_day (civil_day y m d) = y"
    using month_in_year [OF assms]
    by (intro year_of_day_unique) (simp_all add: civil_day_def days_before_year_eq)
  with month_of_correct [OF assms] assms(3) show ?thesis
    by (simp add: civil_of_day_def civil_day_def Let_def)
qed

lemma civil_of_day_valid:
  assumes "civil_of_day n = (y, m, d)"
  shows "1 \<le> m \<and> m \<le> 12 \<and> 1 \<le> d \<and> d \<le> days_in y m \<and> civil_day y m d = n"
proof -
  define r where "r = n - days_before_year y"
  have y: "y = year_of_day n" using assms by (simp add: civil_of_day_def Let_def)
  have n: "n = days_before_year y + r" "r < (if is_leap y then 366 else 365)"
    using year_of_day_correct [of n] y by (auto simp: r_def split: if_splits)
  have m: "m = month_of y r" and d: "d = r - days_before_month y m + 1"
    using assms n(1) by (auto simp: civil_of_day_def Let_def y [symmetric] days_before_year_eq)
  obtain k where k: "1 \<le> k" "k \<le> 12" "days_before_month y k \<le> r" "r < days_before_month y (Suc k)"
    using n(2) by (metis days_in_year month_exists)
  then have "m = k" using m month_of_eq by simp
  with k have "1 \<le> m \<and> m \<le> 12 \<and> days_before_month y m \<le> r \<and> r < days_before_month y m + days_in y m"
    by (simp add: days_before_month_Suc)
  with d n(1) show ?thesis by (auto simp: civil_day_def days_before_year_eq)
qed


subsection \<open>Formatting and parsing agree\<close>

lemma length_show_nat: "n < 10 ^ w \<Longrightarrow> 0 < w \<Longrightarrow> length (show_nat n) \<le> w"
proof (induction w arbitrary: n)
  case 0
  then show ?case by simp
next
  case (Suc w)
  show ?case
  proof (cases "n < 10")
    case True
    then show ?thesis by (simp add: show_nat.simps [of n])
  next
    case False
    with Suc.prems have "w \<noteq> 0" by (cases w) auto
    moreover have "n div 10 < 10 ^ w" using Suc.prems by (simp add: less_mult_imp_div_less mult.commute)
    ultimately have "length (show_nat (n div 10)) \<le> w" using Suc.IH by simp
    with False show ?thesis by (simp add: show_nat.simps [of n])
  qed
qed

lemma read_nat_zeros: "read_nat (replicate k (CHR ''0'') @ s) = read_nat s"
proof -
  have "foldl (\<lambda>n c. 10 * n + digit_val c) 0 (replicate k (CHR ''0'')) = 0"
    by (induction k) (simp_all add: digit_val_def)
  then show ?thesis by (simp add: read_nat_def)
qed

lemma pad_facts:
  assumes "n < 10 ^ w" "0 < w"
  shows "length (pad w n) = w" "read_nat (pad w n) = n" "list_all is_digit (pad w n)"
  using length_show_nat [OF assms]
  by (auto simp: pad_def read_nat_zeros list_all_iff is_digit_def dest: show_nat_digits)

lemma length_2E: "length xs = 2 \<Longrightarrow> (\<And>a b. xs = [a, b] \<Longrightarrow> P) \<Longrightarrow> P"
  by (auto simp: numeral_eq_Suc length_Suc_conv)

lemma length_4E: "length xs = 4 \<Longrightarrow> (\<And>a b c d. xs = [a, b, c, d] \<Longrightarrow> P) \<Longrightarrow> P"
  by (auto simp: numeral_eq_Suc length_Suc_conv)

lemma parse_date_render:
  assumes "y < 10000" "1 \<le> m" "m \<le> 12" "1 \<le> d" "d \<le> days_in y m"
  shows "parse_date (pad 4 y @ ''-'' @ pad 2 m @ ''-'' @ pad 2 d) =
         Some \<lparr>instant = int (civil_day y m d) * day_ns, zone = UTC\<rparr>"
proof -
  have d: "d < 100" using assms(5) by (auto simp: days_in_def split: if_splits)
  note Y = pad_facts [of y 4] and M = pad_facts [of m 2] and D = pad_facts [of d 2]
  obtain a b c e where Y4: "pad 4 y = [a, b, c, e]" using Y(1) assms(1) by (auto elim: length_4E)
  obtain f g where M2: "pad 2 m = [f, g]" using M(1) assms(3) by (auto elim: length_2E)
  obtain h i where D2: "pad 2 d = [h, i]" using D(1) d by (auto elim: length_2E)
  show ?thesis
    using Y(2,3) M(2,3) D(2,3) assms d unfolding Y4 M2 D2
    by (simp add: parse_date_def Let_def)
qed

lemma parse_format_date:
  assumes "year_of_day (local_day t) < 10000"
  shows "parse_date (format_date t) = Some \<lparr>instant = int (local_day t) * day_ns, zone = UTC\<rparr>"
proof -
  obtain y m d where c: "civil_of_day (local_day t) = (y, m, d)" by (metis prod_cases3)
  have "y < 10000" using c assms by (simp add: civil_of_day_def Let_def)
  with civil_of_day_valid [OF c] parse_date_render [of y m d] c show ?thesis
    by (simp add: format_date_def)
qed

text \<open>A parsed expiry is a midnight, and its text has no colon or white space.\<close>

lemma format_date_chars:
  assumes "c \<in> set (format_date t)"
  shows "is_digit c \<or> c = CHR ''-''"
proof -
  have "c \<in> set (pad w n) \<Longrightarrow> is_digit c" for w n
    by (auto simp: pad_def is_digit_def dest: show_nat_digits split: if_splits)
  with assms show ?thesis by (auto simp: format_date_def split: prod.splits)
qed

subsection \<open>Evaluation on binary integers\<close>

text \<open>The same parse on integers, so that evaluation inside the logic does not count days in
  unary.\<close>

definition int_read :: "string \<Rightarrow> int" where
  "int_read s = foldl (\<lambda>n c. 10 * n + (of_char c - 48)) 0 s"

definition int_days_in :: "int \<Rightarrow> int \<Rightarrow> int" where
  "int_days_in y m =
     (if m = 2 then (if y mod 4 = 0 \<and> (y mod 100 \<noteq> 0 \<or> y mod 400 = 0) then 29 else 28)
      else if m = 4 \<or> m = 6 \<or> m = 9 \<or> m = 11 then 30 else 31)"

definition int_civil_day :: "int \<Rightarrow> int \<Rightarrow> int \<Rightarrow> int" where
  "int_civil_day y m d =
     365 * y + (y + 3) div 4 - (y + 99) div 100 + (y + 399) div 400
     + sum_list (map (int_days_in y) [1..m - 1]) + (d - 1)"

lemma int_read_nat:
  "list_all is_digit s \<Longrightarrow> int_read s = int (read_nat s)"
proof (induction s rule: rev_induct)
  case (snoc c s)
  then have "int (of_char c - 48) = of_char c - 48" by (simp add: is_digit_def of_nat_diff of_nat_of_char)
  with snoc show ?case by (simp add: int_read_def read_nat_def digit_val_def)
qed (simp add: int_read_def read_nat_def)

lemma int_days_in: "int_days_in (int y) (int m) = int (days_in y m)"
proof -
  have "int y mod 4 = 0 \<longleftrightarrow> y mod 4 = 0" "int y mod 100 = 0 \<longleftrightarrow> y mod 100 = 0"
    "int y mod 400 = 0 \<longleftrightarrow> y mod 400 = 0" by presburger+
  then show ?thesis by (simp add: int_days_in_def days_in_def is_leap_def)
qed

lemma int_civil_day:
  assumes "1 \<le> m" "1 \<le> d"
  shows "int_civil_day (int y) (int m) (int d) = int (civil_day y m d)"
proof -
  have "(y + 99) div 100 \<le> 365 * y + (y + 3) div 4" by (cases y) auto
  then have "int (days_before_year_closed y) =
      365 * int y + (int y + 3) div 4 - (int y + 99) div 100 + (int y + 399) div 400"
    by (simp add: days_before_year_closed_def of_nat_diff zdiv_int)
  moreover have "[1..int m - 1] = map int [1..<m]"
    using assms(1) by (intro nth_equalityI) auto
  then have "sum_list (map (int_days_in (int y)) [1..int m - 1]) = int (days_before_month y m)"
    by (simp add: days_before_month_def int_days_in comp_def sum_list_of_nat [symmetric])
  ultimately show ?thesis using assms by (simp add: int_civil_day_def civil_day_def of_nat_diff)
qed

lemma parse_date_code [code]:
  "parse_date s =
     (case s of
        [y1, y2, y3, y4, h1, m1, m2, h2, d1, d2] \<Rightarrow>
          if list_all is_digit [y1, y2, y3, y4, m1, m2, d1, d2] \<and> h1 = CHR ''-'' \<and> h2 = CHR ''-''
          then (let y = int_read [y1, y2, y3, y4]; m = int_read [m1, m2]; d = int_read [d1, d2]
                in if 1 \<le> m \<and> m \<le> 12 \<and> 1 \<le> d \<and> d \<le> int_days_in y m
                   then Some \<lparr>instant = int_civil_day y m d * day_ns, zone = UTC\<rparr> else None)
          else None
      | _ \<Rightarrow> None)"
proof -
  have "(if list_all is_digit [y1, y2, y3, y4, m1, m2, d1, d2] \<and> h1 = CHR ''-'' \<and> h2 = CHR ''-''
          then (let y = int_read [y1, y2, y3, y4]; m = int_read [m1, m2]; d = int_read [d1, d2]
                in if 1 \<le> m \<and> m \<le> 12 \<and> 1 \<le> d \<and> d \<le> int_days_in y m
                   then Some \<lparr>instant = int_civil_day y m d * day_ns, zone = UTC\<rparr> else None)
          else None) = parse_date [y1, y2, y3, y4, h1, m1, m2, h2, d1, d2]"
    for y1 y2 y3 y4 h1 m1 m2 h2 d1 d2
  proof (cases "list_all is_digit [y1, y2, y3, y4, m1, m2, d1, d2]")
    case True
    then have "int_read [y1, y2, y3, y4] = int (read_nat [y1, y2, y3, y4])"
      "int_read [m1, m2] = int (read_nat [m1, m2])" "int_read [d1, d2] = int (read_nat [d1, d2])"
      by (auto intro!: int_read_nat)
    then show ?thesis by (simp add: parse_date_def Let_def int_days_in int_civil_day)
  qed (auto simp: parse_date_def Let_def)
  note shape = this
  show ?thesis
  proof (cases "length s = 10")
    case True
    then obtain y1 y2 y3 y4 h1 m1 m2 h2 d1 d2 where "s = [y1, y2, y3, y4, h1, m1, m2, h2, d1, d2]"
      by (auto simp: length_Suc_conv eval_nat_numeral)
    then show ?thesis by (simp only: shape list.case)
  next
    case False
    then show ?thesis by (auto simp: parse_date_def split: list.splits)
  qed
qed

end
