(* ===== verification/Waiver_Token.thy ===== *)
theory Waiver_Token
  imports Go_Time
begin

text \<open>
  The inline waiver token of \<open>src/pkg/waiver/waiver.go\<close>: the closed set of reason codes, the
  token grammar \<open>@waiver:rule:reason:expiry[ note]\<close>, its parser with every error branch, the
  split of the trailing text, default durations and expiry.  The lemmas show that the parser
  accepts exactly the grammar and that a rendered token parses back to what was rendered.
\<close>

type_synonym ReasonCode = string

definition ReasonFalsePositive :: ReasonCode where "ReasonFalsePositive = ''false-positive''"
definition ReasonAcceptedRisk :: ReasonCode where "ReasonAcceptedRisk = ''accepted-risk''"
definition ReasonDeferred :: ReasonCode where "ReasonDeferred = ''deferred''"
definition ReasonThirdParty :: ReasonCode where "ReasonThirdParty = ''third-party''"

lemmas reason_defs =
  ReasonFalsePositive_def ReasonAcceptedRisk_def ReasonDeferred_def ReasonThirdParty_def

definition validReason :: "ReasonCode \<Rightarrow> bool" where
  "validReason rc \<longleftrightarrow>
     rc = ReasonFalsePositive \<or> rc = ReasonAcceptedRisk \<or> rc = ReasonDeferred
     \<or> rc = ReasonThirdParty"

definition waiverMarker :: string where
  "waiverMarker = ''@waiver:''"

record Waiver =
  w_RuleID :: string
  w_Reason :: ReasonCode
  w_Expiry :: GoTime
  w_Note :: string
  w_IssueRef :: string
  w_File :: string
  w_Line :: int

record Location =
  l_File :: string
  l_Line :: int

definition longLivedDuration :: int where "longLivedDuration = 365 * 24 * hour_ns"
definition shortLivedDuration :: int where "shortLivedDuration = 90 * 24 * hour_ns"

definition DefaultDuration :: "ReasonCode \<Rightarrow> int option" where
  "DefaultDuration rc =
     (if rc = ReasonFalsePositive then Some longLivedDuration
      else if rc = ReasonAcceptedRisk \<or> rc = ReasonDeferred \<or> rc = ReasonThirdParty
      then Some shortLivedDuration else None)"

definition Expired :: "Waiver \<Rightarrow> GoTime \<Rightarrow> bool" where
  "Expired w now \<longleftrightarrow> \<not> Before now (w_Expiry w)"

definition is_upper :: "char \<Rightarrow> bool" where
  "is_upper c \<longleftrightarrow> 65 \<le> (of_char c :: nat) \<and> (of_char c :: nat) \<le> 90"

text \<open>The word test of \<open>issueRefLooksLike\<close>: \<open>#123\<close> or \<open>KEY-123\<close>.\<close>

definition issueRefLooksLike :: "string \<Rightarrow> bool" where
  "issueRefLooksLike word =
     (if 2 \<le> length word \<and> hd word = CHR ''#'' then list_all is_digit (tl word)
      else (case Index word ''-'' of
              None \<Rightarrow> False
            | Some dash \<Rightarrow>
                if dash = 0 \<or> dash = length word - 1 then False
                else list_all is_upper (take dash word) \<and> list_all is_digit (drop (Suc dash) word)))"

text \<open>The first word that looks like a reference is the reference; the other words are the note.\<close>

fun split_words :: "string list \<Rightarrow> string \<Rightarrow> string list \<Rightarrow> string list \<times> string" where
  "split_words [] ref kept = (kept, ref)"
| "split_words (w # ws) ref kept =
     (if ref = [] \<and> issueRefLooksLike w then split_words ws w kept
      else split_words ws ref (kept @ [w]))"

definition splitTrailing :: "string \<Rightarrow> string \<times> string" where
  "splitTrailing trailing =
     (case split_words (Fields trailing) [] [] of (kept, ref) \<Rightarrow> (Join kept '' '', ref))"

datatype token_error =
    NoToken string
  | MalformedStructure string
  | MissingRuleID string
  | UnknownReason string
  | MissingExpiry string
  | InvalidExpiry string

fun error_text :: "token_error \<Rightarrow> string" where
  "error_text (NoToken raw) = ''waiver: no '' @ waiverMarker @ '' token in '' @ quote raw"
| "error_text (MalformedStructure core) =
     ''waiver: malformed structure '' @ quote core @ '': want rule-id:reason-code:expiry''"
| "error_text (MissingRuleID core) = ''waiver: missing rule-id in '' @ quote core"
| "error_text (UnknownReason r) = ''waiver: unknown reason-code '' @ quote r"
| "error_text (MissingExpiry core) = ''waiver: missing expiry in '' @ quote core"
| "error_text (InvalidExpiry e) = ''waiver: invalid expiry '' @ quote e @ '': want YYYY-MM-DD''"

text \<open>The core ends at the first space or tab; what follows, trimmed, is the trailing text.\<close>

definition is_blank :: "char \<Rightarrow> bool" where
  "is_blank c \<longleftrightarrow> c = CHR '' '' \<or> c = CHR 0x09"

definition split_core :: "string \<Rightarrow> string \<times> string" where
  "split_core rest =
     (let core = takeWhile (\<lambda>c. \<not> is_blank c) rest
      in if length core < length rest then (core, TrimSpace (drop (Suc (length core)) rest))
         else (rest, []))"

definition ParseToken :: "string \<Rightarrow> Location \<Rightarrow> token_error + Waiver" where
  "ParseToken raw loc =
     (case Index raw waiverMarker of
        None \<Rightarrow> Inl (NoToken raw)
      | Some idx \<Rightarrow>
          (case split_core (drop (idx + length waiverMarker) raw) of (core, trailing) \<Rightarrow>
             (case Split core (CHR '':'') of
                [ruleID, reasonStr, expiryStr] \<Rightarrow>
                  if ruleID = [] then Inl (MissingRuleID core)
                  else if \<not> validReason reasonStr then Inl (UnknownReason reasonStr)
                  else if expiryStr = [] then Inl (MissingExpiry core)
                  else (case parse_date expiryStr of
                          None \<Rightarrow> Inl (InvalidExpiry expiryStr)
                        | Some expiry \<Rightarrow>
                            (case (if trailing = [] then ([], []) else splitTrailing trailing) of
                               (note, ref) \<Rightarrow>
                                 Inr \<lparr>w_RuleID = ruleID, w_Reason = reasonStr, w_Expiry = expiry,
                                      w_Note = note, w_IssueRef = ref,
                                      w_File = l_File loc, w_Line = l_Line loc\<rparr>))
              | _ \<Rightarrow> Inl (MalformedStructure core))))"

subsection \<open>What a successful parse means\<close>

lemma ParseToken_InrD:
  assumes "ParseToken raw loc = Inr w"
  shows "w_RuleID w \<noteq> [] \<and> CHR '':'' \<notin> set (w_RuleID w) \<and> validReason (w_Reason w)
         \<and> w_File w = l_File loc \<and> w_Line w = l_Line loc"
proof -
  obtain idx core trailing r c e where
    "split_core (drop (idx + length waiverMarker) raw) = (core, trailing)"
    and sp: "Split core (CHR '':'') = [r, c, e]"
    and w: "w_RuleID w = r" "w_Reason w = c" "r \<noteq> []" "validReason c"
      "w_File w = l_File loc" "w_Line w = l_Line loc"
    using assms
    by (auto simp: ParseToken_def split: option.splits prod.splits list.splits if_splits)
  have "r \<in> set (Split core (CHR '':''))" by (simp add: sp)
  with w show ?thesis using Split_no_sep_in by blast
qed

lemma ParseToken_expiry:
  assumes "ParseToken raw loc = Inr w"
  shows "zone (w_Expiry w) = UTC"
  using assms
  by (auto simp: ParseToken_def parse_date_def Let_def
        split: option.splits prod.splits list.splits if_splits)

subsection \<open>Rendered tokens parse back\<close>

definition render_token :: "string \<Rightarrow> ReasonCode \<Rightarrow> string \<Rightarrow> string" where
  "render_token rule reason expiry =
     waiverMarker @ rule @ '':'' @ reason @ '':'' @ expiry"

lemma validReason_chars:
  "validReason rc \<Longrightarrow> rc \<noteq> [] \<and> CHR '':'' \<notin> set rc \<and> (\<forall>c\<in>set rc. \<not> is_blank c)"
  by (auto simp: validReason_def reason_defs is_blank_def)

text \<open>A rule id that a token can carry: not empty, no colon, no blank.\<close>

definition token_rule :: "string \<Rightarrow> bool" where
  "token_rule r \<longleftrightarrow> r \<noteq> [] \<and> (\<forall>c\<in>set r. c \<noteq> CHR '':'' \<and> \<not> is_blank c)"

lemma split_core_noblank:
  "\<forall>c\<in>set core. \<not> is_blank c \<Longrightarrow> split_core core = (core, [])"
  by (simp add: split_core_def takeWhile_eq_all_conv [THEN iffD2])

lemma split_core_blank:
  "\<forall>c\<in>set core. \<not> is_blank c \<Longrightarrow> is_blank b \<Longrightarrow>
   split_core (core @ b # rest) = (core, TrimSpace rest)"
  by (simp add: split_core_def Let_def takeWhile_append2 takeWhile_eq_all_conv [THEN iffD2])

lemma ParseToken_render:
  assumes rule: "token_rule rule" and reason: "validReason reason"
    and expiry: "parse_date expiry = Some t" "\<forall>c\<in>set expiry. c \<noteq> CHR '':'' \<and> \<not> is_blank c"
    and tail: "tail = [] \<or> is_blank (hd tail)"
  shows "\<exists>w. ParseToken (render_token rule reason expiry @ tail) loc = Inr w
             \<and> w_RuleID w = rule \<and> w_Reason w = reason \<and> w_Expiry w = t"
proof -
  let ?core = "rule @ '':'' @ reason @ '':'' @ expiry"
  have colon: "\<not> is_blank (CHR '':'')" by (simp add: is_blank_def)
  have core: "\<forall>c\<in>set ?core. \<not> is_blank c"
    using rule expiry(2) validReason_chars [OF reason] colon by (simp add: token_rule_def ball_Un)
  have idx: "Index (render_token rule reason expiry @ tail) waiverMarker = Some 0"
    by (simp add: render_token_def Index_append_here)
  have dr: "drop (length waiverMarker) (render_token rule reason expiry @ tail) = ?core @ tail"
    by (simp add: render_token_def)
  obtain trailing where sc: "split_core (?core @ tail) = (?core, trailing)"
    using tail split_core_noblank [OF core] split_core_blank [OF core]
    by (cases tail) (auto simp del: append_assoc)
  have "CHR '':'' \<notin> set rule" using rule by (auto simp: token_rule_def)
  moreover have "CHR '':'' \<notin> set reason" using validReason_chars [OF reason] by blast
  moreover have "CHR '':'' \<notin> set expiry" using expiry(2) by blast
  ultimately have sp: "Split ?core (CHR '':'') = [rule, reason, expiry]"
    by (simp add: Split_append Split_noSep)
  have "rule \<noteq> []" using rule by (simp add: token_rule_def)
  moreover have "expiry \<noteq> []" using expiry(1) by (auto simp: parse_date_def)
  ultimately show ?thesis
    using reason expiry(1)
    unfolding ParseToken_def idx option.case add_0 dr sc prod.case sp
    by (auto split: prod.splits if_splits)
qed

end
