(* ===== verification/Waiver_Adjudicate.thy ===== *)
theory Waiver_Adjudicate
  imports Waiver_Token
begin

text \<open>
  Line-scan adjudication (\<open>src/pkg/waiver/adjudicate.go\<close>), the declared non-waivable tier
  (\<open>policy.go\<close>) and the tree-driven unbound scan (\<open>unbound.go\<close>).  A source file is known only
  through the line reader, a function from file and line number to the line's bytes.  The
  token map of the harvest is keyed by the string the code builds, and the keys are proved
  injective, so that grouping by key is grouping by occurrence.

  \<open>Adjudicate\<close> is related to a specification that says, per finding, whether some occurrence in
  its two-line window shields it.
\<close>

record Finding =
  f_RuleID :: string
  f_File :: string
  f_Line :: int
  f_EndLine :: int
  f_Severity :: string

type_synonym LineReader = "string \<Rightarrow> int \<Rightarrow> string option"

type_synonym WaiverPolicy = "string \<Rightarrow> string \<Rightarrow> bool"

record Diagnostic =
  d_RuleID :: string
  d_File :: string
  d_Line :: int
  d_Message :: string
  d_Kind :: string

definition DiagnosticMalformed :: string where "DiagnosticMalformed = ''malformed''"
definition DiagnosticNonWaivable :: string where "DiagnosticNonWaivable = ''non-waivable''"
definition DiagnosticUnbound :: string where "DiagnosticUnbound = ''unbound''"

record Result =
  r_Suppressed :: "Finding list"
  r_Active :: "Waiver list"
  r_Expiring :: "Waiver list"
  r_Expired :: "Waiver list"
  r_Unused :: "Waiver list"
  r_Malformed :: "Diagnostic list"
  r_NonWaivable :: "Diagnostic list"
  r_Unbound :: "Diagnostic list"

definition empty_result :: Result where
  "empty_result = \<lparr>r_Suppressed = [], r_Active = [], r_Expiring = [], r_Expired = [],
     r_Unused = [], r_Malformed = [], r_NonWaivable = [], r_Unbound = []\<rparr>"

definition graceWindow :: int where "graceWindow = 30 * 24 * hour_ns"

text \<open>A scanned occurrence: its parse and its coordinates.\<close>

record parsedToken =
  pt_parse :: "token_error + Waiver"
  pt_file :: string
  pt_line :: int
  pt_col :: nat

record tokenState =
  st_pt :: parsedToken
  st_findings :: "Finding list"

subsection \<open>Scanning\<close>

text \<open>\<open>scanOccurrences\<close>: after an occurrence the scan goes on behind it.\<close>

function scan_from :: "nat \<Rightarrow> string \<Rightarrow> nat list" where
  "scan_from off text =
     (case Index text waiverMarker of
        None \<Rightarrow> []
      | Some i \<Rightarrow> (off + i) # scan_from (off + i + length waiverMarker)
                                (drop (i + length waiverMarker) text))"
  by pat_completeness auto
termination
  by (relation "measure (\<lambda>(off, text). length text)")
     (auto simp: waiverMarker_def dest: Index_SomeD)

declare scan_from.simps [simp del]

definition scanOccurrences :: "string \<Rightarrow> nat list" where
  "scanOccurrences text = scan_from 0 text"

definition windowLines :: "Finding \<Rightarrow> int list" where
  "windowLines f = (if f_Line f > 1 then [f_Line f, f_Line f - 1] else [f_Line f])"

definition harvest_line :: "string \<Rightarrow> int \<Rightarrow> string \<Rightarrow> parsedToken list" where
  "harvest_line file line text =
     map (\<lambda>col. \<lparr>pt_parse = ParseToken (drop col text) \<lparr>l_File = file, l_Line = line\<rparr>,
                 pt_file = file, pt_line = line, pt_col = col\<rparr>) (scanOccurrences text)"

definition harvestWindow :: "Finding \<Rightarrow> LineReader \<Rightarrow> parsedToken list" where
  "harvestWindow f read =
     concat (map (\<lambda>line. case read (f_File f) line of
                           None \<Rightarrow> []
                         | Some text \<Rightarrow> harvest_line (f_File f) line text) (windowLines f))"

text \<open>The package's own integer formatter: a digit loop from the right.  Negating the least 64-bit
  integer overflows to itself, so the loop then writes no digit.\<close>

function itoa_digits :: "int \<Rightarrow> string \<Rightarrow> string" where
  "itoa_digits n buf = (if n > 0 then itoa_digits (n div 10) (digit_char (nat (n mod 10)) # buf) else buf)"
  by pat_completeness auto
termination
  by (relation "measure (\<lambda>(n, buf). nat n)") auto

declare itoa_digits.simps [simp del]

definition itoa :: "int \<Rightarrow> string" where
  "itoa n =
     (if n = 0 then ''0''
      else let m = (if n < 0 then (if n = - (2 ^ 63) then n else - n) else n);
               ds = itoa_digits m []
           in if n < 0 then CHR ''-'' # ds else ds)"

definition diagKey :: "string \<Rightarrow> int \<Rightarrow> int \<Rightarrow> string" where
  "diagKey file line col = file @ '':'' @ itoa line @ '':'' @ itoa col"

definition token_key :: "parsedToken \<Rightarrow> string" where
  "token_key tok = diagKey (pt_file tok) (pt_line tok) (int (pt_col tok))"

subsection \<open>Adjudication\<close>

text \<open>The harvest loop: the token map and the order in which keys were first seen.\<close>

type_synonym harvest = "(string, tokenState) gomap \<times> string list"

definition harvest_token :: "Finding \<Rightarrow> parsedToken \<Rightarrow> harvest \<Rightarrow> harvest" where
  "harvest_token f tok h =
     (case h of (tokens, order) \<Rightarrow>
        (case map_of tokens (token_key tok) of
           None \<Rightarrow> (map_set (token_key tok) \<lparr>st_pt = tok, st_findings = [f]\<rparr> tokens,
                    order @ [token_key tok])
         | Some st \<Rightarrow> (map_set (token_key tok) (st\<lparr>st_findings := st_findings st @ [f]\<rparr>) tokens,
                        order)))"

definition harvest_all :: "Finding list \<Rightarrow> LineReader \<Rightarrow> harvest" where
  "harvest_all findings read =
     fold (\<lambda>f h. fold (harvest_token f) (harvestWindow f read) h) findings ([], [])"

definition matchingFindings :: "tokenState \<Rightarrow> string \<Rightarrow> Finding list" where
  "matchingFindings st ruleID = filter (\<lambda>f. f_RuleID f = ruleID) (st_findings st)"

definition associatedRuleID :: "tokenState \<Rightarrow> string" where
  "associatedRuleID st = (case st_findings st of [] \<Rightarrow> [] | f # _ \<Rightarrow> f_RuleID f)"

definition finding_key :: "Finding \<Rightarrow> string" where
  "finding_key f = diagKey (f_File f) (f_Line f) 0 @ '':'' @ f_RuleID f"

text \<open>Suppressing the matched findings of an active token, each key once.\<close>

fun suppress_all :: "Finding list \<Rightarrow> string list \<Rightarrow> Finding list \<Rightarrow> string list \<times> Finding list" where
  "suppress_all [] seen out = (seen, out)"
| "suppress_all (f # fs) seen out =
     (if finding_key f \<in> set seen then suppress_all fs seen out
      else suppress_all fs (finding_key f # seen) (out @ [f]))"

text \<open>The guard \<open>policy != nil && !policy.Waivable(rule, severity)\<close>.\<close>

definition policy_refuses :: "WaiverPolicy option \<Rightarrow> string \<Rightarrow> string \<Rightarrow> bool" where
  "policy_refuses policy rule severity =
     (case policy of None \<Rightarrow> False | Some p \<Rightarrow> \<not> p rule severity)"

text \<open>The body of the second loop: one token is classified.\<close>

definition classify_token ::
  "WaiverPolicy option \<Rightarrow> GoTime \<Rightarrow> tokenState \<Rightarrow> string list \<times> Result \<Rightarrow> string list \<times> Result" where
  "classify_token policy now st acc =
     (case acc of (seen, res) \<Rightarrow>
        (case pt_parse (st_pt st) of
           Inl err \<Rightarrow>
             (seen, res\<lparr>r_Malformed := r_Malformed res @
                [\<lparr>d_RuleID = associatedRuleID st, d_File = pt_file (st_pt st),
                  d_Line = pt_line (st_pt st), d_Message = error_text err,
                  d_Kind = DiagnosticMalformed\<rparr>]\<rparr>)
         | Inr w \<Rightarrow>
             (case matchingFindings st (w_RuleID w) of
                [] \<Rightarrow> (seen, res\<lparr>r_Unused := r_Unused res @ [w]\<rparr>)
              | m # ms \<Rightarrow>
                  if policy_refuses policy (w_RuleID w) (f_Severity m) then
                    (seen, res\<lparr>r_NonWaivable := r_NonWaivable res @
                       [\<lparr>d_RuleID = w_RuleID w, d_File = pt_file (st_pt st),
                         d_Line = pt_line (st_pt st),
                         d_Message = ''rule '' @ w_RuleID w @ '' is declared non-waivable and cannot be suppressed by a @waiver token'',
                         d_Kind = DiagnosticNonWaivable\<rparr>]\<rparr>)
                  else if Expired w now then (seen, res\<lparr>r_Expired := r_Expired res @ [w]\<rparr>)
                  else (case suppress_all (m # ms) seen (r_Suppressed res) of (seen', sup') \<Rightarrow>
                    (seen', res\<lparr>r_Active := r_Active res @ [w],
                                r_Expiring := (if Sub (w_Expiry w) now \<le> graceWindow
                                               then r_Expiring res @ [w] else r_Expiring res),
                                r_Suppressed := sup'\<rparr>)))))"

definition Adjudicate ::
  "Finding list \<Rightarrow> LineReader option \<Rightarrow> WaiverPolicy option \<Rightarrow> GoTime \<Rightarrow> Result" where
  "Adjudicate findings reader policy now =
     (case reader of
        None \<Rightarrow> empty_result
      | Some read \<Rightarrow>
          (case harvest_all findings read of (tokens, order) \<Rightarrow>
             snd (fold (\<lambda>key acc. case map_of tokens key of
                                    None \<Rightarrow> acc
                                  | Some st \<Rightarrow> classify_token policy now st acc)
                       order ([], empty_result))))"

subsection \<open>The declared non-waivable tier\<close>

record DeclaredPolicy =
  dp_rules :: "string list"
  dp_severities :: "string list"

definition NewDeclaredPolicy :: "string list \<Rightarrow> string list \<Rightarrow> DeclaredPolicy" where
  "NewDeclaredPolicy rules severities =
     \<lparr>dp_rules = filter (\<lambda>r. r \<noteq> []) (map TrimSpace rules),
      dp_severities = filter (\<lambda>s. s \<noteq> []) (map (\<lambda>s. ToLower (TrimSpace s)) severities)\<rparr>"

definition Waivable :: "DeclaredPolicy option \<Rightarrow> WaiverPolicy" where
  "Waivable p ruleID severity =
     (case p of
        None \<Rightarrow> True
      | Some dp \<Rightarrow> \<not> (ruleID \<in> set (dp_rules dp))
                    \<and> \<not> (ToLower (TrimSpace severity) \<in> set (dp_severities dp)))"

subsection \<open>The unbound scan\<close>

fun harvest_tokens_from :: "string \<Rightarrow> int \<Rightarrow> string list \<Rightarrow> Waiver list" where
  "harvest_tokens_from file i [] = []"
| "harvest_tokens_from file i (text # ls) =
     concat (map (\<lambda>tok. case pt_parse tok of Inl _ \<Rightarrow> [] | Inr w \<Rightarrow> [w])
                 (harvest_line file (i + 1) text))
     @ harvest_tokens_from file (i + 1) ls"

definition HarvestTokens :: "string \<Rightarrow> string list \<Rightarrow> Waiver list" where
  "HarvestTokens file lines = harvest_tokens_from file 0 lines"

definition packNameOf :: "string \<Rightarrow> string option" where
  "packNameOf ruleID =
     (case Split ruleID (CHR ''/'') of
        a # b # c # _ \<Rightarrow> Some (a @ ''/'' @ b)
      | _ \<Rightarrow> None)"

definition unbound_diagnostic :: "Waiver \<Rightarrow> string \<Rightarrow> Diagnostic" where
  "unbound_diagnostic tok name =
     \<lparr>d_RuleID = w_RuleID tok, d_File = w_File tok, d_Line = w_Line tok,
      d_Message = ''waiver token names pack '' @ name @
        '', which matches no pack in backstop.lock; it suppresses nothing until it is re-keyed to a recorded pack or removed'',
      d_Kind = DiagnosticUnbound\<rparr>"

definition Unbound :: "Waiver list \<Rightarrow> string list \<Rightarrow> Diagnostic list" where
  "Unbound tokens namespaces =
     (if namespaces = [] then []
      else concat (map (\<lambda>tok. case packNameOf (w_RuleID tok) of
                                None \<Rightarrow> []
                              | Some name \<Rightarrow> if name \<in> set namespaces then []
                                              else [unbound_diagnostic tok name]) tokens))"


subsection \<open>Keys identify occurrences\<close>

lemma split_at_last:
  assumes "a @ c # x = b @ c # y" "c \<notin> set x" "c \<notin> set y"
  shows "a = b \<and> x = y"
proof -
  have "rev x @ c # rev a = rev y @ c # rev b" using arg_cong [OF assms(1), of rev] by simp
  then have "takeWhile (\<lambda>z. z \<noteq> c) (rev x @ c # rev a) = takeWhile (\<lambda>z. z \<noteq> c) (rev y @ c # rev b)"
    by simp
  moreover have "takeWhile (\<lambda>z. z \<noteq> c) (rev x @ c # rev a) = rev x" if "c \<notin> set x" for x a
    using that by (subst takeWhile_append2) auto
  ultimately have "rev x = rev y" using assms(2,3) by simp
  with assms(1) show ?thesis by simp
qed

lemma Itoa_chars: "c \<in> set (Itoa i) \<Longrightarrow> is_digit c \<or> c = CHR ''-''"
  by (auto simp: Itoa_def dest: show_nat_digits split: if_splits)

lemma Itoa_no_colon: "CHR '':'' \<notin> set (Itoa i)"
  using Itoa_chars [of "CHR '':''" i] by (auto simp: is_digit_def)

lemma itoa_digits_show: "0 < n \<Longrightarrow> itoa_digits (int n) buf = show_nat n @ buf"
proof (induction n arbitrary: buf rule: less_induct)
  case (less n)
  have step: "itoa_digits (int n) buf = itoa_digits (int (n div 10)) (digit_char (n mod 10) # buf)"
    using less.prems by (simp add: itoa_digits.simps [of "int n"] zdiv_int nat_mod_distrib)
  show ?case
  proof (cases "n < 10")
    case True
    then show ?thesis using step by (simp add: itoa_digits.simps [of 0] show_nat.simps [of n])
  next
    case False
    then have "itoa_digits (int (n div 10)) (digit_char (n mod 10) # buf) = show_nat (n div 10) @ digit_char (n mod 10) # buf"
      by (intro less.IH) auto
    then show ?thesis using step False by (simp add: show_nat.simps [of n] digit_char_def)
  qed
qed

lemma itoa_Itoa: "itoa n = (if n = - (2 ^ 63) then ''-'' else Itoa n)"
proof -
  have "itoa_digits m [] = show_nat (nat m)" if "0 < m" for m
    using itoa_digits_show [of "nat m" "[]"] that by simp
  then show ?thesis
    by (auto simp: itoa_def Itoa_def Let_def itoa_digits.simps [of "- (2 ^ 63)"] itoa_digits.simps [of "-9223372036854775808"] show_nat.simps [of 0] digit_char_def char_of_def bit_0)
qed

lemma itoa_no_colon: "CHR '':'' \<notin> set (itoa i)"
  using Itoa_no_colon by (simp add: itoa_Itoa)

lemma itoa_inj: "itoa m = itoa n \<Longrightarrow> m = n"
proof -
  have "is_digit (CHR ''-'')" if "show_nat k = ''-''" for k
    using show_nat_digits [of "CHR ''-''" k] that by simp
  then have "Itoa k \<noteq> ''-''" for k
    using show_nat_not_Nil by (auto simp: Itoa_def is_digit_def)
  then show "itoa m = itoa n \<Longrightarrow> m = n" using Itoa_inj by (simp add: itoa_Itoa split: if_splits) metis
qed

lemma diagKey_inj:
  assumes "diagKey f l c = diagKey f' l' c'"
  shows "f = f' \<and> l = l' \<and> c = c'"
proof -
  have "(f @ '':'' @ itoa l) @ CHR '':'' # itoa c = (f' @ '':'' @ itoa l') @ CHR '':'' # itoa c'"
    using assms by (simp add: diagKey_def)
  from split_at_last [OF this itoa_no_colon itoa_no_colon]
  have 1: "f @ CHR '':'' # itoa l = f' @ CHR '':'' # itoa l'" "itoa c = itoa c'" by simp_all
  from split_at_last [OF 1(1) itoa_no_colon itoa_no_colon] 1(2) show ?thesis
    using itoa_inj by blast
qed

lemma finding_key_inj:
  assumes "finding_key f = finding_key g"
    and "CHR '':'' \<notin> set (f_RuleID f)" "CHR '':'' \<notin> set (f_RuleID g)"
  shows "f_File f = f_File g \<and> f_Line f = f_Line g \<and> f_RuleID f = f_RuleID g"
proof -
  have "diagKey (f_File f) (f_Line f) 0 @ CHR '':'' # f_RuleID f =
        diagKey (f_File g) (f_Line g) 0 @ CHR '':'' # f_RuleID g"
    using assms(1) by (simp add: finding_key_def)
  from split_at_last [OF this assms(2,3)] diagKey_inj show ?thesis by blast
qed

lemma token_key_eq_iff:
  "token_key s = token_key t \<longleftrightarrow> pt_file s = pt_file t \<and> pt_line s = pt_line t \<and> pt_col s = pt_col t"
  using diagKey_inj unfolding token_key_def by fastforce

subsection \<open>The scan finds every occurrence\<close>

lemma marker_no_overlap:
  assumes "prefix waiverMarker s" "prefix waiverMarker (drop j s)" "j < length waiverMarker"
  shows "j = 0"
proof (rule ccontr)
  assume "j \<noteq> 0"
  obtain r where s: "s = waiverMarker @ r" using assms(1) by (auto simp: prefix_def)
  have "hd (drop j s) = CHR ''@''" using assms(2) by (auto simp: prefix_def waiverMarker_def)
  moreover have "j < length s" using s assms(3) by simp
  ultimately have "s ! j = CHR ''@''" by (simp add: hd_drop_conv_nth)
  moreover have "s ! j = waiverMarker ! j" using s assms(3) by (simp add: nth_append)
  moreover have "j \<in> {1, 2, 3, 4, 5, 6, 7}" using \<open>j \<noteq> 0\<close> assms(3) by (auto simp: waiverMarker_def)
  ultimately show False by (auto simp: waiverMarker_def)
qed

lemma scan_from_sound:
  "k \<in> set (scan_from off str) \<Longrightarrow> off \<le> k \<and> prefix waiverMarker (drop (k - off) str)"
proof (induction off str rule: scan_from.induct)
  case (1 off str)
  show ?case
  proof (cases "Index str waiverMarker")
    case None
    with "1.prems" show ?thesis by (simp add: scan_from.simps [of off str])
  next
    case (Some i)
    from "1.prems" Some consider "k = off + i"
      | "k \<in> set (scan_from (off + i + length waiverMarker) (drop (i + length waiverMarker) str))"
      by (auto simp: scan_from.simps [of off str])
    then show ?thesis
    proof cases
      case 1
      with Some show ?thesis by (auto dest: Index_SomeD)
    next
      case 2
      with "1.IH" [OF Some] have "off + i + length waiverMarker \<le> k"
        "prefix waiverMarker (drop (k - (off + i + length waiverMarker)) (drop (i + length waiverMarker) str))"
        by auto
      then show ?thesis by (simp add: add.commute add.left_commute)
    qed
  qed
qed

lemma scan_from_complete:
  "prefix waiverMarker (drop j str) \<Longrightarrow> off + j \<in> set (scan_from off str)"
proof (induction off str arbitrary: j rule: scan_from.induct)
  case (1 off str)
  have jl: "j \<le> length str"
    using "1.prems" by (rule_tac ccontr) (auto simp: waiverMarker_def)
  then obtain i where i: "Index str waiverMarker = Some i"
    using "1.prems" Index_None_iff by (metis not_None_eq)
  have ij: "i \<le> j" using Index_least [OF i] "1.prems" by (meson not_le)
  show ?case
  proof (cases "j < i + length waiverMarker")
    case True
    have "prefix waiverMarker (drop i str)" using Index_SomeD [OF i] by simp
    moreover have "prefix waiverMarker (drop (j - i) (drop i str))" using "1.prems" ij by simp
    ultimately have "j - i = 0" using True ij by (intro marker_no_overlap) auto
    with ij i show ?thesis by (simp add: scan_from.simps [of off str])
  next
    case False
    define j' where "j' = j - (i + length waiverMarker)"
    have "prefix waiverMarker (drop j' (drop (i + length waiverMarker) str))"
      using "1.prems" False by (simp add: j'_def)
    from "1.IH" [OF i this] have "off + j \<in> set (scan_from (off + i + length waiverMarker) (drop (i + length waiverMarker) str))"
      using False by (simp add: j'_def)
    with i show ?thesis by (simp add: scan_from.simps [of off str])
  qed
qed

lemma scanOccurrences_iff: "k \<in> set (scanOccurrences str) \<longleftrightarrow> prefix waiverMarker (drop k str)"
  using scan_from_sound [of k 0 str] scan_from_complete [of k str 0]
  by (auto simp: scanOccurrences_def)

lemma scan_from_sorted: "sorted_wrt (<) (scan_from off str)"
proof (induction off str rule: scan_from.induct)
  case (1 off str)
  show ?case
  proof (cases "Index str waiverMarker")
    case (Some i)
    have "\<forall>k\<in>set (scan_from (off + i + length waiverMarker) (drop (i + length waiverMarker) str)).
            off + i < k"
      using scan_from_sound by (fastforce simp: waiverMarker_def)
    with "1.IH" Some show ?thesis by (simp add: scan_from.simps [of off str])
  qed (simp add: scan_from.simps [of off str])
qed


subsection \<open>The harvest groups occurrences by key\<close>

definition harvest_pairs :: "Finding list \<Rightarrow> LineReader \<Rightarrow> (Finding \<times> parsedToken) list" where
  "harvest_pairs findings read =
     concat (map (\<lambda>f. map (Pair f) (harvestWindow f read)) findings)"

definition pairs_at :: "string \<Rightarrow> (Finding \<times> parsedToken) list \<Rightarrow> (Finding \<times> parsedToken) list" where
  "pairs_at k ps = filter (\<lambda>p. token_key (snd p) = k) ps"

definition state_of :: "(Finding \<times> parsedToken) list \<Rightarrow> tokenState option" where
  "state_of qs =
     (case qs of [] \<Rightarrow> None | q # _ \<Rightarrow> Some \<lparr>st_pt = snd q, st_findings = map fst qs\<rparr>)"

lemma fold_fold_concat:
  "fold (\<lambda>f h. fold (g f) (ts f) h) fs h = fold (\<lambda>(f, t). g f t) (concat (map (\<lambda>f. map (Pair f) (ts f)) fs)) h"
proof (induction fs arbitrary: h)
  case (Cons f fs)
  have "fold (\<lambda>(f, t). g f t) (map (Pair f) us) h = fold (g f) us h" for us h
    by (induction us arbitrary: h) auto
  with Cons show ?case by simp
qed simp

lemma harvest_all_pairs:
  "harvest_all fs read = fold (\<lambda>(f, t). harvest_token f t) (harvest_pairs fs read) ([], [])"
  by (simp add: harvest_all_def harvest_pairs_def fold_fold_concat)

lemma harvest_invariant:
  assumes "fold (\<lambda>(f, t). harvest_token f t) ps ([], []) = (m, order)"
  shows "(\<forall>k. map_of m k = state_of (pairs_at k ps)) \<and> distinct order
         \<and> set order = (token_key \<circ> snd) ` set ps"
  using assms
proof (induction ps arbitrary: m order rule: rev_induct)
  case Nil
  then show ?case by (simp add: state_of_def pairs_at_def)
next
  case (snoc p ps)
  obtain f t where p: "p = (f, t)" by (cases p)
  obtain m0 o0 where 0: "fold (\<lambda>(f, t). harvest_token f t) ps ([], []) = (m0, o0)" by fastforce
  note IH = snoc.IH [OF 0]
  let ?k = "token_key t"
  have step: "harvest_token f t (m0, o0) = (m, order)" using snoc.prems 0 p by simp
  have pa: "pairs_at k (ps @ [(f, t)]) = pairs_at k ps @ (if k = ?k then [(f, t)] else [])" for k
    by (simp add: pairs_at_def)
  have ord: "set o0 = (token_key \<circ> snd) ` set ps" "distinct o0" using IH by auto
  show ?case
  proof (cases "pairs_at ?k ps")
    case Nil
    then have no: "map_of m0 ?k = None" using IH by (simp add: state_of_def)
    then have m: "m = map_set ?k \<lparr>st_pt = t, st_findings = [f]\<rparr> m0" "order = o0 @ [?k]"
      using step by (simp_all add: harvest_token_def)
    have "?k \<notin> set o0" using Nil ord by (auto simp: pairs_at_def filter_empty_conv)
    moreover have "map_of m k = state_of (pairs_at k (ps @ [(f, t)]))" for k
      using IH Nil by (auto simp: m pa) (simp add: state_of_def)
    ultimately show ?thesis using m ord p by auto
  next
    case (Cons q qs)
    then have so: "map_of m0 ?k = Some \<lparr>st_pt = snd q, st_findings = map fst (q # qs)\<rparr>"
      using IH by (simp add: state_of_def)
    then have m: "m = map_set ?k \<lparr>st_pt = snd q, st_findings = map fst (q # qs @ [(f, t)])\<rparr> m0"
      "order = o0"
      using step by (simp_all add: harvest_token_def)
    have "q \<in> set (pairs_at ?k ps)" using Cons by simp
    then have "?k \<in> set o0" using ord by (force simp: pairs_at_def)
    moreover have "map_of m k = state_of (pairs_at k (ps @ [(f, t)]))" for k
      using IH Cons by (auto simp: m pa) (simp add: state_of_def)
    ultimately show ?thesis using m ord p by auto
  qed
qed

text \<open>The token states in the order the second loop visits them.\<close>

definition token_states :: "Finding list \<Rightarrow> LineReader \<Rightarrow> tokenState list" where
  "token_states fs read =
     (case harvest_all fs read of (m, order) \<Rightarrow> map (\<lambda>k. the (map_of m k)) order)"

lemma Adjudicate_states:
  "Adjudicate fs (Some read) policy now =
     snd (fold (classify_token policy now) (token_states fs read) ([], empty_result))"
proof -
  obtain m order where h: "harvest_all fs read = (m, order)" by fastforce
  note inv = harvest_invariant [OF h [unfolded harvest_all_pairs]]
  have ex: "map_of m k \<noteq> None" if "k \<in> set order" for k
    using that inv by (auto simp: state_of_def pairs_at_def filter_empty_conv split: list.splits)
  have "fold (\<lambda>key acc. case map_of m key of None \<Rightarrow> acc | Some st \<Rightarrow> classify_token policy now st acc) ks acc
      = fold (classify_token policy now) (map (\<lambda>k. the (map_of m k)) ks) acc"
    if "\<forall>k\<in>set ks. map_of m k \<noteq> None" for ks acc
    using that by (induction ks arbitrary: acc) auto
  from this [of order] ex show ?thesis by (simp add: Adjudicate_def token_states_def h)
qed

lemma token_states_iff:
  "st \<in> set (token_states fs read) \<longleftrightarrow>
     (\<exists>f t. (f, t) \<in> set (harvest_pairs fs read)
        \<and> state_of (pairs_at (token_key t) (harvest_pairs fs read)) = Some st)"
proof -
  obtain m order where h: "harvest_all fs read = (m, order)" by fastforce
  note inv = harvest_invariant [OF h [unfolded harvest_all_pairs]]
  have so: "state_of (pairs_at (token_key t) (harvest_pairs fs read)) \<noteq> None"
    if "(f, t) \<in> set (harvest_pairs fs read)" for f t
  proof -
    have "(f, t) \<in> set (pairs_at (token_key t) (harvest_pairs fs read))"
      using that by (simp add: pairs_at_def)
    then show ?thesis
      by (cases "pairs_at (token_key t) (harvest_pairs fs read)") (simp_all add: state_of_def)
  qed
  have ts: "token_states fs read = map (\<lambda>k. the (state_of (pairs_at k (harvest_pairs fs read)))) order"
    using inv by (simp add: token_states_def h)
  show ?thesis
  proof
    assume "st \<in> set (token_states fs read)"
    then obtain f t where "(f, t) \<in> set (harvest_pairs fs read)"
      "st = the (state_of (pairs_at (token_key t) (harvest_pairs fs read)))"
      using ts inv by auto
    with so show "\<exists>f t. (f, t) \<in> set (harvest_pairs fs read)
        \<and> state_of (pairs_at (token_key t) (harvest_pairs fs read)) = Some st"
      by (metis option.collapse)
  next
    assume "\<exists>f t. (f, t) \<in> set (harvest_pairs fs read)
        \<and> state_of (pairs_at (token_key t) (harvest_pairs fs read)) = Some st"
    then obtain f t where ft: "(f, t) \<in> set (harvest_pairs fs read)"
      "state_of (pairs_at (token_key t) (harvest_pairs fs read)) = Some st" by blast
    then have "token_key t \<in> set order" using inv by (metis comp_apply image_eqI snd_conv)
    with ft(2) ts show "st \<in> set (token_states fs read)" by (metis image_eqI list.set_map option.sel)
  qed
qed

lemma length_token_states:
  "length (token_states fs read) = card ((token_key \<circ> snd) ` set (harvest_pairs fs read))"
proof -
  obtain m order where h: "harvest_all fs read = (m, order)" by fastforce
  note inv = harvest_invariant [OF h [unfolded harvest_all_pairs]]
  then show ?thesis by (metis (no_types, lifting) case_prod_conv distinct_card h length_map token_states_def)
qed


subsection \<open>What a window holds\<close>

lemma harvest_pairs_iff: "(f, t) \<in> set (harvest_pairs fs read) \<longleftrightarrow> f \<in> set fs \<and> t \<in> set (harvestWindow f read)"
  by (auto simp: harvest_pairs_def)

lemma harvest_line_iff:
  "t \<in> set (harvest_line file line str) \<longleftrightarrow>
     pt_file t = file \<and> pt_line t = line \<and> prefix waiverMarker (drop (pt_col t) str)
     \<and> pt_parse t = ParseToken (drop (pt_col t) str) \<lparr>l_File = file, l_Line = line\<rparr>"
  by (cases t) (auto simp: harvest_line_def scanOccurrences_iff image_iff)

lemma harvestWindow_iff:
  "t \<in> set (harvestWindow f read) \<longleftrightarrow>
     (\<exists>line\<in>set (windowLines f). \<exists>str. read (f_File f) line = Some str
        \<and> pt_file t = f_File f \<and> pt_line t = line \<and> prefix waiverMarker (drop (pt_col t) str)
        \<and> pt_parse t = ParseToken (drop (pt_col t) str) \<lparr>l_File = f_File f, l_Line = line\<rparr>)"
proof -
  have "t \<in> set (case r of None \<Rightarrow> [] | Some str \<Rightarrow> h str) \<longleftrightarrow> (\<exists>str. r = Some str \<and> t \<in> set (h str))"
    for r :: "string option" and h
    by (cases r) auto
  then show ?thesis
    unfolding harvestWindow_def set_concat set_map
    by (simp only: harvest_line_iff UN_iff bex_simps image_iff)
qed

lemma harvest_same:
  assumes "(f, t) \<in> set (harvest_pairs fs read)" "(g, u) \<in> set (harvest_pairs fs read)"
    and "token_key t = token_key u"
  shows "t = u"
proof -
  have co: "pt_file t = pt_file u" "pt_line t = pt_line u" "pt_col t = pt_col u"
    using assms(3) by (simp_all add: token_key_eq_iff)
  from assms(1) obtain s where s: "read (pt_file t) (pt_line t) = Some s"
    "pt_parse t = ParseToken (drop (pt_col t) s) \<lparr>l_File = pt_file t, l_Line = pt_line t\<rparr>"
    unfolding harvest_pairs_iff harvestWindow_iff by metis
  from assms(2) obtain r where r: "read (pt_file u) (pt_line u) = Some r"
    "pt_parse u = ParseToken (drop (pt_col u) r) \<lparr>l_File = pt_file u, l_Line = pt_line u\<rparr>"
    unfolding harvest_pairs_iff harvestWindow_iff by metis
  have "pt_parse t = pt_parse u" using s r co by simp
  with co show ?thesis by simp
qed

lemma state_ofE:
  assumes "(f, t) \<in> set ps"
    and same: "\<And>g u. (g, u) \<in> set ps \<Longrightarrow> token_key u = token_key t \<Longrightarrow> u = t"
    and "state_of (pairs_at (token_key t) ps) = Some st"
  shows "st_pt st = t \<and> set (st_findings st) = {g. (g, t) \<in> set ps}"
proof -
  obtain q qs where q: "pairs_at (token_key t) ps = q # qs" "st = \<lparr>st_pt = snd q, st_findings = map fst (q # qs)\<rparr>"
    using assms(3) by (auto simp: state_of_def split: list.splits)
  have in_iff: "(g, u) \<in> set (q # qs) \<longleftrightarrow> (g, u) \<in> set ps \<and> u = t" for g u
    using same by (auto simp: q(1) [symmetric] pairs_at_def)
  have "snd q = t" using in_iff [of "fst q" "snd q"] by simp
  moreover have "fst ` set (q # qs) = {g. (g, t) \<in> set ps}"
  proof (intro equalityI subsetI)
    fix g
    assume "g \<in> fst ` set (q # qs)"
    then obtain u where "(g, u) \<in> set (q # qs)" by (metis imageE prod.collapse)
    then show "g \<in> {g. (g, t) \<in> set ps}" unfolding in_iff by (elim conjE) simp
  next
    fix g
    assume "g \<in> {g. (g, t) \<in> set ps}"
    then have "(g, t) \<in> set (q # qs)" unfolding in_iff by simp
    then show "g \<in> fst ` set (q # qs)" by (metis fst_conv image_eqI)
  qed
  ultimately show ?thesis using q(2) by simp
qed

lemma token_stateE:
  assumes "st \<in> set (token_states fs read)"
  obtains f where "(f, st_pt st) \<in> set (harvest_pairs fs read)"
    "set (st_findings st) = {g. (g, st_pt st) \<in> set (harvest_pairs fs read)}"
proof -
  from assms obtain f t where ft: "(f, t) \<in> set (harvest_pairs fs read)"
    "state_of (pairs_at (token_key t) (harvest_pairs fs read)) = Some st"
    unfolding token_states_iff by blast
  have "st_pt st = t \<and> set (st_findings st) = {g. (g, t) \<in> set (harvest_pairs fs read)}"
    by (rule state_ofE [OF ft(1) _ ft(2)]) (rule harvest_same [OF _ ft(1)])
  with ft(1) that show ?thesis by blast
qed

lemma token_state_for:
  assumes "(f, t) \<in> set (harvest_pairs fs read)"
  obtains st where "st \<in> set (token_states fs read)" "st_pt st = t"
    "set (st_findings st) = {g. (g, t) \<in> set (harvest_pairs fs read)}"
proof -
  have "(f, t) \<in> set (pairs_at (token_key t) (harvest_pairs fs read))"
    using assms by (simp add: pairs_at_def)
  then obtain st where "state_of (pairs_at (token_key t) (harvest_pairs fs read)) = Some st"
    by (cases "pairs_at (token_key t) (harvest_pairs fs read)") (auto simp: state_of_def)
  moreover from this have "st_pt st = t \<and> set (st_findings st) = {g. (g, t) \<in> set (harvest_pairs fs read)}"
    by (rule_tac state_ofE [OF assms _]) (rule harvest_same [OF _ assms])
  ultimately show ?thesis using that token_states_iff assms by blast
qed

subsection \<open>What the classification keeps\<close>

text \<open>The token is active: it parsed, it matches, the policy lets it through, it is not expired.\<close>

definition active_token :: "WaiverPolicy option \<Rightarrow> GoTime \<Rightarrow> tokenState \<Rightarrow> Waiver \<Rightarrow> bool" where
  "active_token policy now st w \<longleftrightarrow>
     pt_parse (st_pt st) = Inr w \<and> matchingFindings st (w_RuleID w) \<noteq> []
     \<and> \<not> policy_refuses policy (w_RuleID w) (f_Severity (hd (matchingFindings st (w_RuleID w))))
     \<and> \<not> Expired w now"

lemma suppress_all_facts:
  "suppress_all fs seen out = (seen', out') \<Longrightarrow> set seen = finding_key ` set out \<Longrightarrow>
   set seen' = set seen \<union> finding_key ` set fs \<and> set seen' = finding_key ` set out'
   \<and> set out' \<subseteq> set out \<union> set fs"
proof (induction fs arbitrary: seen out)
  case Nil
  then show ?case by simp
next
  case (Cons f fs)
  show ?case
  proof (cases "finding_key f \<in> set seen")
    case True
    with Cons show ?thesis by fastforce
  next
    case False
    with Cons.prems have "suppress_all fs (finding_key f # seen) (out @ [f]) = (seen', out')" by simp
    from Cons.IH [OF this] Cons.prems(2) show ?thesis by auto
  qed
qed

text \<open>The five ways a token is counted.\<close>

definition token_count :: "Result \<Rightarrow> nat" where
  "token_count res =
     length (r_Malformed res) + length (r_Unused res) + length (r_NonWaivable res)
     + length (r_Expired res) + length (r_Active res)"

definition classified ::
  "WaiverPolicy option \<Rightarrow> GoTime \<Rightarrow> tokenState list \<Rightarrow> string list \<times> Result \<Rightarrow> bool" where
  "classified policy now sts acc \<longleftrightarrow>
     (case acc of (seen, res) \<Rightarrow>
        set seen = finding_key ` set (r_Suppressed res)
        \<and> (\<forall>g\<in>set (r_Suppressed res). \<exists>st\<in>set sts. \<exists>w. active_token policy now st w
               \<and> g \<in> set (matchingFindings st (w_RuleID w)))
        \<and> (\<forall>st\<in>set sts. \<forall>w. active_token policy now st w
               \<longrightarrow> (\<forall>g\<in>set (matchingFindings st (w_RuleID w)). finding_key g \<in> set seen))
        \<and> set (r_Active res) = {w. \<exists>st\<in>set sts. active_token policy now st w}
        \<and> set (r_Expiring res) = {w\<in>set (r_Active res). Sub (w_Expiry w) now \<le> graceWindow}
        \<and> r_Unbound res = []
        \<and> token_count res = length sts)"

lemma classified_Nil: "classified policy now [] ([], empty_result)"
  by (simp add: classified_def empty_result_def token_count_def)

lemma classify_token_inactive:
  assumes "\<nexists>w. active_token policy now st w"
  shows "\<exists>res'. classify_token policy now st (seen, res) = (seen, res')
     \<and> r_Suppressed res' = r_Suppressed res \<and> r_Active res' = r_Active res
     \<and> r_Expiring res' = r_Expiring res \<and> r_Unbound res' = r_Unbound res
     \<and> token_count res' = Suc (token_count res)"
proof (cases "pt_parse (st_pt st)")
  case (Inl e)
  then show ?thesis by (simp add: classify_token_def token_count_def)
next
  case (Inr w)
  with assms have "matchingFindings st (w_RuleID w) = []
    \<or> policy_refuses policy (w_RuleID w) (f_Severity (hd (matchingFindings st (w_RuleID w))))
    \<or> Expired w now" by (auto simp: active_token_def)
  with Inr show ?thesis
    by (cases "matchingFindings st (w_RuleID w)")
       (auto simp: classify_token_def token_count_def)
qed

lemma classify_token_active:
  assumes "active_token policy now st w"
    and "suppress_all (matchingFindings st (w_RuleID w)) seen (r_Suppressed res) = (seen', out')"
  shows "classify_token policy now st (seen, res) =
     (seen', res\<lparr>r_Active := r_Active res @ [w],
                 r_Expiring := (if Sub (w_Expiry w) now \<le> graceWindow
                                then r_Expiring res @ [w] else r_Expiring res),
                 r_Suppressed := out'\<rparr>)"
  using assms
  by (cases "matchingFindings st (w_RuleID w)")
     (auto simp: active_token_def classify_token_def)

lemma active_token_unique: "active_token policy now st w \<Longrightarrow> active_token policy now st v \<Longrightarrow> v = w"
  by (simp add: active_token_def)

lemma classified_step:
  assumes "classified policy now sts acc"
  shows "classified policy now (sts @ [st]) (classify_token policy now st acc)"
proof (cases "\<exists>w. active_token policy now st w")
  case False
  obtain seen res where acc: "acc = (seen, res)" by (cases acc)
  from classify_token_inactive [OF False, of seen res] assms False show ?thesis
    by (auto simp: acc classified_def)
next
  case True
  then obtain w where w: "active_token policy now st w" by blast
  obtain seen res where acc: "acc = (seen, res)" by (cases acc)
  obtain seen' out' where s: "suppress_all (matchingFindings st (w_RuleID w)) seen (r_Suppressed res) = (seen', out')"
    by fastforce
  have seen: "set seen = finding_key ` set (r_Suppressed res)" using assms by (simp add: acc classified_def)
  note facts = suppress_all_facts [OF s seen]
  let ?res = "res\<lparr>r_Active := r_Active res @ [w],
                 r_Expiring := (if Sub (w_Expiry w) now \<le> graceWindow
                                then r_Expiring res @ [w] else r_Expiring res),
                 r_Suppressed := out'\<rparr>"
  have uniq: "active_token policy now st v \<longleftrightarrow> v = w" for v using active_token_unique [OF w] w by blast
  have old: "\<forall>g\<in>set (r_Suppressed res). \<exists>st\<in>set sts. \<exists>w. active_token policy now st w
               \<and> g \<in> set (matchingFindings st (w_RuleID w))"
    "\<forall>st\<in>set sts. \<forall>w. active_token policy now st w
               \<longrightarrow> (\<forall>g\<in>set (matchingFindings st (w_RuleID w)). finding_key g \<in> set seen)"
    "set (r_Active res) = {w. \<exists>st\<in>set sts. active_token policy now st w}"
    "set (r_Expiring res) = {w\<in>set (r_Active res). Sub (w_Expiry w) now \<le> graceWindow}"
    "r_Unbound res = []" "token_count res = length sts"
    using assms unfolding acc classified_def prod.case by - (elim conjE, assumption)+
  have "\<forall>g\<in>set out'. \<exists>st\<in>set (sts @ [st]). \<exists>w. active_token policy now st w
               \<and> g \<in> set (matchingFindings st (w_RuleID w))"
  proof
    fix g
    assume "g \<in> set out'"
    with facts consider "g \<in> set (r_Suppressed res)" | "g \<in> set (matchingFindings st (w_RuleID w))" by blast
    then show "\<exists>st\<in>set (sts @ [st]). \<exists>w. active_token policy now st w
               \<and> g \<in> set (matchingFindings st (w_RuleID w))"
      using old(1) w by cases fastforce+
  qed
  moreover have "\<forall>s\<in>set (sts @ [st]). \<forall>w. active_token policy now s w
               \<longrightarrow> (\<forall>g\<in>set (matchingFindings s (w_RuleID w)). finding_key g \<in> set seen')"
    using old(2) facts uniq by simp
  moreover have "set (r_Active res @ [w]) = {w. \<exists>s\<in>set (sts @ [st]). active_token policy now s w}"
    using old(3) uniq by auto
  moreover have "set (if Sub (w_Expiry w) now \<le> graceWindow then r_Expiring res @ [w] else r_Expiring res)
     = {v\<in>set (r_Active res @ [w]). Sub (w_Expiry v) now \<le> graceWindow}"
    using old(4) by auto
  moreover have "set seen' = finding_key ` set out'" using facts by blast
  moreover have "r_Suppressed ?res = out'" "r_Active ?res = r_Active res @ [w]"
    "r_Expiring ?res = (if Sub (w_Expiry w) now \<le> graceWindow then r_Expiring res @ [w] else r_Expiring res)"
    "r_Unbound ?res = []" "token_count ?res = length (sts @ [st])"
    using old(5,6) by (simp_all add: token_count_def)
  ultimately show ?thesis
    unfolding acc classify_token_active [OF w s] classified_def prod.case by (simp only: conj_ac simp_thms)
qed

lemma classified_fold:
  "classified policy now sts0 acc \<Longrightarrow>
   classified policy now (sts0 @ sts) (fold (classify_token policy now) sts acc)"
proof (induction sts arbitrary: sts0 acc)
  case (Cons st sts)
  from Cons.IH [OF classified_step [OF Cons.prems, of st]] show ?case by simp
qed simp

lemma Adjudicate_classified:
  "\<exists>seen. classified policy now (token_states fs read) (seen, Adjudicate fs (Some read) policy now)"
  using classified_fold [OF classified_Nil, of policy now "token_states fs read"]
  unfolding Adjudicate_states by (metis append_Nil prod.collapse)

subsection \<open>Specification of suppression\<close>

text \<open>An unexpired token for the finding's rule stands somewhere in the finding's window.\<close>

definition shields :: "LineReader \<Rightarrow> GoTime \<Rightarrow> Finding \<Rightarrow> Waiver \<Rightarrow> bool" where
  "shields read now f w \<longleftrightarrow>
     (\<exists>line\<in>set (windowLines f). \<exists>str col. read (f_File f) line = Some str
        \<and> prefix waiverMarker (drop col str)
        \<and> ParseToken (drop col str) \<lparr>l_File = f_File f, l_Line = line\<rparr> = Inr w
        \<and> w_RuleID w = f_RuleID f \<and> \<not> Expired w now)"

definition same_site :: "Finding \<Rightarrow> Finding \<Rightarrow> bool" where
  "same_site g f \<longleftrightarrow> f_File g = f_File f \<and> f_Line g = f_Line f \<and> f_RuleID g = f_RuleID f"

lemma shields_harvest:
  "shields read now f w \<longleftrightarrow>
     (\<exists>t\<in>set (harvestWindow f read). pt_parse t = Inr w \<and> w_RuleID w = f_RuleID f \<and> \<not> Expired w now)"
proof
  assume "shields read now f w"
  then obtain line str col where *: "line \<in> set (windowLines f)" "read (f_File f) line = Some str"
    "prefix waiverMarker (drop col str)"
    "ParseToken (drop col str) \<lparr>l_File = f_File f, l_Line = line\<rparr> = Inr w"
    "w_RuleID w = f_RuleID f" "\<not> Expired w now"
    unfolding shields_def by metis
  let ?t = "\<lparr>pt_parse = Inr w, pt_file = f_File f, pt_line = line, pt_col = col\<rparr>"
  have "?t \<in> set (harvestWindow f read)" unfolding harvestWindow_iff
    using * by (intro bexI [OF _ *(1)] exI [of _ str]) simp
  with * show "\<exists>t\<in>set (harvestWindow f read). pt_parse t = Inr w \<and> w_RuleID w = f_RuleID f \<and> \<not> Expired w now"
    by (intro bexI [of _ ?t]) simp_all
next
  assume "\<exists>t\<in>set (harvestWindow f read). pt_parse t = Inr w \<and> w_RuleID w = f_RuleID f \<and> \<not> Expired w now"
  then obtain t where t: "t \<in> set (harvestWindow f read)" "pt_parse t = Inr w" "w_RuleID w = f_RuleID f"
    "\<not> Expired w now" by blast
  from t(1) obtain line str where "line \<in> set (windowLines f)" "read (f_File f) line = Some str"
    "prefix waiverMarker (drop (pt_col t) str)"
    "pt_parse t = ParseToken (drop (pt_col t) str) \<lparr>l_File = f_File f, l_Line = line\<rparr>"
    unfolding harvestWindow_iff by metis
  with t(2-) show "shields read now f w" unfolding shields_def by metis
qed

lemma shields_rule: "shields read now f w \<Longrightarrow> CHR '':'' \<notin> set (f_RuleID f)"
  unfolding shields_def using ParseToken_InrD by metis

lemma shields_same_site: "shields read now g w \<Longrightarrow> same_site g f \<Longrightarrow> shields read now f w"
proof -
  assume "shields read now g w" "same_site g f"
  moreover from this(2) have "windowLines g = windowLines f" "f_File g = f_File f" "f_RuleID g = f_RuleID f"
    by (simp_all add: same_site_def windowLines_def)
  ultimately show ?thesis unfolding shields_def by (simp only:)
qed

lemma Adjudicate_sound:
  assumes "g \<in> set (r_Suppressed (Adjudicate fs (Some read) policy now))"
  shows "g \<in> set fs \<and> (\<exists>w. shields read now g w \<and> w \<in> set (r_Active (Adjudicate fs (Some read) policy now)))"
proof -
  obtain seen where c: "classified policy now (token_states fs read) (seen, Adjudicate fs (Some read) policy now)"
    using Adjudicate_classified by blast
  then obtain st w where st: "st \<in> set (token_states fs read)" "active_token policy now st w"
    "g \<in> set (matchingFindings st (w_RuleID w))"
    using assms unfolding classified_def prod.case by blast
  have act: "w \<in> set (r_Active (Adjudicate fs (Some read) policy now))"
    using c st unfolding classified_def prod.case by blast
  from st(3) have g: "g \<in> set (st_findings st)" "f_RuleID g = w_RuleID w"
    by (simp_all add: matchingFindings_def)
  obtain f where "set (st_findings st) = {g. (g, st_pt st) \<in> set (harvest_pairs fs read)}"
    using token_stateE [OF st(1)] by blast
  with g(1) have "g \<in> set fs" "st_pt st \<in> set (harvestWindow g read)" by (simp_all add: harvest_pairs_iff)
  moreover have "pt_parse (st_pt st) = Inr w" "\<not> Expired w now" using st(2) by (simp_all add: active_token_def)
  ultimately show ?thesis using g(2) act shields_harvest by auto
qed

lemma Adjudicate_complete:
  assumes "f \<in> set fs" "shields read now f w"
    and pol: "\<And>g. g \<in> set fs \<Longrightarrow> f_RuleID g = f_RuleID f \<Longrightarrow> \<not> policy_refuses policy (f_RuleID g) (f_Severity g)"
  shows "\<exists>g\<in>set (r_Suppressed (Adjudicate fs (Some read) policy now)). same_site g f"
proof -
  obtain t where t: "t \<in> set (harvestWindow f read)" "pt_parse t = Inr w" "w_RuleID w = f_RuleID f" "\<not> Expired w now"
    using assms(2) unfolding shields_harvest by blast
  with assms(1) have "(f, t) \<in> set (harvest_pairs fs read)" by (simp add: harvest_pairs_iff)
  from token_state_for [OF this] obtain st where st: "st \<in> set (token_states fs read)" "st_pt st = t"
    "set (st_findings st) = {g. (g, t) \<in> set (harvest_pairs fs read)}" by blast
  have f: "f \<in> set (matchingFindings st (w_RuleID w))"
    using st(3) t assms(1) by (simp add: matchingFindings_def harvest_pairs_iff)
  then have ne: "matchingFindings st (w_RuleID w) \<noteq> []" by auto
  have "hd (matchingFindings st (w_RuleID w)) \<in> set (matchingFindings st (w_RuleID w))" using ne by simp
  then have "hd (matchingFindings st (w_RuleID w)) \<in> set fs" "f_RuleID (hd (matchingFindings st (w_RuleID w))) = f_RuleID f"
    using st(3) t(3) by (simp_all add: matchingFindings_def harvest_pairs_iff)
  from pol [OF this] this(2) have "\<not> policy_refuses policy (w_RuleID w) (f_Severity (hd (matchingFindings st (w_RuleID w))))"
    by (simp add: t(3))
  with ne st(2) t have "active_token policy now st w" by (simp add: active_token_def)
  moreover obtain seen where "classified policy now (token_states fs read) (seen, Adjudicate fs (Some read) policy now)"
    using Adjudicate_classified by blast
  ultimately have "finding_key f \<in> finding_key ` set (r_Suppressed (Adjudicate fs (Some read) policy now))"
    using st(1) f unfolding classified_def prod.case by blast
  then obtain g where g: "g \<in> set (r_Suppressed (Adjudicate fs (Some read) policy now))"
    "finding_key g = finding_key f" by force
  from g(1) have "CHR '':'' \<notin> set (f_RuleID g)" using Adjudicate_sound shields_rule by blast
  from finding_key_inj [OF g(2) this shields_rule [OF assms(2)]] g(1) show ?thesis
    by (auto simp: same_site_def)
qed

text \<open>C4: Refinement of the specification.  When the policy lets the finding's rule through, the
  scan suppresses a finding at its site (file, line and rule) exactly when some unexpired
  well-formed token for its rule stands at some byte of its two-line window.\<close>

theorem Adjudicate_refines_shields:
  assumes "f \<in> set fs"
    and "\<And>g. g \<in> set fs \<Longrightarrow> f_RuleID g = f_RuleID f \<Longrightarrow> \<not> policy_refuses policy (f_RuleID g) (f_Severity g)"
  shows "(\<exists>g\<in>set (r_Suppressed (Adjudicate fs (Some read) policy now)). same_site g f)
         \<longleftrightarrow> (\<exists>w. shields read now f w)"
  using Adjudicate_complete [OF assms(1) _ assms(2)] Adjudicate_sound shields_same_site by metis

lemma Adjudicate_policy:
  assumes "g \<in> set (r_Suppressed (Adjudicate fs reader policy now))"
  obtains h where "h \<in> set fs" "f_RuleID h = f_RuleID g"
    "\<not> policy_refuses policy (f_RuleID g) (f_Severity h)"
proof -
  obtain read where r: "reader = Some read" using assms by (cases reader) (simp_all add: Adjudicate_def empty_result_def)
  obtain seen where c: "classified policy now (token_states fs read) (seen, Adjudicate fs (Some read) policy now)"
    using Adjudicate_classified by blast
  then obtain st w where st: "st \<in> set (token_states fs read)" "active_token policy now st w"
    "g \<in> set (matchingFindings st (w_RuleID w))"
    using assms unfolding r classified_def prod.case by blast
  let ?h = "hd (matchingFindings st (w_RuleID w))"
  have "?h \<in> set (matchingFindings st (w_RuleID w))" using st(3) by (intro hd_in_set) auto
  then have h: "?h \<in> set (st_findings st)" "f_RuleID ?h = w_RuleID w" by (simp_all add: matchingFindings_def)
  have "set (st_findings st) = {g. (g, st_pt st) \<in> set (harvest_pairs fs read)}"
    using token_stateE [OF st(1)] by blast
  with h(1) have "?h \<in> set fs" by (simp add: harvest_pairs_iff)
  moreover have "f_RuleID g = w_RuleID w" using st(3) by (simp add: matchingFindings_def)
  moreover have "\<not> policy_refuses policy (w_RuleID w) (f_Severity ?h)" using st(2) by (simp add: active_token_def)
  ultimately show ?thesis using that h(2) by simp
qed

subsection \<open>The contract of a waiver policy\<close>

text \<open>What adjudication relies on: a policy that refuses a banned rule whatever the severity, and a
  banned severity whatever the rule.\<close>

locale waiver_policy =
  fixes waivable :: WaiverPolicy
    and banned_rule :: "string \<Rightarrow> bool"
    and banned_severity :: "string \<Rightarrow> bool"
  assumes rule_refused: "banned_rule r \<Longrightarrow> \<not> waivable r s"
    and severity_refused: "banned_severity s \<Longrightarrow> \<not> waivable r s"
    and otherwise_waivable: "\<not> banned_rule r \<Longrightarrow> \<not> banned_severity s \<Longrightarrow> waivable r s"
begin

lemma banned_rule_kept:
  assumes "banned_rule (f_RuleID g)"
  shows "g \<notin> set (r_Suppressed (Adjudicate fs reader (Some waivable) now))"
proof
  assume "g \<in> set (r_Suppressed (Adjudicate fs reader (Some waivable) now))"
  then obtain h where "h \<in> set fs" "f_RuleID h = f_RuleID g"
    "\<not> policy_refuses (Some waivable) (f_RuleID g) (f_Severity h)"
    by (rule Adjudicate_policy)
  with rule_refused [OF assms] show False by (simp add: policy_refuses_def)
qed

lemma banned_severity_kept:
  assumes "\<And>h. h \<in> set fs \<Longrightarrow> f_RuleID h = f_RuleID g \<Longrightarrow> banned_severity (f_Severity h)"
  shows "g \<notin> set (r_Suppressed (Adjudicate fs reader (Some waivable) now))"
proof
  assume "g \<in> set (r_Suppressed (Adjudicate fs reader (Some waivable) now))"
  then obtain h where h: "h \<in> set fs" "f_RuleID h = f_RuleID g"
    "\<not> policy_refuses (Some waivable) (f_RuleID g) (f_Severity h)"
    by (rule Adjudicate_policy)
  with severity_refused [OF assms [OF h(1,2)]] show False by (simp add: policy_refuses_def)
qed

lemma waivable_suppressed:
  assumes "f \<in> set fs" "shields read now f w" "\<not> banned_rule (f_RuleID f)"
    and "\<And>h. h \<in> set fs \<Longrightarrow> f_RuleID h = f_RuleID f \<Longrightarrow> \<not> banned_severity (f_Severity h)"
  shows "\<exists>g\<in>set (r_Suppressed (Adjudicate fs (Some read) (Some waivable) now)). same_site g f"
  using assms otherwise_waivable
  by (intro Adjudicate_complete [OF assms(1,2)]) (simp add: policy_refuses_def)

end

interpretation declared: waiver_policy "Waivable (Some p)" "\<lambda>r. r \<in> set (dp_rules p)"
  "\<lambda>s. ToLower (TrimSpace s) \<in> set (dp_severities p)" for p
  by unfold_locales (simp_all add: Waivable_def)

text \<open>C6: A finding whose rule the configuration declares non-waivable is never suppressed, by
  any token anywhere, whatever its severity.\<close>

theorem declared_rule_never_suppressed:
  assumes "r \<in> set rules" "TrimSpace r = f_RuleID g" "f_RuleID g \<noteq> []"
  shows "g \<notin> set (r_Suppressed (Adjudicate fs reader (Some (Waivable (Some (NewDeclaredPolicy rules sevs)))) now))"
  using assms by (intro declared.banned_rule_kept) (simp add: NewDeclaredPolicy_def image_iff, metis)

theorem declared_rule_never_suppressed_witness:
  "\<lparr>f_RuleID = ''sec/x/r1'', f_File = ''a.go'', f_Line = 3, f_EndLine = 3, f_Severity = ''critical''\<rparr> \<notin>
     set (r_Suppressed (Adjudicate [\<lparr>f_RuleID = ''sec/x/r1'', f_File = ''a.go'', f_Line = 3, f_EndLine = 3, f_Severity = ''critical''\<rparr>]
       (Some (\<lambda>f l. Some ''// @waiver:sec/x/r1:deferred:2999-01-01''))
       (Some (Waivable (Some (NewDeclaredPolicy [''sec/x/r1''] [])))) \<lparr>instant = 0, zone = UTC\<rparr>))"
  by (rule declared_rule_never_suppressed [of "''sec/x/r1''"]) (simp, code_simp, simp)

text \<open>Every occurrence of the marker in the windows is classified exactly once: the malformed,
  unused, non-waivable, expired and active tokens together are as many as the distinct
  positions (file, line, byte) at which the marker stands in some finding's window.\<close>

theorem Adjudicate_partitions_occurrences:
  "token_count (Adjudicate fs (Some read) policy now) =
     card {(file, line, col). \<exists>f\<in>set fs. \<exists>str. file = f_File f \<and> line \<in> set (windowLines f)
             \<and> read file line = Some str \<and> prefix waiverMarker (drop col str)}"
  (is "_ = card ?occ")
proof -
  let ?at = "\<lambda>t. (pt_file t, pt_line t, pt_col t)"
  obtain seen where "classified policy now (token_states fs read) (seen, Adjudicate fs (Some read) policy now)"
    using Adjudicate_classified by blast
  then have "token_count (Adjudicate fs (Some read) policy now) = length (token_states fs read)"
    unfolding classified_def prod.case by blast
  also have "\<dots> = card (token_key ` snd ` set (harvest_pairs fs read))"
    by (simp add: length_token_states image_comp)
  also have "\<dots> = card (?at ` snd ` set (harvest_pairs fs read))"
  proof -
    have "inj_on (\<lambda>(f, l, c). diagKey f l (int c)) (?at ` snd ` set (harvest_pairs fs read))"
      using diagKey_inj by (fastforce simp: inj_on_def)
    from card_image [OF this] show ?thesis by (simp add: image_image token_key_def)
  qed
  also have "?at ` snd ` set (harvest_pairs fs read) = ?occ"
  proof (intro equalityI subsetI)
    fix x
    assume "x \<in> ?at ` snd ` set (harvest_pairs fs read)"
    then obtain f t where ft: "(f, t) \<in> set (harvest_pairs fs read)" "x = ?at t" by force
    then show "x \<in> ?occ" unfolding harvest_pairs_iff harvestWindow_iff by force
  next
    fix x
    assume "x \<in> ?occ"
    then obtain f line col str where x: "x = (f_File f, line, col)" "f \<in> set fs" "line \<in> set (windowLines f)"
      "read (f_File f) line = Some str" "prefix waiverMarker (drop col str)" by force
    let ?t = "\<lparr>pt_parse = ParseToken (drop col str) \<lparr>l_File = f_File f, l_Line = line\<rparr>,
                pt_file = f_File f, pt_line = line, pt_col = col\<rparr>"
    have "?t \<in> set (harvestWindow f read)" unfolding harvestWindow_iff
      using x by (intro bexI [OF _ x(3)] exI [of _ str]) simp
    with x have "(f, ?t) \<in> set (harvest_pairs fs read)" "x = ?at (snd (f, ?t))"
      by (simp_all add: harvest_pairs_iff)
    then show "x \<in> ?at ` snd ` set (harvest_pairs fs read)" by (metis (no_types, lifting) image_eqI)
  qed
  finally show ?thesis .
qed

text \<open>The active list holds exactly live waivers: no active waiver is expired, its reason is in
  the closed set, it was harvested for a finding of the run, and the expiring list is the
  active waivers whose expiry falls inside the thirty-day grace window.\<close>

theorem Adjudicate_active_live:
  assumes "w \<in> set (r_Active (Adjudicate fs (Some read) policy now))"
  shows "\<not> Expired w now \<and> validReason (w_Reason w) \<and> (\<exists>f\<in>set fs. shields read now f w)
    \<and> (w \<in> set (r_Expiring (Adjudicate fs (Some read) policy now)) \<longleftrightarrow> Sub (w_Expiry w) now \<le> 30 * day_ns)"
proof -
  obtain seen where c: "classified policy now (token_states fs read) (seen, Adjudicate fs (Some read) policy now)"
    using Adjudicate_classified by blast
  then obtain st where st: "st \<in> set (token_states fs read)" "active_token policy now st w"
    using assms unfolding classified_def prod.case by blast
  from st(2) obtain f where f: "f \<in> set (matchingFindings st (w_RuleID w))"
    unfolding active_token_def by (meson last_in_set)
  have "set (st_findings st) = {g. (g, st_pt st) \<in> set (harvest_pairs fs read)}"
    using token_stateE [OF st(1)] by blast
  with f have "f \<in> set fs" "st_pt st \<in> set (harvestWindow f read)" "f_RuleID f = w_RuleID w"
    by (simp_all add: matchingFindings_def harvest_pairs_iff)
  moreover have "pt_parse (st_pt st) = Inr w" "\<not> Expired w now" using st(2) by (simp_all add: active_token_def)
  ultimately have sh: "f \<in> set fs" "shields read now f w" "\<not> Expired w now" by (auto simp: shields_harvest)
  have "validReason (w_Reason w)" using sh(2) ParseToken_InrD unfolding shields_def by metis
  moreover have "w \<in> set (r_Expiring (Adjudicate fs (Some read) policy now)) \<longleftrightarrow> Sub (w_Expiry w) now \<le> graceWindow"
    using c assms unfolding classified_def prod.case by blast
  moreover have "graceWindow = 30 * day_ns" by (simp add: graceWindow_def day_ns_def)
  ultimately show ?thesis using sh by auto
qed

subsection \<open>Concrete runs\<close>

definition at_epoch :: GoTime where "at_epoch = \<lparr>instant = 0, zone = UTC\<rparr>"

definition demo_finding :: "string \<Rightarrow> Finding" where
  "demo_finding sev = \<lparr>f_RuleID = ''acme/sec/r1'', f_File = ''a.go'', f_Line = 3, f_EndLine = 3, f_Severity = sev\<rparr>"

definition demo_reader :: LineReader where
  "demo_reader file line =
     (if file = ''a.go'' \<and> line = 2 then Some ''// @waiver:acme/sec/r1:deferred:2999-01-01 #12'' else Some [])"

theorem Adjudicate_refines_shields_witness:
  "(\<exists>g\<in>set (r_Suppressed (Adjudicate [demo_finding ''low''] (Some demo_reader) None at_epoch)).
      same_site g (demo_finding ''low'')) \<longleftrightarrow> (\<exists>w. shields demo_reader at_epoch (demo_finding ''low'') w)"
  by (rule Adjudicate_refines_shields) (simp_all add: policy_refuses_def)

lemma demo_active: "length (r_Active (Adjudicate [demo_finding ''low''] (Some demo_reader) None at_epoch)) = 1"
  by code_simp

theorem Adjudicate_active_live_witness:
  "\<exists>w\<in>set (r_Active (Adjudicate [demo_finding ''low''] (Some demo_reader) None at_epoch)).
     \<not> Expired w at_epoch \<and> validReason (w_Reason w) \<and> (\<exists>f\<in>set [demo_finding ''low'']. shields demo_reader at_epoch f w)
    \<and> (w \<in> set (r_Expiring (Adjudicate [demo_finding ''low''] (Some demo_reader) None at_epoch))
        \<longleftrightarrow> Sub (w_Expiry w) at_epoch \<le> 30 * day_ns)"
proof -
  obtain w where "w \<in> set (r_Active (Adjudicate [demo_finding ''low''] (Some demo_reader) None at_epoch))"
    using demo_active by (metis length_0_conv list.set_intros(1) neq_Nil_conv zero_neq_one)
  then show ?thesis using Adjudicate_active_live by (intro bexI)
qed

text \<open>The severity tier is not kept per finding.  Two findings of one rule on adjacent lines
  share a token on the line between them; the policy is asked with the severity of the first
  only, so the second, of a severity declared non-waivable, is suppressed as well.\<close>

theorem severity_tier_bypassed:
  "f_Severity (demo_finding ''critical'' \<lparr>f_Line := 4\<rparr>) = ''critical''
   \<and> \<not> Waivable (Some (NewDeclaredPolicy [] [''critical''])) ''acme/sec/r1'' ''critical''
   \<and> map f_Severity (r_Suppressed (Adjudicate [demo_finding ''warning'', demo_finding ''critical'' \<lparr>f_Line := 4\<rparr>]
        (Some (\<lambda>file line. if line = 3 then Some ''@waiver:acme/sec/r1:deferred:2999-01-01'' else None))
        (Some (Waivable (Some (NewDeclaredPolicy [] [''critical''])))) at_epoch)) = [''warning'', ''critical'']"
  by code_simp

subsection \<open>The unbound scan\<close>

lemma harvest_line_parse_iff:
  "(\<exists>t\<in>set (harvest_line file line str). pt_parse t = Inr w) \<longleftrightarrow>
   (\<exists>col. prefix waiverMarker (drop col str)
      \<and> ParseToken (drop col str) \<lparr>l_File = file, l_Line = line\<rparr> = Inr w)"
  unfolding harvest_line_def set_map bex_simps parsedToken.select_convs scanOccurrences_iff Bex_def
    image_iff by force

lemma harvest_tokens_from_iff:
  "w \<in> set (harvest_tokens_from file i ls) \<longleftrightarrow>
     (\<exists>n col. n < length ls \<and> prefix waiverMarker (drop col (ls ! n))
        \<and> ParseToken (drop col (ls ! n)) \<lparr>l_File = file, l_Line = i + int n + 1\<rparr> = Inr w)"
  (is "_ \<longleftrightarrow> ?R i ls")
proof (induction ls arbitrary: i)
  case (Cons str ls)
  let ?P = "\<lambda>i ls n. \<exists>col. prefix waiverMarker (drop col (ls ! n))
        \<and> ParseToken (drop col (ls ! n)) \<lparr>l_File = file, l_Line = i + int n + 1\<rparr> = Inr w"
  have cc: "w \<in> set (concat (map (\<lambda>tok. case pt_parse tok of Inl _ \<Rightarrow> [] | Inr w \<Rightarrow> [w]) ts)) \<longleftrightarrow>
      (\<exists>t\<in>set ts. pt_parse t = Inr w)" for ts
    by (induction ts) (auto split: sum.splits)
  have hd: "w \<in> set (concat (map (\<lambda>tok. case pt_parse tok of Inl _ \<Rightarrow> [] | Inr w \<Rightarrow> [w])
                 (harvest_line file (i + 1) str))) \<longleftrightarrow> ?P i (str # ls) 0"
    unfolding cc harvest_line_parse_iff by simp
  have "?R i (str # ls) \<longleftrightarrow> (\<exists>n<Suc (length ls). ?P i (str # ls) n)" by (simp only: length_Cons ex_simps)
  also have "\<dots> \<longleftrightarrow> ?P i (str # ls) 0 \<or> (\<exists>n<length ls. ?P i (str # ls) (Suc n))" by (rule Ex_less_Suc2)
  also have "\<dots> \<longleftrightarrow> ?P i (str # ls) 0 \<or> ?R (i + 1) ls" by (simp add: add.assoc add.commute)
  finally show ?case unfolding harvest_tokens_from.simps set_append Un_iff hd Cons.IH by blast
qed simp

text \<open>The tree scan misses no token: \<open>HarvestTokens\<close> returns a waiver exactly when it is the
  parse of the marker at some byte of some line, with the one-based line number; and
  \<open>Unbound\<close> reports exactly the harvested tokens whose pack name is read off a rule id of
  three or more segments and is in no known namespace, and nothing when no namespace is known.\<close>

theorem unbound_scan_exact:
  "d \<in> set (Unbound (HarvestTokens file lines) namespaces) \<longleftrightarrow>
     namespaces \<noteq> [] \<and>
     (\<exists>n col w org pack rest. n < length lines \<and> prefix waiverMarker (drop col (lines ! n))
        \<and> ParseToken (drop col (lines ! n)) \<lparr>l_File = file, l_Line = int n + 1\<rparr> = Inr w
        \<and> Split (w_RuleID w) (CHR ''/'') = org # pack # rest \<and> rest \<noteq> []
        \<and> org @ ''/'' @ pack \<notin> set namespaces
        \<and> d = unbound_diagnostic w (org @ ''/'' @ pack))"
proof -
  have pn: "packNameOf r = Some name \<longleftrightarrow>
      (\<exists>org pack rest. Split r (CHR ''/'') = org # pack # rest \<and> rest \<noteq> [] \<and> name = org @ ''/'' @ pack)" for r name
    by (auto simp: packNameOf_def neq_Nil_conv split: list.splits)
  have "d \<in> set (Unbound ts namespaces) \<longleftrightarrow> namespaces \<noteq> [] \<and>
      (\<exists>w\<in>set ts. \<exists>name. packNameOf (w_RuleID w) = Some name \<and> name \<notin> set namespaces \<and> d = unbound_diagnostic w name)" for ts
  proof (cases "namespaces = []")
    case False
    have "d \<in> set (case packNameOf (w_RuleID w) of None \<Rightarrow> [] | Some name \<Rightarrow> if name \<in> set namespaces then []
            else [unbound_diagnostic w name]) \<longleftrightarrow>
        (\<exists>name. packNameOf (w_RuleID w) = Some name \<and> name \<notin> set namespaces \<and> d = unbound_diagnostic w name)" for w
      by (cases "packNameOf (w_RuleID w)") simp_all
    with False show ?thesis by (simp add: Unbound_def)
  qed (simp add: Unbound_def)
  then have "d \<in> set (Unbound (HarvestTokens file lines) namespaces) \<longleftrightarrow> namespaces \<noteq> [] \<and>
      (\<exists>w. w \<in> set (HarvestTokens file lines) \<and> (\<exists>name. packNameOf (w_RuleID w) = Some name
         \<and> name \<notin> set namespaces \<and> d = unbound_diagnostic w name))" by (simp only: Bex_def)
  then show ?thesis unfolding HarvestTokens_def harvest_tokens_from_iff pn add_0 by blast
qed

end
