(* ===== verification/Gate_Types.thy ===== *)
theory Gate_Types
  imports Go_Path Sha256 Waiver_Adjudicate
begin

text \<open>
  The data the gate passes around (\<open>src/pkg/gate/result.go\<close>): step names, violations with their
  structured trace, step results, and the gate scope (\<open>scope.go\<close>).  Fields keep the source's
  names behind a prefix.  A Go slice is a list (nil and empty are not distinguished: the code
  replaces nil by empty before it reports), a pointer is an option.
\<close>

definition StepArtifactValidation :: string where "StepArtifactValidation = ''artifact_validation''"
definition StepCodeCheck :: string where "StepCodeCheck = ''code_check''"
definition StepTestVerification :: string where "StepTestVerification = ''test_verification''"
definition StepTestSubstantiveness :: string where "StepTestSubstantiveness = ''test_substantiveness''"
definition StepCoverageThreshold :: string where "StepCoverageThreshold = ''coverage_threshold''"
definition StepContractSignature :: string where "StepContractSignature = ''contract_signature''"
definition StepBaselineComparison :: string where "StepBaselineComparison = ''baseline_comparison''"
definition StepWaiverResolution :: string where "StepWaiverResolution = ''waiver_resolution''"
definition StepLedgerIntegrity :: string where "StepLedgerIntegrity = ''ledger_integrity''"
definition StepArtifactStatusDrift :: string where "StepArtifactStatusDrift = ''artifact_status_drift''"
definition StepArtifactStatusDriftAdvisory :: string where
  "StepArtifactStatusDriftAdvisory = ''artifact_status_drift_advisory''"
definition StepRequirementTraceability :: string where
  "StepRequirementTraceability = ''requirement_traceability''"
definition StepRequirementTraceabilityAdvisory :: string where
  "StepRequirementTraceabilityAdvisory = ''requirement_traceability_advisory''"
definition StepPackEngines :: string where "StepPackEngines = ''pack_engines''"

definition AllStepNames :: "string list" where
  "AllStepNames =
     [StepArtifactValidation, StepCodeCheck, StepTestVerification, StepTestSubstantiveness,
      StepCoverageThreshold, StepContractSignature, StepBaselineComparison, StepWaiverResolution,
      StepLedgerIntegrity]"

lemmas step_name_defs =
  StepArtifactValidation_def StepCodeCheck_def StepTestVerification_def StepTestSubstantiveness_def
  StepCoverageThreshold_def StepContractSignature_def StepBaselineComparison_def
  StepWaiverResolution_def StepLedgerIntegrity_def StepArtifactStatusDrift_def
  StepArtifactStatusDriftAdvisory_def StepRequirementTraceability_def
  StepRequirementTraceabilityAdvisory_def StepPackEngines_def

text \<open>The structured companion of a traceability message
  (\<open>requirement_traceability.go\<close>).\<close>

record Trace =
  t_Bundle :: string
  t_BundleMaturity :: string
  t_ReqID :: string
  t_ReqVersion :: string
  t_GapKind :: string
  t_Remedy :: string
  t_PinnedVersion :: string
  t_Bump :: string
  t_CitingArtifact :: string
  t_Via :: string

record Violation =
  v_Rule :: string
  v_File :: string
  v_Message :: string
  v_Severity :: string
  v_SourcePack :: string
  v_ProjectWide :: bool
  v_GateType :: string
  v_Line :: int
  v_WaiverHint :: string
  v_Trace :: "Trace option"
  v_Properties :: "(string, string) gomap"
  v_Identity :: string
  v_IdentityHash :: string
  v_RegionHash :: string

text \<open>A composite literal that names some fields: the others are zero.\<close>

definition zero_violation :: Violation where
  "zero_violation = \<lparr>v_Rule = [], v_File = [], v_Message = [], v_Severity = [], v_SourcePack = [],
     v_ProjectWide = False, v_GateType = [], v_Line = 0, v_WaiverHint = [], v_Trace = None,
     v_Properties = [], v_Identity = [], v_IdentityHash = [], v_RegionHash = []\<rparr>"

definition violation_lit :: "string \<Rightarrow> string \<Rightarrow> string \<Rightarrow> string \<Rightarrow> Violation" where
  "violation_lit rule file message severity =
     zero_violation\<lparr>v_Rule := rule, v_File := file, v_Message := message, v_Severity := severity\<rparr>"

lemma violation_lit_simps [simp]:
  "v_Rule (violation_lit r f m s) = r" "v_File (violation_lit r f m s) = f"
  "v_Message (violation_lit r f m s) = m" "v_Severity (violation_lit r f m s) = s"
  "v_SourcePack (violation_lit r f m s) = []" "v_ProjectWide (violation_lit r f m s) = False"
  "v_Trace (violation_lit r f m s) = None" "v_Line (violation_lit r f m s) = 0"
  "v_GateType (violation_lit r f m s) = []"
  by (simp_all add: violation_lit_def zero_violation_def)

record StepResult =
  s_StepName :: string
  s_Status :: string
  s_DurationMS :: int
  s_Violations :: "Violation list"
  s_NewViolations :: "Violation list"
  s_FixedViolations :: "Violation list"
  s_SeededViolations :: "Violation list"
  s_Reason :: string
  s_NativeSandboxApplied :: bool
  s_ConfigErr :: bool

definition step_lit :: "string \<Rightarrow> string \<Rightarrow> Violation list \<Rightarrow> StepResult" where
  "step_lit name status violations =
     \<lparr>s_StepName = name, s_Status = status, s_DurationMS = 0, s_Violations = violations,
      s_NewViolations = [], s_FixedViolations = [], s_SeededViolations = [], s_Reason = [],
      s_NativeSandboxApplied = False, s_ConfigErr = False\<rparr>"

lemma step_lit_simps [simp]:
  "s_StepName (step_lit n st vs) = n" "s_Status (step_lit n st vs) = st"
  "s_Violations (step_lit n st vs) = vs" "s_ConfigErr (step_lit n st vs) = False"
  "s_NewViolations (step_lit n st vs) = []" "s_FixedViolations (step_lit n st vs) = []"
  "s_SeededViolations (step_lit n st vs) = []" "s_Reason (step_lit n st vs) = []"
  "s_NativeSandboxApplied (step_lit n st vs) = False"
  by (simp_all add: step_lit_def)

end
