(* ===== verification/Gate_Scope.thy ===== *)
theory Gate_Scope
  imports Gate_Types
begin

text \<open>
  The file scope of a gate run (\<open>src/pkg/gate/scope.go\<close>).  Git and the file system are not part
  of the program: \<open>git\<close> is a function from a directory and arguments to an error text or the
  standard output, and the tree under the project root is a \<open>FsNode\<close>.  Everything the program
  does with their answers is here: path normalisation, the three modes, the fallbacks of bare
  diff mode, and the explicit base that has none.
\<close>

type_synonym GateScopeMode = string

definition GateScopeModeDiff :: GateScopeMode where "GateScopeModeDiff = ''diff''"
definition GateScopeModeAll :: GateScopeMode where "GateScopeModeAll = ''all''"
definition GateScopeModeFile :: GateScopeMode where "GateScopeModeFile = ''file''"

lemmas mode_defs = GateScopeModeDiff_def GateScopeModeAll_def GateScopeModeFile_def

record GateScope =
  gs_Mode :: GateScopeMode
  gs_Files :: "string list"
  gs_Warnings :: "string list"
  gs_RequestedBase :: string
  gs_MergeBase :: string
  gs_ProjectRoot :: string
  gs_fileSet :: "string list"

definition NormalizePath :: "string \<Rightarrow> string \<Rightarrow> string" where
  "NormalizePath projectRoot file =
     (if TrimSpace file = [] then []
      else let clean = Clean file
           in if IsAbs clean \<and> projectRoot \<noteq> []
              then (case Rel projectRoot clean of Some rel \<Rightarrow> rel | None \<Rightarrow> clean)
              else clean)"

definition newGateScope :: "string \<Rightarrow> GateScopeMode \<Rightarrow> string list \<Rightarrow> string list \<Rightarrow> GateScope" where
  "newGateScope projectRoot mode files warnings =
     (let norm = filter (\<lambda>n. n \<noteq> []) (map (NormalizePath projectRoot) files)
      in \<lparr>gs_Mode = mode, gs_Files = sorted_set norm, gs_Warnings = warnings,
          gs_RequestedBase = [], gs_MergeBase = [], gs_ProjectRoot = projectRoot,
          gs_fileSet = norm\<rparr>)"

text \<open>\<open>(*GateScope).Contains\<close> and \<open>Empty\<close>; the receiver may be nil.\<close>

definition ContainsPath :: "GateScope option \<Rightarrow> string \<Rightarrow> bool" where
  "ContainsPath s path =
     (case s of
        None \<Rightarrow> True
      | Some sc \<Rightarrow> gs_Mode sc = GateScopeModeAll
                    \<or> NormalizePath (gs_ProjectRoot sc) path \<in> set (gs_fileSet sc))"

definition ScopeEmpty :: "GateScope option \<Rightarrow> bool" where
  "ScopeEmpty s =
     (case s of None \<Rightarrow> False | Some sc \<Rightarrow> gs_Mode sc \<noteq> GateScopeModeAll \<and> gs_Files sc = [])"

definition filterViolations :: "GateScope option \<Rightarrow> Violation list \<Rightarrow> Violation list" where
  "filterViolations scope violations =
     (case scope of
        None \<Rightarrow> violations
      | Some sc \<Rightarrow>
          if gs_Mode sc = GateScopeModeAll then violations
          else filter (\<lambda>v. v_ProjectWide v \<or> v_File v \<noteq> [] \<and> ContainsPath scope (v_File v)) violations)"

subsection \<open>Git and the tree\<close>

type_synonym Git = "string \<Rightarrow> string list \<Rightarrow> string + string"

datatype FsNode =
    FsFile string
  | FsDir string "FsNode list"
  | FsErr string

fun node_name :: "FsNode \<Rightarrow> string" where
  "node_name (FsFile n) = n"
| "node_name (FsDir n _) = n"
| "node_name (FsErr n) = n"

text \<open>\<open>git %s: %w\<close>, the wrap both \<open>gitOutput\<close> and \<open>gitLines\<close> put around an error.\<close>

definition git_wrap :: "string list \<Rightarrow> string \<Rightarrow> string" where
  "git_wrap args err = ''git '' @ Join args '' '' @ '': '' @ err"

definition gitOutput :: "Git \<Rightarrow> string \<Rightarrow> string list \<Rightarrow> string + string" where
  "gitOutput git dir args =
     (case git dir args of Inl err \<Rightarrow> Inl (git_wrap args err) | Inr out \<Rightarrow> Inr out)"

definition gitOK :: "Git \<Rightarrow> string \<Rightarrow> string list \<Rightarrow> bool" where
  "gitOK git dir args =
     (case gitOutput git dir args of Inl _ \<Rightarrow> False | Inr out \<Rightarrow> TrimSpace out = ''true'')"

definition gitLines :: "Git \<Rightarrow> string \<Rightarrow> string list \<Rightarrow> string + string list" where
  "gitLines git dir args =
     (case gitOutput git dir args of
        Inl err \<Rightarrow> Inl (git_wrap args err)
      | Inr out \<Rightarrow> Inr (filter (\<lambda>l. l \<noteq> []) (map TrimSpace (Split out (CHR 0x0A)))))"

text \<open>\<open>filepath.Walk\<close> with the visitor of \<open>resolveGateScopeAll\<close>: entries that cannot be read are
  passed over, hidden directories are skipped, files are recorded relative to the root.\<close>

fun walk_files :: "string \<Rightarrow> string \<Rightarrow> FsNode \<Rightarrow> string list" where
  "walk_files root path (FsErr _) = []"
| "walk_files root path (FsFile _) = (case Rel root path of Some rel \<Rightarrow> [rel] | None \<Rightarrow> [])"
| "walk_files root path (FsDir name children) =
     (if HasPrefix name ''.'' \<and> name \<noteq> ''.'' then []
      else concat (map (\<lambda>c. walk_files root (JoinPath [path, node_name c]) c) children))"

definition resolveGateScopeAll :: "FsNode \<Rightarrow> string \<Rightarrow> string list \<times> string list" where
  "resolveGateScopeAll tree projectRoot = (walk_files projectRoot projectRoot tree, [])"

definition untracked_args :: "string list" where
  "untracked_args = [''ls-files'', ''--others'', ''--exclude-standard'']"

definition with_untracked :: "Git \<Rightarrow> string \<Rightarrow> string list \<Rightarrow> string list" where
  "with_untracked git root tracked =
     (case gitLines git root untracked_args of
        Inl _ \<Rightarrow> tracked | Inr untracked \<Rightarrow> tracked @ untracked)"

text \<open>The loop over the remote branches: the first with a merge base and a readable diff decides.\<close>

fun diff_remotes :: "Git \<Rightarrow> string \<Rightarrow> string list \<Rightarrow> string list option" where
  "diff_remotes git root [] = None"
| "diff_remotes git root (remote # remotes) =
     (case gitOutput git root [''merge-base'', ''HEAD'', remote] of
        Inl _ \<Rightarrow> diff_remotes git root remotes
      | Inr base \<Rightarrow>
          if TrimSpace base = [] then diff_remotes git root remotes
          else (case gitLines git root [''diff'', ''--name-only'', TrimSpace base] of
                  Inl _ \<Rightarrow> diff_remotes git root remotes
                | Inr tracked \<Rightarrow> Some (with_untracked git root tracked)))"

definition resolveGateScopeDiff :: "Git \<Rightarrow> FsNode \<Rightarrow> string \<Rightarrow> string list \<times> string list" where
  "resolveGateScopeDiff git tree root =
     (if \<not> gitOK git root [''rev-parse'', ''--is-inside-work-tree''] then
        (case resolveGateScopeAll tree root of (files, warnings) \<Rightarrow>
           (files, warnings @ [''not a git repository; falling back to full codebase scan (--all)'']))
      else (case diff_remotes git root [''origin/main'', ''origin/master''] of
        Some files \<Rightarrow> (files, [])
      | None \<Rightarrow>
          (case gitLines git root [''diff'', ''--name-only'', ''HEAD''] of
             Inl err \<Rightarrow>
               (case resolveGateScopeAll tree root of (files, warnings) \<Rightarrow>
                  (files, warnings @ [''git diff failed: '' @ err @ ''; falling back to full codebase scan'']))
           | Inr tracked \<Rightarrow>
               (with_untracked git root tracked,
                [''no remote branch (origin/main or origin/master) found; using local changes only'']))))"

definition resolveGateScopeExplicitBase ::
  "Git \<Rightarrow> string \<Rightarrow> string \<Rightarrow> string + string list \<times> string" where
  "resolveGateScopeExplicitBase git root base =
     (case gitOutput git root [''rev-parse'', ''--verify'', base @ ''^{commit}''] of
        Inl err \<Rightarrow> Inl (''--base '' @ quote base @ '' does not resolve to a commit in this repository '' @
          ''(in CI this usually means the checkout is shallow '' @ [CHR 0xE2, CHR 0x80, CHR 0x94] @
          '' set fetch-depth: 0): '' @ err)
      | Inr resolvedOut \<Rightarrow>
      (let resolved = TrimSpace resolvedOut in
       case gitOutput git root [''rev-parse'', ''--verify'', ''HEAD^{commit}''] of
        Inl headErr \<Rightarrow> Inl (''--base '' @ quote base @ '' resolved to '' @ resolved @
          '', but HEAD does not resolve to a commit: '' @ headErr)
      | Inr headOut \<Rightarrow>
      (let head = TrimSpace headOut in
       case gitOutput git root [''merge-base'', ''HEAD'', resolved] of
        Inl mergeErr \<Rightarrow> Inl (''--base '' @ quote base @ '' (resolved '' @ resolved @
          '') shares no merge-base with HEAD ('' @ head @ ''): '' @
          ''the two revisions have unrelated histories, which a force-push or a grafted '' @
          ''shallow clone produces: '' @ mergeErr)
      | Inr mergeBaseOut \<Rightarrow>
      (let mergeBase = TrimSpace mergeBaseOut in
       if mergeBase = [] then
         Inl (''--base '' @ quote base @ '' (resolved '' @ resolved @
           '') shares no merge-base with HEAD ('' @ head @ ''): git merge-base returned no commit'')
       else (case gitLines git root [''diff'', ''--name-only'', mergeBase] of
        Inl diffErr \<Rightarrow> Inl (''--base '' @ quote base @ '': diffing against merge-base '' @ mergeBase @
          '' failed: '' @ diffErr)
      | Inr tracked \<Rightarrow> Inr (with_untracked git root tracked, mergeBase))))))"

definition ComputeGateScopeWithBase ::
  "Git \<Rightarrow> FsNode \<Rightarrow> string \<Rightarrow> GateScopeMode \<Rightarrow> string list \<Rightarrow> string \<Rightarrow> string + GateScope" where
  "ComputeGateScopeWithBase git tree root mode files base =
     (if base \<noteq> [] \<and> mode \<noteq> GateScopeModeDiff then
        Inl (''--base applies to diff scope only, but scope mode is '' @ quote mode)
      else if mode = GateScopeModeAll then
        (case resolveGateScopeAll tree root of (resolved, warnings) \<Rightarrow>
           Inr (newGateScope root mode resolved warnings))
      else if mode = GateScopeModeFile then
        (if files = [] then Inl ''--file requires at least one file path''
         else Inr (newGateScope root mode files []))
      else if mode = GateScopeModeDiff then
        (if base \<noteq> [] then
           (case resolveGateScopeExplicitBase git root base of
              Inl err \<Rightarrow> Inl (''computing gate scope: '' @ err)
            | Inr (resolved, mergeBase) \<Rightarrow>
                Inr ((newGateScope root mode resolved [])
                       \<lparr>gs_RequestedBase := base, gs_MergeBase := mergeBase\<rparr>))
         else (case resolveGateScopeDiff git tree root of (resolved, warnings) \<Rightarrow>
                 Inr (newGateScope root mode resolved warnings)))
      else Inl (''unknown gate scope mode: '' @ mode))"

definition ComputeGateScope ::
  "Git \<Rightarrow> FsNode \<Rightarrow> string \<Rightarrow> GateScopeMode \<Rightarrow> string list \<Rightarrow> string + GateScope" where
  "ComputeGateScope git tree root mode files = ComputeGateScopeWithBase git tree root mode files []"

subsection \<open>Normalisation\<close>

lemma NormalizePath_blank [simp]: "TrimSpace f = [] \<Longrightarrow> NormalizePath root f = []"
  by (simp add: NormalizePath_def)

lemma NormalizePath_rel: "TrimSpace f \<noteq> [] \<Longrightarrow> \<not> IsAbs f \<Longrightarrow> NormalizePath root f = Clean f"
  by (simp add: NormalizePath_def Let_def)

lemma NormalizePath_noroot: "TrimSpace f \<noteq> [] \<Longrightarrow> NormalizePath [] f = Clean f"
  by (simp add: NormalizePath_def Let_def)

lemma IsAbs_not_blank: "IsAbs p \<Longrightarrow> TrimSpace p \<noteq> []"
  by (rule TrimSpace_has_plain [of slash]) (auto simp: IsAbs_def prefix_def plain_def)

text \<open>One file, one normal form: the absolute spelling of a file below the project root and
  its relative spelling normalise to the same path, provided the relative one does not climb
  out of the root.\<close>

theorem NormalizePath_abs_rel:
  assumes "IsAbs root" "\<not> IsAbs rel" "TrimSpace rel \<noteq> []" "dotdot \<notin> set (path_elems rel)"
  shows "NormalizePath root (root @ ''/'' @ rel) = NormalizePath root rel"
proof -
  have abs: "IsAbs (root @ ''/'' @ rel)" using assms(1) by (auto simp: IsAbs_def prefix_def)
  have "root \<noteq> []" using assms(1) by (auto simp: IsAbs_def)
  with abs IsAbs_not_blank [OF abs] Rel_under [OF assms(1,2,4)]
  have "NormalizePath root (root @ ''/'' @ rel) = Clean rel" by (simp add: NormalizePath_def Let_def)
  with NormalizePath_rel [OF assms(3,2)] show ?thesis by simp
qed

theorem NormalizePath_abs_rel_witness:
  "NormalizePath ''/w/proj'' ''/w/proj/./pkg/../a.go'' = NormalizePath ''/w/proj'' ''./pkg/../a.go''"
proof -
  have "dotdot \<notin> set (path_elems ''./pkg/../a.go'')" "TrimSpace ''./pkg/../a.go'' \<noteq> []" by code_simp+
  then show ?thesis using NormalizePath_abs_rel [of "''/w/proj''" "''./pkg/../a.go''"] by (simp add: IsAbs_def)
qed

text \<open>The idempotence the comment on \<open>NormalizePath\<close> claims fails on a path that cleans to white
  space: \<open>"./ "\<close> normalises to one blank, and that to the empty path.\<close>

theorem NormalizePath_not_idempotent:
  "NormalizePath [] ''./ '' = '' '' \<and> NormalizePath [] (NormalizePath [] ''./ '') = []"
  by code_simp

subsection \<open>What is in scope\<close>

lemma newGateScope_simps [simp]:
  "gs_Mode (newGateScope root mode files ws) = mode"
  "gs_ProjectRoot (newGateScope root mode files ws) = root"
  "gs_Warnings (newGateScope root mode files ws) = ws"
  "set (gs_fileSet (newGateScope root mode files ws)) = NormalizePath root ` set files - {[]}"
  "set (gs_Files (newGateScope root mode files ws)) = NormalizePath root ` set files - {[]}"
  by (auto simp: newGateScope_def Let_def)

lemma newGateScope_Files:
  "sorted (gs_Files (newGateScope root mode files ws)) \<and> distinct (gs_Files (newGateScope root mode files ws))"
  by (simp add: newGateScope_def Let_def)

text \<open>A scope built from a file list reports each file once, in order, and a finding survives
  the filter exactly when it is project-wide or its file normalises to one of the listed
  files.  The order of the findings is kept.\<close>

theorem filterViolations_exact:
  assumes "mode \<noteq> GateScopeModeAll"
  shows "filterViolations (Some (newGateScope root mode files ws)) vs =
     filter (\<lambda>v. v_ProjectWide v
        \<or> NormalizePath root (v_File v) \<in> set (gs_Files (newGateScope root mode files ws))) vs
     \<and> sorted (gs_Files (newGateScope root mode files ws))
     \<and> distinct (gs_Files (newGateScope root mode files ws))
     \<and> set (gs_Files (newGateScope root mode files ws)) = {n. n \<noteq> [] \<and> (\<exists>f\<in>set files. n = NormalizePath root f)}"
proof -
  have "NormalizePath root [] = []" by (rule NormalizePath_blank) code_simp
  then have "filterViolations (Some (newGateScope root mode files ws)) vs =
     filter (\<lambda>v. v_ProjectWide v
        \<or> NormalizePath root (v_File v) \<in> set (gs_Files (newGateScope root mode files ws))) vs"
    using assms by (auto simp: filterViolations_def ContainsPath_def intro!: filter_cong)
  then show ?thesis using newGateScope_Files by auto
qed

theorem filterViolations_exact_witness:
  "filterViolations (Some (newGateScope ''/r'' ''diff'' [''/r/a.go'', ''./a.go''] []))
      [violation_lit ''r1'' ''a.go'' ''m'' ''error'', violation_lit ''r1'' ''b.go'' ''m'' ''error'']
    = [violation_lit ''r1'' ''a.go'' ''m'' ''error'']"
proof -
  have "NormalizePath ''/r'' ''/r/a.go'' = ''a.go''" "NormalizePath ''/r'' ''./a.go'' = ''a.go''"
    "NormalizePath ''/r'' ''a.go'' = ''a.go''" "NormalizePath ''/r'' ''b.go'' = ''b.go''" by code_simp+
  with filterViolations_exact [of "''diff''" "''/r''" "[''/r/a.go'', ''./a.go'']" "[]"
      "[violation_lit ''r1'' ''a.go'' ''m'' ''error'', violation_lit ''r1'' ''b.go'' ''m'' ''error'']"]
  show ?thesis by (simp add: mode_defs)
qed

subsection \<open>The explicit base\<close>

text \<open>With an explicit base there is no fallback.  A scope is returned only in diff mode, when
  the base, HEAD, their merge base and the diff all resolved; it holds exactly the tracked
  changes since the merge base and the untracked files (none when git cannot list them), it
  carries no warning, and it reports the base as asked and the merge base as found.  The tree
  walk is never consulted.\<close>

theorem explicit_base_no_fallback:
  assumes "base \<noteq> []" "ComputeGateScopeWithBase git tree root mode files base = Inr sc"
  shows "\<exists>resolved head mergeBase tracked.
    mode = GateScopeModeDiff
    \<and> gitOutput git root [''rev-parse'', ''--verify'', base @ ''^{commit}''] = Inr resolved
    \<and> gitOutput git root [''rev-parse'', ''--verify'', ''HEAD^{commit}''] = Inr head
    \<and> gitOutput git root [''merge-base'', ''HEAD'', TrimSpace resolved] = Inr mergeBase
    \<and> TrimSpace mergeBase \<noteq> []
    \<and> gitLines git root [''diff'', ''--name-only'', TrimSpace mergeBase] = Inr tracked
    \<and> sc = (newGateScope root GateScopeModeDiff (with_untracked git root tracked) [])
            \<lparr>gs_RequestedBase := base, gs_MergeBase := TrimSpace mergeBase\<rparr>"
proof -
  have m: "mode = GateScopeModeDiff" using assms by (auto simp: ComputeGateScopeWithBase_def split: if_splits)
  obtain files' mb where r: "resolveGateScopeExplicitBase git root base = Inr (files', mb)"
    "sc = (newGateScope root mode files' [])\<lparr>gs_RequestedBase := base, gs_MergeBase := mb\<rparr>"
    using assms m
    by (auto simp: ComputeGateScopeWithBase_def mode_defs split: sum.splits prod.splits)
  show ?thesis
    using r m unfolding resolveGateScopeExplicitBase_def Let_def
    by (auto split: sum.splits if_splits)
qed

definition demo_git :: Git where
  "demo_git dir args =
     (if hd args = ''diff'' then Inr (''a.go'' @ [CHR 0x0A])
      else if hd args = ''ls-files'' then Inr (''b.go'' @ [CHR 0x0A])
      else Inr ''c0ffee'')"

theorem explicit_base_no_fallback_witness:
  "\<exists>resolved head mergeBase tracked.
    gitOutput demo_git ''/r'' [''rev-parse'', ''--verify'', ''main^{commit}''] = Inr resolved
    \<and> gitOutput demo_git ''/r'' [''rev-parse'', ''--verify'', ''HEAD^{commit}''] = Inr head
    \<and> gitOutput demo_git ''/r'' [''merge-base'', ''HEAD'', TrimSpace resolved] = Inr mergeBase
    \<and> TrimSpace mergeBase \<noteq> []
    \<and> gitLines demo_git ''/r'' [''diff'', ''--name-only'', TrimSpace mergeBase] = Inr tracked
    \<and> projr (ComputeGateScopeWithBase demo_git (FsErr []) ''/r'' GateScopeModeDiff [] ''main'') =
        (newGateScope ''/r'' GateScopeModeDiff (with_untracked demo_git ''/r'' tracked) [])
            \<lparr>gs_RequestedBase := ''main'', gs_MergeBase := TrimSpace mergeBase\<rparr>"
proof -
  have "isl (ComputeGateScopeWithBase demo_git (FsErr []) ''/r'' GateScopeModeDiff [] ''main'') = False"
    by code_simp
  then obtain sc where "ComputeGateScopeWithBase demo_git (FsErr []) ''/r'' GateScopeModeDiff [] ''main'' = Inr sc"
    by (metis isl_def sum.exhaust_sel sum.collapse(2))
  with explicit_base_no_fallback [OF _ this] show ?thesis by simp
qed

text \<open>Outside a git repository bare diff mode promises a full scan, but the walk skips hidden
  directories without exempting the root it starts from: below a project root whose own name
  begins with a dot the diff scope is empty, so every scoped check has nothing to inspect.\<close>

theorem hidden_root_empty_scope:
  assumes "\<not> gitOK git root [''rev-parse'', ''--is-inside-work-tree'']"
  shows "\<exists>sc. ComputeGateScope git (FsDir (CHR ''.'' # c # name) children) root GateScopeModeDiff [] = Inr sc
          \<and> ScopeEmpty (Some sc)"
  using assms
  by (simp add: ComputeGateScope_def ComputeGateScopeWithBase_def resolveGateScopeDiff_def
      resolveGateScopeAll_def newGateScope_def Let_def ScopeEmpty_def mode_defs)

theorem hidden_root_empty_scope_witness:
  "\<exists>sc. ComputeGateScope (\<lambda>_ _. Inl ''exit status 128'') (FsDir ''.proj'' [FsFile ''a.go'']) ''/w/.proj'' GateScopeModeDiff [] = Inr sc
        \<and> ScopeEmpty (Some sc)"
  by (rule hidden_root_empty_scope) (simp add: gitOK_def gitOutput_def)

end
