(* ===== verification/Gate_Baseline.thy ===== *)
theory Gate_Baseline
  imports Gate_Scope
begin

text \<open>
  Violation identity and baseline comparison (\<open>src/pkg/gate/baseline.go\<close>).  The identity hash is
  the real one (SHA-256 in hexadecimal), so the theorems about grandfathering speak of the
  keys the code compares.  JSON and the disk are parameters of loading and writing.
\<close>

abbreviation hashString :: "string \<Rightarrow> string" where
  "hashString \<equiv> sha256_hex"

definition EnrichViolationIdentity :: "Violation \<Rightarrow> Violation" where
  "EnrichViolationIdentity v =
     (let file = NormalizePath [] (v_File v);
          identity = TrimSpace (v_Rule v) @ ''|'' @ TrimSpace file;
          region0 = TrimSpace (v_RegionHash v);
          region = (if region0 = []
                    then hashString (TrimSpace (v_Message v) @ ''|'' @ TrimSpace (v_Severity v) @ ''|''
                                     @ TrimSpace (v_SourcePack v))
                    else region0)
      in v\<lparr>v_File := file, v_Identity := identity @ ''|'' @ region, v_RegionHash := region,
            v_IdentityHash := hashString (identity @ ''|'' @ region)\<rparr>)"

text \<open>The key under which a finding is compared.\<close>

definition identity_hash :: "Violation \<Rightarrow> string" where
  "identity_hash v = v_IdentityHash (EnrichViolationIdentity v)"

record BaselineArtifact =
  ba_SchemaVersion :: string
  ba_GeneratedAt :: string
  ba_GitSHA :: string
  ba_BackstopVersion :: string
  ba_StepCounts :: "(string, int) gomap"
  ba_StepRuleCounts :: "(string, (string, int) gomap) gomap"
  ba_Violations :: "Violation list"

definition BaselineSchemaV1 :: string where "BaselineSchemaV1 = ''baseline/v1''"

definition bookkeeping_step :: "string \<Rightarrow> bool" where
  "bookkeeping_step name \<longleftrightarrow>
     name = StepBaselineComparison \<or> name = StepWaiverResolution \<or> name = StepLedgerIntegrity"

definition baseline_step :: "StepResult \<Rightarrow> BaselineArtifact \<Rightarrow> BaselineArtifact" where
  "baseline_step step a =
     (if bookkeeping_step (s_StepName step) then a
      else let enriched = map EnrichViolationIdentity (s_Violations step);
               ruleCounts = fold (\<lambda>e m. map_set (v_Rule e) (map_get 0 m (v_Rule e) + 1) m) enriched []
           in a\<lparr>ba_StepCounts := map_set (s_StepName step) (int (length (s_Violations step))) (ba_StepCounts a),
                ba_Violations := ba_Violations a @ enriched,
                ba_StepRuleCounts := map_set (s_StepName step) ruleCounts (ba_StepRuleCounts a)\<rparr>)"

definition NewBaselineArtifactFromSteps ::
  "StepResult list \<Rightarrow> string \<Rightarrow> string \<Rightarrow> string \<Rightarrow> BaselineArtifact" where
  "NewBaselineArtifactFromSteps steps generatedAt gitSHA backstopVersion =
     fold baseline_step steps
       \<lparr>ba_SchemaVersion = BaselineSchemaV1, ba_GeneratedAt = TrimSpace generatedAt,
        ba_GitSHA = TrimSpace gitSHA, ba_BackstopVersion = TrimSpace backstopVersion,
        ba_StepCounts = [], ba_StepRuleCounts = [], ba_Violations = []\<rparr>"

record BaselineComparison =
  bc_New :: "Violation list"
  bc_Fixed :: "Violation list"
  bc_Seeded :: "Violation list"

record BaselineCompareOptions =
  bo_Scope :: "GateScope option"
  bo_AllowRuleSetChangeSeeding :: bool
  bo_ChangedFiles :: "string list"

definition scopeTouches :: "GateScope option \<Rightarrow> string \<Rightarrow> bool" where
  "scopeTouches scope file =
     (case scope of
        None \<Rightarrow> False
      | Some sc \<Rightarrow> (gs_Mode sc = GateScopeModeDiff \<or> gs_Mode sc = GateScopeModeFile)
                    \<and> ContainsPath scope file)"

definition isExistingCodeViolation :: "Violation \<Rightarrow> string list \<Rightarrow> bool" where
  "isExistingCodeViolation v changedFiles =
     (if changedFiles = [] then True
      else let file = TrimSpace (v_File v)
           in if file = [] then False else file \<notin> set changedFiles)"

text \<open>The guard of the seeding exception.\<close>

definition seeds :: "BaselineCompareOptions \<Rightarrow> Violation \<Rightarrow> bool" where
  "seeds opts enriched \<longleftrightarrow>
     bo_AllowRuleSetChangeSeeding opts
     \<and> (case bo_Scope opts of None \<Rightarrow> False | Some sc \<Rightarrow> gs_Mode sc = GateScopeModeAll)
     \<and> isExistingCodeViolation enriched (bo_ChangedFiles opts)"

text \<open>The current-findings loop, with \<open>known\<close> the membership test of the baseline map.\<close>

fun compare_loop ::
  "BaselineCompareOptions \<Rightarrow> (string \<Rightarrow> bool) \<Rightarrow> Violation list \<Rightarrow> Violation list \<Rightarrow> Violation list
   \<Rightarrow> Violation list \<times> Violation list" where
  "compare_loop opts known [] new seeded = (new, seeded)"
| "compare_loop opts known (v # vs) new seeded =
     (let enriched = EnrichViolationIdentity v in
      if known (v_IdentityHash enriched) \<and> \<not> scopeTouches (bo_Scope opts) (v_File v)
      then compare_loop opts known vs new seeded
      else if seeds opts enriched then compare_loop opts known vs new (seeded @ [enriched])
      else compare_loop opts known vs (new @ [enriched]) seeded)"

definition in_compare_scope :: "BaselineCompareOptions \<Rightarrow> Violation list \<Rightarrow> Violation list" where
  "in_compare_scope opts current =
     (case bo_Scope opts of
        None \<Rightarrow> current
      | Some sc \<Rightarrow> if gs_Mode sc \<noteq> GateScopeModeAll then filterViolations (bo_Scope opts) current
                    else current)"

definition fixed_counts :: "BaselineCompareOptions \<Rightarrow> Violation \<Rightarrow> bool" where
  "fixed_counts opts old =
     (case bo_Scope opts of
        None \<Rightarrow> True
      | Some sc \<Rightarrow> \<not> (gs_Mode sc \<noteq> GateScopeModeAll
                        \<and> (v_File old = [] \<or> \<not> ContainsPath (bo_Scope opts) (v_File old))))"

definition CompareBaseline ::
  "Violation list \<Rightarrow> BaselineArtifact option \<Rightarrow> BaselineCompareOptions \<Rightarrow> BaselineComparison" where
  "CompareBaseline current baseline opts =
     (case baseline of
        None \<Rightarrow> \<lparr>bc_New = [], bc_Fixed = [], bc_Seeded = []\<rparr>
      | Some b \<Rightarrow>
          (let inScope = in_compare_scope opts current;
               baselineSet = map_index v_IdentityHash (map EnrichViolationIdentity (ba_Violations b));
               currentSet = map_index v_IdentityHash (map EnrichViolationIdentity inScope)
           in case compare_loop opts (map_has baselineSet) inScope [] [] of (new, seeded) \<Rightarrow>
                \<lparr>bc_New = new,
                 bc_Fixed = map snd (filter (\<lambda>(key, old). \<not> map_has currentSet key \<and> fixed_counts opts old)
                                            baselineSet),
                 bc_Seeded = seeded\<rparr>))"

text \<open>Loading and writing, over the JSON codec and the disk.\<close>

definition LoadBaseline ::
  "(string \<Rightarrow> string + string) \<Rightarrow> (string \<Rightarrow> string + BaselineArtifact) \<Rightarrow> string \<Rightarrow> string + BaselineArtifact" where
  "LoadBaseline readFile unmarshal path =
     (case readFile path of
        Inl err \<Rightarrow> Inl (''read baseline '' @ path @ '': '' @ err)
      | Inr data \<Rightarrow>
          (case unmarshal data of
             Inl err \<Rightarrow> Inl (''parse baseline '' @ path @ '': '' @ err)
           | Inr a \<Rightarrow>
               Inr (a\<lparr>ba_SchemaVersion := (if ba_SchemaVersion a = [] then BaselineSchemaV1 else ba_SchemaVersion a),
                      ba_Violations := map EnrichViolationIdentity (ba_Violations a)\<rparr>)))"

text \<open>The artifact \<open>WriteBaseline\<close> hands to the encoder, and the write itself: the error text, or
  the bytes that go to the path.\<close>

definition written_artifact :: "BaselineArtifact \<Rightarrow> BaselineArtifact" where
  "written_artifact a =
     a\<lparr>ba_SchemaVersion := (if ba_SchemaVersion a = [] then BaselineSchemaV1 else ba_SchemaVersion a),
       ba_Violations := map EnrichViolationIdentity (ba_Violations a)\<rparr>"

definition WriteBaseline ::
  "(BaselineArtifact \<Rightarrow> string + string) \<Rightarrow> (string \<Rightarrow> string option) \<Rightarrow> (string \<Rightarrow> string \<Rightarrow> string option)
   \<Rightarrow> string \<Rightarrow> BaselineArtifact option \<Rightarrow> string + string \<times> string" where
  "WriteBaseline marshal mkdirAll writeFile path artifact =
     (case artifact of
        None \<Rightarrow> Inl ''baseline artifact is nil''
      | Some a \<Rightarrow>
          (case marshal (written_artifact a) of
             Inl err \<Rightarrow> Inl (''marshal baseline: '' @ err)
           | Inr data \<Rightarrow>
               (case mkdirAll (Dir path) of
                  Some err \<Rightarrow> Inl (''create baseline dir '' @ Dir path @ '': '' @ err)
                | None \<Rightarrow>
                    (case writeFile path data of
                       Some err \<Rightarrow> Inl (''write baseline '' @ path @ '': '' @ err)
                     | None \<Rightarrow> Inr (path, data)))))"

subsection \<open>Identity\<close>

text \<open>What a key for findings must satisfy for the comparison to be meaningful: enriching a
  finding again does not move its key.\<close>

locale stable_key =
  fixes enrich :: "Violation \<Rightarrow> Violation"
    and key :: "Violation \<Rightarrow> string"
  assumes key_enrich: "key (enrich v) = key v"
begin

lemma keys_map_enrich: "key ` set (map enrich vs) = key ` set vs"
  by (auto simp: key_enrich image_image)

lemma known_after_enrich:
  "(\<exists>x\<in>set (map enrich (map enrich vs)). key x = k) \<longleftrightarrow> (\<exists>x\<in>set vs. key x = k)"
  by (auto simp: key_enrich)

end

lemma TrimSpace_NormalizePath_idem:
  "TrimSpace (NormalizePath [] (NormalizePath [] f)) = TrimSpace (NormalizePath [] f)"
proof (cases "TrimSpace (NormalizePath [] f) = []")
  case False
  then have "TrimSpace f \<noteq> []" by auto
  with False show ?thesis by (simp add: NormalizePath_noroot)
qed simp

lemma Enrich_File [simp]: "v_File (EnrichViolationIdentity v) = NormalizePath [] (v_File v)"
  by (simp add: EnrichViolationIdentity_def Let_def)

lemma Enrich_keeps [simp]:
  "v_Rule (EnrichViolationIdentity v) = v_Rule v"
  "v_Message (EnrichViolationIdentity v) = v_Message v"
  "v_Severity (EnrichViolationIdentity v) = v_Severity v"
  "v_SourcePack (EnrichViolationIdentity v) = v_SourcePack v"
  "v_ProjectWide (EnrichViolationIdentity v) = v_ProjectWide v"
  "v_Line (EnrichViolationIdentity v) = v_Line v"
  "v_Trace (EnrichViolationIdentity v) = v_Trace v"
  by (simp_all add: EnrichViolationIdentity_def Let_def)

lemma Enrich_RegionHash:
  "v_RegionHash (EnrichViolationIdentity v) =
     (if TrimSpace (v_RegionHash v) = []
      then hashString (TrimSpace (v_Message v) @ ''|'' @ TrimSpace (v_Severity v) @ ''|'' @ TrimSpace (v_SourcePack v))
      else TrimSpace (v_RegionHash v))"
  by (simp add: EnrichViolationIdentity_def Let_def)

lemma identity_hash_eq:
  "identity_hash v =
     hashString (TrimSpace (v_Rule v) @ ''|'' @ TrimSpace (NormalizePath [] (v_File v)) @ ''|''
                 @ v_RegionHash (EnrichViolationIdentity v))"
  by (simp add: identity_hash_def EnrichViolationIdentity_def Let_def)

lemma IdentityHash_Enrich [simp]: "v_IdentityHash (EnrichViolationIdentity v) = identity_hash v"
  by (simp add: identity_hash_def)

lemma Enrich_Region_stable:
  "v_RegionHash (EnrichViolationIdentity (EnrichViolationIdentity v)) = v_RegionHash (EnrichViolationIdentity v)"
proof -
  have "TrimSpace (v_RegionHash (EnrichViolationIdentity v)) = v_RegionHash (EnrichViolationIdentity v)
        \<and> v_RegionHash (EnrichViolationIdentity v) \<noteq> []"
    by (simp add: Enrich_RegionHash)
  then show ?thesis by (simp add: Enrich_RegionHash [of "EnrichViolationIdentity v"])
qed

lemma identity_hash_Enrich [simp]: "identity_hash (EnrichViolationIdentity v) = identity_hash v"
  unfolding identity_hash_eq by (simp add: TrimSpace_NormalizePath_idem Enrich_Region_stable)

interpretation enriched: stable_key EnrichViolationIdentity identity_hash
  by unfold_locales simp

text \<open>The identity of a finding does not depend on how it is presented: not on its line, its
  waiver hint, its trace, its properties, its gate type or its project-wide mark, not on the
  relative spelling of its file, not on white space around its fields, and not on having
  been enriched before.\<close>

theorem identity_ignores_presentation:
  assumes "TrimSpace (v_Rule v) = TrimSpace (v_Rule u)" "TrimSpace (v_Message v) = TrimSpace (v_Message u)"
    "TrimSpace (v_Severity v) = TrimSpace (v_Severity u)" "TrimSpace (v_SourcePack v) = TrimSpace (v_SourcePack u)"
    "TrimSpace (v_RegionHash v) = TrimSpace (v_RegionHash u)"
    and "TrimSpace (v_File v) \<noteq> []" "TrimSpace (v_File u) \<noteq> []" "Clean (v_File v) = Clean (v_File u)"
  shows "v_IdentityHash (EnrichViolationIdentity v) = v_IdentityHash (EnrichViolationIdentity u)
    \<and> v_IdentityHash (EnrichViolationIdentity (EnrichViolationIdentity v)) =
      v_IdentityHash (EnrichViolationIdentity u)"
proof -
  have "identity_hash v = identity_hash u"
    using assms by (simp add: identity_hash_eq Enrich_RegionHash NormalizePath_noroot)
  then show ?thesis by simp
qed

theorem identity_ignores_presentation_witness:
  "v_IdentityHash (EnrichViolationIdentity ((violation_lit ''r'' ''./pkg/x.go'' ''m'' ''error'')\<lparr>v_Line := 7, v_WaiverHint := ''h''\<rparr>)) =
   v_IdentityHash (EnrichViolationIdentity (violation_lit ''r'' ''pkg/x.go'' ''m'' ''error''))"
proof -
  have "TrimSpace ''./pkg/x.go'' \<noteq> []" "TrimSpace ''pkg/x.go'' \<noteq> []" "Clean ''./pkg/x.go'' = Clean ''pkg/x.go''"
    by code_simp+
  then show ?thesis
    using identity_ignores_presentation
      [of "(violation_lit ''r'' ''./pkg/x.go'' ''m'' ''error'')\<lparr>v_Line := 7, v_WaiverHint := ''h''\<rparr>"
          "violation_lit ''r'' ''pkg/x.go'' ''m'' ''error''"]
    by (simp add: violation_lit_def zero_violation_def)
qed

subsection \<open>Comparison\<close>

text \<open>The set of keys of the baseline.\<close>

definition baseline_keys :: "BaselineArtifact \<Rightarrow> string set" where
  "baseline_keys b = identity_hash ` set (ba_Violations b)"

lemma has_enriched_index:
  "map_has (map_index v_IdentityHash (map EnrichViolationIdentity vs)) k \<longleftrightarrow> k \<in> identity_hash ` set vs"
  unfolding map_index_has by auto

lemma enriched_index_None:
  "map_of (map_index v_IdentityHash (map EnrichViolationIdentity vs)) k = None \<longleftrightarrow> k \<notin> identity_hash ` set vs"
  using has_enriched_index by blast

definition grandfathered :: "BaselineArtifact \<Rightarrow> BaselineCompareOptions \<Rightarrow> Violation \<Rightarrow> bool" where
  "grandfathered b opts v \<longleftrightarrow> identity_hash v \<in> baseline_keys b \<and> \<not> scopeTouches (bo_Scope opts) (v_File v)"

lemma compare_loop_eq:
  "compare_loop opts known vs new seeded =
     (new @ map EnrichViolationIdentity (filter (\<lambda>v. \<not> (known (identity_hash v) \<and> \<not> scopeTouches (bo_Scope opts) (v_File v))
         \<and> \<not> seeds opts (EnrichViolationIdentity v)) vs),
      seeded @ map EnrichViolationIdentity (filter (\<lambda>v. \<not> (known (identity_hash v) \<and> \<not> scopeTouches (bo_Scope opts) (v_File v))
         \<and> seeds opts (EnrichViolationIdentity v)) vs))"
  by (induction vs arbitrary: new seeded) (simp_all add: Let_def)

lemma CompareBaseline_New:
  "bc_New (CompareBaseline current (Some b) opts) =
     map EnrichViolationIdentity (filter (\<lambda>v. \<not> grandfathered b opts v \<and> \<not> seeds opts (EnrichViolationIdentity v))
       (in_compare_scope opts current))"
  by (simp add: CompareBaseline_def Let_def compare_loop_eq enriched_index_None grandfathered_def baseline_keys_def)

lemma CompareBaseline_Seeded:
  "bc_Seeded (CompareBaseline current (Some b) opts) =
     map EnrichViolationIdentity (filter (\<lambda>v. \<not> grandfathered b opts v \<and> seeds opts (EnrichViolationIdentity v))
       (in_compare_scope opts current))"
  by (simp add: CompareBaseline_def Let_def compare_loop_eq enriched_index_None grandfathered_def baseline_keys_def)

lemma CompareBaseline_Fixed_keys:
  "identity_hash ` set (bc_Fixed (CompareBaseline current (Some b) opts)) \<subseteq>
     baseline_keys b - identity_hash ` set (in_compare_scope opts current)"
proof
  fix k
  assume "k \<in> identity_hash ` set (bc_Fixed (CompareBaseline current (Some b) opts))"
  then obtain key old where old: "(key, old) \<in> set (map_index v_IdentityHash (map EnrichViolationIdentity (ba_Violations b)))"
    "key \<notin> identity_hash ` set (in_compare_scope opts current)" "k = identity_hash old"
    by (auto simp: CompareBaseline_def Let_def compare_loop_eq enriched_index_None)
  from old(1) have "old \<in> set (map EnrichViolationIdentity (ba_Violations b))" "v_IdentityHash old = key"
    using map_index_Some unfolding set_map_index by metis+
  then show "k \<in> baseline_keys b - identity_hash ` set (in_compare_scope opts current)"
    using old by (auto simp: baseline_keys_def)
qed

lemma CompareBaseline_Fixed_all:
  assumes "bo_Scope opts = None \<or> (\<exists>sc. bo_Scope opts = Some sc \<and> gs_Mode sc = GateScopeModeAll)"
  shows "identity_hash ` set (bc_Fixed (CompareBaseline current (Some b) opts)) =
     baseline_keys b - identity_hash ` set current"
proof -
  let ?m = "map_index v_IdentityHash (map EnrichViolationIdentity (ba_Violations b))"
  have sc: "in_compare_scope opts current = current" "fixed_counts opts old" for old
    using assms by (auto simp: in_compare_scope_def fixed_counts_def)
  have "k \<in> identity_hash ` set (bc_Fixed (CompareBaseline current (Some b) opts))"
    if k: "k \<in> baseline_keys b" "k \<notin> identity_hash ` set current" for k
  proof -
    from k(1) have "map_has ?m k" by (simp only: has_enriched_index baseline_keys_def)
    then obtain old where old: "map_of ?m k = Some old" by blast
    from map_index_Some [OF this] have "identity_hash old = k" by auto
    moreover have "(k, old) \<in> set ?m" using old by (simp only: set_map_index)
    ultimately show ?thesis using k(2) sc
      by (force simp: CompareBaseline_def Let_def compare_loop_eq enriched_index_None)
  qed
  with CompareBaseline_Fixed_keys [of current b opts] sc(1) show ?thesis by auto
qed

text \<open>C8: The comparison partitions the in-scope findings.  A finding is grandfathered when its
  identity is in the baseline and its file was not touched by a diff or file scope; what is
  left is seeded under the rule-set-change exception or else new.  Each of the three parts keeps
  the order of the findings, nothing is lost and nothing is counted twice.\<close>

theorem CompareBaseline_partition:
  "let gf = filter (grandfathered b opts) (in_compare_scope opts current);
       cmp = CompareBaseline current (Some b) opts
   in bc_New cmp = map EnrichViolationIdentity (filter (\<lambda>v. \<not> grandfathered b opts v \<and> \<not> seeds opts (EnrichViolationIdentity v))
                     (in_compare_scope opts current))
      \<and> bc_Seeded cmp = map EnrichViolationIdentity (filter (\<lambda>v. \<not> grandfathered b opts v \<and> seeds opts (EnrichViolationIdentity v))
                     (in_compare_scope opts current))
      \<and> length gf + length (bc_New cmp) + length (bc_Seeded cmp) = length (in_compare_scope opts current)"
proof -
  have "length (filter P xs) + length (filter (\<lambda>v. \<not> P v \<and> \<not> Q v) xs) + length (filter (\<lambda>v. \<not> P v \<and> Q v) xs) = length xs"
    for P Q :: "Violation \<Rightarrow> bool" and xs
    by (induction xs) auto
  then show ?thesis by (simp add: Let_def CompareBaseline_New CompareBaseline_Seeded)
qed

text \<open>The strict file ratchet: under a diff or file scope every finding in a touched file is new,
  whether or not the baseline knows it, while a whole-tree run (or a run without scope) keeps
  every known finding grandfathered.\<close>

theorem ratchet_revokes_touched:
  "(gs_Mode sc = GateScopeModeDiff \<or> gs_Mode sc = GateScopeModeFile) \<and> v \<in> set current
     \<and> v_File v \<noteq> [] \<and> ContainsPath (Some sc) (v_File v) \<longrightarrow>
     EnrichViolationIdentity v \<in> set (bc_New (CompareBaseline current (Some b)
        \<lparr>bo_Scope = Some sc, bo_AllowRuleSetChangeSeeding = seeding, bo_ChangedFiles = changed\<rparr>))"
proof (intro impI, elim conjE)
  assume m: "gs_Mode sc = GateScopeModeDiff \<or> gs_Mode sc = GateScopeModeFile" and v: "v \<in> set current"
    "v_File v \<noteq> []" "ContainsPath (Some sc) (v_File v)"
  let ?o = "\<lparr>bo_Scope = Some sc, bo_AllowRuleSetChangeSeeding = seeding, bo_ChangedFiles = changed\<rparr>"
  have na: "gs_Mode sc \<noteq> GateScopeModeAll" using m by (auto simp: mode_defs)
  have "v \<in> set (in_compare_scope ?o current)"
    using v na by (simp add: in_compare_scope_def filterViolations_def)
  moreover have "\<not> grandfathered b ?o v" using m v(3) by (simp add: grandfathered_def scopeTouches_def)
  moreover have "\<not> seeds ?o (EnrichViolationIdentity v)" using na by (simp add: seeds_def)
  ultimately show "EnrichViolationIdentity v \<in> set (bc_New (CompareBaseline current (Some b) ?o))"
    by (auto simp: CompareBaseline_New)
qed

theorem ratchet_revokes_touched_witness:
  "EnrichViolationIdentity (violation_lit ''r'' ''a.go'' ''m'' ''error'') \<in>
     set (bc_New (CompareBaseline [violation_lit ''r'' ''a.go'' ''m'' ''error'']
       (Some \<lparr>ba_SchemaVersion = [], ba_GeneratedAt = [], ba_GitSHA = [], ba_BackstopVersion = [],
          ba_StepCounts = [], ba_StepRuleCounts = [], ba_Violations = [violation_lit ''r'' ''a.go'' ''m'' ''error'']\<rparr>)
       \<lparr>bo_Scope = Some (newGateScope ''/r'' GateScopeModeDiff [''a.go''] []),
        bo_AllowRuleSetChangeSeeding = False, bo_ChangedFiles = []\<rparr>))"
proof -
  have "ContainsPath (Some (newGateScope ''/r'' GateScopeModeDiff [''a.go''] [])) ''a.go''" by code_simp
  then show ?thesis by (intro ratchet_revokes_touched [rule_format]) simp
qed

subsection \<open>A baseline grandfathers the run it was taken from\<close>

definition accumulatedViolations :: "StepResult list \<Rightarrow> Violation list" where
  "accumulatedViolations steps =
     concat (map s_Violations (filter (\<lambda>s. \<not> bookkeeping_step (s_StepName s)) steps))"

lemma baseline_step_Violations:
  "ba_Violations (fold baseline_step steps a) =
     ba_Violations a @ map EnrichViolationIdentity (accumulatedViolations steps)"
  by (induction steps arbitrary: a) (simp_all add: baseline_step_def accumulatedViolations_def Let_def)

lemma NewBaseline_Violations:
  "ba_Violations (NewBaselineArtifactFromSteps steps g s v) =
     map EnrichViolationIdentity (accumulatedViolations steps)"
  by (simp add: NewBaselineArtifactFromSteps_def baseline_step_Violations)

lemma baseline_step_Counts:
  "map_get 0 (ba_StepCounts (fold baseline_step steps a)) name =
     (case find (\<lambda>s. s_StepName s = name \<and> \<not> bookkeeping_step name) (rev steps) of
        None \<Rightarrow> map_get 0 (ba_StepCounts a) name | Some s \<Rightarrow> int (length (s_Violations s)))"
proof (induction steps arbitrary: a)
  case (Cons s steps)
  show ?case
    using Cons.IH [of "baseline_step s a"]
    by (auto simp: baseline_step_def Let_def find_append split: option.splits)
qed simp

lemma baseline_of_run_is_clean_aux:
  assumes "bo_Scope opts = None \<or> (\<exists>sc. bo_Scope opts = Some sc \<and> gs_Mode sc = GateScopeModeAll)"
  shows "CompareBaseline (accumulatedViolations steps)
           (Some (NewBaselineArtifactFromSteps steps gen sha ver)) opts
         = \<lparr>bc_New = [], bc_Fixed = [], bc_Seeded = []\<rparr>"
proof -
  let ?b = "NewBaselineArtifactFromSteps steps gen sha ver" and ?cur = "accumulatedViolations steps"
  have keys: "baseline_keys ?b = identity_hash ` set ?cur"
    by (simp add: baseline_keys_def NewBaseline_Violations image_image)
  have t: "\<not> scopeTouches (bo_Scope opts) f" for f
    using assms by (auto simp: scopeTouches_def mode_defs)
  have gf: "\<forall>v\<in>set ?cur. grandfathered ?b opts v" by (simp add: grandfathered_def keys t)
  have sc: "in_compare_scope opts ?cur = ?cur" using assms by (auto simp: in_compare_scope_def)
  have "bc_New (CompareBaseline ?cur (Some ?b) opts) = []" "bc_Seeded (CompareBaseline ?cur (Some ?b) opts) = []"
    using gf by (simp_all add: CompareBaseline_New CompareBaseline_Seeded sc)
  moreover have "bc_Fixed (CompareBaseline ?cur (Some ?b) opts) = []"
    using CompareBaseline_Fixed_all [OF assms, of ?cur ?b] keys by simp
  ultimately show ?thesis by simp
qed



definition json_violation :: "Violation \<Rightarrow> Violation" where
  "json_violation v = v\<lparr>v_ProjectWide := False, v_GateType := [], v_Line := 0, v_WaiverHint := []\<rparr>"

definition json_artifact :: "BaselineArtifact \<Rightarrow> BaselineArtifact" where
  "json_artifact a = a\<lparr>ba_Violations := map json_violation (ba_Violations a)\<rparr>"

lemma identity_hash_json [simp]: "identity_hash (json_violation v) = identity_hash v"
  by (simp add: identity_hash_eq Enrich_RegionHash json_violation_def)

text \<open>Writing a baseline and loading it back keeps grandfathering.  Given a codec that returns
  an encoded artifact with its unserialised fields cleared, and a disk that returns what was
  written, the loaded artifact has the same keys as the artifact in memory, hence grandfathers
  the same findings.\<close>

theorem baseline_disk_roundtrip:
  assumes "WriteBaseline marshal mkdirAll writeFile path (Some a) = Inr (path, data)"
    and codec: "unmarshal data = Inr (json_artifact (written_artifact a))"
    and disk: "readFile path = Inr data"
  shows "\<exists>l. LoadBaseline readFile unmarshal path = Inr l \<and> baseline_keys l = baseline_keys a
             \<and> (\<forall>opts v. grandfathered l opts v = grandfathered a opts v)
             \<and> ba_SchemaVersion l \<noteq> []"
proof -
  let ?w = "json_artifact (written_artifact a)"
  let ?l = "?w\<lparr>ba_SchemaVersion := (if ba_SchemaVersion ?w = [] then BaselineSchemaV1 else ba_SchemaVersion ?w),
                ba_Violations := map EnrichViolationIdentity (ba_Violations ?w)\<rparr>"
  have "LoadBaseline readFile unmarshal path = Inr ?l" by (simp add: LoadBaseline_def disk codec)
  moreover have "baseline_keys ?l = baseline_keys a"
    by (simp add: baseline_keys_def json_artifact_def written_artifact_def image_image)
  ultimately show ?thesis by (auto simp: grandfathered_def BaselineSchemaV1_def)
qed

definition demo_artifact :: BaselineArtifact where
  "demo_artifact = \<lparr>ba_SchemaVersion = [], ba_GeneratedAt = [], ba_GitSHA = [], ba_BackstopVersion = [],
     ba_StepCounts = [], ba_StepRuleCounts = [], ba_Violations = [(violation_lit ''r'' ''a.go'' ''m'' ''error'')\<lparr>v_Line := 3\<rparr>]\<rparr>"

theorem baseline_disk_roundtrip_witness:
  "\<exists>l. LoadBaseline (\<lambda>p. Inr ''x'') (\<lambda>d. Inr (json_artifact (written_artifact demo_artifact))) ''b.json'' = Inr l
       \<and> baseline_keys l = baseline_keys demo_artifact
       \<and> (\<forall>opts v. grandfathered l opts v = grandfathered demo_artifact opts v) \<and> ba_SchemaVersion l \<noteq> []"
  by (rule baseline_disk_roundtrip [of "\<lambda>a. Inr ''x''" "\<lambda>d. None" "\<lambda>p d. None" "''b.json''" demo_artifact "''x''"])
     (simp_all add: WriteBaseline_def)

end
