(* ===== verification/Gate_Policy.thy ===== *)
theory Gate_Policy
  imports Gate_Baseline
begin

text \<open>
  Severity, step verdicts and the per-dimension enforcement policy (\<open>src/pkg/gate/policy.go\<close>).
  The tri-state verdict is stated as an interface, with the facts every verdict of that shape
  has, and the step verdict of the code is an instance of it.
\<close>

definition PolicyOff :: string where "PolicyOff = ''off''"
definition PolicyWarn :: string where "PolicyWarn = ''warn''"
definition PolicyBlock :: string where "PolicyBlock = ''block''"
definition AppliesToNewCode :: string where "AppliesToNewCode = ''new-code''"
definition AppliesToAllCode :: string where "AppliesToAllCode = ''all-code''"

lemmas policy_defs = PolicyOff_def PolicyWarn_def PolicyBlock_def AppliesToNewCode_def AppliesToAllCode_def

datatype DimensionPolicy =
  DimensionPolicy (dim_Level: string) (dim_AppliesTo: string) (dim_Sources: "(string \<times> DimensionPolicy) list")

definition blocksVerdict :: "Violation \<Rightarrow> bool" where
  "blocksVerdict v \<longleftrightarrow> \<not> EqualFold (TrimSpace (v_Severity v)) ''warning''"

definition blockingViolations :: "Violation list \<Rightarrow> Violation list" where
  "blockingViolations violations = filter blocksVerdict violations"

definition StepVerdict :: "Violation list \<Rightarrow> string" where
  "StepVerdict violations =
     (if violations = [] then ''pass''
      else if blockingViolations violations \<noteq> [] then ''fail'' else ''warning'')"

definition policyMetaStep :: "string \<Rightarrow> bool" where
  "policyMetaStep name \<longleftrightarrow>
     name = StepWaiverResolution \<or> name = StepLedgerIntegrity \<or> name = ''pack_lock_verification''"

definition compare_opts :: "GateScope option \<Rightarrow> BaselineCompareOptions" where
  "compare_opts scope = \<lparr>bo_Scope = scope, bo_AllowRuleSetChangeSeeding = False, bo_ChangedFiles = []\<rparr>"

text \<open>The policy in force for one violation: its pack's override, else the dimension's own.\<close>

definition effective_policy :: "DimensionPolicy \<Rightarrow> Violation \<Rightarrow> DimensionPolicy" where
  "effective_policy p v = (case map_of (dim_Sources p) (v_SourcePack v) of Some o' \<Rightarrow> o' | None \<Rightarrow> p)"

definition level_or_block :: "string \<Rightarrow> string" where
  "level_or_block lvl = (if lvl = [] then PolicyBlock else lvl)"

text \<open>The loop of \<open>applyScopedPolicy\<close>: the blocking findings and the number of warned ones.\<close>

fun scoped_loop ::
  "DimensionPolicy \<Rightarrow> bool \<Rightarrow> string list \<Rightarrow> Violation list \<Rightarrow> Violation list \<Rightarrow> nat \<Rightarrow> Violation list \<times> nat" where
  "scoped_loop p has_baseline newSet [] blocking warned = (blocking, warned)"
| "scoped_loop p has_baseline newSet (v # vs) blocking warned =
     (let eff = effective_policy p v; lvl = level_or_block (dim_Level eff) in
      if lvl = PolicyOff then scoped_loop p has_baseline newSet vs blocking warned
      else let counts = (if dim_AppliesTo eff = AppliesToNewCode \<and> has_baseline
                         then identity_hash v \<in> set newSet else True) in
      if \<not> counts then scoped_loop p has_baseline newSet vs blocking warned
      else if lvl = PolicyWarn \<or> \<not> blocksVerdict v
      then scoped_loop p has_baseline newSet vs blocking (Suc warned)
      else scoped_loop p has_baseline newSet vs (blocking @ [v]) warned)"

definition applyScopedPolicy ::
  "StepResult \<Rightarrow> DimensionPolicy \<Rightarrow> BaselineArtifact option \<Rightarrow> GateScope option \<Rightarrow> StepResult" where
  "applyScopedPolicy s p baseline scope =
     (let cmp = CompareBaseline (s_Violations s) baseline (compare_opts scope);
          newSet = (if baseline = None then [] else map identity_hash (bc_New cmp));
          s1 = (if baseline = None then s else s\<lparr>s_FixedViolations := bc_Fixed cmp\<rparr>)
      in case scoped_loop p (baseline \<noteq> None) newSet (s_Violations s) [] 0 of (blocking, warned) \<Rightarrow>
           s1\<lparr>s_NewViolations := blocking,
              s_Status := (if blocking \<noteq> [] then ''fail'' else if 0 < warned then ''warning'' else ''pass'')\<rparr>)"

text \<open>The body of the loop of \<open>ApplyPolicy\<close>.\<close>

definition apply_policy_step ::
  "BaselineArtifact option \<Rightarrow> (string, DimensionPolicy) gomap \<Rightarrow> GateScope option \<Rightarrow> StepResult \<Rightarrow> StepResult" where
  "apply_policy_step baseline policy scope s =
     (if s_StepName s = StepBaselineComparison then
        s\<lparr>s_Status := ''skipped'', s_Reason := ''superseded by per-dimension enforcement policy'',
          s_Violations := []\<rparr>
      else case map_of policy (s_StepName s) of
        None \<Rightarrow> s
      | Some p \<Rightarrow>
          if policyMetaStep (s_StepName s) \<or> s_ConfigErr s \<or> s_Status s = ''skipped'' then s
          else let level = level_or_block (dim_Level p) in
          if level = PolicyOff then
            s\<lparr>s_Status := ''skipped'', s_Reason := ''disabled by enforcement policy (level: off)'',
              s_Violations := [], s_NewViolations := []\<rparr>
          else if dim_Sources p \<noteq> [] then applyScopedPolicy s p baseline scope
          else
            let grand = dim_AppliesTo p = AppliesToNewCode \<and> baseline \<noteq> None;
                cmp = CompareBaseline (s_Violations s) baseline (compare_opts scope);
                counted = (if grand then bc_New cmp else s_Violations s);
                s1 = (if grand then s\<lparr>s_NewViolations := bc_New cmp, s_FixedViolations := bc_Fixed cmp\<rparr> else s);
                countedBlocking = blockingViolations counted
            in if level = PolicyWarn
               then s1\<lparr>s_Status := (if counted \<noteq> [] then ''warning'' else ''pass'')\<rparr>
               else s1\<lparr>s_Status := (if countedBlocking \<noteq> [] then ''fail''
                                     else if counted \<noteq> [] then ''warning'' else ''pass'')\<rparr>)"

definition ApplyPolicy ::
  "StepResult list \<Rightarrow> BaselineArtifact option \<Rightarrow> (string, DimensionPolicy) gomap \<Rightarrow> GateScope option \<Rightarrow> StepResult list" where
  "ApplyPolicy steps baseline policy scope =
     (if policy = [] then steps else map (apply_policy_step baseline policy scope) steps)"

subsection \<open>The tri-state verdict as an interface\<close>

text \<open>A verdict that fails on an entry that blocks, else warns on an entry that warns, else passes.\<close>

locale tri_state_verdict =
  fixes blocks :: "'v \<Rightarrow> bool" and warns :: "'v \<Rightarrow> bool" and verdict :: "'v list \<Rightarrow> string"
  assumes fails: "(\<exists>v\<in>set vs. blocks v) \<Longrightarrow> verdict vs = ''fail''"
    and warned: "\<forall>v\<in>set vs. \<not> blocks v \<Longrightarrow> \<exists>v\<in>set vs. warns v \<Longrightarrow> verdict vs = ''warning''"
    and passes: "\<forall>v\<in>set vs. \<not> blocks v \<and> \<not> warns v \<Longrightarrow> verdict vs = ''pass''"
begin

lemma verdict_cases:
  "verdict vs = (if \<exists>v\<in>set vs. blocks v then ''fail'' else if \<exists>v\<in>set vs. warns v then ''warning'' else ''pass'')"
  using fails warned passes by auto

lemma fail_iff: "verdict vs = ''fail'' \<longleftrightarrow> (\<exists>v\<in>set vs. blocks v)"
  by (simp add: verdict_cases)

lemma verdict_cong: "set vs = set us \<Longrightarrow> verdict vs = verdict us"
  by (simp add: verdict_cases)

lemma fail_mono: "set vs \<subseteq> set us \<Longrightarrow> verdict vs = ''fail'' \<Longrightarrow> verdict us = ''fail''"
  by (auto simp: fail_iff)

lemma fail_append: "verdict (vs @ us) = ''fail'' \<longleftrightarrow> verdict vs = ''fail'' \<or> verdict us = ''fail''"
  by (auto simp: fail_iff)

lemma never_skipped: "verdict vs \<in> {''pass'', ''fail'', ''warning''}"
  by (simp add: verdict_cases)

end

lemma StepVerdict_cases:
  "StepVerdict vs = (if \<exists>v\<in>set vs. blocksVerdict v then ''fail'' else if vs \<noteq> [] then ''warning'' else ''pass'')"
  by (auto simp: StepVerdict_def blockingViolations_def filter_empty_conv)

interpretation step: tri_state_verdict blocksVerdict "\<lambda>v. \<not> blocksVerdict v" StepVerdict
proof
  fix vs
  assume "\<forall>v\<in>set vs. \<not> blocksVerdict v \<and> \<not> \<not> blocksVerdict v"
  then show "StepVerdict vs = ''pass''" by (cases vs) (auto simp: StepVerdict_def)
qed (auto simp: StepVerdict_cases)

subsection \<open>Severity fails closed\<close>

text \<open>Only an explicit warning is exempt: a finding whose severity is unset, blank or any word
  but \<open>warning\<close> (up to ASCII case and surrounding white space) blocks, so a step that holds
  one fails.\<close>

theorem unset_severity_blocks:
  assumes "v \<in> set vs" "ToLower (TrimSpace (v_Severity v)) \<noteq> ''warning''"
  shows "StepVerdict vs = ''fail''"
proof -
  have "ToLower ''warning'' = ''warning''" by code_simp
  with assms show ?thesis by (auto simp: StepVerdict_cases blocksVerdict_def EqualFold_def)
qed

theorem unset_severity_blocks_witness:
  "StepVerdict [violation_lit ''r'' ''f'' ''m'' ''warning'', violation_lit ''r'' ''f'' ''m'' []] = ''fail''"
proof -
  have "ToLower (TrimSpace []) \<noteq> ''warning''" by code_simp
  then show ?thesis
    using unset_severity_blocks [of "violation_lit ''r'' ''f'' ''m'' []"
        "[violation_lit ''r'' ''f'' ''m'' ''warning'', violation_lit ''r'' ''f'' ''m'' []]"] by simp
qed

subsection \<open>Scoped policies\<close>

definition counts_scoped :: "DimensionPolicy \<Rightarrow> bool \<Rightarrow> string list \<Rightarrow> Violation \<Rightarrow> bool" where
  "counts_scoped p hb newSet v \<longleftrightarrow>
     level_or_block (dim_Level (effective_policy p v)) \<noteq> PolicyOff
     \<and> (dim_AppliesTo (effective_policy p v) = AppliesToNewCode \<and> hb \<longrightarrow> identity_hash v \<in> set newSet)"

definition blocks_scoped :: "DimensionPolicy \<Rightarrow> bool \<Rightarrow> string list \<Rightarrow> Violation \<Rightarrow> bool" where
  "blocks_scoped p hb newSet v \<longleftrightarrow>
     counts_scoped p hb newSet v
     \<and> level_or_block (dim_Level (effective_policy p v)) \<noteq> PolicyWarn \<and> blocksVerdict v"

lemma scoped_loop_eq:
  "scoped_loop p hb newSet vs blocking warned =
     (blocking @ filter (blocks_scoped p hb newSet) vs,
      warned + length (filter (\<lambda>v. counts_scoped p hb newSet v \<and> \<not> blocks_scoped p hb newSet v) vs))"
  by (induction vs arbitrary: blocking warned)
     (auto simp: Let_def blocks_scoped_def counts_scoped_def)

definition scoped_new_set :: "StepResult \<Rightarrow> BaselineArtifact option \<Rightarrow> GateScope option \<Rightarrow> string list" where
  "scoped_new_set s baseline scope =
     (if baseline = None then []
      else map identity_hash (bc_New (CompareBaseline (s_Violations s) baseline (compare_opts scope))))"

lemma applyScopedPolicy_Status:
  "s_Status (applyScopedPolicy s p baseline scope) =
     (if \<exists>v\<in>set (s_Violations s). blocks_scoped p (baseline \<noteq> None) (scoped_new_set s baseline scope) v then ''fail''
      else if \<exists>v\<in>set (s_Violations s). counts_scoped p (baseline \<noteq> None) (scoped_new_set s baseline scope) v
      then ''warning'' else ''pass'')"
  by (simp add: applyScopedPolicy_def Let_def scoped_loop_eq scoped_new_set_def filter_empty_conv)

lemma applyScopedPolicy_keeps [simp]:
  "s_StepName (applyScopedPolicy s p baseline scope) = s_StepName s"
  "s_Violations (applyScopedPolicy s p baseline scope) = s_Violations s"
  "s_ConfigErr (applyScopedPolicy s p baseline scope) = s_ConfigErr s"
  by (simp_all add: applyScopedPolicy_def Let_def scoped_loop_eq)

lemma apply_policy_step_keeps [simp]:
  "s_StepName (apply_policy_step baseline policy scope s) = s_StepName s"
  "s_ConfigErr (apply_policy_step baseline policy scope s) = s_ConfigErr s"
  by (simp_all add: apply_policy_step_def Let_def split: option.split)

text \<open>A source-scoped entry decides each finding by its own pack: the step fails exactly when
  some finding counts under its pack's policy (net-new when that policy grandfathers and a
  baseline exists), its level is neither off nor warn, and its severity blocks; the findings
  that decide are reported as the new violations, and the reported list is untouched.\<close>

theorem scoped_policy_per_source:
  "(s_Status (applyScopedPolicy s p baseline scope) = ''fail'' \<longleftrightarrow>
     (\<exists>v\<in>set (s_Violations s).
        level_or_block (dim_Level (effective_policy p v)) \<notin> {PolicyOff, PolicyWarn} \<and> blocksVerdict v
        \<and> (dim_AppliesTo (effective_policy p v) = AppliesToNewCode \<and> baseline \<noteq> None
             \<longrightarrow> identity_hash v \<in> identity_hash ` set (bc_New (CompareBaseline (s_Violations s) baseline (compare_opts scope))))))
   \<and> (s_Status (applyScopedPolicy s p baseline scope) = ''fail'' \<longleftrightarrow> s_NewViolations (applyScopedPolicy s p baseline scope) \<noteq> [])
   \<and> s_Violations (applyScopedPolicy s p baseline scope) = s_Violations s"
proof (intro conjI)
  show "s_Status (applyScopedPolicy s p baseline scope) = ''fail'' \<longleftrightarrow>
     (\<exists>v\<in>set (s_Violations s).
        level_or_block (dim_Level (effective_policy p v)) \<notin> {PolicyOff, PolicyWarn} \<and> blocksVerdict v
        \<and> (dim_AppliesTo (effective_policy p v) = AppliesToNewCode \<and> baseline \<noteq> None
             \<longrightarrow> identity_hash v \<in> identity_hash ` set (bc_New (CompareBaseline (s_Violations s) baseline (compare_opts scope)))))"
    unfolding applyScopedPolicy_Status blocks_scoped_def counts_scoped_def scoped_new_set_def by auto
  show "s_Status (applyScopedPolicy s p baseline scope) = ''fail'' \<longleftrightarrow> s_NewViolations (applyScopedPolicy s p baseline scope) \<noteq> []"
    by (simp add: applyScopedPolicy_def Let_def scoped_loop_eq)
qed simp

theorem scoped_policy_per_source_witness:
  "s_Status (applyScopedPolicy (step_lit ''pack_engines'' ''pass'' [(violation_lit ''r'' ''f'' ''m'' ''error'')\<lparr>v_SourcePack := ''backstop/self''\<rparr>])
       (DimensionPolicy ''warn'' [] [(''backstop/self'', DimensionPolicy ''block'' ''all-code'' [])]) None None) = ''fail''"
proof -
  have b: "blocksVerdict ((violation_lit ''r'' ''f'' ''m'' ''error'')\<lparr>v_SourcePack := ''backstop/self''\<rparr>)" by code_simp
  show ?thesis
    unfolding scoped_policy_per_source [THEN conjunct1]
    using b by (simp add: effective_policy_def level_or_block_def policy_defs)
qed

subsection \<open>The policy layer overrides, it does not invent\<close>

lemma effective_policy_plain: "\<forall>v\<in>set vs. map_of (dim_Sources p) (v_SourcePack v) = None \<Longrightarrow> v \<in> set vs \<Longrightarrow> effective_policy p v = p"
  by (simp add: effective_policy_def)

text \<open>The policy layer agrees with the step's own verdict: for a dimension at level block (or
  unset) counting all code (or with no baseline to grandfather against) and without source
  overrides, the status after policy is the severity verdict over everything reported, so a
  policied and an unpolicied consumer get the same answer, and a missing baseline never
  turns a blocking finding green.\<close>

theorem block_policy_is_step_verdict:
  assumes "map_of policy (s_StepName s) = Some p" "dim_Level p \<in> {[], PolicyBlock}" "dim_Sources p = []"
    and "dim_AppliesTo p \<noteq> AppliesToNewCode \<or> baseline = None"
    and "s_StepName s \<noteq> StepBaselineComparison" "\<not> policyMetaStep (s_StepName s)"
    and "\<not> s_ConfigErr s" "s_Status s \<noteq> ''skipped''"
  shows "apply_policy_step baseline policy scope s = s\<lparr>s_Status := StepVerdict (s_Violations s)\<rparr>"
proof -
  have l: "level_or_block (dim_Level p) = PolicyBlock" using assms(2) by (auto simp: level_or_block_def)
  have g: "(dim_AppliesTo p = AppliesToNewCode \<and> baseline \<noteq> None) = False" using assms(4) by blast
  have ne: "PolicyBlock \<noteq> PolicyOff" "PolicyBlock \<noteq> PolicyWarn" by (simp_all add: policy_defs)
  have v: "(if blockingViolations vs \<noteq> [] then ''fail'' else if vs \<noteq> [] then ''warning'' else ''pass'') = StepVerdict vs"
    for vs by (cases vs) (simp_all add: StepVerdict_def blockingViolations_def)
  show ?thesis
    unfolding apply_policy_step_def Let_def v
    by (simp only: assms(1,3,5-8) ne l g option.case if_False simp_thms)
qed

theorem block_policy_is_step_verdict_witness:
  "apply_policy_step None [(''pack_engines'', DimensionPolicy [] ''new-code'' [])] None
     (step_lit ''pack_engines'' ''pass'' [violation_lit ''r'' ''f'' ''m'' ''error''])
   = (step_lit ''pack_engines'' ''pass'' [violation_lit ''r'' ''f'' ''m'' ''error''])
       \<lparr>s_Status := StepVerdict [violation_lit ''r'' ''f'' ''m'' ''error'']\<rparr>"
  using block_policy_is_step_verdict [of "[(''pack_engines'', DimensionPolicy [] ''new-code'' [])]"
      "step_lit ''pack_engines'' ''pass'' [violation_lit ''r'' ''f'' ''m'' ''error'']"
      "DimensionPolicy [] ''new-code'' []" None None]
  by (simp add: policyMetaStep_def step_name_defs)

text \<open>Nil-baseline parity: without a baseline a policy entry with source overrides that match no
  finding of the step reaches the same status as the dimension-only path.\<close>

theorem scoped_mirrors_unscoped_nil_baseline:
  assumes "level_or_block (dim_Level p) \<noteq> PolicyOff"
    and "\<forall>v\<in>set (s_Violations s). map_of (dim_Sources p) (v_SourcePack v) = None"
    and "s_StepName s \<noteq> StepBaselineComparison" "\<not> policyMetaStep (s_StepName s)"
    and "\<not> s_ConfigErr s" "s_Status s \<noteq> ''skipped''"
  shows "s_Status (applyScopedPolicy s p None scope) =
         s_Status (apply_policy_step None [(s_StepName s, DimensionPolicy (dim_Level p) (dim_AppliesTo p) [])] scope s)"
proof -
  have eff: "effective_policy p v = p" if "v \<in> set (s_Violations s)" for v
    using effective_policy_plain [OF assms(2) that] .
  have "s_Status (applyScopedPolicy s p None scope) =
     (if level_or_block (dim_Level p) \<noteq> PolicyWarn \<and> (\<exists>v\<in>set (s_Violations s). blocksVerdict v) then ''fail''
      else if s_Violations s \<noteq> [] then ''warning'' else ''pass'')"
    unfolding applyScopedPolicy_Status blocks_scoped_def counts_scoped_def
    using eff assms(1) by (cases "s_Violations s") auto
  moreover have "s_Status (apply_policy_step None [(s_StepName s, DimensionPolicy (dim_Level p) (dim_AppliesTo p) [])] scope s) =
     (if level_or_block (dim_Level p) \<noteq> PolicyWarn \<and> (\<exists>v\<in>set (s_Violations s). blocksVerdict v) then ''fail''
      else if s_Violations s \<noteq> [] then ''warning'' else ''pass'')"
    using assms by (auto simp: apply_policy_step_def Let_def blockingViolations_def filter_empty_conv)
  ultimately show ?thesis by simp
qed

theorem scoped_mirrors_unscoped_nil_baseline_witness:
  "s_Status (applyScopedPolicy (step_lit ''pack_engines'' ''fail'' [violation_lit ''r'' ''f'' ''m'' ''error''])
       (DimensionPolicy ''block'' ''new-code'' [(''backstop/self'', DimensionPolicy ''warn'' [] [])]) None None) =
   s_Status (apply_policy_step None [(''pack_engines'', DimensionPolicy ''block'' ''new-code'' [])] None
       (step_lit ''pack_engines'' ''fail'' [violation_lit ''r'' ''f'' ''m'' ''error'']))"
  using scoped_mirrors_unscoped_nil_baseline
    [of "DimensionPolicy ''block'' ''new-code'' [(''backstop/self'', DimensionPolicy ''warn'' [] [])]"
        "step_lit ''pack_engines'' ''fail'' [violation_lit ''r'' ''f'' ''m'' ''error'']" None]
  by (simp add: level_or_block_def policy_defs policyMetaStep_def step_name_defs)

text \<open>A policy never fails a clean step and never masks a broken one: after \<open>ApplyPolicy\<close> the
  steps are the same steps in the same order; a step with a configuration error keeps its
  status; a step that fails after the policy either failed before or holds a finding whose
  severity blocks; and a step at level warn without overrides never fails.\<close>

theorem ApplyPolicy_never_invents:
  "map s_StepName (ApplyPolicy steps baseline policy scope) = map s_StepName steps
   \<and> (\<forall>s\<in>set steps. \<forall>t. t = apply_policy_step baseline policy scope s \<longrightarrow>
        (s_ConfigErr s \<and> s_StepName s \<noteq> StepBaselineComparison \<longrightarrow> t = s)
        \<and> (s_Status t = ''fail'' \<longrightarrow> s_Status s = ''fail'' \<or> (\<exists>v\<in>set (s_Violations s). blocksVerdict v))
        \<and> (map_of policy (s_StepName s) = Some (DimensionPolicy PolicyWarn ap []) \<and> \<not> s_ConfigErr s
             \<and> \<not> policyMetaStep (s_StepName s) \<longrightarrow> s_Status t \<noteq> ''fail''))"
proof (intro conjI ballI allI impI)
  show "map s_StepName (ApplyPolicy steps baseline policy scope) = map s_StepName steps"
    by (simp add: ApplyPolicy_def)
next
  fix s t
  assume t: "t = apply_policy_step baseline policy scope s"
  {
    assume "s_ConfigErr s \<and> s_StepName s \<noteq> StepBaselineComparison"
    then show "t = s" unfolding t by (simp add: apply_policy_step_def split: option.split)
  next
    assume f: "s_Status t = ''fail''"
    show "s_Status s = ''fail'' \<or> (\<exists>v\<in>set (s_Violations s). blocksVerdict v)"
    proof (rule ccontr)
      assume n: "\<not> (s_Status s = ''fail'' \<or> (\<exists>v\<in>set (s_Violations s). blocksVerdict v))"
      have "\<forall>v\<in>set (bc_New (CompareBaseline (s_Violations s) baseline (compare_opts scope))). \<not> blocksVerdict v"
        using n by (cases baseline)
          (auto simp: CompareBaseline_def [of _ None] CompareBaseline_New blocksVerdict_def in_compare_scope_def
            filterViolations_def split: option.splits if_splits)
      with f n show False unfolding t
        by (auto simp: apply_policy_step_def Let_def applyScopedPolicy_Status blocks_scoped_def
            blockingViolations_def filter_empty_conv split: option.splits if_splits)
    qed
  next
    assume "map_of policy (s_StepName s) = Some (DimensionPolicy PolicyWarn ap []) \<and> \<not> s_ConfigErr s
             \<and> \<not> policyMetaStep (s_StepName s)"
    then show "s_Status t \<noteq> ''fail''" unfolding t
      by (auto simp: apply_policy_step_def Let_def level_or_block_def policy_defs)
  }
qed

theorem ApplyPolicy_never_invents_witness:
  "\<exists>t. t = apply_policy_step None [(''code_check'', DimensionPolicy PolicyWarn [] [])] None
              (step_lit ''code_check'' ''fail'' [violation_lit ''r'' ''f'' ''m'' ''error''])
       \<and> s_Status t \<noteq> ''fail''"
  using ApplyPolicy_never_invents [of "[step_lit ''code_check'' ''fail'' [violation_lit ''r'' ''f'' ''m'' ''error'']]"
      None "[(''code_check'', DimensionPolicy PolicyWarn [] [])]" None "[]"]
  by (simp add: policyMetaStep_def step_name_defs)

end
