(* ===== verification/Artifact_Status.thy ===== *)
theory Artifact_Status
  imports Artifact_Layout Gate_Policy
begin

text \<open>
  The artifact-status resolver and the mandated-test extraction
  (\<open>src/pkg/gate/artifact_status.go\<close>, \<open>step_testverify.go\<close>).  The disk is given by a directory
  listing and a file reader, YAML by one decoder per front-matter shape; the walks, the
  fences, the classification, the claim index and the union of the two channels of a plan's
  mandated tests are the program's.
\<close>

type_synonym ArtifactKind = string

definition KindIssue :: ArtifactKind where "KindIssue = ''issue''"
definition KindSpec :: ArtifactKind where "KindSpec = ''spec''"
definition KindPlan :: ArtifactKind where "KindPlan = ''plan''"
definition KindDirective :: ArtifactKind where "KindDirective = ''directive''"
definition KindBundle :: ArtifactKind where "KindBundle = ''bundle''"

lemmas kind_defs = KindIssue_def KindSpec_def KindPlan_def KindDirective_def KindBundle_def

datatype StatusClass = ClassNonTerminal | ClassSuccessTerminal | ClassRetiredTerminal

fun class_string :: "StatusClass \<Rightarrow> string" where
  "class_string ClassNonTerminal = ''non-terminal''"
| "class_string ClassSuccessTerminal = ''success-terminal''"
| "class_string ClassRetiredTerminal = ''retired-terminal''"

definition ClassifyArtifactStatus :: "ArtifactKind \<Rightarrow> string \<Rightarrow> StatusClass" where
  "ClassifyArtifactStatus kind status =
     (if status \<in> {''replaced'', ''canceled'', ''deprecated'', ''obsoleted''} then ClassRetiredTerminal
      else if kind = KindIssue \<and> status = ''closed'' then ClassSuccessTerminal
      else if kind = KindSpec \<and> status = ''implemented'' then ClassSuccessTerminal
      else if kind = KindDirective \<and> status = ''done'' then ClassSuccessTerminal
      else if kind = KindPlan \<and> status = ''completed'' then ClassSuccessTerminal
      else if kind = KindBundle \<and> status = ''delivered'' then ClassSuccessTerminal
      else ClassNonTerminal)"

record MandatedTest =
  mt_FuncName :: string
  mt_FilePath :: string
  mt_SpecFile :: string
  mt_TargetPkg :: string
  mt_SpecID :: string
  mt_ClaimID :: string
  mt_Status :: string
  mt_IsAbsence :: bool

definition mandated_lit :: "string \<Rightarrow> string \<Rightarrow> string \<Rightarrow> string \<Rightarrow> MandatedTest" where
  "mandated_lit func specFile specID claimID =
     \<lparr>mt_FuncName = func, mt_FilePath = [], mt_SpecFile = specFile, mt_TargetPkg = [],
      mt_SpecID = specID, mt_ClaimID = claimID, mt_Status = [], mt_IsAbsence = False\<rparr>"

lemma mandated_lit_simps [simp]:
  "mt_FuncName (mandated_lit f sf si c) = f" "mt_SpecFile (mandated_lit f sf si c) = sf"
  "mt_SpecID (mandated_lit f sf si c) = si" "mt_ClaimID (mandated_lit f sf si c) = c"
  by (simp_all add: mandated_lit_def)

record BundleReqVersion =
  br_ReqID :: string
  br_CurrentVersion :: string

record ArtifactStatusRecord =
  ar_ID :: string
  ar_Kind :: ArtifactKind
  ar_Status :: string
  ar_Class :: StatusClass
  ar_Path :: string
  ar_MandatedTests :: "MandatedTest list"
  ar_SpecID :: string
  ar_BundleName :: string
  ar_BundleReqs :: "BundleReqVersion list"

definition record_lit :: "string \<Rightarrow> ArtifactKind \<Rightarrow> string \<Rightarrow> string \<Rightarrow> MandatedTest list \<Rightarrow> ArtifactStatusRecord" where
  "record_lit aid kind status path tests =
     \<lparr>ar_ID = aid, ar_Kind = kind, ar_Status = status, ar_Class = ClassifyArtifactStatus kind status,
      ar_Path = path, ar_MandatedTests = tests, ar_SpecID = [], ar_BundleName = [], ar_BundleReqs = []\<rparr>"

record ArtifactStatusResolution =
  rs_Records :: "ArtifactStatusRecord list"
  rs_plansBySpecID :: "(string, ArtifactStatusRecord) gomap"

definition BackingPlan :: "ArtifactStatusResolution option \<Rightarrow> string \<Rightarrow> ArtifactStatusRecord option" where
  "BackingPlan r artifactID = (case r of None \<Rightarrow> None | Some res \<Rightarrow> map_of (rs_plansBySpecID res) artifactID)"

subsection \<open>Front matter\<close>

record claimBlock =
  cb_ID :: string
  cb_Tests :: "string list"

record artifactFrontmatter =
  fm_Number :: string
  fm_Status :: string
  fm_IssueID :: string
  fm_IssueStatus :: string
  fm_DirectiveStatus :: string
  fm_Claims :: "claimBlock list"

record planTaskNode =
  tn_ID :: string
  tn_TestNames :: "string list"
  tn_Claims :: "string list"

record planPhaseNode =
  ph_Tasks :: "planTaskNode list"

record planFrontmatter =
  pf_PlanID :: string
  pf_SpecID :: string
  pf_Status :: string
  pf_Phases :: "planPhaseNode list"

record bundleFrontmatter =
  bf_Number :: string
  bf_Name :: string
  bf_Maturity :: string
  bf_Requirements :: "(string \<times> string) list"

record specClaim =
  sc_ID :: string
  sc_Kind :: string
  sc_Subject :: string
  sc_Tests :: "string list"

record provideBlock =
  pv_Name :: string
  pv_Kind :: string
  pv_Signature :: string
  pv_Absent :: bool
  pv_Scope :: string

record contractBlock =
  ct_File :: string
  ct_Provides :: "provideBlock list"

record specFrontmatter =
  sf_Number :: string
  sf_Status :: string
  sf_ImplSubject :: string
  sf_ImplPackage :: string
  sf_TestCommand :: string
  sf_CoverageThreshold :: int
  sf_MetricThresholds :: "(string, int) gomap"
  sf_Claims :: "specClaim list"
  sf_Contracts :: "contractBlock list"

datatype dir_listing = DirMissing | DirError string | DirEntries "(string \<times> bool) list"

text \<open>The disk and the decoders a resolver run reads.\<close>

record corpus =
  co_readDir :: "string \<Rightarrow> dir_listing"
  co_readFile :: "string \<Rightarrow> string option"
  co_artifact :: "string \<Rightarrow> artifactFrontmatter option"
  co_plan :: "string \<Rightarrow> planFrontmatter option"
  co_bundle :: "string \<Rightarrow> bundleFrontmatter option"
  co_spec :: "string \<Rightarrow> specFrontmatter option"

text \<open>\<open>readFencedFrontmatter\<close>: the lines between the opening fence and the next one.\<close>

definition is_fence :: "string \<Rightarrow> bool" where
  "is_fence line \<longleftrightarrow> TrimSpace line = ''---''"

definition fenced :: "string list \<Rightarrow> string option" where
  "fenced ls =
     (case ls of
        [] \<Rightarrow> None
      | l # rest \<Rightarrow> if is_fence l then Some (Join (takeWhile (\<lambda>x. \<not> is_fence x) rest) [CHR 0x0A]) else None)"

definition readFencedFrontmatter :: "corpus \<Rightarrow> string \<Rightarrow> string option" where
  "readFencedFrontmatter c path =
     (case co_readFile c path of None \<Rightarrow> None | Some content \<Rightarrow> fenced (Split content (CHR 0x0A)))"

text \<open>\<open>bufio.Scanner\<close> over lines: a final empty line is not delivered, a carriage return before the
  newline is dropped, and the scan ends at a line that does not fit the 64 KiB buffer.\<close>

definition drop_cr :: "string \<Rightarrow> string" where
  "drop_cr l = (if l \<noteq> [] \<and> last l = CHR 0x0D then butlast l else l)"

definition scan_lines :: "string \<Rightarrow> string list" where
  "scan_lines content =
     (let ls = Split content (CHR 0x0A);
          ls' = (if last ls = [] then butlast ls else ls)
      in map drop_cr (takeWhile (\<lambda>l. length l \<le> 65535) ls'))"

definition parseSpecFrontmatter :: "corpus \<Rightarrow> string \<Rightarrow> specFrontmatter option" where
  "parseSpecFrontmatter c path =
     (case co_readFile c path of
        None \<Rightarrow> None
      | Some content \<Rightarrow> (case fenced (scan_lines content) of None \<Rightarrow> None | Some raw \<Rightarrow> co_spec c raw))"

subsection \<open>Mandated tests\<close>

definition isTerminalSpecStatus :: "string \<Rightarrow> bool" where
  "isTerminalSpecStatus status \<longleftrightarrow> status \<in> {''replaced'', ''canceled'', ''deprecated''}"

definition contractsAreDue :: "string \<Rightarrow> bool" where
  "contractsAreDue status \<longleftrightarrow> status = ''implemented''"

definition filterDueMandatedTests :: "MandatedTest list \<Rightarrow> MandatedTest list" where
  "filterDueMandatedTests mandated = filter (\<lambda>mt. contractsAreDue (mt_Status mt)) mandated"

definition implementationSubject :: "specFrontmatter \<Rightarrow> string" where
  "implementationSubject fm =
     (if TrimSpace (sf_ImplSubject fm) \<noteq> [] then TrimSpace (sf_ImplSubject fm) else TrimSpace (sf_ImplPackage fm))"

definition TargetPackageName :: "string \<Rightarrow> string" where
  "TargetPackageName subject = (if subject = [] then [] else Base subject)"

definition spec_entry :: "string \<times> bool \<Rightarrow> bool" where
  "spec_entry e \<longleftrightarrow> \<not> snd e \<and> ClassifyFilename (fst e) = Some LKindSpec"

definition claim_tests :: "specFrontmatter \<Rightarrow> string \<Rightarrow> specClaim \<Rightarrow> MandatedTest list" where
  "claim_tests fm path claim =
     (let claimSubject = (if TrimSpace (sc_Subject claim) \<noteq> [] then TrimSpace (sc_Subject claim)
                          else implementationSubject fm)
      in map (\<lambda>name. \<lparr>mt_FuncName = name, mt_FilePath = [], mt_SpecFile = path,
                     mt_TargetPkg = TargetPackageName claimSubject, mt_SpecID = sf_Number fm,
                     mt_ClaimID = sc_ID claim, mt_Status = sf_Status fm,
                     mt_IsAbsence = (sc_Kind claim = ''absence'')\<rparr>) (sc_Tests claim))"

definition ExtractMandatedTests :: "corpus \<Rightarrow> string \<Rightarrow> MandatedTest list option" where
  "ExtractMandatedTests c specDir =
     (case co_readDir c specDir of
        DirEntries entries \<Rightarrow>
          Some (concat (map (\<lambda>e. if \<not> spec_entry e then []
                                 else case parseSpecFrontmatter c (JoinPath [specDir, fst e]) of
                                        None \<Rightarrow> []
                                      | Some fm \<Rightarrow>
                                          if isTerminalSpecStatus (sf_Status fm) then []
                                          else concat (map (claim_tests fm (JoinPath [specDir, fst e])) (sf_Claims fm)))
                            entries))
      | _ \<Rightarrow> None)"

definition CountTerminalSpecs :: "corpus \<Rightarrow> string \<Rightarrow> nat option" where
  "CountTerminalSpecs c specDir =
     (case co_readDir c specDir of
        DirEntries entries \<Rightarrow>
          Some (length (filter (\<lambda>e. spec_entry e
                 \<and> (case parseSpecFrontmatter c (JoinPath [specDir, fst e]) of
                      None \<Rightarrow> False | Some fm \<Rightarrow> isTerminalSpecStatus (sf_Status fm))) entries))
      | _ \<Rightarrow> None)"

definition claimsToMandatedTests :: "claimBlock list \<Rightarrow> string \<Rightarrow> string \<Rightarrow> MandatedTest list" where
  "claimsToMandatedTests claims artifactID path =
     concat (map (\<lambda>c. map (\<lambda>name. mandated_lit name path artifactID (cb_ID c)) (cb_Tests c)) claims)"

definition plan_tasks :: "planFrontmatter \<Rightarrow> planTaskNode list" where
  "plan_tasks fm = concat (map ph_Tasks (pf_Phases fm))"

definition planTaskMandatedTests :: "planFrontmatter \<Rightarrow> string \<Rightarrow> MandatedTest list" where
  "planTaskMandatedTests fm path =
     concat (map (\<lambda>task. map (\<lambda>name. mandated_lit name path (pf_PlanID fm) (tn_ID task)) (tn_TestNames task))
                 (plan_tasks fm))"

type_synonym sourceClaimKey = "string \<times> string"

definition index_test :: "ArtifactStatusRecord \<Rightarrow> MandatedTest \<Rightarrow> (sourceClaimKey, string list) gomap
    \<Rightarrow> (sourceClaimKey, string list) gomap" where
  "index_test rec mt index =
     (if mt_ClaimID mt = [] then index
      else map_set (ar_ID rec, mt_ClaimID mt) (map_get [] index (ar_ID rec, mt_ClaimID mt) @ [mt_FuncName mt]) index)"

definition buildSourceClaimIndex :: "ArtifactStatusRecord list \<Rightarrow> (sourceClaimKey, string list) gomap" where
  "buildSourceClaimIndex records =
     fold (\<lambda>rec index. if ar_Class rec = ClassRetiredTerminal then index
                       else fold (index_test rec) (ar_MandatedTests rec) index) records []"

definition planClaimDerivedMandatedTests ::
  "planFrontmatter \<Rightarrow> string \<Rightarrow> (sourceClaimKey, string list) gomap \<Rightarrow> MandatedTest list" where
  "planClaimDerivedMandatedTests fm path index =
     (if pf_SpecID fm = [] then []
      else concat (map (\<lambda>task. concat (map (\<lambda>claimID.
                     map (\<lambda>name. mandated_lit name path (pf_PlanID fm) claimID)
                         (map_get [] index (pf_SpecID fm, claimID))) (tn_Claims task))) (plan_tasks fm)))"

fun union_loop :: "MandatedTest list \<Rightarrow> string list \<Rightarrow> MandatedTest list \<Rightarrow> MandatedTest list" where
  "union_loop [] taken out = out"
| "union_loop (mt # mts) taken out =
     (if mt_FuncName mt \<in> set taken then union_loop mts taken out
      else union_loop mts (mt_FuncName mt # taken) (out @ [mt]))"

definition unionPlanMandatedTests :: "MandatedTest list \<Rightarrow> MandatedTest list \<Rightarrow> MandatedTest list" where
  "unionPlanMandatedTests explicit derived =
     (if derived = [] then explicit else union_loop derived (map mt_FuncName explicit) explicit)"

definition bundleReqs :: "bundleFrontmatter \<Rightarrow> BundleReqVersion list" where
  "bundleReqs fm =
     map (\<lambda>(i, v). \<lparr>br_ReqID = i, br_CurrentVersion = v\<rparr>) (filter (\<lambda>(i, v). i \<noteq> []) (bf_Requirements fm))"

subsection \<open>The walks\<close>

definition extensionFor :: "Kind \<Rightarrow> string" where
  "extensionFor kind =
     (case LayoutFor kind of None \<Rightarrow> CHR 0x00 # ''no-such-kind'' | Some l \<Rightarrow> kl_Extension l)"

text \<open>The shared shape of \<open>walkArtifactDir\<close>, \<open>walkPlanDir\<close> and \<open>walkBundleDir\<close>: what each visited file
  decodes to, or the error of an unreadable directory.\<close>

definition walk_dir ::
  "corpus \<Rightarrow> (string \<Rightarrow> 'f option) \<Rightarrow> string \<Rightarrow> string \<Rightarrow> string \<Rightarrow> string + (string \<times> 'f) list" where
  "walk_dir c decode what dir ext =
     (case co_readDir c dir of
        DirMissing \<Rightarrow> Inr []
      | DirError e \<Rightarrow> Inl (''reading '' @ what @ '' dir '' @ dir @ '': '' @ e)
      | DirEntries entries \<Rightarrow>
          Inr (concat (map (\<lambda>(name, isDir).
                 if isDir \<or> \<not> HasSuffix name ext then []
                 else let path = JoinPath [dir, name]
                      in case decode path of None \<Rightarrow> [] | Some fm \<Rightarrow> [(path, fm)]) entries)))"

definition walkArtifactDir :: "corpus \<Rightarrow> string \<Rightarrow> string \<Rightarrow> string + (string \<times> artifactFrontmatter) list" where
  "walkArtifactDir c = walk_dir c (\<lambda>path. case readFencedFrontmatter c path of None \<Rightarrow> None | Some raw \<Rightarrow> co_artifact c raw) ''artifact''"

definition walkPlanDir :: "corpus \<Rightarrow> string \<Rightarrow> string + (string \<times> planFrontmatter) list" where
  "walkPlanDir c dir =
     walk_dir c (\<lambda>path. case co_readFile c path of None \<Rightarrow> None | Some raw \<Rightarrow> co_plan c raw) ''plan'' dir (extensionFor LKindPlan)"

definition walkBundleDir :: "corpus \<Rightarrow> string \<Rightarrow> string + (string \<times> bundleFrontmatter) list" where
  "walkBundleDir c dir =
     walk_dir c (\<lambda>path. case readFencedFrontmatter c path of None \<Rightarrow> None | Some raw \<Rightarrow> co_bundle c raw) ''bundle'' dir (extensionFor LKindBundle)"

definition spec_record :: "MandatedTest list \<Rightarrow> string \<times> artifactFrontmatter \<Rightarrow> ArtifactStatusRecord" where
  "spec_record tests pf =
     (case pf of (path, fm) \<Rightarrow>
        record_lit (fm_Number fm) KindSpec (fm_Status fm) path (filter (\<lambda>mt. mt_SpecID mt = fm_Number fm) tests))"

definition bundle_record :: "string \<times> bundleFrontmatter \<Rightarrow> ArtifactStatusRecord" where
  "bundle_record pf =
     (case pf of (path, fm) \<Rightarrow>
        (record_lit (bf_Number fm) KindBundle (bf_Maturity fm) path [])
          \<lparr>ar_BundleName := bf_Name fm, ar_BundleReqs := bundleReqs fm\<rparr>)"

definition issue_record :: "string \<times> artifactFrontmatter \<Rightarrow> ArtifactStatusRecord" where
  "issue_record pf =
     (case pf of (path, fm) \<Rightarrow>
        record_lit (fm_IssueID fm) KindIssue (fm_IssueStatus fm) path
          (claimsToMandatedTests (fm_Claims fm) (fm_IssueID fm) path))"

definition directive_record :: "string \<times> artifactFrontmatter \<Rightarrow> ArtifactStatusRecord" where
  "directive_record pf =
     (case pf of (path, fm) \<Rightarrow> record_lit (fm_Number fm) KindDirective (fm_DirectiveStatus fm) path [])"

definition plan_record :: "(sourceClaimKey, string list) gomap \<Rightarrow> string \<times> planFrontmatter \<Rightarrow> ArtifactStatusRecord" where
  "plan_record index pf =
     (case pf of (path, fm) \<Rightarrow>
        (record_lit (pf_PlanID fm) KindPlan (pf_Status fm) path
           (unionPlanMandatedTests (planTaskMandatedTests fm path) (planClaimDerivedMandatedTests fm path index)))
          \<lparr>ar_SpecID := pf_SpecID fm\<rparr>)"

definition ResolveArtifactStatus :: "corpus \<Rightarrow> string \<Rightarrow> string + ArtifactStatusResolution" where
  "ResolveArtifactStatus c artifactRoot =
     (let root = \<lparr>ro_Path = artifactRoot, ro_Declared = [], ro_Configured = False\<rparr>;
          specDir = RootDir root LKindSpec;
          tests = (case ExtractMandatedTests c specDir of None \<Rightarrow> [] | Some mts \<Rightarrow> mts)
      in case walkArtifactDir c specDir (extensionFor LKindSpec) of
        Inl err \<Rightarrow> Inl (''resolving specs under '' @ specDir @ '': '' @ err)
      | Inr specs \<Rightarrow>
      (case walkBundleDir c (RootDir root LKindBundle) of
        Inl err \<Rightarrow> Inl (''resolving bundles: '' @ err)
      | Inr bundles \<Rightarrow>
      (case walkArtifactDir c (RootDir root LKindIssue) (extensionFor LKindIssue) of
        Inl err \<Rightarrow> Inl (''resolving issues: '' @ err)
      | Inr issues \<Rightarrow>
      (case walkArtifactDir c (RootDir root LKindDirective) (extensionFor LKindDirective) of
        Inl err \<Rightarrow> Inl (''resolving directives: '' @ err)
      | Inr directives \<Rightarrow>
      (let sources = map (spec_record tests) specs @ map bundle_record bundles @ map issue_record issues
                     @ map directive_record directives;
           index = buildSourceClaimIndex sources
       in case walkPlanDir c (RootDir root LKindPlan) of
        Inl err \<Rightarrow> Inl (''resolving plans: '' @ err)
      | Inr plans \<Rightarrow>
          (let planRecords = map (plan_record index) plans
           in Inr \<lparr>rs_Records = sources @ planRecords,
                   rs_plansBySpecID = map_index ar_SpecID (filter (\<lambda>r. ar_SpecID r \<noteq> []) planRecords)\<rparr>))))))"

subsection \<open>Ungated artifacts\<close>

record UngatedArtifact =
  ua_Path :: string
  ua_Kind :: Kind
  ua_ExpectedDir :: string
  ua_Root :: string

definition ungated_message :: "UngatedArtifact \<Rightarrow> string" where
  "ungated_message u =
     ''artifact-shaped file '' @ ua_Path u @ '' is UNGATED: the artifact status walk reads '' @ ua_ExpectedDir u
     @ '' directly and this file is not there''"

text \<open>The visitor over the tree: an entry that cannot be read aborts the walk, excluded directories
  and installed packs are skipped.\<close>

fun ungated_walk :: "Root \<Rightarrow> string list \<Rightarrow> string \<Rightarrow> FsNode \<Rightarrow> string + UngatedArtifact list" where
  "ungated_walk root nonCorpus path (FsErr _) = Inl path"
| "ungated_walk root nonCorpus path (FsFile name) =
     (case ClassifyFilename name of
        None \<Rightarrow> Inr []
      | Some kind \<Rightarrow>
          if Dir path = RootDir root kind then Inr []
          else Inr [\<lparr>ua_Path = path, ua_Kind = kind, ua_ExpectedDir = RootDir root kind, ua_Root = ro_Path root\<rparr>])"
| "ungated_walk root nonCorpus path (FsDir name children) =
     (if Excludes nonCorpus (Base path) then Inr []
      else if Base path = ''packs'' \<and> Base (Dir path) = ''.backstop'' then Inr []
      else concat_results (map (\<lambda>c. ungated_walk root nonCorpus (JoinPath [path, node_name c]) c) children))"

definition FindUngatedArtifacts ::
  "string \<Rightarrow> (string \<Rightarrow> string) \<Rightarrow> FsNode \<Rightarrow> string \<Rightarrow> Root \<Rightarrow> string list \<Rightarrow> string + UngatedArtifact list" where
  "FindUngatedArtifacts cwd resolveSymlinks tree projectRoot root nonCorpus =
     (let absProject = resolveSymlinks (AbsPath cwd projectRoot);
          root' = root\<lparr>ro_Path := resolveSymlinks (ro_Path root)\<rparr>
      in case ungated_walk root' nonCorpus absProject tree of
           Inl e \<Rightarrow> Inl (''walking project root '' @ absProject @ '': '' @ e)
         | Inr found \<Rightarrow> Inr found)"

definition UngatedFindingsToViolations :: "UngatedArtifact list \<Rightarrow> Violation list" where
  "UngatedFindingsToViolations found =
     map (\<lambda>f. (violation_lit StepArtifactValidation (ua_Path f) (ungated_message f) ''warning'')\<lparr>v_ProjectWide := True\<rparr>) found"

subsection \<open>Facts about the claim index and the union\<close>

text \<open>The tests a source artifact mandates for a claim.\<close>

definition mandated_for :: "ArtifactStatusRecord list \<Rightarrow> string \<Rightarrow> string \<Rightarrow> string list" where
  "mandated_for records sid cid =
     concat (map (\<lambda>r. map mt_FuncName (filter (\<lambda>mt. mt_ClaimID mt = cid) (ar_MandatedTests r)))
                 (filter (\<lambda>r. ar_Class r \<noteq> ClassRetiredTerminal \<and> ar_ID r = sid) records))"

lemma fold_index_test:
  assumes "cid \<noteq> []"
  shows "map_get [] (fold (index_test rec) mts index) (sid, cid) =
     map_get [] index (sid, cid) @ (if sid = ar_ID rec then map mt_FuncName (filter (\<lambda>mt. mt_ClaimID mt = cid) mts) else [])"
  using assms by (induction mts arbitrary: index) (auto simp: index_test_def)

lemma fold_source_index:
  assumes "cid \<noteq> []"
  shows "map_get [] (fold (\<lambda>rec index. if ar_Class rec = ClassRetiredTerminal then index
            else fold (index_test rec) (ar_MandatedTests rec) index) records index) (sid, cid) =
         map_get [] index (sid, cid) @ mandated_for records sid cid"
  by (induction records arbitrary: index) (auto simp: mandated_for_def fold_index_test [OF assms])

lemma source_index:
  "cid \<noteq> [] \<Longrightarrow> map_get [] (buildSourceClaimIndex records) (sid, cid) = mandated_for records sid cid"
  by (simp add: buildSourceClaimIndex_def fold_source_index)

lemma fold_index_blank:
  "map_get [] (fold (index_test rec) mts index) (sid, []) = map_get [] index (sid, [])"
  by (induction mts arbitrary: index) (auto simp: index_test_def)

lemma source_index_blank: "map_get [] (buildSourceClaimIndex records) (sid, []) = []"
proof -
  have "map_get [] (fold (\<lambda>rec index. if ar_Class rec = ClassRetiredTerminal then index
            else fold (index_test rec) (ar_MandatedTests rec) index) records index) (sid, []) = map_get [] index (sid, [])" for index
    by (induction records arbitrary: index) (auto simp: fold_index_blank)
  then show ?thesis by (simp add: buildSourceClaimIndex_def)
qed

lemma union_loop_facts:
  "set (map mt_FuncName (union_loop mts taken out)) = set (map mt_FuncName out) \<union> (set (map mt_FuncName mts) - set taken)
   \<and> (\<exists>kept. union_loop mts taken out = out @ kept \<and> set kept \<subseteq> set mts
        \<and> (\<forall>mt\<in>set kept. mt_FuncName mt \<notin> set taken) \<and> distinct (map mt_FuncName kept))"
proof (induction mts arbitrary: taken out)
  case (Cons mt mts)
  show ?case
  proof (cases "mt_FuncName mt \<in> set taken")
    case True
    with Cons.IH [of taken out] show ?thesis by auto
  next
    case False
    from Cons.IH [of "mt_FuncName mt # taken" "out @ [mt]"] obtain kept where
      k: "union_loop mts (mt_FuncName mt # taken) (out @ [mt]) = (out @ [mt]) @ kept" "set kept \<subseteq> set mts"
        "\<forall>m\<in>set kept. mt_FuncName m \<notin> set (mt_FuncName mt # taken)" "distinct (map mt_FuncName kept)"
      and u: "set (map mt_FuncName (union_loop mts (mt_FuncName mt # taken) (out @ [mt]))) =
        set (map mt_FuncName (out @ [mt])) \<union> (set (map mt_FuncName mts) - set (mt_FuncName mt # taken))"
      by blast
    have "\<exists>kept. union_loop (mt # mts) taken out = out @ kept \<and> set kept \<subseteq> set (mt # mts)
        \<and> (\<forall>mt\<in>set kept. mt_FuncName mt \<notin> set taken) \<and> distinct (map mt_FuncName kept)"
      using k False by (intro exI [of _ "mt # kept"]) auto
    moreover have "set (map mt_FuncName (union_loop (mt # mts) taken out)) =
        set (map mt_FuncName out) \<union> (set (map mt_FuncName (mt # mts)) - set taken)"
      using u False by auto
    ultimately show ?thesis by blast
  qed
qed auto

lemma union_explicit_wins_aux:
  "\<exists>kept. unionPlanMandatedTests explicit derived = explicit @ kept \<and> set kept \<subseteq> set derived
     \<and> distinct (map mt_FuncName kept) \<and> set (map mt_FuncName kept) \<inter> set (map mt_FuncName explicit) = {}
     \<and> set (map mt_FuncName (unionPlanMandatedTests explicit derived)) =
         set (map mt_FuncName explicit) \<union> set (map mt_FuncName derived)"
proof (cases "derived = []")
  case True
  then show ?thesis by (simp add: unionPlanMandatedTests_def)
next
  case False
  from union_loop_facts [of derived "map mt_FuncName explicit" explicit] obtain kept where
    k: "union_loop derived (map mt_FuncName explicit) explicit = explicit @ kept" "set kept \<subseteq> set derived"
      "\<forall>mt\<in>set kept. mt_FuncName mt \<notin> set (map mt_FuncName explicit)" "distinct (map mt_FuncName kept)"
      "set (map mt_FuncName (union_loop derived (map mt_FuncName explicit) explicit)) =
        set (map mt_FuncName explicit) \<union> (set (map mt_FuncName derived) - set (map mt_FuncName explicit))"
    by blast
  then show ?thesis using False by (intro exI [of _ kept]) (auto simp: unionPlanMandatedTests_def)
qed

text \<open>The union of a plan's two channels: every explicit entry is kept in front, in order and
  with its own attribution; a derived entry is added exactly when no earlier entry names its
  function; so the function names are the union and no name is added twice.\<close>

theorem union_explicit_wins:
  "\<exists>kept. unionPlanMandatedTests explicit derived = explicit @ kept \<and> set kept \<subseteq> set derived
     \<and> distinct (map mt_FuncName kept) \<and> set (map mt_FuncName kept) \<inter> set (map mt_FuncName explicit) = {}
     \<and> set (map mt_FuncName (unionPlanMandatedTests explicit derived)) =
         set (map mt_FuncName explicit) \<union> set (map mt_FuncName derived)"
  by (rule union_explicit_wins_aux)

subsection \<open>What a plan owes\<close>

lemma planTask_names: "set (map mt_FuncName (planTaskMandatedTests fm path)) = (\<Union>task\<in>set (plan_tasks fm). set (tn_TestNames task))"
  by (simp add: planTaskMandatedTests_def map_concat comp_def)

lemma planDerived_names:
  "set (map mt_FuncName (planClaimDerivedMandatedTests fm path index)) =
     (if pf_SpecID fm = [] then {}
      else \<Union>task\<in>set (plan_tasks fm). \<Union>cid\<in>set (tn_Claims task). set (map_get [] index (pf_SpecID fm, cid)))"
  by (simp add: planClaimDerivedMandatedTests_def image_UN image_image)

text \<open>A plan owes exactly the tests its tasks name and the tests that its source artifact
  mandates for the claims its tasks cite.  Retired sources contribute nothing, claims of other
  artifacts never leak in, and every entry is attributed to the plan itself.\<close>

theorem plan_owes_exactly:
  "mt_FuncName ` set (ar_MandatedTests (plan_record (buildSourceClaimIndex sources) (path, fm))) =
     (\<Union>task\<in>set (plan_tasks fm). set (tn_TestNames task)) \<union>
     {name. pf_SpecID fm \<noteq> [] \<and> (\<exists>task\<in>set (plan_tasks fm). \<exists>src\<in>set sources. \<exists>mt\<in>set (ar_MandatedTests src).
        ar_ID src = pf_SpecID fm \<and> ar_Class src \<noteq> ClassRetiredTerminal
        \<and> mt_ClaimID mt \<noteq> [] \<and> mt_ClaimID mt \<in> set (tn_Claims task) \<and> name = mt_FuncName mt)}
   \<and> mt_SpecFile ` set (ar_MandatedTests (plan_record (buildSourceClaimIndex sources) (path, fm))) \<subseteq> {path}
   \<and> mt_SpecID ` set (ar_MandatedTests (plan_record (buildSourceClaimIndex sources) (path, fm))) \<subseteq> {pf_PlanID fm}"
proof -
  let ?ix = "buildSourceClaimIndex sources"
  let ?ex = "planTaskMandatedTests fm path" and ?de = "planClaimDerivedMandatedTests fm path ?ix"
  have idx: "set (map_get [] ?ix (sid, cid)) = {name. cid \<noteq> [] \<and> (\<exists>src\<in>set sources. \<exists>mt\<in>set (ar_MandatedTests src).
      ar_ID src = sid \<and> ar_Class src \<noteq> ClassRetiredTerminal \<and> mt_ClaimID mt = cid \<and> name = mt_FuncName mt)}" for sid cid
    by (cases "cid = []") (auto simp: source_index source_index_blank mandated_for_def)
  have rec: "ar_MandatedTests (plan_record ?ix (path, fm)) = unionPlanMandatedTests ?ex ?de"
    by (simp add: plan_record_def record_lit_def)
  obtain kept where u: "unionPlanMandatedTests ?ex ?de = ?ex @ kept" "set kept \<subseteq> set ?de"
    "set (map mt_FuncName (unionPlanMandatedTests ?ex ?de)) = set (map mt_FuncName ?ex) \<union> set (map mt_FuncName ?de)"
    using union_explicit_wins_aux by blast
  have "mt_SpecFile mt = path \<and> mt_SpecID mt = pf_PlanID fm" if "mt \<in> set ?ex \<union> set ?de" for mt
    using that by (auto simp: planTaskMandatedTests_def planClaimDerivedMandatedTests_def split: if_splits)
  moreover have "mt_FuncName ` set (ar_MandatedTests (plan_record ?ix (path, fm))) =
     (\<Union>task\<in>set (plan_tasks fm). set (tn_TestNames task)) \<union>
     {name. pf_SpecID fm \<noteq> [] \<and> (\<exists>task\<in>set (plan_tasks fm). \<exists>src\<in>set sources. \<exists>mt\<in>set (ar_MandatedTests src).
        ar_ID src = pf_SpecID fm \<and> ar_Class src \<noteq> ClassRetiredTerminal
        \<and> mt_ClaimID mt \<noteq> [] \<and> mt_ClaimID mt \<in> set (tn_Claims task) \<and> name = mt_FuncName mt)}"
    unfolding rec set_map [symmetric] u(3) planTask_names planDerived_names idx
    by (intro arg_cong2 [where f = "(\<union>)"] refl) (cases "pf_SpecID fm = []"; simp; blast)
  ultimately show ?thesis unfolding rec u(1) using u(2) by auto
qed

end
