(* ===== verification/Gate_Classify.thy ===== *)
theory Gate_Classify
  imports Artifact_Status
begin

text \<open>
  Which files are source, which are tests, and which mandated names are present
  (\<open>src/pkg/gate/classification.go\<close> and \<open>pack_claims.go\<close>).  The glob matcher of the
  \<open>doublestar\<close> package is an argument: it yields None on a malformed pattern.
\<close>

type_synonym glob_match = "string \<Rightarrow> string \<Rightarrow> bool option"

record SourceClassifier =
  cl_source :: "string list"
  cl_test :: "string list"

definition NewSourceClassifier :: "string list \<Rightarrow> string list \<Rightarrow> SourceClassifier" where
  "NewSourceClassifier source test = \<lparr>cl_source = source, cl_test = test\<rparr>"

definition matchesAnyGlob :: "glob_match \<Rightarrow> string list \<Rightarrow> string \<Rightarrow> bool" where
  "matchesAnyGlob glob globs path = list_ex (\<lambda>g. glob g path = Some True) globs"

definition IsMeasurableSource :: "glob_match \<Rightarrow> SourceClassifier \<Rightarrow> string \<Rightarrow> bool" where
  "IsMeasurableSource glob c path =
     (let norm = NormalizePath [] path
      in matchesAnyGlob glob (cl_source c) norm \<and> \<not> matchesAnyGlob glob (cl_test c) norm)"

definition IsTestFile :: "glob_match \<Rightarrow> SourceClassifier \<Rightarrow> string \<Rightarrow> bool" where
  "IsTestFile glob c path = matchesAnyGlob glob (cl_test c) (NormalizePath [] path)"

definition ClaimsPath :: "glob_match \<Rightarrow> SourceClassifier \<Rightarrow> string \<Rightarrow> bool" where
  "ClaimsPath glob c path =
     (let norm = NormalizePath [] path
      in matchesAnyGlob glob (cl_source c) norm \<or> matchesAnyGlob glob (cl_test c) norm)"

definition HasSourceGlobs :: "SourceClassifier \<Rightarrow> bool" where
  "HasSourceGlobs c \<longleftrightarrow> 0 < length (cl_source c)"

definition HasTestGlobs :: "SourceClassifier \<Rightarrow> bool" where
  "HasTestGlobs c \<longleftrightarrow> 0 < length (cl_test c)"

definition DeclaresAnyGlobs :: "SourceClassifier \<Rightarrow> bool" where
  "DeclaresAnyGlobs c \<longleftrightarrow> HasSourceGlobs c \<or> HasTestGlobs c"

text \<open>The index of the claims the installed packs declare: the label of a claim id.\<close>

type_synonym PackClaimIndex = "(string, string) gomap"

definition PackClaimIndex_Has :: "PackClaimIndex \<Rightarrow> string \<Rightarrow> bool" where
  "PackClaimIndex_Has i name = map_has i name"

definition ResolvePresentTestNames :: "MandatedTest list \<Rightarrow> PackClaimIndex \<Rightarrow> string list" where
  "ResolvePresentTestNames mandated packClaims =
     map mt_FuncName (filter (\<lambda>mt. mt_FilePath mt \<noteq> [] \<or> PackClaimIndex_Has packClaims (mt_FuncName mt)) mandated)"

subsection \<open>The three predicates agree\<close>

text \<open>A path is source, test or unclaimed: a test glob wins over a source glob, and a path that is
  claimed but not measurable is a test file.\<close>

lemma classification_partition:
  "(ClaimsPath glob c path \<longleftrightarrow> IsMeasurableSource glob c path \<or> IsTestFile glob c path)
   \<and> \<not> (IsMeasurableSource glob c path \<and> IsTestFile glob c path)"
  by (auto simp: ClaimsPath_def IsMeasurableSource_def IsTestFile_def Let_def)

lemma matchesAnyGlob_declared: "matchesAnyGlob glob gs p \<Longrightarrow> gs \<noteq> []"
  by (auto simp: matchesAnyGlob_def)

lemma IsMeasurableSource_declared: "IsMeasurableSource glob c p \<Longrightarrow> HasSourceGlobs c"
  by (auto simp: IsMeasurableSource_def Let_def HasSourceGlobs_def dest: matchesAnyGlob_declared)

lemma ClaimsPath_declared: "ClaimsPath glob c p \<Longrightarrow> DeclaresAnyGlobs c"
  by (auto simp: ClaimsPath_def Let_def DeclaresAnyGlobs_def HasSourceGlobs_def HasTestGlobs_def
      dest: matchesAnyGlob_declared)

lemma set_ResolvePresentTestNames:
  "set (ResolvePresentTestNames mandated packClaims) =
     {mt_FuncName mt | mt. mt \<in> set mandated \<and> (mt_FilePath mt \<noteq> [] \<or> PackClaimIndex_Has packClaims (mt_FuncName mt))}"
  by (auto simp: ResolvePresentTestNames_def)

end
