(* ===== verification/Gate_Contract.thy ===== *)
theory Gate_Contract
  imports Artifact_Status
begin

text \<open>
  Contract verification on the gate's side (\<open>src/pkg/gate/contract_verdict.go\<close> and
  \<open>step_contract.go\<close>), and the extraction of the contracts from the specifications
  (\<open>step_testverify.go\<close>).  The engines' answers (\<open>Matched\<close>, \<open>Scanned\<close>, the locations) are inputs.
\<close>

record ContractEntry =
  ce_File :: string
  ce_Name :: string
  ce_Kind :: string
  ce_Signature :: string
  ce_Scope :: string
  ce_Absent :: bool

record SarifLocation =
  sl_File :: string
  sl_Line :: int

record ContractEngineResult =
  er_Entry :: ContractEntry
  er_Matched :: bool
  er_Scanned :: bool
  er_Locations :: "SarifLocation list"

definition contractScope :: "ContractEntry \<Rightarrow> string" where
  "contractScope e = (if ce_Scope e \<noteq> [] then ce_Scope e else ce_File e)"

definition locationFile :: "ContractEngineResult \<Rightarrow> string \<Rightarrow> string" where
  "locationFile r fallback =
     (case er_Locations r of [] \<Rightarrow> fallback | l # _ \<Rightarrow> if sl_File l \<noteq> [] then sl_File l else fallback)"

definition locationSuffix :: "ContractEngineResult \<Rightarrow> string" where
  "locationSuffix r =
     (case er_Locations r of
        [] \<Rightarrow> []
      | l # _ \<Rightarrow> if 0 < sl_Line l then '' in '' @ sl_File l @ '':'' @ Itoa (sl_Line l) else '' in '' @ sl_File l)"

definition message_dash :: string where "message_dash = [CHR 0xE2, CHR 0x80, CHR 0x94]"

definition VerifyContractVerdict :: "ContractEngineResult \<Rightarrow> Violation option" where
  "VerifyContractVerdict r =
     (let entry = er_Entry r; fpath = NormalizePath [] (ce_File entry) in
      if ce_Absent entry then
        (if \<not> er_Scanned r then
           Some (violation_lit StepContractSignature fpath
             (''absence assertion for symbol '' @ ce_Name entry @ '': declared scope '' @ contractScope entry
              @ '' was not scanned (missing or unscanned) '' @ message_dash
              @ '' cannot confirm absence, refusing to pass silently'') ''error'')
         else if er_Matched r then
           Some (violation_lit StepContractSignature (NormalizePath [] (locationFile r (ce_File entry)))
             (''symbol '' @ ce_Name entry @ '' expected absent but present'' @ locationSuffix r
              @ '' (forbidden symbol regression)'') ''error'')
         else None)
      else if er_Matched r then None
      else Some (violation_lit StepContractSignature fpath
             (''symbol '' @ ce_Name entry @ '' signature not found or mismatched in '' @ fpath @ '': expected ''
              @ quote (ce_Signature entry)) ''error''))"

definition contract_in_scope :: "GateScope option \<Rightarrow> ContractEngineResult \<Rightarrow> bool" where
  "contract_in_scope scope r =
     (case scope of
        None \<Rightarrow> True
      | Some sc \<Rightarrow> \<not> (gs_Mode sc \<noteq> GateScopeModeAll \<and> ce_File (er_Entry r) \<noteq> [] \<and> \<not> ContainsPath scope (ce_File (er_Entry r))))"

definition StepContractSignatureScopedFunc :: "ContractEngineResult list \<Rightarrow> GateScope option \<Rightarrow> StepResult" where
  "StepContractSignatureScopedFunc results scope =
     (let violations = List.map_filter VerifyContractVerdict (filter (contract_in_scope scope) results)
      in step_lit StepContractSignature (StepVerdict violations) violations)"

subsection \<open>Extraction\<close>

definition contract_entry :: "string \<Rightarrow> contractBlock \<Rightarrow> provideBlock \<Rightarrow> ContractEntry" where
  "contract_entry projectRoot c p =
     \<lparr>ce_File = (if IsAbs (ct_File c) then ct_File c else JoinPath [projectRoot, ct_File c]),
      ce_Name = pv_Name p, ce_Kind = pv_Kind p, ce_Signature = pv_Signature p,
      ce_Scope = (if pv_Scope p \<noteq> [] \<and> \<not> IsAbs (pv_Scope p) then JoinPath [projectRoot, pv_Scope p] else pv_Scope p),
      ce_Absent = pv_Absent p\<rparr>"

text \<open>The specifications a consumer of due promises reads: those that parse and are implemented.\<close>

definition due_specs :: "corpus \<Rightarrow> string \<Rightarrow> (string \<times> specFrontmatter) list option" where
  "due_specs c specDir =
     (case co_readDir c specDir of
        DirEntries entries \<Rightarrow>
          Some (concat (map (\<lambda>e. if \<not> spec_entry e then []
                                 else case parseSpecFrontmatter c (JoinPath [specDir, fst e]) of
                                        None \<Rightarrow> []
                                      | Some fm \<Rightarrow> if contractsAreDue (sf_Status fm)
                                                   then [(JoinPath [specDir, fst e], fm)] else [])
                            entries))
      | _ \<Rightarrow> None)"

definition ExtractContractEntries :: "corpus \<Rightarrow> string \<Rightarrow> string \<Rightarrow> ContractEntry list option" where
  "ExtractContractEntries c specDir projectRoot =
     (case due_specs c specDir of
        None \<Rightarrow> None
      | Some specs \<Rightarrow>
          Some (concat (map (\<lambda>(path, fm).
                  concat (map (\<lambda>b. map (contract_entry projectRoot b) (ct_Provides b)) (sf_Contracts fm))) specs)))"

subsection \<open>The verdict\<close>

lemma error_blocks [simp]: "blocksVerdict (violation_lit r f m ''error'')"
  by (simp add: blocksVerdict_def EqualFold_def) code_simp

text \<open>What it means that a contract is kept: the declared signature was found, or the forbidden
  symbol was not found in a scope that was scanned.\<close>

definition contract_kept :: "ContractEngineResult \<Rightarrow> bool" where
  "contract_kept r \<longleftrightarrow>
     (if ce_Absent (er_Entry r) then er_Scanned r \<and> \<not> er_Matched r else er_Matched r)"

lemma VerifyContractVerdict_kept: "VerifyContractVerdict r = None \<longleftrightarrow> contract_kept r"
  by (auto simp: VerifyContractVerdict_def contract_kept_def Let_def)

lemma VerifyContractVerdict_blocks: "VerifyContractVerdict r = Some v \<Longrightarrow> blocksVerdict v \<and> v_Rule v = StepContractSignature"
  by (auto simp: VerifyContractVerdict_def Let_def split: if_splits)

text \<open>C18: The contract step passes exactly when every contract whose file is in scope (or names no
  file) is kept, and fails otherwise; it never warns.  A symbol is reported absent only on a scan:
  an absence contract over a scope that was not scanned fails the step whatever matched.\<close>

theorem contract_step_decides:
  "s_Status (StepContractSignatureScopedFunc results scope) =
     (if \<forall>r\<in>set results. contract_in_scope scope r \<longrightarrow> contract_kept r then ''pass'' else ''fail'')
   \<and> length (s_Violations (StepContractSignatureScopedFunc results scope)) =
       length (filter (\<lambda>r. contract_in_scope scope r \<and> \<not> contract_kept r) results)"
proof -
  define vs where "vs = List.map_filter VerifyContractVerdict (filter (contract_in_scope scope) results)"
  have len: "length (List.map_filter VerifyContractVerdict rs) = length (filter (\<lambda>r. \<not> contract_kept r) rs)" for rs
    by (induction rs) (auto simp: List.map_filter_simps VerifyContractVerdict_kept [symmetric] split: option.splits)
  have blocks: "\<forall>v\<in>set vs. blocksVerdict v"
    by (auto simp: vs_def List.map_filter_def dest: VerifyContractVerdict_blocks)
  have "vs = [] \<longleftrightarrow> (\<forall>r\<in>set results. contract_in_scope scope r \<longrightarrow> contract_kept r)"
    unfolding length_0_conv [symmetric] by (simp add: vs_def len filter_empty_conv)
  moreover have "StepVerdict vs = (if vs = [] then ''pass'' else ''fail'')"
    using blocks by (cases vs) (auto simp: StepVerdict_cases)
  ultimately show ?thesis
    by (simp add: StepContractSignatureScopedFunc_def vs_def [symmetric] Let_def)
       (simp add: vs_def len filter_filter conj_commute)
qed

definition demo_entry :: "bool \<Rightarrow> ContractEntry" where
  "demo_entry absent = \<lparr>ce_File = ''a.go'', ce_Name = ''Old'', ce_Kind = ''function'', ce_Signature = [],
     ce_Scope = [], ce_Absent = absent\<rparr>"

theorem contract_step_decides_witness:
  "s_Status (StepContractSignatureScopedFunc
      [\<lparr>er_Entry = demo_entry False, er_Matched = True, er_Scanned = True, er_Locations = []\<rparr>,
       \<lparr>er_Entry = demo_entry True, er_Matched = False, er_Scanned = False, er_Locations = []\<rparr>] None) = ''fail''"
  by (subst contract_step_decides [THEN conjunct1]) (simp add: contract_in_scope_def contract_kept_def demo_entry_def)

text \<open>Below an absolute project root every extracted contract names an absolute file, which
  \<open>NormalizePath("", ...)\<close> does not make relative: the violation's file and message hold the path of
  the checkout.\<close>

lemma extracted_contract_absolute:
  assumes "IsAbs projectRoot" "VerifyContractVerdict r = Some v" "er_Entry r = contract_entry projectRoot c p"
    "er_Locations r = []"
  shows "IsAbs (v_File v)"
proof -
  have ab: "IsAbs (ce_File (er_Entry r))"
    using assms(1,3) by (auto simp: contract_entry_def IsAbs_JoinPath)
  then have "IsAbs (NormalizePath [] (ce_File (er_Entry r)))"
    using IsAbs_not_blank [OF ab] by (simp add: NormalizePath_noroot)
  moreover have "locationFile r (ce_File (er_Entry r)) = ce_File (er_Entry r)"
    using assms(4) by (simp add: locationFile_def)
  ultimately show ?thesis
    using assms(2) by (auto simp: VerifyContractVerdict_def Let_def split: if_splits)
qed

end
