(* ===== verification/Go_Int.thy ===== *)
theory Go_Int
  imports Go_Strings
begin

text \<open>
  Go's 64-bit \<open>int\<close>: the wrap-around of its arithmetic, and the digit loop
  \<open>n = n*10 + int(c - '0')\<close> that the sources write out wherever they compare version components.
\<close>

definition wrap64 :: "int \<Rightarrow> int" where
  "wrap64 n = (n + 2 ^ 63) mod 2 ^ 64 - 2 ^ 63"

fun parse_digits :: "int \<Rightarrow> string \<Rightarrow> int option" where
  "parse_digits n [] = Some n"
| "parse_digits n (c # cs) =
     (if is_digit c then parse_digits (wrap64 (n * 10 + int (digit_val c))) cs else None)"

lemma wrap64_id: "- (2 ^ 63) \<le> n \<Longrightarrow> n < 2 ^ 63 \<Longrightarrow> wrap64 n = n"
  by (simp add: wrap64_def)

lemma parse_digits_snoc:
  "parse_digits n (cs @ [c]) =
     (case parse_digits n cs of None \<Rightarrow> None
      | Some m \<Rightarrow> if is_digit c then Some (wrap64 (m * 10 + int (digit_val c))) else None)"
  by (induction cs arbitrary: n) auto

lemma parse_show_nat: "int n < 2 ^ 63 \<Longrightarrow> parse_digits 0 (show_nat n) = Some (int n)"
proof (induction n rule: less_induct)
  case (less n)
  have dg: "is_digit (digit_char n)" by (simp add: digit_char_def is_digit_def)
  show ?case
  proof (cases "n < 10")
    case True
    have "wrap64 (int n) = int n" using less.prems by (intro wrap64_id) auto
    with True dg show ?thesis by (simp add: show_nat.simps [of n])
  next
    case False
    have "parse_digits 0 (show_nat (n div 10)) = Some (int (n div 10))"
      using less.prems False by (intro less.IH) (auto simp: zdiv_int)
    moreover have "int (n div 10) * 10 + int (n mod 10) = int n"
      by (metis div_mult_mod_eq of_nat_add of_nat_mult of_nat_numeral)
    moreover have "wrap64 (int n) = int n" using less.prems by (intro wrap64_id) auto
    ultimately show ?thesis using False dg
      by (simp add: show_nat.simps [of n] parse_digits_snoc)
  qed
qed

end
