(* ===== verification/Gate_Coverage.thy ===== *)
theory Gate_Coverage
  imports Gate_Classify Gate_Contract Go_Int
begin

text \<open>
  The coverage step (\<open>src/pkg/gate/step_coverage.go\<close>): the index of the records by path and metric,
  the thresholds the specifications in scope declare, and the verdict per file and metric.  Counts
  and thresholds are Go's 64-bit \<open>int\<close>, and the cross-multiplied comparison wraps as it does there.
  Whether a path exists on disk and the glob matcher are arguments.
\<close>

record CoverageRecord =
  cr_Path :: string
  cr_Covered :: int
  cr_Total :: int
  cr_Measured :: bool
  cr_Excluded :: bool
  cr_Justification :: string
  cr_Metric :: string

record SpecVerification =
  vf_SpecID :: string
  vf_TestCommand :: string
  vf_CoverageThreshold :: int
  vf_MetricThresholds :: "(string, int) gomap"
  vf_File :: string
  vf_ImplementationPackage :: string

definition defaultCodeScopeCoverageFloor :: int where "defaultCodeScopeCoverageFloor = 90"

text \<open>\<open>ExtractSpecVerifications\<close> (\<open>step_testverify.go\<close>).\<close>

definition spec_verification :: "string \<times> specFrontmatter \<Rightarrow> SpecVerification option" where
  "spec_verification pf =
     (case pf of (path, fm) \<Rightarrow>
        if sf_TestCommand fm \<noteq> [] \<and> (0 < sf_CoverageThreshold fm \<or> 0 < length (sf_MetricThresholds fm))
        then Some \<lparr>vf_SpecID = sf_Number fm, vf_TestCommand = sf_TestCommand fm,
                   vf_CoverageThreshold = sf_CoverageThreshold fm, vf_MetricThresholds = sf_MetricThresholds fm,
                   vf_File = path, vf_ImplementationPackage = implementationSubject fm\<rparr>
        else None)"

definition ExtractSpecVerifications :: "corpus \<Rightarrow> string \<Rightarrow> SpecVerification list option" where
  "ExtractSpecVerifications c specDir = map_option (List.map_filter spec_verification) (due_specs c specDir)"

subsection \<open>The record index\<close>

type_synonym metric_records = "(string, CoverageRecord) gomap"
type_synonym coverage_index = "(string, metric_records) gomap"

definition coverageDupPairSep :: char where "coverageDupPairSep = CHR 0x09"

fun index_records :: "CoverageRecord list \<Rightarrow> coverage_index \<Rightarrow> string list \<Rightarrow> coverage_index \<times> string list" where
  "index_records [] idx dups = (idx, dups)"
| "index_records (r # rs) idx dups =
     (let path = NormalizePath [] (cr_Path r); inner = map_get [] idx path in
      if map_has inner (cr_Metric r)
      then index_records rs idx (dups @ [path @ coverageDupPairSep # cr_Metric r])
      else index_records rs (map_set path (map_set (cr_Metric r) r inner) idx) dups)"

definition indexCoverageByPathMetric :: "CoverageRecord list \<Rightarrow> coverage_index \<times> string list" where
  "indexCoverageByPathMetric coverage = index_records coverage [] []"

definition splitCoverageDupKey :: "string \<Rightarrow> string \<times> string" where
  "splitCoverageDupKey key = (case Cut key coverageDupPairSep of None \<Rightarrow> (key, []) | Some pm \<Rightarrow> pm)"

definition resolveCoverageRecordsForPath :: "coverage_index \<Rightarrow> string \<Rightarrow> metric_records option" where
  "resolveCoverageRecordsForPath idx path =
     (case map_of idx path of
        Some m \<Rightarrow> Some m
      | None \<Rightarrow>
          if \<not> Contains path ''/'' then None
          else (case filter (\<lambda>(recPath, m). HasSuffix recPath (''/'' @ path)) idx of
                  [(_, m)] \<Rightarrow> Some m
                | _ \<Rightarrow> None))"

definition sortedCoverageMetrics :: "metric_records \<Rightarrow> string list" where
  "sortedCoverageMetrics m = sorted_set (map fst m)"

subsection \<open>Thresholds\<close>

record coverageThresholdSelection =
  ts_Specs :: "SpecVerification list"
  ts_CollapsedCodeScope :: bool
  ts_MaxThreshold :: int

definition packagePathMatches :: "string \<Rightarrow> string \<Rightarrow> bool" where
  "packagePathMatches changedDir specPackage =
     (let trimmed = TrimPrefix (Trim specPackage (CHR ''/'')) ''./'' in
      if changedDir = [] \<or> trimmed = [] then changedDir = trimmed
      else changedDir = trimmed \<or> HasPrefix changedDir (trimmed @ ''/'') \<or> HasPrefix trimmed (changedDir @ ''/''))"

definition coverageSpecRelevantToFile :: "SpecVerification \<Rightarrow> string \<Rightarrow> bool \<Rightarrow> bool" where
  "coverageSpecRelevantToFile spec f includeRootCommand =
     (let dir = (if Dir f = dot then [] else Dir f) in
      if vf_ImplementationPackage spec \<noteq> [] then packagePathMatches dir (vf_ImplementationPackage spec)
      else includeRootCommand)"

definition coverageSpecRelevantToCodeScope :: "SpecVerification \<Rightarrow> GateScope option \<Rightarrow> bool \<Rightarrow> bool" where
  "coverageSpecRelevantToCodeScope spec scope includeRootCommand =
     (case scope of
        None \<Rightarrow> False
      | Some sc \<Rightarrow> \<not> ScopeEmpty scope
                   \<and> list_ex (\<lambda>f. coverageSpecRelevantToFile spec (NormalizePath [] f) includeRootCommand) (gs_Files sc))"

definition max_threshold :: "int \<Rightarrow> SpecVerification list \<Rightarrow> int" where
  "max_threshold m specs = foldl (\<lambda>acc s. if acc < vf_CoverageThreshold s then vf_CoverageThreshold s else acc) m specs"

definition coverageThresholdsForScope ::
  "SpecVerification list \<Rightarrow> GateScope option \<Rightarrow> int \<Rightarrow> coverageThresholdSelection" where
  "coverageThresholdsForScope specs scope floor =
     (case scope of
        None \<Rightarrow> \<lparr>ts_Specs = specs, ts_CollapsedCodeScope = False, ts_MaxThreshold = 0\<rparr>
      | Some sc \<Rightarrow>
          if gs_Mode sc = GateScopeModeAll
          then \<lparr>ts_Specs = specs, ts_CollapsedCodeScope = False, ts_MaxThreshold = 0\<rparr>
          else let selected = filter (\<lambda>s. vf_File s \<noteq> [] \<and> ContainsPath scope (vf_File s)) specs in
          if selected \<noteq> [] then \<lparr>ts_Specs = selected, ts_CollapsedCodeScope = False, ts_MaxThreshold = 0\<rparr>
          else
            let specific = filter (\<lambda>s. coverageSpecRelevantToCodeScope s scope False) specs;
                rooted = filter (\<lambda>s. coverageSpecRelevantToCodeScope s scope True) specs;
                m = (if specific \<noteq> [] then max_threshold 0 specific else max_threshold 0 rooted)
            in \<lparr>ts_Specs = [], ts_CollapsedCodeScope = True, ts_MaxThreshold = (if m = 0 then floor else m)\<rparr>)"

definition coverageThresholdForMetric :: "coverageThresholdSelection \<Rightarrow> string \<Rightarrow> int" where
  "coverageThresholdForMetric sel metric =
     (if ts_CollapsedCodeScope sel then ts_MaxThreshold sel
      else foldl (\<lambda>acc s.
             let applicable = (case map_of (vf_MetricThresholds s) metric of Some o' \<Rightarrow> o' | None \<Rightarrow> vf_CoverageThreshold s)
             in if acc < applicable then applicable else acc) 0 (ts_Specs sel))"

definition declaredCoverageMetrics :: "coverageThresholdSelection \<Rightarrow> string list" where
  "declaredCoverageMetrics sel = sorted_set (concat (map (\<lambda>s. map fst (vf_MetricThresholds s)) (ts_Specs sel)))"

subsection \<open>Paths\<close>

definition scopeHasChangedFiles :: "GateScope option \<Rightarrow> bool" where
  "scopeHasChangedFiles scope =
     (case scope of None \<Rightarrow> False | Some sc \<Rightarrow> gs_Mode sc \<noteq> GateScopeModeAll \<and> 0 < length (gs_Files sc))"

definition coveragePathInDiffScope :: "string \<Rightarrow> GateScope option \<Rightarrow> bool" where
  "coveragePathInDiffScope path scope =
     (case scope of
        None \<Rightarrow> False
      | Some sc \<Rightarrow> if gs_Mode sc = GateScopeModeAll then False else ContainsPath scope path)"

definition on_disk :: "(string \<Rightarrow> bool) \<Rightarrow> GateScope \<Rightarrow> string \<Rightarrow> bool" where
  "on_disk exists sc path \<longleftrightarrow> gs_ProjectRoot sc = [] \<or> exists (JoinPath [gs_ProjectRoot sc, path])"

definition coveragePathsInScope ::
  "glob_match \<Rightarrow> (string \<Rightarrow> bool) \<Rightarrow> CoverageRecord list \<Rightarrow> GateScope option \<Rightarrow> SourceClassifier \<Rightarrow> string list" where
  "coveragePathsInScope glob exists coverage scope classifier =
     (case scope of
        None \<Rightarrow> sorted_set (map (\<lambda>r. NormalizePath [] (cr_Path r)) coverage)
      | Some sc \<Rightarrow>
          if gs_Mode sc = GateScopeModeAll then sorted_set (map (\<lambda>r. NormalizePath [] (cr_Path r)) coverage)
          else sorted_set (filter (\<lambda>p. IsMeasurableSource glob classifier p \<and> on_disk exists sc p)
                            (map (NormalizePath (gs_ProjectRoot sc)) (gs_Files sc))))"

subsection \<open>The verdict\<close>

definition coverageBelowThreshold :: "int \<Rightarrow> int \<Rightarrow> int \<Rightarrow> bool" where
  "coverageBelowThreshold covered tot threshold \<longleftrightarrow> wrap64 (covered * 100) < wrap64 (tot * threshold)"

definition coverageMetricLabel :: "CoverageRecord \<Rightarrow> string" where
  "coverageMetricLabel r = (if TrimSpace (cr_Metric r) = [] then ''unlabeled'' else cr_Metric r)"

definition coverageExclusionReason :: "CoverageRecord \<Rightarrow> string" where
  "coverageExclusionReason r =
     (if TrimSpace (cr_Justification r) \<noteq> [] then '': '' @ TrimSpace (cr_Justification r)
      else if TrimSpace (cr_Metric r) \<noteq> [] then '' (declared metric: '' @ TrimSpace (cr_Metric r) @ '')''
      else '' (pack-declared exclusion)'')"

definition coverageClassificationCapabilityAbsent :: StepResult where
  "coverageClassificationCapabilityAbsent =
     step_lit StepCoverageThreshold ''warning''
       [violation_lit ''coverage_capability_absent'' []
          (''coverage classification capability absent: no pack-declared coverage globs are in effect, so the gate cannot determine which in-scope changed files are measurable source ''
           @ message_dash @ '' install/declare a toolchain pack carrying a classification.source list. This advisory is non-blocking (exit 0).'')
          ''warning'']"

definition collision_violation :: "string \<Rightarrow> string \<Rightarrow> Violation" where
  "collision_violation root' key =
     (case splitCoverageDupKey key of (dupPath, dupMetric) \<Rightarrow>
        violation_lit ''coverage_metric_collision'' (NormalizePath root' dupPath)
          (''duplicate coverage measurement for file '' @ dupPath @ '' under metric '' @ quote dupMetric @ '' ''
           @ message_dash @ '' a producer emitted two records for the same (path, metric); refusing to silently keep one'') ''error'')"

definition unmeasured_violation :: "string \<Rightarrow> string \<Rightarrow> Violation" where
  "unmeasured_violation root' path =
     violation_lit ''coverage_unmeasured'' (NormalizePath root' path)
       (''no coverage measurement for in-scope changed measurable-source file '' @ path
        @ '' (any metric) and it is not pack-declared excluded '' @ message_dash @ '' refusing to pass with nothing measured'') ''error''"

definition metric_missing_violation :: "string \<Rightarrow> string \<Rightarrow> string \<Rightarrow> Violation" where
  "metric_missing_violation root' path metric =
     violation_lit ''coverage_metric_missing'' (NormalizePath root' path)
       (''in-scope changed file '' @ path @ '' has coverage records but is missing the explicitly-declared '' @ quote metric
        @ '' metric '' @ message_dash @ '' refusing to pass with a declared metric silently unmeasured'') ''error''"

definition metric_violations ::
  "coverageThresholdSelection \<Rightarrow> string \<Rightarrow> bool \<Rightarrow> string \<Rightarrow> string \<Rightarrow> CoverageRecord \<Rightarrow> Violation list" where
  "metric_violations sel root' changed path metric r =
     (if cr_Excluded r then
        (if changed then
           [violation_lit ''coverage_exclusion'' (NormalizePath root' path)
              (''coverage requirement for changed file '' @ path @ '' (metric '' @ coverageMetricLabel r
               @ '') is suppressed by a pack-declared exclusion'' @ coverageExclusionReason r) ''warning'']
         else [])
      else if cr_Total r = 0 then []
      else
        let threshold = coverageThresholdForMetric sel metric in
        if threshold \<le> 0 then []
        else if coverageBelowThreshold (cr_Covered r) (cr_Total r) threshold then
          [violation_lit ''coverage_threshold'' (NormalizePath root' path)
             (''file '' @ path @ '' coverage '' @ Itoa (cr_Covered r) @ ''/'' @ Itoa (cr_Total r) @ '' (''
              @ coverageMetricLabel r @ '') below threshold '' @ Itoa threshold @ ''%'') ''error'']
        else [])"

definition path_violations ::
  "coverageThresholdSelection \<Rightarrow> coverage_index \<Rightarrow> GateScope option \<Rightarrow> string \<Rightarrow> string \<Rightarrow> Violation list" where
  "path_violations sel idx scope root' path =
     (let changed = coveragePathInDiffScope path scope in
      case resolveCoverageRecordsForPath idx path of
        None \<Rightarrow> [unmeasured_violation root' path]
      | Some recs \<Rightarrow>
          (if changed
           then map (metric_missing_violation root' path) (filter (\<lambda>m. \<not> map_has recs m) (declaredCoverageMetrics sel))
           else [])
          @ concat (map (\<lambda>m. case map_of recs m of None \<Rightarrow> [] | Some r \<Rightarrow> metric_violations sel root' changed path m r)
                        (sortedCoverageMetrics recs)))"

text \<open>The step.  Every violation it builds reads \<open>scope.ProjectRoot\<close>, so that with a nil scope the
  first violation is a nil dereference: None is that panic.\<close>

definition coverage_violations ::
  "glob_match \<Rightarrow> (string \<Rightarrow> bool) \<Rightarrow> CoverageRecord list \<Rightarrow> SpecVerification list \<Rightarrow> GateScope option \<Rightarrow> string
    \<Rightarrow> SourceClassifier \<Rightarrow> int \<Rightarrow> Violation list" where
  "coverage_violations glob exists coverage specs scope root' classifier floor =
     (let sel = coverageThresholdsForScope specs scope floor;
          (idx, dups) = indexCoverageByPathMetric coverage;
          paths = coveragePathsInScope glob exists coverage scope classifier
      in map (collision_violation root') dups @ concat (map (path_violations sel idx scope root') paths))"

definition no_paths_result :: StepResult where
  "no_paths_result = (step_lit StepCoverageThreshold ''pass'' [])
     \<lparr>s_Reason := ''no in-scope files to measure for coverage '' @ message_dash
        @ '' this dimension scored nothing for this diff and is not a test-pass verdict; test outcomes are reported by the test_verification dimension''\<rparr>"

definition StepCoverageThresholdScopedFunc ::
  "glob_match \<Rightarrow> (string \<Rightarrow> bool) \<Rightarrow> CoverageRecord list \<Rightarrow> SpecVerification list \<Rightarrow> GateScope option
    \<Rightarrow> SourceClassifier \<Rightarrow> int option \<Rightarrow> StepResult option" where
  "StepCoverageThresholdScopedFunc glob exists coverage specs scope classifier floorOpt =
     (let floor = (case floorOpt of None \<Rightarrow> defaultCodeScopeCoverageFloor | Some n \<Rightarrow> n) in
      if \<not> HasSourceGlobs classifier \<and> scopeHasChangedFiles scope then Some coverageClassificationCapabilityAbsent
      else if coveragePathsInScope glob exists coverage scope classifier = [] then Some no_paths_result
      else case scope of
        None \<Rightarrow>
          if coverage_violations glob exists coverage specs scope [] classifier floor \<noteq> [] then None
          else Some (step_lit StepCoverageThreshold ''pass'' [])
      | Some sc \<Rightarrow>
          (let vs = coverage_violations glob exists coverage specs scope (gs_ProjectRoot sc) classifier floor
           in Some (step_lit StepCoverageThreshold
                      (if list_ex (\<lambda>v. v_Severity v = ''error'') vs then ''fail'' else ''pass'') vs)))"

definition StepCoverageThresholdFunc ::
  "glob_match \<Rightarrow> (string \<Rightarrow> bool) \<Rightarrow> CoverageRecord list \<Rightarrow> SpecVerification list \<Rightarrow> SourceClassifier \<Rightarrow> StepResult option" where
  "StepCoverageThresholdFunc glob exists coverage specs classifier =
     StepCoverageThresholdScopedFunc glob exists coverage specs None classifier None"

subsection \<open>The index\<close>

abbreviation record_key :: "CoverageRecord \<Rightarrow> string \<times> string" where
  "record_key r \<equiv> (NormalizePath [] (cr_Path r), cr_Metric r)"

definition index_lookup :: "coverage_index \<Rightarrow> string \<times> string \<Rightarrow> CoverageRecord option" where
  "index_lookup idx pm = map_of (map_get [] idx (fst pm)) (snd pm)"

lemma index_lookup_set:
  "index_lookup (map_set p (map_set m r (map_get [] idx p)) idx) pm = (if pm = (p, m) then Some r else index_lookup idx pm)"
  by (cases pm) (auto simp: index_lookup_def)

lemma index_records_lookup:
  "index_lookup (fst (index_records rs idx dups)) pm =
     (case index_lookup idx pm of Some r \<Rightarrow> Some r | None \<Rightarrow> find (\<lambda>r. record_key r = pm) rs)"
proof (induction rs idx dups rule: index_records.induct)
  case (2 r rs idx dups)
  show ?case
  proof (cases "index_lookup idx (record_key r)")
    case None
    then have "\<not> map_has (map_get [] idx (NormalizePath [] (cr_Path r))) (cr_Metric r)" by (simp add: index_lookup_def)
    with 2 None show ?thesis by (auto simp: Let_def index_lookup_set split: option.splits)
  next
    case (Some r')
    then have "map_has (map_get [] idx (NormalizePath [] (cr_Path r))) (cr_Metric r)" by (simp add: index_lookup_def)
    with 2 Some show ?thesis by (auto simp: Let_def split: option.splits)
  qed
qed (auto split: option.splits)

lemma index_records_dups:
  "snd (index_records rs idx dups) = dups \<longleftrightarrow>
     distinct (map record_key rs) \<and> (\<forall>r\<in>set rs. index_lookup idx (record_key r) = None)"
  "prefix dups (snd (index_records rs idx dups))"
proof (induction rs idx dups rule: index_records.induct)
  case (2 r rs idx dups)
  note IH = 2
  let ?p = "NormalizePath [] (cr_Path r)"
  {
    case 1
    show ?case
    proof (cases "index_lookup idx (record_key r)")
      case None
      have "\<not> map_has (map_get [] idx ?p) (cr_Metric r)" using None by (simp add: index_lookup_def)
      with IH(3) [OF refl refl] have "snd (index_records (r # rs) idx dups) = dups \<longleftrightarrow> distinct (map record_key rs)
          \<and> (\<forall>r'\<in>set rs. (if record_key r' = record_key r then Some r else index_lookup idx (record_key r')) = None)"
        by (simp add: Let_def index_lookup_set)
      also have "\<dots> \<longleftrightarrow> distinct (map record_key (r # rs)) \<and> (\<forall>r'\<in>set (r # rs). index_lookup idx (record_key r') = None)"
        using None by (auto simp: image_iff simp del: prod.inject split: if_splits)
      finally show ?thesis .
    next
      case (Some r')
      then have h: "map_has (map_get [] idx ?p) (cr_Metric r)" by (simp add: index_lookup_def)
      from IH(2) [OF refl refl h] h have "prefix (dups @ [?p @ coverageDupPairSep # cr_Metric r]) (snd (index_records (r # rs) idx dups))"
        by (simp add: Let_def)
      then have "snd (index_records (r # rs) idx dups) \<noteq> dups" by (auto simp: prefix_def)
      with Some show ?thesis by auto
    qed
  next
    case 2
    show ?case using IH(2,4) [OF refl refl] by (cases "map_has (map_get [] idx ?p) (cr_Metric r)")
        (auto simp: Let_def dest: prefix_order.trans [rotated] intro: append_prefixD)
  }
qed simp_all

text \<open>No record is lost: the index holds the first record of every path and metric, and a duplicate
  is reported exactly when two records share both.\<close>

lemma coverage_index_exact:
  "index_lookup (fst (indexCoverageByPathMetric coverage)) pm = find (\<lambda>r. record_key r = pm) coverage"
  "snd (indexCoverageByPathMetric coverage) = [] \<longleftrightarrow> distinct (map record_key coverage)"
proof -
  have none: "index_lookup [] k = None" for k by (simp add: index_lookup_def)
  show "index_lookup (fst (indexCoverageByPathMetric coverage)) pm = find (\<lambda>r. record_key r = pm) coverage"
    by (simp add: indexCoverageByPathMetric_def index_records_lookup none)
  show "snd (indexCoverageByPathMetric coverage) = [] \<longleftrightarrow> distinct (map record_key coverage)"
    by (simp add: indexCoverageByPathMetric_def index_records_dups(1) none)
qed

subsection \<open>The verdict\<close>

lemma severity_lits: "v_Severity (violation_lit r f m s) = s" by simp

lemma error_rules [simp]:
  "v_Severity (collision_violation rt k) = ''error''" "v_Severity (unmeasured_violation rt p) = ''error''"
  "v_Severity (metric_missing_violation rt p m) = ''error''"
  by (simp_all add: collision_violation_def unmeasured_violation_def metric_missing_violation_def split: prod.splits)

text \<open>A record meets its threshold: it is excluded, has nothing to cover, has no threshold, or is not
  below it.\<close>

definition record_meets :: "coverageThresholdSelection \<Rightarrow> string \<Rightarrow> CoverageRecord \<Rightarrow> bool" where
  "record_meets sel metric r \<longleftrightarrow>
     cr_Excluded r \<or> cr_Total r = 0 \<or> coverageThresholdForMetric sel metric \<le> 0
     \<or> \<not> coverageBelowThreshold (cr_Covered r) (cr_Total r) (coverageThresholdForMetric sel metric)"

lemma metric_violations_error:
  "(\<exists>v\<in>set (metric_violations sel rt changed path m r). v_Severity v = ''error'') \<longleftrightarrow> \<not> record_meets sel m r"
  by (auto simp: metric_violations_def record_meets_def Let_def)

lemma metric_violations_unchanged: "metric_violations sel rt False path m r = [] \<longleftrightarrow> record_meets sel m r"
  by (auto simp: metric_violations_def record_meets_def Let_def)

definition path_ok :: "coverageThresholdSelection \<Rightarrow> coverage_index \<Rightarrow> GateScope option \<Rightarrow> string \<Rightarrow> bool" where
  "path_ok sel idx scope path =
     (case resolveCoverageRecordsForPath idx path of
        None \<Rightarrow> False
      | Some recs \<Rightarrow>
          (coveragePathInDiffScope path scope \<longrightarrow> (\<forall>m\<in>set (declaredCoverageMetrics sel). map_has recs m))
          \<and> (\<forall>m\<in>dom (map_of recs). record_meets sel m (the (map_of recs m))))"

lemma set_sortedCoverageMetrics: "set (sortedCoverageMetrics recs) = dom (map_of recs)"
  by (simp add: sortedCoverageMetrics_def dom_map_of_conv_image_fst)

lemma path_violations_error:
  "(\<exists>v\<in>set (path_violations sel idx scope rt path). v_Severity v = ''error'') \<longleftrightarrow> \<not> path_ok sel idx scope path"
proof (cases "resolveCoverageRecordsForPath idx path")
  case None
  then show ?thesis by (simp add: path_violations_def path_ok_def)
next
  case (Some recs)
  let ?c = "coveragePathInDiffScope path scope"
  have "(\<exists>m\<in>set (sortedCoverageMetrics recs). \<exists>v\<in>set (case map_of recs m of None \<Rightarrow> []
          | Some r \<Rightarrow> metric_violations sel rt ?c path m r). v_Severity v = ''error'')
      \<longleftrightarrow> (\<exists>m\<in>dom (map_of recs). \<not> record_meets sel m (the (map_of recs m)))"
    unfolding set_sortedCoverageMetrics
  proof (rule bex_cong [OF refl])
    fix m assume "m \<in> dom (map_of recs)"
    then obtain r where "map_of recs m = Some r" by blast
    then show "(\<exists>v\<in>set (case map_of recs m of None \<Rightarrow> [] | Some r \<Rightarrow> metric_violations sel rt ?c path m r).
          v_Severity v = ''error'') = (\<not> record_meets sel m (the (map_of recs m)))"
      using metric_violations_error [of sel rt ?c path m r] by simp
  qed
  moreover have "(\<exists>v\<in>set (if ?c then map (metric_missing_violation rt path)
            (filter (\<lambda>m. \<not> map_has recs m) (declaredCoverageMetrics sel)) else []). v_Severity v = ''error'')
      \<longleftrightarrow> ?c \<and> (\<exists>m\<in>set (declaredCoverageMetrics sel). \<not> map_has recs m)"
    by auto
  ultimately show ?thesis
    unfolding path_violations_def path_ok_def Let_def Some option.case set_append set_concat set_map bex_Un
    by blast
qed


text \<open>Without a scope the step panics as soon as it has anything to report: every violation it builds
  reads the project root of the scope.  It returns only when no record is duplicated and every
  record meets its threshold, that is when it passes.\<close>

theorem nil_scope_panics:
  "StepCoverageThresholdFunc glob exists coverage specs classifier =
     (if distinct (map record_key coverage)
         \<and> (\<forall>p\<in>set (coveragePathsInScope glob exists coverage None classifier).
              path_ok (coverageThresholdsForScope specs None 90) (fst (indexCoverageByPathMetric coverage)) None p)
      then Some (if coverage = [] then no_paths_result else step_lit StepCoverageThreshold ''pass'' [])
      else None)"
proof -
  let ?sel = "coverageThresholdsForScope specs None 90"
  let ?idx = "fst (indexCoverageByPathMetric coverage)"
  let ?paths = "coveragePathsInScope glob exists coverage None classifier"
  have nil: "?paths = [] \<longleftrightarrow> coverage = []" by (simp add: coveragePathsInScope_def)
  have pv: "path_violations ?sel ?idx None [] p = [] \<longleftrightarrow> path_ok ?sel ?idx None p" for p
  proof (cases "resolveCoverageRecordsForPath ?idx p")
    case (Some recs)
    have "(case map_of recs m of None \<Rightarrow> [] | Some r \<Rightarrow> metric_violations ?sel [] False p m r) = []
        \<longleftrightarrow> record_meets ?sel m (the (map_of recs m))" if "m \<in> dom (map_of recs)" for m
      using that by (auto simp: metric_violations_unchanged)
    then show ?thesis
      using Some by (simp add: path_violations_def path_ok_def coveragePathInDiffScope_def set_sortedCoverageMetrics)
  qed (simp add: path_violations_def path_ok_def)
  have "coverage_violations glob exists coverage specs None [] classifier 90 = [] \<longleftrightarrow>
      snd (indexCoverageByPathMetric coverage) = [] \<and> (\<forall>p\<in>set ?paths. path_ok ?sel ?idx None p)"
    by (simp add: coverage_violations_def Let_def case_prod_beta pv)
  then show ?thesis
    using coverage_index_exact(2) [of coverage] nil
    by (auto simp: StepCoverageThresholdFunc_def StepCoverageThresholdScopedFunc_def scopeHasChangedFiles_def
        defaultCodeScopeCoverageFloor_def Let_def)
qed

definition demo_record :: "string \<Rightarrow> int \<Rightarrow> CoverageRecord" where
  "demo_record path covered = \<lparr>cr_Path = path, cr_Covered = covered, cr_Total = 10, cr_Measured = True,
     cr_Excluded = False, cr_Justification = [], cr_Metric = ''line''\<rparr>"

definition demo_scope :: GateScope where
  "demo_scope = \<lparr>gs_Mode = ''diff'', gs_Files = [''a.go''], gs_Warnings = [], gs_RequestedBase = [], gs_MergeBase = [],
     gs_ProjectRoot = [], gs_fileSet = [''a.go'']\<rparr>"


theorem nil_scope_panics_witness:
  "StepCoverageThresholdFunc (\<lambda>g p. Some (g = p)) (\<lambda>_. True) [demo_record ''a.go'' 1, demo_record ''a.go'' 9] []
     \<lparr>cl_source = [''a.go''], cl_test = []\<rparr> = None"
  unfolding nil_scope_panics by (simp add: demo_record_def)

subsection \<open>Counts\<close>

text \<open>The comparison is the rational one as long as the counts stay below \<open>2 ^ 56\<close> and the threshold is
  a percentage; a larger count can wrap and make a fully covered file fail.\<close>

lemma coverageBelowThreshold_exact:
  assumes "0 \<le> covered" "covered < 2 ^ 56" "0 \<le> tot" "tot < 2 ^ 56" "0 \<le> threshold" "threshold \<le> 100"
  shows "coverageBelowThreshold covered tot threshold \<longleftrightarrow> covered * 100 < tot * threshold"
proof -
  have "tot * threshold \<le> tot * 100" using assms by (intro mult_left_mono) auto
  moreover have "- (2 ^ 63) \<le> tot * threshold"
    by (rule order_trans [OF _ mult_nonneg_nonneg [OF assms(3,5)]]) simp
  ultimately have "wrap64 (tot * threshold) = tot * threshold" using assms(4) by (intro wrap64_id) auto
  moreover have "wrap64 (covered * 100) = covered * 100" using assms by (intro wrap64_id) auto
  ultimately show ?thesis by (simp add: coverageBelowThreshold_def)
qed

lemma coverageBelowThreshold_wraps:
  "coverageBelowThreshold (2 ^ 57) (2 ^ 57) 50"
  by (simp add: coverageBelowThreshold_def wrap64_def)

end
