(* ===== verification/Sarif.thy ===== *)
theory Sarif
  imports Checks Gate_Coverage
begin

text \<open>
  What an engine's process and its output become (\<open>src/pkg/check\<close>): the classes of a process error,
  the SARIF document and its findings (\<open>parsers.go\<close>), coverage records (\<open>coverage.go\<close>) and the result
  of a check run (\<open>check.go\<close>, \<open>output.go\<close>).  The JSON decoder is an argument: it gives the decoded
  document or its error text.
\<close>

subsection \<open>Process errors\<close>

text \<open>The errors of running a command that the code tells apart: the executable was not found, a path
  error with its operation, an exit with a status (negative when a signal ended the process), and
  any other.\<close>

datatype run_error =
    ExecError string
  | PathError string string
  | ExitError int string
  | OtherError string

fun run_error_text :: "run_error \<Rightarrow> string" where
  "run_error_text (ExecError e) = e"
| "run_error_text (PathError op e) = e"
| "run_error_text (ExitError c e) = e"
| "run_error_text (OtherError e) = e"

definition NeverStarted :: "run_error option \<Rightarrow> bool" where
  "NeverStarted e =
     (case e of
        Some (ExecError _) \<Rightarrow> True
      | Some (PathError op _) \<Rightarrow> op = ''fork/exec''
      | _ \<Rightarrow> False)"

definition ExitStatus :: "run_error option \<Rightarrow> int option" where
  "ExitStatus e = (case e of Some (ExitError c _) \<Rightarrow> (if c < 0 then None else Some c) | _ \<Rightarrow> None)"

subsection \<open>SARIF\<close>

datatype CheckType = CheckTypeLint | CheckTypeBuild | CheckTypeTest | CheckTypeFindings

fun CheckType_String :: "CheckType \<Rightarrow> string" where
  "CheckType_String CheckTypeLint = ''lint''"
| "CheckType_String CheckTypeBuild = ''build''"
| "CheckType_String CheckTypeTest = ''test''"
| "CheckType_String CheckTypeFindings = ''findings''"

text \<open>The package's own \<open>Violation\<close>.\<close>

record CheckViolation =
  kv_Pass :: CheckType
  kv_File :: string
  kv_Line :: int
  kv_Message :: string
  kv_Severity :: string
  kv_Rule :: string
  kv_Fingerprint :: string
  kv_Properties :: "(string, string) gomap"

record sarif_location =
  sl_URI :: string
  sl_StartLine :: int
  sl_StartColumn :: int
  sl_Snippet :: string

record sarif_rule =
  sr_ID :: string
  sr_Level :: string

record sarif_result =
  st_RuleID :: string
  st_Level :: string
  st_Text :: string
  st_Locations :: "sarif_location list"
  st_PartialFingerprints :: "(string, string) gomap"
  st_Suppressions :: "string list"
  st_Properties :: "(string, string) gomap"

record sarif_run =
  rn_Rules :: "sarif_rule list"
  rn_Results :: "sarif_result list"

text \<open>The property bag keeps the members whose raw text is a string literal and skips the others.\<close>

fun property_bag :: "(string \<Rightarrow> string + string) \<Rightarrow> (string \<times> string) list \<Rightarrow> (string, string) gomap \<Rightarrow> string + (string, string) gomap" where
  "property_bag unquote [] kept = Inr kept"
| "property_bag unquote ((k, raw) # rest) kept =
     (let trimmed = TrimSpace raw in
      if trimmed = [] \<or> hd trimmed \<noteq> CHR 0x22 then property_bag unquote rest kept
      else case unquote trimmed of
             Inl e \<Rightarrow> Inl (''decoding result property '' @ quote k @ '': '' @ e)
           | Inr s \<Rightarrow> property_bag unquote rest (map_set k s kept))"

definition sarifPropertyBag_UnmarshalJSON ::
  "(string \<Rightarrow> string + (string \<times> string) list) \<Rightarrow> (string \<Rightarrow> string + string) \<Rightarrow> string \<Rightarrow> string + (string, string) gomap" where
  "sarifPropertyBag_UnmarshalJSON members unquote dat =
     (if TrimSpace dat = ''null'' then Inr []
      else case members dat of
             Inl e \<Rightarrow> Inl (''decoding result properties: '' @ e)
           | Inr raw \<Rightarrow> property_bag unquote raw [])"

definition sarifRedactionMarker :: string where "sarifRedactionMarker = ''REDACTED''"
definition sarifSnippetHashDomain :: string where "sarifSnippetHashDomain = ''snippet:''"
definition sarifPositionHashDomain :: string where "sarifPositionHashDomain = ''position:''"
definition sarifFingerprintHashPrefix :: string where "sarifFingerprintHashPrefix = ''sha256:''"

definition sarifHashFingerprint :: "string \<Rightarrow> string" where
  "sarifHashFingerprint inp = sarifFingerprintHashPrefix @ sha256_hex inp"

definition sarifPartialDegenerate :: "(string, string) gomap \<Rightarrow> bool" where
  "sarifPartialDegenerate partial \<longleftrightarrow> list_all (\<lambda>kv. TrimSpace (snd kv) = []) partial"

definition sarifFingerprint :: "(string, string) gomap \<Rightarrow> string \<Rightarrow> int \<Rightarrow> int \<Rightarrow> string" where
  "sarifFingerprint partial snippet line column =
     (if partial = [] then snippet
      else if sarifPartialDegenerate partial then
        (if snippet \<noteq> [] \<and> snippet \<noteq> sarifRedactionMarker
         then sarifHashFingerprint (sarifSnippetHashDomain @ snippet)
         else sarifHashFingerprint (sarifPositionHashDomain @ Itoa line @ '':'' @ Itoa column))
      else Join (map (\<lambda>k. k @ ''='' @ map_get [] partial k) (sorted_set (map fst partial))) '';'')"

definition sarifSeverity :: "string \<Rightarrow> string" where
  "sarifSeverity level = (if level = ''warning'' then ''warning'' else ''error'')"

definition descriptor_levels :: "sarif_run \<Rightarrow> (string, string) gomap" where
  "descriptor_levels run = fold (\<lambda>r m. map_set (sr_ID r) (sr_Level r) m) (rn_Rules run) []"

definition result_level :: "sarif_run \<Rightarrow> sarif_result \<Rightarrow> string" where
  "result_level run r = (if st_Level r = [] then map_get [] (descriptor_levels run) (st_RuleID r) else st_Level r)"

definition zero_location :: sarif_location where
  "zero_location = \<lparr>sl_URI = [], sl_StartLine = 0, sl_StartColumn = 0, sl_Snippet = []\<rparr>"

definition result_violation :: "CheckType \<Rightarrow> sarif_run \<Rightarrow> sarif_result \<Rightarrow> CheckViolation" where
  "result_violation target run r =
     (let loc = (case st_Locations r of [] \<Rightarrow> zero_location | l # _ \<Rightarrow> l)
      in \<lparr>kv_Pass = target, kv_File = sl_URI loc, kv_Line = sl_StartLine loc, kv_Message = st_Text r,
          kv_Severity = sarifSeverity (result_level run r), kv_Rule = st_RuleID r,
          kv_Fingerprint = sarifFingerprint (st_PartialFingerprints r) (TrimSpace (sl_Snippet loc))
                             (sl_StartLine loc) (sl_StartColumn loc),
          kv_Properties = st_Properties r\<rparr>)"

definition parseSarif :: "(string \<Rightarrow> string + sarif_run list) \<Rightarrow> string \<Rightarrow> CheckType \<Rightarrow> string + CheckViolation list" where
  "parseSarif decode out target =
     (let trimmed = TrimSpace out in
      if trimmed = [] then Inr []
      else case decode trimmed of
             Inl e \<Rightarrow> Inl (''parsing SARIF output: '' @ e)
           | Inr runs \<Rightarrow>
               Inr (concat (map (\<lambda>run. map (result_violation target run)
                                         (filter (\<lambda>r. st_Suppressions r = []) (rn_Results run))) runs)))"

definition lookupParser ::
  "string \<Rightarrow> string + ((string \<Rightarrow> string + sarif_run list) \<Rightarrow> string \<Rightarrow> CheckType \<Rightarrow> string + CheckViolation list)" where
  "lookupParser format =
     (if format = ''sarif'' then Inr parseSarif
      else Inl (''unknown output format '' @ quote format @ '': must be '' @ [CHR 0x22] @ ''sarif'' @ [CHR 0x22]))"

definition ParsePackFindings :: "(string \<Rightarrow> string + sarif_run list) \<Rightarrow> string \<Rightarrow> string + CheckViolation list" where
  "ParsePackFindings decode out =
     (case lookupParser ''sarif'' of
        Inl e \<Rightarrow> Inl (''resolving sarif parser for pack findings: '' @ e)
      | Inr parser \<Rightarrow> parser decode out CheckTypeFindings)"

subsection \<open>Coverage records\<close>

definition record_defect :: "CoverageRecord \<Rightarrow> string option" where
  "record_defect r =
     (if cr_Measured r \<and> cr_Metric r = []
      then Some (''coverage record for '' @ quote (cr_Path r)
                 @ '' is measured but carries an empty metric: an unlabeled measurement is a silent-comparison hazard'')
      else None)"

definition ParsePackCoverage :: "(string \<Rightarrow> string + CoverageRecord list) \<Rightarrow> string \<Rightarrow> string + CoverageRecord list" where
  "ParsePackCoverage decode out =
     (let trimmed = TrimSpace out in
      if trimmed = [] then Inr []
      else if hd trimmed \<noteq> CHR ''['' then
        Inl ''coverage-records must be a JSON array of records, not a SARIF/object document: coverage is a DISTINCT typed output, never tunneled through SARIF''
      else case decode trimmed of
             Inl e \<Rightarrow> Inl (''parsing coverage-records JSON: '' @ e)
           | Inr records \<Rightarrow>
               (case first_failure (map record_defect records) of Some e \<Rightarrow> Inl e | None \<Rightarrow> Inr records))"

subsection \<open>The result of a check run\<close>

record PassResult =
  pq_Pass :: CheckType
  pq_Violations :: "CheckViolation list"
  pq_Skipped :: bool
  pq_SkipReason :: string

record CheckResult =
  rs_PassResults :: "PassResult list"
  rs_Warnings :: "string list"
  rs_ExitCode :: int

definition AllViolations :: "CheckResult \<Rightarrow> CheckViolation list" where
  "AllViolations r = concat (map pq_Violations (rs_PassResults r))"

definition HasViolations :: "CheckResult \<Rightarrow> bool" where
  "HasViolations r \<longleftrightarrow> list_ex (\<lambda>p. pq_Violations p \<noteq> []) (rs_PassResults r)"

definition ViolationCount :: "CheckResult \<Rightarrow> nat" where
  "ViolationCount r = sum_list (map (\<lambda>p. length (pq_Violations p)) (rs_PassResults r))"

definition DetermineExitCode :: "CheckResult option \<Rightarrow> string option \<Rightarrow> bool \<Rightarrow> int" where
  "DetermineExitCode result configErr flagConflict =
     (if configErr \<noteq> None \<or> flagConflict then 2
      else case result of Some r \<Rightarrow> (if HasViolations r then 1 else 0) | None \<Rightarrow> 0)"

lemma HasViolations_iff: "HasViolations r \<longleftrightarrow> AllViolations r \<noteq> []" "ViolationCount r = length (AllViolations r)"
  by (auto simp: HasViolations_def AllViolations_def ViolationCount_def list_ex_iff length_concat comp_def)

subsection \<open>Facts\<close>

lemma NeverStarted_no_status: "NeverStarted e \<Longrightarrow> ExitStatus e = None"
  by (auto simp: NeverStarted_def ExitStatus_def split: option.splits run_error.splits)

text \<open>What an engine reports blocks unless it says \<open>warning\<close>: an unknown, missing or misspelt level
  is an error.\<close>

lemma sarif_blocks_by_default: "sarifSeverity level = ''error'' \<longleftrightarrow> level \<noteq> ''warning''"
  by (simp add: sarifSeverity_def)

lemma ParsePackFindings_Inr:
  "ParsePackFindings decode out = Inr vs \<longleftrightarrow>
     TrimSpace out = [] \<and> vs = []
     \<or> TrimSpace out \<noteq> [] \<and> (\<exists>runs. decode (TrimSpace out) = Inr runs
          \<and> vs = concat (map (\<lambda>run. map (result_violation CheckTypeFindings run)
                                         (filter (\<lambda>r. st_Suppressions r = []) (rn_Results run))) runs))"
  by (auto simp: ParsePackFindings_def lookupParser_def parseSarif_def Let_def split: sum.splits)

lemma ParsePackFindings_clean:
  "ParsePackFindings decode out = Inr [] \<longleftrightarrow>
     TrimSpace out = []
     \<or> (\<exists>runs. decode (TrimSpace out) = Inr runs
          \<and> (\<forall>run\<in>set runs. \<forall>r\<in>set (rn_Results run). st_Suppressions r \<noteq> []))"
  unfolding ParsePackFindings_Inr by (auto simp: filter_empty_conv)

lemma ParsePackCoverage_labelled:
  assumes "ParsePackCoverage decode out = Inr records" "r \<in> set records" "cr_Measured r"
  shows "cr_Metric r \<noteq> []"
  using assms
  by (auto simp: ParsePackCoverage_def Let_def first_failure_map_None record_defect_def list_all_iff
      split: if_splits sum.splits option.splits)

end
