(* ===== verification/Pack_Engine.thy ===== *)
theory Pack_Engine
  imports Go_Int Checks
begin

text \<open>
  The declared execution engines of a pack (\<open>src/pkg/pack/engine\<close>): the enumerations with their
  fail-loud parsers, the binding, the registry, the allowlist of trusted tools and the declared
  exit statuses.
\<close>

subsection \<open>Enumerations\<close>

datatype GateType = GateTypeLint | GateTypeBuild | GateTypeTest | GateTypeFindings | GateTypeCoverage
  | GateTypeSubstantiveness | GateTypeContracts

fun GateType_String :: "GateType \<Rightarrow> string" where
  "GateType_String GateTypeLint = ''lint''"
| "GateType_String GateTypeBuild = ''build''"
| "GateType_String GateTypeTest = ''test''"
| "GateType_String GateTypeFindings = ''findings''"
| "GateType_String GateTypeCoverage = ''coverage''"
| "GateType_String GateTypeSubstantiveness = ''substantiveness''"
| "GateType_String GateTypeContracts = ''contracts''"

definition gate_types :: "GateType list" where
  "gate_types = [GateTypeLint, GateTypeBuild, GateTypeTest, GateTypeFindings, GateTypeCoverage,
     GateTypeSubstantiveness, GateTypeContracts]"

definition ParseGateType :: "string \<Rightarrow> string + GateType" where
  "ParseGateType s =
     (case find (\<lambda>g. GateType_String g = s) gate_types of
        Some g \<Rightarrow> Inr g
      | None \<Rightarrow> Inl (''unknown gate_type '' @ quote s
                    @ '': must be one of lint, build, test, findings, coverage, substantiveness, contracts''))"

datatype InputMode = InputModeConfigFile | InputModeRuleFlags | InputModeNone | InputModePatternArg

fun InputMode_String :: "InputMode \<Rightarrow> string" where
  "InputMode_String InputModeConfigFile = ''config-file''"
| "InputMode_String InputModeRuleFlags = ''rule-flags''"
| "InputMode_String InputModeNone = ''none''"
| "InputMode_String InputModePatternArg = ''pattern-arg''"

definition ParseInputMode :: "string \<Rightarrow> string + InputMode" where
  "ParseInputMode s =
     (case find (\<lambda>m. InputMode_String m = s) [InputModeConfigFile, InputModeRuleFlags, InputModeNone, InputModePatternArg] of
        Some m \<Rightarrow> Inr m
      | None \<Rightarrow> Inl (''unknown input_mode '' @ quote s @ '': must be one of config-file, rule-flags, none, pattern-arg''))"

datatype ScopeKind = ScopeKindFileArgs | ScopeKindProjectWide | ScopeKindDependencyMapped

definition ParseScopeKind :: "string \<Rightarrow> string + ScopeKind" where
  "ParseScopeKind s =
     (if s = [] \<or> s = ''file-args'' then Inr ScopeKindFileArgs
      else if s = ''project-wide'' then Inr ScopeKindProjectWide
      else Inl (''unknown scope_kind '' @ quote s @ '': must be one of file-args, project-wide''))"

datatype EngineCategory = EngineCategoryUnset | EngineCategoryMechanism | EngineCategoryOpinion

definition ParseEngineCategory :: "string \<Rightarrow> string + EngineCategory" where
  "ParseEngineCategory s =
     (if s = [] then Inr EngineCategoryUnset
      else if s = ''mechanism'' then Inr EngineCategoryMechanism
      else if s = ''opinion'' then Inr EngineCategoryOpinion
      else Inl (''unknown category '' @ quote s @ '': must be one of mechanism, opinion''))"

text \<open>The \<open>UnmarshalYAML\<close> of an enumeration: the node as a string, then its parser.\<close>

definition unmarshal_enum :: "string \<Rightarrow> (string \<Rightarrow> string + 'a) \<Rightarrow> string + string \<Rightarrow> string + 'a" where
  "unmarshal_enum what parse node =
     (case node of Inl err \<Rightarrow> Inl (what @ '' must be a string: '' @ err) | Inr s \<Rightarrow> parse s)"

definition GateType_UnmarshalYAML :: "string + string \<Rightarrow> string + GateType" where
  "GateType_UnmarshalYAML = unmarshal_enum ''gate_type'' ParseGateType"

definition ScopeKind_UnmarshalYAML :: "string + string \<Rightarrow> string + ScopeKind" where
  "ScopeKind_UnmarshalYAML = unmarshal_enum ''scope_kind'' ParseScopeKind"

definition EngineCategory_UnmarshalYAML :: "string + string \<Rightarrow> string + EngineCategory" where
  "EngineCategory_UnmarshalYAML = unmarshal_enum ''category'' ParseEngineCategory"

subsection \<open>Bindings\<close>

record Provision =
  pr_Tool :: string
  pr_Version :: string

record FieldContract =
  fc_Requires :: "string list"
  fc_Forbids :: "string list"

definition FieldRulePath :: string where "FieldRulePath = ''rule_path''"
definition FieldStandard :: string where "FieldStandard = ''standard''"
definition FieldCategory :: string where "FieldCategory = ''category''"
definition FieldInputScope :: string where "FieldInputScope = ''input_scope''"
definition FieldValidator :: string where "FieldValidator = ''validator''"

text \<open>A slice whose absence matters (\<open>SuccessExitCodes\<close>) is an option.\<close>

record EngineBinding =
  eb_Command :: string
  eb_InputMode :: InputMode
  eb_InputFlag :: string
  eb_ScopeKind :: ScopeKind
  eb_Convert :: string
  eb_Producer :: string
  eb_StdoutArtifact :: string
  eb_Provision :: "Provision option"
  eb_CrashGuard :: bool
  eb_SuccessExitCodes :: "int list option"
  eb_Category :: EngineCategory
  eb_ProjectTarget :: string
  eb_GateType :: GateType
  eb_StrictSarif :: bool
  eb_PackageScoped :: bool
  eb_FieldContract :: FieldContract
  eb_ExemptFromScopeFilter :: bool

type_synonym Registry = "(string, EngineBinding) gomap"

definition Registry_Lookup :: "Registry \<Rightarrow> string \<Rightarrow> string + EngineBinding" where
  "Registry_Lookup r name =
     (case map_of r name of
        None \<Rightarrow> Inl (''unknown engine '' @ quote name @ '': no EngineBinding registered'')
      | Some b \<Rightarrow> Inr b)"

subsection \<open>Trusted tools\<close>

definition TrustedToolAllowlist :: "(string, string) gomap" where
  "TrustedToolAllowlist = [(''semgrep'', ''1.156.0''), (''ast-grep'', ''0.43.0''), (''grep'', ''*'')]"

definition CheckToolAllowed :: "(string, string) gomap \<Rightarrow> string \<Rightarrow> string \<Rightarrow> string option" where
  "CheckToolAllowed allowlist tool lockedVersion =
     (case map_of allowlist tool of
        None \<Rightarrow> Some (''tool '' @ quote tool @ '' is not on the trusted-tool allowlist: backstop will not run a pack-declared command for an un-allowlisted tool'')
      | Some pinned \<Rightarrow>
          if lockedVersion \<noteq> pinned
          then Some (''tool '' @ quote tool @ '' is allowlisted at version '' @ quote pinned @ '' but the lock pins ''
                     @ quote lockedVersion @ '': a pack-declared command's tool must be lock-pinned to its allowlisted version'')
          else None)"

subsection \<open>Exit statuses\<close>

definition maxExitStatus :: int where "maxExitStatus = 255"

definition EffectiveSuccessExitCodes :: "EngineBinding \<Rightarrow> int list" where
  "EffectiveSuccessExitCodes b = (case eb_SuccessExitCodes b of None \<Rightarrow> [0] | Some codes \<Rightarrow> codes)"

fun exit_codes_scan :: "int list \<Rightarrow> int list \<Rightarrow> string option" where
  "exit_codes_scan seen [] = None"
| "exit_codes_scan seen (c # cs) =
     (if c < 0 \<or> maxExitStatus < c
      then Some (''success_exit_codes value '' @ Itoa c @ '' is out of range: exit statuses are 0..'' @ Itoa maxExitStatus)
      else if c \<in> set seen then Some (''success_exit_codes has duplicate value '' @ Itoa c)
      else exit_codes_scan (c # seen) cs)"

definition ValidateSuccessExitCodes :: "int list option \<Rightarrow> string option" where
  "ValidateSuccessExitCodes codes =
     (case codes of
        None \<Rightarrow> None
      | Some cs \<Rightarrow>
          if cs = [] then Some ''success_exit_codes must not be empty: omit the key for the default [0]''
          else case exit_codes_scan [] cs of
                 Some e \<Rightarrow> Some e
               | None \<Rightarrow>
                   if 0 \<notin> set cs
                   then Some (''success_exit_codes ['' @ Join (map Itoa cs) '' '' @ ''] must contain 0: without it a clean exit would be an engine failure'')
                   else None)"

subsection \<open>Facts\<close>

text \<open>The parsers invert the spellings and refuse everything else.\<close>

lemma ParseGateType_Inr: "ParseGateType s = Inr g \<longleftrightarrow> s = GateType_String g"
  by (cases g) (auto simp: ParseGateType_def gate_types_def)

lemma ParseInputMode_Inr: "ParseInputMode s = Inr m \<longleftrightarrow> s = InputMode_String m"
  by (cases m) (auto simp: ParseInputMode_def)

lemma ParseScopeKind_not_mapped: "ParseScopeKind s \<noteq> Inr ScopeKindDependencyMapped"
  by (simp add: ParseScopeKind_def)

lemma exit_codes_scan_None:
  "exit_codes_scan seen cs = None \<longleftrightarrow> distinct cs \<and> set cs \<inter> set seen = {} \<and> (\<forall>c\<in>set cs. 0 \<le> c \<and> c \<le> 255)"
  by (induction cs arbitrary: seen) (auto simp: maxExitStatus_def)

lemma ValidateSuccessExitCodes_None:
  "ValidateSuccessExitCodes codes = None \<longleftrightarrow>
     (case codes of None \<Rightarrow> True | Some cs \<Rightarrow> distinct cs \<and> 0 \<in> set cs \<and> (\<forall>c\<in>set cs. 0 \<le> c \<and> c \<le> 255))"
proof (cases codes)
  case (Some cs)
  then show ?thesis
    using exit_codes_scan_None [of "[]" cs] by (cases "exit_codes_scan [] cs") (auto simp: ValidateSuccessExitCodes_def)
qed (simp add: ValidateSuccessExitCodes_def)

lemma CheckToolAllowed_None: "CheckToolAllowed allowlist tool v = None \<longleftrightarrow> map_of allowlist tool = Some v"
  by (auto simp: CheckToolAllowed_def split: option.splits)

text \<open>A concrete version of \<open>grep\<close> is refused: the entry \<open>"*"\<close> is compared as text.\<close>

lemma grep_version_refused: "CheckToolAllowed TrustedToolAllowlist ''grep'' ''3.11'' \<noteq> None"
  by code_simp

end
