(* ===== verification/Go_Regexp.thy ===== *)
theory Go_Regexp
  imports Go_Strings
begin

text \<open>
  The regular expressions the artifact validators compile, as terms: classes of bytes,
  concatenation, alternation and iteration.  Matching is by derivatives, as a matcher for whole
  strings (the validators anchor their patterns at both ends); it is proved to decide membership
  in the language of the expression.
\<close>

datatype rx = RNone | REps | RClass string | RCat rx rx | RAlt rx rx | RStar rx

fun rlit :: "string \<Rightarrow> rx" where
  "rlit [] = REps"
| "rlit (c # cs) = RCat (RClass [c]) (rlit cs)"

fun rseq :: "rx list \<Rightarrow> rx" where
  "rseq [] = REps"
| "rseq (r # rs) = RCat r (rseq rs)"

fun ralt :: "rx list \<Rightarrow> rx" where
  "ralt [] = RNone"
| "ralt (r # rs) = RAlt r (ralt rs)"

fun rtimes :: "nat \<Rightarrow> rx \<Rightarrow> rx" where
  "rtimes 0 r = REps"
| "rtimes (Suc n) r = RCat r (rtimes n r)"

definition rplus :: "rx \<Rightarrow> rx" where "rplus r = RCat r (RStar r)"

definition r_digit :: rx where "r_digit = RClass ''0123456789''"
definition r_lower :: rx where "r_lower = RClass ''abcdefghijklmnopqrstuvwxyz''"
definition r_upper :: rx where "r_upper = RClass ''ABCDEFGHIJKLMNOPQRSTUVWXYZ''"
definition r_lower_digit :: rx where "r_lower_digit = RClass ''abcdefghijklmnopqrstuvwxyz0123456789''"

text \<open>The kebab-case slug \<open>[a-z][a-z0-9]*(-[a-z0-9]+)*\<close> and a dotted version \<open>\d+.\d+.\d+\<close>.\<close>

definition r_slug :: rx where
  "r_slug = rseq [r_lower, RStar r_lower_digit, RStar (rseq [rlit ''-'', rplus r_lower_digit])]"

definition r_semver :: rx where
  "r_semver = rseq [rplus r_digit, rlit ''.'', rplus r_digit, rlit ''.'', rplus r_digit]"

fun nullable :: "rx \<Rightarrow> bool" where
  "nullable RNone = False"
| "nullable REps = True"
| "nullable (RClass cs) = False"
| "nullable (RCat r s) = (nullable r \<and> nullable s)"
| "nullable (RAlt r s) = (nullable r \<or> nullable s)"
| "nullable (RStar r) = True"

text \<open>Derivatives, with the trivial simplifications that keep them small.\<close>

fun mk_cat :: "rx \<Rightarrow> rx \<Rightarrow> rx" where
  "mk_cat RNone s = RNone"
| "mk_cat REps s = s"
| "mk_cat r s = RCat r s"

fun mk_alt :: "rx \<Rightarrow> rx \<Rightarrow> rx" where
  "mk_alt RNone s = s"
| "mk_alt r RNone = r"
| "mk_alt r s = RAlt r s"

fun deriv :: "char \<Rightarrow> rx \<Rightarrow> rx" where
  "deriv c RNone = RNone"
| "deriv c REps = RNone"
| "deriv c (RClass cs) = (if c \<in> set cs then REps else RNone)"
| "deriv c (RCat r s) = (if nullable r then mk_alt (mk_cat (deriv c r) s) (deriv c s) else mk_cat (deriv c r) s)"
| "deriv c (RAlt r s) = mk_alt (deriv c r) (deriv c s)"
| "deriv c (RStar r) = mk_cat (deriv c r) (RStar r)"

definition rx_match :: "rx \<Rightarrow> string \<Rightarrow> bool" where
  "rx_match r s \<longleftrightarrow> nullable (fold deriv s r)"

subsection \<open>The language of an expression\<close>

fun rx_lang :: "rx \<Rightarrow> string set" where
  "rx_lang RNone = {}"
| "rx_lang REps = {[]}"
| "rx_lang (RClass cs) = {[c] | c. c \<in> set cs}"
| "rx_lang (RCat r s) = {u @ v | u v. u \<in> rx_lang r \<and> v \<in> rx_lang s}"
| "rx_lang (RAlt r s) = rx_lang r \<union> rx_lang s"
| "rx_lang (RStar r) = {concat us | us. set us \<subseteq> rx_lang r}"

lemma nullable_iff: "nullable r \<longleftrightarrow> [] \<in> rx_lang r"
proof (induction r)
  case (RStar r)
  have "[] = concat [] \<and> set [] \<subseteq> rx_lang r" by simp
  then show ?case unfolding rx_lang.simps nullable.simps by blast
qed auto

lemma mk_cat_lang [simp]: "rx_lang (mk_cat r s) = rx_lang (RCat r s)"
  by (cases r) auto

lemma mk_alt_lang [simp]: "rx_lang (mk_alt r s) = rx_lang (RAlt r s)"
  by (cases r; cases s) auto

lemma star_Cons:
  "c # w \<in> rx_lang (RStar r) \<longleftrightarrow> (\<exists>u v. w = u @ v \<and> c # u \<in> rx_lang r \<and> v \<in> rx_lang (RStar r))"
proof
  assume "c # w \<in> rx_lang (RStar r)"
  then obtain us where us: "c # w = concat us" "set us \<subseteq> rx_lang r" by auto
  then show "\<exists>u v. w = u @ v \<and> c # u \<in> rx_lang r \<and> v \<in> rx_lang (RStar r)"
  proof (induction us)
    case (Cons x us)
    show ?case
    proof (cases x)
      case Nil
      with Cons show ?thesis by auto
    next
      case (Cons d u)
      with Cons.prems have "w = u @ concat us" "c # u \<in> rx_lang r" "concat us \<in> rx_lang (RStar r)" by auto
      then show ?thesis by blast
    qed
  qed simp
next
  assume "\<exists>u v. w = u @ v \<and> c # u \<in> rx_lang r \<and> v \<in> rx_lang (RStar r)"
  then obtain u us where "w = u @ concat us" "c # u \<in> rx_lang r" "set us \<subseteq> rx_lang r" by auto
  then have "c # w = concat ((c # u) # us) \<and> set ((c # u) # us) \<subseteq> rx_lang r" by simp
  then show "c # w \<in> rx_lang (RStar r)" unfolding rx_lang.simps by blast
qed

lemma deriv_lang: "w \<in> rx_lang (deriv c r) \<longleftrightarrow> c # w \<in> rx_lang r"
proof (induction r arbitrary: w)
  case (RCat r s)
  have "c # w \<in> rx_lang (RCat r s) \<longleftrightarrow>
      (\<exists>u v. w = u @ v \<and> c # u \<in> rx_lang r \<and> v \<in> rx_lang s) \<or> ([] \<in> rx_lang r \<and> c # w \<in> rx_lang s)"
    (is "?l \<longleftrightarrow> ?r")
  proof
    assume ?l
    then obtain u v where uv: "c # w = u @ v" "u \<in> rx_lang r" "v \<in> rx_lang s" by auto
    show ?r
    proof (cases u)
      case Nil
      with uv show ?thesis by simp
    next
      case (Cons d u')
      with uv have "w = u' @ v" "c # u' \<in> rx_lang r" by simp_all
      with uv(3) show ?thesis by blast
    qed
  next
    assume ?r
    then show ?l
    proof
      assume "\<exists>u v. w = u @ v \<and> c # u \<in> rx_lang r \<and> v \<in> rx_lang s"
      then obtain u v where "c # w = (c # u) @ v" "c # u \<in> rx_lang r" "v \<in> rx_lang s" by auto
      then show ?thesis unfolding rx_lang.simps by blast
    next
      assume "[] \<in> rx_lang r \<and> c # w \<in> rx_lang s"
      then show ?thesis unfolding rx_lang.simps by (metis (mono_tags, lifting) append_Nil mem_Collect_eq)
    qed
  qed
  with RCat show ?case by (auto simp: nullable_iff)
next
  case (RStar r)
  then show ?case unfolding star_Cons by auto
qed auto

lemma fold_deriv: "w \<in> rx_lang (fold deriv s r) \<longleftrightarrow> s @ w \<in> rx_lang r"
  by (induction s arbitrary: r) (simp_all add: deriv_lang)

text \<open>The matcher decides the language.\<close>

lemma rx_match_lang: "rx_match r s \<longleftrightarrow> s \<in> rx_lang r"
  using fold_deriv [of "[]" s r] by (simp add: rx_match_def nullable_iff)

lemma rx_lang_lit [simp]: "rx_lang (rlit s) = {s}"
  by (induction s) auto

lemma digit_class: "c \<in> set ''0123456789'' \<longleftrightarrow> is_digit c"
proof
  assume "is_digit c"
  then have range: "(of_char c :: nat) \<in> {48..57}" by (simp add: is_digit_def)
  obtain n :: nat where n: "n = of_char c" and c: "c = char_of n"
    by (metis char_of_char)
  have all: "\<forall>n \<in> set [48 ..< 58 :: nat]. (char_of n :: char) \<in> set ''0123456789''" by code_simp
  from range n have "n \<in> set [48 ..< 58]" unfolding set_upt atLeastLessThan_iff by simp
  with all have "char_of n \<in> set ''0123456789''" by (rule bspec)
  then show "c \<in> set ''0123456789''" by (simp add: c)
qed (auto simp: is_digit_def)

lemma rx_lang_class_cat [simp]:
  "rx_lang (RCat (RClass cs) r) = {c # w | c w. c \<in> set cs \<and> w \<in> rx_lang r}"
proof (rule set_eqI)
  fix s
  show "s \<in> rx_lang (RCat (RClass cs) r) \<longleftrightarrow> s \<in> {c # w | c w. c \<in> set cs \<and> w \<in> rx_lang r}"
  proof
    assume "s \<in> {c # w | c w. c \<in> set cs \<and> w \<in> rx_lang r}"
    then obtain c w where cw: "s = c # w" "c \<in> set cs" "w \<in> rx_lang r" by blast
    then have "s = [c] @ w" "[c] \<in> rx_lang (RClass cs)" by simp_all
    with cw show "s \<in> rx_lang (RCat (RClass cs) r)" unfolding rx_lang.simps by blast
  qed auto
qed

lemma rx_lang_digit [simp]: "rx_lang r_digit = {[c] | c. is_digit c}"
  unfolding r_digit_def rx_lang.simps digit_class ..

lemma rx_lang_ralt [simp]: "rx_lang (ralt rs) = (\<Union>r \<in> set rs. rx_lang r)"
  by (induction rs) auto

lemma rx_lang_times_class:
  "rx_lang (rtimes n r_digit) = {s. length s = n \<and> (\<forall>c \<in> set s. is_digit c)}"
proof (induction n)
  case (Suc n)
  have "s \<in> rx_lang (rtimes (Suc n) r_digit) \<longleftrightarrow> length s = Suc n \<and> (\<forall>c \<in> set s. is_digit c)" for s
  proof (cases s)
    case (Cons a w)
    have "s \<in> rx_lang (rtimes (Suc n) r_digit) \<longleftrightarrow> is_digit a \<and> w \<in> rx_lang (rtimes n r_digit)"
      unfolding Cons rtimes.simps r_digit_def rx_lang_class_cat digit_class [symmetric] by blast
    with Suc Cons show ?thesis by auto
  qed auto
  then show ?case by blast
qed auto

end
