(* ===== verification/Validate_Base.thy ===== *)
theory Validate_Base
  imports Complex_Main Go_Regexp Artifact_Layout
begin

text \<open>
  Parsed artifacts and the checks every artifact validator shares
  (\<open>src/pkg/artifact/artifact.go\<close>, \<open>src/pkg/artifact/parse.go\<close>, \<open>src/pkg/schema/schema.go\<close>,
  \<open>src/pkg/validate/base.go\<close>, \<open>result.go\<close> and \<open>terminal.go\<close>): the value a YAML document decodes to,
  the fence, title and section reader, the base schema checks, and the retirement fields of a
  replaced or obsoleted artifact.  The YAML decoder and the operating system's file reader are
  parameters.
\<close>

subsection \<open>Decoded YAML\<close>

text \<open>
  What \<open>yaml.Unmarshal\<close> stores in an \<open>interface{}\<close>.  An \<open>int\<close> is a 64-bit value; a float carries its
  exact value and the text \<open>strconv\<close> gives it (the same for \<open>%v\<close> and \<open>%g\<close>); \<^emph>\<open>VNonFinite\<close> is an
  infinity or a NaN; \<^emph>\<open>VOther\<close> is a value of any further Go type (a \<open>time.Time\<close>, a \<open>uint64\<close>, a map with a
  key that is no string), by its type's name and its \<open>%v\<close> text.  A map has distinct keys.
\<close>

datatype yval =
    VNull
  | VBool bool
  | VInt int
  | VFloat rat string
  | VNonFinite string
  | VStr string
  | VList "yval list"
  | VMap "(string \<times> yval) list"
  | VOther string string

type_synonym frontmatter = "(string, yval) gomap"

text \<open>The type assertions of the sources.\<close>

fun as_string :: "yval \<Rightarrow> string option" where
  "as_string (VStr s) = Some s"
| "as_string _ = None"

fun as_list :: "yval \<Rightarrow> yval list option" where
  "as_list (VList xs) = Some xs"
| "as_list _ = None"

fun as_map :: "yval \<Rightarrow> frontmatter option" where
  "as_map (VMap m) = Some m"
| "as_map _ = None"

fun type_name :: "yval \<Rightarrow> string" where
  "type_name VNull = ''<nil>''"
| "type_name (VBool _) = ''bool''"
| "type_name (VInt _) = ''int''"
| "type_name (VFloat _ _) = ''float64''"
| "type_name (VNonFinite _) = ''float64''"
| "type_name (VStr _) = ''string''"
| "type_name (VList _) = ''[]interface {}''"
| "type_name (VMap _) = ''map[string]interface {}''"
| "type_name (VOther t _) = t"

definition show_bool :: "bool \<Rightarrow> string" where
  "show_bool b = (if b then ''true'' else ''false'')"

text \<open>\<open>%v\<close>: a map prints its entries in the order of their keys.\<close>

fun fmt_v :: "yval \<Rightarrow> string" where
  "fmt_v VNull = ''<nil>''"
| "fmt_v (VBool b) = show_bool b"
| "fmt_v (VInt n) = Itoa n"
| "fmt_v (VFloat _ s) = s"
| "fmt_v (VNonFinite s) = s"
| "fmt_v (VStr s) = s"
| "fmt_v (VList xs) = ''['' @ Join (map fmt_v xs) '' '' @ '']''"
| "fmt_v (VMap m) =
     ''map['' @ Join (map (\<lambda>(k, s). k @ '':'' @ s) (sort_key fst (map (\<lambda>(k, v). (k, fmt_v v)) m))) '' '' @ '']''"
| "fmt_v (VOther _ s) = s"

definition show_strings :: "string list \<Rightarrow> string" where
  "show_strings xs = ''['' @ Join xs '' '' @ '']''"

definition string_items :: "yval list \<Rightarrow> string list" where
  "string_items vs = List.map_filter as_string vs"

subsection \<open>Parsed artifacts and schemas\<close>

record ParsedArtifact =
  pa_Filename :: string
  pa_SourcePath :: string
  pa_Title :: string
  pa_Metadata :: "(string, string) gomap"
  pa_Frontmatter :: frontmatter
  pa_Sections :: "string list"

record MetadataRule =
  mr_Pattern :: string
  mr_Const :: string
  mr_MinLength :: int

record Schema =
  sch_ArtifactType :: string
  sch_FilenamePattern :: string
  sch_SlugPattern :: string
  sch_SlugMinLength :: int
  sch_SlugMaxLength :: int
  sch_RequiredMetadata :: "string list"
  sch_ExtensionMetadata :: "string list"
  sch_MetadataRules :: "(string, MetadataRule) gomap"
  sch_RequiredSections :: "string list"
  sch_OptionalSections :: "string list"
  sch_Extends :: string
  sch_StatusEnum :: "string list"

text \<open>\<open>Parse\<close>: the fenced YAML block, then the first level-one heading and the level-two headings.\<close>

definition fence :: "string \<Rightarrow> bool" where
  "fence l \<longleftrightarrow> TrimSpace l = ''---''"

definition scalar_text :: "yval \<Rightarrow> string option" where
  "scalar_text v = (case v of VStr s \<Rightarrow> Some s | VInt n \<Rightarrow> Some (Itoa n) | VFloat _ s \<Rightarrow> Some s
                    | VNonFinite s \<Rightarrow> Some s | VBool b \<Rightarrow> Some (show_bool b) | _ \<Rightarrow> None)"

definition flat_metadata :: "frontmatter \<Rightarrow> (string, string) gomap" where
  "flat_metadata fm = List.map_filter (\<lambda>(k, v). map_option (Pair k) (scalar_text v)) fm"

definition heading_step :: "string \<Rightarrow> string \<times> string list \<Rightarrow> string \<times> string list" where
  "heading_step l = (\<lambda>(title, sections).
     let t = TrimSpace l in
     if title = [] \<and> HasPrefix t ''# '' then (TrimPrefix t ''# '', sections)
     else if HasPrefix t ''## '' then (title, sections @ [TrimPrefix t ''## ''])
     else (title, sections))"

definition headings :: "string list \<Rightarrow> string \<times> string list" where
  "headings ls = fold heading_step ls ([], [])"

definition Parse ::
  "(string \<Rightarrow> string + frontmatter) \<Rightarrow> string \<Rightarrow> string \<Rightarrow> string + ParsedArtifact" where
  "Parse unmarshal content filename =
     (let ls = dropWhile (\<lambda>l. TrimSpace l = []) (Split content (CHR 0x0A));
          fenced = ls \<noteq> [] \<and> fence (hd ls);
          yaml = (if fenced then takeWhile (Not \<circ> fence) (tl ls) else []);
          body = (if fenced then drop 1 (dropWhile (Not \<circ> fence) (tl ls)) else ls);
          doc = Join yaml [CHR 0x0A];
          decoded = (if doc = [] then Inr [] else unmarshal doc)
      in case decoded of
           Inl e \<Rightarrow> Inl (''invalid YAML frontmatter in '' @ filename @ '': '' @ e)
         | Inr fm \<Rightarrow> (let (title, sections) = headings body in
             Inr \<lparr>pa_Filename = Base filename, pa_SourcePath = filename, pa_Title = title,
                  pa_Metadata = flat_metadata fm, pa_Frontmatter = fm, pa_Sections = sections\<rparr>))"

definition ParseFile ::
  "(string \<Rightarrow> string + string) \<Rightarrow> (string \<Rightarrow> string + frontmatter) \<Rightarrow> string \<Rightarrow> string + ParsedArtifact" where
  "ParseFile read_file unmarshal path =
     (case read_file path of
        Inl e \<Rightarrow> Inl (''read artifact '' @ path @ '': '' @ e)
      | Inr content \<Rightarrow> Parse unmarshal content path)"

subsection \<open>Violations\<close>

record ArtifactViolation =
  av_Rule :: string
  av_File :: string
  av_Message :: string
  av_Severity :: string

record ValidationResult = vr_Violations :: "ArtifactViolation list"

definition result_of :: "ArtifactViolation list \<Rightarrow> ValidationResult" where
  "result_of vs = \<lparr>vr_Violations = vs\<rparr>"

definition ValidationResult_Pass :: "ValidationResult \<Rightarrow> bool" where
  "ValidationResult_Pass r \<longleftrightarrow> vr_Violations r = []"

definition viol :: "string \<Rightarrow> string \<Rightarrow> string \<Rightarrow> ArtifactViolation" where
  "viol f rule msg = \<lparr>av_Rule = rule, av_File = f, av_Message = msg, av_Severity = ''error''\<rparr>"

lemma viol_simps [simp]:
  "av_Rule (viol f r m) = r" "av_File (viol f r m) = f" "av_Message (viol f r m) = m"
  "av_Severity (viol f r m) = ''error''"
  by (simp_all add: viol_def)

lemma viol_eq_iff [simp]: "viol f r m = viol f' r' m' \<longleftrightarrow> f = f' \<and> r = r' \<and> m = m'"
  by (auto simp: viol_def)

definition report :: "bool \<Rightarrow> ArtifactViolation \<Rightarrow> ArtifactViolation list" where
  "report b v = (if b then [v] else [])"

lemma report_simps [simp]: "report True v = [v]" "report False v = []"
  by (simp_all add: report_def)

lemma set_report [simp]: "set (report b v) = (if b then {v} else {})"
  by (simp add: report_def)

lemma report_Nil [simp]: "report b v = [] \<longleftrightarrow> \<not> b"
  by (simp add: report_def)

text \<open>\<open>'%s'\<close> and the label of an array element.\<close>

definition sq :: "string \<Rightarrow> string" where
  "sq s = CHR 0x27 # s @ [CHR 0x27]"

definition show_index :: "string \<Rightarrow> nat \<Rightarrow> string" where
  "show_index base i = base @ ''['' @ show_nat i @ '']''"

subsection \<open>Base\<close>

text \<open>
  \<open>strings.EqualFold(k, key)\<close> for an ASCII \<open>key\<close>, as the schema's keys are: beside the ASCII letters the
  long s (0xC5 0xBF) and the Kelvin sign (0xE2 0x84 0xAA) of \<open>k\<close> fold onto the letters s and k.
\<close>

fun fold_runes :: "string \<Rightarrow> string" where
  "fold_runes [] = []"
| "fold_runes (c # s) =
     (if c = CHR 0xC5 \<and> prefix [CHR 0xBF] s then CHR ''s'' # fold_runes (drop 1 s)
      else if c = CHR 0xE2 \<and> prefix [CHR 0x84, CHR 0xAA] s then CHR ''k'' # fold_runes (drop 2 s)
      else c # fold_runes s)"

definition EqualFoldKey :: "string \<Rightarrow> string \<Rightarrow> bool" where
  "EqualFoldKey k key \<longleftrightarrow> EqualFold (fold_runes k) key"

definition BaseChecks :: "ParsedArtifact \<Rightarrow> Schema \<Rightarrow> ValidationResult" where
  "BaseChecks art sch =
     (let f = pa_Filename art in result_of
       (report (pa_Title art = []) (viol f ''base/title-required'' ''artifact title is missing'')
        @ concat (map (\<lambda>key.
            report (\<not> EqualFold key ''title'' \<and> \<not> (\<exists>kv \<in> set (pa_Metadata art). EqualFoldKey (fst kv) key))
              (viol f ''base/metadata-required''
                 (''required metadata key '' @ sq key @ '' is missing'')))
            (sch_RequiredMetadata sch))
        @ concat (map (\<lambda>section.
            report (section \<notin> set (pa_Sections art))
              (viol f ''base/section-required''
                 (''required section '' @ sq section @ '' is missing'')))
            (sch_RequiredSections sch))))"

subsection \<open>Fields and retirement\<close>

definition getFrontmatterString :: "ParsedArtifact \<Rightarrow> string \<Rightarrow> string" where
  "getFrontmatterString art key =
     (case map_of (pa_Frontmatter art) key of
        None \<Rightarrow> []
      | Some v \<Rightarrow> (case as_string v of Some s \<Rightarrow> s | None \<Rightarrow> []))"

text \<open>The string field of a nested map, empty when it is absent or no string.\<close>

definition map_string :: "frontmatter \<Rightarrow> string \<Rightarrow> string" where
  "map_string m key = (case map_of m key of Some (VStr s) \<Rightarrow> s | _ \<Rightarrow> [])"

text \<open>
  The check a text field undergoes: a finding when the key is absent, another when its value is a
  blank string; a value that is no string passes.
\<close>

definition text_check ::
  "string \<Rightarrow> string \<Rightarrow> frontmatter \<Rightarrow> string \<Rightarrow> string \<Rightarrow> string \<Rightarrow> ArtifactViolation list" where
  "text_check f rule m key missing blank =
     (case map_of m key of
        None \<Rightarrow> [viol f rule missing]
      | Some (VStr s) \<Rightarrow> report (TrimSpace s = []) (viol f rule blank)
      | Some _ \<Rightarrow> [])"

definition isTerminalStatus :: "string \<Rightarrow> bool" where
  "isTerminalStatus status \<longleftrightarrow>
     status \<in> set [''replaced'', ''canceled'', ''deprecated'', ''obsoleted'']"

definition typed_kinds :: "string list" where
  "typed_kinds = [''BUNDLE'', ''SPEC'', ''ISSUE'', ''PLAN'', ''DIR'']"

definition replacedByRefPattern :: rx where
  "replacedByRefPattern = RCat (ralt (map rlit typed_kinds)) (RCat (rlit ''-'') (rtimes 3 r_digit))"

definition extractRefField :: "frontmatter \<Rightarrow> string \<Rightarrow> string list \<times> bool" where
  "extractRefField fm key =
     (case map_of fm key of
        None \<Rightarrow> ([], False)
      | Some (VStr s) \<Rightarrow> ([s], True)
      | Some (VList items) \<Rightarrow> (map (\<lambda>item. case as_string item of Some s \<Rightarrow> s | None \<Rightarrow> fmt_v item) items, True)
      | Some _ \<Rightarrow> ([], True))"

definition extractReplacedBy :: "frontmatter \<Rightarrow> string list \<times> bool" where
  "extractReplacedBy fm = extractRefField fm ''replaced-by''"

definition extractObsoletedBy :: "frontmatter \<Rightarrow> string list \<times> bool" where
  "extractObsoletedBy fm = extractRefField fm ''obsoleted-by''"

definition validateTypedRetirementRef ::
  "string \<Rightarrow> string \<Rightarrow> string \<Rightarrow> string \<Rightarrow> string list \<Rightarrow> bool \<Rightarrow> ArtifactViolation list" where
  "validateTypedRetirementRef f rulePrefix field status refs present =
     (if \<not> present then
        [viol f (rulePrefix @ ''/'' @ field @ ''-required'')
           (''status '' @ sq status @ '' requires a '' @ field
            @ '' reference (typed artifact id, e.g. ISSUE-018, or an array of them)'')]
      else if refs = [] then
        [viol f (rulePrefix @ ''/'' @ field @ ''-malformed'')
           (field @ '' must be a typed artifact id (BUNDLE/SPEC/ISSUE/PLAN/DIR-NNN) or a non-empty array of them'')]
      else concat (map (\<lambda>ref.
        report (\<not> rx_match replacedByRefPattern ref)
          (viol f (rulePrefix @ ''/'' @ field @ ''-malformed'')
             (field @ '' value '' @ sq ref @ '' must match a typed artifact id (BUNDLE|SPEC|ISSUE|PLAN|DIR)-NNN''))) refs))"

definition validateRetirementFields :: "ParsedArtifact \<Rightarrow> string \<Rightarrow> string \<Rightarrow> ArtifactViolation list" where
  "validateRetirementFields art status rulePrefix =
     (if status = ''replaced'' then
        (case extractReplacedBy (pa_Frontmatter art) of (refs, present) \<Rightarrow>
           validateTypedRetirementRef (pa_Filename art) rulePrefix ''replaced-by'' status refs present)
      else if status = ''obsoleted'' then
        (case extractObsoletedBy (pa_Frontmatter art) of (refs, present) \<Rightarrow>
           validateTypedRetirementRef (pa_Filename art) rulePrefix ''obsoleted-by'' status refs present)
      else [])"

text \<open>The retirement pointer a status requires is clean exactly when it names typed artifacts.\<close>

definition typed_ref :: "string \<Rightarrow> bool" where
  "typed_ref s \<longleftrightarrow> (\<exists>k \<in> set typed_kinds. \<exists>a b c. s = k @ [CHR ''-'', a, b, c]
                     \<and> is_digit a \<and> is_digit b \<and> is_digit c)"

definition names_typed_refs :: "yval \<Rightarrow> bool" where
  "names_typed_refs v = (case v of VStr s \<Rightarrow> typed_ref s
      | VList items \<Rightarrow> items \<noteq> [] \<and> (\<forall>i \<in> set items. typed_ref (fmt_v i))
      | _ \<Rightarrow> False)"

lemma typed_ref_match: "rx_match replacedByRefPattern s \<longleftrightarrow> typed_ref s"
proof -
  have three: "length (w :: string) = 3 \<longleftrightarrow> (\<exists>a b c. w = [a, b, c])" for w
    by (auto simp: length_Suc_conv numeral_3_eq_3)
  show ?thesis
    unfolding rx_match_lang replacedByRefPattern_def typed_ref_def
    by (fastforce simp: rx_lang_times_class three)
qed

lemma retirement_ref_clean:
  "(case extractRefField fm field of (refs, present) \<Rightarrow>
      validateTypedRetirementRef f p field status refs present) = []
   \<longleftrightarrow> (\<exists>v. map_of fm field = Some v \<and> names_typed_refs v)"
proof (cases "map_of fm field")
  case None
  then show ?thesis by (simp add: extractRefField_def validateTypedRetirementRef_def)
next
  case (Some v)
  have item: "(case as_string i of Some s \<Rightarrow> s | None \<Rightarrow> fmt_v i) = fmt_v i" for i by (cases i) auto
  from Some show ?thesis
    by (cases v) (auto simp: extractRefField_def validateTypedRetirementRef_def names_typed_refs_def
        typed_ref_match item)
qed

lemma retirement_clean_iff:
  "validateRetirementFields art status p = [] \<longleftrightarrow>
     (status = ''replaced'' \<longrightarrow> (\<exists>v. map_of (pa_Frontmatter art) ''replaced-by'' = Some v \<and> names_typed_refs v))
     \<and> (status = ''obsoleted'' \<longrightarrow> (\<exists>v. map_of (pa_Frontmatter art) ''obsoleted-by'' = Some v \<and> names_typed_refs v))"
  by (simp add: validateRetirementFields_def extractReplacedBy_def extractObsoletedBy_def retirement_ref_clean)

end
