(* ===== verification/Pack_Version.thy ===== *)
theory Pack_Version
  imports Go_Path
begin

text \<open>
  Release versions and pack identity (\<open>pkg/pack/distribution/versionresolver.go\<close>,
  \<open>identity.go\<close>, the reference helpers of \<open>add.go\<close>, and the name rule of
  \<open>pkg/pack/manifest.go\<close>).  A strict version is three decimal numbers; resolution picks the
  highest published tag of the same major version; the identity gate decides, before anything
  is written, whether a cloned pack may be installed.  Listing tags, reading a file and decoding
  the two identity fields of a manifest are parameters.
\<close>

subsection \<open>Strict versions\<close>

definition versionTagPrefix :: string where "versionTagPrefix = ''v''"
definition versionComponentCount :: nat where "versionComponentCount = 3"

text \<open>The pattern \<open>^\d+\.\d+\.\d+$\<close>.\<close>

definition strictSemverPattern :: "string \<Rightarrow> bool" where
  "strictSemverPattern s =
     (case Split s (CHR ''.'') of
        [a, b, c] \<Rightarrow> all_digits a \<and> all_digits b \<and> all_digits c
      | _ \<Rightarrow> False)"

datatype versionComponents = VersionComponents (vc_major: int) (vc_minor: int) (vc_patch: int)

definition version_string :: "versionComponents \<Rightarrow> string" where
  "version_string v = Itoa (vc_major v) @ ''.'' @ Itoa (vc_minor v) @ ''.'' @ Itoa (vc_patch v)"

definition newerThan :: "versionComponents \<Rightarrow> versionComponents \<Rightarrow> bool" where
  "newerThan v other =
     (if vc_major v \<noteq> vc_major other then vc_major v > vc_major other
      else if vc_minor v \<noteq> vc_minor other then vc_minor v > vc_minor other
      else vc_patch v > vc_patch other)"

fun atoi_all :: "string list \<Rightarrow> int list option" where
  "atoi_all [] = Some []"
| "atoi_all (p # ps) =
     (case Atoi p of None \<Rightarrow> None | Some n \<Rightarrow> map_option (Cons n) (atoi_all ps))"

definition parseVersionComponents :: "string \<Rightarrow> versionComponents option" where
  "parseVersionComponents value =
     (let normalized = TrimPrefix value versionTagPrefix in
      if \<not> strictSemverPattern normalized then None
      else (case atoi_all (SplitN normalized (CHR ''.'') versionComponentCount) of
              None \<Rightarrow> None
            | Some numbers \<Rightarrow> Some (VersionComponents (numbers ! 0) (numbers ! 1) (numbers ! 2))))"

definition normalizeReleaseVersion :: "string \<Rightarrow> string option" where
  "normalizeReleaseVersion value =
     (if parseVersionComponents value = None then None else Some (TrimPrefix value versionTagPrefix))"

subsection \<open>Resolution from tags\<close>

definition resolveGitURL :: "string \<Rightarrow> string" where
  "resolveGitURL packName = ''https://github.com/'' @ packName @ ''.git''"

definition resolve_step ::
  "versionComponents \<Rightarrow> string \<Rightarrow> versionComponents \<times> string \<Rightarrow> versionComponents \<times> string" where
  "resolve_step current tag st =
     (case parseVersionComponents tag of
        None \<Rightarrow> st
      | Some candidate \<Rightarrow>
          if vc_major candidate \<noteq> vc_major current then st
          else if \<not> newerThan candidate (fst st) then st
          else (candidate, version_string candidate))"

definition ResolveLatestCompatible ::
  "(string \<Rightarrow> string + string list) \<Rightarrow> string \<Rightarrow> string \<Rightarrow> string + string" where
  "ResolveLatestCompatible listTags coordinate currentVersion =
     (case parseVersionComponents currentVersion of
        None \<Rightarrow> Inl (''cannot resolve versions for '' @ coordinate @ '': its current version ''
                 @ quote currentVersion @ '' is not a strict MAJOR.MINOR.PATCH version'')
      | Some current \<Rightarrow>
          (case listTags (resolveGitURL coordinate) of
             Inl err \<Rightarrow> Inl (''cannot resolve the latest compatible version of '' @ coordinate @ '': '' @ err)
           | Inr tags \<Rightarrow> Inr (snd (fold (resolve_step current) tags (current, currentVersion)))))"

definition IsMajorBump :: "string \<Rightarrow> string \<Rightarrow> bool" where
  "IsMajorBump current resolved =
     (case (parseVersionComponents current, parseVersionComponents resolved) of
        (Some c, Some r) \<Rightarrow> vc_major c \<noteq> vc_major r
      | _ \<Rightarrow> True)"

subsection \<open>References and identity\<close>

definition parsePackRef :: "string \<Rightarrow> string \<times> string" where
  "parsePackRef ref =
     (let parts = SplitN ref (CHR ''@'') 2
      in (parts ! 0, if length parts > 1 then parts ! 1 else []))"

definition IsLocalPath :: "string \<Rightarrow> bool" where
  "IsLocalPath ref \<longleftrightarrow>
     HasPrefix ref ''/'' \<or> HasPrefix ref ''./'' \<or> HasPrefix ref ''../'' \<or> IsAbs ref"

text \<open>\<open>namePartPattern\<close> is \<open>^[A-Za-z0-9-]+$\<close>; the result None is the nil error.\<close>

definition name_char :: "char \<Rightarrow> bool" where
  "name_char c \<longleftrightarrow> is_digit c \<or> c = CHR ''-''
     \<or> 65 \<le> (of_char c :: nat) \<and> (of_char c :: nat) \<le> 90
     \<or> 97 \<le> (of_char c :: nat) \<and> (of_char c :: nat) \<le> 122"

definition namePartPattern :: "string \<Rightarrow> bool" where
  "namePartPattern part \<longleftrightarrow> part \<noteq> [] \<and> list_all name_char part"

definition ValidatePackName :: "string \<Rightarrow> string option" where
  "ValidatePackName name =
     (let parts = Split name (CHR ''/'') in
      if length parts \<noteq> 2 then Some ''name must contain exactly one slash''
      else if parts ! 0 = [] \<or> parts ! 1 = [] then Some ''name parts must be non-empty''
      else (case find (\<lambda>part. \<not> namePartPattern part) parts of
              Some part \<Rightarrow> Some (''name part '' @ quote part @ '' contains invalid characters'')
            | None \<Rightarrow> None))"

datatype pack_error =
    VersionUnresolvedError (pe_Reference: string) (pe_Problem: string)
  | VersionMismatchError (pe_Coordinate: string) (pe_Tag: string) (pe_ManifestVersion: string) (pe_ExpectedVersion: string)
  | IdentityError (pe_Coordinate: string) (pe_Tag: string) (pe_Field: string) (pe_Problem: string)

fun pack_error_text :: "pack_error \<Rightarrow> string" where
  "pack_error_text (VersionUnresolvedError ref problem) =
     ''cannot resolve a version for pack reference '' @ quote ref @ '': '' @ problem
     @ ''; supply one as an @version suffix ('' @ ref @ ''@1.2.3) or with the --version flag''"
| "pack_error_text (VersionMismatchError coord tag mv ev) =
     ''pack '' @ coord @ '' at tag '' @ tag @ '' declares version '' @ quote mv @ '' in its pack.yml but ''
     @ quote ev @ '' was requested; the repository's manifest and its tag disagree ''
     @ [CHR 0xE2, CHR 0x80, CHR 0x94] @ '' retag the repository, or request the version the manifest declares''"
| "pack_error_text (IdentityError coord tag field problem) =
     ''pack '' @ coord @ '' at tag '' @ tag @ '' has an unusable pack.yml '' @ field @ '': '' @ problem"

definition ResolveEffectiveVersion :: "string \<Rightarrow> string \<Rightarrow> pack_error + string \<times> string" where
  "ResolveEffectiveVersion reference overrideVersion =
     (case parsePackRef reference of (coordinate, refVersion) \<Rightarrow>
        let supplied = (if overrideVersion \<noteq> [] then overrideVersion else refVersion) in
        if supplied = [] then
          Inl (VersionUnresolvedError reference
                 ''the reference carries no @version suffix and no --version flag was given'')
        else (case normalizeReleaseVersion supplied of
                None \<Rightarrow> Inl (VersionUnresolvedError reference
                          (quote supplied @ '' is not a strict MAJOR.MINOR.PATCH release version''))
              | Some normalized \<Rightarrow> Inr (coordinate, normalized)))"

text \<open>The nameless manifest is told apart from one that could not be read at all.\<close>

datatype manifest_error = ManifestNameMissing | ManifestUnreadable string

fun manifest_error_text :: "manifest_error \<Rightarrow> string" where
  "manifest_error_text ManifestNameMissing = ''manifest declares no name''"
| "manifest_error_text (ManifestUnreadable msg) = msg"

definition ReadManifestIdentity ::
  "(string \<Rightarrow> string + string) \<Rightarrow> (string \<Rightarrow> string + string \<times> string) \<Rightarrow> string
     \<Rightarrow> manifest_error + string \<times> string" where
  "ReadManifestIdentity readFile yamlFields packDir =
     (case readFile (JoinPath [packDir, ''pack.yml'']) of
        Inl err \<Rightarrow> Inl (ManifestUnreadable (''reading pack manifest: '' @ err))
      | Inr dat \<Rightarrow>
          (case yamlFields dat of
             Inl err \<Rightarrow> Inl (ManifestUnreadable (''parsing pack manifest: '' @ err))
           | Inr (name, version) \<Rightarrow>
               if name = [] then Inl ManifestNameMissing else Inr (name, version)))"

record RemoteIdentity =
  ri_Coordinate :: string
  ri_EffectiveVersion :: string
  ri_Tag :: string
  ri_ManifestName :: string
  ri_InstallName :: string
  ri_Diverged :: bool

definition ValidateRemoteIdentity ::
  "(string \<Rightarrow> string + string) \<Rightarrow> (string \<Rightarrow> string + string \<times> string) \<Rightarrow> string \<Rightarrow> string \<Rightarrow> string
     \<Rightarrow> pack_error + RemoteIdentity" where
  "ValidateRemoteIdentity readFile yamlFields coordinate effectiveVersion packDir =
     (case normalizeReleaseVersion effectiveVersion of
        None \<Rightarrow> Inl (VersionUnresolvedError coordinate
                  (quote effectiveVersion @ '' is not a strict MAJOR.MINOR.PATCH release version''))
      | Some normalizedEffective \<Rightarrow>
          let tag = versionTagPrefix @ normalizedEffective in
          (case ReadManifestIdentity readFile yamlFields packDir of
             Inl err \<Rightarrow> Inl (IdentityError coordinate tag
                          (if err = ManifestNameMissing then ''name'' else ''pack.yml'') (manifest_error_text err))
           | Inr (manifestName, manifestVersion) \<Rightarrow>
               if manifestVersion = [] then
                 Inl (IdentityError coordinate tag ''version''
                   ''the manifest declares no version, so it cannot be matched against the tag it was cloned from'')
               else (case normalizeReleaseVersion manifestVersion of
                  None \<Rightarrow> Inl (IdentityError coordinate tag ''version''
                    (quote manifestVersion @ '' is not a strict MAJOR.MINOR.PATCH release version, so no release tag can equal it''))
                | Some normalizedManifest \<Rightarrow>
                    if normalizedManifest \<noteq> normalizedEffective then
                      Inl (VersionMismatchError coordinate tag manifestVersion normalizedEffective)
                    else (case ValidatePackName manifestName of
                       Some nameErr \<Rightarrow> Inl (IdentityError coordinate tag ''name'' nameErr)
                     | None \<Rightarrow>
                         Inr \<lparr>ri_Coordinate = coordinate, ri_EffectiveVersion = normalizedEffective, ri_Tag = tag,
                              ri_ManifestName = manifestName, ri_InstallName = manifestName,
                              ri_Diverged = (manifestName \<noteq> coordinate)\<rparr>))))"

subsection \<open>The order of versions\<close>

text \<open>The comparison is a linear order, so the library's minimum and maximum apply to versions.\<close>

instantiation versionComponents :: linorder
begin

definition less_versionComponents :: "versionComponents \<Rightarrow> versionComponents \<Rightarrow> bool" where
  "less_versionComponents v w = newerThan w v"

definition less_eq_versionComponents :: "versionComponents \<Rightarrow> versionComponents \<Rightarrow> bool" where
  "less_eq_versionComponents v w = (\<not> newerThan v w)"

instance
proof
  fix x y z :: versionComponents
  show "(x < y) = (x \<le> y \<and> \<not> y \<le> x)" "x \<le> x" "x \<le> y \<or> y \<le> x"
    by (auto simp: less_versionComponents_def less_eq_versionComponents_def newerThan_def)
  show "x \<le> y \<Longrightarrow> y \<le> z \<Longrightarrow> x \<le> z"
    by (auto simp: less_eq_versionComponents_def newerThan_def split: if_splits)
  show "x \<le> y \<Longrightarrow> y \<le> x \<Longrightarrow> x = y"
    by (cases x; cases y) (auto simp: less_eq_versionComponents_def newerThan_def split: if_splits)
qed

end

lemma newerThan_iff: "newerThan v w \<longleftrightarrow> w < v"
  by (simp add: less_versionComponents_def)

subsection \<open>Parsing and rendering\<close>

lemma SplitN_Split_le: "length (Split s d) \<le> n \<Longrightarrow> SplitN s d n = Split s d"
proof (induction s d n rule: SplitN.induct)
  case (1 s d)
  then show ?case by simp
next
  case (2 s d)
  then obtain w where w: "Split s d = [w]" by (cases "Split s d") auto
  with Join_Split [of s d] show ?case by simp
next
  case (3 s d n)
  show ?case
  proof (cases "d \<in> set s")
    case True
    then obtain a b where s: "s = a @ d # b" and a: "d \<notin> set a" by (metis split_list_first)
    then have "takeWhile (\<lambda>c. c \<noteq> d) s = a" "dropWhile (\<lambda>c. c \<noteq> d) s = d # b"
      by (auto simp: takeWhile_append dropWhile_append)
    with 3 True s a show ?thesis by (simp add: Split_append)
  next
    case False
    then show ?thesis by (simp add: Split_noSep)
  qed
qed

lemma parseVersion_Some:
  assumes "parseVersionComponents value = Some v"
  shows "\<exists>a b c. all_digits a \<and> all_digits b \<and> all_digits c
      \<and> TrimPrefix value versionTagPrefix = a @ ''.'' @ b @ ''.'' @ c
      \<and> v = VersionComponents (int (read_nat a)) (int (read_nat b)) (int (read_nat c))
      \<and> int (read_nat a) < 2 ^ 63 \<and> int (read_nat b) < 2 ^ 63 \<and> int (read_nat c) < 2 ^ 63"
proof -
  let ?n = "TrimPrefix value versionTagPrefix"
  from assms have pat: "strictSemverPattern ?n"
    by (auto simp: parseVersionComponents_def Let_def split: if_splits)
  then obtain a b c where abc: "Split ?n (CHR ''.'') = [a, b, c]" "all_digits a" "all_digits b" "all_digits c"
    by (auto simp: strictSemverPattern_def split: list.splits)
  have "?n = a @ ''.'' @ b @ ''.'' @ c" using Join_Split [of ?n "CHR ''.''"] abc by simp
  moreover have "SplitN ?n (CHR ''.'') versionComponentCount = [a, b, c]"
    using abc by (simp add: SplitN_Split_le versionComponentCount_def)
  ultimately show ?thesis using assms pat abc
    by (auto simp: parseVersionComponents_def Let_def Atoi_digits split: if_splits)
qed

lemma parse_version_string:
  assumes "0 \<le> vc_major v" "vc_major v < 2 ^ 63" "0 \<le> vc_minor v" "vc_minor v < 2 ^ 63"
    and "0 \<le> vc_patch v" "vc_patch v < 2 ^ 63"
  shows "parseVersionComponents (version_string v) = Some v"
    and "parseVersionComponents (versionTagPrefix @ version_string v) = Some v"
proof -
  obtain a b c where v: "v = VersionComponents (int a) (int b) (int c)"
    using assms by (cases v) (metis nonneg_int_cases versionComponents.sel)
  then have s: "version_string v = show_nat a @ ''.'' @ show_nat b @ ''.'' @ show_nat c"
    by (simp add: version_string_def Itoa_def)
  have split: "Split (version_string v) (CHR ''.'') = [show_nat a, show_nat b, show_nat c]"
    unfolding s by (rule Split_version)
  have "hd (show_nat a) \<noteq> CHR ''v''"
    using show_nat_digits [of "hd (show_nat a)" a] by (auto simp: is_digit_def)
  then have nov: "TrimPrefix (version_string v) versionTagPrefix = version_string v"
    by (cases "show_nat a") (auto simp: TrimPrefix_def versionTagPrefix_def s)
  have core: "parseVersionComponents x = Some v" if "TrimPrefix x versionTagPrefix = version_string v" for x
    using that assms v split
    by (simp add: parseVersionComponents_def strictSemverPattern_def SplitN_Split_le versionComponentCount_def
        Atoi_digits)
  show "parseVersionComponents (version_string v) = Some v" by (rule core) (rule nov)
  show "parseVersionComponents (versionTagPrefix @ version_string v) = Some v"
    by (rule core) (simp add: TrimPrefix_def)
qed

lemma parse_render_parsed:
  "parseVersionComponents value = Some v \<Longrightarrow> parseVersionComponents (version_string v) = Some v"
  by (drule parseVersion_Some) (auto intro!: parse_version_string(1))

subsection \<open>Resolution picks the maximum\<close>

definition compatible :: "string list \<Rightarrow> versionComponents \<Rightarrow> versionComponents set" where
  "compatible tags current =
     {v. \<exists>tag\<in>set tags. parseVersionComponents tag = Some v \<and> vc_major v = vc_major current}"

lemma finite_compatible [simp]: "finite (compatible tags current)"
proof -
  have "compatible tags current \<subseteq> the ` parseVersionComponents ` set tags"
    by (auto simp: compatible_def image_iff) (metis option.sel)
  then show ?thesis by (rule finite_subset) simp
qed

lemma resolve_fold:
  assumes "parseVersionComponents (snd st) = Some (fst st)"
  shows "fst (fold (resolve_step current) tags st) = Max (insert (fst st) (compatible tags current))
    \<and> parseVersionComponents (snd (fold (resolve_step current) tags st)) = Some (fst (fold (resolve_step current) tags st))"
  using assms
proof (induction tags arbitrary: st)
  case Nil
  then show ?case by (simp add: compatible_def)
next
  case (Cons tag tags)
  let ?st = "resolve_step current tag st"
  have "parseVersionComponents (snd ?st) = Some (fst ?st)"
    using Cons.prems by (auto simp: resolve_step_def parse_render_parsed split: option.splits)
  from Cons.IH [OF this]
  have IH: "fst (fold (resolve_step current) tags ?st) = Max (insert (fst ?st) (compatible tags current))"
    "parseVersionComponents (snd (fold (resolve_step current) tags ?st)) = Some (fst (fold (resolve_step current) tags ?st))"
    by blast+
  have "Max (insert (fst ?st) (compatible tags current)) = Max (insert (fst st) (compatible (tag # tags) current))"
  proof (cases "\<exists>v. parseVersionComponents tag = Some v \<and> vc_major v = vc_major current")
    case False
    then have "compatible (tag # tags) current = compatible tags current" "?st = st"
      by (auto simp: compatible_def resolve_step_def split: option.splits)
    then show ?thesis by simp
  next
    case True
    then obtain v where v: "parseVersionComponents tag = Some v" "vc_major v = vc_major current" by blast
    then have c: "compatible (tag # tags) current = insert v (compatible tags current)" by (auto simp: compatible_def)
    have "fst ?st = max (fst st) v"
      using v by (auto simp: resolve_step_def newerThan_iff max_def not_less)
    then have "Max (insert (fst ?st) (compatible tags current))
        = Max (insert (fst st) (insert v (compatible tags current)))"
      by (cases "compatible tags current = {}") (simp_all add: max.assoc)
    with c show ?thesis by simp
  qed
  with IH show ?case by simp
qed

lemma resolve_fold_moves:
  "fold (resolve_step current) tags st = st \<or> fst st < fst (fold (resolve_step current) tags st)"
proof (induction tags arbitrary: st)
  case (Cons tag tags)
  have "resolve_step current tag st = st \<or> fst st < fst (resolve_step current tag st)"
    by (auto simp: resolve_step_def newerThan_iff split: option.splits)
  with Cons.IH [of "resolve_step current tag st"] show ?case by (auto dest: less_trans)
qed simp

lemma resolve_moves_up:
  assumes "ResolveLatestCompatible listTags coordinate currentVersion = Inr resolved" "resolved \<noteq> currentVersion"
  shows "\<exists>old new. parseVersionComponents currentVersion = Some old \<and> parseVersionComponents resolved = Some new \<and> old < new"
proof -
  from assms(1) obtain old tags where old: "parseVersionComponents currentVersion = Some old"
    and resolved: "resolved = snd (fold (resolve_step old) tags (old, currentVersion))"
    by (auto simp: ResolveLatestCompatible_def split: option.splits sum.splits)
  from resolve_fold_moves [of old tags "(old, currentVersion)"] assms(2) resolved
  have "old < fst (fold (resolve_step old) tags (old, currentVersion))" by auto
  moreover have "parseVersionComponents resolved = Some (fst (fold (resolve_step old) tags (old, currentVersion)))"
    using resolve_fold [of "(old, currentVersion)" old tags] old resolved by simp
  ultimately show ?thesis using old by blast
qed

text \<open>Resolution is the maximum. The resolver fails only on a current version that is not strict or
  on a failed tag listing, so an unreachable remote is never reported as up to date; otherwise the
  version returned is the highest among the current one and the published tags of its major
  version, compared numerically, and crossing to it is never a major bump.\<close>

theorem resolve_latest_is_max:
  "case ResolveLatestCompatible listTags coordinate currentVersion of
     Inl _ \<Rightarrow> parseVersionComponents currentVersion = None
              \<or> (\<exists>err. listTags (resolveGitURL coordinate) = Inl err)
   | Inr resolved \<Rightarrow>
       (\<exists>current tags. parseVersionComponents currentVersion = Some current
          \<and> listTags (resolveGitURL coordinate) = Inr tags
          \<and> parseVersionComponents resolved = Some (Max (insert current (compatible tags current))))
       \<and> \<not> IsMajorBump currentVersion resolved"
proof (cases "parseVersionComponents currentVersion")
  case None
  then show ?thesis by (simp add: ResolveLatestCompatible_def)
next
  case (Some current)
  show ?thesis
  proof (cases "listTags (resolveGitURL coordinate)")
    case (Inl err)
    with Some show ?thesis by (simp add: ResolveLatestCompatible_def)
  next
    case (Inr tags)
    let ?m = "Max (insert current (compatible tags current))"
    let ?r = "snd (fold (resolve_step current) tags (current, currentVersion))"
    from resolve_fold [of "(current, currentVersion)" current tags] Some
    have r: "parseVersionComponents ?r = Some ?m" by simp
    have "?m \<in> insert current (compatible tags current)" by (rule Max_in) simp_all
    then have "vc_major ?m = vc_major current" by (auto simp: compatible_def)
    with r Some Inr show ?thesis by (simp add: ResolveLatestCompatible_def IsMajorBump_def)
  qed
qed

subsection \<open>The identity gate\<close>

lemma ValidatePackName_None:
  assumes "ValidatePackName name = None"
  shows "\<exists>org pack. name = org @ ''/'' @ pack \<and> namePartPattern org \<and> namePartPattern pack"
proof -
  from assms have len: "length (Split name slash) = 2"
    and ok: "find (\<lambda>part. \<not> namePartPattern part) (Split name slash) = None"
    by (auto simp: ValidatePackName_def Let_def split: if_splits option.splits)
  from len obtain org pack where op: "Split name slash = [org, pack]"
    by (auto simp: numeral_2_eq_2 length_Suc_conv)
  with Join_Split [of name slash] have "name = org @ ''/'' @ pack" by simp
  moreover from ok op have "namePartPattern org" "namePartPattern pack"
    by (auto simp: find_None_iff split: if_splits)
  ultimately show ?thesis by blast
qed

lemma namePart_proper: "namePartPattern part \<Longrightarrow> proper_elem part"
  by (auto simp: namePartPattern_def proper_elem_def list_all_iff name_char_def is_digit_def)

lemma normalizeReleaseVersion_Some:
  "normalizeReleaseVersion value = Some n \<longleftrightarrow>
     parseVersionComponents value \<noteq> None \<and> n = TrimPrefix value versionTagPrefix"
  by (auto simp: normalizeReleaseVersion_def)

lemma TrimPrefix_tag: "TrimPrefix (versionTagPrefix @ n) versionTagPrefix = n"
  by (simp add: TrimPrefix_def)

lemma parse_by_normal_form:
  "TrimPrefix x versionTagPrefix = TrimPrefix y versionTagPrefix
     \<Longrightarrow> parseVersionComponents x = parseVersionComponents y"
  by (simp add: parseVersionComponents_def)

lemma ValidateRemoteIdentity_Inr:
  assumes "ValidateRemoteIdentity readFile yamlFields coordinate effectiveVersion packDir = Inr ident"
  shows "\<exists>manifestVersion. ReadManifestIdentity readFile yamlFields packDir = Inr (ri_InstallName ident, manifestVersion)
      \<and> normalizeReleaseVersion effectiveVersion = Some (ri_EffectiveVersion ident)
      \<and> normalizeReleaseVersion manifestVersion = Some (ri_EffectiveVersion ident)
      \<and> ri_Tag ident = versionTagPrefix @ ri_EffectiveVersion ident
      \<and> ValidatePackName (ri_InstallName ident) = None
      \<and> ri_Diverged ident = (ri_InstallName ident \<noteq> coordinate)"
  using assms
  by (auto simp: ValidateRemoteIdentity_def Let_def split: option.splits sum.splits prod.splits if_splits)

text \<open>The identity gate. An accepted pack installs exactly two plain elements below the packs
  directory, whatever its manifest declares, so a hostile name cannot climb out of it; the tag
  that was cloned, the requested version and the manifest's version all denote one release; and
  divergence from the requested coordinate is recorded byte for byte.\<close>

theorem identity_install_confined:
  assumes "ValidateRemoteIdentity readFile yamlFields coordinate effectiveVersion packDir = Inr ident"
    and "projectDir \<noteq> []"
  shows "(\<exists>org pack. ri_InstallName ident = org @ ''/'' @ pack \<and> proper_elem org \<and> proper_elem pack
      \<and> path_elems (JoinPath [projectDir, ''.backstop'', ''packs'', ri_InstallName ident]) =
          path_elems projectDir @ [''.backstop'', ''packs'', org, pack])
    \<and> (\<exists>manifestVersion release. ReadManifestIdentity readFile yamlFields packDir = Inr (ri_InstallName ident, manifestVersion)
      \<and> parseVersionComponents (ri_Tag ident) = Some release
      \<and> parseVersionComponents effectiveVersion = Some release
      \<and> parseVersionComponents manifestVersion = Some release)
    \<and> (ri_Diverged ident \<longleftrightarrow> ri_InstallName ident \<noteq> coordinate)"
proof -
  from ValidateRemoteIdentity_Inr [OF assms(1)] obtain mv where
    mv: "ReadManifestIdentity readFile yamlFields packDir = Inr (ri_InstallName ident, mv)"
      "normalizeReleaseVersion effectiveVersion = Some (ri_EffectiveVersion ident)"
      "normalizeReleaseVersion mv = Some (ri_EffectiveVersion ident)"
      "ri_Tag ident = versionTagPrefix @ ri_EffectiveVersion ident"
      "ValidatePackName (ri_InstallName ident) = None" "ri_Diverged ident = (ri_InstallName ident \<noteq> coordinate)"
    by blast
  obtain org pack where op: "ri_InstallName ident = org @ ''/'' @ pack" "proper_elem org" "proper_elem pack"
    using ValidatePackName_None [OF mv(5)] namePart_proper by blast
  have "JoinPath [projectDir, ''.backstop'', ''packs'', ri_InstallName ident]
      = Clean (projectDir @ ''/'' @ Join [''.backstop'', ''packs'', org, pack] ''/'')"
    using assms(2) by (simp add: JoinPath_def op(1))
  moreover have "proper_elem ''.backstop''" "proper_elem ''packs''" by (simp_all add: proper_elem_def)
  ultimately have path: "path_elems (JoinPath [projectDir, ''.backstop'', ''packs'', ri_InstallName ident]) =
          path_elems projectDir @ [''.backstop'', ''packs'', org, pack]"
    using path_elems_extend [OF assms(2), of "[''.backstop'', ''packs'', org, pack]"] op(2,3) by simp
  obtain release where "parseVersionComponents effectiveVersion = Some release"
    using mv(2) by (auto simp: normalizeReleaseVersion_Some)
  moreover have "parseVersionComponents (ri_Tag ident) = parseVersionComponents effectiveVersion"
      "parseVersionComponents mv = parseVersionComponents effectiveVersion"
    using mv(2-4) by (auto simp: normalizeReleaseVersion_Some TrimPrefix_tag intro!: parse_by_normal_form)
  ultimately show ?thesis using path op mv by metis
qed

theorem identity_install_confined_witness:
  "\<exists>org pack. path_elems (JoinPath [''/w'', ''.backstop'', ''packs'', ''acme/go-standards'']) =
      path_elems ''/w'' @ [''.backstop'', ''packs'', org, pack] \<and> proper_elem org \<and> proper_elem pack"
proof -
  have "ValidateRemoteIdentity (\<lambda>_. Inr ''x'') (\<lambda>_. Inr (''acme/go-standards'', ''v1.10.0'')) ''acme/standards'' ''1.10.0'' ''/tmp/c''
      = Inr \<lparr>ri_Coordinate = ''acme/standards'', ri_EffectiveVersion = ''1.10.0'', ri_Tag = ''v1.10.0'',
             ri_ManifestName = ''acme/go-standards'', ri_InstallName = ''acme/go-standards'', ri_Diverged = True\<rparr>"
    by code_simp
  from identity_install_confined [OF this, of "''/w''"] show ?thesis by auto
qed

text \<open>Exactly one version reaches the clone. A reference \<open>coordinate@version\<close> splits back into its
  parts, the flag wins over the suffix when both are given, the recorded version carries no tag
  prefix and re-prefixing it gives a tag for the same release; with neither, or with a version
  that is not strict, the reference is refused before anything is cloned.\<close>

theorem effective_version_exact:
  assumes "CHR ''@'' \<notin> set coordinate"
  shows "let supplied = (if flag \<noteq> [] then flag else sfx) in
    case ResolveEffectiveVersion (coordinate @ ''@'' @ sfx) flag of
      Inl err \<Rightarrow> parseVersionComponents supplied = None \<and> pe_Reference err = coordinate @ ''@'' @ sfx
    | Inr (coord, version) \<Rightarrow> coord = coordinate \<and> parseVersionComponents supplied \<noteq> None
        \<and> version = TrimPrefix supplied ''v''
        \<and> parseVersionComponents (''v'' @ version) = parseVersionComponents supplied"
proof -
  have "dropWhile (\<lambda>c. c \<noteq> CHR ''@'') (coordinate @ ''@'' @ sfx) = CHR ''@'' # sfx"
    "takeWhile (\<lambda>c. c \<noteq> CHR ''@'') (coordinate @ ''@'' @ sfx) = coordinate"
    using assms by (auto simp: dropWhile_append takeWhile_append)
  then have ref: "parsePackRef (coordinate @ ''@'' @ sfx) = (coordinate, sfx)"
    by (simp add: parsePackRef_def numeral_2_eq_2)
  have empty: "parseVersionComponents [] = None" by code_simp
  have "parseVersionComponents (''v'' @ TrimPrefix x ''v'') = parseVersionComponents x" for x
    by (rule parse_by_normal_form) (use TrimPrefix_tag in \<open>simp add: versionTagPrefix_def\<close>)
  with ref empty show ?thesis
    by (auto simp: ResolveEffectiveVersion_def Let_def normalizeReleaseVersion_def versionTagPrefix_def)
qed

theorem effective_version_exact_witness:
  "case ResolveEffectiveVersion ''acme/standards@v1.2.3'' ''2.0.0'' of
      Inl err \<Rightarrow> False | Inr (coord, version) \<Rightarrow> coord = ''acme/standards'' \<and> version = ''2.0.0''"
proof -
  have "parseVersionComponents ''2.0.0'' = Some (VersionComponents 2 0 0)" by code_simp
  then show ?thesis using effective_version_exact [of "''acme/standards''" "''2.0.0''" "''v1.2.3''"]
    by (auto simp add: Let_def TrimPrefix_def split: sum.splits prod.splits)
qed

end
