(* ===== verification/Pack_Manifest.thy ===== *)
theory Pack_Manifest
  imports Pack_Engine Validate_Base Pack_Version
begin

text \<open>
  The pack manifest (\<open>src/pkg/pack/manifest.go\<close>, \<open>coordinate.go\<close>, \<open>number.go\<close>): its data, and the
  parse of \<open>pack.yml\<close> as a sequence of checks on the decoded document.  The YAML decoder and the
  file system are arguments.
\<close>

subsection \<open>Data\<close>

record FixtureEntry =
  fx_Path :: string
  fx_BypassAttempt :: bool

record Fixtures =
  fs_Positive :: "FixtureEntry list"
  fs_Negative :: "FixtureEntry list"

record Claim =
  cm_ID :: string
  cm_Text :: string
  cm_Fixtures :: Fixtures

record PairsWith =
  pw_Rules :: "string list"
  pw_Scaffolds :: "string list"
  pw_SDK :: string

record Rule =
  ru_ID :: string
  ru_NamespacedID :: string
  ru_Engine :: string
  ru_Standard :: string
  ru_RulePath :: string
  ru_Pattern :: string
  ru_RiskClass :: string
  ru_Claims :: "Claim list"
  ru_Category :: string
  ru_Justification :: string
  ru_Validator :: string
  ru_InputScope :: string
  ru_PairsWith :: PairsWith
  ru_NonWaivable :: bool

record Ruleset =
  rl_Version :: string
  rl_Rules :: "Rule list"

record Scaffold =
  sd_ID :: string
  sd_Version :: string
  sd_Tier :: string
  sd_Path :: string
  sd_TestCommand :: string
  sd_Description :: string
  sd_UseWhen :: "string list"
  sd_Assumes :: "string list"
  sd_PairsWith :: PairsWith
  sd_SampleConfig :: "(string, yval) gomap"

record SDK =
  sk_Module :: string
  sk_Version :: string
  sk_Provides :: "string list"

record Content =
  co_Ruleset :: Ruleset
  co_Scaffolds :: "Scaffold list"
  co_SDK :: "SDK option"

record ToolConfigEntry =
  tc_ID :: string
  tc_Tool :: string
  tc_File :: string
  tc_Settings :: "(string, yval) gomap"
  tc_RiskClass :: string
  tc_Claims :: "Claim list"
  tc_RequiredBy :: string

record Classification =
  cl_Source :: "string list"
  cl_Test :: "string list"
  cl_DependencyDirs :: "string list"

record EngineSpec =
  es_Command :: string
  es_InputMode :: string
  es_InputFlag :: string
  es_Convert :: string
  es_Producer :: string
  es_StdoutArtifact :: string
  es_ScopeKind :: string
  es_Category :: string
  es_GateType :: string
  es_StrictSarif :: bool
  es_PackageScoped :: bool
  es_ProjectTarget :: string
  es_CrashGuard :: bool
  es_SuccessExitCodes :: "int list option"
  es_ExemptFromScopeFilter :: bool
  es_Provision :: "Provision option"
  es_FieldContract :: "FieldContract option"
  es_Binding :: EngineBinding

record Manifest =
  mf_Name :: string
  mf_NormalizedName :: string
  mf_Version :: string
  mf_Language :: string
  mf_Archetype :: string
  mf_Description :: string
  mf_Content :: Content
  mf_ToolConfig :: "ToolConfigEntry list"
  mf_Engines :: "(string, EngineSpec) gomap"
  mf_Classification :: Classification
  mf_TestNamePatterns :: "string list"
  mf_Recipes :: "(string, string) gomap"

abbreviation mf_Rules :: "Manifest \<Rightarrow> Rule list" where
  "mf_Rules m \<equiv> rl_Rules (co_Ruleset (mf_Content m))"

text \<open>A fixture entry is a string or an object: what the two decodes of the node give.\<close>

definition FixtureEntry_UnmarshalYAML :: "string option \<Rightarrow> string + string \<times> bool \<Rightarrow> string + FixtureEntry" where
  "FixtureEntry_UnmarshalYAML asString asObject =
     (case asString of
        Some s \<Rightarrow> Inr \<lparr>fx_Path = s, fx_BypassAttempt = False\<rparr>
      | None \<Rightarrow>
          (case asObject of
             Inl err \<Rightarrow> Inl (''fixture entry must be string or object: '' @ err)
           | Inr (p, b) \<Rightarrow>
               if p = [] then Inl ''fixture entry path is required''
               else Inr \<lparr>fx_Path = p, fx_BypassAttempt = b\<rparr>))"

subsection \<open>Coordinates and names\<close>

record Coordinate =
  cn_PackName :: string
  cn_PackVersion :: string
  cn_ItemName :: string
  cn_ItemVersion :: string

definition ParseCoordinate :: "string \<Rightarrow> string + Coordinate" where
  "ParseCoordinate ref =
     (case Split ref (CHR '':'') of
        [p, i] \<Rightarrow>
          (case Split p (CHR ''@'') of
             [pn, pv] \<Rightarrow>
               if pn = [] \<or> pv = [] then Inl ''invalid coordinate pack segment''
               else (case Split i (CHR ''@'') of
                       [n] \<Rightarrow>
                         if n = [] then Inl ''invalid coordinate item segment''
                         else Inr \<lparr>cn_PackName = pn, cn_PackVersion = pv, cn_ItemName = n, cn_ItemVersion = []\<rparr>
                     | [n, v] \<Rightarrow>
                         if n = [] then Inl ''invalid coordinate item segment''
                         else if v = [] then Inl ''invalid coordinate item version''
                         else Inr \<lparr>cn_PackName = pn, cn_PackVersion = pv, cn_ItemName = n, cn_ItemVersion = v\<rparr>
                     | _ \<Rightarrow> Inl ''invalid coordinate item segment'')
           | _ \<Rightarrow> Inl ''invalid coordinate pack segment'')
      | _ \<Rightarrow> Inl ''invalid coordinate format'')"

definition NamespacedRuleID :: "string \<Rightarrow> string \<Rightarrow> string" where
  "NamespacedRuleID packName ruleID = packName @ ''/'' @ ruleID"

definition ruleIDPattern :: rx where "ruleIDPattern = r_slug"

definition ValidateRuleID :: "string \<Rightarrow> string option" where
  "ValidateRuleID i = fail_if (\<not> rx_match ruleIDPattern i) ''rule ID must match ^[a-z][a-z0-9]*(-[a-z0-9]+)*$''"

definition languagePattern :: rx where "languagePattern = rplus r_lower"

definition ValidateLanguage :: "string \<Rightarrow> string option" where
  "ValidateLanguage language =
     first_failure
       [fail_if (language = []) ''language is required'',
        fail_if (\<not> rx_match languagePattern language) (''language must match ^[a-z]+$, got '' @ quote language)]"

subsection \<open>Checks\<close>

definition r_suffix_char :: rx where
  "r_suffix_char = RClass ''0123456789ABCDEFGHIJKLMNOPQRSTUVWXYZabcdefghijklmnopqrstuvwxyz.-''"

definition semverPattern :: rx where
  "semverPattern = rseq [r_semver, RAlt REps (RCat (rlit ''-'') (rplus r_suffix_char)),
                         RAlt REps (RCat (rlit ''+'') (rplus r_suffix_char))]"

definition validateSemver :: "string \<Rightarrow> string option" where
  "validateSemver v = fail_if (\<not> rx_match semverPattern v) ''version must be semver''"

definition validateArchetype :: "string \<Rightarrow> string option" where
  "validateArchetype a = fail_if (a \<notin> {''enforcement'', ''code'', ''recipes''}) ''archetype must be enforcement, code, or recipes''"

definition validateRiskClass :: "string \<Rightarrow> string option" where
  "validateRiskClass rc =
     fail_if (rc \<notin> {''security'', ''correctness'', ''style'', ''perf''}) ''risk_class must be one of security, correctness, style, perf''"

definition validateFixtures :: "Fixtures \<Rightarrow> string option" where
  "validateFixtures f =
     first_failure [fail_if (fs_Positive f = []) ''fixtures.positive must contain at least one entry'',
                    fail_if (fs_Negative f = []) ''fixtures.negative must contain at least one entry'']"

definition declaredEngineBindings :: "Manifest \<Rightarrow> Registry" where
  "declaredEngineBindings m = map (\<lambda>(n, s). (n, es_Binding s)) (mf_Engines m)"

definition validateEngine :: "string \<Rightarrow> Registry \<Rightarrow> string option" where
  "validateEngine name declared =
     (if name = [] then Some ''engine is required (the retired layer field is no longer read; declare engine explicitly)''
      else case map_of declared name of
             None \<Rightarrow> None
           | Some b \<Rightarrow>
               (case eb_Provision b of
                  None \<Rightarrow> None
                | Some p \<Rightarrow> CheckToolAllowed TrustedToolAllowlist (pr_Tool p) (pr_Version p)))"

definition parseEngineSpec :: "EngineSpec \<Rightarrow> string + EngineBinding" where
  "parseEngineSpec spec =
     (case ParseInputMode (es_InputMode spec) of
        Inl e \<Rightarrow> Inl (''parse input_mode: '' @ e)
      | Inr inputMode \<Rightarrow>
      (case ParseScopeKind (es_ScopeKind spec) of
        Inl e \<Rightarrow> Inl (''parse scope_kind: '' @ e)
      | Inr scopeKind \<Rightarrow>
      (case ParseEngineCategory (es_Category spec) of
        Inl e \<Rightarrow> Inl (''parse category: '' @ e)
      | Inr category \<Rightarrow>
      (case ParseGateType (es_GateType spec) of
        Inl e \<Rightarrow> Inl (''parse gate_type: '' @ e)
      | Inr gateType \<Rightarrow>
      (case ValidateSuccessExitCodes (es_SuccessExitCodes spec) of
        Some e \<Rightarrow> Inl (''parse success_exit_codes: '' @ e)
      | None \<Rightarrow>
          Inr \<lparr>eb_Command = es_Command spec, eb_InputMode = inputMode, eb_InputFlag = es_InputFlag spec,
               eb_ScopeKind = scopeKind, eb_Convert = es_Convert spec, eb_Producer = es_Producer spec,
               eb_StdoutArtifact = es_StdoutArtifact spec, eb_Provision = es_Provision spec,
               eb_CrashGuard = es_CrashGuard spec, eb_SuccessExitCodes = es_SuccessExitCodes spec,
               eb_Category = category, eb_ProjectTarget = es_ProjectTarget spec, eb_GateType = gateType,
               eb_StrictSarif = es_StrictSarif spec, eb_PackageScoped = es_PackageScoped spec,
               eb_FieldContract = (case es_FieldContract spec of
                  None \<Rightarrow> \<lparr>fc_Requires = [], fc_Forbids = []\<rparr> | Some fc \<Rightarrow> fc),
               eb_ExemptFromScopeFilter = es_ExemptFromScopeFilter spec\<rparr>)))))"

definition validateScaffoldTier :: "string \<Rightarrow> string option" where
  "validateScaffoldTier tier = fail_if (tier \<notin> {''complete'', ''skeleton''}) ''scaffold tier must be complete or skeleton''"

definition validateScaffold :: "Scaffold \<Rightarrow> string \<Rightarrow> string option" where
  "validateScaffold s archetype =
     (let recipesPack = (archetype = ''recipes'') in
      first_failure
        ([if \<not> recipesPack \<or> sd_Tier s \<noteq> [] then validateScaffoldTier (sd_Tier s) else None]
         @ (if recipesPack then []
            else [fail_if (sd_TestCommand s = []) ''scaffold test_command is required'',
                  fail_if (sd_UseWhen s = []) ''scaffold use_when is required'',
                  fail_if (sd_Assumes s = []) ''scaffold assumes is required'',
                  fail_if (pw_Rules (sd_PairsWith s) = [] \<and> pw_Scaffolds (sd_PairsWith s) = [] \<and> pw_SDK (sd_PairsWith s) = [])
                    ''scaffold pairs_with is required''])
         @ map (\<lambda>kv. fail_if (as_string (snd kv) = None) (''scaffold sample_config '' @ quote (fst kv) @ '' must be string''))
               (sd_SampleConfig s)))"

definition validateSDK :: "SDK option \<Rightarrow> string option" where
  "validateSDK sdk =
     (case sdk of
        None \<Rightarrow> None
      | Some s \<Rightarrow>
          first_failure [fail_if (sk_Module s = []) ''sdk module is required'',
                         fail_if (sk_Version s = []) ''sdk version is required'',
                         fail_if (sk_Provides s = []) ''sdk provides is required''])"

definition validateToolConfig :: "ToolConfigEntry \<Rightarrow> string option" where
  "validateToolConfig tc =
     (let hasID = (tc_ID tc \<noteq> []); hasRequiredBy = (tc_RequiredBy tc \<noteq> []) in
      first_failure
        ([fail_if (tc_Tool tc = []) ''tool_config tool is required'',
          fail_if (tc_File tc = []) ''tool_config file is required'',
          fail_if (hasID = hasRequiredBy) ''tool_config must have exactly one of id or required_by'']
         @ (if hasID
            then [fail_if (tc_RiskClass tc = []) ''standalone tool_config risk_class is required'',
                  validateRiskClass (tc_RiskClass tc),
                  fail_if (tc_Claims tc = []) ''standalone tool_config claims are required'']
            else [fail_if (tc_RiskClass tc \<noteq> [] \<or> tc_Claims tc \<noteq> [])
                    ''supporting tool_config must not include risk_class or claims''])))"

subsection \<open>Parsing\<close>

definition required_fields_check :: "Manifest \<Rightarrow> string option" where
  "required_fields_check m =
     first_failure
       [fail_if (mf_Name m = []) ''name is required'',
        fail_if (mf_Version m = []) ''version is required'',
        fail_if (mf_Language m = []) ''language is required'',
        fail_if (mf_Archetype m = []) ''archetype is required'',
        fail_if (mf_Description m = []) ''description is required'',
        fail_if (mf_Rules m = [] \<and> co_Scaffolds (mf_Content m) = [] \<and> co_SDK (mf_Content m) = None \<and> mf_Engines m = [])
          ''content is required'',
        wrap_failure ''validate name: '' (ValidatePackName (mf_Name m)),
        wrap_failure ''validate language: '' (ValidateLanguage (mf_Language m)),
        wrap_failure ''validate archetype: '' (validateArchetype (mf_Archetype m)),
        wrap_failure ''invalid version: '' (validateSemver (mf_Version m))]"

definition parse_engines :: "(string, EngineSpec) gomap \<Rightarrow> string + (string, EngineSpec) gomap" where
  "parse_engines engines =
     map_results (\<lambda>(name, spec).
        case parseEngineSpec spec of
          Inl e \<Rightarrow> Inl (''engine '' @ quote name @ '': '' @ e)
        | Inr b \<Rightarrow> Inr (name, spec\<lparr>es_Binding := b\<rparr>)) engines"

definition clear_bypass :: "Claim \<Rightarrow> Claim" where
  "clear_bypass c =
     c\<lparr>cm_Fixtures := (cm_Fixtures c)
         \<lparr>fs_Positive := map (\<lambda>f. f\<lparr>fx_BypassAttempt := False\<rparr>) (fs_Positive (cm_Fixtures c))\<rparr>\<rparr>"

definition rule_check :: "Registry \<Rightarrow> Rule \<Rightarrow> string option" where
  "rule_check declared r =
     first_failure
       ([wrap_failure (''invalid rule id '' @ quote (ru_ID r) @ '': '') (ValidateRuleID (ru_ID r)),
         wrap_failure (''rule '' @ quote (ru_ID r) @ '' risk_class: '') (validateRiskClass (ru_RiskClass r)),
         wrap_failure (''rule '' @ quote (ru_ID r) @ '': '') (validateEngine (ru_Engine r) declared)]
        @ map (\<lambda>c. wrap_failure (''rule '' @ quote (ru_ID r) @ '' claim '' @ quote (cm_ID c) @ '' fixtures: '')
                     (validateFixtures (cm_Fixtures c))) (ru_Claims r))"

definition scaffold_check :: "string \<Rightarrow> Scaffold \<Rightarrow> string option" where
  "scaffold_check archetype s =
     first_failure
       [if sd_Version s \<noteq> [] then wrap_failure ''invalid scaffold version: '' (validateSemver (sd_Version s)) else None,
        wrap_failure (''scaffold '' @ quote (sd_ID s) @ '': '') (validateScaffold s archetype)]"

definition sdk_check :: "SDK option \<Rightarrow> string option" where
  "sdk_check sdk =
     (case sdk of
        None \<Rightarrow> None
      | Some s \<Rightarrow> first_failure [wrap_failure ''validate sdk: '' (validateSDK sdk),
                                wrap_failure ''invalid sdk version: '' (validateSemver (sk_Version s))])"

definition tool_config_check :: "ToolConfigEntry \<Rightarrow> string option" where
  "tool_config_check tc =
     first_failure
       (wrap_failure ''validate tool_config: '' (validateToolConfig tc)
        # map (\<lambda>c. wrap_failure (''tool_config claim '' @ quote (cm_ID c) @ '' fixtures: '')
                     (validateFixtures (cm_Fixtures c))) (tc_Claims tc))"

definition manifest_claims :: "Manifest \<Rightarrow> Claim list" where
  "manifest_claims m = concat (map ru_Claims (mf_Rules m)) @ concat (map tc_Claims (mf_ToolConfig m))"

fun claim_ids_check :: "string list \<Rightarrow> string list \<Rightarrow> string option" where
  "claim_ids_check seen [] = None"
| "claim_ids_check seen (c # cs) =
     (if c \<in> set seen then Some (''duplicate claim id: '' @ c) else claim_ids_check (c # seen) cs)"

definition ruleset_version :: "Manifest \<Rightarrow> string" where
  "ruleset_version m =
     (let v = rl_Version (co_Ruleset (mf_Content m))
      in if v = [] \<and> mf_Archetype m = ''enforcement'' then mf_Version m else v)"

definition finish_rule :: "string \<Rightarrow> Rule \<Rightarrow> Rule" where
  "finish_rule normalized r =
     r\<lparr>ru_Claims := map clear_bypass (ru_Claims r), ru_NamespacedID := NamespacedRuleID normalized (ru_ID r)\<rparr>"

definition finish_manifest :: "Manifest \<Rightarrow> Manifest" where
  "finish_manifest m =
     (let normalized = ToLower (mf_Name m) in
      m\<lparr>mf_NormalizedName := normalized,
        mf_ToolConfig := map (\<lambda>tc. tc\<lparr>tc_Claims := map clear_bypass (tc_Claims tc)\<rparr>) (mf_ToolConfig m),
        mf_Content := (mf_Content m)
          \<lparr>co_Ruleset := \<lparr>rl_Version = ruleset_version m, rl_Rules = map (finish_rule normalized) (mf_Rules m)\<rparr>\<rparr>\<rparr>)"

definition content_check :: "Manifest \<Rightarrow> string option" where
  "content_check m =
     first_failure
       ((if ruleset_version m \<noteq> [] then wrap_failure ''invalid ruleset version: '' (validateSemver (ruleset_version m)) else None)
        # map (rule_check (declaredEngineBindings m)) (mf_Rules m)
        @ map (scaffold_check (mf_Archetype m)) (co_Scaffolds (mf_Content m))
        @ [sdk_check (co_SDK (mf_Content m))]
        @ map tool_config_check (mf_ToolConfig m)
        @ [claim_ids_check [] (map cm_ID (manifest_claims m))])"

definition ParseManifest :: "(string \<Rightarrow> string + Manifest) \<Rightarrow> string \<Rightarrow> string + Manifest" where
  "ParseManifest decode dat =
     (case decode dat of
        Inl err \<Rightarrow> Inl (''parse manifest yaml: '' @ err)
      | Inr m0 \<Rightarrow>
      (case required_fields_check m0 of
        Some err \<Rightarrow> Inl err
      | None \<Rightarrow>
      (case parse_engines (mf_Engines m0) of
        Inl err \<Rightarrow> Inl err
      | Inr engines \<Rightarrow>
          (let m = m0\<lparr>mf_Engines := engines\<rparr>
           in case content_check m of Some err \<Rightarrow> Inl err | None \<Rightarrow> Inr (finish_manifest m)))))"

text \<open>What \<open>os.Stat\<close> says of a path: None is an error, else whether it is a directory.\<close>

definition recipe_entry_check :: "(string \<Rightarrow> bool option) \<Rightarrow> string \<Rightarrow> string \<times> string \<Rightarrow> string option" where
  "recipe_entry_check stat packRoot e =
     (case e of (i, dir) \<Rightarrow>
        first_failure
          [fail_if (dir = []) (''recipes index: recipe '' @ quote i @ '' declares an empty directory''),
           fail_if (stat (JoinPath [packRoot, dir]) \<noteq> Some True)
             (''recipes index: recipe '' @ quote i @ '': directory '' @ quote dir @ '' does not exist''),
           fail_if (stat (JoinPath [JoinPath [packRoot, dir], ''recipe.yml'']) \<noteq> Some False)
             (''recipes index: recipe '' @ quote i @ '': directory '' @ quote dir @ '' contains no recipe.yml'')])"

definition validateRecipesIndex :: "(string \<Rightarrow> bool option) \<Rightarrow> Manifest \<Rightarrow> string \<Rightarrow> string option" where
  "validateRecipesIndex stat m packRoot =
     first_failure (map (\<lambda>i. recipe_entry_check stat packRoot (i, map_get [] (mf_Recipes m) i))
                        (sort (map fst (mf_Recipes m))))"

definition ParseManifestFile ::
  "(string \<Rightarrow> string + Manifest) \<Rightarrow> (string \<Rightarrow> string + string) \<Rightarrow> (string \<Rightarrow> bool option) \<Rightarrow> string \<Rightarrow> string + Manifest" where
  "ParseManifestFile decode readFile stat path =
     (case readFile path of
        Inl err \<Rightarrow> Inl (''read manifest file: '' @ err)
      | Inr dat \<Rightarrow>
      (case ParseManifest decode dat of
        Inl err \<Rightarrow> Inl (''parse manifest '' @ path @ '': '' @ err)
      | Inr m \<Rightarrow>
      (case validateRecipesIndex stat m (Dir path) of
        Some err \<Rightarrow> Inl (''validate recipes index for '' @ path @ '': '' @ err)
      | None \<Rightarrow> Inr m)))"

subsection \<open>Well-formed manifests\<close>

text \<open>What every consumer of a parsed manifest relies on.\<close>

definition trusted_engine :: "Registry \<Rightarrow> string \<Rightarrow> bool" where
  "trusted_engine reg name \<longleftrightarrow>
     (case map_of reg name of
        None \<Rightarrow> True
      | Some b \<Rightarrow> (case eb_Provision b of
                    None \<Rightarrow> True
                  | Some p \<Rightarrow> map_of TrustedToolAllowlist (pr_Tool p) = Some (pr_Version p)))"

definition wf_claim :: "Claim \<Rightarrow> bool" where
  "wf_claim c \<longleftrightarrow> fs_Positive (cm_Fixtures c) \<noteq> [] \<and> fs_Negative (cm_Fixtures c) \<noteq> []
     \<and> list_all (\<lambda>f. \<not> fx_BypassAttempt f) (fs_Positive (cm_Fixtures c))"

definition wf_rule :: "Registry \<Rightarrow> string \<Rightarrow> Rule \<Rightarrow> bool" where
  "wf_rule reg normalized r \<longleftrightarrow>
     ru_ID r \<in> rx_lang r_slug
     \<and> ru_NamespacedID r = NamespacedRuleID normalized (ru_ID r)
     \<and> ru_RiskClass r \<in> {''security'', ''correctness'', ''style'', ''perf''}
     \<and> ru_Engine r \<noteq> [] \<and> trusted_engine reg (ru_Engine r)
     \<and> list_all wf_claim (ru_Claims r)"

definition wf_binding :: "EngineSpec \<Rightarrow> bool" where
  "wf_binding s \<longleftrightarrow> es_GateType s = GateType_String (eb_GateType (es_Binding s))
     \<and> es_InputMode s = InputMode_String (eb_InputMode (es_Binding s))
     \<and> 0 \<in> set (EffectiveSuccessExitCodes (es_Binding s))
     \<and> distinct (EffectiveSuccessExitCodes (es_Binding s))"

definition wf_manifest :: "Manifest \<Rightarrow> bool" where
  "wf_manifest m \<longleftrightarrow>
     ValidatePackName (mf_Name m) = None
     \<and> mf_NormalizedName m = ToLower (mf_Name m)
     \<and> mf_Archetype m \<in> {''enforcement'', ''code'', ''recipes''}
     \<and> mf_Version m \<in> rx_lang semverPattern
     \<and> list_all wf_binding (map snd (mf_Engines m))
     \<and> list_all (wf_rule (declaredEngineBindings m) (mf_NormalizedName m)) (mf_Rules m)
     \<and> list_all wf_claim (manifest_claims m)
     \<and> distinct (map cm_ID (manifest_claims m))"

lemma claim_ids_check_None: "claim_ids_check seen cs = None \<longleftrightarrow> distinct cs \<and> set cs \<inter> set seen = {}"
  by (induction cs arbitrary: seen) auto

lemma validateEngine_None:
  "validateEngine name declared = None \<longleftrightarrow> name \<noteq> [] \<and> trusted_engine declared name"
  by (simp add: validateEngine_def trusted_engine_def CheckToolAllowed_None split: option.splits)

lemma validateFixtures_None: "validateFixtures f = None \<longleftrightarrow> fs_Positive f \<noteq> [] \<and> fs_Negative f \<noteq> []"
  by (auto simp: validateFixtures_def first_failure_None)

lemma wf_clear_bypass: "validateFixtures (cm_Fixtures c) = None \<Longrightarrow> wf_claim (clear_bypass c)"
  by (auto simp: wf_claim_def clear_bypass_def validateFixtures_None list_all_iff)

lemma parseEngineSpec_wf: "parseEngineSpec s = Inr b \<Longrightarrow> wf_binding (s\<lparr>es_Binding := b\<rparr>)"
  by (auto simp: parseEngineSpec_def wf_binding_def ParseGateType_Inr ParseInputMode_Inr
      ValidateSuccessExitCodes_None EffectiveSuccessExitCodes_def split: sum.splits option.splits)

lemma parse_engines_wf:
  assumes "parse_engines es = Inr es'"
  shows "list_all wf_binding (map snd es')"
proof -
  have "wf_binding s" if "(n, s) \<in> set es'" for n s
    using map_results_mem [OF assms [unfolded parse_engines_def] that]
    by (auto split: sum.splits dest: parseEngineSpec_wf)
  then show ?thesis by (auto simp: list_all_iff)
qed

lemma rule_check_wf:
  assumes "rule_check reg r = None"
  shows "wf_rule reg n (finish_rule n r)"
proof -
  have "ValidateRuleID (ru_ID r) = None" "validateRiskClass (ru_RiskClass r) = None"
    "validateEngine (ru_Engine r) reg = None" "\<forall>c\<in>set (ru_Claims r). validateFixtures (cm_Fixtures c) = None"
    using assms by (auto simp: rule_check_def first_failure_None list_all_iff)
  then show ?thesis
    by (simp add: wf_rule_def finish_rule_def ValidateRuleID_def ruleIDPattern_def rx_match_lang validateRiskClass_def
        validateEngine_None list_all_iff wf_clear_bypass)
qed

lemma clear_bypass_ID [simp]: "cm_ID (clear_bypass c) = cm_ID c"
  by (simp add: clear_bypass_def)

lemma finish_manifest_claims: "manifest_claims (finish_manifest m) = map clear_bypass (manifest_claims m)"
  by (simp add: manifest_claims_def finish_manifest_def finish_rule_def Let_def map_concat comp_def)

text \<open>C24: A manifest that parses is well formed: its name is an installable identity and prefixes every
  rule's id; every engine's words have been resolved to its binding and its declared exit statuses
  include 0; no rule reaches a provisioned tool outside the allowlist or at another version than
  the pinned one; every claim has a positive and a negative fixture; and no two claims of the
  pack share an id.\<close>

theorem ParseManifest_wf:
  assumes "ParseManifest decode dat = Inr m"
  shows "wf_manifest m"
proof -
  obtain m0 engines where d: "decode dat = Inr m0" "required_fields_check m0 = None"
    "parse_engines (mf_Engines m0) = Inr engines" "content_check (m0\<lparr>mf_Engines := engines\<rparr>) = None"
    "m = finish_manifest (m0\<lparr>mf_Engines := engines\<rparr>)"
    using assms by (auto simp: ParseManifest_def Let_def split: sum.splits option.splits)
  let ?m = "m0\<lparr>mf_Engines := engines\<rparr>"
  have req: "ValidatePackName (mf_Name m0) = None" "validateArchetype (mf_Archetype m0) = None"
    "validateSemver (mf_Version m0) = None"
    using d(2) by (simp_all add: required_fields_check_def first_failure_None)
  have con: "list_all (\<lambda>r. rule_check (declaredEngineBindings ?m) r = None) (mf_Rules ?m)"
    "list_all (\<lambda>tc. tool_config_check tc = None) (mf_ToolConfig ?m)"
    "distinct (map cm_ID (manifest_claims ?m))"
    using d(4) by (simp_all add: content_check_def first_failure_None list.pred_map comp_def claim_ids_check_None)
  have reg: "declaredEngineBindings m = declaredEngineBindings ?m"
    by (simp add: d(5) declaredEngineBindings_def finish_manifest_def Let_def)
  have rules: "list_all (wf_rule (declaredEngineBindings m) (mf_NormalizedName m)) (mf_Rules m)"
  proof -
    have "mf_Rules m = map (finish_rule (mf_NormalizedName m)) (mf_Rules ?m)"
      by (simp add: d(5) finish_manifest_def Let_def)
    then show ?thesis using con(1) unfolding reg by (auto simp: list_all_iff intro: rule_check_wf)
  qed
  have "validateFixtures (cm_Fixtures c) = None" if "c \<in> set (manifest_claims ?m)" for c
  proof -
    from that consider r where "r \<in> set (mf_Rules ?m)" "c \<in> set (ru_Claims r)"
      | tc where "tc \<in> set (mf_ToolConfig ?m)" "c \<in> set (tc_Claims tc)"
      unfolding manifest_claims_def by auto
    then show ?thesis
    proof cases
      case 1
      then show ?thesis using con(1) by (auto simp: list_all_iff rule_check_def first_failure_None)
    next
      case 2
      then show ?thesis using con(2) by (auto simp: list_all_iff tool_config_check_def first_failure_None)
    qed
  qed
  then have claims: "list_all wf_claim (manifest_claims m)"
    unfolding d(5) finish_manifest_claims by (auto simp: list_all_iff intro: wf_clear_bypass)
  have ids: "distinct (map cm_ID (manifest_claims m))"
    unfolding d(5) finish_manifest_claims using con(3) by (simp add: comp_def)
  have name: "mf_Name m = mf_Name m0" "mf_Archetype m = mf_Archetype m0" "mf_Version m = mf_Version m0"
    "mf_NormalizedName m = ToLower (mf_Name m0)" "mf_Engines m = engines"
    by (simp_all add: d(5) finish_manifest_def Let_def)
  show ?thesis
    unfolding wf_manifest_def name(1-3,5)
    using req rules claims ids parse_engines_wf [OF d(3)]
    by (simp add: name validateArchetype_def validateSemver_def rx_match_lang)
qed

subsection \<open>Validation\<close>

text \<open>The further checks of \<open>backstop pack check\<close> (\<open>src/pkg/pack/validate_manifest.go\<close>) over a parsed
  manifest and the registry of the built-in engines.\<close>

record ValidationError =
  ve_Field :: string
  ve_Message :: string
  ve_Rule :: string

definition vlit :: "string \<Rightarrow> string \<Rightarrow> string \<Rightarrow> ValidationError" where
  "vlit f m r = \<lparr>ve_Field = f, ve_Message = m, ve_Rule = r\<rparr>"

definition validateContentTypes :: "Manifest \<Rightarrow> ValidationError list" where
  "validateContentTypes m =
     (if mf_Archetype m = ''enforcement'' \<and> co_Scaffolds (mf_Content m) \<noteq> []
      then [vlit ''content.scaffolds'' ''enforcement packs must not define scaffolds'' ''CLM-002''] else [])
     @ (if mf_Archetype m = ''enforcement'' \<and> co_SDK (mf_Content m) \<noteq> None
        then [vlit ''content.sdk'' ''enforcement packs must not define sdk'' ''CLM-003''] else [])
     @ (if mf_Rules m = [] \<and> co_Scaffolds (mf_Content m) = [] \<and> co_SDK (mf_Content m) = None
        then [vlit ''content'' ''unknown or empty content type'' ''CLM-005''] else [])"

definition engineFieldContractClaim :: string where "engineFieldContractClaim = ''CLM-020-engine-field-contract''"

definition resolveEngineRegistryForValidation :: "Manifest \<Rightarrow> Registry \<Rightarrow> Registry" where
  "resolveEngineRegistryForValidation m base =
     fold (\<lambda>(n, b) reg. map_set n b reg) (base @ declaredEngineBindings m) []"

definition ruleFieldValue :: "Rule \<Rightarrow> string \<Rightarrow> string" where
  "ruleFieldValue r field =
     (if field = FieldRulePath then ru_RulePath r
      else if field = FieldStandard then ru_Standard r
      else if field = FieldCategory then ru_Category r
      else if field = FieldInputScope then ru_InputScope r
      else if field = FieldValidator then ru_Validator r
      else [])"

definition isValidSandboxCategory :: "string \<Rightarrow> bool" where
  "isValidSandboxCategory c \<longleftrightarrow> c \<in> {''presence'', ''structural'', ''other''}"

definition validateSandboxValueRules :: "Rule \<Rightarrow> string \<Rightarrow> ValidationError list" where
  "validateSandboxValueRules r pre =
     (if ru_Category r \<noteq> [] \<and> \<not> isValidSandboxCategory (ru_Category r)
      then [vlit (pre @ ''.category'') ''engine sandbox category must be presence, structural, or other'' ''CLM-016''] else [])
     @ (if ru_Category r = ''other'' \<and> TrimSpace (ru_Justification r) = []
        then [vlit (pre @ ''.justification'') ''engine sandbox category other requires justification'' ''CLM-014''] else [])
     @ (if ru_InputScope r \<noteq> [] \<and> ru_InputScope r \<noteq> ''single-file'' \<and> ru_InputScope r \<noteq> ''multi-file''
        then [vlit (pre @ ''.input_scope'') ''engine sandbox input_scope must be single-file or multi-file'' ''CLM-023''] else [])
     @ (if ru_InputScope r = [] \<or> ru_Validator r = []
        then [vlit pre ''engine sandbox requires isolation fields'' ''CLM-040''] else [])"

definition rule_prefix :: "nat \<Rightarrow> string" where
  "rule_prefix i = ''content.ruleset.rules['' @ Itoa (int i) @ '']''"

definition engine_field_errors :: "Registry \<Rightarrow> nat \<times> Rule \<Rightarrow> ValidationError list" where
  "engine_field_errors reg ir =
     (case ir of (i, r) \<Rightarrow>
        if ru_Engine r = [] then
          [vlit (rule_prefix i @ ''.engine'') ''engine is required (layer is retired)'' ''CLM-005-engine-required'']
        else case map_of reg (ru_Engine r) of
          None \<Rightarrow> [vlit (rule_prefix i @ ''.engine'') (''unknown engine '' @ ru_Engine r) ''CLM-020-unknown-engine'']
        | Some b \<Rightarrow>
            map (\<lambda>f. vlit (rule_prefix i @ ''.'' @ f) (''engine '' @ ru_Engine r @ '' requires '' @ f) engineFieldContractClaim)
                (filter (\<lambda>f. ruleFieldValue r f = []) (fc_Requires (eb_FieldContract b)))
            @ map (\<lambda>f. vlit (rule_prefix i @ ''.'' @ f) (''engine '' @ ru_Engine r @ '' must not define '' @ f) engineFieldContractClaim)
                (filter (\<lambda>f. ruleFieldValue r f \<noteq> []) (fc_Forbids (eb_FieldContract b)))
            @ (if ru_Engine r = ''sandbox'' then validateSandboxValueRules r (rule_prefix i) else []))"

definition validateEngineFields :: "Manifest \<Rightarrow> Registry \<Rightarrow> ValidationError list" where
  "validateEngineFields m base =
     concat (map (engine_field_errors (resolveEngineRegistryForValidation m base)) (enumerate 0 (mf_Rules m)))"

definition hasBypassFixture :: "Claim list \<Rightarrow> bool" where
  "hasBypassFixture claims =
     list_ex (\<lambda>c. list_ex fx_BypassAttempt (fs_Positive (cm_Fixtures c))
                \<or> list_ex fx_BypassAttempt (fs_Negative (cm_Fixtures c))) claims"

definition validateSecurityFixtures :: "Manifest \<Rightarrow> ValidationError list" where
  "validateSecurityFixtures m =
     concat (map (\<lambda>(i, r). if ru_RiskClass r \<noteq> ''security'' \<or> hasBypassFixture (ru_Claims r) then []
                          else [vlit (rule_prefix i @ ''.claims.fixtures'') ''security rules require at least one bypass fixture'' ''CLM-029''])
                 (enumerate 0 (mf_Rules m)))"

definition validateToolConfigTrace :: "Manifest \<Rightarrow> ValidationError list" where
  "validateToolConfigTrace m =
     concat (map (\<lambda>(i, tc). if tc_ID tc = [] \<and> tc_RequiredBy tc = []
                           then [vlit (''tool_config['' @ Itoa (int i) @ '']'') ''tool_config requires id or required_by'' ''CLM-033''] else [])
                 (enumerate 0 (mf_ToolConfig m)))"

definition scaffold_pairs :: "Manifest \<Rightarrow> nat \<times> Scaffold \<Rightarrow> ValidationError list" where
  "scaffold_pairs m isd =
     (case isd of (i, s) \<Rightarrow>
        let fld = ''content.scaffolds['' @ Itoa (int i) @ ''].pairs_with.rules'' in
        if pw_Rules (sd_PairsWith s) = [] then [vlit fld ''scaffold must pair with at least one rule'' ''CLM-045'']
        else if list_ex (\<lambda>r. r \<notin> ru_ID ` set (mf_Rules m)) (pw_Rules (sd_PairsWith s))
        then [vlit fld ''scaffold references missing rule'' ''CLM-045''] else [])"

definition rule_pairs :: "Manifest \<Rightarrow> nat \<times> Rule \<Rightarrow> ValidationError list" where
  "rule_pairs m ir =
     (case ir of (i, r) \<Rightarrow>
        if pw_Scaffolds (ru_PairsWith r) = [] \<and> pw_SDK (ru_PairsWith r) = []
        then [vlit (rule_prefix i @ ''.pairs_with'') ''rule must pair with at least one scaffold or sdk'' ''CLM-046'']
        else if list_ex (\<lambda>s. s \<notin> sd_ID ` set (co_Scaffolds (mf_Content m))) (pw_Scaffolds (ru_PairsWith r))
        then [vlit (rule_prefix i @ ''.pairs_with.scaffolds'') ''rule references missing scaffold'' ''CLM-046''] else [])"

definition validateCoOccurrence :: "Manifest \<Rightarrow> ValidationError list" where
  "validateCoOccurrence m =
     (if mf_Archetype m = ''enforcement'' \<and> co_Scaffolds (mf_Content m) \<noteq> []
      then [vlit ''content.scaffolds'' ''enforcement packs must not include scaffolds'' ''CLM-047''] else [])
     @ (if mf_Archetype m = ''enforcement'' \<and> co_SDK (mf_Content m) \<noteq> None
        then [vlit ''content.sdk'' ''enforcement packs must not include sdk'' ''CLM-048''] else [])
     @ (if mf_Archetype m \<noteq> ''code'' then []
        else concat (map (scaffold_pairs m) (enumerate 0 (co_Scaffolds (mf_Content m))))
             @ concat (map (rule_pairs m) (enumerate 0 (mf_Rules m))))"

definition claim_prefix :: "nat \<Rightarrow> nat \<Rightarrow> string" where
  "claim_prefix i j = rule_prefix i @ ''.claims['' @ Itoa (int j) @ ''].fixtures''"

definition validateFixtureProof :: "Manifest \<Rightarrow> ValidationError list" where
  "validateFixtureProof m =
     concat (map (\<lambda>(i, r).
        if ru_Claims r = [] then [vlit (rule_prefix i @ ''.claims'') ''rule requires at least one claim'' ''CLM-051'']
        else concat (map (\<lambda>(j, c).
               if fs_Positive (cm_Fixtures c) = [] \<or> fs_Negative (cm_Fixtures c) = []
               then [vlit (claim_prefix i j) ''claim requires positive and negative fixtures'' ''CLM-049''] else [])
             (enumerate 0 (ru_Claims r)))) (enumerate 0 (mf_Rules m)))"

definition fixture_dir_errors :: "string \<Rightarrow> string \<Rightarrow> FixtureEntry list \<Rightarrow> ValidationError list" where
  "fixture_dir_errors pre want fxs =
     concat (map (\<lambda>(k, f). if \<not> HasPrefix (fx_Path f) want
                          then [vlit (pre @ ''['' @ Itoa (int k) @ '']'') ''fixture path must use lowercase rule id directory'' ''CLM-035'']
                          else []) (enumerate 0 fxs))"

definition validateFixtureDirNaming :: "Manifest \<Rightarrow> ValidationError list" where
  "validateFixtureDirNaming m =
     concat (map (\<lambda>(i, r).
        let want = ''fixtures/rules/'' @ ToLower (ru_ID r) @ ''/'' in
        concat (map (\<lambda>(j, c).
           fixture_dir_errors (claim_prefix i j @ ''.positive'') want (fs_Positive (cm_Fixtures c))
           @ fixture_dir_errors (claim_prefix i j @ ''.negative'') want (fs_Negative (cm_Fixtures c)))
         (enumerate 0 (ru_Claims r)))) (enumerate 0 (mf_Rules m)))"

definition ValidateManifest :: "Manifest option \<Rightarrow> Registry \<Rightarrow> ValidationError list" where
  "ValidateManifest mo base =
     (case mo of
        None \<Rightarrow> [vlit ''manifest'' ''manifest is required'' ''CLM-001'']
      | Some m \<Rightarrow>
          validateContentTypes m @ validateEngineFields m base @ validateSecurityFixtures m @ validateToolConfigTrace m
          @ validateCoOccurrence m @ validateFixtureProof m @ validateFixtureDirNaming m)"

definition rule_has_mode :: "Registry \<Rightarrow> (EngineBinding \<Rightarrow> bool) \<Rightarrow> Rule \<Rightarrow> bool" where
  "rule_has_mode reg P r = (case map_of reg (ru_Engine r) of None \<Rightarrow> False | Some b \<Rightarrow> P b)"

definition ExpectedLayout :: "Manifest option \<Rightarrow> Registry \<Rightarrow> string list" where
  "ExpectedLayout mo base =
     [''pack.yml'', ''fixtures/rules/'']
     @ (case mo of
          None \<Rightarrow> []
        | Some m \<Rightarrow>
            (let reg = resolveEngineRegistryForValidation m base;
                 hasRuleFiles = list_ex (rule_has_mode reg (\<lambda>b. eb_InputMode b = InputModeRuleFlags \<or> eb_InputMode b = InputModePatternArg)) (mf_Rules m);
                 hasValidators = list_ex (rule_has_mode reg (\<lambda>b. eb_InputMode b = InputModeNone \<and> eb_ScopeKind b = ScopeKindFileArgs)) (mf_Rules m)
             in (if mf_Archetype m = ''code'' then [''scaffolds/''] else [])
                @ (if hasRuleFiles then [''rules/''] else [])
                @ (if hasValidators then [''validators/''] else [])))"

subsection \<open>Parsing and validation agree, but for engine packs\<close>

text \<open>A declared engine overrides a built-in of its name, and every other built-in stays.\<close>

lemma fold_map_set_lookup:
  "map_of (fold (\<lambda>(n, b) reg. map_set n b reg) xs reg0) k =
     (case map_of (rev xs) k of Some b \<Rightarrow> Some b | None \<Rightarrow> map_of reg0 k)"
  by (induction xs arbitrary: reg0) (auto simp: map_add_def split: option.splits prod.splits)

lemma map_of_rev_distinct: "distinct (map fst xs) \<Longrightarrow> map_of (rev xs) = map_of xs"
  by (simp add: map_of_inject_set rev_map [symmetric])

lemma registry_override:
  assumes "distinct (map fst base)" "distinct (map fst (mf_Engines m))"
  shows "map_of (resolveEngineRegistryForValidation m base) name =
     (case map_of (declaredEngineBindings m) name of Some b \<Rightarrow> Some b | None \<Rightarrow> map_of base name)"
proof -
  have "distinct (map fst (declaredEngineBindings m))"
    using assms(2) by (simp add: declaredEngineBindings_def comp_def case_prod_beta)
  then show ?thesis using assms(1)
    by (simp add: resolveEngineRegistryForValidation_def fold_map_set_lookup map_of_rev_distinct map_add_def
        split: option.splits)
qed

lemma enumerate_member: "(i, x) \<in> set (enumerate 0 xs) \<Longrightarrow> x \<in> set xs"
  by (auto simp: in_set_enumerate_eq)

text \<open>A parsed manifest never fails the checks the parser already made: an empty engine and a claim
  without its fixture pair.\<close>

lemma parsed_passes_proof:
  assumes "wf_manifest m" "e \<in> set (ValidateManifest (Some m) base)"
  shows "ve_Rule e \<noteq> ''CLM-005-engine-required'' \<and> ve_Rule e \<noteq> ''CLM-049''"
proof -
  have rules: "ru_Engine r \<noteq> []" "c \<in> set (ru_Claims r) \<Longrightarrow> fs_Positive (cm_Fixtures c) \<noteq> [] \<and> fs_Negative (cm_Fixtures c) \<noteq> []"
    if "(i, r) \<in> set (enumerate 0 (mf_Rules m))" for i r c
  proof -
    have "r \<in> set (mf_Rules m)" using that by (rule enumerate_member)
    then have "wf_rule (declaredEngineBindings m) (mf_NormalizedName m) r"
      using assms(1) unfolding wf_manifest_def list_all_iff by blast
    then show "ru_Engine r \<noteq> []" "c \<in> set (ru_Claims r) \<Longrightarrow> fs_Positive (cm_Fixtures c) \<noteq> [] \<and> fs_Negative (cm_Fixtures c) \<noteq> []"
      by (auto simp: wf_rule_def list_all_iff wf_claim_def)
  qed
  have claims: "c \<in> set cs" if "(j, c) \<in> set (enumerate 0 cs)" for j c and cs :: "Claim list"
    using that by (rule enumerate_member)
  have fields: "ve_Rule e \<noteq> ''CLM-005-engine-required'' \<and> ve_Rule e \<noteq> ''CLM-049''"
    if "e \<in> set (validateEngineFields m base)"
  proof -
    from that obtain i r where ir: "(i, r) \<in> set (enumerate 0 (mf_Rules m))"
      "e \<in> set (engine_field_errors (resolveEngineRegistryForValidation m base) (i, r))"
      by (auto simp: validateEngineFields_def)
    with rules(1) [OF ir(1)] show ?thesis
      by (auto simp: engine_field_errors_def vlit_def engineFieldContractClaim_def validateSandboxValueRules_def
          split: option.splits if_splits)
  qed
  have proofs: "ve_Rule e = ''CLM-051''" if "e \<in> set (validateFixtureProof m)"
    using that rules(2) claims
    by (fastforce simp: validateFixtureProof_def vlit_def split: if_splits)
  from assms(2) consider "e \<in> set (validateContentTypes m)" | "e \<in> set (validateEngineFields m base)"
    | "e \<in> set (validateSecurityFixtures m)" | "e \<in> set (validateToolConfigTrace m)"
    | "e \<in> set (validateCoOccurrence m)" | "e \<in> set (validateFixtureProof m)" | "e \<in> set (validateFixtureDirNaming m)"
    by (auto simp: ValidateManifest_def)
  then show ?thesis
  proof cases
    case 1 then show ?thesis by (auto simp: validateContentTypes_def vlit_def split: if_splits)
  next
    case 2 then show ?thesis by (rule fields)
  next
    case 3 then show ?thesis by (auto simp: validateSecurityFixtures_def vlit_def split: if_splits)
  next
    case 4 then show ?thesis by (auto simp: validateToolConfigTrace_def vlit_def split: if_splits)
  next
    case 5 then show ?thesis
      by (auto simp: validateCoOccurrence_def scaffold_pairs_def rule_pairs_def vlit_def Let_def split: if_splits)
  next
    case 6 then show ?thesis using proofs by simp
  next
    case 7 then show ?thesis
      by (auto simp: validateFixtureDirNaming_def fixture_dir_errors_def vlit_def Let_def split: if_splits)
  qed
qed

text \<open>An engine-only pack: the parser accepts it by design, and validation reports its content as
  unknown or empty whatever it declares.\<close>

lemma engine_only_invalid:
  assumes "mf_Rules m = []" "co_Scaffolds (mf_Content m) = []" "co_SDK (mf_Content m) = None"
  shows "\<exists>e\<in>set (ValidateManifest (Some m) base). ve_Rule e = ''CLM-005''"
  using assms by (simp add: ValidateManifest_def validateContentTypes_def vlit_def)

definition demo_manifest :: Manifest where
  "demo_manifest = \<lparr>mf_Name = ''Acme/eng'', mf_NormalizedName = [], mf_Version = ''1.0.0'', mf_Language = ''go'',
     mf_Archetype = ''enforcement'', mf_Description = ''d'',
     mf_Content = \<lparr>co_Ruleset = \<lparr>rl_Version = [], rl_Rules = []\<rparr>, co_Scaffolds = [], co_SDK = None\<rparr>,
     mf_ToolConfig = [],
     mf_Engines = [(''lint'', \<lparr>es_Command = ''l'', es_InputMode = ''none'', es_InputFlag = [], es_Convert = [], es_Producer = [],
        es_StdoutArtifact = [], es_ScopeKind = [], es_Category = [], es_GateType = ''lint'', es_StrictSarif = False,
        es_PackageScoped = False, es_ProjectTarget = [], es_CrashGuard = False, es_SuccessExitCodes = Some [0, 1],
        es_ExemptFromScopeFilter = False, es_Provision = None, es_FieldContract = None, es_Binding = undefined\<rparr>)],
     mf_Classification = \<lparr>cl_Source = [], cl_Test = [], cl_DependencyDirs = []\<rparr>, mf_TestNamePatterns = [], mf_Recipes = []\<rparr>"

theorem ParseManifest_wf_witness:
  "\<exists>m. ParseManifest (\<lambda>_. Inr demo_manifest) [] = Inr m \<and> wf_manifest m
     \<and> (\<exists>e\<in>set (ValidateManifest (Some m) []). ve_Rule e = ''CLM-005'')"
proof -
  have req: "required_fields_check demo_manifest = None" by code_simp
  obtain b where b: "parseEngineSpec (snd (hd (mf_Engines demo_manifest))) = Inr b"
    by (simp add: demo_manifest_def parseEngineSpec_def ParseInputMode_def ParseScopeKind_def ParseEngineCategory_def
        ParseGateType_def gate_types_def ValidateSuccessExitCodes_def maxExitStatus_def)
  then have eng: "parse_engines (mf_Engines demo_manifest)
      = Inr [(''lint'', (snd (hd (mf_Engines demo_manifest)))\<lparr>es_Binding := b\<rparr>)]"
    by (simp add: parse_engines_def demo_manifest_def)
  define m where "m = finish_manifest (demo_manifest\<lparr>mf_Engines := [(''lint'', (snd (hd (mf_Engines demo_manifest)))\<lparr>es_Binding := b\<rparr>)]\<rparr>)"
  have sv: "validateSemver ''1.0.0'' = None" by code_simp
  have "content_check (demo_manifest\<lparr>mf_Engines := [(''lint'', (snd (hd (mf_Engines demo_manifest)))\<lparr>es_Binding := b\<rparr>)]\<rparr>) = None"
    by (simp add: content_check_def first_failure_None ruleset_version_def demo_manifest_def sv sdk_check_def manifest_claims_def)
  then have p: "ParseManifest (\<lambda>_. Inr demo_manifest) [] = Inr m"
    by (simp add: ParseManifest_def req eng m_def Let_def)
  have "\<exists>e\<in>set (ValidateManifest (Some m) []). ve_Rule e = ''CLM-005''"
    by (rule engine_only_invalid) (simp_all add: m_def finish_manifest_def demo_manifest_def Let_def)
  with p ParseManifest_wf [OF p] show ?thesis by blast
qed

end
