(* ===== verification/Pack_Dispatch.thy ===== *)
theory Pack_Dispatch
  imports Sarif Pack_Manifest "HOL-Library.Multiset"
begin

text \<open>
  The dispatch of the installed packs' engines at gate time (\<open>src/cmd/backstop/pack_gate.go\<close>, with
  \<open>pack_gate_filemode.go\<close>, \<open>pack_gate_golint.go\<close> and \<open>pack_gate_provision.go\<close>): rules are grouped by
  engine, each engine runs once, its output is converted and parsed, and an engine that fails is
  recorded while the others go on.  Processes, the sandbox, files and decoders are the fields of an
  environment; a process takes the world and returns the world it leaves.
\<close>

record 'w engine_env =
  ev_Getwd :: "string + string"
  ev_Stat :: "'w \<Rightarrow> string \<Rightarrow> bool option"
  ev_ReadFile :: "'w \<Rightarrow> string \<Rightarrow> string + string"
  ev_Walk :: "'w \<Rightarrow> string \<Rightarrow> string + string list"
  ev_RunStdout :: "string \<Rightarrow> string list \<Rightarrow> 'w \<Rightarrow> (string \<times> run_error option) \<times> 'w"
  ev_SandboxStdout :: "string \<Rightarrow> string \<Rightarrow> string \<Rightarrow> 'w \<Rightarrow> (string \<times> bool \<times> string option) \<times> 'w"
  ev_SandboxRun :: "string \<Rightarrow> string list \<Rightarrow> string \<Rightarrow> 'w \<Rightarrow> (string \<times> bool \<times> string option) \<times> 'w"
  ev_LookPath :: "'w \<Rightarrow> string \<Rightarrow> bool"
  ev_Glob :: glob_match
  ev_BaseEngines :: Registry
  ev_Allowlist :: "(string, string) gomap"
  ev_DecodeSarif :: "string \<Rightarrow> string + sarif_run list"
  ev_HasRuns :: "string \<Rightarrow> bool"
  ev_DecodeCoverage :: "string \<Rightarrow> string + CoverageRecord list"

text \<open>\<open>ev_Stat\<close> is None when the path cannot be read and else says whether it is a directory; a
  usable script is a path that is there and no directory.\<close>

definition is_script :: "'w engine_env \<Rightarrow> 'w \<Rightarrow> string \<Rightarrow> bool" where
  "is_script env w path \<longleftrightarrow> ev_Stat env w path = Some False"

definition abs_path :: "'w engine_env \<Rightarrow> string \<Rightarrow> string + string" where
  "abs_path env p =
     (if IsAbs p then Inr (Clean p)
      else case ev_Getwd env of Inl e \<Rightarrow> Inl e | Inr cwd \<Rightarrow> Inr (AbsPath cwd p))"

subsection \<open>Registry and trust\<close>

definition resolveEngineRegistry :: "Registry \<Rightarrow> Manifest \<Rightarrow> Registry" where
  "resolveEngineRegistry base m = fold (\<lambda>(n, s) reg. map_set n (es_Binding s) reg) (mf_Engines m) base"

fun gateTypeHasDedicatedStep :: "GateType \<Rightarrow> bool" where
  "gateTypeHasDedicatedStep GateTypeSubstantiveness = True"
| "gateTypeHasDedicatedStep GateTypeContracts = True"
| "gateTypeHasDedicatedStep GateTypeCoverage = True"
| "gateTypeHasDedicatedStep _ = False"

definition dedicated_rule :: "Registry \<Rightarrow> Manifest \<Rightarrow> Rule \<Rightarrow> bool" where
  "dedicated_rule base m r =
     (case Registry_Lookup (resolveEngineRegistry base m) (ru_Engine r) of
        Inl _ \<Rightarrow> False | Inr b \<Rightarrow> gateTypeHasDedicatedStep (eb_GateType b))"

definition with_rules :: "Rule list \<Rightarrow> Manifest \<Rightarrow> Manifest" where
  "with_rules rs m = m\<lparr>mf_Content := (mf_Content m)\<lparr>co_Ruleset := (co_Ruleset (mf_Content m))\<lparr>rl_Rules := rs\<rparr>\<rparr>\<rparr>"

definition excludeDedicatedStepRules :: "Registry \<Rightarrow> Manifest list \<Rightarrow> Manifest list" where
  "excludeDedicatedStepRules base packs =
     map (\<lambda>m. if list_ex (dedicated_rule base m) (mf_Rules m)
              then with_rules (filter (\<lambda>r. \<not> dedicated_rule base m r) (mf_Rules m)) m
              else m) packs"

definition checkEngineToolAllowed :: "(string, string) gomap \<Rightarrow> Manifest \<Rightarrow> EngineBinding \<Rightarrow> string option" where
  "checkEngineToolAllowed allowlist m b =
     (case eb_Provision b of
        None \<Rightarrow> None
      | Some p \<Rightarrow> wrap_failure (''pack '' @ mf_NormalizedName m @ '': '') (CheckToolAllowed allowlist (pr_Tool p) (pr_Version p)))"

subsection \<open>Inputs and targets\<close>

definition splitCommand :: "string \<Rightarrow> string \<times> string list" where
  "splitCommand command = (case Fields command of [] \<Rightarrow> ([], []) | c # args \<Rightarrow> (c, args))"

definition nonEmpty :: "string \<Rightarrow> string \<Rightarrow> string" where
  "nonEmpty s fallback = (if s = [] then fallback else s)"

definition hasTestdataSegment :: "string \<Rightarrow> bool" where
  "hasTestdataSegment path \<longleftrightarrow> ''testdata'' \<in> set (Split path slash)"

definition excludeTestdataPaths :: "string list \<Rightarrow> string list" where
  "excludeTestdataPaths = filter (\<lambda>f. \<not> hasTestdataSegment f)"

definition resolveRulePath :: "'w engine_env \<Rightarrow> 'w \<Rightarrow> Manifest \<Rightarrow> string \<Rightarrow> Rule \<Rightarrow> string + string" where
  "resolveRulePath env w m packRoot r =
     (if ru_RulePath r = [] then Inl (''broken pack '' @ mf_NormalizedName m @ '': rule '' @ ru_ID r @ '' declares no rule_path'')
      else case abs_path env (JoinPath [packRoot, ru_RulePath r]) of
             Inl e \<Rightarrow> Inl (''resolving rule path for '' @ mf_NormalizedName m @ '': '' @ e)
           | Inr p \<Rightarrow>
               if is_script env w p then Inr p
               else Inl (''broken pack '' @ mf_NormalizedName m @ '': missing rule file '' @ p))"

definition wrap_error :: "string \<Rightarrow> string + 'a \<Rightarrow> string + 'a" where
  "wrap_error pre r = (case r of Inl e \<Rightarrow> Inl (pre @ e) | Inr x \<Rightarrow> Inr x)"

definition flag_args :: "string \<Rightarrow> string list \<Rightarrow> string list" where
  "flag_args flag xs = concat (map (\<lambda>x. [flag, x]) xs)"

definition pattern_of :: "Manifest \<Rightarrow> Rule \<Rightarrow> string + string" where
  "pattern_of m r =
     (if ru_Pattern r = [] then Inl (''broken pack '' @ mf_NormalizedName m @ '': pattern-arg rule '' @ ru_ID r @ '' declares no pattern'')
      else Inr (ru_Pattern r))"

definition gatherEngineInputs ::
  "'w engine_env \<Rightarrow> 'w \<Rightarrow> Manifest \<Rightarrow> string \<Rightarrow> EngineBinding \<Rightarrow> Rule list \<Rightarrow> string + string list" where
  "gatherEngineInputs env w m packRoot b rules =
     (case eb_InputMode b of
        InputModeConfigFile \<Rightarrow>
          (case find (\<lambda>r. ru_RulePath r \<noteq> []) rules of
             None \<Rightarrow> Inr []
           | Some r \<Rightarrow>
               (case wrap_error (''gathering config-file input for rule '' @ ru_ID r @ '': '') (resolveRulePath env w m packRoot r) of
                  Inl e \<Rightarrow> Inl e | Inr p \<Rightarrow> Inr [eb_InputFlag b, p]))
      | InputModeRuleFlags \<Rightarrow>
          (case map_results (\<lambda>r. wrap_error (''gathering rule-flag input for rule '' @ ru_ID r @ '': '') (resolveRulePath env w m packRoot r)) rules of
             Inl e \<Rightarrow> Inl e
           | Inr paths \<Rightarrow> Inr (flag_args (eb_InputFlag b) (sorted_set paths)))
      | InputModePatternArg \<Rightarrow>
          (case map_results (pattern_of m) rules of
             Inl e \<Rightarrow> Inl e
           | Inr patterns \<Rightarrow> Inr (flag_args (eb_InputFlag b) patterns))
      | InputModeNone \<Rightarrow> Inr [])"

text \<open>First occurrences, in order.\<close>

definition dedup :: "'a list \<Rightarrow> 'a list" where
  "dedup xs = rev (remdups (rev xs))"

definition goTestPackageSelector :: "string \<Rightarrow> string" where
  "goTestPackageSelector f =
     (let dir = Dir f in
      if dir = [] \<or> dir = dot then dot
      else if HasPrefix dir ''/'' \<or> HasPrefix dir ''./'' then dir
      else ''./'' @ dir)"

definition packageSelectorsFor :: "string list \<Rightarrow> string list" where
  "packageSelectorsFor files = dedup (map goTestPackageSelector files)"

datatype fileModeDecision =
    fileModeNotApplicable
  | fileModeTargetsDerived "string list" bool
  | fileModeClaimsNothing

definition fileModeTestTargets :: "glob_match \<Rightarrow> Manifest \<Rightarrow> EngineBinding \<Rightarrow> GateScope option \<Rightarrow> fileModeDecision" where
  "fileModeTestTargets glob m b scope =
     (case scope of
        None \<Rightarrow> fileModeNotApplicable
      | Some sc \<Rightarrow>
          if gs_Mode sc \<noteq> GateScopeModeFile \<or> gs_Files sc = [] then fileModeNotApplicable
          else if \<not> eb_PackageScoped b then fileModeNotApplicable
          else
            let classifier = NewSourceClassifier (cl_Source (mf_Classification m)) (cl_Test (mf_Classification m)) in
            if \<not> DeclaresAnyGlobs classifier then fileModeTargetsDerived (packageSelectorsFor (gs_Files sc)) True
            else
              let claimed = filter (ClaimsPath glob classifier) (excludeTestdataPaths (gs_Files sc)) in
              if claimed = [] then fileModeClaimsNothing
              else fileModeTargetsDerived (packageSelectorsFor claimed) False)"

definition dispatchAdvisory :: "Manifest \<Rightarrow> string \<Rightarrow> string \<Rightarrow> Violation" where
  "dispatchAdvisory m rule message =
     (violation_lit rule [] message ''warning'')\<lparr>v_SourcePack := mf_NormalizedName m, v_ProjectWide := True\<rparr>"

subsection \<open>Running a findings engine\<close>

datatype arg_plan =
    SkipEngine Violation
  | RunArgs "string list" "Violation list"

definition skipped_message :: "Manifest \<Rightarrow> EngineBinding \<Rightarrow> nat \<Rightarrow> string" where
  "skipped_message m b n =
     ''pack '' @ mf_NormalizedName m @ '' engine '' @ quote (eb_Command b)
     @ '' was NOT dispatched: the pack's declared classification globs claim none of the '' @ Itoa (int n)
     @ '' file(s) in this file-mode scope, so it has no package to run. This is a SKIP, not a clean pass ''
     @ message_dash @ '' no check from this engine covered this run.''"

definition unclassified_message :: "Manifest \<Rightarrow> EngineBinding \<Rightarrow> string" where
  "unclassified_message m b =
     ''pack '' @ mf_NormalizedName m @ '' declares package_scoped engine '' @ quote (eb_Command b)
     @ '' but NO top-level classification globs, so backstop cannot tell which scoped files it owns. ''
     @ ''The file-mode derivation was preserved unchecked; declare `classification:` so an unowned file can be skipped instead of guessed at.''"

definition scope_file_count :: "GateScope option \<Rightarrow> nat" where
  "scope_file_count scope = (case scope of None \<Rightarrow> 0 | Some sc \<Rightarrow> length (gs_Files sc))"

definition engine_args ::
  "glob_match \<Rightarrow> Manifest \<Rightarrow> string \<Rightarrow> GateScope option \<Rightarrow> EngineBinding \<Rightarrow> string list \<Rightarrow> arg_plan" where
  "engine_args glob m projectRoot scope b inputs =
     (let args = snd (splitCommand (eb_Command b)) @ inputs in
      if eb_ScopeKind b = ScopeKindProjectWide then
        (if eb_ProjectTarget b = [] then RunArgs args []
         else case fileModeTestTargets glob m b scope of
                fileModeClaimsNothing \<Rightarrow>
                  SkipEngine (dispatchAdvisory m ''backstop/gate/package-scoped-engine-skipped-unclaimed-scope''
                                (skipped_message m b (scope_file_count scope)))
              | fileModeTargetsDerived targets absent \<Rightarrow>
                  RunArgs (args @ targets)
                    (if absent then [dispatchAdvisory m ''backstop/gate/package-scoped-engine-classification-absent''
                                       (unclassified_message m b)] else [])
              | fileModeNotApplicable \<Rightarrow> RunArgs (args @ [eb_ProjectTarget b]) [])
      else RunArgs (args @ (case scope of None \<Rightarrow> [projectRoot] | Some sc \<Rightarrow> excludeTestdataPaths (gs_Files sc))) [])"

text \<open>What is invoked: the producer script when one is declared, else the tool.\<close>

definition producer_path :: "string \<Rightarrow> EngineBinding \<Rightarrow> string" where
  "producer_path packRoot b = JoinPath [packRoot, eb_Producer b]"

definition producer_missing :: "'w engine_env \<Rightarrow> 'w \<Rightarrow> string \<Rightarrow> Manifest \<Rightarrow> string \<Rightarrow> EngineBinding \<Rightarrow> string option" where
  "producer_missing env w kind m packRoot b =
     fail_if (eb_Producer b \<noteq> [] \<and> \<not> is_script env w (producer_path packRoot b))
       (''broken pack '' @ mf_NormalizedName m @ '': missing '' @ kind @ '' producer script '' @ producer_path packRoot b)"

definition invoked_name :: "string \<Rightarrow> EngineBinding \<Rightarrow> string" where
  "invoked_name packRoot b = (if eb_Producer b \<noteq> [] then producer_path packRoot b else fst (splitCommand (eb_Command b)))"

definition never_started_subject :: "string \<Rightarrow> EngineBinding \<Rightarrow> string" where
  "never_started_subject packRoot b = (if eb_Producer b \<noteq> [] then producer_path packRoot b else eb_Command b)"

definition error_value :: "run_error option \<Rightarrow> string" where
  "error_value e = (case e of None \<Rightarrow> ''<nil>'' | Some e \<Rightarrow> run_error_text e)"

definition neverStartedError :: "Manifest \<Rightarrow> string \<Rightarrow> run_error option \<Rightarrow> string" where
  "neverStartedError m invoked e =
     ''pack '' @ mf_NormalizedName m @ '' engine '' @ quote invoked @ '' never started: the process could not be executed (''
     @ error_value e @ '') '' @ message_dash
     @ '' this is a broken run, not a finding-free pass; ensure the command is present and executable''"

definition exitAccepted :: "run_error option \<Rightarrow> int list \<Rightarrow> bool" where
  "exitAccepted e codes =
     (case e of
        None \<Rightarrow> 0 \<in> set codes
      | Some _ \<Rightarrow> (case ExitStatus e of None \<Rightarrow> False | Some code \<Rightarrow> code \<in> set codes))"

definition successExitCodesHint :: "int list \<Rightarrow> int \<Rightarrow> string" where
  "successExitCodesHint codes status = ''['' @ Join (map Itoa (sort (codes @ [status]))) '', '' @ '']''"

definition emptyPayloadExitError :: "Manifest \<Rightarrow> EngineBinding \<Rightarrow> run_error option \<Rightarrow> int list \<Rightarrow> string" where
  "emptyPayloadExitError m b e codes =
     (let pre = ''pack '' @ mf_NormalizedName m @ '' engine '' @ quote (eb_Command b) @ '': '' in
      if e \<noteq> None \<and> ExitStatus e = None then
        pre @ ''a failed run with no exit status ('' @ error_value e
        @ '') with an empty findings payload is an engine failure, not a clean pass''
      else
        let status = (case ExitStatus e of None \<Rightarrow> 0 | Some c \<Rightarrow> c) in
        pre @ ''exit status '' @ Itoa status
        @ '' with an empty findings payload is an engine failure, not a clean pass; if exit status '' @ Itoa status
        @ '' is a legitimate no-findings result for this tool, declare it: success_exit_codes: ''
        @ successExitCodesHint codes status)"

text \<open>The payload is standard output, or the artifact the engine wrote instead.\<close>

definition engine_payload ::
  "'w engine_env \<Rightarrow> 'w \<Rightarrow> string \<Rightarrow> (string \<Rightarrow> string \<Rightarrow> string) \<Rightarrow> EngineBinding \<Rightarrow> string \<Rightarrow> string + string" where
  "engine_payload env w projectRoot missing b stdout =
     (if eb_StdoutArtifact b = [] then Inr stdout
      else let path = JoinPath [projectRoot, eb_StdoutArtifact b] in
           case ev_ReadFile env w path of Inl e \<Rightarrow> Inl (missing path e) | Inr body \<Rightarrow> Inr body)"

definition requireLintSarifShape :: "(string \<Rightarrow> bool) \<Rightarrow> Manifest \<Rightarrow> EngineBinding \<Rightarrow> string \<Rightarrow> string option" where
  "requireLintSarifShape hasRuns m b stdout =
     fail_if (eb_StrictSarif b \<and> TrimSpace stdout \<noteq> [] \<and> \<not> hasRuns (TrimSpace stdout))
       (''pack '' @ mf_NormalizedName m @ '' engine '' @ quote (eb_Command b)
        @ '': output is not golangci-lint v2 SARIF (no `runs` array) '' @ message_dash
        @ '' a v1/too-old golangci-lint would silently read as zero findings; upgrade to v2 or fix the lint config'')"

text \<open>The convert script runs in the sandbox on the payload.  The flag says that the native sandbox
  was applied.\<close>

definition convert_path :: "string \<Rightarrow> EngineBinding \<Rightarrow> string" where
  "convert_path packRoot b = JoinPath [packRoot, eb_Convert b]"

definition convert_payload ::
  "'w engine_env \<Rightarrow> string \<Rightarrow> Manifest \<Rightarrow> string \<Rightarrow> EngineBinding \<Rightarrow> string \<Rightarrow> 'w \<Rightarrow> ((string + string) \<times> bool) \<times> 'w" where
  "convert_payload env kind m packRoot b payload w =
     (if \<not> is_script env w (convert_path packRoot b)
      then ((Inl (''broken pack '' @ mf_NormalizedName m @ '': missing '' @ kind @ ''convert script '' @ convert_path packRoot b), False), w)
      else case ev_SandboxStdout env (convert_path packRoot b) packRoot payload w of
             ((out, applied, None), w') \<Rightarrow> ((Inr out, applied), w')
           | ((out, applied, Some e), w') \<Rightarrow>
               ((Inl (''pack '' @ mf_NormalizedName m @ '': '' @ kind @ ''convert step ('' @ eb_Convert b @ '') failed: '' @ e), applied), w'))"

definition findings_violation :: "Manifest \<Rightarrow> string \<Rightarrow> EngineBinding \<Rightarrow> CheckViolation \<Rightarrow> Violation" where
  "findings_violation m projectRoot b v =
     zero_violation\<lparr>v_Rule := NamespacedRuleID (mf_NormalizedName m) (kv_Rule v),
       v_File := NormalizePath projectRoot (kv_File v), v_Line := kv_Line v, v_Message := kv_Message v,
       v_Severity := nonEmpty (kv_Severity v) ''error'', v_SourcePack := mf_NormalizedName m,
       v_ProjectWide := eb_ExemptFromScopeFilter b, v_GateType := GateType_String (eb_GateType b),
       v_RegionHash := kv_Fingerprint v, v_Properties := kv_Properties v\<rparr>"

text \<open>The end of the path: SARIF to violations, with the crash guard.\<close>

definition findings_of ::
  "'w engine_env \<Rightarrow> Manifest \<Rightarrow> string \<Rightarrow> EngineBinding \<Rightarrow> run_error option \<Rightarrow> string \<Rightarrow> string + Violation list" where
  "findings_of env m projectRoot b e sarif =
     (case ParsePackFindings (ev_DecodeSarif env) sarif of
        Inl err \<Rightarrow> Inl (''pack '' @ mf_NormalizedName m @ '' engine '' @ eb_Command b @ '': convert/parse to SARIF failed: '' @ err)
      | Inr found \<Rightarrow>
          if eb_CrashGuard b \<and> \<not> exitAccepted e (EffectiveSuccessExitCodes b) \<and> found = []
          then Inl (''pack '' @ mf_NormalizedName m @ '' engine '' @ quote (eb_Command b)
                    @ '' crashed: non-zero exit with no parseable findings: ''
                    @ (case e of None \<Rightarrow> ''%!w(<nil>)'' | Some r \<Rightarrow> run_error_text r))
          else Inr (map (findings_violation m projectRoot b) found))"

text \<open>What a finished process means.\<close>

definition findings_artifact_missing :: "Manifest \<Rightarrow> EngineBinding \<Rightarrow> string \<Rightarrow> string \<Rightarrow> string" where
  "findings_artifact_missing m b path e =
     ''pack '' @ mf_NormalizedName m @ '' findings engine '' @ quote (eb_Command b) @ '': declared stdout_artifact ''
     @ quote (eb_StdoutArtifact b) @ '' not produced ('' @ path @ ''): '' @ e"

definition interpret_run ::
  "'w engine_env \<Rightarrow> Manifest \<Rightarrow> string \<Rightarrow> string \<Rightarrow> EngineBinding \<Rightarrow> string \<Rightarrow> run_error option \<Rightarrow> 'w
   \<Rightarrow> ((string + Violation list) \<times> bool) \<times> 'w" where
  "interpret_run env m packRoot projectRoot b stdout e w =
     (if NeverStarted e then ((Inl (neverStartedError m (never_started_subject packRoot b) e), False), w)
      else
      (case engine_payload env w projectRoot (findings_artifact_missing m b) b stdout of
        Inl err \<Rightarrow> ((Inl err, False), w)
      | Inr payload \<Rightarrow>
          if \<not> eb_CrashGuard b \<and> TrimSpace payload = [] \<and> \<not> exitAccepted e (EffectiveSuccessExitCodes b)
          then ((Inl (emptyPayloadExitError m b e (EffectiveSuccessExitCodes b)), False), w)
          else if eb_Convert b = [] then
            ((case requireLintSarifShape (ev_HasRuns env) m b payload of
                Some err \<Rightarrow> Inl (''validating SARIF shape for pack '' @ mf_NormalizedName m @ '': '' @ err)
              | None \<Rightarrow> findings_of env m projectRoot b e payload, False), w)
          else
            (case convert_payload env [] m packRoot b payload w of
               ((Inl err, applied), w') \<Rightarrow> ((Inl err, applied), w')
             | ((Inr sarif, applied), w') \<Rightarrow> ((findings_of env m projectRoot b e sarif, applied), w'))))"

definition runFindingsEngine ::
  "'w engine_env \<Rightarrow> Manifest \<Rightarrow> string \<Rightarrow> string \<Rightarrow> GateScope option \<Rightarrow> EngineBinding \<Rightarrow> Rule list \<Rightarrow> 'w
   \<Rightarrow> ((string + Violation list) \<times> bool) \<times> 'w" where
  "runFindingsEngine env m packRoot projectRoot scope b rules w =
     (case gatherEngineInputs env w m packRoot b rules of
        Inl e \<Rightarrow> ((Inl (''gathering engine inputs for pack '' @ mf_NormalizedName m @ '': '' @ e), False), w)
      | Inr inputs \<Rightarrow>
     (case checkEngineToolAllowed (ev_Allowlist env) m b of
        Some e \<Rightarrow> ((Inl (''pack '' @ mf_NormalizedName m @ '' engine trust gate: '' @ e), False), w)
      | None \<Rightarrow>
     (case engine_args (ev_Glob env) m projectRoot scope b inputs of
        SkipEngine advisory \<Rightarrow> ((Inr [advisory], False), w)
      | RunArgs args advisories \<Rightarrow>
     (case producer_missing env w ''findings'' m packRoot b of
        Some e \<Rightarrow> ((Inl e, False), w)
      | None \<Rightarrow>
     (case ev_RunStdout env (invoked_name packRoot b) args w of ((stdout, e), w1) \<Rightarrow>
     (case interpret_run env m packRoot projectRoot b stdout e w1 of
        ((Inl err, applied), w2) \<Rightarrow> ((Inl err, applied), w2)
      | ((Inr found, applied), w2) \<Rightarrow> ((Inr (found @ advisories), applied), w2)))))))"

subsection \<open>Running the sandbox engine\<close>

definition sandbox_violation :: "Manifest \<Rightarrow> Rule \<Rightarrow> string \<Rightarrow> string \<Rightarrow> Violation" where
  "sandbox_violation m r out e =
     (violation_lit (if ru_NamespacedID r = [] then NamespacedRuleID (mf_NormalizedName m) (ru_ID r) else ru_NamespacedID r)
        [] (if TrimSpace out = [] then e else TrimSpace out) ''error'')\<lparr>v_SourcePack := mf_NormalizedName m\<rparr>"

text \<open>One validator over its targets: the violations, whether the native sandbox was applied.\<close>

fun sandbox_targets ::
  "'w engine_env \<Rightarrow> Manifest \<Rightarrow> string \<Rightarrow> Rule \<Rightarrow> string \<Rightarrow> string list \<Rightarrow> 'w \<Rightarrow> (Violation list \<times> bool) \<times> 'w" where
  "sandbox_targets env m packRoot r path [] w = (([], False), w)"
| "sandbox_targets env m packRoot r path (t # ts) w =
     (case ev_SandboxRun env path [t] packRoot w of ((out, applied, e), w1) \<Rightarrow>
       (case sandbox_targets env m packRoot r path ts w1 of ((vs, rest), w2) \<Rightarrow>
          (((case e of None \<Rightarrow> [] | Some err \<Rightarrow> [sandbox_violation m r out err]) @ vs, applied \<or> rest), w2)))"

definition rule_targets :: "'w engine_env \<Rightarrow> 'w \<Rightarrow> string \<Rightarrow> Rule \<Rightarrow> string + string list" where
  "rule_targets env w projectRoot r =
     (if ru_InputScope r = ''single-file'' then ev_Walk env w projectRoot else Inr [projectRoot])"

definition validator_path :: "string \<Rightarrow> Rule \<Rightarrow> string" where
  "validator_path packRoot r = JoinPath [packRoot, ru_Validator r]"

fun runSandboxEngine ::
  "'w engine_env \<Rightarrow> Manifest \<Rightarrow> string \<Rightarrow> string \<Rightarrow> Rule list \<Rightarrow> 'w \<Rightarrow> ((string + Violation list) \<times> bool) \<times> 'w" where
  "runSandboxEngine env m packRoot projectRoot [] w = ((Inr [], False), w)"
| "runSandboxEngine env m packRoot projectRoot (r # rs) w =
     (if \<not> is_script env w (validator_path packRoot r)
      then ((Inl (''broken pack '' @ mf_NormalizedName m @ '': missing validator '' @ validator_path packRoot r), False), w)
      else case rule_targets env w projectRoot r of
             Inl e \<Rightarrow> ((Inl (''walking project files for '' @ mf_NormalizedName m @ '': '' @ e), False), w)
           | Inr targets \<Rightarrow>
               (case sandbox_targets env m packRoot r (validator_path packRoot r) targets w of ((vs, applied), w1) \<Rightarrow>
               (case runSandboxEngine env m packRoot projectRoot rs w1 of
                  ((Inl e, later), w2) \<Rightarrow> ((Inl e, applied \<or> later), w2)
                | ((Inr rest, later), w2) \<Rightarrow> ((Inr (vs @ rest), applied \<or> later), w2))))"

subsection \<open>Dispatch\<close>

definition engine_order :: "Manifest \<Rightarrow> string list" where
  "engine_order m = dedup (map ru_Engine (mf_Rules m))"

definition engine_rules :: "Manifest \<Rightarrow> string \<Rightarrow> Rule list" where
  "engine_rules m name = filter (\<lambda>r. ru_Engine r = name) (mf_Rules m)"

definition pack_root :: "string \<Rightarrow> Manifest \<Rightarrow> string" where
  "pack_root packDir m = JoinPath [packDir, mf_NormalizedName m]"

text \<open>One engine of one pack: a job.  The text of its error is the one recorded.\<close>

definition run_job ::
  "'w engine_env \<Rightarrow> string \<Rightarrow> string \<Rightarrow> GateScope option \<Rightarrow> Manifest \<times> string \<Rightarrow> 'w
   \<Rightarrow> ((string + Violation list) \<times> bool) \<times> 'w" where
  "run_job env packDir projectRoot scope job w =
     (case job of (m, name) \<Rightarrow>
      case Registry_Lookup (resolveEngineRegistry (ev_BaseEngines env) m) name of
        Inl e \<Rightarrow> ((Inl (''pack '' @ mf_NormalizedName m @ '': '' @ e), False), w)
      | Inr b \<Rightarrow>
          if eb_InputMode b = InputModeNone \<and> eb_Command b = [] then
            (case runSandboxEngine env m (pack_root packDir m) projectRoot (engine_rules m name) w of
               ((Inl e, applied), w1) \<Rightarrow>
                 ((Inl (''dispatching sandbox engine '' @ quote name @ '' for pack '' @ mf_NormalizedName m @ '': '' @ e), applied), w1)
             | r \<Rightarrow> r)
          else
            (case runFindingsEngine env m (pack_root packDir m) projectRoot scope b (engine_rules m name) w of
               ((Inl e, applied), w1) \<Rightarrow>
                 ((Inl (''dispatching findings engine '' @ quote name @ '' for pack '' @ mf_NormalizedName m @ '': '' @ e), applied), w1)
             | r \<Rightarrow> r))"

definition engineErrorViolation :: "string \<Rightarrow> Violation" where
  "engineErrorViolation e = (violation_lit StepPackEngines [] e ''error'')\<lparr>v_ProjectWide := True\<rparr>"

definition pack_jobs :: "Manifest list \<Rightarrow> (Manifest \<times> string) list" where
  "pack_jobs packs = concat (map (\<lambda>m. map (Pair m) (engine_order m)) packs)"

text \<open>The loop goes on past a failing job.  A dispatch result: violations, the error texts in order,
  and the sandbox flag; the error of the Go function is their join, nil when there is none.\<close>

record dispatch_result =
  dr_Violations :: "Violation list"
  dr_Errors :: "string list"
  dr_NativeSandboxApplied :: bool

definition no_dispatch :: dispatch_result where
  "no_dispatch = \<lparr>dr_Violations = [], dr_Errors = [], dr_NativeSandboxApplied = False\<rparr>"

definition record_job :: "(string + Violation list) \<times> bool \<Rightarrow> dispatch_result \<Rightarrow> dispatch_result" where
  "record_job outcome d =
     (let d' = d\<lparr>dr_NativeSandboxApplied := dr_NativeSandboxApplied d \<or> snd outcome\<rparr> in
      case fst outcome of
        Inl e \<Rightarrow> d'\<lparr>dr_Errors := dr_Errors d @ [e], dr_Violations := dr_Violations d @ [engineErrorViolation e]\<rparr>
      | Inr vs \<Rightarrow> d'\<lparr>dr_Violations := dr_Violations d @ vs\<rparr>)"

fun run_jobs ::
  "'w engine_env \<Rightarrow> string \<Rightarrow> string \<Rightarrow> GateScope option \<Rightarrow> (Manifest \<times> string) list \<Rightarrow> dispatch_result \<Rightarrow> 'w
   \<Rightarrow> dispatch_result \<times> 'w" where
  "run_jobs env packDir projectRoot scope [] d w = (d, w)"
| "run_jobs env packDir projectRoot scope (j # js) d w =
     (case run_job env packDir projectRoot scope j w of (outcome, w1) \<Rightarrow>
        run_jobs env packDir projectRoot scope js (record_job outcome d) w1)"

definition dispatchPackEnginesWithEvidence ::
  "'w engine_env \<Rightarrow> Manifest list \<Rightarrow> string \<Rightarrow> string \<Rightarrow> GateScope option \<Rightarrow> 'w \<Rightarrow> dispatch_result \<times> 'w" where
  "dispatchPackEnginesWithEvidence env packs packDir projectRoot scope w =
     run_jobs env packDir projectRoot scope (pack_jobs packs) no_dispatch w"

definition dispatch_error :: "dispatch_result \<Rightarrow> string option" where
  "dispatch_error d = (if dr_Errors d = [] then None else Some (Join (dr_Errors d) [CHR 0x0A]))"

subsection \<open>Coverage engines\<close>

definition coverage_artifact_missing :: "Manifest \<Rightarrow> EngineBinding \<Rightarrow> string \<Rightarrow> string \<Rightarrow> string" where
  "coverage_artifact_missing m b path e =
     ''pack '' @ mf_NormalizedName m @ '' coverage engine '' @ quote (eb_Command b) @ '': declared stdout_artifact ''
     @ quote (eb_StdoutArtifact b) @ '' not produced (read '' @ path @ ''): '' @ e"

text \<open>A producer shapes its own invocation; a plain command gets the gathered inputs and, project-wide,
  the target.\<close>

definition coverage_args :: "EngineBinding \<Rightarrow> string list \<Rightarrow> string list" where
  "coverage_args b inputs =
     (if eb_Producer b \<noteq> [] then []
      else snd (splitCommand (eb_Command b)) @ inputs
           @ (if eb_ScopeKind b = ScopeKindProjectWide \<and> eb_ProjectTarget b \<noteq> [] then [eb_ProjectTarget b] else []))"

definition coverage_records ::
  "'w engine_env \<Rightarrow> Manifest \<Rightarrow> string \<Rightarrow> string \<Rightarrow> EngineBinding \<Rightarrow> string \<Rightarrow> 'w
   \<Rightarrow> ((string + CoverageRecord list) \<times> bool) \<times> 'w" where
  "coverage_records env m packRoot projectRoot b stdout w =
     (case engine_payload env w projectRoot (coverage_artifact_missing m b) b stdout of
        Inl e \<Rightarrow> ((Inl e, False), w)
      | Inr payload \<Rightarrow>
          if eb_Convert b = []
          then ((Inl (''broken pack '' @ mf_NormalizedName m @ '': coverage engine '' @ quote (eb_Command b)
                      @ '' declares no convert '' @ message_dash
                      @ '' its native profile is not coverage-records and must be normalized''), False), w)
          else case convert_payload env ''coverage '' m packRoot b payload w of
                 ((Inl e, applied), w') \<Rightarrow> ((Inl e, applied), w')
               | ((Inr out, applied), w') \<Rightarrow>
                   ((wrap_error (''pack '' @ mf_NormalizedName m @ '' coverage engine '' @ eb_Command b
                                 @ '': convert/parse to coverage-records failed: '')
                       (ParsePackCoverage (ev_DecodeCoverage env) out), applied), w'))"

definition runCoverageEngine ::
  "'w engine_env \<Rightarrow> Manifest \<Rightarrow> string \<Rightarrow> string \<Rightarrow> EngineBinding \<Rightarrow> Rule list \<Rightarrow> 'w
   \<Rightarrow> ((string + CoverageRecord list) \<times> bool) \<times> 'w" where
  "runCoverageEngine env m packRoot projectRoot b rules w =
     (case gatherEngineInputs env w m packRoot b rules of
        Inl e \<Rightarrow> ((Inl (''gathering coverage engine inputs for pack '' @ mf_NormalizedName m @ '': '' @ e), False), w)
      | Inr inputs \<Rightarrow>
     (case first_failure [checkEngineToolAllowed (ev_Allowlist env) m b, producer_missing env w ''coverage'' m packRoot b] of
        Some e \<Rightarrow> ((Inl e, False), w)
      | None \<Rightarrow>
     (case ev_RunStdout env (invoked_name packRoot b) (coverage_args b inputs) w of ((stdout, e), w1) \<Rightarrow>
        if NeverStarted e then ((Inl (neverStartedError m (never_started_subject packRoot b) e), False), w1)
        else coverage_records env m packRoot projectRoot b stdout w1)))"

text \<open>The coverage dispatch stops at the first error.\<close>

fun coverage_jobs ::
  "'w engine_env \<Rightarrow> string \<Rightarrow> string \<Rightarrow> (Manifest \<times> string) list \<Rightarrow> CoverageRecord list \<Rightarrow> bool \<Rightarrow> 'w
   \<Rightarrow> ((string + CoverageRecord list) \<times> bool) \<times> 'w" where
  "coverage_jobs env packDir projectRoot [] records native w = ((Inr records, native), w)"
| "coverage_jobs env packDir projectRoot ((m, name) # js) records native w =
     (case Registry_Lookup (resolveEngineRegistry (ev_BaseEngines env) m) name of
        Inl e \<Rightarrow> ((Inl (''pack '' @ mf_NormalizedName m @ '': '' @ e), False), w)
      | Inr b \<Rightarrow>
          if eb_GateType b \<noteq> GateTypeCoverage then coverage_jobs env packDir projectRoot js records native w
          else case runCoverageEngine env m (pack_root packDir m) projectRoot b (engine_rules m name) w of
                 ((Inl e, applied), w1) \<Rightarrow>
                   ((Inl (''dispatching coverage engine '' @ quote name @ '' for pack '' @ mf_NormalizedName m @ '': '' @ e), native \<or> applied), w1)
               | ((Inr recs, applied), w1) \<Rightarrow>
                   coverage_jobs env packDir projectRoot js (records @ recs) (native \<or> applied) w1)"

definition dispatchPackCoverageWithEvidence ::
  "'w engine_env \<Rightarrow> Manifest list \<Rightarrow> string \<Rightarrow> string \<Rightarrow> 'w \<Rightarrow> ((string + CoverageRecord list) \<times> bool) \<times> 'w" where
  "dispatchPackCoverageWithEvidence env packs packDir projectRoot w =
     coverage_jobs env packDir projectRoot (pack_jobs packs) [] False w"

subsection \<open>Provisioning\<close>

record requiredTool =
  rt_name :: string
  rt_pack :: string
  rt_engine :: string
  rt_provision :: "Provision option"

definition engineToolName :: "string \<Rightarrow> string" where
  "engineToolName command = (case Fields command of [] \<Rightarrow> [] | c # _ \<Rightarrow> c)"

definition require_tool :: "Manifest \<Rightarrow> string \<Rightarrow> EngineBinding \<Rightarrow> (string, requiredTool) gomap \<Rightarrow> (string, requiredTool) gomap" where
  "require_tool m name b required =
     (let tool = engineToolName (eb_Command b) in
      if tool = [] \<or> map_has required tool then required
      else map_set tool \<lparr>rt_name = tool, rt_pack = mf_NormalizedName m, rt_engine = name, rt_provision = eb_Provision b\<rparr> required)"

fun collect_tools ::
  "Registry \<Rightarrow> (string, string) gomap \<Rightarrow> (Manifest \<times> string) list \<Rightarrow> (string, requiredTool) gomap
   \<Rightarrow> string + (string, requiredTool) gomap" where
  "collect_tools base allowlist [] required = Inr required"
| "collect_tools base allowlist ((m, name) # js) required =
     (case Registry_Lookup (resolveEngineRegistry base m) name of
        Inl e \<Rightarrow> Inl (''pack '' @ mf_NormalizedName m @ '': '' @ e)
      | Inr b \<Rightarrow>
          (case checkEngineToolAllowed allowlist m b of
             Some e \<Rightarrow> Inl e
           | None \<Rightarrow> collect_tools base allowlist js (require_tool m name b required)))"

definition collectRequiredEngineTools :: "Registry \<Rightarrow> (string, string) gomap \<Rightarrow> Manifest list \<Rightarrow> string + requiredTool list" where
  "collectRequiredEngineTools base allowlist packs =
     (case collect_tools base allowlist (pack_jobs packs) [] of
        Inl e \<Rightarrow> Inl e
      | Inr required \<Rightarrow> Inr (List.map_filter (map_of required) (sort (map fst required))))"

definition absentToolMessage :: "requiredTool \<Rightarrow> string" where
  "absentToolMessage rt =
     (case rt_provision rt of
        None \<Rightarrow>
          ''required tool '' @ quote (rt_name rt)
          @ '' not found on PATH: it is an assume-present Layer-0 native tool the project must provide on PATH (backstop never auto-provisions it); add ''
          @ quote (rt_name rt) @ '' to PATH and retry''
      | Some p \<Rightarrow>
          ''required tool '' @ quote (rt_name rt) @ '' not found on PATH: it is argv[0] of the command engine ''
          @ quote (rt_engine rt) @ '' of pack '' @ rt_pack rt
          @ '' declares, pinned in the trusted-tool allowlist as tool '' @ quote (pr_Tool p) @ '' version ''
          @ quote (pr_Version p) @ '' '' @ message_dash
          @ '' backstop does not install pack-declared tools (the pin is a trust entry, not an installer); add ''
          @ quote (rt_name rt) @ '' to PATH and retry'')"

definition provisionEngines :: "'w engine_env \<Rightarrow> Manifest list \<Rightarrow> 'w \<Rightarrow> string option" where
  "provisionEngines env packs w =
     (case collectRequiredEngineTools (ev_BaseEngines env) (ev_Allowlist env) packs of
        Inl e \<Rightarrow> Some e
      | Inr tools \<Rightarrow> first_failure (map (\<lambda>t. fail_if (\<not> ev_LookPath env w (rt_name t)) (absentToolMessage t)) tools))"

subsection \<open>A clean result is earned\<close>

lemma findings_of_clean:
  "findings_of env m projectRoot b e sarif = Inr [] \<longleftrightarrow>
     ParsePackFindings (ev_DecodeSarif env) sarif = Inr []
     \<and> (eb_CrashGuard b \<longrightarrow> exitAccepted e (EffectiveSuccessExitCodes b))"
  by (auto simp: findings_of_def split: sum.splits)

lemma findings_of_mem:
  assumes "findings_of env m projectRoot b e sarif = Inr vs" "v \<in> set vs"
  shows "\<exists>found. v = findings_violation m projectRoot b found"
  using assms by (auto simp: findings_of_def split: sum.splits if_splits)

text \<open>The bytes that are parsed: the payload, or what the convert script made of it.\<close>

definition parsed_payload ::
  "'w engine_env \<Rightarrow> Manifest \<Rightarrow> string \<Rightarrow> EngineBinding \<Rightarrow> string \<Rightarrow> 'w \<Rightarrow> string + string" where
  "parsed_payload env m packRoot b payload w =
     (if eb_Convert b = [] then
        (case requireLintSarifShape (ev_HasRuns env) m b payload of Some e \<Rightarrow> Inl e | None \<Rightarrow> Inr payload)
      else fst (fst (convert_payload env [] m packRoot b payload w)))"

lemma interpret_run_Inr:
  "fst (fst (interpret_run env m packRoot projectRoot b stdout e w)) = Inr vs \<longleftrightarrow>
     \<not> NeverStarted e
     \<and> (\<exists>payload sarif. engine_payload env w projectRoot (findings_artifact_missing m b) b stdout = Inr payload
          \<and> (eb_CrashGuard b \<or> TrimSpace payload \<noteq> [] \<or> exitAccepted e (EffectiveSuccessExitCodes b))
          \<and> parsed_payload env m packRoot b payload w = Inr sarif
          \<and> findings_of env m projectRoot b e sarif = Inr vs)"
  by (auto simp: interpret_run_def parsed_payload_def split: sum.splits option.splits prod.splits)

lemma runFindingsEngine_Inr:
  "fst (fst (runFindingsEngine env m packRoot projectRoot scope b rules w)) = Inr vs \<longleftrightarrow>
     (\<exists>inputs. gatherEngineInputs env w m packRoot b rules = Inr inputs
        \<and> checkEngineToolAllowed (ev_Allowlist env) m b = None
        \<and> (case engine_args (ev_Glob env) m projectRoot scope b inputs of
             SkipEngine advisory \<Rightarrow> vs = [advisory]
           | RunArgs args advisories \<Rightarrow>
               producer_missing env w ''findings'' m packRoot b = None
               \<and> (\<exists>stdout e w1 found. ev_RunStdout env (invoked_name packRoot b) args w = ((stdout, e), w1)
                    \<and> fst (fst (interpret_run env m packRoot projectRoot b stdout e w1)) = Inr found
                    \<and> vs = found @ advisories)))"
  unfolding runFindingsEngine_def
  by (auto split: sum.splits option.splits prod.splits arg_plan.splits)

text \<open>C3: An engine that reports nothing has run: its inputs were there, its tool was trusted, its process
  started, and either it ended in an exit status the pack declares successful or (without a crash
  guard) it wrote a payload, which parsed to a document in which every result is suppressed.  A
  crash, a missing tool, an unaccepted exit with nothing written and a truncated document are all
  errors, never a clean pass.\<close>

theorem clean_engine_earned:
  assumes "fst (fst (runFindingsEngine env m packRoot projectRoot scope b rules w)) = Inr []"
  shows "checkEngineToolAllowed (ev_Allowlist env) m b = None
    \<and> (\<exists>args stdout e w1 payload sarif.
         ev_RunStdout env (invoked_name packRoot b) args w = ((stdout, e), w1)
         \<and> \<not> NeverStarted e
         \<and> engine_payload env w1 projectRoot (findings_artifact_missing m b) b stdout = Inr payload
         \<and> (exitAccepted e (EffectiveSuccessExitCodes b) \<or> \<not> eb_CrashGuard b \<and> TrimSpace payload \<noteq> [])
         \<and> parsed_payload env m packRoot b payload w1 = Inr sarif
         \<and> (TrimSpace sarif = []
            \<or> (\<exists>runs. ev_DecodeSarif env (TrimSpace sarif) = Inr runs
                 \<and> (\<forall>run\<in>set runs. \<forall>r\<in>set (rn_Results run). st_Suppressions r \<noteq> []))))"
proof -
  from assms obtain inputs where inputs: "checkEngineToolAllowed (ev_Allowlist env) m b = None"
    and plan: "case engine_args (ev_Glob env) m projectRoot scope b inputs of
             SkipEngine advisory \<Rightarrow> [] = [advisory]
           | RunArgs args advisories \<Rightarrow>
               producer_missing env w ''findings'' m packRoot b = None
               \<and> (\<exists>stdout e w1 found. ev_RunStdout env (invoked_name packRoot b) args w = ((stdout, e), w1)
                    \<and> fst (fst (interpret_run env m packRoot projectRoot b stdout e w1)) = Inr found
                    \<and> [] = found @ advisories)"
    unfolding runFindingsEngine_Inr by blast
  from plan obtain args stdout e w1 where run: "ev_RunStdout env (invoked_name packRoot b) args w = ((stdout, e), w1)"
    "fst (fst (interpret_run env m packRoot projectRoot b stdout e w1)) = Inr []"
    by (auto split: arg_plan.splits)
  from run(2) obtain payload sarif where
    "\<not> NeverStarted e" "engine_payload env w1 projectRoot (findings_artifact_missing m b) b stdout = Inr payload"
    "eb_CrashGuard b \<or> TrimSpace payload \<noteq> [] \<or> exitAccepted e (EffectiveSuccessExitCodes b)"
    "parsed_payload env m packRoot b payload w1 = Inr sarif" "findings_of env m projectRoot b e sarif = Inr []"
    unfolding interpret_run_Inr by blast
  moreover from this(5) have "eb_CrashGuard b \<Longrightarrow> exitAccepted e (EffectiveSuccessExitCodes b)"
    and "ParsePackFindings (ev_DecodeSarif env) sarif = Inr []"
    unfolding findings_of_clean by blast+
  ultimately show ?thesis using inputs run(1) unfolding ParsePackFindings_clean by blast
qed

text \<open>An engine that fails the trust check is an error, and no process has run: the world is the one
  before.\<close>

lemma untrusted_never_runs:
  assumes "checkEngineToolAllowed (ev_Allowlist env) m b \<noteq> None"
  shows "isl (fst (fst (runFindingsEngine env m packRoot projectRoot scope b rules w)))
    \<and> snd (runFindingsEngine env m packRoot projectRoot scope b rules w) = w"
  using assms by (auto simp: runFindingsEngine_def split: sum.splits)

subsection \<open>Every rule is dispatched once\<close>

lemma set_dedup [simp]: "set (dedup xs) = set xs"
  by (simp add: dedup_def)

lemma distinct_dedup [simp]: "distinct (dedup xs)"
  by (simp add: dedup_def)

lemma mset_filter_groups:
  "distinct ks \<Longrightarrow> f ` set xs \<subseteq> set ks \<Longrightarrow> mset (concat (map (\<lambda>k. filter (\<lambda>x. f x = k) xs) ks)) = mset xs"
proof (induction ks arbitrary: xs)
  case (Cons k ks)
  have rest: "concat (map (\<lambda>k'. filter (\<lambda>x. f x = k') xs) ks)
      = concat (map (\<lambda>k'. filter (\<lambda>x. f x = k') (filter (\<lambda>x. f x \<noteq> k) xs)) ks)"
    using Cons.prems(1) by (intro arg_cong [where f = concat] map_cong) (auto intro: filter_cong)
  have "mset (concat (map (\<lambda>k'. filter (\<lambda>x. f x = k') (filter (\<lambda>x. f x \<noteq> k) xs)) ks)) = mset (filter (\<lambda>x. f x \<noteq> k) xs)"
    using Cons.prems by (intro Cons.IH) auto
  then show ?case by (simp add: rest)
qed simp

lemma mset_engine_groups: "mset (concat (map (engine_rules m) (engine_order m))) = mset (mf_Rules m)"
  unfolding engine_rules_def engine_order_def by (rule mset_filter_groups) auto

text \<open>The outcomes of the jobs, the world threaded through them.\<close>

fun job_outcomes ::
  "'w engine_env \<Rightarrow> string \<Rightarrow> string \<Rightarrow> GateScope option \<Rightarrow> (Manifest \<times> string) list \<Rightarrow> 'w
   \<Rightarrow> (string + Violation list) list" where
  "job_outcomes env packDir projectRoot scope [] w = []"
| "job_outcomes env packDir projectRoot scope (j # js) w =
     fst (fst (run_job env packDir projectRoot scope j w))
     # job_outcomes env packDir projectRoot scope js (snd (run_job env packDir projectRoot scope j w))"

definition job_violations :: "string + Violation list \<Rightarrow> Violation list" where
  "job_violations r = (case r of Inl e \<Rightarrow> [engineErrorViolation e] | Inr vs \<Rightarrow> vs)"

definition job_errors :: "string + Violation list \<Rightarrow> string list" where
  "job_errors r = (case r of Inl e \<Rightarrow> [e] | Inr _ \<Rightarrow> [])"

lemma run_jobs_outcomes:
  "dr_Violations (fst (run_jobs env packDir projectRoot scope js d w)) =
     dr_Violations d @ concat (map job_violations (job_outcomes env packDir projectRoot scope js w))
   \<and> dr_Errors (fst (run_jobs env packDir projectRoot scope js d w)) =
     dr_Errors d @ concat (map job_errors (job_outcomes env packDir projectRoot scope js w))"
  by (induction js arbitrary: d w)
     (auto simp: record_job_def job_violations_def job_errors_def Let_def split: prod.splits sum.splits)

text \<open>C15: Dispatch loses nothing: every rule of every pack is in exactly one job, the violations are those
  of all the jobs in order, an engine that fails contributes the one violation that names its
  failure, and the engines after it run all the same.\<close>

theorem dispatch_complete:
  "mset (concat (map (\<lambda>(m, name). engine_rules m name) (pack_jobs packs))) = mset (concat (map mf_Rules packs))
   \<and> dr_Violations (fst (dispatchPackEnginesWithEvidence env packs packDir projectRoot scope w)) =
       concat (map job_violations (job_outcomes env packDir projectRoot scope (pack_jobs packs) w))
   \<and> dr_Errors (fst (dispatchPackEnginesWithEvidence env packs packDir projectRoot scope w)) =
       concat (map job_errors (job_outcomes env packDir projectRoot scope (pack_jobs packs) w))"
proof -
  have "mset (concat (map (\<lambda>(m, name). engine_rules m name) (pack_jobs packs))) = mset (concat (map mf_Rules packs))"
  proof (induction packs)
    case (Cons m ms)
    have "concat (map (\<lambda>(m, name). engine_rules m name) (pack_jobs (m # ms)))
        = concat (map (engine_rules m) (engine_order m)) @ concat (map (\<lambda>(m, name). engine_rules m name) (pack_jobs ms))"
      by (simp add: pack_jobs_def comp_def)
    then show ?case by (simp only: mset_append Cons.IH mset_engine_groups list.map concat.simps)
  qed (simp add: pack_jobs_def)
  then show ?thesis
    by (simp add: dispatchPackEnginesWithEvidence_def run_jobs_outcomes no_dispatch_def)
qed

text \<open>Provisioning passes only when every job has a binding, a trusted tool and, when it names one, a
  tool that is found.\<close>

lemma require_tool_keeps: "map_has required k \<Longrightarrow> map_has (require_tool m name b required) k"
  by (auto simp: require_tool_def Let_def map_of_map_set)

lemma collect_tools_keeps:
  "collect_tools base allowlist js required = Inr out \<Longrightarrow> map_has required k \<Longrightarrow> map_has out k"
proof (induction js arbitrary: required)
  case (Cons j js)
  obtain m name where j: "j = (m, name)" by (cases j)
  from Cons.prems(1) j obtain b where "collect_tools base allowlist js (require_tool m name b required) = Inr out"
    by (auto split: sum.splits option.splits)
  then show ?case using Cons.IH require_tool_keeps [OF Cons.prems(2)] by blast
qed simp

lemma collect_tools_Inr:
  assumes "collect_tools base allowlist js required = Inr out" "(m, name) \<in> set js"
  shows "\<exists>b. Registry_Lookup (resolveEngineRegistry base m) name = Inr b
    \<and> checkEngineToolAllowed allowlist m b = None
    \<and> (engineToolName (eb_Command b) \<noteq> [] \<longrightarrow> map_has out (engineToolName (eb_Command b)))"
proof -
  show ?thesis using assms
  proof (induction js arbitrary: required)
    case (Cons j js)
    obtain m' n' where j: "j = (m', n')" by (cases j)
    from Cons.prems(1) j obtain b where b: "Registry_Lookup (resolveEngineRegistry base m') n' = Inr b"
      "checkEngineToolAllowed allowlist m' b = None"
      "collect_tools base allowlist js (require_tool m' n' b required) = Inr out"
      by (auto split: sum.splits option.splits)
    show ?case
    proof (cases "(m, name) = (m', n')")
      case True
      have "engineToolName (eb_Command b) \<noteq> [] \<Longrightarrow> map_has (require_tool m' n' b required) (engineToolName (eb_Command b))"
        by (auto simp: require_tool_def Let_def map_of_map_set)
      then show ?thesis using b True collect_tools_keeps [OF b(3)] by auto
    next
      case False
      then show ?thesis using Cons.IH [OF b(3)] Cons.prems(2) j by auto
    qed
  qed simp
qed

text \<open>A concrete environment: one linter that finds nothing and exits 0.\<close>

definition demo_engine_env :: "unit engine_env" where
  "demo_engine_env =
     \<lparr>ev_Getwd = Inr ''/p'', ev_Stat = (\<lambda>_ _. None), ev_ReadFile = (\<lambda>_ _. Inl ''no file''), ev_Walk = (\<lambda>_ _. Inr []),
      ev_RunStdout = (\<lambda>c args w. ((''{}'', None), w)), ev_SandboxStdout = (\<lambda>_ _ _ w. (([], False, None), w)),
      ev_SandboxRun = (\<lambda>_ _ _ w. ((''bad'', False, Some ''exit 1''), w)), ev_LookPath = (\<lambda>_ _. True),
      ev_Glob = (\<lambda>_ _. None), ev_BaseEngines = [], ev_Allowlist = TrustedToolAllowlist,
      ev_DecodeSarif = (\<lambda>_. Inr []), ev_HasRuns = (\<lambda>_. True), ev_DecodeCoverage = (\<lambda>_. Inr [])\<rparr>"

definition demo_binding :: "InputMode \<Rightarrow> string \<Rightarrow> EngineBinding" where
  "demo_binding mode command =
     \<lparr>eb_Command = command, eb_InputMode = mode, eb_InputFlag = [], eb_ScopeKind = ScopeKindFileArgs, eb_Convert = [],
      eb_Producer = [], eb_StdoutArtifact = [], eb_Provision = None, eb_CrashGuard = False, eb_SuccessExitCodes = None,
      eb_Category = EngineCategoryUnset, eb_ProjectTarget = [], eb_GateType = GateTypeLint, eb_StrictSarif = False,
      eb_PackageScoped = False, eb_FieldContract = \<lparr>fc_Requires = [], fc_Forbids = []\<rparr>, eb_ExemptFromScopeFilter = False\<rparr>"

theorem clean_engine_earned_witness:
  "fst (fst (runFindingsEngine demo_engine_env demo_manifest ''/p/x'' ''/p'' None (demo_binding InputModeNone ''lint -q'') [] ()))
     = Inr []
   \<and> (\<exists>args stdout e w1. ev_RunStdout demo_engine_env ''lint'' args () = ((stdout, e), w1) \<and> \<not> NeverStarted e)"
proof -
  have name: "invoked_name ''/p/x'' (demo_binding InputModeNone ''lint -q'') = ''lint''" by code_simp
  have clean: "fst (fst (runFindingsEngine demo_engine_env demo_manifest ''/p/x'' ''/p'' None (demo_binding InputModeNone ''lint -q'') [] ()))
     = Inr []" by code_simp
  show ?thesis using clean clean_engine_earned [OF clean, unfolded name] by blast
qed

end
