(* ===== verification/Pack_Content.thy ===== *)
theory Pack_Content
  imports Pack_Version Sha256
begin

text \<open>
  The content of an installed pack (\<open>pkg/pack/distribution/hash.go\<close>, the copy of \<open>add.go\<close>, and
  \<open>tamper.go\<close>).  A directory is a tree whose files carry their bytes or the error reading them
  gives; a symbolic link is a file, as \<open>filepath.Walk\<close> sees it.  The children of a directory
  stand in the order the walk visits them.  The file system is a function from paths to the
  tree that stands there.
\<close>

datatype PackNode =
    PFile string "string + string"
  | PDir string "PackNode list"

fun pnode_name :: "PackNode \<Rightarrow> string" where
  "pnode_name (PFile name _) = name"
| "pnode_name (PDir name _) = name"

fun is_dir :: "PackNode \<Rightarrow> bool" where
  "is_dir (PFile _ _) = False"
| "is_dir (PDir _ _) = True"

type_synonym file_system = "string \<Rightarrow> PackNode option"

text \<open>The slash path of a child relative to the walked root, which itself arrives as \<open>.\<close>.\<close>

definition child_rel :: "string \<Rightarrow> PackNode \<Rightarrow> string" where
  "child_rel rel c = (if rel = dot then pnode_name c else rel @ ''/'' @ pnode_name c)"

subsection \<open>The content hash\<close>

definition gitDirectoryName :: string where "gitDirectoryName = ''.git''"

definition isRootRepositoryMetadata :: "string \<Rightarrow> bool" where
  "isRootRepositoryMetadata rel \<longleftrightarrow> rel = gitDirectoryName"

definition ComputeFileHash :: "string + string \<Rightarrow> string + string" where
  "ComputeFileHash content = (case content of Inl err \<Rightarrow> Inl err | Inr bytes \<Rightarrow> Inr (sha256_hex bytes))"

fun hash_walk :: "string \<Rightarrow> PackNode \<Rightarrow> string + string list" where
  "hash_walk rel (PFile _ content) =
     (if isRootRepositoryMetadata rel then Inr []
      else (case ComputeFileHash content of
              Inl err \<Rightarrow> Inl (''hashing file '' @ rel @ '': '' @ err)
            | Inr fileHash \<Rightarrow> Inr [rel @ '':'' @ fileHash]))"
| "hash_walk rel (PDir _ children) =
     (if isRootRepositoryMetadata rel then Inr []
      else concat_results (map (\<lambda>c. hash_walk (child_rel rel c) c) children))"

definition content_manifest :: "string list \<Rightarrow> string" where
  "content_manifest entries = Join (sort entries) [CHR 0x0A]"

definition tree_hash :: "PackNode \<Rightarrow> string + string" where
  "tree_hash t = (case hash_walk dot t of Inl err \<Rightarrow> Inl err | Inr entries \<Rightarrow> Inr (sha256_hex (content_manifest entries)))"

definition ComputeContentHash :: "file_system \<Rightarrow> string \<Rightarrow> string + string" where
  "ComputeContentHash fs dir =
     (case fs dir of
        None \<Rightarrow> Inl (''walking directory '' @ dir @ '': lstat '' @ dir @ '': no such file or directory'')
      | Some t \<Rightarrow> (case tree_hash t of
            Inl err \<Rightarrow> Inl (''walking directory '' @ dir @ '': '' @ err)
          | Inr h \<Rightarrow> Inr h))"

subsection \<open>Copying\<close>

text \<open>Copying one entry into the directory with the given children: a file overwrites the file that
  stands there, a directory is created or descended into, anything else of the destination
  stays. The walk stops at the first error and leaves what it has written.\<close>

definition find_node :: "string \<Rightarrow> PackNode list \<Rightarrow> PackNode option" where
  "find_node name nodes = find (\<lambda>c. pnode_name c = name) nodes"

fun dir_entries :: "PackNode option \<Rightarrow> PackNode list" where
  "dir_entries (Some (PDir _ es)) = es"
| "dir_entries _ = []"

definition put_node :: "PackNode \<Rightarrow> PackNode list \<Rightarrow> PackNode list" where
  "put_node t nodes = filter (\<lambda>c. pnode_name c \<noteq> pnode_name t) nodes @ [t]"

function copy_onto :: "string \<Rightarrow> PackNode \<Rightarrow> PackNode list \<Rightarrow> string option \<times> PackNode list"
  and copy_children :: "string \<Rightarrow> PackNode list \<Rightarrow> PackNode list \<Rightarrow> string option \<times> PackNode list" where
  "copy_onto rel (PFile name content) ds =
     (if isRootRepositoryMetadata rel then (None, ds)
      else (case content of
              Inl err \<Rightarrow> (Some err, ds)
            | Inr bytes \<Rightarrow>
                if (case find_node name ds of Some t \<Rightarrow> is_dir t | None \<Rightarrow> False)
                then (Some (''open '' @ name @ '': is a directory''), ds)
                else (None, put_node (PFile name (Inr bytes)) ds)))"
| "copy_onto rel (PDir name children) ds =
     (if isRootRepositoryMetadata rel then (None, ds)
      else if (case find_node name ds of Some t \<Rightarrow> \<not> is_dir t | None \<Rightarrow> False)
      then (Some (''mkdir '' @ name @ '': not a directory''), ds)
      else (case copy_children rel children (dir_entries (find_node name ds)) of
              (err, es) \<Rightarrow> (err, put_node (PDir name es) ds)))"
| "copy_children rel [] ds = (None, ds)"
| "copy_children rel (c # cs) ds =
     (case copy_onto (child_rel rel c) c ds of
        (Some err, ds') \<Rightarrow> (Some err, ds')
      | (None, ds') \<Rightarrow> copy_children rel cs ds')"
  by pat_completeness auto
termination
  by (relation "measure (\<lambda>x. case x of Inl (_, t, _) \<Rightarrow> size t | Inr (_, cs, _) \<Rightarrow> size_list size cs)") auto

text \<open>\<open>copyDirRecursive(src, dst)\<close> for a source directory and the directory at \<open>dst\<close>, if any; the result
  is the directory that stands at \<open>dst\<close> afterwards and the error the walk stopped with.\<close>

definition copyDirRecursive :: "PackNode \<Rightarrow> PackNode option \<Rightarrow> string option \<times> PackNode option" where
  "copyDirRecursive src dst =
     (case copy_onto dot (case src of PDir _ cs \<Rightarrow> PDir [] cs | PFile _ c \<Rightarrow> PFile [] c)
             (case dst of None \<Rightarrow> [] | Some (PDir _ es) \<Rightarrow> [PDir [] es] | Some (PFile _ c) \<Rightarrow> [PFile [] c]) of
        (err, ds) \<Rightarrow> (err, find_node [] ds))"

subsection \<open>Tamper detection between two versions\<close>

record TamperChange =
  tc_Kind :: string
  tc_Description :: string

record TamperResult =
  tr_Changes :: "TamperChange list"
  tr_HasTamper :: bool

record tamperRule =
  tu_ID :: string
  tu_Severity :: string
  tu_RiskClass :: string

type_synonym tamperManifest = "tamperRule list"

definition severityRank :: "(string, int) gomap" where
  "severityRank = [(''error'', 3), (''warning'', 2), (''info'', 1)]"

text \<open>The visitor below \<open>testdata\<close>: a file whose counterpart no longer stands in the new version.\<close>

fun fixture_walk :: "file_system \<Rightarrow> string \<Rightarrow> string \<Rightarrow> PackNode \<Rightarrow> TamperChange list" where
  "fixture_walk fs newDir rel (PFile _ _) =
     (if fs (JoinPath [newDir, rel]) = None
      then [\<lparr>tc_Kind = ''fixture_removal'',
             tc_Description = ''test fixture '' @ rel @ '' removed in new version''\<rparr>]
      else [])"
| "fixture_walk fs newDir rel (PDir _ children) =
     concat (map (\<lambda>c. fixture_walk fs newDir (rel @ ''/'' @ pnode_name c) c) children)"

definition detectFixtureRemoval :: "file_system \<Rightarrow> string \<Rightarrow> string \<Rightarrow> TamperChange list" where
  "detectFixtureRemoval fs oldDir newDir =
     (case fs (JoinPath [oldDir, ''testdata'']) of
        None \<Rightarrow> []
      | Some t \<Rightarrow> fixture_walk fs newDir ''testdata'' t)"

definition readTamperManifest ::
  "file_system \<Rightarrow> (string \<Rightarrow> string + tamperManifest) \<Rightarrow> string \<Rightarrow> string + tamperManifest" where
  "readTamperManifest fs yamlRules dir =
     (case fs (JoinPath [dir, ''pack.yml'']) of
        Some (PFile _ (Inr bytes)) \<Rightarrow> yamlRules bytes
      | Some (PFile _ (Inl err)) \<Rightarrow> Inl err
      | Some (PDir _ _) \<Rightarrow> Inl (''read '' @ JoinPath [dir, ''pack.yml''] @ '': is a directory'')
      | None \<Rightarrow> Inl (''open '' @ JoinPath [dir, ''pack.yml''] @ '': no such file or directory''))"

definition rule_removals :: "(string, tamperRule) gomap \<Rightarrow> (string, tamperRule) gomap \<Rightarrow> TamperChange list" where
  "rule_removals oldRules newRules =
     [\<lparr>tc_Kind = ''rule_removal'',
       tc_Description = ''rule '' @ rid @ '' present in old version but absent in new version''\<rparr>.
      (rid, _) \<leftarrow> oldRules, \<not> map_has newRules rid]"

definition rule_changes :: "(string, tamperRule) gomap \<Rightarrow> string \<times> tamperRule \<Rightarrow> TamperChange list" where
  "rule_changes newRules entry =
     (case entry of (rid, oldRule) \<Rightarrow>
        (case map_of newRules rid of
           None \<Rightarrow> []
         | Some newRule \<Rightarrow>
             (if map_get 0 severityRank (tu_Severity newRule) < map_get 0 severityRank (tu_Severity oldRule)
              then [\<lparr>tc_Kind = ''severity_downgrade'',
                     tc_Description = ''rule '' @ rid @ '' severity downgraded from '' @ tu_Severity oldRule
                       @ '' to '' @ tu_Severity newRule\<rparr>] else [])
             @ (if tu_RiskClass oldRule \<noteq> tu_RiskClass newRule
                then [\<lparr>tc_Kind = ''risk_class_change'',
                       tc_Description = ''rule '' @ rid @ '' risk_class changed from '' @ tu_RiskClass oldRule
                         @ '' to '' @ tu_RiskClass newRule\<rparr>] else [])))"

definition DetectTamper ::
  "file_system \<Rightarrow> (string \<Rightarrow> string + tamperManifest) \<Rightarrow> string \<Rightarrow> string \<Rightarrow> string + TamperResult" where
  "DetectTamper fs yamlRules oldPackDir newPackDir =
     (case readTamperManifest fs yamlRules oldPackDir of
        Inl err \<Rightarrow> Inl (''reading old manifest: '' @ err)
      | Inr oldManifest \<Rightarrow>
          (case readTamperManifest fs yamlRules newPackDir of
             Inl err \<Rightarrow> Inl (''reading new manifest: '' @ err)
           | Inr newManifest \<Rightarrow>
               let oldRules = map_index tu_ID oldManifest;
                   newRules = map_index tu_ID newManifest;
                   changes = detectFixtureRemoval fs oldPackDir newPackDir
                     @ rule_removals oldRules newRules
                     @ concat (map (rule_changes newRules) oldRules)
               in Inr \<lparr>tr_Changes = changes, tr_HasTamper = (changes \<noteq> [])\<rparr>))"

subsection \<open>What the hash covers\<close>

text \<open>The files of a tree with their paths below the root, repository metadata of the root left out.\<close>

fun pack_files :: "string \<Rightarrow> PackNode \<Rightarrow> (string \<times> (string + string)) list" where
  "pack_files rel (PFile _ content) = (if isRootRepositoryMetadata rel then [] else [(rel, content)])"
| "pack_files rel (PDir _ children) =
     (if isRootRepositoryMetadata rel then []
      else concat (map (\<lambda>c. pack_files (child_rel rel c) c) children))"

definition entry_line :: "string \<times> (string + string) \<Rightarrow> string" where
  "entry_line f = fst f @ '':'' @ sha256_hex (projr (snd f))"

lemma hash_walk_Inr:
  "hash_walk rel t = Inr entries \<longleftrightarrow>
     (\<forall>f\<in>set (pack_files rel t). \<not> isl (snd f)) \<and> entries = map entry_line (pack_files rel t)"
proof (induction rel t arbitrary: entries rule: hash_walk.induct)
  case (1 rel name content)
  then show ?case by (cases content) (auto simp: ComputeFileHash_def entry_line_def)
next
  case (2 rel name children)
  show ?case
  proof (cases "isRootRepositoryMetadata rel")
    case True
    then show ?thesis by auto
  next
    case False
    have "concat_results (map (\<lambda>c. hash_walk (child_rel rel c) c) children) = Inr entries \<longleftrightarrow>
        (\<forall>c\<in>set children. \<forall>f\<in>set (pack_files (child_rel rel c) c). \<not> isl (snd f))
        \<and> entries = concat (map (\<lambda>c. map entry_line (pack_files (child_rel rel c) c)) children)"
      by (rule concat_results_map) (use 2 False in blast)
    with False show ?thesis by (simp add: map_concat comp_def)
  qed
qed

lemma tree_hash_Inr:
  "tree_hash t = Inr h \<longleftrightarrow>
     (\<forall>f\<in>set (pack_files dot t). \<not> isl (snd f)) \<and> h = sha256_hex (content_manifest (map entry_line (pack_files dot t)))"
proof (cases "hash_walk dot t")
  case (Inl err)
  with hash_walk_Inr [of dot t] show ?thesis by (auto simp: tree_hash_def)
next
  case (Inr entries)
  with hash_walk_Inr [of dot t entries] show ?thesis by (auto simp: tree_hash_def)
qed

lemma entry_line_inj:
  assumes "entry_line f = entry_line g"
  shows "fst f = fst g \<and> sha256_hex (projr (snd f)) = sha256_hex (projr (snd g))"
proof -
  have "length (fst f) = length (fst g)" using arg_cong [OF assms, of length] by (simp add: entry_line_def)
  with assms show ?thesis by (simp add: entry_line_def)
qed

lemma entry_line_not_Nil: "entry_line f \<noteq> []"
  by (simp add: entry_line_def)

lemma entry_line_no_newline: "CHR 0x0A \<notin> set (fst f) \<Longrightarrow> CHR 0x0A \<notin> set (entry_line f)"
  using sha256_hex_plain [of "CHR 0x0A" "projr (snd f)"] by (auto simp: entry_line_def plain_def)

lemma content_manifest_inj:
  assumes "content_manifest es = content_manifest es'"
    and "\<forall>e\<in>set es \<union> set es'. e \<noteq> [] \<and> CHR 0x0A \<notin> set e"
  shows "sort es = sort es'"
proof -
  have lines: "(if content_manifest xs = [] then [] else Split (content_manifest xs) (CHR 0x0A)) = sort xs"
    if ok: "\<forall>e\<in>set xs. e \<noteq> [] \<and> CHR 0x0A \<notin> set e" for xs :: "string list"
  proof (cases "sort xs")
    case Nil
    then show ?thesis by (simp add: content_manifest_def)
  next
    case (Cons x rest)
    then have "x \<in> set xs" by (metis list.set_intros(1) set_sort)
    with ok have "x \<noteq> []" by blast
    then have "Join (sort xs) [CHR 0x0A] \<noteq> []" using Cons by (cases rest) simp_all
    moreover from ok have "\<forall>e\<in>set (sort xs). CHR 0x0A \<notin> set e" by simp
    then have "Split (Join (sort xs) [CHR 0x0A]) (CHR 0x0A) = sort xs"
      by (intro Split_Join) (simp_all only: Cons, simp)
    ultimately show ?thesis by (simp add: content_manifest_def)
  qed
  from lines [of es] lines [of es'] assms(2) show ?thesis unfolding assms(1) ball_Un by metis
qed

text \<open>C38: The content hash identifies the content. Two trees with the same hash hold the same files
  with the same bytes at the same paths, provided no file name holds a line feed and SHA-256
  has no collision among the two manifests and among the file contents. Repository metadata at
  the root does not count.\<close>

theorem content_hash_determines_files:
  assumes "tree_hash t = Inr h" "tree_hash u = Inr h"
    and names: "\<forall>f\<in>set (pack_files dot t) \<union> set (pack_files dot u). CHR 0x0A \<notin> set (fst f)"
    and manifests: "inj_on sha256_hex {content_manifest (map entry_line (pack_files dot t)),
                                       content_manifest (map entry_line (pack_files dot u))}"
    and contents: "inj_on sha256_hex ((projr \<circ> snd) ` (set (pack_files dot t) \<union> set (pack_files dot u)))"
  shows "set (pack_files dot t) = set (pack_files dot u)"
proof -
  let ?T = "pack_files dot t" and ?U = "pack_files dot u"
  have readable: "\<forall>f\<in>set ?T \<union> set ?U. \<not> isl (snd f)" using assms(1,2) by (auto simp: tree_hash_Inr)
  have "content_manifest (map entry_line ?T) = content_manifest (map entry_line ?U)"
    by (rule inj_onD [OF manifests]) (use assms(1,2) in \<open>auto simp: tree_hash_Inr\<close>)
  then have "sort (map entry_line ?T) = sort (map entry_line ?U)"
    by (rule content_manifest_inj)
       (use names in \<open>simp add: ball_Un entry_line_no_newline entry_line_not_Nil\<close>)
  then have lines: "entry_line ` set ?T = entry_line ` set ?U" by (metis list.set_map set_sort)
  have "f = g" if f: "f \<in> set ?T \<union> set ?U" and g: "g \<in> set ?T \<union> set ?U" and "entry_line f = entry_line g" for f g
  proof -
    from entry_line_inj [OF that(3)] have fg: "fst f = fst g" "sha256_hex (projr (snd f)) = sha256_hex (projr (snd g))" by simp_all
    have "projr (snd f) = projr (snd g)"
      by (rule inj_onD [OF contents fg(2)]) (use f g in auto)
    with readable f g fg(1) show ?thesis by (metis prod_eqI sum.collapse(2))
  qed
  then have "inj_on entry_line (set ?T \<union> set ?U)" by (auto simp: inj_on_def)
  then show ?thesis using lines by (metis inj_on_image_eq_iff sup_ge1 sup_ge2)
qed

theorem content_hash_determines_files_witness:
  "set (pack_files dot (PDir ''p'' [PDir ''.git'' [PFile ''HEAD'' (Inl ''denied'')], PFile ''pack.yml'' (Inr ''name: a/b'')])) =
   set (pack_files dot (PDir ''q'' [PFile ''pack.yml'' (Inr ''name: a/b'')]))"
proof -
  let ?files = "[(''pack.yml'', Inr ''name: a/b'' :: string + string)]"
  let ?t = "PDir ''p'' [PDir ''.git'' [PFile ''HEAD'' (Inl ''denied'')], PFile ''pack.yml'' (Inr ''name: a/b'')]"
  let ?u = "PDir ''q'' [PFile ''pack.yml'' (Inr ''name: a/b'')]"
  have t: "pack_files dot ?t = ?files" and u: "pack_files dot ?u = ?files"
    by (simp_all add: isRootRepositoryMetadata_def gitDirectoryName_def child_rel_def)
  then have "tree_hash ?t = Inr (sha256_hex (content_manifest (map entry_line ?files)))"
    "tree_hash ?u = Inr (sha256_hex (content_manifest (map entry_line ?files)))"
    by (simp_all only: tree_hash_Inr) simp_all
  from content_hash_determines_files [OF this] show ?thesis unfolding t u by simp
qed

text \<open>The proviso on names is needed: the manifest joins its lines with a line feed and does not
  escape names, so one file whose name holds the whole first line hashes like two files.\<close>

lemma newline_name_collision:
  "tree_hash (PDir n [PFile ''a'' (Inr x), PFile ''b'' (Inr y)]) =
   tree_hash (PDir n [PFile (''a:'' @ sha256_hex x @ [CHR 0x0A] @ ''b'') (Inr y)])"
proof -
  have "''a'' @ '':'' @ sha256_hex x \<le> ''b'' @ '':'' @ sha256_hex y" by (simp add: less_char_def)
  then show ?thesis
    by (simp add: tree_hash_def isRootRepositoryMetadata_def gitDirectoryName_def child_rel_def ComputeFileHash_def
        content_manifest_def)
qed

subsection \<open>Copies\<close>

text \<open>A directory has no two entries of one name.\<close>

fun wf_node :: "PackNode \<Rightarrow> bool" where
  "wf_node (PFile _ _) = True"
| "wf_node (PDir _ cs) = (distinct (map pnode_name cs) \<and> list_all wf_node cs)"

lemma find_node_None: "find_node name ds = None \<longleftrightarrow> name \<notin> pnode_name ` set ds"
  by (auto simp: find_node_def find_None_iff)

lemma put_node_fresh: "pnode_name t \<notin> pnode_name ` set ds \<Longrightarrow> put_node t ds = ds @ [t]"
  unfolding put_node_def by (subst filter_True) (auto intro: rev_image_eqI)

definition all_files :: "string \<Rightarrow> PackNode list \<Rightarrow> (string \<times> (string + string)) list" where
  "all_files rel cs = concat (map (\<lambda>c. pack_files (child_rel rel c) c) cs)"

lemma all_files_append [simp]: "all_files rel (xs @ ys) = all_files rel xs @ all_files rel ys"
  by (simp add: all_files_def)

lemma copy_fresh:
  "copy_onto rel t ds = (None, ds') \<Longrightarrow> wf_node t \<Longrightarrow> pnode_name t \<notin> pnode_name ` set ds \<Longrightarrow>
     \<exists>new. ds' = ds @ new \<and> concat (map (pack_files rel) new) = pack_files rel t
       \<and> (\<forall>t'\<in>set new. pnode_name t' = pnode_name t) \<and> (\<not> isRootRepositoryMetadata rel \<longrightarrow> length new = 1)
       \<and> (\<forall>f\<in>set (pack_files rel t). \<not> isl (snd f))"
  "copy_children rel cs ds = (None, ds') \<Longrightarrow> list_all wf_node cs \<Longrightarrow> distinct (map pnode_name cs)
     \<Longrightarrow> pnode_name ` set cs \<inter> pnode_name ` set ds = {} \<Longrightarrow>
     \<exists>new. ds' = ds @ new \<and> all_files rel new = all_files rel cs \<and> pnode_name ` set new \<subseteq> pnode_name ` set cs
       \<and> (\<forall>f\<in>set (all_files rel cs). \<not> isl (snd f))"
proof (induction rel t ds and rel cs ds arbitrary: ds' and ds' rule: copy_onto_copy_children.induct)
  case (1 rel name content ds)
  then show ?case
    by (auto simp: find_node_None [THEN iffD2] put_node_fresh split: if_splits sum.splits)
next
  case (2 rel name children ds)
  show ?case
  proof (cases "isRootRepositoryMetadata rel")
    case True
    with "2.prems" show ?thesis by simp
  next
    case False
    have none: "find_node name ds = None" using "2.prems"(3) by (simp add: find_node_None)
    with False "2.prems"(1) obtain es where es: "copy_children rel children [] = (None, es)"
        and ds': "ds' = ds @ [PDir name es]"
      using "2.prems"(3) by (auto simp: put_node_fresh split: prod.splits)
    from "2.IH" [OF False] es "2.prems"(2) none
    have "all_files rel es = all_files rel children" "\<forall>f\<in>set (all_files rel children). \<not> isl (snd f)"
      by auto
    with False ds' show ?thesis by (auto simp: all_files_def)
  qed
next
  case (3 rel ds)
  then show ?case by (simp add: all_files_def)
next
  case (4 rel c cs ds)
  from "4.prems"(1) obtain ds1 where c: "copy_onto (child_rel rel c) c ds = (None, ds1)"
    and cs: "copy_children rel cs ds1 = (None, ds')" by (auto split: prod.splits option.splits)
  from "4.IH"(1) [OF c] "4.prems" obtain new1 where new1: "ds1 = ds @ new1"
      "concat (map (pack_files (child_rel rel c)) new1) = pack_files (child_rel rel c) c"
      "\<forall>t'\<in>set new1. pnode_name t' = pnode_name c" "\<forall>f\<in>set (pack_files (child_rel rel c) c). \<not> isl (snd f)"
    by (auto simp del: pack_files.simps)
  have disj: "pnode_name ` set cs \<inter> pnode_name ` set ds1 = {}" using "4.prems"(3,4) new1(1,3) by (auto simp: image_iff)
  from "4.IH"(2) [OF c [symmetric] refl cs] "4.prems" disj obtain new2 where new2: "ds' = ds1 @ new2"
      "all_files rel new2 = all_files rel cs" "pnode_name ` set new2 \<subseteq> pnode_name ` set cs"
      "\<forall>f\<in>set (all_files rel cs). \<not> isl (snd f)" by auto
  from new1(3) have "map (\<lambda>t'. pack_files (child_rel rel t') t') new1 = map (pack_files (child_rel rel c)) new1"
    by (simp add: child_rel_def)
  with new1(2) have "all_files rel new1 = pack_files (child_rel rel c) c" by (simp only: all_files_def)
  with new1 new2 show ?case by (auto simp: all_files_def [of rel "c # cs"] all_files_def [of rel cs, symmetric])
qed

lemma copy_onto_dot:
  "copy_onto dot (PDir [] cs) ds = (err, ds') \<Longrightarrow> list_all (\<lambda>d. pnode_name d = []) ds \<Longrightarrow> length ds \<le> 1 \<Longrightarrow>
     (case find_node [] ds of Some t \<Rightarrow> is_dir t | None \<Rightarrow> True) \<Longrightarrow>
     \<exists>es. ds' = [PDir [] es] \<and> copy_children dot cs (dir_entries (find_node [] ds)) = (err, es)"
  by (cases ds) (auto simp: isRootRepositoryMetadata_def gitDirectoryName_def put_node_def find_node_def
      split: prod.splits)

lemma copyDirRecursive_dir:
  assumes "copyDirRecursive (PDir n cs) dst = (err, t)" "case dst of Some d \<Rightarrow> is_dir d | None \<Rightarrow> True"
  shows "\<exists>es. t = Some (PDir [] es) \<and> copy_children dot cs (dir_entries dst) = (err, es)"
proof -
  let ?ds = "case dst of None \<Rightarrow> [] | Some (PDir _ es) \<Rightarrow> [PDir [] es] | Some (PFile _ c) \<Rightarrow> [PFile [] c]"
  from assms(1) obtain ds where ds: "copy_onto dot (PDir [] cs) ?ds = (err, ds)" "t = find_node [] ds"
    by (auto simp: copyDirRecursive_def split: prod.splits)
  have "\<exists>es. ds = [PDir [] es] \<and> copy_children dot cs (dir_entries (find_node [] ?ds)) = (err, es)"
    by (rule copy_onto_dot [OF ds(1)]) (use assms(2) in \<open>auto simp: find_node_def split: option.splits PackNode.splits\<close>)
  moreover have "dir_entries (find_node [] ?ds) = dir_entries dst"
    using assms(2) by (auto simp: find_node_def split: option.splits PackNode.splits)
  ultimately show ?thesis using ds(2) by (auto simp: find_node_def)
qed

text \<open>What stands in the destination under a name the source does not have stays there.\<close>

lemma copy_children_keeps:
  "copy_children rel cs ds = (err, ds') \<Longrightarrow> t \<in> set ds \<Longrightarrow> pnode_name t \<notin> pnode_name ` set cs \<Longrightarrow> t \<in> set ds'"
proof (induction cs arbitrary: ds)
  case (Cons c cs)
  obtain e1 ds1 where c: "copy_onto (child_rel rel c) c ds = (e1, ds1)" by fastforce
  have "t \<in> set ds1"
    using c Cons.prems(2,3) by (cases c) (auto simp: put_node_def split: if_splits sum.splits prod.splits)
  with Cons c show ?case by (cases e1) auto
qed simp

text \<open>A pack's installed content and its recorded identity cannot drift apart: a copy into a place
  where nothing stands, when it succeeds, has the same files and the same content hash as its
  source, whatever repository metadata stood at the source's root.\<close>

theorem copy_preserves_hash:
  assumes "copyDirRecursive src None = (None, Some dst)" "wf_node src"
  shows "pack_files dot dst = pack_files dot src \<and> (\<exists>h. tree_hash src = Inr h \<and> tree_hash dst = Inr h)"
proof -
  let ?src = "case src of PDir _ cs \<Rightarrow> PDir [] cs | PFile _ c \<Rightarrow> PFile [] c"
  have src: "wf_node ?src" "pack_files dot ?src = pack_files dot src" using assms(2) by (cases src; simp)+
  from assms(1) obtain ds where ds: "copy_onto dot ?src [] = (None, ds)" "find_node [] ds = Some dst"
    by (auto simp: copyDirRecursive_def split: prod.splits)
  have "\<not> isRootRepositoryMetadata dot" by (simp add: isRootRepositoryMetadata_def gitDirectoryName_def)
  with copy_fresh(1) [OF ds(1) src(1)] obtain t' where "ds = [t']" "pack_files dot t' = pack_files dot ?src"
      "\<forall>f\<in>set (pack_files dot ?src). \<not> isl (snd f)"
    by (auto simp: length_Suc_conv simp del: pack_files.simps)
  with ds(2) src(2) have "pack_files dot dst = pack_files dot src" "\<forall>f\<in>set (pack_files dot src). \<not> isl (snd f)"
    by (auto simp: find_node_def split: if_splits)
  then show ?thesis by (simp add: tree_hash_Inr)
qed

theorem copy_preserves_hash_witness:
  "\<exists>h. tree_hash (PDir ''p'' [PFile ''.git'' (Inl ''dangling''), PFile ''a'' (Inr ''x'')]) = Inr h
     \<and> tree_hash (PDir [] [PFile ''a'' (Inr ''x'')]) = Inr h"
proof -
  have "copyDirRecursive (PDir ''p'' [PFile ''.git'' (Inl ''dangling''), PFile ''a'' (Inr ''x'')]) None
      = (None, Some (PDir [] [PFile ''a'' (Inr ''x'')]))" by code_simp
  from copy_preserves_hash [OF this] show ?thesis by simp
qed

subsection \<open>Tamper detection is exact\<close>

lemma fixture_walk_files:
  assumes "rel \<noteq> dot" "rel \<noteq> gitDirectoryName" "slash \<notin> set gitDirectoryName"
  shows "fixture_walk fs newDir rel t = [] \<longleftrightarrow> (\<forall>f\<in>set (pack_files rel t). fs (JoinPath [newDir, fst f]) \<noteq> None)"
  using assms
proof (induction fs newDir rel t rule: fixture_walk.induct)
  case (1 fs newDir rel name content)
  then show ?case by (simp add: isRootRepositoryMetadata_def)
next
  case (2 fs newDir rel name children)
  have "child_rel rel c = rel @ ''/'' @ pnode_name c" for c using "2.prems"(1) by (simp add: child_rel_def)
  moreover have "x @ slash # n \<noteq> s" if "slash \<notin> set s" for x n s :: string using that by auto
  from this [of dot] this [of gitDirectoryName] "2.prems"(3)
  have "rel @ ''/'' @ n \<noteq> dot" "rel @ ''/'' @ n \<noteq> gitDirectoryName" for n by simp_all
  ultimately show ?case using "2.IH" "2.prems" by (auto simp: isRootRepositoryMetadata_def)
qed

lemma rule_changes_Nil:
  "rule_changes newRules (rid, old) = [] \<longleftrightarrow>
     (\<forall>new. map_of newRules rid = Some new \<longrightarrow>
        map_get 0 severityRank (tu_Severity old) \<le> map_get 0 severityRank (tu_Severity new)
        \<and> tu_RiskClass old = tu_RiskClass new)"
  by (auto simp: rule_changes_def split: option.splits)

lemma rule_removals_Nil: "rule_removals old new = [] \<longleftrightarrow> (\<forall>e\<in>set old. map_has new (fst e))"
  by (auto simp: rule_removals_def concat_eq_Nil_conv split: if_splits)

text \<open>Tamper detection is exact for what it reads. A new version is reported as tampered exactly when
  a fixture file of the old version is gone, a rule of the old manifest is gone, or a surviving
  rule fell in severity rank or changed its risk class; added rules, raised severities and
  added fixtures are never reported.\<close>

theorem tamper_detected_iff:
  assumes "DetectTamper fs yamlRules oldDir newDir = Inr result"
    and "readTamperManifest fs yamlRules oldDir = Inr olds" "readTamperManifest fs yamlRules newDir = Inr news"
  shows "(tr_HasTamper result \<longleftrightarrow>
      (\<exists>t rel content. fs (JoinPath [oldDir, ''testdata'']) = Some t \<and> (rel, content) \<in> set (pack_files ''testdata'' t)
          \<and> fs (JoinPath [newDir, rel]) = None)
      \<or> (\<exists>rid old. map_of (map_index tu_ID olds) rid = Some old \<and>
          (case map_of (map_index tu_ID news) rid of
             None \<Rightarrow> True
           | Some new \<Rightarrow> map_get 0 severityRank (tu_Severity new) < map_get 0 severityRank (tu_Severity old)
                         \<or> tu_RiskClass old \<noteq> tu_RiskClass new)))
    \<and> (tr_HasTamper result \<longleftrightarrow> tr_Changes result \<noteq> [])"
proof -
  let ?old = "map_index tu_ID olds" and ?new = "map_index tu_ID news"
  have fixtures: "detectFixtureRemoval fs oldDir newDir = [] \<longleftrightarrow>
      (\<forall>t. fs (JoinPath [oldDir, ''testdata'']) = Some t \<longrightarrow>
        (\<forall>f\<in>set (pack_files ''testdata'' t). fs (JoinPath [newDir, fst f]) \<noteq> None))"
    using fixture_walk_files [of "''testdata''" fs newDir]
    by (auto simp: detectFixtureRemoval_def gitDirectoryName_def split: option.splits)
  have rem: "rule_removals ?old ?new = [] \<longleftrightarrow> (\<forall>rid old. map_of ?old rid = Some old \<longrightarrow> map_has ?new rid)"
    unfolding rule_removals_Nil set_map_index [symmetric] by force
  have chg: "concat (map (rule_changes ?new) ?old) = [] \<longleftrightarrow>
      (\<forall>rid old. map_of ?old rid = Some old \<longrightarrow> rule_changes ?new (rid, old) = [])"
    by (auto simp: set_map_index)
  have changes: "tr_Changes result = detectFixtureRemoval fs oldDir newDir @ rule_removals ?old ?new
      @ concat (map (rule_changes ?new) ?old)" "tr_HasTamper result \<longleftrightarrow> tr_Changes result \<noteq> []"
    using assms by (auto simp: DetectTamper_def Let_def)
  have "tr_Changes result = [] \<longleftrightarrow>
      (\<forall>t. fs (JoinPath [oldDir, ''testdata'']) = Some t \<longrightarrow>
        (\<forall>f\<in>set (pack_files ''testdata'' t). fs (JoinPath [newDir, fst f]) \<noteq> None))
      \<and> (\<forall>rid old. map_of ?old rid = Some old \<longrightarrow> map_has ?new rid \<and> rule_changes ?new (rid, old) = [])"
    unfolding changes(1) append_is_Nil_conv fixtures rem chg by blast
  then show ?thesis unfolding changes(2) rule_changes_Nil
    by (fastforce split: option.splits)
qed

theorem tamper_detected_iff_witness:
  "\<exists>result. DetectTamper
      (\<lambda>p. map_of [(''/o/pack.yml'', PFile ''pack.yml'' (Inr ''old'')), (''/n/pack.yml'', PFile ''pack.yml'' (Inr ''new''))] p)
      (\<lambda>d. Inr [\<lparr>tu_ID = ''r1'', tu_Severity = (if d = ''old'' then ''error'' else ''warning''), tu_RiskClass = ''security''\<rparr>])
      ''/o'' ''/n'' = Inr result \<and> tr_HasTamper result"
proof -
  let ?fs = "\<lambda>p. map_of [(''/o/pack.yml'', PFile ''pack.yml'' (Inr ''old'')), (''/n/pack.yml'', PFile ''pack.yml'' (Inr ''new''))] p"
  let ?y = "\<lambda>d. Inr [\<lparr>tu_ID = ''r1'', tu_Severity = (if d = ''old'' then ''error'' else ''warning''), tu_RiskClass = ''security''\<rparr>] :: string + tamperManifest"
  have o: "readTamperManifest ?fs ?y ''/o'' = Inr [\<lparr>tu_ID = ''r1'', tu_Severity = ''error'', tu_RiskClass = ''security''\<rparr>]"
    and n: "readTamperManifest ?fs ?y ''/n'' = Inr [\<lparr>tu_ID = ''r1'', tu_Severity = ''warning'', tu_RiskClass = ''security''\<rparr>]"
    by code_simp+
  then obtain result where r: "DetectTamper ?fs ?y ''/o'' ''/n'' = Inr result" by (simp add: DetectTamper_def Let_def)
  from tamper_detected_iff [OF r o n] have "tr_HasTamper result" by (simp add: map_index_def severityRank_def map_get_def)
  with r show ?thesis by blast
qed

end
