(* ===== verification/Pack_Lock.thy ===== *)
theory Pack_Lock
  imports Pack_Content
begin

text \<open>
  The lock file and the operations that read it (\<open>pkg/pack/distribution/lockfile.go\<close>,
  \<open>verify.go\<close>, \<open>relock.go\<close>, \<open>list.go\<close>, and the coordinate accessors of \<open>identity.go\<close>).
  The YAML codec is a parameter: it takes the document node the code builds by hand.  The file
  system is the function of \<open>Pack_Content\<close>; writing is a parameter that reports its error.
\<close>

record LockEntry =
  le_Name :: string
  le_Version :: string
  le_GitRef :: "string option"
  le_ContentHash :: string
  le_SourceType :: string
  le_InstallDate :: string
  le_LocalPath :: string
  le_SourceCoordinate :: string

record Lockfile =
  lf_Packs :: "(string, LockEntry) gomap"

subsection \<open>Writing and reading\<close>

datatype YNode = YScalar (y_tag: string) (y_value: string) | YMapping "YNode list"

definition addScalarPair :: "string \<Rightarrow> string \<Rightarrow> YNode list \<Rightarrow> YNode list" where
  "addScalarPair key value content = content @ [YScalar [] key, YScalar [] value]"

definition addNullPair :: "string \<Rightarrow> YNode list \<Rightarrow> YNode list" where
  "addNullPair key content = content @ [YScalar [] key, YScalar ''!!null'' ''null'']"

definition buildSortedLockEntryNode :: "LockEntry \<Rightarrow> YNode" where
  "buildSortedLockEntryNode entry =
     (let n1 = addScalarPair ''content_hash'' (le_ContentHash entry) [];
          n2 = (case le_GitRef entry of None \<Rightarrow> addNullPair ''git_ref'' n1 | Some ref \<Rightarrow> addScalarPair ''git_ref'' ref n1);
          n3 = addScalarPair ''install_date'' (le_InstallDate entry) n2;
          n4 = (if le_LocalPath entry \<noteq> [] then addScalarPair ''local_path'' (le_LocalPath entry) n3 else n3);
          n5 = addScalarPair ''name'' (le_Name entry) n4;
          n6 = (if le_SourceCoordinate entry \<noteq> [] then addScalarPair ''source_coordinate'' (le_SourceCoordinate entry) n5 else n5);
          n7 = addScalarPair ''source_type'' (le_SourceType entry) n6;
          n8 = (if le_Version entry \<noteq> [] then addScalarPair ''version'' (le_Version entry) n7 else addNullPair ''version'' n7)
      in YMapping n8)"

definition lockfile_document :: "Lockfile \<Rightarrow> YNode" where
  "lockfile_document lf =
     (let names = sort (map fst (lf_Packs lf));
          packsMapNode = YMapping (concat (map (\<lambda>name.
            case map_of (lf_Packs lf) name of
              None \<Rightarrow> []
            | Some entry \<Rightarrow> [YScalar [] name, buildSortedLockEntryNode entry]) names))
      in YMapping [YScalar [] ''packs'', packsMapNode])"

definition WriteLockfile ::
  "(YNode \<Rightarrow> string + string) \<Rightarrow> (string \<Rightarrow> string \<Rightarrow> string option) \<Rightarrow> string \<Rightarrow> Lockfile \<Rightarrow> string + string" where
  "WriteLockfile marshal writeFile path lf =
     (case marshal (lockfile_document lf) of
        Inl err \<Rightarrow> Inl (''marshaling lockfile: '' @ err)
      | Inr dat \<Rightarrow> (case writeFile path dat of
            Some err \<Rightarrow> Inl (''writing lockfile '' @ path @ '': '' @ err)
          | None \<Rightarrow> Inr dat))"

text \<open>A document without a \<open>packs\<close> key decodes to the nil map, which is replaced by an empty one.\<close>

definition ReadLockfile ::
  "(string \<Rightarrow> string + string) \<Rightarrow> (string \<Rightarrow> string + (string, LockEntry) gomap option) \<Rightarrow> string \<Rightarrow> string + Lockfile" where
  "ReadLockfile readFile unmarshal path =
     (case readFile path of
        Inl err \<Rightarrow> Inl (''reading lockfile '' @ path @ '': '' @ err)
      | Inr dat \<Rightarrow> (case unmarshal dat of
            Inl err \<Rightarrow> Inl (''parsing lockfile '' @ path @ '': '' @ err)
          | Inr None \<Rightarrow> Inr \<lparr>lf_Packs = []\<rparr>
          | Inr (Some packs) \<Rightarrow> Inr \<lparr>lf_Packs = packs\<rparr>))"

subsection \<open>Where a locked pack came from\<close>

definition CoordinateForEntry :: "string \<Rightarrow> LockEntry \<Rightarrow> string \<times> string" where
  "CoordinateForEntry packName entry =
     (if le_SourceCoordinate entry \<noteq> [] then (le_SourceCoordinate entry, [])
      else (packName, ''pack '' @ packName @ '' has no source_coordinate recorded in backstop.lock; falling back to its pack name as the repository. Re-add or relock the pack to record where it came from.''))"

definition RemoteURLForEntry :: "string \<Rightarrow> LockEntry \<Rightarrow> string \<times> string" where
  "RemoteURLForEntry packName entry =
     (case CoordinateForEntry packName entry of (coordinate, warning) \<Rightarrow> (resolveGitURL coordinate, warning))"

subsection \<open>Verification at gate time\<close>

record LockFailure =
  fl_Pack :: string
  fl_Kind :: string
  fl_Message :: string

record VerifyResult =
  vr_Pass :: bool
  vr_Failures :: "LockFailure list"

definition verify_entry :: "file_system \<Rightarrow> string \<Rightarrow> string \<times> LockEntry \<Rightarrow> string + LockFailure list" where
  "verify_entry fs packsDir named =
     (case named of (name, entry) \<Rightarrow>
        if le_SourceType entry = ''local'' then Inr []
        else
          let packDir = JoinPath [packsDir, name] in
          if \<not> (case fs packDir of Some t \<Rightarrow> is_dir t | None \<Rightarrow> False) then
            Inr [\<lparr>fl_Pack = name, fl_Kind = ''missing_pack'',
                  fl_Message = ''locked pack '' @ name @ '' is not present in '' @ packsDir @ ''; run pack install to restore''\<rparr>]
          else (case ComputeContentHash fs packDir of
                  Inl err \<Rightarrow> Inl (''computing hash for '' @ name @ '': '' @ err)
                | Inr currentHash \<Rightarrow>
                    if currentHash \<noteq> le_ContentHash entry then
                      Inr [\<lparr>fl_Pack = name, fl_Kind = ''hash_mismatch'',
                            fl_Message = ''pack '' @ name @ '' content hash mismatch: installed='' @ currentHash @ '' locked=''
                              @ le_ContentHash entry @ ''; run pack install to restore''\<rparr>]
                    else Inr []))"

definition extra_in_org :: "Lockfile \<Rightarrow> string \<Rightarrow> PackNode \<Rightarrow> LockFailure list" where
  "extra_in_org lf packsDir org =
     (case org of
        PFile _ _ \<Rightarrow> []
      | PDir orgName packs \<Rightarrow>
          concat (map (\<lambda>pack.
            if \<not> is_dir pack then []
            else
              let fullName = map (\<lambda>c. if c = CHR 0x5C then CHR ''/'' else c) (orgName @ ''/'' @ pnode_name pack) in
              if map_has (lf_Packs lf) fullName then []
              else [\<lparr>fl_Pack = fullName, fl_Kind = ''extra_unlocked'',
                     fl_Message = ''pack '' @ fullName @ '' exists in '' @ packsDir @ '' but is not in backstop.lock''\<rparr>]) packs))"

definition detectExtraUnlocked :: "file_system \<Rightarrow> Lockfile \<Rightarrow> string \<Rightarrow> string + LockFailure list" where
  "detectExtraUnlocked fs lf packsDir =
     (case fs packsDir of
        None \<Rightarrow> Inr []
      | Some (PFile _ _) \<Rightarrow> Inl (''open '' @ packsDir @ '': not a directory'')
      | Some (PDir _ orgs) \<Rightarrow> Inr (concat (map (extra_in_org lf packsDir) orgs)))"

definition VerifyLock :: "file_system \<Rightarrow> Lockfile option \<Rightarrow> string \<Rightarrow> string list \<Rightarrow> string + VerifyResult" where
  "VerifyLock fs lockfile packsDir ymlPacks =
     (case lockfile of
        None \<Rightarrow>
          Inr (if ymlPacks \<noteq> [] then
                 \<lparr>vr_Pass = False, vr_Failures =
                    [\<lparr>fl_Pack = [], fl_Kind = ''missing_lockfile'',
                      fl_Message = ''backstop.lock is absent but packs are declared in backstop.yml''\<rparr>]\<rparr>
               else \<lparr>vr_Pass = True, vr_Failures = []\<rparr>)
      | Some lf \<Rightarrow>
          (case concat_results (map (verify_entry fs packsDir) (lf_Packs lf)) of
             Inl err \<Rightarrow> Inl err
           | Inr failures \<Rightarrow>
               (case detectExtraUnlocked fs lf packsDir of
                  Inl err \<Rightarrow> Inl (''checking for extra packs: '' @ err)
                | Inr extra \<Rightarrow> Inr \<lparr>vr_Pass = (failures @ extra = []), vr_Failures = failures @ extra\<rparr>)))"

subsection \<open>Relocking and listing\<close>

definition installed_dir :: "string \<Rightarrow> string \<Rightarrow> string" where
  "installed_dir projectDir name = JoinPath [projectDir, ''.backstop'', ''packs'', name]"

definition isPackInstalledAndCurrent :: "file_system \<Rightarrow> string + Lockfile \<Rightarrow> string \<Rightarrow> string \<Rightarrow> bool" where
  "isPackInstalledAndCurrent fs lock projectDir packName =
     (case fs (installed_dir projectDir packName) of
        Some (PDir _ entries) \<Rightarrow>
          entries \<noteq> [] \<and> (case lock of Inl _ \<Rightarrow> False | Inr lf \<Rightarrow> map_has (lf_Packs lf) packName)
      | _ \<Rightarrow> False)"

definition readPackName :: "(string \<Rightarrow> string + string) \<Rightarrow> (string \<Rightarrow> string + string) \<Rightarrow> string \<Rightarrow> string + string" where
  "readPackName readFile yamlName packDir =
     (case readFile (JoinPath [packDir, ''pack.yml'']) of
        Inl err \<Rightarrow> Inl (''reading pack manifest at '' @ packDir @ '': '' @ err)
      | Inr dat \<Rightarrow> (case yamlName dat of
            Inl err \<Rightarrow> Inl (''parsing pack manifest at '' @ packDir @ '': '' @ err)
          | Inr name \<Rightarrow> if name = [] then Inl (''pack manifest at '' @ packDir @ '' has no name'') else Inr name))"

record RelockResult =
  rr_PackName :: string
  rr_ContentHash :: string

text \<open>The result carries the lock file as written, or the error with nothing written.\<close>

definition Relock ::
  "file_system \<Rightarrow> (string \<Rightarrow> string + string) \<Rightarrow> (string \<Rightarrow> string + string) \<Rightarrow> (string \<Rightarrow> string + Lockfile)
     \<Rightarrow> (string \<Rightarrow> Lockfile \<Rightarrow> string option) \<Rightarrow> string \<Rightarrow> string \<Rightarrow> string \<Rightarrow> string + RelockResult \<times> Lockfile" where
  "Relock fs readFile yamlName readLock writeLock now projectDir packPath =
     (case readPackName readFile yamlName packPath of
        Inl err \<Rightarrow> Inl err
      | Inr name \<Rightarrow>
          let lockPath = JoinPath [projectDir, ''backstop.lock''] in
          (case readLock lockPath of
             Inl err \<Rightarrow> Inl (''reading lockfile: '' @ err)
           | Inr lf \<Rightarrow>
               (case map_of (lf_Packs lf) name of
                  None \<Rightarrow> Inl (''pack '' @ quote name @ '' is not in backstop.lock; add it first with pack add'')
                | Some entry \<Rightarrow>
                    if le_SourceType entry \<noteq> ''local'' then
                      Inl (''pack '' @ quote name @ '' is not a local pack (source_type '' @ quote (le_SourceType entry)
                        @ ''); relock only refreshes local packs '' @ [CHR 0xE2, CHR 0x80, CHR 0x94] @ '' use pack update/upgrade for git packs'')
                    else
                      let installedDir = installed_dir projectDir name in
                      if fs installedDir = None then
                        Inl (''installed pack directory '' @ installedDir @ '' not found: stat '' @ installedDir @ '': no such file or directory'')
                      else (case ComputeContentHash fs installedDir of
                         Inl err \<Rightarrow> Inl (''computing content hash for '' @ quote name @ '': '' @ err)
                       | Inr hash \<Rightarrow>
                           let lf' = lf\<lparr>lf_Packs := map_set name (entry\<lparr>le_ContentHash := hash, le_InstallDate := now\<rparr>) (lf_Packs lf)\<rparr> in
                           (case writeLock lockPath lf' of
                              Some err \<Rightarrow> Inl (''writing lockfile: '' @ err)
                            | None \<Rightarrow> Inr (\<lparr>rr_PackName = name, rr_ContentHash = hash\<rparr>, lf'))))))"

record listManifest =
  lm_Archetype :: string
  lm_Rules :: nat
  lm_Scaffolds :: nat
  lm_ContentRules :: nat
  lm_ContentScaffolds :: nat

definition ruleCount :: "listManifest \<Rightarrow> nat" where
  "ruleCount m = (if lm_ContentRules m > 0 then lm_ContentRules m else lm_Rules m)"

definition scaffoldCount :: "listManifest \<Rightarrow> nat" where
  "scaffoldCount m = (if lm_ContentScaffolds m > 0 then lm_ContentScaffolds m else lm_Scaffolds m)"

record PackInfo =
  pi_Name :: string
  pi_Version :: string
  pi_LockStatus :: string
  pi_Archetype :: string
  pi_RuleCount :: nat
  pi_ScaffoldCount :: nat

definition computeLockStatus :: "file_system \<Rightarrow> string \<Rightarrow> string \<Rightarrow> LockEntry \<Rightarrow> string" where
  "computeLockStatus fs projectDir ref entry =
     (let packDir = installed_dir projectDir ref in
      if fs packDir = None then ''missing''
      else (case ComputeContentHash fs packDir of
              Inl _ \<Rightarrow> ''missing''
            | Inr hash \<Rightarrow>
                if hash = le_ContentHash entry then (if le_SourceType entry = ''local'' then ''current'' else ''locked'')
                else ''stale''))"

definition list_pack ::
  "file_system \<Rightarrow> (string \<Rightarrow> string + listManifest) \<Rightarrow> Lockfile option \<Rightarrow> string \<Rightarrow> string \<times> string \<Rightarrow> PackInfo" where
  "list_pack fs readManifest lock projectDir declared =
     (case declared of (ref, version) \<Rightarrow>
        let info = \<lparr>pi_Name = ref, pi_Version = version, pi_LockStatus = [], pi_Archetype = [], pi_RuleCount = 0, pi_ScaffoldCount = 0\<rparr>;
            info1 = (case lock of
                       None \<Rightarrow> info
                     | Some lf \<Rightarrow> (case map_of (lf_Packs lf) ref of
                           Some entry \<Rightarrow> info\<lparr>pi_LockStatus := computeLockStatus fs projectDir ref entry,
                             pi_Version := (if version = [] \<or> version = ''local'' then le_Version entry else version)\<rparr>
                         | None \<Rightarrow> info\<lparr>pi_LockStatus := ''missing''\<rparr>))
        in (case readManifest (installed_dir projectDir ref) of
              Inl _ \<Rightarrow> info1
            | Inr m \<Rightarrow> info1\<lparr>pi_Archetype := lm_Archetype m, pi_RuleCount := ruleCount m, pi_ScaffoldCount := scaffoldCount m\<rparr>))"

definition PackList ::
  "file_system \<Rightarrow> (string \<Rightarrow> string + listManifest) \<Rightarrow> string + (string, string) gomap \<Rightarrow> string + Lockfile \<Rightarrow> string
     \<Rightarrow> string + PackInfo list" where
  "PackList fs readManifest yml lock projectDir =
     (case yml of
        Inl err \<Rightarrow> Inl err
      | Inr packs \<Rightarrow> Inr (map (list_pack fs readManifest (case lock of Inl _ \<Rightarrow> None | Inr lf \<Rightarrow> Some lf) projectDir) packs))"

definition table_row :: "string list \<Rightarrow> string" where
  "table_row cells =
     Join (map (\<lambda>(w, c). pad_right w c) (zip [30, 12, 12, 15, 8, 10] cells)) '' '' @ [CHR 0x0A]"

definition formatListTable :: "PackInfo list \<Rightarrow> string" where
  "formatListTable packs =
     table_row [''NAME'', ''VERSION'', ''LOCK STATUS'', ''ARCHETYPE'', ''RULES'', ''SCAFFOLDS'']
     @ replicate 90 (CHR ''-'') @ [CHR 0x0A]
     @ concat (map (\<lambda>p. table_row [pi_Name p, (if pi_Version p = [] then ''-'' else pi_Version p), pi_LockStatus p,
                                   pi_Archetype p, Itoa (int (pi_RuleCount p)), Itoa (int (pi_ScaffoldCount p))]) packs)"

subsection \<open>The written document\<close>

text \<open>How a mapping node reads back: its pairs, and an entry from the scalars under its keys, where a
  missing key and an explicit null both give the zero value.\<close>

fun node_pairs :: "YNode list \<Rightarrow> (string \<times> YNode) list" where
  "node_pairs (YScalar _ key # value # rest) = (key, value) # node_pairs rest"
| "node_pairs _ = []"

fun mapping_pairs :: "YNode \<Rightarrow> (string \<times> YNode) list" where
  "mapping_pairs (YMapping content) = node_pairs content"
| "mapping_pairs (YScalar _ _) = []"

definition scalar_at :: "YNode \<Rightarrow> string \<Rightarrow> string option" where
  "scalar_at node key =
     (case map_of (mapping_pairs node) key of
        Some (YScalar tag value) \<Rightarrow> if tag = ''!!null'' then None else Some value
      | _ \<Rightarrow> None)"

definition entry_of_node :: "YNode \<Rightarrow> LockEntry" where
  "entry_of_node node =
     (let str = (\<lambda>key. case scalar_at node key of None \<Rightarrow> [] | Some v \<Rightarrow> v)
      in \<lparr>le_Name = str ''name'', le_Version = str ''version'', le_GitRef = scalar_at node ''git_ref'',
          le_ContentHash = str ''content_hash'', le_SourceType = str ''source_type'', le_InstallDate = str ''install_date'',
          le_LocalPath = str ''local_path'', le_SourceCoordinate = str ''source_coordinate''\<rparr>)"

lemma entry_pairs:
  "mapping_pairs (buildSortedLockEntryNode e) =
     [(''content_hash'', YScalar [] (le_ContentHash e)),
      (''git_ref'', case le_GitRef e of None \<Rightarrow> YScalar ''!!null'' ''null'' | Some r \<Rightarrow> YScalar [] r),
      (''install_date'', YScalar [] (le_InstallDate e))]
     @ (if le_LocalPath e \<noteq> [] then [(''local_path'', YScalar [] (le_LocalPath e))] else [])
     @ [(''name'', YScalar [] (le_Name e))]
     @ (if le_SourceCoordinate e \<noteq> [] then [(''source_coordinate'', YScalar [] (le_SourceCoordinate e))] else [])
     @ [(''source_type'', YScalar [] (le_SourceType e)),
        (''version'', if le_Version e \<noteq> [] then YScalar [] (le_Version e) else YScalar ''!!null'' ''null'')]"
  by (simp add: buildSortedLockEntryNode_def Let_def addScalarPair_def addNullPair_def split: option.split)

lemma entry_roundtrip: "entry_of_node (buildSortedLockEntryNode e) = e"
  by (simp add: entry_of_node_def scalar_at_def entry_pairs Let_def split: option.split)

lemma entry_keys_sorted: "sorted_wrt (<) (map fst (mapping_pairs (buildSortedLockEntryNode e)))"
  by (simp add: entry_pairs less_char_def)

lemma lockfile_pairs:
  assumes "distinct (map fst (lf_Packs lf))"
  shows "mapping_pairs (snd (hd (mapping_pairs (lockfile_document lf)))) =
     map (\<lambda>name. (name, buildSortedLockEntryNode (the (map_of (lf_Packs lf) name)))) (sort (map fst (lf_Packs lf)))"
proof -
  have "node_pairs (concat (map (\<lambda>name. case map_of m name of None \<Rightarrow> []
            | Some entry \<Rightarrow> [YScalar [] name, buildSortedLockEntryNode entry]) names)) =
        map (\<lambda>name. (name, buildSortedLockEntryNode (the (map_of m name)))) names"
    if "\<forall>name\<in>set names. map_of m name \<noteq> None" for names and m :: "(string, LockEntry) gomap"
    using that by (induction names) (auto split: option.splits)
  moreover have "\<forall>name\<in>set (sort (map fst (lf_Packs lf))). map_of (lf_Packs lf) name \<noteq> None"
    by (simp add: map_of_eq_None_iff)
  ultimately show ?thesis by (simp add: lockfile_document_def Let_def)
qed

text \<open>The lock file is canonical. Whatever order the map iterates in, the same entries give the same
  document; the pack names and the keys of every entry stand in strictly ascending order; and
  reading the document back gives every entry with all its fields, so nothing the commands
  record is lost and no field is written that was not set.\<close>

theorem lock_document_canonical:
  assumes "distinct (map fst (lf_Packs a))" "distinct (map fst (lf_Packs b))"
    and "set (lf_Packs a) = set (lf_Packs b)"
  shows "lockfile_document a = lockfile_document b
    \<and> (let packs = mapping_pairs (snd (hd (mapping_pairs (lockfile_document a)))) in
         sorted_wrt (<) (map fst packs)
         \<and> set (map (map_prod id entry_of_node) packs) = set (lf_Packs a)
         \<and> list_all (\<lambda>p. sorted_wrt (<) (map fst (mapping_pairs (snd p)))) packs)"
proof -
  have maps: "map_of (lf_Packs a) = map_of (lf_Packs b)" using assms by (simp add: map_of_inject_set)
  have "sort (map fst (lf_Packs a)) = sort (map fst (lf_Packs b))"
    using assms by (intro sorted_distinct_set_unique) simp_all
  with maps have doc: "lockfile_document a = lockfile_document b" by (simp add: lockfile_document_def)
  let ?names = "sort (map fst (lf_Packs a))"
  let ?packs = "map (\<lambda>name. (name, buildSortedLockEntryNode (the (map_of (lf_Packs a) name)))) ?names"
  have "sorted_wrt (<) ?names" using assms(1) by (simp add: strict_sorted_iff)
  moreover have "set (map (map_prod id entry_of_node) ?packs) = set (lf_Packs a)"
    using assms(1) by (force simp: entry_roundtrip image_image)
  ultimately have "let packs = mapping_pairs (snd (hd (mapping_pairs (lockfile_document a)))) in
         sorted_wrt (<) (map fst packs)
         \<and> set (map (map_prod id entry_of_node) packs) = set (lf_Packs a)
         \<and> list_all (\<lambda>p. sorted_wrt (<) (map fst (mapping_pairs (snd p)))) packs"
    by (simp add: lockfile_pairs [OF assms(1)] comp_def list_all_iff entry_keys_sorted image_image)
  with doc show ?thesis by blast
qed

theorem lock_document_canonical_witness:
  "let a = \<lparr>lf_Packs = [(''z/b'', entry_of_node (YMapping [])), (''a/b'', entry_of_node (YMapping []))]\<rparr> in
   lockfile_document a = lockfile_document (a\<lparr>lf_Packs := rev (lf_Packs a)\<rparr>)"
  using lock_document_canonical
    [of "\<lparr>lf_Packs = [(''z/b'', entry_of_node (YMapping [])), (''a/b'', entry_of_node (YMapping []))]\<rparr>"
        "\<lparr>lf_Packs = [(''a/b'', entry_of_node (YMapping [])), (''z/b'', entry_of_node (YMapping []))]\<rparr>"]
  by (simp add: insert_commute)

subsection \<open>Verification is exact\<close>

definition verified :: "file_system \<Rightarrow> string \<Rightarrow> string \<Rightarrow> LockEntry \<Rightarrow> bool" where
  "verified fs packsDir name entry \<longleftrightarrow>
     (\<exists>t. fs (JoinPath [packsDir, name]) = Some t \<and> is_dir t \<and> tree_hash t = Inr (le_ContentHash entry))"

lemma verify_entry_Inr_Nil:
  "verify_entry fs packsDir (name, entry) = Inr [] \<longleftrightarrow>
     le_SourceType entry = ''local'' \<or> verified fs packsDir name entry"
  by (auto simp: verify_entry_def Let_def ComputeContentHash_def verified_def split: option.splits sum.splits if_splits)

lemma concat_results_Nil:
  assumes "concat_results rs = Inr ys"
  shows "ys = [] \<longleftrightarrow> (\<forall>r\<in>set rs. r = Inr [])"
  using assms unfolding concat_results_Inr by auto

definition all_locked :: "Lockfile \<Rightarrow> PackNode option \<Rightarrow> bool" where
  "all_locked lf packs \<longleftrightarrow>
     (\<forall>root orgs org inside pack. packs = Some (PDir root orgs) \<and> PDir org inside \<in> set orgs
        \<and> pack \<in> set inside \<and> is_dir pack \<longrightarrow>
        map_has (lf_Packs lf) (map (\<lambda>c. if c = CHR 0x5C then CHR ''/'' else c) (org @ ''/'' @ pnode_name pack)))"

lemma extra_in_org_Nil:
  "extra_in_org lf packsDir org = [] \<longleftrightarrow>
     (\<forall>name inside pack. org = PDir name inside \<and> pack \<in> set inside \<and> is_dir pack \<longrightarrow>
        map_has (lf_Packs lf) (map (\<lambda>c. if c = CHR 0x5C then CHR ''/'' else c) (name @ ''/'' @ pnode_name pack)))"
proof (cases org)
  case (PDir name inside)
  have "extra_in_org lf packsDir (PDir name inside) = [] \<longleftrightarrow>
      (\<forall>pack\<in>set inside. is_dir pack \<longrightarrow>
        map_has (lf_Packs lf) (map (\<lambda>c. if c = CHR 0x5C then CHR ''/'' else c) (name @ ''/'' @ pnode_name pack)))"
    unfolding extra_in_org_def PackNode.case concat_eq_Nil_conv set_map ball_simps(9) Let_def
    by (rule ball_cong [OF refl]) simp
  with PDir show ?thesis by (simp add: Ball_def imp_conjL)
qed (simp add: extra_in_org_def)



subsection \<open>Relocking\<close>

text \<open>Relocking refreshes exactly one entry. On success the pack's entry records the hash of what is
  installed, so the pack lists as current; its source, coordinate and version are kept; every
  other entry is unchanged; and only a locked local pack can be relocked.\<close>

theorem relock_refreshes:
  assumes "Relock fs readFile yamlName readLock writeLock now projectDir packPath = Inr (result, lf')"
  shows "\<exists>lf entry. readLock (JoinPath [projectDir, ''backstop.lock'']) = Inr lf
    \<and> map_of (lf_Packs lf) (rr_PackName result) = Some entry \<and> le_SourceType entry = ''local''
    \<and> map_of (lf_Packs lf') (rr_PackName result) = Some (entry\<lparr>le_ContentHash := rr_ContentHash result, le_InstallDate := now\<rparr>)
    \<and> (\<forall>other. other \<noteq> rr_PackName result \<longrightarrow> map_of (lf_Packs lf') other = map_of (lf_Packs lf) other)
    \<and> computeLockStatus fs projectDir (rr_PackName result)
         (entry\<lparr>le_ContentHash := rr_ContentHash result, le_InstallDate := now\<rparr>) = ''current''"
  using assms
  by (auto simp: Relock_def Let_def computeLockStatus_def split: sum.splits option.splits if_splits)

theorem relock_refreshes_witness:
  "\<exists>lf entry. (Inr \<lparr>lf_Packs = [(''a/b'', entry_of_node (YMapping [])\<lparr>le_SourceType := ''local''\<rparr>)]\<rparr> :: string + Lockfile) = Inr lf
     \<and> map_of (lf_Packs lf) ''a/b'' = Some entry
     \<and> computeLockStatus (\<lambda>_. Some (PDir ''b'' [])) ''/w'' ''a/b''
         (entry\<lparr>le_ContentHash := sha256_hex [], le_InstallDate := ''now''\<rparr>) = ''current''"
proof -
  let ?lf = "\<lparr>lf_Packs = [(''a/b'', entry_of_node (YMapping [])\<lparr>le_SourceType := ''local''\<rparr>)]\<rparr>"
  have h: "tree_hash (PDir ''b'' []) = Inr (sha256_hex [])"
    by (simp add: tree_hash_Inr content_manifest_def isRootRepositoryMetadata_def gitDirectoryName_def)
  then have "\<exists>lf'. Relock (\<lambda>_. Some (PDir ''b'' [])) (\<lambda>_. Inr ''x'') (\<lambda>_. Inr ''a/b'') (\<lambda>_. Inr ?lf) (\<lambda>_ _. None) ''now'' ''/w'' ''/src''
      = Inr (\<lparr>rr_PackName = ''a/b'', rr_ContentHash = sha256_hex []\<rparr>, lf')"
    by (simp add: Relock_def readPackName_def ComputeContentHash_def Let_def)
  then obtain lf' where r: "Relock (\<lambda>_. Some (PDir ''b'' [])) (\<lambda>_. Inr ''x'') (\<lambda>_. Inr ''a/b'') (\<lambda>_. Inr ?lf) (\<lambda>_ _. None) ''now'' ''/w'' ''/src''
      = Inr (\<lparr>rr_PackName = ''a/b'', rr_ContentHash = sha256_hex []\<rparr>, lf')" by blast
  from relock_refreshes [OF r] show ?thesis by auto
qed

end
