(* ===== verification/Pack_Project.thy ===== *)
theory Pack_Project
  imports Pack_Lock
begin

text \<open>
  The consumer project the pack commands change (\<open>pkg/pack/distribution/provenance.go\<close>,
  \<open>config_merge.go\<close>, \<open>remove.go\<close>, and the file helpers of \<open>add.go\<close>, \<open>update.go\<close> and
  \<open>command.go\<close>).  A file of the project is its decoded content: missing, unreadable with the
  error reading it gives, or its value.  Whether a write fails is told by \<open>t_io\<close>, path by path;
  a failed write leaves the file as it was.  Setting values are of any type, rendered by \<open>t_fmt\<close>
  (\<open>%v\<close>) and \<open>t_json\<close>; the YAML and JSON decoders of the manifests are parameters too.
\<close>

datatype 'a file_state = Missing | Unreadable string | Holds 'a

fun read_file_state :: "string \<Rightarrow> 'a file_state \<Rightarrow> string + 'a" where
  "read_file_state name Missing = Inl (''open '' @ name @ '': no such file or directory'')"
| "read_file_state name (Unreadable err) = Inl err"
| "read_file_state name (Holds x) = Inr x"

record ProvenanceEntry =
  pv_ConfigFile :: string
  pv_SettingKey :: string
  pv_SourcePack :: string
  pv_ValueHash :: string

record 'v project =
  pj_yml :: "(string, string) gomap file_state"
  pj_lock :: "Lockfile file_state"
  pj_prov :: "ProvenanceEntry list file_state"
  pj_configs :: "string \<Rightarrow> (string, 'v) gomap file_state"
  pj_installed :: "string \<Rightarrow> PackNode option"
  pj_gitignore :: "string file_state"

type_synonym 'v tool_config = "(string \<times> (string, 'v) gomap) list"

record 'v tools =
  t_clone :: "string \<Rightarrow> string \<Rightarrow> string + PackNode"
  t_listTags :: "string \<Rightarrow> string + string list"
  t_check :: "PackNode \<Rightarrow> string option"
  t_test :: "PackNode \<Rightarrow> string option"
  t_yamlFields :: "string \<Rightarrow> string + string \<times> string"
  t_yamlRules :: "string \<Rightarrow> string + tamperManifest"
  t_toolConfig :: "string \<Rightarrow> string + 'v tool_config"
  t_fmt :: "'v \<Rightarrow> string"
  t_json :: "'v \<Rightarrow> string"
  t_io :: "string \<Rightarrow> string option"
  t_fs :: file_system
  t_cwd :: string
  t_now :: string

subsection \<open>Provenance\<close>

definition provPath :: string where "provPath = ''.backstop/pack-config-provenance.json''"

text \<open>A provenance file that does not exist is an empty one.\<close>

definition ReadProvenance :: "'v project \<Rightarrow> string + ProvenanceEntry list" where
  "ReadProvenance p =
     (case pj_prov p of
        Missing \<Rightarrow> Inr []
      | Unreadable err \<Rightarrow> Inl (''reading provenance '' @ provPath @ '': '' @ err)
      | Holds entries \<Rightarrow> Inr entries)"

definition WriteProvenance :: "'v tools \<Rightarrow> 'v project \<Rightarrow> ProvenanceEntry list \<Rightarrow> string option \<times> 'v project" where
  "WriteProvenance tools p entries =
     (case t_io tools provPath of
        Some err \<Rightarrow> (Some (''writing provenance '' @ provPath @ '': '' @ err), p)
      | None \<Rightarrow> (None, p\<lparr>pj_prov := Holds entries\<rparr>))"

subsection \<open>Merging tool configuration\<close>

record ConfigConflict =
  cc_ConfigFile :: string
  cc_SettingKey :: string
  cc_PackValue :: string
  cc_CurrentValue :: string

record MergeResult =
  mr_Merged :: "ProvenanceEntry list"
  mr_Conflicts :: "ConfigConflict list"

text \<open>\<open>readConfigFile\<close>: the nil map for a file that does not exist.\<close>

definition readConfigFile :: "'v project \<Rightarrow> string \<Rightarrow> string + (string, 'v) gomap option" where
  "readConfigFile p path =
     (case pj_configs p path of Missing \<Rightarrow> Inr None | Unreadable err \<Rightarrow> Inl err | Holds cfg \<Rightarrow> Inr (Some cfg))"

definition writeConfigFile :: "'v tools \<Rightarrow> 'v project \<Rightarrow> string \<Rightarrow> (string, 'v) gomap \<Rightarrow> string option \<times> 'v project" where
  "writeConfigFile tools p path cfg =
     (case t_io tools path of
        Some err \<Rightarrow> (Some err, p)
      | None \<Rightarrow> (None, p\<lparr>pj_configs := (pj_configs p)(path := Holds cfg)\<rparr>))"

definition computeValueHash :: "'v tools \<Rightarrow> 'v \<Rightarrow> string" where
  "computeValueHash tools value = ''sha256:'' @ sha256_hex (t_json tools value)"

type_synonym 'v merge_state = "(string, 'v) gomap option \<times> MergeResult"

definition merge_setting :: "'v tools \<Rightarrow> string \<Rightarrow> string \<times> 'v \<Rightarrow> 'v merge_state \<Rightarrow> 'v merge_state" where
  "merge_setting tools configFile setting st =
     (case setting of (key, packValue) \<Rightarrow> case st of (currentConfig, result) \<Rightarrow>
        (case (case currentConfig of None \<Rightarrow> None | Some cfg \<Rightarrow> map_of cfg key) of
           Some currentValue \<Rightarrow>
             if t_fmt tools currentValue \<noteq> t_fmt tools packValue then
               (currentConfig, result\<lparr>mr_Conflicts := mr_Conflicts result @
                 [\<lparr>cc_ConfigFile = configFile, cc_SettingKey = key,
                   cc_PackValue = t_fmt tools packValue, cc_CurrentValue = t_fmt tools currentValue\<rparr>]\<rparr>)
             else (currentConfig, result)
         | None \<Rightarrow>
             (Some (map_set key packValue (case currentConfig of None \<Rightarrow> [] | Some cfg \<Rightarrow> cfg)),
              result\<lparr>mr_Merged := mr_Merged result @
                [\<lparr>pv_ConfigFile = configFile, pv_SettingKey = key, pv_SourcePack = [],
                  pv_ValueHash = computeValueHash tools packValue\<rparr>]\<rparr>)))"

fun merge_files ::
  "'v tools \<Rightarrow> string \<Rightarrow> 'v tool_config \<Rightarrow> MergeResult \<Rightarrow> 'v project \<Rightarrow> (string + MergeResult) \<times> 'v project" where
  "merge_files tools projectDir [] result p = (Inr result, p)"
| "merge_files tools projectDir ((configFile, settings) # tcs) result p =
     (let path = JoinPath [projectDir, configFile];
          current = (case readConfigFile p path of Inl _ \<Rightarrow> None | Inr cfg \<Rightarrow> cfg)
      in case fold (merge_setting tools configFile) settings (current, result) of
           (cfg, result') \<Rightarrow>
             if \<exists>m\<in>set (mr_Merged result'). pv_ConfigFile m = configFile then
               (case writeConfigFile tools p path (case cfg of None \<Rightarrow> [] | Some c \<Rightarrow> c) of
                  (Some err, p') \<Rightarrow> (Inl (''writing config '' @ configFile @ '': '' @ err), p')
                | (None, p') \<Rightarrow> merge_files tools projectDir tcs result' p')
             else merge_files tools projectDir tcs result' p)"

text \<open>The bytes of \<open>pack.yml\<close> at the root of a pack tree.\<close>

definition pack_yml :: "PackNode \<Rightarrow> string + string" where
  "pack_yml t =
     (case find_node ''pack.yml'' (dir_entries (Some t)) of
        Some (PFile _ content) \<Rightarrow> content
      | Some (PDir _ _) \<Rightarrow> Inl ''read pack.yml: is a directory''
      | None \<Rightarrow> Inl ''open pack.yml: no such file or directory'')"

definition readPackManifest :: "'v tools \<Rightarrow> PackNode \<Rightarrow> string + 'v tool_config" where
  "readPackManifest tools t =
     (case pack_yml t of
        Inl err \<Rightarrow> Inl (''reading pack.yml: '' @ err)
      | Inr dat \<Rightarrow> (case t_toolConfig tools dat of
            Inl err \<Rightarrow> Inl (''parsing pack.yml: '' @ err)
          | Inr tc \<Rightarrow> Inr tc))"

definition MergeToolConfig ::
  "'v tools \<Rightarrow> PackNode \<Rightarrow> string \<Rightarrow> 'v project \<Rightarrow> (string + MergeResult) \<times> 'v project" where
  "MergeToolConfig tools packTree projectDir p =
     (case readPackManifest tools packTree of
        Inl err \<Rightarrow> (Inl (''reading pack manifest: '' @ err), p)
      | Inr tcs \<Rightarrow> merge_files tools projectDir tcs \<lparr>mr_Merged = [], mr_Conflicts = []\<rparr> p)"

definition describeConflicts :: "ConfigConflict list \<Rightarrow> string" where
  "describeConflicts conflicts =
     Join (map (\<lambda>c. cc_ConfigFile c @ '': '' @ cc_SettingKey c @ '' (pack='' @ cc_PackValue c @ '', current='' @ cc_CurrentValue c @ '')'')
            conflicts) [CHR 0x0A]"

subsection \<open>The project's manifest, lock and ignore file\<close>

definition isPackInstalled :: "'v project \<Rightarrow> string \<Rightarrow> bool" where
  "isPackInstalled p packName = (case pj_yml p of Holds packs \<Rightarrow> map_has packs packName | _ \<Rightarrow> False)"

definition write_yml :: "'v tools \<Rightarrow> 'v project \<Rightarrow> (string, string) gomap \<Rightarrow> string option \<times> 'v project" where
  "write_yml tools p packs =
     (case t_io tools ''backstop.yml'' of Some err \<Rightarrow> (Some err, p) | None \<Rightarrow> (None, p\<lparr>pj_yml := Holds packs\<rparr>))"

definition updateBackstopYml :: "'v tools \<Rightarrow> 'v project \<Rightarrow> string \<Rightarrow> string \<Rightarrow> bool \<Rightarrow> string option \<times> 'v project" where
  "updateBackstopYml tools p packName version isLocal =
     (case read_file_state ''backstop.yml'' (pj_yml p) of
        Inl err \<Rightarrow> (Some err, p)
      | Inr packs \<Rightarrow> write_yml tools p (map_set packName (if isLocal then ''local'' else version) packs))"

definition removeFromBackstopYml :: "'v tools \<Rightarrow> 'v project \<Rightarrow> string \<Rightarrow> string option \<times> 'v project" where
  "removeFromBackstopYml tools p packName =
     (case read_file_state ''backstop.yml'' (pj_yml p) of
        Inl err \<Rightarrow> (Some err, p)
      | Inr packs \<Rightarrow> write_yml tools p (AList.delete packName packs))"

definition updatePackVersion :: "'v tools \<Rightarrow> 'v project \<Rightarrow> string \<Rightarrow> string \<Rightarrow> string option \<times> 'v project" where
  "updatePackVersion tools p packName newVersion =
     (case read_file_state ''backstop.yml'' (pj_yml p) of
        Inl err \<Rightarrow> (Some (''reading backstop.yml: '' @ err), p)
      | Inr packs \<Rightarrow> write_yml tools p (map_set packName newVersion packs))"

text \<open>The current version and whether the pack is local.\<close>

definition readPackVersion :: "'v project \<Rightarrow> string \<Rightarrow> string + string \<times> bool" where
  "readPackVersion p packName =
     (case read_file_state ''backstop.yml'' (pj_yml p) of
        Inl err \<Rightarrow> Inl (''reading backstop.yml: '' @ err)
      | Inr packs \<Rightarrow> (case map_of packs packName of
            None \<Rightarrow> Inl (''pack '' @ packName @ '' not found in backstop.yml'')
          | Some version \<Rightarrow> if version = ''local'' then Inr ([], True) else Inr (version, False)))"

definition readManifestPacks :: "'v project \<Rightarrow> string + (string, string) gomap option" where
  "readManifestPacks p =
     (case pj_yml p of
        Missing \<Rightarrow> Inr None
      | Unreadable err \<Rightarrow> Inl (''reading backstop.yml: '' @ err)
      | Holds packs \<Rightarrow> Inr (Some packs))"

definition write_lock :: "'v tools \<Rightarrow> 'v project \<Rightarrow> Lockfile \<Rightarrow> string option \<times> 'v project" where
  "write_lock tools p lf =
     (case t_io tools ''backstop.lock'' of
        Some err \<Rightarrow> (Some (''writing lockfile backstop.lock: '' @ err), p)
      | None \<Rightarrow> (None, p\<lparr>pj_lock := Holds lf\<rparr>))"

text \<open>A lock that is missing or unreadable is replaced by a fresh one.\<close>

definition lock_or_fresh :: "'v project \<Rightarrow> Lockfile" where
  "lock_or_fresh p = (case pj_lock p of Holds lf \<Rightarrow> lf | _ \<Rightarrow> \<lparr>lf_Packs = []\<rparr>)"

definition zero_entry :: LockEntry where
  "zero_entry = \<lparr>le_Name = [], le_Version = [], le_GitRef = None, le_ContentHash = [], le_SourceType = [],
                 le_InstallDate = [], le_LocalPath = [], le_SourceCoordinate = []\<rparr>"

definition lockedEntryFor :: "'v project \<Rightarrow> string \<Rightarrow> LockEntry" where
  "lockedEntryFor p packName =
     (case pj_lock p of Holds lf \<Rightarrow> map_get zero_entry (lf_Packs lf) packName | _ \<Rightarrow> zero_entry)"

definition recordedCoordinateFor :: "'v project \<Rightarrow> string \<Rightarrow> string" where
  "recordedCoordinateFor p packName =
     (case pj_lock p of Holds lf \<Rightarrow> le_SourceCoordinate (map_get zero_entry (lf_Packs lf) packName) | _ \<Rightarrow> [])"

definition recordGitPackInLock ::
  "'v tools \<Rightarrow> 'v project \<Rightarrow> string \<Rightarrow> string \<Rightarrow> string \<Rightarrow> string \<Rightarrow> string option \<times> 'v project" where
  "recordGitPackInLock tools p packName version contentHash sourceCoordinate =
     write_lock tools p
       ((lock_or_fresh p)\<lparr>lf_Packs := map_set packName
          (zero_entry\<lparr>le_Name := packName, le_Version := version, le_GitRef := Some (''v'' @ version),
                      le_ContentHash := contentHash, le_SourceType := ''git'', le_InstallDate := t_now tools,
                      le_SourceCoordinate := sourceCoordinate\<rparr>) (lf_Packs (lock_or_fresh p))\<rparr>)"

definition ensureGitignore :: "'v tools \<Rightarrow> 'v project \<Rightarrow> string option \<times> 'v project" where
  "ensureGitignore tools p =
     (let entry = ''.backstop/packs/'';
          write = (\<lambda>content. case t_io tools ''.gitignore'' of
                     Some err \<Rightarrow> (Some err, p)
                   | None \<Rightarrow> (None, p\<lparr>pj_gitignore := Holds content\<rparr>))
      in case pj_gitignore p of
           Missing \<Rightarrow> write (entry @ [CHR 0x0A])
         | Unreadable err \<Rightarrow> (Some err, p)
         | Holds content \<Rightarrow>
             if Contains content entry then (None, p)
             else write (content @ (if HasSuffix content [CHR 0x0A] then [] else [CHR 0x0A]) @ entry @ [CHR 0x0A]))"

subsection \<open>Removing a pack\<close>

record RemoveResult =
  rm_RevertedSettings :: "string list"
  rm_Warnings :: "string list"

definition revert_entry :: "'v tools \<Rightarrow> 'v project \<Rightarrow> string \<Rightarrow> string \<Rightarrow> ProvenanceEntry \<Rightarrow> RemoveResult \<Rightarrow> RemoveResult" where
  "revert_entry tools p projectDir packName entry result =
     (let reverted = result\<lparr>rm_RevertedSettings := rm_RevertedSettings result @ [pv_SettingKey entry]\<rparr> in
      if pv_SourcePack entry \<noteq> packName then result
      else (case readConfigFile p (JoinPath [projectDir, pv_ConfigFile entry]) of
              Inr (Some cfg) \<Rightarrow>
                (case map_of cfg (pv_SettingKey entry) of
                   Some currentVal \<Rightarrow>
                     if computeValueHash tools currentVal \<noteq> pv_ValueHash entry then
                       result\<lparr>rm_Warnings := rm_Warnings result @
                         [pv_ConfigFile entry @ '': '' @ pv_SettingKey entry @ '' was modified since install (not reverting)'']\<rparr>
                     else reverted
                 | None \<Rightarrow> reverted)
            | _ \<Rightarrow> reverted))"

definition Remove :: "'v tools \<Rightarrow> string \<Rightarrow> 'v project \<Rightarrow> string \<Rightarrow> (string + RemoveResult) \<times> 'v project" where
  "Remove tools projectDir p packName =
     (if \<not> isPackInstalled p packName then (Inl (''pack '' @ packName @ '' is not installed''), p)
      else (case ReadProvenance p of
        Inl err \<Rightarrow> (Inl (''removing '' @ packName @ '': '' @ err), p)
      | Inr entries \<Rightarrow>
          let result = fold (revert_entry tools p projectDir packName) entries \<lparr>rm_RevertedSettings = [], rm_Warnings = []\<rparr>;
              packDir = installed_dir projectDir packName
          in (case pj_lock p of
            Unreadable err \<Rightarrow> (Inl (''removing '' @ packName @ '': '' @ err), p)
          | lock \<Rightarrow>
              (case t_io tools packDir of
                 Some err \<Rightarrow> (Inl (''removing pack directory '' @ packDir @ '': '' @ err), p)
               | None \<Rightarrow>
                   let p1 = p\<lparr>pj_installed := (pj_installed p)(packName := None)\<rparr> in
                   (case removeFromBackstopYml tools p1 packName of
                      (Some err, p2) \<Rightarrow> (Inl (''removing '' @ packName @ '' from backstop.yml: '' @ err), p2)
                    | (None, p2) \<Rightarrow>
                        (case (case lock of
                                 Holds lf \<Rightarrow> write_lock tools p2 (lf\<lparr>lf_Packs := AList.delete packName (lf_Packs lf)\<rparr>)
                               | _ \<Rightarrow> (None, p2)) of
                           (Some err, p3) \<Rightarrow> (Inl (''removing '' @ packName @ '' from backstop.lock: '' @ err), p3)
                         | (None, p3) \<Rightarrow>
                             (case WriteProvenance tools p3 (filter (\<lambda>e. pv_SourcePack e \<noteq> packName) entries) of
                                (Some err, p4) \<Rightarrow> (Inl (''removing '' @ packName @ '' from provenance: '' @ err), p4)
                              | (None, p4) \<Rightarrow> (Inr result, p4))))))))"

subsection \<open>Merging is additive\<close>

definition setting :: "(string, 'v) gomap option \<Rightarrow> string \<Rightarrow> 'v option" where
  "setting cfg key = (case cfg of None \<Rightarrow> None | Some m \<Rightarrow> map_of m key)"

definition config_at :: "'v project \<Rightarrow> string \<Rightarrow> (string, 'v) gomap option" where
  "config_at p path = (case pj_configs p path of Holds cfg \<Rightarrow> Some cfg | _ \<Rightarrow> None)"

text \<open>What one step of the merge keeps: settings stay, the reports only grow, and the settings change
  only with an entry for the file.\<close>

definition merge_grows :: "string \<Rightarrow> 'v merge_state \<Rightarrow> 'v merge_state \<Rightarrow> bool" where
  "merge_grows configFile st st' \<longleftrightarrow>
     (\<forall>key v. setting (fst st) key = Some v \<longrightarrow> setting (fst st') key = Some v)
     \<and> prefix (mr_Merged (snd st)) (mr_Merged (snd st')) \<and> prefix (mr_Conflicts (snd st)) (mr_Conflicts (snd st'))
     \<and> (fst st' \<noteq> fst st \<longrightarrow> (\<exists>m\<in>set (mr_Merged (snd st')). pv_ConfigFile m = configFile))"

lemma merge_grows_refl: "merge_grows f st st"
  by (simp add: merge_grows_def)

lemma merge_grows_trans: "merge_grows f st st' \<Longrightarrow> merge_grows f st' st'' \<Longrightarrow> merge_grows f st st''"
  unfolding merge_grows_def
  by (elim conjE, intro conjI) (blast, blast intro: prefix_order.trans, blast intro: prefix_order.trans,
      metis set_mono_prefix subsetD)

lemma merge_setting_step:
  "merge_grows f st (merge_setting tools f (key, v) st)
   \<and> (mr_Conflicts (snd (merge_setting tools f (key, v) st)) = mr_Conflicts (snd st) \<longrightarrow>
        (\<exists>w. setting (fst (merge_setting tools f (key, v) st)) key = Some w \<and> t_fmt tools w = t_fmt tools v))"
proof -
  obtain cfg res where st: "st = (cfg, res)" by (cases st)
  show ?thesis
  proof (cases "setting cfg key")
    case None
    then have "merge_setting tools f (key, v) st =
        (Some (map_set key v (case cfg of None \<Rightarrow> [] | Some c \<Rightarrow> c)),
         res\<lparr>mr_Merged := mr_Merged res @ [\<lparr>pv_ConfigFile = f, pv_SettingKey = key, pv_SourcePack = [],
             pv_ValueHash = computeValueHash tools v\<rparr>]\<rparr>)"
      by (simp add: merge_setting_def st setting_def split: option.splits)
    with None st show ?thesis by (cases cfg) (simp_all add: merge_grows_def setting_def)
  next
    case (Some w)
    then obtain c where c: "cfg = Some c" "map_of c key = Some w" by (auto simp: setting_def split: option.splits)
    then show ?thesis by (simp add: st merge_setting_def merge_grows_def setting_def)
  qed
qed

lemma merge_settings_fold:
  "merge_grows f st (fold (merge_setting tools f) settings st)
   \<and> (mr_Conflicts (snd (fold (merge_setting tools f) settings st)) = mr_Conflicts (snd st) \<longrightarrow>
        (\<forall>(key, v)\<in>set settings. \<exists>w. setting (fst (fold (merge_setting tools f) settings st)) key = Some w
           \<and> t_fmt tools w = t_fmt tools v))"
proof (induction settings arbitrary: st)
  case (Cons kv settings)
  obtain key v where kv: "kv = (key, v)" by (cases kv)
  let ?st = "merge_setting tools f (key, v) st" and ?last = "fold (merge_setting tools f) settings (merge_setting tools f (key, v) st)"
  note step = merge_setting_step [of f st tools key v] and IH = Cons.IH [of ?st]
  have g: "merge_grows f st ?last" using step IH merge_grows_trans by blast
  have "\<forall>(key, v)\<in>set (kv # settings). \<exists>w. setting (fst ?last) key = Some w \<and> t_fmt tools w = t_fmt tools v"
    if "mr_Conflicts (snd ?last) = mr_Conflicts (snd st)"
  proof -
    have "prefix (mr_Conflicts (snd st)) (mr_Conflicts (snd ?st))" "prefix (mr_Conflicts (snd ?st)) (mr_Conflicts (snd ?last))"
      using step IH by (simp_all add: merge_grows_def)
    with that have eq: "mr_Conflicts (snd ?st) = mr_Conflicts (snd st)" "mr_Conflicts (snd ?last) = mr_Conflicts (snd ?st)"
      by (metis prefix_order.antisym)+
    then obtain w where w: "setting (fst ?st) key = Some w" "t_fmt tools w = t_fmt tools v" using step by blast
    then have "setting (fst ?last) key = Some w" using IH by (simp add: merge_grows_def)
    with w kv eq(2) IH show ?thesis by auto
  qed
  with g kv show ?case by simp
qed (simp add: merge_grows_refl)

lemma merge_files_facts:
  assumes "merge_files tools projectDir tcs result p = (Inr result', p')"
  shows "(\<forall>path key v. setting (config_at p path) key = Some v \<longrightarrow> setting (config_at p' path) key = Some v)
    \<and> prefix (mr_Conflicts result) (mr_Conflicts result')
    \<and> (mr_Conflicts result' = mr_Conflicts result \<longrightarrow>
        (\<forall>(cf, settings)\<in>set tcs. \<forall>(key, v)\<in>set settings.
           \<exists>w. setting (config_at p' (JoinPath [projectDir, cf])) key = Some w \<and> t_fmt tools w = t_fmt tools v))"
  using assms
proof (induction tcs arbitrary: result p)
  case Nil
  then show ?case by simp
next
  case (Cons tc tcs)
  obtain cf settings where tc: "tc = (cf, settings)" by (cases tc)
  let ?path = "JoinPath [projectDir, cf]"
  have cur: "(case readConfigFile p ?path of Inl _ \<Rightarrow> None | Inr cfg \<Rightarrow> cfg) = config_at p ?path"
    by (simp add: readConfigFile_def config_at_def split: file_state.splits)
  obtain cfg mid where st: "fold (merge_setting tools cf) settings (config_at p ?path, result) = (cfg, mid)" by fastforce
  note F = merge_settings_fold [of cf "(config_at p ?path, result)" tools settings, unfolded st]
  have "\<exists>p1. merge_files tools projectDir tcs mid p1 = (Inr result', p')
      \<and> (\<forall>key v. setting cfg key = Some v \<longrightarrow> setting (config_at p1 ?path) key = Some v)
      \<and> (\<forall>path. path \<noteq> ?path \<longrightarrow> config_at p1 path = config_at p path)"
  proof (cases "\<exists>m\<in>set (mr_Merged mid). pv_ConfigFile m = cf")
    case True
    with Cons.prems st tc obtain p1 where w: "writeConfigFile tools p ?path (case cfg of None \<Rightarrow> [] | Some c \<Rightarrow> c) = (None, p1)"
      and r: "merge_files tools projectDir tcs mid p1 = (Inr result', p')"
      by (auto simp: Let_def cur split: prod.splits option.splits)
    from w have p1: "p1 = p\<lparr>pj_configs := (pj_configs p)(?path := Holds (case cfg of None \<Rightarrow> [] | Some c \<Rightarrow> c))\<rparr>"
      by (auto simp: writeConfigFile_def split: option.splits)
    have "\<forall>key v. setting cfg key = Some v \<longrightarrow> setting (config_at p1 ?path) key = Some v"
      "\<forall>path. path \<noteq> ?path \<longrightarrow> config_at p1 path = config_at p path"
      unfolding p1 by (auto simp: config_at_def setting_def split: option.splits)
    with r show ?thesis by blast
  next
    case False
    with F have "cfg = config_at p ?path" by (auto simp: merge_grows_def)
    moreover have "merge_files tools projectDir tcs mid p = (Inr result', p')"
      using Cons.prems st False tc by (simp add: Let_def cur)
    ultimately show ?thesis by blast
  qed
  then obtain p1 where r: "merge_files tools projectDir tcs mid p1 = (Inr result', p')"
    and p1: "\<And>key v. setting cfg key = Some v \<Longrightarrow> setting (config_at p1 ?path) key = Some v"
      "\<And>path. path \<noteq> ?path \<Longrightarrow> config_at p1 path = config_at p path"
    by blast
  from Cons.IH [OF r]
  have IH: "\<And>path key v. setting (config_at p1 path) key = Some v \<Longrightarrow> setting (config_at p' path) key = Some v"
      "prefix (mr_Conflicts mid) (mr_Conflicts result')"
      "mr_Conflicts result' = mr_Conflicts mid \<Longrightarrow>
         (\<forall>(cf, settings)\<in>set tcs. \<forall>(key, v)\<in>set settings.
            \<exists>w. setting (config_at p' (JoinPath [projectDir, cf])) key = Some w \<and> t_fmt tools w = t_fmt tools v)"
    by blast+
  have keeps: "setting (config_at p' path) key = Some v" if "setting (config_at p path) key = Some v" for path key v
  proof (cases "path = ?path")
    case True
    with that F have "setting cfg key = Some v" by (simp add: merge_grows_def)
    with True p1(1) IH(1) show ?thesis by blast
  next
    case False
    with that p1(2) IH(1) show ?thesis by simp
  qed
  have pre: "prefix (mr_Conflicts result) (mr_Conflicts mid)" using F by (simp add: merge_grows_def)
  moreover have "\<forall>(cf, settings)\<in>set (tc # tcs). \<forall>(key, v)\<in>set settings.
       \<exists>w. setting (config_at p' (JoinPath [projectDir, cf])) key = Some w \<and> t_fmt tools w = t_fmt tools v"
    if "mr_Conflicts result' = mr_Conflicts result"
  proof -
    from that pre IH(2) have eq: "mr_Conflicts mid = mr_Conflicts result" "mr_Conflicts result' = mr_Conflicts mid"
      by (metis prefix_order.antisym)+
    with F have "\<forall>(key, v)\<in>set settings. \<exists>w. setting cfg key = Some w \<and> t_fmt tools w = t_fmt tools v" by simp
    then have "\<forall>(key, v)\<in>set settings. \<exists>w. setting (config_at p' ?path) key = Some w \<and> t_fmt tools w = t_fmt tools v"
      using p1(1) IH(1) by fast
    with IH(3) [OF eq(2)] tc show ?thesis by simp
  qed
  ultimately show ?case using keeps IH(2) prefix_order.trans by blast
qed

text \<open>Merging a pack's tool configuration is additive. Every setting that stood in a readable
  configuration file keeps its value, and when no conflict is reported every setting the pack
  declares is in force afterwards, with a value that renders as the pack's.\<close>

theorem merge_is_additive:
  assumes "MergeToolConfig tools packTree projectDir p = (Inr result, p')"
    and "readPackManifest tools packTree = Inr tcs"
  shows "(setting (config_at p path) key = Some v \<longrightarrow> setting (config_at p' path) key = Some v)
    \<and> (mr_Conflicts result = [] \<and> (cf, settings) \<in> set tcs \<and> (key, v) \<in> set settings \<longrightarrow>
         (\<exists>w. setting (config_at p' (JoinPath [projectDir, cf])) key = Some w \<and> t_fmt tools w = t_fmt tools v))"
proof -
  have "merge_files tools projectDir tcs \<lparr>mr_Merged = [], mr_Conflicts = []\<rparr> p = (Inr result, p')"
    using assms by (simp add: MergeToolConfig_def)
  from merge_files_facts [OF this] show ?thesis by (auto split: prod.splits)
qed

text \<open>A small project, for evaluation.\<close>

definition demo_project :: "string project" where
  "demo_project =
     \<lparr>pj_yml = Holds [(''a/b'', ''1.0.0'')], pj_lock = Holds \<lparr>lf_Packs = [(''a/b'', zero_entry)]\<rparr>,
      pj_prov = Holds [\<lparr>pv_ConfigFile = ''lint.yml'', pv_SettingKey = ''k'', pv_SourcePack = ''a/b'', pv_ValueHash = ''h''\<rparr>],
      pj_configs = (\<lambda>_. Missing), pj_installed = (\<lambda>_. None), pj_gitignore = Missing\<rparr>"

definition demo_tools :: "string tools" where
  "demo_tools =
     \<lparr>t_clone = (\<lambda>_ _. Inr (PDir [] [PFile ''pack.yml'' (Inr ''y'')])), t_listTags = (\<lambda>_. Inr [''v1.1.0'']),
      t_check = (\<lambda>_. None), t_test = (\<lambda>_. None), t_yamlFields = (\<lambda>_. Inr (''a/b'', ''1.1.0'')), t_yamlRules = (\<lambda>_. Inr []),
      t_toolConfig = (\<lambda>_. Inr [(''lint.yml'', [(''k'', ''v'')])]), t_fmt = id, t_json = id, t_io = (\<lambda>_. None),
      t_fs = (\<lambda>_. None), t_cwd = ''/w'', t_now = ''now''\<rparr>"

lemma demo_tools_simps [simp]:
  "t_clone demo_tools url ref = Inr (PDir [] [PFile ''pack.yml'' (Inr ''y'')])" "t_listTags demo_tools url = Inr [''v1.1.0'']"
  "t_io demo_tools path = None" "t_fmt demo_tools = id" "t_json demo_tools = id" "t_now demo_tools = ''now''"
  "t_yamlFields demo_tools dat = Inr (''a/b'', ''1.1.0'')" "t_yamlRules demo_tools dat = Inr []"
  "t_toolConfig demo_tools dat = Inr [(''lint.yml'', [(''k'', ''v'')])]"
  by (simp_all add: demo_tools_def)

lemma demo_project_simps [simp]:
  "pj_yml demo_project = Holds [(''a/b'', ''1.0.0'')]" "pj_lock demo_project = Holds \<lparr>lf_Packs = [(''a/b'', zero_entry)]\<rparr>"
  "pj_configs demo_project path = Missing" "pj_installed demo_project name = None" "pj_gitignore demo_project = Missing"
  "pj_prov demo_project = Holds [\<lparr>pv_ConfigFile = ''lint.yml'', pv_SettingKey = ''k'', pv_SourcePack = ''a/b'', pv_ValueHash = ''h''\<rparr>]"
  by (simp_all add: demo_project_def)

theorem merge_is_additive_witness:
  "\<exists>p'. setting (config_at p' ''/w/lint.yml'') ''k'' = Some ''v''"
proof -
  let ?t = "PDir [] [PFile ''pack.yml'' (Inr ''y'')]"
  have m: "readPackManifest demo_tools ?t = Inr [(''lint.yml'', [(''k'', ''v'')])]" by code_simp
  obtain r p' where r: "MergeToolConfig demo_tools ?t ''/w'' demo_project = (Inr r, p')" "mr_Conflicts r = []"
    using m by (auto simp: MergeToolConfig_def Let_def merge_setting_def readConfigFile_def writeConfigFile_def
        demo_project_def demo_tools_def)
  have j: "JoinPath [''/w'', ''lint.yml''] = ''/w/lint.yml''" by code_simp
  from merge_is_additive [OF r(1) m, of "''/w''" "''k''" "''v''" "''lint.yml''" "[(''k'', ''v'')]"] r(2)
  show ?thesis unfolding j by (auto simp: demo_tools_def)
qed

text \<open>A configuration file that exists but cannot be parsed is treated as absent: the merge overwrites it
  with the pack's settings alone.\<close>

lemma unreadable_config_overwritten:
  assumes "pj_configs p (JoinPath [projectDir, cf]) = Unreadable err" "t_io tools (JoinPath [projectDir, cf]) = None"
  shows "\<exists>result p'. merge_files tools projectDir [(cf, [(key, v)])] \<lparr>mr_Merged = [], mr_Conflicts = []\<rparr> p = (Inr result, p')
     \<and> mr_Conflicts result = [] \<and> pj_configs p' (JoinPath [projectDir, cf]) = Holds [(key, v)]"
  using assms by (simp add: Let_def merge_setting_def readConfigFile_def writeConfigFile_def)

subsection \<open>Removal\<close>

lemma map_of_delete: "map_of (AList.delete k m) k' = (if k' = k then None else map_of m k')"
  by (simp add: delete_conv')

text \<open>A removed pack is gone from every record. On success the pack is no longer declared, locked,
  installed or named by provenance, and every other pack keeps its declaration, lock entry,
  content and provenance. The configuration files themselves are untouched: the settings
  reported as reverted still stand in them.\<close>

theorem remove_complete:
  assumes "Remove tools projectDir p packName = (Inr result, p')"
  shows "\<not> isPackInstalled p' packName \<and> pj_installed p' packName = None
    \<and> map_has (lf_Packs (lock_or_fresh p')) packName = False
    \<and> (\<exists>packs packs' entries. pj_yml p = Holds packs \<and> pj_yml p' = Holds packs' \<and> ReadProvenance p = Inr entries
        \<and> pj_prov p' = Holds (filter (\<lambda>e. pv_SourcePack e \<noteq> packName) entries)
        \<and> (\<forall>other. other \<noteq> packName \<longrightarrow> map_of packs' other = map_of packs other
             \<and> pj_installed p' other = pj_installed p other
             \<and> map_of (lf_Packs (lock_or_fresh p')) other = map_of (lf_Packs (lock_or_fresh p)) other))
    \<and> pj_configs p' = pj_configs p"
proof -
  from assms obtain packs entries where inst: "pj_yml p = Holds packs" and prov: "ReadProvenance p = Inr entries"
    by (auto simp: Remove_def isPackInstalled_def split: if_splits file_state.splits sum.splits)
  have nu: "pj_lock p = Unreadable err \<Longrightarrow> False" for err
    using assms prov by (auto simp: Remove_def Let_def split: if_splits)
  let ?p1 = "p\<lparr>pj_installed := (pj_installed p)(packName := None)\<rparr>"
  from assms inst prov nu obtain p2 p3 where
    p2: "removeFromBackstopYml tools ?p1 packName = (None, p2)"
    and p3: "(case pj_lock p of Holds lf \<Rightarrow> write_lock tools p2 (lf\<lparr>lf_Packs := AList.delete packName (lf_Packs lf)\<rparr>)
                | _ \<Rightarrow> (None, p2)) = (None, p3)"
    and p4: "WriteProvenance tools p3 (filter (\<lambda>e. pv_SourcePack e \<noteq> packName) entries) = (None, p')"
    by (cases "pj_lock p") (auto simp: Remove_def Let_def split: if_splits option.splits prod.splits)
  have e2: "p2 = ?p1\<lparr>pj_yml := Holds (AList.delete packName packs)\<rparr>"
    using p2 inst by (auto simp: removeFromBackstopYml_def write_yml_def split: option.splits)
  have e3: "p3 = p2\<lparr>pj_lock := (case pj_lock p of Holds lf \<Rightarrow> Holds (lf\<lparr>lf_Packs := AList.delete packName (lf_Packs lf)\<rparr>) | l \<Rightarrow> l)\<rparr>"
    using p3 nu e2 by (auto simp: write_lock_def split: file_state.splits option.splits)
  have e4: "p' = p3\<lparr>pj_prov := Holds (filter (\<lambda>e. pv_SourcePack e \<noteq> packName) entries)\<rparr>"
    using p4 by (auto simp: WriteProvenance_def split: option.splits)
  show ?thesis unfolding e4 e3 e2
    using inst prov by (auto simp: isPackInstalled_def lock_or_fresh_def map_of_delete split: file_state.splits)
qed

theorem remove_complete_witness:
  "\<exists>result p'. Remove demo_tools ''/w'' demo_project ''a/b'' = (Inr result, p')
     \<and> rm_RevertedSettings result = [''k''] \<and> \<not> isPackInstalled p' ''a/b'' \<and> pj_configs p' = pj_configs demo_project"
proof -
  obtain result p' where r: "Remove demo_tools ''/w'' demo_project ''a/b'' = (Inr result, p')" "rm_RevertedSettings result = [''k'']"
    by (auto simp: Remove_def demo_tools_def demo_project_def isPackInstalled_def ReadProvenance_def Let_def
        revert_entry_def readConfigFile_def removeFromBackstopYml_def write_yml_def write_lock_def WriteProvenance_def)
  with remove_complete [OF r(1)] show ?thesis by blast
qed

end
