(* ===== verification/Go_Disk.thy ===== *)
theory Go_Disk
  imports Artifact_Layout Pack_Project
begin

text \<open>
  The part of Go's \<open>os\<close> package the recipe applier uses, over a disk: each absolute, cleaned path
  names a file that is missing, holds bytes, or exists and cannot be read (a directory is one).  A
  relative path is looked up under the working directory; links are not modelled.  Every operation
  may fail, as the host decides from the path and the disk, and a failed write leaves the file in
  whatever state the host says (it may have been truncated).
\<close>

type_synonym disk = "string \<Rightarrow> string file_state"

record host =
  h_cwd :: string
  h_getwd :: "string option"
  h_stat :: "string \<Rightarrow> disk \<Rightarrow> string option"
  h_mkdir :: "string \<Rightarrow> disk \<Rightarrow> string option"
  h_write :: "string \<Rightarrow> string \<Rightarrow> disk \<Rightarrow> (string \<times> string file_state) option"

definition open_path :: "host \<Rightarrow> string \<Rightarrow> string" where
  "open_path h p = AbsPath (h_cwd h) p"

definition os_Abs :: "host \<Rightarrow> string \<Rightarrow> string + string" where
  "os_Abs h p =
     (if IsAbs p then Inr (Clean p)
      else case h_getwd h of Some err \<Rightarrow> Inl err | None \<Rightarrow> Inr (AbsPath (h_cwd h) p))"

definition os_Exists :: "host \<Rightarrow> string \<Rightarrow> disk \<Rightarrow> string + bool" where
  "os_Exists h p files =
     (case h_stat h (open_path h p) files of
        Some err \<Rightarrow> Inl err
      | None \<Rightarrow> Inr (case files (open_path h p) of Missing \<Rightarrow> False | _ \<Rightarrow> True))"

definition os_ReadFile :: "host \<Rightarrow> string \<Rightarrow> disk \<Rightarrow> string + string" where
  "os_ReadFile h p files = read_file_state p (files (open_path h p))"

definition os_WriteFile :: "host \<Rightarrow> string \<Rightarrow> string \<Rightarrow> disk \<Rightarrow> string option \<times> disk" where
  "os_WriteFile h p dat files =
     (let at = open_path h p in
      case h_write h at dat files of
        Some (err, left) \<Rightarrow> (Some err, files(at := left))
      | None \<Rightarrow> (None, files(at := Holds dat)))"

text \<open>\<open>MkdirAll\<close> turns the missing ancestors of a directory, and itself, into directories.\<close>

definition a_directory :: "string file_state" where
  "a_directory = Unreadable ''is a directory''"

definition ancestor :: "string \<Rightarrow> string \<Rightarrow> bool" where
  "ancestor a p \<longleftrightarrow> Clean a = a \<and> IsAbs a = IsAbs p \<and> prefix (path_elems a) (path_elems p)"

definition os_MkdirAll :: "host \<Rightarrow> string \<Rightarrow> disk \<Rightarrow> string option \<times> disk" where
  "os_MkdirAll h dir files =
     (case h_mkdir h (open_path h dir) files of
        Some err \<Rightarrow> (Some err, files)
      | None \<Rightarrow> (None, \<lambda>p. if files p = Missing \<and> ancestor p (open_path h dir) then a_directory else files p))"

subsection \<open>What the operations change\<close>

lemma Clean_AbsPath: "IsAbs cwd \<Longrightarrow> Clean (AbsPath cwd p) = AbsPath cwd p"
  by (auto simp: AbsPath_def JoinPath_def Let_def IsAbs_def)

lemma IsAbs_AbsPath: "IsAbs cwd \<Longrightarrow> IsAbs (AbsPath cwd p)"
  by (simp add: AbsPath_def IsAbs_JoinPath)

lemma open_path_abs: "IsAbs p \<Longrightarrow> Clean p = p \<Longrightarrow> open_path h p = p"
  by (simp add: open_path_def AbsPath_def)

lemma os_WriteFile_other: "os_WriteFile h p dat files = (err, files') \<Longrightarrow> q \<noteq> open_path h p \<Longrightarrow> files' q = files q"
  by (auto simp: os_WriteFile_def Let_def split: option.splits)

lemma os_WriteFile_ok: "os_WriteFile h p dat files = (None, files') \<Longrightarrow> files' = files(open_path h p := Holds dat)"
  by (auto simp: os_WriteFile_def Let_def split: option.splits)

lemma os_MkdirAll_keeps: "os_MkdirAll h dir files = (err, files') \<Longrightarrow> files q \<noteq> Missing \<Longrightarrow> files' q = files q"
  by (auto simp: os_MkdirAll_def split: option.splits)

lemma os_MkdirAll_made:
  "os_MkdirAll h dir files = (err, files') \<Longrightarrow> files' q \<noteq> files q \<Longrightarrow>
     files q = Missing \<and> files' q = a_directory \<and> ancestor q (open_path h dir)"
  by (auto simp: os_MkdirAll_def split: option.splits if_splits)

subsection \<open>Paths below a directory of the disk\<close>

lemma Join_snoc: "xs \<noteq> [] \<Longrightarrow> Join (xs @ [x]) sep = Join xs sep @ sep @ x"
  by (induction xs sep rule: Join.induct) auto

text \<open>A path lies inside a directory when its elements extend the directory's.\<close>

definition inside :: "host \<Rightarrow> string \<Rightarrow> string \<Rightarrow> bool" where
  "inside h base p \<longleftrightarrow> Clean p = p \<and> IsAbs p \<and> prefix (path_elems (AbsPath (h_cwd h) base)) (path_elems p)"

lemma inside_open: "inside h base p \<Longrightarrow> open_path h p = p"
  by (simp add: inside_def open_path_abs)

lemma clean_elems_twice:
  "\<forall>b\<in>set bs. b \<noteq> [] \<and> b \<noteq> dot \<Longrightarrow>
   clean_elems True acc (clean_elems False bs xs) = clean_elems True acc (rev bs @ xs)"
proof (induction xs arbitrary: bs)
  case (Cons e xs)
  consider "e = [] \<or> e = dot" | "e = dotdot" "bs = [] \<or> hd bs = dotdot" | a bs' where "e = dotdot" "bs = a # bs'" "a \<noteq> dotdot"
    | "e \<noteq> []" "e \<noteq> dot" "e \<noteq> dotdot" by (metis list.exhaust_sel)
  then show ?case
  proof cases
    case 1
    then have "clean_elems True acc (rev bs @ e # xs) = clean_elems True acc (rev bs @ xs)"
      unfolding clean_elems_append [of True acc "rev bs"] by auto
    with 1 Cons.IH [OF Cons.prems] show ?thesis by auto
  next
    case 2
    then have "clean_elems False bs (e # xs) = clean_elems False (dotdot # bs) xs" by (cases bs) simp_all
    with 2 Cons.prems Cons.IH [of "dotdot # bs"] show ?thesis by simp
  next
    case (3 a bs')
    have "clean_elems True acc (rev bs @ e # xs) = clean_elems True acc (rev bs' @ xs)"
      using 3 Cons.prems unfolding 3(2) rev.simps append_assoc clean_elems_append [of True acc "rev bs'"] by simp
    with 3 Cons.prems Cons.IH [of bs'] show ?thesis by simp
  next
    case 4
    with Cons.prems Cons.IH [of "e # bs"] show ?thesis by simp
  qed
qed simp

lemma path_elems_join:
  assumes "IsAbs cwd" "p \<noteq> []"
  shows "path_elems (JoinPath [cwd, p]) = clean_elems True (rev (path_elems cwd)) (Split p slash)"
proof -
  have cwd: "cwd \<noteq> []" "IsAbs (cwd @ ''/'' @ p)" using assms(1) by (auto simp: IsAbs_def prefix_def)
  then have "path_elems (JoinPath [cwd, p]) = path_elems (cwd @ ''/'' @ p)" using assms by (simp add: JoinPath_def Let_def)
  with cwd assms show ?thesis by (simp add: path_elems_def Split_append_sep clean_elems_append)
qed

text \<open>The absolute path of a file named in a directory is the directory's absolute path and the name.\<close>

lemma path_elems_named:
  assumes "IsAbs cwd" "root \<noteq> []" "proper_elem name"
  shows "path_elems (AbsPath cwd (JoinPath [root, name])) = path_elems (AbsPath cwd root) @ [name]"
proof -
  have name: "name \<noteq> []" "slash \<notin> set name" using assms(3) by (auto simp: proper_elem_def)
  have joined: "JoinPath [root, name] = Clean (root @ slash # name)"
    using assms(2) name by (simp add: JoinPath_def Let_def)
  have elems: "path_elems (root @ slash # name) = path_elems root @ [name]"
    using path_elems_extend [of root "[name]"] assms by simp
  have abs: "IsAbs (root @ slash # name) = IsAbs root" using assms(2) by (cases root) (auto simp: IsAbs_def)
  show ?thesis
  proof (cases "IsAbs root")
    case True
    then show ?thesis by (simp add: AbsPath_def joined abs elems)
  next
    case False
    have form: "clean_form False (path_elems root @ [name])"
      using path_elems_form [of "root @ slash # name"] abs False elems by simp
    have "Clean (root @ slash # name) = Join (path_elems root @ [name]) ''/''"
      using False abs by (simp add: Clean_alt elems render_path_def)
    then have "Split (Clean (root @ slash # name)) slash = path_elems root @ [name]"
      using Split_Join_clean [OF form] by simp
    then have "path_elems (AbsPath cwd (JoinPath [root, name])) = clean_elems True (rev (path_elems cwd)) (path_elems root) @ [name]"
      using False assms(1,3) abs
      by (simp add: AbsPath_def joined path_elems_join clean_elems_append proper_elem_def)
    also have "clean_elems True (rev (path_elems cwd)) (path_elems root) = path_elems (AbsPath cwd root)"
      using False assms(1,2) clean_elems_twice [of "[]" "rev (path_elems cwd)" "Split root slash"]
      by (simp add: AbsPath_def path_elems_join path_elems_def [of root])
    finally show ?thesis .
  qed
qed

text \<open>The directory of an absolute path has its elements but the last.\<close>

lemma path_elems_Dir:
  assumes "IsAbs p" "Clean p = p"
  shows "path_elems (Dir p) = butlast (path_elems p) \<and> IsAbs (Dir p) \<and> Clean (Dir p) = Dir p"
proof -
  have form: "clean_form True (path_elems p)" using path_elems_form [of p] assms(1) by simp
  have p: "p = slash # Join (path_elems p) ''/''" using assms by (simp add: Clean_alt render_path_def)
  have cut: "rev (dropWhile (\<lambda>c. c \<noteq> slash) (rev p)) = (if path_elems p = [] then ''/'' else
      slash # Join (butlast (path_elems p)) ''/'' @ (if length (path_elems p) = 1 then [] else ''/''))"
  proof (cases "path_elems p" rule: rev_cases)
    case Nil
    with p show ?thesis by simp
  next
    case (snoc es e)
    with form clean_form_no_slash [OF form, of e] have e: "slash \<notin> set e" by simp
    have drop: "dropWhile (\<lambda>c. c \<noteq> slash) (rev e @ slash # xs) = slash # xs" for xs
    proof -
      have "\<forall>c\<in>set (rev e). c \<noteq> slash" using e by auto
      then show ?thesis by (subst dropWhile_append2) auto
    qed
    show ?thesis
    proof (cases "es = []")
      case True
      with p snoc have "p = slash # e" by simp
      with drop [of "[]"] snoc True show ?thesis by simp
    next
      case False
      then have "Join (es @ [e]) ''/'' = Join es ''/'' @ slash # e" by (simp add: Join_snoc)
      with p snoc have q: "p = (slash # Join es ''/'') @ slash # e" by simp
      have "rev p = rev e @ slash # rev (slash # Join es ''/'')" by (subst q) simp
      with drop have "rev (dropWhile (\<lambda>c. c \<noteq> slash) (rev p)) = slash # Join es ''/'' @ ''/''" by simp
      with snoc False show ?thesis by simp
    qed
  qed
  let ?d = "rev (dropWhile (\<lambda>c. c \<noteq> slash) (rev p))" and ?bs = "butlast (path_elems p)"
  have bs: "clean_form True ?bs"
    using form clean_form_butlast [of True "butlast (path_elems p)" "last (path_elems p)"]
    by (cases "path_elems p = []") simp_all
  have "IsAbs ?d" by (simp add: cut IsAbs_def)
  moreover have "path_elems ?d = ?bs"
  proof (cases "?bs = []")
    case True
    then have "path_elems p = [] \<or> length (path_elems p) = 1" by (cases "path_elems p") (auto split: if_splits)
    with True have "?d = ''/''" by (auto simp: cut)
    with True show ?thesis by (simp add: path_elems_def IsAbs_def)
  next
    case False
    then have ne: "path_elems p \<noteq> []" "length (path_elems p) \<noteq> 1" by (cases "path_elems p"; auto)+
    have "Split ?d slash = [] # (?bs @ [[]])"
      using Split_append_sep [of "Join ?bs ''/''" slash "[]"] Split_Join_clean [OF bs False] ne by (simp add: cut)
    then have "clean_elems True [] (Split ?d slash) = clean_elems True [] ?bs"
      by (simp add: clean_elems_append)
    with clean_elems_id [OF bs] \<open>IsAbs ?d\<close> show ?thesis by (simp add: path_elems_def)
  qed
  ultimately show ?thesis by (simp add: Dir_def)
qed

end
