(* ===== verification/Config.thy ===== *)
theory Config
  imports Go_Disk Checks
begin

text \<open>
  Discovery, loading and validation of the project file \<open>backstop.yml\<close>
  (\<open>src/pkg/config/config.go\<close>).  The environment, the working directory, the file system and the
  YAML decoders are arguments; the walk up to the root of the file system, the check of the raw
  coverage floor, the schema walk and the order of the stages are the program's.  The JSON schema
  is the embedded file \<open>src/artifacts/backstop-yml/v1/schema.json\<close>, of which the code reads the
  required keys, the closed-world flag and the names of the properties.
\<close>

subsection \<open>The typed configuration\<close>

datatype cfgDimensionPolicy =
  CfgPolicy (cp_Level: string) (cp_AppliesTo: string) (cp_Sources: "(string \<times> cfgDimensionPolicy) list")

record ToolchainPass =
  tp_Command :: string
  tp_Format :: string
  tp_Extensions :: "string list"
  tp_TestDependencyCommand :: string
  tp_GateType :: string
  tp_Waived :: bool

record Security =
  se_Tier :: string

record Enforcement =
  en_Security :: Security
  en_WaiverWarningDays :: int
  en_BaselineTTL :: string
  en_TestCommand :: string
  en_Toolchain :: "(string, ToolchainPass) gomap"
  en_Policy :: "(string, cfgDimensionPolicy) gomap"
  en_CoverageFloor :: "int option"

type_synonym Packs = "(string, string) gomap"

record Config =
  cf_Project :: string
  cf_Runtimes :: "string list"
  cf_Enforcement :: Enforcement
  cf_Packs :: Packs
  cf_Registries :: "(string, string) gomap"
  cf_ArtifactRoot :: string

definition DefaultCoverageFloor :: int where "DefaultCoverageFloor = 90"

definition EffectiveCoverageFloor :: "Enforcement \<Rightarrow> int" where
  "EffectiveCoverageFloor e =
     (case en_CoverageFloor e of None \<Rightarrow> DefaultCoverageFloor | Some n \<Rightarrow> n)"

text \<open>A duration is its number of nanoseconds, and \<open>time.ParseDuration\<close>, whose fractions go through
  floating point, is an argument.\<close>

definition defaultBaselineTTL :: int where "defaultBaselineTTL = 15 * 60 * 1000000000"

definition BaselineTTLDuration :: "(string \<Rightarrow> string + int) \<Rightarrow> Config option \<Rightarrow> string + int" where
  "BaselineTTLDuration parseDuration c =
     (case c of
        None \<Rightarrow> Inr defaultBaselineTTL
      | Some cfg \<Rightarrow>
          (let raw = TrimSpace (en_BaselineTTL (cf_Enforcement cfg)) in
           if raw = [] then Inr defaultBaselineTTL
           else case parseDuration raw of
                  Inl err \<Rightarrow> Inl (''invalid enforcement.baseline_ttl: '' @ err)
                | Inr ttl \<Rightarrow>
                    if ttl \<le> 0 then Inl ''invalid enforcement.baseline_ttl: must be greater than 0''
                    else Inr ttl))"

subsection \<open>Discovery\<close>

text \<open>What discovery asks the operating system: the variable \<open>BACKSTOP_CONFIG\<close> (empty when it is
  unset), the working directory, and \<open>os.Stat\<close>, which yields an error or whether the path is a
  directory.\<close>

record config_env =
  ce_BACKSTOP_CONFIG :: string
  ce_Getwd :: "string + string"
  ce_Stat :: "string \<Rightarrow> string + bool"

definition config_candidate :: "string \<Rightarrow> string" where
  "config_candidate dir = JoinPath [dir, ''backstop.yml'']"

text \<open>The loop over the directory and its parents.  Nothing in its text bounds it: it ends when a
  directory is its own parent.\<close>

partial_function (option) config_walk_up ::
  "(string \<Rightarrow> string + bool) \<Rightarrow> string \<Rightarrow> string \<Rightarrow> (string + string) option" where
  "config_walk_up stat startDir dir =
     (if \<not> isl (stat (config_candidate dir)) then Some (Inr (config_candidate dir))
      else if Dir dir = dir
      then Some (Inl (''backstop.yml not found in '' @ quote startDir
                      @ '' or any parent directory; create one or set BACKSTOP_CONFIG''))
      else config_walk_up stat startDir (Dir dir))"

definition DiscoverConfigPathFrom :: "config_env \<Rightarrow> string \<Rightarrow> (string + string) option" where
  "DiscoverConfigPathFrom env startDir =
     (let envPath = ce_BACKSTOP_CONFIG env in
      if envPath \<noteq> [] then
        Some (case (if IsAbs envPath then Inr envPath
                    else case ce_Getwd env of
                           Inl err \<Rightarrow> Inl (''resolving BACKSTOP_CONFIG: '' @ err)
                         | Inr cwd \<Rightarrow> Inr (JoinPath [cwd, envPath])) of
                Inl err \<Rightarrow> Inl err
              | Inr p \<Rightarrow>
                  (case ce_Stat env p of
                     Inl err \<Rightarrow> Inl (''BACKSTOP_CONFIG path '' @ quote p @ '': '' @ err)
                   | Inr isDir \<Rightarrow>
                       if isDir then Inl (''BACKSTOP_CONFIG path '' @ quote p @ '' is a directory, expected a file'')
                       else Inr p))
      else case (if IsAbs startDir then Inr (Clean startDir)
                 else case ce_Getwd env of Inl err \<Rightarrow> Inl err | Inr cwd \<Rightarrow> Inr (AbsPath cwd startDir)) of
             Inl err \<Rightarrow> Some (Inl (''resolving start directory: '' @ err))
           | Inr dir \<Rightarrow> config_walk_up (ce_Stat env) startDir dir)"

definition DiscoverConfigPath :: "config_env \<Rightarrow> (string + string) option" where
  "DiscoverConfigPath env =
     (case ce_Getwd env of
        Inl err \<Rightarrow> Some (Inl (''getting working directory: '' @ err))
      | Inr cwd \<Rightarrow> DiscoverConfigPathFrom env cwd)"

subsection \<open>The raw coverage floor\<close>

text \<open>A \<open>yaml.Node\<close>: the fields the check reads.\<close>

datatype NodeKind = DocumentNode | SequenceNode | MappingNode | ScalarNode | AliasNode

datatype YamlNode =
  YamlNode (yn_Kind: NodeKind) (yn_Tag: string) (yn_Value: string) (yn_Content: "YamlNode list")

fun yaml_pairs :: "string \<Rightarrow> YamlNode list \<Rightarrow> YamlNode option" where
  "yaml_pairs key (k # v # rest) = (if yn_Value k = key then Some v else yaml_pairs key rest)"
| "yaml_pairs key _ = None"

definition mappingValue :: "YamlNode \<Rightarrow> string \<Rightarrow> YamlNode option" where
  "mappingValue node key =
     (if yn_Kind node \<noteq> MappingNode then None else yaml_pairs key (yn_Content node))"

definition floor_want :: string where
  "floor_want = ''must be an integer from 0 to 100; omit the key for the default 90''"

text \<open>The decoders of \<open>gopkg.in/yaml.v3\<close> the loader uses: the document as a node, the integer of a
  node, a node's short tag, the strict typed decode, and the untyped decode.\<close>

datatype ydoc =
    YMap "(string \<times> ydoc) list"
  | YAnyMap "(string \<times> ydoc) list"
  | YList "ydoc list"
  | YString string
  | YScalar string

record yaml_decoder =
  yd_Node :: "string \<Rightarrow> string + YamlNode"
  yd_Int :: "YamlNode \<Rightarrow> string + int"
  yd_ShortTag :: "YamlNode \<Rightarrow> string"
  yd_Strict :: "string \<Rightarrow> string + Config"
  yd_Doc :: "string \<Rightarrow> string + ydoc"

text \<open>The root a document node holds.\<close>

definition yaml_root :: "YamlNode \<Rightarrow> YamlNode" where
  "yaml_root node =
     (if yn_Kind node = DocumentNode \<and> yn_Content node \<noteq> [] then hd (yn_Content node) else node)"

definition floor_node :: "YamlNode \<Rightarrow> YamlNode option" where
  "floor_node node =
     (case mappingValue (yaml_root node) ''enforcement'' of
        None \<Rightarrow> None | Some enf \<Rightarrow> mappingValue enf ''coverage_floor'')"

definition validateCoverageFloorNode :: "yaml_decoder \<Rightarrow> string \<Rightarrow> string option" where
  "validateCoverageFloorNode yd dat =
     (case yd_Node yd dat of
        Inl err \<Rightarrow> Some (''parsing backstop.yml: '' @ err)
      | Inr node \<Rightarrow>
          (case floor_node node of
             None \<Rightarrow> None
           | Some floor \<Rightarrow>
               if yn_Kind floor \<noteq> ScalarNode \<or> yn_Tag floor \<noteq> ''!!int'' then
                 (let shown = (if yn_Kind floor \<noteq> ScalarNode \<or> yn_Tag floor = ''!!null''
                               then yd_ShortTag yd floor else yn_Value floor)
                  in Some (''invalid enforcement.coverage_floor '' @ quote shown @ '': '' @ floor_want))
               else (case yd_Int yd floor of
                       Inl err \<Rightarrow> Some (''invalid enforcement.coverage_floor '' @ quote (yn_Value floor) @ '': '' @ floor_want)
                     | Inr n \<Rightarrow>
                         if n < 0 \<or> 100 < n
                         then Some (''invalid enforcement.coverage_floor '' @ Itoa n @ '': '' @ floor_want)
                         else None)))"

subsection \<open>The schema walk\<close>

definition schema_required :: "string list" where "schema_required = [''project'']"

definition schema_properties :: "string list" where
  "schema_properties =
     [''project'', ''language'', ''artifact_root'', ''runtimes'', ''enforcement'', ''packs'', ''registries'']"

definition schema_additionalProperties :: bool where "schema_additionalProperties = False"

text \<open>\<open>convertYAMLToJSON\<close>: a map with other than string keys is keyed by their \<open>%v\<close> text.\<close>

fun convertYAMLToJSON :: "ydoc \<Rightarrow> ydoc" where
  "convertYAMLToJSON (YMap m) = YMap (map (\<lambda>(k, v). (k, convertYAMLToJSON v)) m)"
| "convertYAMLToJSON (YAnyMap m) =
     YMap (fold (\<lambda>(k, v) acc. map_set k v acc) (map (\<lambda>(k, v). (k, convertYAMLToJSON v)) m) [])"
| "convertYAMLToJSON (YList xs) = YList (map convertYAMLToJSON xs)"
| "convertYAMLToJSON (YString s) = YString s"
| "convertYAMLToJSON (YScalar s) = YScalar s"

text \<open>The type assertions: None when the value has another type.\<close>

fun doc_map :: "ydoc option \<Rightarrow> (string, ydoc) gomap option" where
  "doc_map (Some (YMap m)) = Some m"
| "doc_map _ = None"

fun doc_string :: "ydoc \<Rightarrow> string" where
  "doc_string (YString s) = s"
| "doc_string _ = []"

text \<open>A key that is present must hold one of the words; a value that is no string reads as the
  empty one.\<close>

definition config_enum_check :: "string \<Rightarrow> string list \<Rightarrow> string \<Rightarrow> (string, ydoc) gomap \<Rightarrow> string option" where
  "config_enum_check path allowed key entry =
     (case map_of entry key of
        None \<Rightarrow> None
      | Some v \<Rightarrow>
          if doc_string v \<in> set allowed then None
          else Some (path @ ''.'' @ key @ '' '' @ quote (doc_string v) @ '' is not valid; must be one of: ''
                     @ Join allowed '', ''))"

definition validatePolicyEntry :: "string \<Rightarrow> (string, ydoc) gomap \<Rightarrow> string option" where
  "validatePolicyEntry path entry =
     first_failure [config_enum_check path [''off'', ''warn'', ''block''] ''level'' entry,
                    config_enum_check path [''new-code'', ''all-code''] ''applies-to'' entry]"

definition entry_map :: "ydoc option \<Rightarrow> (string, ydoc) gomap" where
  "entry_map d = (case doc_map d of None \<Rightarrow> [] | Some m \<Rightarrow> m)"

definition policy_dim_check :: "string \<times> ydoc \<Rightarrow> string option" where
  "policy_dim_check de =
     (case de of (dim, entry) \<Rightarrow>
        first_failure
          (validatePolicyEntry (''enforcement.policy.'' @ dim) (entry_map (Some entry))
           # map (\<lambda>(src, sEntry). validatePolicyEntry (''enforcement.policy.'' @ dim @ ''.sources.'' @ src)
                                    (entry_map (Some sEntry)))
                 (entry_map (map_of (entry_map (Some entry)) ''sources''))))"

definition tier_check :: "(string, ydoc) gomap \<Rightarrow> string option" where
  "tier_check enfMap =
     (case doc_map (map_of enfMap ''security'') of
        None \<Rightarrow> None
      | Some secMap \<Rightarrow> config_enum_check ''enforcement.security'' [''baseline'', ''standard'', ''compliance''] ''tier'' secMap)"

definition enforcement_check :: "(string, ydoc) gomap \<Rightarrow> string option" where
  "enforcement_check docMap =
     (case doc_map (map_of docMap ''enforcement'') of
        None \<Rightarrow> None
      | Some enfMap \<Rightarrow>
          first_failure
            (tier_check enfMap
             # (case doc_map (map_of enfMap ''policy'') of
                  None \<Rightarrow> []
                | Some polMap \<Rightarrow> map policy_dim_check polMap)))"

definition required_check :: "(string, ydoc) gomap \<Rightarrow> string option" where
  "required_check docMap =
     first_failure (map (\<lambda>key. if key = [] \<or> map_has docMap key then None
                               else Some (''required field '' @ quote key @ '' is missing'')) schema_required)"

definition unknown_check :: "(string, ydoc) gomap \<Rightarrow> string option" where
  "unknown_check docMap =
     (if schema_additionalProperties then None
      else first_failure (map (\<lambda>e. if fst e \<in> set schema_properties then None
             else Some (''unknown field '' @ quote (fst e) @ '' in backstop.yml (additionalProperties is false)'')) docMap))"

definition validateAgainstSchema :: "yaml_decoder \<Rightarrow> string \<Rightarrow> string option" where
  "validateAgainstSchema yd dat =
     (case yd_Doc yd dat of
        Inl err \<Rightarrow> Some (''parsing YAML for schema validation: '' @ err)
      | Inr doc \<Rightarrow>
          (case doc_map (Some (convertYAMLToJSON doc)) of
             None \<Rightarrow> Some ''backstop.yml must be a YAML mapping''
           | Some docMap \<Rightarrow>
               first_failure [required_check docMap, unknown_check docMap, enforcement_check docMap]))"

subsection \<open>Loading\<close>

definition LoadConfigFromPath :: "yaml_decoder \<Rightarrow> (string \<Rightarrow> string + string) \<Rightarrow> string \<Rightarrow> string + Config" where
  "LoadConfigFromPath yd readFile path =
     (case readFile path of
        Inl err \<Rightarrow> Inl (''reading config '' @ path @ '': '' @ err)
      | Inr dat \<Rightarrow>
      (case validateCoverageFloorNode yd dat of
        Some err \<Rightarrow> Inl err
      | None \<Rightarrow>
      (case yd_Strict yd dat of
        Inl err \<Rightarrow> Inl (''parsing backstop.yml: '' @ err)
      | Inr cfg \<Rightarrow>
      (case validateAgainstSchema yd dat of
        Some err \<Rightarrow> Inl (''backstop.yml schema validation: '' @ err)
      | None \<Rightarrow>
          Inr (if en_WaiverWarningDays (cf_Enforcement cfg) = 0
               then cfg\<lparr>cf_Enforcement := (cf_Enforcement cfg)\<lparr>en_WaiverWarningDays := 30\<rparr>\<rparr>
               else cfg)))))"

definition LoadConfig ::
  "config_env \<Rightarrow> yaml_decoder \<Rightarrow> (string \<Rightarrow> string + string) \<Rightarrow> (string + Config) option" where
  "LoadConfig env yd readFile =
     map_option (\<lambda>r. case r of
        Inl err \<Rightarrow> Inl (''load config: '' @ err)
      | Inr path \<Rightarrow> LoadConfigFromPath yd readFile path) (DiscoverConfigPath env)"

definition LoadConfigFromDir ::
  "config_env \<Rightarrow> yaml_decoder \<Rightarrow> (string \<Rightarrow> string + string) \<Rightarrow> string \<Rightarrow> (string + Config) option" where
  "LoadConfigFromDir env yd readFile dir =
     map_option (\<lambda>r. case r of
        Inl err \<Rightarrow> Inl (''load config from '' @ quote dir @ '': '' @ err)
      | Inr path \<Rightarrow> LoadConfigFromPath yd readFile path) (DiscoverConfigPathFrom env dir)"

subsection \<open>Discovery returns, with the nearest file\<close>

text \<open>The directories of the walk: the start and its parents, one for each element of its path and
  the root.\<close>

definition config_dirs :: "string \<Rightarrow> string list" where
  "config_dirs dir = map (\<lambda>k. (Dir ^^ k) dir) [0..<Suc (length (path_elems dir))]"

definition nearest_config :: "(string \<Rightarrow> string + bool) \<Rightarrow> string \<Rightarrow> string \<Rightarrow> string + string" where
  "nearest_config stat startDir dir =
     (case find (\<lambda>c. \<not> isl (stat c)) (map config_candidate (config_dirs dir)) of
        Some c \<Rightarrow> Inr c
      | None \<Rightarrow> Inl (''backstop.yml not found in '' @ quote startDir
                     @ '' or any parent directory; create one or set BACKSTOP_CONFIG''))"

lemma Dir_fixpoint:
  assumes "IsAbs dir" "Clean dir = dir"
  shows "Dir dir = dir \<longleftrightarrow> path_elems dir = []"
proof
  assume "Dir dir = dir"
  with path_elems_Dir [OF assms] have "butlast (path_elems dir) = path_elems dir" by simp
  then show "path_elems dir = []" by (cases "path_elems dir" rule: rev_cases) auto
next
  assume nil: "path_elems dir = []"
  with path_elems_Dir [OF assms] have d: "path_elems (Dir dir) = []" "IsAbs (Dir dir)" "Clean (Dir dir) = Dir dir" by simp_all
  have "Clean (Dir dir) = ''/''" by (simp add: Clean_alt d(1,2) render_path_def)
  moreover have "Clean dir = ''/''" by (simp add: Clean_alt nil assms(1) render_path_def)
  ultimately show "Dir dir = dir" using assms d by simp
qed

lemma config_dirs_unfold:
  assumes "IsAbs dir" "Clean dir = dir"
  shows "config_dirs dir = dir # (if Dir dir = dir then [] else config_dirs (Dir dir))"
proof (cases "Dir dir = dir")
  case True
  then have "path_elems dir = []" using Dir_fixpoint [OF assms] by simp
  with True show ?thesis by (simp add: config_dirs_def)
next
  case False
  then have ne: "path_elems dir \<noteq> []" using Dir_fixpoint [OF assms] by simp
  have len: "Suc (length (path_elems (Dir dir))) = length (path_elems dir)"
    using path_elems_Dir [OF assms] ne by simp
  have "config_dirs dir = (Dir ^^ 0) dir # map (\<lambda>k. (Dir ^^ Suc k) dir) [0..<length (path_elems dir)]"
    unfolding config_dirs_def by (subst upt_conv_Cons) (simp_all add: map_Suc_upt [symmetric] comp_def del: upt_Suc funpow.simps)
  also have "\<dots> = dir # config_dirs (Dir dir)"
    unfolding config_dirs_def len by (simp add: funpow_swap1)
  finally show ?thesis using False by simp
qed

lemma config_walk_up_nearest:
  assumes "IsAbs dir" "Clean dir = dir"
  shows "config_walk_up stat startDir dir = Some (nearest_config stat startDir dir)"
  using assms
proof (induction "length (path_elems dir)" arbitrary: dir rule: less_induct)
  case less
  show ?case
  proof (cases "Dir dir = dir")
    case True
    then show ?thesis
      using config_dirs_unfold [OF less.prems] by (simp add: config_walk_up.simps nearest_config_def)
  next
    case False
    then have "path_elems dir \<noteq> []" using Dir_fixpoint [OF less.prems] by simp
    then have "length (path_elems (Dir dir)) < length (path_elems dir)"
      using path_elems_Dir [OF less.prems] by simp
    then have "config_walk_up stat startDir (Dir dir) = Some (nearest_config stat startDir (Dir dir))"
      using less.hyps [of "Dir dir"] path_elems_Dir [OF less.prems] by simp
    then show ?thesis
      using False config_dirs_unfold [OF less.prems]
      by (subst config_walk_up.simps) (simp add: nearest_config_def)
  qed
qed

text \<open>C29: Discovery always returns.  The loop that climbs from a directory to its parent stops on every
  file system, within one step for each element of the starting path and one for the root, and its
  answer is the file of the nearest directory that has one (or the not-found error); with
  \<open>BACKSTOP_CONFIG\<close> set there is no climbing at all.\<close>

theorem DiscoverConfigPathFrom_returns:
  assumes "\<And>cwd. ce_Getwd env = Inr cwd \<Longrightarrow> IsAbs cwd"
  shows "\<exists>r. DiscoverConfigPathFrom env startDir = Some r
    \<and> (ce_BACKSTOP_CONFIG env = [] \<longrightarrow>
         r = (if IsAbs startDir then nearest_config (ce_Stat env) startDir (Clean startDir)
              else case ce_Getwd env of
                     Inl err \<Rightarrow> Inl (''resolving start directory: '' @ err)
                   | Inr cwd \<Rightarrow> nearest_config (ce_Stat env) startDir (AbsPath cwd startDir)))"
proof -
  have "config_walk_up (ce_Stat env) startDir (AbsPath cwd startDir)
      = Some (nearest_config (ce_Stat env) startDir (AbsPath cwd startDir))" if "ce_Getwd env = Inr cwd" for cwd
    using config_walk_up_nearest [of "AbsPath cwd startDir"] assms [OF that] IsAbs_AbsPath Clean_AbsPath by simp
  moreover have "config_walk_up (ce_Stat env) startDir (Clean startDir)
      = Some (nearest_config (ce_Stat env) startDir (Clean startDir))" if "IsAbs startDir"
    using config_walk_up_nearest [of "Clean startDir"] that by simp
  ultimately show ?thesis
    by (auto simp: DiscoverConfigPathFrom_def Let_def split: sum.splits)
qed

definition demo_config_env :: config_env where
  "demo_config_env = \<lparr>ce_BACKSTOP_CONFIG = [], ce_Getwd = Inr ''/w/p'',
     ce_Stat = (\<lambda>p. if p = ''/w/backstop.yml'' then Inr True else Inl ''no such file'')\<rparr>"

theorem DiscoverConfigPathFrom_returns_witness:
  "DiscoverConfigPathFrom demo_config_env ''sub'' = Some (Inr ''/w/backstop.yml'')"
proof -
  have n: "nearest_config (ce_Stat demo_config_env) ''sub'' (AbsPath ''/w/p'' ''sub'') = Inr ''/w/backstop.yml''"
    by code_simp
  have e: "ce_Getwd demo_config_env = Inr ''/w/p''" "ce_BACKSTOP_CONFIG demo_config_env = []" by (simp_all add: demo_config_env_def)
  show ?thesis
    using DiscoverConfigPathFrom_returns [of demo_config_env "''sub''"] n e by (simp add: IsAbs_def)
qed

subsection \<open>What loads\<close>

definition floor_ok :: "yaml_decoder \<Rightarrow> YamlNode \<Rightarrow> bool" where
  "floor_ok yd node =
     (case floor_node node of
        None \<Rightarrow> True
      | Some f \<Rightarrow> yn_Kind f = ScalarNode \<and> yn_Tag f = ''!!int''
                  \<and> (case yd_Int yd f of Inl _ \<Rightarrow> False | Inr n \<Rightarrow> 0 \<le> n \<and> n \<le> 100))"

definition word_ok :: "string list \<Rightarrow> string \<Rightarrow> (string, ydoc) gomap \<Rightarrow> bool" where
  "word_ok allowed key entry =
     (case map_of entry key of None \<Rightarrow> True | Some v \<Rightarrow> doc_string v \<in> set allowed)"

definition policy_entry_ok :: "ydoc \<Rightarrow> bool" where
  "policy_entry_ok entry \<longleftrightarrow>
     word_ok [''off'', ''warn'', ''block''] ''level'' (entry_map (Some entry))
     \<and> word_ok [''new-code'', ''all-code''] ''applies-to'' (entry_map (Some entry))"

definition enforcement_ok :: "(string, ydoc) gomap \<Rightarrow> bool" where
  "enforcement_ok enfMap \<longleftrightarrow>
     word_ok [''baseline'', ''standard'', ''compliance''] ''tier'' (entry_map (map_of enfMap ''security''))
     \<and> list_all (\<lambda>de. policy_entry_ok (snd de)
          \<and> list_all (\<lambda>e. policy_entry_ok (snd e))
                     (entry_map (map_of (entry_map (Some (snd de))) ''sources'')))
        (entry_map (map_of enfMap ''policy''))"

definition schema_ok :: "ydoc \<Rightarrow> bool" where
  "schema_ok doc =
     (case doc_map (Some (convertYAMLToJSON doc)) of
        None \<Rightarrow> False
      | Some docMap \<Rightarrow> map_has docMap ''project'' \<and> fst ` set docMap \<subseteq> set schema_properties
                       \<and> enforcement_ok (entry_map (map_of docMap ''enforcement'')))"

lemma enum_check_None: "config_enum_check path allowed key entry = None \<longleftrightarrow> word_ok allowed key entry"
  by (simp add: config_enum_check_def word_ok_def split: option.splits)

lemma validatePolicyEntry_None: "validatePolicyEntry path (entry_map (Some e)) = None \<longleftrightarrow> policy_entry_ok e"
  by (simp add: validatePolicyEntry_def first_failure_None enum_check_None policy_entry_ok_def)

lemma word_ok_Nil [simp]: "word_ok allowed key []"
  by (simp add: word_ok_def)

lemma policy_dim_check_None:
  "policy_dim_check de = None \<longleftrightarrow> policy_entry_ok (snd de)
     \<and> list_all (\<lambda>e. policy_entry_ok (snd e)) (entry_map (map_of (entry_map (Some (snd de))) ''sources''))"
  by (simp add: policy_dim_check_def first_failure_None validatePolicyEntry_None list.pred_map comp_def
      case_prod_beta)

lemma enforcement_check_None:
  "enforcement_check docMap = None \<longleftrightarrow> enforcement_ok (entry_map (map_of docMap ''enforcement''))"
proof (cases "doc_map (map_of docMap ''enforcement'')")
  case None
  then show ?thesis by (simp add: enforcement_check_def enforcement_ok_def entry_map_def)
next
  case (Some m)
  have "tier_check m = None \<longleftrightarrow>
      word_ok [''baseline'', ''standard'', ''compliance''] ''tier'' (entry_map (map_of m ''security''))"
    by (simp add: tier_check_def entry_map_def enum_check_None split: option.splits)
  moreover have "list_all (\<lambda>r. r = None) (case doc_map d of None \<Rightarrow> [] | Some polMap \<Rightarrow> map policy_dim_check polMap)
     \<longleftrightarrow> list_all (\<lambda>de. policy_dim_check de = None) (entry_map d)" for d
    by (simp add: entry_map_def list.pred_map comp_def split: option.splits)
  ultimately show ?thesis
    using Some
    by (simp add: enforcement_check_def first_failure_None enforcement_ok_def policy_dim_check_None)
       (simp add: entry_map_def)
qed

lemma validateAgainstSchema_None:
  "validateAgainstSchema yd dat = None \<longleftrightarrow> (\<exists>doc. yd_Doc yd dat = Inr doc \<and> schema_ok doc)"
proof -
  have "required_check m = None \<longleftrightarrow> map_has m ''project''" for m
    by (simp add: required_check_def schema_required_def)
  moreover have "unknown_check m = None \<longleftrightarrow> fst ` set m \<subseteq> set schema_properties" for m
    by (auto simp: unknown_check_def schema_additionalProperties_def first_failure_None list_all_iff)
  ultimately show ?thesis
    by (simp add: validateAgainstSchema_def schema_ok_def first_failure_None enforcement_check_None split: sum.splits option.splits)
qed

lemma validateCoverageFloorNode_None:
  "validateCoverageFloorNode yd dat = None \<longleftrightarrow> (\<exists>node. yd_Node yd dat = Inr node \<and> floor_ok yd node)"
  by (auto simp: validateCoverageFloorNode_def floor_ok_def Let_def split: sum.splits option.splits)

text \<open>A configuration loads exactly when the file is read, its coverage floor is absent or a plain
  integer between 0 and 100, the strict decode succeeds, and the document is a mapping with a
  project and no key outside the schema whose tier and whose every policy word, down to the
  per-source overrides, is in its enumeration.  What is returned is the strict decode with the
  default waiver warning filled in.\<close>

theorem LoadConfigFromPath_exact:
  "LoadConfigFromPath yd readFile path = Inr cfg \<longleftrightarrow>
     (\<exists>dat node doc cfg0. readFile path = Inr dat
        \<and> yd_Node yd dat = Inr node \<and> floor_ok yd node
        \<and> yd_Strict yd dat = Inr cfg0
        \<and> yd_Doc yd dat = Inr doc \<and> schema_ok doc
        \<and> cfg = (if en_WaiverWarningDays (cf_Enforcement cfg0) = 0
                 then cfg0\<lparr>cf_Enforcement := (cf_Enforcement cfg0)\<lparr>en_WaiverWarningDays := 30\<rparr>\<rparr> else cfg0))"
  (is "_ \<longleftrightarrow> ?R")
proof -
  have "LoadConfigFromPath yd readFile path = Inr cfg \<longleftrightarrow>
     (\<exists>dat cfg0. readFile path = Inr dat \<and> validateCoverageFloorNode yd dat = None \<and> yd_Strict yd dat = Inr cfg0
        \<and> validateAgainstSchema yd dat = None
        \<and> cfg = (if en_WaiverWarningDays (cf_Enforcement cfg0) = 0
                 then cfg0\<lparr>cf_Enforcement := (cf_Enforcement cfg0)\<lparr>en_WaiverWarningDays := 30\<rparr>\<rparr> else cfg0))"
    by (auto simp: LoadConfigFromPath_def split: sum.splits option.splits)
  then show ?thesis unfolding validateAgainstSchema_None validateCoverageFloorNode_None by blast
qed

text \<open>The schema's minimum length is not read: an empty project name is accepted.\<close>

lemma empty_project_accepted: "schema_ok (YMap [(''project'', YString [])])"
  by code_simp

end
