(* ===== verification/Gate_Polarity.thy ===== *)
theory Gate_Polarity
  imports Config Gate_Policy
begin

text \<open>
  The fail-loud classes of the traceability dimensions
  (\<open>src/pkg/gate/traceability_polarity.go\<close>): what a dimension that is declared, absent, broken or
  waived becomes.
\<close>

type_synonym TraceabilityDimension = string

definition DimensionSubstantiveness :: TraceabilityDimension where "DimensionSubstantiveness = ''substantiveness''"
definition DimensionCoverage :: TraceabilityDimension where "DimensionCoverage = ''coverage''"
definition DimensionContracts :: TraceabilityDimension where "DimensionContracts = ''contracts''"

definition isKnownDimension :: "TraceabilityDimension \<Rightarrow> bool" where
  "isKnownDimension d \<longleftrightarrow> d \<in> {DimensionSubstantiveness, DimensionCoverage, DimensionContracts}"

datatype PolarityClass = ClassNone | ClassBrokenDeclared | ClassCapabilityAbsent | ClassDeclaredIntentUnmet

fun PolarityClass_String :: "PolarityClass \<Rightarrow> string" where
  "PolarityClass_String ClassNone = ''none''"
| "PolarityClass_String ClassBrokenDeclared = ''broken-declared''"
| "PolarityClass_String ClassCapabilityAbsent = ''capability-absent''"
| "PolarityClass_String ClassDeclaredIntentUnmet = ''declared-intent-unmet''"

record CapabilityState =
  cs_Present :: bool
  cs_Working :: bool
  cs_PackOrCommand :: string
  cs_Detail :: string
  cs_Stack :: string

text \<open>The toolchain entries of a configuration that may be nil.\<close>

definition toolchain_entries :: "Config option \<Rightarrow> ToolchainPass list" where
  "toolchain_entries cfg = (case cfg of None \<Rightarrow> [] | Some c \<Rightarrow> map snd (en_Toolchain (cf_Enforcement c)))"

definition declaredDimension :: "Config option \<Rightarrow> TraceabilityDimension \<Rightarrow> bool" where
  "declaredDimension cfg dim = list_ex (\<lambda>tp. tp_GateType tp = dim) (toolchain_entries cfg)"

definition hasUnknownGateType :: "Config option \<Rightarrow> bool" where
  "hasUnknownGateType cfg =
     list_ex (\<lambda>tp. tp_GateType tp \<noteq> [] \<and> \<not> isKnownDimension (tp_GateType tp)) (toolchain_entries cfg)"

definition ClassifyDimension :: "Config option \<Rightarrow> TraceabilityDimension \<Rightarrow> CapabilityState \<Rightarrow> PolarityClass" where
  "ClassifyDimension cfg dim cap =
     (if hasUnknownGateType cfg then ClassBrokenDeclared
      else if declaredDimension cfg dim then
        (if \<not> cs_Present cap then ClassDeclaredIntentUnmet
         else if \<not> cs_Working cap then ClassBrokenDeclared
         else ClassNone)
      else if \<not> cs_Present cap then ClassCapabilityAbsent
      else ClassNone)"

definition waivedDimension :: "Config option \<Rightarrow> TraceabilityDimension \<Rightarrow> bool" where
  "waivedDimension cfg dim = list_ex (\<lambda>tp. tp_GateType tp = dim \<and> tp_Waived tp) (toolchain_entries cfg)"

definition capLabel :: "CapabilityState \<Rightarrow> string" where
  "capLabel cap = (if cs_PackOrCommand cap \<noteq> [] then cs_PackOrCommand cap else ''the required capability'')"

definition polarity_stack :: "CapabilityState \<Rightarrow> string" where
  "polarity_stack cap = (if cs_Stack cap = [] then ''unspecified'' else cs_Stack cap)"

definition broken_message :: "TraceabilityDimension \<Rightarrow> CapabilityState \<Rightarrow> string" where
  "broken_message dim cap =
     (let detail = (if cs_Detail cap = [] then ''the declared command failed or its output was unparseable''
                    else cs_Detail cap)
      in ''traceability dimension '' @ quote dim @ '' is DECLARED for the '' @ polarity_stack cap
         @ '' stack but its declared command '' @ quote (capLabel cap) @ '' is broken: '' @ detail
         @ ''. Expected the declared command/format to run and parse cleanly; got: '' @ detail
         @ ''. Fix the command or its declared format, or remove the declaration.'')"

definition unmet_message :: "TraceabilityDimension \<Rightarrow> CapabilityState \<Rightarrow> string" where
  "unmet_message dim cap =
     ''traceability dimension '' @ quote dim @ '' is DECLARED for the '' @ polarity_stack cap
     @ '' stack but its required capability ('' @ capLabel cap @ '') is missing ''
     @ [CHR 0xE2, CHR 0x80, CHR 0x94] @ '' a broken promise. Install/declare the capability that provides ''
     @ quote dim @ '' for the '' @ polarity_stack cap @ '' stack, or fix the declaration.''"

definition absent_message :: "TraceabilityDimension \<Rightarrow> CapabilityState \<Rightarrow> string" where
  "absent_message dim cap =
     ''traceability dimension '' @ quote dim @ '' has no capability wired for the '' @ polarity_stack cap
     @ '' stack '' @ [CHR 0xE2, CHR 0x80, CHR 0x94] @ '' adopt '' @ capLabel cap @ '' (e.g. a ''
     @ polarity_stack cap @ '' pack), then declare it via enforcement.toolchain gate_type: '' @ dim
     @ ''; or waive it (waived: true). This advisory is non-blocking (exit 0).''"

definition PolarityStepResult ::
  "string \<Rightarrow> TraceabilityDimension \<Rightarrow> PolarityClass \<Rightarrow> Config option \<Rightarrow> CapabilityState \<Rightarrow> StepResult" where
  "PolarityStepResult stepName dim cls cfg cap =
     (case cls of
        ClassBrokenDeclared \<Rightarrow>
          (step_lit stepName ''fail''
             [violation_lit (dim @ ''_broken_declared'') [] (broken_message dim cap) ''error''])\<lparr>s_ConfigErr := True\<rparr>
      | ClassDeclaredIntentUnmet \<Rightarrow>
          (step_lit stepName ''fail''
             [violation_lit (dim @ ''_declared_intent_unmet'') [] (unmet_message dim cap) ''error''])\<lparr>s_ConfigErr := True\<rparr>
      | ClassCapabilityAbsent \<Rightarrow>
          (if waivedDimension cfg dim
           then (step_lit stepName ''pass'' [])\<lparr>s_Reason := dim @ '' capability-absent advisory waived''\<rparr>
           else step_lit stepName ''warning''
                  [violation_lit (dim @ ''_capability_absent'') [] (absent_message dim cap) ''warning''])
      | ClassNone \<Rightarrow> step_lit stepName ''pass'' [])"

subsection \<open>A declared dimension is never passed over\<close>

lemma declaredDimension_iff:
  "declaredDimension cfg dim \<longleftrightarrow> (\<exists>tp\<in>set (toolchain_entries cfg). tp_GateType tp = dim)"
  by (auto simp: declaredDimension_def list_ex_iff)

lemma waived_is_declared: "waivedDimension cfg dim \<Longrightarrow> declaredDimension cfg dim"
  by (auto simp: waivedDimension_def declaredDimension_def list_ex_iff)

text \<open>The waiver of the capability-absent advisory is out of reach.  Class 2 is only given to an
  undeclared dimension, and the entry that carries \<open>waived: true\<close> declares the dimension: so a
  dimension whose capability is missing never passes, waived or not, and following the
  advisory's own advice to waive it (adding a waived entry) turns the warning into a blocking
  configuration error.\<close>

theorem waive_unreachable:
  assumes "\<not> cs_Present cap"
  shows "s_Status (PolarityStepResult name dim (ClassifyDimension cfg dim cap) cfg cap) \<noteq> ''pass''
    \<and> (if hasUnknownGateType cfg \<or> waivedDimension cfg dim
       then s_Status (PolarityStepResult name dim (ClassifyDimension cfg dim cap) cfg cap) = ''fail''
            \<and> s_ConfigErr (PolarityStepResult name dim (ClassifyDimension cfg dim cap) cfg cap)
       else ClassifyDimension cfg dim cap = (if declaredDimension cfg dim then ClassDeclaredIntentUnmet else ClassCapabilityAbsent))"
  using assms waived_is_declared [of cfg dim]
  by (auto simp: ClassifyDimension_def PolarityStepResult_def)

definition demo_polarity_config :: "bool \<Rightarrow> Config" where
  "demo_polarity_config waived =
     \<lparr>cf_Project = ''p'', cf_Runtimes = [],
      cf_Enforcement = \<lparr>en_Security = \<lparr>se_Tier = []\<rparr>, en_WaiverWarningDays = 30, en_BaselineTTL = [],
        en_TestCommand = [],
        en_Toolchain = (if waived then [(''cov'', \<lparr>tp_Command = [], tp_Format = [], tp_Extensions = [],
           tp_TestDependencyCommand = [], tp_GateType = ''coverage'', tp_Waived = True\<rparr>)] else []),
        en_Policy = [], en_CoverageFloor = None\<rparr>,
      cf_Packs = [], cf_Registries = [], cf_ArtifactRoot = []\<rparr>"

definition absent_cap :: CapabilityState where
  "absent_cap = \<lparr>cs_Present = False, cs_Working = False, cs_PackOrCommand = [], cs_Detail = [], cs_Stack = []\<rparr>"

theorem waive_unreachable_witness:
  "s_Status (PolarityStepResult ''c'' ''coverage'' (ClassifyDimension (Some (demo_polarity_config True)) ''coverage'' absent_cap)
      (Some (demo_polarity_config True)) absent_cap) = ''fail''
   \<and> ClassifyDimension (Some (demo_polarity_config False)) ''coverage'' absent_cap = ClassCapabilityAbsent"
proof -
  have n: "\<not> cs_Present absent_cap" by (simp add: absent_cap_def)
  have "waivedDimension (Some (demo_polarity_config True)) ''coverage''" "\<not> waivedDimension (Some (demo_polarity_config False)) ''coverage''"
    "\<not> hasUnknownGateType (Some (demo_polarity_config False))" "\<not> declaredDimension (Some (demo_polarity_config False)) ''coverage''"
    by (simp_all add: waivedDimension_def hasUnknownGateType_def declaredDimension_def toolchain_entries_def demo_polarity_config_def)
  then show ?thesis
    using waive_unreachable [OF n, of "''c''" "''coverage''" "Some (demo_polarity_config True)"]
      waive_unreachable [OF n, of "''c''" "''coverage''" "Some (demo_polarity_config False)"] by simp
qed

text \<open>A declared dimension reaches its analyser only when its capability is present and working;
  otherwise the step is a blocking configuration error.\<close>

lemma declared_dimension_blocks:
  assumes "declaredDimension cfg dim"
  shows "(ClassifyDimension cfg dim cap = ClassNone \<longleftrightarrow> \<not> hasUnknownGateType cfg \<and> cs_Present cap \<and> cs_Working cap)
    \<and> (ClassifyDimension cfg dim cap \<noteq> ClassNone \<longrightarrow>
         s_Status (PolarityStepResult name dim (ClassifyDimension cfg dim cap) cfg cap) = ''fail''
         \<and> s_ConfigErr (PolarityStepResult name dim (ClassifyDimension cfg dim cap) cfg cap))"
  using assms by (auto simp: ClassifyDimension_def PolarityStepResult_def)

end
