(* ===== verification/Gate_Testverify.thy ===== *)
theory Gate_Testverify
  imports Gate_Classify "HOL-Library.Product_Lexorder"
begin

text \<open>
  The test verification step (\<open>src/pkg/gate/step_testverify.go\<close>) and the join of test verdicts to
  mandated tests (\<open>test_verdict_join.go\<close>).  A compiled regular expression is the function
  \<open>FindAllStringSubmatchIndex\<close> it gives; the tree below the code directory and the file reader are
  arguments.  The walk, the extraction of names, both halves of the dimension and its
  capability-absent advisories are the program's.
\<close>

subsection \<open>Reading test names\<close>

type_synonym regex = "string \<Rightarrow> int list list"
type_synonym TestNameMatcher = "regex list"

fun compile_all :: "(string \<Rightarrow> string + regex) \<Rightarrow> string list \<Rightarrow> string + TestNameMatcher" where
  "compile_all compile [] = Inr []"
| "compile_all compile (p # ps) =
     (case compile p of
        Inl err \<Rightarrow> Inl (''invalid test_name_pattern '' @ quote p @ '': '' @ err)
      | Inr re \<Rightarrow> (case compile_all compile ps of Inl err \<Rightarrow> Inl err | Inr res \<Rightarrow> Inr (re # res)))"

definition NewTestNameMatcher :: "(string \<Rightarrow> string + regex) \<Rightarrow> string list \<Rightarrow> string + TestNameMatcher" where
  "NewTestNameMatcher compile patterns = compile_all compile patterns"

definition HasPatterns :: "TestNameMatcher \<Rightarrow> bool" where
  "HasPatterns m \<longleftrightarrow> 0 < length m"

text \<open>A match: the name, the start of the whole match, and the index of its pattern.\<close>

type_synonym name_match = "string \<times> int \<times> nat"

definition match_of :: "string \<Rightarrow> nat \<Rightarrow> int list \<Rightarrow> name_match option" where
  "match_of line patternIndex indices =
     (if length indices < 4 \<or> indices ! 2 < 0 \<or> indices ! 3 \<le> indices ! 2 then None
      else Some (take (nat (indices ! 3 - indices ! 2)) (drop (nat (indices ! 2)) line), indices ! 0, patternIndex))"

definition line_matches :: "TestNameMatcher \<Rightarrow> string \<Rightarrow> name_match list" where
  "line_matches m line =
     concat (map (\<lambda>(i, re). List.map_filter (match_of line i) (re line)) (enumerate 0 m))"

fun dedup_matches :: "(string \<times> int) list \<Rightarrow> name_match list \<Rightarrow> string list" where
  "dedup_matches seen [] = []"
| "dedup_matches seen ((name, start, i) # ms) =
     (if (name, start) \<in> set seen then dedup_matches seen ms
      else name # dedup_matches ((name, start) # seen) ms)"

definition FindNames :: "TestNameMatcher \<Rightarrow> string \<Rightarrow> string list" where
  "FindNames m line = dedup_matches [] (sort_key (\<lambda>(name, start, i). (start, i)) (line_matches m line))"

definition FindName :: "TestNameMatcher \<Rightarrow> string \<Rightarrow> string option" where
  "FindName m line = (case FindNames m line of [] \<Rightarrow> None | n # _ \<Rightarrow> Some n)"

text \<open>The walk of the code directory: every entry is visited, an entry that cannot be read or
  opened is passed over, and a later file's name replaces an earlier one's.\<close>

record code_tree =
  cd_Dir :: string
  cd_Tree :: FsNode
  cd_Read :: "string \<Rightarrow> string option"

definition in_code_scope :: "GateScope option \<Rightarrow> string \<Rightarrow> bool" where
  "in_code_scope scope path =
     (case scope of None \<Rightarrow> True | Some sc \<Rightarrow> gs_Mode sc = GateScopeModeAll \<or> ContainsPath scope path)"

definition file_test_names ::
  "glob_match \<Rightarrow> code_tree \<Rightarrow> GateScope option \<Rightarrow> SourceClassifier \<Rightarrow> TestNameMatcher \<Rightarrow> string \<Rightarrow> (string \<times> string) list" where
  "file_test_names glob code scope classifier matcher path =
     (let rel = (case Rel (cd_Dir code) path of None \<Rightarrow> path | Some r \<Rightarrow> r) in
      if \<not> IsTestFile glob classifier rel then []
      else if \<not> in_code_scope scope path then []
      else case cd_Read code path of
             None \<Rightarrow> []
           | Some content \<Rightarrow>
               concat (map (\<lambda>line. map (\<lambda>n. (n, path)) (FindNames matcher line)) (scan_lines content)))"

fun walk_paths :: "string \<Rightarrow> FsNode \<Rightarrow> string list" where
  "walk_paths path (FsErr _) = []"
| "walk_paths path (FsFile _) = [path]"
| "walk_paths path (FsDir name children) =
     concat (map (\<lambda>c. walk_paths (JoinPath [path, node_name c]) c) children)"

definition collectTestFuncNamesScoped ::
  "glob_match \<Rightarrow> code_tree \<Rightarrow> GateScope option \<Rightarrow> SourceClassifier \<Rightarrow> TestNameMatcher \<Rightarrow> (string, string) gomap" where
  "collectTestFuncNamesScoped glob code scope classifier matcher =
     fold (\<lambda>(n, p) found. map_set n p found)
       (concat (map (file_test_names glob code scope classifier matcher) (walk_paths (cd_Dir code) (cd_Tree code)))) []"

definition collectTestFuncNames ::
  "glob_match \<Rightarrow> code_tree \<Rightarrow> SourceClassifier \<Rightarrow> TestNameMatcher \<Rightarrow> (string, string) gomap" where
  "collectTestFuncNames glob code classifier matcher = collectTestFuncNamesScoped glob code None classifier matcher"

definition ResolveMandatedTestPaths ::
  "glob_match \<Rightarrow> MandatedTest list \<Rightarrow> code_tree \<Rightarrow> SourceClassifier \<Rightarrow> TestNameMatcher \<Rightarrow> MandatedTest list" where
  "ResolveMandatedTestPaths glob mandated code classifier matcher =
     (let found = collectTestFuncNames glob code classifier matcher
      in map (\<lambda>mt. case map_of found (mt_FuncName mt) of None \<Rightarrow> mt | Some p \<Rightarrow> mt\<lparr>mt_FilePath := p\<rparr>) mandated)"

subsection \<open>The verdict join\<close>

definition mandatedTestFailedRule :: string where "mandatedTestFailedRule = ''mandated_test_failed''"
definition gateTypeTest :: string where "gateTypeTest = ''test''"

definition RouteTestVerdictFindings :: "Violation list \<Rightarrow> Violation list" where
  "RouteTestVerdictFindings violations = filter (\<lambda>v. v_GateType v = gateTypeTest) violations"

definition isIdentifierByte :: "char \<Rightarrow> bool" where
  "isIdentifierByte b \<longleftrightarrow>
     (let n = (of_char b :: nat)
      in (97 \<le> n \<and> n \<le> 122) \<or> (65 \<le> n \<and> n \<le> 90) \<or> (48 \<le> n \<and> n \<le> 57) \<or> n = 95)"

text \<open>The search loop: the offset moves past the start of an occurrence that is not anchored.  (The
  caller returns before the loop on an empty name, which the loop would not advance over.)\<close>

function names_from :: "string \<Rightarrow> string \<Rightarrow> nat \<Rightarrow> bool" where
  "names_from message name offset =
     (case Index (drop offset message) name of
        None \<Rightarrow> False
      | Some idx \<Rightarrow>
          (let start = offset + idx; stop = start + length name;
               beforeOK = (start = 0 \<or> \<not> isIdentifierByte (message ! (start - 1)));
               afterOK = (stop = length message \<or> \<not> isIdentifierByte (message ! stop))
           in if beforeOK \<and> afterOK then True
              else if name = [] then False
              else names_from message name (start + 1)))"
  by pat_completeness auto
termination
proof (relation "measure (\<lambda>(message, name, offset). length message - offset)")
  fix message name :: string and offset idx start stop :: nat and b a
  assume "Index (drop offset message) name = Some idx" "start = offset + idx" "name \<noteq> []"
  moreover from this Index_SomeD have "idx + length name \<le> length message - offset" by fastforce
  ultimately show "((message, name, start + 1), (message, name, offset))
      \<in> measure (\<lambda>(message, name, offset). length message - offset)" by (cases name) auto
qed simp

declare names_from.simps [simp del]

definition verdictNamesTest :: "string \<Rightarrow> string \<Rightarrow> bool" where
  "verdictNamesTest message funcName = (if funcName = [] then False else names_from message funcName 0)"

text \<open>The scope guard both halves of the dimension apply to a mandated test.\<close>

definition test_in_scope :: "GateScope option \<Rightarrow> MandatedTest \<Rightarrow> bool" where
  "test_in_scope scope mt =
     (case scope of
        None \<Rightarrow> True
      | Some sc \<Rightarrow>
          if gs_Mode sc \<noteq> GateScopeModeAll then
            \<not> (mt_FilePath mt \<noteq> [] \<and> \<not> ContainsPath scope (mt_FilePath mt) \<and> \<not> ContainsPath scope (mt_SpecFile mt))
            \<and> \<not> (mt_FilePath mt = [] \<and> \<not> ContainsPath scope (mt_SpecFile mt))
          else True)"

definition scope_root :: "GateScope option \<Rightarrow> string" where
  "scope_root scope = (case scope of None \<Rightarrow> [] | Some sc \<Rightarrow> gs_ProjectRoot sc)"

definition test_file :: "MandatedTest \<Rightarrow> string" where
  "test_file mt = (if mt_FilePath mt = [] then mt_SpecFile mt else mt_FilePath mt)"

definition verdict_details :: "Violation list \<Rightarrow> MandatedTest \<Rightarrow> string list" where
  "verdict_details verdicts mt =
     map v_Message (filter (\<lambda>v. verdictNamesTest (v_Message v) (mt_FuncName mt)) verdicts)"

definition failed_violation :: "GateScope option \<Rightarrow> Violation list \<Rightarrow> MandatedTest \<Rightarrow> Violation" where
  "failed_violation scope verdicts mt =
     violation_lit mandatedTestFailedRule (NormalizePath (scope_root scope) (test_file mt))
       (''mandated test '' @ mt_FuncName mt @ '' FAILED (spec '' @ mt_SpecID mt @ '', claim '' @ mt_ClaimID mt @ ''): ''
        @ Join (verdict_details verdicts mt) ''; '') ''critical''"

definition test_failed :: "GateScope option \<Rightarrow> Violation list \<Rightarrow> MandatedTest \<Rightarrow> bool" where
  "test_failed scope verdicts mt \<longleftrightarrow>
     contractsAreDue (mt_Status mt) \<and> test_in_scope scope mt \<and> verdict_details verdicts mt \<noteq> []"

definition MandatedTestFailures :: "MandatedTest list \<Rightarrow> Violation list \<Rightarrow> GateScope option \<Rightarrow> Violation list" where
  "MandatedTestFailures mandated verdicts scope =
     map (failed_violation scope verdicts) (filter (test_failed scope verdicts) mandated)"

subsection \<open>The step\<close>

text \<open>The advisories of an absent capability.\<close>

definition verdictCapabilityAbsentViolation :: Violation where
  "verdictCapabilityAbsentViolation =
     violation_lit ''test_verification_verdict_capability_absent'' []
       (''test-verdict capability absent: no installed pack declares an engine with `gate_type: test`, ''
        @ ''so the gate can confirm the mandated tests EXIST but cannot report whether they PASSED ''
        @ [CHR 0xE2, CHR 0x80, CHR 0x94]
        @ '' install/declare a toolchain pack carrying a `gate_type: test` engine. This advisory is ''
        @ ''non-blocking (exit 0); it is NOT a report that any mandated test failed.'') ''warning''"

definition testDiscoveryCapabilityAbsent :: "bool \<Rightarrow> bool \<Rightarrow> StepResult" where
  "testDiscoveryCapabilityAbsent hasGlobs hasPatterns =
     (let missing =
        (if \<not> hasGlobs \<and> \<not> hasPatterns
         then ''no toolchain pack declares classification.test globs (to find test files) NOR test_name_patterns (to extract test names)''
         else if \<not> hasGlobs
         then ''no toolchain pack declares classification.test globs to find test files''
         else ''no toolchain pack declares test_name_patterns to extract test names (test files may be found, but no test name can be read from them)'')
      in (step_lit StepTestVerification ''warning''
           [violation_lit ''test_verification_capability_absent'' []
             (''test-discovery capability absent: '' @ missing @ '' '' @ [CHR 0xE2, CHR 0x80, CHR 0x94]
              @ '' install/declare a toolchain pack carrying both classification.test globs and test_name_patterns. This advisory is non-blocking (exit 0); it is NOT a report that the mandated tests are missing from the codebase.'')
             ''warning''])
           \<lparr>s_Reason := ''test-discovery capability absent ('' @ missing @ '')''\<rparr>)"

definition missing_violation :: "GateScope option \<Rightarrow> MandatedTest \<Rightarrow> Violation" where
  "missing_violation scope mt =
     violation_lit ''test_verification'' (NormalizePath (scope_root scope) (test_file mt))
       (''mandated test function '' @ mt_FuncName mt @ '' not found (spec '' @ mt_SpecID mt @ '', claim '' @ mt_ClaimID mt @ '')'')
       ''error''"

text \<open>What the specification directory's reader reports when it fails.\<close>

definition spec_dir_error :: "corpus \<Rightarrow> string \<Rightarrow> string" where
  "spec_dir_error c specDir =
     ''reading spec dir '' @ specDir @ '': ''
     @ (case co_readDir c specDir of
          DirError e \<Rightarrow> e
        | _ \<Rightarrow> ''open '' @ specDir @ '': no such file or directory'')"

text \<open>The inputs of the step: the corpus and its specification directory, the code, the scope, the
  two halves of the discovery capability, and the verdict channel (None when none is wired), which
  yields the routed verdicts and whether any pack declares a test engine.\<close>

record test_inputs =
  ti_corpus :: corpus
  ti_specDir :: string
  ti_code :: code_tree
  ti_scope :: "GateScope option"
  ti_glob :: glob_match
  ti_classifier :: SourceClassifier
  ti_matcher :: TestNameMatcher

definition scoped_mode :: "GateScope option \<Rightarrow> bool" where
  "scoped_mode scope = (case scope of None \<Rightarrow> False | Some sc \<Rightarrow> gs_Mode sc \<noteq> GateScopeModeAll)"

definition resolved_due :: "test_inputs \<Rightarrow> MandatedTest list \<Rightarrow> MandatedTest list" where
  "resolved_due t mandated =
     (if scoped_mode (ti_scope t)
      then ResolveMandatedTestPaths (ti_glob t) mandated (ti_code t) (ti_classifier t) (ti_matcher t)
      else mandated)"

definition StepTestVerificationVerdictFunc ::
  "test_inputs \<Rightarrow> (Violation list \<times> bool) option \<Rightarrow> StepResult" where
  "StepTestVerificationVerdictFunc t channel =
     (case ExtractMandatedTests (ti_corpus t) (ti_specDir t) of
        None \<Rightarrow> step_lit StepTestVerification ''fail''
          [violation_lit ''test_verification'' []
             (''failed to extract mandated tests: '' @ spec_dir_error (ti_corpus t) (ti_specDir t)) ''error'']
      | Some extracted \<Rightarrow>
      (let mandated = filterDueMandatedTests extracted in
       if mandated = [] then step_lit StepTestVerification ''pass'' []
       else if \<not> HasTestGlobs (ti_classifier t) \<or> \<not> HasPatterns (ti_matcher t) then
         (let absent = testDiscoveryCapabilityAbsent (HasTestGlobs (ti_classifier t)) (HasPatterns (ti_matcher t))
          in case channel of
               None \<Rightarrow> absent
             | Some (verdicts, declared) \<Rightarrow>
                 (let vs = s_Violations absent @ MandatedTestFailures mandated verdicts None
                  in absent\<lparr>s_Violations := vs, s_Status := StepVerdict vs\<rparr>))
       else
         (let found = collectTestFuncNames (ti_glob t) (ti_code t) (ti_classifier t) (ti_matcher t);
              mandated = resolved_due t mandated;
              missing = map (missing_violation (ti_scope t))
                          (filter (\<lambda>mt. test_in_scope (ti_scope t) mt \<and> \<not> map_has found (mt_FuncName mt)) mandated);
              verdict_half = (case channel of
                 None \<Rightarrow> []
               | Some (verdicts, declared) \<Rightarrow>
                   if \<not> declared then [verdictCapabilityAbsentViolation]
                   else MandatedTestFailures mandated verdicts (ti_scope t));
              vs = missing @ verdict_half
          in step_lit StepTestVerification (StepVerdict vs) vs)))"

definition StepTestVerificationScopedFunc :: "test_inputs \<Rightarrow> StepResult" where
  "StepTestVerificationScopedFunc t = StepTestVerificationVerdictFunc t None"

definition StepTestVerificationFunc :: "test_inputs \<Rightarrow> StepResult" where
  "StepTestVerificationFunc t = StepTestVerificationScopedFunc (t\<lparr>ti_scope := None\<rparr>)"

subsection \<open>The name search\<close>

text \<open>An anchored occurrence of a name.\<close>

definition anchored_at :: "string \<Rightarrow> string \<Rightarrow> nat \<Rightarrow> bool" where
  "anchored_at message name i \<longleftrightarrow>
     prefix name (drop i message) \<and> i + length name \<le> length message
     \<and> (i = 0 \<or> \<not> isIdentifierByte (message ! (i - 1)))
     \<and> (i + length name = length message \<or> \<not> isIdentifierByte (message ! (i + length name)))"

lemma names_from_iff: "name \<noteq> [] \<Longrightarrow> names_from message name offset \<longleftrightarrow> (\<exists>i\<ge>offset. anchored_at message name i)"
proof (induction message name offset rule: names_from.induct)
  case (1 message name offset)
  show ?case
  proof (cases "Index (drop offset message) name")
    case None
    have "\<not> anchored_at message name i" if "offset \<le> i" for i
    proof
      assume a: "anchored_at message name i"
      then have "prefix name (drop (i - offset) (drop offset message))" "i - offset \<le> length (drop offset message)"
        using that by (auto simp: anchored_at_def)
      with None show False by (simp add: Index_None_iff)
    qed
    with None show ?thesis by (simp add: names_from.simps [of message name offset])
  next
    case (Some idx)
    have here: "prefix name (drop (offset + idx) message)" "offset + idx + length name \<le> length message"
      using Index_SomeD [OF Some] "1.prems" by (auto simp: add.commute) (cases name; auto)
    have first: "\<not> anchored_at message name i" if "offset \<le> i" "i < offset + idx" for i
      using Index_least [OF Some, of "i - offset"] that by (auto simp: anchored_at_def)
    have split: "(\<exists>i\<ge>offset. anchored_at message name i) \<longleftrightarrow>
        anchored_at message name (offset + idx) \<or> (\<exists>i\<ge>offset + idx + 1. anchored_at message name i)"
    proof
      assume "\<exists>i\<ge>offset. anchored_at message name i"
      then obtain i where i: "offset \<le> i" "anchored_at message name i" by blast
      then have "offset + idx \<le> i" using first by (meson not_le_imp_less)
      then show "anchored_at message name (offset + idx) \<or> (\<exists>i\<ge>offset + idx + 1. anchored_at message name i)"
        using i by (cases "i = offset + idx") auto
    qed (meson add_leE le_add1)
    have "anchored_at message name (offset + idx) \<longleftrightarrow>
        (offset + idx = 0 \<or> \<not> isIdentifierByte (message ! (offset + idx - 1)))
        \<and> (offset + idx + length name = length message \<or> \<not> isIdentifierByte (message ! (offset + idx + length name)))"
      using here by (simp add: anchored_at_def)
    moreover have "names_from message name (offset + idx + 1) \<longleftrightarrow> (\<exists>i\<ge>offset + idx + 1. anchored_at message name i)"
      if "\<not> anchored_at message name (offset + idx)"
      using "1.IH" [OF Some refl refl refl refl] "1.prems" that calculation by auto
    ultimately show ?thesis
      using Some "1.prems" split by (subst names_from.simps) (simp add: Let_def, blast)
  qed
qed

text \<open>The offset loop of the verdict join returns on every message and finds exactly the anchored
  occurrences: a finding names a test when its message is some text, the test's name and some text,
  and neither text continues the identifier.\<close>

theorem verdictNamesTest_exact:
  "verdictNamesTest message name \<longleftrightarrow> name \<noteq> []
     \<and> (\<exists>before after. message = before @ name @ after
          \<and> (before = [] \<or> \<not> isIdentifierByte (last before))
          \<and> (after = [] \<or> \<not> isIdentifierByte (hd after)))"
proof (cases "name = []")
  case False
  have "(\<exists>i. anchored_at message name i) \<longleftrightarrow>
      (\<exists>before after. message = before @ name @ after
          \<and> (before = [] \<or> \<not> isIdentifierByte (last before))
          \<and> (after = [] \<or> \<not> isIdentifierByte (hd after)))" (is "_ \<longleftrightarrow> ?R")
  proof
    assume "\<exists>i. anchored_at message name i"
    then obtain i where i: "anchored_at message name i" ..
    then obtain after where after: "drop i message = name @ after" by (auto simp: anchored_at_def prefix_def)
    have m: "message = take i message @ name @ after" using after append_take_drop_id [of i message] by simp
    have l: "i \<le> length message" "length (take i message) = i" using i by (auto simp: anchored_at_def)
    have "take i message = [] \<or> \<not> isIdentifierByte (last (take i message))"
      using i l by (auto simp: anchored_at_def last_conv_nth)
    moreover have "after = [] \<or> \<not> isIdentifierByte (hd after)"
    proof (cases after)
      case (Cons c cs)
      have "message ! (i + length name) = c"
        using after Cons l by (metis append.assoc append_Cons hd_append2 list.sel(1) nth_append_length nth_drop)
      moreover have "i + length name \<noteq> length message" using m l Cons by (metis append_Nil2 append_eq_append_conv length_append list.distinct(1) append.assoc)
      ultimately show ?thesis using i Cons by (simp add: anchored_at_def)
    qed simp
    ultimately show ?R using m by blast
  next
    assume ?R
    then obtain before after where m: "message = before @ name @ after"
      "before = [] \<or> \<not> isIdentifierByte (last before)" "after = [] \<or> \<not> isIdentifierByte (hd after)" by blast
    then have "anchored_at message name (length before)"
      by (auto simp: anchored_at_def nth_append last_conv_nth hd_conv_nth)
    then show "\<exists>i. anchored_at message name i" ..
  qed
  with False show ?thesis by (simp add: verdictNamesTest_def names_from_iff)
qed (simp add: verdictNamesTest_def)

theorem verdictNamesTest_exact_witness:
  "verdictNamesTest ''--- FAIL: TestFoo'' ''TestFoo'' \<and> \<not> verdictNamesTest ''TestFooBar'' ''TestFoo''"
proof
  show "verdictNamesTest ''--- FAIL: TestFoo'' ''TestFoo''"
    unfolding verdictNamesTest_exact
    by (rule conjI, simp, rule exI [of _ "''--- FAIL: ''"], rule exI [of _ "[]"]) (simp add: isIdentifierByte_def)
  show "\<not> verdictNamesTest ''TestFooBar'' ''TestFoo''" by code_simp
qed

subsection \<open>What a pass of the step means\<close>

lemma verdict_warning_simps [simp]:
  "\<not> blocksVerdict (violation_lit r f m ''warning'')" "blocksVerdict (violation_lit r f m ''critical'')"
  "blocksVerdict (violation_lit r f m ''error'')"
  by (simp_all add: blocksVerdict_def EqualFold_def) (code_simp)+

lemma resolved_due_keeps:
  "mt \<in> set (resolved_due t mts) \<Longrightarrow> \<exists>mt0\<in>set mts. mt_FuncName mt = mt_FuncName mt0 \<and> mt_Status mt = mt_Status mt0"
  by (auto simp: resolved_due_def ResolveMandatedTestPaths_def Let_def split: if_splits option.splits)

lemma resolved_due_due:
  "mt \<in> set (resolved_due t (filterDueMandatedTests mts)) \<Longrightarrow> contractsAreDue (mt_Status mt)"
  by (auto simp: filterDueMandatedTests_def dest!: resolved_due_keeps)

lemma resolved_due_Nil [simp]: "resolved_due t mts = [] \<longleftrightarrow> mts = []" "resolved_due t [] = []"
  by (simp_all add: resolved_due_def ResolveMandatedTestPaths_def Let_def)

definition discovery_capable :: "test_inputs \<Rightarrow> bool" where
  "discovery_capable t \<longleftrightarrow> HasTestGlobs (ti_classifier t) \<and> HasPatterns (ti_matcher t)"

text \<open>A mandated test that exists and that no verdict names.\<close>

definition test_kept :: "test_inputs \<Rightarrow> (Violation list \<times> bool) option \<Rightarrow> MandatedTest \<Rightarrow> bool" where
  "test_kept t channel mt \<longleftrightarrow>
     map_has (collectTestFuncNames (ti_glob t) (ti_code t) (ti_classifier t) (ti_matcher t)) (mt_FuncName mt)
     \<and> (case channel of None \<Rightarrow> True | Some (verdicts, _) \<Rightarrow> verdict_details verdicts mt = [])"

lemma StepVerdict_pass: "StepVerdict vs = ''pass'' \<longleftrightarrow> vs = []"
  by (simp add: StepVerdict_cases)

text \<open>C10: Test verification passes exactly when the specifications are readable and either no mandated
  test is due, or tests can be discovered, a wired verdict channel has a declared engine behind it,
  and every due test in scope exists in a test file and is named by no failing verdict.  An absent
  capability is never a pass.\<close>

theorem test_verification_pass_exact:
  "s_Status (StepTestVerificationVerdictFunc t channel) = ''pass'' \<longleftrightarrow>
     (case ExtractMandatedTests (ti_corpus t) (ti_specDir t) of
        None \<Rightarrow> False
      | Some mts \<Rightarrow>
          filterDueMandatedTests mts = []
          \<or> (discovery_capable t
             \<and> (case channel of None \<Rightarrow> True | Some (_, declared) \<Rightarrow> declared)
             \<and> (\<forall>mt\<in>set (resolved_due t (filterDueMandatedTests mts)).
                   test_in_scope (ti_scope t) mt \<longrightarrow> test_kept t channel mt)))"
proof (cases "ExtractMandatedTests (ti_corpus t) (ti_specDir t)")
  case None
  then show ?thesis by (simp add: StepTestVerificationVerdictFunc_def)
next
  case (Some mts)
  show ?thesis
  proof (cases "filterDueMandatedTests mts = [] \<or> \<not> discovery_capable t")
    case True
    then show ?thesis using Some
      by (auto simp: StepTestVerificationVerdictFunc_def Let_def discovery_capable_def StepVerdict_pass
          testDiscoveryCapabilityAbsent_def split: option.splits)
  next
    case False
    have due: "contractsAreDue (mt_Status mt)" if "mt \<in> set (resolved_due t (filterDueMandatedTests mts))" for mt
      using that by (rule resolved_due_due)
    show ?thesis using False Some due
      by (auto simp: StepTestVerificationVerdictFunc_def Let_def discovery_capable_def StepVerdict_pass
          MandatedTestFailures_def test_failed_def test_kept_def filter_empty_conv split: option.splits prod.splits)
  qed
qed

text \<open>A red mandated test is never lost.  Once its specification is implemented and a routed verdict
  names it, the step fails with a critical (hence unwaivable) violation: in scope when tests can be
  discovered, and regardless of scope when they cannot.\<close>

theorem failing_test_blocks:
  assumes "ExtractMandatedTests (ti_corpus t) (ti_specDir t) = Some mts"
    and "mt \<in> set (if discovery_capable t then resolved_due t (filterDueMandatedTests mts) else filterDueMandatedTests mts)"
    and "discovery_capable t \<Longrightarrow> declared \<and> test_in_scope (ti_scope t) mt"
    and "v \<in> set verdicts" "verdictNamesTest (v_Message v) (mt_FuncName mt)"
  shows "s_Status (StepTestVerificationVerdictFunc t (Some (verdicts, declared))) = ''fail''
    \<and> (\<exists>w\<in>set (s_Violations (StepTestVerificationVerdictFunc t (Some (verdicts, declared)))).
         v_Rule w = mandatedTestFailedRule \<and> v_Severity w = ''critical'')"
proof -
  have details: "verdict_details verdicts mt \<noteq> []"
    using assms(4,5) by (auto simp: verdict_details_def filter_empty_conv)
  have in_fail: "failed_violation sc verdicts mt \<in> set (MandatedTestFailures ms verdicts sc)"
    if "mt \<in> set ms" "contractsAreDue (mt_Status mt)" "test_in_scope sc mt" for ms sc
    using that details by (auto simp: MandatedTestFailures_def test_failed_def)
  have crit: "v_Rule (failed_violation sc verdicts mt) = mandatedTestFailedRule"
    "v_Severity (failed_violation sc verdicts mt) = ''critical''" "blocksVerdict (failed_violation sc verdicts mt)" for sc
    by (simp_all add: failed_violation_def)
  have blocked: "StepVerdict vs = ''fail''" if "failed_violation sc verdicts mt \<in> set vs" for vs sc
    using that crit(3) by (auto simp: StepVerdict_cases)
  show ?thesis
  proof (cases "discovery_capable t")
    case True
    have ne: "filterDueMandatedTests mts \<noteq> []" using assms(2) True by (cases "filterDueMandatedTests mts = []") auto
    have "failed_violation (ti_scope t) verdicts mt
        \<in> set (MandatedTestFailures (resolved_due t (filterDueMandatedTests mts)) verdicts (ti_scope t))"
      using in_fail assms(2,3) True resolved_due_due by simp
    then show ?thesis
      using assms(1,3) True ne crit blocked [of "ti_scope t"]
      by (auto simp: StepTestVerificationVerdictFunc_def Let_def discovery_capable_def)
  next
    case False
    have mem: "mt \<in> set (filterDueMandatedTests mts)" using assms(2) False by simp
    then have ne: "filterDueMandatedTests mts \<noteq> []" by auto
    have "failed_violation None verdicts mt \<in> set (MandatedTestFailures (filterDueMandatedTests mts) verdicts None)"
      using in_fail [OF mem, of None] mem by (auto simp: filterDueMandatedTests_def test_in_scope_def)
    then show ?thesis
      using assms(1) False ne crit blocked [of None]
      by (auto simp: StepTestVerificationVerdictFunc_def Let_def discovery_capable_def)
  qed
qed

definition demo_test_inputs :: "string list \<Rightarrow> test_inputs" where
  "demo_test_inputs globs =
     \<lparr>ti_corpus = \<lparr>co_readDir = (\<lambda>_. DirEntries [(''S-1.spec.md'', False)]),
        co_readFile = (\<lambda>_. Some (''---'' @ [CHR 0x0A] @ ''x'' @ [CHR 0x0A] @ ''---'')),
        co_artifact = (\<lambda>_. None), co_plan = (\<lambda>_. None), co_bundle = (\<lambda>_. None),
        co_spec = (\<lambda>_. Some \<lparr>sf_Number = ''S-1'', sf_Status = ''implemented'', sf_ImplSubject = [], sf_ImplPackage = [],
           sf_TestCommand = [], sf_CoverageThreshold = 0, sf_MetricThresholds = [],
           sf_Claims = [\<lparr>sc_ID = ''C1'', sc_Kind = [], sc_Subject = [], sc_Tests = [''TestA'']\<rparr>], sf_Contracts = []\<rparr>)\<rparr>,
      ti_specDir = ''/w/specs'',
      ti_code = \<lparr>cd_Dir = ''/w'', cd_Tree = FsDir ''w'' [FsFile ''a_test.go''], cd_Read = (\<lambda>_. Some ''TestA'')\<rparr>,
      ti_scope = None,
      ti_glob = (\<lambda>g p. Some (g = p)),
      ti_classifier = \<lparr>cl_source = [], cl_test = globs\<rparr>,
      ti_matcher = [\<lambda>line. [[0, 5, 0, 5]]]\<rparr>"

definition demo_mandated :: MandatedTest where
  "demo_mandated = \<lparr>mt_FuncName = ''TestA'', mt_FilePath = [], mt_SpecFile = ''/w/specs/S-1.spec.md'', mt_TargetPkg = [],
     mt_SpecID = ''S-1'', mt_ClaimID = ''C1'', mt_Status = ''implemented'', mt_IsAbsence = False\<rparr>"

lemma demo_extract:
  "ExtractMandatedTests (ti_corpus (demo_test_inputs g)) (ti_specDir (demo_test_inputs g)) = Some [demo_mandated]"
proof -
  have split: "Split (''---'' @ [CHR 0x0A] @ ''x'' @ [CHR 0x0A] @ ''---'') (CHR 0x0A) = [''---'', ''x'', ''---'']" by code_simp
  have scan: "scan_lines (''---'' @ [CHR 0x0A] @ ''x'' @ [CHR 0x0A] @ ''---'') = [''---'', ''x'', ''---'']"
    unfolding scan_lines_def split by (simp add: drop_cr_def)
  have fence: "fenced [''---'', ''x'', ''---''] = Some ''x''" by code_simp
  have entry: "spec_entry (''S-1.spec.md'', False)" "JoinPath [''/w/specs'', ''S-1.spec.md''] = ''/w/specs/S-1.spec.md''"
    "isTerminalSpecStatus ''implemented'' = False" by code_simp+
  show ?thesis
    by (simp add: ExtractMandatedTests_def demo_test_inputs_def entry parseSpecFrontmatter_def scan [simplified] fence
        claim_tests_def implementationSubject_def TargetPackageName_def demo_mandated_def Let_def)
qed

theorem test_verification_pass_exact_witness:
  "s_Status (StepTestVerificationVerdictFunc (demo_test_inputs [''a_test.go'']) (Some ([], True))) = ''pass''"
  (is "s_Status (StepTestVerificationVerdictFunc ?t _) = _")
proof -
  have due: "filterDueMandatedTests [demo_mandated] = [demo_mandated]" by code_simp
  have cap: "discovery_capable (demo_test_inputs [''a_test.go''])" by code_simp
  have kept: "test_kept (demo_test_inputs [''a_test.go'']) (Some ([], True)) demo_mandated"
  proof -
    have walk: "walk_paths (cd_Dir (ti_code ?t)) (cd_Tree (ti_code ?t)) = [''/w/a_test.go'']" by code_simp
    have rel: "Rel ''/w'' ''/w/a_test.go'' = Some ''a_test.go''" "NormalizePath [] ''a_test.go'' = ''a_test.go''" by code_simp+
    have scan: "scan_lines ''TestA'' = [''TestA'']" by (simp add: scan_lines_def drop_cr_def)
    have names: "FindNames [\<lambda>line. [[0, 5, 0, 5]]] ''TestA'' = [''TestA'']" by code_simp
    have "map_has (collectTestFuncNames (ti_glob ?t) (ti_code ?t) (ti_classifier ?t) (ti_matcher ?t)) ''TestA''"
      unfolding collectTestFuncNames_def collectTestFuncNamesScoped_def walk
      by (simp add: demo_test_inputs_def file_test_names_def rel scan names IsTestFile_def matchesAnyGlob_def in_code_scope_def)
    then show ?thesis by (simp add: test_kept_def verdict_details_def demo_mandated_def)
  qed
  have res: "resolved_due (demo_test_inputs [''a_test.go'']) [demo_mandated] = [demo_mandated]" by code_simp
  show ?thesis
    unfolding test_verification_pass_exact [of "demo_test_inputs [''a_test.go'']" "Some ([], True)"] demo_extract option.case due res
    using cap kept by simp
qed

theorem failing_test_blocks_witness:
  "s_Status (StepTestVerificationVerdictFunc (demo_test_inputs [])
      (Some ([violation_lit ''r'' ''a_test.go'' ''FAIL: TestA (0s)'' ''error''], True))) = ''fail''"
proof -
  have cap: "\<not> discovery_capable (demo_test_inputs [])" by code_simp
  have due: "filterDueMandatedTests [demo_mandated] = [demo_mandated]" by code_simp
  have nm: "mt_FuncName demo_mandated = ''TestA''" by (simp add: demo_mandated_def)
  have ix: "Index ''FAIL: TestA (0s)'' ''TestA'' = Some 6" by simp
  have names: "verdictNamesTest ''FAIL: TestA (0s)'' ''TestA''"
    unfolding verdictNamesTest_def by (subst names_from.simps) (simp add: ix isIdentifierByte_def)
  show ?thesis
    using failing_test_blocks [OF demo_extract [of "[]"], of demo_mandated True
        "violation_lit ''r'' ''a_test.go'' ''FAIL: TestA (0s)'' ''error''"
        "[violation_lit ''r'' ''a_test.go'' ''FAIL: TestA (0s)'' ''error'']"] cap due nm names by simp
qed

end
