(* ===== verification/Gate_Substantiveness.thy ===== *)
theory Gate_Substantiveness
  imports Gate_Testverify
begin

text \<open>
  Test substantiveness: the join of the pack's findings to the mandated tests
  (\<open>src/pkg/gate/substantiveness_join.go\<close>) and the step that runs it
  (\<open>buildTestSubstantivenessStepWithSandbox\<close> in \<open>src/cmd/backstop/gate.go\<close>).  Which pack provides the
  capability and what its engine found are inputs of the step.
\<close>

type_synonym ReferencedSymbolSet = "string list"

definition NoTargetViolation :: "string \<Rightarrow> string \<Rightarrow> ReferencedSymbolSet \<Rightarrow> bool \<Rightarrow> Violation option" where
  "NoTargetViolation funcName targetPkg referenced samePackage =
     (if targetPkg = [] then None
      else if samePackage then None
      else if targetPkg \<in> set referenced then None
      else Some (violation_lit StepTestSubstantiveness []
                  (''test function '' @ funcName @ '' does not call package '' @ targetPkg) ''error''))"

definition NoTargetViolationForTest :: "MandatedTest \<Rightarrow> ReferencedSymbolSet \<Rightarrow> bool \<Rightarrow> Violation option" where
  "NoTargetViolationForTest mt referenced samePackage =
     (if mt_IsAbsence mt then None
      else NoTargetViolation (mt_FuncName mt) (mt_TargetPkg mt) referenced samePackage)"

definition JoinEligibleForNoTarget :: "MandatedTest \<Rightarrow> bool \<Rightarrow> bool" where
  "JoinEligibleForNoTarget mt samePackage \<longleftrightarrow> NoTargetViolationForTest mt [] samePackage \<noteq> None"

definition refusal_message :: "string \<Rightarrow> string" where
  "refusal_message count =
     ''the substantiveness pack produced no findings of any kind while '' @ count
     @ '' mandated tests were join-eligible '' @ [CHR 0xE2, CHR 0x80, CHR 0x94]
     @ '' its engine did not run, its classification matched 0 test files, or those tests genuinely make no package-qualified calls ''
     @ ''while still satisfying the pack's assertion vocabulary; refusing instead of reporting '' @ count
     @ '' unsubstantiated '' @ [CHR 0x22] @ ''does not call package'' @ [CHR 0x22] @ '' violations''"

definition SubstantivenessEvidenceRefusal :: "nat \<Rightarrow> nat \<Rightarrow> nat \<Rightarrow> Violation option" where
  "SubstantivenessEvidenceRefusal eligible extraction hollow =
     (if eligible < 1 \<or> 0 < extraction \<or> 0 < hollow then None
      else Some (violation_lit StepTestSubstantiveness [] (refusal_message (Itoa (int eligible))) ''error''))"

definition substantivenessRoleProperty :: string where "substantivenessRoleProperty = ''substantiveness_role''"
definition substantivenessRoleHollow :: string where "substantivenessRoleHollow = ''hollow''"
definition substantivenessRoleReferenced :: string where "substantivenessRoleReferenced = ''referenced-symbol''"

lemmas role_defs = substantivenessRoleProperty_def substantivenessRoleHollow_def substantivenessRoleReferenced_def

definition property :: "Violation \<Rightarrow> string \<Rightarrow> string" where
  "property v key = map_get [] (v_Properties v) key"

definition RouteSubstantivenessFindings :: "Violation list \<Rightarrow> Violation list \<times> Violation list" where
  "RouteSubstantivenessFindings violations =
     (filter (\<lambda>v. property v substantivenessRoleProperty = substantivenessRoleHollow) violations,
      filter (\<lambda>v. property v substantivenessRoleProperty = substantivenessRoleReferenced) violations)"

definition sameFile :: "string \<Rightarrow> string \<Rightarrow> bool" where
  "sameFile a b =
     (if a = [] \<or> b = [] then False
      else if Clean a = Clean b then True
      else Base (Clean a) = Base (Clean b))"

definition ReferencedSetForTest :: "Violation list \<Rightarrow> MandatedTest \<Rightarrow> ReferencedSymbolSet" where
  "ReferencedSetForTest extraction test =
     filter (\<lambda>s. s \<noteq> [])
       (map (\<lambda>v. property v ''symbol'')
         (filter (\<lambda>v. sameFile (v_File v) (mt_FilePath test) \<and> property v ''func'' = mt_FuncName test) extraction))"

definition IsTestHollow :: "Violation list \<Rightarrow> MandatedTest \<Rightarrow> bool" where
  "IsTestHollow hollow test =
     list_ex (\<lambda>v. sameFile (v_File v) (mt_FilePath test) \<and> property v ''func'' = mt_FuncName test) hollow"

text \<open>\<open>strings.TrimRight(s, " \t")\<close>.\<close>

definition trim_blanks :: "string \<Rightarrow> string" where
  "trim_blanks s = rev (dropWhile (\<lambda>c. c = CHR '' '' \<or> c = CHR 0x09) (rev s))"

definition cut_at :: "string \<Rightarrow> string \<Rightarrow> string" where
  "cut_at key message = (case Index message key of None \<Rightarrow> message | Some idx \<Rightarrow> take idx message)"

definition stripFuncToken :: "string \<Rightarrow> string" where
  "stripFuncToken message = trim_blanks (cut_at '' symbol='' (cut_at '' func='' message))"

definition hollow_violation :: "Violation \<Rightarrow> Violation" where
  "hollow_violation v =
     (violation_lit StepTestSubstantiveness (NormalizePath [] (v_File v)) (stripFuncToken (v_Message v)) (v_Severity v))
       \<lparr>v_Line := v_Line v\<rparr>"

definition HollowFindingsToViolations :: "Violation list \<Rightarrow> Violation list" where
  "HollowFindingsToViolations hollow = map hollow_violation hollow"

subsection \<open>The step\<close>

definition testFileColocatedWithTarget :: "string \<Rightarrow> string \<Rightarrow> bool" where
  "testFileColocatedWithTarget filePath targetPkg \<longleftrightarrow> targetPkg \<noteq> [] \<and> Base (Dir filePath) = targetPkg"

text \<open>What the resolution of the pack and its dispatch produce: an error, no pack, or a dispatch with
  its error or its findings, and whether the native sandbox was applied.\<close>

datatype subst_pack =
    PackError string
  | NoPack
  | Dispatched "string + Violation list" bool

definition subst_in_scope :: "GateScope option \<Rightarrow> MandatedTest \<Rightarrow> bool" where
  "subst_in_scope scope mt =
     (case scope of
        None \<Rightarrow> True
      | Some sc \<Rightarrow> \<not> (gs_Mode sc \<noteq> GateScopeModeAll \<and> \<not> ContainsPath scope (mt_FilePath mt)))"

definition hollow_in_scope :: "GateScope option \<Rightarrow> Violation \<Rightarrow> bool" where
  "hollow_in_scope scope v =
     (case scope of
        None \<Rightarrow> True
      | Some sc \<Rightarrow> \<not> (gs_Mode sc \<noteq> GateScopeModeAll \<and> v_File v \<noteq> [] \<and> \<not> ContainsPath scope (v_File v)))"

definition join_eligible :: "GateScope option \<Rightarrow> MandatedTest list \<Rightarrow> MandatedTest list" where
  "join_eligible scope mandated =
     filter (\<lambda>mt. mt_FilePath mt \<noteq> [] \<and> subst_in_scope scope mt
               \<and> JoinEligibleForNoTarget mt (testFileColocatedWithTarget (mt_FilePath mt) (mt_TargetPkg mt))) mandated"

definition no_target_violations :: "Violation list \<Rightarrow> MandatedTest list \<Rightarrow> Violation list" where
  "no_target_violations extraction eligible =
     List.map_filter (\<lambda>mt.
        map_option (\<lambda>v. v\<lparr>v_File := mt_FilePath mt\<rparr>)
          (NoTargetViolationForTest mt (ReferencedSetForTest extraction mt)
             (testFileColocatedWithTarget (mt_FilePath mt) (mt_TargetPkg mt)))) eligible"

definition config_fail :: "string \<Rightarrow> string \<Rightarrow> StepResult" where
  "config_fail step message =
     (step_lit step ''fail'' [violation_lit step [] message ''error''])\<lparr>s_ConfigErr := True\<rparr>"

definition buildTestSubstantivenessStep :: "test_inputs \<Rightarrow> subst_pack \<Rightarrow> StepResult" where
  "buildTestSubstantivenessStep t pack =
     (case ExtractMandatedTests (ti_corpus t) (ti_specDir t) of
        None \<Rightarrow> step_lit StepTestSubstantiveness ''fail''
          [violation_lit StepTestSubstantiveness []
             (''failed to extract mandated tests: '' @ spec_dir_error (ti_corpus t) (ti_specDir t)) ''error'']
      | Some extracted \<Rightarrow>
      (let mandated = ResolveMandatedTestPaths (ti_glob t) (filterDueMandatedTests extracted) (ti_code t)
                        (ti_classifier t) (ti_matcher t) in
       case pack of
         PackError err \<Rightarrow> config_fail StepTestSubstantiveness (''resolving substantiveness pack: '' @ err)
       | NoPack \<Rightarrow> step_lit StepTestSubstantiveness ''pass'' []
       | Dispatched (Inl err) applied \<Rightarrow>
           (config_fail StepTestSubstantiveness (''dispatching substantiveness pack: '' @ err))
             \<lparr>s_NativeSandboxApplied := applied\<rparr>
       | Dispatched (Inr flat) applied \<Rightarrow>
           (case RouteSubstantivenessFindings flat of (hollow, extraction) \<Rightarrow>
             let hollow_vs = filter (hollow_in_scope (ti_scope t)) (HollowFindingsToViolations hollow);
                 eligible = join_eligible (ti_scope t) mandated
             in case SubstantivenessEvidenceRefusal (length eligible) (length extraction) (length hollow) of
                  Some v \<Rightarrow> (step_lit StepTestSubstantiveness ''fail'' [v])\<lparr>s_ConfigErr := True\<rparr>
                | None \<Rightarrow>
                    (let vs = hollow_vs @ no_target_violations extraction eligible
                     in (step_lit StepTestSubstantiveness (StepVerdict vs) vs)
                          \<lparr>s_NativeSandboxApplied := applied\<rparr>))))"

subsection \<open>The join\<close>

text \<open>A test calls its target: the target is empty, co-located, excused, or in its referenced set.\<close>

lemma NoTargetViolationForTest_None:
  "NoTargetViolationForTest mt referenced same = None \<longleftrightarrow>
     mt_IsAbsence mt \<or> mt_TargetPkg mt = [] \<or> same \<or> mt_TargetPkg mt \<in> set referenced"
  by (simp add: NoTargetViolationForTest_def NoTargetViolation_def)

lemma JoinEligible_iff:
  "JoinEligibleForNoTarget mt same \<longleftrightarrow> \<not> mt_IsAbsence mt \<and> mt_TargetPkg mt \<noteq> [] \<and> \<not> same"
  by (simp add: JoinEligibleForNoTarget_def NoTargetViolationForTest_None)

text \<open>The basename fallback of \<open>sameFile\<close> joins any two files of one name: a finding of one file counts
  as evidence for a test of another.\<close>

lemma sameFile_basename: "sameFile ''cmd/a/x_test.go'' ''pkg/b/x_test.go''"
  by code_simp

subsection \<open>What the step reports\<close>

lemma route_mem:
  "v \<in> set (fst (RouteSubstantivenessFindings flat)) \<longleftrightarrow> v \<in> set flat \<and> property v substantivenessRoleProperty = substantivenessRoleHollow"
  "v \<in> set (snd (RouteSubstantivenessFindings flat)) \<longleftrightarrow> v \<in> set flat \<and> property v substantivenessRoleProperty = substantivenessRoleReferenced"
  by (auto simp: RouteSubstantivenessFindings_def)

lemma no_target_eq_Nil:
  "no_target_violations extraction eligible = [] \<longleftrightarrow>
     (\<forall>mt\<in>set eligible. NoTargetViolationForTest mt (ReferencedSetForTest extraction mt)
             (testFileColocatedWithTarget (mt_FilePath mt) (mt_TargetPkg mt)) = None)"
  by (induction eligible) (auto simp: no_target_violations_def List.map_filter_simps split: option.splits)

lemma join_eligible_mem:
  "mt \<in> set (join_eligible scope mandated) \<longleftrightarrow>
     mt \<in> set mandated \<and> mt_FilePath mt \<noteq> [] \<and> subst_in_scope scope mt \<and> \<not> mt_IsAbsence mt \<and> mt_TargetPkg mt \<noteq> []
     \<and> Base (Dir (mt_FilePath mt)) \<noteq> mt_TargetPkg mt"
  by (auto simp: join_eligible_def JoinEligible_iff testFileColocatedWithTarget_def)



end
