(* ===== verification/Gate_Result.thy ===== *)
theory Gate_Result
  imports Gate_Policy
begin

text \<open>
  Aggregation and rendering of a gate run (\<open>src/pkg/gate/result.go\<close>, \<open>output.go\<close>): the counts, the
  overall verdict and the human report.  The theorems tie the counts to the verdict and show
  that the report hides no finding.
\<close>

record GateResult =
  gr_SchemaVersion :: string
  gr_GitSHA :: string
  gr_GeneratedAt :: string
  gr_BinaryVersion :: string
  gr_SchemaCohort :: string
  gr_SchemaIdentities :: "string list"
  gr_ArtifactRoot :: string
  gr_ArtifactRootConfigured :: bool
  gr_PackSandboxMode :: string
  gr_NativeSandboxApplied :: bool
  gr_Scope :: "GateScope option"
  gr_Pass :: bool
  gr_TotalViolations :: nat
  gr_TotalWarnings :: nat
  gr_StepsPassed :: nat
  gr_StepsFailed :: nat
  gr_StepsSkipped :: nat
  gr_StepsWarned :: nat
  gr_Steps :: "StepResult list"
  gr_ActiveWaivers :: "Waiver list"

definition result_lit :: "GateScope option \<Rightarrow> bool \<Rightarrow> GateResult" where
  "result_lit scope pass =
     \<lparr>gr_SchemaVersion = ''gate/v1'', gr_GitSHA = [], gr_GeneratedAt = [], gr_BinaryVersion = [],
      gr_SchemaCohort = [], gr_SchemaIdentities = [], gr_ArtifactRoot = [],
      gr_ArtifactRootConfigured = False, gr_PackSandboxMode = [], gr_NativeSandboxApplied = False,
      gr_Scope = scope, gr_Pass = pass, gr_TotalViolations = 0, gr_TotalWarnings = 0,
      gr_StepsPassed = 0, gr_StepsFailed = 0, gr_StepsSkipped = 0, gr_StepsWarned = 0,
      gr_Steps = [], gr_ActiveWaivers = []\<rparr>"

definition tallyBySeverity :: "Violation list \<Rightarrow> nat \<times> nat" where
  "tallyBySeverity violations =
     fold (\<lambda>v (blocking, warnings). if blocksVerdict v then (Suc blocking, warnings) else (blocking, Suc warnings))
          violations (0, 0)"

definition enrich_step :: "StepResult \<Rightarrow> StepResult" where
  "enrich_step s =
     s\<lparr>s_Violations := map EnrichViolationIdentity (s_Violations s),
       s_NewViolations := map EnrichViolationIdentity (s_NewViolations s),
       s_FixedViolations := map EnrichViolationIdentity (s_FixedViolations s),
       s_SeededViolations := map EnrichViolationIdentity (s_SeededViolations s)\<rparr>"

text \<open>The body of the aggregation loop.\<close>

definition add_step :: "StepResult \<Rightarrow> GateResult \<Rightarrow> GateResult" where
  "add_step s0 r0 =
     (let r = r0\<lparr>gr_NativeSandboxApplied := gr_NativeSandboxApplied r0 \<or> s_NativeSandboxApplied s0\<rparr>;
          s = enrich_step s0;
          r1 = (if s_Status s = ''pass'' then r\<lparr>gr_StepsPassed := Suc (gr_StepsPassed r)\<rparr>
                else if s_Status s = ''fail'' then r\<lparr>gr_StepsFailed := Suc (gr_StepsFailed r), gr_Pass := False\<rparr>
                else if s_Status s = ''skipped'' then r\<lparr>gr_StepsSkipped := Suc (gr_StepsSkipped r)\<rparr>
                else if s_Status s = ''warning'' then r\<lparr>gr_StepsWarned := Suc (gr_StepsWarned r)\<rparr>
                else r)
      in case tallyBySeverity (s_Violations s) of (blocking, warnings) \<Rightarrow>
           r1\<lparr>gr_TotalViolations := gr_TotalViolations r1 + blocking,
              gr_TotalWarnings := gr_TotalWarnings r1 + warnings,
              gr_Steps := gr_Steps r1 @ [s]\<rparr>)"

definition NewGateResultWithScope :: "StepResult list \<Rightarrow> GateScope option \<Rightarrow> GateResult" where
  "NewGateResultWithScope steps scope = fold add_step steps (result_lit scope True)"

definition NewGateResult :: "StepResult list \<Rightarrow> GateResult" where
  "NewGateResult steps = NewGateResultWithScope steps None"

subsection \<open>The human report\<close>

definition nl :: string where "nl = [CHR 0x0A]"
definition colorReset :: string where "colorReset = CHR 0x1B # ''[0m''"
definition colorGreen :: string where "colorGreen = CHR 0x1B # ''[32m''"
definition colorRed :: string where "colorRed = CHR 0x1B # ''[31m''"
definition colorYellow :: string where "colorYellow = CHR 0x1B # ''[33m''"
definition colorBold :: string where "colorBold = CHR 0x1B # ''[1m''"

definition rule_line :: string where
  "rule_line = concat (replicate 60 [CHR 0xE2, CHR 0x94, CHR 0x80]) @ nl"

definition show_bool :: "bool \<Rightarrow> string" where
  "show_bool b = (if b then ''true'' else ''false'')"

definition formatStatus :: "string \<Rightarrow> bool \<Rightarrow> string" where
  "formatStatus status noColor =
     (if noColor then status
      else if status = ''pass'' then colorGreen @ status @ colorReset
      else if status = ''fail'' then colorRed @ status @ colorReset
      else if status = ''skipped'' then colorYellow @ status @ colorReset
      else if status = ''warning'' then
        colorBold @ colorYellow @ [CHR 0xE2, CHR 0x9A, CHR 0xA0] @ '' '' @ status @ colorReset
      else status)"

definition provenance_block :: "GateResult \<Rightarrow> string" where
  "provenance_block r =
     (if gr_BinaryVersion r \<noteq> [] \<or> gr_SchemaCohort r \<noteq> [] \<or> gr_ArtifactRoot r \<noteq> [] then
        (if gr_BinaryVersion r \<noteq> [] then ''backstop version '' @ gr_BinaryVersion r @ nl else [])
        @ (if gr_SchemaCohort r \<noteq> [] then ''schema cohort: '' @ gr_SchemaCohort r @ nl else [])
        @ (if gr_ArtifactRoot r \<noteq> []
           then ''artifact root: '' @ gr_ArtifactRoot r @ '' (configured: '' @ show_bool (gr_ArtifactRootConfigured r) @ '')'' @ nl
           else [])
        @ rule_line
      else [])
     @ (if gr_PackSandboxMode r \<noteq> []
        then ''pack sandbox: '' @ gr_PackSandboxMode r @ '' (native applied: '' @ show_bool (gr_NativeSandboxApplied r) @ '')'' @ nl @ rule_line
        else [])"

definition scope_block :: "GateScope option \<Rightarrow> string" where
  "scope_block scope =
     (case scope of
        None \<Rightarrow> []
      | Some sc \<Rightarrow>
          if gs_Mode sc = GateScopeModeAll then []
          else (let n = Itoa (int (length (gs_Files sc))) in
            (if gs_Mode sc = GateScopeModeFile then ''Gate running against '' @ n @ '' explicit files.'' @ nl
             else if gs_Files sc = [] then ''Gate found no changed files; scoped checks have no files to inspect.'' @ nl
             else ''Gate running against '' @ n @ '' changed files (use --all for full sweep).'' @ nl)
            @ (if gs_RequestedBase sc \<noteq> [] then
                 ''Scope mode: '' @ gs_Mode sc @ '' | requested base: '' @ gs_RequestedBase sc
                 @ '' | resolved merge-base: '' @ gs_MergeBase sc @ '' | in-scope files: '' @ n @ nl
               else [])
            @ rule_line))"

definition step_reason :: "StepResult \<Rightarrow> string" where
  "step_reason s =
     (if s_StepName s = StepBaselineComparison \<and> s_Reason s = [] then
        (if s_NewViolations s = [] then
           (if s_Status s = ''fail'' \<and> s_Violations s \<noteq> []
            then Itoa (int (length (s_Violations s))) @ '' new violations beyond baseline''
            else ''0 new violations beyond baseline'')
         else Itoa (int (length (s_NewViolations s))) @ '' new violations beyond baseline'')
      else s_Reason s)"

definition summary_line :: "bool \<Rightarrow> StepResult \<Rightarrow> string" where
  "summary_line noColor s =
     (case tallyBySeverity (s_Violations s) of (blocking, warnings) \<Rightarrow>
        ''  '' @ pad_right 25 (s_StepName s) @ '' '' @ formatStatus (s_Status s) noColor
        @ (if s_DurationMS s > 0 then ''  ('' @ Itoa (s_DurationMS s) @ ''ms)'' else [])
        @ (if blocking > 0 \<and> warnings > 0
           then ''  ('' @ Itoa (int blocking) @ '' blocking, '' @ Itoa (int warnings) @ '' warnings)''
           else if blocking > 0 then ''  ('' @ Itoa (int blocking) @ '' violations)''
           else if warnings > 0 then ''  ('' @ Itoa (int warnings) @ '' warnings)'' else [])
        @ (if step_reason s \<noteq> [] then ''  ('' @ step_reason s @ '')'' else [])
        @ nl)"

definition violation_line :: "Violation \<Rightarrow> string" where
  "violation_line v =
     (let rule = (if v_SourcePack v \<noteq> [] \<and> \<not> HasPrefix (v_Rule v) (v_SourcePack v @ ''/'')
                  then v_SourcePack v @ ''/'' @ v_Rule v else v_Rule v);
          marker = (if blocksVerdict v then [] else ''[warning] '')
      in ''    - '' @ marker @ ''['' @ rule @ ''] '' @ v_Message v
         @ (if v_File v \<noteq> [] then '' ('' @ v_File v @ '')'' else [])
         @ (if v_WaiverHint v \<noteq> []
            then nl @ ''      '' @ [CHR 0xE2, CHR 0x86, CHR 0xB3] @ '' to waive: '' @ v_WaiverHint v else [])
         @ nl)"

definition detail_block :: "StepResult \<Rightarrow> string" where
  "detail_block s =
     (if s_Violations s = [] then []
      else nl @ ''  '' @ s_StepName s @ '' violations:'' @ nl @ concat (map violation_line (s_Violations s)))"

definition footer :: "GateResult \<Rightarrow> string" where
  "footer r =
     ''  Steps: '' @ Itoa (int (gr_StepsPassed r)) @ '' passed, '' @ Itoa (int (gr_StepsFailed r)) @ '' failed, ''
     @ Itoa (int (gr_StepsSkipped r)) @ '' skipped, '' @ Itoa (int (gr_StepsWarned r)) @ '' warned'' @ nl
     @ (if gr_TotalWarnings r > 0
        then ''  Total violations: '' @ Itoa (int (gr_TotalViolations r)) @ '' (+'' @ Itoa (int (gr_TotalWarnings r)) @ '' warnings)'' @ nl
        else ''  Total violations: '' @ Itoa (int (gr_TotalViolations r)) @ nl)"

definition verdict_text :: "bool \<Rightarrow> bool \<Rightarrow> string" where
  "verdict_text pass noColor =
     (if pass then (if noColor then ''PASS'' @ nl else colorGreen @ ''PASS'' @ colorReset @ nl)
      else (if noColor then ''FAIL'' @ nl else colorRed @ ''FAIL'' @ colorReset @ nl))"

definition FormatHuman :: "GateResult \<Rightarrow> bool \<Rightarrow> string" where
  "FormatHuman r noColor =
     (if noColor then ''Gate Results'' @ nl else colorBold @ colorReset @ ''Gate Results'' @ colorReset @ nl)
     @ rule_line @ provenance_block r @ scope_block (gr_Scope r)
     @ concat (map (summary_line noColor) (gr_Steps r))
     @ concat (map detail_block (gr_Steps r))
     @ rule_line @ footer r @ nl @ verdict_text (gr_Pass r) noColor"

subsection \<open>Counting\<close>

lemma tally_fold:
  "fold (\<lambda>v (b, w). if blocksVerdict v then (Suc b, w) else (b, Suc w)) vs (b0, w0) =
     (b0 + length (filter blocksVerdict vs), w0 + length (filter (\<lambda>v. \<not> blocksVerdict v) vs))"
  by (induction vs arbitrary: b0 w0) auto

lemma tally_eq:
  "tallyBySeverity vs = (length (filter blocksVerdict vs), length (filter (\<lambda>v. \<not> blocksVerdict v) vs))"
  by (simp add: tallyBySeverity_def tally_fold)

lemma blocksVerdict_Enrich [simp]: "blocksVerdict (EnrichViolationIdentity v) = blocksVerdict v"
  by (simp add: blocksVerdict_def)

lemma filter_blocks_Enrich:
  "length (filter blocksVerdict (map EnrichViolationIdentity vs)) = length (filter blocksVerdict vs)"
  "length (filter (\<lambda>v. \<not> blocksVerdict v) (map EnrichViolationIdentity vs)) = length (filter (\<lambda>v. \<not> blocksVerdict v) vs)"
  by (simp_all add: filter_map comp_def)

lemma add_step_simps:
  "gr_Pass (add_step s r) \<longleftrightarrow> gr_Pass r \<and> s_Status s \<noteq> ''fail''"
  "gr_TotalViolations (add_step s r) = gr_TotalViolations r + length (filter blocksVerdict (s_Violations s))"
  "gr_TotalWarnings (add_step s r) = gr_TotalWarnings r + length (filter (\<lambda>v. \<not> blocksVerdict v) (s_Violations s))"
  "gr_Steps (add_step s r) = gr_Steps r @ [enrich_step s]"
  "gr_StepsPassed (add_step s r) = gr_StepsPassed r + (if s_Status s = ''pass'' then 1 else 0)"
  "gr_StepsFailed (add_step s r) = gr_StepsFailed r + (if s_Status s = ''fail'' then 1 else 0)"
  "gr_StepsSkipped (add_step s r) = gr_StepsSkipped r + (if s_Status s = ''skipped'' then 1 else 0)"
  "gr_StepsWarned (add_step s r) = gr_StepsWarned r + (if s_Status s = ''warning'' then 1 else 0)"
  "gr_Scope (add_step s r) = gr_Scope r"
  by (auto simp: add_step_def Let_def tally_eq enrich_step_def filter_map comp_def)

lemma fold_add_step:
  "(gr_Pass (fold add_step steps r) \<longleftrightarrow> gr_Pass r \<and> (\<forall>s\<in>set steps. s_Status s \<noteq> ''fail''))
   \<and> gr_TotalViolations (fold add_step steps r) =
       gr_TotalViolations r + length (filter blocksVerdict (concat (map s_Violations steps)))
   \<and> gr_TotalWarnings (fold add_step steps r) =
       gr_TotalWarnings r + length (filter (\<lambda>v. \<not> blocksVerdict v) (concat (map s_Violations steps)))
   \<and> gr_Steps (fold add_step steps r) = gr_Steps r @ map enrich_step steps
   \<and> gr_StepsPassed (fold add_step steps r) = gr_StepsPassed r + length (filter (\<lambda>s. s_Status s = ''pass'') steps)
   \<and> gr_StepsFailed (fold add_step steps r) = gr_StepsFailed r + length (filter (\<lambda>s. s_Status s = ''fail'') steps)
   \<and> gr_StepsSkipped (fold add_step steps r) = gr_StepsSkipped r + length (filter (\<lambda>s. s_Status s = ''skipped'') steps)
   \<and> gr_StepsWarned (fold add_step steps r) = gr_StepsWarned r + length (filter (\<lambda>s. s_Status s = ''warning'') steps)
   \<and> gr_Scope (fold add_step steps r) = gr_Scope r"
proof (induction steps arbitrary: r)
  case (Cons s steps)
  then show ?case by (simp add: add_step_simps conj_assoc)
qed simp

lemma NewGateResult_simps:
  "gr_Pass (NewGateResultWithScope steps scope) \<longleftrightarrow> (\<forall>s\<in>set steps. s_Status s \<noteq> ''fail'')"
  "gr_TotalViolations (NewGateResultWithScope steps scope) = length (filter blocksVerdict (concat (map s_Violations steps)))"
  "gr_TotalWarnings (NewGateResultWithScope steps scope) =
     length (filter (\<lambda>v. \<not> blocksVerdict v) (concat (map s_Violations steps)))"
  "gr_Steps (NewGateResultWithScope steps scope) = map enrich_step steps"
  "gr_StepsPassed (NewGateResultWithScope steps scope) = length (filter (\<lambda>s. s_Status s = ''pass'') steps)"
  "gr_StepsFailed (NewGateResultWithScope steps scope) = length (filter (\<lambda>s. s_Status s = ''fail'') steps)"
  "gr_StepsSkipped (NewGateResultWithScope steps scope) = length (filter (\<lambda>s. s_Status s = ''skipped'') steps)"
  "gr_StepsWarned (NewGateResultWithScope steps scope) = length (filter (\<lambda>s. s_Status s = ''warning'') steps)"
  "gr_Scope (NewGateResultWithScope steps scope) = scope"
  using fold_add_step [of steps "result_lit scope True"]
  by (auto simp: NewGateResultWithScope_def result_lit_def)

text \<open>The summary is a partition: blocking and warning totals together are every finding of every
  step, the passed, failed, skipped and warned steps together are all steps when each carries
  one of the four statuses, the result passes exactly when no step failed, and the steps are
  reported in order with their verdict unchanged.\<close>

theorem gate_result_partition:
  assumes "\<forall>s\<in>set steps. s_Status s \<in> {''pass'', ''fail'', ''skipped'', ''warning''}"
  shows "let r = NewGateResultWithScope steps scope in
     gr_TotalViolations r + gr_TotalWarnings r = length (concat (map s_Violations steps))
     \<and> gr_StepsPassed r + gr_StepsFailed r + gr_StepsSkipped r + gr_StepsWarned r = length steps
     \<and> (gr_Pass r \<longleftrightarrow> gr_StepsFailed r = 0)
     \<and> map s_Status (gr_Steps r) = map s_Status steps
     \<and> map (map v_Message \<circ> s_Violations) (gr_Steps r) = map (map v_Message \<circ> s_Violations) steps"
proof -
  have 1: "length (filter P xs) + length (filter (\<lambda>x. \<not> P x) xs) = length xs" for P :: "Violation \<Rightarrow> bool" and xs
    by (rule sum_length_filter_compl)
  have 2: "length (filter (\<lambda>s. s_Status s = ''pass'') ss) + length (filter (\<lambda>s. s_Status s = ''fail'') ss)
      + length (filter (\<lambda>s. s_Status s = ''skipped'') ss) + length (filter (\<lambda>s. s_Status s = ''warning'') ss) = length ss"
    if "\<forall>s\<in>set ss. s_Status s \<in> {''pass'', ''fail'', ''skipped'', ''warning''}" for ss :: "StepResult list"
    using that by (induction ss) auto
  show ?thesis
    unfolding Let_def NewGateResult_simps
    using 1 [of blocksVerdict] 2 [OF assms] by (simp add: filter_empty_conv enrich_step_def)
qed

theorem gate_result_partition_witness:
  "gr_TotalViolations (NewGateResultWithScope [step_lit ''code_check'' ''fail'' [violation_lit ''r'' ''f'' ''m'' ''error'', violation_lit ''r'' ''f'' ''m'' ''warning'']] None)
   + gr_TotalWarnings (NewGateResultWithScope [step_lit ''code_check'' ''fail'' [violation_lit ''r'' ''f'' ''m'' ''error'', violation_lit ''r'' ''f'' ''m'' ''warning'']] None) = 2"
  using gate_result_partition [of "[step_lit ''code_check'' ''fail'' [violation_lit ''r'' ''f'' ''m'' ''error'', violation_lit ''r'' ''f'' ''m'' ''warning'']]" None]
  by (simp add: Let_def)

text \<open>The total and the verdict never disagree: when each step that was not skipped carries the
  severity verdict of its own findings and skipped steps carry none, the run passes exactly
  when the total of blocking violations is zero.\<close>

theorem pass_iff_no_blocking:
  assumes "\<forall>s\<in>set steps. s_Status s = StepVerdict (s_Violations s) \<or> s_Status s = ''skipped'' \<and> s_Violations s = []"
  shows "gr_Pass (NewGateResultWithScope steps scope) \<longleftrightarrow> gr_TotalViolations (NewGateResultWithScope steps scope) = 0"
proof -
  have "s_Status s \<noteq> ''fail'' \<longleftrightarrow> (\<forall>v\<in>set (s_Violations s). \<not> blocksVerdict v)" if "s \<in> set steps" for s
    using bspec [OF assms that] step.fail_iff [of "s_Violations s"] by (elim disjE) simp_all
  then show ?thesis by (simp add: NewGateResult_simps filter_empty_conv)
qed

theorem pass_iff_no_blocking_witness:
  "gr_Pass (NewGateResultWithScope [step_lit ''code_check'' ''pass'' []] None) \<longleftrightarrow>
   gr_TotalViolations (NewGateResultWithScope [step_lit ''code_check'' ''pass'' []] None) = 0"
  by (rule pass_iff_no_blocking) (simp add: StepVerdict_def)

subsection \<open>The report hides nothing\<close>

lemma sublist_concat: "x \<in> set xs \<Longrightarrow> sublist x (concat xs)"
  by (metis concat.simps(2) concat_append split_list sublist_appendI sublist_def append_assoc)

lemma sublist_mid: "sublist x b \<Longrightarrow> sublist x (a @ b @ c)"
  by (meson sublist_append_leftI sublist_append_rightI sublist_order.order_trans)

lemma violation_line_message: "sublist (v_Message v) (violation_line v)"
proof -
  have "\<exists>a b. violation_line v = a @ v_Message v @ b"
    unfolding violation_line_def Let_def by (metis append_assoc)
  then show ?thesis by (auto simp: sublist_def)
qed

lemma detail_block_line: "v \<in> set (s_Violations s) \<Longrightarrow> sublist (violation_line v) (detail_block s)"
proof -
  assume v: "v \<in> set (s_Violations s)"
  then have "detail_block s = (nl @ ''  '' @ s_StepName s @ '' violations:'' @ nl) @ concat (map violation_line (s_Violations s)) @ []"
    by (auto simp: detail_block_def)
  moreover have "sublist (violation_line v) (concat (map violation_line (s_Violations s)))"
    using v by (intro sublist_concat) simp
  ultimately show ?thesis using sublist_mid by metis
qed

text \<open>The human report shows every finding of every step, with its message, warnings included, and
  ends with the verdict: \<open>PASS\<close> exactly when the result passes.\<close>

theorem FormatHuman_complete:
  assumes "s \<in> set (gr_Steps r)" "v \<in> set (s_Violations s)"
  shows "sublist (violation_line v) (FormatHuman r noColor) \<and> sublist (v_Message v) (FormatHuman r noColor)
    \<and> (suffix (''PASS'' @ nl) (FormatHuman r True) \<longleftrightarrow> gr_Pass r)"
proof -
  have "sublist (violation_line v) (concat (map detail_block (gr_Steps r)))"
    using detail_block_line [OF assms(2)] sublist_concat [of "detail_block s" "map detail_block (gr_Steps r)"] assms(1)
    by (metis image_eqI list.set_map sublist_order.order_trans)
  then have line: "sublist (violation_line v) (FormatHuman r noColor)"
    unfolding FormatHuman_def
    by (meson sublist_mid sublist_append_leftI sublist_append_rightI sublist_order.order_trans)
  have "suffix (''PASS'' @ nl) (FormatHuman r True) \<longleftrightarrow> gr_Pass r"
  proof -
    have "FormatHuman r True = (''Gate Results'' @ nl @ rule_line @ provenance_block r @ scope_block (gr_Scope r)
       @ concat (map (summary_line True) (gr_Steps r)) @ concat (map detail_block (gr_Steps r))
       @ rule_line @ footer r @ nl) @ (if gr_Pass r then ''PASS'' else ''FAIL'') @ nl"
      by (simp add: FormatHuman_def verdict_text_def)
    then show ?thesis by (simp add: nl_def suffix_def)
  qed
  with line violation_line_message show ?thesis by (meson sublist_order.order_trans)
qed

theorem FormatHuman_complete_witness:
  "sublist ''shadowed err'' (FormatHuman ((result_lit None True)\<lparr>gr_Steps :=
      [step_lit ''code_check'' ''warning'' [violation_lit ''r'' ''f'' ''shadowed err'' ''warning'']]\<rparr>) True)"
  using FormatHuman_complete [of "step_lit ''code_check'' ''warning'' [violation_lit ''r'' ''f'' ''shadowed err'' ''warning'']"
      "(result_lit None True)\<lparr>gr_Steps := [step_lit ''code_check'' ''warning'' [violation_lit ''r'' ''f'' ''shadowed err'' ''warning'']]\<rparr>"
      "violation_lit ''r'' ''f'' ''shadowed err'' ''warning''" True]
  by simp

end
