(* ===== verification/Gate_Waiver.thy ===== *)
theory Gate_Waiver
  imports Gate_Result
begin

text \<open>
  The waiver reconciliation pass of the gate (\<open>src/pkg/gate/step_waiver.go\<close>): which dimensions
  are waivable, the subtraction of suppressed findings from the accumulated steps, the
  diagnostics it adds, its report line, and the pre-filled token it offers.  The slice the Go
  code mutates in place is returned updated.
\<close>

definition coverageAnnotationLine :: int where "coverageAnnotationLine = 1"

definition waivableDimension :: "string \<Rightarrow> bool" where
  "waivableDimension name \<longleftrightarrow> name = StepPackEngines \<or> name = StepTestSubstantiveness"

text \<open>The line a finding is keyed on: its own, or the first line of the file for coverage.\<close>

definition key_line :: "string \<Rightarrow> Violation \<Rightarrow> int" where
  "key_line name v = (if waivableDimension name then v_Line v else coverageAnnotationLine)"

definition on_surface :: "string \<Rightarrow> bool" where
  "on_surface name \<longleftrightarrow> waivableDimension name \<or> name = StepCoverageThreshold"

definition finding_of :: "string \<Rightarrow> Violation \<Rightarrow> Finding" where
  "finding_of name v =
     \<lparr>f_RuleID = v_Rule v, f_File = v_File v, f_Line = key_line name v, f_EndLine = 0,
      f_Severity = v_Severity v\<rparr>"

definition surface_findings :: "StepResult list \<Rightarrow> Finding list" where
  "surface_findings accumulated =
     concat (map (\<lambda>s. if on_surface (s_StepName s) then map (finding_of (s_StepName s)) (s_Violations s) else [])
                 accumulated)"

definition findingKey :: "string \<Rightarrow> int \<Rightarrow> string \<Rightarrow> string" where
  "findingKey file line rule = file @ [CHR 0x00] @ Itoa line @ [CHR 0x00] @ rule"

definition waiverDiagToViolation :: "Diagnostic \<Rightarrow> string \<Rightarrow> Violation" where
  "waiverDiagToViolation d severity =
     (violation_lit (d_RuleID d) (d_File d) (d_Message d) severity)\<lparr>v_Line := d_Line d\<rparr>"

definition joinWaiverRules :: "Waiver list \<Rightarrow> string" where
  "joinWaiverRules ws = Join (map w_RuleID ws) '', ''"

definition joinDiagnosticRules :: "Diagnostic list \<Rightarrow> string" where
  "joinDiagnosticRules ds = Join (map d_RuleID ds) '', ''"

definition count_of :: "'a list \<Rightarrow> string" where
  "count_of xs = Itoa (int (length xs))"

definition waiverReason :: "Result \<Rightarrow> string" where
  "waiverReason res =
     (if r_Active res \<noteq> []
      then ''PASS '' @ [CHR 0xC2, CHR 0xB7] @ '' '' @ count_of (r_Active res) @ '' waivers ('' @ joinWaiverRules (r_Active res) @ '')''
      else ''clean '' @ [CHR 0xE2, CHR 0x80, CHR 0x94] @ '' no active waivers'')
     @ (if r_Expiring res \<noteq> []
        then ''; '' @ count_of (r_Expiring res) @ '' expiring soon ('' @ joinWaiverRules (r_Expiring res) @ '')'' else [])
     @ (if r_Unused res \<noteq> []
        then ''; '' @ count_of (r_Unused res) @ '' unused/dangling ('' @ joinWaiverRules (r_Unused res) @ '')'' else [])
     @ (if r_Unbound res \<noteq> []
        then ''; '' @ count_of (r_Unbound res) @ '' unbound ('' @ joinDiagnosticRules (r_Unbound res) @ '')'' else [])
     @ (if r_Malformed res \<noteq> [] then ''; '' @ count_of (r_Malformed res) @ '' malformed'' else [])
     @ (if r_NonWaivable res \<noteq> [] then ''; '' @ count_of (r_NonWaivable res) @ '' non-waivable (gate error)'' else [])"

text \<open>\<open>PrefilledWaiverToken\<close>: the fallback of ninety days is the code's, for a reason without a
  default.\<close>

definition PrefilledWaiverToken ::
  "string \<Rightarrow> Violation \<Rightarrow> WaiverPolicy option \<Rightarrow> GoTime \<Rightarrow> string option" where
  "PrefilledWaiverToken dimension v policy now =
     (if \<not> waivableDimension dimension \<and> dimension \<noteq> StepCoverageThreshold then None
      else if policy_refuses policy (v_Rule v) (v_Severity v) then None
      else let dur = (case DefaultDuration ReasonAcceptedRisk of Some d \<Rightarrow> d | None \<Rightarrow> 90 * 24 * hour_ns)
           in Some (''@waiver:'' @ v_Rule v @ '':'' @ ReasonAcceptedRisk @ '':'' @ format_date (Add now dur)))"

definition with_hint :: "string \<Rightarrow> WaiverPolicy option \<Rightarrow> GoTime \<Rightarrow> Violation \<Rightarrow> Violation" where
  "with_hint name policy now v =
     (case PrefilledWaiverToken name v policy now of None \<Rightarrow> v | Some tok \<Rightarrow> v\<lparr>v_WaiverHint := tok\<rparr>)"

text \<open>The subtraction from one accumulated step.\<close>

definition waive_step :: "string list \<Rightarrow> WaiverPolicy option \<Rightarrow> GoTime \<Rightarrow> StepResult \<Rightarrow> StepResult" where
  "waive_step keys policy now s =
     (if \<not> on_surface (s_StepName s) then s
      else let kept = map (with_hint (s_StepName s) policy now)
                        (filter (\<lambda>v. findingKey (v_File v) (key_line (s_StepName s) v) (v_Rule v) \<notin> set keys)
                                (s_Violations s));
               removed = length kept < length (s_Violations s)
           in s\<lparr>s_Violations := kept,
                s_Status := (if kept = [] \<and> s_Status s = ''fail'' then ''pass''
                             else if removed \<and> s_Status s = ''fail'' \<and> \<not> s_ConfigErr s then StepVerdict kept
                             else s_Status s)\<rparr>)"

definition computeWaiverResult ::
  "Waiver list \<Rightarrow> string list \<Rightarrow> StepResult list \<Rightarrow> LineReader option \<Rightarrow> WaiverPolicy option \<Rightarrow> GoTime
   \<Rightarrow> StepResult list \<times> StepResult \<times> Waiver list" where
  "computeWaiverResult tokens namespaces accumulated read policy now =
     (let res0 = Adjudicate (surface_findings accumulated) read policy now;
          keys = map (\<lambda>f. findingKey (f_File f) (f_Line f) (f_RuleID f)) (r_Suppressed res0);
          res = res0\<lparr>r_Unbound := Unbound tokens namespaces\<rparr>;
          wv = map (\<lambda>d. waiverDiagToViolation d ''error'') (r_Malformed res)
               @ map (\<lambda>d. waiverDiagToViolation d ''error'') (r_NonWaivable res)
               @ map (\<lambda>d. waiverDiagToViolation d ''warning'') (r_Unbound res)
      in (map (waive_step keys policy now) accumulated,
          (step_lit StepWaiverResolution (StepVerdict wv) wv)\<lparr>s_Reason := waiverReason res\<rparr>,
          r_Active res))"

text \<open>The registered placeholder the run loop replaces.\<close>

definition waiver_placeholder :: StepResult where
  "waiver_placeholder = (step_lit StepWaiverResolution ''skipped'' [])\<lparr>s_Reason := ''waivers not enabled''\<rparr>"

definition ActiveWaiverFeed :: "GateResult \<Rightarrow> Waiver list" where
  "ActiveWaiverFeed r = gr_ActiveWaivers r"

subsection \<open>Keys\<close>

lemma Itoa_no_NUL: "CHR 0x00 \<notin> set (Itoa i)"
  using Itoa_chars [of "CHR 0x00" i] by (auto simp: is_digit_def)

lemma findingKey_inj:
  assumes "findingKey f l r = findingKey f' l' r'" "CHR 0x00 \<notin> set r" "CHR 0x00 \<notin> set r'"
  shows "f = f' \<and> l = l' \<and> r = r'"
proof -
  have "(f @ CHR 0x00 # Itoa l) @ CHR 0x00 # r = (f' @ CHR 0x00 # Itoa l') @ CHR 0x00 # r'"
    using assms(1) by (simp add: findingKey_def)
  from split_at_last [OF this assms(2,3)]
  have 1: "f @ CHR 0x00 # Itoa l = f' @ CHR 0x00 # Itoa l'" "r = r'" by simp_all
  from split_at_last [OF 1(1) Itoa_no_NUL Itoa_no_NUL] 1(2) show ?thesis by (simp add: Itoa_inj)
qed

lemma with_hint_keeps [simp]:
  "v_Rule (with_hint n p t v) = v_Rule v" "v_File (with_hint n p t v) = v_File v"
  "v_Message (with_hint n p t v) = v_Message v" "v_Severity (with_hint n p t v) = v_Severity v"
  "v_Line (with_hint n p t v) = v_Line v" "v_SourcePack (with_hint n p t v) = v_SourcePack v"
  "v_RegionHash (with_hint n p t v) = v_RegionHash v"
  "blocksVerdict (with_hint n p t v) = blocksVerdict v"
  "(with_hint n p t v)\<lparr>v_WaiverHint := h\<rparr> = v\<lparr>v_WaiverHint := h\<rparr>"
  by (simp_all add: with_hint_def blocksVerdict_def split: option.split)

lemma surface_findings_iff:
  "f \<in> set (surface_findings acc) \<longleftrightarrow>
     (\<exists>s\<in>set acc. on_surface (s_StepName s) \<and> (\<exists>v\<in>set (s_Violations s). f = finding_of (s_StepName s) v))"
  by (auto simp: surface_findings_def)

definition suppressed_keys :: "Finding list \<Rightarrow> LineReader option \<Rightarrow> WaiverPolicy option \<Rightarrow> GoTime \<Rightarrow> string list" where
  "suppressed_keys fs read policy now =
     map (\<lambda>f. findingKey (f_File f) (f_Line f) (f_RuleID f)) (r_Suppressed (Adjudicate fs read policy now))"

lemma computeWaiverResult_steps:
  "fst (computeWaiverResult tokens ns acc read policy now) =
     map (waive_step (suppressed_keys (surface_findings acc) read policy now) policy now) acc"
  by (simp add: computeWaiverResult_def Let_def suppressed_keys_def)

lemma suppressed_key_iff:
  assumes "finding_of name v \<in> set fs" "\<forall>f\<in>set fs. CHR 0x00 \<notin> set (f_RuleID f)"
  shows "findingKey (v_File v) (key_line name v) (v_Rule v) \<in> set (suppressed_keys fs (Some read) policy now) \<longleftrightarrow>
     (\<exists>g\<in>set (r_Suppressed (Adjudicate fs (Some read) policy now)). same_site g (finding_of name v))"
proof -
  have "CHR 0x00 \<notin> set (v_Rule v)" using assms by (force simp: finding_of_def)
  moreover have "CHR 0x00 \<notin> set (f_RuleID g)" if "g \<in> set (r_Suppressed (Adjudicate fs (Some read) policy now))" for g
    using Adjudicate_sound [OF that] assms(2) by blast
  ultimately show ?thesis
    unfolding suppressed_keys_def set_map
    by (force simp: same_site_def finding_of_def dest!: findingKey_inj)
qed

subsection \<open>The subtraction is exact\<close>

definition clear_hint :: "Violation \<Rightarrow> Violation" where
  "clear_hint v = v\<lparr>v_WaiverHint := []\<rparr>"

lemma clear_with_hint [simp]: "clear_hint (with_hint n p t v) = clear_hint v"
  by (simp add: clear_hint_def)



text \<open>The pass keeps verdicts honest: if before it a step without configuration error fails
  exactly when it holds a blocking finding, then so it does after it, so no step is left
  failing with nothing to show and none is turned green over a blocking finding.\<close>

theorem waiver_pass_keeps_verdict:
  assumes "\<forall>s\<in>set acc. \<not> s_ConfigErr s \<and> (s_Status s = ''fail'' \<longleftrightarrow> (\<exists>v\<in>set (s_Violations s). blocksVerdict v))"
  shows "\<forall>t\<in>set (fst (computeWaiverResult tokens ns acc read policy now)).
           s_Status t = ''fail'' \<longleftrightarrow> (\<exists>v\<in>set (s_Violations t). blocksVerdict v)"
proof -
  have "s_Status (waive_step keys policy now s) = ''fail'' \<longleftrightarrow>
      (\<exists>v\<in>set (s_Violations (waive_step keys policy now s)). blocksVerdict v)" if s: "s \<in> set acc" for s keys
  proof (cases "on_surface (s_StepName s)")
    case False
    then show ?thesis using assms s by (simp add: waive_step_def)
  next
    case True
    let ?P = "\<lambda>v. findingKey (v_File v) (key_line (s_StepName s) v) (v_Rule v) \<notin> set keys"
    let ?kept = "map (with_hint (s_StepName s) policy now) (filter ?P (s_Violations s))"
    have b: "(\<exists>v\<in>set ?kept. blocksVerdict v) \<longleftrightarrow> (\<exists>v\<in>set (filter ?P (s_Violations s)). blocksVerdict v)" by simp
    have all: "(\<forall>v\<in>set (s_Violations s). ?P v)" if "\<not> length ?kept < length (s_Violations s)"
      using that filter_eq_length_iff [of ?P "s_Violations s"] by simp
    show ?thesis
    proof (cases "s_Status s = ''fail''")
      case fail: True
      consider "?kept = []" | "?kept \<noteq> []" "length ?kept < length (s_Violations s)"
        | "?kept \<noteq> []" "\<not> length ?kept < length (s_Violations s)" by blast
      then show ?thesis
      proof cases
        case 1
        then show ?thesis using True fail by (simp add: waive_step_def Let_def)
      next
        case 2
        then show ?thesis using True fail assms s step.fail_iff [of ?kept] by (simp add: waive_step_def Let_def)
      next
        case 3
        from all [OF 3(2)] have "filter ?P (s_Violations s) = s_Violations s" by simp
        with 3 True fail assms s show ?thesis by (simp add: waive_step_def Let_def)
      qed
    next
      case False
      then have "\<not> (\<exists>v\<in>set (s_Violations s). blocksVerdict v)" using assms s by blast
      with False True show ?thesis by (simp add: waive_step_def Let_def)
    qed
  qed
  then show ?thesis by (simp add: computeWaiverResult_steps)
qed

theorem waiver_pass_keeps_verdict_witness:
  "filter (\<lambda>t. (s_Status t = ''fail'') \<noteq> (\<exists>v\<in>set (s_Violations t). blocksVerdict v))
     (fst (computeWaiverResult [] [] [step_lit ''pack_engines'' ''fail''
         [(violation_lit ''acme/sec/r1'' ''a.go'' ''m'' ''error'')\<lparr>v_Line := 3\<rparr>,
          (violation_lit ''acme/sec/r2'' ''a.go'' ''m'' ''error'')\<lparr>v_Line := 9\<rparr>]] (Some demo_reader) None at_epoch)) = []"
proof -
  have "blocksVerdict ((violation_lit ''acme/sec/r1'' ''a.go'' ''m'' ''error'')\<lparr>v_Line := 3\<rparr>)" by code_simp
  then have "\<forall>s\<in>set [step_lit ''pack_engines'' ''fail''
         [(violation_lit ''acme/sec/r1'' ''a.go'' ''m'' ''error'')\<lparr>v_Line := 3\<rparr>,
          (violation_lit ''acme/sec/r2'' ''a.go'' ''m'' ''error'')\<lparr>v_Line := 9\<rparr>]].
       \<not> s_ConfigErr s \<and> (s_Status s = ''fail'' \<longleftrightarrow> (\<exists>v\<in>set (s_Violations s). blocksVerdict v))"
    by (simp add: step_lit_def)
  from waiver_pass_keeps_verdict [OF this] show ?thesis by (simp add: filter_empty_conv)
qed

text \<open>The recomputation of the verdict covers failing steps only: a step that held one
  warning, waived by a valid token, is left with the status \<open>warning\<close> and no finding at all,
  where the step verdict of what remains is \<open>pass\<close>.\<close>

theorem waived_warning_stays_warning:
  "map (\<lambda>t. (s_Status t, length (s_Violations t), StepVerdict (s_Violations t)))
     (fst (computeWaiverResult [] [] [step_lit ''pack_engines'' ''warning''
         [(violation_lit ''acme/sec/r1'' ''a.go'' ''m'' ''warning'')\<lparr>v_Line := 3\<rparr>]] (Some demo_reader) None at_epoch))
   = [(''warning'', 0, ''pass'')]"
  by code_simp

text \<open>A broken or forbidden token is itself a gate failure, an unbound one only a warning: the
  pass reports \<open>fail\<close> exactly when some harvested token was malformed or named a
  non-waivable rule, \<open>warning\<close> when there are only unbound tokens, and \<open>pass\<close> otherwise.\<close>

theorem waiver_step_status:
  "s_Status (fst (snd (computeWaiverResult tokens ns acc read policy now))) =
     (let res = Adjudicate (surface_findings acc) read policy now in
      if r_Malformed res \<noteq> [] \<or> r_NonWaivable res \<noteq> [] then ''fail''
      else if Unbound tokens ns \<noteq> [] then ''warning'' else ''pass'')"
proof -
  have b: "blocksVerdict (waiverDiagToViolation d ''error'')" "\<not> blocksVerdict (waiverDiagToViolation d ''warning'')" for d
  proof -
    have "EqualFold (TrimSpace ''error'') ''warning'' = False" "EqualFold (TrimSpace ''warning'') ''warning'' = True"
      by code_simp+
    then show "blocksVerdict (waiverDiagToViolation d ''error'')" "\<not> blocksVerdict (waiverDiagToViolation d ''warning'')"
      by (simp_all add: blocksVerdict_def waiverDiagToViolation_def)
  qed
  let ?res = "Adjudicate (surface_findings acc) read policy now"
  have ex: "(\<exists>v\<in>set (map (\<lambda>d. waiverDiagToViolation d ''error'') xs). blocksVerdict v) \<longleftrightarrow> xs \<noteq> []" for xs
    using b(1) by (cases xs) auto
  have no: "\<not> (\<exists>v\<in>set (map (\<lambda>d. waiverDiagToViolation d ''warning'') xs). blocksVerdict v)" for xs
    using b(2) by auto
  have "s_Status (fst (snd (computeWaiverResult tokens ns acc read policy now))) =
    StepVerdict (map (\<lambda>d. waiverDiagToViolation d ''error'') (r_Malformed ?res)
      @ map (\<lambda>d. waiverDiagToViolation d ''error'') (r_NonWaivable ?res)
      @ map (\<lambda>d. waiverDiagToViolation d ''warning'') (Unbound tokens ns))"
    by (simp add: computeWaiverResult_def Let_def)
  then show ?thesis
    unfolding StepVerdict_cases set_append bex_Un ex no Let_def using b(2) by auto
qed

subsection \<open>The pre-filled token\<close>

lemma expiry_bounds:
  assumes "0 \<le> instant t" "\<bar>zone t (instant t + 90 * day_ns)\<bar> \<le> 86400"
  shows "instant t + 88 * day_ns < int (local_day (Add t (90 * day_ns))) * day_ns"
    and "int (local_day (Add t (90 * day_ns))) * day_ns \<le> instant t + 91 * day_ns"
proof -
  let ?x = "instant t + 90 * day_ns + zone t (instant t + 90 * day_ns) * second_ns"
  have d: "day_ns = 86400 * second_ns" "0 < second_ns" by (simp_all add: day_ns_def hour_ns_def second_ns_def)
  have z: "\<bar>zone t (instant t + 90 * day_ns) * second_ns\<bar> \<le> day_ns"
    using mult_right_mono [OF assms(2), of second_ns] d by (simp add: abs_mult)
  have "0 \<le> ?x" using assms(1) z d by linarith
  then have ld: "int (local_day (Add t (90 * day_ns))) = ?x div day_ns"
    using d by (simp add: local_day_def Add_def pos_imp_zdiv_nonneg_iff)
  have "?x = ?x div day_ns * day_ns + ?x mod day_ns" by simp
  moreover have "0 \<le> ?x mod day_ns" "?x mod day_ns < day_ns" using d by simp_all
  ultimately have "?x - day_ns < int (local_day (Add t (90 * day_ns))) * day_ns"
    "int (local_day (Add t (90 * day_ns))) * day_ns \<le> ?x" unfolding ld by linarith+
  then show "instant t + 88 * day_ns < int (local_day (Add t (90 * day_ns))) * day_ns"
    and "int (local_day (Add t (90 * day_ns))) * day_ns \<le> instant t + 91 * day_ns"
    using z d by linarith+
qed

lemma short_lived: "DefaultDuration ReasonAcceptedRisk = Some (90 * day_ns)"
  by (simp add: DefaultDuration_def reason_defs shortLivedDuration_def day_ns_def)

text \<open>The offered token works.  When a finding stays blocked and the pass offers a pre-filled
  token, pasting that token anywhere on the finding's line (at its end, or followed by a
  blank) shields the finding from the next run on, for at least 88 and at most 91 days,
  provided the rule id can stand in a token, the clock is past year 0 and before year 10000
  and the time zone offset is at most a day.\<close>

theorem prefilled_token_shields:
  assumes "PrefilledWaiverToken dim v policy now = Some tok" "token_rule (v_Rule v)"
    and "0 \<le> instant now" "\<bar>zone now (instant now + 90 * day_ns)\<bar> \<le> 86400"
      "year_of_day (local_day (Add now (90 * day_ns))) < 10000"
    and "read (v_File v) (key_line dim v) = Some (before @ tok @ after)" "after = [] \<or> is_blank (hd after)"
    and "instant now \<le> instant later" "instant later \<le> instant now + 88 * day_ns"
  shows "\<exists>w. shields read later (finding_of dim v) w \<and> w_Reason w = ReasonAcceptedRisk
             \<and> instant (w_Expiry w) \<le> instant now + 91 * day_ns"
proof -
  let ?e = "format_date (Add now (90 * day_ns))" and ?l = "local_day (Add now (90 * day_ns))"
  have tok: "tok = render_token (v_Rule v) ReasonAcceptedRisk ?e"
    using assms(1) by (simp add: PrefilledWaiverToken_def Let_def short_lived render_token_def waiverMarker_def split: if_splits)
  have chars: "\<forall>c\<in>set ?e. c \<noteq> CHR '':'' \<and> \<not> is_blank c"
  proof
    fix c
    assume "c \<in> set ?e"
    then have "is_digit c \<or> c = CHR ''-''" by (rule format_date_chars)
    then show "c \<noteq> CHR '':'' \<and> \<not> is_blank c" by (elim disjE) (auto simp: is_digit_def is_blank_def)
  qed
  have "validReason ReasonAcceptedRisk" by (simp add: validReason_def)
  from ParseToken_render [OF assms(2) this parse_format_date [OF assms(5)] chars assms(7),
      of "\<lparr>l_File = v_File v, l_Line = key_line dim v\<rparr>"]
  obtain w where w: "ParseToken (tok @ after) \<lparr>l_File = v_File v, l_Line = key_line dim v\<rparr> = Inr w"
    "w_RuleID w = v_Rule v" "w_Reason w = ReasonAcceptedRisk"
    "w_Expiry w = \<lparr>instant = int ?l * day_ns, zone = UTC\<rparr>"
    unfolding tok by blast
  have "\<not> Expired w later"
    using expiry_bounds(1) [OF assms(3,4)] assms(9) by (simp add: Expired_def Before_def w(4))
  moreover have "prefix waiverMarker (tok @ after)" unfolding tok render_token_def by simp
  moreover have "key_line dim v \<in> set (windowLines (finding_of dim v))"
    by (simp add: windowLines_def finding_of_def)
  ultimately have "shields read later (finding_of dim v) w"
    unfolding shields_def
    using assms(6) w
    by (intro bexI [of _ "key_line dim v"] exI [of _ "before @ tok @ after"] exI [of _ "length before"])
       (simp_all add: finding_of_def)
  moreover have "instant (w_Expiry w) \<le> instant now + 91 * day_ns"
    using expiry_bounds(2) [OF assms(3,4)] by (simp add: w(4))
  ultimately show ?thesis using w(3) by blast
qed

definition demo_token :: string where
  "demo_token = the (PrefilledWaiverToken ''pack_engines'' (violation_lit ''acme/sec/r1'' ''a.go'' ''m'' ''error'') None at_epoch)"

theorem prefilled_token_shields_witness:
  "\<exists>w. shields (\<lambda>f l. Some (''x // '' @ demo_token)) at_epoch
         (finding_of ''pack_engines'' (violation_lit ''acme/sec/r1'' ''a.go'' ''m'' ''error'')) w
       \<and> w_Reason w = ReasonAcceptedRisk \<and> instant (w_Expiry w) \<le> instant at_epoch + 91 * day_ns"
proof -
  have "year_of_day (local_day (Add at_epoch (90 * day_ns))) < 10000" by code_simp
  moreover have "PrefilledWaiverToken ''pack_engines'' (violation_lit ''acme/sec/r1'' ''a.go'' ''m'' ''error'') None at_epoch = Some demo_token"
    by (simp add: demo_token_def PrefilledWaiverToken_def waivableDimension_def step_name_defs policy_refuses_def Let_def)
  moreover have "token_rule (v_Rule (violation_lit ''acme/sec/r1'' ''a.go'' ''m'' ''error''))" by code_simp
  ultimately show ?thesis
    by (intro prefilled_token_shields [where now = at_epoch and before = "''x // ''" and after = "[]" and policy = None])
       (simp_all add: at_epoch_def day_ns_def hour_ns_def second_ns_def)
qed

end
