(* ===== verification/Gate_Run.thy ===== *)
theory Gate_Run
  imports Gate_Waiver
begin

text \<open>
  The gate itself (\<open>src/pkg/gate/gate.go\<close>) with the delegated and deferred steps
  (\<open>step_delegate.go\<close>, \<open>step_deferred.go\<close>).  A step function may read and change the world
  outside the gate (files, processes), so it maps a world to a result and the next world; the
  measured duration of the step at each position is a parameter of the run.  The theorems
  concern the exit code, halting on a configuration error, and the two swaps of the run loop.
\<close>

type_synonym 'w StepFunc = "'w \<Rightarrow> StepResult \<times> 'w"

record 'w Gate =
  g_steps :: "'w StepFunc list"
  g_configErr :: "string option"
  g_scope :: "GateScope option"
  g_baseline :: "BaselineArtifact option"
  g_baselineEnabled :: bool
  g_baselineWarning :: string
  g_baselinePath :: string
  g_baselineTTL :: int
  g_baselineModified :: "GoTime option"
  g_seedingAllowed :: bool
  g_ruleSetChangeFiles :: "string list"
  g_policy :: "(string, DimensionPolicy) gomap"
  g_waiverEnabled :: bool
  g_waiverRead :: "LineReader option"
  g_waiverPolicy :: "WaiverPolicy option"
  g_waiverNow :: GoTime
  g_projectWaiverTokens :: "Waiver list"
  g_knownPackNamespaces :: "string list"

definition zero_gate :: "'w Gate" where
  "zero_gate = \<lparr>g_steps = [], g_configErr = None, g_scope = None, g_baseline = None,
     g_baselineEnabled = False, g_baselineWarning = [], g_baselinePath = [], g_baselineTTL = 0,
     g_baselineModified = None, g_seedingAllowed = False, g_ruleSetChangeFiles = [], g_policy = [],
     g_waiverEnabled = False, g_waiverRead = None, g_waiverPolicy = None,
     g_waiverNow = \<lparr>instant = 366 * day_ns, zone = UTC\<rparr>,
     g_projectWaiverTokens = [], g_knownPackNamespaces = []\<rparr>"

type_synonym 'w GateOption = "'w Gate \<Rightarrow> 'w Gate"

definition WithSteps :: "'w StepFunc list \<Rightarrow> 'w GateOption" where
  "WithSteps steps g = g\<lparr>g_steps := steps\<rparr>"
definition WithConfigError :: "string option \<Rightarrow> 'w GateOption" where
  "WithConfigError err g = g\<lparr>g_configErr := err\<rparr>"
definition WithScope :: "GateScope option \<Rightarrow> 'w GateOption" where
  "WithScope scope g = g\<lparr>g_scope := scope\<rparr>"
definition WithBaseline :: "BaselineArtifact option \<Rightarrow> 'w GateOption" where
  "WithBaseline artifact g = g\<lparr>g_baselineEnabled := True, g_baseline := artifact\<rparr>"
definition WithBaselineWarning :: "string \<Rightarrow> 'w GateOption" where
  "WithBaselineWarning warning g = g\<lparr>g_baselineEnabled := True, g_baselineWarning := TrimSpace warning\<rparr>"
definition WithBaselineCacheMeta :: "string \<Rightarrow> int \<Rightarrow> GoTime \<Rightarrow> 'w GateOption" where
  "WithBaselineCacheMeta path ttl modified g =
     g\<lparr>g_baselinePath := path, g_baselineTTL := ttl, g_baselineModified := Some modified\<rparr>"
definition WithRuleSetChangeSeedingAllowed :: "bool \<Rightarrow> 'w GateOption" where
  "WithRuleSetChangeSeedingAllowed allowed g = g\<lparr>g_seedingAllowed := allowed\<rparr>"
definition WithPolicy :: "(string, DimensionPolicy) gomap \<Rightarrow> 'w GateOption" where
  "WithPolicy policy g = g\<lparr>g_policy := policy\<rparr>"
definition WithRuleSetChangeFiles :: "string list \<Rightarrow> 'w GateOption" where
  "WithRuleSetChangeFiles files g =
     g\<lparr>g_ruleSetChangeFiles := filter (\<lambda>f. f \<noteq> []) (map TrimSpace files)\<rparr>"
definition WithWaiver :: "LineReader option \<Rightarrow> WaiverPolicy option \<Rightarrow> GoTime \<Rightarrow> 'w GateOption" where
  "WithWaiver read policy now g =
     g\<lparr>g_waiverEnabled := True, g_waiverRead := read, g_waiverPolicy := policy, g_waiverNow := now\<rparr>"
definition WithUnboundWaiverScan :: "Waiver list \<Rightarrow> string list \<Rightarrow> 'w GateOption" where
  "WithUnboundWaiverScan tokens namespaces g =
     g\<lparr>g_projectWaiverTokens := tokens, g_knownPackNamespaces := namespaces\<rparr>"

definition New :: "'w GateOption list \<Rightarrow> 'w Gate" where
  "New opts = fold (\<lambda>opt g. opt g) opts zero_gate"

subsection \<open>The run\<close>

definition baseline_missing_reason :: string where
  "baseline_missing_reason =
     ''baseline unavailable: no cached baseline found at .backstop/baseline.json; run CI baseline publication or backstop baseline pull''"

definition computeBaselineResult :: "'w Gate \<Rightarrow> StepResult list \<Rightarrow> StepResult" where
  "computeBaselineResult g accumulated =
     (case g_baseline g of
        None \<Rightarrow> (step_lit StepBaselineComparison ''skipped'' [])
                  \<lparr>s_Reason := (if g_baselineWarning g \<noteq> [] then g_baselineWarning g else baseline_missing_reason)\<rparr>
      | Some b \<Rightarrow>
          (let suffix_w = (if g_baselineWarning g \<noteq> [] then ''; '' @ g_baselineWarning g else []);
               cmp = CompareBaseline (accumulatedViolations accumulated) (g_baseline g)
                       \<lparr>bo_Scope = g_scope g, bo_AllowRuleSetChangeSeeding = g_seedingAllowed g,
                        bo_ChangedFiles = g_ruleSetChangeFiles g\<rparr>
           in if bc_New cmp = [] then
                (step_lit StepBaselineComparison ''pass'' [])
                  \<lparr>s_FixedViolations := bc_Fixed cmp, s_SeededViolations := bc_Seeded cmp,
                   s_Reason := (if bc_Seeded cmp \<noteq> []
                                then ''0 new violations beyond baseline; '' @ count_of (bc_Seeded cmp)
                                     @ '' violations seeded due to explicit rule-set change''
                                else ''0 new violations beyond baseline'') @ suffix_w\<rparr>
              else
                (step_lit StepBaselineComparison ''fail'' (bc_New cmp))
                  \<lparr>s_NewViolations := bc_New cmp, s_FixedViolations := bc_Fixed cmp,
                   s_SeededViolations := bc_Seeded cmp,
                   s_Reason := count_of (bc_New cmp) @ '' new violations beyond baseline'' @ suffix_w\<rparr>))"

text \<open>One turn of the loop: the step runs, the two swaps apply, the result is appended.\<close>

definition run_step ::
  "'w Gate \<Rightarrow> int \<Rightarrow> StepResult \<Rightarrow> StepResult list \<times> Waiver list \<Rightarrow> StepResult list \<times> Waiver list \<times> bool" where
  "run_step g elapsed result0 st =
     (case st of (results, active) \<Rightarrow>
       (case (if g_waiverEnabled g \<and> s_StepName result0 = StepWaiverResolution
              then computeWaiverResult (g_projectWaiverTokens g) (g_knownPackNamespaces g) results
                     (g_waiverRead g) (g_waiverPolicy g) (g_waiverNow g)
              else (results, result0, active)) of (results1, result1, active1) \<Rightarrow>
        let result2 = (if g_baselineEnabled g \<and> s_StepName result1 = StepBaselineComparison
                       then computeBaselineResult g results1 else result1);
            result3 = result2\<lparr>s_DurationMS := elapsed\<rparr>
        in (results1 @ [result3], active1, s_ConfigErr result3)))"

fun run_loop ::
  "'w Gate \<Rightarrow> (nat \<Rightarrow> int) \<Rightarrow> nat \<Rightarrow> 'w StepFunc list \<Rightarrow> 'w \<Rightarrow> StepResult list \<times> Waiver list
   \<Rightarrow> StepResult list \<times> Waiver list \<times> bool \<times> 'w" where
  "run_loop g elapsed i [] world (results, active) = (results, active, False, world)"
| "run_loop g elapsed i (stepFn # steps) world (results, active) =
     (case stepFn world of (result0, world') \<Rightarrow>
       (case run_step g (elapsed i) result0 (results, active) of (results', active', halt) \<Rightarrow>
          if halt then (results', active', True, world')
          else run_loop g elapsed (Suc i) steps world' (results', active')))"

definition ExitCode :: "GateResult \<Rightarrow> string option \<Rightarrow> int" where
  "ExitCode result configErr =
     (if configErr \<noteq> None then 2 else if \<not> gr_Pass result then 1 else 0)"

definition Run :: "'w Gate \<Rightarrow> (nat \<Rightarrow> int) \<Rightarrow> 'w \<Rightarrow> GateResult \<times> int \<times> 'w" where
  "Run g elapsed world =
     (if g_configErr g \<noteq> None then (result_lit (g_scope g) False, 2, world)
      else (case run_loop g elapsed 0 (g_steps g) world ([], []) of (results, active, halt, world') \<Rightarrow>
        let results' = ApplyPolicy results (g_baseline g) (g_policy g) (g_scope g);
            gateResult = (NewGateResultWithScope results' (g_scope g))\<lparr>gr_ActiveWaivers := active\<rparr>
        in (gateResult, if halt then 2 else ExitCode gateResult None, world')))"

subsection \<open>Delegated and deferred steps\<close>

text \<open>The outcome of a delegate: its error text with whether a \<open>ConfigError\<close> is in the chain, or its
  findings.\<close>

type_synonym delegate_outcome = "(string \<times> bool) + Violation list"

definition delegated_result :: "string \<Rightarrow> string \<Rightarrow> GateScope option \<Rightarrow> delegate_outcome \<Rightarrow> StepResult" where
  "delegated_result name rule scope outcome =
     (case outcome of
        Inl (msg, isConfig) \<Rightarrow> (step_lit name ''fail'' [violation_lit rule [] msg ''error''])\<lparr>s_ConfigErr := isConfig\<rparr>
      | Inr violations \<Rightarrow>
          (let kept = filterViolations scope violations in step_lit name (StepVerdict kept) kept))"

definition StepArtifactValidationScopedFunc ::
  "('w \<Rightarrow> delegate_outcome \<times> 'w) \<Rightarrow> GateScope option \<Rightarrow> 'w StepFunc" where
  "StepArtifactValidationScopedFunc validateAll scope world =
     (case validateAll world of (outcome, world') \<Rightarrow>
        (delegated_result StepArtifactValidation ''artifact_validation'' scope outcome, world'))"

text \<open>The checker is scope-aware when it implements the second interface.\<close>

definition StepCodeCheckScopedFunc ::
  "('w \<Rightarrow> delegate_outcome \<times> 'w) \<Rightarrow> (GateScope option \<Rightarrow> 'w \<Rightarrow> delegate_outcome \<times> 'w) option
   \<Rightarrow> GateScope option \<Rightarrow> 'w StepFunc" where
  "StepCodeCheckScopedFunc checkAll checkScoped scope world =
     (if ScopeEmpty scope then (step_lit StepCodeCheck ''pass'' [], world)
      else (case (case checkScoped of Some f \<Rightarrow> f scope world | None \<Rightarrow> checkAll world) of (outcome, world') \<Rightarrow>
        (delegated_result StepCodeCheck ''code_check'' scope outcome, world')))"

definition StepBaselineComparisonScopedFunc :: "'w StepFunc" where
  "StepBaselineComparisonScopedFunc world =
     ((step_lit StepBaselineComparison ''skipped'' [])\<lparr>s_Reason := ''baseline not implemented''\<rparr>, world)"

definition StepLedgerIntegrityScopedFunc :: "'w StepFunc" where
  "StepLedgerIntegrityScopedFunc world =
     ((step_lit StepLedgerIntegrity ''skipped'' [])\<lparr>s_Reason := ''ledger not implemented''\<rparr>, world)"

definition StepWaiverResolutionScopedFunc :: "'w StepFunc" where
  "StepWaiverResolutionScopedFunc world = (waiver_placeholder, world)"

subsection \<open>Facts about the loop\<close>

lemma run_step_halt:
  "run_step g e r st = (results, active, halt) \<Longrightarrow> results \<noteq> [] \<and> halt = s_ConfigErr (last results)"
  by (auto simp: run_step_def Let_def split: prod.splits if_splits)

lemma run_loop_append:
  "run_loop g elapsed i (xs @ ys) world st =
     (case run_loop g elapsed i xs world st of (results, active, halt, world') \<Rightarrow>
        if halt then (results, active, halt, world')
        else run_loop g elapsed (i + length xs) ys world' (results, active))"
proof (induction xs arbitrary: i world st)
  case Nil
  then show ?case by (cases st) simp
next
  case (Cons x xs)
  show ?case by (cases st) (auto simp: Cons.IH split: prod.splits)
qed

lemma computeBaselineResult_ConfigErr [simp]: "\<not> s_ConfigErr (computeBaselineResult g acc)"
  by (cases "g_baseline g") (simp_all add: computeBaselineResult_def Let_def)

lemma run_step_results:
  assumes "run_step g e r (acc, act) = (results, active, halt)"
  shows "\<exists>acc' r'. results = acc' @ [r'] \<and> (acc' = acc \<or> acc' = fst (computeWaiverResult (g_projectWaiverTokens g)
     (g_knownPackNamespaces g) acc (g_waiverRead g) (g_waiverPolicy g) (g_waiverNow g)))"
proof -
  obtain acc' r' act' where c: "(if g_waiverEnabled g \<and> s_StepName r = StepWaiverResolution
              then computeWaiverResult (g_projectWaiverTokens g) (g_knownPackNamespaces g) acc
                     (g_waiverRead g) (g_waiverPolicy g) (g_waiverNow g)
              else (acc, r, act)) = (acc', r', act')" by (metis prod_cases3)
  have "acc' = acc \<or> acc' = fst (computeWaiverResult (g_projectWaiverTokens g)
     (g_knownPackNamespaces g) acc (g_waiverRead g) (g_waiverPolicy g) (g_waiverNow g))"
    using c by (metis fst_conv)
  moreover have "\<exists>r3. results = acc' @ [r3]"
    using assms unfolding run_step_def prod.case c Let_def by blast
  ultimately show ?thesis by blast
qed

lemma run_step_ConfigErr:
  assumes "run_step g e r (acc, act) = (results, active, halt)"
  shows "map s_ConfigErr (butlast results) = map s_ConfigErr acc \<and> length results = Suc (length acc)"
proof -
  have "map s_ConfigErr (fst (computeWaiverResult ts ns acc read p now)) = map s_ConfigErr acc" for ts ns read p now
    by (auto simp: computeWaiverResult_steps waive_step_def Let_def)
  then show ?thesis
    using run_step_results [OF assms] map_eq_imp_length_eq by fastforce
qed

lemma run_loop_ConfigErr:
  "run_loop g elapsed i steps world (acc, act) = (results, active, halt, world') \<Longrightarrow>
   \<forall>s\<in>set acc. \<not> s_ConfigErr s \<Longrightarrow> halt \<longleftrightarrow> (\<exists>s\<in>set results. s_ConfigErr s)"
proof (induction steps arbitrary: i world acc act)
  case Nil
  then show ?case by auto
next
  case (Cons f steps)
  obtain r w where f: "f world = (r, w)" by (cases "f world")
  obtain acc' act' h where s: "run_step g (elapsed i) r (acc, act) = (acc', act', h)" by (metis prod_cases3)
  have old: "\<forall>s\<in>set (butlast acc'). \<not> s_ConfigErr s"
    using run_step_ConfigErr [OF s] Cons.prems(2) by (metis (no_types, lifting) image_iff list.set_map)
  have split: "acc' = butlast acc' @ [last acc']" "h = s_ConfigErr (last acc')"
    using run_step_halt [OF s] by simp_all
  show ?case
  proof (cases h)
    case True
    then have "results = acc'" "halt" using Cons.prems(1) f s by auto
    with True split show ?thesis using run_step_halt [OF s] last_in_set by metis
  next
    case False
    then have "\<forall>s\<in>set acc'. \<not> s_ConfigErr s" using old split by (metis Un_iff empty_iff empty_set insert_iff list.simps(15) set_append)
    moreover have "run_loop g elapsed (Suc i) steps w (acc', act') = (results, active, halt, world')"
      using Cons.prems(1) f s False by simp
    ultimately show ?thesis using Cons.IH by blast
  qed
qed

lemma ApplyPolicy_ConfigErr:
  "map s_ConfigErr (ApplyPolicy steps b p sc) = map s_ConfigErr steps"
  by (simp add: ApplyPolicy_def)

text \<open>C5: The exit code tells the whole story: 2 exactly when a configuration error was set at
  construction or raised by an executed step, 1 exactly when there is none and some reported
  step failed, 0 exactly when there is none and the result passes.\<close>

theorem Run_exit_code:
  assumes "Run g elapsed world = (result, code, world')"
  shows "code = (if g_configErr g \<noteq> None \<or> (\<exists>s\<in>set (gr_Steps result). s_ConfigErr s) then 2
                 else if \<exists>s\<in>set (gr_Steps result). s_Status s = ''fail'' then 1 else 0)
         \<and> (code = 0 \<longrightarrow> gr_Pass result)"
proof (cases "g_configErr g = None")
  case False
  with assms show ?thesis by (auto simp: Run_def)
next
  case True
  obtain results active halt w where l: "run_loop g elapsed 0 (g_steps g) world ([], []) = (results, active, halt, w)"
    by (metis prod_cases4)
  let ?rs = "ApplyPolicy results (g_baseline g) (g_policy g) (g_scope g)"
  have h: "halt \<longleftrightarrow> (\<exists>s\<in>set results. s_ConfigErr s)" using run_loop_ConfigErr [OF l] by simp
  have ce: "(\<exists>s\<in>set ?rs. s_ConfigErr s) \<longleftrightarrow> (\<exists>s\<in>set results. s_ConfigErr s)"
    using ApplyPolicy_ConfigErr [of results "g_baseline g" "g_policy g" "g_scope g"]
    by (metis (no_types, lifting) image_iff list.set_map)
  have r: "result = (NewGateResultWithScope ?rs (g_scope g))\<lparr>gr_ActiveWaivers := active\<rparr>"
    "code = (if halt then 2 else ExitCode result None)"
    using assms True l by (auto simp: Run_def Let_def)
  have st: "gr_Steps result = map enrich_step ?rs" "gr_Pass result \<longleftrightarrow> (\<forall>s\<in>set ?rs. s_Status s \<noteq> ''fail'')"
    unfolding r(1) by (simp_all add: NewGateResult_simps)
  have e: "s_ConfigErr (enrich_step s) = s_ConfigErr s" "s_Status (enrich_step s) = s_Status s" for s
    by (simp_all add: enrich_step_def)
  have "(\<exists>s\<in>set (gr_Steps result). s_ConfigErr s) \<longleftrightarrow> halt" by (simp add: st(1) e ce h)
  moreover have "gr_Pass result \<longleftrightarrow> \<not> (\<exists>s\<in>set (gr_Steps result). s_Status s = ''fail'')"
    by (simp add: st e)
  ultimately show ?thesis using True r(2) by (simp add: ExitCode_def)
qed

text \<open>A configuration error halts the run: once the step after \<open>xs\<close> has reported one, the
  steps behind it are never executed; the result, the exit code 2 and the world are those of
  a gate that ends with that step.\<close>

theorem Run_halts_on_config_error:
  assumes "g_configErr g = None"
    and "run_loop g elapsed 0 xs world ([], []) = (results, active, False, w)"
    and "run_step g (elapsed (length xs)) (fst (f w)) (results, active) = (results', active', True)"
  shows "Run (g\<lparr>g_steps := xs @ f # ys\<rparr>) elapsed world = Run (g\<lparr>g_steps := xs @ [f]\<rparr>) elapsed world
         \<and> fst (snd (Run (g\<lparr>g_steps := xs @ f # ys\<rparr>) elapsed world)) = 2"
proof -
  have loop: "run_loop (g\<lparr>g_steps := zs\<rparr>) elapsed i steps v st = run_loop g elapsed i steps v st" for zs i steps v st
  proof (induction g elapsed i steps v st rule: run_loop.induct)
    case (2 g elapsed i stepFn steps world results active)
    have cb: "computeBaselineResult (g\<lparr>g_steps := zs\<rparr>) = computeBaselineResult g"
      unfolding computeBaselineResult_def by (cases "g_baseline g") simp_all
    have rs: "run_step (g\<lparr>g_steps := zs\<rparr>) e r s = run_step g e r s" for e r s
      by (simp add: run_step_def cb cong: if_cong)
    show ?case using 2 by (auto simp: rs split: prod.splits)
  qed simp
  have "run_loop g elapsed 0 (xs @ f # zs) world ([], []) = (results', active', True, snd (f w))" for zs
    using assms(2,3) by (cases "f w") (simp add: run_loop_append)
  then show ?thesis using assms(1) by (simp add: Run_def loop)
qed

definition failing_validator :: "unit \<Rightarrow> delegate_outcome \<times> unit" where
  "failing_validator w = (Inl (''no artifact root'', True), w)"

theorem Run_exit_code_witness:
  "fst (snd (Run (New [WithSteps [StepArtifactValidationScopedFunc failing_validator None]]) (\<lambda>_. 1) ())) = 2"
proof -
  let ?g = "New [WithSteps [StepArtifactValidationScopedFunc failing_validator None]]"
  obtain r c w where run: "Run ?g (\<lambda>_. 1) () = (r, c, w)" by (metis prod_cases3)
  have "map s_ConfigErr (gr_Steps (fst (Run ?g (\<lambda>_. 1) ()))) = [True]"
    by (simp add: Run_def New_def WithSteps_def zero_gate_def StepArtifactValidationScopedFunc_def
        failing_validator_def delegated_result_def run_step_def Let_def NewGateResult_simps ApplyPolicy_def enrich_step_def)
  then have "\<exists>s\<in>set (gr_Steps r). s_ConfigErr s" using run by (cases "gr_Steps r") auto
  with Run_exit_code [OF run] run show ?thesis by simp
qed

theorem Run_halts_on_config_error_witness:
  "Run ((New [])\<lparr>g_steps := [] @ StepArtifactValidationScopedFunc failing_validator None # [StepLedgerIntegrityScopedFunc]\<rparr>) (\<lambda>_. 1) () =
     Run ((New [])\<lparr>g_steps := [] @ [StepArtifactValidationScopedFunc failing_validator None]\<rparr>) (\<lambda>_. 1) ()
   \<and> fst (snd (Run ((New [])\<lparr>g_steps := [] @ StepArtifactValidationScopedFunc failing_validator None # [StepLedgerIntegrityScopedFunc]\<rparr>) (\<lambda>_. 1) ())) = 2"
  by (rule Run_halts_on_config_error)
     (simp_all add: New_def zero_gate_def StepArtifactValidationScopedFunc_def failing_validator_def
        delegated_result_def run_step_def Let_def)

subsection \<open>A failing step fails the run\<close>

lemma run_step_keeps:
  assumes "run_step g e r (acc, act) = (results, active, halt)" "t \<in> set acc" "\<not> on_surface (s_StepName t)"
  shows "t \<in> set results"
proof -
  have "t \<in> set (fst (computeWaiverResult ts ns acc read p now))" for ts ns read p now
    using assms(2,3) by (force simp: computeWaiverResult_steps waive_step_def)
  then show ?thesis using run_step_results [OF assms(1)] assms(2) by auto
qed

lemma run_loop_keeps:
  "run_loop g elapsed i steps world (acc, act) = (results, active, halt, world') \<Longrightarrow>
   t \<in> set acc \<Longrightarrow> \<not> on_surface (s_StepName t) \<Longrightarrow> t \<in> set results"
proof (induction steps arbitrary: i world acc act)
  case (Cons f steps)
  obtain r w where f: "f world = (r, w)" by (cases "f world")
  obtain acc' act' h where s: "run_step g (elapsed i) r (acc, act) = (acc', act', h)" by (metis prod_cases3)
  have "t \<in> set acc'" using run_step_keeps [OF s Cons.prems(2,3)] .
  with Cons.prems(1) Cons.IH [of "Suc i" w acc' act'] Cons.prems(3) f s show ?case by (cases h) simp_all
qed simp

lemma failing_step_exit:
  assumes "g_configErr g = None" "g_steps g = xs @ f # ys"
    and "run_loop g elapsed 0 xs world ([], []) = (results, active, False, w)"
    and "s_Status (fst (f w)) = ''fail''" "\<not> on_surface (s_StepName (fst (f w)))"
    and "s_StepName (fst (f w)) \<notin> {StepWaiverResolution, StepBaselineComparison}"
    and "map_of (g_policy g) (s_StepName (fst (f w))) = None"
  shows "fst (snd (Run g elapsed world)) \<noteq> 0"
proof -
  obtain r w2 where f: "f w = (r, w2)" by (cases "f w")
  let ?t = "r\<lparr>s_DurationMS := elapsed (length xs)\<rparr>"
  have rs: "run_step g (elapsed (length xs)) r (results, active) = (results @ [?t], active, s_ConfigErr r)"
    using assms(6) f by (simp add: run_step_def Let_def)
  obtain fin act halt w3 where l: "run_loop g elapsed 0 (g_steps g) world ([], []) = (fin, act, halt, w3)"
    by (metis prod_cases4)
  have "?t \<in> set fin"
  proof (cases "s_ConfigErr r")
    case True
    with l assms(2,3) f rs show ?thesis by (auto simp: run_loop_append)
  next
    case False
    then have "run_loop g elapsed (Suc (length xs)) ys w2 (results @ [?t], active) = (fin, act, halt, w3)"
      using l assms(2,3) f rs by (simp add: run_loop_append)
    from run_loop_keeps [OF this, of ?t] show ?thesis using assms(5) f by simp
  qed
  moreover have "apply_policy_step (g_baseline g) (g_policy g) (g_scope g) ?t = ?t"
    using assms(6,7) f by (simp add: apply_policy_step_def)
  ultimately have "?t \<in> set (ApplyPolicy fin (g_baseline g) (g_policy g) (g_scope g))"
    by (force simp: ApplyPolicy_def)
  moreover have "s_Status ?t = ''fail''" using assms(4) f by simp
  ultimately have "\<not> gr_Pass (NewGateResultWithScope (ApplyPolicy fin (g_baseline g) (g_policy g) (g_scope g)) (g_scope g))"
    unfolding NewGateResult_simps by blast
  with l assms(1) show ?thesis by (auto simp: Run_def Let_def ExitCode_def)
qed

text \<open>C7: No green over a structural failure: if some executed step of a dimension outside the
  waivable surface, not the baseline or waiver step and without a policy entry, reports
  \<open>fail\<close>, then whatever the steps behind it do, waive or compare, the run does not exit 0.\<close>

theorem failing_step_fails_run:
  assumes "g_configErr g = None" "g_steps g = xs @ f # ys"
    and "run_loop g elapsed 0 xs world ([], []) = (results, active, False, w)"
    and "s_Status (fst (f w)) = ''fail''" "\<not> on_surface (s_StepName (fst (f w)))"
    and "s_StepName (fst (f w)) \<notin> {StepWaiverResolution, StepBaselineComparison}"
    and "map_of (g_policy g) (s_StepName (fst (f w))) = None"
  shows "fst (snd (Run g elapsed world)) \<noteq> 0"
  by (rule failing_step_exit [OF assms])

theorem failing_step_fails_run_witness:
  "fst (snd (Run (New [WithSteps [StepArtifactValidationScopedFunc (\<lambda>w. (Inl (''io'', False), w)) None, StepLedgerIntegrityScopedFunc]])
      (\<lambda>_. 1) ())) \<noteq> 0"
  by (rule failing_step_fails_run [where xs = "[]" and results = "[]" and active = "[]" and w = "()"
        and f = "StepArtifactValidationScopedFunc (\<lambda>w. (Inl (''io'', False), w)) None" and ys = "[StepLedgerIntegrityScopedFunc]"])
     (simp_all add: New_def WithSteps_def zero_gate_def StepArtifactValidationScopedFunc_def delegated_result_def
        on_surface_def waivableDimension_def step_name_defs)

subsection \<open>Delegated steps and the baseline swap\<close>

text \<open>A delegated check fails its step exactly when the delegate errored or some finding that
  survives the scope filter blocks; only a configuration error raises the halt flag, and the
  findings reported are exactly those the filter keeps.\<close>

theorem code_check_verdict:
  assumes "\<not> ScopeEmpty scope" "checkAll world = (outcome, world')"
  shows "let s = fst (StepCodeCheckScopedFunc checkAll None scope world) in
     (s_Status s = ''fail'' \<longleftrightarrow> (case outcome of Inl _ \<Rightarrow> True
                               | Inr vs \<Rightarrow> \<exists>v\<in>set (filterViolations scope vs). blocksVerdict v))
     \<and> (s_ConfigErr s \<longleftrightarrow> (\<exists>msg. outcome = Inl (msg, True)))
     \<and> (case outcome of Inl (msg, _) \<Rightarrow> map v_Message (s_Violations s) = [msg]
                       | Inr vs \<Rightarrow> s_Violations s = filterViolations scope vs)"
  using assms step.fail_iff
  by (cases outcome) (auto simp: StepCodeCheckScopedFunc_def delegated_result_def Let_def)

theorem code_check_verdict_witness:
  "s_Status (fst (StepCodeCheckScopedFunc (\<lambda>w. (Inl (''boom'', False), w)) None None ())) = ''fail''"
  using code_check_verdict [of None "\<lambda>w. (Inl (''boom'', False), w)" "()" "Inl (''boom'', False)" "()"]
  by (simp add: ScopeEmpty_def Let_def)

text \<open>A baseline taken from the accumulated steps turns the baseline step green for that same
  run when the gate has no scope or scans the whole tree, and the step's verdict is \<open>fail\<close>
  exactly when the comparison against the loaded baseline finds something new.\<close>

theorem baseline_step_verdict:
  "s_Status (computeBaselineResult g acc) =
     (case g_baseline g of
        None \<Rightarrow> ''skipped''
      | Some b \<Rightarrow> if bc_New (CompareBaseline (accumulatedViolations acc) (Some b)
                        \<lparr>bo_Scope = g_scope g, bo_AllowRuleSetChangeSeeding = g_seedingAllowed g,
                         bo_ChangedFiles = g_ruleSetChangeFiles g\<rparr>) = [] then ''pass'' else ''fail'')
   \<and> (g_scope h = None \<and> g_baseline h = Some (NewBaselineArtifactFromSteps acc gen sha ver)
        \<longrightarrow> s_Status (computeBaselineResult h acc) = ''pass'')"
proof -
  have "s_Status (computeBaselineResult h acc) = ''pass''"
    if "g_scope h = None" "g_baseline h = Some (NewBaselineArtifactFromSteps acc gen sha ver)"
    using that baseline_of_run_is_clean_aux by (simp add: computeBaselineResult_def Let_def)
  then show ?thesis by (cases "g_baseline g") (simp_all add: computeBaselineResult_def Let_def)
qed

theorem baseline_step_verdict_witness:
  "s_Status (computeBaselineResult ((New [] :: unit Gate)\<lparr>g_baseline := Some (NewBaselineArtifactFromSteps [] [] [] [])\<rparr>) []) = ''pass''"
  using baseline_step_verdict [of "New [] :: unit Gate" "[]" "(New [] :: unit Gate)\<lparr>g_baseline := Some (NewBaselineArtifactFromSteps [] [] [] [])\<rparr>" "[]" "[]" "[]"]
  by (simp add: New_def zero_gate_def)

end
