(* ===== verification/Status_Drift.thy ===== *)
theory Status_Drift
  imports Artifact_Status Gate_Result
begin

text \<open>
  The status/reality drift dimension (\<open>src/pkg/gate/status_drift.go\<close>): success-terminal
  artifacts with an absent mandated test are broken promises, non-terminal ones with all
  tests present look delivered.  The verdict of its steps is an instance of the tri-state
  interface, and the split keeps the heuristic direction from ever blocking.
\<close>

definition em_dash :: string where "em_dash = [CHR 0xE2, CHR 0x80, CHR 0x94]"

definition looksDelivered :: "ArtifactStatusRecord \<Rightarrow> string list \<Rightarrow> bool" where
  "looksDelivered rec present \<longleftrightarrow>
     ar_MandatedTests rec \<noteq> [] \<and> list_all (\<lambda>mt. mt_FuncName mt \<in> set present) (ar_MandatedTests rec)"

definition driftBrokenPromiseMessage :: "ArtifactStatusRecord \<Rightarrow> MandatedTest \<Rightarrow> string" where
  "driftBrokenPromiseMessage rec mt =
     ''artifact '' @ ar_ID rec @ '' is '' @ ar_Status rec @ '' ('' @ class_string (ar_Class rec)
     @ '') but its mandated test '' @ mt_FuncName mt @ '' is ABSENT''
     @ (if mt_ClaimID mt \<noteq> [] then '', claim '' @ mt_ClaimID mt else []) @ '' '' @ em_dash
     @ '' a broken promise (claimed done, isn'' @ [CHR 0x27] @ ''t). Restore/repoint the mandated test, or retire the artifact (replaced/canceled/deprecated) if the promise no longer holds.''"

definition driftDeliveredOpenMessage :: "ArtifactStatusRecord \<Rightarrow> string" where
  "driftDeliveredOpenMessage rec =
     ''artifact '' @ ar_ID rec @ '' is '' @ ar_Status rec @ '' ('' @ class_string (ar_Class rec)
     @ '') but all its mandated tests are PRESENT '' @ em_dash
     @ '' it looks delivered. Advance its status toward closure if the work is in fact done. This advisory is non-blocking (exit 0).''"

text \<open>The verdict loop both dimensions use: it stops at the first error.\<close>

fun severity_scan :: "Violation list \<Rightarrow> bool \<Rightarrow> string" where
  "severity_scan [] warned = (if warned then ''warning'' else ''pass'')"
| "severity_scan (v # vs) warned =
     (if v_Severity v = ''error'' then ''fail''
      else severity_scan vs (warned \<or> v_Severity v = ''warning''))"

definition driftStepResult :: "string \<Rightarrow> Violation list \<Rightarrow> StepResult" where
  "driftStepResult stepName violations = step_lit stepName (severity_scan violations False) violations"

definition drift_violations :: "string list \<Rightarrow> ArtifactStatusRecord \<Rightarrow> Violation list" where
  "drift_violations present rec =
     (case ar_Class rec of
        ClassRetiredTerminal \<Rightarrow> []
      | ClassSuccessTerminal \<Rightarrow>
          map (\<lambda>mt. violation_lit StepArtifactStatusDrift (ar_Path rec) (driftBrokenPromiseMessage rec mt) ''error'')
              (filter (\<lambda>mt. mt_FuncName mt \<notin> set present) (ar_MandatedTests rec))
      | ClassNonTerminal \<Rightarrow>
          if looksDelivered rec present
          then [violation_lit StepArtifactStatusDriftAdvisory (ar_Path rec) (driftDeliveredOpenMessage rec) ''warning'']
          else [])"

definition ClassifyStatusDrift :: "ArtifactStatusRecord list \<Rightarrow> string list \<Rightarrow> StepResult" where
  "ClassifyStatusDrift records present =
     driftStepResult StepArtifactStatusDrift (concat (map (drift_violations present) records))"

definition SplitDriftResult :: "StepResult \<Rightarrow> StepResult \<times> StepResult" where
  "SplitDriftResult combined =
     (driftStepResult StepArtifactStatusDrift (filter (\<lambda>v. v_Severity v = ''error'') (s_Violations combined)),
      driftStepResult StepArtifactStatusDriftAdvisory (filter (\<lambda>v. v_Severity v \<noteq> ''error'') (s_Violations combined)))"

subsection \<open>The verdict loop is tri-state\<close>

lemma severity_scan_eq:
  "severity_scan vs w =
     (if \<exists>v\<in>set vs. v_Severity v = ''error'' then ''fail''
      else if w \<or> (\<exists>v\<in>set vs. v_Severity v = ''warning'') then ''warning'' else ''pass'')"
  by (induction vs arbitrary: w) auto

interpretation drift: tri_state_verdict "\<lambda>v. v_Severity v = ''error''" "\<lambda>v. v_Severity v = ''warning''"
  "\<lambda>vs. s_Status (driftStepResult name vs)" for name
  by unfold_locales (auto simp: driftStepResult_def severity_scan_eq)

lemma drift_error_iff:
  "(\<exists>v\<in>set (drift_violations present rec). v_Severity v = ''error'') \<longleftrightarrow>
     ar_Class rec = ClassSuccessTerminal \<and> (\<exists>mt\<in>set (ar_MandatedTests rec). mt_FuncName mt \<notin> set present)"
  by (cases "ar_Class rec") (auto simp: drift_violations_def)

text \<open>C28: The drift step fails exactly when some success-terminal artifact mandates a test that does
  not exist.  Retired artifacts and open ones never fail it, however their tests stand, and
  the step never raises the configuration-error flag that would halt the gate.\<close>

theorem drift_fails_iff_broken_promise:
  "(s_Status (ClassifyStatusDrift records present) = ''fail'' \<longleftrightarrow>
     (\<exists>rec\<in>set records. ar_Class rec = ClassSuccessTerminal
        \<and> (\<exists>mt\<in>set (ar_MandatedTests rec). mt_FuncName mt \<notin> set present)))
   \<and> \<not> s_ConfigErr (ClassifyStatusDrift records present)"
  unfolding ClassifyStatusDrift_def drift.fail_iff
  using drift_error_iff by (auto simp: driftStepResult_def)

text \<open>The split is a partition by severity, and the advisory side is structurally non-blocking:
  both sides together hold exactly the findings, the policied side fails exactly when the
  combined step failed, the advisory side never fails and holds only entries that do not
  block even under the gate's severity predicate.\<close>

theorem split_drift_advisory_never_blocks:
  "let c = ClassifyStatusDrift records present; (block, advisory) = SplitDriftResult c in
     set (s_Violations block) \<union> set (s_Violations advisory) = set (s_Violations c)
     \<and> length (s_Violations block) + length (s_Violations advisory) = length (s_Violations c)
     \<and> (s_Status block = ''fail'' \<longleftrightarrow> s_Status c = ''fail'')
     \<and> s_Status advisory \<in> {''pass'', ''warning''}
     \<and> filter blocksVerdict (s_Violations advisory) = []
     \<and> filter (\<lambda>v. \<not> blocksVerdict v) (s_Violations block) = []"
proof -
  let ?vs = "concat (map (drift_violations present) records)"
  have sev: "v_Severity v = ''error'' \<or> v_Severity v = ''warning''" if "v \<in> set ?vs" for v
  proof -
    from that obtain rec where "v \<in> set (drift_violations present rec)" by auto
    then show ?thesis by (cases "ar_Class rec") (auto simp: drift_violations_def split: if_splits)
  qed
  have "EqualFold (TrimSpace ''error'') ''warning'' = False" "EqualFold (TrimSpace ''warning'') ''warning'' = True"
    by code_simp+
  then have b: "v_Severity v = ''error'' \<Longrightarrow> blocksVerdict v" "v_Severity v = ''warning'' \<Longrightarrow> \<not> blocksVerdict v" for v
    by (simp_all add: blocksVerdict_def)
  have "length (filter P xs) + length (filter (\<lambda>x. \<not> P x) xs) = length xs" for P :: "Violation \<Rightarrow> bool" and xs
    by (rule sum_length_filter_compl)
  moreover have "filter blocksVerdict (filter (\<lambda>v. v_Severity v \<noteq> ''error'') ?vs) = []"
    using sev b by (auto simp: filter_empty_conv)
  moreover have "filter (\<lambda>v. \<not> blocksVerdict v) (filter (\<lambda>v. v_Severity v = ''error'') ?vs) = []"
    using b by (auto simp: filter_empty_conv)
  ultimately show ?thesis
    by (auto simp: Let_def SplitDriftResult_def ClassifyStatusDrift_def driftStepResult_def severity_scan_eq)
qed

end
