(* ===== verification/Requirement_Traceability.thy ===== *)
theory Requirement_Traceability
  imports Status_Drift Go_Int
begin

text \<open>
  Requirement traceability (\<open>src/pkg/gate/requirement_traceability.go\<close>): version pins, coverage of
  bundle requirements by implemented specs, and the verdict over the corpus.  Version numbers
  are read into 64-bit integers with the wrap-around of the code.  The main theorem says when
  the dimension fails in terms of the records and references alone.
\<close>

record TraceRef =
  tr_BundleName :: string
  tr_ReqID :: string
  tr_PinVersion :: string
  tr_Pinned :: bool
  tr_CitingPath :: string

definition SupportsCoverage :: "ArtifactKind \<Rightarrow> StatusClass \<Rightarrow> bool" where
  "SupportsCoverage kind class \<longleftrightarrow> kind = KindSpec \<and> class = ClassSuccessTerminal"

subsection \<open>Version pins\<close>

definition parseNonNegativeInt :: "string \<Rightarrow> int option" where
  "parseNonNegativeInt s = (if s = [] then None else parse_digits 0 s)"

definition semverMajorMinor :: "string \<Rightarrow> (int \<times> int) option" where
  "semverMajorMinor version =
     (case Split version (CHR ''.'') of
        [a, b, c] \<Rightarrow>
          (case (parseNonNegativeInt a, parseNonNegativeInt b) of
             (Some major, Some minor) \<Rightarrow> if parseNonNegativeInt c = None then None else Some (major, minor)
           | _ \<Rightarrow> None)
      | _ \<Rightarrow> None)"

definition StalePinVerdict :: "string \<Rightarrow> string \<Rightarrow> string \<times> bool" where
  "StalePinVerdict pin current =
     (if pin = current then (''none'', False)
      else case (semverMajorMinor pin, semverMajorMinor current) of
             (Some (pmj, pmn), Some (cmj, cmn)) \<Rightarrow>
               if pmj \<noteq> cmj then (''major'', True)
               else if pmn \<noteq> cmn then (''minor'', True) else (''patch'', False)
           | _ \<Rightarrow> (''unknown'', False))"

subsection \<open>The classifier\<close>

definition bundleReqVersion :: "ArtifactStatusRecord \<Rightarrow> string \<Rightarrow> string" where
  "bundleReqVersion bundle reqID =
     (case find (\<lambda>req. br_ReqID req = reqID) (ar_BundleReqs bundle) of None \<Rightarrow> [] | Some req \<Rightarrow> br_CurrentVersion req)"

definition traceabilityStepResult :: "string \<Rightarrow> Violation list \<Rightarrow> StepResult" where
  "traceabilityStepResult stepName violations = step_lit stepName (severity_scan violations False) violations"

record staleTraceRef =
  sr_ref :: TraceRef
  sr_currentVersion :: string
  sr_citerID :: string
  sr_citerKind :: ArtifactKind
  sr_bump :: string

record staleSpecOrigin =
  so_bundleName :: string
  so_reqID :: string
  so_reqVersion :: string

definition trace_lit :: "string \<Rightarrow> string \<Rightarrow> string \<Rightarrow> string \<Rightarrow> string \<Rightarrow> string \<Rightarrow> Trace" where
  "trace_lit bundle maturity reqID reqVersion gap remedy =
     \<lparr>t_Bundle = bundle, t_BundleMaturity = maturity, t_ReqID = reqID, t_ReqVersion = reqVersion,
      t_GapKind = gap, t_Remedy = remedy, t_PinnedVersion = [], t_Bump = [], t_CitingArtifact = [], t_Via = []\<rparr>"

definition traced :: "string \<Rightarrow> string \<Rightarrow> string \<Rightarrow> string \<Rightarrow> Trace \<Rightarrow> Violation" where
  "traced rule file message severity trace =
     (violation_lit rule file message severity)\<lparr>v_Trace := Some trace\<rparr>"

lemma traced_Severity [simp]: "v_Severity (traced r f m s t) = s"
  by (simp add: traced_def violation_lit_def zero_violation_def)

text \<open>The three indexes of the first loop.\<close>

definition bundle_index :: "ArtifactStatusRecord list \<Rightarrow> (string, ArtifactStatusRecord) gomap" where
  "bundle_index records =
     map_index ar_BundleName (filter (\<lambda>r. ar_Kind r = KindBundle \<and> ar_BundleName r \<noteq> []) records)"

definition citer_index :: "ArtifactStatusRecord list \<Rightarrow> (string, ArtifactStatusRecord) gomap" where
  "citer_index records =
     map_index (\<lambda>r. NormalizePath [] (ar_Path r)) (filter (\<lambda>r. ar_Kind r = KindSpec \<or> ar_Kind r = KindIssue) records)"

definition spec_index :: "ArtifactStatusRecord list \<Rightarrow> (string, ArtifactStatusRecord) gomap" where
  "spec_index records = map_index ar_ID (filter (\<lambda>r. ar_Kind r = KindSpec) records)"

text \<open>The state of the reference loop.\<close>

record ref_state =
  rf_covered :: "(string \<times> string) list"
  rf_lapsed :: "(string \<times> string) list"
  rf_stale :: "staleTraceRef list"
  rf_violations :: "Violation list"

definition not_implemented_violation :: "TraceRef \<Rightarrow> ArtifactStatusRecord \<Rightarrow> ArtifactStatusRecord \<Rightarrow> string \<Rightarrow> Violation" where
  "not_implemented_violation ref bundle citer currentVersion =
     traced StepRequirementTraceability (tr_CitingPath ref)
       (''delivered bundle '' @ tr_BundleName ref @ '' is cited by non-implemented spec '' @ ar_ID citer @ '' ('' @ ar_Status citer
        @ ''); delivered coverage requires every citing spec to be implemented'') ''error''
       ((trace_lit (tr_BundleName ref) (ar_Status bundle) (tr_ReqID ref) currentVersion
          ''citing_spec_not_implemented'' ''implement_spec'')\<lparr>t_CitingArtifact := ar_ID citer\<rparr>)"

definition process_ref ::
  "(string, ArtifactStatusRecord) gomap \<Rightarrow> (string, ArtifactStatusRecord) gomap \<Rightarrow> TraceRef \<Rightarrow> ref_state \<Rightarrow> ref_state" where
  "process_ref bundles citers ref st =
     (case (map_of bundles (tr_BundleName ref), map_of citers (NormalizePath [] (tr_CitingPath ref))) of
        (Some bundle, Some citer) \<Rightarrow>
          if ar_Class bundle = ClassRetiredTerminal then st
          else if ar_Class citer = ClassRetiredTerminal then
            (if ar_Kind citer = KindSpec
             then st\<lparr>rf_lapsed := (tr_BundleName ref, tr_ReqID ref) # rf_lapsed st\<rparr> else st)
          else
            (let currentVersion = bundleReqVersion bundle (tr_ReqID ref) in
             case StalePinVerdict (tr_PinVersion ref) currentVersion of (bump, stale) \<Rightarrow>
             let st1 = (if stale then st\<lparr>rf_stale := rf_stale st @
                          [\<lparr>sr_ref = ref, sr_currentVersion = currentVersion, sr_citerID = ar_ID citer,
                            sr_citerKind = ar_Kind citer, sr_bump = bump\<rparr>]\<rparr> else st);
                 st2 = (if ar_Class bundle = ClassSuccessTerminal \<and> ar_Kind citer = KindSpec
                           \<and> ar_Class citer \<noteq> ClassSuccessTerminal
                        then st1\<lparr>rf_violations := rf_violations st1 @
                               [not_implemented_violation ref bundle citer currentVersion]\<rparr> else st1)
             in if SupportsCoverage (ar_Kind citer) (ar_Class citer) \<and> \<not> stale
                then st2\<lparr>rf_covered := (tr_BundleName ref, tr_ReqID ref) # rf_covered st2\<rparr> else st2)
      | _ \<Rightarrow> st)"

definition stale_violation :: "(string, ArtifactStatusRecord) gomap \<Rightarrow> staleTraceRef \<Rightarrow> Violation" where
  "stale_violation bundles s =
     (let ref = sr_ref s; bundle = map_of bundles (tr_BundleName ref);
          remedy = (if map_option ar_Class bundle = Some ClassSuccessTerminal then ''new_spec'' else ''re_pin'')
      in traced StepRequirementTraceability (tr_CitingPath ref)
          (''supports ref '' @ tr_BundleName ref @ '':'' @ tr_ReqID ref @ ''@'' @ tr_PinVersion ref
           @ '' pins an older major/minor than current '' @ tr_BundleName ref @ '':'' @ tr_ReqID ref @ ''@'' @ sr_currentVersion s
           @ ''; rework or add a new implemented spec for the current requirement'') ''error''
          ((trace_lit (tr_BundleName ref) (case bundle of None \<Rightarrow> [] | Some b \<Rightarrow> ar_Status b) (tr_ReqID ref) (sr_currentVersion s)
             ''stale_pin'' remedy)
             \<lparr>t_PinnedVersion := tr_PinVersion ref, t_Bump := sr_bump s, t_CitingArtifact := sr_citerID s\<rparr>))"

definition uncovered_stale :: "ref_state \<Rightarrow> staleTraceRef list" where
  "uncovered_stale st =
     filter (\<lambda>s. (tr_BundleName (sr_ref s), tr_ReqID (sr_ref s)) \<notin> set (rf_covered st)) (rf_stale st)"

definition stale_specs :: "ref_state \<Rightarrow> (string, staleSpecOrigin) gomap" where
  "stale_specs st =
     fold (\<lambda>s m. if sr_citerKind s = KindSpec
                 then map_set (sr_citerID s)
                        \<lparr>so_bundleName = tr_BundleName (sr_ref s), so_reqID = tr_ReqID (sr_ref s),
                         so_reqVersion = sr_currentVersion s\<rparr> m
                 else m) (uncovered_stale st) []"

definition plan_violations ::
  "(string, ArtifactStatusRecord) gomap \<Rightarrow> (string, ArtifactStatusRecord) gomap \<Rightarrow> (string, staleSpecOrigin) gomap
   \<Rightarrow> ArtifactStatusRecord \<Rightarrow> Violation list" where
  "plan_violations bundles specs stale rec =
     (if ar_Kind rec \<noteq> KindPlan \<or> ar_Class rec = ClassRetiredTerminal then []
      else case map_of specs (ar_SpecID rec) of
        None \<Rightarrow> []
      | Some spec \<Rightarrow>
          (case map_of stale (ar_ID spec) of
             None \<Rightarrow> []
           | Some origin \<Rightarrow>
               [traced StepRequirementTraceability (ar_Path rec)
                  (''plan '' @ ar_ID rec @ '' targets spec '' @ ar_ID spec @ '' whose bundle requirement chain does not verify'') ''error''
                  ((trace_lit (so_bundleName origin)
                      (case map_of bundles (so_bundleName origin) of None \<Rightarrow> [] | Some b \<Rightarrow> ar_Status b)
                      (so_reqID origin) (so_reqVersion origin) ''chain_outrun'' ''resolve_upstream'')\<lparr>t_Via := ar_ID spec\<rparr>)]))"

definition gap_violations :: "ref_state \<Rightarrow> ArtifactStatusRecord \<Rightarrow> Violation list" where
  "gap_violations st bundle =
     (if ar_Class bundle = ClassRetiredTerminal then []
      else map (\<lambda>req.
             let delivered = ar_Class bundle = ClassSuccessTerminal;
                 lapsed = (ar_BundleName bundle, br_ReqID req) \<in> set (rf_lapsed st)
             in traced (if delivered then StepRequirementTraceability else StepRequirementTraceabilityAdvisory)
                  (ar_Path bundle)
                  (''bundle '' @ ar_BundleName bundle @ '' requirement '' @ br_ReqID req @ '' has no implemented-spec coverage'')
                  (if delivered then ''error'' else ''warning'')
                  (trace_lit (ar_BundleName bundle) (ar_Status bundle) (br_ReqID req) (br_CurrentVersion req)
                     (if lapsed then ''coverage_lapsed'' else ''uncovered'')
                     (if lapsed then ''restate_supports'' else ''author_spec'')))
             (filter (\<lambda>req. (ar_BundleName bundle, br_ReqID req) \<notin> set (rf_covered st)) (ar_BundleReqs bundle)))"

definition ref_loop :: "ArtifactStatusRecord list \<Rightarrow> TraceRef list \<Rightarrow> ref_state" where
  "ref_loop records refs =
     fold (process_ref (bundle_index records) (citer_index records)) refs
          \<lparr>rf_covered = [], rf_lapsed = [], rf_stale = [], rf_violations = []\<rparr>"

definition ClassifyRequirementTraceability :: "ArtifactStatusRecord list \<Rightarrow> TraceRef list \<Rightarrow> StepResult" where
  "ClassifyRequirementTraceability records refs =
     (let bundles = bundle_index records;
          st = ref_loop records refs;
          violations = rf_violations st
            @ map (stale_violation bundles) (uncovered_stale st)
            @ concat (map (plan_violations bundles (spec_index records) (stale_specs st)) records)
            @ concat (map (gap_violations st \<circ> snd) bundles)
      in traceabilityStepResult StepRequirementTraceability violations)"

definition SplitTraceabilityResult :: "StepResult \<Rightarrow> StepResult \<times> StepResult" where
  "SplitTraceabilityResult combined =
     (traceabilityStepResult StepRequirementTraceability (filter (\<lambda>v. v_Severity v = ''error'') (s_Violations combined)),
      traceabilityStepResult StepRequirementTraceabilityAdvisory (filter (\<lambda>v. v_Severity v \<noteq> ''error'') (s_Violations combined)))"

interpretation traceability: tri_state_verdict "\<lambda>v. v_Severity v = ''error''" "\<lambda>v. v_Severity v = ''warning''"
  "\<lambda>vs. s_Status (traceabilityStepResult name vs)" for name
  by unfold_locales (auto simp: traceabilityStepResult_def severity_scan_eq)

subsection \<open>Pins\<close>

lemma version_inj:
  "show_nat a @ ''.'' @ show_nat b @ ''.'' @ show_nat c = show_nat a' @ ''.'' @ show_nat b' @ ''.'' @ show_nat c'
   \<longleftrightarrow> a = a' \<and> b = b' \<and> c = c'"
  using Split_version [of a b c] Split_version [of a' b' c'] show_nat_inj by (metis list.inject)

lemma semver_render:
  assumes "int a < 2 ^ 63" "int b < 2 ^ 63" "int c < 2 ^ 63"
  shows "semverMajorMinor (show_nat a @ ''.'' @ show_nat b @ ''.'' @ show_nat c) = Some (int a, int b)"
proof -
  have "parseNonNegativeInt (show_nat n) = Some (int n)" if "int n < 2 ^ 63" for n
    using that by (simp add: parseNonNegativeInt_def parse_show_nat)
  with assms show ?thesis unfolding semverMajorMinor_def Split_version by simp
qed

text \<open>A pin is stale exactly when its major or minor number differs from the current version's,
  for version numbers that fit a 64-bit integer; patch movement never is, and the bump names
  the highest component that moved.\<close>

theorem stale_pin_iff:
  assumes "int a < 2 ^ 63" "int b < 2 ^ 63" "int c < 2 ^ 63" "int a' < 2 ^ 63" "int b' < 2 ^ 63" "int c' < 2 ^ 63"
  shows "StalePinVerdict (show_nat a @ ''.'' @ show_nat b @ ''.'' @ show_nat c)
                         (show_nat a' @ ''.'' @ show_nat b' @ ''.'' @ show_nat c') =
    (if a \<noteq> a' then (''major'', True) else if b \<noteq> b' then (''minor'', True)
     else if c \<noteq> c' then (''patch'', False) else (''none'', False))"
  unfolding StalePinVerdict_def version_inj semver_render [OF assms(1-3)] semver_render [OF assms(4-6)]
  by simp

theorem stale_pin_iff_witness:
  "StalePinVerdict ''1.4.2'' ''1.5.0'' = (''minor'', True)"
proof -
  have "show_nat 1 = ''1''" "show_nat 4 = ''4''" "show_nat 2 = ''2''" "show_nat 5 = ''5''" "show_nat 0 = ''0''" by code_simp+
  with stale_pin_iff [of 1 4 2 1 5 0] show ?thesis by simp
qed

text \<open>Beyond 64 bits the digit loop wraps around: the version whose major number is two to the
  sixty-fourth reads as major 0, so a pin to it is not reported stale against \<open>0.0.1\<close>.\<close>

theorem semver_overflow_hides_major:
  "semverMajorMinor ''18446744073709551616.0.0'' = Some (0, 0)
   \<and> StalePinVerdict ''18446744073709551616.0.0'' ''0.0.1'' = (''patch'', False)"
  by code_simp

subsection \<open>When the dimension fails\<close>

text \<open>How a reference resolves: its bundle and its citing artifact, both live.\<close>

definition resolves ::
  "ArtifactStatusRecord list \<Rightarrow> TraceRef \<Rightarrow> ArtifactStatusRecord \<Rightarrow> ArtifactStatusRecord \<Rightarrow> bool" where
  "resolves records ref bundle citer \<longleftrightarrow>
     map_of (bundle_index records) (tr_BundleName ref) = Some bundle
     \<and> map_of (citer_index records) (NormalizePath [] (tr_CitingPath ref)) = Some citer
     \<and> ar_Class bundle \<noteq> ClassRetiredTerminal \<and> ar_Class citer \<noteq> ClassRetiredTerminal"

definition stale_ref :: "ArtifactStatusRecord \<Rightarrow> TraceRef \<Rightarrow> bool" where
  "stale_ref bundle ref \<longleftrightarrow> snd (StalePinVerdict (tr_PinVersion ref) (bundleReqVersion bundle (tr_ReqID ref)))"

text \<open>A requirement is covered when an implemented spec cites it with a pin that is not stale.\<close>

definition requirement_covered :: "ArtifactStatusRecord list \<Rightarrow> TraceRef list \<Rightarrow> string \<Rightarrow> string \<Rightarrow> bool" where
  "requirement_covered records refs b r \<longleftrightarrow>
     (\<exists>ref\<in>set refs. \<exists>bundle citer. tr_BundleName ref = b \<and> tr_ReqID ref = r \<and> resolves records ref bundle citer
        \<and> SupportsCoverage (ar_Kind citer) (ar_Class citer) \<and> \<not> stale_ref bundle ref)"

lemma process_ref_unresolved:
  assumes "\<nexists>bundle citer. resolves records ref bundle citer"
  shows "rf_covered (process_ref (bundle_index records) (citer_index records) ref st) = rf_covered st
    \<and> rf_stale (process_ref (bundle_index records) (citer_index records) ref st) = rf_stale st
    \<and> rf_violations (process_ref (bundle_index records) (citer_index records) ref st) = rf_violations st"
proof (cases "map_of (bundle_index records) (tr_BundleName ref)")
  case (Some b)
  show ?thesis
  proof (cases "map_of (citer_index records) (NormalizePath [] (tr_CitingPath ref))")
    case (Some c)
    note b = \<open>map_of (bundle_index records) (tr_BundleName ref) = Some b\<close>
    with Some assms have "ar_Class b = ClassRetiredTerminal \<or> ar_Class c = ClassRetiredTerminal"
      by (simp add: resolves_def)
    with b Some show ?thesis by (elim disjE) (simp_all add: process_ref_def)
  qed (simp add: process_ref_def Some)
qed (simp add: process_ref_def)

lemma process_ref_resolved:
  assumes "resolves records ref bundle citer"
  shows "rf_covered (process_ref (bundle_index records) (citer_index records) ref st) =
      (if SupportsCoverage (ar_Kind citer) (ar_Class citer) \<and> \<not> stale_ref bundle ref
       then [(tr_BundleName ref, tr_ReqID ref)] else []) @ rf_covered st"
    "map sr_ref (rf_stale (process_ref (bundle_index records) (citer_index records) ref st)) =
      map sr_ref (rf_stale st) @ (if stale_ref bundle ref then [ref] else [])"
    "rf_violations (process_ref (bundle_index records) (citer_index records) ref st) =
      rf_violations st @ (if ar_Class bundle = ClassSuccessTerminal \<and> ar_Kind citer = KindSpec
         \<and> ar_Class citer \<noteq> ClassSuccessTerminal
       then [not_implemented_violation ref bundle citer (bundleReqVersion bundle (tr_ReqID ref))] else [])"
  using assms unfolding process_ref_def resolves_def stale_ref_def Let_def
  by (auto split: prod.splits)

lemma resolves_unique: "resolves records ref b c \<Longrightarrow> resolves records ref b' c' \<Longrightarrow> b' = b \<and> c' = c"
  by (simp add: resolves_def)

lemma ref_loop_facts:
  "set (rf_covered (ref_loop records refs)) = {(b, r). requirement_covered records refs b r}
   \<and> set (map sr_ref (rf_stale (ref_loop records refs))) =
       {ref\<in>set refs. \<exists>bundle citer. resolves records ref bundle citer \<and> stale_ref bundle ref}
   \<and> (rf_violations (ref_loop records refs) \<noteq> [] \<longleftrightarrow>
        (\<exists>ref\<in>set refs. \<exists>bundle citer. resolves records ref bundle citer \<and> ar_Class bundle = ClassSuccessTerminal
           \<and> ar_Kind citer = KindSpec \<and> ar_Class citer \<noteq> ClassSuccessTerminal))
   \<and> (\<forall>v\<in>set (rf_violations (ref_loop records refs)). v_Severity v = ''error'')"
proof (induction refs rule: rev_induct)
  case Nil
  then show ?case by (simp add: ref_loop_def requirement_covered_def)
next
  case (snoc ref refs)
  let ?st = "ref_loop records refs"
  have loop: "ref_loop records (refs @ [ref]) = process_ref (bundle_index records) (citer_index records) ref ?st"
    by (simp add: ref_loop_def)
  have cov: "requirement_covered records (refs @ [ref]) b r \<longleftrightarrow> requirement_covered records refs b r
      \<or> (\<exists>bundle citer. tr_BundleName ref = b \<and> tr_ReqID ref = r \<and> resolves records ref bundle citer
        \<and> SupportsCoverage (ar_Kind citer) (ar_Class citer) \<and> \<not> stale_ref bundle ref)" for b r
    unfolding requirement_covered_def by auto
  show ?case
  proof (cases "\<exists>bundle citer. resolves records ref bundle citer")
    case False
    from process_ref_unresolved [OF this, of ?st] False snoc.IH show ?thesis
      unfolding loop cov by auto
  next
    case True
    then obtain bun citer where r: "resolves records ref bun citer" by blast
    have uq: "resolves records ref b c \<longleftrightarrow> b = bun \<and> c = citer" for b c
      using resolves_unique [OF r] r by blast
    have ni: "v_Severity (not_implemented_violation ref b c v) = ''error''" for b c v
      by (simp add: not_implemented_violation_def)
    show ?thesis unfolding loop cov process_ref_resolved [OF r]
    proof (intro conjI)
      show "set ((if SupportsCoverage (ar_Kind citer) (ar_Class citer) \<and> \<not> stale_ref bun ref
          then [(tr_BundleName ref, tr_ReqID ref)] else []) @ rf_covered ?st) =
        {(b, r). requirement_covered records refs b r \<or> (\<exists>bundle citer. tr_BundleName ref = b \<and> tr_ReqID ref = r
           \<and> resolves records ref bundle citer \<and> SupportsCoverage (ar_Kind citer) (ar_Class citer) \<and> \<not> stale_ref bundle ref)}"
        using snoc.IH unfolding uq by auto
      show "set (map sr_ref (rf_stale ?st) @ (if stale_ref bun ref then [ref] else [])) =
        {rf \<in> set (refs @ [ref]). \<exists>bundle citer. resolves records rf bundle citer \<and> stale_ref bundle rf}"
        using snoc.IH uq by auto
      show "(rf_violations ?st @ (if ar_Class bun = ClassSuccessTerminal \<and> ar_Kind citer = KindSpec
            \<and> ar_Class citer \<noteq> ClassSuccessTerminal
          then [not_implemented_violation ref bun citer (bundleReqVersion bun (tr_ReqID ref))] else []) \<noteq> []) =
        (\<exists>rf\<in>set (refs @ [ref]). \<exists>bundle citer. resolves records rf bundle citer \<and> ar_Class bundle = ClassSuccessTerminal
           \<and> ar_Kind citer = KindSpec \<and> ar_Class citer \<noteq> ClassSuccessTerminal)"
        using snoc.IH uq by auto
      show "\<forall>v\<in>set (rf_violations ?st @ (if ar_Class bun = ClassSuccessTerminal \<and> ar_Kind citer = KindSpec
            \<and> ar_Class citer \<noteq> ClassSuccessTerminal
          then [not_implemented_violation ref bun citer (bundleReqVersion bun (tr_ReqID ref))] else [])). v_Severity v = ''error''"
        using snoc.IH ni by auto
    qed
  qed
qed

lemma stale_specs_Some:
  "map_of (stale_specs st) k \<noteq> None \<Longrightarrow> uncovered_stale st \<noteq> []"
  by (cases "uncovered_stale st") (auto simp: stale_specs_def)

text \<open>C11: The traceability dimension fails exactly when one of three things holds of the corpus: a
  delivered bundle has a requirement that no implemented spec covers with a live pin; a live
  reference pins an older major or minor version of a requirement that nothing else covers; or
  a delivered bundle is cited by a spec that is not implemented.  Gaps of bundles in flight
  and plans downstream never fail it on their own.\<close>

theorem traceability_fails_iff:
  "s_Status (ClassifyRequirementTraceability records refs) = ''fail'' \<longleftrightarrow>
     (\<exists>bundle req. bundle \<in> snd ` set (bundle_index records) \<and> ar_Class bundle = ClassSuccessTerminal
        \<and> req \<in> set (ar_BundleReqs bundle) \<and> \<not> requirement_covered records refs (ar_BundleName bundle) (br_ReqID req))
     \<or> (\<exists>ref bundle citer. ref \<in> set refs \<and> resolves records ref bundle citer \<and> stale_ref bundle ref
        \<and> \<not> requirement_covered records refs (tr_BundleName ref) (tr_ReqID ref))
     \<or> (\<exists>ref bundle citer. ref \<in> set refs \<and> resolves records ref bundle citer \<and> ar_Class bundle = ClassSuccessTerminal
        \<and> ar_Kind citer = KindSpec \<and> ar_Class citer \<noteq> ClassSuccessTerminal)"
  (is "_ \<longleftrightarrow> ?gap \<or> ?stale \<or> ?open")
proof -
  let ?st = "ref_loop records refs" and ?err = "\<lambda>v. v_Severity v = ''error''"
  note facts = ref_loop_facts [of records refs]
  have cov: "(b, r) \<in> set (rf_covered ?st) \<longleftrightarrow> requirement_covered records refs b r" for b r
    using facts by simp
  have vio: "(\<exists>v\<in>set (rf_violations ?st). ?err v) \<longleftrightarrow> ?open"
  proof -
    have "(\<exists>v\<in>set (rf_violations ?st). ?err v) \<longleftrightarrow> rf_violations ?st \<noteq> []"
      using facts by (cases "rf_violations ?st") auto
    also have "\<dots> \<longleftrightarrow> ?open" using facts by blast
    finally show ?thesis .
  qed
  have us: "uncovered_stale ?st \<noteq> [] \<longleftrightarrow> ?stale"
  proof -
    have "uncovered_stale ?st \<noteq> [] \<longleftrightarrow>
        (\<exists>ref\<in>set (map sr_ref (rf_stale ?st)). \<not> requirement_covered records refs (tr_BundleName ref) (tr_ReqID ref))"
      by (auto simp: uncovered_stale_def filter_empty_conv cov)
    also have "\<dots> \<longleftrightarrow> ?stale" using facts by blast
    finally show ?thesis .
  qed
  have st: "(\<exists>v\<in>set (map (stale_violation bundles) (uncovered_stale ?st)). ?err v) \<longleftrightarrow> ?stale" for bundles
    unfolding us [symmetric] by (cases "uncovered_stale ?st") (auto simp: stale_violation_def Let_def)
  have pl: "(\<exists>v\<in>set (concat (map (plan_violations b sp (stale_specs ?st)) records)). ?err v) \<Longrightarrow> ?stale" for b sp
  proof -
    assume "\<exists>v\<in>set (concat (map (plan_violations b sp (stale_specs ?st)) records)). ?err v"
    then obtain rec where "plan_violations b sp (stale_specs ?st) rec \<noteq> []" by force
    then have "\<exists>k. map_of (stale_specs ?st) k \<noteq> None"
      by (auto simp: plan_violations_def split: if_splits option.splits)
    then show ?stale using stale_specs_Some us by blast
  qed
  have gv: "(\<exists>v\<in>set (gap_violations ?st bun). ?err v) \<longleftrightarrow> ar_Class bun = ClassSuccessTerminal
      \<and> (\<exists>req\<in>set (ar_BundleReqs bun). \<not> requirement_covered records refs (ar_BundleName bun) (br_ReqID req))" for bun
    by (auto simp: gap_violations_def Let_def cov)
  have gap: "(\<exists>v\<in>set (concat (map (gap_violations ?st \<circ> snd) (bundle_index records))). ?err v) \<longleftrightarrow> ?gap"
  proof -
    have "(\<exists>v\<in>set (concat (map (gap_violations ?st \<circ> snd) (bundle_index records))). ?err v) \<longleftrightarrow>
        (\<exists>bundle\<in>snd ` set (bundle_index records). \<exists>v\<in>set (gap_violations ?st bundle). ?err v)" by simp
    also have "\<dots> \<longleftrightarrow> ?gap" unfolding gv by blast
    finally show ?thesis .
  qed
  show ?thesis
    unfolding ClassifyRequirementTraceability_def Let_def traceability.fail_iff set_append bex_Un vio st gap
    using pl by blast
qed

end
