(* ===== verification/Validate_Plan.thy ===== *)
theory Validate_Plan
  imports Validate_Base
begin

text \<open>
  The plan validator (\<open>src/pkg/validate/plan.go\<close>): the identity and status checks, the scan of the
  phases and tasks, the task-type disciplines, and the two file-exclusivity checks over the
  transitive dependency closure.  The theorems show that the closure the code computes is the
  transitive closure, what the exclusivity check therefore reports, and that a plan that passes
  can be executed: its tasks have an order that respects every dependency.
\<close>

subsection \<open>Tables\<close>

definition r_three_digits :: rx where "r_three_digits = rtimes 3 r_digit"

definition planIDRe :: rx where
  "planIDRe = rseq [rlit ''PLAN-'', ralt [rlit ''SPEC'', rlit ''ISSUE''], rlit ''-'', r_three_digits]"

definition planFileRe :: rx where
  "planFileRe = rseq [rlit ''PLAN-'', rplus r_upper, rlit ''-'', rplus r_digit, rlit ''-'', r_slug,
                      rlit ''.plan.yml'']"

definition specIDRe :: rx where
  "specIDRe = rseq [ralt [rlit ''SPEC'', rlit ''ISSUE''], rlit ''-'', r_three_digits]"

definition dateRe :: rx where
  "dateRe = rseq [rtimes 4 r_digit, rlit ''-'', rtimes 2 r_digit, rlit ''-'', rtimes 2 r_digit]"

definition planStatuses :: "string list" where
  "planStatuses = [''draft'', ''ready'', ''implementing'', ''completed'', ''replaced'', ''canceled'', ''obsoleted'']"

definition validTaskTypes :: "string list" where
  "validTaskTypes = [''setup'', ''test'', ''implementation'', ''verification'', ''refactor'', ''documentation'']"

record planTask =
  pt_id :: string
  pt_files :: "string list"
  pt_dependsOn :: "string list"
  pt_phaseID :: string
  pt_taskType :: string

subsection \<open>The scan of the phases\<close>

record phase_scan =
  sc_violations :: "ArtifactViolation list"
  sc_tasks :: "planTask list"
  sc_phaseIDs :: "string list"
  sc_taskIDs :: "string list"

definition found :: "ArtifactViolation list \<Rightarrow> phase_scan \<Rightarrow> phase_scan" where
  "found vs s = s\<lparr>sc_violations := sc_violations s @ vs\<rparr>"

text \<open>The identifier check of phases and tasks: required, and not seen before.\<close>

definition id_check :: "string \<Rightarrow> string list \<Rightarrow> ArtifactViolation \<Rightarrow> ArtifactViolation \<Rightarrow> ArtifactViolation list" where
  "id_check i seen required duplicate =
     (if i = [] then [required] else if i \<in> set seen then [duplicate] else [])"

definition note_id :: "string \<Rightarrow> string list \<Rightarrow> string list" where
  "note_id i seen = (if i = [] \<or> i \<in> set seen then seen else seen @ [i])"

definition files_of :: "frontmatter \<Rightarrow> string list" where
  "files_of task = (case map_of task ''files'' of Some (VList fs) \<Rightarrow> string_items fs | _ \<Rightarrow> [])"

definition depends_of :: "frontmatter \<Rightarrow> string list" where
  "depends_of task = (case map_of task ''depends_on'' of Some (VList ds) \<Rightarrow> string_items ds | _ \<Rightarrow> [])"

definition task_of :: "string \<Rightarrow> frontmatter \<Rightarrow> planTask" where
  "task_of phaseID task =
     \<lparr>pt_id = map_string task ''id'', pt_files = files_of task, pt_dependsOn = depends_of task,
      pt_phaseID = phaseID, pt_taskType = map_string task ''type''\<rparr>"

text \<open>A field that must hold a non-empty array.\<close>

definition array_check ::
  "string \<Rightarrow> frontmatter \<Rightarrow> string \<Rightarrow> ArtifactViolation \<Rightarrow> ArtifactViolation \<Rightarrow> ArtifactViolation list" where
  "array_check f m key required nothing =
     (case map_of m key of
        None \<Rightarrow> [required]
      | Some (VList xs) \<Rightarrow> report (xs = []) nothing
      | Some _ \<Rightarrow> [nothing])"

definition task_fields :: "string \<Rightarrow> string \<Rightarrow> frontmatter \<Rightarrow> ArtifactViolation list" where
  "task_fields f label task =
     text_check f ''plan/task-title-required'' task ''title'' (label @ '' is missing '' @ sq ''title'')
       (label @ '' '' @ sq ''title'' @ '' is empty'')
     @ text_check f ''plan/task-description-required'' task ''description''
         (label @ '' is missing '' @ sq ''description'' @ '' (D-080: agent-bounded tasks require clear context)'')
         (label @ '' '' @ sq ''description'' @ '' is empty'')
     @ array_check f task ''files''
         (viol f ''plan/task-files-required''
            (label @ '' is missing '' @ sq ''files'' @ '' (D-080: agent-bounded tasks must declare file ownership)''))
         (viol f ''plan/task-files-empty'' (label @ '' '' @ sq ''files'' @ '' must list at least one file''))
     @ array_check f task ''claims''
         (viol f ''plan/task-claims-required''
            (label @ '' is missing '' @ sq ''claims'' @ '' (D-080: tasks must reference spec claims)''))
         (viol f ''plan/task-claims-empty'' (label @ '' '' @ sq ''claims'' @ '' must reference at least one CLM''))
     @ report (map_of task ''depends_on'' = None)
         (viol f ''plan/task-depends-on-required'' (label @ '' is missing '' @ sq ''depends_on''))"

definition task_step :: "string \<Rightarrow> string \<Rightarrow> nat \<Rightarrow> nat \<times> yval \<Rightarrow> phase_scan \<Rightarrow> phase_scan" where
  "task_step f phaseID i = (\<lambda>(j, item) s.
     let label = show_index (show_index ''phases'' i @ ''.tasks'') j in
     case as_map item of
       None \<Rightarrow> found [viol f ''plan/task-format'' (label @ '' is not a valid map'')] s
     | Some task \<Rightarrow>
         (let pt = task_of phaseID task;
              s1 = found (id_check (pt_id pt) (sc_taskIDs s)
                     (viol f ''plan/task-id-required'' (label @ '' is missing '' @ sq ''id''))
                     (viol f ''plan/task-id-duplicate'' (''duplicate task id '' @ sq (pt_id pt)))
                     @ task_fields f label task) s
          in s1\<lparr>sc_tasks := sc_tasks s1 @ [pt], sc_taskIDs := note_id (pt_id pt) (sc_taskIDs s1)\<rparr>))"

definition phase_head :: "string \<Rightarrow> nat \<Rightarrow> frontmatter \<Rightarrow> phase_scan \<Rightarrow> phase_scan" where
  "phase_head f i phase s =
     (let label = show_index ''phases'' i; phaseID = map_string phase ''id'';
          s1 = found (id_check phaseID (sc_phaseIDs s)
                 (viol f ''plan/phase-id-required'' (label @ '' is missing '' @ sq ''id''))
                 (viol f ''plan/phase-id-duplicate'' (''duplicate phase id '' @ sq phaseID))
                 @ text_check f ''plan/phase-name-required'' phase ''name''
                     (label @ '' is missing '' @ sq ''name'') (label @ '' '' @ sq ''name'' @ '' is empty'')) s
      in s1\<lparr>sc_phaseIDs := note_id phaseID (sc_phaseIDs s1)\<rparr>)"

definition phase_step :: "string \<Rightarrow> nat \<times> yval \<Rightarrow> phase_scan \<Rightarrow> phase_scan" where
  "phase_step f = (\<lambda>(i, item) s.
     let label = show_index ''phases'' i in
     case as_map item of
       None \<Rightarrow> found [viol f ''plan/phase-format'' (label @ '' is not a valid map'')] s
     | Some phase \<Rightarrow>
         (let s2 = phase_head f i phase s in
          case map_of phase ''tasks'' of
            None \<Rightarrow> found [viol f ''plan/phase-tasks-required'' (label @ '' is missing '' @ sq ''tasks'')] s2
          | Some v \<Rightarrow>
              (case as_list v of
                 Some (t # ts) \<Rightarrow> fold (task_step f (map_string phase ''id'') i) (enumerate 0 (t # ts)) s2
               | _ \<Rightarrow> found [viol f ''plan/phase-tasks-empty'' (label @ '' must have at least one task'')] s2)))"

definition scan_phases :: "string \<Rightarrow> yval list \<Rightarrow> phase_scan" where
  "scan_phases f phases =
     fold (phase_step f) (enumerate 0 phases)
       \<lparr>sc_violations = [], sc_tasks = [], sc_phaseIDs = [], sc_taskIDs = []\<rparr>"

subsection \<open>Task types\<close>

definition type_map :: "planTask list \<Rightarrow> (string, string) gomap" where
  "type_map tasks = fold (\<lambda>t m. if pt_id t \<noteq> [] then map_set (pt_id t) (pt_taskType t) m else m) tasks []"

abbreviation task_type :: "(string, string) gomap \<Rightarrow> string \<Rightarrow> string" where
  "task_type \<equiv> map_get []"

definition unknown_dependencies :: "string \<Rightarrow> planTask list \<Rightarrow> string list \<Rightarrow> ArtifactViolation list" where
  "unknown_dependencies f tasks seen =
     concat (map (\<lambda>t. concat (map (\<lambda>dep.
       report (dep \<notin> set seen)
         (viol f ''plan/unknown-dependency''
            (''task '' @ sq (pt_id t) @ '' depends on unknown task '' @ sq dep))) (pt_dependsOn t))) tasks)"

definition task_type_check :: "string \<Rightarrow> planTask \<Rightarrow> ArtifactViolation list" where
  "task_type_check f t =
     (if pt_taskType t = [] then
        [viol f ''plan/task-type-required''
           (''task '' @ sq (pt_id t) @ '' is missing required '' @ sq ''type'' @ '' field'')]
      else report (pt_taskType t \<notin> set validTaskTypes)
        (viol f ''plan/task-type-invalid''
           (''task '' @ sq (pt_id t) @ '' has invalid type '' @ sq (pt_taskType t)
            @ '' (valid: setup, test, implementation, verification, refactor, documentation)'')))"

definition validateTDD :: "string \<Rightarrow> planTask list \<Rightarrow> (string, string) gomap \<Rightarrow> ArtifactViolation list" where
  "validateTDD f tasks types =
     concat (map (\<lambda>t.
       report (pt_taskType t = ''implementation'' \<and> \<not> (\<exists>dep \<in> set (pt_dependsOn t). task_type types dep = ''test''))
         (viol f ''plan/tdd-impl-requires-test''
            (''implementation task '' @ sq (pt_id t)
             @ '' must directly depend on at least one test task (TDD enforcement)''))) tasks)"

definition code_type :: "string \<Rightarrow> bool" where
  "code_type tt \<longleftrightarrow> tt = ''implementation'' \<or> tt = ''refactor''"

definition validateVerificationDeps ::
  "string \<Rightarrow> planTask list \<Rightarrow> (string, string) gomap \<Rightarrow> ArtifactViolation list" where
  "validateVerificationDeps f tasks types =
     concat (map (\<lambda>t.
       report (pt_taskType t = ''verification'' \<and> \<not> (\<exists>dep \<in> set (pt_dependsOn t). code_type (task_type types dep)))
         (viol f ''plan/verification-requires-impl''
            (''verification task '' @ sq (pt_id t)
             @ '' must depend on at least one implementation or refactor task''))) tasks)"

definition dep_type_check ::
  "string \<Rightarrow> string \<Rightarrow> string \<Rightarrow> string list \<Rightarrow> string \<Rightarrow> planTask list \<Rightarrow> (string, string) gomap \<Rightarrow> ArtifactViolation list" where
  "dep_type_check f rule kind allowed list_text tasks types =
     concat (map (\<lambda>t. if pt_taskType t \<noteq> kind then [] else
       concat (map (\<lambda>dep. let dt = task_type types dep in
         report (dt \<noteq> [] \<and> dt \<notin> set allowed)
           (viol f rule
              (kind @ '' task '' @ sq (pt_id t) @ '' depends on '' @ dt @ '' task '' @ sq dep
               @ '' (allowed: '' @ list_text @ '')''))) (pt_dependsOn t))) tasks)"

definition validateRefactorDeps ::
  "string \<Rightarrow> planTask list \<Rightarrow> (string, string) gomap \<Rightarrow> ArtifactViolation list" where
  "validateRefactorDeps f =
     dep_type_check f ''plan/refactor-invalid-dependency'' ''refactor'' [''implementation'', ''refactor'', ''test'']
       ''implementation, refactor, test''"

definition validateTestTaskDeps ::
  "string \<Rightarrow> planTask list \<Rightarrow> (string, string) gomap \<Rightarrow> ArtifactViolation list" where
  "validateTestTaskDeps f =
     dep_type_check f ''plan/test-invalid-dependency'' ''test'' [''setup'', ''test'', ''verification'']
       ''setup, test, verification''"

text \<open>The tasks of a phase as the phase checks re-read them: the maps of its array, if it has one.\<close>

definition phase_maps :: "yval list \<Rightarrow> frontmatter list" where
  "phase_maps phases = List.map_filter as_map phases"

definition phase_task_maps :: "frontmatter \<Rightarrow> frontmatter list option" where
  "phase_task_maps phase =
     map_option (List.map_filter as_map) (Option.bind (map_of phase ''tasks'') as_list)"

definition validateGateCadence ::
  "string \<Rightarrow> yval list \<Rightarrow> (string, string) gomap \<Rightarrow> ArtifactViolation list" where
  "validateGateCadence f phases types =
     concat (map (\<lambda>phase. case phase_task_maps phase of
         None \<Rightarrow> []
       | Some tasks \<Rightarrow>
           (let tt = (\<lambda>task. task_type types (map_string task ''id'')) in
            report ((\<exists>task \<in> set tasks. code_type (tt task)) \<and> \<not> (\<exists>task \<in> set tasks. tt task = ''verification''))
              (viol f ''plan/gate-cadence-missing''
                 (''phase '' @ sq (map_string phase ''id'')
                  @ '' has implementation/refactor tasks but no verification task (gate cadence enforcement)''))))
       (phase_maps phases))"

definition validateFinalPhase ::
  "string \<Rightarrow> yval list \<Rightarrow> (string, string) gomap \<Rightarrow> ArtifactViolation list" where
  "validateFinalPhase f phases types =
     (if phases = [] then []
      else case as_map (last phases) of
        None \<Rightarrow> []
      | Some phase \<Rightarrow>
          (case phase_task_maps phase of
             None \<Rightarrow> []
           | Some tasks \<Rightarrow>
               report (\<not> (\<exists>task \<in> set tasks. task_type types (map_string task ''id'') = ''verification''))
                 (viol f ''plan/final-phase-no-verification''
                    (''final phase '' @ sq (map_string phase ''id'')
                     @ '' must contain at least one verification task''))))"

subsection \<open>Dependency closure and file exclusivity\<close>

text \<open>
  A \<open>[]map[int]bool\<close> is a list of rows, each the list of the keys it holds.  \<^emph>\<open>close_row\<close> is the body of
  the two outer loops: row \<open>i\<close> takes the keys of row \<open>k\<close> when it holds \<open>k\<close>.
\<close>

definition close_row :: "nat \<Rightarrow> nat \<Rightarrow> nat list list \<Rightarrow> nat list list" where
  "close_row k i rows =
     (if k \<in> set (rows ! i) then rows[i := fold List.insert (rows ! k) (rows ! i)] else rows)"

definition close_at :: "nat \<Rightarrow> nat \<Rightarrow> nat list list \<Rightarrow> nat list list" where
  "close_at n k rows = fold (close_row k) [0..<n] rows"

definition transitive_closure :: "nat \<Rightarrow> nat list list \<Rightarrow> nat list list" where
  "transitive_closure n rows = fold (close_at n) [0..<n] rows"

definition task_index :: "planTask list \<Rightarrow> (string, nat) gomap" where
  "task_index tasks =
     fold (\<lambda>(i, t) m. if pt_id t \<noteq> [] then map_set (pt_id t) i m else m) (enumerate 0 tasks) []"

definition direct_rows :: "planTask list \<Rightarrow> nat list list" where
  "direct_rows tasks =
     map (\<lambda>t. fold (\<lambda>dep row. case map_of (task_index tasks) dep of Some j \<Rightarrow> List.insert j row | None \<Rightarrow> row)
                   (pt_dependsOn t) []) tasks"

definition cycle_violation :: "string \<Rightarrow> planTask list \<Rightarrow> nat \<Rightarrow> ArtifactViolation" where
  "cycle_violation f tasks i =
     viol f ''plan/dependency-cycle'' (''task '' @ sq (pt_id (tasks ! i)) @ '' is part of a dependency cycle'')"

definition sharing_violation :: "string \<Rightarrow> planTask list \<Rightarrow> nat \<Rightarrow> nat \<Rightarrow> string \<Rightarrow> ArtifactViolation" where
  "sharing_violation f tasks i j g =
     viol f ''plan/file-exclusivity''
       (''D-081: parallel-eligible tasks '' @ sq (pt_id (tasks ! i)) @ '' and '' @ sq (pt_id (tasks ! j))
        @ '' both touch file '' @ sq g)"

definition checkFileExclusivity :: "string \<Rightarrow> planTask list \<Rightarrow> ArtifactViolation list" where
  "checkFileExclusivity f tasks =
     (let n = length tasks; depends = transitive_closure n (direct_rows tasks) in
      concat (map (\<lambda>i. report (i \<in> set (depends ! i)) (cycle_violation f tasks i)) [0..<n])
      @ concat (map (\<lambda>i. concat (map (\<lambda>j.
          if j \<in> set (depends ! i) \<or> i \<in> set (depends ! j) then []
          else concat (map (\<lambda>g. report (g \<in> set (pt_files (tasks ! i))) (sharing_violation f tasks i j g))
                           (pt_files (tasks ! j)))) [Suc i..<n])) [0..<n]))"

text \<open>The phase-level check; Go ranges over the file set of a phase in an unspecified order.\<close>

record phaseInfo =
  pi_id :: string
  pi_files :: "string list"
  pi_taskIDs :: "string list"

definition phase_info :: "frontmatter \<Rightarrow> phaseInfo" where
  "phase_info phase =
     (let tasks = (case phase_task_maps phase of None \<Rightarrow> [] | Some ts \<Rightarrow> ts) in
      \<lparr>pi_id = map_string phase ''id'',
       pi_files = remdups (concat (map files_of tasks)),
       pi_taskIDs = List.map_filter (\<lambda>task. Option.bind (map_of task ''id'') as_string) tasks\<rparr>)"

definition phase_index :: "phaseInfo list \<Rightarrow> (string, nat) gomap" where
  "phase_index infos =
     fold (\<lambda>(i, info) m. fold (\<lambda>tid m. map_set tid i m) (pi_taskIDs info) m) (enumerate 0 infos) []"

definition phase_dep_step :: "(string, nat) gomap \<Rightarrow> planTask \<Rightarrow> nat list list \<Rightarrow> nat list list" where
  "phase_dep_step idx t rows =
     (case map_of idx (pt_id t) of
        None \<Rightarrow> rows
      | Some p \<Rightarrow> fold (\<lambda>dep rows. case map_of idx dep of
                     Some q \<Rightarrow> (if p \<noteq> q then rows[p := List.insert q (rows ! p)] else rows)
                   | None \<Rightarrow> rows) (pt_dependsOn t) rows)"

definition phase_rows :: "phaseInfo list \<Rightarrow> planTask list \<Rightarrow> nat list list" where
  "phase_rows infos tasks = fold (phase_dep_step (phase_index infos)) tasks (replicate (length infos) [])"

definition checkPhaseFileExclusivity :: "string \<Rightarrow> yval list \<Rightarrow> planTask list \<Rightarrow> ArtifactViolation list" where
  "checkPhaseFileExclusivity f phases allTasks =
     (if length phases < 2 then []
      else let infos = map phase_info (phase_maps phases); n = length infos;
               deps = transitive_closure n (phase_rows infos allTasks)
           in concat (map (\<lambda>i. concat (map (\<lambda>j.
                if j \<in> set (deps ! i) \<or> i \<in> set (deps ! j) then []
                else concat (map (\<lambda>g. report (g \<in> set (pi_files (infos ! j)))
                       (viol f ''plan/phase-file-exclusivity''
                          (''parallel-eligible phases '' @ sq (pi_id (infos ! i)) @ '' and '' @ sq (pi_id (infos ! j))
                           @ '' both touch file '' @ sq g)))
                     (pi_files (infos ! i)))) [Suc i..<n])) [0..<n]))"

subsection \<open>The validator\<close>

definition scan_checks :: "string \<Rightarrow> yval list \<Rightarrow> phase_scan \<Rightarrow> ArtifactViolation list" where
  "scan_checks f phases s =
     (let tasks = sc_tasks s; types = type_map tasks in
      sc_violations s
      @ unknown_dependencies f tasks (sc_taskIDs s)
      @ concat (map (task_type_check f) tasks)
      @ validateTDD f tasks types
      @ validateGateCadence f phases types
      @ validateVerificationDeps f tasks types
      @ validateRefactorDeps f tasks types
      @ validateTestTaskDeps f tasks types
      @ validateFinalPhase f phases types
      @ checkPhaseFileExclusivity f phases tasks
      @ checkFileExclusivity f tasks)"

definition validatePhases :: "ParsedArtifact \<Rightarrow> ArtifactViolation list" where
  "validatePhases art =
     (let f = pa_Filename art in
      case map_of (pa_Frontmatter art) ''phases'' of
        None \<Rightarrow> [viol f ''plan/phases-required'' ''phases array is missing from frontmatter'']
      | Some v \<Rightarrow>
          (case as_list v of
             None \<Rightarrow> [viol f ''plan/phases-required'' ''phases is not a valid array'']
           | Some phases \<Rightarrow>
               (if phases = [] then [viol f ''plan/phases-empty'' ''phases array must contain at least one phase'']
                else scan_checks f phases (scan_phases f phases))))"

definition plan_id_checks :: "ParsedArtifact \<Rightarrow> ArtifactViolation list" where
  "plan_id_checks art =
     (let f = pa_Filename art; planID = getFrontmatterString art ''plan_id'';
          specID = getFrontmatterString art ''spec_id'' in
      report (\<not> rx_match planFileRe f)
        (viol f ''plan/filename-pattern'' ''filename must match PLAN-*-NNN-slug.plan.yml pattern'')
      @ (if planID = [] then [viol f ''plan/plan-id-required'' ''plan_id is required'']
         else report (\<not> rx_match planIDRe planID)
           (viol f ''plan/plan-id-pattern''
              (''plan_id '' @ sq planID @ '' must match PLAN-SPEC-NNN or PLAN-ISSUE-NNN'')))
      @ report (planID \<noteq> [] \<and> rx_match planFileRe f \<and> \<not> HasPrefix f (planID @ ''-''))
          (viol f ''plan/id-filename-mismatch'' (''filename must start with plan_id '' @ sq (planID @ ''-'')))
      @ (if specID = [] then [viol f ''plan/spec-id-required'' ''spec_id is required (SPEC-NNN or ISSUE-NNN)'']
         else report (\<not> rx_match specIDRe specID)
           (viol f ''plan/spec-id-pattern'' (''spec_id '' @ sq specID @ '' must match SPEC-NNN or ISSUE-NNN''))))"

definition plan_status_checks :: "ParsedArtifact \<Rightarrow> ArtifactViolation list" where
  "plan_status_checks art =
     (let f = pa_Filename art; status = getFrontmatterString art ''status'';
          created = getFrontmatterString art ''created'' in
      (if status = [] then
         [viol f ''plan/status-required''
            ''status is required (draft, ready, implementing, completed, replaced, canceled, obsoleted)'']
       else report (status \<notin> set planStatuses)
         (viol f ''plan/invalid-status''
            (''status '' @ sq status
             @ '' is not valid (draft, ready, implementing, completed, replaced, canceled, obsoleted)'')))
      @ validateRetirementFields art status ''plan''
      @ (if created = [] then [viol f ''plan/created-required'' ''created date is required (YYYY-MM-DD)'']
         else report (\<not> rx_match dateRe created)
           (viol f ''plan/created-format'' (''created '' @ sq created @ '' must match YYYY-MM-DD format''))))"

definition valid_threshold :: "yval \<Rightarrow> bool" where
  "valid_threshold v =
     (case v of VInt n \<Rightarrow> 0 \<le> n \<and> n \<le> 100
      | VFloat r _ \<Rightarrow> 0 \<le> r \<and> r \<le> 100 \<and> r = of_int \<lfloor>r\<rfloor>
      | _ \<Rightarrow> False)"

definition plan_option_checks :: "ParsedArtifact \<Rightarrow> ArtifactViolation list" where
  "plan_option_checks art =
     (let f = pa_Filename art; fm = pa_Frontmatter art in
      (case map_of fm ''coverage_threshold'' of
         None \<Rightarrow> []
       | Some v \<Rightarrow> report (\<not> valid_threshold v)
           (viol f ''plan/coverage-threshold-range''
              (''coverage_threshold must be an integer 0-100, got '' @ fmt_v v)))
      @ concat (map (\<lambda>field. case map_of fm field of
            None \<Rightarrow> []
          | Some v \<Rightarrow> report (as_string v = None)
              (viol f ''plan/field-type'' (sq field @ '' must be a string, got '' @ type_name v)))
          [''spec_version'', ''target_repo'', ''target_module'', ''test_command'', ''notes'']))"

definition Plan :: "ParsedArtifact \<Rightarrow> ValidationResult" where
  "Plan art = result_of
     (plan_id_checks art @ plan_status_checks art @ plan_option_checks art
      @ (if isTerminalStatus (getFrontmatterString art ''status'') then [] else validatePhases art))"

subsection \<open>The closure is the transitive closure\<close>

definition row_rel :: "nat list list \<Rightarrow> (nat \<times> nat) set" where
  "row_rel rows = {(i, j). i < length rows \<and> j \<in> set (rows ! i)}"

lemma set_fold_insert [simp]: "set (fold List.insert xs ys) = set xs \<union> set ys"
  by (induction xs arbitrary: ys) auto

lemma length_close_row [simp]: "length (close_row k i rows) = length rows"
  by (simp add: close_row_def)

lemma length_close_rows [simp]: "length (fold (close_row k) is rows) = length rows"
  by (induction "is" arbitrary: rows) auto

lemma length_close_at [simp]: "length (close_at n k rows) = length rows"
  by (simp add: close_at_def)

lemma length_closure [simp]: "length (transitive_closure n rows) = length rows"
proof -
  have "length (fold (close_at n) ks rows) = length rows" for ks
    by (induction ks arbitrary: rows) auto
  then show ?thesis by (simp add: transitive_closure_def)
qed

lemma row_rel_close_row:
  assumes "i < length rows" "k < length rows"
  shows "row_rel (close_row k i rows) =
           row_rel rows \<union> {(i, j) | j. (i, k) \<in> row_rel rows \<and> (k, j) \<in> row_rel rows}"
  using assms by (auto simp: row_rel_def close_row_def nth_list_update split: if_splits)

lemma row_rel_close_rows:
  assumes "m \<le> length rows" "k < length rows"
  shows "row_rel (fold (close_row k) [0..<m] rows) =
           row_rel rows \<union> {(i, j). i < m \<and> (i, k) \<in> row_rel rows \<and> (k, j) \<in> row_rel rows}"
  using assms(1)
proof (induction m)
  case (Suc m)
  then have "row_rel (fold (close_row k) [0..<Suc m] rows) =
      row_rel (close_row k m (fold (close_row k) [0..<m] rows))" by simp
  also have "\<dots> = row_rel (fold (close_row k) [0..<m] rows) \<union>
      {(m, j) | j. (m, k) \<in> row_rel (fold (close_row k) [0..<m] rows)
                 \<and> (k, j) \<in> row_rel (fold (close_row k) [0..<m] rows)}"
    using Suc.prems assms(2) by (intro row_rel_close_row) simp_all
  also have "\<dots> = row_rel rows \<union> {(i, j). i < Suc m \<and> (i, k) \<in> row_rel rows \<and> (k, j) \<in> row_rel rows}"
    using Suc by (auto simp: less_Suc_eq)
  finally show ?case .
qed auto

lemma row_rel_close_at:
  assumes "n = length rows" "k < n"
  shows "row_rel (close_at n k rows) =
           row_rel rows \<union> {(i, j). (i, k) \<in> row_rel rows \<and> (k, j) \<in> row_rel rows}"
  using row_rel_close_rows [of n rows k] assms by (auto simp: close_at_def row_rel_def)

text \<open>
  After the rows of the nodes below \<open>m\<close> are processed the relation is closed at each of them, and it
  stays between the direct dependencies and their transitive closure.
\<close>

definition closed_at :: "(nat \<times> nat) set \<Rightarrow> nat \<Rightarrow> bool" where
  "closed_at R m \<longleftrightarrow> (\<forall>a b. (a, m) \<in> R \<and> (m, b) \<in> R \<longrightarrow> (a, b) \<in> R)"

lemma closed_at_keeps:
  assumes "closed_at R m"
  shows "closed_at (R \<union> {(i, j). (i, k) \<in> R \<and> (k, j) \<in> R}) m"
  using assms unfolding closed_at_def by blast

lemma closed_at_new: "closed_at (R \<union> {(i, j). (i, k) \<in> R \<and> (k, j) \<in> R}) k"
  unfolding closed_at_def by blast

lemma closure_invariant:
  assumes "m \<le> length rows"
  defines "R \<equiv> row_rel (fold (close_at (length rows)) [0..<m] rows)"
  shows "row_rel rows \<subseteq> R" "R \<subseteq> (row_rel rows)\<^sup>+" "\<forall>k < m. closed_at R k"
proof -
  have "row_rel rows \<subseteq> row_rel (fold (close_at (length rows)) [0..<m] rows)
      \<and> row_rel (fold (close_at (length rows)) [0..<m] rows) \<subseteq> (row_rel rows)\<^sup>+
      \<and> (\<forall>k < m. closed_at (row_rel (fold (close_at (length rows)) [0..<m] rows)) k)"
    using assms(1)
  proof (induction m)
    case (Suc m)
    let ?S = "row_rel (fold (close_at (length rows)) [0..<m] rows)"
    have len: "length (fold (close_at (length rows)) ks rows) = length rows" for ks
      by (induction ks rule: rev_induct) simp_all
    have step: "row_rel (fold (close_at (length rows)) [0..<Suc m] rows) =
        ?S \<union> {(i, j). (i, m) \<in> ?S \<and> (m, j) \<in> ?S}"
      using row_rel_close_at [of "length rows" "fold (close_at (length rows)) [0..<m] rows" m] Suc.prems
      by (simp add: len)
    from Suc have IH: "row_rel rows \<subseteq> ?S" "?S \<subseteq> (row_rel rows)\<^sup>+" "\<forall>k < m. closed_at ?S k" by simp_all
    have "{(i, j). (i, m) \<in> ?S \<and> (m, j) \<in> ?S} \<subseteq> (row_rel rows)\<^sup>+"
      using IH(2) by (auto intro: trancl_trans)
    moreover have "\<forall>k < Suc m. closed_at (?S \<union> {(i, j). (i, m) \<in> ?S \<and> (m, j) \<in> ?S}) k"
    proof (intro allI impI)
      fix k assume "k < Suc m"
      then consider "k < m" | "k = m" by linarith
      then show "closed_at (?S \<union> {(i, j). (i, m) \<in> ?S \<and> (m, j) \<in> ?S}) k"
      proof cases
        case 1
        with IH(3) show ?thesis by (blast intro: closed_at_keeps)
      next
        case 2
        show ?thesis unfolding 2 by (rule closed_at_new)
      qed
    qed
    ultimately show ?case using IH unfolding step by blast
  qed auto
  then show "row_rel rows \<subseteq> R" "R \<subseteq> (row_rel rows)\<^sup>+" "\<forall>k < m. closed_at R k"
    by (simp_all add: R_def)
qed

lemma row_rel_closure:
  assumes "\<And>i j. (i, j) \<in> row_rel rows \<Longrightarrow> j < length rows"
  shows "row_rel (transitive_closure (length rows) rows) = (row_rel rows)\<^sup>+"
proof -
  let ?R = "row_rel (transitive_closure (length rows) rows)"
  have inv: "row_rel rows \<subseteq> ?R" "?R \<subseteq> (row_rel rows)\<^sup>+" "\<forall>k < length rows. closed_at ?R k"
    using closure_invariant [of "length rows" rows] by (simp_all add: transitive_closure_def)
  have trans: "(a, b) \<in> ?R \<Longrightarrow> (b, c) \<in> ?R \<Longrightarrow> (a, c) \<in> ?R" for a b c
  proof -
    assume ab: "(a, b) \<in> ?R" and bc: "(b, c) \<in> ?R"
    then have "b < length rows" by (simp add: row_rel_def)
    with inv(3) have "closed_at ?R b" by blast
    with ab bc show ?thesis unfolding closed_at_def by blast
  qed
  have "(row_rel rows)\<^sup>+ \<subseteq> ?R"
  proof
    fix p assume "p \<in> (row_rel rows)\<^sup>+"
    then show "p \<in> ?R"
    proof (cases p)
      case (Pair a b)
      with \<open>p \<in> (row_rel rows)\<^sup>+\<close> have "(a, b) \<in> (row_rel rows)\<^sup>+" by simp
      then have "(a, b) \<in> ?R"
      proof (induction rule: trancl_induct)
        case (base y)
        then show ?case using inv(1) by blast
      next
        case (step y z)
        then show ?case using inv(1) trans [of a y z] by blast
      qed
      then show ?thesis by (simp add: Pair)
    qed
  qed
  with inv(2) show ?thesis by blast
qed

subsection \<open>What the exclusivity check reports\<close>

text \<open>
  A dependency names the last task with that identifier; \<^emph>\<open>dep_edges\<close> is the dependency relation on the
  positions of the tasks.
\<close>

definition names_task :: "planTask list \<Rightarrow> string \<Rightarrow> nat \<Rightarrow> bool" where
  "names_task tasks dep j \<longleftrightarrow>
     dep \<noteq> [] \<and> j < length tasks \<and> pt_id (tasks ! j) = dep
     \<and> (\<forall>k. j < k \<and> k < length tasks \<longrightarrow> pt_id (tasks ! k) \<noteq> dep)"

definition dep_edges :: "planTask list \<Rightarrow> (nat \<times> nat) set" where
  "dep_edges tasks =
     {(i, j). i < length tasks \<and> (\<exists>dep \<in> set (pt_dependsOn (tasks ! i)). names_task tasks dep j)}"

lemma task_index_snoc:
  "task_index (tasks @ [t]) =
     (if pt_id t \<noteq> [] then map_set (pt_id t) (length tasks) (task_index tasks) else task_index tasks)"
  by (simp add: task_index_def enumerate_append_eq)

lemma names_task_snoc:
  "names_task (tasks @ [t]) dep j \<longleftrightarrow>
     (if dep \<noteq> [] \<and> pt_id t = dep then j = length tasks else names_task tasks dep j)"
proof (cases "j < length tasks")
  case True
  have "(\<forall>k. j < k \<and> k < Suc (length tasks) \<longrightarrow> pt_id ((tasks @ [t]) ! k) \<noteq> dep) \<longleftrightarrow>
      (\<forall>k. j < k \<and> k < length tasks \<longrightarrow> pt_id (tasks ! k) \<noteq> dep) \<and> pt_id t \<noteq> dep" (is "?l \<longleftrightarrow> ?r")
  proof
    assume l: ?l
    have "pt_id (tasks ! k) \<noteq> dep" if "j < k \<and> k < length tasks" for k
      using l [rule_format, of k] that by (simp add: nth_append)
    moreover have "pt_id t \<noteq> dep" using l [rule_format, of "length tasks"] True by simp
    ultimately show ?r by blast
  qed (simp add: nth_append less_Suc_eq)
  with True show ?thesis by (simp add: names_task_def nth_append)
next
  case False
  then show ?thesis by (cases "j = length tasks") (auto simp: names_task_def)
qed

lemma task_index_names: "map_of (task_index tasks) dep = Some j \<longleftrightarrow> names_task tasks dep j"
proof (induction tasks rule: rev_induct)
  case (snoc t tasks)
  then show ?case by (auto simp: task_index_snoc names_task_snoc)
qed (simp add: task_index_def names_task_def)

lemma set_index_row:
  "set (fold (\<lambda>dep row. case map_of idx dep of Some j \<Rightarrow> List.insert j row | None \<Rightarrow> row) deps row) =
     set row \<union> {j. \<exists>dep \<in> set deps. map_of idx dep = Some j}"
  by (induction deps arbitrary: row) (auto split: option.split)

lemma row_rel_direct: "row_rel (direct_rows tasks) = dep_edges tasks"
  by (auto simp: row_rel_def direct_rows_def dep_edges_def set_index_row task_index_names)

lemma depends_exact:
  assumes "i < length tasks"
  shows "j \<in> set (transitive_closure (length tasks) (direct_rows tasks) ! i) \<longleftrightarrow> (i, j) \<in> (dep_edges tasks)\<^sup>+"
proof -
  have "row_rel (transitive_closure (length (direct_rows tasks)) (direct_rows tasks)) = (dep_edges tasks)\<^sup>+"
    using row_rel_closure [of "direct_rows tasks"]
    by (simp add: row_rel_direct) (simp add: dep_edges_def names_task_def direct_rows_def)
  moreover have "length (direct_rows tasks) = length tasks" by (simp add: direct_rows_def)
  ultimately show ?thesis using assms by (auto simp: row_rel_def)
qed

lemma in_concat_map: "v \<in> set (concat (map h xs)) \<longleftrightarrow> (\<exists>x \<in> set xs. v \<in> set (h x))"
  by auto

text \<open>The list the loops over the pairs and the files build.\<close>

lemma set_pair_reports:
  "v \<in> set (concat (map (\<lambda>i. concat (map (\<lambda>j.
       if P i j then [] else concat (map (\<lambda>g. report (Q i g) (V i j g)) (G j))) [Suc i..<n])) [0..<n]))
   \<longleftrightarrow> (\<exists>i j g. i < j \<and> j < n \<and> \<not> P i j \<and> g \<in> set (G j) \<and> Q i g \<and> v = V i j g)" (is "?l \<longleftrightarrow> ?r")
proof
  assume ?l
  then obtain i j g where "i < n" "Suc i \<le> j" "j < n" "\<not> P i j" "g \<in> set (G j)" "Q i g" "v = V i j g"
    by (auto split: if_splits)
  moreover from this have "i < j" by simp
  ultimately show ?r by blast
next
  assume ?r
  then obtain i j g where w: "i < j" "j < n" "\<not> P i j" "g \<in> set (G j)" "Q i g" "v = V i j g" by blast
  then have "v \<in> set (if P i j then [] else concat (map (\<lambda>g. report (Q i g) (V i j g)) (G j)))" by auto
  moreover from w have "j \<in> set [Suc i..<n]" "i \<in> set [0..<n]" by auto
  ultimately show ?l unfolding in_concat_map by blast
qed

lemma exclusivity_reports:
  "v \<in> set (checkFileExclusivity f tasks) \<longleftrightarrow>
     (\<exists>i. i < length tasks \<and> (i, i) \<in> (dep_edges tasks)\<^sup>+ \<and> v = cycle_violation f tasks i)
     \<or> (\<exists>i j g. i < j \<and> j < length tasks \<and> (i, j) \<notin> (dep_edges tasks)\<^sup>+ \<and> (j, i) \<notin> (dep_edges tasks)\<^sup>+
          \<and> g \<in> set (pt_files (tasks ! i)) \<inter> set (pt_files (tasks ! j)) \<and> v = sharing_violation f tasks i j g)"
  (is "?l \<longleftrightarrow> ?cycle \<or> ?sharing")
proof -
  let ?d = "transitive_closure (length tasks) (direct_rows tasks)"
  have cycle: "(\<exists>i. i < length tasks \<and> i \<in> set (?d ! i) \<and> v = cycle_violation f tasks i) \<longleftrightarrow> ?cycle"
    using depends_exact [of _ tasks] by auto
  have sharing: "(\<exists>i j g. i < j \<and> j < length tasks \<and> \<not> (j \<in> set (?d ! i) \<or> i \<in> set (?d ! j))
        \<and> g \<in> set (pt_files (tasks ! j)) \<and> g \<in> set (pt_files (tasks ! i)) \<and> v = sharing_violation f tasks i j g)
      \<longleftrightarrow> ?sharing"
  proof -
    have "j \<in> set (?d ! i) \<longleftrightarrow> (i, j) \<in> (dep_edges tasks)\<^sup>+" "i \<in> set (?d ! j) \<longleftrightarrow> (j, i) \<in> (dep_edges tasks)\<^sup>+"
      if "i < j" "j < length tasks" for i j
      using that depends_exact [of i tasks j] depends_exact [of j tasks i] by simp_all
    then show ?thesis by (intro ex_cong1) auto
  qed
  have "?l \<longleftrightarrow> (\<exists>i. i < length tasks \<and> i \<in> set (?d ! i) \<and> v = cycle_violation f tasks i)
      \<or> (\<exists>i j g. i < j \<and> j < length tasks \<and> \<not> (j \<in> set (?d ! i) \<or> i \<in> set (?d ! j))
        \<and> g \<in> set (pt_files (tasks ! j)) \<and> g \<in> set (pt_files (tasks ! i)) \<and> v = sharing_violation f tasks i j g)"
    unfolding checkFileExclusivity_def Let_def set_append Un_iff set_pair_reports
    by (intro arg_cong2 [of _ _ _ _ "(\<or>)"] refl) auto
  then show ?thesis unfolding cycle sharing .
qed

text \<open>C23: What \<open>checkFileExclusivity\<close> reports, against the transitive closure of the dependency relation: a cycle
  for exactly the tasks that depend on themselves, and a shared file for exactly the pairs of tasks
  neither of which depends on the other, with that file in both lists.
\<close>

theorem exclusivity_exact:
  "v \<in> set (checkFileExclusivity f tasks) \<longleftrightarrow>
     (\<exists>i. i < length tasks \<and> (i, i) \<in> (dep_edges tasks)\<^sup>+ \<and> v = cycle_violation f tasks i)
     \<or> (\<exists>i j g. i < j \<and> j < length tasks \<and> (i, j) \<notin> (dep_edges tasks)\<^sup>+ \<and> (j, i) \<notin> (dep_edges tasks)\<^sup>+
          \<and> g \<in> set (pt_files (tasks ! i)) \<inter> set (pt_files (tasks ! j)) \<and> v = sharing_violation f tasks i j g)"
  by (rule exclusivity_reports)

subsection \<open>What the scan collects\<close>

definition phase_tasks :: "frontmatter \<Rightarrow> planTask list" where
  "phase_tasks phase =
     map (task_of (map_string phase ''id'')) (case phase_task_maps phase of None \<Rightarrow> [] | Some ts \<Rightarrow> ts)"

definition plan_tasks :: "yval list \<Rightarrow> planTask list" where
  "plan_tasks phases = concat (map phase_tasks (phase_maps phases))"

lemma found_simps [simp]:
  "sc_violations (found vs s) = sc_violations s @ vs" "sc_tasks (found vs s) = sc_tasks s"
  "sc_taskIDs (found vs s) = sc_taskIDs s" "sc_phaseIDs (found vs s) = sc_phaseIDs s"
  by (simp_all add: found_def)

lemma as_map_Some [simp]: "as_map v = Some m \<longleftrightarrow> v = VMap m" by (cases v) auto
lemma as_list_Some [simp]: "as_list v = Some xs \<longleftrightarrow> v = VList xs" by (cases v) auto
lemma as_string_Some [simp]: "as_string v = Some s \<longleftrightarrow> v = VStr s" by (cases v) auto

lemma phase_head_simps [simp]:
  "sc_tasks (phase_head f i phase s) = sc_tasks s" "sc_taskIDs (phase_head f i phase s) = sc_taskIDs s"
  by (simp_all add: phase_head_def Let_def)

lemma phase_head_clean: "sc_violations (phase_head f i phase s) = [] \<Longrightarrow> sc_violations s = []"
  by (simp add: phase_head_def Let_def)

lemma task_step_tasks:
  "sc_tasks (task_step f pid i (j, item) s) =
     sc_tasks s @ (case as_map item of None \<Rightarrow> [] | Some task \<Rightarrow> [task_of pid task])"
  by (simp add: task_step_def Let_def split: option.split)

lemma task_steps_tasks:
  "sc_tasks (fold (task_step f pid i) (enumerate k items) s) =
     sc_tasks s @ map (task_of pid) (List.map_filter as_map items)"
  by (induction items arbitrary: k s)
    (simp_all add: task_step_tasks map_filter_simps split: option.split)

lemma phase_step_tasks:
  "sc_tasks (phase_step f (i, item) s) =
     sc_tasks s @ (case as_map item of None \<Rightarrow> [] | Some phase \<Rightarrow> phase_tasks phase)"
proof (cases "as_map item")
  case (Some phase)
  show ?thesis
  proof (cases "Option.bind (map_of phase ''tasks'') as_list")
    case None
    then show ?thesis
      by (auto simp: Some phase_step_def phase_tasks_def phase_task_maps_def Let_def split: option.splits list.splits)
  next
    case (Some ts)
    with \<open>as_map item = Some phase\<close> show ?thesis
      by (cases ts) (auto simp: phase_step_def phase_tasks_def phase_task_maps_def Let_def task_steps_tasks
          map_filter_simps simp del: enumerate_simps split: option.splits bind_splits)
  qed
qed (simp add: phase_step_def Let_def)

lemma scan_tasks: "sc_tasks (scan_phases f phases) = plan_tasks phases"
proof -
  have "sc_tasks (fold (phase_step f) (enumerate k items) s) = sc_tasks s @ plan_tasks items" for k items s
    by (induction items arbitrary: k s)
      (simp_all add: phase_step_tasks plan_tasks_def phase_maps_def map_filter_simps split: option.split)
  then show ?thesis by (simp add: scan_phases_def)
qed

text \<open>While nothing is reported, the identifiers seen are those of the tasks, each once and none empty.\<close>

definition ids_ok :: "phase_scan \<Rightarrow> bool" where
  "ids_ok s \<longleftrightarrow>
     (sc_violations s = [] \<longrightarrow> sc_taskIDs s = map pt_id (sc_tasks s) \<and> distinct (sc_taskIDs s) \<and> [] \<notin> set (sc_taskIDs s))"

lemma id_check_Nil: "id_check i seen r d = [] \<longleftrightarrow> i \<noteq> [] \<and> i \<notin> set seen"
  by (simp add: id_check_def)

lemma task_step_ids: "ids_ok s \<Longrightarrow> ids_ok (task_step f pid i p s)"
  by (cases p) (auto simp: ids_ok_def task_step_def Let_def id_check_Nil note_id_def split: option.split)

lemma ids_ok_found: "ids_ok s \<Longrightarrow> ids_ok (found vs s)"
  by (auto simp: ids_ok_def)

lemma task_steps_ids: "ids_ok s \<Longrightarrow> ids_ok (fold (task_step f pid i) xs s)"
  by (induction xs arbitrary: s) (simp_all add: task_step_ids)

lemma ids_ok_phaseIDs [simp]: "ids_ok (s\<lparr>sc_phaseIDs := x\<rparr>) \<longleftrightarrow> ids_ok s"
  by (simp add: ids_ok_def)

lemma ids_ok_head: "ids_ok s \<Longrightarrow> ids_ok (phase_head f i phase s)"
  by (simp add: phase_head_def Let_def ids_ok_found)

lemma phase_step_ids: "ids_ok s \<Longrightarrow> ids_ok (phase_step f p s)"
  by (cases p)
    (auto simp: phase_step_def Let_def ids_ok_found ids_ok_head task_steps_ids simp del: enumerate_simps
      split: option.split list.split)

lemma scan_ids: "ids_ok (scan_phases f phases)"
proof -
  have "ids_ok s \<Longrightarrow> ids_ok (fold (phase_step f) xs s)" for xs s
    by (induction xs arbitrary: s) (simp_all add: phase_step_ids)
  moreover have "ids_ok \<lparr>sc_violations = [], sc_tasks = [], sc_phaseIDs = [], sc_taskIDs = []\<rparr>"
    by (simp add: ids_ok_def)
  ultimately show ?thesis unfolding scan_phases_def by blast
qed

subsection \<open>A passing plan\<close>

text \<open>The phases of a plan's frontmatter and its tasks, as far as they have the expected shape.\<close>

definition live_phases :: "ParsedArtifact \<Rightarrow> yval list" where
  "live_phases art = (case map_of (pa_Frontmatter art) ''phases'' of Some (VList ps) \<Rightarrow> ps | _ \<Rightarrow> [])"

definition live_plan :: "ParsedArtifact \<Rightarrow> bool" where
  "live_plan art \<longleftrightarrow> ValidationResult_Pass (Plan art) \<and> \<not> isTerminalStatus (getFrontmatterString art ''status'')"

lemma live_plan_scan:
  assumes "live_plan art"
  shows "scan_checks (pa_Filename art) (live_phases art) (scan_phases (pa_Filename art) (live_phases art)) = []"
    and "live_phases art \<noteq> []"
  using assms
  by (auto simp: live_plan_def ValidationResult_Pass_def Plan_def result_of_def validatePhases_def
      live_phases_def Let_def split: option.splits if_splits)

lemma report_list_Nil: "concat (map (\<lambda>x. report (P x) (V x)) xs) = [] \<longleftrightarrow> (\<forall>x \<in> set xs. \<not> P x)"
  by simp

lemma live_plan_tasks:
  assumes "live_plan art"
  defines "tasks \<equiv> plan_tasks (live_phases art)"
  shows "distinct (map pt_id tasks)" "[] \<notin> pt_id ` set tasks"
    and "\<And>t d. t \<in> set tasks \<Longrightarrow> d \<in> set (pt_dependsOn t) \<Longrightarrow> \<exists>u \<in> set tasks. pt_id u = d"
    and "\<And>t. t \<in> set tasks \<Longrightarrow> task_type_check (pa_Filename art) t = []"
proof -
  let ?s = "scan_phases (pa_Filename art) (live_phases art)"
  have ok: "scan_checks (pa_Filename art) (live_phases art) ?s = []" by (rule live_plan_scan [OF assms(1)])
  have tasks: "sc_tasks ?s = tasks" by (simp add: scan_tasks tasks_def)
  have "sc_violations ?s = []" using ok by (simp add: scan_checks_def Let_def)
  with scan_ids [of "pa_Filename art" "live_phases art"]
  have ids: "sc_taskIDs ?s = map pt_id tasks" "distinct (sc_taskIDs ?s)" "[] \<notin> set (sc_taskIDs ?s)"
    by (auto simp: ids_ok_def tasks)
  from ids(2, 3) show "distinct (map pt_id tasks)" "[] \<notin> pt_id ` set tasks" unfolding ids(1) by simp_all
  have unknown: "unknown_dependencies (pa_Filename art) tasks (map pt_id tasks) = []"
    and types: "concat (map (task_type_check (pa_Filename art)) tasks) = []"
    using ok by (simp_all add: scan_checks_def Let_def tasks ids)
  show "\<exists>u \<in> set tasks. pt_id u = d" if "t \<in> set tasks" "d \<in> set (pt_dependsOn t)" for t d
    using unknown that by (fastforce simp: unknown_dependencies_def)
  show "task_type_check (pa_Filename art) t = []" if "t \<in> set tasks" for t
    using types that by simp
qed

text \<open>The type map reads the type of the task with the identifier.\<close>

lemma type_map_fold:
  "distinct (map pt_id tasks) \<Longrightarrow> u \<in> set tasks \<Longrightarrow> pt_id u \<noteq> [] \<Longrightarrow> task_type (type_map tasks) (pt_id u) = pt_taskType u"
  unfolding type_map_def
  by (induction tasks rule: rev_induct) (auto simp: image_iff split: if_splits)

lemma type_map_other: "d \<notin> pt_id ` set tasks \<Longrightarrow> task_type (type_map tasks) d = []"
  unfolding type_map_def by (induction tasks rule: rev_induct) auto

subsection \<open>A passing plan can be scheduled\<close>

lemma topological_order:
  assumes "finite A" "acyclic E"
  shows "\<exists>xs. distinct xs \<and> set xs = A \<and> (\<forall>ys x zs. xs = ys @ x # zs \<longrightarrow> {j \<in> A. (x, j) \<in> E} \<subseteq> set ys)"
  using assms(1)
proof (induction "card A" arbitrary: A)
  case (Suc n)
  let ?R = "E \<inter> A \<times> A"
  have "acyclic ?R" using assms(2) by (rule acyclic_subset) blast
  moreover have "finite ?R" using Suc.prems by (meson finite_Int finite_SigmaI)
  ultimately have "wf ?R" by (simp add: finite_acyclic_wf)
  moreover from Suc(2) have "A \<noteq> {}" by auto
  ultimately obtain x where x: "x \<in> A" "\<And>y. (y, x) \<in> ?R \<Longrightarrow> y \<notin> A" by (meson wfE_min' )
  then have top: "(y, x) \<notin> E" if "y \<in> A" for y using that by blast
  have "n = card (A - {x})" using Suc.hyps(2) x(1) Suc.prems by simp
  with Suc.hyps(1) [of "A - {x}"] Suc.prems obtain xs where xs: "distinct xs" "set xs = A - {x}"
    "\<And>ys y zs. xs = ys @ y # zs \<Longrightarrow> {j \<in> A - {x}. (y, j) \<in> E} \<subseteq> set ys" by auto
  have "{j \<in> A. (y, j) \<in> E} \<subseteq> set ys" if "xs @ [x] = ys @ y # zs" for ys y zs
  proof (cases zs rule: rev_cases)
    case Nil
    with that have "ys = xs" "y = x" by simp_all
    with xs(2) top x(1) show ?thesis by auto
  next
    case (snoc ws w)
    with that have "xs = ys @ y # ws" by simp
    with xs have "{j \<in> A - {x}. (y, j) \<in> E} \<subseteq> set ys" "y \<in> A" by auto
    with top show ?thesis by blast
  qed
  with xs x(1) have "distinct (xs @ [x]) \<and> set (xs @ [x]) = A \<and>
      (\<forall>ys y zs. xs @ [x] = ys @ y # zs \<longrightarrow> {j \<in> A. (y, j) \<in> E} \<subseteq> set ys)" by auto
  then show ?case by blast
qed simp

text \<open>The dependency relation on the tasks themselves.\<close>

definition task_depends :: "planTask list \<Rightarrow> (planTask \<times> planTask) set" where
  "task_depends tasks = {(t, u). t \<in> set tasks \<and> u \<in> set tasks \<and> pt_id u \<in> set (pt_dependsOn t)}"

lemma dep_edges_distinct:
  assumes "distinct (map pt_id tasks)" "[] \<notin> pt_id ` set tasks"
  shows "(i, j) \<in> dep_edges tasks \<longleftrightarrow>
           i < length tasks \<and> j < length tasks \<and> pt_id (tasks ! j) \<in> set (pt_dependsOn (tasks ! i))"
proof -
  have "names_task tasks (pt_id (tasks ! j)) j" if "j < length tasks"
  proof -
    have "pt_id (tasks ! k) \<noteq> pt_id (tasks ! j)" if "j < k" "k < length tasks" for k
      using nth_eq_iff_index_eq [OF assms(1), of j k] that by simp
    moreover have "pt_id (tasks ! j) \<noteq> []" using assms(2) nth_mem [OF that] by (metis image_eqI)
    ultimately show ?thesis using that by (simp add: names_task_def)
  qed
  moreover have "j < length tasks \<and> dep = pt_id (tasks ! j)" if "names_task tasks dep j" for dep
    using that by (simp add: names_task_def)
  ultimately show ?thesis unfolding dep_edges_def by blast
qed

text \<open>No violation of the exclusivity check is left in a passing plan.\<close>

lemma live_plan_exclusive:
  assumes "live_plan art"
  defines "tasks \<equiv> plan_tasks (live_phases art)"
  shows "acyclic (dep_edges tasks)"
    and "\<And>i j g. i < j \<Longrightarrow> j < length tasks \<Longrightarrow> g \<in> set (pt_files (tasks ! i)) \<Longrightarrow> g \<in> set (pt_files (tasks ! j))
           \<Longrightarrow> (i, j) \<in> (dep_edges tasks)\<^sup>+ \<or> (j, i) \<in> (dep_edges tasks)\<^sup>+"
proof -
  have clean: "v \<notin> set (checkFileExclusivity (pa_Filename art) tasks)" for v
    using live_plan_scan(1) [OF assms(1)] by (simp add: scan_checks_def Let_def scan_tasks tasks_def)
  have "(i, i) \<notin> (dep_edges tasks)\<^sup>+" for i
  proof
    assume i: "(i, i) \<in> (dep_edges tasks)\<^sup>+"
    then have "i < length tasks" by (rule converse_tranclE) (auto simp: dep_edges_def)
    with i clean [of "cycle_violation (pa_Filename art) tasks i"] show False
      unfolding exclusivity_reports by blast
  qed
  then show "acyclic (dep_edges tasks)" by (simp add: acyclic_def)
  show "(i, j) \<in> (dep_edges tasks)\<^sup>+ \<or> (j, i) \<in> (dep_edges tasks)\<^sup>+"
    if "i < j" "j < length tasks" "g \<in> set (pt_files (tasks ! i))" "g \<in> set (pt_files (tasks ! j))" for i j g
    using that clean [of "sharing_violation (pa_Filename art) tasks i j g"] unfolding exclusivity_reports by blast
qed

lemma trancl_map_index:
  assumes "(i, j) \<in> E\<^sup>+" and "\<And>a b. (a, b) \<in> E \<Longrightarrow> (h a, h b) \<in> D"
  shows "(h i, h j) \<in> D\<^sup>+"
  using assms(1) by (induction rule: trancl_induct) (auto intro: assms(2) trancl_into_trancl)

text \<open>C25: A live plan that passes can be executed as written: its tasks have an order in which every task comes
  after all the tasks its \<open>depends_on\<close> names, and any two distinct tasks that list the same file are ordered by the
  dependencies, so no schedule that respects them runs the two at once.
\<close>

theorem passing_plan_schedulable:
  assumes "live_plan art"
  defines "tasks \<equiv> plan_tasks (live_phases art)"
  shows "(\<exists>order. distinct order \<and> set order = set tasks
            \<and> (\<forall>ys t zs. order = ys @ t # zs \<longrightarrow> set (pt_dependsOn t) \<subseteq> pt_id ` set ys))
       \<and> (\<forall>t \<in> set tasks. \<forall>u \<in> set tasks. t \<noteq> u \<longrightarrow> set (pt_files t) \<inter> set (pt_files u) \<noteq> {}
            \<longrightarrow> (t, u) \<in> (task_depends tasks)\<^sup>+ \<or> (u, t) \<in> (task_depends tasks)\<^sup>+)"
proof (intro conjI ballI impI)
  note ids = live_plan_tasks(1,2) [OF assms(1), folded tasks_def]
  note known = live_plan_tasks(3) [OF assms(1), folded tasks_def]
  note exclusive = live_plan_exclusive [OF assms(1), folded tasks_def]
  let ?E = "dep_edges tasks"
  from topological_order [OF finite_lessThan [of "length tasks"] exclusive(1)] obtain xs where
    xs: "distinct xs" "set xs = {..<length tasks}"
      "\<And>ys x zs. xs = ys @ x # zs \<Longrightarrow> {j. j < length tasks \<and> (x, j) \<in> ?E} \<subseteq> set ys"
    by (auto simp: lessThan_def)
  have inj: "inj_on ((!) tasks) (set xs)"
    using ids(1) xs(2) by (auto simp: inj_on_def distinct_map nth_eq_iff_index_eq)
  have "set (pt_dependsOn t) \<subseteq> pt_id ` set ys" if "map ((!) tasks) xs = ys @ t # zs" for ys t zs
  proof
    fix d assume d: "d \<in> set (pt_dependsOn t)"
    from that obtain ms x ns where split: "xs = ms @ x # ns" "ys = map ((!) tasks) ms" "t = tasks ! x"
      by (auto simp: map_eq_append_conv map_eq_Cons_conv)
    with xs(2) have "x < length tasks" by auto
    with known [of t d] d split(3) obtain u where "u \<in> set tasks" "pt_id u = d" by auto
    then obtain j where j: "j < length tasks" "pt_id (tasks ! j) = d" by (auto simp: in_set_conv_nth)
    with d split(3) \<open>x < length tasks\<close> have "(x, j) \<in> ?E" by (simp add: dep_edges_distinct [OF ids])
    with xs(3) [OF split(1)] j show "d \<in> pt_id ` set ys" by (auto simp: split(2))
  qed
  moreover have "distinct (map ((!) tasks) xs)" using xs(1) inj by (simp add: distinct_map)
  moreover have "set (map ((!) tasks) xs) = set tasks"
    unfolding set_map xs(2) by (metis atLeast_upt list.set_map map_nth)
  ultimately show "\<exists>order. distinct order \<and> set order = set tasks
      \<and> (\<forall>ys t zs. order = ys @ t # zs \<longrightarrow> set (pt_dependsOn t) \<subseteq> pt_id ` set ys)" by blast
  fix t u assume tu: "t \<in> set tasks" "u \<in> set tasks" "t \<noteq> u" "set (pt_files t) \<inter> set (pt_files u) \<noteq> {}"
  from tu(1,2) obtain i j where ij: "i < length tasks" "tasks ! i = t" "j < length tasks" "tasks ! j = u"
    by (auto simp: in_set_conv_nth)
  from tu(4) obtain g where "g \<in> set (pt_files t)" "g \<in> set (pt_files u)" by blast
  with ij tu(3) exclusive(2) [of i j g] exclusive(2) [of j i g]
  have "(i, j) \<in> ?E\<^sup>+ \<or> (j, i) \<in> ?E\<^sup>+" by (cases i j rule: linorder_cases) auto
  moreover have "(tasks ! a, tasks ! b) \<in> task_depends tasks" if "(a, b) \<in> ?E" for a b
    using that by (simp add: dep_edges_distinct [OF ids] task_depends_def)
  ultimately show "(t, u) \<in> (task_depends tasks)\<^sup>+ \<or> (u, t) \<in> (task_depends tasks)\<^sup>+"
    using trancl_map_index [of i j ?E "\<lambda>k. tasks ! k" "task_depends tasks"]
      trancl_map_index [of j i ?E "\<lambda>k. tasks ! k" "task_depends tasks"] ij(2,4) by metis
qed

text \<open>A plan for the examples: a test, its implementation and the verification of both.\<close>

definition demo_task :: "string \<Rightarrow> string \<Rightarrow> string list \<Rightarrow> string list \<Rightarrow> yval" where
  "demo_task i ty fs deps = VMap
     [(''id'', VStr i), (''type'', VStr ty), (''title'', VStr ''t''), (''description'', VStr ''d''),
      (''files'', VList (map VStr fs)), (''claims'', VList [VStr ''CLM-001'']), (''depends_on'', VList (map VStr deps))]"

definition demo_plan_phases :: "yval list" where
  "demo_plan_phases =
     [VMap [(''id'', VStr ''P1''), (''name'', VStr ''one''),
            (''tasks'', VList [demo_task ''T1'' ''test'' [''a_test.go''] [],
                             demo_task ''T2'' ''implementation'' [''a.go''] [''T1''],
                             demo_task ''T3'' ''verification'' [''a.go''] [''T2'']])]]"

definition demo_plan_with :: "yval list \<Rightarrow> ParsedArtifact" where
  "demo_plan_with phases =
     \<lparr>pa_Filename = ''PLAN-SPEC-001-a.plan.yml'', pa_SourcePath = [], pa_Title = [], pa_Metadata = [],
      pa_Frontmatter =
        [(''plan_id'', VStr ''PLAN-SPEC-001''), (''spec_id'', VStr ''SPEC-001''), (''status'', VStr ''ready''),
         (''created'', VStr ''2026-01-31''), (''phases'', VList phases)],
      pa_Sections = []\<rparr>"

definition demo_plan :: ParsedArtifact where "demo_plan = demo_plan_with demo_plan_phases"

lemma demo_plan_live: "live_plan demo_plan"
  by code_simp

lemma demo_plan_tasks:
  "plan_tasks (live_phases demo_plan) =
     [\<lparr>pt_id = ''T1'', pt_files = [''a_test.go''], pt_dependsOn = [], pt_phaseID = ''P1'', pt_taskType = ''test''\<rparr>,
      \<lparr>pt_id = ''T2'', pt_files = [''a.go''], pt_dependsOn = [''T1''], pt_phaseID = ''P1'', pt_taskType = ''implementation''\<rparr>,
      \<lparr>pt_id = ''T3'', pt_files = [''a.go''], pt_dependsOn = [''T2''], pt_phaseID = ''P1'', pt_taskType = ''verification''\<rparr>]"
  by code_simp

theorem passing_plan_schedulable_witness:
  "\<exists>order. distinct order \<and> set order = set (plan_tasks (live_phases demo_plan))
     \<and> (\<forall>ys t zs. order = ys @ t # zs \<longrightarrow> set (pt_dependsOn t) \<subseteq> pt_id ` set ys)"
  using passing_plan_schedulable [OF demo_plan_live] by (rule conjunct1)

subsection \<open>The disciplines of a passing plan\<close>

text \<open>A scan without findings has read phases that are maps with a non-empty array of task maps.\<close>

definition phase_item_ok :: "yval \<Rightarrow> bool" where
  "phase_item_ok item \<longleftrightarrow> (\<exists>phase ts. item = VMap phase \<and> map_of phase ''tasks'' = Some (VList ts) \<and> ts \<noteq> []
                            \<and> set ts \<subseteq> range VMap)"

lemma task_step_clean: "sc_violations (task_step f pid i (j, t) s) = [] \<Longrightarrow> sc_violations s = [] \<and> t \<in> range VMap"
  by (auto simp: task_step_def Let_def split: option.splits)

lemma task_steps_clean:
  "sc_violations (fold (task_step f pid i) (enumerate k ts) s) = [] \<Longrightarrow> sc_violations s = [] \<and> set ts \<subseteq> range VMap"
proof (induction ts arbitrary: k s)
  case (Cons t ts)
  from Cons.prems have "sc_violations (fold (task_step f pid i) (enumerate (Suc k) ts) (task_step f pid i (k, t) s)) = []" by simp
  from Cons.IH [OF this] task_step_clean [of f pid i k t s] show ?case by simp
qed simp

lemma phase_step_clean:
  assumes "sc_violations (phase_step f (i, item) s) = []"
  shows "sc_violations s = [] \<and> phase_item_ok item"
proof -
  from assms obtain phase t ts where item: "item = VMap phase" "map_of phase ''tasks'' = Some (VList (t # ts))"
    by (auto simp: phase_step_def Let_def simp del: enumerate_simps split: option.splits list.splits)
  let ?s2 = "phase_head f i phase s"
  from assms item have "sc_violations (fold (task_step f (map_string phase ''id'') i) (enumerate 0 (t # ts)) ?s2) = []"
    by (simp add: phase_step_def Let_def del: enumerate_simps)
  from task_steps_clean [OF this] phase_head_clean [of f i phase s] item show ?thesis
    by (auto simp: phase_item_ok_def)
qed

lemma scan_clean:
  assumes "sc_violations (scan_phases f phases) = []"
  shows "\<forall>item \<in> set phases. phase_item_ok item"
proof -
  have "sc_violations (fold (phase_step f) (enumerate k items) s) = [] \<Longrightarrow>
      sc_violations s = [] \<and> (\<forall>item \<in> set items. phase_item_ok item)" for k items s
  proof (induction items arbitrary: k s)
    case (Cons x items)
    from Cons.prems have "sc_violations (fold (phase_step f) (enumerate (Suc k) items) (phase_step f (k, x) s)) = []" by simp
    from Cons.IH [OF this] phase_step_clean [of f k x s] show ?case by simp
  qed simp
  with assms show ?thesis unfolding scan_phases_def by blast
qed

lemma concat_map_Nil: "concat (map h xs) = [] \<longleftrightarrow> (\<forall>x \<in> set xs. h x = [])"
  by auto

lemma dep_type_check_Nil:
  "dep_type_check f rule kind ok lt tasks types = [] \<longleftrightarrow>
     (\<forall>t \<in> set tasks. pt_taskType t = kind \<longrightarrow>
        (\<forall>d \<in> set (pt_dependsOn t). task_type types d \<noteq> [] \<longrightarrow> task_type types d \<in> set ok))"
  unfolding dep_type_check_def Let_def concat_map_Nil
  by (auto simp: concat_map_Nil simp del: concat_eq_Nil_conv split: if_splits)

lemma map_filter_maps: "set xs \<subseteq> range VMap \<Longrightarrow> map VMap (List.map_filter as_map xs) = xs"
  by (induction xs) (auto simp: map_filter_simps)

lemma live_plan_shape:
  assumes "live_plan art"
  shows "map VMap (phase_maps (live_phases art)) = live_phases art"
    and "\<And>p. p \<in> set (phase_maps (live_phases art)) \<Longrightarrow> \<exists>ts. phase_task_maps p = Some ts"
proof -
  have "sc_violations (scan_phases (pa_Filename art) (live_phases art)) = []"
    using live_plan_scan(1) [OF assms] by (simp add: scan_checks_def Let_def)
  then have ok: "\<forall>item \<in> set (live_phases art). phase_item_ok item" by (rule scan_clean)
  then show maps: "map VMap (phase_maps (live_phases art)) = live_phases art"
    unfolding phase_maps_def by (intro map_filter_maps) (auto simp: phase_item_ok_def)
  fix p assume "p \<in> set (phase_maps (live_phases art))"
  then have "VMap p \<in> set (map VMap (phase_maps (live_phases art)))" by simp
  with ok have "phase_item_ok (VMap p)" unfolding maps by blast
  then show "\<exists>ts. phase_task_maps p = Some ts" by (auto simp: phase_item_ok_def phase_task_maps_def)
qed

text \<open>C26: A live plan that passes keeps the disciplines the rules are there for: every task has a valid type; an
  implementation task depends on a test task and a verification task on an implementation or refactor task;
  a refactor task depends only on implementation, refactor and test tasks and a test task only on setup, test and
  verification tasks; a phase with implementation or refactor tasks has a verification task, and the last phase
  has one.
\<close>

theorem passing_plan_discipline:
  assumes "live_plan art"
  defines "tasks \<equiv> plan_tasks (live_phases art)"
  shows "(\<forall>t \<in> set tasks. pt_taskType t \<in> set validTaskTypes)
       \<and> (\<forall>t \<in> set tasks. pt_taskType t = ''implementation'' \<longrightarrow>
            (\<exists>u. (t, u) \<in> task_depends tasks \<and> pt_taskType u = ''test''))
       \<and> (\<forall>t \<in> set tasks. pt_taskType t = ''verification'' \<longrightarrow>
            (\<exists>u. (t, u) \<in> task_depends tasks \<and> code_type (pt_taskType u)))
       \<and> (\<forall>t u. (t, u) \<in> task_depends tasks \<longrightarrow> pt_taskType t = ''refactor'' \<longrightarrow>
            pt_taskType u \<in> {''implementation'', ''refactor'', ''test''})
       \<and> (\<forall>t u. (t, u) \<in> task_depends tasks \<longrightarrow> pt_taskType t = ''test'' \<longrightarrow>
            pt_taskType u \<in> {''setup'', ''test'', ''verification''})
       \<and> (\<forall>p \<in> set (phase_maps (live_phases art)). (\<exists>t \<in> set (phase_tasks p). code_type (pt_taskType t)) \<longrightarrow>
            (\<exists>t \<in> set (phase_tasks p). pt_taskType t = ''verification''))
       \<and> (\<exists>t \<in> set (phase_tasks (last (phase_maps (live_phases art)))). pt_taskType t = ''verification'')"
proof -
  note ids = live_plan_tasks(1,2) [OF assms(1), folded tasks_def]
  note known = live_plan_tasks(3) [OF assms(1), folded tasks_def]
  note typed = live_plan_tasks(4) [OF assms(1), folded tasks_def]
  let ?f = "pa_Filename art" and ?ps = "live_phases art" and ?types = "type_map tasks"
  have clean: "validateTDD ?f tasks ?types = []" "validateGateCadence ?f ?ps ?types = []"
    "validateVerificationDeps ?f tasks ?types = []" "validateRefactorDeps ?f tasks ?types = []"
    "validateTestTaskDeps ?f tasks ?types = []" "validateFinalPhase ?f ?ps ?types = []"
    using live_plan_scan(1) [OF assms(1)] by (simp_all add: scan_checks_def Let_def scan_tasks tasks_def)
  have types: "pt_taskType t \<in> set validTaskTypes" if "t \<in> set tasks" for t
    using typed [OF that] by (simp add: task_type_check_def split: if_splits)
  have read: "task_type ?types (pt_id u) = pt_taskType u" if "u \<in> set tasks" for u
    using that ids by (intro type_map_fold) (auto simp: image_iff)
  have dep: "\<exists>u. (t, u) \<in> task_depends tasks \<and> P (pt_taskType u)"
    if "t \<in> set tasks" "d \<in> set (pt_dependsOn t)" "P (task_type ?types d)" for t d P
  proof -
    from known [OF that(1,2)] obtain u where "u \<in> set tasks" "pt_id u = d" by blast
    with that read [of u] show ?thesis by (auto simp: task_depends_def)
  qed
  have dep_read: "task_type ?types (pt_id u) = pt_taskType u" "pt_taskType u \<noteq> []"
    "t \<in> set tasks" "pt_id u \<in> set (pt_dependsOn t)" if "(t, u) \<in> task_depends tasks" for t u
    using that read [of u] types [of u] by (auto simp: task_depends_def validTaskTypes_def)
  have phase_read: "map_string m ''id'' = pt_id t \<and> task_type ?types (map_string m ''id'') = pt_taskType t"
    if "p \<in> set (phase_maps ?ps)" "phase_task_maps p = Some ms" "m \<in> set ms" "t = task_of (map_string p ''id'') m"
    for p ms m t
  proof -
    have "t \<in> set (phase_tasks p)" using that by (simp add: phase_tasks_def)
    with that(1) have "t \<in> set tasks" unfolding tasks_def plan_tasks_def in_concat_map by blast
    with read [of t] that(4) show ?thesis by (simp add: task_of_def)
  qed
  have tdd: "\<exists>u. (t, u) \<in> task_depends tasks \<and> pt_taskType u = ''test''"
    if "t \<in> set tasks" "pt_taskType t = ''implementation''" for t
    using clean(1) that dep [of t _ "\<lambda>ty. ty = ''test''"] by (auto simp: validateTDD_def)
  have verified: "\<exists>u. (t, u) \<in> task_depends tasks \<and> code_type (pt_taskType u)"
    if "t \<in> set tasks" "pt_taskType t = ''verification''" for t
    using clean(3) that dep [of t _ code_type] by (auto simp: validateVerificationDeps_def)
  have allowed: "pt_taskType u \<in> set ok"
    if "(t, u) \<in> task_depends tasks" "pt_taskType t = kind" "dep_type_check ?f rule kind ok lt tasks ?types = []"
    for t u ok kind rule lt
    using that dep_read [OF that(1)] unfolding dep_type_check_Nil by metis
  note shape = live_plan_shape [OF assms(1)]
  have cadence: "\<exists>t \<in> set (phase_tasks p). pt_taskType t = ''verification''"
    if p: "p \<in> set (phase_maps ?ps)" and code: "\<exists>t \<in> set (phase_tasks p). code_type (pt_taskType t)" for p
  proof -
    from shape(2) [OF p] obtain ms where ms: "phase_task_maps p = Some ms" by blast
    from clean(2) p have "\<not> ((\<exists>m \<in> set ms. code_type (task_type ?types (map_string m ''id'')))
        \<and> \<not> (\<exists>m \<in> set ms. task_type ?types (map_string m ''id'') = ''verification''))"
      by (simp add: validateGateCadence_def ms Let_def split: option.splits)
    with code phase_read [OF p ms] show ?thesis by (fastforce simp: phase_tasks_def ms)
  qed
  have final: "\<exists>t \<in> set (phase_tasks (last (phase_maps ?ps))). pt_taskType t = ''verification''"
  proof -
    let ?p = "last (phase_maps ?ps)"
    have nonempty: "phase_maps ?ps \<noteq> []" "?ps \<noteq> []" using shape(1) live_plan_scan(2) [OF assms(1)] by auto
    then have last: "last ?ps = VMap ?p" using last_map [of "phase_maps ?ps" VMap] shape(1) by simp
    from nonempty have p: "?p \<in> set (phase_maps ?ps)" by simp
    from shape(2) [OF p] obtain ms where ms: "phase_task_maps ?p = Some ms" by blast
    from clean(6) nonempty(2) last ms obtain m where "m \<in> set ms" "task_type ?types (map_string m ''id'') = ''verification''"
      by (auto simp: validateFinalPhase_def)
    with phase_read [OF p ms] show ?thesis by (fastforce simp: phase_tasks_def ms)
  qed
  have refactor: "pt_taskType u \<in> {''implementation'', ''refactor'', ''test''}"
    if "(t, u) \<in> task_depends tasks" "pt_taskType t = ''refactor''" for t u
    using allowed [OF that clean(4) [unfolded validateRefactorDeps_def]] by simp
  have testing: "pt_taskType u \<in> {''setup'', ''test'', ''verification''}"
    if "(t, u) \<in> task_depends tasks" "pt_taskType t = ''test''" for t u
    using allowed [OF that clean(5) [unfolded validateTestTaskDeps_def]] by simp
  show ?thesis using types tdd verified refactor testing cadence final by blast
qed

lemma demo_plan_implements: "\<exists>t \<in> set (plan_tasks (live_phases demo_plan)). pt_taskType t = ''implementation''"
  by code_simp

theorem passing_plan_discipline_witness:
  "(\<exists>t u. (t, u) \<in> task_depends (plan_tasks (live_phases demo_plan)) \<and> pt_taskType t = ''implementation'' \<and> pt_taskType u = ''test'')
   \<and> (\<exists>t \<in> set (phase_tasks (last (phase_maps (live_phases demo_plan)))). pt_taskType t = ''verification'')"
  using passing_plan_discipline [OF demo_plan_live] demo_plan_implements by blast

subsection \<open>The phase-level check, and dependencies that are no array\<close>

text \<open>
  The phase-level check closes the relation between phases, not the one between their tasks: with A depending on B
  through one task of B and B on C through another, A and C count as ordered, although no task of A depends on a
  task of C and both touch the same file.  The task-level check reports the pair.
\<close>

definition chained_phases :: "yval list" where
  "chained_phases =
     [VMap [(''id'', VStr ''A''), (''tasks'', VList [demo_task ''a'' ''setup'' [''shared.go''] [''b1'']])],
      VMap [(''id'', VStr ''B''), (''tasks'', VList [demo_task ''b1'' ''setup'' [''b1.go''] [],
                                                  demo_task ''b2'' ''setup'' [''b2.go''] [''c'']])],
      VMap [(''id'', VStr ''C''), (''tasks'', VList [demo_task ''c'' ''setup'' [''shared.go''] []])]]"

lemma chained_phases_share_a_file:
  "checkPhaseFileExclusivity ''p'' chained_phases (plan_tasks chained_phases) = []"
  "checkFileExclusivity ''p'' (plan_tasks chained_phases) =
     [sharing_violation ''p'' (plan_tasks chained_phases) 0 3 ''shared.go'']"
  by code_simp+

text \<open>A \<open>depends_on\<close> that is no array counts as no dependency, without a finding.\<close>

lemma scalar_depends_on_ignored:
  "task_fields f label [(''title'', VStr ''t''), (''description'', VStr ''d''), (''files'', VList [VStr ''a'']),
                         (''claims'', VList [VStr ''c'']), (''depends_on'', VStr ''T1'')] = []"
  "depends_of [(''depends_on'', VStr ''T1'')] = []"
proof -
  have "TrimSpace ''t'' \<noteq> []" "TrimSpace ''d'' \<noteq> []" by code_simp+
  then show "task_fields f label [(''title'', VStr ''t''), (''description'', VStr ''d''), (''files'', VList [VStr ''a'']),
                         (''claims'', VList [VStr ''c'']), (''depends_on'', VStr ''T1'')] = []"
    by (simp add: task_fields_def text_check_def array_check_def)
  show "depends_of [(''depends_on'', VStr ''T1'')] = []" by (simp add: depends_of_def)
qed

end
