(* ===== verification/Validate_Spec.thy ===== *)
theory Validate_Spec
  imports Validate_Plan
begin

text \<open>
  The spec, ADR and directive validators (\<open>src/pkg/validate/spec.go\<close>, \<open>contracts.go\<close>, \<open>adr.go\<close>,
  \<open>directive.go\<close>).  The patterns of a schema are data of the repository's schema files; compiling one
  is a parameter, \<open>rcompile\<close>, that gives the predicate \<open>MatchString\<close> decides, or None for a pattern that
  does not compile.  The theorems show what a passing spec guarantees of the trace from requirements to
  tests, what its contracts look like, and where the checks are laxer than they read.
\<close>

type_synonym rcompile = "string \<Rightarrow> (string \<Rightarrow> bool) option"

subsection \<open>The schema checks of specs and ADRs\<close>

definition filename_ok :: "rcompile \<Rightarrow> ParsedArtifact \<Rightarrow> Schema \<Rightarrow> bool" where
  "filename_ok rcompile art sch \<longleftrightarrow>
     sch_FilenamePattern sch \<noteq> []
     \<and> (case rcompile (sch_FilenamePattern sch) of Some m \<Rightarrow> m (pa_Filename art) | None \<Rightarrow> False)"

definition filename_check :: "string \<Rightarrow> rcompile \<Rightarrow> ParsedArtifact \<Rightarrow> Schema \<Rightarrow> ArtifactViolation list" where
  "filename_check pre rcompile art sch =
     report (sch_FilenamePattern sch \<noteq> [] \<and> \<not> filename_ok rcompile art sch)
       (viol (pa_Filename art) (pre @ ''/filename-pattern'')
          (''filename does not match pattern '' @ sch_FilenamePattern sch))"

definition slug_valid :: "rcompile \<Rightarrow> Schema \<Rightarrow> string \<Rightarrow> bool" where
  "slug_valid rcompile sch slug \<longleftrightarrow>
     (case rcompile (sch_SlugPattern sch) of Some m \<Rightarrow> m slug | None \<Rightarrow> False)
     \<and> \<not> (sch_SlugMinLength sch > 0 \<and> int (length slug) < sch_SlugMinLength sch)
     \<and> \<not> (sch_SlugMaxLength sch > 0 \<and> int (length slug) > sch_SlugMaxLength sch)"

definition slug_check ::
  "string \<Rightarrow> rcompile \<Rightarrow> (string \<Rightarrow> string) \<Rightarrow> ParsedArtifact \<Rightarrow> Schema \<Rightarrow> ArtifactViolation list" where
  "slug_check pre rcompile slug_of art sch =
     (let slug = slug_of (pa_Filename art) in
      report (filename_ok rcompile art sch \<and> sch_SlugPattern sch \<noteq> [] \<and> slug \<noteq> [] \<and> \<not> slug_valid rcompile sch slug)
        (viol (pa_Filename art) (pre @ ''/invalid-slug'') (''slug '' @ sq slug @ '' does not conform to D-078 spec'')))"

text \<open>\<^emph>\<open>number_of\<close> gives the submatch of the number pattern at the start of the filename.\<close>

definition number_check ::
  "string \<Rightarrow> string \<Rightarrow> bool \<Rightarrow> (string \<Rightarrow> string option) \<Rightarrow> ParsedArtifact \<Rightarrow> ArtifactViolation list" where
  "number_check pre word ok number_of art =
     (case (if ok then number_of (pa_Filename art) else None) of
        None \<Rightarrow> []
      | Some n \<Rightarrow>
          (case map_of (pa_Metadata art) ''number'' of
             None \<Rightarrow> []
           | Some m \<Rightarrow> report (m \<noteq> n)
               (viol (pa_Filename art) (pre @ ''/number-mismatch'')
                  (''metadata '' @ word @ '' '' @ sq m @ '' does not match filename '' @ sq n))))"

definition title_check ::
  "string \<Rightarrow> bool \<Rightarrow> (string \<Rightarrow> string option) \<Rightarrow> ParsedArtifact \<Rightarrow> ArtifactViolation list" where
  "title_check pre ok number_of art =
     (case (if ok then number_of (pa_Filename art) else None) of
        None \<Rightarrow> []
      | Some n \<Rightarrow> report (pa_Title art \<noteq> [] \<and> \<not> HasPrefix (pa_Title art) (n @ '':''))
          (viol (pa_Filename art) (pre @ ''/title-number-mismatch'') (''title does not start with '' @ sq (n @ '':''))))"

definition meta_status :: "ParsedArtifact \<Rightarrow> string" where
  "meta_status art = map_get [] (pa_Metadata art) ''status''"

definition status_check :: "string \<Rightarrow> ParsedArtifact \<Rightarrow> Schema \<Rightarrow> ArtifactViolation list" where
  "status_check pre art sch =
     report (sch_StatusEnum sch \<noteq> [] \<and> meta_status art \<notin> set (sch_StatusEnum sch))
       (viol (pa_Filename art) (pre @ ''/invalid-status'')
          (''status '' @ sq (meta_status art) @ '' is not valid (allowed: '' @ show_strings (sch_StatusEnum sch) @ '')''))"

definition extension_check :: "string \<Rightarrow> ParsedArtifact \<Rightarrow> Schema \<Rightarrow> ArtifactViolation list" where
  "extension_check pre art sch =
     concat (map (\<lambda>key.
       report (\<not> (\<exists>kv \<in> set (pa_Metadata art). EqualFoldKey (fst kv) key \<and> TrimSpace (snd kv) \<noteq> []))
         (viol (pa_Filename art) (pre @ ''/metadata-required'')
            (''required metadata key '' @ sq key @ '' is missing or empty''))) (sch_ExtensionMetadata sch))"

definition schema_version_check :: "string \<Rightarrow> string \<Rightarrow> ParsedArtifact \<Rightarrow> Schema \<Rightarrow> ArtifactViolation list" where
  "schema_version_check pre word art sch =
     (case map_of (pa_Metadata art) ''schema_version'' of
        None \<Rightarrow> []
      | Some sv \<Rightarrow>
          (let parts = SplitN sv (CHR ''/'') 2 in
           report (sv \<noteq> [] \<and> length parts = 2 \<and> sch_ArtifactType sch \<noteq> [] \<and> hd parts \<noteq> sch_ArtifactType sch)
             (viol (pa_Filename art) (pre @ ''/schema-version-mismatch'')
                (word @ '' type '' @ sq (hd parts) @ '' does not match artifact type '' @ sq (sch_ArtifactType sch)))))"

text \<open>The slug between the nine-byte prefix and the kind's extension.\<close>

definition slug_between :: "Kind \<Rightarrow> string \<Rightarrow> string" where
  "slug_between kind name =
     (if length name < 10 then []
      else case LayoutFor kind of
        None \<Rightarrow> []
      | Some l \<Rightarrow> (let rest = drop 9 name in
          if HasSuffix rest (kl_Extension l) then take (length rest - length (kl_Extension l)) rest else []))"

definition extractSpecSlug :: "string \<Rightarrow> string" where
  "extractSpecSlug = slug_between LKindSpec"

definition extractSlug :: "string \<Rightarrow> string" where
  "extractSlug = slug_between LKindADR"

definition specNumberRe :: "string \<Rightarrow> string option" where
  "specNumberRe name =
     (if rx_match (rseq [rlit ''SPEC-'', r_three_digits, rlit ''-'']) (take 9 name) then Some (take 8 name) else None)"

definition adrNumberRe :: "string \<Rightarrow> string option" where
  "adrNumberRe name =
     (if rx_match (rseq [rlit ''ADR-'', rtimes 4 r_digit, rlit ''-'']) (take 9 name) then Some (take 8 name) else None)"

definition ADR :: "rcompile \<Rightarrow> ParsedArtifact \<Rightarrow> Schema \<Rightarrow> ValidationResult" where
  "ADR rcompile art sch = result_of
     (let ok = filename_ok rcompile art sch in
      vr_Violations (BaseChecks art sch)
      @ filename_check ''adr'' rcompile art sch
      @ slug_check ''adr'' rcompile extractSlug art sch
      @ number_check ''adr'' ''Number'' ok adrNumberRe art
      @ title_check ''adr'' ok adrNumberRe art
      @ status_check ''adr'' art sch
      @ extension_check ''adr'' art sch
      @ schema_version_check ''adr'' ''Schema-Version'' art sch)"

subsection \<open>Verification and implementation blocks\<close>

definition verificationLevels :: "string list" where
  "verificationLevels = [''static'', ''build'', ''unit'', ''integration'', ''performance'', ''security'']"

definition thresholdRules :: "string \<Rightarrow> int option" where
  "thresholdRules level =
     (if level \<in> {''unit'', ''security''} then Some 90
      else if level \<in> {''integration'', ''performance''} then Some 80
      else None)"

text \<open>
  \<open>int(f)\<close> truncates; out of range, on an infinity or on a NaN the result is the processor's (on amd64 the
  least 64-bit integer), which is neither 80 nor 90.
\<close>

definition float_to_int :: "rat \<Rightarrow> int" where
  "float_to_int r =
     (let t = (if 0 \<le> r then \<lfloor>r\<rfloor> else \<lceil>r\<rceil>) in if - (2 ^ 63) \<le> t \<and> t < 2 ^ 63 then t else - (2 ^ 63))"

definition toInt :: "yval \<Rightarrow> int" where
  "toInt v = (case v of VInt n \<Rightarrow> n | VFloat r _ \<Rightarrow> float_to_int r | VNonFinite _ \<Rightarrow> - (2 ^ 63) | _ \<Rightarrow> 0)"

definition threshold_check :: "string \<Rightarrow> string \<Rightarrow> string \<Rightarrow> yval option \<Rightarrow> ArtifactViolation list" where
  "threshold_check f pre level thresh =
     (case thresholdRules level of
        None \<Rightarrow> report (thresh \<noteq> None)
          (viol f (pre @ ''/threshold-not-allowed'')
             (''coverage_threshold must not be set for verification level '' @ sq level))
      | Some rule \<Rightarrow>
          (case thresh of
             None \<Rightarrow> [viol f (pre @ ''/threshold-required'')
               (''coverage_threshold is required for verification level '' @ sq level @ '' (must be '' @ Itoa rule @ '')'')]
           | Some v \<Rightarrow> report (toInt v \<noteq> rule)
               (viol f (pre @ ''/threshold-value'')
                  (''coverage_threshold must be '' @ Itoa rule @ '' for level '' @ sq level @ '', got '' @ Itoa (toInt v)))))"

definition level_check :: "string \<Rightarrow> string \<Rightarrow> frontmatter \<Rightarrow> ArtifactViolation list" where
  "level_check f pre ver =
     (case map_of ver ''level'' of
        None \<Rightarrow> [viol f (pre @ ''/verification-level-required'') ''verification.level is missing'']
      | Some v \<Rightarrow>
          (case (case as_string v of Some l \<Rightarrow> (if l \<in> set verificationLevels then Some l else None) | None \<Rightarrow> None) of
             None \<Rightarrow> [viol f (pre @ ''/verification-level-invalid'')
               (''verification.level '' @ sq (fmt_v v)
                @ '' is not valid (allowed: static, build, unit, integration, performance, security)'')]
           | Some level \<Rightarrow> threshold_check f pre level (map_of ver ''coverage_threshold'')))"

definition validateVerification :: "ParsedArtifact \<Rightarrow> string \<Rightarrow> ArtifactViolation list" where
  "validateVerification art pre =
     (let f = pa_Filename art in
      case map_of (pa_Frontmatter art) ''verification'' of
        None \<Rightarrow> [viol f (pre @ ''/verification-required'') ''verification block is missing from frontmatter'']
      | Some v \<Rightarrow>
          (case as_map v of
             None \<Rightarrow> [viol f (pre @ ''/verification-required'') ''verification block is not a valid map'']
           | Some ver \<Rightarrow>
               level_check f pre ver
               @ report (map_of ver ''test_command'' = None)
                   (viol f (pre @ ''/test-command-required'') ''verification.test_command is missing'')))"

definition implPresentNonEmpty :: "frontmatter \<Rightarrow> string \<Rightarrow> string" where
  "implPresentNonEmpty impl key = (case map_of impl key of None \<Rightarrow> [] | Some v \<Rightarrow> TrimSpace (fmt_v v))"

definition validateImplementation :: "ParsedArtifact \<Rightarrow> string \<Rightarrow> ArtifactViolation list" where
  "validateImplementation art pre =
     (let f = pa_Filename art in
      case map_of (pa_Frontmatter art) ''implementation'' of
        None \<Rightarrow> [viol f (pre @ ''/implementation-required'') ''implementation block is missing from frontmatter'']
      | Some v \<Rightarrow>
          (case as_map v of
             None \<Rightarrow> [viol f (pre @ ''/implementation-required'') ''implementation block is not a valid map'']
           | Some impl \<Rightarrow>
               report (case map_of impl ''summary'' of None \<Rightarrow> True | Some s \<Rightarrow> fmt_v s = [])
                 (viol f (pre @ ''/implementation-summary-required'') ''implementation.summary is missing or empty'')
               @ report (implPresentNonEmpty impl ''subject'' = [] \<and> implPresentNonEmpty impl ''package'' = [])
                   (viol f (pre @ ''/implementation-subject-required'')
                      (''implementation.subject is missing or empty (the legacy '' @ sq ''package''
                       @ '' key is accepted as a deprecated alias)''))))"

subsection \<open>Requirements\<close>

definition claimIDRe :: rx where "claimIDRe = rseq [rlit ''CLM-'', r_three_digits]"
definition reqIDRe :: rx where "reqIDRe = rseq [rlit ''REQ-'', r_three_digits]"

definition supportsRe :: rx where
  "supportsRe = rseq [rplus (RAlt r_lower_digit (rlit ''-'')), rlit '':REQ-'', r_three_digits, rlit ''@'', r_semver]"

definition followsStdRuleRe :: rx where
  "followsStdRuleRe = rseq [rlit ''STD-'', rplus r_upper, rlit ''-'', r_three_digits, rlit '':'', rplus r_upper,
                            rlit ''-'', rplus r_digit]"

definition followsRecipeRe :: rx where "followsRecipeRe = r_slug"

record reqResult =
  rq_violations :: "ArtifactViolation list"
  rq_ids :: "string list"

definition hasRule :: "ArtifactViolation list \<Rightarrow> string \<Rightarrow> bool" where
  "hasRule vs rule \<longleftrightarrow> (\<exists>v \<in> set vs. av_Rule v = rule)"

text \<open>An identified entry of an array: the identifier must match a pattern and be new.\<close>

definition entry_id_check ::
  "string \<Rightarrow> string \<Rightarrow> string \<Rightarrow> rx \<Rightarrow> string \<Rightarrow> string \<Rightarrow> frontmatter \<Rightarrow> string list \<Rightarrow> ArtifactViolation list" where
  "entry_id_check f kind label re shape word m seen =
     (case map_of m ''id'' of
        None \<Rightarrow> [viol f (kind @ ''-id-required'') (label @ '' is missing '' @ sq ''id'')]
      | Some v \<Rightarrow>
          (case (case as_string v of Some i \<Rightarrow> (if rx_match re i then Some i else None) | None \<Rightarrow> None) of
             None \<Rightarrow> [viol f (kind @ ''-id-format'') (label @ '' id '' @ sq (fmt_v v) @ '' does not match '' @ shape @ '' pattern'')]
           | Some i \<Rightarrow> report (i \<in> set seen) (viol f (kind @ ''-id-duplicate'') (''duplicate '' @ word @ '' id '' @ sq i))))"

definition note_entry :: "rx \<Rightarrow> frontmatter \<Rightarrow> string list \<Rightarrow> string list" where
  "note_entry re m seen =
     (let i = map_string m ''id'' in if rx_match re i \<and> i \<notin> set seen then seen @ [i] else seen)"

definition supports_check :: "string \<Rightarrow> string \<Rightarrow> frontmatter \<Rightarrow> ArtifactViolation list" where
  "supports_check f label req =
     (case map_of req ''supports'' of
        None \<Rightarrow> []
      | Some v \<Rightarrow>
          (let items = (case v of VStr s \<Rightarrow> [s] | VList xs \<Rightarrow> string_items xs | _ \<Rightarrow> []) in
           report (items = []) (viol f ''spec/requirement-supports-format'' (label @ '' '' @ sq ''supports'' @ '' is empty''))
           @ concat (map (\<lambda>x. report (TrimSpace x = [] \<or> \<not> rx_match supportsRe x)
               (viol f ''spec/requirement-supports-format''
                  (label @ '' '' @ sq ''supports'' @ '' value '' @ sq x
                   @ '' must match format bundle-name:REQ-NNN@MAJOR.MINOR.PATCH''))) items)))"

text \<open>
  The follows check reads the findings so far: the general "empty" finding is withheld when any requirement
  already has one.
\<close>

definition follows_check :: "string \<Rightarrow> string \<Rightarrow> frontmatter \<Rightarrow> ArtifactViolation list \<Rightarrow> ArtifactViolation list" where
  "follows_check f label req sofar =
     (case map_of req ''follows'' of
        None \<Rightarrow> []
      | Some v \<Rightarrow>
          (let hollow = viol f ''spec/requirement-follows-empty'' (label @ '' '' @ sq ''follows'' @ '' is empty'');
               first = (case v of VStr s \<Rightarrow> report (TrimSpace s = []) hollow | VList xs \<Rightarrow> report (xs = []) hollow | _ \<Rightarrow> []);
               items = (case v of VStr s \<Rightarrow> (if TrimSpace s = [] then [] else [s]) | VList xs \<Rightarrow> string_items xs | _ \<Rightarrow> [])
           in first
              @ report (items = [] \<and> \<not> hasRule (sofar @ first) ''spec/requirement-follows-empty'') hollow
              @ concat (map (\<lambda>x. report (\<not> rx_match followsStdRuleRe x \<and> \<not> rx_match followsRecipeRe x)
                  (viol f ''spec/requirement-follows-format''
                     (label @ '' '' @ sq ''follows'' @ '' value '' @ sq x
                      @ '' must match format STD-LANG-NNN:RULE-ID or lowercase-kebab recipe name''))) items)))"

definition requirement_step :: "string \<Rightarrow> nat \<times> yval \<Rightarrow> reqResult \<Rightarrow> reqResult" where
  "requirement_step f = (\<lambda>(i, item) s.
     let label = show_index ''requirements'' i in
     case as_map item of
       None \<Rightarrow> s\<lparr>rq_violations := rq_violations s @ [viol f ''spec/requirement-format'' (label @ '' is not a valid map'')]\<rparr>
     | Some req \<Rightarrow>
         (let vs = rq_violations s
                @ entry_id_check f ''spec/requirement'' label reqIDRe ''REQ-NNN'' ''requirement'' req (rq_ids s)
                @ text_check f ''spec/requirement-text-required'' req ''text''
                    (label @ '' is missing '' @ sq ''text'') (label @ '' '' @ sq ''text'' @ '' is empty'')
                @ supports_check f label req
          in \<lparr>rq_violations = vs @ follows_check f label req vs, rq_ids = note_entry reqIDRe req (rq_ids s)\<rparr>))"

definition validateRequirements :: "ParsedArtifact \<Rightarrow> reqResult" where
  "validateRequirements art =
     (let f = pa_Filename art; none = (\<lambda>rule msg. \<lparr>rq_violations = [viol f rule msg], rq_ids = []\<rparr>) in
      case map_of (pa_Frontmatter art) ''requirements'' of
        None \<Rightarrow> none ''spec/requirements-required'' ''requirements array is missing from frontmatter''
      | Some v \<Rightarrow>
          (case as_list v of
             None \<Rightarrow> none ''spec/requirements-required'' ''requirements is not a valid array''
           | Some reqs \<Rightarrow>
               (if reqs = [] then none ''spec/requirements-empty'' ''requirements array must contain at least one requirement''
                else fold (requirement_step f) (enumerate 0 reqs) \<lparr>rq_violations = [], rq_ids = []\<rparr>)))"

definition validateReviewQuestions :: "ParsedArtifact \<Rightarrow> ArtifactViolation list" where
  "validateReviewQuestions art = []"

subsection \<open>Claims\<close>

record claim_scan =
  cs_violations :: "ArtifactViolation list"
  cs_ids :: "string list"
  cs_covered :: "string list"

text \<open>
  The claims of specs and issues are scanned alike, under the rule prefix \<open>pre\<close>; a reference to an unknown
  requirement is a finding when \<open>known\<close> holds (for an issue, when any requirement is known).
\<close>

definition claim_requirement_check :: 
  "string \<Rightarrow> bool \<Rightarrow> string \<Rightarrow> string \<Rightarrow> frontmatter \<Rightarrow> string list \<Rightarrow> ArtifactViolation list" where
  "claim_requirement_check pre known f label claim validReqs =
     (case map_of claim ''requirement'' of
        None \<Rightarrow> [viol f (pre @ ''/claim-requirement-required'') (label @ '' is missing '' @ sq ''requirement'' @ '' field'')]
      | Some v \<Rightarrow>
          (case as_string v of
             Some (c # r) \<Rightarrow> report (known \<and> c # r \<notin> set validReqs)
               (viol f (pre @ ''/claim-requirement-invalid'') (label @ '' references unknown requirement '' @ sq (c # r)))
           | _ \<Rightarrow> [viol f (pre @ ''/claim-requirement-required'') (label @ '' '' @ sq ''requirement'' @ '' is empty'')]))"

definition claim_covers :: "frontmatter \<Rightarrow> string list \<Rightarrow> string list" where
  "claim_covers claim validReqs =
     (let r = map_string claim ''requirement'' in if r \<noteq> [] \<and> r \<in> set validReqs then [r] else [])"

definition claim_tests_check :: "string \<Rightarrow> string \<Rightarrow> string \<Rightarrow> frontmatter \<Rightarrow> ArtifactViolation list" where
  "claim_tests_check pre f label claim =
     array_check f claim ''tests''
       (viol f (pre @ ''/claim-tests-required'') (label @ '' is missing '' @ sq ''tests''))
       (viol f (pre @ ''/claim-tests-empty'') (label @ '' must have at least one test''))"

definition claim_step :: "string \<Rightarrow> bool \<Rightarrow> string \<Rightarrow> string list \<Rightarrow> nat \<times> yval \<Rightarrow> claim_scan \<Rightarrow> claim_scan" where
  "claim_step pre known f validReqs = (\<lambda>(i, item) s.
     let label = show_index ''claims'' i in
     case as_map item of
       None \<Rightarrow> s\<lparr>cs_violations := cs_violations s @ [viol f (pre @ ''/claim-format'') (label @ '' is not a valid map'')]\<rparr>
     | Some claim \<Rightarrow>
         \<lparr>cs_violations = cs_violations s
            @ entry_id_check f (pre @ ''/claim'') label claimIDRe ''CLM-NNN'' ''claim'' claim (cs_ids s)
            @ text_check f (pre @ ''/claim-text-required'') claim ''text''
                (label @ '' is missing '' @ sq ''text'') (label @ '' '' @ sq ''text'' @ '' is empty'')
            @ claim_requirement_check pre known f label claim validReqs
            @ claim_tests_check pre f label claim,
          cs_ids = note_entry claimIDRe claim (cs_ids s),
          cs_covered = cs_covered s @ claim_covers claim validReqs\<rparr>)"

definition claims_scan :: "string \<Rightarrow> bool \<Rightarrow> string \<Rightarrow> string list \<Rightarrow> yval list \<Rightarrow> claim_scan" where
  "claims_scan pre known f validReqs claims =
     fold (claim_step pre known f validReqs) (enumerate 0 claims) \<lparr>cs_violations = [], cs_ids = [], cs_covered = []\<rparr>"

text \<open>Go ranges over the set of requirements in an unspecified order.\<close>

definition validateClaims :: "ParsedArtifact \<Rightarrow> string list \<Rightarrow> ArtifactViolation list" where
  "validateClaims art validReqs =
     (let f = pa_Filename art in
      case map_of (pa_Frontmatter art) ''claims'' of
        None \<Rightarrow> [viol f ''spec/claims-required'' ''claims array is missing from frontmatter'']
      | Some v \<Rightarrow>
          (case as_list v of
             None \<Rightarrow> [viol f ''spec/claims-required'' ''claims is not a valid array'']
           | Some claims \<Rightarrow>
               (if claims = [] then [viol f ''spec/claims-empty'' ''claims array must contain at least one claim'']
                else let s = claims_scan ''spec'' True f validReqs claims in
                  cs_violations s
                  @ concat (map (\<lambda>r. report (r \<notin> set (cs_covered s))
                      (viol f ''spec/requirement-uncovered'' (''requirement '' @ sq r @ '' has no claims referencing it'')))
                      validReqs))))"

subsection \<open>Contracts and capabilities\<close>

definition contractKinds :: "string list" where
  "contractKinds = [''function'', ''type'', ''interface'', ''method'', ''constant'', ''variable'']"

text \<open>A field that must hold a string that is not blank; a value that is no string counts as empty.\<close>

definition strict_text_check :: "string \<Rightarrow> string \<Rightarrow> string \<Rightarrow> frontmatter \<Rightarrow> string \<Rightarrow> ArtifactViolation list" where
  "strict_text_check f rule label m key =
     (case map_of m key of
        None \<Rightarrow> [viol f rule (label @ '' is missing '' @ sq key)]
      | Some v \<Rightarrow> report (case as_string v of Some s \<Rightarrow> TrimSpace s = [] | None \<Rightarrow> True)
          (viol f rule (label @ '' '' @ sq key @ '' is empty'')))"

definition contract_kind_check :: "string \<Rightarrow> string \<Rightarrow> string \<Rightarrow> frontmatter \<Rightarrow> ArtifactViolation list" where
  "contract_kind_check f pre label m =
     (case map_of m ''kind'' of
        None \<Rightarrow> [viol f (pre @ ''-kind-required'') (label @ '' is missing '' @ sq ''kind'')]
      | Some v \<Rightarrow> report (case as_string v of Some k \<Rightarrow> k \<notin> set contractKinds | None \<Rightarrow> True)
          (viol f (pre @ ''-kind-enum'')
             (label @ '' kind '' @ sq (fmt_v v)
              @ '' is not valid (allowed: function, type, interface, method, constant, variable)'')))"

definition validateProvidesItem :: "yval \<Rightarrow> string \<Rightarrow> string \<Rightarrow> string \<Rightarrow> ArtifactViolation list" where
  "validateProvidesItem item f pre label =
     (case as_map item of
        None \<Rightarrow> [viol f (pre @ ''/provides-format'') (label @ '' is not a valid map'')]
      | Some p \<Rightarrow>
          strict_text_check f (pre @ ''/provides-name-required'') label p ''name''
          @ contract_kind_check f (pre @ ''/provides'') label p
          @ (if map_of p ''absent'' = Some (VBool True) then []
             else strict_text_check f (pre @ ''/provides-signature-required'') label p ''signature''))"

definition validateConsumesItem :: "yval \<Rightarrow> string \<Rightarrow> string \<Rightarrow> string \<Rightarrow> ArtifactViolation list" where
  "validateConsumesItem item f pre label =
     (case as_map item of
        None \<Rightarrow> [viol f (pre @ ''/consumes-format'') (label @ '' is not a valid map'')]
      | Some c \<Rightarrow>
          strict_text_check f (pre @ ''/consumes-source-required'') label c ''source''
          @ strict_text_check f (pre @ ''/consumes-name-required'') label c ''name''
          @ contract_kind_check f (pre @ ''/consumes'') label c)"

definition contract_file_check :: "string \<Rightarrow> string \<Rightarrow> string \<Rightarrow> frontmatter \<Rightarrow> string list \<Rightarrow> ArtifactViolation list" where
  "contract_file_check f pre label contract seen =
     strict_text_check f (pre @ ''/contract-file-required'') label contract ''file''
     @ (let g = map_string contract ''file'' in
        report (TrimSpace g \<noteq> [] \<and> g \<in> set seen)
          (viol f (pre @ ''/contract-file-duplicate'') (''duplicate contract file '' @ sq g)))"

definition contract_items ::
  "string \<Rightarrow> string \<Rightarrow> string \<Rightarrow> frontmatter \<Rightarrow> string \<Rightarrow> (yval \<Rightarrow> string \<Rightarrow> ArtifactViolation list)
     \<Rightarrow> ArtifactViolation list \<times> bool" where
  "contract_items f pre label contract key check =
     (case map_of contract key of
        None \<Rightarrow> ([], False)
      | Some v \<Rightarrow>
          (case as_list v of
             None \<Rightarrow> ([viol f (pre @ ''/contract-'' @ key @ ''-format'') (label @ '' '' @ sq key @ '' is not a valid array'')], False)
           | Some xs \<Rightarrow>
               (concat (map (\<lambda>(j, x). check x (show_index (label @ ''.'' @ key) j)) (enumerate 0 xs)), xs \<noteq> [])))"

definition contract_step ::
  "string \<Rightarrow> string \<Rightarrow> nat \<times> yval \<Rightarrow> ArtifactViolation list \<times> string list \<Rightarrow> ArtifactViolation list \<times> string list" where
  "contract_step f pre = (\<lambda>(i, item) (vs, seen).
     let label = show_index ''contracts'' i in
     case as_map item of
       None \<Rightarrow> (vs @ [viol f (pre @ ''/contract-format'') (label @ '' is not a valid map'')], seen)
     | Some contract \<Rightarrow>
         (let (pvs, hasProvides) = contract_items f pre label contract ''provides'' (\<lambda>x l. validateProvidesItem x f pre l);
              (cvs, hasConsumes) = contract_items f pre label contract ''consumes'' (\<lambda>x l. validateConsumesItem x f pre l);
              g = map_string contract ''file''
          in (vs @ contract_file_check f pre label contract seen @ pvs @ cvs
                @ report (\<not> hasProvides \<and> \<not> hasConsumes)
                    (viol f (pre @ ''/contract-empty'') (label @ '' must have at least one provides or consumes entry'')),
              (if TrimSpace g \<noteq> [] then List.insert g seen else seen))))"

definition validateContracts :: "frontmatter \<Rightarrow> string \<Rightarrow> string \<Rightarrow> ArtifactViolation list" where
  "validateContracts fm f pre =
     (case map_of fm ''contracts'' of
        None \<Rightarrow> [viol f (pre @ ''/contracts-required'') ''contracts array is missing from frontmatter'']
      | Some v \<Rightarrow>
          (case as_list v of
             None \<Rightarrow> [viol f (pre @ ''/contracts-required'') ''contracts is not a valid array'']
           | Some contracts \<Rightarrow>
               (if contracts = [] then [viol f (pre @ ''/contracts-empty'') ''contracts array must contain at least one contract'']
                else fst (fold (contract_step f pre) (enumerate 0 contracts) ([], [])))))"

definition capabilityIDRe :: rx where
  "capabilityIDRe = rseq [rlit ''UC-'', r_three_digits, RStar r_digit]"

definition capability_step ::
  "string \<Rightarrow> string \<Rightarrow> nat \<times> yval \<Rightarrow> ArtifactViolation list \<times> string list \<Rightarrow> ArtifactViolation list \<times> string list" where
  "capability_step f pre = (\<lambda>(i, item) (vs, seen).
     let label = show_index ''capabilities'' i in
     case (case as_string item of Some s \<Rightarrow> (if TrimSpace s = [] then None else Some s) | None \<Rightarrow> None) of
       None \<Rightarrow> (vs @ [viol f (pre @ ''/capability-format'') (label @ '' is not a valid string'')], seen)
     | Some s \<Rightarrow>
         (vs @ report (\<not> rx_match capabilityIDRe s)
                 (viol f (pre @ ''/capability-id-pattern'')
                    (label @ '' '' @ sq s @ '' must match pattern UC-NNN (e.g., UC-001)''))
             @ report (s \<in> set seen) (viol f (pre @ ''/capability-duplicate'') (''duplicate capability '' @ sq s)),
          List.insert s seen))"

definition validateCapabilities :: "frontmatter \<Rightarrow> string \<Rightarrow> string \<Rightarrow> ArtifactViolation list" where
  "validateCapabilities fm f pre =
     (case map_of fm ''capabilities'' of
        None \<Rightarrow> []
      | Some v \<Rightarrow>
          (case as_list v of
             None \<Rightarrow> [viol f (pre @ ''/capabilities-format'') ''capabilities is not a valid array'']
           | Some caps \<Rightarrow>
               (if caps = [] then
                  [viol f (pre @ ''/capabilities-empty'')
                     (''capabilities array is present but empty '' @ [CHR 0xE2, CHR 0x80, CHR 0x94]
                      @ '' omit if not applicable'')]
                else fst (fold (capability_step f pre) (enumerate 0 caps) ([], [])))))"

subsection \<open>The spec and directive validators\<close>

definition spec_completeness :: "ParsedArtifact \<Rightarrow> ArtifactViolation list" where
  "spec_completeness art =
     (let reqs = validateRequirements art in
      validateVerification art ''spec''
      @ validateImplementation art ''spec''
      @ rq_violations reqs
      @ validateClaims art (rq_ids reqs)
      @ validateContracts (pa_Frontmatter art) (pa_Filename art) ''spec''
      @ validateCapabilities (pa_Frontmatter art) (pa_Filename art) ''spec'')"

definition Spec :: "rcompile \<Rightarrow> ParsedArtifact \<Rightarrow> Schema \<Rightarrow> ValidationResult" where
  "Spec rcompile art sch = result_of
     (let ok = filename_ok rcompile art sch in
      vr_Violations (BaseChecks art sch)
      @ filename_check ''spec'' rcompile art sch
      @ slug_check ''spec'' rcompile extractSpecSlug art sch
      @ number_check ''spec'' ''number'' ok specNumberRe art
      @ title_check ''spec'' ok specNumberRe art
      @ status_check ''spec'' art sch
      @ validateRetirementFields art (meta_status art) ''spec''
      @ extension_check ''spec'' art sch
      @ schema_version_check ''spec'' ''schema_version'' art sch
      @ (if isTerminalStatus (meta_status art) then [] else spec_completeness art)
      @ validateReviewQuestions art)"

definition directiveStatuses :: "string list" where
  "directiveStatuses = [''queued'', ''active'', ''specced'', ''done'', ''replaced'', ''canceled'']"

definition Directive :: "ParsedArtifact \<Rightarrow> ValidationResult" where
  "Directive art = result_of
     (let f = pa_Filename art in
      case map_of (pa_Frontmatter art) ''directive'' of
        None \<Rightarrow> [viol f ''directive/directive-required'' ''directive block is missing from frontmatter'']
      | Some v \<Rightarrow>
          (case as_map v of
             None \<Rightarrow> [viol f ''directive/directive-required'' ''directive block must be a YAML mapping'']
           | Some dir \<Rightarrow>
               (case map_of dir ''status'' of
                  None \<Rightarrow> [viol f ''directive/status-required'' ''directive.status is required'']
                | Some (VStr status) \<Rightarrow>
                    report (status \<notin> set directiveStatuses)
                      (viol f ''directive/invalid-status''
                         ''directive.status must be one of: queued, active, specced, done, replaced, canceled'')
                    @ validateRetirementFields art status ''directive''
                | Some _ \<Rightarrow> [])
               @ (case map_of dir ''source'' of
                    None \<Rightarrow> [viol f ''directive/source-required''
                      ''directive.source is required (at least one source artifact)'']
                  | Some (VList xs) \<Rightarrow> report (xs = [])
                      (viol f ''directive/source-required'' ''directive.source must contain at least one source artifact'')
                  | Some _ \<Rightarrow> [])))"

subsection \<open>What a passing spec guarantees\<close>

definition entry_id :: "yval \<Rightarrow> string" where
  "entry_id item = (case item of VMap m \<Rightarrow> map_string m ''id'' | _ \<Rightarrow> [])"

definition claim_names :: "yval \<Rightarrow> string" where
  "claim_names item = (case item of VMap m \<Rightarrow> map_string m ''requirement'' | _ \<Rightarrow> [])"

definition has_tests :: "yval \<Rightarrow> bool" where
  "has_tests item = (case item of VMap m \<Rightarrow> (case map_of m ''tests'' of Some (VList ts) \<Rightarrow> ts \<noteq> [] | _ \<Rightarrow> False) | _ \<Rightarrow> False)"

lemma entry_id_check_Nil:
  "entry_id_check f kind label re shape word m seen = [] \<longleftrightarrow>
     map_of m ''id'' = Some (VStr (map_string m ''id'')) \<and> rx_match re (map_string m ''id'') \<and> map_string m ''id'' \<notin> set seen"
  by (auto simp: entry_id_check_def map_string_def split: option.splits yval.splits if_splits)

lemma note_entry_new:
  "rx_match re (map_string m ''id'') \<Longrightarrow> map_string m ''id'' \<notin> set seen \<Longrightarrow> note_entry re m seen = seen @ [map_string m ''id'']"
  by (simp add: note_entry_def)

lemma requirement_step_clean:
  assumes "rq_violations (requirement_step f (i, item) s) = []"
  shows "rq_violations s = [] \<and> rq_ids (requirement_step f (i, item) s) = rq_ids s @ [entry_id item]
         \<and> rx_match reqIDRe (entry_id item) \<and> entry_id item \<notin> set (rq_ids s)"
  using assms
  by (auto simp: requirement_step_def Let_def entry_id_check_Nil note_entry_new entry_id_def split: option.splits)

lemma requirements_clean:
  "rq_violations (fold (requirement_step f) (enumerate 0 reqs) \<lparr>rq_violations = [], rq_ids = []\<rparr>) = [] \<Longrightarrow>
     rq_ids (fold (requirement_step f) (enumerate 0 reqs) \<lparr>rq_violations = [], rq_ids = []\<rparr>) = map entry_id reqs
     \<and> distinct (map entry_id reqs) \<and> (\<forall>r \<in> set reqs. rx_match reqIDRe (entry_id r))"
proof (induction reqs rule: rev_induct)
  case (snoc r reqs)
  let ?s = "fold (requirement_step f) (enumerate 0 reqs) \<lparr>rq_violations = [], rq_ids = []\<rparr>"
  from snoc.prems have step: "rq_violations (requirement_step f (length reqs, r) ?s) = []"
    by (simp add: enumerate_append_eq)
  from requirement_step_clean [OF step] snoc.IH show ?case by (auto simp: enumerate_append_eq)
qed simp

lemma claim_requirement_check_Nil:
  "claim_requirement_check pre True f label claim ids = [] \<longleftrightarrow>
     map_string claim ''requirement'' \<noteq> [] \<and> map_string claim ''requirement'' \<in> set ids"
  by (auto simp: claim_requirement_check_def map_string_def split: option.splits yval.splits list.splits)

lemma claim_step_clean:
  assumes "cs_violations (claim_step pre True f ids (i, item) s) = []"
  shows "cs_violations s = [] \<and> cs_ids (claim_step pre True f ids (i, item) s) = cs_ids s @ [entry_id item]
         \<and> cs_covered (claim_step pre True f ids (i, item) s) = cs_covered s @ [claim_names item]
         \<and> rx_match claimIDRe (entry_id item) \<and> entry_id item \<notin> set (cs_ids s)
         \<and> claim_names item \<in> set ids \<and> has_tests item"
  using assms
  by (auto simp: claim_step_def Let_def entry_id_check_Nil note_entry_new entry_id_def claim_names_def has_tests_def
      claim_requirement_check_Nil claim_covers_def claim_tests_check_def array_check_def
      split: option.splits yval.splits)

lemma claims_clean:
  "cs_violations (claims_scan pre True f ids claims) = [] \<Longrightarrow>
     cs_ids (claims_scan pre True f ids claims) = map entry_id claims \<and> distinct (map entry_id claims)
     \<and> cs_covered (claims_scan pre True f ids claims) = map claim_names claims
     \<and> (\<forall>c \<in> set claims. rx_match claimIDRe (entry_id c) \<and> claim_names c \<in> set ids \<and> has_tests c)"
proof (induction claims rule: rev_induct)
  case (snoc c claims)
  from snoc.prems have step: "cs_violations (claim_step pre True f ids (length claims, c) (claims_scan pre True f ids claims)) = []"
    by (simp add: claims_scan_def enumerate_append_eq)
  have "claims_scan pre True f ids (claims @ [c]) = claim_step pre True f ids (length claims, c) (claims_scan pre True f ids claims)"
    by (simp add: claims_scan_def enumerate_append_eq)
  with claim_step_clean [OF step] snoc.IH show ?case by auto
qed (simp add: claims_scan_def)

text \<open>C31: A spec in work that passes is traced from its requirements to its tests: its requirements and its claims are
  non-empty arrays with well-formed identifiers, each used once; every requirement is named by a claim, every claim
  names one of the requirements, and every claim lists at least one test.
\<close>

theorem passing_spec_traced:
  assumes "ValidationResult_Pass (Spec rcompile art sch)" "\<not> isTerminalStatus (meta_status art)"
  shows "\<exists>reqs claims.
      map_of (pa_Frontmatter art) ''requirements'' = Some (VList reqs) \<and> reqs \<noteq> []
      \<and> map_of (pa_Frontmatter art) ''claims'' = Some (VList claims) \<and> claims \<noteq> []
      \<and> distinct (map entry_id reqs) \<and> (\<forall>r \<in> set reqs. rx_match reqIDRe (entry_id r))
      \<and> distinct (map entry_id claims) \<and> (\<forall>c \<in> set claims. rx_match claimIDRe (entry_id c))
      \<and> claim_names ` set claims = entry_id ` set reqs
      \<and> (\<forall>c \<in> set claims. has_tests c)"
proof -
  from assms have complete: "spec_completeness art = []"
    by (simp add: ValidationResult_Pass_def Spec_def result_of_def Let_def)
  then have "rq_violations (validateRequirements art) = []" by (simp add: spec_completeness_def Let_def)
  then obtain reqs where reqs: "map_of (pa_Frontmatter art) ''requirements'' = Some (VList reqs)" "reqs \<noteq> []"
    and "rq_violations (fold (requirement_step (pa_Filename art)) (enumerate 0 reqs) \<lparr>rq_violations = [], rq_ids = []\<rparr>) = []"
    and same: "validateRequirements art =
      fold (requirement_step (pa_Filename art)) (enumerate 0 reqs) \<lparr>rq_violations = [], rq_ids = []\<rparr>"
    by (auto simp: validateRequirements_def Let_def split: option.splits if_splits)
  with requirements_clean [of "pa_Filename art" reqs] have ids: "rq_ids (validateRequirements art) = map entry_id reqs"
    "distinct (map entry_id reqs)" "\<forall>r \<in> set reqs. rx_match reqIDRe (entry_id r)" by simp_all
  from complete have "validateClaims art (map entry_id reqs) = []" by (simp add: spec_completeness_def Let_def ids(1))
  then obtain claims where claims: "map_of (pa_Frontmatter art) ''claims'' = Some (VList claims)" "claims \<noteq> []"
    and scan: "cs_violations (claims_scan ''spec'' True (pa_Filename art) (map entry_id reqs) claims) = []"
    and covered: "set (map entry_id reqs) \<subseteq> set (cs_covered (claims_scan ''spec'' True (pa_Filename art) (map entry_id reqs) claims))"
    by (auto simp: validateClaims_def Let_def split: option.splits if_splits)
  note facts = claims_clean [OF scan]
  from facts covered have "claim_names ` set claims = entry_id ` set reqs" by auto
  with reqs claims ids(2,3) facts show ?thesis by blast
qed

text \<open>The schema of specs, as \<open>src/artifacts/spec/v1/schema.json\<close> over the base schema loads, with its patterns compiled.\<close>

definition spec_filename_pattern :: string where
  "spec_filename_pattern = ''^SPEC-[0-9]{3}-[a-z][a-z0-9]*(-[a-z0-9]+)*'' @ CHR 0x5C # ''.spec'' @ CHR 0x5C # ''.md$''"

definition kebab_pattern :: string where "kebab_pattern = ''^[a-z][a-z0-9]*(-[a-z0-9]+)*$''"

definition spec_patterns :: rcompile where
  "spec_patterns p =
     (if p = spec_filename_pattern then
        Some (rx_match (rseq [rlit ''SPEC-'', r_three_digits, rlit ''-'', r_slug, rlit ''.spec.md'']))
      else if p = kebab_pattern then Some (rx_match r_slug)
      else None)"

definition spec_schema :: Schema where
  "spec_schema =
     \<lparr>sch_ArtifactType = ''spec'', sch_FilenamePattern = spec_filename_pattern, sch_SlugPattern = kebab_pattern,
      sch_SlugMinLength = 2, sch_SlugMaxLength = 64,
      sch_RequiredMetadata = [''title'', ''number'', ''created'', ''status'', ''schema_version''],
      sch_ExtensionMetadata = [''spec_version''], sch_MetadataRules = [],
      sch_RequiredSections = [''Overview'', ''Requirements'', ''Implementation'', ''Verification''],
      sch_OptionalSections = [], sch_Extends = ''backstop-artifact-base-v1'',
      sch_StatusEnum = [''draft'', ''ready-for-implementation'', ''implemented'', ''replaced'', ''canceled'', ''deprecated'',
                        ''obsoleted'']\<rparr>"

definition demo_spec :: "yval \<Rightarrow> ParsedArtifact" where
  "demo_spec threshold =
     \<lparr>pa_Filename = ''SPEC-001-ab.spec.md'', pa_SourcePath = [], pa_Title = ''SPEC-001: A'',
      pa_Metadata = [(''number'', ''SPEC-001''), (''created'', ''2026-01-31''), (''status'', ''draft''),
                     (''schema_version'', ''spec/v1''), (''spec_version'', ''1.0.0'')],
      pa_Frontmatter =
        [(''verification'', VMap [(''level'', VStr ''unit''), (''coverage_threshold'', threshold),
                                  (''test_command'', VStr ''go test'')]),
         (''implementation'', VMap [(''summary'', VNull), (''subject'', VNull)]),
         (''requirements'', VList [VMap [(''id'', VStr ''REQ-001''), (''text'', VStr ''r'')]]),
         (''claims'', VList [VMap [(''id'', VStr ''CLM-001''), (''text'', VStr ''c''), (''requirement'', VStr ''REQ-001''),
                                 (''tests'', VList [VStr ''TestA''])]]),
         (''contracts'', VList [VMap [(''file'', VStr ''a.go''),
            (''provides'', VList [VMap [(''name'', VStr ''F''), (''kind'', VStr ''function''), (''signature'', VStr ''func F()'')]])]])],
      pa_Sections = [''Overview'', ''Requirements'', ''Implementation'', ''Verification'']\<rparr>"

lemma demo_spec_live:
  "ValidationResult_Pass (Spec spec_patterns (demo_spec (VInt 90)) spec_schema)"
  "\<not> isTerminalStatus (meta_status (demo_spec (VInt 90)))"
  by code_simp+

theorem passing_spec_traced_witness:
  "\<exists>reqs claims.
      map_of (pa_Frontmatter (demo_spec (VInt 90))) ''requirements'' = Some (VList reqs)
      \<and> map_of (pa_Frontmatter (demo_spec (VInt 90))) ''claims'' = Some (VList claims)
      \<and> claim_names ` set claims = entry_id ` set reqs"
  using passing_spec_traced [OF demo_spec_live] by blast

subsection \<open>Where the checks are laxer than they read\<close>

text \<open>
  The rules "implementation.summary is missing or empty" and "implementation.subject is missing or empty" read the
  value through \<open>%v\<close>, which prints a null as \<open><nil>\<close>: keys written without a value pass, as they do in the
  example above.
\<close>

lemma null_implementation_passes:
  "map_of (pa_Frontmatter art) ''implementation'' = Some (VMap [(''summary'', VNull), (''subject'', VNull)]) \<Longrightarrow>
     validateImplementation art pre = []"
proof -
  have "TrimSpace ''<nil>'' \<noteq> []" by code_simp
  then show "map_of (pa_Frontmatter art) ''implementation'' = Some (VMap [(''summary'', VNull), (''subject'', VNull)]) \<Longrightarrow> ?thesis"
    by (simp add: validateImplementation_def implPresentNonEmpty_def)
qed

text \<open>A coverage threshold is truncated before it is compared, so 90.75 passes where 90 is required.\<close>

lemma fractional_threshold_passes:
  "threshold_check f pre ''unit'' (Some (VFloat (363 / 4) ''90.75'')) = []"
proof -
  have "\<lfloor>363 / 4 :: rat\<rfloor> = 90" by (intro floor_unique) simp_all
  then show ?thesis by (simp add: threshold_check_def thresholdRules_def toInt_def float_to_int_def)
qed

text \<open>
  A requirement whose \<open>follows\<close> holds no string is reported, unless an earlier requirement already had such a
  finding: then it passes in silence.
\<close>

lemma follows_finding_masked:
  "follows_check f label [(''follows'', VList [VInt 1])] [] =
     [viol f ''spec/requirement-follows-empty'' (label @ '' '' @ sq ''follows'' @ '' is empty'')]"
  "hasRule vs ''spec/requirement-follows-empty'' \<Longrightarrow> follows_check f label [(''follows'', VList [VInt 1])] vs = []"
  by (simp_all add: follows_check_def string_items_def map_filter_simps hasRule_def)

text \<open>A directive whose status or source has the wrong type is not reported.\<close>

lemma mistyped_directive_passes:
  "map_of (pa_Frontmatter art) ''directive'' = Some (VMap [(''status'', VInt 5), (''source'', VInt 5)]) \<Longrightarrow>
     ValidationResult_Pass (Directive art)"
  by (simp add: Directive_def result_of_def ValidationResult_Pass_def)

end
