(* ===== verification/Validate_Bundle.thy ===== *)
theory Validate_Bundle
  imports Validate_Spec Go_Int
begin

text \<open>
  The bundle validator (\<open>src/pkg/validate/bundle.go\<close>): the bundle and status blocks, the filename, the
  requirements a maturity level brings, the placeholder ban, the epic block, and the version log of every
  requirement.  The theorems show that a clean version log is strictly ascending with the top-level entry
  last, and what the placeholder search finds.
\<close>

definition bundleNameRe :: rx where "bundleNameRe = rplus (RAlt r_lower_digit (rlit ''-''))"
definition semverRe :: rx where "semverRe = r_semver"
definition bundleReqIDRe :: rx where "bundleReqIDRe = reqIDRe"

definition epicIDRe :: rx where
  "epicIDRe = rseq [rlit ''EPIC-'', rplus (ralt [r_upper, r_digit, rlit ''-''])]"

definition bundleCategories :: "string list" where
  "bundleCategories = [''feature'', ''service'', ''integration'', ''recipe'', ''infrastructure'', ''tool'', ''epic'']"

definition maturityLevels :: "string list" where
  "maturityLevels = [''idea'', ''exploring'', ''defined'', ''ready'', ''delivered'', ''replaced'', ''canceled'', ''deprecated'']"

definition matureSections :: "string list" where
  "matureSections = [''Current Thinking'', ''Draft Requirements'', ''Draft Design Decisions'', ''Spec Seeds'', ''Version History'']"

definition getStringField :: "frontmatter \<Rightarrow> string \<Rightarrow> string option" where
  "getStringField m key =
     (case map_of m key of Some (VStr s) \<Rightarrow> (if TrimSpace s = [] then None else Some s) | _ \<Rightarrow> None)"

definition stringField :: "frontmatter \<Rightarrow> string \<Rightarrow> string" where
  "stringField m key = (case getStringField m key of None \<Rightarrow> [] | Some s \<Rightarrow> s)"

text \<open>A required string field with a shape.\<close>

definition field_check ::
  "frontmatter \<Rightarrow> string \<Rightarrow> (string \<Rightarrow> bool) \<Rightarrow> ArtifactViolation \<Rightarrow> (string \<Rightarrow> ArtifactViolation) \<Rightarrow> ArtifactViolation list" where
  "field_check m key ok missing malformed =
     (case getStringField m key of None \<Rightarrow> [missing] | Some s \<Rightarrow> report (\<not> ok s) (malformed s))"

definition bundle_map :: "ParsedArtifact \<Rightarrow> frontmatter option" where
  "bundle_map art = Option.bind (map_of (pa_Frontmatter art) ''bundle'') as_map"

definition validateBundleBlock :: "ParsedArtifact \<Rightarrow> ArtifactViolation list" where
  "validateBundleBlock art =
     (let f = pa_Filename art in
      case map_of (pa_Frontmatter art) ''bundle'' of
        None \<Rightarrow> [viol f ''bundle/block-required'' ''bundle block is missing from frontmatter'']
      | Some v \<Rightarrow>
          (case as_map v of
             None \<Rightarrow> [viol f ''bundle/block-required'' ''bundle block is not a valid map'']
           | Some b \<Rightarrow>
               field_check b ''name'' (rx_match bundleNameRe)
                 (viol f ''bundle/name-required'' ''bundle.name is required'')
                 (\<lambda>s. viol f ''bundle/name-pattern''
                    (''bundle.name '' @ sq s @ '' must be kebab-case (pattern: ^[a-z0-9-]+$)''))
               @ field_check b ''version'' (rx_match semverRe)
                   (viol f ''bundle/version-required'' ''bundle.version is required'')
                   (\<lambda>s. viol f ''bundle/version-pattern'' (''bundle.version '' @ sq s @ '' must be semver (X.Y.Z)''))
               @ field_check b ''created'' (rx_match dateRe)
                   (viol f ''bundle/created-required'' ''bundle.created is required'')
                   (\<lambda>s. viol f ''bundle/created-pattern'' (''bundle.created '' @ sq s @ '' must be YYYY-MM-DD''))
               @ field_check b ''category'' (\<lambda>s. s \<in> set bundleCategories)
                   (viol f ''bundle/category-required'' ''bundle.category is required'')
                   (\<lambda>s. viol f ''bundle/category-enum''
                      (''bundle.category '' @ sq s
                       @ '' is not valid (allowed: feature, service, integration, recipe, infrastructure, tool, epic)''))))"

definition validateStatusBlock :: "ParsedArtifact \<Rightarrow> ArtifactViolation list" where
  "validateStatusBlock art =
     (let f = pa_Filename art in
      case map_of (pa_Frontmatter art) ''status'' of
        None \<Rightarrow> [viol f ''bundle/status-required'' ''status block is missing from frontmatter'']
      | Some v \<Rightarrow>
          (case as_map v of
             None \<Rightarrow> [viol f ''bundle/status-required'' ''status block is not a valid map'']
           | Some st \<Rightarrow>
               field_check st ''maturity'' (\<lambda>s. s \<in> set maturityLevels)
                 (viol f ''bundle/maturity-required'' ''status.maturity is required'')
                 (\<lambda>s. viol f ''bundle/maturity-enum''
                    (''status.maturity '' @ sq s
                     @ '' is not valid (allowed: idea, exploring, defined, ready, delivered, replaced, canceled, deprecated)''))))"

definition extractMaturity :: "ParsedArtifact \<Rightarrow> string" where
  "extractMaturity art =
     (case Option.bind (map_of (pa_Frontmatter art) ''status'') as_map of None \<Rightarrow> [] | Some st \<Rightarrow> stringField st ''maturity'')"

text \<open>The stem of a bundle's filename: without \<open>.epic.bundle.md\<close> or \<open>.bundle.md\<close>, and without \<open>BUNDLE-NNN-\<close>.\<close>

definition bundle_stem :: "string \<Rightarrow> string" where
  "bundle_stem name =
     (let ext = (case LayoutFor LKindBundle of Some l \<Rightarrow> Some (kl_Extension l) | None \<Rightarrow> None);
          stem = (case ext of
                    None \<Rightarrow> name
                  | Some e \<Rightarrow> (if HasSuffix name (''.epic'' @ e) then TrimSuffix name (''.epic'' @ e)
                               else if HasSuffix name e then TrimSuffix name e else name))
      in case Cut stem (CHR ''-'') of
           Some (p, rest) \<Rightarrow>
             (if p = ''BUNDLE'' then
                (case Cut rest (CHR ''-'') of Some (n, tail) \<Rightarrow> (if n \<noteq> [] then tail else stem) | None \<Rightarrow> stem)
              else stem)
         | None \<Rightarrow> stem)"

definition validateNameFilenameConsistency :: "ParsedArtifact \<Rightarrow> ArtifactViolation list" where
  "validateNameFilenameConsistency art =
     (case Option.bind (bundle_map art) (\<lambda>b. getStringField b ''name'') of
        None \<Rightarrow> []
      | Some name \<Rightarrow>
          (let stem = bundle_stem (pa_Filename art) in
           report (stem \<noteq> name)
             (viol (pa_Filename art) ''bundle/name-filename-mismatch''
                (''bundle.name '' @ sq name @ '' does not match filename stem '' @ sq stem))))"

definition validateVersionGatedUpdated :: "ParsedArtifact \<Rightarrow> ArtifactViolation list" where
  "validateVersionGatedUpdated art =
     (case bundle_map art of
        None \<Rightarrow> []
      | Some b \<Rightarrow>
          (case getStringField b ''version'' of
             None \<Rightarrow> []
           | Some version \<Rightarrow>
               report (version \<noteq> ''0.1.0'' \<and> getStringField b ''updated'' = None)
                 (viol (pa_Filename art) ''bundle/updated-required''
                    (''bundle.updated is required when version is beyond 0.1.0 (current: '' @ version @ '')''))))"

subsection \<open>Maturity\<close>

fun path_present :: "frontmatter \<Rightarrow> string list \<Rightarrow> bool" where
  "path_present fm [] = False"
| "path_present fm [part] =
     (case map_of fm part of
        None \<Rightarrow> False
      | Some (VStr s) \<Rightarrow> TrimSpace s \<noteq> []
      | Some (VList xs) \<Rightarrow> xs \<noteq> []
      | Some v \<Rightarrow> v \<noteq> VNull)"
| "path_present fm (part # p # ps) =
     (case map_of fm part of Some (VMap m) \<Rightarrow> path_present m (p # ps) | _ \<Rightarrow> False)"

definition resolveFrontmatterPath :: "frontmatter \<Rightarrow> string \<Rightarrow> bool" where
  "resolveFrontmatterPath fm path = path_present fm (Split path (CHR ''.''))"

definition mature :: "string \<Rightarrow> bool" where
  "mature maturity \<longleftrightarrow> maturity = ''defined'' \<or> maturity = ''ready''"

definition mature_paths :: "string \<Rightarrow> string list" where
  "mature_paths maturity =
     [''problem.summary'', ''problem.user_story'', ''solution.approach'']
     @ (if maturity = ''ready'' then [''problem.success_criteria'', ''solution.assumptions''] else [])"

definition validateMaturityGates :: "ParsedArtifact \<Rightarrow> string \<Rightarrow> ArtifactViolation list" where
  "validateMaturityGates art maturity =
     (if \<not> mature maturity then []
      else concat (map (\<lambda>path. report (\<not> resolveFrontmatterPath (pa_Frontmatter art) path)
             (viol (pa_Filename art) ''bundle/maturity-gate''
                (path @ '' is required at '' @ sq maturity @ '' maturity''))) (mature_paths maturity))
        @ concat (map (\<lambda>section. report (section \<notin> set (pa_Sections art))
             (viol (pa_Filename art) ''bundle/maturity-section''
                (''section '' @ sq section @ '' is required at '' @ sq maturity @ '' maturity''))) matureSections))"

definition validateEpicBlock :: "ParsedArtifact \<Rightarrow> ArtifactViolation list" where
  "validateEpicBlock art =
     (let f = pa_Filename art in
      if Option.bind (bundle_map art) (\<lambda>b. getStringField b ''category'') \<noteq> Some ''epic'' then []
      else case map_of (pa_Frontmatter art) ''epic'' of
        None \<Rightarrow> [viol f ''bundle/epic-required'' (''epic block is required when bundle.category is '' @ sq ''epic'')]
      | Some v \<Rightarrow>
          (case as_map v of
             None \<Rightarrow> [viol f ''bundle/epic-required'' ''epic block is not a valid map'']
           | Some epic \<Rightarrow>
               field_check epic ''id'' (rx_match epicIDRe)
                 (viol f ''bundle/epic-id-required'' ''epic.id is required'')
                 (\<lambda>s. viol f ''bundle/epic-id-pattern'' (''epic.id '' @ sq s @ '' must match pattern EPIC-[A-Z0-9-]+''))
               @ report (getStringField epic ''goal'' = None)
                   (viol f ''bundle/epic-goal-required'' ''epic.goal is required'')
               @ report (getStringField epic ''success_metric'' = None)
                   (viol f ''bundle/epic-success-metric-required'' ''epic.success_metric is required'')
               @ array_check f epic ''children''
                   (viol f ''bundle/epic-children-required'' ''epic.children is required'')
                   (viol f ''bundle/epic-children-empty'' ''epic.children must contain at least one child bundle'')))"

subsection \<open>The placeholder search\<close>

text \<open>
  \<open>(?i)\b(TBD|TODO|FIXME|XXX)\b|\?{3}\<close>, unanchored.  \<open>\b\<close> is a boundary between ASCII word characters and
  anything else, and no rune outside ASCII folds to a letter of the four words, so the search works on bytes.
\<close>

definition placeholder_words :: "string list" where
  "placeholder_words = [''tbd'', ''todo'', ''fixme'', ''xxx'']"

definition word_byte :: "char \<Rightarrow> bool" where
  "word_byte c \<longleftrightarrow> is_digit c \<or> c = CHR ''_'' \<or> (CHR ''a'' \<le> lower_byte c \<and> lower_byte c \<le> CHR ''z'')"

definition word_here :: "string \<Rightarrow> string \<Rightarrow> bool" where
  "word_here s w \<longleftrightarrow>
     prefix w (ToLower s) \<and> (case drop (length w) s of [] \<Rightarrow> True | c # _ \<Rightarrow> \<not> word_byte c)"

definition placeholder_here :: "bool \<Rightarrow> string \<Rightarrow> bool" where
  "placeholder_here after_word s \<longleftrightarrow>
     (\<not> after_word \<and> (\<exists>w \<in> set placeholder_words. word_here s w)) \<or> prefix ''???'' s"

fun placeholder_from :: "bool \<Rightarrow> string \<Rightarrow> bool" where
  "placeholder_from after_word [] = placeholder_here after_word []"
| "placeholder_from after_word (c # s) =
     (placeholder_here after_word (c # s) \<or> placeholder_from (word_byte c) s)"

definition placeholderRe :: "string \<Rightarrow> bool" where
  "placeholderRe s = placeholder_from False s"

definition validatePlaceholderBan :: "ParsedArtifact \<Rightarrow> string \<Rightarrow> ArtifactViolation list" where
  "validatePlaceholderBan art maturity =
     (if \<not> mature maturity then []
      else case Option.bind (map_of (pa_Frontmatter art) ''problem'') as_map of
        None \<Rightarrow> []
      | Some problem \<Rightarrow>
          (case getStringField problem ''summary'' of
             None \<Rightarrow> []
           | Some summary \<Rightarrow> report (placeholderRe summary)
               (viol (pa_Filename art) ''bundle/placeholder-ban''
                  ''problem.summary contains placeholder text (TBD/TODO/FIXME/XXX/???)'')))"

subsection \<open>Requirements and their version logs\<close>

definition atoiSafe :: "string \<Rightarrow> int" where
  "atoiSafe s = (case parse_digits 0 s of Some n \<Rightarrow> n | None \<Rightarrow> 0)"

fun compare_components :: "string list \<Rightarrow> string list \<Rightarrow> int" where
  "compare_components (a # as) (b # bs) =
     (if atoiSafe a < atoiSafe b then -1 else if atoiSafe a > atoiSafe b then 1 else compare_components as bs)"
| "compare_components _ _ = 0"

definition compareSemver :: "string \<Rightarrow> string \<Rightarrow> int" where
  "compareSemver a b =
     (let ap = SplitN a (CHR ''.'') 3; bp = SplitN b (CHR ''.'') 3 in
      if length ap \<noteq> 3 \<or> length bp \<noteq> 3 then 0 else compare_components ap bp)"

text \<open>The scan of the log: the versions and texts of its maps, and whether every entry was well formed.\<close>

record version_scan =
  vs_violations :: "ArtifactViolation list"
  vs_entries :: "(string \<times> string) list"
  vs_seen :: "string list"
  vs_wellFormed :: bool

definition version_entry_step :: "string \<Rightarrow> string \<Rightarrow> nat \<times> yval \<Rightarrow> version_scan \<Rightarrow> version_scan" where
  "version_entry_step f label = (\<lambda>(j, item) s.
     let here = show_index (label @ '' versions'') j in
     case as_map item of
       None \<Rightarrow> s\<lparr>vs_violations := vs_violations s
                   @ [viol f ''bundle/requirement-versions-entry-format'' (here @ '' is not a valid map'')],
                vs_wellFormed := False\<rparr>
     | Some entry \<Rightarrow>
         (let ev = stringField entry ''version''; hasEV = getStringField entry ''version'' \<noteq> None;
              bad_version = \<not> hasEV \<or> \<not> rx_match semverRe ev;
              bad_text = getStringField entry ''text'' = None;
              repeated = hasEV \<and> ev \<in> set (vs_seen s)
          in \<lparr>vs_violations = vs_violations s
                @ report bad_version (viol f ''bundle/requirement-versions-entry-format''
                    (here @ '' version '' @ sq ev @ '' must be strict semver (X.Y.Z)''))
                @ report bad_text (viol f ''bundle/requirement-versions-entry-text''
                    (here @ '' has empty or missing '' @ sq ''text''))
                @ report repeated (viol f ''bundle/requirement-versions-duplicate'' (here @ '' duplicate version '' @ sq ev)),
              vs_entries = vs_entries s @ [(ev, stringField entry ''text'')],
              vs_seen = (if hasEV then List.insert ev (vs_seen s) else vs_seen s),
              vs_wellFormed = (vs_wellFormed s \<and> \<not> bad_version \<and> \<not> bad_text \<and> \<not> repeated)\<rparr>))"

definition scan_versions :: "string \<Rightarrow> string \<Rightarrow> yval list \<Rightarrow> version_scan" where
  "scan_versions f label versions =
     fold (version_entry_step f label) (enumerate 0 versions)
       \<lparr>vs_violations = [], vs_entries = [], vs_seen = [], vs_wellFormed = True\<rparr>"

definition monotonic_check :: "string \<Rightarrow> string \<Rightarrow> string list \<Rightarrow> ArtifactViolation list" where
  "monotonic_check f label vs =
     concat (map (\<lambda>(prev, cur).
       report (rx_match semverRe prev \<and> rx_match semverRe cur \<and> compareSemver cur prev \<le> 0)
         (viol f ''bundle/requirement-versions-nonmonotonic''
            (label @ '' versions must be strictly ascending by semver ('' @ sq cur @ '' does not exceed '' @ sq prev @ '')'')))
       (zip vs (tl vs)))"

definition newest_index :: "string list \<Rightarrow> nat" where
  "newest_index vs = fold (\<lambda>j best. if compareSemver (vs ! j) (vs ! best) > 0 then j else best) [1..<length vs] 0"

definition newest_check ::
  "string \<Rightarrow> string \<Rightarrow> frontmatter \<Rightarrow> version_scan \<Rightarrow> ArtifactViolation list" where
  "newest_check f label req s =
     (if \<not> vs_wellFormed s \<or> vs_entries s = [] then []
      else let (ev, et) = vs_entries s ! newest_index (map fst (vs_entries s)); version = stringField req ''version'' in
        report (getStringField req ''version'' \<noteq> None \<and> version \<noteq> ev)
          (viol f ''bundle/requirement-version-not-newest''
             (label @ '' top-level version '' @ sq version @ '' must equal the newest log entry version '' @ sq ev))
        @ report (TrimSpace (stringField req ''text'') \<noteq> TrimSpace et)
            (viol f ''bundle/requirement-text-not-newest''
               (label @ '' top-level text must equal the newest log entry'' @ CHR 0x27 # ''s text'')))"

definition validateReqVersionLog :: "string \<Rightarrow> string \<Rightarrow> frontmatter \<Rightarrow> ArtifactViolation list" where
  "validateReqVersionLog f label req =
     field_check req ''version'' (rx_match semverRe)
       (viol f ''bundle/requirement-version-required''
          (label @ '' is missing '' @ sq ''version'' @ '' (per-REQ semver MAJOR.MINOR.PATCH)''))
       (\<lambda>s. viol f ''bundle/requirement-version-format''
          (label @ '' version '' @ sq s @ '' must be strict semver (X.Y.Z, no prerelease/build)''))
     @ (case map_of req ''versions'' of
          None \<Rightarrow> []
        | Some v \<Rightarrow>
            (case as_list v of
               None \<Rightarrow> [viol f ''bundle/requirement-versions-format''
                 (label @ '' '' @ sq ''versions'' @ '' must be a list of {version, text} entries'')]
             | Some versions \<Rightarrow>
                 (if versions = [] then
                    [viol f ''bundle/requirement-versions-empty''
                       (label @ '' '' @ sq ''versions'' @ '' is present but empty (a version log must have at least one entry)'')]
                  else let s = scan_versions f label versions in
                    vs_violations s @ monotonic_check f label (map fst (vs_entries s)) @ newest_check f label req s)))"

definition bundle_requirement_step ::
  "string \<Rightarrow> nat \<times> yval \<Rightarrow> ArtifactViolation list \<times> string list \<Rightarrow> ArtifactViolation list \<times> string list" where
  "bundle_requirement_step f = (\<lambda>(i, item) (vs, seen).
     let label = show_index ''requirements'' i in
     case as_map item of
       None \<Rightarrow> (vs @ [viol f ''bundle/requirement-format'' (label @ '' is not a valid map'')], seen)
     | Some req \<Rightarrow>
         (let rid = stringField req ''id'' in
          (vs @ (if getStringField req ''id'' = None then
                   [viol f ''bundle/requirement-id-required'' (label @ '' is missing '' @ sq ''id'')]
                 else if \<not> rx_match bundleReqIDRe rid then
                   [viol f ''bundle/requirement-id-pattern'' (label @ '' id '' @ sq rid @ '' must match pattern REQ-NNN'')]
                 else report (rid \<in> set seen)
                   (viol f ''bundle/requirement-id-duplicate'' (''duplicate requirement id '' @ sq rid)))
              @ report (getStringField req ''text'' = None)
                  (viol f ''bundle/requirement-text-required'' (label @ '' is missing '' @ sq ''text''))
              @ validateReqVersionLog f label req,
           if rx_match bundleReqIDRe rid then List.insert rid seen else seen)))"

definition validateBundleRequirements :: "ParsedArtifact \<Rightarrow> string \<Rightarrow> ArtifactViolation list" where
  "validateBundleRequirements art maturity =
     (let f = pa_Filename art; requiresDefined = maturity \<in> {''defined'', ''ready'', ''delivered''} in
      case map_of (pa_Frontmatter art) ''requirements'' of
        None \<Rightarrow> report requiresDefined
          (viol f ''bundle/requirements-required'' (''requirements array is required at '' @ sq maturity @ '' maturity''))
      | Some v \<Rightarrow>
          (case as_list v of
             None \<Rightarrow> [viol f ''bundle/requirements-format'' ''requirements is not a valid array'']
           | Some reqs \<Rightarrow>
               (if reqs = [] \<and> requiresDefined then
                  [viol f ''bundle/requirements-required''
                     (''requirements array must not be empty at '' @ sq maturity @ '' maturity'')]
                else fst (fold (bundle_requirement_step f) (enumerate 0 reqs) ([], [])))))"

definition Bundle :: "rcompile \<Rightarrow> ParsedArtifact \<Rightarrow> Schema \<Rightarrow> ValidationResult" where
  "Bundle rcompile art sch = result_of
     (let maturity = extractMaturity art in
      vr_Violations (BaseChecks art sch)
      @ filename_check ''bundle'' rcompile art sch
      @ schema_version_check ''bundle'' ''schema_version'' art sch
      @ validateBundleBlock art
      @ validateStatusBlock art
      @ validateRetirementFields art maturity ''bundle''
      @ (if filename_ok rcompile art sch then validateNameFilenameConsistency art else [])
      @ validateVersionGatedUpdated art
      @ (if isTerminalStatus maturity then []
         else validateMaturityGates art maturity @ validateEpicBlock art @ validatePlaceholderBan art maturity
              @ validateBundleRequirements art maturity))"

subsection \<open>A clean version log\<close>

lemma rx_lang_star_class: "rx_lang (RStar (RClass cs)) = {s. set s \<subseteq> set cs}"
proof (intro set_eqI iffI)
  fix s assume "s \<in> {s. set s \<subseteq> set cs}"
  then have "s = concat (map (\<lambda>c. [c]) s) \<and> set (map (\<lambda>c. [c]) s) \<subseteq> rx_lang (RClass cs)" by auto
  then show "s \<in> rx_lang (RStar (RClass cs))" unfolding rx_lang.simps by blast
next
  fix s assume "s \<in> rx_lang (RStar (RClass cs))"
  then obtain us where us: "s = concat us" "set us \<subseteq> rx_lang (RClass cs)" by auto
  then show "s \<in> {s. set s \<subseteq> set cs}" by fastforce
qed

lemma rx_lang_digits: "rx_lang (rplus r_digit) = {s. all_digits s}"
proof (intro set_eqI)
  fix s
  have digits: "set w \<subseteq> set ''0123456789'' \<longleftrightarrow> list_all is_digit w" for w
    unfolding subset_iff list_all_iff digit_class by blast
  have "s \<in> rx_lang (rplus r_digit) \<longleftrightarrow> (\<exists>c w. s = c # w \<and> is_digit c \<and> list_all is_digit w)"
    unfolding rplus_def r_digit_def rx_lang_class_cat rx_lang_star_class digits digit_class by simp
  also have "\<dots> \<longleftrightarrow> s \<in> {s. all_digits s}" by (cases s) (simp_all add: all_digits_def)
  finally show "s \<in> rx_lang (rplus r_digit) \<longleftrightarrow> s \<in> {s. all_digits s}" .
qed

lemma semver_shape:
  "rx_match semverRe s \<longleftrightarrow> (\<exists>a b c. s = a @ ''.'' @ b @ ''.'' @ c \<and> all_digits a \<and> all_digits b \<and> all_digits c)"
  unfolding rx_match_lang semverRe_def r_semver_def
  by (simp add: rx_lang_digits del: rx_lang_class_cat) blast

lemma all_digits_no_dot: "all_digits s \<Longrightarrow> CHR ''.'' \<notin> set s"
  by (auto simp: all_digits_def list_all_iff is_digit_def)

lemma SplitN_step: "d \<notin> set a \<Longrightarrow> SplitN (a @ d # rest) d (Suc (Suc n)) = a # SplitN rest d (Suc n)"
proof -
  assume "d \<notin> set a"
  then have "\<forall>x \<in> set a. x \<noteq> d" by auto
  then show ?thesis by (simp add: takeWhile_append2 dropWhile_append2)
qed

lemma semver_parts:
  assumes "all_digits a" "all_digits b" "all_digits c"
  shows "SplitN (a @ ''.'' @ b @ ''.'' @ c) (CHR ''.'') 3 = [a, b, c]"
  using SplitN_step [OF all_digits_no_dot [OF assms(1)], of "b @ ''.'' @ c" 1]
    SplitN_step [OF all_digits_no_dot [OF assms(2)], of c 0]
  by (simp add: numeral_3_eq_3)

text \<open>The components of a version as Go's loop reads them, compared as a list of integers.\<close>

definition semver_key :: "string \<Rightarrow> int list" where
  "semver_key s = map atoiSafe (SplitN s (CHR ''.'') 3)"

lemma compare_components_iff:
  "length as = length bs \<Longrightarrow>
     (compare_components as bs > 0 \<longleftrightarrow> map atoiSafe bs < map atoiSafe as)
     \<and> (compare_components as bs \<le> 0 \<longleftrightarrow> map atoiSafe as \<le> map atoiSafe bs)"
  by (induction as bs rule: list_induct2) auto

lemma compareSemver_key:
  assumes "rx_match semverRe a" "rx_match semverRe b"
  shows "compareSemver a b > 0 \<longleftrightarrow> semver_key b < semver_key a"
    and "compareSemver a b \<le> 0 \<longleftrightarrow> semver_key a \<le> semver_key b"
proof -
  from assms have "length (SplitN a (CHR ''.'') 3) = 3" "length (SplitN b (CHR ''.'') 3) = 3"
    unfolding semver_shape using semver_parts by fastforce+
  then show "compareSemver a b > 0 \<longleftrightarrow> semver_key b < semver_key a"
      "compareSemver a b \<le> 0 \<longleftrightarrow> semver_key a \<le> semver_key b"
    using compare_components_iff [of "SplitN a (CHR ''.'') 3" "SplitN b (CHR ''.'') 3"]
    by (simp_all add: compareSemver_def semver_key_def)
qed

text \<open>On versions whose components fit in 63 bits the key is the version.\<close>

lemma semver_key_rendered:
  assumes "int a < 2 ^ 63" "int b < 2 ^ 63" "int c < 2 ^ 63"
  shows "semver_key (show_nat a @ ''.'' @ show_nat b @ ''.'' @ show_nat c) = [int a, int b, int c]"
  using assms by (simp add: semver_key_def semver_parts [simplified] atoiSafe_def parse_show_nat all_digits_show_nat)

definition log_entry :: "yval \<Rightarrow> string \<times> string" where
  "log_entry item = (case item of VMap m \<Rightarrow> (stringField m ''version'', stringField m ''text'') | _ \<Rightarrow> ([], []))"

lemma version_entry_clean:
  assumes "vs_violations (version_entry_step f label (j, item) s) = []"
  shows "vs_violations s = [] \<and> vs_wellFormed (version_entry_step f label (j, item) s) = vs_wellFormed s
         \<and> vs_entries (version_entry_step f label (j, item) s) = vs_entries s @ [log_entry item]
         \<and> rx_match semverRe (fst (log_entry item))"
  using assms by (auto simp: version_entry_step_def Let_def log_entry_def split: option.splits)

lemma versions_clean:
  "vs_violations (scan_versions f label versions) = [] \<Longrightarrow>
     vs_entries (scan_versions f label versions) = map log_entry versions
     \<and> vs_wellFormed (scan_versions f label versions)
     \<and> (\<forall>v \<in> set versions. rx_match semverRe (fst (log_entry v)))"
proof (induction versions rule: rev_induct)
  case (snoc v versions)
  have last: "scan_versions f label (versions @ [v]) =
      version_entry_step f label (length versions, v) (scan_versions f label versions)"
    by (simp add: scan_versions_def enumerate_append_eq)
  with snoc.prems have "vs_violations (version_entry_step f label (length versions, v) (scan_versions f label versions)) = []"
    by simp
  from version_entry_clean [OF this] snoc.IH show ?case by (auto simp: last)
qed (simp add: scan_versions_def)

lemma monotonic_sorted:
  assumes "monotonic_check f label vs = []" "\<forall>v \<in> set vs. rx_match semverRe v"
  shows "sorted_wrt (<) (map semver_key vs)"
  using assms
proof (induction vs rule: induct_list012)
  case (3 x y zs)
  have "semver_key x < semver_key y"
    using 3(3,4) compareSemver_key(2) [of y x] by (auto simp: monotonic_check_def not_le)
  moreover have "sorted_wrt (<) (map semver_key (y # zs))"
    using 3 by (intro 3(2)) (auto simp: monotonic_check_def)
  ultimately show ?case by (auto intro: less_trans)
qed auto

lemma newest_is_last:
  assumes sorted: "sorted_wrt (<) (map semver_key vs)" and shape: "\<forall>v \<in> set vs. rx_match semverRe v" and "vs \<noteq> []"
  shows "newest_index vs = length vs - 1"
proof -
  have "fold (\<lambda>j best. if compareSemver (vs ! j) (vs ! best) > 0 then j else best) [1..<Suc m] 0 = m"
    if "m < length vs" for m
    using that
  proof (induction m)
    case (Suc m)
    have "semver_key (vs ! m) < semver_key (vs ! Suc m)"
      using sorted_wrt_nth_less [OF sorted, of m "Suc m"] Suc.prems by simp
    then have "compareSemver (vs ! Suc m) (vs ! m) > 0"
      using shape Suc.prems compareSemver_key(1) [of "vs ! Suc m" "vs ! m"] by simp
    with Suc show ?case by simp
  qed simp
  from this [of "length vs - 1"] \<open>vs \<noteq> []\<close> show ?thesis by (simp add: newest_index_def)
qed


definition demo_log :: frontmatter where
  "demo_log =
     [(''version'', VStr ''1.10.0''), (''text'', VStr ''new''),
      (''versions'', VList [VMap [(''version'', VStr ''1.9.0''), (''text'', VStr ''old'')],
                          VMap [(''version'', VStr ''1.10.0''), (''text'', VStr ''new'')]])]"

lemma demo_log_clean: "validateReqVersionLog ''b'' ''r'' demo_log = []"
  by code_simp


subsection \<open>What the placeholder search finds\<close>

definition placeholder_at :: "bool \<Rightarrow> string \<Rightarrow> string \<Rightarrow> string \<Rightarrow> bool" where
  "placeholder_at after_word pre w post \<longleftrightarrow>
     (ToLower w \<in> set placeholder_words
        \<and> \<not> (if pre = [] then after_word else word_byte (last pre)) \<and> \<not> (post \<noteq> [] \<and> word_byte (hd post)))
     \<or> w = ''???''"

lemma word_here_iff:
  "word_here s w \<longleftrightarrow> (\<exists>u post. s = u @ post \<and> ToLower u = w \<and> \<not> (post \<noteq> [] \<and> word_byte (hd post)))"
proof
  assume h: "word_here s w"
  then have "ToLower (take (length w) s) = w"
    by (auto simp: word_here_def ToLower_def prefix_def simp flip: take_map)
  with h show "\<exists>u post. s = u @ post \<and> ToLower u = w \<and> \<not> (post \<noteq> [] \<and> word_byte (hd post))"
    by (intro exI [of _ "take (length w) s"] exI [of _ "drop (length w) s"])
      (auto simp: word_here_def split: list.splits)
next
  assume "\<exists>u post. s = u @ post \<and> ToLower u = w \<and> \<not> (post \<noteq> [] \<and> word_byte (hd post))"
  then show "word_here s w"
    by (auto simp: word_here_def ToLower_def split: list.splits)
qed

lemma placeholder_here_iff:
  "placeholder_here aw s \<longleftrightarrow> (\<exists>w post. s = w @ post \<and> placeholder_at aw [] w post)"
proof -
  have "prefix ''???'' s \<longleftrightarrow> (\<exists>w post. s = w @ post \<and> w = ''???'')" by (auto simp: prefix_def)
  then show ?thesis
    unfolding placeholder_here_def word_here_iff placeholder_at_def by (simp only: simp_thms if_True) blast
qed

lemma placeholder_from_iff:
  "placeholder_from aw s \<longleftrightarrow> (\<exists>pre w post. s = pre @ w @ post \<and> placeholder_at aw pre w post)"
proof (induction s arbitrary: aw)
  case Nil
  show ?case by (simp add: placeholder_here_iff)
next
  case (Cons c s)
  have shift: "placeholder_at (word_byte c) pre w post \<longleftrightarrow> placeholder_at aw (c # pre) w post" for pre w post
    by (simp add: placeholder_at_def)
  show ?case
  proof
    assume "placeholder_from aw (c # s)"
    then consider "placeholder_here aw (c # s)" | "placeholder_from (word_byte c) s" by auto
    then show "\<exists>pre w post. c # s = pre @ w @ post \<and> placeholder_at aw pre w post"
    proof cases
      case 1
      then obtain w post where "c # s = [] @ w @ post" "placeholder_at aw [] w post" by (auto simp: placeholder_here_iff)
      then show ?thesis by blast
    next
      case 2
      then obtain pre w post where "s = pre @ w @ post" "placeholder_at (word_byte c) pre w post" using Cons.IH by blast
      then have "c # s = (c # pre) @ w @ post" "placeholder_at aw (c # pre) w post" by (simp_all add: shift)
      then show ?thesis by blast
    qed
  next
    assume "\<exists>pre w post. c # s = pre @ w @ post \<and> placeholder_at aw pre w post"
    then obtain pre w post where h: "c # s = pre @ w @ post" "placeholder_at aw pre w post" by blast
    show "placeholder_from aw (c # s)"
    proof (cases pre)
      case Nil
      with h have "placeholder_here aw (c # s)" by (auto simp: placeholder_here_iff)
      then show ?thesis by simp
    next
      case (Cons d pre')
      with h have "s = pre' @ w @ post" "placeholder_at aw (c # pre') w post" by simp_all
      then have "s = pre' @ w @ post" "placeholder_at (word_byte c) pre' w post" unfolding shift by simp_all
      with Cons.IH show ?thesis by auto
    qed
  qed
qed

text \<open>
  The placeholder ban reports exactly the summaries that contain, in any case, one of the words TBD, TODO, FIXME
  and XXX standing alone, or three question marks in a row.
\<close>

theorem placeholder_ban_exact:
  "placeholderRe s \<longleftrightarrow>
     (\<exists>pre w post. s = pre @ w @ post
        \<and> (w = ''???''
           \<or> ToLower w \<in> {''tbd'', ''todo'', ''fixme'', ''xxx''}
             \<and> (pre = [] \<or> \<not> word_byte (last pre)) \<and> (post = [] \<or> \<not> word_byte (hd post))))"
  unfolding placeholderRe_def placeholder_from_iff placeholder_at_def placeholder_words_def
  by (intro ex_cong1) auto

text \<open>Past 64 bits the component loop wraps, so a log that ascends can be reported as not ascending.\<close>

lemma version_overflow_misread:
  "semver_key ''18446744073709551616.0.0'' = [0, 0, 0]"
  "compareSemver ''18446744073709551616.0.0'' ''1.0.0'' = -1"
  by code_simp+

text \<open>\<open>stringField\<close> tests the trimmed value but returns the value as it is.\<close>

lemma stringField_untrimmed: "stringField [(''name'', VStr '' a '')] ''name'' = '' a ''"
  by code_simp

end
