(* ===== verification/Validate_Issue.thy ===== *)
theory Validate_Issue
  imports Validate_Bundle
begin

text \<open>
  The issue validator (\<open>src/pkg/validate/issue.go\<close>, \<open>delivered_by.go\<close>, \<open>resolved_by.go\<close>): the issue block,
  the status rules, traceability, and the two pointers a closed issue may carry instead of its own
  requirements and claims.  The directory listings and the file reader are a parameter.  The main theorem
  shows what stands behind a closed issue that passes.
\<close>

subsection \<open>The files beside an issue\<close>

text \<open>
  \<open>filepath.Glob\<close> on \<open>dir/pre*ext\<close>, with \<open>pre\<close> and \<open>ext\<close> free of metacharacters: the names of the directory that
  match, in order.  A directory that itself contains a metacharacter is a pattern too; what such a pattern
  matches, \<^emph>\<open>sf_glob\<close>, is left to the file system.
\<close>

record siblings =
  sf_is_dir :: "string \<Rightarrow> bool"
  sf_names :: "string \<Rightarrow> string list"
  sf_glob :: "string \<Rightarrow> string list"
  sf_read :: "string \<Rightarrow> string + string"
  sf_yaml :: "string \<Rightarrow> string + frontmatter"

definition has_meta :: "string \<Rightarrow> bool" where
  "has_meta p \<longleftrightarrow> (\<exists>c \<in> set p. c \<in> set [CHR ''*'', CHR ''?'', CHR ''['', CHR 0x5C])"

definition glob_match :: "string \<Rightarrow> string \<Rightarrow> string \<Rightarrow> bool" where
  "glob_match pre ext name \<longleftrightarrow> HasPrefix name pre \<and> HasSuffix (drop (length pre) name) ext"

definition Glob :: "siblings \<Rightarrow> string \<Rightarrow> string \<Rightarrow> string \<Rightarrow> string list" where
  "Glob fs dir pre ext =
     (if has_meta dir then sf_glob fs (JoinPath [dir, pre @ ''*'' @ ext])
      else map (\<lambda>n. JoinPath [dir, n]) (filter (glob_match pre ext) (sort (sf_names fs dir))))"

definition sibling_dir :: "ParsedArtifact \<Rightarrow> string \<Rightarrow> string option" where
  "sibling_dir art name =
     (let dir = Dir (pa_SourcePath art) in
      if pa_SourcePath art = [] \<or> dir = ''.'' \<or> dir = [] then None else Some (JoinPath [dir, ''..'', name]))"

subsection \<open>Delivered by a plan\<close>

definition deliveredByRe :: rx where "deliveredByRe = rseq [rlit ''PLAN-ISSUE-'', r_three_digits]"

definition resolvePlansDir :: "siblings \<Rightarrow> ParsedArtifact \<Rightarrow> (string \<times> KindLayout) option" where
  "resolvePlansDir fs art =
     (case LayoutFor LKindPlan of
        None \<Rightarrow> None
      | Some layout \<Rightarrow>
          (case sibling_dir art (kl_Directory layout) of
             None \<Rightarrow> None
           | Some dir \<Rightarrow> if sf_is_dir fs dir then Some (dir, layout) else None))"

definition validateDeliveredBy :: "siblings \<Rightarrow> ParsedArtifact \<Rightarrow> string \<Rightarrow> string \<Rightarrow> ArtifactViolation list" where
  "validateDeliveredBy fs art deliveredBy issueID =
     (let f = pa_Filename art; pointer = ''delivered_by '' @ sq deliveredBy in
      if \<not> rx_match deliveredByRe deliveredBy then
        [viol f ''issue/delivered-by-malformed'' (pointer @ '' must match PLAN-ISSUE-NNN'')]
      else case resolvePlansDir fs art of
        None \<Rightarrow> [viol f ''issue/delivered-by-plans-unresolvable''
          (pointer @ '' cannot be verified: no plans/ directory resolves from the issue'' @ CHR 0x27 # ''s source path'')]
      | Some (plansDir, layout) \<Rightarrow>
          (case Glob fs plansDir (deliveredBy @ ''-'') (kl_Extension layout) of
             [] \<Rightarrow> [viol f ''issue/delivered-by-plan-not-found''
               (pointer @ '' names no plan file ('' @ deliveredBy @ ''-*'' @ kl_Extension layout @ '') under '' @ plansDir)]
           | plan # _ \<Rightarrow>
               (case ParseFile (sf_read fs) (sf_yaml fs) plan of
                  Inl err \<Rightarrow> [viol f ''issue/delivered-by-plan-invalid''
                    (pointer @ '' backing plan '' @ Base plan @ '' failed to parse: '' @ err)]
                | Inr planArt \<Rightarrow>
                    (let found = vr_Violations (Plan planArt); status = getFrontmatterString planArt ''status'';
                         specID = getFrontmatterString planArt ''spec_id'' in
                     if found \<noteq> [] then
                       [viol f ''issue/delivered-by-plan-invalid''
                          (pointer @ '' backing plan '' @ Base plan @ '' does not itself validate clean (''
                           @ show_nat (length found) @ '' violation(s))'')]
                     else if status \<noteq> ''completed'' then
                       [viol f ''issue/delivered-by-plan-not-completed''
                          (pointer @ '' backing plan status is '' @ sq status @ '', not '' @ sq ''completed''
                           @ '' (only a completed plan is a delivered trace)'')]
                     else if specID \<noteq> issueID then
                       [viol f ''issue/delivered-by-spec-mismatch''
                          (pointer @ '' backing plan spec_id '' @ sq specID @ '' does not match closing issue '' @ sq issueID)]
                     else []))))"

subsection \<open>Resolved by an artifact, a commit or a pull request\<close>

definition resolvedByTypedRefRe :: rx where "resolvedByTypedRefRe = replacedByRefPattern"

definition resolvedByCommitRe :: "string \<Rightarrow> bool" where
  "resolvedByCommitRe s \<longleftrightarrow>
     7 \<le> length s \<and> length s \<le> 40 \<and> (\<forall>c \<in> set s. is_digit c \<or> (CHR ''a'' \<le> c \<and> c \<le> CHR ''f''))"

definition resolvedByTypeDir :: "(string \<times> Kind) list" where
  "resolvedByTypeDir =
     [(''BUNDLE'', LKindBundle), (''SPEC'', LKindSpec), (''ISSUE'', LKindIssue), (''PLAN'', LKindPlan),
      (''DIR'', LKindDirective)]"

definition typedRefArtifactExists :: "siblings \<Rightarrow> ParsedArtifact \<Rightarrow> string \<Rightarrow> bool" where
  "typedRefArtifactExists fs art ref =
     (case Option.bind (map_of resolvedByTypeDir (hd (SplitN ref (CHR ''-'') 2))) LayoutFor of
        None \<Rightarrow> False
      | Some layout \<Rightarrow>
          (case sibling_dir art (kl_Directory layout) of
             None \<Rightarrow> False
           | Some dir \<Rightarrow> Glob fs dir (ref @ ''-'') (kl_Extension layout) \<noteq> []))"

definition isPullRequestURL :: "string \<Rightarrow> bool" where
  "isPullRequestURL ref \<longleftrightarrow>
     HasPrefix ref ''https://'' \<and> (Contains ref ''/pull/'' \<or> Contains ref ''/pulls/'')"

definition validateResolvedBy :: "siblings \<Rightarrow> ParsedArtifact \<Rightarrow> string \<Rightarrow> ArtifactViolation list" where
  "validateResolvedBy fs art resolvedBy =
     (let f = pa_Filename art; ref = TrimSpace resolvedBy in
      if ref = [] then
        [viol f ''issue/resolved-by-malformed''
           ''resolved-by must be a structured ref: a typed artifact id (BUNDLE/SPEC/ISSUE/PLAN/DIR-NNN) or a commit/PR ref (hex SHA or PR URL); empty/blank is not permitted'']
      else if rx_match resolvedByTypedRefRe ref then
        report (\<not> typedRefArtifactExists fs art ref)
          (viol f ''issue/resolved-by-artifact-not-found''
             (''resolved-by '' @ sq ref @ '' is a typed artifact ref but no matching artifact file resolves from the issue''
              @ CHR 0x27 # ''s source path''))
      else report (\<not> (resolvedByCommitRe ref \<or> isPullRequestURL ref))
        (viol f ''issue/resolved-by-malformed''
           (''resolved-by '' @ sq ref @ '' is neither a typed artifact id (BUNDLE/SPEC/ISSUE/PLAN/DIR-NNN) nor a commit/PR ref (hex SHA or PR URL)'')))"

subsection \<open>The issue block\<close>

definition issueIDRe :: rx where "issueIDRe = rseq [rlit ''ISSUE-'', r_three_digits]"

definition issueNumberRe :: "string \<Rightarrow> string option" where
  "issueNumberRe name =
     (if rx_match (rseq [rlit ''ISSUE-'', r_three_digits, rlit ''-'']) (take 10 name) then Some (take 9 name) else None)"

definition issueTypes :: "string list" where
  "issueTypes = [''bug'', ''technical-debt'', ''enhancement'', ''question'', ''policy-violation'']"

definition issueStatuses :: "string list" where
  "issueStatuses = [''open'', ''ready'', ''in-progress'', ''blocked'', ''closed'', ''replaced'', ''canceled'', ''obsoleted'']"

definition traceabilityRequired :: "string list" where
  "traceabilityRequired = [''ready'', ''in-progress'', ''blocked'', ''closed'']"

definition issue_map :: "ParsedArtifact \<Rightarrow> frontmatter option" where
  "issue_map art = Option.bind (map_of (pa_Frontmatter art) ''issue'') as_map"

text \<open>The block's findings and the status it declares, empty when that is not a valid one.\<close>

definition issue_status :: "ParsedArtifact \<Rightarrow> string" where
  "issue_status art =
     (case Option.bind (issue_map art) (\<lambda>m. getStringField m ''status'') of
        None \<Rightarrow> [] | Some s \<Rightarrow> if s \<in> set issueStatuses then s else [])"

definition validateIssueBlock :: "ParsedArtifact \<Rightarrow> ArtifactViolation list" where
  "validateIssueBlock art =
     (let f = pa_Filename art in
      case map_of (pa_Frontmatter art) ''issue'' of
        None \<Rightarrow> [viol f ''issue/block-required'' ''issue block is missing from frontmatter'']
      | Some v \<Rightarrow>
          (case as_map v of
             None \<Rightarrow> [viol f ''issue/block-required'' ''issue block is not a valid map'']
           | Some m \<Rightarrow>
               field_check m ''id'' (rx_match issueIDRe)
                 (viol f ''issue/id-required'' ''issue.id is required'')
                 (\<lambda>s. viol f ''issue/id-pattern'' (''issue.id '' @ sq s @ '' must match pattern ISSUE-NNN''))
               @ report (getStringField m ''title'' = None) (viol f ''issue/title-required'' ''issue.title is required'')
               @ field_check m ''type'' (\<lambda>s. s \<in> set issueTypes)
                   (viol f ''issue/type-required'' ''issue.type is required'')
                   (\<lambda>s. viol f ''issue/type-enum''
                      (''issue.type '' @ sq s
                       @ '' is not valid (allowed: bug, technical-debt, enhancement, question, policy-violation)''))
               @ field_check m ''status'' (\<lambda>s. s \<in> set issueStatuses)
                   (viol f ''issue/status-required'' ''issue.status is required'')
                   (\<lambda>s. viol f ''issue/status-enum''
                      (''issue.status '' @ sq s
                       @ '' is not valid (allowed: open, ready, in-progress, blocked, closed, replaced, canceled, obsoleted)''))
               @ field_check m ''created'' (rx_match dateRe)
                   (viol f ''issue/created-required'' ''issue.created is required'')
                   (\<lambda>s. viol f ''issue/created-pattern'' (''issue.created '' @ sq s @ '' must be YYYY-MM-DD''))))"

definition validateIssueIDConsistency :: "ParsedArtifact \<Rightarrow> ArtifactViolation list" where
  "validateIssueIDConsistency art =
     (case (Option.bind (issue_map art) (\<lambda>m. getStringField m ''id''), issueNumberRe (pa_Filename art)) of
        (Some i, Some n) \<Rightarrow> report (n \<noteq> i)
          (viol (pa_Filename art) ''issue/id-filename-mismatch''
             (''issue.id '' @ sq i @ '' does not match filename prefix '' @ sq n))
      | _ \<Rightarrow> [])"

definition has_blocked_by :: "ParsedArtifact \<Rightarrow> bool" where
  "has_blocked_by art =
     (case Option.bind (map_of (pa_Frontmatter art) ''context'') as_map of
        None \<Rightarrow> False
      | Some ctx \<Rightarrow> (case map_of ctx ''blocked_by'' of Some (VList xs) \<Rightarrow> xs \<noteq> [] | _ \<Rightarrow> False))"

definition validateIssueStatusRules :: "ParsedArtifact \<Rightarrow> string \<Rightarrow> ArtifactViolation list" where
  "validateIssueStatusRules art status =
     report (status = ''blocked'' \<and> \<not> has_blocked_by art)
       (viol (pa_Filename art) ''issue/blocked-requires-blocked-by''
          (''issues with status '' @ sq ''blocked'' @ '' must have non-empty context.blocked_by''))
     @ report (status = ''closed'' \<and> Option.bind (issue_map art) (\<lambda>m. getStringField m ''closed'') = None)
         (viol (pa_Filename art) ''issue/closed-requires-date''
            (''issues with status '' @ sq ''closed'' @ '' must have issue.closed date''))"

definition enum_check :: "string \<Rightarrow> frontmatter \<Rightarrow> string \<Rightarrow> string list \<Rightarrow> string \<Rightarrow> ArtifactViolation list" where
  "enum_check f m key allowed list_text =
     (case getStringField m key of
        None \<Rightarrow> []
      | Some s \<Rightarrow> report (s \<notin> set allowed)
          (viol f (''issue/complexity-'' @ key @ ''-enum'')
             (''complexity.'' @ key @ '' '' @ sq s @ '' is not valid (allowed: '' @ list_text @ '')'')))"

definition validateComplexity :: "ParsedArtifact \<Rightarrow> ArtifactViolation list" where
  "validateComplexity art =
     (let f = pa_Filename art in
      case map_of (pa_Frontmatter art) ''complexity'' of
        None \<Rightarrow> []
      | Some v \<Rightarrow>
          (case as_map v of
             None \<Rightarrow> [viol f ''issue/complexity-format'' ''complexity block is not a valid map'']
           | Some m \<Rightarrow>
               enum_check f m ''scope'' [''isolated'', ''contained'', ''cross-cutting''] ''isolated, contained, cross-cutting''
               @ enum_check f m ''uncertainty'' [''known'', ''exploratory'', ''novel''] ''known, exploratory, novel''
               @ enum_check f m ''risk'' [''safe'', ''moderate'', ''critical''] ''safe, moderate, critical''))"

subsection \<open>Traceability\<close>

definition getIssueID :: "ParsedArtifact \<Rightarrow> string" where
  "getIssueID art = (case issue_map art of None \<Rightarrow> [] | Some m \<Rightarrow> stringField m ''id'')"

definition hasSection :: "ParsedArtifact \<Rightarrow> string \<Rightarrow> bool" where
  "hasSection art name \<longleftrightarrow> name \<in> set (pa_Sections art)"

definition issue_supports_check :: "string \<Rightarrow> string \<Rightarrow> frontmatter \<Rightarrow> ArtifactViolation list" where
  "issue_supports_check f label req =
     (case map_of req ''supports'' of
        None \<Rightarrow> []
      | Some v \<Rightarrow>
          (case as_string v of
             Some ref \<Rightarrow>
               (if TrimSpace ref = [] then
                  [viol f ''issue/requirement-supports-format'' (label @ '' '' @ sq ''supports'' @ '' is empty'')]
                else report (\<not> rx_match supportsRe ref)
                  (viol f ''issue/requirement-supports-format''
                     (label @ '' '' @ sq ''supports'' @ '' value '' @ sq ref
                      @ '' must match format bundle-name:REQ-NNN@MAJOR.MINOR.PATCH'')))
           | None \<Rightarrow> [viol f ''issue/requirement-supports-format'' (label @ '' '' @ sq ''supports'' @ '' is empty'')]))"

definition issue_requirement_step :: "string \<Rightarrow> nat \<times> yval \<Rightarrow> reqResult \<Rightarrow> reqResult" where
  "issue_requirement_step f = (\<lambda>(i, item) s.
     let label = show_index ''requirements'' i in
     case as_map item of
       None \<Rightarrow> s\<lparr>rq_violations := rq_violations s @ [viol f ''issue/requirement-format'' (label @ '' is not a valid map'')]\<rparr>
     | Some req \<Rightarrow>
         \<lparr>rq_violations = rq_violations s
            @ entry_id_check f ''issue/requirement'' label reqIDRe ''REQ-NNN'' ''requirement'' req (rq_ids s)
            @ text_check f ''issue/requirement-text-required'' req ''text''
                (label @ '' is missing '' @ sq ''text'') (label @ '' '' @ sq ''text'' @ '' is empty'')
            @ issue_supports_check f label req,
          rq_ids = note_entry reqIDRe req (rq_ids s)\<rparr>)"

text \<open>The findings, and the identifiers written into the caller's map.\<close>

definition validateIssueRequirements :: "ParsedArtifact \<Rightarrow> reqResult" where
  "validateIssueRequirements art =
     (let f = pa_Filename art; none = (\<lambda>rule msg. \<lparr>rq_violations = [viol f rule msg], rq_ids = []\<rparr>) in
      case map_of (pa_Frontmatter art) ''requirements'' of
        None \<Rightarrow> none ''issue/requirements-required''
          (''requirements array is required from '' @ sq ''ready'' @ '' status onward'')
      | Some v \<Rightarrow>
          (case as_list v of
             None \<Rightarrow> none ''issue/requirements-format'' ''requirements is not a valid array''
           | Some reqs \<Rightarrow>
               (if reqs = [] then none ''issue/requirements-required''
                  (''requirements array must not be empty from '' @ sq ''ready'' @ '' status onward'')
                else fold (issue_requirement_step f) (enumerate 0 reqs) \<lparr>rq_violations = [], rq_ids = []\<rparr>)))"

definition validateIssueClaims :: "ParsedArtifact \<Rightarrow> string list \<Rightarrow> ArtifactViolation list" where
  "validateIssueClaims art validReqs =
     (let f = pa_Filename art in
      case map_of (pa_Frontmatter art) ''claims'' of
        None \<Rightarrow> [viol f ''issue/claims-required'' (''claims array is required from '' @ sq ''ready'' @ '' status onward'')]
      | Some v \<Rightarrow>
          (case as_list v of
             None \<Rightarrow> [viol f ''issue/claims-format'' ''claims is not a valid array'']
           | Some claims \<Rightarrow>
               (if claims = [] then [viol f ''issue/claims-required''
                  (''claims array must not be empty from '' @ sq ''ready'' @ '' status onward'')]
                else let s = claims_scan ''issue'' (validReqs \<noteq> []) f validReqs claims in
                  cs_violations s
                  @ concat (map (\<lambda>r. report (r \<notin> set (cs_covered s))
                      (viol f ''issue/requirement-uncovered'' (''requirement '' @ sq r @ '' has no claims referencing it'')))
                      validReqs))))"

definition issue_full_trace :: "ParsedArtifact \<Rightarrow> ArtifactViolation list" where
  "issue_full_trace art =
     (let reqs = validateIssueRequirements art in
      validateVerification art ''issue'' @ validateImplementation art ''issue'' @ rq_violations reqs
      @ validateIssueClaims art (rq_ids reqs) @ validateContracts (pa_Frontmatter art) (pa_Filename art) ''issue'')"

text \<open>The block for \<open>closed\<close>, which falls through to the full trace when there is no pointer.\<close>

definition closed_trace :: "siblings \<Rightarrow> ParsedArtifact \<Rightarrow> ArtifactViolation list" where
  "closed_trace fs art =
     (let f = pa_Filename art; deliveredBy = getFrontmatterString art ''delivered_by'';
          deliveredPresent = map_of (pa_Frontmatter art) ''delivered_by'' \<noteq> None;
          resolvedPresent = map_of (pa_Frontmatter art) ''resolved-by'' \<noteq> None in
      if deliveredPresent \<and> resolvedPresent then
        [viol f ''issue/close-pointer-conflict''
           ''a closed issue may carry at most one close pointer, not both delivered_by and resolved-by'']
      else if deliveredBy \<noteq> [] then
        validateDeliveredBy fs art deliveredBy (getIssueID art)
        @ report (\<not> hasSection art ''Resolution'')
            (viol f ''issue/delivered-by-resolution-required''
               (''a delivered_by close must still include a '' @ sq ''## Resolution'' @ '' section (minimum standalone content)''))
      else if resolvedPresent then
        validateResolvedBy fs art (getFrontmatterString art ''resolved-by'')
        @ report (\<not> hasSection art ''Resolution'')
            (viol f ''issue/resolved-by-resolution-required''
               (''a resolved-by close must still include a '' @ sq ''## Resolution'' @ '' section (minimum standalone content)''))
      else issue_full_trace art)"

definition validateIssueTraceability :: "siblings \<Rightarrow> ParsedArtifact \<Rightarrow> string \<Rightarrow> ArtifactViolation list" where
  "validateIssueTraceability fs art status =
     (if isTerminalStatus status then []
      else if status \<notin> set traceabilityRequired then []
      else if status = ''closed'' then closed_trace fs art
      else issue_full_trace art)"

definition Issue :: "rcompile \<Rightarrow> siblings \<Rightarrow> ParsedArtifact \<Rightarrow> Schema \<Rightarrow> ValidationResult" where
  "Issue rcompile fs art sch = result_of
     (let status = issue_status art in
      vr_Violations (BaseChecks art sch)
      @ filename_check ''issue'' rcompile art sch
      @ schema_version_check ''issue'' ''schema_version'' art sch
      @ validateIssueBlock art
      @ (if filename_ok rcompile art sch then validateIssueIDConsistency art else [])
      @ validateIssueStatusRules art status
      @ validateRetirementFields art status ''issue''
      @ validateComplexity art
      @ validateCapabilities (pa_Frontmatter art) (pa_Filename art) ''issue''
      @ validateIssueTraceability fs art status)"

subsection \<open>What stands behind a closed issue\<close>

lemma issue_requirement_step_clean:
  assumes "rq_violations (issue_requirement_step f (i, item) s) = []"
  shows "rq_violations s = [] \<and> rq_ids (issue_requirement_step f (i, item) s) = rq_ids s @ [entry_id item]
         \<and> rx_match reqIDRe (entry_id item) \<and> entry_id item \<notin> set (rq_ids s)"
  using assms
  by (auto simp: issue_requirement_step_def Let_def entry_id_check_Nil note_entry_new entry_id_def split: option.splits)

lemma issue_requirements_clean:
  "rq_violations (fold (issue_requirement_step f) (enumerate 0 reqs) \<lparr>rq_violations = [], rq_ids = []\<rparr>) = [] \<Longrightarrow>
     rq_ids (fold (issue_requirement_step f) (enumerate 0 reqs) \<lparr>rq_violations = [], rq_ids = []\<rparr>) = map entry_id reqs
     \<and> distinct (map entry_id reqs) \<and> (\<forall>r \<in> set reqs. rx_match reqIDRe (entry_id r))"
proof (induction reqs rule: rev_induct)
  case (snoc r reqs)
  let ?s = "fold (issue_requirement_step f) (enumerate 0 reqs) \<lparr>rq_violations = [], rq_ids = []\<rparr>"
  from snoc.prems have step: "rq_violations (issue_requirement_step f (length reqs, r) ?s) = []"
    by (simp add: enumerate_append_eq)
  from issue_requirement_step_clean [OF step] snoc.IH show ?case by (auto simp: enumerate_append_eq)
qed simp

text \<open>The issue's own trace from requirements through claims to tests.\<close>

definition traced :: "frontmatter \<Rightarrow> bool" where
  "traced fm \<longleftrightarrow>
     (\<exists>reqs claims. map_of fm ''requirements'' = Some (VList reqs) \<and> reqs \<noteq> []
        \<and> map_of fm ''claims'' = Some (VList claims) \<and> claims \<noteq> []
        \<and> distinct (map entry_id reqs) \<and> distinct (map entry_id claims)
        \<and> claim_names ` set claims = entry_id ` set reqs \<and> (\<forall>c \<in> set claims. has_tests c))"

lemma full_trace_traced:
  assumes "issue_full_trace art = []"
  shows "traced (pa_Frontmatter art)"
proof -
  from assms have "rq_violations (validateIssueRequirements art) = []" by (simp add: issue_full_trace_def Let_def)
  then obtain reqs where reqs: "map_of (pa_Frontmatter art) ''requirements'' = Some (VList reqs)" "reqs \<noteq> []"
    and "rq_violations (fold (issue_requirement_step (pa_Filename art)) (enumerate 0 reqs) \<lparr>rq_violations = [], rq_ids = []\<rparr>) = []"
    and "validateIssueRequirements art =
      fold (issue_requirement_step (pa_Filename art)) (enumerate 0 reqs) \<lparr>rq_violations = [], rq_ids = []\<rparr>"
    by (auto simp: validateIssueRequirements_def Let_def split: option.splits if_splits)
  with issue_requirements_clean [of "pa_Filename art" reqs]
  have ids: "rq_ids (validateIssueRequirements art) = map entry_id reqs" "distinct (map entry_id reqs)" by simp_all
  from assms have "validateIssueClaims art (map entry_id reqs) = []"
    by (simp add: issue_full_trace_def Let_def ids(1))
  then obtain claims where claims: "map_of (pa_Frontmatter art) ''claims'' = Some (VList claims)" "claims \<noteq> []"
    and scan: "cs_violations (claims_scan ''issue'' True (pa_Filename art) (map entry_id reqs) claims) = []"
    and covered: "set (map entry_id reqs) \<subseteq> set (cs_covered (claims_scan ''issue'' True (pa_Filename art) (map entry_id reqs) claims))"
    using reqs(2) by (auto simp: validateIssueClaims_def Let_def split: option.splits if_splits)
  note facts = claims_clean [OF scan]
  from facts covered have "claim_names ` set claims = entry_id ` set reqs" by auto
  with reqs claims ids(2) facts show ?thesis unfolding traced_def by blast
qed

text \<open>A completed plan of the issue beside it, and resolving work that is referenced in one of the accepted shapes.\<close>

definition plan_backed :: "siblings \<Rightarrow> ParsedArtifact \<Rightarrow> bool" where
  "plan_backed fs art \<longleftrightarrow>
     (\<exists>dir layout plan planArt.
        resolvePlansDir fs art = Some (dir, layout)
        \<and> plan \<in> set (Glob fs dir (getFrontmatterString art ''delivered_by'' @ ''-'') (kl_Extension layout))
        \<and> ParseFile (sf_read fs) (sf_yaml fs) plan = Inr planArt
        \<and> ValidationResult_Pass (Plan planArt)
        \<and> getFrontmatterString planArt ''status'' = ''completed''
        \<and> getFrontmatterString planArt ''spec_id'' = getIssueID art)"

definition work_resolved :: "siblings \<Rightarrow> ParsedArtifact \<Rightarrow> bool" where
  "work_resolved fs art \<longleftrightarrow>
     (let ref = TrimSpace (getFrontmatterString art ''resolved-by'') in
      typed_ref ref \<and> typedRefArtifactExists fs art ref \<or> resolvedByCommitRe ref \<or> isPullRequestURL ref)"

lemma delivered_by_clean:
  assumes "validateDeliveredBy fs art (getFrontmatterString art ''delivered_by'') (getIssueID art) = []"
  shows "plan_backed fs art"
proof -
  let ?d = "getFrontmatterString art ''delivered_by''"
  from assms obtain dir layout where dir: "resolvePlansDir fs art = Some (dir, layout)"
    by (auto simp: validateDeliveredBy_def Let_def split: if_splits option.splits)
  with assms obtain plan ps where plan: "Glob fs dir (?d @ ''-'') (kl_Extension layout) = plan # ps"
    by (auto simp: validateDeliveredBy_def Let_def split: if_splits list.splits)
  with assms dir obtain planArt where "ParseFile (sf_read fs) (sf_yaml fs) plan = Inr planArt"
    by (auto simp: validateDeliveredBy_def Let_def split: if_splits sum.splits)
  with assms dir plan show ?thesis
    unfolding plan_backed_def
    by (intro exI [of _ dir] exI [of _ layout] exI [of _ plan] exI [of _ planArt])
      (auto simp: validateDeliveredBy_def Let_def ValidationResult_Pass_def split: if_splits)
qed

lemma resolved_by_clean:
  "validateResolvedBy fs art (getFrontmatterString art ''resolved-by'') = [] \<Longrightarrow> work_resolved fs art"
  by (auto simp: validateResolvedBy_def work_resolved_def Let_def resolvedByTypedRefRe_def typed_ref_match split: if_splits)

text \<open>C30: What stands behind a closed issue that passes: it carries its closing date, and either a plan file beside it
  that its \<open>delivered_by\<close> names, which parses, validates clean, is completed and is the plan of this issue; or a
  \<open>resolved-by\<close> that is an artifact with a file beside it, a commit hash or a pull-request URL; or its own
  requirements and claims, traced to tests.  The first two also carry a Resolution section, and never both pointers.
\<close>

theorem closed_issue_backed:
  assumes "ValidationResult_Pass (Issue rcompile fs art sch)" "issue_status art = ''closed''"
  shows "Option.bind (issue_map art) (\<lambda>m. getStringField m ''closed'') \<noteq> None
    \<and> (traced (pa_Frontmatter art)
       \<or> hasSection art ''Resolution''
         \<and> (map_of (pa_Frontmatter art) ''delivered_by'' = None \<or> map_of (pa_Frontmatter art) ''resolved-by'' = None)
         \<and> (plan_backed fs art \<or> work_resolved fs art))"
proof -
  let ?fm = "pa_Frontmatter art" and ?d = "getFrontmatterString art ''delivered_by''"
  from assms have clean: "validateIssueStatusRules art ''closed'' = []" "validateIssueTraceability fs art ''closed'' = []"
    by (simp_all add: ValidationResult_Pass_def Issue_def result_of_def Let_def)
  from clean(1) have dated: "Option.bind (issue_map art) (\<lambda>m. getStringField m ''closed'') \<noteq> None"
    by (simp add: validateIssueStatusRules_def)
  moreover have "\<not> isTerminalStatus ''closed''" "''closed'' \<in> set traceabilityRequired" by code_simp+
  ultimately have trace: "closed_trace fs art = []" using clean(2) by (simp add: validateIssueTraceability_def)
  then have one: "map_of ?fm ''delivered_by'' = None \<or> map_of ?fm ''resolved-by'' = None"
    by (auto simp: closed_trace_def Let_def split: if_splits)
  from trace have "validateDeliveredBy fs art ?d (getIssueID art) = [] \<and> hasSection art ''Resolution''
      \<or> validateResolvedBy fs art (getFrontmatterString art ''resolved-by'') = [] \<and> hasSection art ''Resolution''
      \<or> issue_full_trace art = []"
    unfolding closed_trace_def Let_def by (simp split: if_splits)
  with delivered_by_clean resolved_by_clean full_trace_traced dated one show ?thesis by blast
qed

text \<open>A closed issue with the plan that delivered it beside it.\<close>

definition demo_issue_schema :: Schema where
  "demo_issue_schema =
     \<lparr>sch_ArtifactType = ''issue'', sch_FilenamePattern = [], sch_SlugPattern = [], sch_SlugMinLength = 0,
      sch_SlugMaxLength = 0, sch_RequiredMetadata = [''schema_version''], sch_ExtensionMetadata = [],
      sch_MetadataRules = [], sch_RequiredSections = [''Description''], sch_OptionalSections = [], sch_Extends = [],
      sch_StatusEnum = []\<rparr>"

definition demo_issue :: ParsedArtifact where
  "demo_issue =
     \<lparr>pa_Filename = ''ISSUE-001-a.issue.md'', pa_SourcePath = ''/r/issues/ISSUE-001-a.issue.md'', pa_Title = ''A'',
      pa_Metadata = [(''schema_version'', ''issue/v1''), (''delivered_by'', ''PLAN-ISSUE-001'')],
      pa_Frontmatter =
        [(''issue'', VMap [(''id'', VStr ''ISSUE-001''), (''title'', VStr ''A''), (''type'', VStr ''bug''),
                         (''status'', VStr ''closed''), (''created'', VStr ''2026-01-31''), (''closed'', VStr ''2026-02-01'')]),
         (''delivered_by'', VStr ''PLAN-ISSUE-001'')],
      pa_Sections = [''Description'', ''Resolution'']\<rparr>"

definition demo_completed_plan :: frontmatter where
  "demo_completed_plan =
     [(''plan_id'', VStr ''PLAN-ISSUE-001''), (''spec_id'', VStr ''ISSUE-001''), (''status'', VStr ''completed''),
      (''created'', VStr ''2026-01-31''), (''phases'', VList demo_plan_phases)]"

definition demo_backing :: siblings where
  "demo_backing =
     \<lparr>sf_is_dir = (\<lambda>d. d = ''/r/plans''),
      sf_names = (\<lambda>d. if d = ''/r/plans'' then [''PLAN-ISSUE-001-a.plan.yml''] else []),
      sf_glob = (\<lambda>_. []),
      sf_read = (\<lambda>p. if p = ''/r/plans/PLAN-ISSUE-001-a.plan.yml'' then Inr (''---'' @ CHR 0x0A # ''plan'') else Inl ''missing''),
      sf_yaml = (\<lambda>_. Inr demo_completed_plan)\<rparr>"

lemma demo_issue_closed:
  "ValidationResult_Pass (Issue (\<lambda>_. None) demo_backing demo_issue demo_issue_schema)"
  "issue_status demo_issue = ''closed''"
  by code_simp+

theorem closed_issue_backed_witness:
  "traced (pa_Frontmatter demo_issue)
   \<or> hasSection demo_issue ''Resolution'' \<and> (plan_backed demo_backing demo_issue \<or> work_resolved demo_backing demo_issue)"
  using closed_issue_backed [OF demo_issue_closed] by blast

subsection \<open>A plan reference that no plan can satisfy\<close>

text \<open>
  The typed references accept \<open>PLAN-NNN\<close>, but a plan is named PLAN-SPEC-NNN or PLAN-ISSUE-NNN: no file a
  \<open>PLAN-NNN\<close> reference looks for has a name the plan validator accepts, and the plan's own identifier is malformed.
\<close>

lemma plan_reference_unsatisfiable:
  assumes "is_digit a" "glob_match (''PLAN-'' @ [a, b, c] @ ''-'') ext name"
  shows "\<not> rx_match planFileRe name"
proof
  assume "rx_match planFileRe name"
  then obtain u rest where "name = ''PLAN-'' @ u @ rest" "u \<in> rx_lang (rplus r_upper)"
    unfolding rx_match_lang planFileRe_def by auto
  then obtain d where "name ! 5 = d" "d \<in> set ''ABCDEFGHIJKLMNOPQRSTUVWXYZ''"
    unfolding rplus_def r_upper_def rx_lang_class_cat by auto
  moreover from assms(2) have "name ! 5 = a" by (auto simp: glob_match_def prefix_def)
  ultimately show False using assms(1) by (auto simp: is_digit_def)
qed

lemma plan_identifier_malformed: "\<not> typed_ref ''PLAN-ISSUE-001''"
  unfolding typed_ref_match [symmetric] by code_simp

end
