(* ===== verification/Validate_Supports.thy ===== *)
theory Validate_Supports
  imports Validate_Issue
begin

text \<open>
  Resolution of the \<open>supports\<close> references of specs and issues against the corpus of bundles
  (\<open>src/pkg/validate/supports_resolution.go\<close>).  A nil artifact is None.  The theorem states when a corpus
  resolves clean.
\<close>

record SupportRef =
  sr_Raw :: string
  sr_BundleName :: string
  sr_ReqID :: string
  sr_Version :: string
  sr_Pinned :: bool
  sr_File :: string
  sr_Label :: string

type_synonym req_versions = "(string, string list) gomap"
type_synonym BundleReqCatalog = "(string, req_versions) gomap"

definition hasBundle :: "BundleReqCatalog \<Rightarrow> string \<Rightarrow> bool" where
  "hasBundle c name \<longleftrightarrow> map_has c name"

definition versionsFor :: "BundleReqCatalog \<Rightarrow> string \<Rightarrow> string \<Rightarrow> string list option" where
  "versionsFor c bundle_name req = Option.bind (map_of c bundle_name) (\<lambda>reqs. map_of reqs req)"

definition bundleName :: "ParsedArtifact \<Rightarrow> string" where
  "bundleName art = (case bundle_map art of None \<Rightarrow> [] | Some b \<Rightarrow> stringField b ''name'')"

definition logged_versions :: "yval list \<Rightarrow> string list" where
  "logged_versions versions =
     List.map_filter (\<lambda>item. Option.bind (as_map item) (\<lambda>entry. getStringField entry ''version'')) versions"

definition own_version :: "frontmatter \<Rightarrow> string list" where
  "own_version req = (case getStringField req ''version'' of Some v \<Rightarrow> [v] | None \<Rightarrow> [])"

definition effectiveVersionSet :: "frontmatter \<Rightarrow> string list" where
  "effectiveVersionSet req =
     (case Option.bind (map_of req ''versions'') as_list of
        Some versions \<Rightarrow> (if logged_versions versions \<noteq> [] then logged_versions versions else own_version req)
      | None \<Rightarrow> own_version req)"

definition requirement_items :: "ParsedArtifact \<Rightarrow> yval list" where
  "requirement_items art =
     (case Option.bind (map_of (pa_Frontmatter art) ''requirements'') as_list of None \<Rightarrow> [] | Some xs \<Rightarrow> xs)"

definition bundle_req_map :: "ParsedArtifact \<Rightarrow> req_versions" where
  "bundle_req_map art =
     fold (\<lambda>item m. case Option.bind (as_map item) (\<lambda>req. getStringField req ''id'') of
             None \<Rightarrow> m
           | Some i \<Rightarrow> (case item of VMap req \<Rightarrow> map_set i (effectiveVersionSet req) m | _ \<Rightarrow> m))
          (requirement_items art) []"

definition contributes :: "ParsedArtifact \<Rightarrow> bool" where
  "contributes b \<longleftrightarrow> bundleName b \<noteq> [] \<and> bundle_req_map b \<noteq> []"

definition BuildBundleReqCatalog :: "ParsedArtifact option list \<Rightarrow> BundleReqCatalog" where
  "BuildBundleReqCatalog bundles =
     fold (\<lambda>ob c. case ob of
             None \<Rightarrow> c
           | Some b \<Rightarrow> (if contributes b then map_set (bundleName b) (bundle_req_map b) c else c)) bundles []"

definition supportsValues :: "yval \<Rightarrow> string list" where
  "supportsValues v = (case v of VStr s \<Rightarrow> [s] | VList xs \<Rightarrow> string_items xs | _ \<Rightarrow> [])"

definition citingStatus :: "ParsedArtifact \<Rightarrow> string" where
  "citingStatus art =
     (if ClassifyFilename (pa_Filename art) = Some LKindIssue then
        (case issue_map art of None \<Rightarrow> [] | Some m \<Rightarrow> stringField m ''status'')
      else meta_status art)"

text \<open>\<open>strings.LastIndex\<close> on one byte, as the text before and after it.\<close>

definition last_cut :: "string \<Rightarrow> char \<Rightarrow> (string \<times> string) option" where
  "last_cut s d =
     (if d \<in> set s then Some (rev (tl (dropWhile (\<lambda>c. c \<noteq> d) (rev s))), rev (takeWhile (\<lambda>c. c \<noteq> d) (rev s))) else None)"

definition parseSupportRef :: "string \<Rightarrow> string \<Rightarrow> string \<Rightarrow> SupportRef" where
  "parseSupportRef raw f label =
     (let (rest, version, pinned) = (case last_cut raw (CHR ''@'') of Some (r, v) \<Rightarrow> (r, v, True) | None \<Rightarrow> (raw, [], False));
          (bundle_name, req) = (case Cut rest (CHR '':'') of Some (b, r) \<Rightarrow> (b, r) | None \<Rightarrow> ([], rest))
      in \<lparr>sr_Raw = raw, sr_BundleName = bundle_name, sr_ReqID = req, sr_Version = version, sr_Pinned = pinned,
          sr_File = f, sr_Label = label\<rparr>)"

definition requirement_refs :: "ParsedArtifact \<Rightarrow> nat \<times> yval \<Rightarrow> SupportRef list" where
  "requirement_refs art = (\<lambda>(i, item).
     case Option.bind (as_map item) (\<lambda>req. map_of req ''supports'') of
       None \<Rightarrow> []
     | Some v \<Rightarrow> map (\<lambda>x. parseSupportRef x (pa_Filename art) (show_index ''requirements'' i))
                   (filter (\<lambda>x. TrimSpace x \<noteq> []) (supportsValues v)))"

definition CollectSupportRefs :: "ParsedArtifact option list \<Rightarrow> SupportRef list" where
  "CollectSupportRefs citing =
     concat (map (\<lambda>oa. case oa of
         None \<Rightarrow> []
       | Some art \<Rightarrow> (if isTerminalStatus (citingStatus art) then []
                     else concat (map (requirement_refs art) (enumerate 0 (requirement_items art))))) citing)"

definition resolve_ref :: "BundleReqCatalog \<Rightarrow> SupportRef \<Rightarrow> ArtifactViolation list" where
  "resolve_ref catalog ref =
     (let here = sr_Label ref @ '' supports '' @ sq (sr_Raw ref) in
      if \<not> hasBundle catalog (sr_BundleName ref) then
        [viol (sr_File ref) ''supports/missing-bundle''
           (here @ '' names bundle '' @ sq (sr_BundleName ref) @ '' which does not exist in the corpus'')]
      else case versionsFor catalog (sr_BundleName ref) (sr_ReqID ref) of
        None \<Rightarrow> [viol (sr_File ref) ''supports/undeclared-req''
          (here @ '' cites '' @ sq (sr_ReqID ref) @ '' which bundle '' @ sq (sr_BundleName ref) @ '' never declares'')]
      | Some versions \<Rightarrow> report (sr_Pinned ref \<and> sr_Version ref \<notin> set versions)
          (viol (sr_File ref) ''supports/version-unlogged''
             (here @ '' pins version '' @ sq (sr_Version ref) @ '' which is absent from ''
              @ sq (sr_BundleName ref @ '':'' @ sr_ReqID ref) @ '' version log'')))"

definition ResolveSupports :: "BundleReqCatalog \<Rightarrow> SupportRef list \<Rightarrow> ArtifactViolation list" where
  "ResolveSupports catalog refs = concat (map (resolve_ref catalog) refs)"

subsection \<open>When a corpus resolves\<close>

text \<open>The artifact logs a version of a requirement; the references an artifact in work makes.\<close>

definition logs :: "ParsedArtifact \<Rightarrow> SupportRef \<Rightarrow> bool" where
  "logs b ref \<longleftrightarrow>
     bundleName b \<noteq> [] \<and> bundleName b = sr_BundleName ref
     \<and> (\<exists>versions. map_of (bundle_req_map b) (sr_ReqID ref) = Some versions
          \<and> (sr_Pinned ref \<longrightarrow> sr_Version ref \<in> set versions))"

lemma catalog_lookup:
  "map_of (BuildBundleReqCatalog bundles) name =
     map_option bundle_req_map (find (\<lambda>b. contributes b \<and> bundleName b = name) (rev (List.map_filter id bundles)))"
proof (induction bundles rule: rev_induct)
  case (snoc ob bundles)
  then show ?case
    by (cases ob) (simp_all add: BuildBundleReqCatalog_def map_filter_simps map_filter_def)
qed (simp add: BuildBundleReqCatalog_def map_filter_simps)

lemma resolve_ref_Nil:
  "resolve_ref catalog ref = [] \<longleftrightarrow>
     (\<exists>reqs versions. map_of catalog (sr_BundleName ref) = Some reqs \<and> map_of reqs (sr_ReqID ref) = Some versions
        \<and> (sr_Pinned ref \<longrightarrow> sr_Version ref \<in> set versions))"
  by (auto simp: resolve_ref_def hasBundle_def versionsFor_def Let_def split: option.splits)

text \<open>When every bundle name is used by one bundle, a corpus resolves clean exactly when every \<open>supports\<close> reference of
  every artifact in work names a requirement of a bundle of the corpus and pins, if it pins one, a version that the
  requirement's effective log holds.
\<close>

theorem supports_clean_iff:
  assumes "inj_on bundleName {b. Some b \<in> set bundles \<and> contributes b}"
  shows "ResolveSupports (BuildBundleReqCatalog bundles) (CollectSupportRefs citing) = [] \<longleftrightarrow>
     (\<forall>art. Some art \<in> set citing \<longrightarrow> \<not> isTerminalStatus (citingStatus art) \<longrightarrow>
        (\<forall>p \<in> set (enumerate 0 (requirement_items art)). \<forall>ref \<in> set (requirement_refs art p).
           \<exists>b. Some b \<in> set bundles \<and> logs b ref))"
proof -
  have member: "b \<in> set (rev (List.map_filter id bundles)) \<longleftrightarrow> Some b \<in> set bundles" for b
    by (induction bundles) (auto simp: map_filter_simps split: option.splits)
  have step: "resolve_ref (BuildBundleReqCatalog bundles) ref = [] \<longleftrightarrow> (\<exists>b. Some b \<in> set bundles \<and> logs b ref)" for ref
  proof
    assume "resolve_ref (BuildBundleReqCatalog bundles) ref = []"
    then obtain b versions where "find (\<lambda>b. contributes b \<and> bundleName b = sr_BundleName ref) (rev (List.map_filter id bundles)) = Some b"
      "map_of (bundle_req_map b) (sr_ReqID ref) = Some versions" "sr_Pinned ref \<longrightarrow> sr_Version ref \<in> set versions"
      by (auto simp: resolve_ref_Nil catalog_lookup)
    with member show "\<exists>b. Some b \<in> set bundles \<and> logs b ref"
      by (auto simp: logs_def contributes_def dest!: find_Some_mem)
  next
    assume "\<exists>b. Some b \<in> set bundles \<and> logs b ref"
    then obtain b versions where b: "Some b \<in> set bundles" "bundleName b \<noteq> []" "bundleName b = sr_BundleName ref"
      "map_of (bundle_req_map b) (sr_ReqID ref) = Some versions" "sr_Pinned ref \<longrightarrow> sr_Version ref \<in> set versions"
      by (auto simp: logs_def)
    then have "contributes b" by (auto simp: contributes_def)
    with b member obtain b' where b': "find (\<lambda>b. contributes b \<and> bundleName b = sr_BundleName ref)
        (rev (List.map_filter id bundles)) = Some b'"
      using find_SomeI [of b "rev (List.map_filter id bundles)" "\<lambda>b. contributes b \<and> bundleName b = sr_BundleName ref"]
      by blast
    from find_Some_mem [OF b'] member have "Some b' \<in> set bundles" "contributes b'" "bundleName b' = bundleName b"
      using b(3) by auto
    with assms b(1) \<open>contributes b\<close> have "b' = b" by (auto simp: inj_on_def)
    with b b' show "resolve_ref (BuildBundleReqCatalog bundles) ref = []"
      by (auto simp: resolve_ref_Nil catalog_lookup)
  qed
  have "ResolveSupports (BuildBundleReqCatalog bundles) (CollectSupportRefs citing) = [] \<longleftrightarrow>
      (\<forall>ref \<in> set (CollectSupportRefs citing). \<exists>b. Some b \<in> set bundles \<and> logs b ref)"
    unfolding ResolveSupports_def concat_map_Nil step ..
  also have "\<dots> \<longleftrightarrow> (\<forall>art. Some art \<in> set citing \<longrightarrow> \<not> isTerminalStatus (citingStatus art) \<longrightarrow>
        (\<forall>p \<in> set (enumerate 0 (requirement_items art)). \<forall>ref \<in> set (requirement_refs art p).
           \<exists>b. Some b \<in> set bundles \<and> logs b ref))"
    unfolding CollectSupportRefs_def by (fastforce split: option.splits if_splits)
  finally show ?thesis .
qed

text \<open>A bundle, and an artifact that supports its requirement at a logged version.\<close>

definition demo_bundle :: ParsedArtifact where
  "demo_bundle = (demo_spec VNull)\<lparr>pa_Frontmatter :=
     [(''bundle'', VMap [(''name'', VStr ''base'')]),
      (''requirements'', VList [VMap [(''id'', VStr ''REQ-001''), (''version'', VStr ''1.1.0''),
        (''versions'', VList [VMap [(''version'', VStr ''1.0.0'')], VMap [(''version'', VStr ''1.1.0'')]])]])]\<rparr>"

definition demo_citer :: "string \<Rightarrow> ParsedArtifact" where
  "demo_citer ref = (demo_spec VNull)\<lparr>pa_Frontmatter :=
     [(''requirements'', VList [VMap [(''id'', VStr ''REQ-001''), (''supports'', VStr ref)]])]\<rparr>"

lemma demo_support_refs:
  "ResolveSupports (BuildBundleReqCatalog [None, Some demo_bundle]) (CollectSupportRefs [Some (demo_citer ''base:REQ-001@1.0.0'')]) = []"
  "map av_Rule (ResolveSupports (BuildBundleReqCatalog [Some demo_bundle])
     (CollectSupportRefs [Some (demo_citer ''base:REQ-001@1.2.0'')])) = [''supports/version-unlogged'']"
  by code_simp+

theorem supports_clean_iff_witness:
  "\<exists>b. Some b \<in> set [None, Some demo_bundle] \<and> logs b (parseSupportRef ''base:REQ-001@1.0.0'' ''SPEC-001-ab.spec.md'' ''requirements[0]'')"
proof -
  have inj: "inj_on bundleName {b. Some b \<in> set [None, Some demo_bundle] \<and> contributes b}" by (auto simp: inj_on_def)
  have "\<not> isTerminalStatus (citingStatus (demo_citer ''base:REQ-001@1.0.0''))" by code_simp
  moreover have "parseSupportRef ''base:REQ-001@1.0.0'' ''SPEC-001-ab.spec.md'' ''requirements[0]''
      \<in> set (requirement_refs (demo_citer ''base:REQ-001@1.0.0'') (0, hd (requirement_items (demo_citer ''base:REQ-001@1.0.0''))))"
    by code_simp
  moreover have "(0, hd (requirement_items (demo_citer ''base:REQ-001@1.0.0'')))
      \<in> set (enumerate 0 (requirement_items (demo_citer ''base:REQ-001@1.0.0'')))" by code_simp
  ultimately show ?thesis
    using supports_clean_iff [OF inj, of "[Some (demo_citer ''base:REQ-001@1.0.0'')]"] demo_support_refs(1) by auto
qed

end
