(* ===== verification/Schema_Load.thy ===== *)
theory Schema_Load
  imports Validate_Base Pack_Content
begin

text \<open>
  Loading an artifact schema with its base and resolving the schema an artifact declares
  (\<open>src/pkg/schema/load.go\<close>), and the content-derived identity of the embedded schema set
  (\<open>src/pkg/schema/cohort.go\<close>).  The JSON decoder and the file reader are parameters.  The theorem shows
  that the cohort identity determines every schema file.
\<close>

subsection \<open>Schemas\<close>

record rawMetaProp =
  rp_Pattern :: string
  rp_Const :: string
  rp_MinLength :: int
  rp_Enum :: "string list"

record rawMetadata =
  rmd_Required :: "string list"
  rmd_Properties :: "(string, rawMetaProp) gomap"

record rawSchema =
  rs_ArtifactType :: string
  rs_FilenamePattern :: string
  rs_SlugPattern :: string
  rs_SlugMinLength :: int
  rs_SlugMaxLength :: int
  rs_Extends :: string
  rs_RequiredSections :: "string list"
  rs_OptionalSections :: "string list"
  rs_Metadata :: rawMetadata
  rs_PropertiesMetadata :: rawMetadata

record schema_io =
  io_read :: "string \<Rightarrow> string + string"
  io_json :: "string \<Rightarrow> string + rawSchema"

definition schema_of_raw :: "rawSchema \<Rightarrow> Schema" where
  "schema_of_raw raw =
     (let meta = (if rmd_Required (rs_Metadata raw) = [] \<and> rmd_Required (rs_PropertiesMetadata raw) \<noteq> []
                  then rs_PropertiesMetadata raw else rs_Metadata raw) in
      \<lparr>sch_ArtifactType = rs_ArtifactType raw, sch_FilenamePattern = rs_FilenamePattern raw,
       sch_SlugPattern = rs_SlugPattern raw, sch_SlugMinLength = rs_SlugMinLength raw,
       sch_SlugMaxLength = rs_SlugMaxLength raw, sch_RequiredMetadata = rmd_Required meta,
       sch_ExtensionMetadata = [],
       sch_MetadataRules =
         map (\<lambda>(k, p). (k, \<lparr>mr_Pattern = rp_Pattern p, mr_Const = rp_Const p, mr_MinLength = rp_MinLength p\<rparr>))
             (rmd_Properties meta),
       sch_RequiredSections = rs_RequiredSections raw, sch_OptionalSections = rs_OptionalSections raw,
       sch_Extends = rs_Extends raw,
       sch_StatusEnum = (case map_of (rmd_Properties meta) ''status'' of Some p \<Rightarrow> rp_Enum p | None \<Rightarrow> [])\<rparr>)"

definition LoadSchema :: "schema_io \<Rightarrow> string \<Rightarrow> string + Schema" where
  "LoadSchema io path =
     (case io_read io path of
        Inl e \<Rightarrow> Inl (''read schema '' @ path @ '': '' @ e)
      | Inr content \<Rightarrow>
          (case io_json io content of
             Inl e \<Rightarrow> Inl (''invalid schema JSON at '' @ path @ '': '' @ e)
           | Inr raw \<Rightarrow> Inr (schema_of_raw raw)))"

definition merge_base :: "Schema \<Rightarrow> Schema \<Rightarrow> Schema" where
  "merge_base ext base =
     ext\<lparr>sch_RequiredMetadata := filter (\<lambda>k. k \<in> set (sch_RequiredMetadata base)) (sch_RequiredMetadata ext),
         sch_ExtensionMetadata := filter (\<lambda>k. k \<notin> set (sch_RequiredMetadata base)) (sch_RequiredMetadata ext),
         sch_MetadataRules := sch_MetadataRules ext
            @ filter (\<lambda>kr. \<not> map_has (sch_MetadataRules ext) (fst kr)) (sch_MetadataRules base)\<rparr>"

definition LoadArtifactSchema :: "schema_io \<Rightarrow> string \<Rightarrow> string \<Rightarrow> string + Schema" where
  "LoadArtifactSchema io schemaPath artifactsRoot =
     (case LoadSchema io schemaPath of
        Inl e \<Rightarrow> Inl (''load schema: '' @ e)
      | Inr ext \<Rightarrow>
          (if sch_Extends ext = [] then Inr ext
           else case LoadSchema io (JoinPath [artifactsRoot, ''base'', ''schema.json'']) of
             Inl e \<Rightarrow> Inl (''loading base schema: '' @ e)
           | Inr base \<Rightarrow> Inr (merge_base ext base)))"

text \<open>
  The declared schema version: the first key that folds onto one of the two spellings.  Go ranges over the metadata
  in an unspecified order, so with both keys present either value may be read.
\<close>

definition version_keys :: "ParsedArtifact \<Rightarrow> string list" where
  "version_keys art =
     map snd (filter (\<lambda>kv. EqualFoldKey (fst kv) ''schema_version'' \<or> EqualFoldKey (fst kv) ''schema-version'') (pa_Metadata art))"

definition declaredSchemaVersion :: "ParsedArtifact \<Rightarrow> string" where
  "declaredSchemaVersion art = (case version_keys art of [] \<Rightarrow> [] | v # _ \<Rightarrow> v)"

definition schemaVersionRe :: rx where
  "schemaVersionRe = rseq [rplus r_lower, rlit ''/v'', rplus r_digit]"

definition ResolveSchemaPath :: "ParsedArtifact \<Rightarrow> string + string" where
  "ResolveSchemaPath art =
     (let version = declaredSchemaVersion art in
      if version = [] then Inl ''missing schema_version metadata''
      else if \<not> rx_match schemaVersionRe version then Inl (''invalid Schema-Version format: '' @ quote version)
      else Inr (JoinPath ([''artifacts''] @ SplitN version (CHR ''/'') 2 @ [''schema.json''])))"

subsection \<open>The cohort\<close>

definition baseSchemaPath :: string where "baseSchemaPath = ''artifacts/base/schema.json''"

record Cohort =
  co_ID :: string
  co_Digests :: "(string, string) gomap"

record cohortSchema =
  cs_Extends :: string
  cs_Const :: string

text \<open>
  What the walk over the schema file system yields, entry by entry: the path, whether it is a directory, and the
  error the walk hands over, if any.
\<close>

record schema_fs =
  fs_entries :: "(string \<times> bool \<times> string option) list"
  fs_read :: "string \<Rightarrow> string + string"
  fs_json :: "string \<Rightarrow> cohortSchema option"

fun walk_digests :: "(string \<Rightarrow> string + string) \<Rightarrow> (string \<times> bool \<times> string option) list
    \<Rightarrow> (string, string) gomap \<Rightarrow> string + (string, string) gomap" where
  "walk_digests read [] m = Inr m"
| "walk_digests read ((p, isdir, err) # es) m =
     (case err of
        Some e \<Rightarrow> Inl e
      | None \<Rightarrow>
          (if isdir \<or> \<not> HasSuffix p ''.json'' then walk_digests read es m
           else case read p of
             Inl e \<Rightarrow> Inl (''reading schema '' @ p @ '': '' @ e)
           | Inr content \<Rightarrow> walk_digests read es (map_set p (sha256_hex content) m)))"

definition schemaVersionFromPath :: "string \<Rightarrow> string" where
  "schemaVersionFromPath p =
     (let c = Clean p in
      if \<not> HasPrefix c ''artifacts/'' then []
      else case Split (drop 10 c) slash of
        [a, b, f] \<Rightarrow> (if f = ''schema.json'' \<and> rx_match schemaVersionRe (a @ ''/'' @ b) then a @ ''/'' @ b else [])
      | _ \<Rightarrow> [])"

definition schema_fold :: "(string, string) gomap \<Rightarrow> string \<Rightarrow> cohortSchema \<Rightarrow> string" where
  "schema_fold digests p parsed =
     (let own = map_get [] digests p in
      if cs_Extends parsed \<noteq> [] then
        (case map_of digests baseSchemaPath of Some b \<Rightarrow> sha256_hex (own @ ''+'' @ b) | None \<Rightarrow> own)
      else own)"

fun cohort_digests :: "schema_fs \<Rightarrow> (string, string) gomap \<Rightarrow> string list \<Rightarrow> (string, string) gomap
    \<Rightarrow> string + (string, string) gomap" where
  "cohort_digests fs files [] m = Inr m"
| "cohort_digests fs files (p # ps) m =
     (if p = baseSchemaPath then cohort_digests fs files ps m
      else case fs_read fs p of
        Inl e \<Rightarrow> Inl (''reading schema '' @ p @ '': '' @ e)
      | Inr content \<Rightarrow>
          (case fs_json fs content of
             None \<Rightarrow> cohort_digests fs files ps m
           | Some parsed \<Rightarrow>
               (let key = (if cs_Const parsed = [] then schemaVersionFromPath p else cs_Const parsed) in
                cohort_digests fs files ps (if key = [] then m else map_set key (schema_fold files p parsed) m))))"

definition manifest_line :: "string \<times> string \<Rightarrow> string" where
  "manifest_line = (\<lambda>(p, d). p @ '':'' @ d @ [CHR 0x0A])"

definition cohort_manifest :: "(string, string) gomap \<Rightarrow> string" where
  "cohort_manifest files = concat (map (\<lambda>p. manifest_line (p, map_get [] files p)) (sort (map fst files)))"

definition ComputeCohort :: "schema_fs \<Rightarrow> string + Cohort" where
  "ComputeCohort fs =
     (case walk_digests (fs_read fs) (fs_entries fs) [] of
        Inl e \<Rightarrow> Inl (''walking embedded schemas: '' @ e)
      | Inr files \<Rightarrow>
          (case cohort_digests fs files (sort (map fst files)) [] of
             Inl e \<Rightarrow> Inl e
           | Inr digests \<Rightarrow> Inr \<lparr>co_ID = sha256_hex (cohort_manifest files), co_Digests = digests\<rparr>))"

definition DigestFor :: "Cohort \<Rightarrow> string \<Rightarrow> string option" where
  "DigestFor c version =
     (case map_of (co_Digests c) version of
        None \<Rightarrow> None
      | Some d \<Rightarrow> if d = [] then None else Some d)"

definition SchemaIdentity :: "Cohort \<Rightarrow> string \<Rightarrow> string option" where
  "SchemaIdentity c version = map_option (\<lambda>d. version @ ''@'' @ d) (DigestFor c version)"

subsection \<open>The identity determines the schemas\<close>

text \<open>The schema files the walk reads, with their bytes.\<close>

definition schema_entry :: "(string \<times> bool \<times> string option) list \<Rightarrow> string \<Rightarrow> bool" where
  "schema_entry es p \<longleftrightarrow> HasSuffix p ''.json'' \<and> (\<exists>err. (p, False, err) \<in> set es)"

definition schema_files :: "schema_fs \<Rightarrow> (string \<times> string) set" where
  "schema_files fs = {(p, content). schema_entry (fs_entries fs) p \<and> fs_read fs p = Inr content}"

lemma walk_digests_Inr:
  assumes "walk_digests read es m = Inr files" "distinct (map fst m)"
  shows "distinct (map fst files)
         \<and> (\<forall>p. schema_entry es p \<longrightarrow> (\<exists>content. read p = Inr content \<and> map_of files p = Some (sha256_hex content)))
         \<and> (\<forall>p. \<not> schema_entry es p \<longrightarrow> map_of files p = map_of m p)"
  using assms
proof (induction read es m rule: walk_digests.induct)
  case (2 read p isdir err es m)
  from 2(3) have none: "err = None" by (cases err) simp_all
  show ?case
  proof (cases "isdir \<or> \<not> HasSuffix p ''.json''")
    case True
    with 2(3) none have "walk_digests read es m = Inr files" by simp
    with 2(1) [OF none True] 2(4) True show ?thesis by (auto simp: schema_entry_def)
  next
    case False
    with 2(3) none obtain content where read: "read p = Inr content"
      "walk_digests read es (map_set p (sha256_hex content) m) = Inr files" by (auto split: sum.splits)
    have all: "distinct (map fst files)
        \<and> (\<forall>q. schema_entry es q \<longrightarrow> (\<exists>content. read q = Inr content \<and> map_of files q = Some (sha256_hex content)))
        \<and> (\<forall>q. \<not> schema_entry es q \<longrightarrow> map_of files q = map_of (map_set p (sha256_hex content) m) q)"
      by (rule 2(2) [OF none False read(1) read(2) distinct_map_set [OF 2(4)]])
    then have IH: "distinct (map fst files)"
      "\<And>q. schema_entry es q \<Longrightarrow> \<exists>content. read q = Inr content \<and> map_of files q = Some (sha256_hex content)"
      "\<And>q. \<not> schema_entry es q \<Longrightarrow> map_of files q = map_of (map_set p (sha256_hex content) m) q" by blast+
    have entry: "schema_entry ((p, isdir, err) # es) q \<longleftrightarrow> schema_entry es q \<or> q = p" for q
      using False by (auto simp: schema_entry_def)
    show ?thesis
    proof (intro conjI allI impI)
      fix q assume "schema_entry ((p, isdir, err) # es) q"
      then show "\<exists>content. read q = Inr content \<and> map_of files q = Some (sha256_hex content)"
        using IH(2,3) [of q] read(1) by (cases "schema_entry es q") (auto simp: entry)
    next
      fix q assume "\<not> schema_entry ((p, isdir, err) # es) q"
      then show "map_of files q = map_of m q" using IH(3) [of q] by (simp add: entry)
    qed (rule IH(1))
  qed
qed (simp add: schema_entry_def)

lemma manifest_lines_inj:
  assumes "concat (map manifest_line xs) = concat (map manifest_line ys)"
    and "\<forall>(p, d) \<in> set xs \<union> set ys. CHR 0x0A \<notin> set p \<and> CHR 0x0A \<notin> set d \<and> length d = 64"
  shows "xs = ys"
  using assms
proof (induction xs ys rule: list_induct2')
  case (4 x xs y ys)
  obtain p d q e where xy: "x = (p, d)" "y = (q, e)" by (cases x; cases y)
  have ok: "CHR 0x0A \<notin> set (p @ '':'' @ d)" "CHR 0x0A \<notin> set (q @ '':'' @ e)" "length d = length e"
    using 4(3) by (auto simp: xy)
  have cut: "takeWhile (\<lambda>c. c \<noteq> CHR 0x0A) (u @ CHR 0x0A # rest) = u"
      "dropWhile (\<lambda>c. c \<noteq> CHR 0x0A) (u @ CHR 0x0A # rest) = CHR 0x0A # rest"
    if "CHR 0x0A \<notin> set u" for u rest :: string
  proof -
    from that have "\<forall>c \<in> set u. c \<noteq> CHR 0x0A" by auto
    then show "takeWhile (\<lambda>c. c \<noteq> CHR 0x0A) (u @ CHR 0x0A # rest) = u"
      "dropWhile (\<lambda>c. c \<noteq> CHR 0x0A) (u @ CHR 0x0A # rest) = CHR 0x0A # rest"
      by (simp_all add: takeWhile_append2 dropWhile_append2)
  qed
  have eq: "(p @ '':'' @ d) @ CHR 0x0A # concat (map manifest_line xs) =
      (q @ '':'' @ e) @ CHR 0x0A # concat (map manifest_line ys)"
    using 4(2) by (simp add: xy manifest_line_def)
  have "p @ '':'' @ d = q @ '':'' @ e"
    using arg_cong [OF eq, of "takeWhile (\<lambda>c. c \<noteq> CHR 0x0A)"] cut(1) [OF ok(1)] cut(1) [OF ok(2)] by simp
  with ok(3) have "p = q" "d = e" by auto
  moreover have "concat (map manifest_line xs) = concat (map manifest_line ys)"
    using arg_cong [OF eq, of "dropWhile (\<lambda>c. c \<noteq> CHR 0x0A)"] cut(2) [OF ok(1)] cut(2) [OF ok(2)] by simp
  then have "xs = ys" using 4(3) by (intro 4(1)) auto
  ultimately show ?case by (simp add: xy)
qed (auto simp: manifest_line_def split: prod.splits)

lemma ComputeCohort_Inr:
  assumes "ComputeCohort fs = Inr c"
  obtains files where "walk_digests (fs_read fs) (fs_entries fs) [] = Inr files"
    "co_ID c = sha256_hex (cohort_manifest files)"
  using assms by (auto simp: ComputeCohort_def split: sum.splits)

text \<open>The manifest as the lines of a sorted list of pairs, which hold what the map holds.\<close>

definition manifest_pairs :: "(string, string) gomap \<Rightarrow> (string \<times> string) list" where
  "manifest_pairs files = map (\<lambda>p. (p, map_get [] files p)) (sort (map fst files))"

lemma cohort_manifest_pairs: "cohort_manifest files = concat (map manifest_line (manifest_pairs files))"
  by (simp add: cohort_manifest_def manifest_pairs_def comp_def)

lemma set_manifest_pairs: "set (manifest_pairs files) = {(p, d). map_of files p = Some d}"
proof -
  have "(p, d) \<in> set (manifest_pairs files) \<longleftrightarrow> map_of files p = Some d" for p d
  proof (cases "map_of files p")
    case None
    then have "p \<notin> fst ` set files" by (simp add: map_of_eq_None_iff)
    with None show ?thesis by (auto simp: manifest_pairs_def)
  next
    case (Some e)
    then have "p \<in> fst ` set files" using map_of_eq_None_iff [of files p] by simp
    with Some show ?thesis by (auto simp: manifest_pairs_def map_get_def)
  qed
  then show ?thesis by auto
qed

text \<open>The cohort identity is the content of the schema set: two schema file systems with the same identity hold the
  same schema files with the same bytes, as long as SHA-256 does not collide on the two manifests and on the files.
\<close>

theorem cohort_identity_determines_schemas:
  assumes "ComputeCohort fs = Inr c" "ComputeCohort fs' = Inr c'" "co_ID c = co_ID c'"
    and names: "\<forall>p. schema_entry (fs_entries fs) p \<or> schema_entry (fs_entries fs') p \<longrightarrow> CHR 0x0A \<notin> set p"
    and manifests: "\<And>files files'. walk_digests (fs_read fs) (fs_entries fs) [] = Inr files \<Longrightarrow>
          walk_digests (fs_read fs') (fs_entries fs') [] = Inr files' \<Longrightarrow>
          inj_on sha256_hex {cohort_manifest files, cohort_manifest files'}"
    and contents: "inj_on sha256_hex (snd ` (schema_files fs \<union> schema_files fs'))"
  shows "schema_files fs = schema_files fs'"
proof -
  from ComputeCohort_Inr [OF assms(1)] obtain files where
    files: "walk_digests (fs_read fs) (fs_entries fs) [] = Inr files" "co_ID c = sha256_hex (cohort_manifest files)" .
  from ComputeCohort_Inr [OF assms(2)] obtain files' where
    files': "walk_digests (fs_read fs') (fs_entries fs') [] = Inr files'" "co_ID c' = sha256_hex (cohort_manifest files')" .
  have holds: "map_of ms p = Some d \<longleftrightarrow> (\<exists>content. (p, content) \<in> schema_files g \<and> d = sha256_hex content)"
    if "walk_digests (fs_read g) (fs_entries g) [] = Inr ms" for g ms p d
  proof -
    from walk_digests_Inr [OF that] have
      read: "\<And>p. schema_entry (fs_entries g) p \<Longrightarrow> \<exists>content. fs_read g p = Inr content \<and> map_of ms p = Some (sha256_hex content)"
      and none: "\<And>p. \<not> schema_entry (fs_entries g) p \<Longrightarrow> map_of ms p = None" by auto
    show ?thesis
    proof (cases "schema_entry (fs_entries g) p")
      case True
      with read [OF True] show ?thesis unfolding schema_files_def by fastforce
    next
      case False
      with none [OF False] show ?thesis by (simp add: schema_files_def)
    qed
  qed
  have "manifest_pairs files = manifest_pairs files'"
  proof (rule manifest_lines_inj)
    show "concat (map manifest_line (manifest_pairs files)) = concat (map manifest_line (manifest_pairs files'))"
      unfolding cohort_manifest_pairs [symmetric]
      by (rule inj_onD [OF manifests [OF files(1) files'(1)]]) (simp_all add: assms(3) files(2) [symmetric] files'(2) [symmetric])
    have "CHR 0x0A \<notin> set (sha256_hex s)" for s
      using sha256_hex_plain [of "CHR 0x0A" s] by (auto simp: plain_def)
    then show "\<forall>(p, d) \<in> set (manifest_pairs files) \<union> set (manifest_pairs files').
        CHR 0x0A \<notin> set p \<and> CHR 0x0A \<notin> set d \<and> length d = 64"
      using names unfolding set_manifest_pairs holds [OF files(1)] holds [OF files'(1)] schema_files_def
      by (auto simp: length_sha256_hex)
  qed
  then have same: "map_of files p = Some d \<longleftrightarrow> map_of files' p = Some d" for p d
    using set_manifest_pairs [of files] set_manifest_pairs [of files'] by auto
  have step: "(p, content) \<in> schema_files h"
    if g: "(p, content) \<in> schema_files g" and ms: "map_of ms p = map_of ms' p"
      and hg: "\<And>d. map_of ms p = Some d \<longleftrightarrow> (\<exists>content. (p, content) \<in> schema_files g \<and> d = sha256_hex content)"
      and hh: "\<And>d. map_of ms' p = Some d \<longleftrightarrow> (\<exists>content. (p, content) \<in> schema_files h \<and> d = sha256_hex content)"
      and inj: "inj_on sha256_hex (snd ` (schema_files g \<union> schema_files h))"
    for g h ms ms' p content
  proof -
    from g hg [of "sha256_hex content"] ms have "map_of ms' p = Some (sha256_hex content)" by metis
    with hh obtain content' where c': "(p, content') \<in> schema_files h" "sha256_hex content = sha256_hex content'"
      by metis
    have "content \<in> snd ` (schema_files g \<union> schema_files h)" "content' \<in> snd ` (schema_files g \<union> schema_files h)"
      using imageI [of "(p, content)" "schema_files g \<union> schema_files h" snd]
        imageI [of "(p, content')" "schema_files g \<union> schema_files h" snd] g c'(1) by simp_all
    from inj_onD [OF inj c'(2) this] c'(1) show ?thesis by simp
  qed
  have eq: "map_of files p = map_of files' p" for p
    by (cases "map_of files' p") (metis same not_None_eq)+
  have "(p, content) \<in> schema_files fs \<longleftrightarrow> (p, content) \<in> schema_files fs'" for p content
    using step [OF _ eq holds [OF files(1)] holds [OF files'(1)] contents]
      step [OF _ eq [symmetric] holds [OF files'(1)] holds [OF files(1)] contents [unfolded Un_commute [of "schema_files fs"]]]
    by blast
  then show ?thesis by auto
qed

definition demo_schema_fs :: "(string \<times> bool \<times> string option) list \<Rightarrow> schema_fs" where
  "demo_schema_fs es = \<lparr>fs_entries = es, fs_read = (\<lambda>p. Inr ''{}''), fs_json = (\<lambda>c. None)\<rparr>"

definition demo_one_file :: schema_fs where
  "demo_one_file = demo_schema_fs [(baseSchemaPath, False, None)]"

definition demo_with_directory :: schema_fs where
  "demo_with_directory = demo_schema_fs [(''artifacts'', True, None), (baseSchemaPath, False, None), (''notes.md'', False, None)]"

lemma json_names: "HasSuffix baseSchemaPath ''.json''" "\<not> HasSuffix ''notes.md'' ''.json''"
  by code_simp+

lemma demo_schema_walks:
  "walk_digests (fs_read demo_one_file) (fs_entries demo_one_file) [] = Inr [(baseSchemaPath, sha256_hex ''{}'')]"
  "walk_digests (fs_read demo_with_directory) (fs_entries demo_with_directory) [] = Inr [(baseSchemaPath, sha256_hex ''{}'')]"
  by (simp_all add: demo_one_file_def demo_with_directory_def demo_schema_fs_def json_names)

lemma demo_schema_entries:
  "schema_entry (fs_entries demo_one_file) p \<longleftrightarrow> p = baseSchemaPath"
  "schema_entry (fs_entries demo_with_directory) p \<longleftrightarrow> p = baseSchemaPath"
  by (auto simp: schema_entry_def demo_one_file_def demo_with_directory_def demo_schema_fs_def json_names)

lemma demo_schema_cohorts:
  "ComputeCohort demo_one_file = Inr \<lparr>co_ID = sha256_hex (cohort_manifest [(baseSchemaPath, sha256_hex ''{}'')]), co_Digests = []\<rparr>"
  "ComputeCohort demo_with_directory = Inr \<lparr>co_ID = sha256_hex (cohort_manifest [(baseSchemaPath, sha256_hex ''{}'')]), co_Digests = []\<rparr>"
  by (simp_all add: ComputeCohort_def demo_schema_walks)

theorem cohort_identity_determines_schemas_witness:
  "schema_files demo_one_file = schema_files demo_with_directory"
proof (rule cohort_identity_determines_schemas [OF demo_schema_cohorts])
  show "\<forall>p. schema_entry (fs_entries demo_one_file) p \<or> schema_entry (fs_entries demo_with_directory) p \<longrightarrow> CHR 0x0A \<notin> set p"
    by (simp add: demo_schema_entries baseSchemaPath_def)
  show "inj_on sha256_hex (snd ` (schema_files demo_one_file \<union> schema_files demo_with_directory))"
    by (rule inj_onI)
      (auto simp: schema_files_def demo_schema_entries demo_one_file_def demo_with_directory_def demo_schema_fs_def)
qed (simp_all add: demo_schema_walks)

end
