(* ===== verification/Artifact_Validate.thy ===== *)
theory Artifact_Validate
  imports Validate_Supports Schema_Load Artifact_Status
begin

text \<open>
  The \<open>artifact validate\<close> command's run over a corpus: discovery
  (\<open>src/cmd/backstop/artifact_discover.go\<close>), routing by schema version (\<open>artifact_route.go\<close>), the cohort
  assertion, schema loading, the per-type validators and the resolution of \<open>supports\<close> references
  (\<open>artifact_validate.go\<close>).  The theorems state what a passing run has established, and that a run restricted to
  some types reports nothing the full run does not.
\<close>

subsection \<open>Discovery\<close>

record DiscoveredArtifact =
  da_Path :: string
  da_Type :: string

fun discover_walk :: "Root \<Rightarrow> string list \<Rightarrow> string list \<Rightarrow> string \<Rightarrow> FsNode \<Rightarrow> string + DiscoveredArtifact list" where
  "discover_walk rt filters nonCorpus path (FsErr _) = Inl path"
| "discover_walk rt filters nonCorpus path (FsFile name) =
     (case ClassifyFilename name of
        None \<Rightarrow> Inr []
      | Some kind \<Rightarrow>
          (if filters \<noteq> [] \<and> kind \<notin> set filters then Inr [] else Inr [\<lparr>da_Path = path, da_Type = kind\<rparr>]))"
| "discover_walk rt filters nonCorpus path (FsDir name children) =
     (if Excludes nonCorpus (Base path) then Inr []
      else if Base path = ''packs'' \<and> Base (Dir path) = ''.backstop'' then Inr []
      else if Base path = ''.backstop'' \<and> path \<noteq> ro_Path rt then Inr []
      else concat_results (map (\<lambda>c. discover_walk rt filters nonCorpus (JoinPath [path, node_name c]) c) children))"

definition DiscoverArtifacts :: "FsNode \<Rightarrow> Root \<Rightarrow> string list \<Rightarrow> string list \<Rightarrow> string + DiscoveredArtifact list" where
  "DiscoverArtifacts tree rt filters nonCorpus =
     (case discover_walk rt filters nonCorpus (ro_Path rt) tree of
        Inl e \<Rightarrow> Inl (''walking artifact root '' @ ro_Path rt @ '': '' @ e)
      | Inr das \<Rightarrow> Inr das)"

subsection \<open>The world of a run\<close>

text \<open>
  What a run reads: the tree under the artifact root, the files in it, the YAML and JSON decoders, the embedded
  schema files (an error says whether it is \<open>fs.ErrNotExist\<close>), the outcome of \<open>os.MkdirTemp\<close>, the error of
  creating a file there, the regular expression compiler for schema patterns, and what the sibling lookups see.
\<close>

record validate_world =
  vw_tree :: FsNode
  vw_read :: "string \<Rightarrow> string + string"
  vw_yaml :: "string \<Rightarrow> string + frontmatter"
  vw_schemas :: "string \<Rightarrow> (bool \<times> string) + string"
  vw_json :: "string \<Rightarrow> string + rawSchema"
  vw_tmp :: "string + string"
  vw_create :: "string \<Rightarrow> (bool \<times> string) option"
  vw_regexp :: rcompile
  vw_siblings :: siblings

record ValidateConfig =
  vc_Root :: Root
  vc_TypeFilters :: "(string, string) gomap"
  vc_All :: bool
  vc_Cohort :: Cohort
  vc_NonCorpus :: "string list"

record ArtifactValidationRecord =
  avr_Path :: string
  avr_Type :: string
  avr_SchemaVersion :: string
  avr_SchemaIdentity :: string
  avr_Schemaless :: bool

record ValidateResult =
  vres_Pass :: bool
  vres_ViolationsCount :: nat
  vres_Violations :: "ArtifactViolation list"
  vres_ArtifactsFound :: nat
  vres_ArtifactsAsserted :: nat
  vres_ScannedRoot :: string
  vres_Records :: "ArtifactValidationRecord list"

definition artifactIDValue :: "ParsedArtifact \<Rightarrow> string \<Rightarrow> string" where
  "artifactIDValue art artType =
     (if artType = ''plan'' then map_get [] (pa_Metadata art) ''plan_id''
      else if artType = ''issue'' then
        (case Option.bind (map_of (pa_Frontmatter art) ''issue'') as_map of
           None \<Rightarrow> []
         | Some block \<Rightarrow> map_string block ''id'')
      else map_get [] (pa_Metadata art) ''number'')"

subsection \<open>Routing\<close>

text \<open>A validator; only the plan validator is called without a schema, which it does not read.\<close>

datatype ValidatorFunc = RunSpec | RunPlan | RunADR | RunBundle | RunIssue | RunDirective

definition validatorRouter :: "(string, ValidatorFunc) gomap" where
  "validatorRouter = [(''spec'', RunSpec), (''plan'', RunPlan), (''adr'', RunADR), (''bundle'', RunBundle),
     (''issue'', RunIssue), (''directive'', RunDirective)]"

fun run_validator :: "validate_world \<Rightarrow> ValidatorFunc \<Rightarrow> ParsedArtifact \<Rightarrow> Schema option \<Rightarrow> ValidationResult" where
  "run_validator w RunPlan art _ = Plan art"
| "run_validator w RunDirective art _ = Directive art"
| "run_validator w RunSpec art (Some sch) = Spec (vw_regexp w) art sch"
| "run_validator w RunADR art (Some sch) = ADR (vw_regexp w) art sch"
| "run_validator w RunBundle art (Some sch) = Bundle (vw_regexp w) art sch"
| "run_validator w RunIssue art (Some sch) = Issue (vw_regexp w) (vw_siblings w) art sch"
| "run_validator w _ art None = result_of []"

definition RouteValidator :: "ParsedArtifact \<Rightarrow> string + ValidatorFunc" where
  "RouteValidator art =
     (let version = (case version_keys art of [] \<Rightarrow> [] | v # _ \<Rightarrow> v) in
      if version = [] then Inl ''missing schema_version field''
      else let prefix = hd (SplitN version slash 2) in
        (case map_of validatorRouter prefix of
           None \<Rightarrow> Inl (''unrecognized schema_version prefix: '' @ quote prefix)
         | Some fn \<Rightarrow> Inr fn))"

subsection \<open>Schemas through a temporary directory\<close>

definition copyFSFile ::
  "validate_world \<Rightarrow> string \<Rightarrow> string \<Rightarrow> (string, string) gomap \<Rightarrow> (bool \<times> string) + (string, string) gomap" where
  "copyFSFile w relPath destRoot disk =
     (case vw_schemas w relPath of
        Inl e \<Rightarrow> Inl e
      | Inr data \<Rightarrow>
          (let dest = JoinPath [destRoot, relPath] in
           case vw_create w dest of Some e \<Rightarrow> Inl e | None \<Rightarrow> Inr (map_set dest data disk)))"

definition tmp_io :: "validate_world \<Rightarrow> (string, string) gomap \<Rightarrow> schema_io" where
  "tmp_io w disk =
     \<lparr>io_read = (\<lambda>p. case map_of disk p of
          None \<Rightarrow> Inl (''open '' @ p @ '': no such file or directory'')
        | Some data \<Rightarrow> Inr data),
      io_json = vw_json w\<rparr>"

definition loadSchemaFromFS :: "validate_world \<Rightarrow> string \<Rightarrow> string + Schema" where
  "loadSchemaFromFS w schemaRelPath =
     (case vw_tmp w of
        Inl e \<Rightarrow> Inl (''creating temp dir for schema loading: '' @ e)
      | Inr tmpDir \<Rightarrow>
          (case copyFSFile w schemaRelPath tmpDir [] of
             Inl (_, e) \<Rightarrow> Inl (''reading schema from embed: '' @ e)
           | Inr disk \<Rightarrow>
               (let load = (\<lambda>d. LoadArtifactSchema (tmp_io w d) (JoinPath [tmpDir, schemaRelPath])
                                  (JoinPath [tmpDir, ''artifacts''])) in
                case copyFSFile w (JoinPath [''artifacts'', ''base'', ''schema.json'']) tmpDir disk of
                  Inl (missing, e) \<Rightarrow> (if missing then load disk else Inl (''copying base schema: '' @ e))
                | Inr disk' \<Rightarrow> load disk')))"

subsection \<open>The run\<close>

definition filter_types :: "ValidateConfig \<Rightarrow> string list" where
  "filter_types cfg = (if vc_All cfg then [] else map fst (vc_TypeFilters cfg))"

definition id_matches :: "ValidateConfig \<Rightarrow> ParsedArtifact \<Rightarrow> DiscoveredArtifact \<Rightarrow> bool" where
  "id_matches cfg art da =
     (case map_of (vc_TypeFilters cfg) (da_Type da) of
        None \<Rightarrow> True
      | Some idFilter \<Rightarrow> idFilter = [] \<or> artifactIDValue art (da_Type da) = idFilter)"

definition route_artifact :: "DiscoveredArtifact \<Rightarrow> ParsedArtifact \<Rightarrow> string + ValidatorFunc" where
  "route_artifact da art =
     (if da_Type da = ''plan'' then Inr RunPlan
      else case RouteValidator art of
        Inl e \<Rightarrow> Inl (''routing artifact '' @ da_Path da @ '': '' @ e)
      | Inr fn \<Rightarrow> Inr fn)"

definition assert_cohort :: "Cohort \<Rightarrow> DiscoveredArtifact \<Rightarrow> ParsedArtifact \<Rightarrow> string + ArtifactValidationRecord" where
  "assert_cohort cohort da art =
     (let record = \<lparr>avr_Path = da_Path da, avr_Type = da_Type da, avr_SchemaVersion = [], avr_SchemaIdentity = [],
                    avr_Schemaless = False\<rparr> in
      if da_Type da = ''plan'' then Inr (record\<lparr>avr_Schemaless := True\<rparr>)
      else (let version = declaredSchemaVersion art; record = record\<lparr>avr_SchemaVersion := version\<rparr> in
        if co_ID cohort = [] then Inr record
        else case SchemaIdentity cohort version of
          None \<Rightarrow> Inl (''refusing to report a verdict for '' @ da_Path da @ '': it declares schema_version '' @ quote version
                       @ '', which is not covered by this binary'' @ [CHR 0x27] @ ''s schema cohort '' @ co_ID cohort)
        | Some i \<Rightarrow> Inr (record\<lparr>avr_SchemaIdentity := i\<rparr>)))"

definition schema_for :: "validate_world \<Rightarrow> DiscoveredArtifact \<Rightarrow> ParsedArtifact \<Rightarrow> string + Schema option" where
  "schema_for w da art =
     (if da_Type da = ''plan'' then Inr None
      else case ResolveSchemaPath art of
        Inl e \<Rightarrow> Inl (''resolving schema for '' @ da_Path da @ '': '' @ e)
      | Inr path \<Rightarrow>
          (case loadSchemaFromFS w path of
             Inl e \<Rightarrow> Inl (''loading schema for '' @ da_Path da @ '': '' @ e)
           | Inr sch \<Rightarrow> Inr (Some sch)))"

text \<open>One iteration of the loop: an error, a skipped artifact, or a record with the violations found.\<close>

definition validate_one ::
  "validate_world \<Rightarrow> ValidateConfig \<Rightarrow> DiscoveredArtifact
     \<Rightarrow> string + (ArtifactValidationRecord \<times> ArtifactViolation list) list" where
  "validate_one w cfg da =
     (case ParseFile (vw_read w) (vw_yaml w) (da_Path da) of
        Inl e \<Rightarrow> Inl (''failed to parse artifact '' @ da_Path da @ '': '' @ e)
      | Inr art \<Rightarrow>
          (if \<not> id_matches cfg art da then Inr []
           else case route_artifact da art of
             Inl e \<Rightarrow> Inl e
           | Inr fn \<Rightarrow>
               (case assert_cohort (vc_Cohort cfg) da art of
                  Inl e \<Rightarrow> Inl e
                | Inr record \<Rightarrow>
                    (case schema_for w da art of
                       Inl e \<Rightarrow> Inl e
                     | Inr sch \<Rightarrow> Inr [(record, vr_Violations (run_validator w fn art sch))]))))"

definition parsed_of :: "validate_world \<Rightarrow> DiscoveredArtifact list \<Rightarrow> ParsedArtifact option list" where
  "parsed_of w das =
     List.map_filter (\<lambda>da. case ParseFile (vw_read w) (vw_yaml w) (da_Path da) of
        Inl _ \<Rightarrow> None
      | Inr art \<Rightarrow> Some (Some art)) das"

definition buildResolutionViolations ::
  "validate_world \<Rightarrow> Root \<Rightarrow> string list \<Rightarrow> string + ArtifactViolation list" where
  "buildResolutionViolations w rt nonCorpus =
     (case DiscoverArtifacts (vw_tree w) rt [''bundle''] nonCorpus of
        Inl e \<Rightarrow> Inl (''discovering bundles for resolution catalog: '' @ e)
      | Inr bundles \<Rightarrow>
          (case DiscoverArtifacts (vw_tree w) rt [''spec'', ''issue''] nonCorpus of
             Inl e \<Rightarrow> Inl (''discovering citers for resolution: '' @ e)
           | Inr citers \<Rightarrow>
               Inr (ResolveSupports (BuildBundleReqCatalog (parsed_of w bundles)) (CollectSupportRefs (parsed_of w citers)))))"

definition validate_result :: "ValidateConfig \<Rightarrow> (ArtifactValidationRecord \<times> ArtifactViolation list) list
    \<Rightarrow> ArtifactViolation list \<Rightarrow> ValidateResult" where
  "validate_result cfg processed resolution =
     (let vs = concat (map snd processed) @ resolution in
      \<lparr>vres_Pass = (vs = []), vres_ViolationsCount = length vs, vres_Violations = vs,
       vres_ArtifactsFound = length processed, vres_ArtifactsAsserted = length processed,
       vres_ScannedRoot = ro_Path (vc_Root cfg), vres_Records = map fst processed\<rparr>)"

definition ValidateArtifacts :: "validate_world \<Rightarrow> ValidateConfig \<Rightarrow> string + ValidateResult" where
  "ValidateArtifacts w cfg =
     (case DiscoverArtifacts (vw_tree w) (vc_Root cfg) (filter_types cfg) (vc_NonCorpus cfg) of
        Inl e \<Rightarrow> Inl (''discovering artifacts: '' @ e)
      | Inr [] \<Rightarrow> Inr (validate_result cfg [] [])
      | Inr discovered \<Rightarrow>
          (case concat_results (map (validate_one w cfg) discovered) of
             Inl e \<Rightarrow> Inl e
           | Inr processed \<Rightarrow>
               (case (if processed = [] then find (\<lambda>f. snd f \<noteq> []) (vc_TypeFilters cfg) else None) of
                  Some (artType, wanted) \<Rightarrow> Inl (''no '' @ artType @ '' artifact found with ID '' @ wanted)
                | None \<Rightarrow>
                    (case buildResolutionViolations w (vc_Root cfg) (vc_NonCorpus cfg) of
                       Inl e \<Rightarrow> Inl (''resolving supports refs: '' @ e)
                     | Inr resolution \<Rightarrow> Inr (validate_result cfg processed resolution)))))"

subsection \<open>Discovery of some types\<close>

lemma concat_results_filter:
  "concat_results (map (\<lambda>c. map_sum id (filter P) (h c)) cs) = map_sum id (filter P) (concat_results (map h cs))"
proof (induction cs)
  case (Cons c cs)
  then show ?case by (cases "h c"; cases "concat_results (map h cs)") auto
qed simp

lemma discover_walk_filter:
  "discover_walk rt filters nonCorpus path t =
     map_sum id (filter (\<lambda>da. filters = [] \<or> da_Type da \<in> set filters)) (discover_walk rt [] nonCorpus path t)"
proof (induction rt filters nonCorpus path t rule: discover_walk.induct)
  case (3 rt filters nonCorpus path name children)
  show ?case
  proof (cases "Excludes nonCorpus (Base path) \<or> Base path = ''packs'' \<and> Base (Dir path) = ''.backstop''
      \<or> Base path = ''.backstop'' \<and> path \<noteq> ro_Path rt")
    case False
    then have step: "discover_walk rt fs nonCorpus path (FsDir name children) =
        concat_results (map (\<lambda>c. discover_walk rt fs nonCorpus (JoinPath [path, node_name c]) c) children)" for fs by auto
    have "map (\<lambda>c. discover_walk rt filters nonCorpus (JoinPath [path, node_name c]) c) children =
        map (\<lambda>c. map_sum id (filter (\<lambda>da. filters = [] \<or> da_Type da \<in> set filters))
                   (discover_walk rt [] nonCorpus (JoinPath [path, node_name c]) c)) children"
      by (intro map_cong refl 3) (use False in auto)
    then show ?thesis unfolding step by (simp only: concat_results_filter)
  qed auto
qed (auto split: option.split)

lemma DiscoverArtifacts_filter:
  assumes "DiscoverArtifacts t rt [] nonCorpus = Inr das"
  shows "DiscoverArtifacts t rt filters nonCorpus = Inr (filter (\<lambda>da. filters = [] \<or> da_Type da \<in> set filters) das)"
  using assms discover_walk_filter [of rt filters nonCorpus "ro_Path rt" t]
  by (auto simp: DiscoverArtifacts_def split: sum.splits)

subsection \<open>What a passing run has established\<close>

lemma concat_results_map_Inr:
  "concat_results (map h cs) = Inr ys \<longleftrightarrow> (\<forall>c \<in> set cs. \<exists>xs. h c = Inr xs) \<and> ys = concat (map (\<lambda>c. projr (h c)) cs)"
  by (rule concat_results_map) (auto simp: isl_def)

lemma ValidateArtifacts_Inr:
  assumes "ValidateArtifacts w cfg = Inr r"
    and "DiscoverArtifacts (vw_tree w) (vc_Root cfg) (filter_types cfg) (vc_NonCorpus cfg) = Inr das" "das \<noteq> []"
  obtains resolution where
    "\<forall>da \<in> set das. \<exists>xs. validate_one w cfg da = Inr xs"
    "buildResolutionViolations w (vc_Root cfg) (vc_NonCorpus cfg) = Inr resolution"
    "r = validate_result cfg (concat (map (\<lambda>da. projr (validate_one w cfg da)) das)) resolution"
proof -
  obtain d ds where ds: "das = d # ds" using assms(3) by (cases das) auto
  from assms(1) obtain processed resolution where
    run: "concat_results (map (validate_one w cfg) das) = Inr processed"
      "buildResolutionViolations w (vc_Root cfg) (vc_NonCorpus cfg) = Inr resolution"
      "r = validate_result cfg processed resolution"
    unfolding ValidateArtifacts_def assms(2) ds
    by (auto simp del: list.map concat_results.simps split: sum.splits option.splits)
  from run(1) have "\<forall>da \<in> set das. \<exists>xs. validate_one w cfg da = Inr xs"
    "processed = concat (map (\<lambda>da. projr (validate_one w cfg da)) das)"
    unfolding concat_results_map_Inr by blast+
  with run(2,3) that show thesis by blast
qed

text \<open>The artifact was shown valid: against its validator, its schema and the cohort, a plan against the plan validator.\<close>

definition shown_valid :: "validate_world \<Rightarrow> Cohort \<Rightarrow> DiscoveredArtifact \<Rightarrow> ParsedArtifact \<Rightarrow> bool" where
  "shown_valid w cohort da art \<longleftrightarrow>
     (if da_Type da = ''plan'' then ValidationResult_Pass (Plan art)
      else \<exists>fn i path sch. RouteValidator art = Inr fn \<and> SchemaIdentity cohort (declaredSchemaVersion art) = Some i
             \<and> ResolveSchemaPath art = Inr path \<and> loadSchemaFromFS w path = Inr sch
             \<and> ValidationResult_Pass (run_validator w fn art (Some sch)))"

lemma validate_one_clean:
  assumes "validate_one w cfg da = Inr xs" "\<forall>x \<in> set xs. snd x = []" "co_ID (vc_Cohort cfg) \<noteq> []"
  shows "\<exists>art. ParseFile (vw_read w) (vw_yaml w) (da_Path da) = Inr art
           \<and> (id_matches cfg art da \<longrightarrow> shown_valid w (vc_Cohort cfg) da art)"
proof -
  from assms(1) obtain art where art: "ParseFile (vw_read w) (vw_yaml w) (da_Path da) = Inr art"
    by (auto simp: validate_one_def split: sum.splits)
  have "shown_valid w (vc_Cohort cfg) da art" if m: "id_matches cfg art da"
  proof -
    from assms(1) art m obtain fn rec0 sch where
      steps: "route_artifact da art = Inr fn" "assert_cohort (vc_Cohort cfg) da art = Inr rec0" "schema_for w da art = Inr sch"
        "xs = [(rec0, vr_Violations (run_validator w fn art sch))]"
      by (auto simp: validate_one_def split: sum.splits)
    with assms(2) have clean: "vr_Violations (run_validator w fn art sch) = []" by simp
    show ?thesis
    proof (cases "da_Type da = ''plan''")
      case True
      with steps(1,3) clean show ?thesis by (simp add: shown_valid_def route_artifact_def schema_for_def ValidationResult_Pass_def)
    next
      case False
      with steps(1) have "RouteValidator art = Inr fn" by (simp add: route_artifact_def split: sum.splits)
      moreover from False steps(2) assms(3) obtain i where "SchemaIdentity (vc_Cohort cfg) (declaredSchemaVersion art) = Some i"
        by (auto simp: assert_cohort_def Let_def split: option.splits)
      moreover from False steps(3) obtain path sch' where
        "ResolveSchemaPath art = Inr path" "loadSchemaFromFS w path = Inr sch'" "sch = Some sch'"
        by (auto simp: schema_for_def split: sum.splits)
      ultimately show ?thesis using False clean by (auto simp: shown_valid_def ValidationResult_Pass_def)
    qed
  qed
  with art show ?thesis by blast
qed


subsection \<open>A scoped run\<close>

abbreviation unscoped :: "ValidateConfig \<Rightarrow> ValidateConfig" where
  "unscoped cfg \<equiv> cfg\<lparr>vc_TypeFilters := [], vc_All := True\<rparr>"

lemma validate_one_unscoped:
  assumes "validate_one w cfg da = Inr xs" "xs \<noteq> []"
  shows "validate_one w (unscoped cfg) da = Inr xs"
proof -
  have "id_matches (unscoped cfg) art da" for art by (simp add: id_matches_def)
  with assms show ?thesis by (auto simp: validate_one_def split: sum.splits if_splits)
qed

lemma ValidateArtifacts_discovers:
  assumes "ValidateArtifacts w cfg = Inr r"
  obtains das where "DiscoverArtifacts (vw_tree w) (vc_Root cfg) (filter_types cfg) (vc_NonCorpus cfg) = Inr das"
  using assms unfolding ValidateArtifacts_def by (auto split: sum.splits)

lemma ValidateArtifacts_Nil:
  assumes "DiscoverArtifacts (vw_tree w) (vc_Root cfg) (filter_types cfg) (vc_NonCorpus cfg) = Inr []"
  shows "ValidateArtifacts w cfg = Inr (validate_result cfg [] [])"
  using assms by (simp add: ValidateArtifacts_def)

text \<open>A run restricted to some types or identifiers reports nothing that the unrestricted run does not report, so it
  passes whenever the unrestricted run passes.
\<close>

theorem scoped_run_reports_less:
  assumes "ValidateArtifacts w (unscoped cfg) = Inr full" "ValidateArtifacts w cfg = Inr r"
  shows "set (vres_Violations r) \<subseteq> set (vres_Violations full) \<and> (vres_Pass full \<longrightarrow> vres_Pass r)"
proof -
  have "filter_types (unscoped cfg) = []" by (simp add: filter_types_def)
  with ValidateArtifacts_discovers [OF assms(1)] obtain das where
    all: "DiscoverArtifacts (vw_tree w) (vc_Root cfg) [] (vc_NonCorpus cfg) = Inr das" by auto
  let ?das = "filter (\<lambda>da. filter_types cfg = [] \<or> da_Type da \<in> set (filter_types cfg)) das"
  note some = DiscoverArtifacts_filter [OF all, of "filter_types cfg"]
  have sub: "set (vres_Violations r) \<subseteq> set (vres_Violations full)"
  proof (cases "?das = []")
    case True
    with ValidateArtifacts_Nil [of w cfg] some assms(2) show ?thesis by (auto simp: validate_result_def)
  next
    case False
    then have "das \<noteq> []" by auto
    with ValidateArtifacts_Inr [OF assms(1), of das] all obtain res where
      full: "\<forall>da \<in> set das. \<exists>xs. validate_one w (unscoped cfg) da = Inr xs"
        "buildResolutionViolations w (vc_Root cfg) (vc_NonCorpus cfg) = Inr res"
        "full = validate_result (unscoped cfg) (concat (map (\<lambda>da. projr (validate_one w (unscoped cfg) da)) das)) res"
      by (auto simp: filter_types_def)
    from ValidateArtifacts_Inr [OF assms(2) some False] full(2) have
      scoped: "\<forall>da \<in> set ?das. \<exists>xs. validate_one w cfg da = Inr xs"
        "r = validate_result cfg (concat (map (\<lambda>da. projr (validate_one w cfg da)) ?das)) res" by auto
    have "x \<in> set (projr (validate_one w (unscoped cfg) da))" if "da \<in> set ?das" "x \<in> set (projr (validate_one w cfg da))" for da x
    proof -
      from scoped(1) that(1) obtain xs where xs: "validate_one w cfg da = Inr xs" by blast
      with that(2) have "xs \<noteq> []" by auto
      from validate_one_unscoped [OF xs this] xs that(2) show ?thesis by simp
    qed
    then show ?thesis unfolding full(3) scoped(2) validate_result_def Let_def by fastforce
  qed
  have "vres_Pass full \<longleftrightarrow> vres_Violations full = []" "vres_Pass r \<longleftrightarrow> vres_Violations r = []"
    using assms unfolding ValidateArtifacts_def
    by (auto simp: validate_result_def Let_def split: sum.splits list.splits option.splits)
  with sub show ?thesis by auto
qed

subsection \<open>Runs over small corpora\<close>

text \<open>A directive, a plan without content, and a capability; the decoder gives the fenced text its meaning.\<close>

definition demo_yaml :: "string \<Rightarrow> string + frontmatter" where
  "demo_yaml doc =
     (if doc = ''D'' then Inr [(''schema_version'', VStr ''directive/v1''),
         (''directive'', VMap [(''status'', VStr ''queued''), (''source'', VList [VStr ''SPEC-001''])])]
      else if doc = ''C'' then Inr [(''schema_version'', VStr ''capability/v1'')]
      else Inl ''yaml'')"

definition demo_raw_schema :: rawSchema where
  "demo_raw_schema = \<lparr>rs_ArtifactType = ''directive'', rs_FilenamePattern = [], rs_SlugPattern = [], rs_SlugMinLength = 0,
     rs_SlugMaxLength = 0, rs_Extends = [], rs_RequiredSections = [], rs_OptionalSections = [],
     rs_Metadata = \<lparr>rmd_Required = [], rmd_Properties = []\<rparr>,
     rs_PropertiesMetadata = \<lparr>rmd_Required = [], rmd_Properties = []\<rparr>\<rparr>"

definition fenced_doc :: "string \<Rightarrow> string" where
  "fenced_doc s = Join [''---'', s, ''---''] [CHR 0x0A]"

definition demo_world :: "FsNode list \<Rightarrow> validate_world" where
  "demo_world children =
     \<lparr>vw_tree = FsDir ''r'' children,
      vw_read = (\<lambda>p. if HasSuffix p ''.directive.md'' then Inr (fenced_doc ''D'')
                     else if HasSuffix p ''.capability.yml'' then Inr (fenced_doc ''C'') else Inr []),
      vw_yaml = demo_yaml,
      vw_schemas = (\<lambda>p. if p = ''artifacts/directive/v1/schema.json'' then Inr ''{}'' else Inl (True, ''file does not exist'')),
      vw_json = (\<lambda>_. Inr demo_raw_schema), vw_tmp = Inr ''/tmp/s'', vw_create = (\<lambda>_. None),
      vw_regexp = (\<lambda>_. None),
      vw_siblings = \<lparr>sf_is_dir = (\<lambda>_. False), sf_names = (\<lambda>_. []), sf_glob = (\<lambda>_. []), sf_read = (\<lambda>_. Inl []),
        sf_yaml = demo_yaml\<rparr>\<rparr>"

definition demo_config :: "(string, string) gomap \<Rightarrow> ValidateConfig" where
  "demo_config filters =
     \<lparr>vc_Root = \<lparr>ro_Path = ''/r'', ro_Declared = [], ro_Configured = False\<rparr>, vc_TypeFilters = filters, vc_All = False,
      vc_Cohort = \<lparr>co_ID = ''c1'', co_Digests = [(''directive/v1'', ''d1'')]\<rparr>, vc_NonCorpus = []\<rparr>"

definition demo_corpus :: "FsNode list" where
  "demo_corpus = [FsDir ''directives'' [FsFile ''DIR-001-a.directive.md''], FsDir ''plans'' [FsFile ''PLAN-001-a.plan.yml'']]"

lemma demo_scoped_run:
  "map_sum id vres_Pass (ValidateArtifacts (demo_world demo_corpus) (demo_config [(''directive'', [])])) = Inr True"
  "map_sum id vres_Pass (ValidateArtifacts (demo_world demo_corpus) (unscoped (demo_config [(''directive'', [])]))) = Inr False"
  by code_simp+

lemma demo_discovered:
  "DiscoverArtifacts (vw_tree (demo_world demo_corpus)) (vc_Root (demo_config [(''directive'', [])]))
     (filter_types (demo_config [(''directive'', [])])) (vc_NonCorpus (demo_config [(''directive'', [])])) =
   Inr [\<lparr>da_Path = ''/r/directives/DIR-001-a.directive.md'', da_Type = ''directive''\<rparr>]"
  by code_simp

lemma demo_passes:
  obtains r where "ValidateArtifacts (demo_world demo_corpus) (demo_config [(''directive'', [])]) = Inr r" "vres_Pass r"
  using demo_scoped_run(1) by (cases "ValidateArtifacts (demo_world demo_corpus) (demo_config [(''directive'', [])])") auto

lemma demo_full_run:
  obtains r where "ValidateArtifacts (demo_world demo_corpus) (unscoped (demo_config [(''directive'', [])])) = Inr r"
  using demo_scoped_run(2) by (cases "ValidateArtifacts (demo_world demo_corpus) (unscoped (demo_config [(''directive'', [])]))") auto


theorem scoped_run_reports_less_witness:
  "set (vres_Violations (projr (ValidateArtifacts (demo_world demo_corpus) (demo_config [(''directive'', [])]))))
     \<subseteq> set (vres_Violations (projr (ValidateArtifacts (demo_world demo_corpus) (unscoped (demo_config [(''directive'', [])])))))"
proof -
  obtain r where r: "ValidateArtifacts (demo_world demo_corpus) (demo_config [(''directive'', [])]) = Inr r" "vres_Pass r"
    by (rule demo_passes)
  obtain full where full: "ValidateArtifacts (demo_world demo_corpus) (unscoped (demo_config [(''directive'', [])])) = Inr full"
    by (rule demo_full_run)
  from scoped_run_reports_less [OF full r(1)] show ?thesis unfolding r(1) full by simp
qed

text \<open>An artifact that a run discovers and cannot route to a validator, and no plan is routed, ends the run with an
  error: there is no verdict.  A \<open>.capability.yml\<close> file is such an artifact, since discovery knows its kind and the
  router does not.
\<close>

theorem unroutable_artifact_fails_run:
  assumes "DiscoverArtifacts (vw_tree w) (vc_Root cfg) (filter_types cfg) (vc_NonCorpus cfg) = Inr das" "da \<in> set das"
    and "ParseFile (vw_read w) (vw_yaml w) (da_Path da) = Inr art" "id_matches cfg art da"
    and "da_Type da \<noteq> ''plan''" "RouteValidator art = Inl e"
  shows "\<exists>e'. ValidateArtifacts w cfg = Inl e'"
proof -
  have "validate_one w cfg da = Inl (''routing artifact '' @ da_Path da @ '': '' @ e)"
    using assms(3-6) by (simp add: validate_one_def route_artifact_def)
  then have refuse: "\<not> (\<forall>da \<in> set das. \<exists>xs. validate_one w cfg da = Inr xs)" using assms(2) by force
  from assms(2) have "das \<noteq> []" by auto
  show ?thesis
  proof (cases "ValidateArtifacts w cfg")
    case (Inr r)
    from ValidateArtifacts_Inr [OF Inr assms(1) \<open>das \<noteq> []\<close>] refuse show ?thesis by blast
  qed blast
qed

definition demo_capability :: "FsNode list" where
  "demo_capability = [FsDir ''capabilities'' [FsFile ''CAP-001-a.capability.yml'']]"

lemma demo_capability_run:
  "DiscoverArtifacts (vw_tree (demo_world demo_capability)) (vc_Root (demo_config [])) (filter_types (demo_config []))
     (vc_NonCorpus (demo_config [])) = Inr [\<lparr>da_Path = ''/r/capabilities/CAP-001-a.capability.yml'', da_Type = ''capability''\<rparr>]"
  "ParseFile (vw_read (demo_world demo_capability)) (vw_yaml (demo_world demo_capability)) ''/r/capabilities/CAP-001-a.capability.yml'' =
     Inr \<lparr>pa_Filename = ''CAP-001-a.capability.yml'', pa_SourcePath = ''/r/capabilities/CAP-001-a.capability.yml'', pa_Title = [],
          pa_Metadata = [(''schema_version'', ''capability/v1'')], pa_Frontmatter = [(''schema_version'', VStr ''capability/v1'')],
          pa_Sections = []\<rparr>"
  by code_simp+

lemma capability_not_routed:
  assumes "pa_Metadata art = [(''schema_version'', ''capability/v1'')]"
  shows "RouteValidator art = Inl (''unrecognized schema_version prefix: '' @ quote ''capability'')"
proof -
  have "version_keys art = [''capability/v1'']"
    unfolding version_keys_def assms by code_simp
  moreover have "SplitN ''capability/v1'' slash 2 = [''capability'', ''v1'']" by code_simp
  ultimately show ?thesis by (simp add: RouteValidator_def validatorRouter_def)
qed

theorem unroutable_artifact_fails_run_witness:
  "\<exists>e. ValidateArtifacts (demo_world demo_capability) (demo_config []) = Inl e"
proof (rule unroutable_artifact_fails_run [OF demo_capability_run(1) list.set_intros(1)])
  show "ParseFile (vw_read (demo_world demo_capability)) (vw_yaml (demo_world demo_capability))
      (da_Path \<lparr>da_Path = ''/r/capabilities/CAP-001-a.capability.yml'', da_Type = ''capability''\<rparr>) =
      Inr \<lparr>pa_Filename = ''CAP-001-a.capability.yml'', pa_SourcePath = ''/r/capabilities/CAP-001-a.capability.yml'',
           pa_Title = [], pa_Metadata = [(''schema_version'', ''capability/v1'')],
           pa_Frontmatter = [(''schema_version'', VStr ''capability/v1'')], pa_Sections = []\<rparr>"
    unfolding DiscoveredArtifact.simps by (rule demo_capability_run(2))
qed (simp_all add: capability_not_routed id_matches_def demo_config_def)

text \<open>An identifier that no artifact has goes unreported when the corpus has no artifact of its type.\<close>

lemma unknown_identifier_passes:
  "map_sum id vres_Pass (ValidateArtifacts (demo_world demo_corpus) (demo_config [(''spec'', ''SPEC-999'')])) = Inr True"
  by code_simp

end
