(* ===== verification/Gate_Wiring.thy ===== *)
theory Gate_Wiring
  imports Pack_Dispatch Gate_Polarity Gate_Substantiveness Gate_Run Requirement_Traceability Artifact_Validate Pack_Lock
begin

text \<open>
  The wiring of the gate command (\<open>src/cmd/backstop/gate.go\<close>): which installed packs provide which
  capability, the steps the command builds from them, their order, and the inputs it hands to
  \<open>gate.Run\<close>.  A step is a function on a world that holds, beside the world outside, what the steps
  pass each other: the verdicts the engines left for test verification and the two results that are
  computed once for a pair of steps.
\<close>

subsection \<open>Capabilities of the installed packs\<close>

definition declares_gate_type :: "GateType \<Rightarrow> Manifest \<Rightarrow> bool" where
  "declares_gate_type gt m = list_ex (\<lambda>(n, s). eb_GateType (es_Binding s) = gt) (mf_Engines m)"

definition packsDeclaringGateType :: "Manifest list \<Rightarrow> TraceabilityDimension \<Rightarrow> Manifest list" where
  "packsDeclaringGateType packs dimn =
     (case ParseGateType dimn of
        Inl _ \<Rightarrow> []
      | Inr gt \<Rightarrow> sort_key mf_NormalizedName (filter (declares_gate_type gt) packs))"

definition packDeclaresGateType :: "Manifest list \<Rightarrow> TraceabilityDimension \<Rightarrow> bool" where
  "packDeclaresGateType packs dimn \<longleftrightarrow> packsDeclaringGateType packs dimn \<noteq> []"

definition declaresTestVerdictEngine :: "Manifest list \<Rightarrow> bool" where
  "declaresTestVerdictEngine packs = list_ex (declares_gate_type GateTypeTest) packs"

definition resolveCapabilityPack :: "Manifest list \<Rightarrow> TraceabilityDimension \<Rightarrow> string + Manifest option" where
  "resolveCapabilityPack installed dimn =
     (case packsDeclaringGateType installed dimn of
        [] \<Rightarrow> Inr None
      | [m] \<Rightarrow> Inr (Some m)
      | ms \<Rightarrow> Inl (''ambiguous '' @ dimn @ '' capability: '' @ Itoa (int (length ms)) @ '' installed packs declare a ''
                  @ quote dimn @ '' gate_type engine ('' @ Join (map mf_NormalizedName ms) '', ''
                  @ ''); exactly one pack may provide a given traceability dimension''))"

definition capabilityStateForDimension :: "Manifest list \<Rightarrow> TraceabilityDimension \<Rightarrow> CapabilityState" where
  "capabilityStateForDimension packs dimn =
     (if packDeclaresGateType packs dimn
      then \<lparr>cs_Present = True, cs_Working = True,
            cs_PackOrCommand = ''the installed pack declaring a '' @ dimn @ '' engine'', cs_Detail = [], cs_Stack = []\<rparr>
      else \<lparr>cs_Present = False, cs_Working = False,
            cs_PackOrCommand = ''a pack declaring a '' @ dimn @ '' engine (install it: `backstop pack add`)'',
            cs_Detail = [], cs_Stack = []\<rparr>)"

definition deriveCapabilityState :: "Manifest list \<Rightarrow> TraceabilityDimension \<Rightarrow> string \<Rightarrow> CapabilityState" where
  "deriveCapabilityState packs dimn stack = (capabilityStateForDimension packs dimn)\<lparr>cs_Stack := stack\<rparr>"

definition coverageToolchainPackInstalled :: "Manifest list \<Rightarrow> bool" where
  "coverageToolchainPackInstalled packs = packDeclaresGateType packs DimensionCoverage"

definition substantivenessPackInstalled :: "Manifest list \<Rightarrow> bool" where
  "substantivenessPackInstalled packs = packDeclaresGateType packs DimensionSubstantiveness"

definition contractsPackInstalled :: "Manifest list \<Rightarrow> bool" where
  "contractsPackInstalled packs = packDeclaresGateType packs DimensionContracts"

definition wrapTraceabilityStep ::
  "Manifest list \<Rightarrow> Config option \<Rightarrow> TraceabilityDimension \<Rightarrow> string \<Rightarrow> string \<Rightarrow> 'w StepFunc \<Rightarrow> 'w StepFunc" where
  "wrapTraceabilityStep packs cfg dimn stepName stack delegate world =
     (let cap = deriveCapabilityState packs dimn stack; cls = ClassifyDimension cfg dimn cap in
      if cls \<noteq> ClassNone then (PolarityStepResult stepName dimn cls cfg cap, world)
      else delegate world)"

subsection \<open>The toolchain advisory\<close>

definition toolchainEnforcementStepName :: string where "toolchainEnforcementStepName = ''toolchain_enforcement''"
definition noToolchainPackMessage :: string where "noToolchainPackMessage = ''enforcement not configured (0 toolchain packs)''"

definition toolchainMechanismGateTypes :: "TraceabilityDimension list" where
  "toolchainMechanismGateTypes = [''lint'', ''build'', ''test'', ''coverage'']"

definition declaresToolchainMechanism :: "Manifest \<Rightarrow> bool" where
  "declaresToolchainMechanism m = list_ex (packDeclaresGateType [m]) toolchainMechanismGateTypes"

definition declaredToolchainStackLabel :: "Manifest list \<Rightarrow> string" where
  "declaredToolchainStackLabel packs =
     (let stacks = filter (\<lambda>l. l \<noteq> []) (map (\<lambda>m. TrimSpace (mf_Language m)) (filter declaresToolchainMechanism packs))
      in if stacks = [] then ''unspecified'' else Join (sorted_set stacks) '', '')"

definition countToolchainPacks :: "Manifest list \<Rightarrow> nat" where
  "countToolchainPacks declared = length (filter declaresToolchainMechanism declared)"

definition toolchainEnforcementStatus :: "Manifest list \<Rightarrow> StepResult option" where
  "toolchainEnforcementStatus declared =
     (if countToolchainPacks declared > 0 then None
      else Some ((step_lit toolchainEnforcementStepName ''warning'' [])\<lparr>s_Reason := noToolchainPackMessage\<rparr>))"

subsection \<open>What the packs declare together\<close>

definition mergeTestNameMatcher :: "(string \<Rightarrow> string + regex) \<Rightarrow> Manifest list \<Rightarrow> string + TestNameMatcher" where
  "mergeTestNameMatcher compile packs = NewTestNameMatcher compile (concat (map mf_TestNamePatterns packs))"

definition mergeSourceClassifier :: "Manifest list \<Rightarrow> SourceClassifier" where
  "mergeSourceClassifier packs =
     NewSourceClassifier (concat (map (cl_Source \<circ> mf_Classification) packs)) (concat (map (cl_Test \<circ> mf_Classification) packs))"

definition mergeDependencyDirs :: "Manifest list \<Rightarrow> string list" where
  "mergeDependencyDirs packs = dedup (filter (\<lambda>n. n \<noteq> []) (concat (map (cl_DependencyDirs \<circ> mf_Classification) packs)))"

definition addPackClaim :: "string \<Rightarrow> string \<Rightarrow> PackClaimIndex \<Rightarrow> PackClaimIndex" where
  "addPackClaim claimID label index =
     (if claimID = [] \<or> map_has index claimID then index else map_set claimID label index)"

definition pack_claims :: "Manifest \<Rightarrow> (string \<times> string) list" where
  "pack_claims m =
     concat (map (\<lambda>r. map (\<lambda>c. (cm_ID c, mf_NormalizedName m @ '':'' @ ru_ID r)) (ru_Claims r)) (mf_Rules m))
     @ concat (map (\<lambda>t. map (\<lambda>c. (cm_ID c, mf_NormalizedName m @ '':tool_config/'' @ tc_ID t)) (tc_Claims t)) (mf_ToolConfig m))"

definition mergePackClaimIndex :: "Manifest list \<Rightarrow> PackClaimIndex" where
  "mergePackClaimIndex packs = fold (\<lambda>(i, label). addPackClaim i label) (concat (map pack_claims packs)) []"

subsection \<open>Policy and waivers\<close>

text \<open>Only one level of per-source overrides is carried over.\<close>

definition dimensionPolicyFromConfig :: "cfgDimensionPolicy \<Rightarrow> DimensionPolicy" where
  "dimensionPolicyFromConfig p =
     DimensionPolicy (cp_Level p) (cp_AppliesTo p)
       (map (\<lambda>(src, sp). (src, DimensionPolicy (cp_Level sp) (cp_AppliesTo sp) [])) (cp_Sources p))"

definition gatePolicyFromConfig :: "Config option \<Rightarrow> (string, DimensionPolicy) gomap" where
  "gatePolicyFromConfig cfg =
     (case cfg of None \<Rightarrow> [] | Some c \<Rightarrow> map (\<lambda>(dimn, p). (dimn, dimensionPolicyFromConfig p)) (en_Policy (cf_Enforcement c)))"

definition non_waivable_rules :: "Manifest list \<Rightarrow> string list" where
  "non_waivable_rules packs =
     concat (map (\<lambda>m. map (\<lambda>r. NamespacedRuleID (mf_NormalizedName m) (ru_ID r)) (filter ru_NonWaivable (mf_Rules m))) packs)"

text \<open>When the packs cannot be loaded the caller falls back to the severity tier alone.\<close>

definition buildWaiverPolicy :: "string + Manifest list \<Rightarrow> string + WaiverPolicy" where
  "buildWaiverPolicy loaded =
     (case loaded of
        Inl e \<Rightarrow> Inl (''loading installed packs: '' @ e)
      | Inr packs \<Rightarrow> Inr (Waivable (Some (NewDeclaredPolicy (non_waivable_rules packs) [''critical'']))))"

definition gate_waiver_policy :: "string + Manifest list \<Rightarrow> WaiverPolicy" where
  "gate_waiver_policy loaded =
     (case buildWaiverPolicy loaded of Inl _ \<Rightarrow> Waivable (Some (NewDeclaredPolicy [] [''critical''])) | Inr p \<Rightarrow> p)"

definition lockedPackNamespaces :: "string + Lockfile \<Rightarrow> string list" where
  "lockedPackNamespaces lock =
     (case lock of Inl _ \<Rightarrow> [] | Inr lf \<Rightarrow> sort (filter (\<lambda>n. n \<noteq> []) (map (le_Name \<circ> snd) (lf_Packs lf))))"

definition schemaIdentityList :: "Cohort \<Rightarrow> string list" where
  "schemaIdentityList c = sort (List.map_filter (SchemaIdentity c) (map fst (co_Digests c)))"

definition kind_prefix :: "string \<Rightarrow> Root \<Rightarrow> Kind \<Rightarrow> string option" where
  "kind_prefix absProject rt k =
     (let dir = RootDir rt k in
      if dir = [] then None
      else case Rel absProject dir of
             None \<Rightarrow> None
           | Some rel \<Rightarrow>
               if rel = dot \<or> rel = dotdot \<or> HasPrefix rel (dotdot @ ''/'') then None else Some (rel @ ''/''))"

definition excludeArtifactKindPaths :: "string + string \<Rightarrow> Root \<Rightarrow> string list \<Rightarrow> string list" where
  "excludeArtifactKindPaths absProject rt files =
     (case absProject of
        Inl _ \<Rightarrow> files
      | Inr p \<Rightarrow>
          let excluded = List.map_filter (kind_prefix p rt) Kinds in
          filter (\<lambda>f. \<not> list_ex (\<lambda>d. HasPrefix f d) excluded) files)"

text \<open>Every source file of the project, its lines scanned for tokens; a file that cannot be read is
  passed over.\<close>

definition harvestProjectWaiverTokens ::
  "string + GateScope \<Rightarrow> string + string \<Rightarrow> Root \<Rightarrow> (string \<Rightarrow> string list option) \<Rightarrow> string \<Rightarrow> Waiver list" where
  "harvestProjectWaiverTokens allScope absProject rt readLines projectRoot =
     (case allScope of
        Inl _ \<Rightarrow> []
      | Inr sc \<Rightarrow>
          concat (map (\<lambda>rel. case readLines (JoinPath [projectRoot, rel]) of
                               None \<Rightarrow> [] | Some ls \<Rightarrow> HarvestTokens rel ls)
                      (excludeTestdataPaths (excludeArtifactKindPaths absProject rt (gs_Files sc)))))"

text \<open>The reader of one line of a file: numbers start at 1.  \<open>scanLines\<close> gives the lines the scanner yields
  before its end or its first error.\<close>

definition buildWaiverLineReader :: "(string \<Rightarrow> string list option) \<Rightarrow> string \<Rightarrow> LineReader" where
  "buildWaiverLineReader scanLines projectRoot f n =
     (if n \<le> 0 then None
      else case scanLines (JoinPath [projectRoot, f]) of
             None \<Rightarrow> None
           | Some ls \<Rightarrow> (if nat n \<le> length ls then Some (ls ! (nat n - 1)) else None))"

subsection \<open>What the command reads\<close>

text \<open>The environment of the engines, the project and artifact roots, the decoders, and the views of the
  outside world that the steps read: files (None is \<open>os.ErrNotExist\<close> for \<open>gi_Missing\<close>), the artifact
  corpus, the code tree, the project tree.  \<open>gi_CompileSignature\<close> runs the pack's own compiler of
  contract signatures.\<close>

record 'w gate_io =
  gi_Env :: "'w engine_env"
  gi_ProjectRoot :: string
  gi_Root :: Root
  gi_Yaml :: yaml_decoder
  gi_DecodePack :: "string \<Rightarrow> string + Manifest"
  gi_DecodeLock :: "string \<Rightarrow> string + (string, LockEntry) gomap option"
  gi_Missing :: "'w \<Rightarrow> string \<Rightarrow> bool"
  gi_Fs :: "'w \<Rightarrow> file_system"
  gi_CompileRegexp :: "string \<Rightarrow> string + regex"
  gi_Corpus :: "'w \<Rightarrow> corpus"
  gi_Code :: "'w \<Rightarrow> code_tree"
  gi_Artifacts :: "'w \<Rightarrow> validate_world"
  gi_SchemaFS :: schema_fs
  gi_ProjectTree :: "'w \<Rightarrow> FsNode"
  gi_Symlinks :: "'w \<Rightarrow> string \<Rightarrow> string"
  gi_Cwd :: string
  gi_CompileSignature :: "string \<Rightarrow> string \<Rightarrow> 'w \<Rightarrow> (string + string) \<times> 'w"

abbreviation gi_read :: "'w gate_io \<Rightarrow> 'w \<Rightarrow> string \<Rightarrow> string + string" where
  "gi_read io w \<equiv> ev_ReadFile (gi_Env io) w"

abbreviation gi_specDir :: "'w gate_io \<Rightarrow> string" where
  "gi_specDir io \<equiv> RootDir (gi_Root io) LKindSpec"

definition gi_packsDir :: "'w gate_io \<Rightarrow> string" where
  "gi_packsDir io = JoinPath [gi_ProjectRoot io, ''.backstop'', ''packs'']"

definition config_path :: "'w gate_io \<Rightarrow> string" where
  "config_path io = JoinPath [gi_ProjectRoot io, ''backstop.yml'']"

definition declaredPackNames :: "Config \<Rightarrow> string list" where
  "declaredPackNames cfg = sort (map fst (cf_Packs cfg))"

definition load_pack :: "'w gate_io \<Rightarrow> 'w \<Rightarrow> string \<Rightarrow> string + Manifest" where
  "load_pack io w name =
     (let packPath = JoinPath [gi_packsDir io, name]; manifestPath = JoinPath [packPath, ''pack.yml''] in
      if ev_Stat (gi_Env io) w packPath \<noteq> Some True
      then Inl (''declared pack '' @ name @ '' is missing from '' @ gi_packsDir io)
      else wrap_error (''parsing '' @ manifestPath @ '': '')
             (ParseManifestFile (gi_DecodePack io) (gi_read io w) (ev_Stat (gi_Env io) w) manifestPath))"

definition loadInstalledPacks :: "'w gate_io \<Rightarrow> 'w \<Rightarrow> string + Manifest list" where
  "loadInstalledPacks io w =
     (case LoadConfigFromPath (gi_Yaml io) (gi_read io w) (config_path io) of
        Inl e \<Rightarrow> Inl (''loading backstop.yml: '' @ e)
      | Inr cfg \<Rightarrow> map_results (load_pack io w) (declaredPackNames cfg))"

text \<open>A configuration that cannot be loaded counts as an empty one here.\<close>

definition empty_config :: Config where
  "empty_config = \<lparr>cf_Project = [], cf_Runtimes = [],
     cf_Enforcement = \<lparr>en_Security = \<lparr>se_Tier = []\<rparr>, en_WaiverWarningDays = 0, en_BaselineTTL = [], en_TestCommand = [],
       en_Toolchain = [], en_Policy = [], en_CoverageFloor = None\<rparr>,
     cf_Packs = [], cf_Registries = [], cf_ArtifactRoot = []\<rparr>"

definition gateConfig :: "'w gate_io \<Rightarrow> 'w \<Rightarrow> Config" where
  "gateConfig io w = (case LoadConfigFromPath (gi_Yaml io) (gi_read io w) (config_path io) of Inl _ \<Rightarrow> empty_config | Inr c \<Rightarrow> c)"

definition coverageFloorForProject :: "'w gate_io \<Rightarrow> 'w \<Rightarrow> string + int" where
  "coverageFloorForProject io w =
     (if gi_Missing io w (config_path io) then Inr DefaultCoverageFloor
      else case LoadConfigFromPath (gi_Yaml io) (gi_read io w) (config_path io) of
             Inl e \<Rightarrow> Inl e
           | Inr cfg \<Rightarrow> Inr (EffectiveCoverageFloor (cf_Enforcement cfg)))"

definition failure_text :: "LockFailure \<Rightarrow> string" where
  "failure_text f =
     (if fl_Pack f = [] then fl_Kind f @ '': '' @ fl_Message f
      else fl_Kind f @ '' ('' @ fl_Pack f @ ''): '' @ fl_Message f)"

definition verifyPackLock :: "'w gate_io \<Rightarrow> string list \<Rightarrow> 'w \<Rightarrow> string option" where
  "verifyPackLock io packs w =
     (if packs = [] then None
      else
        let lockPath = JoinPath [gi_ProjectRoot io, ''backstop.lock''] in
        case (case ReadLockfile (gi_read io w) (gi_DecodeLock io) lockPath of
                Inr lf \<Rightarrow> Inr (Some lf)
              | Inl e \<Rightarrow> if gi_Missing io w lockPath then Inr None else Inl (''reading lockfile: '' @ e)) of
          Inl e \<Rightarrow> Some e
        | Inr lock \<Rightarrow>
            (case VerifyLock (gi_Fs io w) lock (gi_packsDir io) packs of
               Inl e \<Rightarrow> Some (''verifying lockfile: '' @ e)
             | Inr r \<Rightarrow>
                 if vr_Pass r then None
                 else Some (''pack lock verification failed: '' @ Join (map failure_text (vr_Failures r)) ''; '')))"

subsection \<open>The world of a run\<close>

text \<open>\<open>gw_Drift\<close> and \<open>gw_Trace\<close> are the results behind the two \<open>sync.Once\<close>.\<close>

record 'w gate_world =
  gw_Verdicts :: "Violation list"
  gw_EngineDeclared :: bool
  gw_Drift :: "(StepResult \<times> StepResult) option"
  gw_Trace :: "(StepResult \<times> StepResult) option"
  gw_Outer :: 'w

definition initial_world :: "'w \<Rightarrow> 'w gate_world" where
  "initial_world w = \<lparr>gw_Verdicts = [], gw_EngineDeclared = False, gw_Drift = None, gw_Trace = None, gw_Outer = w\<rparr>"

definition on_outer :: "('w \<Rightarrow> StepResult \<times> 'w) \<Rightarrow> 'w gate_world StepFunc" where
  "on_outer f gw = (case f (gw_Outer gw) of (r, w) \<Rightarrow> (r, gw\<lparr>gw_Outer := w\<rparr>))"

definition stepResultWithNativeSandbox :: "StepResult \<Rightarrow> bool \<Rightarrow> StepResult" where
  "stepResultWithNativeSandbox r applied = r\<lparr>s_NativeSandboxApplied := applied\<rparr>"

definition hasStepRuleViolation :: "Violation list \<Rightarrow> string \<Rightarrow> bool" where
  "hasStepRuleViolation vs stepName = list_ex (\<lambda>v. v_Rule v = stepName) vs"

subsection \<open>Artifact validation\<close>

definition gate_violation :: "ArtifactViolation \<Rightarrow> Violation" where
  "gate_violation v = violation_lit (av_Rule v) (av_File v) (av_Message v) (av_Severity v)"

definition ValidateAll :: "'w gate_io \<Rightarrow> string list \<Rightarrow> 'w \<Rightarrow> delegate_outcome" where
  "ValidateAll io nonCorpus w =
     (case ComputeCohort (gi_SchemaFS io) of
        Inl e \<Rightarrow> Inl (''computing schema cohort: '' @ e, True)
      | Inr cohort \<Rightarrow>
     (case ValidateArtifacts (gi_Artifacts io w)
             \<lparr>vc_Root = gi_Root io, vc_TypeFilters = [], vc_All = True, vc_Cohort = cohort, vc_NonCorpus = nonCorpus\<rparr> of
        Inl e \<Rightarrow> Inl (e, True)
      | Inr result \<Rightarrow>
     (case FindUngatedArtifacts (gi_Cwd io) (gi_Symlinks io w) (gi_ProjectTree io w) (gi_ProjectRoot io) (gi_Root io) nonCorpus of
        Inl e \<Rightarrow> Inl (''scanning for ungated artifacts: '' @ e, True)
      | Inr ungated \<Rightarrow> Inr (map gate_violation (vres_Violations result) @ UngatedFindingsToViolations ungated))))"

subsection \<open>Packs: lock and engines\<close>

definition lockStep :: "'w gate_io \<Rightarrow> Manifest list \<Rightarrow> 'w gate_world StepFunc" where
  "lockStep io packs =
     on_outer (\<lambda>w. (case verifyPackLock io (map mf_NormalizedName packs) w of
                      Some e \<Rightarrow> config_fail ''pack_lock_verification'' e
                    | None \<Rightarrow> step_lit ''pack_lock_verification'' ''pass'' [], w))"

text \<open>The engines' step.  On an error the findings of the engines that ran are kept beside it; without
  one the test verdicts are left for test verification before the scope filter is applied.\<close>

definition engines_failed :: "GateScope \<Rightarrow> dispatch_result \<Rightarrow> string \<Rightarrow> StepResult" where
  "engines_failed scope d e =
     (let vs = filterViolations (Some scope) (dr_Violations d) in
      stepResultWithNativeSandbox
        ((step_lit StepPackEngines ''fail''
            (if hasStepRuleViolation vs StepPackEngines then vs else vs @ [violation_lit StepPackEngines [] e ''error'']))
           \<lparr>s_ConfigErr := True\<rparr>)
        (dr_NativeSandboxApplied d))"

definition engines_done :: "GateScope \<Rightarrow> dispatch_result \<Rightarrow> StepResult" where
  "engines_done scope d =
     (let vs = filterViolations (Some scope) (dr_Violations d) in
      stepResultWithNativeSandbox (step_lit StepPackEngines (StepVerdict vs) vs) (dr_NativeSandboxApplied d))"

definition dispatched_packs :: "'w gate_io \<Rightarrow> Manifest list \<Rightarrow> Manifest list" where
  "dispatched_packs io packs = excludeDedicatedStepRules (ev_BaseEngines (gi_Env io)) packs"

definition dispatch_packs :: "'w gate_io \<Rightarrow> Manifest list \<Rightarrow> GateScope \<Rightarrow> 'w \<Rightarrow> dispatch_result \<times> 'w" where
  "dispatch_packs io packs scope w =
     dispatchPackEnginesWithEvidence (gi_Env io) packs (gi_packsDir io) (gi_ProjectRoot io) (Some scope) w"

definition packValidatorStep :: "'w gate_io \<Rightarrow> Manifest list \<Rightarrow> GateScope \<Rightarrow> 'w gate_world StepFunc" where
  "packValidatorStep io packs scope gw =
     (case provisionEngines (gi_Env io) packs (gw_Outer gw) of
        Some e \<Rightarrow> (config_fail StepPackEngines e, gw)
      | None \<Rightarrow>
     (case dispatch_packs io (dispatched_packs io packs) scope (gw_Outer gw) of (d, w1) \<Rightarrow>
     (case dispatch_error d of
        Some e \<Rightarrow> (engines_failed scope d e, gw\<lparr>gw_Outer := w1\<rparr>)
      | None \<Rightarrow>
          (engines_done scope d,
           gw\<lparr>gw_Outer := w1, gw_Verdicts := RouteTestVerdictFindings (dr_Violations d),
              gw_EngineDeclared := declaresTestVerdictEngine (dispatched_packs io packs)\<rparr>))))"

subsection \<open>Test steps\<close>

definition gate_test_inputs :: "'w gate_io \<Rightarrow> GateScope \<Rightarrow> SourceClassifier \<Rightarrow> TestNameMatcher \<Rightarrow> 'w \<Rightarrow> test_inputs" where
  "gate_test_inputs io scope classifier matcher w =
     \<lparr>ti_corpus = gi_Corpus io w, ti_specDir = gi_specDir io, ti_code = gi_Code io w, ti_scope = Some scope,
      ti_glob = ev_Glob (gi_Env io), ti_classifier = classifier, ti_matcher = matcher\<rparr>"

definition testVerifyStep :: "'w gate_io \<Rightarrow> GateScope \<Rightarrow> SourceClassifier \<Rightarrow> TestNameMatcher \<Rightarrow> 'w gate_world StepFunc" where
  "testVerifyStep io scope classifier matcher gw =
     (StepTestVerificationVerdictFunc (gate_test_inputs io scope classifier matcher (gw_Outer gw))
        (Some (gw_Verdicts gw, gw_EngineDeclared gw)), gw)"

definition resolveSubstantivenessPacks :: "'w gate_io \<Rightarrow> 'w \<Rightarrow> string + Manifest option" where
  "resolveSubstantivenessPacks io w =
     (case loadInstalledPacks io w of
        Inl e \<Rightarrow> Inl (''resolving substantiveness packs: loading installed packs: '' @ e)
      | Inr installed \<Rightarrow>
          wrap_error ''resolving substantiveness pack: '' (resolveCapabilityPack installed DimensionSubstantiveness))"

definition substantiveness_pack :: "'w gate_io \<Rightarrow> GateScope \<Rightarrow> 'w \<Rightarrow> subst_pack \<times> 'w" where
  "substantiveness_pack io scope w =
     (case resolveSubstantivenessPacks io w of
        Inl e \<Rightarrow> (PackError e, w)
      | Inr None \<Rightarrow> (NoPack, w)
      | Inr (Some m) \<Rightarrow>
          (case dispatch_packs io [m] scope w of (d, w1) \<Rightarrow>
             (Dispatched (case dispatch_error d of Some e \<Rightarrow> Inl e | None \<Rightarrow> Inr (dr_Violations d)) (dr_NativeSandboxApplied d), w1)))"

definition testSubstantivenessStep :: "'w gate_io \<Rightarrow> GateScope \<Rightarrow> SourceClassifier \<Rightarrow> TestNameMatcher \<Rightarrow> 'w \<Rightarrow> StepResult \<times> 'w" where
  "testSubstantivenessStep io scope classifier matcher w =
     (let t = gate_test_inputs io scope classifier matcher w in
      if ExtractMandatedTests (ti_corpus t) (ti_specDir t) = None then (buildTestSubstantivenessStep t NoPack, w)
      else case substantiveness_pack io scope w of (p, w1) \<Rightarrow> (buildTestSubstantivenessStep t p, w1))"

subsection \<open>Coverage\<close>

definition coverageRecordsProducer ::
  "'w gate_io \<Rightarrow> Manifest list \<Rightarrow> 'w \<Rightarrow> ((string + CoverageRecord list) \<times> bool) \<times> 'w" where
  "coverageRecordsProducer io declared w =
     (if declared = [] then ((Inr [], False), w)
      else dispatchPackCoverageWithEvidence (gi_Env io) declared (gi_packsDir io) (gi_ProjectRoot io) w)"

definition coverage_config_error :: "string \<Rightarrow> StepResult" where
  "coverage_config_error message = config_fail StepCoverageThreshold message"

definition coverage_path_exists :: "'w gate_io \<Rightarrow> 'w \<Rightarrow> string \<Rightarrow> bool" where
  "coverage_path_exists io w p \<longleftrightarrow> ev_Stat (gi_Env io) w p \<noteq> None"

text \<open>The scoped step does not panic here: the command always passes a scope.\<close>

definition buildCoverageStep ::
  "'w gate_io \<Rightarrow> Manifest list \<Rightarrow> GateScope \<Rightarrow> SourceClassifier \<Rightarrow> string + int \<Rightarrow> 'w \<Rightarrow> StepResult \<times> 'w" where
  "buildCoverageStep io packs scope classifier floorResult w =
     (case floorResult of
        Inl e \<Rightarrow> (coverage_config_error (''failed to load the coverage floor from backstop.yml: '' @ e), w)
      | Inr fl \<Rightarrow>
     (case ExtractSpecVerifications (gi_Corpus io w) (gi_specDir io) of
        None \<Rightarrow> (step_lit StepCoverageThreshold ''fail''
                   [violation_lit ''coverage_threshold'' []
                      (''failed to extract spec verifications: '' @ spec_dir_error (gi_Corpus io w) (gi_specDir io)) ''error''], w)
      | Some specs \<Rightarrow>
     (case coverageRecordsProducer io packs w of
        ((Inl e, applied), w1) \<Rightarrow>
          (stepResultWithNativeSandbox (coverage_config_error (''failed to produce coverage records: '' @ e)) applied, w1)
      | ((Inr records, applied), w1) \<Rightarrow>
          (case StepCoverageThresholdScopedFunc (ev_Glob (gi_Env io)) (coverage_path_exists io w1) records specs (Some scope)
                  classifier (Some fl) of
             None \<Rightarrow> (step_lit StepCoverageThreshold ''panic'' [], w1)
           | Some r \<Rightarrow> (stepResultWithNativeSandbox r applied, w1)))))"

subsection \<open>Contracts\<close>

definition resolveContractsPacks :: "'w gate_io \<Rightarrow> 'w \<Rightarrow> string + Manifest option" where
  "resolveContractsPacks io w =
     (case loadInstalledPacks io w of
        Inl e \<Rightarrow> Inl (''loading installed packs: '' @ e)
      | Inr installed \<Rightarrow> wrap_error ''resolving contracts pack: '' (resolveCapabilityPack installed DimensionContracts))"

definition contractSignatureEngine :: "Manifest \<Rightarrow> string" where
  "contractSignatureEngine m = (if map_has (mf_Engines m) ''ast-grep-contracts'' then ''ast-grep-contracts'' else ''ast-grep'')"

definition compileContractSignature :: "'w gate_io \<Rightarrow> Manifest \<Rightarrow> string \<Rightarrow> 'w \<Rightarrow> (string + string) \<times> 'w" where
  "compileContractSignature io m signature w =
     (let script = JoinPath [JoinPath [gi_packsDir io, mf_NormalizedName m], ''scripts'', ''compile-signature.sh''] in
      case gi_CompileSignature io script signature w of
        (Inl e, w1) \<Rightarrow> (Inl (''running pack signature compiler '' @ script @ '': '' @ e), w1)
      | (Inr out, w1) \<Rightarrow> (Inr (TrimSpace out), w1))"

definition probe_rule :: "string \<Rightarrow> string \<Rightarrow> string \<Rightarrow> Rule" where
  "probe_rule i engine pat =
     \<lparr>ru_ID = i, ru_NamespacedID = [], ru_Engine = engine, ru_Standard = [], ru_RulePath = [], ru_Pattern = pat,
      ru_RiskClass = [], ru_Claims = [], ru_Category = [], ru_Justification = [], ru_Validator = [], ru_InputScope = [],
      ru_PairsWith = \<lparr>pw_Rules = [], pw_Scaffolds = [], pw_SDK = []\<rparr>, ru_NonWaivable = False\<rparr>"

text \<open>A pack of one synthetic rule, with the contracts pack's engines.\<close>

definition probe_manifest :: "Manifest \<Rightarrow> Rule \<Rightarrow> Manifest" where
  "probe_manifest m r =
     \<lparr>mf_Name = mf_Name m, mf_NormalizedName = mf_NormalizedName m, mf_Version = [], mf_Language = mf_Language m,
      mf_Archetype = [], mf_Description = [],
      mf_Content = \<lparr>co_Ruleset = \<lparr>rl_Version = [], rl_Rules = [r]\<rparr>, co_Scaffolds = [], co_SDK = None\<rparr>,
      mf_ToolConfig = [], mf_Engines = mf_Engines m,
      mf_Classification = \<lparr>cl_Source = [], cl_Test = [], cl_DependencyDirs = []\<rparr>, mf_TestNamePatterns = [], mf_Recipes = []\<rparr>"

definition contract_target :: "ContractEntry \<Rightarrow> string" where
  "contract_target c = (if ce_Absent c \<and> ce_Scope c \<noteq> [] then ce_Scope c else ce_File c)"

definition contract_rule :: "'w gate_io \<Rightarrow> Manifest \<Rightarrow> ContractEntry \<Rightarrow> 'w \<Rightarrow> (string + Rule) \<times> 'w" where
  "contract_rule io m c w =
     (if ce_Absent c then (Inr (probe_rule ''contract-absence'' ''grep'' (ce_Name c)), w)
      else case compileContractSignature io m (ce_Signature c) w of
             (Inl e, w1) \<Rightarrow> (Inl (''compiling signature for '' @ ce_Name c @ '': '' @ e), w1)
           | (Inr pat, w1) \<Rightarrow> (Inr (probe_rule ''contract-signature'' (contractSignatureEngine m) pat), w1))"

definition engine_result :: "ContractEntry \<Rightarrow> bool \<Rightarrow> Violation list \<Rightarrow> ContractEngineResult" where
  "engine_result c scanned vs =
     \<lparr>er_Entry = c, er_Matched = (vs \<noteq> []), er_Scanned = scanned, er_Locations = map (\<lambda>v. \<lparr>sl_File = v_File v, sl_Line = 0\<rparr>) vs\<rparr>"

text \<open>One contract: its result or error, and the evidence of the sandbox.\<close>

definition dispatchContractEntry ::
  "'w gate_io \<Rightarrow> Manifest \<Rightarrow> ContractEntry \<Rightarrow> 'w \<Rightarrow> ((string + ContractEngineResult) \<times> bool) \<times> 'w" where
  "dispatchContractEntry io m c w =
     (if ev_Stat (gi_Env io) w (contract_target c) = None then ((Inr (engine_result c False []), False), w)
      else
      (case contract_rule io m c w of
        (Inl e, w1) \<Rightarrow> ((Inl e, False), w1)
      | (Inr r, w1) \<Rightarrow>
          (case dispatch_packs io [probe_manifest m r] (newGateScope (gi_ProjectRoot io) GateScopeModeFile [contract_target c] []) w1 of
             (d, w2) \<Rightarrow>
               ((case dispatch_error d of
                   Some e \<Rightarrow> Inl (''dispatching contract engine for '' @ ce_Name c @ '': '' @ e)
                 | None \<Rightarrow> Inr (engine_result c True (dr_Violations d)), dr_NativeSandboxApplied d), w2))))"

fun dispatch_contracts ::
  "'w gate_io \<Rightarrow> Manifest \<Rightarrow> ContractEntry list \<Rightarrow> 'w \<Rightarrow> ((string + ContractEngineResult list) \<times> bool) \<times> 'w" where
  "dispatch_contracts io m [] w = ((Inr [], False), w)"
| "dispatch_contracts io m (c # cs) w =
     (case dispatchContractEntry io m c w of
        ((Inl e, applied), w1) \<Rightarrow> ((Inl (''dispatching contract entry for '' @ ce_Name c @ '': '' @ e), applied), w1)
      | ((Inr r, applied), w1) \<Rightarrow>
          (case dispatch_contracts io m cs w1 of
             ((Inl e, later), w2) \<Rightarrow> ((Inl e, applied \<or> later), w2)
           | ((Inr rs, later), w2) \<Rightarrow> ((Inr (r # rs), applied \<or> later), w2)))"

definition produceContractEngineResults ::
  "'w gate_io \<Rightarrow> ContractEntry list \<Rightarrow> 'w \<Rightarrow> ((string + ContractEngineResult list) \<times> bool) \<times> 'w" where
  "produceContractEngineResults io contracts w =
     (case resolveContractsPacks io w of
        Inl e \<Rightarrow> ((Inl (''resolving contracts pack: '' @ e), False), w)
      | Inr None \<Rightarrow> ((Inr [], False), w)
      | Inr (Some m) \<Rightarrow> dispatch_contracts io m contracts w)"

definition buildContractStep :: "'w gate_io \<Rightarrow> GateScope \<Rightarrow> 'w \<Rightarrow> StepResult \<times> 'w" where
  "buildContractStep io scope w =
     (case ExtractContractEntries (gi_Corpus io w) (gi_specDir io) (gi_ProjectRoot io) of
        None \<Rightarrow> (step_lit StepContractSignature ''fail''
                   [violation_lit ''contract_signature'' []
                      (''failed to extract contracts: '' @ spec_dir_error (gi_Corpus io w) (gi_specDir io)) ''error''], w)
      | Some contracts \<Rightarrow>
     (case produceContractEngineResults io contracts w of
        ((Inl e, applied), w1) \<Rightarrow>
          (stepResultWithNativeSandbox (config_fail StepContractSignature (''dispatching contract pack: '' @ e)) applied, w1)
      | ((Inr results, applied), w1) \<Rightarrow>
          (stepResultWithNativeSandbox (StepContractSignatureScopedFunc results (Some scope)) applied, w1)))"

subsection \<open>Drift and traceability\<close>

definition normalize_files :: "string \<Rightarrow> StepResult \<Rightarrow> StepResult" where
  "normalize_files projectRoot r =
     r\<lparr>s_Violations := map (\<lambda>v. v\<lparr>v_File := NormalizePath projectRoot (v_File v)\<rparr>) (s_Violations r)\<rparr>"

definition computeDriftSurfaces ::
  "'w gate_io \<Rightarrow> ArtifactStatusResolution \<Rightarrow> SourceClassifier \<Rightarrow> TestNameMatcher \<Rightarrow> PackClaimIndex \<Rightarrow> 'w
   \<Rightarrow> StepResult \<times> StepResult" where
  "computeDriftSurfaces io res classifier matcher packClaims w =
     (let mandated = ResolveMandatedTestPaths (ev_Glob (gi_Env io)) (concat (map ar_MandatedTests (rs_Records res)))
                       (gi_Code io w) classifier matcher;
          present = ResolvePresentTestNames mandated packClaims
      in SplitDriftResult (normalize_files (gi_ProjectRoot io) (ClassifyStatusDrift (rs_Records res) present)))"

definition drift_surfaces ::
  "'w gate_io \<Rightarrow> SourceClassifier \<Rightarrow> TestNameMatcher \<Rightarrow> PackClaimIndex \<Rightarrow> 'w \<Rightarrow> StepResult \<times> StepResult" where
  "drift_surfaces io classifier matcher packClaims w =
     (case ResolveArtifactStatus (gi_Corpus io w) (ro_Path (gi_Root io)) of
        Inl e \<Rightarrow> (config_fail StepArtifactStatusDrift (''resolving artifact status: '' @ e),
                  step_lit StepArtifactStatusDriftAdvisory ''pass'' [])
      | Inr res \<Rightarrow> computeDriftSurfaces io res classifier matcher packClaims w)"

definition trace_ref :: "(string, string) gomap \<Rightarrow> SupportRef \<Rightarrow> TraceRef" where
  "trace_ref pathByBase ref =
     (let p = map_get [] pathByBase (sr_File ref) in
      \<lparr>tr_BundleName = sr_BundleName ref, tr_ReqID = sr_ReqID ref, tr_PinVersion = sr_Version ref,
       tr_Pinned = (sr_Version ref \<noteq> []), tr_CitingPath = (if p \<noteq> [] then p else sr_File ref)\<rparr>)"

definition parsed_artifacts :: "validate_world \<Rightarrow> DiscoveredArtifact list \<Rightarrow> (string \<times> ParsedArtifact) list" where
  "parsed_artifacts aw das =
     List.map_filter (\<lambda>da. case ParseFile (vw_read aw) (vw_yaml aw) (da_Path da) of
        Inl _ \<Rightarrow> None | Inr art \<Rightarrow> Some (da_Path da, art)) das"

definition collectTraceRefs :: "'w gate_io \<Rightarrow> string list \<Rightarrow> 'w \<Rightarrow> string + TraceRef list" where
  "collectTraceRefs io nonCorpus w =
     (let aw = gi_Artifacts io w in
      case DiscoverArtifacts (vw_tree aw) (gi_Root io) [''spec'', ''issue''] nonCorpus of
        Inl e \<Rightarrow> Inl (''discovering spec/issue artifacts: '' @ e)
      | Inr das \<Rightarrow>
          let parsed = parsed_artifacts aw das;
              pathByBase = fold (\<lambda>(p, art) m. map_set (pa_Filename art) p m) parsed []
          in Inr (map (trace_ref pathByBase) (CollectSupportRefs (map (Some \<circ> snd) parsed))))"

definition computeRequirementTraceabilitySurfaces :: "'w gate_io \<Rightarrow> string list \<Rightarrow> 'w \<Rightarrow> StepResult \<times> StepResult" where
  "computeRequirementTraceabilitySurfaces io nonCorpus w =
     (case ResolveArtifactStatus (gi_Corpus io w) (ro_Path (gi_Root io)) of
        Inl e \<Rightarrow> (config_fail StepRequirementTraceability (''resolving artifact status: '' @ e),
                  step_lit StepRequirementTraceabilityAdvisory ''pass'' [])
      | Inr res \<Rightarrow>
     (case collectTraceRefs io nonCorpus w of
        Inl e \<Rightarrow> (config_fail StepRequirementTraceability (''collecting supports refs: '' @ e),
                  step_lit StepRequirementTraceabilityAdvisory ''pass'' [])
      | Inr refs \<Rightarrow>
          SplitTraceabilityResult (normalize_files []
            (ClassifyRequirementTraceability
               (map (\<lambda>r. r\<lparr>ar_Path := NormalizePath (gi_ProjectRoot io) (ar_Path r)\<rparr>) (rs_Records res))
               (map (\<lambda>r. r\<lparr>tr_CitingPath := NormalizePath (gi_ProjectRoot io) (tr_CitingPath r)\<rparr>) refs)))))"

text \<open>The two steps of a pair share what the first of them computes.\<close>

definition drift_once :: "('w \<Rightarrow> StepResult \<times> StepResult) \<Rightarrow> (StepResult \<times> StepResult \<Rightarrow> StepResult) \<Rightarrow> 'w gate_world StepFunc" where
  "drift_once f pick gw =
     (case gw_Drift gw of
        Some r \<Rightarrow> (pick r, gw)
      | None \<Rightarrow> (let r = f (gw_Outer gw) in (pick r, gw\<lparr>gw_Drift := Some r\<rparr>)))"

definition trace_once :: "('w \<Rightarrow> StepResult \<times> StepResult) \<Rightarrow> (StepResult \<times> StepResult \<Rightarrow> StepResult) \<Rightarrow> 'w gate_world StepFunc" where
  "trace_once f pick gw =
     (case gw_Trace gw of
        Some r \<Rightarrow> (pick r, gw)
      | None \<Rightarrow> (let r = f (gw_Outer gw) in (pick r, gw\<lparr>gw_Trace := Some r\<rparr>)))"

definition buildStatusDriftSteps ::
  "'w gate_io \<Rightarrow> SourceClassifier \<Rightarrow> TestNameMatcher \<Rightarrow> PackClaimIndex \<Rightarrow> 'w gate_world StepFunc list" where
  "buildStatusDriftSteps io classifier matcher packClaims =
     [drift_once (drift_surfaces io classifier matcher packClaims) fst,
      drift_once (drift_surfaces io classifier matcher packClaims) snd]"

definition buildRequirementTraceabilitySteps :: "'w gate_io \<Rightarrow> string list \<Rightarrow> 'w gate_world StepFunc list" where
  "buildRequirementTraceabilitySteps io nonCorpus =
     [trace_once (computeRequirementTraceabilitySurfaces io nonCorpus) fst,
      trace_once (computeRequirementTraceabilitySurfaces io nonCorpus) snd]"

subsection \<open>The steps of a run\<close>

definition pack_loading_failed :: "string \<Rightarrow> 'w gate_world StepFunc list" where
  "pack_loading_failed message = [\<lambda>gw. (config_fail ''pack_loading'' message, gw)]"

definition traceability_step ::
  "'w gate_io \<Rightarrow> Manifest list \<Rightarrow> 'w \<Rightarrow> TraceabilityDimension \<Rightarrow> string \<Rightarrow> ('w \<Rightarrow> StepResult \<times> 'w) \<Rightarrow> 'w gate_world StepFunc" where
  "traceability_step io packs w0 dimn stepName f =
     wrapTraceabilityStep packs (Some (gateConfig io w0)) dimn stepName (declaredToolchainStackLabel packs) (on_outer f)"

text \<open>The artifact step, and the steps after it in their order.\<close>

definition artifact_step :: "'w gate_io \<Rightarrow> Manifest list \<Rightarrow> GateScope \<Rightarrow> 'w gate_world StepFunc" where
  "artifact_step io packs scope =
     StepArtifactValidationScopedFunc
       (\<lambda>gw. (ValidateAll io (NewNonCorpusDirs (mergeDependencyDirs packs)) (gw_Outer gw), gw)) (Some scope)"

definition later_steps ::
  "'w gate_io \<Rightarrow> Manifest list \<Rightarrow> GateScope \<Rightarrow> TestNameMatcher \<Rightarrow> 'w \<Rightarrow> 'w gate_world StepFunc list" where
  "later_steps io packs scope matcher w0 =
     (let classifier = mergeSourceClassifier packs in
      [traceability_step io packs w0 DimensionSubstantiveness StepTestSubstantiveness
         (testSubstantivenessStep io scope classifier matcher),
       traceability_step io packs w0 DimensionCoverage StepCoverageThreshold
         (buildCoverageStep io packs scope classifier (coverageFloorForProject io w0)),
       traceability_step io packs w0 DimensionContracts StepContractSignature (buildContractStep io scope)]
      @ buildStatusDriftSteps io classifier matcher (mergePackClaimIndex packs)
      @ buildRequirementTraceabilitySteps io (NewNonCorpusDirs (mergeDependencyDirs packs))
      @ [StepWaiverResolutionScopedFunc, StepBaselineComparisonScopedFunc, StepLedgerIntegrityScopedFunc]
      @ (case toolchainEnforcementStatus packs of None \<Rightarrow> [] | Some r \<Rightarrow> [\<lambda>gw. (r, gw)]))"

definition buildGateSteps :: "'w gate_io \<Rightarrow> GateScope \<Rightarrow> 'w \<Rightarrow> 'w gate_world StepFunc list" where
  "buildGateSteps io scope w0 =
     (case loadInstalledPacks io w0 of
        Inl e \<Rightarrow> pack_loading_failed e
      | Inr packs \<Rightarrow>
     (case mergeTestNameMatcher (gi_CompileRegexp io) packs of
        Inl e \<Rightarrow> pack_loading_failed (''compiling pack-declared test_name_patterns: '' @ e)
      | Inr matcher \<Rightarrow>
          let verify = testVerifyStep io scope (mergeSourceClassifier packs) matcher in
          if packs = [] then artifact_step io packs scope # verify # later_steps io packs scope matcher w0
          else [lockStep io packs, artifact_step io packs scope, packValidatorStep io packs scope, verify]
               @ later_steps io packs scope matcher w0))"

end
