(* ===== verification/Gate_Safety.thy ===== *)
theory Gate_Safety
  imports Gate_Wiring
begin

text \<open>
  What the wiring of the gate command guarantees (\<open>src/cmd/backstop/gate.go\<close> over \<open>pkg/gate\<close> and the
  dispatch of \<open>pack_gate.go\<close>): which packs and engines stand behind a passing step, that a run whose
  packs cannot be trusted, verified or run ends in the configuration exit, and that a red test a
  specification mandates keeps the whole run from passing.
\<close>

subsection \<open>Steps in the loop\<close>

lemma run_step_plain:
  "s_StepName r \<notin> {StepWaiverResolution, StepBaselineComparison} \<Longrightarrow>
     run_step g e r (results, active) = (results @ [r\<lparr>s_DurationMS := e\<rparr>], active, s_ConfigErr r)"
  by (simp add: run_step_def Let_def)

lemma run_loop_plain:
  assumes "s_StepName (fst (f world)) \<notin> {StepWaiverResolution, StepBaselineComparison}"
  shows "run_loop g elapsed i (f # fs) world (results, active) =
     (if s_ConfigErr (fst (f world))
      then (results @ [(fst (f world))\<lparr>s_DurationMS := elapsed i\<rparr>], active, True, snd (f world))
      else run_loop g elapsed (Suc i) fs (snd (f world)) (results @ [(fst (f world))\<lparr>s_DurationMS := elapsed i\<rparr>], active))"
proof -
  obtain r w where "f world = (r, w)" by (cases "f world")
  then show ?thesis using assms by (simp add: run_step_plain)
qed

lemma halted_run:
  assumes "g_configErr g = None" "run_loop g elapsed 0 (g_steps g) world ([], []) = (results, active, True, world')"
  shows "fst (snd (Run g elapsed world)) = 2"
  using assms by (simp add: Run_def Let_def)

lemma step_names [simp]:
  "s_StepName (fst (lockStep io packs gw)) = ''pack_lock_verification''"
  "s_StepName (fst (artifact_step io packs scope gw)) = StepArtifactValidation"
  "s_StepName (fst (packValidatorStep io packs scope gw)) = StepPackEngines"
  by (simp_all add: lockStep_def on_outer_def artifact_step_def StepArtifactValidationScopedFunc_def delegated_result_def
      packValidatorStep_def engines_failed_def engines_done_def stepResultWithNativeSandbox_def config_fail_def Let_def
      split: option.splits sum.splits prod.splits)

lemma step_worlds [simp]:
  "snd (lockStep io packs gw) = gw" "snd (artifact_step io packs scope gw) = gw"
  by (simp_all add: lockStep_def on_outer_def artifact_step_def StepArtifactValidationScopedFunc_def)

lemma plain_names [simp]:
  "''pack_lock_verification'' \<notin> {StepWaiverResolution, StepBaselineComparison}"
  "StepArtifactValidation \<notin> {StepWaiverResolution, StepBaselineComparison}"
  "StepPackEngines \<notin> {StepWaiverResolution, StepBaselineComparison}"
  "StepTestVerification \<notin> {StepWaiverResolution, StepBaselineComparison}"
  by (simp_all add: StepWaiverResolution_def StepBaselineComparison_def StepArtifactValidation_def StepPackEngines_def
      StepTestVerification_def)

text \<open>The steps before test verification: the run halts exactly when one of the three is a
  configuration error.\<close>

abbreviation pack_prefix :: "'w gate_io \<Rightarrow> Manifest list \<Rightarrow> GateScope \<Rightarrow> 'w gate_world StepFunc list" where
  "pack_prefix io packs scope \<equiv> [lockStep io packs, artifact_step io packs scope, packValidatorStep io packs scope]"

definition prefix_halts :: "'w gate_io \<Rightarrow> Manifest list \<Rightarrow> GateScope \<Rightarrow> 'w gate_world \<Rightarrow> bool" where
  "prefix_halts io packs scope gw \<longleftrightarrow>
     s_ConfigErr (fst (lockStep io packs gw)) \<or> s_ConfigErr (fst (artifact_step io packs scope gw))
     \<or> s_ConfigErr (fst (packValidatorStep io packs scope gw))"

lemma run_loop_prefix:
  "\<exists>results active. run_loop g elapsed 0 (pack_prefix io packs scope) gw ([], []) =
     (if prefix_halts io packs scope gw then (results, active, True, snd (snd (snd (run_loop g elapsed 0 (pack_prefix io packs scope) gw ([], [])))))
      else (results, active, False, snd (packValidatorStep io packs scope gw)))"
  by (auto simp: run_loop_plain [of "lockStep io packs"] run_loop_plain [of "artifact_step io packs scope"]
      run_loop_plain [of "packValidatorStep io packs scope"] prefix_halts_def plain_names [simplified] simp del: run_loop.simps(2))

lemma lockStep_halts: "s_ConfigErr (fst (lockStep io packs gw)) \<longleftrightarrow> verifyPackLock io (map mf_NormalizedName packs) (gw_Outer gw) \<noteq> None"
  by (simp add: lockStep_def on_outer_def config_fail_def split: option.splits)

lemma packValidatorStep_halts:
  "s_ConfigErr (fst (packValidatorStep io packs scope gw)) \<longleftrightarrow>
     provisionEngines (gi_Env io) packs (gw_Outer gw) \<noteq> None
     \<or> dispatch_error (fst (dispatch_packs io (dispatched_packs io packs) scope (gw_Outer gw))) \<noteq> None"
  by (auto simp: packValidatorStep_def engines_failed_def engines_done_def stepResultWithNativeSandbox_def config_fail_def Let_def
      split: option.splits prod.splits)

lemma buildGateSteps_packs:
  assumes "loadInstalledPacks io w = Inr packs" "packs \<noteq> []" "mergeTestNameMatcher (gi_CompileRegexp io) packs = Inr matcher"
  shows "buildGateSteps io scope w =
     pack_prefix io packs scope @ testVerifyStep io scope (mergeSourceClassifier packs) matcher # later_steps io packs scope matcher w"
  using assms by (simp add: buildGateSteps_def)

lemma prefix_halts_run:
  assumes "g_steps g = pack_prefix io packs scope @ fs" "g_configErr g = None" "prefix_halts io packs scope world"
  shows "fst (snd (Run g elapsed world)) = 2"
proof -
  obtain results active w' where "run_loop g elapsed 0 (pack_prefix io packs scope) world ([], []) = (results, active, True, w')"
    using run_loop_prefix [of g elapsed io packs scope world] assms(3) by auto
  then have "run_loop g elapsed 0 (g_steps g) world ([], []) = (results, active, True, w')"
    unfolding assms(1) run_loop_append by simp
  then show ?thesis by (rule halted_run [OF assms(2)])
qed

subsection \<open>A broken engine is never a pass\<close>

text \<open>C2: The gate fails closed on its packs.  When the packs of the configuration cannot be loaded, their
  test-name patterns do not compile, the lock does not match what is installed, a tool an engine
  needs is missing or untrusted, or any engine of any pack ends in an error, the run ends with the
  configuration exit code 2 (the steps are built in a world \<open>w0\<close> and run from \<open>w\<close>), whatever the other steps, the policies, the waivers and the baseline are.\<close>

theorem broken_packs_exit_2:
  assumes "g_steps g = buildGateSteps io scope w0" "g_configErr g = None"
    and "loadInstalledPacks io w0 = Inl e
      \<or> (\<exists>packs. loadInstalledPacks io w0 = Inr packs \<and> packs \<noteq> []
           \<and> (isl (mergeTestNameMatcher (gi_CompileRegexp io) packs)
              \<or> verifyPackLock io (map mf_NormalizedName packs) w \<noteq> None
              \<or> provisionEngines (gi_Env io) packs w \<noteq> None
              \<or> dispatch_error (fst (dispatch_packs io (dispatched_packs io packs) scope w)) \<noteq> None))"
  shows "fst (snd (Run g elapsed (initial_world w))) = 2"
proof -
  have failed: "fst (snd (Run g elapsed (initial_world w))) = 2" if "g_steps g = pack_loading_failed m" for m
    by (rule halted_run [OF assms(2)])
      (simp add: that pack_loading_failed_def run_step_def config_fail_def StepWaiverResolution_def StepBaselineComparison_def Let_def)
  from assms(3) consider (unloaded) "loadInstalledPacks io w0 = Inl e"
    | (loaded) packs where "loadInstalledPacks io w0 = Inr packs" "packs \<noteq> []"
        "isl (mergeTestNameMatcher (gi_CompileRegexp io) packs) \<or> prefix_halts io packs scope (initial_world w)"
    by (auto simp: prefix_halts_def lockStep_halts packValidatorStep_halts initial_world_def)
  then show ?thesis
  proof cases
    case unloaded
    then show ?thesis using failed assms(1) by (simp add: buildGateSteps_def)
  next
    case loaded
    show ?thesis
    proof (cases "mergeTestNameMatcher (gi_CompileRegexp io) packs")
      case (Inl m)
      then show ?thesis using failed assms(1) loaded by (simp add: buildGateSteps_def)
    next
      case (Inr matcher)
      then have "prefix_halts io packs scope (initial_world w)" using loaded(3) by simp
      from prefix_halts_run [OF _ assms(2) this] show ?thesis
        using assms(1) buildGateSteps_packs [OF loaded(1,2) Inr] by simp
    qed
  qed
qed

lemma StepTestVerification_name: "s_StepName (StepTestVerificationVerdictFunc t channel) = StepTestVerification"
  by (simp add: StepTestVerificationVerdictFunc_def testDiscoveryCapabilityAbsent_def Let_def split: option.splits prod.splits)

lemma filterViolations_append: "filterViolations sc (vs @ ws) = filterViolations sc vs @ filterViolations sc ws"
  by (simp add: filterViolations_def split: option.splits)

lemma filterViolations_concat: "filterViolations sc (concat vss) = concat (map (filterViolations sc) vss)"
  by (induction vss) (simp_all add: filterViolations_append, simp add: filterViolations_def split: option.splits)

lemma dispatch_packs_outcomes:
  "dr_Violations (fst (dispatch_packs io packs scope w)) =
     concat (map job_violations (job_outcomes (gi_Env io) (gi_packsDir io) (gi_ProjectRoot io) (Some scope) (pack_jobs packs) w))"
  "dr_Errors (fst (dispatch_packs io packs scope w)) =
     concat (map job_errors (job_outcomes (gi_Env io) (gi_packsDir io) (gi_ProjectRoot io) (Some scope) (pack_jobs packs) w))"
  by (simp_all add: dispatch_packs_def dispatchPackEnginesWithEvidence_def run_jobs_outcomes no_dispatch_def)

lemma dispatch_error_None: "dispatch_error d = None \<longleftrightarrow> dr_Errors d = []"
  by (simp add: dispatch_error_def)

text \<open>C14: The engines' step passes exactly when every tool is there and trusted and every engine of every
  dispatched pack ran to a result without a finding in the scope of the run: one engine that could
  not be resolved, started, parsed or accepted is enough to fail it.\<close>

theorem pack_engines_pass_exact:
  "s_Status (fst (packValidatorStep io packs scope gw)) = ''pass'' \<longleftrightarrow>
     provisionEngines (gi_Env io) packs (gw_Outer gw) = None
     \<and> (\<forall>r\<in>set (job_outcomes (gi_Env io) (gi_packsDir io) (gi_ProjectRoot io) (Some scope)
                   (pack_jobs (dispatched_packs io packs)) (gw_Outer gw)).
          \<exists>vs. r = Inr vs \<and> filterViolations (Some scope) vs = [])"
proof -
  define rs where "rs = job_outcomes (gi_Env io) (gi_packsDir io) (gi_ProjectRoot io) (Some scope)
    (pack_jobs (dispatched_packs io packs)) (gw_Outer gw)"
  obtain d w1 where d: "dispatch_packs io (dispatched_packs io packs) scope (gw_Outer gw) = (d, w1)" by fastforce
  have outcomes: "dr_Violations d = concat (map job_violations rs)" "dr_Errors d = concat (map job_errors rs)"
    using dispatch_packs_outcomes [of io "dispatched_packs io packs" scope "gw_Outer gw"] by (simp_all add: d rs_def)
  have errors: "dispatch_error d = None \<longleftrightarrow> (\<forall>r\<in>set rs. \<exists>vs. r = Inr vs)"
    unfolding dispatch_error_None outcomes by (auto simp: job_errors_def split: sum.splits) (metis sum.exhaust)
  have found: "filterViolations (Some scope) (dr_Violations d) = [] \<longleftrightarrow> (\<forall>r\<in>set rs. filterViolations (Some scope) (job_violations r) = [])"
    unfolding outcomes filterViolations_concat by auto
  have "s_Status (fst (packValidatorStep io packs scope gw)) = ''pass'' \<longleftrightarrow>
      provisionEngines (gi_Env io) packs (gw_Outer gw) = None \<and> dispatch_error d = None
      \<and> filterViolations (Some scope) (dr_Violations d) = []"
    by (auto simp: packValidatorStep_def d engines_failed_def engines_done_def stepResultWithNativeSandbox_def config_fail_def
        Let_def StepVerdict_pass split: option.splits)
  also have "\<dots> \<longleftrightarrow> provisionEngines (gi_Env io) packs (gw_Outer gw) = None
      \<and> (\<forall>r\<in>set rs. \<exists>vs. r = Inr vs \<and> filterViolations (Some scope) vs = [])"
    unfolding errors found by (fastforce simp: job_violations_def)
  finally show ?thesis by (simp add: rs_def)
qed


subsection \<open>A red test fails the run\<close>

text \<open>When a due test that a specification mandates is named by a failing verdict of an installed pack's
  test engine, the gate does not exit 0, whatever the other steps report, which findings are waived
  and what the baseline holds.\<close>

lemma red_test_exit:
  assumes "g_steps g = buildGateSteps io scope w0" "g_configErr g = None"
    and "map_of (g_policy g) StepTestVerification = None"
    and "loadInstalledPacks io w0 = Inr packs" "packs \<noteq> []"
    and "mergeTestNameMatcher (gi_CompileRegexp io) packs = Inr matcher"
    and "dispatch_packs io (dispatched_packs io packs) scope w = (d, w1)"
    and "t = gate_test_inputs io scope (mergeSourceClassifier packs) matcher w1"
    and "ExtractMandatedTests (gi_Corpus io w1) (gi_specDir io) = Some mts"
    and "mt \<in> set (if discovery_capable t then resolved_due t (filterDueMandatedTests mts) else filterDueMandatedTests mts)"
    and "discovery_capable t \<Longrightarrow> declaresTestVerdictEngine (dispatched_packs io packs) \<and> test_in_scope (Some scope) mt"
    and "v \<in> set (dr_Violations d)" "v_GateType v = gateTypeTest" "verdictNamesTest (v_Message v) (mt_FuncName mt)"
  shows "fst (snd (Run g elapsed (initial_world w))) \<noteq> 0"
proof (cases "prefix_halts io packs scope (initial_world w)")
  case True
  have "fst (snd (Run g elapsed (initial_world w))) = 2"
    by (rule prefix_halts_run [OF _ assms(2) True]) (simp add: assms(1) buildGateSteps_packs [OF assms(4,5,6)])
  then show ?thesis by simp
next
  case False
  let ?gw = "snd (packValidatorStep io packs scope (initial_world w))"
  let ?verify = "testVerifyStep io scope (mergeSourceClassifier packs) matcher"
  have outer: "gw_Outer (initial_world w) = w" by (simp add: initial_world_def)
  from False have ran: "provisionEngines (gi_Env io) packs w = None" "dispatch_error d = None"
    using packValidatorStep_halts [of io packs scope "initial_world w"] by (auto simp: prefix_halts_def outer assms(7))
  have gw: "gw_Outer ?gw = w1" "gw_Verdicts ?gw = RouteTestVerdictFindings (dr_Violations d)"
    "gw_EngineDeclared ?gw = declaresTestVerdictEngine (dispatched_packs io packs)"
    by (simp_all add: packValidatorStep_def outer ran assms(7))
  obtain results active where loop: "run_loop g elapsed 0 (pack_prefix io packs scope) (initial_world w) ([], [])
      = (results, active, False, ?gw)"
    using run_loop_prefix [of g elapsed io packs scope "initial_world w"] False by auto
  have inputs: "ExtractMandatedTests (ti_corpus t) (ti_specDir t) = Some mts" "ti_scope t = Some scope"
    using assms(8,9) by (simp_all add: gate_test_inputs_def)
  have routed: "v \<in> set (RouteTestVerdictFindings (dr_Violations d))"
    using assms(12,13) by (simp add: RouteTestVerdictFindings_def)
  have verify: "fst (?verify ?gw) = StepTestVerificationVerdictFunc t
      (Some (RouteTestVerdictFindings (dr_Violations d), declaresTestVerdictEngine (dispatched_packs io packs)))"
    by (simp add: testVerifyStep_def gw assms(8))
  have scoped: "declaresTestVerdictEngine (dispatched_packs io packs) \<and> test_in_scope (ti_scope t) mt" if "discovery_capable t"
    using assms(11) [OF that] inputs(2) by simp
  have failed: "s_Status (fst (?verify ?gw)) = ''fail''"
    using failing_test_blocks [OF inputs(1) assms(10) scoped routed assms(14)] unfolding verify by simp
  have name: "s_StepName (fst (?verify ?gw)) = StepTestVerification"
    unfolding verify by (simp add: StepTestVerification_name)
  have steps: "g_steps g = pack_prefix io packs scope @ ?verify # later_steps io packs scope matcher w0"
    using assms(1) buildGateSteps_packs [OF assms(4,5,6)] by simp
  show ?thesis
    by (rule failing_step_exit [where f = ?verify and w = ?gw, OF assms(2) steps loop failed])
      (use assms(3) in \<open>simp_all add: name on_surface_def waivableDimension_def step_name_defs\<close>)
qed

subsection \<open>Findings of sandbox validators\<close>

lemma sandbox_violation_shape [simp]: "v_File (sandbox_violation m r out e) = []" "\<not> v_ProjectWide (sandbox_violation m r out e)"
  by (simp_all add: sandbox_violation_def violation_lit_def zero_violation_def)

lemma sandbox_targets_shape:
  "v \<in> set (fst (fst (sandbox_targets env m packRoot r path ts w))) \<Longrightarrow> v_File v = [] \<and> \<not> v_ProjectWide v"
proof (induction ts arbitrary: w)
  case (Cons t ts)
  obtain out applied e w1 where run: "ev_SandboxRun env path [t] packRoot w = ((out, applied, e), w1)" by (metis prod.exhaust)
  obtain vs rest w2 where tail: "sandbox_targets env m packRoot r path ts w1 = ((vs, rest), w2)" by (metis prod.exhaust)
  from Cons.prems consider "e \<noteq> None" "v = sandbox_violation m r out (the e)" | "v \<in> set vs"
    by (auto simp: run tail split: option.splits)
  then show ?case using Cons.IH [of w1] by cases (simp_all add: tail)
qed simp

lemma runSandboxEngine_shape:
  "fst (fst (runSandboxEngine env m packRoot projectRoot rs w)) = Inr vs \<Longrightarrow> v \<in> set vs \<Longrightarrow> v_File v = [] \<and> \<not> v_ProjectWide v"
proof (induction rs arbitrary: w vs)
  case (Cons r rs)
  from Cons.prems(1) obtain targets found applied w1 rest where
    "sandbox_targets env m packRoot r (validator_path packRoot r) targets w = ((found, applied), w1)"
    "fst (fst (runSandboxEngine env m packRoot projectRoot rs w1)) = Inr rest" "vs = found @ rest"
    by (auto split: if_splits sum.splits prod.splits)
  then show ?case
    using Cons.IH Cons.prems(2) sandbox_targets_shape [of v env m packRoot r "validator_path packRoot r" targets w] by auto
qed simp

text \<open>The findings of a sandbox validator are all lost in a run that is not a full sweep: they name no file
  and are not project-wide, so the scope filter drops them, and the engines' step passes over a
  validator that failed.\<close>

theorem sandbox_findings_lost:
  assumes "fst (fst (runSandboxEngine env m packRoot projectRoot rs w)) = Inr vs" "gs_Mode sc \<noteq> GateScopeModeAll"
  shows "filterViolations (Some sc) vs = []"
  using runSandboxEngine_shape [OF assms(1)] assms(2) by (auto simp: filterViolations_def)

subsection \<open>A concrete run\<close>

text \<open>One installed pack with one test engine, whose run reports that the mandated \<open>TestA\<close> failed.  The pack
  declares no way to discover tests.\<close>

definition demo_test_spec :: EngineSpec where
  "demo_test_spec = \<lparr>es_Command = ''go test'', es_InputMode = ''none'', es_InputFlag = [], es_Convert = [], es_Producer = [],
     es_StdoutArtifact = [], es_ScopeKind = ''project-wide'', es_Category = [], es_GateType = ''test'', es_StrictSarif = False,
     es_PackageScoped = False, es_ProjectTarget = [], es_CrashGuard = False, es_SuccessExitCodes = None,
     es_ExemptFromScopeFilter = False, es_Provision = None, es_FieldContract = None,
     es_Binding = (demo_binding InputModeNone ''go test'')\<lparr>eb_ScopeKind := ScopeKindProjectWide, eb_GateType := GateTypeTest\<rparr>\<rparr>"

definition demo_test_rule :: Rule where
  "demo_test_rule = (probe_rule ''verdict'' ''t'' [])\<lparr>ru_RiskClass := ''correctness''\<rparr>"

definition demo_test_pack :: Manifest where
  "demo_test_pack = demo_manifest\<lparr>mf_Engines := [(''t'', demo_test_spec)],
     mf_Content := \<lparr>co_Ruleset = \<lparr>rl_Version = [], rl_Rules = [demo_test_rule]\<rparr>, co_Scaffolds = [], co_SDK = None\<rparr>\<rparr>"

definition demo_gate_config :: Config where
  "demo_gate_config = empty_config\<lparr>cf_Packs := [(''acme/eng'', [])]\<rparr>"

definition demo_failing_run :: sarif_run where
  "demo_failing_run = \<lparr>rn_Rules = [], rn_Results = [\<lparr>st_RuleID = ''verdict'', st_Level = [], st_Text = ''FAIL: TestA (0s)'',
     st_Locations = [], st_PartialFingerprints = [], st_Suppressions = [], st_Properties = []\<rparr>]\<rparr>"

definition demo_test_env :: "run_error option \<Rightarrow> unit engine_env" where
  "demo_test_env e = demo_engine_env
     \<lparr>ev_RunStdout := (\<lambda>_ _ w. ((''{}'', e), w)),
      ev_Stat := (\<lambda>_ p. if p = ''/w/.backstop/packs/acme/eng'' then Some True else None),
      ev_ReadFile := (\<lambda>_ _. Inr ''{}''), ev_DecodeSarif := (\<lambda>_. Inr [demo_failing_run])\<rparr>"

definition demo_gate_io :: "run_error option \<Rightarrow> unit gate_io" where
  "demo_gate_io e = \<lparr>gi_Env = demo_test_env e, gi_ProjectRoot = ''/w'',
     gi_Root = \<lparr>ro_Path = ''/w'', ro_Declared = [], ro_Configured = False\<rparr>,
     gi_Yaml = \<lparr>yd_Node = (\<lambda>_. Inr (YamlNode DocumentNode [] [] [])), yd_Int = (\<lambda>_. Inr 0), yd_ShortTag = (\<lambda>_. []),
       yd_Strict = (\<lambda>_. Inr demo_gate_config), yd_Doc = (\<lambda>_. Inr (YMap [(''project'', YString ''p'')]))\<rparr>,
     gi_DecodePack = (\<lambda>_. Inr demo_test_pack), gi_DecodeLock = (\<lambda>_. Inl ''no lock''), gi_Missing = (\<lambda>_ _. False),
     gi_Fs = (\<lambda>_ _. None), gi_CompileRegexp = (\<lambda>_. Inl ''none''),
     gi_Corpus = (\<lambda>_. ti_corpus (demo_test_inputs [])), gi_Code = (\<lambda>_. ti_code (demo_test_inputs [])),
     gi_Artifacts = (\<lambda>_. demo_world demo_corpus), gi_SchemaFS = demo_one_file, gi_ProjectTree = (\<lambda>_. FsDir ''w'' []),
     gi_Symlinks = (\<lambda>_ p. p), gi_Cwd = ''/w'', gi_CompileSignature = (\<lambda>_ s w. (Inr s, w))\<rparr>"

definition demo_loaded_pack :: Manifest where
  "demo_loaded_pack = finish_manifest demo_test_pack"

lemma demo_load: "loadInstalledPacks (demo_gate_io e) () = Inr [demo_loaded_pack]"
proof -
  have cfg: "LoadConfigFromPath (gi_Yaml (demo_gate_io e)) (gi_read (demo_gate_io e) ()) (config_path (demo_gate_io e))
      = Inr (demo_gate_config\<lparr>cf_Enforcement := (cf_Enforcement demo_gate_config)\<lparr>en_WaiverWarningDays := 30\<rparr>\<rparr>)" by code_simp
  have parsed: "ParseManifest (\<lambda>_. Inr demo_test_pack) ''{}'' = Inr demo_loaded_pack" by code_simp
  have packed: "load_pack (demo_gate_io e) () ''acme/eng'' = Inr demo_loaded_pack" by code_simp
  have names: "declaredPackNames (demo_gate_config\<lparr>cf_Enforcement := (cf_Enforcement demo_gate_config)\<lparr>en_WaiverWarningDays := 30\<rparr>\<rparr>)
      = [''acme/eng'']" by code_simp
  show ?thesis by (simp add: loadInstalledPacks_def cfg names packed)
qed

definition demo_sweep :: GateScope where
  "demo_sweep = newGateScope ''/w'' GateScopeModeAll [] []"

lemma demo_matcher: "mergeTestNameMatcher (gi_CompileRegexp (demo_gate_io e)) [demo_loaded_pack] = Inr []"
  by (simp add: mergeTestNameMatcher_def NewTestNameMatcher_def demo_loaded_pack_def finish_manifest_def demo_test_pack_def
      demo_manifest_def Let_def)

lemma demo_verdicts:
  "map v_GateType (dr_Violations (fst (dispatch_packs (demo_gate_io None) (dispatched_packs (demo_gate_io None) [demo_loaded_pack]) demo_sweep ())))
     = [gateTypeTest]"
  "map v_Message (dr_Violations (fst (dispatch_packs (demo_gate_io None) (dispatched_packs (demo_gate_io None) [demo_loaded_pack]) demo_sweep ())))
     = [''FAIL: TestA (0s)'']"
  by code_simp+

lemma demo_names_test: "verdictNamesTest ''FAIL: TestA (0s)'' (mt_FuncName demo_mandated)"
proof -
  have "Index ''FAIL: TestA (0s)'' ''TestA'' = Some 6" by simp
  then show ?thesis
    unfolding verdictNamesTest_def by (subst names_from.simps) (simp add: demo_mandated_def isIdentifierByte_def)
qed

theorem broken_packs_exit_2_witness:
  "fst (snd (Run (zero_gate\<lparr>g_steps := buildGateSteps (demo_gate_io (Some (ExecError ''not found''))) demo_sweep ()\<rparr>) (\<lambda>_. 0) (initial_world ()))) = 2"
proof -
  let ?io = "demo_gate_io (Some (ExecError ''not found''))" and ?packs = "[demo_loaded_pack]"
  have "dispatch_error (fst (dispatch_packs ?io (dispatched_packs ?io ?packs) demo_sweep ())) \<noteq> None" by code_simp
  then show ?thesis
    using demo_load by (intro broken_packs_exit_2 [where io = ?io and scope = demo_sweep]) (auto simp: zero_gate_def)
qed

theorem pack_engines_pass_exact_witness:
  "s_Status (fst (packValidatorStep (demo_gate_io None) [demo_loaded_pack] demo_sweep (initial_world ()))) \<noteq> ''pass''"
proof -
  let ?io = "demo_gate_io None"
  let ?rs = "job_outcomes (gi_Env ?io) (gi_packsDir ?io) (gi_ProjectRoot ?io) (Some demo_sweep) (pack_jobs (dispatched_packs ?io [demo_loaded_pack])) ()"
  have "\<not> (\<forall>r\<in>set ?rs. \<exists>vs. r = Inr vs \<and> filterViolations (Some demo_sweep) vs = [])"
  proof
    assume "\<forall>r\<in>set ?rs. \<exists>vs. r = Inr vs \<and> filterViolations (Some demo_sweep) vs = []"
    then have "\<forall>r\<in>set ?rs. job_violations r = []"
      by (auto simp: job_violations_def filterViolations_def demo_sweep_def newGateScope_def Let_def)
    then have none: "concat (map job_violations ?rs) = []" by simp
    from demo_verdicts(1) [unfolded dispatch_packs_outcomes none] show False by simp
  qed
  then show ?thesis
    unfolding pack_engines_pass_exact by (simp add: initial_world_def)
qed

end
