(* ===== verification/Gate_Command.thy ===== *)
theory Gate_Command
  imports Gate_Safety Config
begin

text \<open>
  The \<open>gate\<close> command (\<open>runGateWithSandbox\<close> of \<open>src/cmd/backstop/gate.go\<close>) and the exit code of the
  process (\<open>exitcode.go\<close>, \<open>reportError\<close> of \<open>main.go\<close>): reading the configuration, checking the flags,
  the scope they ask for, the options of the gate, the run, and what is printed, written and
  returned.  Reading a flag, the current instant and the identity of the build are parameters, as is
  the transport that pulls a baseline.
\<close>

subsection \<open>Errors and exit codes\<close>

definition ExitViolations :: int where "ExitViolations = 1"
definition ExitConfigError :: int where "ExitConfigError = 2"

text \<open>An error a command returns: one with an exit code, a message and whether the findings have already
  been shown, or any other.\<close>

datatype command_error =
    ExitCodeError int string bool
  | PlainError string

definition config_error :: "string \<Rightarrow> command_error" where
  "config_error message = ExitCodeError ExitConfigError (''config: '' @ message) False"

definition writeDiagnostic :: "string \<Rightarrow> string" where
  "writeDiagnostic message = ''Error: '' @ message @ nl"

text \<open>What goes to standard error, and the exit code of the process.\<close>

fun reportError :: "command_error \<Rightarrow> string \<times> int" where
  "reportError (ExitCodeError code message explained) =
     (if \<not> explained \<and> message \<noteq> [] then writeDiagnostic message else [], code)"
| "reportError (PlainError message) = (writeDiagnostic message, ExitConfigError)"

definition process_exit :: "command_error option \<Rightarrow> int" where
  "process_exit e = (case e of None \<Rightarrow> 0 | Some err \<Rightarrow> snd (reportError err))"

subsection \<open>The sandbox mode\<close>

definition SandboxModeNative :: string where "SandboxModeNative = ''native''"
definition SandboxModeExternal :: string where "SandboxModeExternal = ''external''"

definition resolvePackSandboxMode :: "bool \<Rightarrow> string \<Rightarrow> string option \<Rightarrow> string + string" where
  "resolvePackSandboxMode flagSet flagValue envValue =
     (let mode = (if flagSet then flagValue else case envValue of Some v \<Rightarrow> v | None \<Rightarrow> ''native'') in
      if mode \<noteq> SandboxModeNative \<and> mode \<noteq> SandboxModeExternal
      then Inl (''--pack-sandbox/BACKSTOP_PACK_SANDBOX must be exactly native or external, got '' @ quote mode)
      else Inr mode)"

subsection \<open>Flags\<close>

text \<open>The flags as they are read: \<open>gf_PackSandbox\<close> holds whether the flag was set, \<open>gf_Errors\<close> the errors of
  reading the four scope and output flags in their order.\<close>

record gate_flags =
  gf_PackSandbox :: "string + bool \<times> string"
  gf_Errors :: "string option list"
  gf_All :: bool
  gf_Files :: "string list"
  gf_Base :: string
  gf_JsonOut :: string
  gf_JsonOutChanged :: bool
  gf_Json :: "string + bool"

definition firstNonNil :: "string option list \<Rightarrow> string option" where
  "firstNonNil errs = first_failure errs"

definition empty_file_flag :: "string list \<Rightarrow> string option" where
  "empty_file_flag files =
     (case find (\<lambda>(i, f). TrimSpace f = []) (enumerate 1 files) of
        None \<Rightarrow> None
      | Some (i, _) \<Rightarrow>
          Some (''--file was given an empty value (occurrence '' @ Itoa (int i) @ ''); pass a path or omit the flag''))"

definition json_out_check :: "(string \<Rightarrow> bool option) \<Rightarrow> gate_flags \<Rightarrow> string option" where
  "json_out_check stat flags =
     (let path = gf_JsonOut flags; parent = Dir path in
      if gf_JsonOutChanged flags \<and> TrimSpace path = []
      then Some ''--json-out was given an empty value; pass a file path or omit the flag''
      else if path = [] then None
      else case stat parent of
             None \<Rightarrow> Some (''--json-out '' @ path @ '': the directory '' @ parent
                           @ '' does not exist; create it or pass a path under an existing directory (the gate never creates one for you)'')
           | Some isDir \<Rightarrow>
               fail_if (\<not> isDir) (''--json-out '' @ path @ '': '' @ parent @ '' is not a directory, so nothing can be written beneath it''))"

definition exclusive_flags :: "gate_flags \<Rightarrow> string option" where
  "exclusive_flags flags =
     first_failure
       [fail_if (gf_All flags \<and> gf_Files flags \<noteq> []) ''--all and --file are mutually exclusive'',
        fail_if (gf_Base flags \<noteq> [] \<and> gf_All flags) ''--base and --all are mutually exclusive'',
        fail_if (gf_Base flags \<noteq> [] \<and> gf_Files flags \<noteq> []) ''--base and --file are mutually exclusive'']"

text \<open>The scope mode the flags ask for, with the files of file mode: trailing arguments add to them and
  are refused elsewhere.\<close>

definition requested_scope :: "gate_flags \<Rightarrow> string list \<Rightarrow> string + GateScopeMode \<times> string list" where
  "requested_scope flags args =
     (if gf_Files flags \<noteq> [] then Inr (GateScopeModeFile, gf_Files flags @ args)
      else if args \<noteq> [] then Inl (''unexpected gate arguments: '' @ Join args '' '')
      else Inr (if gf_All flags then GateScopeModeAll else GateScopeModeDiff, []))"

definition check_flags :: "(string \<Rightarrow> bool option) \<Rightarrow> gate_flags \<Rightarrow> string list \<Rightarrow> string + GateScopeMode \<times> string list" where
  "check_flags stat flags args =
     (case first_failure [firstNonNil (gf_Errors flags), empty_file_flag (gf_Files flags), json_out_check stat flags,
                          exclusive_flags flags] of
        Some e \<Rightarrow> Inl e
      | None \<Rightarrow> requested_scope flags args)"

subsection \<open>What the command reads and writes\<close>

text \<open>\<open>cm_Io\<close> is the environment of the steps under a sandbox mode; its project and artifact root are set
  here.  The walk below the project root is \<open>gi_ProjectTree\<close>, \<open>cm_Lines\<close> the lines of a whole file and
  \<open>cm_Scan\<close> those the scanner yields before an error.\<close>

record 'w command_io =
  cm_Config :: config_env
  cm_SandboxEnv :: "string option"
  cm_NewRunner :: "string \<Rightarrow> string option"
  cm_Io :: "string \<Rightarrow> 'w gate_io"
  cm_RootStat :: "string \<Rightarrow> stat_result"
  cm_Git :: Git
  cm_ParseDuration :: "string \<Rightarrow> string + int"
  cm_ModTime :: "'w \<Rightarrow> string \<Rightarrow> GoTime option"
  cm_DecodeBaseline :: "string \<Rightarrow> string + BaselineArtifact"
  cm_PullBaseline :: "'w \<Rightarrow> string option \<times> 'w"
  cm_Lines :: "'w \<Rightarrow> string \<Rightarrow> string list option"
  cm_Scan :: "'w \<Rightarrow> string \<Rightarrow> string list option"
  cm_Now :: GoTime
  cm_Timestamp :: string
  cm_Version :: string
  cm_FormatJSON :: "GateResult \<Rightarrow> string + string"
  cm_NoColor :: bool
  cm_WriteFile :: "string \<Rightarrow> string \<Rightarrow> 'w \<Rightarrow> string option \<times> 'w"

subsection \<open>The baseline cache\<close>

definition zero_time :: GoTime where "zero_time = \<lparr>instant = 366 * day_ns, zone = UTC\<rparr>"

definition refreshBaselineFromRemote :: "'w command_io \<Rightarrow> ('w \<Rightarrow> string \<Rightarrow> string + string) \<Rightarrow> string \<Rightarrow> 'w \<Rightarrow> (string + BaselineArtifact) \<times> 'w" where
  "refreshBaselineFromRemote c read path w =
     (case cm_PullBaseline c w of
        (Some e, w1) \<Rightarrow> (Inl (''pulling remote baseline: '' @ e), w1)
      | (None, w1) \<Rightarrow>
          (case LoadBaseline (read w1) (cm_DecodeBaseline c) path of
             Inl e \<Rightarrow> (Inl (''refreshed baseline cache is unreadable: '' @ e), w1)
           | Inr a \<Rightarrow> (Inr a, w1)))"

definition baseline_missing_warning :: "string \<Rightarrow> string" where
  "baseline_missing_warning e =
     ''baseline unavailable: no cached baseline found at .backstop/baseline.json and remote baseline fetch failed ('' @ e
     @ ''); run `backstop baseline pull`''"

definition baseline_unreadable_warning :: "string \<Rightarrow> string \<Rightarrow> string" where
  "baseline_unreadable_warning loadErr e =
     ''baseline unavailable: cached baseline at .backstop/baseline.json is unreadable ('' @ loadErr
     @ '') and remote baseline fetch failed ('' @ e @ ''); run `backstop baseline pull`''"

text \<open>The artifact, the warning and the instant of the cache; the pull may have written the cache.\<close>

definition resolveBaselineCache ::
  "'w command_io \<Rightarrow> ('w \<Rightarrow> string \<Rightarrow> string + string) \<Rightarrow> string \<Rightarrow> int \<Rightarrow> 'w
   \<Rightarrow> (BaselineArtifact option \<times> string \<times> GoTime) \<times> 'w" where
  "resolveBaselineCache c read path ttl w =
     (case cm_ModTime c w path of
        None \<Rightarrow>
          (case refreshBaselineFromRemote c read path w of
             (Inr a, w1) \<Rightarrow> ((Some a, ''baseline cache fetched from remote main baseline artifact'', cm_Now c), w1)
           | (Inl e, w1) \<Rightarrow> ((None, baseline_missing_warning e, zero_time), w1))
      | Some modified \<Rightarrow>
     (case LoadBaseline (read w) (cm_DecodeBaseline c) path of
        Inl loadErr \<Rightarrow>
          (case refreshBaselineFromRemote c read path w of
             (Inr a, w1) \<Rightarrow> ((Some a, ''baseline cache was unreadable and refreshed from remote main baseline artifact'', cm_Now c), w1)
           | (Inl e, w1) \<Rightarrow> ((None, baseline_unreadable_warning loadErr e, modified), w1))
      | Inr baseline \<Rightarrow>
          if Sub (cm_Now c) modified \<le> ttl then ((Some baseline, [], modified), w)
          else case refreshBaselineFromRemote c read path w of
                 (Inr a, w1) \<Rightarrow> ((Some a, ''baseline cache refreshed from remote main baseline artifact'', cm_Now c), w1)
               | (Inl e, w1) \<Rightarrow>
                   ((Some baseline, ''baseline refresh failed; using stale cached baseline from .backstop/baseline.json ('' @ e @ '')'',
                     modified), w1)))"

subsection \<open>Seeding\<close>

definition changedFilesAgainstOriginMain :: "Git \<Rightarrow> string \<Rightarrow> string + string list" where
  "changedFilesAgainstOriginMain git projectRoot =
     (case git projectRoot [''merge-base'', ''HEAD'', ''origin/main''] of
        Inl e \<Rightarrow> Inl (''resolving merge-base against origin/main: '' @ e)
      | Inr out \<Rightarrow>
          if TrimSpace out = [] then Inl ''empty merge-base''
          else case git projectRoot [''diff'', ''--name-only'', TrimSpace out] of
                 Inl e \<Rightarrow> Inl (''listing changed files against merge-base: '' @ e)
               | Inr files \<Rightarrow> Inr (filter (\<lambda>l. l \<noteq> []) (map TrimSpace (Split (TrimSpace files) (CHR 0x0A)))))"

definition rule_set_file :: "string \<Rightarrow> bool" where
  "rule_set_file f \<longleftrightarrow> f = ''backstop.yml'' \<or> f = ''backstop.lock'' \<or> HasPrefix f ''.backstop/packs/'' \<or> HasPrefix f ''.backstop/rules/''"

definition ruleSetChangeSeedingContext :: "Git \<Rightarrow> string \<Rightarrow> GateScope option \<Rightarrow> bool \<times> string list" where
  "ruleSetChangeSeedingContext git projectRoot scope =
     (case scope of
        None \<Rightarrow> (False, [])
      | Some sc \<Rightarrow>
          if gs_Mode sc \<noteq> GateScopeModeAll then (False, [])
          else case changedFilesAgainstOriginMain git projectRoot of
                 Inl _ \<Rightarrow> (False, [])
               | Inr changed \<Rightarrow> (list_ex rule_set_file changed, changed))"

definition gitSHA :: "Git \<Rightarrow> string \<Rightarrow> string" where
  "gitSHA git projectRoot = (case git projectRoot [''rev-parse'', ''HEAD''] of Inl _ \<Rightarrow> [] | Inr out \<Rightarrow> TrimSpace out)"

definition terminalExclusionNotice :: "corpus \<Rightarrow> string \<Rightarrow> string" where
  "terminalExclusionNotice corpus specDir =
     (case CountTerminalSpecs corpus specDir of
        None \<Rightarrow> []
      | Some n \<Rightarrow>
          if n = 0 then []
          else [CHR 0xE2, CHR 0x84, CHR 0xB9] @ '' '' @ Itoa (int n) @ '' '' @ ''retired artifact'' @ (if n \<noteq> 1 then ''s'' else [])
               @ '' excluded from enforcement (terminal status)'')"

subsection \<open>Before the run\<close>

fun root_message :: "root_error \<Rightarrow> string" where
  "root_message (RootMissing declared path) =
     ''configured artifact_root '' @ quote declared @ '' does not exist at '' @ path @ '' '' @ message_dash @ '' nothing was scanned''"
| "root_message (RootInvalid declared reason) = ''invalid artifact_root '' @ quote declared @ '': '' @ reason"

definition command_sandbox :: "'w command_io \<Rightarrow> gate_flags \<Rightarrow> string + string" where
  "command_sandbox c flags =
     (case gf_PackSandbox flags of
        Inl e \<Rightarrow> Inl e
      | Inr (changed, val) \<Rightarrow>
     (case resolvePackSandboxMode changed val (cm_SandboxEnv c) of
        Inl e \<Rightarrow> Inl e
      | Inr mode \<Rightarrow> (case cm_NewRunner c mode of Some e \<Rightarrow> Inl e | None \<Rightarrow> Inr mode)))"

text \<open>The configuration, the project root and the artifact root.  None: the search for the configuration
  does not return (which it always does).\<close>

definition locate_project :: "'w command_io \<Rightarrow> yaml_decoder \<Rightarrow> (string \<Rightarrow> string + string) \<Rightarrow> (string + Config \<times> string \<times> Root) option" where
  "locate_project c yd read =
     (case LoadConfig (cm_Config c) yd read of
        None \<Rightarrow> None
      | Some (Inl e) \<Rightarrow> Some (Inl e)
      | Some (Inr cfg) \<Rightarrow>
     (case DiscoverConfigPath (cm_Config c) of
        None \<Rightarrow> None
      | Some discovered \<Rightarrow>
          (let projectRoot = (case discovered of Inl _ \<Rightarrow> ''.'' | Inr p \<Rightarrow> Dir p) in
           case ResolveRoot (ce_Getwd (cm_Config c)) (cm_RootStat c) projectRoot (cf_ArtifactRoot cfg) of
             Inl e \<Rightarrow> Some (Inl (root_message e))
           | Inr rt \<Rightarrow> Some (Inr (cfg, projectRoot, rt)))))"

record prepared_gate =
  pg_Sandbox :: string
  pg_Config :: Config
  pg_ProjectRoot :: string
  pg_Root :: Root
  pg_Scope :: GateScope
  pg_TTL :: int

definition command_scope :: "'w command_io \<Rightarrow> 'w gate_io \<Rightarrow> gate_flags \<Rightarrow> string list \<Rightarrow> string \<Rightarrow> 'w \<Rightarrow> string + GateScope" where
  "command_scope c io flags args projectRoot w =
     (case check_flags (ev_Stat (gi_Env io) w) flags args of
        Inl e \<Rightarrow> Inl e
      | Inr (mode, files) \<Rightarrow> ComputeGateScopeWithBase (cm_Git c) (gi_ProjectTree io w) projectRoot mode files (gf_Base flags))"

definition prepare_gate :: "'w command_io \<Rightarrow> gate_flags \<Rightarrow> string list \<Rightarrow> 'w \<Rightarrow> (string + prepared_gate) option" where
  "prepare_gate c flags args w =
     (case command_sandbox c flags of
        Inl e \<Rightarrow> Some (Inl e)
      | Inr sandbox \<Rightarrow>
     (case locate_project c (gi_Yaml (cm_Io c sandbox)) (gi_read (cm_Io c sandbox) w) of
        None \<Rightarrow> None
      | Some (Inl e) \<Rightarrow> Some (Inl e)
      | Some (Inr (cfg, projectRoot, rt)) \<Rightarrow>
     (case command_scope c (cm_Io c sandbox) flags args projectRoot w of
        Inl e \<Rightarrow> Some (Inl e)
      | Inr scope \<Rightarrow>
     (case BaselineTTLDuration (cm_ParseDuration c) (Some cfg) of
        Inl e \<Rightarrow> Some (Inl e)
      | Inr ttl \<Rightarrow>
          Some (Inr \<lparr>pg_Sandbox = sandbox, pg_Config = cfg, pg_ProjectRoot = projectRoot, pg_Root = rt,
                     pg_Scope = scope, pg_TTL = ttl\<rparr>)))))"

definition prepared_io :: "'w command_io \<Rightarrow> prepared_gate \<Rightarrow> 'w gate_io" where
  "prepared_io c p = (cm_Io c (pg_Sandbox p))\<lparr>gi_ProjectRoot := pg_ProjectRoot p, gi_Root := pg_Root p\<rparr>"

subsection \<open>The gate and its run\<close>

definition baseline_path :: "prepared_gate \<Rightarrow> string" where
  "baseline_path p = JoinPath [pg_ProjectRoot p, ''.backstop'', ''baseline.json'']"

definition policy_option :: "Config \<Rightarrow> 'a GateOption list" where
  "policy_option cfg = (let policy = gatePolicyFromConfig (Some cfg) in if policy \<noteq> [] then [WithPolicy policy] else [])"

text \<open>The steps are built in the world \<open>w\<close> before the baseline is refreshed, everything after in the world
  \<open>w1\<close> after it.\<close>

definition gate_options ::
  "'w command_io \<Rightarrow> prepared_gate \<Rightarrow> BaselineArtifact option \<times> string \<times> GoTime \<Rightarrow> 'w \<Rightarrow> 'w \<Rightarrow> 'w gate_world GateOption list" where
  "gate_options c p cache w w1 =
     (case cache of (baseline, warning, modified) \<Rightarrow>
      let io = prepared_io c p; projectRoot = pg_ProjectRoot p; scope = pg_Scope p;
          seeding = ruleSetChangeSeedingContext (cm_Git c) projectRoot (Some scope)
      in [WithSteps (buildGateSteps io scope w), WithScope (Some scope),
          WithBaseline baseline, WithBaselineWarning warning, WithBaselineCacheMeta (baseline_path p) (pg_TTL p) modified,
          WithWaiver (Some (buildWaiverLineReader (cm_Scan c w1) projectRoot)) (Some (gate_waiver_policy (loadInstalledPacks io w1))) (cm_Now c),
          WithUnboundWaiverScan
            (harvestProjectWaiverTokens (ComputeGateScope (cm_Git c) (gi_ProjectTree io w1) projectRoot GateScopeModeAll [])
               (abs_path (gi_Env io) projectRoot) (pg_Root p) (cm_Lines c w1) projectRoot)
            (lockedPackNamespaces (ReadLockfile (gi_read io w1) (gi_DecodeLock io) (JoinPath [projectRoot, ''backstop.lock'']))),
          WithRuleSetChangeSeedingAllowed (fst seeding), WithRuleSetChangeFiles (snd seeding)]
         @ policy_option (pg_Config p))"

definition assemble_gate :: "'w command_io \<Rightarrow> prepared_gate \<Rightarrow> 'w \<Rightarrow> 'w gate_world Gate \<times> 'w" where
  "assemble_gate c p w =
     (case resolveBaselineCache c (gi_read (prepared_io c p)) (baseline_path p) (pg_TTL p) w of (cache, w1) \<Rightarrow>
        (New (gate_options c p cache w w1), w1))"

definition stamp_result :: "'w command_io \<Rightarrow> prepared_gate \<Rightarrow> GateResult \<Rightarrow> GateResult" where
  "stamp_result c p r =
     (let stamped = r\<lparr>gr_PackSandboxMode := pg_Sandbox p, gr_GitSHA := gitSHA (cm_Git c) (pg_ProjectRoot p),
            gr_GeneratedAt := cm_Timestamp c, gr_BinaryVersion := cm_Version c, gr_ArtifactRoot := ro_Path (pg_Root p),
            gr_ArtifactRootConfigured := ro_Configured (pg_Root p)\<rparr>
      in case ComputeCohort (gi_SchemaFS (prepared_io c p)) of
           Inl _ \<Rightarrow> stamped
         | Inr cohort \<Rightarrow> stamped\<lparr>gr_SchemaCohort := co_ID cohort, gr_SchemaIdentities := schemaIdentityList cohort\<rparr>)"

subsection \<open>After the run\<close>

definition verdict_error :: "int \<Rightarrow> command_error option" where
  "verdict_error code =
     (if code \<noteq> 0 then Some (ExitCodeError code (''gate: exit code '' @ Itoa code) (code = ExitViolations)) else None)"

definition human_report :: "'w command_io \<Rightarrow> prepared_gate \<Rightarrow> GateResult \<Rightarrow> 'w \<Rightarrow> string" where
  "human_report c p r w =
     (let notice = terminalExclusionNotice (gi_Corpus (prepared_io c p) w) (RootDir (pg_Root p) LKindSpec)
      in FormatHuman r (cm_NoColor c) @ (if notice \<noteq> [] then notice @ nl else []))"

text \<open>What the command returns: its error, what it printed, and the world.\<close>

definition report_gate ::
  "'w command_io \<Rightarrow> gate_flags \<Rightarrow> prepared_gate \<Rightarrow> GateResult \<Rightarrow> int \<Rightarrow> 'w \<Rightarrow> command_error option \<times> string \<times> 'w" where
  "report_gate c flags p r code w =
     (case gf_Json flags of
        Inl e \<Rightarrow> (Some (PlainError (''reading --json flag: '' @ e)), [], w)
      | Inr json \<Rightarrow>
     (case (if json \<or> gf_JsonOut flags \<noteq> [] then cm_FormatJSON c r else Inr []) of
        Inl e \<Rightarrow> (Some (PlainError (''formatting gate JSON output: '' @ e)), [], w)
      | Inr json_text \<Rightarrow>
          (let out = (if json then json_text @ nl else human_report c p r w) in
           if gf_JsonOut flags = [] then (verdict_error code, out, w)
           else case cm_WriteFile c (gf_JsonOut flags) (json_text @ nl) w of
                  (Some e, w1) \<Rightarrow> (Some (config_error (''writing --json-out '' @ gf_JsonOut flags @ '': '' @ e)), out, w1)
                | (None, w1) \<Rightarrow> (verdict_error code, out, w1))))"

definition runGateWithSandbox ::
  "'w command_io \<Rightarrow> (nat \<Rightarrow> int) \<Rightarrow> gate_flags \<Rightarrow> string list \<Rightarrow> 'w \<Rightarrow> (command_error option \<times> string \<times> 'w) option" where
  "runGateWithSandbox c elapsed flags args w =
     map_option (\<lambda>prepared. case prepared of
        Inl e \<Rightarrow> (Some (config_error e), [], w)
      | Inr p \<Rightarrow>
          (case assemble_gate c p w of (g, w1) \<Rightarrow>
          (case Run g elapsed (initial_world w1) of (r, code, gw) \<Rightarrow>
             report_gate c flags p (stamp_result c p r) code (gw_Outer gw))))
       (prepare_gate c flags args w)"

definition gate_exit :: "'w command_io \<Rightarrow> (nat \<Rightarrow> int) \<Rightarrow> gate_flags \<Rightarrow> string list \<Rightarrow> 'w \<Rightarrow> int option" where
  "gate_exit c elapsed flags args w = map_option (\<lambda>(e, out, w'). process_exit e) (runGateWithSandbox c elapsed flags args w)"

subsection \<open>The gate the command runs\<close>

lemma assemble_gate_fields:
  assumes "assemble_gate c p w = (g, w1)"
  shows "g_steps g = buildGateSteps (prepared_io c p) (pg_Scope p) w" "g_configErr g = None"
    "g_policy g = gatePolicyFromConfig (Some (pg_Config p))" "g_scope g = Some (pg_Scope p)"
proof -
  obtain baseline warning modified where g: "g = New (gate_options c p (baseline, warning, modified) w w1)"
    using assms by (cases "resolveBaselineCache c (gi_read (prepared_io c p)) (baseline_path p) (pg_TTL p) w")
      (auto simp: assemble_gate_def)
  show "g_steps g = buildGateSteps (prepared_io c p) (pg_Scope p) w" "g_configErr g = None"
    "g_policy g = gatePolicyFromConfig (Some (pg_Config p))" "g_scope g = Some (pg_Scope p)"
    by (simp_all add: g New_def gate_options_def policy_option_def Let_def zero_gate_def WithSteps_def WithScope_def WithBaseline_def
        WithBaselineWarning_def WithBaselineCacheMeta_def WithWaiver_def WithUnboundWaiverScan_def WithRuleSetChangeSeedingAllowed_def
        WithRuleSetChangeFiles_def WithPolicy_def)
qed

lemma report_gate_exit:
  "process_exit (fst (report_gate c flags p r code w)) \<in> {code, ExitConfigError}"
  by (auto simp: report_gate_def process_exit_def verdict_error_def config_error_def Let_def split: sum.splits prod.splits option.splits)

lemma gate_exit_run:
  assumes "prepare_gate c flags args w = Some (Inr p)" "assemble_gate c p w = (g, w1)"
    and "gate_exit c elapsed flags args w = Some 0"
  shows "fst (snd (Run g elapsed (initial_world w1))) = 0"
proof -
  obtain r code gw where run: "Run g elapsed (initial_world w1) = (r, code, gw)" by (metis prod.exhaust)
  have "process_exit (fst (report_gate c flags p (stamp_result c p r) code (gw_Outer gw))) = 0"
    using assms(3) by (simp add: gate_exit_def runGateWithSandbox_def assms(1,2) run case_prod_beta)
  then show ?thesis
    using report_gate_exit [of c flags p "stamp_result c p r" code "gw_Outer gw"] by (auto simp: run ExitConfigError_def)
qed

subsection \<open>The scope asked for\<close>

lemma check_flags_Inr:
  assumes "check_flags stat flags args = Inr (mode, files)"
  shows "\<not> (gf_All flags \<and> gf_Files flags \<noteq> [])" "\<not> (gf_Base flags \<noteq> [] \<and> (gf_All flags \<or> gf_Files flags \<noteq> []))"
    "empty_file_flag (gf_Files flags) = None" "requested_scope flags args = Inr (mode, files)"
  using assms by (auto simp: check_flags_def first_failure_None exclusive_flags_def fail_if_def split: option.splits if_splits)

lemma empty_file_flag_None: "empty_file_flag files = None \<longleftrightarrow> (\<forall>f\<in>set files. TrimSpace f \<noteq> [])"
proof -
  have "empty_file_flag files = None \<longleftrightarrow> (\<forall>x\<in>set (enumerate 1 files). TrimSpace (snd x) \<noteq> [])"
  proof -
    have "empty_file_flag files = None \<longleftrightarrow> find (\<lambda>(i, f). TrimSpace f = []) (enumerate 1 files) = None"
      by (simp add: empty_file_flag_def split: option.splits prod.splits)
    then show ?thesis by (auto simp: find_None_iff)
  qed
  also have "\<dots> \<longleftrightarrow> (\<forall>f\<in>snd ` set (enumerate 1 files). TrimSpace f \<noteq> [])" by blast
  also have "snd ` set (enumerate 1 files) = set files" by (simp flip: set_map)
  finally show ?thesis .
qed

lemma newGateScope_mode [simp]: "gs_Mode (newGateScope projectRoot mode files warnings) = mode"
  by (simp add: newGateScope_def Let_def)


text \<open>A blank trailing argument is not refused but dropped.\<close>

lemma blank_argument_dropped: "requested_scope \<lparr>gf_PackSandbox = Inr (False, []), gf_Errors = [], gf_All = False, gf_Files = [''a''],
    gf_Base = [], gf_JsonOut = [], gf_JsonOutChanged = False, gf_Json = Inr False\<rparr> [[]] = Inr (GateScopeModeFile, [''a'', []])
  \<and> gs_Files (newGateScope ''/w'' GateScopeModeFile [''a'', []] []) = [''a'']"
  by code_simp

subsection \<open>A red test fails the command\<close>

lemma policy_lookup:
  "map_of (gatePolicyFromConfig (Some cfg)) k = map_option dimensionPolicyFromConfig (map_of (en_Policy (cf_Enforcement cfg)) k)"
proof -
  have "map_of (map (\<lambda>(k, q). (k, dimensionPolicyFromConfig q)) ps) k = map_option dimensionPolicyFromConfig (map_of ps k)"
    for ps :: "(string \<times> cfgDimensionPolicy) list"
    by (induction ps) auto
  then show ?thesis by (simp add: gatePolicyFromConfig_def)
qed


definition demo_command :: "unit command_io" where
  "demo_command =
     \<lparr>cm_Config = \<lparr>ce_BACKSTOP_CONFIG = ''/w/backstop.yml'', ce_Getwd = Inr ''/w'', ce_Stat = (\<lambda>_. Inr False)\<rparr>,
      cm_SandboxEnv = None, cm_NewRunner = (\<lambda>_. None), cm_Io = (\<lambda>_. demo_gate_io None), cm_RootStat = (\<lambda>_. StatDir),
      cm_Git = (\<lambda>_ _. Inl ''not a git repository''), cm_ParseDuration = (\<lambda>_. Inl ''none''), cm_ModTime = (\<lambda>_ _. None),
      cm_DecodeBaseline = (\<lambda>_. Inl ''none''), cm_PullBaseline = (\<lambda>w. (Some ''offline'', w)), cm_Lines = (\<lambda>_ _. None),
      cm_Scan = (\<lambda>_ _. None), cm_Now = zero_time, cm_Timestamp = [], cm_Version = [], cm_FormatJSON = (\<lambda>_. Inr ''{}''),
      cm_NoColor = True, cm_WriteFile = (\<lambda>_ _ w. (None, w))\<rparr>"

definition demo_flags :: "bool \<Rightarrow> string list \<Rightarrow> gate_flags" where
  "demo_flags allFlag files = \<lparr>gf_PackSandbox = Inr (False, []), gf_Errors = [], gf_All = allFlag, gf_Files = files, gf_Base = [],
     gf_JsonOut = [], gf_JsonOutChanged = False, gf_Json = Inr False\<rparr>"

definition demo_prepared :: "GateScope \<Rightarrow> prepared_gate" where
  "demo_prepared scope = \<lparr>pg_Sandbox = ''native'',
     pg_Config = demo_gate_config\<lparr>cf_Enforcement := (cf_Enforcement demo_gate_config)\<lparr>en_WaiverWarningDays := 30\<rparr>\<rparr>,
     pg_ProjectRoot = ''/w'', pg_Root = \<lparr>ro_Path = ''/w'', ro_Declared = [], ro_Configured = False\<rparr>, pg_Scope = scope,
     pg_TTL = defaultBaselineTTL\<rparr>"

lemma demo_prepare: "prepare_gate demo_command (demo_flags True []) [] () = Some (Inr (demo_prepared demo_sweep))"
  by code_simp



end
