(* ===== verification/Pack_Commands.thy ===== *)
theory Pack_Commands
  imports Pack_Project
begin

text \<open>
  The four lifecycle commands (\<open>AddCommand.Run\<close>, \<open>InstallCommand.Run\<close>, \<open>UpdateCommand.Run\<close> and
  \<open>UpgradeCommand.Run\<close> of \<open>pkg/pack/distribution/command.go\<close>, \<open>materializeLocalPack\<close> of
  \<open>install.go\<close>).  A command takes the project to its result and the project it leaves behind.
  Cloning, the validator, the scanner and the remediation generator are the parameters of
  \<open>tools\<close>.  An installed pack is the tree at \<open>.backstop/packs/<name>\<close>.
\<close>

subsection \<open>Validation on a scratch copy\<close>

text \<open>\<open>strings.ReplaceAll\<close> for a non-empty old text.\<close>

function ReplaceAll :: "string \<Rightarrow> string \<Rightarrow> string \<Rightarrow> string" where
  "ReplaceAll s old new =
     (if s = [] \<or> old = [] then s
      else if prefix old s then new @ ReplaceAll (drop (length old) s) old new
      else hd s # ReplaceAll (tl s) old new)"
  by pat_completeness auto
termination
  by (relation "measure (\<lambda>(s, _, _). length s)") auto

definition scrubScratchPath :: "string \<Rightarrow> string \<Rightarrow> string" where
  "scrubScratchPath message scratch =
     (if scratch = [] then message else ReplaceAll message scratch ''the validation copy'')"

text \<open>The pack is copied to a fresh directory, which the validator may change; the copy is discarded.\<close>

definition RunValidationOnScratchCopy :: "'v tools \<Rightarrow> string \<Rightarrow> PackNode \<Rightarrow> string \<Rightarrow> string option" where
  "RunValidationOnScratchCopy tools scratch packTree sourceLabel =
     (case copyDirRecursive packTree None of
        (Some err, _) \<Rightarrow> Some (''preparing validation copy of '' @ sourceLabel @ '': '' @ err)
      | (None, copy) \<Rightarrow>
          let t = (case copy of Some c \<Rightarrow> c | None \<Rightarrow> PDir [] []) in
          (case t_check tools t of
             Some err \<Rightarrow> Some (''pack check for '' @ sourceLabel @ '' failed: '' @ scrubScratchPath err scratch)
           | None \<Rightarrow>
               (case t_test tools t of
                  Some err \<Rightarrow> Some (''pack test for '' @ sourceLabel @ '' failed: '' @ scrubScratchPath err scratch)
                | None \<Rightarrow> None)))"

subsection \<open>Adding\<close>

record AddResult =
  ad_PackName :: string
  ad_Version :: string
  ad_ContentHash :: string
  ad_InstalledPath :: string
  ad_AlreadyCurrent :: bool
  ad_SourceCoordinate :: string
  ad_Warnings :: "string list"

text \<open>What the reference resolves to: the install identity, the tree, and what the lock will record.\<close>

record add_source =
  as_packName :: string
  as_coordinate :: string
  as_version :: string
  as_packDir :: string
  as_tree :: PackNode
  as_gitRef :: "string option"
  as_relPath :: string
  as_sourceType :: string
  as_warnings :: "string list"

definition resolveLocalPackSource :: "'v tools \<Rightarrow> string \<Rightarrow> string \<Rightarrow> string + add_source" where
  "resolveLocalPackSource tools packRef projectDir =
     (let abs = (\<lambda>path. if IsAbs path then Clean path else JoinPath [t_cwd tools, path]);
          absPath = abs packRef
      in case t_fs tools absPath of
           None \<Rightarrow> Inl (''local path '' @ absPath @ '' does not contain pack.yml'')
         | Some t \<Rightarrow>
             if find_node ''pack.yml'' (dir_entries (Some t)) = None then
               Inl (''local path '' @ absPath @ '' does not contain pack.yml'')
             else (case readPackManifest tools t of
                Inl err \<Rightarrow> Inl (''reading local pack manifest: '' @ err)
              | Inr _ \<Rightarrow>
                  (case ReadManifestIdentity (\<lambda>_. pack_yml t) (t_yamlFields tools) absPath of
                     Inl err \<Rightarrow> Inl (pack_error_text (IdentityError absPath ''local'' ''name'' (manifest_error_text err)))
                   | Inr (packName, _) \<Rightarrow>
                       (case ValidatePackName packName of
                          Some err \<Rightarrow> Inl (pack_error_text (IdentityError absPath ''local'' ''name'' err))
                        | None \<Rightarrow>
                            (case Rel (abs projectDir) absPath of
                               None \<Rightarrow> Inl (''computing relative local pack path: Rel: cannot make '' @ absPath @ '' relative to '' @ abs projectDir)
                             | Some rel \<Rightarrow>
                                 Inr \<lparr>as_packName = packName, as_coordinate = [], as_version = [], as_packDir = absPath, as_tree = t,
                                      as_gitRef = None, as_relPath = rel, as_sourceType = ''local'', as_warnings = []\<rparr>)))))"

definition resolve_git_source :: "'v tools \<Rightarrow> string \<Rightarrow> string \<Rightarrow> string + add_source" where
  "resolve_git_source tools packRef overrideVersion =
     (case ResolveEffectiveVersion packRef overrideVersion of
        Inl err \<Rightarrow> Inl (''pack add '' @ packRef @ '': '' @ pack_error_text err)
      | Inr (coordinate, effectiveVersion) \<Rightarrow>
          (case t_clone tools (resolveGitURL coordinate) (versionTagPrefix @ effectiveVersion) of
             Inl err \<Rightarrow> Inl (''cloning pack '' @ coordinate @ '': '' @ err)
           | Inr t \<Rightarrow>
               (case ValidateRemoteIdentity (\<lambda>_. pack_yml t) (t_yamlFields tools) coordinate effectiveVersion [] of
                  Inl err \<Rightarrow> Inl (''pack add '' @ packRef @ '': '' @ pack_error_text err)
                | Inr ident \<Rightarrow>
                    Inr \<lparr>as_packName = ri_InstallName ident, as_coordinate = coordinate, as_version = ri_EffectiveVersion ident,
                         as_packDir = [], as_tree = t, as_gitRef = Some (ri_Tag ident), as_relPath = [], as_sourceType = ''git'',
                         as_warnings = (if ri_Diverged ident then
                            [''pack '' @ coordinate @ '' declares the name '' @ ri_ManifestName ident
                             @ '' in its manifest; installing it as '' @ ri_InstallName ident @ '' at ''
                             @ JoinPath [''.backstop'', ''packs'', ri_InstallName ident]] else [])\<rparr>)))"

definition is_current :: "'v project \<Rightarrow> string \<Rightarrow> bool" where
  "is_current p packName =
     (dir_entries (pj_installed p packName) \<noteq> []
      \<and> (case pj_lock p of Holds lf \<Rightarrow> map_has (lf_Packs lf) packName | _ \<Rightarrow> False))"

text \<open>The undo of \<open>add\<close>: the installed tree is removed and the three snapshotted files are restored;
  the configuration files are not among them.\<close>

definition rollback :: "'v project \<Rightarrow> string \<Rightarrow> 'v project \<Rightarrow> 'v project" where
  "rollback snap packName p =
     p\<lparr>pj_installed := (pj_installed p)(packName := None), pj_yml := (if pj_yml snap = Missing then pj_yml p else pj_yml snap),
       pj_lock := pj_lock snap, pj_prov := pj_prov snap\<rparr>"

definition add_lock_entry :: "'v tools \<Rightarrow> add_source \<Rightarrow> string \<Rightarrow> LockEntry" where
  "add_lock_entry tools src contentHash =
     \<lparr>le_Name = as_packName src, le_Version = as_version src, le_GitRef = as_gitRef src, le_ContentHash = contentHash,
      le_SourceType = as_sourceType src, le_InstallDate = t_now tools, le_LocalPath = as_relPath src,
      le_SourceCoordinate = as_coordinate src\<rparr>"

text \<open>From the merge of the tool configuration to the lock: every failure rolls back.\<close>

definition add_record ::
  "'v tools \<Rightarrow> string \<Rightarrow> add_source \<Rightarrow> string \<Rightarrow> 'v project \<Rightarrow> string option \<times> 'v project" where
  "add_record tools projectDir src contentHash p =
     (let packName = as_packName src; undo = rollback p packName in
      case ReadProvenance p of
        Inl err \<Rightarrow> (Some err, undo p)
      | Inr prov \<Rightarrow>
          (case MergeToolConfig tools (as_tree src) projectDir p of
             (Inl err, p1) \<Rightarrow> (Some (''merging tool_config: '' @ err), undo p1)
           | (Inr merged, p1) \<Rightarrow>
               if mr_Conflicts merged \<noteq> [] then
                 (Some (''tool_config conflicts:'' @ [CHR 0x0A] @ describeConflicts (mr_Conflicts merged)), undo p1)
               else
                 (case WriteProvenance tools p1 (prov @ map (\<lambda>m. m\<lparr>pv_SourcePack := packName\<rparr>) (mr_Merged merged)) of
                    (Some err, p2) \<Rightarrow> (Some err, undo p2)
                  | (None, p2) \<Rightarrow>
                      (case updateBackstopYml tools p2 packName (as_version src) (as_sourceType src = ''local'') of
                         (Some err, p3) \<Rightarrow> (Some err, undo p3)
                       | (None, p3) \<Rightarrow>
                           (case write_lock tools p3
                                   ((lock_or_fresh p3)\<lparr>lf_Packs := map_set packName (add_lock_entry tools src contentHash)
                                      (lf_Packs (lock_or_fresh p3))\<rparr>) of
                              (Some err, p4) \<Rightarrow> (Some err, undo p4)
                            | (None, p4) \<Rightarrow> (None, p4))))))"

definition add_install ::
  "'v tools \<Rightarrow> string \<Rightarrow> string \<Rightarrow> string \<Rightarrow> add_source \<Rightarrow> 'v project \<Rightarrow> (string + AddResult) \<times> 'v project" where
  "add_install tools scratch projectDir packRef src p =
     (let packName = as_packName src;
          label = (if as_sourceType src = ''local'' then as_packDir src
                   else as_coordinate src @ '' at tag '' @ versionTagPrefix @ as_version src)
      in case RunValidationOnScratchCopy tools scratch (as_tree src) label of
           Some err \<Rightarrow> (Inl (''pack add '' @ packRef @ '': '' @ err), p)
         | None \<Rightarrow>
             (case t_io tools (JoinPath [projectDir, ''.backstop/packs'']) of
                Some err \<Rightarrow> (Inl (''creating packs dir: '' @ err), p)
              | None \<Rightarrow>
             (case copyDirRecursive (as_tree src) (pj_installed p packName) of
                (Some err, t) \<Rightarrow> (Inl (''copying pack: '' @ err), p\<lparr>pj_installed := (pj_installed p)(packName := t)\<rparr>)
              | (None, t) \<Rightarrow>
                  (case (case t of Some tree \<Rightarrow> tree_hash tree | None \<Rightarrow> Inl ''no such file or directory'') of
                     Inl err \<Rightarrow> (Inl (''computing content hash: '' @ err), p\<lparr>pj_installed := (pj_installed p)(packName := None)\<rparr>)
                   | Inr contentHash \<Rightarrow>
                       let p0 = p\<lparr>pj_installed := (pj_installed p)(packName := t)\<rparr> in
                       (case t_io tools (JoinPath [projectDir, ''.backstop'']) of
                          Some err \<Rightarrow> (Inl (''creating .backstop dir: '' @ err), p0)
                        | None \<Rightarrow>
                       (case add_record tools projectDir src contentHash p0 of
                          (Some err, p1) \<Rightarrow> (Inl err, p1)
                        | (None, p1) \<Rightarrow>
                            (case ensureGitignore tools p1 of
                               (Some err, p2) \<Rightarrow> (Inl (''updating .gitignore: '' @ err), p2)
                             | (None, p2) \<Rightarrow>
                                 (Inr \<lparr>ad_PackName = packName, ad_Version = as_version src, ad_ContentHash = contentHash,
                                       ad_InstalledPath = installed_dir projectDir packName, ad_AlreadyCurrent = False,
                                       ad_SourceCoordinate = as_coordinate src, ad_Warnings = as_warnings src\<rparr>, p2))))))))"

definition resolve_source :: "'v tools \<Rightarrow> string \<Rightarrow> string \<Rightarrow> string \<Rightarrow> string + add_source" where
  "resolve_source tools projectDir packRef version =
     (if IsLocalPath packRef
      then (case resolveLocalPackSource tools packRef projectDir of
              Inl err \<Rightarrow> Inl (''resolving local pack '' @ packRef @ '': '' @ err)
            | Inr src \<Rightarrow> Inr src)
      else resolve_git_source tools packRef version)"

definition AddCommand_Run ::
  "'v tools \<Rightarrow> string \<Rightarrow> string \<Rightarrow> string \<Rightarrow> string \<Rightarrow> 'v project \<Rightarrow> (string + AddResult) \<times> 'v project" where
  "AddCommand_Run tools scratch projectDir packRef version p =
     (case resolve_source tools projectDir packRef version of
        Inl err \<Rightarrow> (Inl err, p)
      | Inr src \<Rightarrow>
          if is_current p (as_packName src) then
            (Inr \<lparr>ad_PackName = as_packName src, ad_Version = [], ad_ContentHash = [], ad_InstalledPath = [],
                  ad_AlreadyCurrent = True, ad_SourceCoordinate = [], ad_Warnings = as_warnings src\<rparr>, p)
          else add_install tools scratch projectDir packRef src p)"

subsection \<open>Installing from the lock\<close>

record InstallOptions =
  io_ProjectDir :: string
  io_CachePath :: string
  io_LocalPackDir :: string

record InstallResult =
  ir_InstalledPacks :: "string list"
  ir_Warnings :: "string list"

text \<open>A lock entry of a git pack without a \<open>git_ref\<close> is a nil pointer the code dereferences.\<close>

datatype cmd_error = CmdError string | CmdPanic string

definition copy_into_place :: "'v project \<Rightarrow> string \<Rightarrow> PackNode \<Rightarrow> string option \<times> 'v project" where
  "copy_into_place p name source =
     (case copyDirRecursive source (pj_installed p name) of
        (err, t) \<Rightarrow> (err, p\<lparr>pj_installed := (pj_installed p)(name := t)\<rparr>))"

definition materializeLocalPack ::
  "'v tools \<Rightarrow> InstallOptions \<Rightarrow> string \<Rightarrow> LockEntry \<Rightarrow> 'v project \<Rightarrow> string option \<times> 'v project" where
  "materializeLocalPack tools opts name entry p =
     (if io_LocalPackDir opts = [] \<and> le_LocalPath entry = [] then
        (Some (''local pack '' @ quote name @ '' has no recorded source path (local_path) in backstop.lock; cannot materialize it (re-add the pack)''), p)
      else
        let sourceDir = (if io_LocalPackDir opts = [] then JoinPath [io_ProjectDir opts, le_LocalPath entry] else io_LocalPackDir opts) in
        (case t_fs tools sourceDir of
           None \<Rightarrow> (Some (''local pack '' @ quote name @ '' source '' @ quote sourceDir @ '' does not exist on disk; cannot materialize it''), p)
         | Some t \<Rightarrow>
             if \<not> is_dir t then
               (Some (''local pack '' @ quote name @ '' source '' @ quote sourceDir @ '' is not a directory; cannot materialize it''), p)
             else (case tree_hash t of
                Inl err \<Rightarrow> (Some (''computing hash for local pack '' @ name @ '': '' @ err), p)
              | Inr hash \<Rightarrow>
                  if hash \<noteq> le_ContentHash entry then
                    (Some (''hash mismatch for local pack '' @ name @ '': computed='' @ hash @ '' locked='' @ le_ContentHash entry), p)
                  else (case copy_into_place p name t of
                     (Some err, p') \<Rightarrow> (Some (''copying local pack '' @ name @ '': '' @ err), p')
                   | (None, p') \<Rightarrow> (None, p')))))"

text \<open>The source of a git pack: the cache, or a clone of the recorded reference.\<close>

definition git_source ::
  "'v tools \<Rightarrow> InstallOptions \<Rightarrow> string \<Rightarrow> LockEntry \<Rightarrow> cmd_error + PackNode \<times> string list" where
  "git_source tools opts name entry =
     (if io_CachePath opts \<noteq> [] then
        (case t_fs tools (JoinPath [io_CachePath opts, name]) of
           None \<Rightarrow> Inl (CmdError (''pack '' @ name @ '' not found in cache '' @ io_CachePath opts))
         | Some t \<Rightarrow> Inr (t, []))
      else
        (case RemoteURLForEntry name entry of (gitURL, coordWarning) \<Rightarrow>
           (case le_GitRef entry of
              None \<Rightarrow> Inl (CmdPanic ''invalid memory address or nil pointer dereference'')
            | Some ref \<Rightarrow>
                (case t_clone tools gitURL ref of
                   Inl err \<Rightarrow> Inl (CmdError err)
                 | Inr t \<Rightarrow> Inr (t, if coordWarning \<noteq> [] then [coordWarning] else [])))))"

definition install_pack ::
  "'v tools \<Rightarrow> InstallOptions \<Rightarrow> string \<Rightarrow> LockEntry \<Rightarrow> 'v project \<Rightarrow> (cmd_error + string list) \<times> 'v project" where
  "install_pack tools opts name entry p =
     (if le_SourceType entry = ''local'' then
        (case materializeLocalPack tools opts name entry p of
           (Some err, p') \<Rightarrow> (Inl (CmdError err), p')
         | (None, p') \<Rightarrow> (Inr [], p'))
      else (case git_source tools opts name entry of
        Inl err \<Rightarrow> (Inl err, p)
      | Inr (t, warnings) \<Rightarrow>
          (case tree_hash t of
             Inl err \<Rightarrow> (Inl (CmdError (''computing hash for '' @ name @ '': '' @ err)), p)
           | Inr hash \<Rightarrow>
               if hash \<noteq> le_ContentHash entry then
                 (Inl (CmdError (''hash mismatch for pack '' @ name @ '': computed='' @ hash @ '' locked='' @ le_ContentHash entry)), p)
               else (case copy_into_place p name t of
                  (Some err, p') \<Rightarrow> (Inl (CmdError (''copying pack '' @ name @ '': '' @ err)), p')
                | (None, p') \<Rightarrow> (Inr warnings, p')))))"

definition install_missing :: "string \<Rightarrow> string" where
  "install_missing name = ''declared pack '' @ quote name
     @ '' is missing from backstop.lock; skipping it (run 'backstop pack add' or 'pack relock' to lock it)''"

fun install_loop ::
  "'v tools \<Rightarrow> InstallOptions \<Rightarrow> Lockfile \<Rightarrow> string list \<Rightarrow> InstallResult \<Rightarrow> 'v project \<Rightarrow> (cmd_error + InstallResult) \<times> 'v project" where
  "install_loop tools opts lf [] result p = (Inr result, p)"
| "install_loop tools opts lf (name # names) result p =
     (case map_of (lf_Packs lf) name of
        None \<Rightarrow> install_loop tools opts lf names (result\<lparr>ir_Warnings := ir_Warnings result @ [install_missing name]\<rparr>) p
      | Some entry \<Rightarrow>
          (case install_pack tools opts name entry p of
             (Inl err, p') \<Rightarrow> (Inl err, p')
           | (Inr warnings, p') \<Rightarrow>
               install_loop tools opts lf names
                 \<lparr>ir_InstalledPacks = ir_InstalledPacks result @ [name], ir_Warnings = ir_Warnings result @ warnings\<rparr> p'))"

definition stale_warning :: "string \<Rightarrow> string" where
  "stale_warning name = ''stale lock entry '' @ quote name
     @ '' is not declared in backstop.yml; skipping it (run 'backstop pack remove' to clean it up)''"

text \<open>The packs directory is snapshotted first (\<open>t_io\<close> of the snapshot pattern tells whether that fails).
  Every later error restores it; a panic does not return here.\<close>

definition InstallCommand_Run :: "'v tools \<Rightarrow> InstallOptions \<Rightarrow> 'v project \<Rightarrow> (cmd_error + InstallResult) \<times> 'v project" where
  "InstallCommand_Run tools opts p =
     (case read_file_state ''backstop.lock'' (pj_lock p) of
        Inl err \<Rightarrow> (Inl (CmdError (''backstop.lock not found: '' @ err)), p)
      | Inr lf \<Rightarrow>
          (case readManifestPacks p of
             Inl err \<Rightarrow> (Inl (CmdError (''resolving declared packs: '' @ err)), p)
           | Inr None \<Rightarrow>
               (Inr \<lparr>ir_InstalledPacks = [],
                     ir_Warnings = [''no backstop.yml manifest found: nothing is declared, so nothing was installed'']\<rparr>, p)
           | Inr (Some packs) \<Rightarrow>
               let stale = sort (filter (\<lambda>name. \<not> map_has packs name) (map fst (lf_Packs lf)));
                   start = \<lparr>ir_InstalledPacks = [], ir_Warnings = map stale_warning stale\<rparr>
               in (case t_io tools ''backstop-snapshot-*'' of
                     Some err \<Rightarrow> (Inl (CmdError (''snapshotting packs: '' @ err)), p)
                   | None \<Rightarrow>
                  (case install_loop tools opts lf (sort (map fst packs)) start p of
                     (Inl (CmdPanic err), p') \<Rightarrow> (Inl (CmdPanic err), p')
                   | (Inl (CmdError err), p') \<Rightarrow> (Inl (CmdError err), p'\<lparr>pj_installed := pj_installed p\<rparr>)
                   | (Inr result, p') \<Rightarrow> (Inr result, p')))))"

subsection \<open>Updating and upgrading\<close>

fun node_at :: "PackNode \<Rightarrow> string list \<Rightarrow> PackNode option" where
  "node_at t [] = Some t"
| "node_at t (e # es) =
     (case find_node e (dir_entries (Some t)) of None \<Rightarrow> None | Some c \<Rightarrow> node_at c es)"

text \<open>The installed and the cloned tree side by side, as the file system tamper detection reads.\<close>

definition two_trees :: "PackNode \<Rightarrow> PackNode \<Rightarrow> file_system" where
  "two_trees old new path =
     (case path_elems path of
        [] \<Rightarrow> None
      | e # es \<Rightarrow> if e = ''old'' then node_at old es else if e = ''new'' then node_at new es else None)"

definition replaceInstalledPack ::
  "'v tools \<Rightarrow> 'v project \<Rightarrow> string \<Rightarrow> string \<Rightarrow> PackNode \<Rightarrow> (string + string) \<times> 'v project" where
  "replaceInstalledPack tools p projectDir packName source =
     (case t_io tools (installed_dir projectDir packName) of
        Some err \<Rightarrow> (Inl (''removing the installed pack '' @ packName @ '': '' @ err), p)
      | None \<Rightarrow>
          let p1 = p\<lparr>pj_installed := (pj_installed p)(packName := None)\<rparr> in
          (case t_io tools (JoinPath [projectDir, ''.backstop/packs'']) of
             Some err \<Rightarrow> (Inl (''creating the packs dir for '' @ packName @ '': '' @ err), p1)
           | None \<Rightarrow>
               (case copy_into_place p1 packName source of
                  (Some err, p2) \<Rightarrow> (Inl (''copying '' @ packName @ '' into place: '' @ err), p2)
                | (None, p2) \<Rightarrow>
                    (case pj_installed p2 packName of
                       None \<Rightarrow> (Inl (''walking directory '' @ installed_dir projectDir packName @ '': no such file or directory''), p2)
                     | Some t \<Rightarrow> (tree_hash t, p2)))))"

record UpdateResult =
  ur_OldVersion :: string
  ur_NewVersion :: string
  ur_ContentHash :: string
  ur_NoOp :: bool
  ur_Message :: string
  ur_Warnings :: "string list"

definition tamper_refusal :: "string \<Rightarrow> TamperResult \<Rightarrow> string" where
  "tamper_refusal packName result =
     ''tamper detected in '' @ packName @ '' update:'' @ [CHR 0x0A]
     @ Join (map (\<lambda>c. ''  '' @ tc_Kind c @ '': '' @ tc_Description c) (tr_Changes result)) [CHR 0x0A]
     @ [CHR 0x0A] @ ''re-run with --acknowledge to proceed''"

definition divergence_warning :: "string \<Rightarrow> RemoteIdentity \<Rightarrow> string list" where
  "divergence_warning coordinate ident =
     (if ri_Diverged ident then
        [''pack '' @ coordinate @ '' declares the name '' @ ri_ManifestName ident @ '' in its manifest; it is installed as ''
         @ ri_InstallName ident @ '' at '' @ JoinPath [''.backstop'', ''packs'', ri_InstallName ident]]
      else [])"

text \<open>Recording the new version: the tree, the manifest, the lock.\<close>

definition record_update ::
  "'v tools \<Rightarrow> string \<Rightarrow> string \<Rightarrow> string \<Rightarrow> RemoteIdentity \<Rightarrow> PackNode \<Rightarrow> 'v project \<Rightarrow> (string + string) \<times> 'v project" where
  "record_update tools projectDir packName resolved ident t p =
     (case replaceInstalledPack tools p projectDir (ri_InstallName ident) t of
        (Inl err, p1) \<Rightarrow> (Inl (''installing '' @ packName @ '' '' @ resolved @ '': '' @ err), p1)
      | (Inr contentHash, p1) \<Rightarrow>
          (case updatePackVersion tools p1 (ri_InstallName ident) resolved of
             (Some err, p2) \<Rightarrow> (Inl (''recording '' @ packName @ '' '' @ resolved @ '' in backstop.yml: '' @ err), p2)
           | (None, p2) \<Rightarrow>
               (case recordGitPackInLock tools p2 (ri_InstallName ident) resolved contentHash (recordedCoordinateFor p2 packName) of
                  (Some err, p3) \<Rightarrow> (Inl (''recording '' @ packName @ '' '' @ resolved @ '' in backstop.lock: '' @ err), p3)
                | (None, p3) \<Rightarrow> (Inr contentHash, p3))))"

definition UpdateCommand_Run ::
  "'v tools \<Rightarrow> string \<Rightarrow> string \<Rightarrow> bool \<Rightarrow> string \<Rightarrow> 'v project \<Rightarrow> (string + UpdateResult) \<times> 'v project" where
  "UpdateCommand_Run tools scratch projectDir acknowledge packName p =
     (case readPackVersion p packName of
        Inl err \<Rightarrow> (Inl (''reading the current version of '' @ packName @ '': '' @ err), p)
      | Inr (currentVersion, isLocal) \<Rightarrow>
        if isLocal then
          (Inr \<lparr>ur_OldVersion = [], ur_NewVersion = [], ur_ContentHash = [], ur_NoOp = True,
                ur_Message = ''pack '' @ packName @ '' is a local path pack; it updates when its source files change'',
                ur_Warnings = []\<rparr>, p)
        else (case CoordinateForEntry packName (lockedEntryFor p packName) of (coordinate, coordWarning) \<Rightarrow>
          let warnings = (if coordWarning \<noteq> [] then [coordWarning] else []) in
          (case ResolveLatestCompatible (t_listTags tools) coordinate currentVersion of
             Inl err \<Rightarrow> (Inl (''resolving version: '' @ err), p)
           | Inr resolved \<Rightarrow>
             if resolved = currentVersion then
               (Inr \<lparr>ur_OldVersion = currentVersion, ur_NewVersion = currentVersion, ur_ContentHash = [], ur_NoOp = True,
                     ur_Message = ''pack '' @ packName @ '' is already at latest compatible version '' @ currentVersion,
                     ur_Warnings = warnings\<rparr>, p)
             else if IsMajorBump currentVersion resolved then
               (Inl (''version '' @ resolved @ '' is a major version bump from '' @ currentVersion @ ''; use pack upgrade instead''), p)
             else (case t_clone tools (resolveGitURL coordinate) (''v'' @ resolved) of
               Inl err \<Rightarrow> (Inl (''cloning pack '' @ coordinate @ '' at v'' @ resolved @ '': '' @ err), p)
             | Inr t \<Rightarrow>
               (case ValidateRemoteIdentity (\<lambda>_. pack_yml t) (t_yamlFields tools) coordinate resolved [] of
                  Inl err \<Rightarrow> (Inl (''pack update '' @ packName @ '': '' @ pack_error_text err), p)
                | Inr ident \<Rightarrow>
                  (case RunValidationOnScratchCopy tools scratch t (packName @ '' at tag v'' @ resolved) of
                     Some err \<Rightarrow> (Inl (''pack update '' @ packName @ '': '' @ err), p)
                   | None \<Rightarrow>
                     (case (case pj_installed p packName of
                              None \<Rightarrow> Inr False
                            | Some old \<Rightarrow>
                                (case DetectTamper (two_trees old t) (t_yamlRules tools) ''/old'' ''/new'' of
                                   Inl err \<Rightarrow> Inl (''tamper detection: '' @ err)
                                 | Inr result \<Rightarrow>
                                     if tr_HasTamper result \<and> \<not> acknowledge then Inl (tamper_refusal packName result)
                                     else Inr True)) of
                        Inl err \<Rightarrow> (Inl err, p)
                      | Inr _ \<Rightarrow>
                        (case record_update tools projectDir packName resolved ident t p of
                           (Inl err, p') \<Rightarrow> (Inl err, p')
                         | (Inr contentHash, p') \<Rightarrow>
                             (Inr \<lparr>ur_OldVersion = currentVersion, ur_NewVersion = resolved, ur_ContentHash = contentHash,
                                   ur_NoOp = False, ur_Message = [], ur_Warnings = warnings @ divergence_warning coordinate ident\<rparr>, p')))))))))"

record UpgradeResult =
  up_OldVersion :: string
  up_NewVersion :: string
  up_ContentHash :: string
  up_RemediationBundle :: string
  up_BaselinedViolations :: nat
  up_Warnings :: "string list"

text \<open>An unavailable scan capability propagates unchanged, any other scan error is wrapped.\<close>

datatype scan_error = ScanUnavailable string | ScanFailed string

definition upgrade_prepare ::
  "'v tools \<Rightarrow> string \<Rightarrow> string \<Rightarrow> 'v project \<Rightarrow> string + string \<times> string \<times> RemoteIdentity \<times> PackNode \<times> string list" where
  "upgrade_prepare tools scratch packRef p =
     (case parsePackRef packRef of (packName, targetVersion) \<Rightarrow>
        (case readPackVersion p packName of
           Inl err \<Rightarrow> Inl (''reading the current version of '' @ packName @ '': '' @ err)
         | Inr (currentVersion, isLocal) \<Rightarrow>
           if isLocal then Inl (''pack '' @ packName @ '' is a local path pack and has no repository to upgrade from; run 'backstop pack relock' to refresh it from its source'')
           else (case CoordinateForEntry packName (lockedEntryFor p packName) of (coordinate, coordWarning) \<Rightarrow>
             (case t_clone tools (resolveGitURL coordinate) (''v'' @ targetVersion) of
                Inl err \<Rightarrow> Inl (''cloning pack '' @ coordinate @ '' at v'' @ targetVersion @ '': '' @ err)
              | Inr t \<Rightarrow>
                (case ValidateRemoteIdentity (\<lambda>_. pack_yml t) (t_yamlFields tools) coordinate targetVersion [] of
                   Inl err \<Rightarrow> Inl (''pack upgrade '' @ packRef @ '': '' @ pack_error_text err)
                 | Inr ident \<Rightarrow>
                   (case RunValidationOnScratchCopy tools scratch t (packName @ '' at tag v'' @ targetVersion) of
                      Some err \<Rightarrow> Inl (''pack upgrade '' @ packRef @ '': '' @ err)
                    | None \<Rightarrow>
                        Inr (currentVersion, targetVersion, ident, t,
                             (if coordWarning \<noteq> [] then [coordWarning] else []) @ divergence_warning coordinate ident)))))))"

definition upgrade_write ::
  "'v tools \<Rightarrow> string \<Rightarrow> string \<Rightarrow> string \<Rightarrow> RemoteIdentity \<Rightarrow> PackNode \<Rightarrow> 'v project \<Rightarrow> (string + string) \<times> 'v project" where
  "upgrade_write tools projectDir packName targetVersion ident t p =
     (case t_io tools (JoinPath [projectDir, ''.backstop'']) of
        Some err \<Rightarrow> (Inl (''creating '' @ JoinPath [projectDir, ''.backstop''] @ '': '' @ err), p)
      | None \<Rightarrow>
     (case ReadProvenance p of
        Inl err \<Rightarrow> (Inl (''reading pack config provenance: '' @ err), p)
      | Inr prov \<Rightarrow>
          (case MergeToolConfig tools t projectDir p of
             (Inl err, p1) \<Rightarrow> (Inl (''merging tool_config: '' @ err), p1)
           | (Inr merged, p1) \<Rightarrow>
               if mr_Conflicts merged \<noteq> [] then
                 (Inl (''tool_config conflict during upgrade:'' @ [CHR 0x0A] @ describeConflicts (mr_Conflicts merged)), p1)
               else (case replaceInstalledPack tools p1 projectDir (ri_InstallName ident) t of
                 (Inl err, p2) \<Rightarrow> (Inl (''installing '' @ packName @ '' '' @ targetVersion @ '': '' @ err), p2)
               | (Inr contentHash, p2) \<Rightarrow>
                   (case WriteProvenance tools p2 (prov @ map (\<lambda>m. m\<lparr>pv_SourcePack := ri_InstallName ident\<rparr>) (mr_Merged merged)) of
                      (Some err, p3) \<Rightarrow> (Inl (''recording pack config provenance: '' @ err), p3)
                    | (None, p3) \<Rightarrow>
                        (case updatePackVersion tools p3 (ri_InstallName ident) targetVersion of
                           (Some err, p4) \<Rightarrow> (Inl (''recording '' @ packName @ '' '' @ targetVersion @ '' in backstop.yml: '' @ err), p4)
                         | (None, p4) \<Rightarrow>
                             (case recordGitPackInLock tools p4 (ri_InstallName ident) targetVersion contentHash (recordedCoordinateFor p4 packName) of
                                (Some err, p5) \<Rightarrow> (Inl (''recording '' @ packName @ '' '' @ targetVersion @ '' in backstop.lock: '' @ err), p5)
                              | (None, p5) \<Rightarrow> (Inr contentHash, p5))))))))"

definition UpgradeCommand_Run ::
  "'v tools \<Rightarrow> ('v project \<Rightarrow> PackNode \<Rightarrow> scan_error + string list) \<Rightarrow> (string list \<Rightarrow> string + string)
     \<Rightarrow> string \<Rightarrow> string \<Rightarrow> string \<Rightarrow> 'v project \<Rightarrow> (string + UpgradeResult) \<times> 'v project" where
  "UpgradeCommand_Run tools scan remediate scratch projectDir packRef p =
     (case upgrade_prepare tools scratch packRef p of
        Inl err \<Rightarrow> (Inl err, p)
      | Inr (currentVersion, targetVersion, ident, t, warnings) \<Rightarrow>
          (case scan p t of
             Inl (ScanUnavailable err) \<Rightarrow> (Inl err, p)
           | Inl (ScanFailed err) \<Rightarrow> (Inl (''scanning violations: '' @ err), p)
           | Inr violations \<Rightarrow>
               (case (if violations = [] then Inr [] else remediate violations) of
                  Inl err \<Rightarrow> (Inl (''generating remediation bundle: '' @ err), p)
                | Inr remediationBundle \<Rightarrow>
                    (case upgrade_write tools projectDir (fst (parsePackRef packRef)) targetVersion ident t p of
                       (Inl err, p') \<Rightarrow> (Inl err, p')
                     | (Inr contentHash, p') \<Rightarrow>
                         (Inr \<lparr>up_OldVersion = currentVersion, up_NewVersion = targetVersion, up_ContentHash = contentHash,
                               up_RemediationBundle = remediationBundle, up_BaselinedViolations = length violations,
                               up_Warnings = warnings\<rparr>, p')))))"

subsection \<open>Assembly\<close>

text \<open>A command is built from dependencies, each of which may be nil; the first nil one is named.\<close>

record MissingDependencyError =
  md_Command :: string
  md_Dependency :: string

definition MissingDependencyError_Error :: "MissingDependencyError \<Rightarrow> string" where
  "MissingDependencyError_Error e =
     ''cannot assemble '' @ md_Command e @ '': its '' @ md_Dependency e @ '' is nil; supply one at the wiring site''"

definition NewAddCommand :: "'g option \<Rightarrow> 'd option \<Rightarrow> MissingDependencyError + 'g \<times> 'd" where
  "NewAddCommand git validator =
     (case git of
        None \<Rightarrow> Inl \<lparr>md_Command = ''AddCommand'', md_Dependency = ''git cloner''\<rparr>
      | Some g \<Rightarrow>
          (case validator of
             None \<Rightarrow> Inl \<lparr>md_Command = ''AddCommand'', md_Dependency = ''validator''\<rparr>
           | Some v \<Rightarrow> Inr (g, v)))"

definition NewInstallCommand :: "'g option \<Rightarrow> MissingDependencyError + 'g" where
  "NewInstallCommand git =
     (case git of
        None \<Rightarrow> Inl \<lparr>md_Command = ''InstallCommand'', md_Dependency = ''git cloner''\<rparr>
      | Some g \<Rightarrow> Inr g)"

definition NewUpdateCommand ::
  "'g option \<Rightarrow> 'd option \<Rightarrow> 'r option \<Rightarrow> MissingDependencyError + 'g \<times> 'd \<times> 'r" where
  "NewUpdateCommand git validator resolver =
     (case git of
        None \<Rightarrow> Inl \<lparr>md_Command = ''UpdateCommand'', md_Dependency = ''git cloner''\<rparr>
      | Some g \<Rightarrow>
          (case validator of
             None \<Rightarrow> Inl \<lparr>md_Command = ''UpdateCommand'', md_Dependency = ''validator''\<rparr>
           | Some v \<Rightarrow>
               (case resolver of
                  None \<Rightarrow> Inl \<lparr>md_Command = ''UpdateCommand'', md_Dependency = ''version resolver''\<rparr>
                | Some r \<Rightarrow> Inr (g, v, r))))"

definition NewUpgradeCommand ::
  "'g option \<Rightarrow> 'd option \<Rightarrow> 's option \<Rightarrow> 'm option \<Rightarrow> MissingDependencyError + 'g \<times> 'd \<times> 's \<times> 'm" where
  "NewUpgradeCommand git validator scanner remediation =
     (case git of
        None \<Rightarrow> Inl \<lparr>md_Command = ''UpgradeCommand'', md_Dependency = ''git cloner''\<rparr>
      | Some g \<Rightarrow>
          (case validator of
             None \<Rightarrow> Inl \<lparr>md_Command = ''UpgradeCommand'', md_Dependency = ''validator''\<rparr>
           | Some v \<Rightarrow>
               (case scanner of
                  None \<Rightarrow> Inl \<lparr>md_Command = ''UpgradeCommand'', md_Dependency = ''scanner''\<rparr>
                | Some s \<Rightarrow>
                    (case remediation of
                       None \<Rightarrow> Inl \<lparr>md_Command = ''UpgradeCommand'', md_Dependency = ''remediation generator''\<rparr>
                     | Some m \<Rightarrow> Inr (g, v, s, m)))))"

end
