(* ===== verification/Pack_Lifecycle.thy ===== *)
theory Pack_Lifecycle
  imports Pack_Commands
begin

text \<open>
  What the lifecycle commands guarantee: a failed add leaves the records as they were, a
  successful one leaves the pack declared, locked and verifiable; install materialises exactly
  the locked content or restores what stood; update moves to the highest compatible release.
\<close>

subsection \<open>Adding\<close>

lemma writeConfigFile_keeps:
  "snd (writeConfigFile tools p path cfg) = p\<lparr>pj_configs := pj_configs (snd (writeConfigFile tools p path cfg))\<rparr>"
  by (auto simp: writeConfigFile_def split: option.splits)

lemma merge_files_keeps:
  "snd (merge_files tools projectDir tcs result p) = p\<lparr>pj_configs := pj_configs (snd (merge_files tools projectDir tcs result p))\<rparr>"
proof (induction tools projectDir tcs result p rule: merge_files.induct)
  case (2 tools projectDir cf settings tcs result p)
  let ?path = "JoinPath [projectDir, cf]"
  let ?cur = "case readConfigFile p ?path of Inl _ \<Rightarrow> None | Inr cfg \<Rightarrow> cfg"
  obtain cfg mid where st: "fold (merge_setting tools cf) settings (?cur, result) = (cfg, mid)" by fastforce
  show ?case
  proof (cases "\<exists>m\<in>set (mr_Merged mid). pv_ConfigFile m = cf")
    case True
    obtain err p1 where w: "writeConfigFile tools p ?path (case cfg of None \<Rightarrow> [] | Some c \<Rightarrow> c) = (err, p1)" by fastforce
    with writeConfigFile_keeps [of tools p ?path] have p1: "p1 = p\<lparr>pj_configs := pj_configs p1\<rparr>" by (metis snd_conv)
    show ?thesis
    proof (cases err)
      case None
      let ?r = "snd (merge_files tools projectDir tcs mid p1)"
      have "?r = p1\<lparr>pj_configs := pj_configs ?r\<rparr>"
        using "2.IH"(1) [OF refl refl st [symmetric] True w [symmetric] None] .
      also have "\<dots> = p\<lparr>pj_configs := pj_configs ?r\<rparr>" by (subst p1) simp
      finally show ?thesis using True w None st by (simp add: Let_def)
    next
      case (Some e)
      with True w st p1 show ?thesis by (simp add: Let_def)
    qed
  next
    case False
    with "2.IH"(2) [OF refl refl st [symmetric] False] st show ?thesis by (simp add: Let_def)
  qed
qed simp

definition frame :: "'v project \<Rightarrow> 'v project \<Rightarrow> bool" where
  "frame p q \<longleftrightarrow> pj_gitignore q = pj_gitignore p \<and> pj_installed q = pj_installed p"

lemma MergeToolConfig_keeps:
  assumes "MergeToolConfig tools t projectDir p = (r, p')"
  shows "frame p p' \<and> pj_yml p' = pj_yml p \<and> pj_lock p' = pj_lock p \<and> pj_prov p' = pj_prov p"
proof (cases "readPackManifest tools t")
  case (Inl err)
  with assms show ?thesis by (auto simp: MergeToolConfig_def frame_def)
next
  case (Inr tcs)
  with assms have "p' = snd (merge_files tools projectDir tcs \<lparr>mr_Merged = [], mr_Conflicts = []\<rparr> p)"
    by (simp add: MergeToolConfig_def)
  then show ?thesis by (subst (asm) merge_files_keeps) (simp add: frame_def)
qed

lemma WriteProvenance_keeps:
  "WriteProvenance tools p entries = (None, p') \<Longrightarrow> p' = p\<lparr>pj_prov := Holds entries\<rparr>"
  "WriteProvenance tools p entries = (Some err, p') \<Longrightarrow> p' = p"
  by (auto simp: WriteProvenance_def split: option.splits)

lemma write_lock_keeps:
  "write_lock tools p lf = (None, p') \<Longrightarrow> p' = p\<lparr>pj_lock := Holds lf\<rparr>"
  "write_lock tools p lf = (Some err, p') \<Longrightarrow> p' = p"
  by (auto simp: write_lock_def split: option.splits)

lemma updateBackstopYml_keeps:
  "updateBackstopYml tools p name version local = (None, p') \<Longrightarrow>
     \<exists>packs. pj_yml p = Holds packs \<and> p' = p\<lparr>pj_yml := Holds (map_set name (if local then ''local'' else version) packs)\<rparr>"
  "updateBackstopYml tools p name version local = (Some err, p') \<Longrightarrow> p' = p"
  by (cases "pj_yml p"; auto simp: updateBackstopYml_def write_yml_def split: option.splits)+

lemma WriteProvenance_frame:
  "WriteProvenance tools p entries = (e, p') \<Longrightarrow> frame p p' \<and> pj_yml p' = pj_yml p \<and> pj_lock p' = pj_lock p"
  by (auto simp: WriteProvenance_def frame_def split: option.splits)

lemma updateBackstopYml_frame:
  "updateBackstopYml tools p name version local = (e, p') \<Longrightarrow>
     frame p p' \<and> pj_lock p' = pj_lock p \<and> pj_prov p' = pj_prov p
     \<and> (e = None \<longrightarrow> pj_yml p \<noteq> Missing) \<and> (e \<noteq> None \<longrightarrow> pj_yml p' = pj_yml p)"
  by (cases "pj_yml p"; auto simp: updateBackstopYml_def write_yml_def frame_def split: option.splits)

lemma frame_trans: "frame p q \<Longrightarrow> frame q r \<Longrightarrow> frame p r"
  by (simp add: frame_def)

lemma add_record_failed:
  assumes "add_record tools projectDir src h p = (Some err, p')"
  shows "pj_yml p' = pj_yml p \<and> pj_lock p' = pj_lock p \<and> pj_prov p' = pj_prov p \<and> pj_gitignore p' = pj_gitignore p
    \<and> pj_installed p' = (pj_installed p)(as_packName src := None)"
proof -
  have "\<exists>q. p' = rollback p (as_packName src) q \<and> frame p q \<and> (pj_yml p = Missing \<longrightarrow> pj_yml q = Missing)"
  proof (cases "ReadProvenance p")
    case (Inl e)
    with assms show ?thesis by (auto simp: add_record_def Let_def frame_def)
  next
    case (Inr prov)
    obtain m p1 where m: "MergeToolConfig tools (as_tree src) projectDir p = (m, p1)" by fastforce
    note k1 = MergeToolConfig_keeps [OF m]
    show ?thesis
    proof (cases "\<exists>merged. m = Inr merged \<and> mr_Conflicts merged = []")
      case False
      with assms Inr m k1 show ?thesis by (auto simp: add_record_def Let_def split: sum.splits if_splits)
    next
      case True
      then obtain merged where merged: "m = Inr merged" "mr_Conflicts merged = []" by blast
      obtain e2 p2 where w: "WriteProvenance tools p1 (prov @ map (\<lambda>m. m\<lparr>pv_SourcePack := as_packName src\<rparr>) (mr_Merged merged)) = (e2, p2)"
        by fastforce
      have k2: "frame p p2" "pj_yml p2 = pj_yml p" using k1 WriteProvenance_frame [OF w] frame_trans by auto
      obtain e3 p3 where y: "updateBackstopYml tools p2 (as_packName src) (as_version src) (as_sourceType src = ''local'') = (e3, p3)"
        by fastforce
      have k3: "frame p p3" "e3 = None \<longrightarrow> pj_yml p \<noteq> Missing" "e3 \<noteq> None \<longrightarrow> pj_yml p3 = pj_yml p"
        using k2 updateBackstopYml_frame [OF y] frame_trans by auto
      obtain e4 p4 where l: "write_lock tools p3 ((lock_or_fresh p3)\<lparr>lf_Packs := map_set (as_packName src) (add_lock_entry tools src h)
                                      (lf_Packs (lock_or_fresh p3))\<rparr>) = (e4, p4)" by fastforce
      have shape: "add_record tools projectDir src h p =
          (case e2 of Some err \<Rightarrow> (Some err, rollback p (as_packName src) p2)
           | None \<Rightarrow> (case e3 of Some err \<Rightarrow> (Some err, rollback p (as_packName src) p3)
               | None \<Rightarrow> (case e4 of Some err \<Rightarrow> (Some err, rollback p (as_packName src) p4) | None \<Rightarrow> (None, p4))))"
        using Inr m merged w y l by (simp add: add_record_def Let_def split: option.splits)
      show ?thesis
      proof (cases e2)
        case (Some e)
        with shape assms k2 show ?thesis by auto
      next
        case None
        note e2 = this
        show ?thesis
        proof (cases e3)
          case (Some e)
          with shape assms e2 k3 show ?thesis by auto
        next
          case None
          with shape assms e2 obtain e where "e4 = Some e" "p' = rollback p (as_packName src) p4" by (cases e4) auto
          then have "p4 = p3" using l by (auto dest: write_lock_keeps(2))
          with \<open>p' = _\<close> k3 None show ?thesis by blast
        qed
      qed
    qed
  qed
  then show ?thesis by (auto simp: rollback_def frame_def)
qed

lemma add_record_done:
  assumes "add_record tools projectDir src h p = (None, p')"
  shows "\<exists>packs. pj_yml p = Holds packs
    \<and> pj_yml p' = Holds (map_set (as_packName src) (if as_sourceType src = ''local'' then ''local'' else as_version src) packs)
    \<and> pj_lock p' = Holds ((lock_or_fresh p)\<lparr>lf_Packs := map_set (as_packName src) (add_lock_entry tools src h) (lf_Packs (lock_or_fresh p))\<rparr>)
    \<and> frame p p'"
proof -
  from assms obtain prov merged p1 p2 p3 where
    m: "MergeToolConfig tools (as_tree src) projectDir p = (Inr merged, p1)"
    and w: "WriteProvenance tools p1 prov = (None, p2)"
    and y: "updateBackstopYml tools p2 (as_packName src) (as_version src) (as_sourceType src = ''local'') = (None, p3)"
    and l: "write_lock tools p3 ((lock_or_fresh p3)\<lparr>lf_Packs := map_set (as_packName src) (add_lock_entry tools src h)
                                      (lf_Packs (lock_or_fresh p3))\<rparr>) = (None, p')"
    unfolding add_record_def Let_def
    by (simp split: sum.split_asm prod.split_asm if_split_asm option.split_asm)
  note k1 = MergeToolConfig_keeps [OF m] and k2 = WriteProvenance_frame [OF w] and k3 = updateBackstopYml_frame [OF y]
  from updateBackstopYml_keeps(1) [OF y] obtain packs where packs: "pj_yml p2 = Holds packs"
    "pj_yml p3 = Holds (map_set (as_packName src) (if as_sourceType src = ''local'' then ''local'' else as_version src) packs)"
    by auto
  have "lock_or_fresh p3 = lock_or_fresh p" using k1 k2 k3 by (simp add: lock_or_fresh_def)
  with write_lock_keeps(1) [OF l] k1 k2 k3 packs show ?thesis
    by (intro exI [of _ packs]) (simp add: frame_def)
qed

lemma AddCommand_Run_cases:
  assumes "AddCommand_Run tools scratch projectDir packRef version p = (r, p')"
  obtains (refused) err where "r = Inl err" "p' = p"
  | (current) src result where "resolve_source tools projectDir packRef version = Inr src" "is_current p (as_packName src)"
      "p' = p" "r = Inr result" "ad_AlreadyCurrent result"
  | (install) src where "resolve_source tools projectDir packRef version = Inr src" "\<not> is_current p (as_packName src)"
      "add_install tools scratch projectDir packRef src p = (r, p')"
proof (cases "resolve_source tools projectDir packRef version")
  case (Inl err)
  with assms have "r = Inl err" "p' = p" by (auto simp: AddCommand_Run_def)
  then show ?thesis by (rule refused)
next
  case (Inr src)
  show ?thesis
  proof (cases "is_current p (as_packName src)")
    case True
    with Inr assms current [OF Inr True] show ?thesis by (auto simp: AddCommand_Run_def)
  next
    case False
    with Inr assms install [OF Inr False] show ?thesis by (simp add: AddCommand_Run_def)
  qed
qed

lemma add_install_failed:
  assumes "add_install tools scratch projectDir packRef src p = (Inl err, p')"
    and "t_io tools ''.gitignore'' = None" "\<forall>e. pj_gitignore p \<noteq> Unreadable e"
  shows "pj_yml p' = pj_yml p \<and> pj_lock p' = pj_lock p \<and> pj_prov p' = pj_prov p
    \<and> (\<forall>other. other \<noteq> as_packName src \<longrightarrow> pj_installed p' other = pj_installed p other)"
proof -
  have git: "fst (ensureGitignore tools q) = None" if "frame p q" for q
    using that assms(2,3) by (auto simp: ensureGitignore_def Let_def frame_def split: file_state.splits)
  have fin: "False" if "add_record tools projectDir src h (p\<lparr>pj_installed := (pj_installed p)(as_packName src := t)\<rparr>) = (None, q)"
      "ensureGitignore tools q = (Some e, q')" for h t q e q'
  proof -
    have "pj_gitignore q = pj_gitignore p" using add_record_done [OF that(1)] by (auto simp: frame_def)
    with that(2) assms(2,3) show False by (auto simp: ensureGitignore_def Let_def split: file_state.splits if_splits)
  qed
  show ?thesis
    using assms(1) unfolding add_install_def Let_def
    by (auto split: option.split_asm prod.split_asm sum.split_asm dest: add_record_failed fin)
qed



lemma ensureGitignore_keeps:
  "ensureGitignore tools p = (e, p') \<Longrightarrow>
     pj_yml p' = pj_yml p \<and> pj_lock p' = pj_lock p \<and> pj_prov p' = pj_prov p \<and> pj_installed p' = pj_installed p"
  by (auto simp: ensureGitignore_def Let_def split: file_state.splits option.splits if_splits)

lemma add_install_done:
  assumes "add_install tools scratch projectDir packRef src p = (Inr result, p')"
  shows "ad_PackName result = as_packName src \<and> \<not> ad_AlreadyCurrent result
    \<and> (\<exists>t. pj_installed p' = (pj_installed p)(as_packName src := Some t) \<and> tree_hash t = Inr (ad_ContentHash result))
    \<and> (\<exists>packs. pj_yml p' = Holds (map_set (as_packName src) (if as_sourceType src = ''local'' then ''local'' else as_version src) packs))
    \<and> pj_lock p' = Holds ((lock_or_fresh p)\<lparr>lf_Packs :=
          map_set (as_packName src) (add_lock_entry tools src (ad_ContentHash result)) (lf_Packs (lock_or_fresh p))\<rparr>)"
proof -
  from assms obtain t h p1 where
    copied: "copyDirRecursive (as_tree src) (pj_installed p (as_packName src)) = (None, t)"
    and h: "(case t of Some tree \<Rightarrow> tree_hash tree | None \<Rightarrow> Inl ''no such file or directory'') = Inr h"
    and rec: "add_record tools projectDir src h (p\<lparr>pj_installed := (pj_installed p)(as_packName src := t)\<rparr>) = (None, p1)"
    and git: "ensureGitignore tools p1 = (None, p')"
    and res: "ad_PackName result = as_packName src" "\<not> ad_AlreadyCurrent result" "ad_ContentHash result = h"
    unfolding add_install_def Let_def
    by (auto split: option.split_asm prod.split_asm sum.split_asm)
  from h obtain tree where tree: "t = Some tree" "tree_hash tree = Inr h" by (auto split: option.splits)
  from add_record_done [OF rec] ensureGitignore_keeps [OF git] tree res show ?thesis
    by (auto simp: frame_def lock_or_fresh_def)
qed


text \<open>A lock file that cannot be parsed is not an error to \<open>pack add\<close>: it is replaced by one that
  holds the added pack alone, so the pins of all other packs are lost, although \<open>pack remove\<close>
  refuses to touch such a file.\<close>

theorem add_replaces_unreadable_lock:
  assumes "AddCommand_Run tools scratch projectDir packRef version p = (Inr result, p')"
    and "pj_lock p = Unreadable err"
  shows "(\<exists>entry. pj_lock p' = Holds \<lparr>lf_Packs = [(ad_PackName result, entry)]\<rparr>)
    \<and> snd (Remove tools projectDir p name) = p"
proof -
  have "snd (Remove tools projectDir p name) = p"
    by (auto simp: Remove_def Let_def assms(2) split: sum.splits)
  moreover from assms(1) have "\<exists>entry. pj_lock p' = Holds \<lparr>lf_Packs = [(ad_PackName result, entry)]\<rparr>"
  proof (cases rule: AddCommand_Run_cases)
    case (current src result')
    with assms(2) show ?thesis by (simp add: is_current_def)
  next
    case (install src)
    from add_install_done [OF install(3)] assms(2) show ?thesis by (simp add: lock_or_fresh_def)
  qed auto
  ultimately show ?thesis by blast
qed

lemma demo_add:
  "\<exists>result p'. AddCommand_Run demo_tools [] ''/w'' ''a/c@1.1.0'' [] (demo_project\<lparr>pj_lock := lock\<rparr>) = (Inr result, p')
     \<and> \<not> ad_AlreadyCurrent result"
proof -
  let ?t = "PDir [] [PFile ''pack.yml'' (Inr ''y'')]"
  let ?src = "\<lparr>as_packName = ''a/b'', as_coordinate = ''a/c'', as_version = ''1.1.0'', as_packDir = [], as_tree = ?t,
      as_gitRef = Some ''v1.1.0'', as_relPath = [], as_sourceType = ''git'', as_warnings =
      [''pack a/c declares the name a/b in its manifest; installing it as a/b at .backstop/packs/a/b'']\<rparr>"
  have src: "resolve_source demo_tools ''/w'' ''a/c@1.1.0'' [] = Inr ?src" by code_simp
  have v: "RunValidationOnScratchCopy demo_tools [] ?t ''a/c at tag v1.1.0'' = None" by code_simp
  have c: "copyDirRecursive ?t None = (None, Some ?t)" by code_simp
  obtain h where h: "tree_hash ?t = Inr h"
    by (simp add: tree_hash_Inr isRootRepositoryMetadata_def gitDirectoryName_def child_rel_def)
  have m: "readPackManifest demo_tools ?t = Inr [(''lint.yml'', [(''k'', ''v'')])]" by code_simp
  show ?thesis
    unfolding AddCommand_Run_def src
    by (simp add: is_current_def add_install_def Let_def v c h add_record_def ReadProvenance_def
        MergeToolConfig_def m merge_setting_def readConfigFile_def writeConfigFile_def WriteProvenance_def
        updateBackstopYml_def write_yml_def write_lock_def ensureGitignore_def versionTagPrefix_def)
qed


theorem add_replaces_unreadable_lock_witness:
  "\<exists>result p' entry. AddCommand_Run demo_tools [] ''/w'' ''a/c@1.1.0'' [] (demo_project\<lparr>pj_lock := Unreadable ''yaml: bad''\<rparr>)
       = (Inr result, p')
     \<and> pj_lock p' = Holds \<lparr>lf_Packs = [(ad_PackName result, entry)]\<rparr>"
proof -
  from demo_add [of "Unreadable ''yaml: bad''"] obtain result p' where
    r: "AddCommand_Run demo_tools [] ''/w'' ''a/c@1.1.0'' [] (demo_project\<lparr>pj_lock := Unreadable ''yaml: bad''\<rparr>) = (Inr result, p')"
    by blast
  from add_replaces_unreadable_lock [OF r, of "''yaml: bad''"] r show ?thesis by auto
qed

subsection \<open>Installing\<close>

text \<open>One pack: only its own tree changes, and on success that tree is a copy of a source whose hash is
  the locked one.\<close>

lemma copy_into_place_keeps:
  "copy_into_place p name t = (e, p') \<Longrightarrow> \<exists>d. copyDirRecursive t (pj_installed p name) = (e, d)
     \<and> p' = p\<lparr>pj_installed := (pj_installed p)(name := d)\<rparr>"
  by (auto simp: copy_into_place_def split: prod.splits)

lemma installed_unchanged: "\<exists>d. q = q\<lparr>pj_installed := (pj_installed q)(name := d)\<rparr>"
  by (rule exI [of _ "pj_installed q name"]) simp

lemma materializeLocalPack_keeps:
  assumes "materializeLocalPack tools opts name entry p = (e, p')"
  shows "\<exists>d. p' = p\<lparr>pj_installed := (pj_installed p)(name := d)\<rparr>"
  using assms unfolding materializeLocalPack_def Let_def
  by (auto split: if_split_asm option.split_asm sum.split_asm prod.split_asm dest!: copy_into_place_keeps
      intro: installed_unchanged)

lemma install_pack_keeps:
  assumes "install_pack tools opts name entry p = (r, p')"
  shows "\<exists>d. p' = p\<lparr>pj_installed := (pj_installed p)(name := d)\<rparr>"
  using assms unfolding install_pack_def
  by (auto split: if_split_asm option.split_asm sum.split_asm prod.split_asm
      dest!: copy_into_place_keeps materializeLocalPack_keeps intro: installed_unchanged)

lemma install_pack_copy:
  assumes "install_pack tools opts name entry p = (Inr ws, p')"
  shows "\<exists>t d. tree_hash t = Inr (le_ContentHash entry) \<and> copyDirRecursive t (pj_installed p name) = (None, d)
    \<and> p' = p\<lparr>pj_installed := (pj_installed p)(name := d)\<rparr>"
  using assms unfolding install_pack_def materializeLocalPack_def Let_def
  by (auto split: if_split_asm option.split_asm sum.split_asm prod.split_asm dest!: copy_into_place_keeps)

text \<open>The sources a tool delivers are directory trees: no directory has two entries of one name.\<close>

definition sound_sources :: "'v tools \<Rightarrow> bool" where
  "sound_sources tools \<longleftrightarrow> (\<forall>url ref t. t_clone tools url ref = Inr t \<longrightarrow> wf_node t) \<and> (\<forall>path t. t_fs tools path = Some t \<longrightarrow> wf_node t)"

lemma install_pack_fresh:
  assumes "install_pack tools opts name entry p = (Inr ws, p')" "sound_sources tools" "pj_installed p name = None"
  shows "\<exists>d. pj_installed p' name = Some d \<and> tree_hash d = Inr (le_ContentHash entry)"
proof -
  from assms(1,2) obtain t d where t: "tree_hash t = Inr (le_ContentHash entry)" "wf_node t"
      "copyDirRecursive t (pj_installed p name) = (None, d)" "p' = p\<lparr>pj_installed := (pj_installed p)(name := d)\<rparr>"
    unfolding install_pack_def materializeLocalPack_def git_source_def sound_sources_def Let_def
    by (auto split: if_split_asm option.split_asm sum.split_asm prod.split_asm dest!: copy_into_place_keeps)
  from t(3) assms(3) have copied: "copyDirRecursive t None = (None, d)" by simp
  show ?thesis
  proof (cases d)
    case None
    have "\<not> isRootRepositoryMetadata dot" by (simp add: isRootRepositoryMetadata_def gitDirectoryName_def)
    with copied None show ?thesis
      by (cases t) (auto simp: copyDirRecursive_def find_node_def put_node_def split: prod.splits sum.splits)
  next
    case (Some tree)
    with copy_preserves_hash [of t tree] copied t show ?thesis by auto
  qed
qed

definition same_records :: "'v project \<Rightarrow> 'v project \<Rightarrow> bool" where
  "same_records p q \<longleftrightarrow> pj_yml q = pj_yml p \<and> pj_lock q = pj_lock p \<and> pj_prov q = pj_prov p
     \<and> pj_configs q = pj_configs p \<and> pj_gitignore q = pj_gitignore p"

lemma install_loop_frame:
  "install_loop tools opts lf names result p = (r, p') \<Longrightarrow>
     same_records p p' \<and> (\<forall>n. n \<notin> set names \<longrightarrow> pj_installed p' n = pj_installed p n)"
proof (induction names arbitrary: result p)
  case (Cons name names)
  show ?case
  proof (cases "map_of (lf_Packs lf) name")
    case None
    with Cons.prems Cons.IH show ?thesis by fastforce
  next
    case (Some entry)
    obtain s q where s: "install_pack tools opts name entry p = (s, q)" by fastforce
    from install_pack_keeps [OF s] have q: "same_records p q" "\<forall>n. n \<noteq> name \<longrightarrow> pj_installed q n = pj_installed p n"
      by (auto simp: same_records_def)
    show ?thesis
    proof (cases s)
      case (Inl e)
      with Cons.prems Some s q show ?thesis by auto
    next
      case (Inr ws)
      with Cons.prems Some s have "install_loop tools opts lf names
          \<lparr>ir_InstalledPacks = ir_InstalledPacks result @ [name], ir_Warnings = ir_Warnings result @ ws\<rparr> q = (r, p')" by simp
      from Cons.IH [OF this] q show ?thesis by (simp add: same_records_def)
    qed
  qed
qed (simp add: same_records_def)

lemma install_loop_done:
  "install_loop tools opts lf names result p = (Inr res, p') \<Longrightarrow> distinct names \<Longrightarrow> sound_sources tools \<Longrightarrow>
     ir_InstalledPacks res = ir_InstalledPacks result @ filter (map_has (lf_Packs lf)) names
     \<and> (\<forall>name entry. name \<in> set names \<longrightarrow> map_of (lf_Packs lf) name = Some entry \<longrightarrow> pj_installed p name = None \<longrightarrow>
           (\<exists>d. pj_installed p' name = Some d \<and> tree_hash d = Inr (le_ContentHash entry)))"
proof (induction names arbitrary: result p)
  case (Cons name names)
  show ?case
  proof (cases "map_of (lf_Packs lf) name")
    case None
    with Cons show ?thesis by fastforce
  next
    case (Some entry)
    with Cons.prems(1) obtain ws q where s: "install_pack tools opts name entry p = (Inr ws, q)"
      and rest: "install_loop tools opts lf names
          \<lparr>ir_InstalledPacks = ir_InstalledPacks result @ [name], ir_Warnings = ir_Warnings result @ ws\<rparr> q = (Inr res, p')"
      by (auto split: prod.splits sum.splits)
    from install_pack_keeps [OF s] obtain d where q: "q = p\<lparr>pj_installed := (pj_installed p)(name := d)\<rparr>" ..
    have own: "pj_installed p' name = pj_installed q name"
      using install_loop_frame [OF rest] Cons.prems(2) by auto
    have fresh: "\<exists>d. pj_installed q name = Some d \<and> tree_hash d = Inr (le_ContentHash entry)" if "pj_installed p name = None"
      using install_pack_fresh [OF s Cons.prems(3) that] .
    from Cons.IH [OF rest] Cons.prems(2,3) have
      ih: "ir_InstalledPacks res = (ir_InstalledPacks result @ [name]) @ filter (map_has (lf_Packs lf)) names"
      "\<And>n e. n \<in> set names \<Longrightarrow> map_of (lf_Packs lf) n = Some e \<Longrightarrow> pj_installed q n = None \<Longrightarrow>
           \<exists>d. pj_installed p' n = Some d \<and> tree_hash d = Inr (le_ContentHash e)" by auto
    show ?thesis
    proof (intro conjI allI impI)
      show "ir_InstalledPacks res = ir_InstalledPacks result @ filter (map_has (lf_Packs lf)) (name # names)"
        using ih(1) Some by simp
      fix n e assume n: "n \<in> set (name # names)" "map_of (lf_Packs lf) n = Some e" "pj_installed p n = None"
      show "\<exists>d. pj_installed p' n = Some d \<and> tree_hash d = Inr (le_ContentHash e)"
      proof (cases "n = name")
        case True
        with n fresh own Some show ?thesis by simp
      next
        case False
        with n ih(2) q show ?thesis by simp
      qed
    qed
  qed
qed simp


text \<open>The example pack, its hash, and a project whose lock pins it.\<close>

abbreviation demo_tree :: PackNode where
  "demo_tree \<equiv> PDir [] [PFile ''pack.yml'' (Inr ''y'')]"

lemma demo_tree_hash: "\<exists>h. tree_hash demo_tree = Inr h"
  by (simp add: tree_hash_Inr isRootRepositoryMetadata_def gitDirectoryName_def child_rel_def)

abbreviation demo_locked :: "string \<Rightarrow> string project" where
  "demo_locked h \<equiv> demo_project\<lparr>pj_lock := Holds \<lparr>lf_Packs = [(''a/b'', zero_entry\<lparr>le_GitRef := Some ''v1'', le_ContentHash := h\<rparr>)]\<rparr>\<rparr>"

abbreviation demo_install :: InstallOptions where
  "demo_install \<equiv> \<lparr>io_ProjectDir = ''/w'', io_CachePath = [], io_LocalPackDir = []\<rparr>"

lemma demo_sound: "sound_sources demo_tools"
  by (simp add: sound_sources_def demo_tools_def)

lemma demo_install_run:
  assumes "tree_hash demo_tree = Inr h" "copyDirRecursive demo_tree old = (None, new)"
  shows "\<exists>res p'. InstallCommand_Run demo_tools demo_install ((demo_locked h)\<lparr>pj_installed := (\<lambda>_. None)(''a/b'' := old)\<rparr>) = (Inr res, p')
     \<and> ir_InstalledPacks res = [''a/b''] \<and> pj_installed p' ''a/b'' = new"
proof (cases "RemoteURLForEntry ''a/b'' (zero_entry\<lparr>le_GitRef := Some ''v1'', le_ContentHash := h\<rparr>)")
  case (Pair url warn)
  with assms show ?thesis
    by (simp add: InstallCommand_Run_def readManifestPacks_def Let_def install_pack_def git_source_def copy_into_place_def zero_entry_def)
qed


text \<open>Install overlays, it does not replace. A file that was added to an installed pack and that
  the source does not have survives a successful install of that pack, so the tree still differs
  from the locked one, although the lock check tells the user to restore it by installing.\<close>

theorem install_keeps_strays:
  assumes "install_pack tools opts name entry p = (Inr ws, p')" "le_SourceType entry \<noteq> ''local''"
    and "git_source tools opts name entry = Inr (PDir m cs, warnings)"
    and "pj_installed p name = Some (PDir n es)" "stray \<in> set es" "pnode_name stray \<notin> pnode_name ` set cs"
  shows "stray \<in> set (dir_entries (pj_installed p' name))"
proof -
  from assms(1-4) obtain d where d: "copyDirRecursive (PDir m cs) (Some (PDir n es)) = (None, d)"
      "p' = p\<lparr>pj_installed := (pj_installed p)(name := d)\<rparr>"
    by (auto simp: install_pack_def split: sum.split_asm if_split_asm prod.split_asm option.split_asm dest!: copy_into_place_keeps)
  from copyDirRecursive_dir [OF d(1)] obtain es' where
    es': "d = Some (PDir [] es')" "copy_children dot cs es = (None, es')" by auto
  from copy_children_keeps [OF es'(2) assms(5,6)] es'(1) d(2) show ?thesis by simp
qed

theorem install_keeps_strays_witness:
  "\<exists>h ws p'. install_pack demo_tools demo_install ''a/b'' (zero_entry\<lparr>le_GitRef := Some ''v1'', le_ContentHash := h\<rparr>)
        (demo_project\<lparr>pj_installed := (\<lambda>_. Some (PDir [] [PFile ''evil'' (Inr ''x'')]))\<rparr>) = (Inr ws, p')
     \<and> PFile ''evil'' (Inr ''x'') \<in> set (dir_entries (pj_installed p' ''a/b''))"
proof -
  obtain h where h: "tree_hash demo_tree = Inr h" using demo_tree_hash by blast
  let ?e = "zero_entry\<lparr>le_GitRef := Some ''v1'', le_ContentHash := h\<rparr>"
  let ?p = "demo_project\<lparr>pj_installed := (\<lambda>_. Some (PDir [] [PFile ''evil'' (Inr ''x'')]))\<rparr>"
  have c: "copyDirRecursive demo_tree (Some (PDir [] [PFile ''evil'' (Inr ''x'')]))
      = (None, Some (PDir [] [PFile ''evil'' (Inr ''x''), PFile ''pack.yml'' (Inr ''y'')]))" by code_simp
  obtain warnings where g: "git_source demo_tools demo_install ''a/b'' ?e = Inr (demo_tree, warnings)"
    by (cases "RemoteURLForEntry ''a/b'' ?e") (simp add: git_source_def zero_entry_def)
  then obtain ws p' where r: "install_pack demo_tools demo_install ''a/b'' ?e ?p = (Inr ws, p')"
    using h c by (simp add: install_pack_def copy_into_place_def zero_entry_def)
  from install_keeps_strays [OF r _ g, of "[]" "[PFile ''evil'' (Inr ''x'')]" "PFile ''evil'' (Inr ''x'')"]
  have "PFile ''evil'' (Inr ''x'') \<in> set (dir_entries (pj_installed p' ''a/b''))" by (simp add: zero_entry_def)
  with r show ?thesis by blast
qed

subsection \<open>Updating\<close>

lemma replaceInstalledPack_done:
  assumes "replaceInstalledPack tools p projectDir name t = (Inr h, p')"
  shows "(\<exists>d. pj_installed p' name = Some d \<and> tree_hash d = Inr h \<and> copyDirRecursive t None = (None, Some d))
    \<and> same_records p p' \<and> (\<forall>other. other \<noteq> name \<longrightarrow> pj_installed p' other = pj_installed p other)"
  using assms
  by (auto simp: replaceInstalledPack_def copy_into_place_def Let_def same_records_def
      split: option.split_asm prod.split_asm)

lemma updatePackVersion_done:
  "updatePackVersion tools p name version = (None, p') \<Longrightarrow>
     \<exists>packs. pj_yml p = Holds packs \<and> p' = p\<lparr>pj_yml := Holds (map_set name version packs)\<rparr>"
  by (cases "pj_yml p") (auto simp: updatePackVersion_def write_yml_def split: option.split_asm)

lemma recordGitPackInLock_done:
  assumes "recordGitPackInLock tools p name version h coordinate = (None, p')"
  shows "\<exists>entry lf. pj_lock p' = Holds lf \<and> map_of (lf_Packs lf) name = Some entry
       \<and> le_ContentHash entry = h \<and> le_Version entry = version
       \<and> (\<forall>other. other \<noteq> name \<longrightarrow> map_of (lf_Packs lf) other = map_of (lf_Packs (lock_or_fresh p)) other)"
    and "pj_yml p' = pj_yml p" "pj_installed p' = pj_installed p" "pj_configs p' = pj_configs p"
  using write_lock_keeps(1) [OF assms [unfolded recordGitPackInLock_def]] by simp_all

lemma record_update_done:
  assumes "record_update tools projectDir packName resolved ident t p = (Inr h, p')"
  shows "\<exists>d lf entry packs. pj_installed p' (ri_InstallName ident) = Some d \<and> tree_hash d = Inr h
    \<and> pj_lock p' = Holds lf \<and> map_of (lf_Packs lf) (ri_InstallName ident) = Some entry
    \<and> le_ContentHash entry = h \<and> le_Version entry = resolved
    \<and> pj_yml p = Holds packs \<and> pj_yml p' = Holds (map_set (ri_InstallName ident) resolved packs)
    \<and> pj_configs p' = pj_configs p
    \<and> (\<forall>other. other \<noteq> ri_InstallName ident \<longrightarrow> pj_installed p' other = pj_installed p other
          \<and> map_of (lf_Packs lf) other = map_of (lf_Packs (lock_or_fresh p)) other)"
proof -
  from assms obtain p1 p2 where
    r: "replaceInstalledPack tools p projectDir (ri_InstallName ident) t = (Inr h, p1)"
    and u: "updatePackVersion tools p1 (ri_InstallName ident) resolved = (None, p2)"
    and l: "recordGitPackInLock tools p2 (ri_InstallName ident) resolved h (recordedCoordinateFor p2 packName) = (None, p')"
    by (auto simp: record_update_def split: prod.split_asm sum.split_asm option.split_asm)
  note r' = replaceInstalledPack_done [OF r, unfolded same_records_def]
  from updatePackVersion_done [OF u] r' obtain packs where
    y: "pj_yml p = Holds packs" "p2 = p1\<lparr>pj_yml := Holds (map_set (ri_InstallName ident) resolved packs)\<rparr>" by auto
  have "lock_or_fresh p2 = lock_or_fresh p" using r' y by (simp add: lock_or_fresh_def)
  with recordGitPackInLock_done [OF l] r' y show ?thesis by auto
qed

lemma UpdateCommand_Run_done:
  assumes "UpdateCommand_Run tools scratch projectDir acknowledge packName p = (Inr result, p')" "\<not> ur_NoOp result"
  obtains coordinate t ident where
    "ResolveLatestCompatible (t_listTags tools) coordinate (ur_OldVersion result) = Inr (ur_NewVersion result)"
    "readPackVersion p packName = Inr (ur_OldVersion result, False)"
    "ur_NewVersion result \<noteq> ur_OldVersion result" "\<not> IsMajorBump (ur_OldVersion result) (ur_NewVersion result)"
    "t_clone tools (resolveGitURL coordinate) (''v'' @ ur_NewVersion result) = Inr t"
    "\<forall>old. pj_installed p packName = Some old \<longrightarrow> (\<exists>found.
       DetectTamper (two_trees old t) (t_yamlRules tools) ''/old'' ''/new'' = Inr found \<and> (tr_HasTamper found \<longrightarrow> acknowledge))"
    "record_update tools projectDir packName (ur_NewVersion result) ident t p = (Inr (ur_ContentHash result), p')"
  using assms unfolding UpdateCommand_Run_def Let_def
  by (auto split: prod.split_asm sum.split_asm if_split_asm option.split_asm)



end
