(* ===== verification/Pack_Git.thy ===== *)
theory Pack_Git
  imports Pack_Commands
begin

text \<open>
  The production git client (\<open>pkg/pack/distribution/gitcloner.go\<close>): what it refuses before git
  runs, the one command line it runs, how it reads a tag listing, and what it hands back of a
  clone.  The git process is a parameter: the outcome of running a binary with an argument list,
  and the tree that run leaves in the destination directory.  What the lifecycle commands rely
  on is the locale \<open>git_cloner\<close>.
\<close>

definition defaultGitBinary :: string where "defaultGitBinary = ''git''"
definition tagRefPrefix :: string where "tagRefPrefix = ''refs/tags/''"
definition peeledRefSuffix :: string where "peeledRefSuffix = ''^{}''"
definition optionPrefix :: string where "optionPrefix = ''-''"

text \<open>How a run of git ends: past its deadline, without an executable, with an error, or with output;
  the first and third with what git wrote to its error stream.\<close>

datatype git_outcome =
    GitTimedOut (go_stderr: string)
  | GitNotFound (go_error: string)
  | GitFailed (go_error: string) (go_stderr: string)
  | GitDone (go_stdout: string)

record ExecGitCloner =
  gc_GitBinary :: string
  gc_Timeout :: int

text \<open>Five minutes, in nanoseconds.\<close>

definition defaultGitTimeout :: int where "defaultGitTimeout = 300000000000"

definition NewExecGitCloner :: ExecGitCloner where
  "NewExecGitCloner = \<lparr>gc_GitBinary = [], gc_Timeout = defaultGitTimeout\<rparr>"

definition cloner_binary :: "ExecGitCloner \<Rightarrow> string" where
  "cloner_binary c = (if gc_GitBinary c \<noteq> [] then gc_GitBinary c else defaultGitBinary)"

definition invocationTimeout :: "ExecGitCloner \<Rightarrow> int" where
  "invocationTimeout c = (if gc_Timeout c > 0 then gc_Timeout c else defaultGitTimeout)"

definition environmentDefines :: "string list \<Rightarrow> string \<Rightarrow> bool" where
  "environmentDefines environment name \<longleftrightarrow> (\<exists>entry\<in>set environment. HasPrefix entry (name @ ''=''))"

definition nonInteractiveGitEnv :: "string list \<Rightarrow> string list" where
  "nonInteractiveGitEnv ambient =
     ''GIT_TERMINAL_PROMPT=0''
     # (if environmentDefines ambient ''GIT_SSH_COMMAND'' then [] else [''GIT_SSH_COMMAND=ssh -o BatchMode=yes''])"

definition isOptionLike :: "string \<Rightarrow> bool" where
  "isOptionLike value \<longleftrightarrow> HasPrefix value optionPrefix"

definition optionLikeArgumentError :: "string \<Rightarrow> string \<Rightarrow> string \<Rightarrow> string" where
  "optionLikeArgumentError operation role value =
     ''git '' @ operation @ '' refused: the '' @ role @ '' '' @ quote value @ '' begins with '' @ quote optionPrefix
     @ '', which git would read as an option; git was not invoked''"

definition describeTarget :: "string \<Rightarrow> string \<Rightarrow> string" where
  "describeTarget url ref =
     (if ref = [] then ''repository '' @ url else ''repository '' @ url @ '' at ref '' @ ref)"

definition captured_output :: "string \<Rightarrow> string" where
  "captured_output captured =
     (let trimmed = TrimSpace captured in if trimmed = [] then ''git wrote nothing to stderr'' else trimmed)"

text \<open>One run: the binary, the environment overlay and the arguments go to git; \<open>fmt\<close> renders the
  timeout. The result is the standard output or the error message.\<close>

type_synonym git_process = "string \<Rightarrow> string list \<Rightarrow> string list \<Rightarrow> git_outcome"

definition git_run ::
  "git_process \<Rightarrow> (int \<Rightarrow> string) \<Rightarrow> string list \<Rightarrow> ExecGitCloner \<Rightarrow> string \<Rightarrow> string \<Rightarrow> string \<Rightarrow> string list \<Rightarrow> string + string" where
  "git_run git fmt ambient c operation url ref args =
     (let target = describeTarget url ref in
      case git (cloner_binary c) (ambient @ nonInteractiveGitEnv ambient) args of
        GitTimedOut stderr \<Rightarrow>
          Inl (''git '' @ operation @ '' of '' @ target @ '' timed out after '' @ fmt (invocationTimeout c) @ '': '' @ captured_output stderr)
      | GitNotFound err \<Rightarrow>
          Inl (''git '' @ operation @ '' of '' @ target @ '' could not run the git executable '' @ quote (cloner_binary c) @ '': '' @ err)
      | GitFailed err stderr \<Rightarrow>
          Inl (''git '' @ operation @ '' of '' @ target @ '' failed: '' @ err @ '': '' @ captured_output stderr)
      | GitDone stdout \<Rightarrow> Inr stdout)"

definition clone_args :: "string \<Rightarrow> string \<Rightarrow> string \<Rightarrow> string list" where
  "clone_args url version destDir =
     [''clone'', ''--depth=1'', ''--single-branch'', ''--branch='' @ version, ''--'', url, destDir]"

text \<open>Removing the metadata directory at the root of the tree a clone left; \<open>removal\<close> is the error of that
  removal, if it fails.\<close>

definition stripRootGitDirectory ::
  "string option \<Rightarrow> string \<Rightarrow> string \<Rightarrow> string \<Rightarrow> PackNode \<Rightarrow> string + PackNode" where
  "stripRootGitDirectory removal destDir url ref t =
     (case removal of
        Some err \<Rightarrow> Inl (''git clone of '' @ describeTarget url ref @ '' materialized '' @ destDir @ '' but its '' @ gitDirectoryName
                        @ '' directory could not be removed ('' @ err @ ''); refusing to hand back a partially stripped tree'')
      | None \<Rightarrow> Inr (case t of PFile n c \<Rightarrow> PFile n c
                               | PDir n cs \<Rightarrow> PDir n (filter (\<lambda>c. pnode_name c \<noteq> gitDirectoryName) cs)))"

definition ExecGitCloner_Clone ::
  "git_process \<Rightarrow> (int \<Rightarrow> string) \<Rightarrow> string list \<Rightarrow> (string list \<Rightarrow> PackNode) \<Rightarrow> string option \<Rightarrow> ExecGitCloner
     \<Rightarrow> string \<Rightarrow> string \<Rightarrow> string \<Rightarrow> string + PackNode" where
  "ExecGitCloner_Clone git fmt ambient left removal c url version destDir =
     (if isOptionLike url then Inl (optionLikeArgumentError ''clone'' ''repository URL'' url)
      else if isOptionLike version then Inl (optionLikeArgumentError ''clone'' ''ref'' version)
      else (case git_run git fmt ambient c ''clone'' url version (clone_args url version destDir) of
              Inl err \<Rightarrow> Inl err
            | Inr _ \<Rightarrow> stripRootGitDirectory removal destDir url version (left (clone_args url version destDir))))"

definition tag_of_line :: "string \<Rightarrow> string list" where
  "tag_of_line line =
     (case Cut (TrimSpace line) (CHR 0x09) of
        None \<Rightarrow> []
      | Some (_, rest) \<Rightarrow>
          let ref = TrimSpace rest in
          if \<not> HasPrefix ref tagRefPrefix then []
          else let name = TrimPrefix ref tagRefPrefix in
               if HasSuffix name peeledRefSuffix then [] else [name])"

definition ExecGitCloner_ListTags ::
  "git_process \<Rightarrow> (int \<Rightarrow> string) \<Rightarrow> string list \<Rightarrow> ExecGitCloner \<Rightarrow> string \<Rightarrow> string + string list" where
  "ExecGitCloner_ListTags git fmt ambient c url =
     (if isOptionLike url then Inl (optionLikeArgumentError ''ls-remote'' ''repository URL'' url)
      else (case git_run git fmt ambient c ''ls-remote'' url [] [''ls-remote'', ''--tags'', ''--'', url] of
              Inl err \<Rightarrow> Inl (''cannot determine the available versions of '' @ url @ '': '' @ err)
            | Inr output \<Rightarrow> Inr (concat (map tag_of_line (Split output (CHR 0x0A))))))"

subsection \<open>What a cloner promises\<close>

text \<open>The root of a clone carries no repository metadata.\<close>

definition root_stripped :: "PackNode \<Rightarrow> bool" where
  "root_stripped t \<longleftrightarrow> gitDirectoryName \<notin> pnode_name ` set (dir_entries (Some t))"

locale git_cloner =
  fixes clone :: "string \<Rightarrow> string \<Rightarrow> string + PackNode"
    and listTags :: "string \<Rightarrow> string + string list"
  assumes clone_refuses: "isOptionLike url \<or> isOptionLike ref \<Longrightarrow> isl (clone url ref)"
    and list_refuses: "isOptionLike url \<Longrightarrow> isl (listTags url)"
    and clone_stripped: "clone url ref = Inr t \<Longrightarrow> root_stripped t"
    and list_unpeeled: "listTags url = Inr tags \<Longrightarrow> tag \<in> set tags \<Longrightarrow> \<not> HasSuffix tag peeledRefSuffix"
begin

lemma source_stripped:
  assumes "t_clone tools = clone" "resolve_git_source tools packRef version = Inr src"
  shows "root_stripped (as_tree src)"
  using assms clone_stripped by (fastforce simp: resolve_git_source_def split: sum.splits)

text \<open>A reference that git would read as an option never reaches git from \<open>pack add\<close>.\<close>

lemma source_ref_plain:
  assumes "t_clone tools = clone" "resolve_git_source tools packRef version = Inr src" "as_gitRef src = Some ref"
  shows "\<not> isOptionLike (resolveGitURL (as_coordinate src))"
proof
  assume "isOptionLike (resolveGitURL (as_coordinate src))"
  moreover from assms(2) obtain ref' where "t_clone tools (resolveGitURL (as_coordinate src)) ref' = Inr (as_tree src)"
    by (auto simp: resolve_git_source_def split: sum.splits)
  ultimately show False using assms(1) clone_refuses [of "resolveGitURL (as_coordinate src)" ref'] by simp
qed

end

text \<open>Removing the root metadata removes nothing the content hash covers.\<close>

lemma pack_files_strip:
  "pack_files dot (PDir n (filter (\<lambda>c. pnode_name c \<noteq> gitDirectoryName) cs)) = pack_files dot (PDir n cs)"
proof -
  have "pack_files (child_rel dot c) c = []" if "pnode_name c = gitDirectoryName" for c
    using that by (cases c) (auto simp: child_rel_def isRootRepositoryMetadata_def)
  then have "concat (map (\<lambda>c. pack_files (child_rel dot c) c) (filter (\<lambda>c. pnode_name c \<noteq> gitDirectoryName) cs))
      = concat (map (\<lambda>c. pack_files (child_rel dot c) c) cs)"
    by (induction cs) auto
  then show ?thesis by simp
qed

lemma tree_hash_strip:
  "tree_hash (PDir n (filter (\<lambda>c. pnode_name c \<noteq> gitDirectoryName) cs)) = tree_hash (PDir n cs)"
proof -
  have "hash_walk (child_rel dot c) c = Inr []" if "pnode_name c = gitDirectoryName" for c
    using that by (cases c) (auto simp: child_rel_def isRootRepositoryMetadata_def)
  then have "concat_results (map (\<lambda>c. hash_walk (child_rel dot c) c) (filter (\<lambda>c. pnode_name c \<noteq> gitDirectoryName) cs))
      = concat_results (map (\<lambda>c. hash_walk (child_rel dot c) c) cs)"
  proof (induction cs)
    case (Cons a cs)
    then show ?case by (cases "hash_walk (child_rel dot a) a") (auto split: sum.splits)
  qed simp
  then show ?thesis by (simp add: tree_hash_def)
qed

lemma stripped_tree:
  assumes "stripRootGitDirectory removal destDir url ref raw = Inr t"
  shows "root_stripped t" "pack_files dot t = pack_files dot raw" "tree_hash t = tree_hash raw"
  using assms pack_files_strip tree_hash_strip
  by (cases raw; auto simp: stripRootGitDirectory_def root_stripped_def split: option.splits)+

lemma clone_stripped_tree:
  assumes "ExecGitCloner_Clone git fmt ambient left removal c url version destDir = Inr t"
  shows "stripRootGitDirectory removal destDir url version (left (clone_args url version destDir)) = Inr t"
  using assms by (auto simp: ExecGitCloner_Clone_def split: if_splits sum.splits)

lemma tag_of_line_unpeeled: "tag \<in> set (tag_of_line line) \<Longrightarrow> \<not> HasSuffix tag peeledRefSuffix"
  by (auto simp: tag_of_line_def Let_def split: option.splits if_splits)

interpretation exec_git: git_cloner "\<lambda>url ref. ExecGitCloner_Clone git fmt ambient left removal c url ref destDir"
  "ExecGitCloner_ListTags git fmt ambient c"
  for git fmt ambient left removal c destDir
proof unfold_locales
  fix url ref
  show "isOptionLike url \<or> isOptionLike ref \<Longrightarrow> isl (ExecGitCloner_Clone git fmt ambient left removal c url ref destDir)"
    by (auto simp: ExecGitCloner_Clone_def)
  show "isOptionLike url \<Longrightarrow> isl (ExecGitCloner_ListTags git fmt ambient c url)"
    by (simp add: ExecGitCloner_ListTags_def)
  show "root_stripped t" if "ExecGitCloner_Clone git fmt ambient left removal c url ref destDir = Inr t" for t
    using stripped_tree(1) [OF clone_stripped_tree [OF that]] .
  show "\<not> HasSuffix tag peeledRefSuffix"
    if "ExecGitCloner_ListTags git fmt ambient c url = Inr tags" "tag \<in> set tags" for tags tag
    using that by (auto simp: ExecGitCloner_ListTags_def dest: tag_of_line_unpeeled split: if_splits sum.splits)
qed

subsection \<open>Clones and tag listings\<close>

text \<open>A clone hands back content only, and its identity is reproducible. A successful clone ran git
  once, in batch mode, with the URL and the reference in positions git cannot read as options; the
  tree returned has no repository metadata at its root; and its content hash is that of the tree
  git left, so two clones of a tag that differ in their metadata only hash alike.\<close>

theorem clone_hash_reproducible:
  assumes "ExecGitCloner_Clone git fmt ambient left removal c url version destDir = Inr t"
  shows "\<not> isOptionLike url \<and> \<not> isOptionLike version
    \<and> (\<exists>out. git (cloner_binary c) (ambient @ nonInteractiveGitEnv ambient) (clone_args url version destDir) = GitDone out)
    \<and> root_stripped t
    \<and> pack_files dot t = pack_files dot (left (clone_args url version destDir))
    \<and> tree_hash t = tree_hash (left (clone_args url version destDir))"
  using assms stripped_tree [OF clone_stripped_tree [OF assms]]
  by (auto simp: ExecGitCloner_Clone_def git_run_def Let_def split: if_splits sum.splits git_outcome.splits)

theorem clone_hash_reproducible_witness:
  "tree_hash (PDir ''d'' [PFile ''a'' (Inr ''x'')]) = tree_hash (PDir ''d'' [PDir ''.git'' [PFile ''HEAD'' (Inr ''1'')], PFile ''a'' (Inr ''x'')])"
proof -
  have "ExecGitCloner_Clone (\<lambda>_ _ _. GitDone []) (\<lambda>_. ''5m0s'') [] (\<lambda>_. PDir ''d'' [PDir ''.git'' [PFile ''HEAD'' (Inr ''1'')], PFile ''a'' (Inr ''x'')])
      None NewExecGitCloner ''https://github.com/a/b.git'' ''v1.0.0'' ''d'' = Inr (PDir ''d'' [PFile ''a'' (Inr ''x'')])"
    by code_simp
  from clone_hash_reproducible [OF this] show ?thesis by blast
qed

text \<open>A tag listing is exact. The names returned are those of the \<open>refs/tags/\<close> lines git printed, in
  order and without the peeled duplicates; every failure of git, and a URL git would read as an
  option, is an error and never an empty listing.\<close>

theorem list_tags_exact:
  "case ExecGitCloner_ListTags git fmt ambient c url of
     Inl _ \<Rightarrow>
       (case git (cloner_binary c) (ambient @ nonInteractiveGitEnv ambient) [''ls-remote'', ''--tags'', ''--'', url] of
          GitDone _ \<Rightarrow> isOptionLike url
        | _ \<Rightarrow> True)
   | Inr tags \<Rightarrow>
       \<exists>out. git (cloner_binary c) (ambient @ nonInteractiveGitEnv ambient) [''ls-remote'', ''--tags'', ''--'', url] = GitDone out
         \<and> set tags = {tag. \<not> HasSuffix tag peeledRefSuffix
              \<and> (\<exists>line\<in>set (Split out (CHR 0x0A)). \<exists>object rest. Cut (TrimSpace line) (CHR 0x09) = Some (object, rest)
                    \<and> TrimSpace rest = tagRefPrefix @ tag)}"
proof -
  have line: "tag \<in> set (tag_of_line line) \<longleftrightarrow> \<not> HasSuffix tag peeledRefSuffix
      \<and> (\<exists>object rest. Cut (TrimSpace line) (CHR 0x09) = Some (object, rest) \<and> TrimSpace rest = tagRefPrefix @ tag)" for tag line
  proof (cases "Cut (TrimSpace line) (CHR 0x09)")
    case (Some cut)
    then show ?thesis by (cases cut) (auto simp: tag_of_line_def Let_def TrimPrefix_def prefix_def)
  qed (simp add: tag_of_line_def)
  have "set (concat (map tag_of_line lines)) = {tag. \<not> HasSuffix tag peeledRefSuffix
      \<and> (\<exists>line\<in>set lines. \<exists>object rest. Cut (TrimSpace line) (CHR 0x09) = Some (object, rest)
            \<and> TrimSpace rest = tagRefPrefix @ tag)}" for lines
    by (simp add: set_eq_iff line)
  then show ?thesis
    by (simp add: ExecGitCloner_ListTags_def git_run_def Let_def split: sum.split git_outcome.split)
qed

end
