(* ===== verification/Recipe_Manifest.thy ===== *)
theory Recipe_Manifest
  imports Go_Disk
begin

text \<open>
  Recipes before they are applied (\<open>pkg/recipe/substitute.go\<close>, \<open>manifest.go\<close>, \<open>resolve.go\<close>,
  \<open>adoption.go\<close>): placeholder substitution, the structural validation of a recipe manifest, the
  pinned reference grammar and its resolution against the installed packs, and the tracked
  adoption record.  YAML decoding and encoding are parameters; files are on the disk of \<open>Go_Disk\<close>.
\<close>

subsection \<open>Substitution\<close>

definition placeholderOpen :: string where "placeholderOpen = ''{{''"
definition placeholderClose :: string where "placeholderClose = ''}}''"

definition unresolvable :: "string \<Rightarrow> string" where
  "unresolvable name = ''unresolvable placeholder '' @ placeholderOpen @ '' '' @ name @ '' '' @ placeholderClose
     @ '': no declared param named '' @ quote name"

lemma Index_open_length: "Index rest placeholderOpen = Some opn \<Longrightarrow> 0 < length rest"
  by (auto simp: placeholderOpen_def)

text \<open>The loop: \<open>out\<close> is what was written, \<open>rest\<close> what is still to be scanned.\<close>

function subst_loop :: "(string, string) gomap \<Rightarrow> string \<Rightarrow> string \<Rightarrow> string + string" where
  "subst_loop params out rest =
     (case Index rest placeholderOpen of
        None \<Rightarrow> Inr (out @ rest)
      | Some opn \<Rightarrow>
          (case Index (drop (opn + length placeholderOpen) rest) placeholderClose of
             None \<Rightarrow> Inr (out @ rest)
           | Some fin \<Rightarrow>
               (case map_of params (TrimSpace (take fin (drop (opn + length placeholderOpen) rest))) of
                  None \<Rightarrow> Inl (unresolvable (TrimSpace (take fin (drop (opn + length placeholderOpen) rest))))
                | Some value \<Rightarrow>
                    subst_loop params (out @ take opn rest @ value)
                      (drop (fin + length placeholderClose) (drop (opn + length placeholderOpen) rest)))))"
  by pat_completeness auto
termination
  by (relation "measure (\<lambda>(params, out, rest). length rest)") (use Index_open_length in \<open>force simp: placeholderOpen_def\<close>)+

declare subst_loop.simps [simp del]

definition Substitute :: "string \<Rightarrow> (string, string) gomap \<Rightarrow> string + string" where
  "Substitute template params = subst_loop params [] template"

subsection \<open>The recipe manifest\<close>

definition KindScaffolding :: string where "KindScaffolding = ''scaffolding''"
definition KindImplementing :: string where "KindImplementing = ''implementing''"
definition KindTemplating :: string where "KindTemplating = ''templating''"

definition OpCreate :: string where "OpCreate = ''create''"
definition OpMerge :: string where "OpMerge = ''merge''"
definition OpTransform :: string where "OpTransform = ''transform''"
definition OpInsert :: string where "OpInsert = ''insert''"
definition OpStep :: string where "OpStep = ''step''"

record RecipeOp =
  op_ID :: string
  op_Kind :: string
  op_Target :: string
  op_Payload :: string
  op_Fragment :: string
  op_Format :: string
  op_Rule :: string
  op_Anchor :: string
  op_Snippet :: string
  op_Manual :: string

record ParamSpec =
  ps_Name :: string
  ps_Required :: bool
  ps_Default :: string

record EnforcementDecl =
  en_Rules :: "string list"

record CompatSelector =
  cs_File :: string
  cs_Path :: string
  cs_Range :: string

record RecipeVariant =
  va_Compat :: "CompatSelector list"
  va_Ops :: "RecipeOp list"

record RecipeManifest =
  rm_Kind :: string
  rm_Version :: string
  rm_Params :: "ParamSpec list"
  rm_Ops :: "RecipeOp list"
  rm_TransformRules :: "string list"
  rm_Enforcement :: "EnforcementDecl option"
  rm_Compat :: "CompatSelector list"
  rm_Variants :: "RecipeVariant list"

definition recipeLabel :: "RecipeManifest \<Rightarrow> string" where
  "recipeLabel m = ''recipe (kind '' @ quote (rm_Kind m) @ '', version '' @ quote (rm_Version m) @ '')''"

definition validateRecipeHeader :: "RecipeManifest \<Rightarrow> string option" where
  "validateRecipeHeader m =
     (if rm_Version m = [] then Some ''recipe is missing 'version' (semver MAJOR.MINOR.PATCH)''
      else if \<not> strictSemverPattern (rm_Version m) then
        Some (''recipe 'version' '' @ quote (rm_Version m) @ '' must be semver MAJOR.MINOR.PATCH'')
      else if \<not> (rm_Kind m = KindScaffolding \<or> rm_Kind m = KindImplementing \<or> rm_Kind m = KindTemplating) then
        Some (''recipe 'kind' '' @ quote (rm_Kind m) @ '' must be one of '' @ quote KindScaffolding @ '', ''
              @ quote KindImplementing @ '', '' @ quote KindTemplating)
      else if rm_Ops m = [] then
        Some (recipeLabel m @ '': 'ops' is required and must declare at least one operation'')
      else None)"

definition op_at :: "string \<Rightarrow> nat \<Rightarrow> string" where
  "op_at label i = label @ '': ops['' @ Itoa (int i) @ '']''"

definition ContainsNewline :: "string \<Rightarrow> bool" where
  "ContainsNewline s \<longleftrightarrow> CHR 0x0D \<in> set s \<or> CHR 0x0A \<in> set s"

definition validateMergeFragmentForm :: "string \<Rightarrow> nat \<Rightarrow> RecipeOp \<Rightarrow> string option" where
  "validateMergeFragmentForm label index op =
     (if TrimSpace (op_Fragment op) = [] then
        Some (op_at label index @ '' '' @ quote (op_ID op) @ '' (kind '' @ quote (op_Kind op)
          @ '') declares an empty 'fragment'; a merge op cannot merge nothing, and 'fragment' is a recipe-directory-relative path to a file read from disk'')
      else if ContainsNewline (op_Fragment op) then
        Some (op_at label index @ '' '' @ quote (op_ID op) @ '' (kind '' @ quote (op_Kind op)
          @ '') declares an INLINE 'fragment' block; a fragment is a recipe-directory-relative path to a file read from disk, not inline content''
          @ '' '' @ [CHR 0xE2, CHR 0x80, CHR 0x94]
          @ '' move the content into a file under the recipe directory and declare that file's path'')
      else if Contains (op_Fragment op) placeholderOpen then
        Some (op_at label index @ '' '' @ quote (op_ID op) @ '' (kind '' @ quote (op_Kind op) @ '') declares fragment '' @ quote (op_Fragment op)
          @ '', whose 'fragment' field carries a '' @ placeholderOpen @ '' placeholder; a fragment PATH is resolved under the recipe directory verbatim and is never substituted, so this can only fail to open''
          @ '' '' @ [CHR 0xE2, CHR 0x80, CHR 0x94]
          @ '' the fragment FILE'S content IS still substituted, so move the placeholder into the file'')
      else None)"

definition acceptsInjection :: "RecipeOp \<Rightarrow> bool" where
  "acceptsInjection op \<longleftrightarrow> op_Kind op = OpTransform \<or> op_Kind op = OpInsert"

text \<open>One turn of the loop over the ops: the error, or the ids seen so far with their positions.\<close>

definition validate_op ::
  "string \<Rightarrow> string list \<Rightarrow> nat \<Rightarrow> RecipeOp \<Rightarrow> (string, nat) gomap \<Rightarrow> string + (string, nat) gomap" where
  "validate_op label declaredRules i op seenAt =
     (if acceptsInjection op \<and> TrimSpace (op_ID op) = [] then
        Inl (op_at label i @ '' (kind '' @ quote (op_Kind op) @ '') has an empty id; the op id is the injection-site routing key and must be non-empty'')
      else if op_ID op \<noteq> [] \<and> map_has seenAt (op_ID op) then
        Inl (label @ '': duplicate op id '' @ quote (op_ID op) @ '' declared by ops['' @ Itoa (int (map_get 0 seenAt (op_ID op)))
             @ ''] and ops['' @ Itoa (int i) @ '']'')
      else
        let seenAt' = (if op_ID op \<noteq> [] then map_set (op_ID op) i seenAt else seenAt) in
        if acceptsInjection op \<and> TrimSpace (op_Manual op) = [] then
          Inl (op_at label i @ '' '' @ quote (op_ID op) @ '' (kind '' @ quote (op_Kind op)
               @ '') is missing a non-empty 'manual'; the injection-limit families must declare the human-actionable fallback text'')
        else if op_Kind op = OpTransform \<and> Contains (op_Rule op) placeholderOpen then
          Inl (op_at label i @ '' '' @ quote (op_ID op) @ '' declares rule '' @ quote (op_Rule op) @ '', whose 'rule' field carries a ''
               @ placeholderOpen @ '' placeholder; a rule path is never substituted, because it is validated against the declared transform_rules by exact match and selects which pack asset the engine executes'')
        else if op_Kind op = OpTransform \<and> op_Rule op \<notin> set declaredRules then
          Inl (op_at label i @ '' '' @ quote (op_ID op) @ '' declares rule '' @ quote (op_Rule op)
               @ '', which is not among the recipe's declared transform_rules'')
        else if op_Kind op = OpMerge then
          (case validateMergeFragmentForm label i op of Some err \<Rightarrow> Inl err | None \<Rightarrow> Inr seenAt')
        else Inr seenAt')"

fun validate_ops :: "string \<Rightarrow> string list \<Rightarrow> nat \<Rightarrow> RecipeOp list \<Rightarrow> (string, nat) gomap \<Rightarrow> string option" where
  "validate_ops label declaredRules i [] seenAt = None"
| "validate_ops label declaredRules i (op # ops) seenAt =
     (case validate_op label declaredRules i op seenAt of
        Inl err \<Rightarrow> Some err
      | Inr seenAt' \<Rightarrow> validate_ops label declaredRules (Suc i) ops seenAt')"

definition validateRecipeOps :: "RecipeManifest \<Rightarrow> string option" where
  "validateRecipeOps m = validate_ops (recipeLabel m) (rm_TransformRules m) 0 (rm_Ops m) []"

definition ParseRecipeManifest :: "(string \<Rightarrow> string + RecipeManifest) \<Rightarrow> string \<Rightarrow> string + RecipeManifest" where
  "ParseRecipeManifest unmarshal dat =
     (case unmarshal dat of
        Inl err \<Rightarrow> Inl (''parse recipe yaml: '' @ err)
      | Inr manifest \<Rightarrow>
          (case validateRecipeHeader manifest of
             Some err \<Rightarrow> Inl (''validate recipe manifest: '' @ err)
           | None \<Rightarrow>
               (case validateRecipeOps manifest of
                  Some err \<Rightarrow> Inl (''validate recipe ops: '' @ err)
                | None \<Rightarrow> Inr manifest)))"

subsection \<open>References and resolution\<close>

record RecipeRef =
  rr_Pack :: string
  rr_Recipe :: string
  rr_Version :: string

definition RecipeRef_String :: "RecipeRef \<Rightarrow> string" where
  "RecipeRef_String r = rr_Pack r @ '':'' @ rr_Recipe r @ ''@'' @ rr_Version r"

definition ParseRecipeRef :: "string \<Rightarrow> string + RecipeRef" where
  "ParseRecipeRef raw =
     (if TrimSpace raw = [] then Inl ''recipe ref is empty; expected <pack>:<recipe>@<version>''
      else (case Cut raw (CHR ''@'') of
        None \<Rightarrow> Inl (''recipe ref '' @ quote raw @ '' is unpinned; expected <pack>:<recipe>@<version> with an explicit semver version'')
      | Some (nameAndRecipe, version) \<Rightarrow>
          if \<not> strictSemverPattern version then
            Inl (''recipe ref '' @ quote raw @ '' pins version '' @ quote version @ '', which must be semver MAJOR.MINOR.PATCH'')
          else (case Cut nameAndRecipe (CHR '':'') of
            None \<Rightarrow> Inl (''recipe ref '' @ quote raw @ '' is missing the ':' separating the pack from the recipe id; expected <pack>:<recipe>@<version>'')
          | Some (packName, recipeID) \<Rightarrow>
              if TrimSpace packName = [] then Inl (''recipe ref '' @ quote raw @ '' names an empty pack; expected <pack>:<recipe>@<version>'')
              else if TrimSpace recipeID = [] then Inl (''recipe ref '' @ quote raw @ '' names an empty recipe id; expected <pack>:<recipe>@<version>'')
              else if CHR '':'' \<in> set recipeID then
                Inl (''recipe ref '' @ quote raw @ '' has an extra ':' in its recipe id '' @ quote recipeID @ ''; expected <pack>:<recipe>@<version>'')
              else Inr \<lparr>rr_Pack = packName, rr_Recipe = recipeID, rr_Version = version\<rparr>)))"

record ResolvedRecipe =
  rs_Ref :: RecipeRef
  rs_Dir :: string
  rs_PackDir :: string
  rs_Manifest :: RecipeManifest

text \<open>\<open>%v\<close> of a list of strings.\<close>

definition show_names :: "string list \<Rightarrow> string" where
  "show_names names = ''['' @ Join names '' '' @ '']''"

text \<open>The corpus maps a pack name to the recipe index of its manifest, None for a nil manifest.\<close>

type_synonym pack_corpus = "(string, (string, string) gomap option) gomap"

definition ResolveRecipe ::
  "(string \<Rightarrow> string + string) \<Rightarrow> (string \<Rightarrow> string + RecipeManifest) \<Rightarrow> RecipeRef \<Rightarrow> pack_corpus \<Rightarrow> string
     \<Rightarrow> string + ResolvedRecipe" where
  "ResolveRecipe readFile unmarshal ref packs packDir =
     (if rr_Pack ref = [] \<or> rr_Recipe ref = [] \<or> \<not> strictSemverPattern (rr_Version ref) then
        Inl (''resolve recipe: ref '' @ RecipeRef_String ref @ '' is not a fully pinned <pack>:<recipe>@<version> reference'')
      else (case map_get None packs (rr_Pack ref) of
        None \<Rightarrow> Inl (''resolve recipe '' @ quote (RecipeRef_String ref) @ '': pack '' @ quote (rr_Pack ref)
                    @ '' is not among the installed packs (installed: '' @ show_names (sort (map fst packs)) @ '')'')
      | Some index \<Rightarrow>
          let recipeDir = map_get [] index (rr_Recipe ref) in
          if recipeDir = [] then
            Inl (''resolve recipe '' @ quote (RecipeRef_String ref) @ '': pack '' @ quote (rr_Pack ref) @ '' declares no recipe ''
                 @ quote (rr_Recipe ref) @ '' in its recipes: index (indexed: '' @ show_names (sort (map fst index)) @ '')'')
          else
            let dir = JoinPath [packDir, recipeDir]; manifestPath = JoinPath [dir, ''recipe.yml''] in
            (case readFile manifestPath of
               Inl err \<Rightarrow> Inl (''resolve recipe '' @ quote (RecipeRef_String ref) @ '': read colocated recipe manifest ''
                              @ quote manifestPath @ '': '' @ err)
             | Inr dat \<Rightarrow>
                 (case ParseRecipeManifest unmarshal dat of
                    Inl err \<Rightarrow> Inl (''resolve recipe '' @ quote (RecipeRef_String ref) @ '': '' @ err)
                  | Inr parsed \<Rightarrow>
                      if rm_Version parsed \<noteq> rr_Version ref then
                        Inl (''resolve recipe '' @ quote (RecipeRef_String ref) @ '': ref pins version '' @ quote (rr_Version ref)
                             @ '', but recipe '' @ quote (rr_Recipe ref) @ '' in pack '' @ quote (rr_Pack ref)
                             @ '' declares version '' @ quote (rm_Version parsed))
                      else Inr \<lparr>rs_Ref = ref, rs_Dir = dir, rs_PackDir = packDir, rs_Manifest = parsed\<rparr>))))"

subsection \<open>The adoption record\<close>

definition AdoptionRecordName :: string where "AdoptionRecordName = ''backstop-recipes.lock''"

record AdoptionEntry =
  ae_Recipe :: string
  ae_Version :: string
  ae_Adopted :: string

type_synonym adoptions = "(string, AdoptionEntry) gomap"

definition ReadAdoptions ::
  "(string \<Rightarrow> string + adoptions option) \<Rightarrow> host \<Rightarrow> string \<Rightarrow> disk \<Rightarrow> string + adoptions" where
  "ReadAdoptions unmarshal h path files =
     (case files (open_path h path) of
        Missing \<Rightarrow> Inr []
      | Unreadable err \<Rightarrow> Inl (''read adoption record '' @ quote path @ '': '' @ err)
      | Holds dat \<Rightarrow>
          (case unmarshal dat of
             Inl err \<Rightarrow> Inl (''parse adoption record '' @ quote path @ '': '' @ err)
           | Inr None \<Rightarrow> Inr []
           | Inr (Some recipes) \<Rightarrow> Inr recipes))"

definition adoptionEntryNode :: "AdoptionEntry \<Rightarrow> YNode" where
  "adoptionEntryNode entry =
     YMapping (addScalarPair ''version'' (ae_Version entry)
       (addScalarPair ''recipe'' (ae_Recipe entry) (addScalarPair ''adopted'' (ae_Adopted entry) [])))"

definition adoptions_document :: "adoptions \<Rightarrow> YNode" where
  "adoptions_document recipes =
     YMapping [YScalar [] ''recipes'',
       YMapping (concat (map (\<lambda>ref. case map_of recipes ref of
           None \<Rightarrow> [] | Some entry \<Rightarrow> [YScalar [] ref, adoptionEntryNode entry]) (sort (map fst recipes))))]"

definition WriteAdoptions ::
  "(YNode \<Rightarrow> string + string) \<Rightarrow> host \<Rightarrow> string \<Rightarrow> adoptions \<Rightarrow> disk \<Rightarrow> string option \<times> disk" where
  "WriteAdoptions marshal h path recipes files =
     (case marshal (adoptions_document recipes) of
        Inl err \<Rightarrow> (Some (''marshal adoption record '' @ quote path @ '': '' @ err), files)
      | Inr dat \<Rightarrow>
          (case os_WriteFile h path dat files of
             (Some err, files') \<Rightarrow> (Some (''write adoption record '' @ quote path @ '': '' @ err), files')
           | (None, files') \<Rightarrow> (None, files')))"

subsection \<open>Substitution, declaratively\<close>

text \<open>A template is a list of literals each followed by a placeholder, and a tail without a complete
  placeholder. A literal ends at the first opening delimiter, a placeholder at the first closing one.\<close>

definition segment :: "string \<times> string \<Rightarrow> string" where
  "segment s = fst s @ placeholderOpen @ snd s @ placeholderClose"

definition segment_ok :: "string \<times> string \<Rightarrow> bool" where
  "segment_ok s \<longleftrightarrow> Index (fst s @ placeholderOpen) placeholderOpen = Some (length (fst s))
     \<and> Index (snd s @ placeholderClose) placeholderClose = Some (length (snd s))"

definition no_placeholder :: "string \<Rightarrow> bool" where
  "no_placeholder tail' \<longleftrightarrow>
     (case Index tail' placeholderOpen of
        None \<Rightarrow> True
      | Some opn \<Rightarrow> Index (drop (opn + length placeholderOpen) tail') placeholderClose = None)"

definition filled :: "(string, string) gomap \<Rightarrow> string \<times> string \<Rightarrow> string" where
  "filled params s = fst s @ map_get [] params (TrimSpace (snd s))"

lemma Index_take:
  "Index s sub = Some n \<Longrightarrow> sub \<noteq> [] \<Longrightarrow> s = take n s @ sub @ drop (n + length sub) s \<and> Index (take n s @ sub) sub = Some n \<and> n < length s"
proof (induction s arbitrary: n)
  case (Cons c s)
  show ?case
  proof (cases "prefix sub (c # s)")
    case True
    with Cons.prems have n: "n = 0" by simp
    from True obtain r where r: "c # s = sub @ r" by (auto simp: prefix_def)
    with Cons.prems(2) n show ?thesis by (cases sub) auto
  next
    case False
    with Cons.prems obtain m where m: "n = Suc m" "Index s sub = Some m" by auto
    note ih = Cons.IH [OF m(2) Cons.prems(2)]
    have "\<not> prefix sub (c # take m s @ sub)"
    proof
      assume p: "prefix sub (c # take m s @ sub)"
      have "prefix (c # take m s @ sub) (c # s)" using ih by (metis append_Cons append_assoc prefixI)
      with p False show False using prefix_order.trans by blast
    qed
    with ih m show ?thesis by simp
  qed
qed simp

lemma Index_extend: "Index (s @ sub) sub = Some (length s) \<Longrightarrow> Index (s @ sub @ u) sub = Some (length s)"
proof (induction s)
  case Nil
  then show ?case by (simp add: Index_append_here)
next
  case (Cons c s)
  then have "\<not> prefix sub (c # s @ sub)" "Index (s @ sub) sub = Some (length s)" by (auto split: if_splits)
  moreover have "\<not> prefix sub (c # s @ sub @ u)"
  proof
    assume "prefix sub (c # s @ sub @ u)"
    moreover have "prefix (c # s @ sub) (c # s @ sub @ u)" by simp
    ultimately have "prefix sub (c # s @ sub)" by (rule prefix_length_prefix) simp
    with \<open>\<not> prefix sub (c # s @ sub)\<close> show False ..
  qed
  ultimately show ?case using Cons.IH by simp
qed

lemma template_segments:
  "\<exists>segs rest'. rest = concat (map segment segs) @ rest' \<and> list_all segment_ok segs \<and> no_placeholder rest'"
proof (induction rest rule: length_induct)
  case (1 rest)
  show ?case
  proof (cases "no_placeholder rest")
    case True
    then show ?thesis by (intro exI [of _ "[]"] exI [of _ rest]) simp
  next
    case False
    then obtain opn fin where opn: "Index rest placeholderOpen = Some opn"
        and fin: "Index (drop (opn + length placeholderOpen) rest) placeholderClose = Some fin"
      by (auto simp: no_placeholder_def split: option.splits)
    let ?body = "drop (opn + length placeholderOpen) rest"
    let ?seg = "(take opn rest, take fin ?body)" and ?after = "drop (fin + length placeholderClose) ?body"
    have cut: "rest = segment ?seg @ ?after" "segment_ok ?seg"
      using Index_take [OF opn] Index_take [OF fin]
      by (simp_all add: segment_def segment_ok_def placeholderOpen_def placeholderClose_def)
    have "0 < length rest" using Index_open_length [OF opn] .
    then have "length ?after < length rest" by (simp add: placeholderOpen_def)
    with 1 obtain segs rest' where "?after = concat (map segment segs) @ rest'" "list_all segment_ok segs" "no_placeholder rest'"
      by blast
    with cut show ?thesis by (intro exI [of _ "?seg # segs"] exI [of _ rest']) simp
  qed
qed

lemma subst_segments:
  "list_all segment_ok segs \<Longrightarrow> no_placeholder rest' \<Longrightarrow>
   subst_loop params out (concat (map segment segs) @ rest') =
     (case find (\<lambda>s. \<not> map_has params (TrimSpace (snd s))) segs of
        Some s \<Rightarrow> Inl (unresolvable (TrimSpace (snd s)))
      | None \<Rightarrow> Inr (out @ concat (map (filled params) segs) @ rest'))"
proof (induction segs arbitrary: out)
  case Nil
  then show ?case
    by (subst subst_loop.simps) (auto simp: no_placeholder_def split: option.splits)
next
  case (Cons s segs)
  obtain lit name where s: "s = (lit, name)" by (cases s)
  let ?after = "concat (map segment segs) @ rest'"
  have seg: "Index (lit @ placeholderOpen @ name @ placeholderClose @ ?after) placeholderOpen = Some (length lit)"
      "Index (name @ placeholderClose @ ?after) placeholderClose = Some (length name)"
    using Cons.prems(1) s by (auto simp: segment_ok_def intro: Index_extend)
  show ?case
  proof (cases "map_of params (TrimSpace name)")
    case None
    with seg s show ?thesis by (subst subst_loop.simps) (simp add: segment_def)
  next
    case (Some val)
    with seg s have "subst_loop params out (concat (map segment (s # segs)) @ rest') = subst_loop params (out @ lit @ val) ?after"
      by (subst subst_loop.simps) (simp add: segment_def)
    moreover have "filled params s = lit @ val" using Some s by (simp add: filled_def map_get_def)
    ultimately show ?thesis using Cons Some s by (auto split: option.splits)
  qed
qed

text \<open>Substitution is exact. Every template is a list of literals and placeholders with a tail, and
  its substitution is the literals with each placeholder replaced by the value of its trimmed name,
  in one pass that never rescans a value; if a name is not declared the result is the error naming
  the first such placeholder, and no text.\<close>

theorem substitute_exact:
  "\<exists>segs rest'. template = concat (map segment segs) @ rest' \<and> list_all segment_ok segs \<and> no_placeholder rest'
     \<and> Substitute template params =
         (case find (\<lambda>s. \<not> map_has params (TrimSpace (snd s))) segs of
            Some s \<Rightarrow> Inl (unresolvable (TrimSpace (snd s)))
          | None \<Rightarrow> Inr (concat (map (filled params) segs) @ rest'))"
proof -
  obtain segs rest' where t: "template = concat (map segment segs) @ rest'" "list_all segment_ok segs" "no_placeholder rest'"
    using template_segments by blast
  from subst_segments [OF t(2,3), of params "[]", unfolded append_Nil] t show ?thesis
    unfolding Substitute_def by blast
qed

subsection \<open>References\<close>

lemma Cut_Some: "Cut s d = Some (a, b) \<longleftrightarrow> s = a @ d # b \<and> d \<notin> set a"
proof (induction s arbitrary: a)
  case (Cons c s)
  then show ?case by (cases a) auto
qed simp

text \<open>A recipe reference reads back as it is written. Parsing succeeds exactly on the text of a
  fully pinned reference, whose pack and recipe are not blank and hold no separator and whose
  version is strict, and yields that reference.\<close>

theorem recipe_ref_roundtrip:
  "ParseRecipeRef raw = Inr ref \<longleftrightarrow>
     raw = RecipeRef_String ref
     \<and> CHR ''@'' \<notin> set (rr_Pack ref) \<and> CHR '':'' \<notin> set (rr_Pack ref) \<and> TrimSpace (rr_Pack ref) \<noteq> []
     \<and> CHR ''@'' \<notin> set (rr_Recipe ref) \<and> CHR '':'' \<notin> set (rr_Recipe ref) \<and> TrimSpace (rr_Recipe ref) \<noteq> []
     \<and> strictSemverPattern (rr_Version ref)"
proof
  assume "ParseRecipeRef raw = Inr ref"
  then show "raw = RecipeRef_String ref
     \<and> CHR ''@'' \<notin> set (rr_Pack ref) \<and> CHR '':'' \<notin> set (rr_Pack ref) \<and> TrimSpace (rr_Pack ref) \<noteq> []
     \<and> CHR ''@'' \<notin> set (rr_Recipe ref) \<and> CHR '':'' \<notin> set (rr_Recipe ref) \<and> TrimSpace (rr_Recipe ref) \<noteq> []
     \<and> strictSemverPattern (rr_Version ref)"
    unfolding ParseRecipeRef_def RecipeRef_String_def
    by (auto simp: Cut_Some split: if_splits option.splits)
next
  assume ok: "raw = RecipeRef_String ref
     \<and> CHR ''@'' \<notin> set (rr_Pack ref) \<and> CHR '':'' \<notin> set (rr_Pack ref) \<and> TrimSpace (rr_Pack ref) \<noteq> []
     \<and> CHR ''@'' \<notin> set (rr_Recipe ref) \<and> CHR '':'' \<notin> set (rr_Recipe ref) \<and> TrimSpace (rr_Recipe ref) \<noteq> []
     \<and> strictSemverPattern (rr_Version ref)"
  then have "Cut raw (CHR ''@'') = Some (rr_Pack ref @ '':'' @ rr_Recipe ref, rr_Version ref)"
    and "Cut (rr_Pack ref @ '':'' @ rr_Recipe ref) (CHR '':'') = Some (rr_Pack ref, rr_Recipe ref)"
    by (simp_all add: Cut_Some RecipeRef_String_def)
  moreover have "TrimSpace raw \<noteq> []"
    using ok by (intro TrimSpace_has_plain [of "CHR ''@''"]) (simp_all add: RecipeRef_String_def plain_def)
  ultimately show "ParseRecipeRef raw = Inr ref" using ok by (simp add: ParseRecipeRef_def)
qed

subsection \<open>Valid manifests\<close>

text \<open>What a recipe's ops must satisfy, op by op and together.\<close>

definition op_ok :: "string list \<Rightarrow> RecipeOp \<Rightarrow> bool" where
  "op_ok declaredRules op \<longleftrightarrow>
     (acceptsInjection op \<longrightarrow> TrimSpace (op_ID op) \<noteq> [] \<and> TrimSpace (op_Manual op) \<noteq> [])
     \<and> (op_Kind op = OpTransform \<longrightarrow> op_Rule op \<in> set declaredRules \<and> \<not> Contains (op_Rule op) placeholderOpen)
     \<and> (op_Kind op = OpMerge \<longrightarrow> TrimSpace (op_Fragment op) \<noteq> [] \<and> \<not> ContainsNewline (op_Fragment op)
          \<and> \<not> Contains (op_Fragment op) placeholderOpen)"

lemma kinds_distinct: "OpTransform \<noteq> OpMerge" "OpTransform \<noteq> OpInsert" "OpMerge \<noteq> OpInsert"
  by (simp_all add: OpTransform_def OpMerge_def OpInsert_def)

lemma validate_op_Inr:
  "validate_op label declaredRules i op seenAt = Inr seen' \<longleftrightarrow>
     op_ok declaredRules op \<and> (op_ID op \<noteq> [] \<longrightarrow> \<not> map_has seenAt (op_ID op))
     \<and> seen' = (if op_ID op \<noteq> [] then map_set (op_ID op) i seenAt else seenAt)"
  using kinds_distinct
  by (auto simp: validate_op_def op_ok_def acceptsInjection_def validateMergeFragmentForm_def Let_def)

lemma validate_ops_None:
  "validate_ops label declaredRules i ops seenAt = None \<longleftrightarrow>
     list_all (op_ok declaredRules) ops \<and> distinct (filter (\<lambda>x. x \<noteq> []) (map op_ID ops))
     \<and> (\<forall>x\<in>set (filter (\<lambda>x. x \<noteq> []) (map op_ID ops)). \<not> map_has seenAt x)"
proof (induction ops arbitrary: i seenAt)
  case (Cons op ops)
  show ?case
  proof (cases "validate_op label declaredRules i op seenAt")
    case (Inl err)
    with validate_op_Inr [of label declaredRules i op seenAt] have
      "\<not> (op_ok declaredRules op \<and> (op_ID op \<noteq> [] \<longrightarrow> \<not> map_has seenAt (op_ID op)))" by auto
    with Inl show ?thesis by auto
  next
    case (Inr seen')
    then have ok: "op_ok declaredRules op" "op_ID op \<noteq> [] \<longrightarrow> \<not> map_has seenAt (op_ID op)"
      "seen' = (if op_ID op \<noteq> [] then map_set (op_ID op) i seenAt else seenAt)"
      by (simp_all add: validate_op_Inr)
    with Inr Cons.IH [of "Suc i" seen'] show ?thesis by auto
  qed
qed simp

text \<open>Validation accepts exactly the valid manifests. Parsing succeeds with the decoded manifest when
  its version is strict, its kind is one of the three, it has an op, the non-empty op ids are
  distinct, every injection op has an id and a manual instruction, every transform names a
  declared rule without a placeholder, and every merge fragment is a single-line path without one.\<close>

theorem recipe_manifest_valid_iff:
  "ParseRecipeManifest unmarshal dat = Inr m \<longleftrightarrow>
     unmarshal dat = Inr m \<and> strictSemverPattern (rm_Version m)
     \<and> rm_Kind m \<in> {KindScaffolding, KindImplementing, KindTemplating} \<and> rm_Ops m \<noteq> []
     \<and> distinct (filter (\<lambda>x. x \<noteq> []) (map op_ID (rm_Ops m)))
     \<and> list_all (op_ok (rm_TransformRules m)) (rm_Ops m)"
proof -
  have "\<not> strictSemverPattern []" by (simp add: strictSemverPattern_def)
  then have header: "validateRecipeHeader n = None \<longleftrightarrow> strictSemverPattern (rm_Version n)
      \<and> rm_Kind n \<in> {KindScaffolding, KindImplementing, KindTemplating} \<and> rm_Ops n \<noteq> []" for n
    by (auto simp: validateRecipeHeader_def)
  have ops: "validateRecipeOps n = None \<longleftrightarrow> list_all (op_ok (rm_TransformRules n)) (rm_Ops n)
      \<and> distinct (filter (\<lambda>x. x \<noteq> []) (map op_ID (rm_Ops n)))" for n
    by (simp add: validateRecipeOps_def validate_ops_None)
  show ?thesis
    using header [of m] ops [of m]
    by (auto simp: ParseRecipeManifest_def split: sum.splits option.splits)
qed

text \<open>Resolution honours the pin. A reference resolves only to an installed pack that indexes the
  recipe, to a valid manifest in the indexed directory whose declared version is the pinned one.\<close>

theorem resolve_recipe_pinned:
  "ResolveRecipe readFile unmarshal ref packs packDir = Inr r \<longleftrightarrow>
     rr_Pack ref \<noteq> [] \<and> rr_Recipe ref \<noteq> [] \<and> strictSemverPattern (rr_Version ref)
     \<and> (\<exists>index dir dat. map_of packs (rr_Pack ref) = Some (Some index) \<and> map_of index (rr_Recipe ref) = Some dir \<and> dir \<noteq> []
          \<and> readFile (JoinPath [JoinPath [packDir, dir], ''recipe.yml'']) = Inr dat
          \<and> ParseRecipeManifest unmarshal dat = Inr (rs_Manifest r)
          \<and> rm_Version (rs_Manifest r) = rr_Version ref
          \<and> r = \<lparr>rs_Ref = ref, rs_Dir = JoinPath [packDir, dir], rs_PackDir = packDir, rs_Manifest = rs_Manifest r\<rparr>)"
  unfolding ResolveRecipe_def Let_def map_get_def
  by (auto split: option.splits sum.splits if_splits)

end
