(* ===== verification/Recipe_Merge.thy ===== *)
theory Recipe_Merge
  imports Recipe_Manifest
begin

text \<open>
  The merge executor of a recipe (\<open>mergeFormatFor\<close>, \<open>mergeDocuments\<close>, \<open>deepMerge\<close>,
  \<open>mergeKeyValue\<close> and their helpers in \<open>pkg/recipe/apply.go\<close>).  A structured document is a tree
  of tables whose leaves carry any value; the codecs of the three structured formats are
  parameters.  The theorems show that a merge puts the fragment in force, keeps everything the
  fragment does not name, and changes nothing when it is repeated.
\<close>

subsection \<open>Formats\<close>

definition mergeFormatJSON :: string where "mergeFormatJSON = ''json''"
definition mergeFormatYAML :: string where "mergeFormatYAML = ''yaml''"
definition mergeFormatTOML :: string where "mergeFormatTOML = ''toml''"
definition mergeFormatEnv :: string where "mergeFormatEnv = ''env''"

text \<open>\<open>filepath.Ext\<close>: from the last dot of the last element.\<close>

definition Ext :: "string \<Rightarrow> string" where
  "Ext path =
     (let rev_elem = takeWhile (\<lambda>c. c \<noteq> slash) (rev path) in
      if CHR ''.'' \<in> set rev_elem then CHR ''.'' # rev (takeWhile (\<lambda>c. c \<noteq> CHR ''.'') rev_elem) else [])"

definition mergeFormatFor :: "RecipeOp \<Rightarrow> string \<Rightarrow> string + string" where
  "mergeFormatFor op declaredTarget =
     (let format = ToLower (TrimSpace (op_Format op));
          declared = (if format = [] then ToLower (TrimPrefix (Ext declaredTarget) ''.'') else format)
      in if declared = mergeFormatJSON \<or> declared = mergeFormatTOML \<or> declared = mergeFormatEnv then Inr declared
         else if declared = mergeFormatYAML \<or> declared = ''yml'' then Inr mergeFormatYAML
         else Inl (''merge target '' @ quote declaredTarget @ '' has format '' @ quote declared
                   @ '', which is outside the supported set {'' @ mergeFormatJSON @ '', '' @ mergeFormatYAML @ '', ''
                   @ mergeFormatTOML @ '', '' @ mergeFormatEnv @ ''}; a merge never falls back to a text append''))"

subsection \<open>Structured documents\<close>

text \<open>A decoded document: a table from names to documents, or any other value.\<close>

datatype doc = DTable "(string \<times> doc) list" | DLeaf string

text \<open>The loop over the overlay's entries is \<open>merge_entries\<close>; the accumulator starts as a copy of the base.\<close>

function deepMerge :: "doc \<Rightarrow> doc \<Rightarrow> doc"
  and merge_entries :: "(string, doc) gomap \<Rightarrow> (string \<times> doc) list \<Rightarrow> (string, doc) gomap" where
  "deepMerge (DTable baseTable) (DTable overlayTable) = DTable (merge_entries baseTable overlayTable)"
| "deepMerge (DLeaf v) overlay = overlay"
| "deepMerge (DTable t) (DLeaf v) = DLeaf v"
| "merge_entries merged [] = merged"
| "merge_entries merged ((name, val) # overlay) =
     merge_entries
       (case map_of merged name of
          Some existing \<Rightarrow> map_set name (deepMerge existing val) merged
        | None \<Rightarrow> map_set name val merged) overlay"
  by pat_completeness auto
termination
  by (relation "measure (\<lambda>x. case x of Inl (_, overlay) \<Rightarrow> size overlay
                                     | Inr (_, overlay) \<Rightarrow> size_list (size_prod (\<lambda>_. 0) size) overlay)") auto

subsection \<open>Key/value documents\<close>

definition rawLines :: "string \<Rightarrow> string list" where
  "rawLines content = Split (TrimSuffix content [CHR 0x0A]) (CHR 0x0A)"

definition endsWithNewline :: "string \<Rightarrow> bool" where
  "endsWithNewline content \<longleftrightarrow> HasSuffix content [CHR 0x0A]"

text \<open>An assignment line's name and value.\<close>

definition splitKeyValueLine :: "string \<Rightarrow> (string \<times> string) option" where
  "splitKeyValueLine line =
     (if TrimSpace line = [] \<or> HasPrefix (TrimSpace line) ''#'' then None
      else (case Index line ''='' of
              None \<Rightarrow> None
            | Some at \<Rightarrow> Some (TrimSpace (take at line), drop (Suc at) line)))"

definition kv_step :: "string \<Rightarrow> string list \<times> (string, string) gomap \<Rightarrow> string list \<times> (string, string) gomap" where
  "kv_step line st =
     (case splitKeyValueLine line of
        None \<Rightarrow> st
      | Some (name, val) \<Rightarrow>
          (case st of (names, vals) \<Rightarrow>
             (if map_has vals name then names else names @ [name], map_set name val vals)))"

definition keyValueAssignments :: "string \<Rightarrow> string list \<times> (string, string) gomap" where
  "keyValueAssignments content = fold kv_step (rawLines content) ([], [])"

definition kv_rewrite :: "(string, string) gomap \<Rightarrow> string \<Rightarrow> string" where
  "kv_rewrite vals line =
     (case splitKeyValueLine line of
        None \<Rightarrow> line
      | Some (name, _) \<Rightarrow> (case map_of vals name of None \<Rightarrow> line | Some val \<Rightarrow> name @ ''='' @ val))"

definition kv_applied :: "(string, string) gomap \<Rightarrow> string list \<Rightarrow> string list" where
  "kv_applied vals lines =
     concat (map (\<lambda>line. case splitKeyValueLine line of
                            None \<Rightarrow> []
                          | Some (name, _) \<Rightarrow> if map_has vals name then [name] else []) lines)"

definition mergeKeyValue :: "string \<Rightarrow> string \<Rightarrow> string" where
  "mergeKeyValue target fragment =
     (case keyValueAssignments fragment of (names, vals) \<Rightarrow>
        let lines = rawLines target;
            applied = kv_applied vals lines;
            merged = Join (map (kv_rewrite vals) lines
                           @ map (\<lambda>name. name @ ''='' @ map_get [] vals name) (filter (\<lambda>name. name \<notin> set applied) names))
                       [CHR 0x0A]
        in if endsWithNewline target then merged @ [CHR 0x0A] else merged)"

text \<open>The codecs of the structured formats: from a format and a text to a document, and back.\<close>

record codecs =
  cd_decode :: "string \<Rightarrow> string \<Rightarrow> string + doc"
  cd_encode :: "string \<Rightarrow> doc \<Rightarrow> string + string"

definition decodeStructured :: "codecs \<Rightarrow> string \<Rightarrow> string \<Rightarrow> string + doc" where
  "decodeStructured cd format dat =
     (case cd_decode cd format dat of
        Inl err \<Rightarrow> Inl (''decode '' @ format @ '' document: '' @ err)
      | Inr tree \<Rightarrow> Inr tree)"

text \<open>The JSON encoder's output gets a final newline.\<close>

definition encodeStructured :: "codecs \<Rightarrow> string \<Rightarrow> doc \<Rightarrow> string + string" where
  "encodeStructured cd format tree =
     (case cd_encode cd format tree of
        Inl err \<Rightarrow> Inl (''encode '' @ format @ '' document: '' @ err)
      | Inr dat \<Rightarrow> Inr (if format = mergeFormatJSON then dat @ [CHR 0x0A] else dat))"

definition mergeDocuments :: "codecs \<Rightarrow> string \<Rightarrow> string \<Rightarrow> string \<Rightarrow> string + string" where
  "mergeDocuments cd format target fragment =
     (if format = mergeFormatEnv then Inr (mergeKeyValue target fragment)
      else (case decodeStructured cd format target of
        Inl err \<Rightarrow> Inl (''decode target: '' @ err)
      | Inr targetTree \<Rightarrow>
          (case decodeStructured cd format fragment of
             Inl err \<Rightarrow> Inl (''decode fragment: '' @ err)
           | Inr fragmentTree \<Rightarrow>
               (case encodeStructured cd format (deepMerge targetTree fragmentTree) of
                  Inl err \<Rightarrow> Inl (''encode merged document: '' @ err)
                | Inr encoded \<Rightarrow> Inr encoded))))"

subsection \<open>Structured merges\<close>

text \<open>A table has no two entries of one name.\<close>

fun wf_doc :: "doc \<Rightarrow> bool" where
  "wf_doc (DLeaf v) = True"
| "wf_doc (DTable t) = (distinct (map fst t) \<and> list_all (\<lambda>e. wf_doc (snd e)) t)"

fun doc_at :: "doc \<Rightarrow> string list \<Rightarrow> doc option" where
  "doc_at d [] = Some d"
| "doc_at (DLeaf v) (k # ks) = None"
| "doc_at (DTable t) (k # ks) = (case map_of t k of None \<Rightarrow> None | Some d \<Rightarrow> doc_at d ks)"

text \<open>The entry under a name after the loop.\<close>

definition merged_entry :: "doc option \<Rightarrow> doc option \<Rightarrow> doc option" where
  "merged_entry base overlay =
     (case overlay of
        None \<Rightarrow> base
      | Some v \<Rightarrow> Some (case base of None \<Rightarrow> v | Some e \<Rightarrow> deepMerge e v))"

lemma merge_entries_at:
  "distinct (map fst overlay) \<Longrightarrow> map_of (merge_entries merged overlay) k = merged_entry (map_of merged k) (map_of overlay k)"
proof (induction overlay arbitrary: merged)
  case (Cons e overlay)
  obtain name val where e: "e = (name, val)" by (cases e)
  have none: "map_of overlay name = None" using Cons.prems e by (auto simp: map_of_eq_None_iff)
  show ?case
    using Cons none e by (cases "map_of merged name") (auto simp: merged_entry_def split: option.splits)
qed (simp add: merged_entry_def)

lemma distinct_merge_entries:
  "distinct (map fst merged) \<Longrightarrow> distinct (map fst (merge_entries merged overlay))"
  by (induction overlay arbitrary: merged) (auto split: option.splits)

text \<open>The overlay says nothing about a path when some table on the way has no entry for the next name.\<close>

fun unnamed :: "doc \<Rightarrow> string list \<Rightarrow> bool" where
  "unnamed d [] = False"
| "unnamed (DLeaf v) (k # ks) = False"
| "unnamed (DTable t) (k # ks) = (case map_of t k of None \<Rightarrow> True | Some d \<Rightarrow> unnamed d ks)"

text \<open>A structured merge is exact. For an overlay whose tables have distinct names, a value stands at
  a path of the merged document exactly when the overlay has it there, or the base has it there
  and the overlay names nothing on the way: siblings are kept, and an overlay value replaces
  whatever stood in its place.\<close>

theorem deep_merge_exact:
  assumes "wf_doc overlay"
  shows "doc_at (deepMerge base overlay) path = Some (DLeaf v) \<longleftrightarrow>
     doc_at overlay path = Some (DLeaf v) \<or> (unnamed overlay path \<and> doc_at base path = Some (DLeaf v))"
  using assms
proof (induction path arbitrary: base overlay)
  case Nil
  then show ?case by (cases base; cases overlay) auto
next
  case (Cons k ks)
  show ?case
  proof (cases overlay)
    case (DLeaf w)
    then show ?thesis by (cases base) auto
  next
    case (DTable ot)
    note ov = DTable
    have wf: "wf_doc d" if "map_of ot k = Some d" for d
      using Cons.prems ov map_of_SomeD [OF that] by (auto simp: list_all_iff)
    show ?thesis
    proof (cases base)
      case (DLeaf w)
      with ov show ?thesis by simp
    next
      case (DTable bt)
      with ov Cons.prems have at: "doc_at (deepMerge base overlay) (k # ks) =
          (case merged_entry (map_of bt k) (map_of ot k) of None \<Rightarrow> None | Some d \<Rightarrow> doc_at d ks)"
        by (simp add: merge_entries_at)
      show ?thesis
      proof (cases "map_of ot k")
        case None
        with ov at DTable show ?thesis by (simp add: merged_entry_def)
      next
        case (Some d)
        note some = Some
        show ?thesis
        proof (cases "map_of bt k")
          case None
          with ov at DTable some show ?thesis by (simp add: merged_entry_def)
        next
          case (Some e)
          with ov at DTable some Cons.IH [OF wf [OF some], of e] show ?thesis by (simp add: merged_entry_def)
        qed
      qed
    qed
  qed
qed

theorem deep_merge_exact_witness:
  "doc_at (deepMerge (DTable [(''a'', DTable [(''x'', DLeaf ''1''), (''y'', DLeaf ''2'')])]) (DTable [(''a'', DTable [(''y'', DLeaf ''3'')])]))
     [''a'', ''x''] = Some (DLeaf ''1'')"
  using deep_merge_exact [of "DTable [(''a'', DTable [(''y'', DLeaf ''3'')])]"
      "DTable [(''a'', DTable [(''x'', DLeaf ''1''), (''y'', DLeaf ''2'')])]" "[''a'', ''x'']" "''1''"] by simp

text \<open>An entry that already is what the merge makes of it is left as it is.\<close>

lemma map_set_same: "map_of m k = Some v \<Longrightarrow> map_set k v m = m"
  by (induction m) auto

lemma merge_entries_fixed:
  "(\<And>k v. (k, v) \<in> set overlay \<Longrightarrow> \<exists>e. map_of merged k = Some e \<and> deepMerge e v = e) \<Longrightarrow> merge_entries merged overlay = merged"
proof (induction overlay)
  case (Cons x overlay)
  obtain k v where x: "x = (k, v)" by (cases x)
  with Cons.prems [of k v] obtain e where "map_of merged k = Some e" "deepMerge e v = e" by auto
  with x Cons show ?case by (auto simp: map_set_same)
qed simp

lemma deepMerge_self: "wf_doc d \<Longrightarrow> deepMerge d d = d"
proof (induction d)
  case (DTable t)
  have "\<exists>e. map_of t k = Some e \<and> deepMerge e v = e" if "(k, v) \<in> set t" for k v
  proof -
    from DTable.prems that have "map_of t k = Some v" "wf_doc v" by (auto simp: list_all_iff)
    moreover from DTable.IH [OF that, of v] this(2) have "deepMerge v v = v" by simp
    ultimately show ?thesis by blast
  qed
  then show ?case by (simp add: merge_entries_fixed)
qed simp

text \<open>Applying a structured merge again changes nothing.\<close>

theorem deep_merge_idempotent:
  assumes "wf_doc overlay"
  shows "deepMerge (deepMerge base overlay) overlay = deepMerge base overlay"
  using assms
proof (induction overlay arbitrary: base)
  case (DTable ot)
  show ?case
  proof (cases base)
    case (DLeaf w)
    with deepMerge_self [OF DTable.prems] show ?thesis by simp
  next
    case (DTable bt)
    have "\<exists>e. map_of (merge_entries bt ot) k = Some e \<and> deepMerge e v = e" if "(k, v) \<in> set ot" for k v
    proof -
      from DTable.prems that have kv: "map_of ot k = Some v" "wf_doc v" "distinct (map fst ot)" by (auto simp: list_all_iff)
      have "deepMerge (deepMerge e v) v = deepMerge e v" for e
        using DTable.IH [OF that, of v e] kv(2) by simp
      with kv deepMerge_self show ?thesis
        by (auto simp: merge_entries_at merged_entry_def split: option.splits)
    qed
    with DTable show ?thesis by (simp add: merge_entries_fixed)
  qed
next
  case (DLeaf v)
  show ?case by (cases base) simp_all
qed

theorem deep_merge_idempotent_witness:
  "deepMerge (deepMerge (DLeaf ''1'') (DTable [(''a'', DLeaf ''2'')])) (DTable [(''a'', DLeaf ''2'')])
     = deepMerge (DLeaf ''1'') (DTable [(''a'', DLeaf ''2'')])"
  by (rule deep_merge_idempotent) simp

subsection \<open>Key/value merges\<close>

text \<open>Trimming never crosses a printable character.\<close>

lemma space_prefixE:
  assumes "space_prefix s \<noteq> 0"
  obtains e t where "e \<in> set space_encodings" "s = e @ t" "space_prefix s = length e"
proof -
  from assms obtain e where e: "find (\<lambda>e. prefix e s) space_encodings = Some e" "space_prefix s = length e"
    by (auto simp: space_prefix_def split: option.splits)
  then have "e \<in> set space_encodings" "prefix e s" by (auto dest: find_Some_mem)
  with e(2) that show thesis by (auto simp: prefix_def)
qed

lemma space_suffixE:
  assumes "space_suffix s \<noteq> 0"
  obtains e t where "e \<in> set space_encodings" "s = t @ e" "space_suffix s = length e"
proof -
  from assms obtain e where e: "find (\<lambda>e. suffix e s) space_encodings = Some e" "space_suffix s = length e"
    by (auto simp: space_suffix_def split: option.splits)
  then have "e \<in> set space_encodings" "suffix e s" by (auto dest: find_Some_mem)
  with e(2) that show thesis by (auto simp: suffix_def)
qed

lemma space_prefix_upto_plain:
  assumes "plain c" "prefix e (a @ c # b)" "e \<in> set space_encodings"
  shows "prefix e a"
proof -
  have c: "c \<notin> set e" using space_encodings_not_plain assms by blast
  obtain z where z: "a @ c # b = e @ z" using assms(2) by (auto simp: prefix_def)
  have "length e \<le> length a"
  proof (rule ccontr)
    assume len: "\<not> length e \<le> length a"
    have "e = take (length e) (a @ c # b)" by (simp add: z)
    also have "\<dots> = a @ c # take (length e - length a - 1) b"
      using len by (cases "length e - length a") auto
    finally show False using c by (metis in_set_conv_decomp)
  qed
  then show ?thesis using prefix_length_prefix [OF assms(2), of a] by simp
qed

lemma space_prefix_append_plain: "plain c \<Longrightarrow> space_prefix (a @ c # b) = space_prefix a"
proof -
  assume c: "plain c"
  have "prefix e (a @ c # b) \<longleftrightarrow> prefix e a" if "e \<in> set space_encodings" for e
    using space_prefix_upto_plain [OF c _ that] by (auto simp: prefix_def)
  then show ?thesis by (simp add: space_prefix_def cong: find_cong)
qed

lemma space_prefix_Nil [simp]: "space_prefix [] = 0"
  by (auto simp: space_prefix_eq_0_iff dest: space_encodings_nonempty)

lemma trim_left_append_plain: "plain c \<Longrightarrow> trim_left (a @ c # b) = trim_left a @ c # b"
proof (induction a rule: trim_left.induct)
  case (1 a)
  show ?case
  proof (cases "a = [] \<or> space_prefix a = 0")
    case True
    with 1(2) show ?thesis
      by (auto simp: trim_left.simps [of a] trim_left.simps [of "a @ c # b"] space_prefix_append_plain space_prefix_plain
          trim_left.simps [of "c # b"])
  next
    case False
    then have "space_prefix a \<noteq> 0" by simp
    then obtain e t where "a = e @ t" "space_prefix a = length e" by (rule space_prefixE)
    then have "space_prefix a \<le> length a" by simp
    with False 1 show ?thesis
      by (simp add: trim_left.simps [of a] trim_left.simps [of "a @ c # b"] space_prefix_append_plain)
  qed
qed

lemma trim_right_keeps_plain: "plain c \<Longrightarrow> s = a @ c # b \<Longrightarrow> \<exists>b'. trim_right s = a @ c # b'"
proof (induction s arbitrary: b rule: trim_right.induct)
  case (1 s)
  show ?case
  proof (cases "s = [] \<or> space_suffix s = 0")
    case True
    with 1(3) show ?thesis by (intro exI [of _ b]) (auto simp: trim_right_id)
  next
    case False
    then have "space_suffix s \<noteq> 0" by simp
    then obtain e t where e: "e \<in> set space_encodings" "s = t @ e" "space_suffix s = length e" by (rule space_suffixE)
    have "length e \<le> length b"
    proof (rule ccontr)
      assume "\<not> length e \<le> length b"
      moreover have "length t + length e = length a + Suc (length b)"
        using e(2) 1(3) by (metis length_append length_Cons)
      ultimately have len: "length t \<le> length a" by linarith
      have "e = drop (length t) s" by (simp add: e(2))
      also have "\<dots> = drop (length t) a @ c # b" using 1(3) len by simp
      finally have "c \<in> set e" by simp
      with e(1) 1(2) space_encodings_not_plain show False by blast
    qed
    with e(3) 1(3) have "take (length s - space_suffix s) s = a @ c # take (length b - space_suffix s) b"
      by (simp add: Suc_diff_le)
    from "1.IH" [OF False 1(2) this] False show ?thesis by (simp add: trim_right.simps [of s])
  qed
qed

lemma equals_plain: "plain (CHR ''='')"
  by (simp add: plain_def)

lemma Index_char: "Index s [c] = Some n \<longleftrightarrow> (\<exists>a b. s = a @ c # b \<and> c \<notin> set a \<and> length a = n)"
proof (induction s arbitrary: n)
  case (Cons x s)
  show ?case
  proof (cases "x = c")
    case True
    then show ?thesis by (auto simp: Cons_eq_append_conv)
  next
    case False
    have "(\<exists>a b. x # s = a @ c # b \<and> c \<notin> set a \<and> length a = n)
        \<longleftrightarrow> (\<exists>m. n = Suc m \<and> (\<exists>a b. s = a @ c # b \<and> c \<notin> set a \<and> length a = m))"
      (is "?L \<longleftrightarrow> ?R")
    proof
      assume ?L
      then obtain a b where ab: "x # s = a @ c # b" "c \<notin> set a" "length a = n" by blast
      with False obtain a' where "a = x # a'" by (cases a) auto
      with ab show ?R by auto
    next
      assume ?R
      then obtain a b where "s = a @ c # b" "c \<notin> set a" "n = Suc (length a)" by blast
      with False show ?L by (intro exI [of _ "x # a"] exI [of _ b]) simp
    qed
    with False Cons.IH show ?thesis by (auto simp: prefix_def)
  qed
qed simp

text \<open>An assignment line, read off its parts.\<close>

lemma split_kv_iff:
  "splitKeyValueLine line = Some (name, val) \<longleftrightarrow>
     (\<exists>a. line = a @ CHR ''='' # val \<and> CHR ''='' \<notin> set a \<and> name = TrimSpace a \<and> \<not> HasPrefix (trim_left a) ''#'')"
proof
  assume split: "splitKeyValueLine line = Some (name, val)"
  then obtain at where at: "Index line ''='' = Some at" "name = TrimSpace (take at line)" "val = drop (Suc at) line"
      "\<not> HasPrefix (TrimSpace line) ''#''"
    by (auto simp: splitKeyValueLine_def split: if_splits option.splits)
  then obtain a b where ab: "line = a @ CHR ''='' # b" "CHR ''='' \<notin> set a" "length a = at" by (auto simp: Index_char)
  have "\<not> HasPrefix (trim_left a) ''#''"
  proof
    assume hash: "HasPrefix (trim_left a) ''#''"
    have "trim_left line = trim_left a @ CHR ''='' # b" using ab(1) trim_left_append_plain [OF equals_plain] by simp
    from trim_right_keeps_plain [OF equals_plain this] obtain b' where "TrimSpace line = trim_left a @ CHR ''='' # b'"
      by (auto simp: TrimSpace_def)
    with hash at(4) show False by (auto simp: prefix_def)
  qed
  with at ab show "\<exists>a. line = a @ CHR ''='' # val \<and> CHR ''='' \<notin> set a \<and> name = TrimSpace a \<and> \<not> HasPrefix (trim_left a) ''#''"
    by (intro exI [of _ a]) auto
next
  assume "\<exists>a. line = a @ CHR ''='' # val \<and> CHR ''='' \<notin> set a \<and> name = TrimSpace a \<and> \<not> HasPrefix (trim_left a) ''#''"
  then obtain a where a: "line = a @ CHR ''='' # val" "CHR ''='' \<notin> set a" "name = TrimSpace a" "\<not> HasPrefix (trim_left a) ''#''" by blast
  have "trim_left line = trim_left a @ CHR ''='' # val" using a(1) trim_left_append_plain [OF equals_plain] by simp
  from trim_right_keeps_plain [OF equals_plain this] obtain b' where b': "TrimSpace line = trim_left a @ CHR ''='' # b'"
    by (auto simp: TrimSpace_def)
  with a(4) have "\<not> HasPrefix (TrimSpace line) ''#''" by (cases "trim_left a") auto
  moreover from a(1,2) have "Index line ''='' = Some (length a)" by (auto simp: Index_char)
  ultimately show "splitKeyValueLine line = Some (name, val)" using a b' by (simp add: splitKeyValueLine_def)
qed

lemma trim_left_TrimSpace: "trim_left (TrimSpace a) = TrimSpace a"
proof (rule trim_left_id)
  show "space_prefix (TrimSpace a) = 0"
    using space_prefix_trim_left [of a] trim_right_prefix [of "trim_left a"]
    unfolding space_prefix_eq_0_iff TrimSpace_def by (meson prefix_order.trans)
qed

text \<open>A written assignment reads back, whatever its value.\<close>

lemma split_kv_written:
  assumes "splitKeyValueLine line = Some (name, val)"
  shows "splitKeyValueLine (name @ ''='' @ v) = Some (name, v)"
proof -
  from assms obtain a where a: "CHR ''='' \<notin> set a" "name = TrimSpace a" "\<not> HasPrefix (trim_left a) ''#''"
    by (auto simp: split_kv_iff)
  have sub: "set (trim_left s) \<subseteq> set s" for s :: string
  proof (induction s rule: trim_left.induct)
    case (1 s)
    then show ?case using set_drop_subset [of "space_prefix s" s] by (auto simp: trim_left.simps [of s])
  qed
  have "prefix (TrimSpace a) (trim_left a)" by (simp add: TrimSpace_def trim_right_prefix)
  then have "\<not> HasPrefix (TrimSpace a) ''#''" "set (TrimSpace a) \<subseteq> set a"
    using a(3) prefix_order.trans set_mono_prefix sub [of a] by blast+
  with a show ?thesis by (auto simp: split_kv_iff trim_left_TrimSpace intro!: exI [of _ "TrimSpace a"])
qed

text \<open>The value a document's lines give a name: that of the last assignment.\<close>

fun last_value :: "string list \<Rightarrow> string \<Rightarrow> string option \<Rightarrow> string option" where
  "last_value [] name acc = acc"
| "last_value (line # lines) name acc =
     last_value lines name (case splitKeyValueLine line of
        Some (n, v) \<Rightarrow> if n = name then Some v else acc | None \<Rightarrow> acc)"

lemma kv_fold_values: "map_of (snd (fold kv_step lines st)) name = last_value lines name (map_of (snd st) name)"
proof (induction lines arbitrary: st)
  case (Cons line lines)
  obtain names vals where st: "st = (names, vals)" by (cases st)
  show ?case
    using Cons.IH [of "kv_step line st"] st
    by (auto simp: kv_step_def split: option.splits)
qed simp

lemma kv_fold_names:
  "set (fst st) = dom (map_of (snd st)) \<Longrightarrow> distinct (fst st) \<Longrightarrow>
     set (fst (fold kv_step lines st)) = dom (map_of (snd (fold kv_step lines st))) \<and> distinct (fst (fold kv_step lines st))"
proof (induction lines arbitrary: st)
  case (Cons line lines)
  obtain names vals where st: "st = (names, vals)" by (cases st)
  show ?case
  proof (cases "splitKeyValueLine line")
    case None
    with Cons show ?thesis by (simp add: kv_step_def)
  next
    case (Some nv)
    obtain n v where nv: "nv = (n, v)" by (cases nv)
    have "set (fst (kv_step line st)) = dom (map_of (snd (kv_step line st)))" "distinct (fst (kv_step line st))"
      using Cons.prems Some nv st by (auto simp: kv_step_def dom_def)
    from Cons.IH [OF this] show ?thesis by simp
  qed
qed simp

lemma last_value_split: "last_value (xs @ ys) name acc = last_value ys name (last_value xs name acc)"
  by (induction xs arbitrary: acc) auto

lemma last_value_source: "last_value lines name None = Some v \<Longrightarrow> \<exists>line\<in>set lines. splitKeyValueLine line = Some (name, v)"
proof (induction lines rule: rev_induct)
  case (snoc line lines)
  then show ?case by (auto simp: last_value_split split: option.splits if_splits)
qed simp

definition value_of :: "string \<Rightarrow> string \<Rightarrow> string option" where
  "value_of content name = last_value (rawLines content) name None"

lemma kv_values: "map_of (snd (keyValueAssignments content)) name = value_of content name"
  by (simp add: keyValueAssignments_def kv_fold_values value_of_def)

lemma kv_names: "set (fst (keyValueAssignments content)) = {name. value_of content name \<noteq> None}"
  using kv_fold_names [of "([], [])" "rawLines content"] kv_values [of content]
  by (auto simp: keyValueAssignments_def dom_def)

lemma kv_name_written: "value_of content name = Some v \<Longrightarrow> splitKeyValueLine (name @ ''='' @ w) = Some (name, w)"
proof -
  assume "value_of content name = Some v"
  then obtain line where "splitKeyValueLine line = Some (name, v)" by (auto simp: value_of_def dest!: last_value_source)
  then show ?thesis by (rule split_kv_written)
qed

text \<open>No line holds a newline, and the lines give the document back.\<close>

lemma rawLines_no_newline: "line \<in> set (rawLines content) \<Longrightarrow> CHR 0x0A \<notin> set line"
  unfolding rawLines_def by (rule Split_no_sep_in)

lemma rawLines_not_Nil [simp]: "rawLines content \<noteq> []"
  by (simp add: rawLines_def)

lemma rawLines_join:
  "Join (rawLines content) [CHR 0x0A] @ (if endsWithNewline content then [CHR 0x0A] else []) = content"
  by (auto simp: rawLines_def Join_Split endsWithNewline_def TrimSuffix_def suffix_def)

lemma suffix_single: "suffix [c] s \<longleftrightarrow> s \<noteq> [] \<and> last s = c"
  by (cases s rule: rev_cases) (auto simp: suffix_def)

lemma suffix_Join: "xs \<noteq> [] \<Longrightarrow> last xs \<noteq> [] \<Longrightarrow> CHR 0x0A \<notin> set (last xs) \<Longrightarrow> \<not> suffix [CHR 0x0A] (Join xs [CHR 0x0A])"
proof (induction xs rule: rev_induct)
  case (snoc x xs)
  then have "x \<noteq> []" "CHR 0x0A \<notin> set x" by simp_all
  then have "last x \<noteq> CHR 0x0A" using last_in_set [of x] by metis
  with snoc.prems show ?case by (cases "xs = []") (simp_all add: Join_snoc suffix_single)
qed simp

lemma last_rawLines: "\<not> endsWithNewline content \<Longrightarrow> last (rawLines content) \<noteq> [] \<or> rawLines content = [[]]"
proof (rule ccontr)
  assume no: "\<not> endsWithNewline content" and "\<not> (last (rawLines content) \<noteq> [] \<or> rawLines content = [[]])"
  then obtain xs where "rawLines content = xs @ [[]]" "xs \<noteq> []"
    by (cases "rawLines content" rule: rev_cases) auto
  with rawLines_join [of content] no Join_snoc [of xs "[]" "[CHR 0x0A]"] have "content = Join xs [CHR 0x0A] @ [CHR 0x0A]" by simp
  with no show False by (simp add: endsWithNewline_def suffix_single)
qed

lemma rawLines_of_join:
  assumes "xs \<noteq> []" "\<forall>x\<in>set xs. CHR 0x0A \<notin> set x"
  shows "rawLines (Join xs [CHR 0x0A] @ [CHR 0x0A]) = xs" "last xs \<noteq> [] \<or> xs = [[]] \<Longrightarrow> rawLines (Join xs [CHR 0x0A]) = xs"
proof -
  show "rawLines (Join xs [CHR 0x0A] @ [CHR 0x0A]) = xs"
    using Split_Join [OF assms] by (simp add: rawLines_def TrimSuffix_def suffix_def)
  show "rawLines (Join xs [CHR 0x0A]) = xs" if "last xs \<noteq> [] \<or> xs = [[]]"
  proof -
    have "\<not> suffix [CHR 0x0A] (Join xs [CHR 0x0A])"
    proof (cases "xs = [[]]")
      case False
      with that assms suffix_Join [of xs] show ?thesis by simp
    qed simp
    with Split_Join [OF assms] show ?thesis by (simp add: rawLines_def TrimSuffix_def)
  qed
qed

text \<open>The lines a merge writes.\<close>

definition kv_override :: "string \<Rightarrow> string \<Rightarrow> string" where
  "kv_override fragment line =
     (case splitKeyValueLine line of
        None \<Rightarrow> line
      | Some (name, _) \<Rightarrow> (case value_of fragment name of None \<Rightarrow> line | Some val \<Rightarrow> name @ ''='' @ val))"

lemma kv_rewrite_override: "kv_rewrite (snd (keyValueAssignments fragment)) line = kv_override fragment line"
  by (auto simp: kv_rewrite_def kv_override_def kv_values split: option.split)

definition kv_appended :: "string \<Rightarrow> string \<Rightarrow> string list" where
  "kv_appended target fragment =
     map (\<lambda>name. name @ ''='' @ the (value_of fragment name))
       (filter (\<lambda>name. name \<notin> set (kv_applied (snd (keyValueAssignments fragment)) (rawLines target)))
         (fst (keyValueAssignments fragment)))"

lemma kv_override_split:
  "splitKeyValueLine (kv_override fragment line) =
     (case splitKeyValueLine line of
        None \<Rightarrow> None
      | Some (name, v) \<Rightarrow> Some (name, case value_of fragment name of None \<Rightarrow> v | Some w \<Rightarrow> w))"
  using kv_name_written [of fragment]
  by (auto simp: kv_override_def split: option.splits)

lemma value_no_newline: "value_of content name = Some v \<Longrightarrow> CHR 0x0A \<notin> set (name @ ''='' @ v)"
proof -
  assume "value_of content name = Some v"
  then obtain line a where line: "line \<in> set (rawLines content)" "line = a @ CHR ''='' # v" "name = TrimSpace a"
    unfolding value_of_def by (auto dest!: last_value_source simp: split_kv_iff)
  have "set (trim_left s) \<subseteq> set s" for s :: string
  proof (induction s rule: trim_left.induct)
    case (1 s)
    then show ?case using set_drop_subset [of "space_prefix s" s] by (auto simp: trim_left.simps [of s])
  qed
  then have "set (TrimSpace a) \<subseteq> set a"
    using set_mono_prefix [OF trim_right_prefix [of "trim_left a"]] unfolding TrimSpace_def by blast
  with line rawLines_no_newline [OF line(1)] show ?thesis by auto
qed

lemma merge_lines:
  "rawLines (mergeKeyValue target fragment) = map (kv_override fragment) (rawLines target) @ kv_appended target fragment"
    (is "_ = ?lines")
  and merge_ends: "endsWithNewline (mergeKeyValue target fragment) = endsWithNewline target"
proof -
  have override: "kv_rewrite (snd (keyValueAssignments fragment)) = kv_override fragment"
    by (rule ext) (rule kv_rewrite_override)
  have get: "map_get [] (snd (keyValueAssignments fragment)) name = the (value_of fragment name)"
    if "name \<in> set (fst (keyValueAssignments fragment))" for name
    using that by (auto simp: kv_names map_get_def kv_values)
  have merged: "mergeKeyValue target fragment =
      Join ?lines [CHR 0x0A] @ (if endsWithNewline target then [CHR 0x0A] else [])"
  proof -
    have "map (\<lambda>name. name @ ''='' @ map_get [] (snd (keyValueAssignments fragment)) name)
        (filter (\<lambda>name. name \<notin> set (kv_applied (snd (keyValueAssignments fragment)) (rawLines target)))
          (fst (keyValueAssignments fragment))) = kv_appended target fragment"
      unfolding kv_appended_def by (rule map_cong [OF refl]) (simp add: get)
    then show ?thesis by (simp add: mergeKeyValue_def override Let_def split_beta)
  qed
  have clean: "\<forall>x\<in>set ?lines. CHR 0x0A \<notin> set x"
  proof
    fix x assume "x \<in> set ?lines"
    then consider line where "line \<in> set (rawLines target)" "x = kv_override fragment line"
      | name where "value_of fragment name \<noteq> None" "x = name @ ''='' @ the (value_of fragment name)"
      by (auto simp: kv_appended_def kv_names)
    then show "CHR 0x0A \<notin> set x"
    proof cases
      case (1 line)
      then show ?thesis using rawLines_no_newline value_no_newline [of fragment]
        by (auto simp: kv_override_def split: option.splits)
    next
      case (2 name)
      then show ?thesis using value_no_newline [of fragment name] by auto
    qed
  qed
  have last: "last ?lines \<noteq> [] \<or> ?lines = [[]]" if "\<not> endsWithNewline target"
  proof (cases "kv_appended target fragment = []")
    case False
    then have "last ?lines \<in> set (kv_appended target fragment)" by simp
    then show ?thesis by (auto simp: kv_appended_def)
  next
    case True
    have keep: "kv_override fragment line = [] \<longleftrightarrow> line = []" for line
      by (auto simp: kv_override_def split_kv_iff split: option.splits)
    have eq: "last ?lines = kv_override fragment (last (rawLines target))" using True by (simp add: last_map)
    from last_rawLines [OF that] show ?thesis
    proof
      assume "last (rawLines target) \<noteq> []"
      then have "last ?lines \<noteq> []" unfolding eq by (simp only: keep) simp
      then show ?thesis ..
    next
      assume "rawLines target = [[]]"
      then have "?lines = [[]]" using True keep [of "[]"] by simp
      then show ?thesis ..
    qed
  qed
  show "rawLines (mergeKeyValue target fragment) = ?lines"
  proof (cases "endsWithNewline target")
    case True
    then show ?thesis unfolding merged using rawLines_of_join(1) [OF _ clean] by simp
  next
    case False
    from rawLines_of_join(2) [OF _ clean last [OF False]] False show ?thesis unfolding merged by simp
  qed
  show "endsWithNewline (mergeKeyValue target fragment) = endsWithNewline target"
  proof (cases "endsWithNewline target")
    case False
    have "\<not> suffix [CHR 0x0A] (Join ?lines [CHR 0x0A])"
    proof (cases "?lines = [[]]")
      case True
      show ?thesis unfolding True by simp
    next
      case single: False
      with last [OF False] have "last ?lines \<noteq> []" by blast
      moreover have "?lines \<noteq> []" by simp
      moreover from last_in_set [OF this] clean have "CHR 0x0A \<notin> set (last ?lines)" by (rule bspec [rotated])
      ultimately show ?thesis by (intro suffix_Join)
    qed
    with False show ?thesis by (simp add: merged endsWithNewline_def)
  qed (simp add: merged endsWithNewline_def suffix_single)
qed

lemma last_value_override:
  "last_value (map (kv_override fragment) lines) name acc =
     (if \<exists>line\<in>set lines. \<exists>v. splitKeyValueLine line = Some (name, v)
      then (case value_of fragment name of Some w \<Rightarrow> Some w | None \<Rightarrow> last_value lines name acc) else acc)"
proof (induction lines arbitrary: acc rule: rev_induct)
  case (snoc line lines)
  then show ?case
    by (auto simp: last_value_split kv_override_split split: option.splits)
qed simp

lemma last_value_absent:
  "\<not> (\<exists>line\<in>set lines. \<exists>v. splitKeyValueLine line = Some (name, v)) \<Longrightarrow> last_value lines name acc = acc"
  by (induction lines arbitrary: acc) (auto split: option.splits)

lemma last_value_None:
  "last_value lines name acc = None \<longleftrightarrow> acc = None \<and> \<not> (\<exists>line\<in>set lines. \<exists>v. splitKeyValueLine line = Some (name, v))"
proof (induction lines arbitrary: acc)
  case (Cons line lines)
  show ?case
  proof (cases "splitKeyValueLine line")
    case (Some nv)
    with Cons.IH show ?thesis by (cases nv) auto
  qed (use Cons.IH in auto)
qed simp

lemma kv_applied_iff:
  "name \<in> set (kv_applied (snd (keyValueAssignments fragment)) lines) \<longleftrightarrow>
     value_of fragment name \<noteq> None \<and> (\<exists>line\<in>set lines. \<exists>v. splitKeyValueLine line = Some (name, v))"
proof -
  have "name \<in> set (case splitKeyValueLine line of None \<Rightarrow> []
        | Some (n, _) \<Rightarrow> if map_has (snd (keyValueAssignments fragment)) n then [n] else [])
      \<longleftrightarrow> value_of fragment name \<noteq> None \<and> (\<exists>v. splitKeyValueLine line = Some (name, v))" for line
    by (cases "splitKeyValueLine line") (auto simp: kv_values)
  then show ?thesis unfolding kv_applied_def by auto
qed

lemma last_value_appended:
  "last_value (map (\<lambda>n. n @ ''='' @ the (value_of fragment n)) names) name acc =
     (if name \<in> set names then value_of fragment name else acc)"
  if "\<And>n. n \<in> set names \<Longrightarrow> value_of fragment n \<noteq> None"
  using that
proof (induction names arbitrary: acc)
  case (Cons n names)
  then obtain v where v: "value_of fragment n = Some v" by fastforce
  have "splitKeyValueLine (n @ ''='' @ the (value_of fragment n)) = Some (n, v)"
    using kv_name_written [OF v, of v] v by simp
  with Cons v show ?case by auto
qed simp

lemma value_of_merge:
  "value_of (mergeKeyValue target fragment) name =
     (case value_of fragment name of Some v \<Rightarrow> Some v | None \<Rightarrow> value_of target name)"
proof -
  let ?new = "filter (\<lambda>n. n \<notin> set (kv_applied (snd (keyValueAssignments fragment)) (rawLines target))) (fst (keyValueAssignments fragment))"
  have new: "n \<in> set ?new \<Longrightarrow> value_of fragment n \<noteq> None" for n by (simp add: kv_names)
  have "value_of (mergeKeyValue target fragment) name =
      last_value (kv_appended target fragment) name (last_value (map (kv_override fragment) (rawLines target)) name None)"
    unfolding value_of_def [of "mergeKeyValue target fragment"] merge_lines last_value_split ..
  also have "\<dots> = (if name \<in> set ?new then value_of fragment name
      else last_value (map (kv_override fragment) (rawLines target)) name None)"
    unfolding kv_appended_def by (rule last_value_appended) (rule new)
  also have "\<dots> = (case value_of fragment name of Some v \<Rightarrow> Some v | None \<Rightarrow> value_of target name)"
    by (auto simp: kv_names kv_applied_iff last_value_override value_of_def [of target] last_value_absent split: option.splits)
  finally show ?thesis .
qed

text \<open>A key/value merge is exact and repeatable. Afterwards every name has the fragment's value
  if the fragment assigns it and the target's otherwise; the target's lines stand in order, each
  untouched unless it assigns a name of the fragment, followed by the names the target lacked;
  and merging the same fragment again changes nothing.\<close>

theorem key_value_merge_exact:
  "value_of (mergeKeyValue target fragment) name =
     (case value_of fragment name of Some v \<Rightarrow> Some v | None \<Rightarrow> value_of target name)
   \<and> (\<exists>added. rawLines (mergeKeyValue target fragment) =
        map (\<lambda>line. case splitKeyValueLine line of
               None \<Rightarrow> line
             | Some (n, _) \<Rightarrow> (case value_of fragment n of None \<Rightarrow> line | Some v \<Rightarrow> n @ ''='' @ v)) (rawLines target)
        @ map (\<lambda>n. n @ ''='' @ the (value_of fragment n)) added
        \<and> set added = {n. value_of fragment n \<noteq> None \<and> value_of target n = None} \<and> distinct added)
   \<and> mergeKeyValue (mergeKeyValue target fragment) fragment = mergeKeyValue target fragment"
proof (intro conjI)
  show "value_of (mergeKeyValue target fragment) name =
     (case value_of fragment name of Some v \<Rightarrow> Some v | None \<Rightarrow> value_of target name)"
    by (rule value_of_merge)
  have absent: "value_of target n = None \<longleftrightarrow> \<not> (\<exists>line\<in>set (rawLines target). \<exists>v. splitKeyValueLine line = Some (n, v))" for n
    by (simp add: value_of_def last_value_None)
  have dist: "distinct (fst (keyValueAssignments fragment))"
    using kv_fold_names [of "([], [])" "rawLines fragment"] by (simp add: keyValueAssignments_def)
  show "\<exists>added. rawLines (mergeKeyValue target fragment) =
        map (\<lambda>line. case splitKeyValueLine line of
               None \<Rightarrow> line
             | Some (n, _) \<Rightarrow> (case value_of fragment n of None \<Rightarrow> line | Some v \<Rightarrow> n @ ''='' @ v)) (rawLines target)
        @ map (\<lambda>n. n @ ''='' @ the (value_of fragment n)) added
        \<and> set added = {n. value_of fragment n \<noteq> None \<and> value_of target n = None} \<and> distinct added"
    unfolding merge_lines kv_override_def [abs_def] kv_appended_def
    by (intro exI conjI, rule refl) (auto simp: kv_names kv_applied_iff absent dist)
  show "mergeKeyValue (mergeKeyValue target fragment) fragment = mergeKeyValue target fragment"
  proof -
    let ?m = "mergeKeyValue target fragment"
    have keep: "kv_override fragment line = line" if "line \<in> set (rawLines ?m)" for line
    proof -
      have again: "kv_override fragment (kv_override fragment l) = kv_override fragment l" for l
      proof (cases "splitKeyValueLine l")
        case None
        then show ?thesis by (simp add: kv_override_def)
      next
        case (Some nv)
        then show ?thesis
          using kv_override_split [of fragment l] by (cases nv) (auto simp: kv_override_def split: option.splits)
      qed
      have new: "kv_override fragment (n @ ''='' @ the (value_of fragment n)) = n @ ''='' @ the (value_of fragment n)"
        if "value_of fragment n \<noteq> None" for n
      proof -
        from that obtain v where v: "value_of fragment n = Some v" by blast
        show ?thesis unfolding kv_override_def kv_name_written [OF v, of "the (value_of fragment n)"] by (simp add: v)
      qed
      from that again new show ?thesis unfolding merge_lines kv_appended_def by (auto simp: kv_names)
    qed
    have "kv_appended ?m fragment = []"
    proof -
      have merged_lines: "\<exists>line\<in>set (rawLines ?m). \<exists>v. splitKeyValueLine line = Some (n, v)" if "value_of ?m n \<noteq> None" for n
        using that unfolding value_of_def last_value_None by blast
      have "value_of ?m n \<noteq> None" if "value_of fragment n \<noteq> None" for n
        using that by (auto simp: value_of_merge)
      then show ?thesis
        using merged_lines unfolding kv_appended_def filter_empty_conv by (simp add: kv_names kv_applied_iff)
    qed
    with merge_lines [of ?m fragment] keep have "rawLines (mergeKeyValue ?m fragment) = rawLines ?m"
      by (simp add: map_idI)
    with rawLines_join [of ?m] rawLines_join [of "mergeKeyValue ?m fragment"] merge_ends [of ?m fragment] show ?thesis
      by simp
  qed
qed

end
