(* ===== verification/Recipe_Apply.thy ===== *)
theory Recipe_Apply
  imports Recipe_Merge Waiver_Adjudicate
begin

text \<open>
  Applying a recipe (\<open>pkg/recipe/apply.go\<close>).  The state is the disk, the ownership state of the
  run and the result so far; each op is a function on it that may fail, and a failure keeps what
  earlier ops wrote.  The transform dispatch and the waiver reader are injected by the caller and
  so are arguments here; the codecs, the YAML functions of the adoption record and the host are
  parameters.  One reading of the clock serves a whole apply.  The theorems say where an apply
  writes, which files it never touches, when it preserves, regenerates or refuses, and that a
  failed run adopts nothing.
\<close>

subsection \<open>Options and results\<close>

definition ModeDirect :: string where "ModeDirect = ''direct''"
definition ModeSDLCMediated :: string where "ModeSDLCMediated = ''sdlc-mediated''"

record DivergenceVerdict =
  dv_Covered :: bool
  dv_Diagnostics :: "Diagnostic list"

record ApplyOptions =
  ao_Mode :: string
  ao_Params :: "(string, string) gomap"
  ao_InjectionSites :: "(string, string) gomap"
  ao_ProjectRoot :: string
  ao_Dispatch :: "(string \<Rightarrow> string \<Rightarrow> disk \<Rightarrow> string option \<times> disk) option"
  ao_ReadWaivers :: "(string \<Rightarrow> string \<Rightarrow> disk \<Rightarrow> DivergenceVerdict) option"

record PreservedDivergence =
  pd_Path :: string
  pd_Rule :: string
  pd_CoveringWaiver :: string

record ApplyResult =
  ar_Written :: "string list"
  ar_Preserved :: "PreservedDivergence list"
  ar_Regenerated :: "string list"
  ar_Diagnostics :: "Diagnostic list"
  ar_Adoption :: AdoptionEntry

record ownership =
  ow_kind :: string
  ow_adopted :: bool
  ow_writtenNow :: "string list"
  ow_materialized :: bool

record divergenceOutcome =
  do_Preserved :: "PreservedDivergence option"
  do_Final :: bool
  do_OverDivergence :: bool
  do_Diagnostics :: "Diagnostic list"

record apply_env =
  ev_host :: host
  ev_codecs :: codecs
  ev_unmarshal :: "string \<Rightarrow> string + adoptions option"
  ev_marshal :: "YNode \<Rightarrow> string + string"
  ev_now :: GoTime

record apply_state =
  as_files :: disk
  as_own :: ownership
  as_result :: ApplyResult

type_synonym step_result = "string option \<times> apply_state"

definition zero_adoption :: AdoptionEntry where
  "zero_adoption = \<lparr>ae_Recipe = [], ae_Version = [], ae_Adopted = []\<rparr>"

definition zero_result :: ApplyResult where
  "zero_result = \<lparr>ar_Written = [], ar_Preserved = [], ar_Regenerated = [], ar_Diagnostics = [], ar_Adoption = zero_adoption\<rparr>"

definition recordWritten :: "string \<Rightarrow> ApplyResult \<Rightarrow> ApplyResult" where
  "recordWritten targ res =
     (if targ \<in> set (ar_Written res) then res else res\<lparr>ar_Written := ar_Written res @ [targ]\<rparr>)"

definition recordRegenerated :: "string \<Rightarrow> ApplyResult \<Rightarrow> ApplyResult" where
  "recordRegenerated targ res =
     (if targ \<in> set (ar_Regenerated res) then res else res\<lparr>ar_Regenerated := ar_Regenerated res @ [targ]\<rparr>)"

subsection \<open>Parameters and paths\<close>

definition effectiveParams :: "RecipeManifest \<Rightarrow> (string, string) gomap \<Rightarrow> (string, string) gomap" where
  "effectiveParams manifest supplied =
     fold (\<lambda>(name, v) params. map_set name v params) supplied
       (fold (\<lambda>spec params. if \<not> ps_Required spec \<or> ps_Default spec \<noteq> [] then map_set (ps_Name spec) (ps_Default spec) params else params)
         (rm_Params manifest) [])"

definition resolveUnder :: "host \<Rightarrow> string \<Rightarrow> string \<Rightarrow> string + string" where
  "resolveUnder h base declared =
     (if TrimSpace declared = [] then Inl ''the op declares no path''
      else (case os_Abs h base of
        Inl err \<Rightarrow> Inl (''resolve base directory '' @ quote base @ '': '' @ err)
      | Inr absBase \<Rightarrow>
          let joined = JoinPath [absBase, declared] in
          (case Rel absBase joined of
             None \<Rightarrow> Inl (''resolve declared path '' @ quote declared @ '': Rel: can't make '' @ joined @ '' relative to '' @ absBase)
           | Some relative \<Rightarrow>
               if relative = dotdot \<or> HasPrefix relative (dotdot @ ''/'')
               then Inl (''declared path '' @ quote declared @ '' escapes '' @ quote base)
               else Inr joined)))"

definition substituteField :: "string \<Rightarrow> string \<Rightarrow> (string, string) gomap \<Rightarrow> string + string" where
  "substituteField declared label params =
     (case Substitute declared params of
        Inl err \<Rightarrow> Inl (''substitute declared '' @ label @ '' '' @ quote declared @ '': '' @ err)
      | Inr rendered \<Rightarrow> Inr rendered)"

definition renderPayload :: "host \<Rightarrow> ResolvedRecipe \<Rightarrow> RecipeOp \<Rightarrow> (string, string) gomap \<Rightarrow> disk \<Rightarrow> string + string" where
  "renderPayload h r op params files =
     (case resolveUnder h (rs_Dir r) (op_Payload op) of
        Inl err \<Rightarrow> Inl (''resolve declared payload: '' @ err)
      | Inr payload \<Rightarrow>
          (case os_ReadFile h payload files of
             Inl err \<Rightarrow> Inl (''read declared payload '' @ quote (op_Payload op) @ '': '' @ err)
           | Inr raw \<Rightarrow>
               (case Substitute raw params of
                  Inl err \<Rightarrow> Inl (''substitute declared payload '' @ quote (op_Payload op) @ '': '' @ err)
                | Inr rendered \<Rightarrow> Inr rendered)))"

definition writeRendered :: "host \<Rightarrow> string \<Rightarrow> string \<Rightarrow> string \<Rightarrow> disk \<Rightarrow> string option \<times> disk" where
  "writeRendered h declared targ rendered files =
     (case os_MkdirAll h (Dir targ) files of
        (Some err, files') \<Rightarrow> (Some (''create parent directory for '' @ quote declared @ '': '' @ err), files')
      | (None, files') \<Rightarrow>
          (case os_WriteFile h targ rendered files' of
             (Some err, files'') \<Rightarrow> (Some (''write declared target '' @ quote declared @ '': '' @ err), files'')
           | (None, files'') \<Rightarrow> (None, files'')))"

definition targetExists :: "host \<Rightarrow> string \<Rightarrow> string \<Rightarrow> disk \<Rightarrow> string + bool" where
  "targetExists h declared targ files =
     (case os_Exists h targ files of
        Inl err \<Rightarrow> Inl (''inspect declared target '' @ quote declared @ '': '' @ err)
      | Inr present \<Rightarrow> Inr present)"

subsection \<open>Adjudicating a divergence\<close>

definition containsDiagnostic :: "Diagnostic list \<Rightarrow> Diagnostic \<Rightarrow> bool" where
  "containsDiagnostic ds c \<longleftrightarrow> list_ex (\<lambda>e. d_File e = d_File c \<and> d_Line e = d_Line c \<and> d_Message e = d_Message c) ds"

definition appendDiagnostics :: "Diagnostic list \<Rightarrow> Diagnostic list \<Rightarrow> Diagnostic list" where
  "appendDiagnostics dst src = fold (\<lambda>c acc. if containsDiagnostic acc c then acc else acc @ [c]) src dst"

definition firstMalformed :: "Diagnostic list \<Rightarrow> Diagnostic option" where
  "firstMalformed ds = find (\<lambda>d. d_Kind d = DiagnosticMalformed) ds"

definition enforcementRules :: "ResolvedRecipe \<Rightarrow> string list" where
  "enforcementRules r = (case rm_Enforcement (rs_Manifest r) of None \<Rightarrow> [] | Some e \<Rightarrow> en_Rules e)"

definition rawFileLines :: "host \<Rightarrow> string \<Rightarrow> disk \<Rightarrow> string + string list" where
  "rawFileLines h path files =
     (case os_ReadFile h path files of
        Inl err \<Rightarrow> Inl (''read '' @ quote path @ '': '' @ err)
      | Inr dat \<Rightarrow> Inr (rawLines dat))"

definition line_finding :: "string \<Rightarrow> string \<Rightarrow> nat \<Rightarrow> Finding" where
  "line_finding rule file i = \<lparr>f_RuleID = rule, f_File = file, f_Line = int i + 1, f_EndLine = 0, f_Severity = []\<rparr>"

definition lines_reader :: "string \<Rightarrow> string list \<Rightarrow> LineReader" where
  "lines_reader file lines named line =
     (if named \<noteq> file \<or> line < 1 \<or> line > int (length lines) then None else Some (lines ! nat (line - 1)))"

definition adjudicateDivergence :: "apply_env \<Rightarrow> string \<Rightarrow> string \<Rightarrow> disk \<Rightarrow> DivergenceVerdict" where
  "adjudicateDivergence env rule file files =
     (case rawFileLines (ev_host env) file files of
        Inl err \<Rightarrow> \<lparr>dv_Covered = False, dv_Diagnostics = []\<rparr>
      | Inr lines \<Rightarrow>
          let adjudicated = Adjudicate (map (line_finding rule file) [0..<length lines]) (Some (lines_reader file lines)) None (ev_now env) in
          \<lparr>dv_Covered = r_Suppressed adjudicated \<noteq> [],
           dv_Diagnostics = r_Malformed adjudicated @ r_NonWaivable adjudicated\<rparr>)"

definition coveringWaiverText :: "host \<Rightarrow> string \<Rightarrow> string \<Rightarrow> disk \<Rightarrow> string" where
  "coveringWaiverText h file rule files =
     (case rawFileLines h file files of
        Inl err \<Rightarrow> []
      | Inr lines \<Rightarrow>
          let marker = waiverMarker @ rule @ '':'' in
          (case find (\<lambda>line. Index line marker \<noteq> None) lines of
             None \<Rightarrow> []
           | Some line \<Rightarrow> (case Index line marker of None \<Rightarrow> [] | Some at \<Rightarrow> TrimSpace (drop at line))))"

text \<open>Every declared rule is consulted; the first covering rule is the one reported.\<close>

definition consult_rule ::
  "(string \<Rightarrow> DivergenceVerdict) \<Rightarrow> string \<Rightarrow> Diagnostic list \<times> string \<Rightarrow> Diagnostic list \<times> string" where
  "consult_rule read rule acc =
     (appendDiagnostics (fst acc) (dv_Diagnostics (read rule)),
      if dv_Covered (read rule) \<and> snd acc = [] then rule else snd acc)"

definition coveredDivergence ::
  "apply_env \<Rightarrow> ResolvedRecipe \<Rightarrow> ApplyOptions \<Rightarrow> string \<Rightarrow> disk \<Rightarrow> string \<times> string \<times> Diagnostic list \<times> bool" where
  "coveredDivergence env r opts targ files =
     (let read = (case ao_ReadWaivers opts of None \<Rightarrow> adjudicateDivergence env | Some reader \<Rightarrow> reader) in
      case fold (consult_rule (\<lambda>rule. read rule targ files)) (enforcementRules r) ([], []) of
        (diagnostics, covering) \<Rightarrow>
          if covering = [] then ([], [], diagnostics, False)
          else (covering, coveringWaiverText (ev_host env) targ covering files, diagnostics, True))"

definition preserveOrRegenerate ::
  "apply_env \<Rightarrow> ResolvedRecipe \<Rightarrow> RecipeOp \<Rightarrow> ApplyOptions \<Rightarrow> (string, string) gomap \<Rightarrow> ownership \<Rightarrow> string \<Rightarrow> string \<Rightarrow> disk
     \<Rightarrow> (string + divergenceOutcome) \<times> ownership" where
  "preserveOrRegenerate env r op opts params own declaredTarget targ files =
     (let kept = \<lparr>do_Preserved = Some \<lparr>pd_Path = declaredTarget, pd_Rule = [], pd_CoveringWaiver = []\<rparr>,
                  do_Final = True, do_OverDivergence = False, do_Diagnostics = []\<rparr> in
      if \<not> ow_adopted own then (Inr kept, own)
      else if ow_kind own = KindTemplating then (Inr kept, own\<lparr>ow_materialized := True\<rparr>)
      else (case renderPayload (ev_host env) r op params files of
        Inl err \<Rightarrow> (Inl (''compute the would-be regenerated output for '' @ quote declaredTarget @ '': '' @ err), own)
      | Inr rendered \<Rightarrow>
          (case os_ReadFile (ev_host env) targ files of
             Inl err \<Rightarrow> (Inl (''read recipe-owned target '' @ quote declaredTarget @ '': '' @ err), own)
           | Inr onDisk \<Rightarrow>
               if onDisk = rendered then
                 (Inr \<lparr>do_Preserved = None, do_Final = True, do_OverDivergence = False, do_Diagnostics = []\<rparr>,
                  own\<lparr>ow_materialized := True\<rparr>)
               else (case coveredDivergence env r opts targ files of
                 (rule, covering, diagnostics, covered) \<Rightarrow>
                   if covered then
                     (Inr \<lparr>do_Preserved = Some \<lparr>pd_Path = declaredTarget, pd_Rule = rule, pd_CoveringWaiver = covering\<rparr>,
                           do_Final = True, do_OverDivergence = False, do_Diagnostics = diagnostics\<rparr>,
                      own\<lparr>ow_materialized := True\<rparr>)
                   else (case firstMalformed diagnostics of
                     Some malformed \<Rightarrow>
                       (Inl (''the local divergence in '' @ quote declaredTarget @ '' is not covered by any active waiver, and the @waiver on line ''
                          @ Itoa (d_Line malformed) @ '' does not parse ('' @ d_Message malformed
                          @ ''); the applier will not regenerate over an edit it cannot adjudicate. Either correct the reason code to one the waiver grammar declares, or remove the token and re-apply to accept the regeneration''),
                        own)
                   | None \<Rightarrow>
                       (Inr \<lparr>do_Preserved = None, do_Final = False, do_OverDivergence = True, do_Diagnostics = diagnostics\<rparr>, own))))))"

subsection \<open>The op executors\<close>

definition create_write ::
  "apply_env \<Rightarrow> ResolvedRecipe \<Rightarrow> RecipeOp \<Rightarrow> (string, string) gomap \<Rightarrow> string \<Rightarrow> string \<Rightarrow> bool \<Rightarrow> apply_state \<Rightarrow> step_result" where
  "create_write env r op params declaredTarget targ overDivergence st =
     (case renderPayload (ev_host env) r op params (as_files st) of
        Inl err \<Rightarrow> (Some err, st)
      | Inr rendered \<Rightarrow>
          (case writeRendered (ev_host env) declaredTarget targ rendered (as_files st) of
             (Some err, files') \<Rightarrow> (Some err, st\<lparr>as_files := files'\<rparr>)
           | (None, files') \<Rightarrow>
               let written = recordWritten declaredTarget (as_result st) in
               (None, st\<lparr>as_files := files',
                         as_own := as_own st\<lparr>ow_writtenNow := declaredTarget # ow_writtenNow (as_own st), ow_materialized := True\<rparr>,
                         as_result := (if overDivergence then recordRegenerated declaredTarget written else written)\<rparr>)))"

definition applyCreate ::
  "apply_env \<Rightarrow> ResolvedRecipe \<Rightarrow> RecipeOp \<Rightarrow> ApplyOptions \<Rightarrow> (string, string) gomap \<Rightarrow> apply_state \<Rightarrow> step_result" where
  "applyCreate env r op opts params st =
     (case substituteField (op_Target op) ''target'' params of
        Inl err \<Rightarrow> (Some err, st)
      | Inr declaredTarget \<Rightarrow>
          (case resolveUnder (ev_host env) (ao_ProjectRoot opts) declaredTarget of
             Inl err \<Rightarrow> (Some (''resolve declared target: '' @ err), st)
           | Inr targ \<Rightarrow>
               (case targetExists (ev_host env) declaredTarget targ (as_files st) of
                  Inl err \<Rightarrow> (Some err, st)
                | Inr present \<Rightarrow>
                    if present \<and> declaredTarget \<notin> set (ow_writtenNow (as_own st)) then
                      (case preserveOrRegenerate env r op opts params (as_own st) declaredTarget targ (as_files st) of
                         (Inl err, own') \<Rightarrow> (Some err, st\<lparr>as_own := own'\<rparr>)
                       | (Inr outcome, own') \<Rightarrow>
                           let st' = st\<lparr>as_own := own',
                                 as_result := as_result st\<lparr>ar_Diagnostics := appendDiagnostics (ar_Diagnostics (as_result st)) (do_Diagnostics outcome)\<rparr>\<rparr> in
                           if do_Final outcome then
                             (None, case do_Preserved outcome of
                                None \<Rightarrow> st'
                              | Some p \<Rightarrow> st'\<lparr>as_result := as_result st'\<lparr>ar_Preserved := ar_Preserved (as_result st') @ [p]\<rparr>\<rparr>)
                           else create_write env r op params declaredTarget targ (do_OverDivergence outcome) st')
                    else create_write env r op params declaredTarget targ False st)))"

record injectionSite =
  is_target :: string
  is_anchor :: string

definition siteFor :: "RecipeOp \<Rightarrow> ApplyOptions \<Rightarrow> (string, string) gomap \<Rightarrow> string + injectionSite" where
  "siteFor op opts params =
     (let (targ, anchor) =
        (case map_of (ao_InjectionSites opts) (op_ID op) of
           None \<Rightarrow> (op_Target op, op_Anchor op)
         | Some supplied \<Rightarrow>
             if ao_Mode opts = ModeSDLCMediated then
               let (suppliedTarget, suppliedAnchor) =
                     (case Index supplied ''#'' of None \<Rightarrow> (supplied, []) | Some at \<Rightarrow> (take at supplied, drop (at + 1) supplied)) in
               (if TrimSpace suppliedTarget \<noteq> [] then suppliedTarget else op_Target op,
                if TrimSpace suppliedAnchor \<noteq> [] then suppliedAnchor else op_Anchor op)
             else (op_Target op, op_Anchor op)) in
      case substituteField targ ''target'' params of
        Inl err \<Rightarrow> Inl (''resolve the injection site: '' @ err)
      | Inr substitutedTarget \<Rightarrow>
          (case substituteField anchor ''anchor'' params of
             Inl err \<Rightarrow> Inl (''resolve the injection site: '' @ err)
           | Inr substitutedAnchor \<Rightarrow> Inr \<lparr>is_target = substitutedTarget, is_anchor = substitutedAnchor\<rparr>))"

definition relayedManual :: "RecipeOp \<Rightarrow> (string, string) gomap \<Rightarrow> string" where
  "relayedManual op params = (case Substitute (op_Manual op) params of Inl err \<Rightarrow> op_Manual op | Inr rendered \<Rightarrow> rendered)"

definition missingSite :: "RecipeOp \<Rightarrow> string \<Rightarrow> (string, string) gomap \<Rightarrow> string" where
  "missingSite op part params =
     ''the op declares no '' @ part @ '' and no injection site supplied one; the applier never guesses a site. Apply the declared instruction by hand: ''
     @ relayedManual op params"

definition injectionLimit :: "string \<Rightarrow> RecipeOp \<Rightarrow> (string, string) gomap \<Rightarrow> string \<Rightarrow> string" where
  "injectionLimit targ op params cause =
     ''the declared site in target '' @ quote targ @ '' could not be reached ('' @ cause
     @ ''); apply the recipe's declared instruction by hand: '' @ relayedManual op params"

definition applyInsert :: "apply_env \<Rightarrow> RecipeOp \<Rightarrow> ApplyOptions \<Rightarrow> (string, string) gomap \<Rightarrow> apply_state \<Rightarrow> step_result" where
  "applyInsert env op opts params st =
     (case siteFor op opts params of
        Inl err \<Rightarrow> (Some err, st)
      | Inr site \<Rightarrow>
          if TrimSpace (is_target site) = [] then (Some (missingSite op ''target'' params), st)
          else if TrimSpace (is_anchor site) = [] then (Some (missingSite op ''anchor'' params), st)
          else (case substituteField (op_Snippet op) ''snippet'' params of
            Inl err \<Rightarrow> (Some err, st)
          | Inr snippet \<Rightarrow>
              (case resolveUnder (ev_host env) (ao_ProjectRoot opts) (is_target site) of
                 Inl err \<Rightarrow> (Some (''resolve insertion site: '' @ err), st)
               | Inr targ \<Rightarrow>
                   (case os_ReadFile (ev_host env) targ (as_files st) of
                      Inl err \<Rightarrow> (Some (''read insertion site '' @ quote (is_target site) @ '': '' @ err), st)
                    | Inr content \<Rightarrow>
                        (case Index content (is_anchor site) of
                           None \<Rightarrow> (Some (injectionLimit (is_target site) op params (''anchor '' @ quote (is_anchor site) @ '' is absent from the target'')), st)
                         | Some anchorAt \<Rightarrow>
                             let spliceAt = anchorAt + length (is_anchor site) in
                             (case os_WriteFile (ev_host env) targ (take spliceAt content @ snippet @ drop spliceAt content) (as_files st) of
                                (Some err, files') \<Rightarrow> (Some (''write insertion site '' @ quote (is_target site) @ '': '' @ err), st\<lparr>as_files := files'\<rparr>)
                              | (None, files') \<Rightarrow>
                                  (None, st\<lparr>as_files := files', as_result := recordWritten (is_target site) (as_result st)\<rparr>)))))))"

definition applyTransform ::
  "apply_env \<Rightarrow> ResolvedRecipe \<Rightarrow> RecipeOp \<Rightarrow> ApplyOptions \<Rightarrow> (string, string) gomap \<Rightarrow> apply_state \<Rightarrow> step_result" where
  "applyTransform env r op opts params st =
     (case ao_Dispatch opts of
        None \<Rightarrow> (Some ''no transform dispatch was supplied; the transform seam is injected and has no default'', st)
      | Some dispatch \<Rightarrow>
          (case siteFor op opts params of
             Inl err \<Rightarrow> (Some err, st)
           | Inr site \<Rightarrow>
               if TrimSpace (is_target site) = [] then (Some (missingSite op ''target'' params), st)
               else (case resolveUnder (ev_host env) (rs_PackDir r) (op_Rule op) of
                 Inl err \<Rightarrow> (Some (''resolve declared rule: '' @ err), st)
               | Inr rule \<Rightarrow>
                   (case resolveUnder (ev_host env) (ao_ProjectRoot opts) (is_target site) of
                      Inl err \<Rightarrow> (Some (''resolve rewrite site: '' @ err), st)
                    | Inr targ \<Rightarrow>
                        (case os_Exists (ev_host env) targ (as_files st) of
                           Inl err \<Rightarrow> (Some (injectionLimit (is_target site) op params (''the target could not be opened: '' @ err)), st)
                         | Inr False \<Rightarrow> (Some (injectionLimit (is_target site) op params
                              (''the target could not be opened: stat '' @ targ @ '': no such file or directory'')), st)
                         | Inr True \<Rightarrow>
                             (case dispatch rule targ (as_files st) of
                                (Some err, files') \<Rightarrow> (Some (injectionLimit (is_target site) op params err), st\<lparr>as_files := files'\<rparr>)
                              | (None, files') \<Rightarrow>
                                  (None, st\<lparr>as_files := files', as_result := recordWritten (is_target site) (as_result st)\<rparr>)))))))"

definition fragmentPathContract :: string where
  "fragmentPathContract = CHR 0x27 # ''fragment' is a recipe-directory-relative path to a file read from disk, resolved under the recipe directory; inline content is not a supported form''"

definition applyMerge ::
  "apply_env \<Rightarrow> ResolvedRecipe \<Rightarrow> RecipeOp \<Rightarrow> ApplyOptions \<Rightarrow> (string, string) gomap \<Rightarrow> apply_state \<Rightarrow> step_result" where
  "applyMerge env r op opts params st =
     (case substituteField (op_Target op) ''target'' params of
        Inl err \<Rightarrow> (Some err, st)
      | Inr declaredTarget \<Rightarrow>
          (case resolveUnder (ev_host env) (ao_ProjectRoot opts) declaredTarget of
             Inl err \<Rightarrow> (Some (''resolve declared target: '' @ err), st)
           | Inr targ \<Rightarrow>
               (case mergeFormatFor op declaredTarget of
                  Inl err \<Rightarrow> (Some err, st)
                | Inr format \<Rightarrow>
                    (case resolveUnder (ev_host env) (rs_Dir r) (op_Fragment op) of
                       Inl err \<Rightarrow> (Some (''resolve declared fragment '' @ quote (op_Fragment op) @ '': '' @ err @ ''; '' @ fragmentPathContract), st)
                     | Inr fragmentPath \<Rightarrow>
                         (case os_ReadFile (ev_host env) fragmentPath (as_files st) of
                            Inl err \<Rightarrow> (Some (''read declared fragment '' @ quote (op_Fragment op) @ '': '' @ err @ ''; '' @ fragmentPathContract), st)
                          | Inr rawFragment \<Rightarrow>
                              (case Substitute rawFragment params of
                                 Inl err \<Rightarrow> (Some (''substitute declared fragment '' @ quote (op_Fragment op) @ '': '' @ err), st)
                               | Inr fragment \<Rightarrow>
                                   (case os_ReadFile (ev_host env) targ (as_files st) of
                                      Inl err \<Rightarrow> (Some (''read declared target '' @ quote declaredTarget @ '': '' @ err), st)
                                    | Inr rawTarget \<Rightarrow>
                                        (case mergeDocuments (ev_codecs env) format rawTarget fragment of
                                           Inl err \<Rightarrow> (Some (''merge declared fragment '' @ quote (op_Fragment op) @ '' into '' @ quote declaredTarget
                                                        @ '' as '' @ format @ '': '' @ err), st)
                                         | Inr merged \<Rightarrow>
                                             (case os_WriteFile (ev_host env) targ merged (as_files st) of
                                                (Some err, files') \<Rightarrow>
                                                  (Some (''write declared target '' @ quote declaredTarget @ '': '' @ err), st\<lparr>as_files := files'\<rparr>)
                                              | (None, files') \<Rightarrow>
                                                  (None, st\<lparr>as_files := files', as_result := recordWritten declaredTarget (as_result st)\<rparr>))))))))))"

subsection \<open>The apply\<close>

definition apply_op ::
  "apply_env \<Rightarrow> ResolvedRecipe \<Rightarrow> ApplyOptions \<Rightarrow> (string, string) gomap \<Rightarrow> RecipeOp \<Rightarrow> apply_state \<Rightarrow> step_result" where
  "apply_op env r opts params op st =
     (if op_Kind op = OpCreate then applyCreate env r op opts params st
      else if op_Kind op = OpInsert then applyInsert env op opts params st
      else if op_Kind op = OpStep then (None, st)
      else if op_Kind op = OpMerge then applyMerge env r op opts params st
      else if op_Kind op = OpTransform then applyTransform env r op opts params st
      else (Some (''op kind '' @ quote (op_Kind op) @ '' is outside the closed allowlist {'' @ OpCreate @ '', '' @ OpMerge @ '', ''
              @ OpTransform @ '', '' @ OpInsert @ '', '' @ OpStep @ ''}''), st))"

definition opFailure :: "ResolvedRecipe \<Rightarrow> nat \<Rightarrow> RecipeOp \<Rightarrow> string \<Rightarrow> string" where
  "opFailure r index op err =
     ''apply recipe '' @ quote (RecipeRef_String (rs_Ref r)) @ '': ops['' @ Itoa (int index) @ ''] '' @ quote (op_ID op)
     @ '' (kind '' @ quote (op_Kind op) @ ''): '' @ err"

fun apply_ops ::
  "apply_env \<Rightarrow> ResolvedRecipe \<Rightarrow> ApplyOptions \<Rightarrow> (string, string) gomap \<Rightarrow> nat \<Rightarrow> RecipeOp list \<Rightarrow> apply_state \<Rightarrow> step_result" where
  "apply_ops env r opts params index [] st = (None, st)"
| "apply_ops env r opts params index (op # ops) st =
     (case apply_op env r opts params op st of
        (Some err, st') \<Rightarrow> (Some (opFailure r index op err), st')
      | (None, st') \<Rightarrow> apply_ops env r opts params (Suc index) ops st')"

definition adoptionKey :: "RecipeRef \<Rightarrow> string" where
  "adoptionKey ref = rr_Pack ref @ '':'' @ rr_Recipe ref"

definition adoptionRecordPath :: "string \<Rightarrow> string" where
  "adoptionRecordPath projectRoot = JoinPath [projectRoot, AdoptionRecordName]"

definition recordAdoption :: "apply_env \<Rightarrow> adoptions \<Rightarrow> string \<Rightarrow> AdoptionEntry \<Rightarrow> disk \<Rightarrow> string option \<times> disk" where
  "recordAdoption env recipes projectRoot entry files =
     (case WriteAdoptions (ev_marshal env) (ev_host env) (adoptionRecordPath projectRoot) (map_set (ae_Recipe entry) entry recipes) files of
        (Some err, files') \<Rightarrow> (Some (''record adoption of '' @ quote (ae_Recipe entry) @ '': '' @ err), files')
      | (None, files') \<Rightarrow> (None, files'))"

text \<open>\<open>time.RFC3339\<close> of an instant in UTC.\<close>

definition format_rfc3339_utc :: "GoTime \<Rightarrow> string" where
  "format_rfc3339_utc t =
     (let secs = nat ((instant t mod day_ns) div second_ns) in
      format_date (t\<lparr>zone := UTC\<rparr>) @ ''T'' @ pad 2 (secs div 3600) @ '':'' @ pad 2 (secs div 60 mod 60) @ '':'' @ pad 2 (secs mod 60) @ ''Z'')"

definition initial_state :: "ResolvedRecipe \<Rightarrow> bool \<Rightarrow> disk \<Rightarrow> apply_state" where
  "initial_state r previouslyAdopted files =
     \<lparr>as_files = files,
      as_own = \<lparr>ow_kind = rm_Kind (rs_Manifest r), ow_adopted = previouslyAdopted, ow_writtenNow = [], ow_materialized = False\<rparr>,
      as_result = zero_result\<rparr>"

definition Apply :: "apply_env \<Rightarrow> ResolvedRecipe option \<Rightarrow> ApplyOptions \<Rightarrow> disk \<Rightarrow> (string + ApplyResult) \<times> disk" where
  "Apply env resolved opts files =
     (case resolved of
        None \<Rightarrow> (Inl ''apply recipe: no resolved recipe was supplied'', files)
      | Some r \<Rightarrow>
          let ref = quote (RecipeRef_String (rs_Ref r)) in
          if TrimSpace (ao_ProjectRoot opts) = [] then
            (Inl (''apply recipe '' @ ref @ '': no project root was supplied; the applier writes only beneath a caller-supplied root''), files)
          else (case ReadAdoptions (ev_unmarshal env) (ev_host env) (adoptionRecordPath (ao_ProjectRoot opts)) files of
            Inl err \<Rightarrow> (Inl (''apply recipe '' @ ref @ '': '' @ err), files)
          | Inr recipes \<Rightarrow>
              (case apply_ops env r opts (effectiveParams (rs_Manifest r) (ao_Params opts)) 0 (rm_Ops (rs_Manifest r))
                      (initial_state r (map_has recipes (adoptionKey (rs_Ref r))) files) of
                 (Some err, st) \<Rightarrow> (Inl err, as_files st)
               | (None, st) \<Rightarrow>
                   let entry = \<lparr>ae_Recipe = adoptionKey (rs_Ref r), ae_Version = rr_Version (rs_Ref r), ae_Adopted = format_rfc3339_utc (ev_now env)\<rparr>;
                       result = as_result st\<lparr>ar_Adoption := entry\<rparr> in
                   if ow_materialized (as_own st) then
                     (case recordAdoption env recipes (ao_ProjectRoot opts) entry (as_files st) of
                        (Some err, files') \<Rightarrow> (Inl (''apply recipe '' @ ref @ '': '' @ err), files')
                      | (None, files') \<Rightarrow> (Inr result, files'))
                   else (Inr result, as_files st))))"

fun apply_each ::
  "apply_env \<Rightarrow> ApplyOptions \<Rightarrow> nat \<Rightarrow> nat \<Rightarrow> ResolvedRecipe option list \<Rightarrow> ApplyResult list \<Rightarrow> disk
     \<Rightarrow> (ApplyResult list \<times> string option) \<times> disk" where
  "apply_each env opts index count [] results files = ((results, None), files)"
| "apply_each env opts index count (one # rest) results files =
     (case Apply env one opts files of
        (Inl err, files') \<Rightarrow>
          ((results, Some (''apply recipe '' @ Itoa (int (index + 1)) @ '' of '' @ Itoa (int count) @ '': '' @ err)), files')
      | (Inr result, files') \<Rightarrow> apply_each env opts (index + 1) count rest (results @ [result]) files')"

definition ApplyAll ::
  "apply_env \<Rightarrow> ResolvedRecipe option list \<Rightarrow> ApplyOptions \<Rightarrow> disk \<Rightarrow> (ApplyResult list \<times> string option) \<times> disk" where
  "ApplyAll env resolved opts files = apply_each env opts 0 (length resolved) resolved [] files"

subsection \<open>Where an apply writes\<close>

lemma JoinPath_clean: "IsAbs a \<Longrightarrow> Clean (JoinPath [a, b]) = JoinPath [a, b]"
  by (auto simp: JoinPath_def Let_def IsAbs_def)

text \<open>Every declared path that resolves lies inside its base.\<close>

lemma resolveUnder_inside:
  assumes "resolveUnder h base declared = Inr targ" "IsAbs (h_cwd h)"
  shows "inside h base targ"
proof -
  obtain absBase rel where b: "os_Abs h base = Inr absBase" "targ = JoinPath [absBase, declared]"
      "Rel absBase targ = Some rel" "rel \<noteq> dotdot" "\<not> HasPrefix rel (dotdot @ ''/'')"
    using assms(1) by (auto simp: resolveUnder_def Let_def split: if_splits sum.splits option.splits)
  from b(1) have ab: "absBase = AbsPath (h_cwd h) base"
    by (auto simp: os_Abs_def AbsPath_def split: if_splits option.splits)
  then have "IsAbs absBase" using assms(2) by (simp add: IsAbs_AbsPath)
  then have "IsAbs targ" "Clean targ = targ" using b(2) by (simp_all add: IsAbs_JoinPath JoinPath_clean)
  with Rel_inside [OF b(3-5)] ab show ?thesis by (auto simp: inside_def prefix_def)
qed

text \<open>What an apply may change: files inside the project, and missing directories above it.\<close>

definition confined :: "host \<Rightarrow> string \<Rightarrow> disk \<Rightarrow> disk \<Rightarrow> bool" where
  "confined h root files files' \<longleftrightarrow>
     (\<forall>p. files' p = files p \<or> inside h root p
        \<or> (files p = Missing \<and> files' p = a_directory \<and> ancestor p (AbsPath (h_cwd h) root)))"

lemma confined_refl [simp]: "confined h root files files"
  by (simp add: confined_def)

lemma confined_trans: "confined h root f g \<Longrightarrow> confined h root g k \<Longrightarrow> confined h root f k"
  unfolding confined_def by metis

lemma confined_write:
  "os_WriteFile h targ dat files = (err, files') \<Longrightarrow> inside h root (open_path h targ) \<Longrightarrow> confined h root files files'"
  unfolding confined_def using os_WriteFile_other by metis

lemma ancestor_inside:
  assumes "inside h root targ" "ancestor p (Dir targ)" "IsAbs (h_cwd h)"
  shows "inside h root p \<or> ancestor p (AbsPath (h_cwd h) root)"
proof -
  have d: "path_elems (Dir targ) = butlast (path_elems targ)" "IsAbs (Dir targ)"
    using path_elems_Dir [of targ] assms(1) by (auto simp: inside_def)
  then have p: "Clean p = p" "IsAbs p" "prefix (path_elems p) (path_elems targ)"
    using assms(2) prefix_order.trans [OF _ prefixeq_butlast] by (auto simp: ancestor_def)
  from prefix_same_cases [OF p(3)] assms(1,3) p show ?thesis
    by (auto simp: inside_def ancestor_def IsAbs_AbsPath)
qed

lemma confined_writeRendered:
  assumes "writeRendered h declared targ rendered files = (err, files')" "inside h root targ" "IsAbs (h_cwd h)"
  shows "confined h root files files'"
proof -
  obtain err1 mid where mk: "os_MkdirAll h (Dir targ) files = (err1, mid)" by fastforce
  have dir: "open_path h (Dir targ) = Dir targ"
    using path_elems_Dir [of targ] assms(2) by (simp add: inside_def open_path_abs)
  have "confined h root files mid"
    unfolding confined_def using os_MkdirAll_made [OF mk] dir ancestor_inside [OF assms(2) _ assms(3)] by metis
  moreover have "confined h root mid files'" if "err1 = None"
    using assms(1) mk that confined_write [of h targ rendered mid _ _ root] inside_open [OF assms(2)] assms(2)
    by (auto simp: writeRendered_def split: prod.splits option.splits)
  moreover have "files' = mid" if "err1 \<noteq> None"
    using assms(1) mk that by (auto simp: writeRendered_def)
  ultimately show ?thesis using confined_trans by (cases err1) auto
qed

text \<open>The documented contract of a transform engine: it rewrites its target in place.\<close>

definition rewrites_target_only :: "ApplyOptions \<Rightarrow> bool" where
  "rewrites_target_only opts \<longleftrightarrow>
     (case ao_Dispatch opts of
        None \<Rightarrow> True
      | Some dispatch \<Rightarrow> (\<forall>rule targ files p. p \<noteq> targ \<longrightarrow> snd (dispatch rule targ files) p = files p))"

lemma create_write_confined:
  assumes "create_write env r op params declared targ od st = (err, st')"
    "inside (ev_host env) root targ" "IsAbs (h_cwd (ev_host env))"
  shows "confined (ev_host env) root (as_files st) (as_files st')"
  using assms(1) confined_writeRendered [OF _ assms(2,3)]
  by (auto simp: create_write_def Let_def split: sum.splits prod.splits option.splits)

lemma applyCreate_confined:
  assumes "applyCreate env r op opts params st = (err, st')" "IsAbs (h_cwd (ev_host env))"
  shows "confined (ev_host env) (ao_ProjectRoot opts) (as_files st) (as_files st')"
proof -
  have keep: "create_write env r op params d targ od st2 = (err, st') \<Longrightarrow> as_files st2 = as_files st \<Longrightarrow>
      resolveUnder (ev_host env) (ao_ProjectRoot opts) d = Inr targ \<Longrightarrow>
      confined (ev_host env) (ao_ProjectRoot opts) (as_files st) (as_files st')" for d targ od st2
    using create_write_confined [OF _ resolveUnder_inside assms(2)] assms(2) by metis
  show ?thesis
  proof (cases "substituteField (op_Target op) ''target'' params")
    case (Inl e)
    with assms(1) show ?thesis by (auto simp: applyCreate_def)
  next
    case sub: (Inr d)
    show ?thesis
    proof (cases "resolveUnder (ev_host env) (ao_ProjectRoot opts) d")
      case (Inl e)
      with assms(1) sub show ?thesis by (auto simp: applyCreate_def)
    next
      case res: (Inr targ)
      show ?thesis
        using assms(1) sub res
        by (auto simp: applyCreate_def Let_def split: sum.splits if_splits prod.splits option.splits dest: keep)
    qed
  qed
qed

lemma applyInsert_confined:
  assumes "applyInsert env op opts params st = (err, st')" "IsAbs (h_cwd (ev_host env))"
  shows "confined (ev_host env) (ao_ProjectRoot opts) (as_files st) (as_files st')"
  using assms(1) confined_write resolveUnder_inside [OF _ assms(2)] inside_open
  by (fastforce simp: applyInsert_def Let_def split: sum.splits if_splits prod.splits option.splits)

lemma applyMerge_confined:
  assumes "applyMerge env r op opts params st = (err, st')" "IsAbs (h_cwd (ev_host env))"
  shows "confined (ev_host env) (ao_ProjectRoot opts) (as_files st) (as_files st')"
  using assms(1) confined_write resolveUnder_inside [OF _ assms(2)] inside_open
  by (fastforce simp: applyMerge_def split: sum.splits prod.splits option.splits)

lemma applyTransform_confined:
  assumes "applyTransform env r op opts params st = (err, st')" "IsAbs (h_cwd (ev_host env))" "rewrites_target_only opts"
  shows "confined (ev_host env) (ao_ProjectRoot opts) (as_files st) (as_files st')"
proof (cases "as_files st' = as_files st")
  case False
  then obtain dispatch rule targ d e where d: "ao_Dispatch opts = Some dispatch"
      "resolveUnder (ev_host env) (ao_ProjectRoot opts) d = Inr targ"
      "dispatch rule targ (as_files st) = (e, as_files st')"
    using assms(1) by (auto simp: applyTransform_def split: sum.splits if_splits prod.splits option.splits bool.splits)
  have "as_files st' p = as_files st p" if "p \<noteq> targ" for p
  proof -
    have "snd (dispatch rule targ (as_files st)) p = as_files st p"
      using assms(3) d(1) that by (simp add: rewrites_target_only_def)
    with d(3) show ?thesis by simp
  qed
  then show ?thesis unfolding confined_def using resolveUnder_inside [OF d(2) assms(2)] by metis
qed simp

lemma apply_ops_confined:
  assumes "IsAbs (h_cwd (ev_host env))" "rewrites_target_only opts"
  shows "apply_ops env r opts params index ops st = (err, st') \<Longrightarrow>
    confined (ev_host env) (ao_ProjectRoot opts) (as_files st) (as_files st')"
proof (induction ops arbitrary: index st)
  case (Cons op ops)
  obtain e mid where op: "apply_op env r opts params op st = (e, mid)" by fastforce
  then have "confined (ev_host env) (ao_ProjectRoot opts) (as_files st) (as_files mid)"
    using applyCreate_confined applyInsert_confined applyMerge_confined applyTransform_confined assms
    by (fastforce simp: apply_op_def split: if_splits)
  with Cons.IH Cons.prems op show ?case by (auto split: option.splits intro: confined_trans)
qed simp

lemma adoption_inside:
  assumes "IsAbs (h_cwd h)" "root \<noteq> []"
  shows "inside h root (open_path h (adoptionRecordPath root))"
  using assms path_elems_named [OF assms, of AdoptionRecordName]
  by (simp add: inside_def open_path_def adoptionRecordPath_def Clean_AbsPath IsAbs_AbsPath AdoptionRecordName_def proper_elem_def)

lemma recordAdoption_confined:
  assumes "recordAdoption env recipes root entry files = (err, files')" "IsAbs (h_cwd (ev_host env))" "root \<noteq> []"
  shows "confined (ev_host env) root files files'"
  using assms(1) confined_write [OF _ adoption_inside [OF assms(2,3)]]
  by (auto simp: recordAdoption_def WriteAdoptions_def split: sum.splits prod.splits option.splits)

lemma Apply_confined:
  assumes "Apply env resolved opts files = (res, files')" "IsAbs (h_cwd (ev_host env))" "rewrites_target_only opts"
  shows "confined (ev_host env) (ao_ProjectRoot opts) files files'"
proof (cases "resolved = None \<or> TrimSpace (ao_ProjectRoot opts) = []")
  case True
  with assms(1) show ?thesis by (auto simp: Apply_def split: option.splits)
next
  case False
  then obtain r where r: "resolved = Some r" "TrimSpace (ao_ProjectRoot opts) \<noteq> []" by auto
  then have root: "ao_ProjectRoot opts \<noteq> []" by auto
  show ?thesis
  proof (cases "ReadAdoptions (ev_unmarshal env) (ev_host env) (adoptionRecordPath (ao_ProjectRoot opts)) files")
    case (Inl e)
    with assms(1) r show ?thesis by (auto simp: Apply_def)
  next
    case (Inr recipes)
    obtain e st where ops: "apply_ops env r opts (effectiveParams (rs_Manifest r) (ao_Params opts)) 0 (rm_Ops (rs_Manifest r))
        (initial_state r (map_has recipes (adoptionKey (rs_Ref r))) files) = (e, st)" by fastforce
    have "confined (ev_host env) (ao_ProjectRoot opts) files (as_files st)"
      using apply_ops_confined [OF assms(2,3) ops] by (simp add: initial_state_def)
    with assms(1) r Inr ops recordAdoption_confined [OF _ assms(2) root] show ?thesis
      by (auto simp: Apply_def Let_def split: option.splits if_splits prod.splits intro: confined_trans)
  qed
qed

lemma apply_each_confined:
  assumes "IsAbs (h_cwd (ev_host env))" "rewrites_target_only opts"
  shows "apply_each env opts index count rs results files = (res, files') \<Longrightarrow>
    confined (ev_host env) (ao_ProjectRoot opts) files files'"
proof (induction rs arbitrary: index results files)
  case (Cons one rest)
  obtain out mid where "Apply env one opts files = (out, mid)" by fastforce
  with Apply_confined [OF this assms] Cons show ?case by (auto split: sum.splits intro: confined_trans)
qed simp


subsection \<open>A concrete project\<close>

definition demo_host :: host where
  "demo_host = \<lparr>h_cwd = ''/w'', h_getwd = None, h_stat = \<lambda>_ _. None, h_mkdir = \<lambda>_ _. None, h_write = \<lambda>_ _ _. None\<rparr>"

definition demo_env :: apply_env where
  "demo_env = \<lparr>ev_host = demo_host,
     ev_codecs = \<lparr>cd_decode = \<lambda>_ s. Inr (DLeaf s), cd_encode = \<lambda>_ d. case d of DLeaf s \<Rightarrow> Inr s | DTable _ \<Rightarrow> Inr []\<rparr>,
     ev_unmarshal = \<lambda>s. if s = ''none'' then Inr None else Inr (Some [(''a/p:r'', zero_adoption)]),
     ev_marshal = \<lambda>_. Inr ''some'', ev_now = at_epoch\<rparr>"

definition demo_create :: "string \<Rightarrow> string \<Rightarrow> RecipeOp" where
  "demo_create targ payload = \<lparr>op_ID = ''c'', op_Kind = OpCreate, op_Target = targ, op_Payload = payload, op_Fragment = [],
     op_Format = [], op_Rule = [], op_Anchor = [], op_Snippet = [], op_Manual = []\<rparr>"

definition demo_recipe :: "string \<Rightarrow> RecipeOp list \<Rightarrow> ResolvedRecipe" where
  "demo_recipe kind ops = \<lparr>rs_Ref = \<lparr>rr_Pack = ''a/p'', rr_Recipe = ''r'', rr_Version = ''1.0.0''\<rparr>, rs_Dir = ''/p/r'', rs_PackDir = ''/p'',
     rs_Manifest = \<lparr>rm_Kind = kind, rm_Version = ''1.0.0'', rm_Params = [], rm_Ops = ops, rm_TransformRules = [],
        rm_Enforcement = Some \<lparr>en_Rules = [''a/p/r1'']\<rparr>, rm_Compat = [], rm_Variants = []\<rparr>\<rparr>"

definition demo_opts :: ApplyOptions where
  "demo_opts = \<lparr>ao_Mode = ModeDirect, ao_Params = [], ao_InjectionSites = [], ao_ProjectRoot = ''/w'', ao_Dispatch = None, ao_ReadWaivers = None\<rparr>"

definition demo_disk :: disk where
  "demo_disk p = (if p = ''/p/r/t'' then Holds ''new'' else if p = ''/w/mine'' then Holds ''old'' else Missing)"


subsection \<open>Files that are not the recipe's\<close>

text \<open>What holds at every point of an apply that creates files without owning any that exist.\<close>

definition leaves_existing :: "apply_env \<Rightarrow> ApplyOptions \<Rightarrow> disk \<Rightarrow> apply_state \<Rightarrow> bool" where
  "leaves_existing env opts files0 st \<longleftrightarrow>
     (\<forall>p. files0 p \<noteq> Missing \<longrightarrow> as_files st p = files0 p)
     \<and> (\<forall>d\<in>set (ow_writtenNow (as_own st)). \<forall>targ. resolveUnder (ev_host env) (ao_ProjectRoot opts) d = Inr targ \<longrightarrow> files0 targ = Missing)
     \<and> (ow_adopted (as_own st) \<longrightarrow> ow_kind (as_own st) = KindTemplating)"

lemma os_Exists_False: "os_Exists h p files = Inr False \<Longrightarrow> files (open_path h p) = Missing"
  by (auto simp: os_Exists_def split: option.splits file_state.splits)

lemma writeRendered_keeps:
  assumes "writeRendered h declared targ rendered files = (err, files')" "q \<noteq> open_path h targ" "files q \<noteq> Missing"
  shows "files' q = files q"
proof -
  obtain err1 mid where mk: "os_MkdirAll h (Dir targ) files = (err1, mid)" by fastforce
  have "mid q = files q" by (rule os_MkdirAll_keeps [OF mk assms(3)])
  moreover have "files' q = mid q"
    using assms(1) mk os_WriteFile_other [OF _ assms(2)]
    by (auto simp: writeRendered_def split: option.splits prod.splits)
  ultimately show ?thesis by simp
qed

lemma create_write_leaves:
  assumes "create_write env r op params d targ od st = (err, st')" "leaves_existing env opts files0 st"
    "resolveUnder (ev_host env) (ao_ProjectRoot opts) d = Inr targ" "IsAbs (h_cwd (ev_host env))" "files0 targ = Missing"
  shows "leaves_existing env opts files0 st'"
proof -
  have open_targ: "open_path (ev_host env) targ = targ" by (rule inside_open [OF resolveUnder_inside [OF assms(3,4)]])
  have files: "as_files st' p = files0 p" if "files0 p \<noteq> Missing" for p
  proof -
    have p: "as_files st p = files0 p" "p \<noteq> targ" using that assms(2,5) by (auto simp: leaves_existing_def)
    with assms(1) writeRendered_keeps [of "ev_host env" d targ _ "as_files st" _ _ p] that open_targ show ?thesis
      by (auto simp: create_write_def Let_def split: sum.splits prod.splits option.splits)
  qed
  have own: "ow_adopted (as_own st') = ow_adopted (as_own st)" "ow_kind (as_own st') = ow_kind (as_own st)"
    "set (ow_writtenNow (as_own st')) \<subseteq> insert d (set (ow_writtenNow (as_own st)))"
    using assms(1) by (auto simp: create_write_def Let_def split: sum.splits prod.splits option.splits)
  show ?thesis unfolding leaves_existing_def
  proof (intro conjI)
    show "\<forall>d\<in>set (ow_writtenNow (as_own st')). \<forall>targ. resolveUnder (ev_host env) (ao_ProjectRoot opts) d = Inr targ \<longrightarrow> files0 targ = Missing"
      using own(3) assms(2,3,5) unfolding leaves_existing_def by (metis insertE subsetD sum.inject(2))
  qed (use files own assms(2) in \<open>auto simp: leaves_existing_def\<close>)
qed

lemma kept_outcome:
  assumes "ow_adopted own \<longrightarrow> ow_kind own = KindTemplating"
  shows "\<exists>m. preserveOrRegenerate env r op opts params own d targ files =
     (Inr \<lparr>do_Preserved = Some \<lparr>pd_Path = d, pd_Rule = [], pd_CoveringWaiver = []\<rparr>,
           do_Final = True, do_OverDivergence = False, do_Diagnostics = []\<rparr>, own\<lparr>ow_materialized := m\<rparr>)"
proof (cases "ow_adopted own")
  case True
  with assms show ?thesis by (intro exI [of _ True]) (simp add: preserveOrRegenerate_def Let_def)
next
  case False
  then show ?thesis by (intro exI [of _ "ow_materialized own"]) (simp add: preserveOrRegenerate_def Let_def)
qed

lemma applyCreate_leaves:
  assumes "applyCreate env r op opts params st = (err, st')" "leaves_existing env opts files0 st" "IsAbs (h_cwd (ev_host env))"
  shows "leaves_existing env opts files0 st'"
proof (cases "substituteField (op_Target op) ''target'' params")
  case (Inl e)
  with assms(1,2) show ?thesis by (auto simp: applyCreate_def)
next
  case sub: (Inr d)
  show ?thesis
  proof (cases "resolveUnder (ev_host env) (ao_ProjectRoot opts) d")
    case (Inl e)
    with assms(1,2) sub show ?thesis by (auto simp: applyCreate_def)
  next
    case res: (Inr targ)
    have open_targ: "open_path (ev_host env) targ = targ" by (rule inside_open [OF resolveUnder_inside [OF res assms(3)]])
    show ?thesis
    proof (cases "targetExists (ev_host env) d targ (as_files st)")
      case (Inl e)
      with assms(1,2) sub res show ?thesis by (auto simp: applyCreate_def)
    next
      case ex: (Inr present)
      show ?thesis
      proof (cases "present \<and> d \<notin> set (ow_writtenNow (as_own st))")
        case True
        obtain m where "preserveOrRegenerate env r op opts params (as_own st) d targ (as_files st) =
            (Inr \<lparr>do_Preserved = Some \<lparr>pd_Path = d, pd_Rule = [], pd_CoveringWaiver = []\<rparr>,
                  do_Final = True, do_OverDivergence = False, do_Diagnostics = []\<rparr>, (as_own st)\<lparr>ow_materialized := m\<rparr>)"
          using kept_outcome assms(2) unfolding leaves_existing_def by blast
        with assms(1,2) sub res ex True show ?thesis by (auto simp: applyCreate_def Let_def leaves_existing_def)
      next
        case False
        then have "create_write env r op params d targ False st = (err, st')"
          using assms(1) sub res ex by (auto simp: applyCreate_def)
        moreover have "files0 targ = Missing"
        proof (cases "d \<in> set (ow_writtenNow (as_own st))")
          case True
          with assms(2) res show ?thesis by (auto simp: leaves_existing_def)
        next
          case fresh: False
          with False ex have "os_Exists (ev_host env) targ (as_files st) = Inr False"
            by (auto simp: targetExists_def split: sum.splits)
          from os_Exists_False [OF this] open_targ assms(2) show ?thesis by (auto simp: leaves_existing_def)
        qed
        ultimately show ?thesis using create_write_leaves assms(2,3) res by metis
      qed
    qed
  qed
qed

lemma apply_ops_leaves:
  assumes "IsAbs (h_cwd (ev_host env))"
  shows "apply_ops env r opts params index ops st = (err, st') \<Longrightarrow> leaves_existing env opts files0 st \<Longrightarrow>
    set (map op_Kind ops) \<subseteq> {OpCreate, OpStep} \<Longrightarrow> leaves_existing env opts files0 st'"
proof (induction ops arbitrary: index st)
  case (Cons op ops)
  obtain e mid where op: "apply_op env r opts params op st = (e, mid)" by fastforce
  moreover have "leaves_existing env opts files0 mid"
  proof (cases "op_Kind op = OpCreate")
    case True
    with op Cons.prems(2) applyCreate_leaves assms show ?thesis by (auto simp: apply_op_def)
  next
    case False
    with Cons.prems(3) have "op_Kind op = OpStep" by simp
    with op Cons.prems(2) show ?thesis by (auto simp: apply_op_def OpStep_def OpCreate_def OpInsert_def)
  qed
  ultimately show ?case using Cons.IH Cons.prems by (auto split: option.splits)
qed simp

lemma recordAdoption_other:
  "recordAdoption env recipes root entry files = (err, files') \<Longrightarrow> p \<noteq> open_path (ev_host env) (adoptionRecordPath root) \<Longrightarrow> files' p = files p"
  using os_WriteFile_other
  by (fastforce simp: recordAdoption_def WriteAdoptions_def split: sum.splits prod.splits option.splits)

text \<open>C39: A create never clobbers. When a recipe of create and step ops is applied for the first time, or
  is a templating recipe, every file that existed before the apply still holds the same bytes
  afterwards, whether the apply succeeds or fails; only the adoption record may be rewritten.\<close>

theorem create_never_clobbers:
  assumes "Apply env (Some r) opts files = (res, files')" "IsAbs (h_cwd (ev_host env))"
    and "set (map op_Kind (rm_Ops (rs_Manifest r))) \<subseteq> {OpCreate, OpStep}"
    and "rm_Kind (rs_Manifest r) = KindTemplating
       \<or> ReadAdoptions (ev_unmarshal env) (ev_host env) (adoptionRecordPath (ao_ProjectRoot opts)) files = Inr recipes
         \<and> map_of recipes (adoptionKey (rs_Ref r)) = None"
    and "files p \<noteq> Missing" "p \<noteq> open_path (ev_host env) (adoptionRecordPath (ao_ProjectRoot opts))"
  shows "files' p = files p"
proof -
  let ?path = "adoptionRecordPath (ao_ProjectRoot opts)"
  show ?thesis
  proof (cases "TrimSpace (ao_ProjectRoot opts) = []")
    case True
    with assms(1) show ?thesis by (auto simp: Apply_def)
  next
    case root: False
    show ?thesis
    proof (cases "ReadAdoptions (ev_unmarshal env) (ev_host env) ?path files")
      case (Inl e)
      with assms(1) root show ?thesis by (auto simp: Apply_def)
    next
      case (Inr known)
      let ?st = "initial_state r (map_has known (adoptionKey (rs_Ref r))) files"
      obtain e st where ops: "apply_ops env r opts (effectiveParams (rs_Manifest r) (ao_Params opts)) 0 (rm_Ops (rs_Manifest r)) ?st = (e, st)"
        by fastforce
      have "leaves_existing env opts files ?st"
        using assms(4) Inr by (auto simp: leaves_existing_def initial_state_def)
      from apply_ops_leaves [OF assms(2) ops this assms(3)] assms(5) have "as_files st p = files p"
        by (auto simp: leaves_existing_def)
      with assms(1) root Inr ops show ?thesis
        by (auto simp: Apply_def Let_def split: option.splits if_splits prod.splits dest: recordAdoption_other [OF _ assms(6)])
    qed
  qed
qed

theorem create_never_clobbers_witness:
  "snd (Apply demo_env (Some (demo_recipe KindScaffolding [demo_create ''mine'' ''t'', demo_create ''x'' ''t''])) demo_opts demo_disk) ''/w/mine'' = Holds ''old''"
proof -
  let ?r = "demo_recipe KindScaffolding [demo_create ''mine'' ''t'', demo_create ''x'' ''t'']"
  have "snd (Apply demo_env (Some ?r) demo_opts demo_disk) ''/w/mine'' = demo_disk ''/w/mine''"
  proof (rule create_never_clobbers)
    show "Apply demo_env (Some ?r) demo_opts demo_disk =
        (fst (Apply demo_env (Some ?r) demo_opts demo_disk), snd (Apply demo_env (Some ?r) demo_opts demo_disk))" by simp
    show "rm_Kind (rs_Manifest ?r) = KindTemplating
       \<or> ReadAdoptions (ev_unmarshal demo_env) (ev_host demo_env) (adoptionRecordPath (ao_ProjectRoot demo_opts)) demo_disk = Inr []
         \<and> map_of [] (adoptionKey (rs_Ref ?r)) = (None :: AdoptionEntry option)"
      by code_simp
  qed (code_simp, simp add: demo_recipe_def demo_create_def, code_simp, code_simp)
  then show ?thesis by (simp add: demo_disk_def)
qed

text \<open>Ownership is kept per recipe, not per file. A recipe declares two files, one of which the
  consumer already has. The first apply preserves the consumer's file and writes the other; that
  adopts the recipe, and the second apply overwrites the file it had preserved.\<close>

theorem preserved_file_overwritten_on_reapply:
  "(case Apply demo_env (Some (demo_recipe KindScaffolding [demo_create ''mine'' ''t'', demo_create ''x'' ''t''])) demo_opts demo_disk of
      (Inr first, disk1) \<Rightarrow>
        map pd_Path (ar_Preserved first) = [''mine''] \<and> ar_Written first = [''x''] \<and> disk1 ''/w/mine'' = Holds ''old''
        \<and> (case Apply demo_env (Some (demo_recipe KindScaffolding [demo_create ''mine'' ''t'', demo_create ''x'' ''t''])) demo_opts disk1 of
             (Inr again, disk2) \<Rightarrow> ar_Regenerated again = [''mine''] \<and> disk2 ''/w/mine'' = Holds ''new''
           | _ \<Rightarrow> False)
    | _ \<Rightarrow> False)"
  by code_simp

subsection \<open>Insertions\<close>

text \<open>An insertion is exact. It succeeds only by splicing the substituted snippet right after the
  first occurrence of the resolved anchor in the resolved target, which is the only file it
  changes; on any failure before the write the disk is as it was.\<close>

theorem insert_exact:
  assumes "applyInsert env op opts params st = (err, st')" "IsAbs (h_cwd (ev_host env))"
    and "\<And>p dat files. h_write (ev_host env) p dat files = None"
  shows "case err of
      Some e \<Rightarrow> as_files st' = as_files st
    | None \<Rightarrow> \<exists>site snippet targ before after.
        siteFor op opts params = Inr site \<and> Substitute (op_Snippet op) params = Inr snippet
        \<and> resolveUnder (ev_host env) (ao_ProjectRoot opts) (is_target site) = Inr targ
        \<and> as_files st targ = Holds (before @ is_anchor site @ after)
        \<and> Index (before @ is_anchor site) (is_anchor site) = Some (length before)
        \<and> as_files st' = (as_files st)(targ := Holds (before @ is_anchor site @ snippet @ after))"
proof (cases err)
  case (Some e)
  with assms(1,3) show ?thesis
    by (auto simp: applyInsert_def Let_def os_WriteFile_def split: sum.splits if_splits option.splits prod.splits)
next
  case None
  then obtain site snippet targ content at where s: "siteFor op opts params = Inr site" "TrimSpace (is_anchor site) \<noteq> []"
      "substituteField (op_Snippet op) ''snippet'' params = Inr snippet"
      "resolveUnder (ev_host env) (ao_ProjectRoot opts) (is_target site) = Inr targ"
      "os_ReadFile (ev_host env) targ (as_files st) = Inr content" "Index content (is_anchor site) = Some at"
      "os_WriteFile (ev_host env) targ (take (at + length (is_anchor site)) content @ snippet @ drop (at + length (is_anchor site)) content)
         (as_files st) = (None, as_files st')"
    using assms(1) by (auto simp: applyInsert_def Let_def split: sum.splits if_splits option.splits prod.splits)
  have open_targ: "open_path (ev_host env) targ = targ" by (rule inside_open [OF resolveUnder_inside [OF s(4) assms(2)]])
  have "is_anchor site \<noteq> []" using s(2) by auto
  note split = Index_take [OF s(6) this]
  let ?before = "take at content" and ?after = "drop (at + length (is_anchor site)) content"
  from split have content: "content = ?before @ is_anchor site @ ?after" "length ?before = at" by simp_all
  then have head: "take (at + length (is_anchor site)) content = ?before @ is_anchor site"
    by (metis append.assoc append_eq_conv_conj length_append)
  have "Substitute (op_Snippet op) params = Inr snippet"
    using s(3) by (auto simp: substituteField_def split: sum.splits)
  moreover have "as_files st targ = Holds content"
    using s(5) open_targ by (cases "as_files st targ") (simp_all add: os_ReadFile_def)
  moreover have "as_files st' = (as_files st)(targ := Holds (?before @ is_anchor site @ snippet @ ?after))"
    using os_WriteFile_ok [OF s(7)] open_targ by (simp add: head)
  moreover have "as_files st targ = Holds (?before @ is_anchor site @ ?after)" using calculation(2) content(1) by simp
  moreover have "Index (?before @ is_anchor site) (is_anchor site) = Some (length ?before)" using split content(2) by simp
  ultimately show ?thesis using s(1,4) unfolding None option.case by blast
qed

definition demo_insert :: RecipeOp where
  "demo_insert = (demo_create ''mine'' [])\<lparr>op_Kind := OpInsert, op_Anchor := ''ol'', op_Snippet := ''iv''\<rparr>"

theorem insert_exact_witness:
  "\<exists>site targ. siteFor demo_insert demo_opts [] = Inr site
     \<and> resolveUnder demo_host (ao_ProjectRoot demo_opts) (is_target site) = Inr targ
     \<and> as_files (snd (applyInsert demo_env demo_insert demo_opts [] (initial_state (demo_recipe KindScaffolding []) False demo_disk))) targ
         = Holds ''olivd''"
proof -
  let ?st = "initial_state (demo_recipe KindScaffolding []) False demo_disk"
  let ?run = "applyInsert demo_env demo_insert demo_opts [] ?st"
  have ok: "fst ?run = None" by code_simp
  have "case fst ?run of
      Some e \<Rightarrow> as_files (snd ?run) = as_files ?st
    | None \<Rightarrow> \<exists>site snippet targ before after.
        siteFor demo_insert demo_opts [] = Inr site \<and> Substitute (op_Snippet demo_insert) [] = Inr snippet
        \<and> resolveUnder (ev_host demo_env) (ao_ProjectRoot demo_opts) (is_target site) = Inr targ
        \<and> as_files ?st targ = Holds (before @ is_anchor site @ after)
        \<and> Index (before @ is_anchor site) (is_anchor site) = Some (length before)
        \<and> as_files (snd ?run) = (as_files ?st)(targ := Holds (before @ is_anchor site @ snippet @ after))"
    by (rule insert_exact) (simp, code_simp, simp add: demo_env_def demo_host_def)
  then obtain site targ where st: "siteFor demo_insert demo_opts [] = Inr site"
      "resolveUnder (ev_host demo_env) (ao_ProjectRoot demo_opts) (is_target site) = Inr targ"
    unfolding ok by auto
  have "siteFor demo_insert demo_opts [] = Inr \<lparr>is_target = ''mine'', is_anchor = ''ol''\<rparr>" by code_simp
  with st(1) have site: "is_target site = ''mine''" by auto
  have "resolveUnder (ev_host demo_env) (ao_ProjectRoot demo_opts) ''mine'' = Inr ''/w/mine''" by code_simp
  with st(2) site have targ: "targ = ''/w/mine''" by simp
  have "as_files (snd ?run) ''/w/mine'' = Holds ''olivd''" by code_simp
  moreover have "ev_host demo_env = demo_host" by (simp add: demo_env_def)
  ultimately show ?thesis using st unfolding targ by metis
qed

subsection \<open>The decision on a file that is the recipe's\<close>

lemma classify_token_malformed:
  "r_Malformed (snd (classify_token policy now st acc)) =
     r_Malformed (snd acc) @ (case pt_parse (st_pt st) of
        Inl err \<Rightarrow> [\<lparr>d_RuleID = associatedRuleID st, d_File = pt_file (st_pt st), d_Line = pt_line (st_pt st),
                    d_Message = error_text err, d_Kind = DiagnosticMalformed\<rparr>]
      | Inr w \<Rightarrow> [])"
  by (cases acc) (auto simp: classify_token_def Let_def split: sum.splits list.splits prod.splits)

lemma classify_token_no_policy:
  "r_NonWaivable (snd (classify_token None now st acc)) = r_NonWaivable (snd acc)"
  by (cases acc) (auto simp: classify_token_def policy_refuses_def Let_def split: sum.splits list.splits prod.splits)

lemma fold_no_policy:
  "r_NonWaivable (snd (fold (classify_token None now) sts acc)) = r_NonWaivable (snd acc)"
  by (induction sts arbitrary: acc) (simp_all add: classify_token_no_policy)

lemma fold_malformed:
  "r_Malformed (snd (fold (classify_token policy now) sts acc)) = [] \<longleftrightarrow>
     r_Malformed (snd acc) = [] \<and> (\<forall>st\<in>set sts. \<forall>err. pt_parse (st_pt st) \<noteq> Inl err)"
proof (induction sts arbitrary: acc)
  case (Cons st sts)
  show ?case unfolding fold_Cons comp_apply Cons.IH classify_token_malformed
    by (cases "pt_parse (st_pt st)") auto
qed simp

lemma fold_malformed_kind:
  "\<forall>d\<in>set (r_Malformed (snd acc)). d_Kind d = DiagnosticMalformed \<Longrightarrow>
   \<forall>d\<in>set (r_Malformed (snd (fold (classify_token policy now) sts acc))). d_Kind d = DiagnosticMalformed"
proof (induction sts arbitrary: acc)
  case (Cons st sts)
  have "\<forall>d\<in>set (r_Malformed (snd (classify_token policy now st acc))). d_Kind d = DiagnosticMalformed"
    using Cons.prems unfolding classify_token_malformed by (cases "pt_parse (st_pt st)") auto
  with Cons.IH show ?case by simp
qed simp

text \<open>A waiver marker at a byte of a line of the file, and what its token parses to.\<close>

definition token_at :: "string \<Rightarrow> string \<Rightarrow> nat \<Rightarrow> nat \<Rightarrow> token_error + Waiver \<Rightarrow> bool" where
  "token_at file content i col parsed \<longleftrightarrow>
     i < length (rawLines content) \<and> prefix waiverMarker (drop col (rawLines content ! i))
     \<and> ParseToken (drop col (rawLines content ! i)) \<lparr>l_File = file, l_Line = int i + 1\<rparr> = parsed"

definition covers :: "GoTime \<Rightarrow> string \<Rightarrow> string \<Rightarrow> string \<Rightarrow> bool" where
  "covers now file content rule \<longleftrightarrow>
     (\<exists>i col w. token_at file content i col (Inr w) \<and> w_RuleID w = rule \<and> \<not> Expired w now)"

definition holds_malformed :: "string \<Rightarrow> string \<Rightarrow> bool" where
  "holds_malformed file content \<longleftrightarrow> (\<exists>i col e. token_at file content i col (Inl e))"

lemma lines_reader_Some:
  "lines_reader file lines named line = Some str \<longleftrightarrow>
     named = file \<and> (\<exists>i. line = int i + 1 \<and> i < length lines \<and> str = lines ! i)"
proof (cases "named \<noteq> file \<or> line < 1 \<or> line > int (length lines)")
  case False
  then have "line = int (nat (line - 1)) + 1" "nat (line - 1) < length lines" by auto
  then obtain i where "line = int i + 1" "i < length lines" by blast
  with False show ?thesis by (auto simp: lines_reader_def)
qed (auto simp: lines_reader_def)

lemma divergence_window:
  assumes "t \<in> set (harvestWindow (line_finding rule file i) (lines_reader file (rawLines content)))"
  obtains j where "token_at file content j (pt_col t) (pt_parse t)"
proof -
  obtain line str where l: "lines_reader file (rawLines content) file line = Some str"
      "prefix waiverMarker (drop (pt_col t) str)"
      "pt_parse t = ParseToken (drop (pt_col t) str) \<lparr>l_File = file, l_Line = line\<rparr>"
    using assms unfolding harvestWindow_iff by (auto simp: line_finding_def)
  from l(1) obtain j where "line = int j + 1" "j < length (rawLines content)" "str = rawLines content ! j"
    unfolding lines_reader_Some by blast
  with l that show ?thesis by (auto simp: token_at_def)
qed

lemma token_in_window:
  assumes "token_at file content i col parsed"
  obtains t where "t \<in> set (harvestWindow (line_finding rule file i) (lines_reader file (rawLines content)))" "pt_parse t = parsed"
proof -
  let ?t = "\<lparr>pt_parse = parsed, pt_file = file, pt_line = int i + 1, pt_col = col\<rparr>"
  have "lines_reader file (rawLines content) file (int i + 1) = Some (rawLines content ! i)"
    using assms unfolding lines_reader_Some by (auto simp: token_at_def)
  then have "?t \<in> set (harvestWindow (line_finding rule file i) (lines_reader file (rawLines content)))"
    using assms unfolding harvestWindow_iff by (intro bexI [of _ "int i + 1"]) (auto simp: token_at_def line_finding_def windowLines_def)
  with that show ?thesis by simp
qed

lemma divergence_verdict:
  assumes "os_ReadFile (ev_host env) file files = Inr content"
  shows "dv_Covered (adjudicateDivergence env rule file files) \<longleftrightarrow> covers (ev_now env) file content rule"
    and "dv_Diagnostics (adjudicateDivergence env rule file files) \<noteq> [] \<longleftrightarrow> holds_malformed file content"
    and "\<forall>d\<in>set (dv_Diagnostics (adjudicateDivergence env rule file files)). d_Kind d = DiagnosticMalformed"
proof -
  let ?read = "lines_reader file (rawLines content)"
  let ?fs = "map (line_finding rule file) [0..<length (rawLines content)]"
  let ?res = "Adjudicate ?fs (Some ?read) None (ev_now env)"
  have verdict: "adjudicateDivergence env rule file files =
      \<lparr>dv_Covered = r_Suppressed ?res \<noteq> [], dv_Diagnostics = r_Malformed ?res @ r_NonWaivable ?res\<rparr>"
    using assms by (simp add: adjudicateDivergence_def rawFileLines_def Let_def)
  have "r_Suppressed ?res \<noteq> [] \<longleftrightarrow> covers (ev_now env) file content rule"
  proof
    assume "r_Suppressed ?res \<noteq> []"
    then obtain g w where g: "g \<in> set ?fs" "shields ?read (ev_now env) g w"
      using Adjudicate_sound by (metis last_in_set)
    then obtain t where t: "t \<in> set (harvestWindow g ?read)" "pt_parse t = Inr w" "w_RuleID w = f_RuleID g" "\<not> Expired w (ev_now env)"
      unfolding shields_harvest by blast
    from g(1) obtain i where i: "g = line_finding rule file i" by auto
    with t(1) obtain j where "token_at file content j (pt_col t) (pt_parse t)" by (auto elim: divergence_window)
    with t i show "covers (ev_now env) file content rule" by (auto simp: covers_def line_finding_def)
  next
    assume "covers (ev_now env) file content rule"
    then obtain i col w where c: "token_at file content i col (Inr w)" "w_RuleID w = rule" "\<not> Expired w (ev_now env)"
      by (auto simp: covers_def)
    obtain t where "t \<in> set (harvestWindow (line_finding rule file i) ?read)" "pt_parse t = Inr w"
      using token_in_window [OF c(1)] by blast
    with c have "shields ?read (ev_now env) (line_finding rule file i) w"
      unfolding shields_harvest by (auto simp: line_finding_def)
    moreover have "line_finding rule file i \<in> set ?fs" using c(1) by (auto simp: token_at_def)
    ultimately have "\<exists>g\<in>set (r_Suppressed ?res). same_site g (line_finding rule file i)"
      by (intro Adjudicate_complete) (auto simp: policy_refuses_def)
    then show "r_Suppressed ?res \<noteq> []" by auto
  qed
  with verdict show "dv_Covered (adjudicateDivergence env rule file files) \<longleftrightarrow> covers (ev_now env) file content rule" by simp
  have none: "r_NonWaivable ?res = []" unfolding Adjudicate_states fold_no_policy by (simp add: empty_result_def)
  have "r_Malformed ?res \<noteq> [] \<longleftrightarrow> (\<exists>st\<in>set (token_states ?fs ?read). \<exists>e. pt_parse (st_pt st) = Inl e)"
    unfolding Adjudicate_states fold_malformed by (auto simp: empty_result_def)
  also have "\<dots> \<longleftrightarrow> holds_malformed file content"
  proof
    assume "\<exists>st\<in>set (token_states ?fs ?read). \<exists>e. pt_parse (st_pt st) = Inl e"
    then obtain st e where st: "st \<in> set (token_states ?fs ?read)" "pt_parse (st_pt st) = Inl e" by blast
    obtain f where f: "(f, st_pt st) \<in> set (harvest_pairs ?fs ?read)" using token_stateE [OF st(1)] by blast
    then obtain i where "st_pt st \<in> set (harvestWindow (line_finding rule file i) ?read)" by (auto simp: harvest_pairs_iff)
    then obtain j where "token_at file content j (pt_col (st_pt st)) (pt_parse (st_pt st))" by (rule divergence_window)
    with st(2) show "holds_malformed file content" unfolding holds_malformed_def by metis
  next
    assume "holds_malformed file content"
    then obtain i col e where c: "token_at file content i col (Inl e)" by (auto simp: holds_malformed_def)
    obtain t where t: "t \<in> set (harvestWindow (line_finding rule file i) ?read)" "pt_parse t = Inl e"
      using token_in_window [OF c] by blast
    then have "(line_finding rule file i, t) \<in> set (harvest_pairs ?fs ?read)"
      using c by (auto simp: harvest_pairs_iff token_at_def)
    from token_state_for [OF this] t(2) show "\<exists>st\<in>set (token_states ?fs ?read). \<exists>e. pt_parse (st_pt st) = Inl e" by metis
  qed
  finally show "dv_Diagnostics (adjudicateDivergence env rule file files) \<noteq> [] \<longleftrightarrow> holds_malformed file content"
    using verdict none by simp
  show "\<forall>d\<in>set (dv_Diagnostics (adjudicateDivergence env rule file files)). d_Kind d = DiagnosticMalformed"
    using fold_malformed_kind [of "([], empty_result)" None "ev_now env" "token_states ?fs ?read"] verdict none
    unfolding Adjudicate_states by (simp add: empty_result_def)
qed

lemma appendDiagnostics_empty: "appendDiagnostics dst src = [] \<longleftrightarrow> dst = [] \<and> src = []"
proof -
  have grow: "dst \<noteq> [] \<Longrightarrow> fold (\<lambda>c acc. if containsDiagnostic acc c then acc else acc @ [c]) src dst \<noteq> []" for dst src
    by (induction src arbitrary: dst) auto
  show ?thesis
  proof (cases src)
    case (Cons c cs)
    have "fold (\<lambda>c acc. if containsDiagnostic acc c then acc else acc @ [c]) cs (if containsDiagnostic dst c then dst else dst @ [c]) \<noteq> []"
      by (rule grow) (cases "dst = []"; simp add: containsDiagnostic_def)
    with Cons show ?thesis by (simp add: appendDiagnostics_def)
  qed (simp add: appendDiagnostics_def)
qed

lemma appendDiagnostics_subset: "set (appendDiagnostics dst src) \<subseteq> set dst \<union> set src"
proof (induction src arbitrary: dst)
  case (Cons c cs)
  have "appendDiagnostics dst (c # cs) = appendDiagnostics (if containsDiagnostic dst c then dst else dst @ [c]) cs"
    by (simp add: appendDiagnostics_def)
  with Cons [of "if containsDiagnostic dst c then dst else dst @ [c]"] show ?case by (auto split: if_splits)
qed (simp add: appendDiagnostics_def)

lemma consult_covering:
  "snd (fold (consult_rule read) rules (ds, c)) =
     (if c \<noteq> [] then c else case find (\<lambda>rule. rule \<noteq> [] \<and> dv_Covered (read rule)) rules of None \<Rightarrow> [] | Some rule \<Rightarrow> rule)"
  by (induction rules arbitrary: ds c) (auto simp: consult_rule_def)

lemma consult_diagnostics:
  "fst (fold (consult_rule read) rules (ds, c)) = [] \<longleftrightarrow> ds = [] \<and> (\<forall>rule\<in>set rules. dv_Diagnostics (read rule) = [])"
  by (induction rules arbitrary: ds c) (auto simp: consult_rule_def appendDiagnostics_empty)

lemma consult_kinds:
  "\<forall>d\<in>set ds. P d \<Longrightarrow> \<forall>rule\<in>set rules. \<forall>d\<in>set (dv_Diagnostics (read rule)). P d \<Longrightarrow>
   \<forall>d\<in>set (fst (fold (consult_rule read) rules (ds, c))). P d"
proof (induction rules arbitrary: ds c)
  case (Cons rule rules)
  have "\<forall>d\<in>set ds \<union> set (dv_Diagnostics (read rule)). P d"
    unfolding ball_Un using Cons.prems by simp
  with appendDiagnostics_subset [of ds "dv_Diagnostics (read rule)"]
  have "\<forall>d\<in>set (appendDiagnostics ds (dv_Diagnostics (read rule))). P d" by blast
  then have "\<forall>d\<in>set (fst (fold (consult_rule read) rules (appendDiagnostics ds (dv_Diagnostics (read rule)),
      if dv_Covered (read rule) \<and> c = [] then rule else c))). P d"
    using Cons.prems(2) by (intro Cons.IH) simp_all
  then show ?case unfolding fold_Cons comp_apply consult_rule_def [of read rule] fst_conv snd_conv .
qed simp

text \<open>What adjudicating a diverged file with the applier's own reader comes to.\<close>

lemma coveredDivergence_own:
  assumes "ao_ReadWaivers opts = None" "os_ReadFile (ev_host env) targ files = Inr cur"
  obtains text' ds where
    "coveredDivergence env r opts targ files =
       (case find (\<lambda>rule. rule \<noteq> [] \<and> covers (ev_now env) targ cur rule) (enforcementRules r) of
          None \<Rightarrow> ([], [], ds, False) | Some rule \<Rightarrow> (rule, text', ds, True))"
    "firstMalformed ds = None \<longleftrightarrow> \<not> (enforcementRules r \<noteq> [] \<and> holds_malformed targ cur)"
proof -
  let ?read = "\<lambda>rule. adjudicateDivergence env rule targ files"
  obtain ds c where f: "fold (consult_rule ?read) (enforcementRules r) ([], []) = (ds, c)" by fastforce
  note verdict = divergence_verdict [OF assms(2)]
  have cov: "c = (case find (\<lambda>rule. rule \<noteq> [] \<and> covers (ev_now env) targ cur rule) (enforcementRules r) of None \<Rightarrow> [] | Some rule \<Rightarrow> rule)"
    using consult_covering [of ?read "enforcementRules r" "[]" "[]"] f by (simp add: verdict(1))
  have kinds: "\<forall>d\<in>set ds. d_Kind d = DiagnosticMalformed"
    using consult_kinds [of "[]" "\<lambda>d. d_Kind d = DiagnosticMalformed" "enforcementRules r" ?read "[]"] f verdict(3) by simp
  have empty: "ds = [] \<longleftrightarrow> \<not> (enforcementRules r \<noteq> [] \<and> holds_malformed targ cur)"
    using consult_diagnostics [of ?read "enforcementRules r" "[]" "[]"] f verdict(2) by (cases "enforcementRules r") auto
  have first: "firstMalformed ds = None \<longleftrightarrow> ds = []"
    using kinds by (cases ds) (auto simp: firstMalformed_def)
  have ne: "find (\<lambda>rule. rule \<noteq> [] \<and> covers (ev_now env) targ cur rule) (enforcementRules r) = Some rule \<Longrightarrow> rule \<noteq> []" for rule
    by (auto simp: find_Some_iff)
  show ?thesis
  proof (rule that)
    show "coveredDivergence env r opts targ files =
       (case find (\<lambda>rule. rule \<noteq> [] \<and> covers (ev_now env) targ cur rule) (enforcementRules r) of
          None \<Rightarrow> ([], [], ds, False) | Some rule \<Rightarrow> (rule, coveringWaiverText (ev_host env) targ c files, ds, True))"
      using f cov ne by (auto simp: coveredDivergence_def assms(1) split: option.splits)
  qed (simp add: first empty)
qed

text \<open>Re-applying a scaffolding or implementing recipe over its own file decides exactly as
  documented. A file as rendered is left alone; a diverged file is preserved, under the first
  declared rule an unexpired token in the file names, if there is one; otherwise the apply is
  refused and the file kept if the recipe declares a rule and the file holds a malformed token;
  and otherwise the file is regenerated and reported so.\<close>

theorem reapply_decision:
  assumes "applyCreate env r op opts params st = (err, st')"
    and "substituteField (op_Target op) ''target'' params = Inr d"
    and "resolveUnder (ev_host env) (ao_ProjectRoot opts) d = Inr targ"
    and "targetExists (ev_host env) d targ (as_files st) = Inr True" "d \<notin> set (ow_writtenNow (as_own st))"
    and "ow_adopted (as_own st)" "ow_kind (as_own st) \<noteq> KindTemplating"
    and "renderPayload (ev_host env) r op params (as_files st) = Inr rendered"
    and "os_ReadFile (ev_host env) targ (as_files st) = Inr cur"
    and "ao_ReadWaivers opts = None" "IsAbs (h_cwd (ev_host env))"
    and "\<And>p files. h_mkdir (ev_host env) p files = None" "\<And>p dat files. h_write (ev_host env) p dat files = None"
  shows "if cur = rendered then err = None \<and> as_files st' = as_files st \<and> as_result st' = as_result st
     else case find (\<lambda>rule. rule \<noteq> [] \<and> covers (ev_now env) targ cur rule) (enforcementRules r) of
       Some rule \<Rightarrow> err = None \<and> as_files st' = as_files st
         \<and> (\<exists>token. ar_Preserved (as_result st') = ar_Preserved (as_result st) @ [\<lparr>pd_Path = d, pd_Rule = rule, pd_CoveringWaiver = token\<rparr>])
     | None \<Rightarrow>
         if enforcementRules r \<noteq> [] \<and> holds_malformed targ cur then err \<noteq> None \<and> as_files st' = as_files st
         else err = None \<and> as_files st' targ = Holds rendered
           \<and> (\<forall>p. p \<noteq> targ \<and> as_files st p \<noteq> Missing \<longrightarrow> as_files st' p = as_files st p)
           \<and> d \<in> set (ar_Written (as_result st')) \<and> d \<in> set (ar_Regenerated (as_result st'))"
proof -
  note step = assms(1) [unfolded applyCreate_def assms(2,3,4) sum.case]
  have open_targ: "open_path (ev_host env) targ = targ" by (rule inside_open [OF resolveUnder_inside [OF assms(3,11)]])
  show ?thesis
  proof (cases "cur = rendered")
    case True
    with step assms(5-9) show ?thesis
      by (auto simp: preserveOrRegenerate_def Let_def appendDiagnostics_def)
  next
    case False
    obtain token ds where cov: "coveredDivergence env r opts targ (as_files st) =
        (case find (\<lambda>rule. rule \<noteq> [] \<and> covers (ev_now env) targ cur rule) (enforcementRules r) of
          None \<Rightarrow> ([], [], ds, False) | Some rule \<Rightarrow> (rule, token, ds, True))"
      and first: "firstMalformed ds = None \<longleftrightarrow> \<not> (enforcementRules r \<noteq> [] \<and> holds_malformed targ cur)"
      by (rule coveredDivergence_own [OF assms(10,9)])
    show ?thesis
    proof (cases "find (\<lambda>rule. rule \<noteq> [] \<and> covers (ev_now env) targ cur rule) (enforcementRules r)")
      case (Some rule)
      with step assms(5-9) False cov show ?thesis by (auto simp: preserveOrRegenerate_def Let_def)
    next
      case None
      show ?thesis
      proof (cases "firstMalformed ds")
        case (Some m)
        with step assms(5-9) False cov None first show ?thesis by (auto simp: preserveOrRegenerate_def Let_def)
      next
        case clean: None
        let ?st = "st\<lparr>as_result := as_result st\<lparr>ar_Diagnostics := appendDiagnostics (ar_Diagnostics (as_result st)) ds\<rparr>\<rparr>"
        have wr: "create_write env r op params d targ True ?st = (err, st')"
          using step assms(5-9) False cov None clean by (simp add: preserveOrRegenerate_def Let_def)
        obtain mid where mid: "os_MkdirAll (ev_host env) (Dir targ) (as_files st) = (None, mid)"
          by (simp add: os_MkdirAll_def assms(12))
        have fin: "writeRendered (ev_host env) d targ rendered (as_files st) = (None, mid(targ := Holds rendered))"
          using mid by (simp add: writeRendered_def os_WriteFile_def assms(13) open_targ)
        have keep: "as_files st p \<noteq> Missing \<Longrightarrow> mid p = as_files st p" for p by (rule os_MkdirAll_keeps [OF mid])
        from wr fin assms(8) have "err = None" "as_files st' = mid(targ := Holds rendered)"
            "as_result st' = recordRegenerated d (recordWritten d (as_result ?st))"
          by (auto simp: create_write_def Let_def)
        with False None clean first keep show ?thesis by (auto simp: recordWritten_def recordRegenerated_def)
      qed
    qed
  qed
qed

definition demo_bare :: ResolvedRecipe where
  "demo_bare = (demo_recipe KindScaffolding [demo_create ''mine'' ''t''])
     \<lparr>rs_Manifest := (rs_Manifest (demo_recipe KindScaffolding [demo_create ''mine'' ''t'']))\<lparr>rm_Enforcement := None\<rparr>\<rparr>"

theorem reapply_decision_witness:
  "(case applyCreate demo_env demo_bare (demo_create ''mine'' ''t'') demo_opts [] (initial_state demo_bare True demo_disk) of
      (err, st') \<Rightarrow> err = None \<and> as_files st' ''/w/mine'' = Holds ''new'' \<and> ''mine'' \<in> set (ar_Regenerated (as_result st')))"
proof -
  let ?st = "initial_state demo_bare True demo_disk"
  obtain err st' where run: "applyCreate demo_env demo_bare (demo_create ''mine'' ''t'') demo_opts [] ?st = (err, st')" by fastforce
  have rules: "enforcementRules demo_bare = []" by code_simp
  have "if ''old'' = ''new'' then err = None \<and> as_files st' = as_files ?st \<and> as_result st' = as_result ?st
     else case find (\<lambda>rule. rule \<noteq> [] \<and> covers (ev_now demo_env) ''/w/mine'' ''old'' rule) (enforcementRules demo_bare) of
       Some rule \<Rightarrow> err = None \<and> as_files st' = as_files ?st
         \<and> (\<exists>token. ar_Preserved (as_result st') = ar_Preserved (as_result ?st) @ [\<lparr>pd_Path = ''mine'', pd_Rule = rule, pd_CoveringWaiver = token\<rparr>])
     | None \<Rightarrow>
         if enforcementRules demo_bare \<noteq> [] \<and> holds_malformed ''/w/mine'' ''old'' then err \<noteq> None \<and> as_files st' = as_files ?st
         else err = None \<and> as_files st' ''/w/mine'' = Holds ''new''
           \<and> (\<forall>p. p \<noteq> ''/w/mine'' \<and> as_files ?st p \<noteq> Missing \<longrightarrow> as_files st' p = as_files ?st p)
           \<and> ''mine'' \<in> set (ar_Written (as_result st')) \<and> ''mine'' \<in> set (ar_Regenerated (as_result st'))"
    by (rule reapply_decision [OF run])
       (code_simp, code_simp, code_simp, code_simp, code_simp, code_simp, code_simp, code_simp, simp add: demo_opts_def, code_simp,
        simp_all add: demo_env_def demo_host_def)
  then show ?thesis by (simp add: run rules)
qed

end
