(* ===== verification/Packval_Base.thy ===== *)
theory Packval_Base
  imports Pack_Engine Recipe_Manifest Go_Regexp
begin

text \<open>
  The manifest a pack is validated by (\<open>src/pkg/packval/manifest.go\<close>), results (\<open>result.go\<close>), and the
  checks of packs that look at path scopes and commands (\<open>pathscope.go\<close>, \<open>command_pack_file.go\<close>).
  Reading the disk of a pack and the YAML decoders are parameters; the glob patterns of
  \<open>filepath.Match\<close> are modelled.
\<close>

subsection \<open>The manifest\<close>

record FixtureRef =
  xf_Path :: string
  xf_BypassAttempt :: bool

record PvClaim =
  xc_ID :: string
  xc_Positive :: "FixtureRef list"
  xc_Negative :: "FixtureRef list"

record PvPairsWith =
  xp_Rules :: "string list"
  xp_Scaffolds :: "string list"
  xp_SDK :: string

record PvRule =
  xr_ID :: string
  xr_Engine :: string
  xr_RulePath :: string
  xr_File :: string
  xr_Pattern :: string
  xr_Tool :: string
  xr_RiskClass :: string
  xr_Layer :: int
  xr_Category :: string
  xr_Justification :: string
  xr_InputScope :: string
  xr_Validator :: string
  xr_PairsWith :: PvPairsWith
  xr_Claims :: "PvClaim list"

record PvToolConfig =
  xt_ID :: string
  xt_RequiredBy :: string
  xt_Engine :: string
  xt_Tool :: string
  xt_File :: string
  xt_RiskClass :: string
  xt_Claims :: "PvClaim list"

record PvScaffold =
  xs_ID :: string
  xs_Path :: string
  xs_Tier :: string
  xs_TestIndicator :: string
  xs_TestCommand :: string
  xs_SampleConfig :: "(string, string) gomap"
  xs_PairsWith :: PvPairsWith

record PackManifest =
  xm_Name :: string
  xm_Version :: string
  xm_Language :: string
  xm_Archetype :: string
  xm_Rules :: "PvRule list"
  xm_Scaffolds :: "PvScaffold list"
  xm_SDK :: "string list option"
  xm_ToolConfig :: "PvToolConfig list"
  xm_Engines :: Registry
  xm_Recipes :: "(string, string) gomap"
  xm_declaredEngineKeys :: "(string, string list) gomap option"

text \<open>A fixture is a bare path or an object; the arguments are the two decodes of its node.\<close>

definition FixtureRef_UnmarshalYAML :: "string + string \<Rightarrow> string + string \<times> bool \<Rightarrow> string + FixtureRef" where
  "FixtureRef_UnmarshalYAML asPath asObject =
     (case asPath of
        Inr p \<Rightarrow> Inr \<lparr>xf_Path = p, xf_BypassAttempt = False\<rparr>
      | Inl _ \<Rightarrow> (case asObject of
                    Inl e \<Rightarrow> Inl (''unmarshal fixture ref: '' @ e)
                  | Inr (p, bypass) \<Rightarrow> Inr \<lparr>xf_Path = p, xf_BypassAttempt = bypass\<rparr>))"

definition RuleSourcePath :: "PvRule \<Rightarrow> string" where
  "RuleSourcePath r = (if xr_RulePath r \<noteq> [] then xr_RulePath r else xr_File r)"

definition RuleSourceManifestKey :: "PvRule \<Rightarrow> string" where
  "RuleSourceManifestKey r = (if xr_RulePath r \<noteq> [] then ''rule_path'' else ''file'')"

definition RuleDispatchInput :: "PvRule \<Rightarrow> InputMode \<Rightarrow> string" where
  "RuleDispatchInput r mode = (if mode = InputModePatternArg then xr_Pattern r else RuleSourcePath r)"

definition claim_fixtures :: "PvClaim \<Rightarrow> FixtureRef list" where
  "claim_fixtures c = xc_Positive c @ xc_Negative c"

subsection \<open>What validation reads\<close>

datatype file_kind = RegularFile | DirectoryFile | OtherFile

text \<open>\<open>pf_Stat\<close> follows links; \<open>pf_Walk\<close> lists the files (no directories) a walk visits.\<close>

record pack_fs =
  pf_Stat :: "string \<Rightarrow> file_kind option"
  pf_ReadFile :: "string \<Rightarrow> string + string"
  pf_ReadDir :: "string \<Rightarrow> (string \<times> bool) list option"
  pf_Walk :: "string \<Rightarrow> string list"

record semgrepPathRule =
  sp_ID :: string
  sp_Include :: "string list"
  sp_Exclude :: "string list"

record packval_codec =
  pc_Manifest :: "string \<Rightarrow> string + PackManifest"
  pc_EngineKeys :: "string \<Rightarrow> string + (string, string list) gomap"
  pc_PathRules :: "string \<Rightarrow> string + semgrepPathRule list"
  pc_RuleIDs :: "string \<Rightarrow> string + string list"
  pc_Recipe :: "string \<Rightarrow> string + RecipeManifest"
  pc_BaseEngines :: Registry

definition pf_exists :: "pack_fs \<Rightarrow> string \<Rightarrow> bool" where
  "pf_exists fs path \<longleftrightarrow> pf_Stat fs path \<noteq> None"

definition PvParseManifest :: "packval_codec \<Rightarrow> pack_fs \<Rightarrow> string \<Rightarrow> string + PackManifest" where
  "PvParseManifest codec fs path =
     (case pf_ReadFile fs path of
        Inl e \<Rightarrow> Inl (''reading manifest '' @ path @ '': '' @ e)
      | Inr dat \<Rightarrow>
     (case pc_Manifest codec dat of
        Inl e \<Rightarrow> Inl (''parse manifest: '' @ e)
      | Inr m \<Rightarrow>
     (case pc_EngineKeys codec dat of
        Inl e \<Rightarrow> Inl (''probe manifest engine keys: '' @ e)
      | Inr keys \<Rightarrow> Inr (m\<lparr>xm_declaredEngineKeys := Some keys\<rparr>))))"

definition exemptFromScopeFilterField :: string where "exemptFromScopeFilterField = ''exempt_from_scope_filter''"

definition ExemptDecisionPending :: "PackManifest \<Rightarrow> string list" where
  "ExemptDecisionPending m =
     (case xm_declaredEngineKeys m of
        None \<Rightarrow> []
      | Some keys \<Rightarrow>
          sort (map fst (filter (\<lambda>(name, b). eb_ScopeKind b = ScopeKindProjectWide
                                   \<and> exemptFromScopeFilterField \<notin> set (map_get [] keys name)) (xm_Engines m))))"

text \<open>The engines of the pack shadow the built-in ones.\<close>

definition resolveEngine :: "packval_codec \<Rightarrow> PackManifest \<Rightarrow> string \<Rightarrow> string + EngineBinding" where
  "resolveEngine codec m name =
     (case Registry_Lookup (fold (\<lambda>(n, b). map_set n b) (xm_Engines m) (pc_BaseEngines codec)) name of
        Inl e \<Rightarrow> Inl (''resolving rule engine '' @ quote name @ '': '' @ e)
      | Inr b \<Rightarrow> Inr b)"

definition no_pairs :: PvPairsWith where "no_pairs = \<lparr>xp_Rules = [], xp_Scaffolds = [], xp_SDK = []\<rparr>"

definition tool_config_rule :: "PvToolConfig \<Rightarrow> PvRule" where
  "tool_config_rule tc =
     \<lparr>xr_ID = xt_ID tc, xr_Engine = [], xr_RulePath = [], xr_File = xt_File tc, xr_Pattern = [], xr_Tool = xt_Tool tc,
      xr_RiskClass = xt_RiskClass tc, xr_Layer = 0, xr_Category = [], xr_Justification = [], xr_InputScope = [],
      xr_Validator = [], xr_PairsWith = no_pairs, xr_Claims = xt_Claims tc\<rparr>"

definition standalone_configs :: "PackManifest \<Rightarrow> PvToolConfig list" where
  "standalone_configs m = filter (\<lambda>tc. xt_ID tc \<noteq> []) (xm_ToolConfig m)"

definition AllRules :: "PackManifest \<Rightarrow> PvRule list" where
  "AllRules m = xm_Rules m @ map tool_config_rule (standalone_configs m)"

definition AllRuleIDs :: "PackManifest \<Rightarrow> string list" where
  "AllRuleIDs m = map xr_ID (AllRules m)"

subsection \<open>Results\<close>

record PackvalError =
  pe_Phase :: string
  pe_Check :: string
  pe_Rule :: string
  pe_Claim :: string
  pe_Message :: string
  pe_FixHint :: string
  pe_ManifestPath :: string

record PackvalWarning =
  pw_Phase :: string
  pw_Check :: string
  pw_Message :: string
  pw_Files :: "string list"
  pw_FixHint :: string

record PhaseResult =
  ph_Phase :: string
  ph_Status :: string
  ph_Checks :: nat
  ph_DurationMs :: int
  ph_Reason :: string
  ph_Errors :: "PackvalError list"
  ph_Warnings :: "PackvalWarning list"

definition perr :: "string \<Rightarrow> string \<Rightarrow> string \<Rightarrow> string \<Rightarrow> string \<Rightarrow> PackvalError" where
  "perr phase check rule claim message =
     \<lparr>pe_Phase = phase, pe_Check = check, pe_Rule = rule, pe_Claim = claim, pe_Message = message, pe_FixHint = [],
      pe_ManifestPath = []\<rparr>"

definition at_path :: "string \<Rightarrow> PackvalError \<Rightarrow> PackvalError" where
  "at_path p e = e\<lparr>pe_ManifestPath := p\<rparr>"

definition pwarn :: "string \<Rightarrow> string \<Rightarrow> string \<Rightarrow> string list \<Rightarrow> string \<Rightarrow> PackvalWarning" where
  "pwarn phase check message files hint =
     \<lparr>pw_Phase = phase, pw_Check = check, pw_Message = message, pw_Files = files, pw_FixHint = hint\<rparr>"

definition err_if :: "bool \<Rightarrow> 'a \<Rightarrow> 'a list" where
  "err_if b e = (if b then [e] else [])"

lemma err_if_Nil [simp]: "err_if b e = [] \<longleftrightarrow> \<not> b" by (simp add: err_if_def)

definition phase_result :: "string \<Rightarrow> nat \<Rightarrow> PackvalError list \<Rightarrow> PackvalWarning list \<Rightarrow> PhaseResult" where
  "phase_result phase checks errors warnings =
     \<lparr>ph_Phase = phase, ph_Status = (if errors = [] then ''pass'' else ''fail''), ph_Checks = checks, ph_DurationMs = 0,
      ph_Reason = [], ph_Errors = errors, ph_Warnings = warnings\<rparr>"

definition nil_manifest :: "string \<Rightarrow> nat \<Rightarrow> PhaseResult" where
  "nil_manifest phase checks = phase_result phase checks [perr phase ''manifest'' [] [] ''manifest is nil''] []"

lemma phase_result_pass [simp]: "ph_Status (phase_result phase checks errors warnings) = ''pass'' \<longleftrightarrow> errors = []"
  by (simp add: phase_result_def)

lemma phase_result_errors [simp]: "ph_Errors (phase_result phase checks errors warnings) = errors"
  "ph_Warnings (phase_result phase checks errors warnings) = warnings"
  "ph_Phase (phase_result phase checks errors warnings) = phase"
  by (simp_all add: phase_result_def)

end
