(* ===== verification/Packval_Phases.thy ===== *)
theory Packval_Phases
  imports Packval_Base
begin

text \<open>
  The phases of pack validation that only read the pack: structure, coherence, archetype, layers and
  risk classes (\<open>phase1.go\<close>, \<open>phase2.go\<close>, \<open>phase4.go\<close>, \<open>phase5.go\<close>, \<open>phase6.go\<close> of
  \<open>src/pkg/packval\<close>), with the path-scope and command findings of \<open>pathscope.go\<close> and
  \<open>command_pack_file.go\<close>.
\<close>

subsection \<open>Glob patterns\<close>

text \<open>\<open>filepath.Match\<close>: the items of a pattern (None when it is malformed) and the match over bytes.  A
  star and a question mark do not match a slash.\<close>

datatype glob_item = GlobStar | GlobAny | GlobLit char | GlobClass bool "(char \<times> char) list"

definition glob_esc :: "string \<Rightarrow> (char \<times> string) option" where
  "glob_esc p =
     (case p of
        [] \<Rightarrow> None
      | c # rest \<Rightarrow>
          if c = CHR ''-'' \<or> c = CHR '']'' then None
          else if c = CHR 0x5C then (case rest of x # y # ys \<Rightarrow> Some (x, y # ys) | _ \<Rightarrow> None)
          else if rest = [] then None else Some (c, rest))"

lemma glob_esc_shorter: "glob_esc p = Some (c, rest) \<Longrightarrow> length rest < length p"
  by (auto simp: glob_esc_def split: list.splits if_splits)

definition glob_range :: "string \<Rightarrow> ((char \<times> char) \<times> string) option" where
  "glob_range p =
     (case glob_esc p of
        None \<Rightarrow> None
      | Some (lo, rest) \<Rightarrow>
          if hd rest = CHR ''-'' then (case glob_esc (tl rest) of None \<Rightarrow> None | Some (hi, rest') \<Rightarrow> Some ((lo, hi), rest'))
          else Some ((lo, lo), rest))"

lemma glob_range_shorter: "glob_range p = Some (r, rest) \<Longrightarrow> length rest < length p"
  by (auto simp: glob_range_def split: option.splits if_splits dest!: glob_esc_shorter)

text \<open>The ranges of a class up to its closing bracket; the first bracket cannot close it.\<close>

function glob_ranges :: "bool \<Rightarrow> string \<Rightarrow> ((char \<times> char) list \<times> string) option" where
  "glob_ranges some p =
     (case p of
        [] \<Rightarrow> None
      | c # rest \<Rightarrow>
          if some \<and> c = CHR '']'' then Some ([], rest)
          else (case glob_range p of
                  None \<Rightarrow> None
                | Some (r, rest') \<Rightarrow> map_option (\<lambda>(rs, more'). (r # rs, more')) (glob_ranges True rest')))"
  by pat_completeness auto
termination
  by (relation "measure (\<lambda>(some, p). length p)") (auto dest: glob_range_shorter)

declare glob_ranges.simps [simp del]

lemma glob_ranges_shorter: "glob_ranges some p = Some (rs, rest) \<Longrightarrow> length rest < length p"
proof (induction some p arbitrary: rs rest rule: glob_ranges.induct)
  case (1 some p)
  show ?case
  proof (cases p)
    case Nil
    then show ?thesis using 1(2) by (subst (asm) glob_ranges.simps) simp
  next
    case (Cons c cs)
    show ?thesis
    proof (cases "some \<and> c = CHR '']''")
      case True
      then show ?thesis using 1(2) Cons by (subst (asm) glob_ranges.simps) simp
    next
      case False
      then obtain r rest' rs' where "glob_range p = Some (r, rest')" "glob_ranges True rest' = Some (rs', rest)"
        using 1(2) Cons by (subst (asm) glob_ranges.simps) (auto split: option.splits)
      then show ?thesis using 1(1) [OF Cons False] glob_range_shorter [of p r rest'] by force
    qed
  qed
qed

function glob_items :: "string \<Rightarrow> glob_item list option" where
  "glob_items p =
     (case p of
        [] \<Rightarrow> Some []
      | c # rest \<Rightarrow>
          if c = CHR ''*'' then map_option (Cons GlobStar) (glob_items rest)
          else if c = CHR ''?'' then map_option (Cons GlobAny) (glob_items rest)
          else if c = CHR ''['' then
            (let negated = (rest \<noteq> [] \<and> hd rest = CHR ''^''); body = (if negated then tl rest else rest) in
             case glob_ranges False body of
               None \<Rightarrow> None
             | Some (rs, rest') \<Rightarrow> map_option (Cons (GlobClass negated rs)) (glob_items rest'))
          else if c = CHR 0x5C then
            (case rest of [] \<Rightarrow> None | x # xs \<Rightarrow> map_option (Cons (GlobLit x)) (glob_items xs))
          else map_option (Cons (GlobLit c)) (glob_items rest))"
  by pat_completeness auto
termination
proof (relation "measure length", goal_cases)
  case (4 p c rest negated body pr rs rest')
  then have "length rest' < length body" by (auto dest: glob_ranges_shorter)
  moreover have "length body \<le> length rest" using 4 by (simp split: if_splits)
  ultimately show ?case using 4(1) by simp
qed auto

declare glob_items.simps [simp del]

fun item_matches :: "glob_item \<Rightarrow> char \<Rightarrow> bool" where
  "item_matches GlobStar c = False"
| "item_matches GlobAny c = (c \<noteq> CHR ''/'')"
| "item_matches (GlobLit x) c = (x = c)"
| "item_matches (GlobClass negated rs) c =
     (list_ex (\<lambda>(lo, hi). (of_char lo :: nat) \<le> of_char c \<and> (of_char c :: nat) \<le> of_char hi) rs \<noteq> negated)"

fun items_match :: "glob_item list \<Rightarrow> string \<Rightarrow> bool" where
  "items_match [] s = (s = [])"
| "items_match (GlobStar # ps) [] = items_match ps []"
| "items_match (GlobStar # ps) (c # cs) =
     (items_match ps (c # cs) \<or> c \<noteq> CHR ''/'' \<and> items_match (GlobStar # ps) cs)"
| "items_match (p # ps) [] = False"
| "items_match (p # ps) (c # cs) = (item_matches p c \<and> items_match ps cs)"

definition filepath_Match :: "string \<Rightarrow> string \<Rightarrow> bool option" where
  "filepath_Match pattern name = map_option (\<lambda>ps. items_match ps name) (glob_items pattern)"

subsection \<open>Path scopes\<close>

definition PathPatternInertUnderFileDispatch :: "string \<Rightarrow> bool" where
  "PathPatternInertUnderFileDispatch pattern \<longleftrightarrow> CHR ''/'' \<in> set pattern"

definition parseSemgrepPathRules :: "packval_codec \<Rightarrow> string \<Rightarrow> semgrepPathRule list" where
  "parseSemgrepPathRules codec dat = (case pc_PathRules codec dat of Inl _ \<Rightarrow> [] | Inr rs \<Rightarrow> rs)"

definition ruleFlagsBinding :: "packval_codec \<Rightarrow> PackManifest \<Rightarrow> PvRule \<Rightarrow> bool" where
  "ruleFlagsBinding codec m r =
     (xr_Engine r \<noteq> []
      \<and> (case resolveEngine codec m (xr_Engine r) of Inl _ \<Rightarrow> False | Inr b \<Rightarrow> eb_InputMode b = InputModeRuleFlags))"

text \<open>Duplicates are dropped, the first occurrence stays.\<close>

definition firsts :: "'a list \<Rightarrow> 'a list" where
  "firsts xs = rev (remdups (rev xs))"

definition ruleFlagsSourcePaths :: "packval_codec \<Rightarrow> PackManifest \<Rightarrow> string list" where
  "ruleFlagsSourcePaths codec m =
     firsts (map RuleSourcePath (filter (\<lambda>r. RuleSourcePath r \<noteq> [] \<and> ruleFlagsBinding codec m r) (xm_Rules m)))"

definition readRuleSource :: "pack_fs \<Rightarrow> string \<Rightarrow> string \<Rightarrow> string" where
  "readRuleSource fs packDir src = (case pf_ReadFile fs (JoinPath [packDir, src]) of Inl _ \<Rightarrow> [] | Inr dat \<Rightarrow> dat)"

text \<open>The rules a source file declares; none when it is empty or unreadable.\<close>

definition source_rules :: "packval_codec \<Rightarrow> pack_fs \<Rightarrow> string \<Rightarrow> string \<Rightarrow> semgrepPathRule list" where
  "source_rules codec fs packDir src =
     (let dat = readRuleSource fs packDir src in if dat = [] then [] else parseSemgrepPathRules codec dat)"

record pathScopeFinding =
  pfd_RuleSource :: string
  pfd_SemgrepID :: string
  pfd_Key :: string
  pfd_Pattern :: string

definition keyed_findings :: "string \<Rightarrow> semgrepPathRule \<Rightarrow> string \<Rightarrow> string list \<Rightarrow> pathScopeFinding list" where
  "keyed_findings src sr key patterns =
     map (\<lambda>p. \<lparr>pfd_RuleSource = src, pfd_SemgrepID = sp_ID sr, pfd_Key = key, pfd_Pattern = p\<rparr>)
       (filter PathPatternInertUnderFileDispatch patterns)"

definition pathScopeDispatchFindings :: "packval_codec \<Rightarrow> pack_fs \<Rightarrow> PackManifest \<Rightarrow> string \<Rightarrow> pathScopeFinding list" where
  "pathScopeDispatchFindings codec fs m packDir =
     firsts (concat (map (\<lambda>src. concat (map (\<lambda>sr.
        keyed_findings src sr ''include'' (sp_Include sr) @ keyed_findings src sr ''exclude'' (sp_Exclude sr))
        (source_rules codec fs packDir src))) (ruleFlagsSourcePaths codec m)))"

definition emdash :: string where "emdash = [CHR 0xE2, CHR 0x80, CHR 0x94]"

definition pathScopeDispatchMessage :: "pathScopeFinding \<Rightarrow> string" where
  "pathScopeDispatchMessage f =
     (let consequence =
        (if pfd_Key f = ''exclude''
         then ''this exclusion FAILS OPEN '' @ emdash @ '' the rule fires on files the pack explicitly meant to exempt, which reads as a false RED the author believes they already suppressed''
         else ''this rule scans NOTHING when the gate hands its engine an explicit file list '' @ emdash @ '' a silent no-op whose green is vacuous'')
      in ''semgrep rule '' @ quote (pfd_SemgrepID f) @ '' declares a paths.'' @ pfd_Key f @ '' pattern containing a '' @ quote ''/''
         @ '': '' @ quote (pfd_Pattern f)
         @ ''. A slash-bearing path pattern is unsatisfied under the gate''
         @ [CHR 0x27] @ ''s explicit-file dispatch in EVERY spelling, so '' @ consequence @ ''.'')"

record pathScopeMaskFinding =
  pmf_RuleSource :: string
  pmf_SemgrepID :: string
  pmf_ManifestRuleID :: string

definition declaredFixtureBasenames :: "PvRule \<Rightarrow> string list" where
  "declaredFixtureBasenames r =
     map Base (filter (\<lambda>p. p \<noteq> []) (map xf_Path (concat (map claim_fixtures (xr_Claims r)))))"

definition semgrepRuleHasInertPattern :: "semgrepPathRule \<Rightarrow> bool" where
  "semgrepRuleHasInertPattern sr = list_ex PathPatternInertUnderFileDispatch (sp_Include sr @ sp_Exclude sr)"

definition slashFreePatterns :: "string list \<Rightarrow> string list" where
  "slashFreePatterns patterns = filter (\<lambda>p. \<not> PathPatternInertUnderFileDispatch p) patterns"

definition everyFixtureMatchedByAnyHook :: "string list \<Rightarrow> string list \<Rightarrow> bool" where
  "everyFixtureMatchedByAnyHook basenames hooks =
     list_all (\<lambda>base. list_ex (\<lambda>hook. filepath_Match hook base = Some True) hooks) basenames"

definition masked :: "PvRule \<Rightarrow> semgrepPathRule \<Rightarrow> bool" where
  "masked r sr =
     (let hooks = slashFreePatterns (sp_Include sr) in
      semgrepRuleHasInertPattern sr \<and> hooks \<noteq> [] \<and> everyFixtureMatchedByAnyHook (declaredFixtureBasenames r) hooks)"

definition pathScopeMaskFindings :: "packval_codec \<Rightarrow> pack_fs \<Rightarrow> PackManifest \<Rightarrow> string \<Rightarrow> pathScopeMaskFinding list" where
  "pathScopeMaskFindings codec fs m packDir =
     firsts (concat (map (\<lambda>r.
        if RuleSourcePath r = [] \<or> \<not> ruleFlagsBinding codec m r \<or> declaredFixtureBasenames r = [] then []
        else map (\<lambda>sr. \<lparr>pmf_RuleSource = RuleSourcePath r, pmf_SemgrepID = sp_ID sr, pmf_ManifestRuleID = xr_ID r\<rparr>)
               (filter (masked r) (source_rules codec fs packDir (RuleSourcePath r)))) (xm_Rules m)))"

definition pathScopeMaskMessage :: "pathScopeMaskFinding \<Rightarrow> string" where
  "pathScopeMaskMessage f =
     ''semgrep rule '' @ quote (pmf_SemgrepID f) @ '' (declared by manifest rule '' @ quote (pmf_ManifestRuleID f)
     @ '') carries at least one inert slash-bearing path pattern, and EVERY fixture that manifest rule declares is matched only by the rule''
     @ [CHR 0x27] @ ''s slash-free patterns. Those slash-free patterns are fixture hooks: the fixture is the one file the rule can still match, so fixture execution stays GREEN while the rule''
     @ [CHR 0x27] @ ''s intended live scope is dark. A passing `pack test` is therefore NOT evidence that this rule scans anything in a consuming repo.''"

definition pathScopeFixHint :: string where
  "pathScopeFixHint =
     ''restate the scope with a SLASH-FREE (single-segment) pattern such as '' @ quote ''handler*.go'' @ '' '' @ emdash
     @ '' that is the only spelling honored under BOTH directory and explicit-file dispatch. Do NOT apply semgrep''
     @ [CHR 0x27] @ ''s own deprecation remedy: `**/`-prefixing and `/`-anchoring were both measured dark under explicit-file dispatch and change nothing. Where no slash-free spelling preserves the intended directory scope, the real choice is a wider blast radius or no scoping at all ''
     @ emdash @ '' that is a pack-authoring judgement call, which is why this is a warning and not an error.''"

subsection \<open>Commands that name files of the pack\<close>

record commandPackFileFinding =
  cpf_Engine :: string
  cpf_Token :: string

definition cpfNamesPackFile :: "pack_fs \<Rightarrow> string \<Rightarrow> string \<Rightarrow> bool" where
  "cpfNamesPackFile fs packDir token =
     (if token = [] \<or> HasPrefix token ''-'' \<or> IsAbs token then False
      else let rel = Clean token in
           if rel = dot \<or> rel = dotdot \<or> HasPrefix rel (dotdot @ ''/'') then False
           else pf_Stat fs (JoinPath [packDir, rel]) = Some RegularFile)"

definition commandPackFileFindings :: "pack_fs \<Rightarrow> PackManifest \<Rightarrow> string \<Rightarrow> commandPackFileFinding list" where
  "commandPackFileFindings fs m packDir =
     concat (map (\<lambda>name. case map_of (xm_Engines m) name of
        None \<Rightarrow> []
      | Some b \<Rightarrow>
          if eb_Producer b \<noteq> [] then []
          else map (\<lambda>t. \<lparr>cpf_Engine = name, cpf_Token = t\<rparr>)
                 (filter (cpfNamesPackFile fs packDir) (firsts (sort (Fields (eb_Command b))))))
       (sort (map fst (xm_Engines m))))"

subsection \<open>Phase 1: structure\<close>

text \<open>A phase takes the decoded manifest, None for a nil pointer.\<close>

definition phase1 :: string where "phase1 = ''phase1-structural''"

definition pack_semverRe :: rx where
  "pack_semverRe = rseq [rplus r_digit, rlit ''.'', rplus r_digit, rlit ''.'', rplus r_digit,
     ralt [REps, RCat (RClass ''-+'') (rplus (RClass (''.-0123456789abcdefghijklmnopqrstuvwxyz'' @ ''ABCDEFGHIJKLMNOPQRSTUVWXYZ'')))]]"

definition required_errors :: "string \<Rightarrow> string \<Rightarrow> bool \<Rightarrow> PackvalError \<Rightarrow> PackvalError list" where
  "required_errors field val valid invalid =
     (if val = [] then [at_path field (perr phase1 ''required'' [] [] (field @ '' is required''))] else err_if (\<not> valid) (at_path field invalid))"

definition validRisk :: "string list" where "validRisk = [''security'', ''correctness'', ''style'', ''perf'']"

definition archetypes :: "string list" where "archetypes = [''code'', ''enforcement'', ''recipes'']"

definition risk_class_errors :: "string \<Rightarrow> string \<Rightarrow> PackvalError list" where
  "risk_class_errors rule cls =
     (if cls = [] then [perr phase1 ''risk-class'' rule [] ''missing risk_class'']
      else err_if (cls \<notin> set validRisk) (perr phase1 ''risk-class'' rule [] ''invalid risk_class''))"

definition header_errors :: "PackManifest \<Rightarrow> PackvalError list" where
  "header_errors m =
     required_errors ''name'' (xm_Name m) True (perr phase1 [] [] [] [])
     @ required_errors ''version'' (xm_Version m) (rx_match pack_semverRe (xm_Version m)) (perr phase1 ''version'' [] [] ''version must be semver'')
     @ required_errors ''language'' (xm_Language m) True (perr phase1 [] [] [] [])
     @ required_errors ''archetype'' (xm_Archetype m) (xm_Archetype m \<in> set archetypes) (perr phase1 ''archetype'' [] [] ''invalid archetype'')
     @ err_if (xm_Rules m = [] \<and> xm_Scaffolds m = [] \<and> xm_SDK m = None)
         (at_path ''content'' (perr phase1 ''content'' [] [] ''content is required''))"

definition rule_file_errors :: "pack_fs \<Rightarrow> string \<Rightarrow> nat \<Rightarrow> PvRule \<Rightarrow> PackvalError list" where
  "rule_file_errors fs packDir i r =
     err_if (RuleSourcePath r \<noteq> [] \<and> \<not> pf_exists fs (JoinPath [packDir, RuleSourcePath r]))
       (at_path (''content.ruleset.rules['' @ Itoa (int i) @ ''].'' @ RuleSourceManifestKey r)
          (perr phase1 ''file-exists'' (xr_ID r) [] ''referenced file not found''))
     @ risk_class_errors (xr_ID r) (xr_RiskClass r)
     @ concat (map (\<lambda>c. concat (map (\<lambda>f.
          err_if (\<not> pf_exists fs (JoinPath [packDir, xf_Path f]))
            (perr phase1 ''file-exists'' (xr_ID r) (xc_ID c) ''fixture file not found'')) (claim_fixtures c))) (xr_Claims r))
     @ err_if (xr_Validator r \<noteq> [] \<and> \<not> pf_exists fs (JoinPath [packDir, xr_Validator r]))
         (perr phase1 ''file-exists'' (xr_ID r) [] ''validator file not found'')"

definition success_code_errors :: "PackManifest \<Rightarrow> PackvalError list" where
  "success_code_errors m =
     concat (map (\<lambda>name.
       case map_of (xm_Engines m) name of
         None \<Rightarrow> []
       | Some b \<Rightarrow>
           (case ValidateSuccessExitCodes (eb_SuccessExitCodes b) of
              None \<Rightarrow> []
            | Some e \<Rightarrow> [at_path (''engines.'' @ name @ ''.success_exit_codes'')
                           (perr phase1 ''engine-success-exit-codes'' [] [] (''engine '' @ name @ '': '' @ e))]))
       (sort (map fst (xm_Engines m))))"

definition structural_errors :: "pack_fs \<Rightarrow> string \<Rightarrow> PackManifest \<Rightarrow> PackvalError list" where
  "structural_errors fs packDir m =
     header_errors m
     @ concat (map (\<lambda>(i, r). rule_file_errors fs packDir i r) (enumerate 0 (xm_Rules m)))
     @ concat (map (\<lambda>s. err_if (xs_Path s \<noteq> [] \<and> \<not> pf_exists fs (JoinPath [packDir, xs_Path s]))
         (perr phase1 ''file-exists'' (xs_ID s) [] ''scaffold path not found'')) (xm_Scaffolds m))
     @ concat (map (\<lambda>tc. risk_class_errors (xt_ID tc) (xt_RiskClass tc)) (standalone_configs m))
     @ success_code_errors m"

definition RunStructural :: "pack_fs \<Rightarrow> PackManifest option \<Rightarrow> string \<Rightarrow> PhaseResult" where
  "RunStructural fs pack packDir =
     (case pack of None \<Rightarrow> nil_manifest phase1 6 | Some m \<Rightarrow> phase_result phase1 6 (structural_errors fs packDir m) [])"

subsection \<open>Phase 2: coherence\<close>

definition phase2 :: string where "phase2 = ''phase2-coherence''"

definition fixture_errors :: "pack_fs \<Rightarrow> string \<Rightarrow> string \<Rightarrow> string \<Rightarrow> FixtureRef \<Rightarrow> PackvalError list" where
  "fixture_errors fs packDir rule claim f =
     (case pf_ReadFile fs (JoinPath [packDir, xf_Path f]) of
        Inl _ \<Rightarrow> [perr phase2 ''fixture-exists'' rule claim ''fixture file not found'']
      | Inr dat \<Rightarrow> err_if (TrimSpace dat = []) (perr phase2 ''fixture-empty'' rule claim ''fixture file is empty''))"

definition rule_claim_errors :: "pack_fs \<Rightarrow> string \<Rightarrow> string \<Rightarrow> PvClaim \<Rightarrow> PackvalError list" where
  "rule_claim_errors fs packDir rule c =
     err_if (xc_Positive c = []) (perr phase2 ''fixtures-positive'' rule (xc_ID c) ''no positive fixtures'')
     @ err_if (xc_Negative c = []) (perr phase2 ''fixtures-negative'' rule (xc_ID c) ''no negative fixtures'')
     @ concat (map (fixture_errors fs packDir rule (xc_ID c)) (claim_fixtures c))"

definition tool_claim_errors :: "string \<Rightarrow> PvClaim \<Rightarrow> PackvalError list" where
  "tool_claim_errors rule c =
     err_if (xc_Positive c = [] \<or> xc_Negative c = [])
       (perr phase2 ''tool-config-fixtures'' rule (xc_ID c) ''tool_config claim missing fixtures'')"

definition claimless_errors :: "packval_codec \<Rightarrow> PackManifest \<Rightarrow> PvRule \<Rightarrow> PackvalError list" where
  "claimless_errors codec m r =
     (if xr_Claims r \<noteq> [] then []
      else if xr_Engine r = [] then [perr phase2 ''claims'' (xr_ID r) [] ''rule has no claims'']
      else case resolveEngine codec m (xr_Engine r) of
             Inl e \<Rightarrow> [perr phase2 ''engine-resolve'' (xr_ID r) [] e]
           | Inr _ \<Rightarrow> [])"

text \<open>One pass over claims and one over rules, each with the identities seen so far.\<close>

fun pv_claims_scan :: "(PvClaim \<Rightarrow> PackvalError list) \<Rightarrow> PvClaim list \<Rightarrow> string set \<Rightarrow> PackvalError list" where
  "pv_claims_scan check [] seen = []"
| "pv_claims_scan check (c # cs) seen =
     err_if (xc_ID c \<in> seen) (perr phase2 ''unique-claim-id'' [] (xc_ID c) ''duplicate claim id'')
     @ check c @ pv_claims_scan check cs (insert (xc_ID c) seen)"

fun rules_scan :: "(PvRule \<Rightarrow> PackvalError list) \<Rightarrow> (PvRule \<Rightarrow> PvClaim \<Rightarrow> PackvalError list) \<Rightarrow> PvRule list
   \<Rightarrow> string set \<Rightarrow> string set \<Rightarrow> PackvalError list" where
  "rules_scan check checkClaim [] rules claims = []"
| "rules_scan check checkClaim (r # rs) rules claims =
     err_if (xr_ID r \<in> rules) (perr phase2 ''unique-rule-id'' (xr_ID r) [] ''duplicate rule id'')
     @ check r @ pv_claims_scan (checkClaim r) (xr_Claims r) claims
     @ rules_scan check checkClaim rs (insert (xr_ID r) rules) (claims \<union> set (map xc_ID (xr_Claims r)))"

definition claim_ids :: "PvRule list \<Rightarrow> string list" where
  "claim_ids rs = map xc_ID (concat (map xr_Claims rs))"

text \<open>Tool configurations with an identity are scanned after the rules, as rules without a source.\<close>

definition identity_errors :: "packval_codec \<Rightarrow> pack_fs \<Rightarrow> string \<Rightarrow> PackManifest \<Rightarrow> PackvalError list" where
  "identity_errors codec fs packDir m =
     rules_scan (claimless_errors codec m) (\<lambda>r. rule_claim_errors fs packDir (xr_ID r)) (xm_Rules m) {} {}
     @ rules_scan (\<lambda>r. err_if (xr_Claims r = []) (perr phase2 ''tool-config-claims'' (xr_ID r) [] ''tool_config id has no claims''))
         (\<lambda>r. tool_claim_errors (xr_ID r)) (map tool_config_rule (standalone_configs m))
         (set (map xr_ID (xm_Rules m))) (set (claim_ids (xm_Rules m)))"

definition command_file_errors :: "pack_fs \<Rightarrow> PackManifest \<Rightarrow> string \<Rightarrow> PackvalError list" where
  "command_file_errors fs m packDir =
     map (\<lambda>f. at_path (''engines.'' @ cpf_Engine f @ ''.command'')
        ((perr phase2 ''command-pack-relative-file'' [] []
           (''engine '' @ cpf_Engine f @ '' command: token '' @ cpf_Token f
            @ '' names a file in the pack, but the gate runs command: with the PROJECT root as its working directory, so the file is not found at gate time''))
          \<lparr>pe_FixHint := ''declare it as `producer: '' @ cpf_Token f
            @ ''` (resolved against the pack dir) and remove it from command:; core never resolves command: against the pack dir''\<rparr>))
       (commandPackFileFindings fs m packDir)"

definition pairs_warnings :: "PackManifest \<Rightarrow> PackvalWarning list" where
  "pairs_warnings m =
     concat (map (\<lambda>r. map (\<lambda>rid. pwarn phase2 ''pairs_with'' ''dangling pairs_with reference'' [rid] [])
       (filter (\<lambda>rid. rid \<notin> set (AllRuleIDs m)) (xp_Rules (xr_PairsWith r)))) (xm_Rules m))"

definition exempt_warning :: "string \<Rightarrow> PackvalWarning" where
  "exempt_warning name =
     pwarn phase2 ''exempt-scope-decision''
       (''engine '' @ name @ '' is scope_kind: project-wide but does not declare exempt_from_scope_filter, ''
        @ ''so its scope-filter behaviour is an unrecorded default: true means its violations still RED a ''
        @ ''diff-scoped gate when they land on a file the change never touched, false means they are filtered out'')
       [''pack.yml'']
       (''add `exempt_from_scope_filter: true` or `exempt_from_scope_filter: false` to the '' @ name
        @ '' engine block, recording the decision either way'')"

definition referenced_fixtures :: "PackManifest \<Rightarrow> string list" where
  "referenced_fixtures m = map xf_Path (concat (map claim_fixtures (concat (map xr_Claims (AllRules m)))))"

definition orphan_warnings :: "pack_fs \<Rightarrow> PackManifest \<Rightarrow> string \<Rightarrow> PackvalWarning list" where
  "orphan_warnings fs m packDir =
     concat (map (\<lambda>path. case Rel packDir path of
        None \<Rightarrow> []
      | Some rel \<Rightarrow> if rel \<in> set (referenced_fixtures m) then []
                    else [pwarn phase2 ''orphan-fixture'' ''orphan fixture'' [rel] []])
       (pf_Walk fs (JoinPath [packDir, ''fixtures''])))"

definition RunCoherence :: "packval_codec \<Rightarrow> pack_fs \<Rightarrow> PackManifest option \<Rightarrow> string \<Rightarrow> PhaseResult" where
  "RunCoherence codec fs pack packDir =
     (case pack of
        None \<Rightarrow> nil_manifest phase2 10
      | Some m \<Rightarrow>
          phase_result phase2 10
            (identity_errors codec fs packDir m @ command_file_errors fs m packDir)
            (pairs_warnings m @ map exempt_warning (ExemptDecisionPending m)
             @ map (\<lambda>f. pwarn phase2 ''path-scope-dispatch'' (pathScopeDispatchMessage f) [pfd_RuleSource f] pathScopeFixHint)
                 (pathScopeDispatchFindings codec fs m packDir)
             @ map (\<lambda>f. pwarn phase2 ''path-scope-fixture-mask'' (pathScopeMaskMessage f) [pmf_RuleSource f] pathScopeFixHint)
                 (pathScopeMaskFindings codec fs m packDir)
             @ orphan_warnings fs m packDir))"

subsection \<open>Phase 4: archetypes\<close>

definition phase4 :: string where "phase4 = ''phase4-archetype''"

definition code_errors :: "PackManifest \<Rightarrow> PackvalError list" where
  "code_errors m =
     err_if (xm_Rules m = []) (perr phase4 ''code-rules'' [] [] ''code pack requires rules'')
     @ concat (map (\<lambda>r. err_if (xp_Scaffolds (xr_PairsWith r) = [] \<and> xp_SDK (xr_PairsWith r) = [])
         (perr phase4 ''pairs_with'' (xr_ID r) [] ''rule missing pairs_with'')) (xm_Rules m))
     @ concat (map (\<lambda>s.
         if xp_Rules (xs_PairsWith s) = [] then [perr phase4 ''pairs_with'' (xs_ID s) [] ''scaffold missing pairs_with rules'']
         else map (\<lambda>rid. perr phase4 ''pairs_with'' (xs_ID s) [] ''scaffold pairs_with unresolved rule'')
                (filter (\<lambda>rid. rid \<notin> set (map xr_ID (xm_Rules m))) (xp_Rules (xs_PairsWith s)))) (xm_Scaffolds m))"

definition enforcement_errors :: "PackManifest \<Rightarrow> PackvalError list" where
  "enforcement_errors m =
     err_if (xm_Scaffolds m \<noteq> []) (perr phase4 ''enforcement-content'' [] [] ''enforcement pack must not include scaffolds'')
     @ err_if (xm_SDK m \<noteq> None) (perr phase4 ''enforcement-content'' [] [] ''enforcement pack must not include sdk'')"

definition recipeManifestError :: "string \<Rightarrow> string \<Rightarrow> string \<Rightarrow> PackvalError" where
  "recipeManifestError phase recipe detail =
     at_path (''recipes.'' @ recipe)
       (perr phase ''recipe-manifest'' recipe [] (''recipe '' @ quote recipe @ '': '' @ detail))"

definition recipe_path :: "string \<Rightarrow> string" where "recipe_path dir = JoinPath [dir, ''recipe.yml'']"

definition declares_enforcement :: "RecipeManifest \<Rightarrow> bool" where
  "declares_enforcement m = (case rm_Enforcement m of None \<Rightarrow> False | Some e \<Rightarrow> en_Rules e \<noteq> [])"

definition recipe_errors :: "packval_codec \<Rightarrow> pack_fs \<Rightarrow> string \<Rightarrow> string \<Rightarrow> string \<Rightarrow> PackvalError list" where
  "recipe_errors codec fs packDir recipe dir =
     (case pf_ReadFile fs (JoinPath [packDir, recipe_path dir]) of
        Inl e \<Rightarrow> [recipeManifestError phase4 recipe (''reading '' @ recipe_path dir @ '': '' @ e)]
      | Inr dat \<Rightarrow>
     (case ParseRecipeManifest (pc_Recipe codec) dat of
        Inl e \<Rightarrow> [recipeManifestError phase4 recipe (''parsing '' @ recipe_path dir @ '': '' @ e)]
      | Inr m \<Rightarrow>
          err_if (rm_Kind m \<in> {KindScaffolding, KindImplementing} \<and> \<not> declares_enforcement m)
            (at_path (''recipes.'' @ recipe) (perr phase4 ''recipe-enforcement'' recipe []
               (''recipe '' @ quote recipe @ '': '' @ rm_Kind m @ ''-kind recipe must declare enforcement.rules'')))))"

definition checkRecipeEnforcement :: "packval_codec \<Rightarrow> pack_fs \<Rightarrow> PackManifest \<Rightarrow> string \<Rightarrow> PackvalError list" where
  "checkRecipeEnforcement codec fs m packDir =
     (if xm_Recipes m = []
      then [at_path ''recipes'' (perr phase4 ''recipes-required'' [] []
              ''recipes pack declares no recipes; a pack with neither recipes nor a ruleset is an empty pack'')]
      else concat (map (\<lambda>recipe. recipe_errors codec fs packDir recipe (map_get [] (xm_Recipes m) recipe))
             (sort (map fst (xm_Recipes m)))))"

definition archetype_errors :: "packval_codec \<Rightarrow> pack_fs \<Rightarrow> string \<Rightarrow> PackManifest \<Rightarrow> PackvalError list" where
  "archetype_errors codec fs packDir m =
     (if xm_Archetype m = ''code'' then code_errors m
      else if xm_Archetype m = ''enforcement'' then enforcement_errors m
      else if xm_Archetype m = ''recipes'' then checkRecipeEnforcement codec fs m packDir
      else [])"

definition RunArchetype :: "packval_codec \<Rightarrow> pack_fs \<Rightarrow> PackManifest option \<Rightarrow> string \<Rightarrow> PhaseResult" where
  "RunArchetype codec fs pack packDir =
     (case pack of None \<Rightarrow> nil_manifest phase4 3 | Some m \<Rightarrow> phase_result phase4 3 (archetype_errors codec fs packDir m) [])"

subsection \<open>Phase 5: layers\<close>

definition phase5 :: string where "phase5 = ''phase5-layer''"

definition validCategory :: "string list" where "validCategory = [''presence'', ''structural'', ''other'']"

definition layer3_errors :: "pack_fs \<Rightarrow> string \<Rightarrow> PvRule \<Rightarrow> PackvalError list" where
  "layer3_errors fs packDir r =
     err_if (xr_Category r \<notin> set validCategory) (perr phase5 ''category'' (xr_ID r) [] ''invalid category'')
     @ err_if (xr_Category r = ''other'' \<and> TrimSpace (xr_Justification r) = [])
         (perr phase5 ''justification'' (xr_ID r) [] ''other requires non-empty justification'')
     @ err_if (xr_InputScope r \<noteq> ''single-file'' \<and> xr_InputScope r \<noteq> ''multi-file'')
         (perr phase5 ''input_scope'' (xr_ID r) [] ''invalid input_scope'')
     @ (if TrimSpace (xr_Validator r) = [] then [perr phase5 ''validator'' (xr_ID r) [] ''missing validator'']
        else err_if (\<not> pf_exists fs (JoinPath [packDir, xr_Validator r]))
               (perr phase5 ''validator'' (xr_ID r) [] ''validator file not found''))"

definition layer_errors :: "packval_codec \<Rightarrow> pack_fs \<Rightarrow> string \<Rightarrow> PackManifest \<Rightarrow> PvRule \<Rightarrow> PackvalError list" where
  "layer_errors codec fs packDir m r =
     (if xr_Layer r < 1 \<or> xr_Layer r > 3 then
        (if xr_Engine r \<noteq> [] then
           (case resolveEngine codec m (xr_Engine r) of
              Inl e \<Rightarrow> [perr phase5 ''engine-resolve'' (xr_ID r) [] e]
            | Inr _ \<Rightarrow> [])
         else [perr phase5 ''layer'' (xr_ID r) [] ''invalid layer''])
      else if xr_Layer r = 3 then layer3_errors fs packDir r
      else err_if (xr_Category r \<noteq> []) (perr phase5 ''category'' (xr_ID r) [] ''category forbidden for layer 1/2''))"

definition RunLayer :: "packval_codec \<Rightarrow> pack_fs \<Rightarrow> PackManifest option \<Rightarrow> string \<Rightarrow> PhaseResult" where
  "RunLayer codec fs pack packDir =
     (case pack of
        None \<Rightarrow> nil_manifest phase5 4
      | Some m \<Rightarrow> phase_result phase5 4 (concat (map (layer_errors codec fs packDir m) (xm_Rules m))) [])"

subsection \<open>Phase 6: risk classes\<close>

definition phase6 :: string where "phase6 = ''phase6-risk-class''"

text \<open>The fixtures of a security rule, none used twice, in the order they are declared.\<close>

fun shared_errors :: "string \<Rightarrow> string \<Rightarrow> FixtureRef list \<Rightarrow> string set \<Rightarrow> PackvalError list" where
  "shared_errors rule claim [] seen = []"
| "shared_errors rule claim (f # fs) seen =
     err_if (xf_Path f \<in> seen) (perr phase6 ''independent-fixtures'' rule claim ''security claims must not share fixtures'')
     @ shared_errors rule claim fs (insert (xf_Path f) seen)"

fun security_errors :: "string \<Rightarrow> PvClaim list \<Rightarrow> string set \<Rightarrow> PackvalError list" where
  "security_errors rule [] seen = []"
| "security_errors rule (c # cs) seen =
     shared_errors rule (xc_ID c) (claim_fixtures c) seen
     @ err_if (\<not> list_ex xf_BypassAttempt (claim_fixtures c))
         (perr phase6 ''bypass-attempt'' rule (xc_ID c) ''security claim missing bypass_attempt fixture'')
     @ security_errors rule cs (seen \<union> set (map xf_Path (claim_fixtures c)))"

definition RunRiskClass :: "PackManifest option \<Rightarrow> PhaseResult" where
  "RunRiskClass pack =
     (case pack of
        None \<Rightarrow> nil_manifest phase6 2
      | Some m \<Rightarrow>
          phase_result phase6 2
            (concat (map (\<lambda>r. if xr_RiskClass r \<noteq> ''security'' then [] else security_errors (xr_ID r) (xr_Claims r) {})
               (xm_Rules m))) [])"

subsection \<open>What a passing phase establishes\<close>

lemma pv_claims_scan_Nil:
  "pv_claims_scan check cs seen = [] \<longleftrightarrow>
     distinct (map xc_ID cs) \<and> set (map xc_ID cs) \<inter> seen = {} \<and> (\<forall>c\<in>set cs. check c = [])"
  by (induction cs arbitrary: seen) auto

lemma rules_scan_Nil:
  "rules_scan check checkClaim rs rules claims = [] \<longleftrightarrow>
     distinct (map xr_ID rs) \<and> set (map xr_ID rs) \<inter> rules = {}
     \<and> distinct (claim_ids rs) \<and> set (claim_ids rs) \<inter> claims = {}
     \<and> (\<forall>r\<in>set rs. check r = [] \<and> (\<forall>c\<in>set (xr_Claims r). checkClaim r c = []))"
proof (induction rs arbitrary: rules claims)
  case (Cons r rs)
  have ids: "claim_ids (r # rs) = map xc_ID (xr_Claims r) @ claim_ids rs" by (simp add: claim_ids_def)
  show ?case
    unfolding rules_scan.simps append_is_Nil_conv err_if_Nil pv_claims_scan_Nil Cons.IH ids distinct_append set_append
    by (simp only: list.map distinct.simps list.set ball_simps) blast
qed (simp add: claim_ids_def)

lemma shared_errors_Nil:
  "shared_errors rule claim fs seen = [] \<longleftrightarrow> distinct (map xf_Path fs) \<and> set (map xf_Path fs) \<inter> seen = {}"
  by (induction fs arbitrary: seen) auto

definition rule_fixtures :: "PvRule \<Rightarrow> FixtureRef list" where
  "rule_fixtures r = concat (map claim_fixtures (xr_Claims r))"

lemma security_errors_Nil:
  "security_errors rule cs seen = [] \<longleftrightarrow>
     distinct (map xf_Path (concat (map claim_fixtures cs)))
     \<and> set (map xf_Path (concat (map claim_fixtures cs))) \<inter> seen = {}
     \<and> (\<forall>c\<in>set cs. \<exists>f\<in>set (claim_fixtures c). xf_BypassAttempt f)"
proof (induction cs arbitrary: seen)
  case (Cons c cs)
  let ?a = "map xf_Path (claim_fixtures c)" and ?b = "map xf_Path (concat (map claim_fixtures cs))"
  have "(\<exists>f\<in>set (claim_fixtures c). xf_BypassAttempt f) = list_ex xf_BypassAttempt (claim_fixtures c)"
    by (simp add: list_ex_iff)
  moreover have "distinct (?a @ ?b) \<and> set (?a @ ?b) \<inter> seen = {} \<longleftrightarrow>
      (distinct ?a \<and> set ?a \<inter> seen = {}) \<and> distinct ?b \<and> set ?b \<inter> (seen \<union> set ?a) = {}"
    unfolding distinct_append set_append by blast
  ultimately show ?case
    unfolding security_errors.simps append_is_Nil_conv err_if_Nil shared_errors_Nil Cons.IH not_not
    by (simp only: list.map concat.simps map_append list.set ball_simps) blast
qed simp

lemma concat_empty_iff: "concat (map f xs) = [] \<longleftrightarrow> (\<forall>x\<in>set xs. f x = [])"
  by simp

lemma RunRiskClass_pass:
  "ph_Status (RunRiskClass (Some m)) = ''pass'' \<longleftrightarrow>
     (\<forall>r\<in>set (xm_Rules m). xr_RiskClass r = ''security'' \<longrightarrow>
        distinct (map xf_Path (rule_fixtures r))
        \<and> (\<forall>c\<in>set (xr_Claims r). \<exists>f\<in>set (claim_fixtures c). xf_BypassAttempt f))"
proof -
  have "\<And>r. (if xr_RiskClass r \<noteq> ''security'' then [] else security_errors (xr_ID r) (xr_Claims r) {}) = [] \<longleftrightarrow>
      (xr_RiskClass r = ''security'' \<longrightarrow> distinct (map xf_Path (rule_fixtures r))
        \<and> (\<forall>c\<in>set (xr_Claims r). \<exists>f\<in>set (claim_fixtures c). xf_BypassAttempt f))"
    unfolding rule_fixtures_def using security_errors_Nil [of _ _ "{}"] by (simp del: map_concat)
  then show ?thesis unfolding RunRiskClass_def option.case phase_result_pass concat_empty_iff by blast
qed

definition fixture_ok :: "pack_fs \<Rightarrow> string \<Rightarrow> FixtureRef \<Rightarrow> bool" where
  "fixture_ok fs packDir f \<longleftrightarrow> (\<exists>dat. pf_ReadFile fs (JoinPath [packDir, xf_Path f]) = Inr dat \<and> TrimSpace dat \<noteq> [])"

lemma fixture_errors_Nil: "fixture_errors fs packDir rule claim f = [] \<longleftrightarrow> fixture_ok fs packDir f"
  by (auto simp: fixture_errors_def fixture_ok_def split: sum.splits)

text \<open>Coherence, said of the rules and of the tool configurations together.\<close>

definition identities_ok :: "packval_codec \<Rightarrow> pack_fs \<Rightarrow> string \<Rightarrow> PackManifest \<Rightarrow> bool" where
  "identities_ok codec fs packDir m \<longleftrightarrow>
     distinct (AllRuleIDs m) \<and> distinct (claim_ids (AllRules m))
     \<and> (\<forall>r\<in>set (AllRules m). \<forall>c\<in>set (xr_Claims r). xc_Positive c \<noteq> [] \<and> xc_Negative c \<noteq> [])
     \<and> (\<forall>r\<in>set (xm_Rules m). (xr_Claims r = [] \<longrightarrow> xr_Engine r \<noteq> [] \<and> (\<exists>b. resolveEngine codec m (xr_Engine r) = Inr b))
          \<and> (\<forall>c\<in>set (xr_Claims r). \<forall>f\<in>set (claim_fixtures c). fixture_ok fs packDir f))
     \<and> (\<forall>tc\<in>set (standalone_configs m). xt_Claims tc \<noteq> [])"

lemma claimless_Nil:
  "claimless_errors codec m r = [] \<longleftrightarrow>
     (xr_Claims r = [] \<longrightarrow> xr_Engine r \<noteq> [] \<and> (\<exists>b. resolveEngine codec m (xr_Engine r) = Inr b))"
  by (auto simp: claimless_errors_def split: sum.splits)

lemma identity_errors_Nil: "identity_errors codec fs packDir m = [] \<longleftrightarrow> identities_ok codec fs packDir m"
proof -
  let ?rs = "xm_Rules m" and ?ts = "map tool_config_rule (standalone_configs m)"
  have claims: "\<And>r c. rule_claim_errors fs packDir r c = [] \<longleftrightarrow>
      xc_Positive c \<noteq> [] \<and> xc_Negative c \<noteq> [] \<and> (\<forall>f\<in>set (claim_fixtures c). fixture_ok fs packDir f)"
    by (simp add: rule_claim_errors_def fixture_errors_Nil)
  have tools: "\<And>r c. tool_claim_errors r c = [] \<longleftrightarrow> xc_Positive c \<noteq> [] \<and> xc_Negative c \<noteq> []"
    by (simp add: tool_claim_errors_def)
  have cfg: "\<And>tc. xr_Claims (tool_config_rule tc) = xt_Claims tc" by (simp add: tool_config_rule_def)
  have dis_ids: "distinct (AllRuleIDs m) \<longleftrightarrow>
      distinct (map xr_ID ?rs) \<and> distinct (map xr_ID ?ts) \<and> set (map xr_ID ?ts) \<inter> set (map xr_ID ?rs) = {}"
    by (simp only: AllRuleIDs_def AllRules_def map_append distinct_append) blast
  have dis_claims: "distinct (claim_ids (AllRules m)) \<longleftrightarrow>
      distinct (claim_ids ?rs) \<and> distinct (claim_ids ?ts) \<and> set (claim_ids ?ts) \<inter> set (claim_ids ?rs) = {}"
    by (simp only: claim_ids_def AllRules_def map_append concat_append distinct_append) blast
  have split_rules: "\<And>P. (\<forall>r\<in>set (AllRules m). P r) \<longleftrightarrow> (\<forall>r\<in>set ?rs. P r) \<and> (\<forall>r\<in>set ?ts. P r)"
    by (auto simp: AllRules_def)
  have nonempty: "(\<forall>r\<in>set ?ts. xr_Claims r \<noteq> []) \<longleftrightarrow> (\<forall>tc\<in>set (standalone_configs m). xt_Claims tc \<noteq> [])"
    by (simp add: cfg)
  show ?thesis
    unfolding identity_errors_def identities_ok_def append_is_Nil_conv rules_scan_Nil claims tools claimless_Nil
      err_if_Nil dis_ids dis_claims split_rules nonempty [symmetric] Int_empty_right
    by blast
qed

end
