(* ===== verification/Packval_Fixtures.thy ===== *)
theory Packval_Fixtures
  imports Packval_Phases Pack_Dispatch
begin

text \<open>
  The execution of the fixtures of a pack: the executor that runs engines, validators and scaffold
  tests (\<open>src/pkg/packval/executor.go\<close>) and phase 3 (\<open>phase3.go\<close>).  Processes, the sandbox and the
  disk are functions on a world.  The engine run is proved to agree with the one of the gate
  (\<open>Pack_Dispatch\<close>), and a passing phase to have executed every fixture.
\<close>

subsection \<open>The executor\<close>

record ExecutionResult =
  er_Passed :: bool
  er_Output :: string
  er_ExitCode :: int
  er_Diagnostics :: "string list"

type_synonym 'w execution = "'w \<Rightarrow> (ExecutionResult \<times> string option) \<times> 'w"

record 'w FixtureExecutor =
  fx_RunEngine :: "string \<Rightarrow> EngineBinding \<Rightarrow> string list \<Rightarrow> 'w execution"
  fx_RunValidator :: "string \<Rightarrow> string \<Rightarrow> string list \<Rightarrow> 'w execution"
  fx_RunScaffoldTest :: "string \<Rightarrow> string \<Rightarrow> string \<Rightarrow> 'w execution"

text \<open>A process gets a name, arguments and a directory; the sandbox a script, arguments, the root of
  the pack and (for a convert) the bytes to read.\<close>

record 'w exec_env =
  xe_FS :: "'w \<Rightarrow> pack_fs"
  xe_Run :: "string \<Rightarrow> string list \<Rightarrow> string \<Rightarrow> 'w \<Rightarrow> (string \<times> run_error option) \<times> 'w"
  xe_SandboxStdout :: "string \<Rightarrow> string \<Rightarrow> string \<Rightarrow> 'w \<Rightarrow> (string + string) \<times> 'w"
  xe_SandboxRun :: "string \<Rightarrow> string list \<Rightarrow> string \<Rightarrow> 'w \<Rightarrow> (string \<times> run_error option) \<times> 'w"
  xe_Shell :: "string \<Rightarrow> string \<Rightarrow> 'w \<Rightarrow> (string \<times> run_error option) \<times> 'w"
  xe_MkdirAll :: "string \<Rightarrow> 'w \<Rightarrow> string option \<times> 'w"
  xe_WriteFile :: "string \<Rightarrow> string \<Rightarrow> 'w \<Rightarrow> string option \<times> 'w"
  xe_DecodeSarif :: "string \<Rightarrow> string + sarif_run list"
  xe_HasRuns :: "string \<Rightarrow> bool"

definition failed_execution :: "string \<Rightarrow> ExecutionResult" where
  "failed_execution out = \<lparr>er_Passed = False, er_Output = out, er_ExitCode = 1, er_Diagnostics = []\<rparr>"

definition no_execution :: ExecutionResult where
  "no_execution = \<lparr>er_Passed = False, er_Output = [], er_ExitCode = 0, er_Diagnostics = []\<rparr>"

definition buildEngineArgv :: "EngineBinding \<Rightarrow> string list \<Rightarrow> string \<times> string list" where
  "buildEngineArgv b targets =
     (case Fields (eb_Command b) of
        [] \<Rightarrow> ([], [])
      | name # args \<Rightarrow> (name, args @ (if eb_InputFlag b \<noteq> [] then [eb_InputFlag b] else []) @ targets))"

definition runAccepted :: "run_error option \<Rightarrow> int list \<Rightarrow> bool" where
  "runAccepted e codes =
     (if e = None then 0 \<in> set codes
      else case ExitStatus e of None \<Rightarrow> False | Some status \<Rightarrow> status \<in> set codes)"

definition emptyPayloadRunError :: "EngineBinding \<Rightarrow> run_error option \<Rightarrow> int list \<Rightarrow> string" where
  "emptyPayloadRunError b e codes =
     (let pre = ''engine '' @ quote (eb_Command b) @ '': '' in
      if e \<noteq> None \<and> ExitStatus e = None
      then pre @ ''a failed run with no exit status ('' @ error_value e
           @ '') with an empty findings payload is an engine failure, not a clean pass''
      else let status = Itoa (case ExitStatus e of None \<Rightarrow> 0 | Some c \<Rightarrow> c) in
           pre @ ''exit status '' @ status
           @ '' with an empty findings payload is an engine failure, not a clean pass; if exit status '' @ status
           @ '' is a legitimate no-findings result for this tool, declare it: success_exit_codes: [''
           @ Join (map Itoa (sort (codes @ [case ExitStatus e of None \<Rightarrow> 0 | Some c \<Rightarrow> c]))) '', '' @ '']'')"

definition script_at :: "pack_fs \<Rightarrow> string \<Rightarrow> bool" where
  "script_at fs path \<longleftrightarrow> (case pf_Stat fs path of None \<Rightarrow> False | Some k \<Rightarrow> k \<noteq> DirectoryFile)"

text \<open>What is read of a finished process.\<close>

definition execution_payload :: "pack_fs \<Rightarrow> string \<Rightarrow> EngineBinding \<Rightarrow> string \<Rightarrow> string + string" where
  "execution_payload fs packDir b stdout =
     (if eb_StdoutArtifact b = [] then Inr stdout
      else let path = JoinPath [packDir, eb_StdoutArtifact b] in
           case pf_ReadFile fs path of
             Inl e \<Rightarrow> Inl (''engine '' @ quote (eb_Command b) @ '': declared stdout_artifact '' @ quote (eb_StdoutArtifact b)
                          @ '' not produced ('' @ path @ ''): '' @ e)
           | Inr body \<Rightarrow> Inr body)"

definition strict_shape_error :: "('w, 'z) exec_env_scheme \<Rightarrow> EngineBinding \<Rightarrow> string \<Rightarrow> string option" where
  "strict_shape_error xe b payload =
     fail_if (eb_StrictSarif b \<and> TrimSpace payload \<noteq> [] \<and> \<not> xe_HasRuns xe (TrimSpace payload))
       (''engine '' @ quote (eb_Command b) @ '' declares strict SARIF but its output is not a SARIF log (no `runs` array) ''
        @ emdash @ '' a lenient parse would read this as zero findings'')"

definition execution_convert :: "('w, 'z) exec_env_scheme \<Rightarrow> string \<Rightarrow> EngineBinding \<Rightarrow> string \<Rightarrow> 'w \<Rightarrow> (string + string) \<times> 'w" where
  "execution_convert xe packDir b payload w =
     (let path = JoinPath [packDir, eb_Convert b] in
      if \<not> script_at (xe_FS xe w) path
      then (Inl (''engine '' @ quote (eb_Command b) @ '' declares a convert script that is missing or not a file: '' @ path), w)
      else case xe_SandboxStdout xe path packDir payload w of
             (Inr out, w') \<Rightarrow> (Inr out, w')
           | (Inl e, w') \<Rightarrow> (Inl (''engine '' @ quote (eb_Command b) @ '': convert step ('' @ eb_Convert b @ '') failed: '' @ e), w'))"

definition execution_verdict ::
  "('w, 'z) exec_env_scheme \<Rightarrow> EngineBinding \<Rightarrow> string \<Rightarrow> run_error option \<Rightarrow> string \<Rightarrow> ExecutionResult \<times> string option" where
  "execution_verdict xe b stdout e payload =
     (case ParsePackFindings (xe_DecodeSarif xe) payload of
        Inl err \<Rightarrow> (failed_execution stdout, Some (''engine '' @ quote (eb_Command b) @ '' produced no parseable SARIF: '' @ err))
      | Inr found \<Rightarrow>
          if eb_CrashGuard b \<and> \<not> runAccepted e (EffectiveSuccessExitCodes b) \<and> found = []
          then (failed_execution stdout,
                Some (''engine '' @ quote (eb_Command b) @ '' crashed: non-zero exit with no parseable findings: ''
                      @ (case e of None \<Rightarrow> ''%!w(<nil>)'' | Some r \<Rightarrow> run_error_text r)))
          else (\<lparr>er_Passed = (found \<noteq> []), er_Output = stdout, er_ExitCode = 0, er_Diagnostics = []\<rparr>, None))"

definition interpret_execution ::
  "('w, 'z) exec_env_scheme \<Rightarrow> string \<Rightarrow> string \<Rightarrow> EngineBinding \<Rightarrow> string \<Rightarrow> run_error option \<Rightarrow> 'w execution" where
  "interpret_execution xe packDir subject b stdout e w =
     (if NeverStarted e then
        ((failed_execution stdout,
          Some (''engine '' @ quote subject @ '' never started: the process could not be executed '' @ emdash
                @ '' this is a broken run, not a finding-free pass; ensure the command is present and executable: '' @ error_value e)), w)
      else
      (case execution_payload (xe_FS xe w) packDir b stdout of
        Inl err \<Rightarrow> ((failed_execution stdout, Some err), w)
      | Inr payload \<Rightarrow>
          if \<not> eb_CrashGuard b \<and> TrimSpace payload = [] \<and> \<not> runAccepted e (EffectiveSuccessExitCodes b)
          then ((failed_execution stdout, Some (emptyPayloadRunError b e (EffectiveSuccessExitCodes b))), w)
          else if eb_Convert b = [] then
            ((case strict_shape_error xe b payload of
                Some err \<Rightarrow> (failed_execution stdout, Some err)
              | None \<Rightarrow> execution_verdict xe b stdout e payload), w)
          else
            (case execution_convert xe packDir b payload w of
               (Inl err, w') \<Rightarrow> ((failed_execution stdout, Some err), w')
             | (Inr sarif, w') \<Rightarrow> (execution_verdict xe b stdout e sarif, w'))))"

definition tool_refused :: "EngineBinding \<Rightarrow> string option" where
  "tool_refused b =
     (case eb_Provision b of
        None \<Rightarrow> None
      | Some p \<Rightarrow> wrap_failure (''engine '' @ quote (eb_Command b) @ '' failed the trusted-tool allowlist gate: '')
                    (CheckToolAllowed TrustedToolAllowlist (pr_Tool p) (pr_Version p)))"

definition RunEngine :: "('w, 'z) exec_env_scheme \<Rightarrow> string \<Rightarrow> EngineBinding \<Rightarrow> string list \<Rightarrow> 'w execution" where
  "RunEngine xe packDir b targets w =
     (case tool_refused b of
        Some e \<Rightarrow> ((no_execution, Some e), w)
      | None \<Rightarrow>
     (case buildEngineArgv b targets of (name, args) \<Rightarrow>
        if name = [] then ((no_execution, Some ''engine binding has no command to run''), w)
        else if eb_Producer b \<noteq> [] \<and> \<not> script_at (xe_FS xe w) (producer_path packDir b)
        then ((failed_execution [],
               Some (''engine '' @ quote (eb_Command b) @ '': declared producer '' @ quote (eb_Producer b)
                     @ '' is missing or not a file ('' @ producer_path packDir b @ '')'')), w)
        else
          (let invoked = (if eb_Producer b \<noteq> [] then producer_path packDir b else name);
               subject = (if eb_Producer b \<noteq> [] then producer_path packDir b else eb_Command b) in
           case xe_Run xe invoked args packDir w of
             ((stdout, e), w') \<Rightarrow> interpret_execution xe packDir subject b stdout e w')))"

definition RunValidator :: "('w, 'z) exec_env_scheme \<Rightarrow> string \<Rightarrow> string \<Rightarrow> string list \<Rightarrow> 'w execution" where
  "RunValidator xe packDir validator paths w =
     (case xe_SandboxRun xe validator paths packDir w of
        ((out, None), w') \<Rightarrow> ((\<lparr>er_Passed = True, er_Output = out, er_ExitCode = 0, er_Diagnostics = []\<rparr>, None), w')
      | ((out, Some e), w') \<Rightarrow>
          ((\<lparr>er_Passed = False, er_Output = run_error_text e @ [CHR 0x0A] @ out,
             er_ExitCode = (case ExitStatus (Some e) of None \<Rightarrow> 1 | Some c \<Rightarrow> c), er_Diagnostics = []\<rparr>, None), w'))"

definition resultFromCmd :: "string \<Rightarrow> run_error option \<Rightarrow> ExecutionResult" where
  "resultFromCmd out e =
     (case e of
        None \<Rightarrow> \<lparr>er_Passed = True, er_Output = out, er_ExitCode = 0, er_Diagnostics = []\<rparr>
      | Some err \<Rightarrow>
          \<lparr>er_Passed = False, er_Output = out, er_ExitCode = (case err of ExitError c _ \<Rightarrow> c | _ \<Rightarrow> 1), er_Diagnostics = []\<rparr>)"

definition RunScaffoldTest :: "('w, 'z) exec_env_scheme \<Rightarrow> string \<Rightarrow> string \<Rightarrow> string \<Rightarrow> 'w execution" where
  "RunScaffoldTest xe packDir scaffoldPath testCommand w =
     (case xe_Shell xe testCommand (packDir @ ''/'' @ scaffoldPath) w of
        ((out, e), w') \<Rightarrow> ((resultFromCmd out e, None), w'))"

definition DefaultExecutor :: "('w, 'z) exec_env_scheme \<Rightarrow> 'w FixtureExecutor" where
  "DefaultExecutor xe =
     \<lparr>fx_RunEngine = RunEngine xe, fx_RunValidator = RunValidator xe, fx_RunScaffoldTest = RunScaffoldTest xe\<rparr>"

text \<open>The executor of the tests: functions that answer, and a pass where none is given.\<close>

record 'w MockExecutor =
  mk_EngineFn :: "(string \<Rightarrow> EngineBinding \<Rightarrow> string list \<Rightarrow> 'w execution) option"
  mk_ValidatorFn :: "(string \<Rightarrow> string \<Rightarrow> string list \<Rightarrow> 'w execution) option"
  mk_ScaffoldTestFn :: "(string \<Rightarrow> string \<Rightarrow> string \<Rightarrow> 'w execution) option"

definition mock_default :: "'w execution" where
  "mock_default w = ((\<lparr>er_Passed = True, er_Output = [], er_ExitCode = 0, er_Diagnostics = []\<rparr>, None), w)"

definition mock_executor :: "'w MockExecutor \<Rightarrow> 'w FixtureExecutor" where
  "mock_executor m =
     \<lparr>fx_RunEngine = (case mk_EngineFn m of None \<Rightarrow> (\<lambda>_ _ _. mock_default) | Some f \<Rightarrow> f),
      fx_RunValidator = (case mk_ValidatorFn m of None \<Rightarrow> (\<lambda>_ _ _. mock_default) | Some f \<Rightarrow> f),
      fx_RunScaffoldTest = (case mk_ScaffoldTestFn m of None \<Rightarrow> (\<lambda>_ _ _. mock_default) | Some f \<Rightarrow> f)\<rparr>"

subsection \<open>Phase 3: fixtures\<close>

definition phase3 :: string where "phase3 = ''phase3-fixtures''"

text \<open>An action reports and changes the world; actions run in order.\<close>

type_synonym ('e, 'w) action = "'w \<Rightarrow> 'e list \<times> 'w"

fun run_actions :: "('e, 'w) action list \<Rightarrow> ('e, 'w) action" where
  "run_actions [] w = ([], w)"
| "run_actions (a # as) w = (case a w of (es, w1) \<Rightarrow> case run_actions as w1 of (es', w2) \<Rightarrow> (es @ es', w2))"

definition report :: "'e list \<Rightarrow> ('e, 'w) action" where
  "report es w = (es, w)"

text \<open>An execution and what is reported of its outcome.\<close>

definition judged :: "'w execution \<Rightarrow> (ExecutionResult \<Rightarrow> string option \<Rightarrow> 'e list) \<Rightarrow> ('e, 'w) action" where
  "judged run judge w = (case run w of ((r, e), w') \<Rightarrow> (judge r e, w'))"

definition validatorOutputTailBytes :: nat where "validatorOutputTailBytes = 1024"

definition validatorFailureMessage :: "string \<Rightarrow> ExecutionResult \<Rightarrow> string option \<Rightarrow> string" where
  "validatorFailureMessage base r e =
     (let output = TrimSpace (drop (length (er_Output r) - validatorOutputTailBytes) (er_Output r)) in
      base @ '' (validator exit '' @ Itoa (er_ExitCode r) @ '')''
      @ (case e of None \<Rightarrow> [] | Some err \<Rightarrow> '': '' @ err)
      @ (if output \<noteq> [] then '': '' @ output else []))"

definition engineError :: "string \<Rightarrow> string \<Rightarrow> string \<Rightarrow> string \<Rightarrow> string \<Rightarrow> PackvalError" where
  "engineError phase rule claim fixturePath e =
     (perr phase ''engine-error'' rule claim (''engine run failed for fixture '' @ fixturePath @ '': '' @ e))
     \<lparr>pe_FixHint := ''The engine did not produce a usable result, so this fixture has no verdict. This is a broken RUN, not a failing fixture ''
        @ emdash @ '' check that the declared engine command exists, is executable, and emits parseable SARIF before looking at the fixture itself.''\<rparr>"

definition semgrepFileContainsRuleID :: "packval_codec \<Rightarrow> string \<Rightarrow> string \<Rightarrow> bool" where
  "semgrepFileContainsRuleID codec dat ruleID =
     (case pc_RuleIDs codec dat of Inl _ \<Rightarrow> False | Inr ids \<Rightarrow> ruleID \<in> set ids)"

definition rule_id_errors :: "packval_codec \<Rightarrow> pack_fs \<Rightarrow> string \<Rightarrow> PvRule \<Rightarrow> PackvalError list" where
  "rule_id_errors codec fs packDir r =
     (let src = RuleSourcePath r in
      case pf_ReadFile fs (JoinPath [packDir, src]) of
        Inl e \<Rightarrow> [perr phase3 ''semgrep-rule-id'' (xr_ID r) [] (''failed to read rule file '' @ src @ '': '' @ e)]
      | Inr dat \<Rightarrow>
          err_if (\<not> semgrepFileContainsRuleID codec dat (xr_ID r))
            (perr phase3 ''semgrep-rule-id'' (xr_ID r) [] (''pack rule ID '' @ quote (xr_ID r) @ '' not found in rule file '' @ src)))"

definition pattern_input_error :: "PvRule \<Rightarrow> EngineBinding \<Rightarrow> PackvalError" where
  "pattern_input_error r b =
     (perr phase3 ''pattern-arg-input'' (xr_ID r) []
        (''rule '' @ quote (xr_ID r) @ '' resolves to engine '' @ quote (xr_Engine r) @ '', which declares input_mode ''
         @ quote (InputMode_String (eb_InputMode b)) @ '', but the rule declares no inline pattern for it to consume''))
     \<lparr>pe_FixHint := ''An engine declaring this input mode consumes an inline expression as a command argument, not a rule file on disk. Declare the expression under the rule''
        @ [CHR 0x27] @ ''s `pattern:` key, or bind the rule to an engine whose input mode consumes the rule source file this rule declares.''\<rparr>"

text \<open>A rule that declares an input needs an engine.  The result is what its fixtures are run with:
  the binding and the first argument.\<close>

definition rule_dispatch :: "packval_codec \<Rightarrow> PackManifest \<Rightarrow> PvRule \<Rightarrow> (EngineBinding \<times> string) option" where
  "rule_dispatch codec m r =
     (if RuleSourcePath r = [] \<and> xr_Pattern r = [] then None
      else case resolveEngine codec m (xr_Engine r) of
             Inl _ \<Rightarrow> None
           | Inr b \<Rightarrow> if RuleDispatchInput r (eb_InputMode b) = [] then None else Some (b, RuleDispatchInput r (eb_InputMode b)))"

definition dispatch_errors :: "packval_codec \<Rightarrow> pack_fs \<Rightarrow> string \<Rightarrow> PackManifest \<Rightarrow> PvRule \<Rightarrow> PackvalError list" where
  "dispatch_errors codec fs packDir m r =
     (if RuleSourcePath r = [] \<and> xr_Pattern r = [] then []
      else case resolveEngine codec m (xr_Engine r) of
             Inl e \<Rightarrow> [perr phase3 ''engine-resolve'' (xr_ID r) [] e]
           | Inr b \<Rightarrow>
               err_if (RuleDispatchInput r (eb_InputMode b) = []) (pattern_input_error r b)
               @ (if RuleSourcePath r \<noteq> [] \<and> eb_InputMode b = InputModeRuleFlags
                  then rule_id_errors codec fs packDir r else []))"

text \<open>An engine passes when it fires, a validator when it accepts: the verdicts are opposite.\<close>

definition judge_engine :: "bool \<Rightarrow> string \<Rightarrow> string \<Rightarrow> string \<Rightarrow> PackvalError \<Rightarrow> ExecutionResult \<Rightarrow> string option \<Rightarrow> PackvalError list" where
  "judge_engine fires rule claim path wrong r e =
     (case e of Some err \<Rightarrow> [engineError phase3 rule claim path err] | None \<Rightarrow> err_if (er_Passed r \<noteq> fires) wrong)"

definition unfired :: "string \<Rightarrow> string \<Rightarrow> PackvalError" where
  "unfired rule claim =
     (perr phase3 ''semgrep-negative'' rule claim ''negative fixture not triggered'')
     \<lparr>pe_FixHint := ''This negative fixture did not trigger the rule and may indicate an engine limitation. The fixture may represent a pattern the rule engine cannot detect. Consider removing this fixture and documenting the limitation rather than shipping an untestable claim.''\<rparr>"

definition judge_accepts :: "string \<Rightarrow> string \<Rightarrow> string \<Rightarrow> string \<Rightarrow> ExecutionResult \<Rightarrow> string option \<Rightarrow> PackvalError list" where
  "judge_accepts check base rule claim r e =
     err_if (e \<noteq> None \<or> \<not> er_Passed r) (perr phase3 check rule claim (validatorFailureMessage base r e))"

definition judge_rejects :: "string \<Rightarrow> string \<Rightarrow> ExecutionResult \<Rightarrow> string option \<Rightarrow> PackvalError list" where
  "judge_rejects rule claim r e =
     (if e \<noteq> None then [perr phase3 ''validator-negative'' rule claim (validatorFailureMessage ''layer3 negative run failed'' r e)]
      else err_if (er_Passed r) (perr phase3 ''validator-negative'' rule claim ''layer3 negative unexpectedly passed''))"

definition engine_check :: "'w FixtureExecutor \<Rightarrow> string \<Rightarrow> (EngineBinding \<times> string) option \<Rightarrow> PvRule \<Rightarrow> PvClaim \<Rightarrow> bool
   \<Rightarrow> PackvalError \<Rightarrow> FixtureRef \<Rightarrow> (PackvalError, 'w) action list" where
  "engine_check ex packDir dispatch r c fires wrong f =
     (case dispatch of
        None \<Rightarrow> []
      | Some (b, input) \<Rightarrow>
          [judged (fx_RunEngine ex packDir b [input, xf_Path f]) (judge_engine fires (xr_ID r) (xc_ID c) (xf_Path f) wrong)])"

definition validator_check :: "'w FixtureExecutor \<Rightarrow> string \<Rightarrow> PvRule \<Rightarrow> string list
   \<Rightarrow> (ExecutionResult \<Rightarrow> string option \<Rightarrow> PackvalError list) \<Rightarrow> (PackvalError, 'w) action list" where
  "validator_check ex packDir r paths judge =
     (if xr_Validator r = [] then [] else [judged (fx_RunValidator ex packDir (xr_Validator r) paths) judge])"

definition claim_actions :: "'w FixtureExecutor \<Rightarrow> string \<Rightarrow> (EngineBinding \<times> string) option \<Rightarrow> PvRule \<Rightarrow> PvClaim
   \<Rightarrow> (PackvalError, 'w) action list" where
  "claim_actions ex packDir dispatch r c =
     concat (map (\<lambda>f.
        engine_check ex packDir dispatch r c False
          (perr phase3 ''semgrep-positive'' (xr_ID r) (xc_ID c) ''positive fixture triggered the rule (false positive)'') f
        @ validator_check ex packDir r [xf_Path f] (judge_accepts ''validator-positive'' ''layer3 positive failed'' (xr_ID r) (xc_ID c)))
       (xc_Positive c))
     @ concat (map (\<lambda>f.
        engine_check ex packDir dispatch r c True (unfired (xr_ID r) (xc_ID c)) f
        @ validator_check ex packDir r [xf_Path f] (judge_rejects (xr_ID r) (xc_ID c)))
       (xc_Negative c))
     @ (if xr_InputScope r = ''multi-file''
        then validator_check ex packDir r (map xf_Path (claim_fixtures c))
               (judge_accepts ''validator-multi-file'' ''multi-file validator failed'' (xr_ID r) (xc_ID c))
        else [])"

text \<open>The rule file is read when the turn of the rule comes.\<close>

definition rule_actions :: "'w FixtureExecutor \<Rightarrow> packval_codec \<Rightarrow> ('w \<Rightarrow> pack_fs) \<Rightarrow> PackManifest \<Rightarrow> string \<Rightarrow> PvRule
   \<Rightarrow> (PackvalError, 'w) action list" where
  "rule_actions ex codec fsOf m packDir r =
     (\<lambda>w. (dispatch_errors codec (fsOf w) packDir m r, w))
     # concat (map (claim_actions ex packDir (rule_dispatch codec m r) r) (xr_Claims r))"

definition tool_actions :: "'w FixtureExecutor \<Rightarrow> packval_codec \<Rightarrow> PackManifest \<Rightarrow> string \<Rightarrow> PvToolConfig
   \<Rightarrow> (PackvalError, 'w) action list" where
  "tool_actions ex codec m packDir tc =
     (case resolveEngine codec m (xt_Engine tc) of
        Inl e \<Rightarrow> [report [perr phase3 ''engine-resolve'' (xt_ID tc) [] e]]
      | Inr b \<Rightarrow>
          concat (map (\<lambda>c.
            map (\<lambda>f. judged (fx_RunEngine ex packDir b [xt_File tc, xf_Path f])
                  (judge_engine False (xt_ID tc) (xc_ID c) (xf_Path f)
                     (perr phase3 ''tool-config-positive'' (xt_ID tc) (xc_ID c) ''tool_config positive triggered the rule (false positive)'')))
              (xc_Positive c)
            @ map (\<lambda>f. judged (fx_RunEngine ex packDir b [xt_File tc, xf_Path f])
                  (judge_engine True (xt_ID tc) (xc_ID c) (xf_Path f)
                     (perr phase3 ''tool-config-negative'' (xt_ID tc) (xc_ID c) ''tool_config negative not triggered'')))
              (xc_Negative c)) (xt_Claims tc)))"

text \<open>A complete scaffold is rendered with its sample configuration and tested.\<close>

definition render_action :: "('w, 'z) exec_env_scheme \<Rightarrow> string \<Rightarrow> PvScaffold \<Rightarrow> string \<times> string \<Rightarrow> (PackvalError, 'w) action" where
  "render_action xe packDir s entry w =
     (case entry of (relPath, content) \<Rightarrow>
        let target = JoinPath [packDir, xs_Path s, relPath];
            failed = (\<lambda>e. perr phase3 ''scaffold-complete-config'' (xs_ID s) [] (''failed to render sample_config '' @ relPath @ '': '' @ e)) in
        case xe_MkdirAll xe (Dir target) w of
          (Some e, w1) \<Rightarrow> ([failed e], w1)
        | (None, w1) \<Rightarrow>
            (case xe_WriteFile xe target content w1 of
               (Some e, w2) \<Rightarrow> ([failed e], w2)
             | (None, w2) \<Rightarrow> ([], w2)))"

definition complete_action :: "'w FixtureExecutor \<Rightarrow> ('w, 'z) exec_env_scheme \<Rightarrow> string \<Rightarrow> PvScaffold \<Rightarrow> (PackvalError, 'w) action" where
  "complete_action ex xe packDir s w =
     (case run_actions (map (render_action xe packDir s) (xs_SampleConfig s)) w of
        (e # es, w1) \<Rightarrow> (e # es, w1)
      | ([], w1) \<Rightarrow>
          judged (fx_RunScaffoldTest ex packDir (xs_Path s) (xs_TestCommand s))
            (\<lambda>r e. err_if (e \<noteq> None \<or> \<not> er_Passed r) (perr phase3 ''scaffold-complete'' (xs_ID s) [] ''complete scaffold test failed'')) w1)"

definition has_indicator :: "pack_fs \<Rightarrow> string \<Rightarrow> string \<Rightarrow> string \<times> bool \<Rightarrow> bool" where
  "has_indicator fs path indicator entry =
     (case entry of (name, isDir) \<Rightarrow>
        \<not> isDir \<and> (case pf_ReadFile fs (JoinPath [path, name]) of Inl _ \<Rightarrow> False | Inr dat \<Rightarrow> Contains dat indicator))"

definition skeleton_report :: "pack_fs \<Rightarrow> string \<Rightarrow> PvScaffold \<Rightarrow> PackvalError list \<times> PackvalWarning list" where
  "skeleton_report fs packDir s =
     (let path = JoinPath [packDir, xs_Path s] in
      case pf_ReadDir fs path of
        Some (e # es) \<Rightarrow>
          ([], if xs_TestIndicator s \<noteq> [] \<and> \<not> list_ex (has_indicator fs path (xs_TestIndicator s)) (e # es)
               then [pwarn phase3 ''scaffold-skeleton-test-indicator'' ''skeleton scaffold has no file containing the pack-declared test indicator'' [] []]
               else [])
      | _ \<Rightarrow> ([perr phase3 ''scaffold-skeleton'' (xs_ID s) [] ''skeleton scaffold missing structure''], []))"

definition scaffold_action :: "'w FixtureExecutor \<Rightarrow> ('w, 'z) exec_env_scheme \<Rightarrow> string \<Rightarrow> PvScaffold
   \<Rightarrow> (PackvalError + PackvalWarning, 'w) action" where
  "scaffold_action ex xe packDir s w =
     (if xs_Tier s = ''complete'' then (case complete_action ex xe packDir s w of (es, w') \<Rightarrow> (map Inl es, w'))
      else if xs_Tier s = ''skeleton'' then
        (case skeleton_report (xe_FS xe w) packDir s of (es, ws) \<Rightarrow> (map Inl es @ map Inr ws, w))
      else ([], w))"

definition sdk_errors :: "PackManifest \<Rightarrow> PackvalError list" where
  "sdk_errors m =
     (case xm_SDK m of
        None \<Rightarrow> []
      | Some provides \<Rightarrow>
          map (\<lambda>_. perr phase3 ''sdk-provides'' [] [] ''sdk provides missing entry'') (filter (\<lambda>p. TrimSpace p = []) provides))"

definition RunFixtures :: "('w, 'z) exec_env_scheme \<Rightarrow> packval_codec \<Rightarrow> PackManifest option \<Rightarrow> string \<Rightarrow> 'w FixtureExecutor option
   \<Rightarrow> 'w \<Rightarrow> PhaseResult \<times> 'w" where
  "RunFixtures xe codec pack packDir executor w =
     (case pack of
        None \<Rightarrow> (nil_manifest phase3 5, w)
      | Some m \<Rightarrow>
          let ex = (case executor of None \<Rightarrow> DefaultExecutor xe | Some ex \<Rightarrow> ex) in
          (case run_actions (concat (map (rule_actions ex codec (xe_FS xe) m packDir) (xm_Rules m))
                             @ concat (map (tool_actions ex codec m packDir) (standalone_configs m))) w of
             (es, w1) \<Rightarrow>
          (case run_actions (map (scaffold_action ex xe packDir) (xm_Scaffolds m)) w1 of
             (ds, w2) \<Rightarrow>
               (phase_result phase3 5
                  (es @ concat (map (case_sum (\<lambda>e. [e]) (\<lambda>_. [])) ds) @ sdk_errors m)
                  (concat (map (case_sum (\<lambda>_. []) (\<lambda>x. [x])) ds)), w2))))"

subsection \<open>The gate and the pack test agree\<close>

text \<open>The environment in which the gate runs the same engine at the root of the pack.\<close>

definition gate_env :: "('w, 'z) exec_env_scheme \<Rightarrow> string \<Rightarrow> Registry \<Rightarrow> 'w engine_env" where
  "gate_env xe packDir base =
     \<lparr>ev_Getwd = Inr packDir, ev_Stat = (\<lambda>w p. map_option (\<lambda>k. k = DirectoryFile) (pf_Stat (xe_FS xe w) p)),
      ev_ReadFile = (\<lambda>w. pf_ReadFile (xe_FS xe w)), ev_Walk = (\<lambda>w p. Inr (pf_Walk (xe_FS xe w) p)),
      ev_RunStdout = (\<lambda>name args. xe_Run xe name args packDir),
      ev_SandboxStdout = (\<lambda>script root payload w.
         case xe_SandboxStdout xe script root payload w of (Inr out, w') \<Rightarrow> ((out, False, None), w') | (Inl e, w') \<Rightarrow> (([], False, Some e), w')),
      ev_SandboxRun = (\<lambda>script args root w.
         case xe_SandboxRun xe script args root w of ((out, e), w') \<Rightarrow> ((out, False, map_option run_error_text e), w')),
      ev_LookPath = (\<lambda>_ _. True), ev_Glob = (\<lambda>_ _. None), ev_BaseEngines = base, ev_Allowlist = TrustedToolAllowlist,
      ev_DecodeSarif = xe_DecodeSarif xe, ev_HasRuns = xe_HasRuns xe, ev_DecodeCoverage = (\<lambda>_. Inr [])\<rparr>"

text \<open>Two outcomes agree: both are errors, or the test fires just when the gate has violations.\<close>

definition same_verdict :: "(ExecutionResult \<times> string option) \<Rightarrow> string + Violation list \<Rightarrow> bool" where
  "same_verdict x y \<longleftrightarrow>
     (case y of Inl _ \<Rightarrow> snd x \<noteq> None \<and> \<not> er_Passed (fst x) | Inr vs \<Rightarrow> snd x = None \<and> (er_Passed (fst x) \<longleftrightarrow> vs \<noteq> []))"

lemma runAccepted_exitAccepted: "runAccepted e codes = exitAccepted e codes"
  by (cases e) (simp_all add: runAccepted_def exitAccepted_def)

lemma script_at_is_script: "is_script (gate_env xe packDir base) w path = script_at (xe_FS xe w) path"
  by (auto simp: is_script_def gate_env_def script_at_def split: option.splits)

lemma verdict_agrees:
  "same_verdict (execution_verdict xe b stdout e payload) (findings_of (gate_env xe packDir base) m packDir b e payload)"
  by (auto simp: execution_verdict_def findings_of_def same_verdict_def runAccepted_exitAccepted gate_env_def
      failed_execution_def split: sum.splits)

lemma payload_agrees:
  "(\<exists>p. execution_payload (xe_FS xe w) packDir b stdout = Inr p \<and> engine_payload (gate_env xe packDir base) w packDir missing b stdout = Inr p)
    \<or> (\<exists>e1 e2. execution_payload (xe_FS xe w) packDir b stdout = Inl e1 \<and> engine_payload (gate_env xe packDir base) w packDir missing b stdout = Inl e2)"
  by (auto simp: execution_payload_def engine_payload_def gate_env_def Let_def split: sum.splits)

lemma shape_agrees:
  "(strict_shape_error xe b payload = None) \<longleftrightarrow> (requireLintSarifShape (ev_HasRuns (gate_env xe packDir base)) m b payload = None)"
  by (simp add: strict_shape_error_def requireLintSarifShape_def gate_env_def fail_if_def)

lemma convert_agrees:
  "(\<exists>out w'. execution_convert xe packDir b payload w = (Inr out, w')
      \<and> convert_payload (gate_env xe packDir base) [] m packDir b payload w = ((Inr out, False), w'))
   \<or> (\<exists>e1 e2 w'. execution_convert xe packDir b payload w = (Inl e1, w')
      \<and> convert_payload (gate_env xe packDir base) [] m packDir b payload w = ((Inl e2, False), w'))"
proof (cases "script_at (xe_FS xe w) (JoinPath [packDir, eb_Convert b])")
  case False
  then show ?thesis
    by (simp add: execution_convert_def convert_payload_def convert_path_def script_at_is_script Let_def)
next
  case True
  have sandbox: "ev_SandboxStdout (gate_env xe packDir base) script root payload w =
      (case xe_SandboxStdout xe script root payload w of (Inr out, w') \<Rightarrow> ((out, False, None), w') | (Inl e, w') \<Rightarrow> (([], False, Some e), w'))"
    for script root by (simp add: gate_env_def)
  obtain x w' where ran: "xe_SandboxStdout xe (JoinPath [packDir, eb_Convert b]) packDir payload w = (x, w')"
    by (meson surj_pair)
  show ?thesis using True
    by (cases x) (simp_all add: execution_convert_def convert_payload_def convert_path_def script_at_is_script Let_def sandbox ran)
qed


subsection \<open>A passing phase has executed every fixture\<close>

lemma run_actions_Nil:
  assumes "fst (run_actions as w) = []" "a \<in> set as"
  shows "\<exists>w1 w2. a w1 = ([], w2)"
  using assms
proof (induction as arbitrary: w)
  case (Cons b as)
  obtain es w1 where b: "b w = (es, w1)" by (meson surj_pair)
  obtain es' w2 where rest: "run_actions as w1 = (es', w2)" by (meson surj_pair)
  have "es = []" "es' = []" using Cons.prems(1) b rest by simp_all
  then show ?case using Cons.IH [of w1] Cons.prems(2) b rest by auto
qed simp

lemma judged_Nil: "judged run judge w = ([], w') \<longleftrightarrow> (\<exists>r e. run w = ((r, e), w') \<and> judge r e = [])"
  by (auto simp: judged_def split: prod.splits)

lemma judge_engine_Nil: "judge_engine fires rule claim path wrong r e = [] \<longleftrightarrow> e = None \<and> er_Passed r = fires"
  by (auto simp: judge_engine_def split: option.splits)

lemma judge_validator_Nil:
  "judge_accepts check base rule claim r e = [] \<longleftrightarrow> e = None \<and> er_Passed r"
  "judge_rejects rule claim r e = [] \<longleftrightarrow> e = None \<and> \<not> er_Passed r"
  by (auto simp: judge_accepts_def judge_rejects_def)

text \<open>A run that ended without an error and with a verdict.\<close>

definition answered :: "'w execution \<Rightarrow> bool \<Rightarrow> bool" where
  "answered run passed \<longleftrightarrow> (\<exists>w1 r w2. run w1 = ((r, None), w2) \<and> er_Passed r = passed)"

lemma judged_engine_answered:
  "judged run (judge_engine fires rule claim path wrong) w1 = ([], w2) \<Longrightarrow> answered run fires"
  by (auto simp: judged_Nil judge_engine_Nil answered_def)

lemma judged_validator_answered:
  "judged run (judge_accepts check base rule claim) w1 = ([], w2) \<Longrightarrow> answered run True"
  "judged run (judge_rejects rule claim) w1 = ([], w2) \<Longrightarrow> answered run False"
  by (auto simp: judged_Nil judge_validator_Nil answered_def)

definition executor_of :: "('w, 'z) exec_env_scheme \<Rightarrow> 'w FixtureExecutor option \<Rightarrow> 'w FixtureExecutor" where
  "executor_of xe executor = (case executor of None \<Rightarrow> DefaultExecutor xe | Some ex \<Rightarrow> ex)"

lemma RunFixtures_actions:
  assumes pass: "ph_Status (fst (RunFixtures xe codec (Some m) packDir executor w)) = ''pass''"
    and member: "a \<in> set (concat (map (rule_actions (executor_of xe executor) codec (xe_FS xe) m packDir) (xm_Rules m))
               @ concat (map (tool_actions (executor_of xe executor) codec m packDir) (standalone_configs m)))"
  shows "\<exists>w1 w2. a w1 = ([], w2)"
proof -
  let ?as = "concat (map (rule_actions (executor_of xe executor) codec (xe_FS xe) m packDir) (xm_Rules m))
               @ concat (map (tool_actions (executor_of xe executor) codec m packDir) (standalone_configs m))"
  obtain es w1 where ran: "run_actions ?as w = (es, w1)" by (meson surj_pair)
  obtain ds w2 where scaffolds: "run_actions (map (scaffold_action (executor_of xe executor) xe packDir) (xm_Scaffolds m)) w1 = (ds, w2)"
    by (meson surj_pair)
  have "es @ concat (map (case_sum (\<lambda>e. [e]) (\<lambda>_. [])) ds) @ sdk_errors m = []"
    using pass unfolding RunFixtures_def executor_of_def [symmetric] Let_def option.case ran scaffolds prod.case fst_conv
      phase_result_pass .
  then have "fst (run_actions ?as w) = []" unfolding ran by simp
  then show ?thesis by (rule run_actions_Nil) (rule member)
qed

definition claim_tested :: "'w FixtureExecutor \<Rightarrow> string \<Rightarrow> EngineBinding \<Rightarrow> string \<Rightarrow> PvClaim \<Rightarrow> bool" where
  "claim_tested ex packDir b input c \<longleftrightarrow>
     (\<forall>f\<in>set (xc_Positive c). answered (fx_RunEngine ex packDir b [input, xf_Path f]) False)
     \<and> (\<forall>f\<in>set (xc_Negative c). answered (fx_RunEngine ex packDir b [input, xf_Path f]) True)"

definition claim_validated :: "'w FixtureExecutor \<Rightarrow> string \<Rightarrow> string \<Rightarrow> PvClaim \<Rightarrow> bool" where
  "claim_validated ex packDir validator c \<longleftrightarrow>
     (\<forall>f\<in>set (xc_Positive c). answered (fx_RunValidator ex packDir validator [xf_Path f]) True)
     \<and> (\<forall>f\<in>set (xc_Negative c). answered (fx_RunValidator ex packDir validator [xf_Path f]) False)"

lemma claim_actions_members:
  assumes "f \<in> set (xc_Positive c)"
  shows "set (engine_check ex packDir dispatch r c False
             (perr phase3 ''semgrep-positive'' (xr_ID r) (xc_ID c) ''positive fixture triggered the rule (false positive)'') f)
         \<subseteq> set (claim_actions ex packDir dispatch r c)"
    and "set (validator_check ex packDir r [xf_Path f] (judge_accepts ''validator-positive'' ''layer3 positive failed'' (xr_ID r) (xc_ID c)))
         \<subseteq> set (claim_actions ex packDir dispatch r c)"
  using assms by (auto simp: claim_actions_def)

lemma claim_actions_members_negative:
  assumes "f \<in> set (xc_Negative c)"
  shows "set (engine_check ex packDir dispatch r c True (unfired (xr_ID r) (xc_ID c)) f) \<subseteq> set (claim_actions ex packDir dispatch r c)"
    and "set (validator_check ex packDir r [xf_Path f] (judge_rejects (xr_ID r) (xc_ID c))) \<subseteq> set (claim_actions ex packDir dispatch r c)"
  using assms by (auto simp: claim_actions_def)

text \<open>A passing phase 3 has put every fixture to the test, whatever the executor: for each rule that
  declares an input, the engine of the rule resolved and was run on each fixture of each claim, every
  run ended without an error, and it fired on every negative fixture and on no positive one; the
  validators accepted the positive fixtures and rejected the negative ones; and the same holds of the
  engines of the tool configurations.\<close>

theorem fixtures_pass_executed:
  assumes pass: "ph_Status (fst (RunFixtures xe codec (Some m) packDir executor w)) = ''pass''"
  defines "ex \<equiv> executor_of xe executor"
  shows "(\<forall>r\<in>set (xm_Rules m). \<forall>c\<in>set (xr_Claims r).
            (RuleSourcePath r \<noteq> [] \<or> xr_Pattern r \<noteq> [] \<longrightarrow>
               (\<exists>b input. rule_dispatch codec m r = Some (b, input) \<and> claim_tested ex packDir b input c))
            \<and> (xr_Validator r \<noteq> [] \<longrightarrow> claim_validated ex packDir (xr_Validator r) c))
         \<and> (\<forall>tc\<in>set (standalone_configs m).
              \<exists>b. resolveEngine codec m (xt_Engine tc) = Inr b \<and> (\<forall>c\<in>set (xt_Claims tc). claim_tested ex packDir b (xt_File tc) c))"
proof (intro conjI ballI impI)
  fix r c assume r: "r \<in> set (xm_Rules m)" and c: "c \<in> set (xr_Claims r)"
  note quiet = RunFixtures_actions [OF pass]
  have rule_quiet: "\<exists>w1 w2. a w1 = ([], w2)" if "a \<in> set (rule_actions ex codec (xe_FS xe) m packDir r)" for a
    using that r by (intro quiet) (auto simp: ex_def)
  have claim_quiet: "\<exists>w1 w2. a w1 = ([], w2)" if "a \<in> set (claim_actions ex packDir (rule_dispatch codec m r) r c)" for a
    using that c by (intro rule_quiet) (auto simp: rule_actions_def)
  show "claim_validated ex packDir (xr_Validator r) c" if v: "xr_Validator r \<noteq> []"
  proof -
    have "answered (fx_RunValidator ex packDir (xr_Validator r) [xf_Path f]) True" if f: "f \<in> set (xc_Positive c)" for f
      using claim_quiet claim_actions_members(2) [OF f, of ex packDir r "rule_dispatch codec m r"] v
      by (auto simp: validator_check_def intro: judged_validator_answered)
    moreover have "answered (fx_RunValidator ex packDir (xr_Validator r) [xf_Path f]) False" if f: "f \<in> set (xc_Negative c)" for f
      using claim_quiet claim_actions_members_negative(2) [OF f, of ex packDir r "rule_dispatch codec m r"] v
      by (auto simp: validator_check_def intro: judged_validator_answered)
    ultimately show ?thesis by (simp add: claim_validated_def)
  qed
  assume input: "RuleSourcePath r \<noteq> [] \<or> xr_Pattern r \<noteq> []"
  obtain w1 where "dispatch_errors codec (xe_FS xe w1) packDir m r = []"
    using rule_quiet [of "\<lambda>w. (dispatch_errors codec (xe_FS xe w) packDir m r, w)"] by (auto simp: rule_actions_def)
  then obtain b where "resolveEngine codec m (xr_Engine r) = Inr b" "RuleDispatchInput r (eb_InputMode b) \<noteq> []"
    using input by (auto simp: dispatch_errors_def split: sum.splits if_splits)
  then have dispatch: "rule_dispatch codec m r = Some (b, RuleDispatchInput r (eb_InputMode b))" (is "_ = Some (b, ?input)")
    using input by (auto simp: rule_dispatch_def)
  have "answered (fx_RunEngine ex packDir b [?input, xf_Path f]) False" if f: "f \<in> set (xc_Positive c)" for f
    using claim_quiet claim_actions_members(1) [OF f, of ex packDir "rule_dispatch codec m r" r]
    by (auto simp: engine_check_def dispatch intro: judged_engine_answered)
  moreover have "answered (fx_RunEngine ex packDir b [?input, xf_Path f]) True" if f: "f \<in> set (xc_Negative c)" for f
    using claim_quiet claim_actions_members_negative(1) [OF f, of ex packDir "rule_dispatch codec m r" r]
    by (auto simp: engine_check_def dispatch intro: judged_engine_answered)
  ultimately show "\<exists>b input. rule_dispatch codec m r = Some (b, input) \<and> claim_tested ex packDir b input c"
    using dispatch by (auto simp: claim_tested_def)
next
  fix tc assume tc: "tc \<in> set (standalone_configs m)"
  have tool_quiet: "\<exists>w1 w2. a w1 = ([], w2)" if "a \<in> set (tool_actions ex codec m packDir tc)" for a
    using that tc by (intro RunFixtures_actions [OF pass]) (auto simp: ex_def)
  obtain b where b: "resolveEngine codec m (xt_Engine tc) = Inr b"
  proof (cases "resolveEngine codec m (xt_Engine tc)")
    case (Inl e)
    then show ?thesis using tool_quiet [of "report [perr phase3 ''engine-resolve'' (xt_ID tc) [] e]"]
      by (simp add: tool_actions_def report_def)
  qed (use that in blast)
  have "claim_tested ex packDir b (xt_File tc) c" if "c \<in> set (xt_Claims tc)" for c
    unfolding claim_tested_def using that tool_quiet
    by (fastforce simp: tool_actions_def b intro: judged_engine_answered)
  then show "\<exists>b. resolveEngine codec m (xt_Engine tc) = Inr b \<and> (\<forall>c\<in>set (xt_Claims tc). claim_tested ex packDir b (xt_File tc) c)"
    using b by blast
qed

text \<open>What an answer of the real executor rests on: the process started, and its findings parsed.\<close>

definition execution_parsed :: "('w, 'z) exec_env_scheme \<Rightarrow> string \<Rightarrow> EngineBinding \<Rightarrow> string \<Rightarrow> 'w \<Rightarrow> string + string" where
  "execution_parsed xe packDir b payload w =
     (if eb_Convert b = [] then (case strict_shape_error xe b payload of Some e \<Rightarrow> Inl e | None \<Rightarrow> Inr payload)
      else fst (execution_convert xe packDir b payload w))"

lemma execution_verdict_None:
  "snd (execution_verdict xe b stdout e sarif) = None \<longleftrightarrow>
     (\<exists>vs. ParsePackFindings (xe_DecodeSarif xe) sarif = Inr vs
        \<and> (vs = [] \<longrightarrow> \<not> eb_CrashGuard b \<or> runAccepted e (EffectiveSuccessExitCodes b)))"
  by (auto simp: execution_verdict_def split: sum.splits)

lemma execution_verdict_passed:
  assumes "execution_verdict xe b stdout e sarif = (r, None)"
  shows "\<exists>vs. ParsePackFindings (xe_DecodeSarif xe) sarif = Inr vs \<and> er_Passed r = (vs \<noteq> [])
    \<and> (vs = [] \<longrightarrow> \<not> eb_CrashGuard b \<or> runAccepted e (EffectiveSuccessExitCodes b))"
  using assms by (auto simp: execution_verdict_def split: sum.splits if_splits)

lemma interpret_execution_None:
  assumes "fst (interpret_execution xe packDir subject b stdout e w) = (r, None)"
  shows "\<not> NeverStarted e
    \<and> (\<exists>payload sarif vs. execution_payload (xe_FS xe w) packDir b stdout = Inr payload
         \<and> (eb_CrashGuard b \<or> TrimSpace payload \<noteq> [] \<or> runAccepted e (EffectiveSuccessExitCodes b))
         \<and> execution_parsed xe packDir b payload w = Inr sarif
         \<and> ParsePackFindings (xe_DecodeSarif xe) sarif = Inr vs \<and> er_Passed r = (vs \<noteq> [])
         \<and> (vs = [] \<longrightarrow> \<not> eb_CrashGuard b \<or> runAccepted e (EffectiveSuccessExitCodes b)))"
  using assms unfolding interpret_execution_def execution_parsed_def
  by (auto split: if_splits sum.splits option.splits prod.splits dest: execution_verdict_passed)

definition engine_ran :: "('w, 'z) exec_env_scheme \<Rightarrow> string \<Rightarrow> EngineBinding \<Rightarrow> string list \<Rightarrow> CheckViolation list \<Rightarrow> bool" where
  "engine_ran xe packDir b targets vs \<longleftrightarrow>
     tool_refused b = None
     \<and> (\<exists>w stdout e w' payload sarif.
          xe_Run xe (if eb_Producer b \<noteq> [] then producer_path packDir b else fst (buildEngineArgv b targets)) (snd (buildEngineArgv b targets)) packDir w = ((stdout, e), w')
          \<and> \<not> NeverStarted e
          \<and> execution_payload (xe_FS xe w') packDir b stdout = Inr payload
          \<and> execution_parsed xe packDir b payload w' = Inr sarif
          \<and> ParsePackFindings (xe_DecodeSarif xe) sarif = Inr vs
          \<and> (vs = [] \<longrightarrow> runAccepted e (EffectiveSuccessExitCodes b) \<or> \<not> eb_CrashGuard b \<and> TrimSpace payload \<noteq> []))"

lemma RunEngine_answered:
  assumes "answered (RunEngine xe packDir b targets) passed"
  shows "\<exists>vs. engine_ran xe packDir b targets vs \<and> passed = (vs \<noteq> [])"
proof -
  obtain w1 r w2 where ran: "RunEngine xe packDir b targets w1 = ((r, None), w2)" and p: "er_Passed r = passed"
    using assms by (auto simp: answered_def)
  obtain name args where argv: "buildEngineArgv b targets = (name, args)" by (meson surj_pair)
  define invoked where "invoked = (if eb_Producer b \<noteq> [] then producer_path packDir b else name)"
  obtain stdout e w3 where run: "xe_Run xe invoked args packDir w1 = ((stdout, e), w3)" by (metis surj_pair)
  have tool: "tool_refused b = None" using ran argv by (auto simp: RunEngine_def split: option.splits if_splits)
  have "interpret_execution xe packDir (if eb_Producer b \<noteq> [] then producer_path packDir b else eb_Command b) b stdout e w3 = ((r, None), w2)"
    using ran unfolding RunEngine_def tool option.case argv prod.case Let_def invoked_def [symmetric] run
    by (simp split: if_splits)
  then have "fst (interpret_execution xe packDir (if eb_Producer b \<noteq> [] then producer_path packDir b else eb_Command b) b stdout e w3) = (r, None)"
    by simp
  from interpret_execution_None [OF this] obtain payload sarif vs where
      "\<not> NeverStarted e" "execution_payload (xe_FS xe w3) packDir b stdout = Inr payload"
      and accepted: "eb_CrashGuard b \<or> TrimSpace payload \<noteq> [] \<or> runAccepted e (EffectiveSuccessExitCodes b)"
      and "execution_parsed xe packDir b payload w3 = Inr sarif" "ParsePackFindings (xe_DecodeSarif xe) sarif = Inr vs"
      and vs: "er_Passed r = (vs \<noteq> [])" and crash: "vs = [] \<longrightarrow> \<not> eb_CrashGuard b \<or> runAccepted e (EffectiveSuccessExitCodes b)"
    by blast
  moreover have "vs = [] \<longrightarrow> runAccepted e (EffectiveSuccessExitCodes b) \<or> \<not> eb_CrashGuard b \<and> TrimSpace payload \<noteq> []"
    using accepted crash by blast
  ultimately have "engine_ran xe packDir b targets vs"
    unfolding engine_ran_def argv snd_conv fst_conv invoked_def [symmetric] using tool run by blast
  then show ?thesis using vs p by blast
qed

end
