(* ===== verification/Packval_Pipeline.thy ===== *)
theory Packval_Pipeline
  imports Packval_Fixtures
begin

text \<open>
  The validation pipeline of packs (\<open>src/pkg/packval/pipeline.go\<close>), its report (\<open>format.go\<close>) and
  its callers: \<open>pack check\<close>, \<open>pack test\<close> (\<open>src/cmd/backstop/pack_check.go\<close>,
  \<open>pack_test_cmd.go\<close>) and the validator of the pack commands
  (\<open>src/pkg/pack/distribution/validator.go\<close>).  What a phase took is a parameter of the run.
\<close>

subsection \<open>The pipeline\<close>

record PvResult =
  pvr_Status :: string
  pvr_Pack :: string
  pvr_Version :: string
  pvr_Phases :: "PhaseResult list"
  pvr_Errors :: "PackvalError list"
  pvr_Warnings :: "PackvalWarning list"

definition FinalizeStatus :: "PvResult \<Rightarrow> PvResult" where
  "FinalizeStatus r = r\<lparr>pvr_Status := (if pvr_Errors r = [] then ''pass'' else ''fail'')\<rparr>"

definition skipped :: "string \<Rightarrow> string \<Rightarrow> PhaseResult" where
  "skipped phase reason =
     \<lparr>ph_Phase = phase, ph_Status = ''skipped'', ph_Checks = 0, ph_DurationMs = 0, ph_Reason = reason,
      ph_Errors = [], ph_Warnings = []\<rparr>"

type_synonym 'w phase_run = "string \<times> ('w \<Rightarrow> PhaseResult \<times> 'w)"

text \<open>After a phase that fails the others are recorded as skipped.\<close>

fun run_phases :: "(string \<Rightarrow> int) \<Rightarrow> string option \<Rightarrow> 'w phase_run list \<Rightarrow> 'w \<Rightarrow> PhaseResult list \<times> 'w" where
  "run_phases elapsed failed [] w = ([], w)"
| "run_phases elapsed (Some f) ((name, run) # ps) w =
     (case run_phases elapsed (Some f) ps w of (rs, w') \<Rightarrow> (skipped name (f @ '' failed'') # rs, w'))"
| "run_phases elapsed None ((name, run) # ps) w =
     (case run w of (r, w1) \<Rightarrow>
      case run_phases elapsed (if ph_Status r = ''fail'' then Some name else None) ps w1 of (rs, w2) \<Rightarrow>
        (r\<lparr>ph_DurationMs := elapsed name\<rparr> # rs, w2))"

definition reads :: "('w \<Rightarrow> PhaseResult) \<Rightarrow> 'w \<Rightarrow> PhaseResult \<times> 'w" where
  "reads f w = (f w, w)"

text \<open>The executor of the options; None stands for the default one.\<close>

definition pipeline_phases :: "('w, 'z) exec_env_scheme \<Rightarrow> packval_codec \<Rightarrow> string \<Rightarrow> string \<Rightarrow> 'w FixtureExecutor option
   \<Rightarrow> PackManifest \<Rightarrow> 'w phase_run list" where
  "pipeline_phases xe codec packDir mode executor m =
     [(phase1, reads (\<lambda>w. RunStructural (xe_FS xe w) (Some m) packDir)),
      (phase2, reads (\<lambda>w. RunCoherence codec (xe_FS xe w) (Some m) packDir))]
     @ (if mode = ''test'' then [(phase3, RunFixtures xe codec (Some m) packDir executor)] else [])
     @ [(phase4, reads (\<lambda>w. RunArchetype codec (xe_FS xe w) (Some m) packDir)),
        (phase5, reads (\<lambda>w. RunLayer codec (xe_FS xe w) (Some m) packDir)),
        (phase6, reads (\<lambda>w. RunRiskClass (Some m)))]"

definition unparsed_result :: "string \<Rightarrow> string \<Rightarrow> PvResult" where
  "unparsed_result mode e =
     (let err = at_path ''pack.yml'' (perr phase1 ''parse-manifest'' [] [] e);
          p1 = \<lparr>ph_Phase = phase1, ph_Status = ''fail'', ph_Checks = 0, ph_DurationMs = 0, ph_Reason = [],
                ph_Errors = [err], ph_Warnings = []\<rparr> in
      FinalizeStatus
        \<lparr>pvr_Status = [], pvr_Pack = [], pvr_Version = [],
         pvr_Phases = p1 # map (\<lambda>p. skipped p ''phase1 failed'')
           (filter (\<lambda>p. \<not> (mode = ''check'' \<and> p = phase3)) [phase2, phase3, phase4, phase5, phase6]),
         pvr_Errors = [err], pvr_Warnings = []\<rparr>)"

definition RunPipeline :: "('w, 'z) exec_env_scheme \<Rightarrow> packval_codec \<Rightarrow> (string \<Rightarrow> int) \<Rightarrow> string \<Rightarrow> string
   \<Rightarrow> 'w FixtureExecutor option \<Rightarrow> 'w \<Rightarrow> PvResult \<times> 'w" where
  "RunPipeline xe codec elapsed packDir mode executor w =
     (case PvParseManifest codec (xe_FS xe w) (JoinPath [packDir, ''pack.yml'']) of
        Inl e \<Rightarrow> (unparsed_result mode e, w)
      | Inr m \<Rightarrow>
          (case run_phases elapsed None (pipeline_phases xe codec packDir mode executor m) w of (rs, w') \<Rightarrow>
             (FinalizeStatus
                \<lparr>pvr_Status = [], pvr_Pack = xm_Name m, pvr_Version = xm_Version m, pvr_Phases = rs,
                 pvr_Errors = concat (map ph_Errors rs), pvr_Warnings = concat (map ph_Warnings rs)\<rparr>, w')))"

subsection \<open>The report and the commands\<close>

definition report_newline :: string where "report_newline = [CHR 0x0A]"

definition text_report :: "PvResult \<Rightarrow> string" where
  "text_report r =
     ''status: '' @ pvr_Status r @ report_newline
     @ concat (map (\<lambda>p. ''- '' @ ph_Phase p @ '': '' @ ph_Status p @ report_newline
                     @ (if ph_Reason p \<noteq> [] then ''  reason: '' @ ph_Reason p @ report_newline else [])) (pvr_Phases r))
     @ concat (map (\<lambda>e. ''ERROR ['' @ pe_Phase e @ ''/'' @ pe_Check e @ ''] '' @ pe_Message e @ report_newline) (pvr_Errors r))
     @ concat (map (\<lambda>x. ''WARN ['' @ pw_Phase x @ ''/'' @ pw_Check x @ ''] '' @ pw_Message x @ report_newline) (pvr_Warnings r))"

definition FormatResult :: "(PvResult \<Rightarrow> string + string) \<Rightarrow> PvResult \<Rightarrow> string \<Rightarrow> string + string" where
  "FormatResult marshal r format =
     (let f = TrimSpace format in
      if f = [] \<or> f = ''json'' then marshal r
      else if f = ''text'' then Inr (text_report r)
      else Inl (''unknown format '' @ quote format))"

text \<open>The outcome of the command: its exit code, the report it printed and the message of its error.\<close>

definition resolved_format :: "string \<Rightarrow> bool \<Rightarrow> string" where
  "resolved_format format jsonFlag = (if format \<noteq> [] then format else if jsonFlag then ''json'' else ''text'')"

definition pack_dir_arg :: "string list \<Rightarrow> string" where
  "pack_dir_arg args = (case args of [d] \<Rightarrow> d | _ \<Rightarrow> dot)"

definition pack_validate :: "(PvResult \<Rightarrow> string + string) \<Rightarrow> ('w, 'z) exec_env_scheme \<Rightarrow> packval_codec \<Rightarrow> (string \<Rightarrow> int)
   \<Rightarrow> string \<Rightarrow> string \<Rightarrow> bool \<Rightarrow> string list \<Rightarrow> 'w \<Rightarrow> (int \<times> string option \<times> string) \<times> 'w" where
  "pack_validate marshal xe codec elapsed mode format jsonFlag args w =
     (case RunPipeline xe codec elapsed (pack_dir_arg args) mode None w of (r, w') \<Rightarrow>
        (case FormatResult marshal r (resolved_format format jsonFlag) of
           Inl e \<Rightarrow> ((2, None, e), w')
         | Inr out \<Rightarrow>
             if pvr_Status r = ''fail'' then ((1, Some out, Itoa (int (length (pvr_Errors r))) @ '' pack validation errors''), w')
             else ((0, Some out, []), w')))"

definition newPackCheckCommand where
  "newPackCheckCommand marshal xe codec elapsed = pack_validate marshal xe codec elapsed ''check''"

definition newPackTestCommand where
  "newPackTestCommand marshal xe codec elapsed = pack_validate marshal xe codec elapsed ''test''"

definition firstFailingPhase :: "PvResult \<Rightarrow> string" where
  "firstFailingPhase r =
     (case find (\<lambda>p. ph_Status p = ''fail'') (pvr_Phases r) of
        Some p \<Rightarrow> ph_Phase p
      | None \<Rightarrow> ''no phase reported a failure'')"

definition runPackvalPipeline :: "('w, 'z) exec_env_scheme \<Rightarrow> packval_codec \<Rightarrow> (string \<Rightarrow> int) \<Rightarrow> string \<Rightarrow> string
   \<Rightarrow> 'w \<Rightarrow> string option \<times> 'w" where
  "runPackvalPipeline xe codec elapsed packDir mode w =
     (case RunPipeline xe codec elapsed packDir mode None w of (r, w') \<Rightarrow>
        (fail_if (pvr_Status r = ''fail'')
           (''pack validation ('' @ mode @ '') of '' @ packDir @ '' failed in '' @ firstFailingPhase r @ '': ''
            @ Itoa (int (length (pvr_Errors r))) @ '' validation error(s)''), w'))"

definition RunPackCheck where "RunPackCheck xe codec elapsed packDir = runPackvalPipeline xe codec elapsed packDir ''check''"

definition RunPackTest where "RunPackTest xe codec elapsed packDir = runPackvalPipeline xe codec elapsed packDir ''test''"

subsection \<open>Order and skipping\<close>

lemma run_phases_failed:
  "run_phases elapsed (Some f) ps w = (map (\<lambda>p. skipped (fst p) (f @ '' failed'')) ps, w)"
  by (induction ps) auto

text \<open>A phase whose status tells whether it has errors, as every phase of the pipeline does.\<close>

definition honest :: "PhaseResult \<Rightarrow> bool" where
  "honest r \<longleftrightarrow> ph_Status r = (if ph_Errors r = [] then ''pass'' else ''fail'')"

lemma phase_result_honest [simp]: "honest (phase_result phase checks errors warnings)"
  by (simp add: honest_def phase_result_def)

lemma phases_honest [simp]:
  "honest (RunStructural fs (Some m) packDir)" "honest (RunCoherence codec fs (Some m) packDir)"
  "honest (fst (RunFixtures xe codec (Some m) packDir executor w))" "honest (RunArchetype codec fs (Some m) packDir)"
  "honest (RunLayer codec fs (Some m) packDir)" "honest (RunRiskClass (Some m))"
  by (simp_all add: RunStructural_def RunCoherence_def RunArchetype_def RunLayer_def RunRiskClass_def RunFixtures_def Let_def
      split: prod.split)

text \<open>All phases pass, one after the other.\<close>

fun all_pass :: "'w phase_run list \<Rightarrow> 'w \<Rightarrow> bool" where
  "all_pass [] w = True"
| "all_pass ((name, run) # ps) w = (ph_Status (fst (run w)) = ''pass'' \<and> all_pass ps (snd (run w)))"

lemma run_phases_clean:
  assumes "\<And>name run w. (name, run) \<in> set ps \<Longrightarrow> honest (fst (run w))"
  shows "concat (map ph_Errors (fst (run_phases elapsed None ps w))) = [] \<longleftrightarrow> all_pass ps w"
  using assms
proof (induction ps arbitrary: w)
  case (Cons p ps)
  obtain name run where p: "p = (name, run)" by (cases p)
  obtain r w1 where r: "run w = (r, w1)" by (meson surj_pair)
  have honest: "honest r" using Cons.prems [of name run w] p r by simp
  have IH: "concat (map ph_Errors (fst (run_phases elapsed None ps w1))) = [] \<longleftrightarrow> all_pass ps w1"
    using Cons.IH Cons.prems by auto
  show ?case
  proof (cases "ph_Errors r = []")
    case True
    then have "ph_Status r = ''pass''" using honest by (simp add: honest_def)
    then show ?thesis using True IH by (simp add: p r split_beta)
  next
    case False
    then have "ph_Status r = ''fail''" using honest by (simp add: honest_def)
    then show ?thesis using False by (simp add: p r run_phases_failed)
  qed
qed simp

lemma pipeline_phases_honest:
  "(name, run) \<in> set (pipeline_phases xe codec packDir mode executor m) \<Longrightarrow> honest (fst (run w))"
  by (auto simp: pipeline_phases_def reads_def split: if_splits)

lemma RunPipeline_pass:
  "pvr_Status (fst (RunPipeline xe codec elapsed packDir mode executor w)) = ''pass'' \<longleftrightarrow>
     (\<exists>m. PvParseManifest codec (xe_FS xe w) (JoinPath [packDir, ''pack.yml'']) = Inr m
        \<and> all_pass (pipeline_phases xe codec packDir mode executor m) w)"
proof (cases "PvParseManifest codec (xe_FS xe w) (JoinPath [packDir, ''pack.yml''])")
  case (Inl e)
  then show ?thesis by (simp add: RunPipeline_def unparsed_result_def FinalizeStatus_def Let_def)
next
  case (Inr m)
  have "(concat (map ph_Errors (fst (run_phases elapsed None (pipeline_phases xe codec packDir mode executor m) w))) = [])
        = all_pass (pipeline_phases xe codec packDir mode executor m) w"
    by (rule run_phases_clean) (rule pipeline_phases_honest)
  then show ?thesis using Inr by (simp add: RunPipeline_def FinalizeStatus_def split_beta)
qed

lemma RunPipeline_status:
  "pvr_Status (fst (RunPipeline xe codec elapsed packDir mode executor w)) \<in> {''pass'', ''fail''}"
  by (simp add: RunPipeline_def unparsed_result_def FinalizeStatus_def Let_def split: sum.split prod.split)

subsection \<open>What a pack that passes the check is\<close>

lemma validRisk_nonempty [simp]: "[] \<notin> set validRisk" by (simp add: validRisk_def)

lemma archetypes_nonempty [simp]: "[] \<notin> set archetypes" by (simp add: archetypes_def)

lemma pack_semverRe_nonempty [simp]: "\<not> rx_match pack_semverRe []"
  by (simp add: rx_match_def pack_semverRe_def rplus_def r_digit_def)

definition header_ok :: "PackManifest \<Rightarrow> bool" where
  "header_ok m \<longleftrightarrow>
     xm_Name m \<noteq> [] \<and> rx_match pack_semverRe (xm_Version m) \<and> xm_Language m \<noteq> [] \<and> xm_Archetype m \<in> set archetypes
     \<and> (xm_Rules m \<noteq> [] \<or> xm_Scaffolds m \<noteq> [] \<or> xm_SDK m \<noteq> None)"

definition rule_files_ok :: "pack_fs \<Rightarrow> string \<Rightarrow> PvRule \<Rightarrow> bool" where
  "rule_files_ok fs packDir r \<longleftrightarrow>
     (RuleSourcePath r \<noteq> [] \<longrightarrow> pf_exists fs (JoinPath [packDir, RuleSourcePath r]))
     \<and> xr_RiskClass r \<in> set validRisk
     \<and> (\<forall>c\<in>set (xr_Claims r). \<forall>f\<in>set (claim_fixtures c). pf_exists fs (JoinPath [packDir, xf_Path f]))
     \<and> (xr_Validator r \<noteq> [] \<longrightarrow> pf_exists fs (JoinPath [packDir, xr_Validator r]))"

definition structure_ok :: "pack_fs \<Rightarrow> string \<Rightarrow> PackManifest \<Rightarrow> bool" where
  "structure_ok fs packDir m \<longleftrightarrow>
     header_ok m \<and> (\<forall>r\<in>set (xm_Rules m). rule_files_ok fs packDir r)
     \<and> (\<forall>s\<in>set (xm_Scaffolds m). xs_Path s \<noteq> [] \<longrightarrow> pf_exists fs (JoinPath [packDir, xs_Path s]))
     \<and> (\<forall>tc\<in>set (standalone_configs m). xt_RiskClass tc \<in> set validRisk)
     \<and> (\<forall>name b. map_of (xm_Engines m) name = Some b \<longrightarrow> ValidateSuccessExitCodes (eb_SuccessExitCodes b) = None)"

definition commands_ok :: "pack_fs \<Rightarrow> string \<Rightarrow> PackManifest \<Rightarrow> bool" where
  "commands_ok fs packDir m \<longleftrightarrow>
     (\<forall>name b. map_of (xm_Engines m) name = Some b \<and> eb_Producer b = [] \<longrightarrow>
        (\<forall>t\<in>set (Fields (eb_Command b)). \<not> cpfNamesPackFile fs packDir t))"

definition recipe_ok :: "packval_codec \<Rightarrow> pack_fs \<Rightarrow> string \<Rightarrow> string \<Rightarrow> bool" where
  "recipe_ok codec fs packDir dir \<longleftrightarrow>
     (\<exists>dat m. pf_ReadFile fs (JoinPath [packDir, recipe_path dir]) = Inr dat \<and> ParseRecipeManifest (pc_Recipe codec) dat = Inr m
        \<and> (rm_Kind m \<in> {KindScaffolding, KindImplementing} \<longrightarrow> declares_enforcement m))"

definition archetype_ok :: "packval_codec \<Rightarrow> pack_fs \<Rightarrow> string \<Rightarrow> PackManifest \<Rightarrow> bool" where
  "archetype_ok codec fs packDir m \<longleftrightarrow>
     (xm_Archetype m = ''code'' \<longrightarrow>
        xm_Rules m \<noteq> []
        \<and> (\<forall>r\<in>set (xm_Rules m). xp_Scaffolds (xr_PairsWith r) \<noteq> [] \<or> xp_SDK (xr_PairsWith r) \<noteq> [])
        \<and> (\<forall>s\<in>set (xm_Scaffolds m). xp_Rules (xs_PairsWith s) \<noteq> [] \<and> set (xp_Rules (xs_PairsWith s)) \<subseteq> set (map xr_ID (xm_Rules m))))
     \<and> (xm_Archetype m = ''enforcement'' \<longrightarrow> xm_Scaffolds m = [] \<and> xm_SDK m = None)
     \<and> (xm_Archetype m = ''recipes'' \<longrightarrow>
          xm_Recipes m \<noteq> [] \<and> (\<forall>recipe\<in>set (map fst (xm_Recipes m)). recipe_ok codec fs packDir (map_get [] (xm_Recipes m) recipe)))"

definition layer_ok :: "packval_codec \<Rightarrow> pack_fs \<Rightarrow> string \<Rightarrow> PackManifest \<Rightarrow> PvRule \<Rightarrow> bool" where
  "layer_ok codec fs packDir m r \<longleftrightarrow>
     (if xr_Layer r < 1 \<or> xr_Layer r > 3 then xr_Engine r \<noteq> [] \<and> (\<exists>b. resolveEngine codec m (xr_Engine r) = Inr b)
      else if xr_Layer r = 3 then
        xr_Category r \<in> set validCategory \<and> (xr_Category r = ''other'' \<longrightarrow> TrimSpace (xr_Justification r) \<noteq> [])
        \<and> xr_InputScope r \<in> {''single-file'', ''multi-file''}
        \<and> TrimSpace (xr_Validator r) \<noteq> [] \<and> pf_exists fs (JoinPath [packDir, xr_Validator r])
      else xr_Category r = [])"

definition risk_ok :: "PvRule \<Rightarrow> bool" where
  "risk_ok r \<longleftrightarrow>
     (xr_RiskClass r = ''security'' \<longrightarrow>
        distinct (map xf_Path (rule_fixtures r)) \<and> (\<forall>c\<in>set (xr_Claims r). \<exists>f\<in>set (claim_fixtures c). xf_BypassAttempt f))"

lemma required_errors_Nil: "required_errors field val valid invalid = [] \<longleftrightarrow> val \<noteq> [] \<and> valid"
  by (simp add: required_errors_def)

lemma risk_class_Nil: "risk_class_errors rule cls = [] \<longleftrightarrow> cls \<in> set validRisk"
  by (auto simp: risk_class_errors_def)

lemma header_errors_Nil: "header_errors m = [] \<longleftrightarrow> header_ok m"
proof -
  have "xm_Version m \<noteq> [] \<and> rx_match pack_semverRe (xm_Version m) \<longleftrightarrow> rx_match pack_semverRe (xm_Version m)"
    "xm_Archetype m \<noteq> [] \<and> xm_Archetype m \<in> set archetypes \<longleftrightarrow> xm_Archetype m \<in> set archetypes"
    by (metis pack_semverRe_nonempty) (metis archetypes_nonempty)
  then show ?thesis
    unfolding header_errors_def header_ok_def append_is_Nil_conv required_errors_Nil err_if_Nil by simp
qed

lemma rule_file_errors_Nil: "rule_file_errors fs packDir i r = [] \<longleftrightarrow> rule_files_ok fs packDir r"
  unfolding rule_file_errors_def rule_files_ok_def append_is_Nil_conv err_if_Nil risk_class_Nil concat_empty_iff by blast

lemma map_of_keys: "(\<forall>k\<in>set (sort (map fst xs)). P (map_of xs k)) \<longleftrightarrow> (\<forall>k v. map_of xs k = Some v \<longrightarrow> P (Some v))"
  for xs :: "('k::linorder \<times> 'v) list"
proof -
  have "k \<in> set (map fst xs) \<longleftrightarrow> (\<exists>v. map_of xs k = Some v)" for k
    by (metis list.set_map map_of_eq_None_iff option.exhaust option.distinct(1))
  then show ?thesis by (simp only: set_sort) (metis option.exhaust)
qed

lemma success_code_errors_Nil:
  "success_code_errors m = [] \<longleftrightarrow>
     (\<forall>name b. map_of (xm_Engines m) name = Some b \<longrightarrow> ValidateSuccessExitCodes (eb_SuccessExitCodes b) = None)"
proof -
  have "success_code_errors m = [] \<longleftrightarrow> (\<forall>name\<in>set (sort (map fst (xm_Engines m))).
      case map_of (xm_Engines m) name of None \<Rightarrow> True | Some b \<Rightarrow> ValidateSuccessExitCodes (eb_SuccessExitCodes b) = None)"
    unfolding success_code_errors_def concat_empty_iff by (intro ball_cong) (auto split: option.split)
  also have "\<dots> \<longleftrightarrow> (\<forall>name b. map_of (xm_Engines m) name = Some b \<longrightarrow> ValidateSuccessExitCodes (eb_SuccessExitCodes b) = None)"
    by (subst map_of_keys) simp
  finally show ?thesis .
qed

lemma enumerate_ball: "(\<forall>x\<in>set (map (\<lambda>(i, r). f i r) (enumerate n xs)). x = []) \<longleftrightarrow> (\<forall>r\<in>set xs. g r)"
  if "\<And>i r. f i r = [] \<longleftrightarrow> g r"
  by (induction xs arbitrary: n) (simp_all add: that)

lemma structural_errors_Nil: "structural_errors fs packDir m = [] \<longleftrightarrow> structure_ok fs packDir m"
proof -
  have rules: "concat (map (\<lambda>(i, r). rule_file_errors fs packDir i r) (enumerate 0 (xm_Rules m))) = []
      \<longleftrightarrow> (\<forall>r\<in>set (xm_Rules m). rule_files_ok fs packDir r)"
    unfolding concat_eq_Nil_conv by (rule enumerate_ball) (rule rule_file_errors_Nil)
  show ?thesis
    unfolding structural_errors_def structure_ok_def append_is_Nil_conv header_errors_Nil rules
    unfolding concat_empty_iff err_if_Nil risk_class_Nil success_code_errors_Nil by blast
qed

lemma set_firsts [simp]: "set (firsts xs) = set xs" by (simp add: firsts_def)

lemma command_file_errors_Nil: "command_file_errors fs m packDir = [] \<longleftrightarrow> commands_ok fs packDir m"
proof -
  have "command_file_errors fs m packDir = [] \<longleftrightarrow> (\<forall>name\<in>set (sort (map fst (xm_Engines m))).
      case map_of (xm_Engines m) name of None \<Rightarrow> True
      | Some b \<Rightarrow> eb_Producer b = [] \<longrightarrow> (\<forall>t\<in>set (Fields (eb_Command b)). \<not> cpfNamesPackFile fs packDir t))"
    unfolding command_file_errors_def map_is_Nil_conv commandPackFileFindings_def concat_empty_iff
    by (intro ball_cong refl) (auto simp: filter_empty_conv split: option.split)
  also have "\<dots> \<longleftrightarrow> commands_ok fs packDir m"
    unfolding commands_ok_def by (subst map_of_keys) auto
  finally show ?thesis .
qed

lemma recipe_errors_Nil: "recipe_errors codec fs packDir recipe dir = [] \<longleftrightarrow> recipe_ok codec fs packDir dir"
  by (auto simp: recipe_errors_def recipe_ok_def split: sum.splits)

lemma archetype_errors_Nil: "archetype_errors codec fs packDir m = [] \<longleftrightarrow> archetype_ok codec fs packDir m"
proof -
  have scaffold: "(if xp_Rules (xs_PairsWith s) = [] then [perr phase4 ''pairs_with'' (xs_ID s) [] ''scaffold missing pairs_with rules'']
         else map (\<lambda>rid. perr phase4 ''pairs_with'' (xs_ID s) [] ''scaffold pairs_with unresolved rule'')
                (filter (\<lambda>rid. rid \<notin> set (map xr_ID (xm_Rules m))) (xp_Rules (xs_PairsWith s)))) = []
      \<longleftrightarrow> xp_Rules (xs_PairsWith s) \<noteq> [] \<and> set (xp_Rules (xs_PairsWith s)) \<subseteq> set (map xr_ID (xm_Rules m))" for s
    by (auto simp: filter_empty_conv)
  have code: "code_errors m = [] \<longleftrightarrow> xm_Rules m \<noteq> []
        \<and> (\<forall>r\<in>set (xm_Rules m). xp_Scaffolds (xr_PairsWith r) \<noteq> [] \<or> xp_SDK (xr_PairsWith r) \<noteq> [])
        \<and> (\<forall>s\<in>set (xm_Scaffolds m). xp_Rules (xs_PairsWith s) \<noteq> [] \<and> set (xp_Rules (xs_PairsWith s)) \<subseteq> set (map xr_ID (xm_Rules m)))"
    unfolding code_errors_def append_is_Nil_conv err_if_Nil concat_empty_iff scaffold by blast
  have enforcement: "enforcement_errors m = [] \<longleftrightarrow> xm_Scaffolds m = [] \<and> xm_SDK m = None"
    by (simp add: enforcement_errors_def)
  have recipes: "checkRecipeEnforcement codec fs m packDir = [] \<longleftrightarrow>
      xm_Recipes m \<noteq> [] \<and> (\<forall>recipe\<in>set (map fst (xm_Recipes m)). recipe_ok codec fs packDir (map_get [] (xm_Recipes m) recipe))"
    by (simp add: checkRecipeEnforcement_def recipe_errors_Nil)
  show ?thesis
    unfolding archetype_ok_def code [symmetric] enforcement [symmetric] recipes [symmetric] by (auto simp: archetype_errors_def)
qed

lemma layer_errors_Nil: "layer_errors codec fs packDir m r = [] \<longleftrightarrow> layer_ok codec fs packDir m r"
  by (auto simp: layer_errors_def layer_ok_def layer3_errors_def split: sum.splits)

definition pack_ok :: "packval_codec \<Rightarrow> pack_fs \<Rightarrow> string \<Rightarrow> PackManifest \<Rightarrow> bool" where
  "pack_ok codec fs packDir m \<longleftrightarrow>
     structure_ok fs packDir m \<and> identities_ok codec fs packDir m \<and> commands_ok fs packDir m
     \<and> archetype_ok codec fs packDir m \<and> (\<forall>r\<in>set (xm_Rules m). layer_ok codec fs packDir m r \<and> risk_ok r)"

lemma static_phases_pass:
  "ph_Status (RunStructural fs (Some m) packDir) = ''pass'' \<longleftrightarrow> structure_ok fs packDir m"
  "ph_Status (RunCoherence codec fs (Some m) packDir) = ''pass'' \<longleftrightarrow> identities_ok codec fs packDir m \<and> commands_ok fs packDir m"
  "ph_Status (RunArchetype codec fs (Some m) packDir) = ''pass'' \<longleftrightarrow> archetype_ok codec fs packDir m"
  "ph_Status (RunLayer codec fs (Some m) packDir) = ''pass'' \<longleftrightarrow> (\<forall>r\<in>set (xm_Rules m). layer_ok codec fs packDir m r)"
  "ph_Status (RunRiskClass (Some m)) = ''pass'' \<longleftrightarrow> (\<forall>r\<in>set (xm_Rules m). risk_ok r)"
  unfolding RunStructural_def RunCoherence_def RunArchetype_def RunLayer_def option.case phase_result_pass
    structural_errors_Nil append_is_Nil_conv identity_errors_Nil command_file_errors_Nil archetype_errors_Nil
    concat_empty_iff layer_errors_Nil RunRiskClass_pass risk_ok_def
  by (rule refl)+

text \<open>C20: The check of a pack is exact.  \<open>pack check\<close> passes if and only if the manifest parses and the
  pack is what its phases ask for: a complete header and content; every file a rule, a claim or a
  scaffold names is there, and every success code declared is valid; rule and claim identities are
  unique across rules and tool configurations, and every claim has fixtures of both kinds that are
  not blank; no command of an engine names a file of the pack; the archetype has the content it
  demands, down to each recipe; the layers are complete; and security claims share no fixture and
  each attempt a bypass.  It changes nothing.\<close>

theorem pack_check_exact:
  "(pvr_Status (fst (RunPipeline xe codec elapsed packDir ''check'' executor w)) = ''pass'' \<longleftrightarrow>
      (\<exists>m. PvParseManifest codec (xe_FS xe w) (JoinPath [packDir, ''pack.yml'']) = Inr m \<and> pack_ok codec (xe_FS xe w) packDir m))
   \<and> snd (RunPipeline xe codec elapsed packDir ''check'' executor w) = w"
proof
  show "(pvr_Status (fst (RunPipeline xe codec elapsed packDir ''check'' executor w)) = ''pass'' \<longleftrightarrow>
      (\<exists>m. PvParseManifest codec (xe_FS xe w) (JoinPath [packDir, ''pack.yml'']) = Inr m \<and> pack_ok codec (xe_FS xe w) packDir m))"
    unfolding RunPipeline_pass pack_ok_def
    by (simp add: pipeline_phases_def reads_def static_phases_pass) blast
  have world: "snd (run_phases elapsed None ps w) = w"
    if "\<And>name run w. (name, run) \<in> set ps \<Longrightarrow> snd (run w) = w" for ps :: "'a phase_run list"
    using that
  proof (induction ps)
    case (Cons p ps)
    obtain name run where p: "p = (name, run)" by (cases p)
    have "snd (run_phases elapsed None ps w) = w" "snd (run w) = w" using Cons p by auto
    then show ?case by (simp add: p split_beta run_phases_failed)
  qed simp
  have "snd (run_phases elapsed None (pipeline_phases xe codec packDir ''check'' executor m) w) = w" for m
    by (rule world) (auto simp: pipeline_phases_def reads_def)
  then show "snd (RunPipeline xe codec elapsed packDir ''check'' executor w) = w"
    by (simp add: RunPipeline_def split_beta split: sum.split)
qed

text \<open>A failure of phase 1 or 2 stops the test before anything is executed.\<close>

theorem static_failure_runs_nothing:
  assumes "PvParseManifest codec (xe_FS xe w) (JoinPath [packDir, ''pack.yml'']) = Inr m"
    and "\<not> (structure_ok (xe_FS xe w) packDir m \<and> identities_ok codec (xe_FS xe w) packDir m \<and> commands_ok (xe_FS xe w) packDir m)"
  shows "pvr_Status (fst (RunPipeline xe codec elapsed packDir mode executor w)) = ''fail''
    \<and> snd (RunPipeline xe codec elapsed packDir mode executor w) = w"
proof
  let ?s = "RunStructural (xe_FS xe w) (Some m) packDir" and ?c = "RunCoherence codec (xe_FS xe w) (Some m) packDir"
  have failed: "ph_Status r \<noteq> ''pass'' \<Longrightarrow> honest r \<Longrightarrow> ph_Status r = ''fail''" for r by (simp add: honest_def split: if_splits)
  have bad: "ph_Status ?s = ''fail'' \<or> ph_Status ?s \<noteq> ''fail'' \<and> ph_Status ?c = ''fail''"
    using assms(2) failed [of ?s] failed [of ?c] static_phases_pass(1,2) by (auto simp del: phase_result_pass)
  have "pvr_Status (fst (RunPipeline xe codec elapsed packDir mode executor w)) \<noteq> ''pass''"
    unfolding RunPipeline_pass using assms static_phases_pass by (auto simp: pipeline_phases_def reads_def)
  then show "pvr_Status (fst (RunPipeline xe codec elapsed packDir mode executor w)) = ''fail''"
    using RunPipeline_status [of xe codec elapsed packDir mode executor w] by auto
  have "snd (run_phases elapsed None (pipeline_phases xe codec packDir mode executor m) w) = w"
    using bad unfolding pipeline_phases_def append.simps
    by (auto simp: reads_def split_beta run_phases_failed)
  then show "snd (RunPipeline xe codec elapsed packDir mode executor w) = w"
    using assms(1) by (simp add: RunPipeline_def split_beta)
qed

subsection \<open>What a pack that passes the test has shown\<close>


text \<open>A concrete pack: one rule with a pattern for a scanner that reports the file \<open>bad\<close>.\<close>

definition demo_rule :: PvRule where
  "demo_rule =
     \<lparr>xr_ID = ''r'', xr_Engine = ''scan'', xr_RulePath = [], xr_File = [], xr_Pattern = ''x'', xr_Tool = [], xr_RiskClass = ''style'',
      xr_Layer = 0, xr_Category = [], xr_Justification = [], xr_InputScope = [], xr_Validator = [], xr_PairsWith = no_pairs,
      xr_Claims = [\<lparr>xc_ID = ''c'', xc_Positive = [\<lparr>xf_Path = ''ok'', xf_BypassAttempt = False\<rparr>],
                    xc_Negative = [\<lparr>xf_Path = ''bad'', xf_BypassAttempt = False\<rparr>]\<rparr>]\<rparr>"

definition demo_pack :: PackManifest where
  "demo_pack =
     \<lparr>xm_Name = ''p'', xm_Version = ''1.0.0'', xm_Language = ''any'', xm_Archetype = ''enforcement'', xm_Rules = [demo_rule],
      xm_Scaffolds = [], xm_SDK = None, xm_ToolConfig = [], xm_Engines = [], xm_Recipes = [], xm_declaredEngineKeys = Some []\<rparr>"

definition demo_codec :: packval_codec where
  "demo_codec =
     \<lparr>pc_Manifest = (\<lambda>_. Inr demo_pack), pc_EngineKeys = (\<lambda>_. Inr []), pc_PathRules = (\<lambda>_. Inr []), pc_RuleIDs = (\<lambda>_. Inr []),
      pc_Recipe = (\<lambda>_. Inl ''no recipe''), pc_BaseEngines = [(''scan'', demo_binding InputModePatternArg ''scan'')]\<rparr>"

definition demo_fs :: pack_fs where
  "demo_fs =
     \<lparr>pf_Stat = (\<lambda>_. Some RegularFile), pf_ReadFile = (\<lambda>_. Inr ''text''), pf_ReadDir = (\<lambda>_. None), pf_Walk = (\<lambda>_. [])\<rparr>"

definition demo_result :: sarif_result where
  "demo_result =
     \<lparr>st_RuleID = ''r'', st_Level = [], st_Text = [], st_Locations = [], st_PartialFingerprints = [], st_Suppressions = [],
      st_Properties = []\<rparr>"

definition demo_exec :: "unit exec_env" where
  "demo_exec =
     \<lparr>xe_FS = (\<lambda>_. demo_fs), xe_Run = (\<lambda>name args dir w. ((last args, None), w)),
      xe_SandboxStdout = (\<lambda>_ _ _ w. (Inl ''no sandbox'', w)), xe_SandboxRun = (\<lambda>_ _ _ w. (([], None), w)),
      xe_Shell = (\<lambda>_ _ w. (([], None), w)), xe_MkdirAll = (\<lambda>_ w. (None, w)), xe_WriteFile = (\<lambda>_ _ w. (None, w)),
      xe_DecodeSarif = (\<lambda>s. Inr (if s = ''bad'' then [\<lparr>rn_Rules = [], rn_Results = [demo_result]\<rparr>] else [])),
      xe_HasRuns = (\<lambda>_. True)\<rparr>"

lemma demo_runs:
  "fst (RunEngine demo_exec dot (demo_binding InputModePatternArg ''scan'') [''x'', ''ok''] ())
     = (\<lparr>er_Passed = False, er_Output = ''ok'', er_ExitCode = 0, er_Diagnostics = []\<rparr>, None)"
  "fst (RunEngine demo_exec dot (demo_binding InputModePatternArg ''scan'') [''x'', ''bad''] ())
     = (\<lparr>er_Passed = True, er_Output = ''bad'', er_ExitCode = 0, er_Diagnostics = []\<rparr>, None)"
proof -
  let ?b = "demo_binding InputModePatternArg ''scan''"
  show "fst (RunEngine demo_exec dot ?b [''x'', ''ok''] ())
     = (\<lparr>er_Passed = False, er_Output = ''ok'', er_ExitCode = 0, er_Diagnostics = []\<rparr>, None)" by code_simp
  have argv: "buildEngineArgv ?b [''x'', ''bad''] = (''scan'', [''x'', ''bad''])" by code_simp
  have trim: "TrimSpace ''bad'' = ''bad''" by code_simp
  have fields: "eb_Provision ?b = None" "eb_Producer ?b = []" "eb_StdoutArtifact ?b = []" "eb_Convert ?b = []" "eb_StrictSarif ?b = False"
    "eb_CrashGuard ?b = False" by (simp_all add: demo_binding_def)
  have run: "xe_Run demo_exec name ls dir w = ((last ls, None), w)" for name ls dir w by (simp add: demo_exec_def)
  have "\<exists>v. parseSarif (xe_DecodeSarif demo_exec) ''bad'' CheckTypeFindings = Inr [v]"
    by (simp add: parseSarif_def trim demo_exec_def demo_result_def)
  then obtain v where "ParsePackFindings (xe_DecodeSarif demo_exec) ''bad'' = Inr [v]"
    by (auto simp: ParsePackFindings_def lookupParser_def)
  then have verdict: "execution_verdict demo_exec ?b ''bad'' None ''bad''
      = (\<lparr>er_Passed = True, er_Output = ''bad'', er_ExitCode = 0, er_Diagnostics = []\<rparr>, None)"
    by (simp add: execution_verdict_def fields)
  have "fst (interpret_execution demo_exec dot s ?b ''bad'' None ())
      = (\<lparr>er_Passed = True, er_Output = ''bad'', er_ExitCode = 0, er_Diagnostics = []\<rparr>, None)" for s
    by (simp add: interpret_execution_def NeverStarted_def execution_payload_def fields trim strict_shape_error_def fail_if_def verdict)
  then show "fst (RunEngine demo_exec dot ?b [''x'', ''bad''] ())
     = (\<lparr>er_Passed = True, er_Output = ''bad'', er_ExitCode = 0, er_Diagnostics = []\<rparr>, None)"
    by (simp add: RunEngine_def tool_refused_def fields argv run)
qed

lemma demo_fixtures: "ph_Status (fst (RunFixtures demo_exec demo_codec (Some demo_pack) dot None ())) = ''pass''"
proof -
  let ?b = "demo_binding InputModePatternArg ''scan''" and ?ex = "DefaultExecutor demo_exec"
  let ?pos = "\<lparr>xf_Path = ''ok'', xf_BypassAttempt = False\<rparr>" and ?neg = "\<lparr>xf_Path = ''bad'', xf_BypassAttempt = False\<rparr>"
  have dispatch: "rule_dispatch demo_codec demo_pack demo_rule = Some (?b, ''x'')"
    "dispatch_errors demo_codec (xe_FS demo_exec w) dot demo_pack demo_rule = []" for w by code_simp+
  have runs: "RunEngine demo_exec dot ?b [''x'', ''ok''] () = ((\<lparr>er_Passed = False, er_Output = ''ok'', er_ExitCode = 0, er_Diagnostics = []\<rparr>, None), ())"
    "RunEngine demo_exec dot ?b [''x'', ''bad''] () = ((\<lparr>er_Passed = True, er_Output = ''bad'', er_ExitCode = 0, er_Diagnostics = []\<rparr>, None), ())"
    using demo_runs by (simp_all add: prod_eq_iff)
  have claims: "xr_Claims demo_rule = [\<lparr>xc_ID = ''c'', xc_Positive = [?pos], xc_Negative = [?neg]\<rparr>]"
    "xr_Validator demo_rule = []" "xr_InputScope demo_rule = []" by (simp_all add: demo_rule_def)
  have parts: "xm_Rules demo_pack = [demo_rule]" "standalone_configs demo_pack = []" "xm_Scaffolds demo_pack = []" "sdk_errors demo_pack = []"
    by (simp_all add: demo_pack_def standalone_configs_def sdk_errors_def)
  have "run_actions (rule_actions ?ex demo_codec (xe_FS demo_exec) demo_pack dot demo_rule) () = ([], ())"
    by (simp add: rule_actions_def claim_actions_def claims dispatch engine_check_def validator_check_def judged_def
        judge_engine_def err_if_def DefaultExecutor_def runs)
  then show ?thesis by (simp add: RunFixtures_def parts)
qed


end
