(* ===== verification/Spec2Isabelle.thy ===== *)
theory Spec2Isabelle
  imports Gate_Command Pack_Lifecycle Pack_Git Recipe_Apply Packval_Pipeline
begin

text \<open>
  Verification of backstop, a command-line gate that decides whether a change may be merged, and
  of the manager of the rule packs the gate enforces.  The program is a Go module; paths below
  are relative to \<open>src/\<close>.

  \<^bold>\<open>The parts of the program.\<close>  A gate run (\<open>pkg/gate/gate.go\<close>) executes a list of steps.  A step
  yields a result with violations; violations are filtered to the scope of the run
  (\<open>scope.go\<close>), weighed by severity and per-dimension policy (\<open>policy.go\<close>), suppressed by
  inline waiver tokens (\<open>pkg/waiver\<close>, \<open>step_waiver.go\<close>), compared with a recorded baseline
  (\<open>baseline.go\<close>), and totalled into the exit code and the report (\<open>result.go\<close>, \<open>output.go\<close>).
  Two steps are computed from the project's own artifacts: status drift (\<open>status_drift.go\<close>)
  and requirement traceability (\<open>requirement_traceability.go\<close>), both over the records that
  \<open>artifact_status.go\<close> resolves from the artifact tree laid out by \<open>pkg/artifact/layout.go\<close>.
  Rules come in packs, which \<open>pkg/pack/distribution\<close> adds, installs, updates, upgrades, removes
  and verifies against a lock file.  A pack may also carry recipes, which \<open>pkg/recipe\<close> resolves,
  validates and applies to a project as a sequence of file operations.  The artifacts themselves
  (specs, plans, issues, bundles, decision records, directives) are discovered, routed, measured
  against the schemas the binary embeds and validated by \<open>cmd/backstop/artifact_validate.go\<close>,
  \<open>pkg/schema\<close> and \<open>pkg/validate\<close>.
  The installed packs bring engines, bindings of a command to inputs, a scope and a shape of output
  (\<open>pkg/pack/engine\<close>, \<open>pkg/pack/manifest.go\<close>).  \<open>cmd/backstop/pack_gate.go\<close> runs them, reads
  their SARIF (\<open>pkg/check\<close>) and hands the findings to the steps of the gate: contracts, test
  verification, substantiveness, coverage and traceability, each with the polarity of a dimension
  no pack provides.  \<open>cmd/backstop/gate.go\<close> is the command: flags, configuration, roots, what the
  packs declare together, the steps, the run and its exit code.  Before a pack is published or
  added, \<open>pkg/packval\<close> validates it in six phases, the third of which runs the fixtures of its claims.

  \<^bold>\<open>The theories.\<close>
  \<^item> \<open>Prelude\<close>: Go maps as association lists, the generic list and error lemmas.
  \<^item> \<open>Go_Strings\<close>, \<open>Go_Path\<close>, \<open>Go_Time\<close>, \<open>Sha256\<close>: what the program uses of Go's standard library.
    A string is its bytes; case folding is that of ASCII; a path is a Unix path; an instant is a
    number of nanoseconds and a duration saturates at 64 bits; SHA-256 is the full function on
    32-bit words.
  \<^item> \<open>Waiver_Token\<close>, \<open>Waiver_Adjudicate\<close>: the token grammar and expiry (\<open>waiver.go\<close>), the window
    harvest and the adjudication (\<open>adjudicate.go\<close>), the declared policy (\<open>policy.go\<close>) and the
    tree scan (\<open>unbound.go\<close>).
  \<^item> \<open>Gate_Types\<close>, \<open>Gate_Scope\<close>, \<open>Gate_Baseline\<close>, \<open>Gate_Policy\<close>, \<open>Gate_Result\<close>, \<open>Gate_Waiver\<close>,
    \<open>Gate_Run\<close>: the gate, one theory per file of \<open>pkg/gate\<close>; \<open>Gate_Run\<close> composes them as \<open>gate.go\<close>
    does, with the step closures as functions on a world.
  \<^item> \<open>Artifact_Layout\<close>, \<open>Artifact_Status\<close>, \<open>Status_Drift\<close>, \<open>Requirement_Traceability\<close>: the artifact
    tree and the two dimensions computed from it.
  \<^item> \<open>Pack_Version\<close>, \<open>Pack_Content\<close>, \<open>Pack_Lock\<close>: versions and identity; hashing, copying and
    tamper detection of directory trees; the lock document, its verification and the list.
  \<^item> \<open>Pack_Project\<close>, \<open>Pack_Commands\<close>, \<open>Pack_Lifecycle\<close>, \<open>Pack_Git\<close>: the consumer project as a record
    of its decoded files, the commands as functions from a project to a result and a project,
    their guarantees, and the git client behind the interface the commands use.
  \<^item> \<open>Go_Disk\<close>, \<open>Recipe_Manifest\<close>, \<open>Recipe_Merge\<close>, \<open>Recipe_Apply\<close>: files by path on a disk whose
    operations may fail; recipe manifests, references, substitution and the adoption record; the
    structured and key/value merges; and the applier, a function from a disk to a result and a disk.

  \<^item> \<open>Go_Regexp\<close>, \<open>Go_Int\<close>: regular expressions as terms with a derivative matcher, proved against
    their language; digit loops that wrap at 64 bits.
  \<^item> \<open>Validate_Base\<close>, \<open>Validate_Plan\<close>, \<open>Validate_Spec\<close>, \<open>Validate_Bundle\<close>, \<open>Validate_Issue\<close>,
    \<open>Validate_Supports\<close>: parsed artifacts over decoded YAML values and the validators of
    \<open>pkg/validate\<close>, one theory per kind (\<open>Validate_Spec\<close> also holds contracts, decision records
    and directives, \<open>Validate_Issue\<close> the pointers of closed issues), each violation with its rule
    and message; \<open>Schema_Load\<close>: schemas and the cohort identity; \<open>Artifact_Validate\<close>: the run.
  \<^item> \<open>Checks\<close>, \<open>Config\<close>: sequences of checks that stop at the first failure; the discovery and
    the loading of \<open>backstop.yml\<close>.
  \<^item> \<open>Pack_Engine\<close>, \<open>Pack_Manifest\<close>, \<open>Sarif\<close>, \<open>Pack_Dispatch\<close>: the enumerations, bindings and the
    trust list of engines; coordinates and manifests with every check; errors of processes, SARIF and
    coverage records; and the dispatch of the engines of the installed packs, each a function of a
    world of processes, sandbox and files.
  \<^item> \<open>Gate_Classify\<close>, \<open>Gate_Contract\<close>, \<open>Gate_Polarity\<close>, \<open>Gate_Testverify\<close>, \<open>Gate_Coverage\<close>,
    \<open>Gate_Substantiveness\<close>: source classes and claims of packs, the verdict of contracts, the
    polarity of a dimension, mandated tests and their verdicts, coverage in 64-bit integers, and the
    join of tests with what they exercise.
  \<^item> \<open>Gate_Wiring\<close>, \<open>Gate_Safety\<close>, \<open>Gate_Command\<close>: the steps as the command builds them, what a run
    of them guarantees, and the command from its flags to its exit code.
  \<^item> \<open>Packval_Base\<close>, \<open>Packval_Phases\<close>, \<open>Packval_Fixtures\<close>, \<open>Packval_Pipeline\<close>: the manifest and the
    results of validation; glob patterns, path scopes and the five phases that only read; the
    executor and the fixtures; the pipeline, its report and its commands.

  \<^bold>\<open>What the lemmas show.\<close>  For each component: its functional behaviour on every branch, errors
  included; the invariants its operations keep; refinement of a declarative reading (which tokens
  shield a finding, which findings are grandfathered, which packs are verified); and, across
  components, that a failing step cannot reach exit code 0 unless a policy, waiver or baseline
  rule says so, that the pack commands keep manifest, lock and installed trees in agreement, and
  that applying a recipe stays inside the project and spares the consumer's own files.  For the
  validators: that a clean plan can be executed and keeps its discipline, that a clean spec is
  traced and a closed issue backed, that the closure computed for parallel tasks is the transitive
  closure, and that a passing run has shown every discovered artifact valid.
  For the gate command: that a red mandated test makes it fail whatever the other steps, waivers and
  the baseline do, that packs which cannot be loaded, verified, provisioned or run end it with exit
  code 2, that an engine reporting nothing has run to an accepted end, that every engine of every
  pack is dispatched once, and that the flags it accepts determine the scope.  For pack validation:
  that the check is exact, that a passing test has put every fixture to the test, and that a run
  of an engine means the same in the test and in the gate.
  Interfaces are locales (\<open>waiver_policy\<close>, \<open>tri_state_verdict\<close>, \<open>stable_key\<close>, \<open>git_cloner\<close>), each
  interpreted on the model of the code that provides it.

  \<^bold>\<open>Bounds and termination.\<close>  Loops are structural, or come with a measure (string scanning, glob
  patterns, the calendar search, tree copies), with one exception: the walk up to the configuration
  file is a partial function into an option, proved to return.  No fuel is used.  The
  digit loops that wrap at 64 bits are modelled so (\<open>wrap64\<close> in \<open>Go_Int\<close>); elsewhere integers are unbounded and counts are
  those of lists held in memory.

  \<^bold>\<open>Parameters.\<close>  Git, the file system, the YAML and JSON codecs, the clock, process execution and
  the step closures are arguments of the definitions that use them.  Go's iteration over a map
  has no fixed order; the model iterates in insertion order and the theorems are stated on sets
  or assume nothing of the order.  A write fails or succeeds by its path and leaves the old
  content when it fails; a file that exists and does not decode is \<open>Unreadable\<close>.

  Processes, the sandbox and the lookup of tools are functions on a world.  Third-party code is an
  argument too: the glob matcher of classifications and file modes (doublestar), the compiler of
  the expressions that packs and schema files carry, and the decoders of SARIF, coverage and YAML.

  \<^bold>\<open>Not modelled.\<close>  JSON output; the isolation the sandbox gives a process, which depends on the
  operating system; an input mode of an engine that is no declared one, which the decoder of pack
  validation lets through and the one of the gate refuses; the environment of processes; the
  baseline, waiver, doctor and recipe commands around the functions modelled here; scaffolding and
  initialisation, which generate files from templates; the scripts of the site and of product truth,
  which are documentation tooling.
\<close>

end
